(* ===== verification/Prelude.thy ===== *)
theory Prelude
  imports Main "HOL-Library.Word"
begin

text \<open>
  Material every component shares: results with errors (the exceptions of the Python sources),
  loops that stop at the first error, byte strings with slicing and slice assignment, and the
  little-endian 64-bit integers of every wire format and hash transcript of \<open>bench/\<close>.
  The collection \<open>result_simps\<close> turns a computation that returned into its intermediate
  values; \<open>byte_simps\<close> holds the length and slicing laws.
\<close>

named_theorems result_simps "inversion of computations with errors"
named_theorems byte_simps "lengths and slices of byte strings"

section \<open>Results with errors\<close>

definition bindE :: "'e + 'a \<Rightarrow> ('a \<Rightarrow> 'e + 'b) \<Rightarrow> 'e + 'b" where
  "bindE m f = (case m of Inl e \<Rightarrow> Inl e | Inr x \<Rightarrow> f x)"

lemma bindE_simps [simp]: "bindE (Inl e) f = Inl e" "bindE (Inr x) f = f x"
  by (simp_all add: bindE_def)

lemma bindE_cong [fundef_cong]:
  "m = m' \<Longrightarrow> (\<And>x. m' = Inr x \<Longrightarrow> f x = f' x) \<Longrightarrow> bindE m f = bindE m' f'"
  by (cases m') simp_all

lemma bindE_Inr [result_simps]: "bindE m f = Inr y \<longleftrightarrow> (\<exists>x. m = Inr x \<and> f x = Inr y)"
  by (cases m) simp_all

lemma bindE_Inl [result_simps]:
  "bindE m f = Inl e \<longleftrightarrow> m = Inl e \<or> (\<exists>x. m = Inr x \<and> f x = Inl e)"
  by (cases m) simp_all

lemma if_Inl_Inr [result_simps]:
  "(if c then Inl e else k) = Inr y \<longleftrightarrow> \<not> c \<and> k = Inr y"
  "(if c then k else Inl e) = Inr y \<longleftrightarrow> c \<and> k = Inr y"
  by simp_all

text \<open>A loop that maps a checked operation over a sequence and stops at its first error.\<close>

primrec mapE :: "('a \<Rightarrow> 'e + 'b) \<Rightarrow> 'a list \<Rightarrow> 'e + 'b list" where
  "mapE f [] = Inr []"
| "mapE f (x # xs) = bindE (f x) (\<lambda>y. bindE (mapE f xs) (\<lambda>ys. Inr (y # ys)))"

text \<open>A loop that threads a state through a sequence and stops at its first error.\<close>

primrec foldE :: "('s \<Rightarrow> 'a \<Rightarrow> 'e + 's) \<Rightarrow> 's \<Rightarrow> 'a list \<Rightarrow> 'e + 's" where
  "foldE f s [] = Inr s"
| "foldE f s (x # xs) = bindE (f s x) (\<lambda>s'. foldE f s' xs)"

lemma foldE_append: "foldE f s (xs @ ys) = bindE (foldE f s xs) (\<lambda>s'. foldE f s' ys)"
proof (induction xs arbitrary: s)
  case (Cons x xs)
  then show ?case by (cases "f s x") simp_all
qed simp

lemma foldE_invariant:
  assumes "foldE f s xs = Inr s'" "P s"
    and "\<And>s x s'. x \<in> set xs \<Longrightarrow> P s \<Longrightarrow> f s x = Inr s' \<Longrightarrow> P s'"
  shows "P s'"
  using assms
proof (induction xs arbitrary: s)
  case (Cons x xs)
  from Cons.prems(1) obtain t where t: "f s x = Inr t" "foldE f t xs = Inr s'"
    by (auto simp: result_simps)
  have "P t" by (rule Cons.prems(3) [OF _ Cons.prems(2) t(1)]) simp
  from Cons.IH [OF t(2) this] show ?case using Cons.prems(3) by (meson list.set_intros(2))
qed simp

lemma mapE_total: "(\<And>x. x \<in> set xs \<Longrightarrow> f x = Inr (g x)) \<Longrightarrow> mapE f xs = Inr (map g xs)"
  by (induction xs) simp_all

lemma mapE_guard:
  assumes "\<And>x y. f x = Inr y \<longleftrightarrow> P x \<and> y = g x"
  shows "mapE f xs = Inr ys \<longleftrightarrow> (\<forall>x \<in> set xs. P x) \<and> ys = map g xs"
proof (induction xs arbitrary: ys)
  case (Cons x xs)
  show ?case by (simp add: bindE_Inr assms Cons.IH) blast
qed auto

lemma mapE_length: "mapE f xs = Inr ys \<Longrightarrow> length ys = length xs"
  by (induction xs arbitrary: ys) (auto simp: result_simps)

text \<open>
  What a computation promises: if it fails, the error is one of \<open>E\<close>; if it returns, the value
  satisfies \<open>P\<close>.
\<close>

definition postE :: "'e set \<Rightarrow> ('a \<Rightarrow> bool) \<Rightarrow> 'e + 'a \<Rightarrow> bool" where
  "postE E P m = (case m of Inl e \<Rightarrow> e \<in> E | Inr x \<Rightarrow> P x)"

lemma postE_simps [simp]: "postE E P (Inl e) \<longleftrightarrow> e \<in> E" "postE E P (Inr x) \<longleftrightarrow> P x"
  by (simp_all add: postE_def)

lemma postE_Inr: "postE E P m \<Longrightarrow> m = Inr x \<Longrightarrow> P x"
  and postE_Inl: "postE E P m \<Longrightarrow> m = Inl e \<Longrightarrow> e \<in> E"
  by simp_all

lemma postE_bind:
  "postE E Q m \<Longrightarrow> (\<And>x. m = Inr x \<Longrightarrow> Q x \<Longrightarrow> postE E P (f x)) \<Longrightarrow> postE E P (bindE m f)"
  by (cases m) simp_all

lemma postE_weaken: "postE E Q m \<Longrightarrow> (\<And>x. m = Inr x \<Longrightarrow> Q x \<Longrightarrow> P x) \<Longrightarrow> postE E P m"
  by (cases m) simp_all

lemma postE_foldE:
  assumes "\<And>k s. k < length xs \<Longrightarrow> P k s \<Longrightarrow> postE E (P (Suc k)) (f s (xs ! k))" and "P 0 s"
  shows "postE E (P (length xs)) (foldE f s xs)"
  using assms
proof (induction xs arbitrary: s P)
  case (Cons x xs)
  have x: "postE E (P 1) (f s x)" using Cons.prems(1) [of 0 s] Cons.prems(2) by simp
  have "postE E (P (Suc (length xs))) (foldE f t xs)" if t: "P 1 t" for t
  proof (rule Cons.IH [of "\<lambda>k. P (Suc k)"])
    fix k u assume "k < length xs" "P (Suc k) u"
    then show "postE E (P (Suc (Suc k))) (f u (xs ! k))" using Cons.prems(1) [of "Suc k" u] by simp
  qed (use t in simp)
  then show ?case by (auto intro: postE_bind [OF x])
qed simp

section \<open>Counting the elements of a list\<close>

definition tally :: "('a \<Rightarrow> bool) \<Rightarrow> 'a list \<Rightarrow> int" where
  "tally P xs = int (length (filter P xs))"

lemma tally_simps [simp]:
  "tally P [] = 0"
  "tally P (x # xs) = (if P x then 1 else 0) + tally P xs"
  "tally P (xs @ ys) = tally P xs + tally P ys"
  by (simp_all add: tally_def)

lemma tally_bounds: "0 \<le> tally P xs" "tally P xs \<le> int (length xs)"
  by (simp_all add: tally_def)

lemma tally_update:
  "i < length xs \<Longrightarrow> tally P (xs[i := y]) =
     tally P xs - (if P (xs ! i) then 1 else 0) + (if P y then 1 else 0)"
proof (induction xs arbitrary: i)
  case (Cons x xs)
  then show ?case by (cases i) simp_all
qed simp

lemma tally_zero_iff: "tally P xs = 0 \<longleftrightarrow> (\<forall>x \<in> set xs. \<not> P x)"
  by (simp add: tally_def filter_empty_conv)

lemma tally_complement: "tally (\<lambda>x. \<not> P x) xs = int (length xs) - tally P xs"
  by (induction xs) simp_all

section \<open>Byte strings\<close>

type_synonym byte = "8 word"
type_synonym bytes = "byte list"

text \<open>An ASCII byte literal \<open>b"..."\<close>, \<open>encoded[off:off + n]\<close> and \<open>encoded[off:off + n] = part\<close>.\<close>

definition ascii :: "string \<Rightarrow> bytes" where
  "ascii s = map of_char s"

definition slice :: "nat \<Rightarrow> nat \<Rightarrow> bytes \<Rightarrow> bytes" where
  "slice off n bs = take n (drop off bs)"

definition splice :: "nat \<Rightarrow> nat \<Rightarrow> bytes \<Rightarrow> bytes \<Rightarrow> bytes" where
  "splice off n part bs = take off bs @ part @ drop (off + n) bs"

text \<open>A run of 32-byte fields assigned from \<open>off\<close> on, \<open>offset += 32\<close> after each.\<close>

fun splice32 :: "nat \<Rightarrow> bytes list \<Rightarrow> bytes \<Rightarrow> bytes" where
  "splice32 off [] bs = bs"
| "splice32 off (p # ps) bs = splice32 (off + 32) ps (splice off 32 p bs)"

definition zeros :: "nat \<Rightarrow> bytes" where
  "zeros n = replicate n 0"

abbreviation ZERO_DIGEST :: bytes where
  "ZERO_DIGEST \<equiv> zeros 32"

lemma length_slice [byte_simps]: "length (slice off n bs) = min n (length bs - off)"
  by (simp add: slice_def)

lemma length_zeros [simp]: "length (zeros n) = n"
  by (simp add: zeros_def)

lemma take_zeros [simp]: "take m (zeros n) = zeros (min m n)"
  and drop_zeros [simp]: "drop m (zeros n) = zeros (n - m)"
  by (simp_all add: zeros_def)

lemma zeros_0 [simp]: "zeros 0 = []"
  by (simp add: zeros_def)

lemma slice_append:
  "slice off n (xs @ ys) =
     (if off + n \<le> length xs then slice off n xs
      else if length xs \<le> off then slice (off - length xs) n ys
      else slice off (length xs - off) xs @ slice 0 (n - (length xs - off)) ys)"
  by (auto simp: slice_def)

text \<open>
  Writing into the zeroed tail of a buffer whose front is already laid out: the buffer
  stays a concatenation of parts. This turns every encoder into its wire layout.
\<close>

lemma splice_zeros:
  assumes "length pre \<le> off" "length part = n" "off + n \<le> length pre + k"
  shows "splice off n part (pre @ zeros k) =
    pre @ zeros (off - length pre) @ part @ zeros (length pre + k - (off + n))"
  using assms by (simp add: splice_def add.commute)

lemma splice32_zeros:
  assumes "length pre \<le> off" "\<forall>p \<in> set ps. length p = 32" "off + 32 * length ps \<le> length pre + k"
    "ps \<noteq> []"
  shows "splice32 off ps (pre @ zeros k) =
    pre @ zeros (off - length pre) @ concat ps @ zeros (length pre + k - (off + 32 * length ps))"
  using assms
proof (induction ps arbitrary: off pre k)
  case Nil
  then show ?case by simp
next
  case (Cons p ps)
  let ?pre = "pre @ zeros (off - length pre) @ p"
  have s: "splice off 32 p (pre @ zeros k) = ?pre @ zeros (length pre + k - (off + 32))"
    using Cons.prems splice_zeros [of pre off p 32 k] by simp
  show ?case
  proof (cases "ps = []")
    case True
    then show ?thesis using Cons.prems s by simp
  next
    case False
    have l: "length ?pre = off + 32" using Cons.prems by simp
    from Cons.IH [of ?pre "off + 32" "length pre + k - (off + 32)"] False Cons.prems l
    show ?thesis by (simp add: s add.assoc)
  qed
qed

section \<open>Unsigned integers on the wire\<close>

abbreviation U64_MAX :: int where
  "U64_MAX \<equiv> 18446744073709551615"

definition is_u64 :: "int \<Rightarrow> bool" where
  "is_u64 v \<longleftrightarrow> 0 \<le> v \<and> v \<le> U64_MAX"

primrec le_bytes :: "nat \<Rightarrow> int \<Rightarrow> bytes" where
  "le_bytes 0 v = []"
| "le_bytes (Suc n) v = word_of_int (v mod 256) # le_bytes n (v div 256)"

primrec le_int :: "bytes \<Rightarrow> int" where
  "le_int [] = 0"
| "le_int (b # bs) = uint b + 256 * le_int bs"

text \<open>\<open>struct.pack("<Q", v)\<close> and \<open>struct.unpack_from("<Q", encoded, offset)[0]\<close>.\<close>

definition u64_bytes :: "int \<Rightarrow> bytes" where
  "u64_bytes v = le_bytes 8 v"

definition read_u64 :: "bytes \<Rightarrow> nat \<Rightarrow> int" where
  "read_u64 bs off = le_int (slice off 8 bs)"

lemma length_le_bytes [simp]: "length (le_bytes n v) = n"
  by (induction n arbitrary: v) simp_all

lemma length_u64_bytes [simp]: "length (u64_bytes v) = 8"
  by (simp add: u64_bytes_def)

lemma le_bytes_numeral:
  "le_bytes (numeral k) v = word_of_int (v mod 256) # le_bytes (pred_numeral k) (v div 256)"
  by (simp add: numeral_eq_Suc)

lemma le_int_bounds: "0 \<le> le_int bs" "le_int bs < 256 ^ length bs"
proof (induction bs)
  case (Cons b bs)
  have b: "uint b < 256" using uint_lt2p [of b] by simp
  { case 1 show ?case using Cons.IH(1) by simp }
  { case 2
    have "uint b + 256 * le_int bs < 256 + 256 * le_int bs" using b by simp
    also have "\<dots> \<le> 256 * 256 ^ length bs" using Cons.IH(2) by simp
    finally show ?case by simp }
qed simp_all

lemma le_int_le_bytes: "le_int (le_bytes n v) = v mod 256 ^ n"
proof (induction n arbitrary: v)
  case (Suc n)
  have "uint (word_of_int (v mod 256) :: byte) = v mod 256" by (simp add: uint_word_of_int)
  then show ?case using Suc.IH [of "v div 256"]
    by (simp add: zmod_zmult2_eq)
qed simp

lemma le_bytes_le_int: "le_bytes (length bs) (le_int bs) = bs"
proof (induction bs)
  case (Cons b bs)
  have b: "uint b < 256" using uint_lt2p [of b] by simp
  have "(uint b + 256 * le_int bs) div 256 = le_int bs" using b by simp
  moreover have "(uint b + 256 * le_int bs) mod 256 = uint b" using b by simp
  ultimately show ?case using Cons.IH by simp
qed simp

lemma le_int_u64_bytes [simp]: "is_u64 v \<Longrightarrow> le_int (u64_bytes v) = v"
  by (simp add: u64_bytes_def le_int_le_bytes is_u64_def)

lemma u64_bytes_le_int [simp]: "length bs = 8 \<Longrightarrow> u64_bytes (le_int bs) = bs"
  using le_bytes_le_int [of bs] by (simp add: u64_bytes_def)

lemma le_int_is_u64 [simp]: "length bs = 8 \<Longrightarrow> is_u64 (le_int bs)"
  using le_int_bounds [of bs] by (simp add: is_u64_def)

lemma read_u64_is_u64 [simp]: "off + 8 \<le> length bs \<Longrightarrow> is_u64 (read_u64 bs off)"
  by (simp add: read_u64_def byte_simps)

lemma u64_bytes_inject: "is_u64 v \<Longrightarrow> is_u64 w \<Longrightarrow> u64_bytes v = u64_bytes w \<longleftrightarrow> v = w"
  by (metis le_int_u64_bytes)

text \<open>A packed run of integers, \<open>struct.pack_into("<nQ", ...)\<close>, and reading it back.\<close>

definition pack_u64s :: "int list \<Rightarrow> bytes" where
  "pack_u64s vs = concat (map u64_bytes vs)"

definition unpack_u64s :: "nat \<Rightarrow> bytes \<Rightarrow> nat \<Rightarrow> int list" where
  "unpack_u64s n bs off = map (\<lambda>i. read_u64 bs (off + 8 * i)) [0..<n]"

lemma length_pack_u64s [simp]: "length (pack_u64s vs) = 8 * length vs"
  by (induction vs) (simp_all add: pack_u64s_def)

lemma length_unpack_u64s [simp]: "length (unpack_u64s n bs off) = n"
  by (simp add: unpack_u64s_def)

lemma pack_u64s_Cons: "pack_u64s (v # vs) = u64_bytes v @ pack_u64s vs"
  by (simp add: pack_u64s_def)

lemma slice_pack_u64s:
  "i < length vs \<Longrightarrow> slice (8 * i) 8 (pack_u64s vs @ rest) = u64_bytes (vs ! i)"
proof (induction vs arbitrary: i)
  case (Cons v vs)
  show ?case
  proof (cases i)
    case 0
    then show ?thesis by (simp add: pack_u64s_Cons slice_def)
  next
    case (Suc j)
    have "drop (8 * i) (u64_bytes v @ pack_u64s vs @ rest) = drop (8 * j) (pack_u64s vs @ rest)"
      by (simp add: Suc)
    with Cons.IH [of j] Cons.prems Suc show ?thesis by (simp add: pack_u64s_Cons slice_def)
  qed
qed simp

lemma unpack_pack_u64s:
  assumes "\<forall>v \<in> set vs. is_u64 v"
  shows "unpack_u64s (length vs) (pre @ pack_u64s vs @ rest) (length pre) = vs"
proof (rule nth_equalityI)
  fix i assume "i < length (unpack_u64s (length vs) (pre @ pack_u64s vs @ rest) (length pre))"
  then have i: "i < length vs" by simp
  have "slice (length pre + 8 * i) 8 (pre @ pack_u64s vs @ rest) = slice (8 * i) 8 (pack_u64s vs @ rest)"
    by (simp add: slice_def)
  with i slice_pack_u64s [OF i, of rest] assms
  show "unpack_u64s (length vs) (pre @ pack_u64s vs @ rest) (length pre) ! i = vs ! i"
    by (simp add: unpack_u64s_def read_u64_def)
qed simp

lemma pack_unpack_u64s:
  "off + 8 * n \<le> length bs \<Longrightarrow> pack_u64s (unpack_u64s n bs off) = slice off (8 * n) bs"
proof (induction n)
  case 0
  then show ?case by (simp add: unpack_u64s_def pack_u64s_def slice_def)
next
  case (Suc n)
  have e: "8 * Suc n = 8 * n + 8" by simp
  have "slice off (8 * Suc n) bs = slice off (8 * n) bs @ slice (off + 8 * n) 8 bs"
    unfolding slice_def e by (subst take_add) (simp add: add.commute)
  moreover have "u64_bytes (read_u64 bs (off + 8 * n)) = slice (off + 8 * n) 8 bs"
    using Suc.prems by (simp add: read_u64_def byte_simps)
  ultimately show ?case using Suc by (simp add: unpack_u64s_def pack_u64s_def)
qed

lemma unpack_u64s_ok: "off + 8 * n \<le> length bs \<Longrightarrow> v \<in> set (unpack_u64s n bs off) \<Longrightarrow> is_u64 v"
  by (auto simp: unpack_u64s_def)

text \<open>A run of 32-byte fields read from \<open>off\<close> on.\<close>

definition fields32 :: "nat \<Rightarrow> bytes \<Rightarrow> nat \<Rightarrow> bytes list" where
  "fields32 n bs off = map (\<lambda>i. slice (off + 32 * i) 32 bs) [0..<n]"

lemma length_fields32 [simp]: "length (fields32 n bs off) = n"
  by (simp add: fields32_def)

lemma fields32_ok: "off + 32 * n \<le> length bs \<Longrightarrow> d \<in> set (fields32 n bs off) \<Longrightarrow> length d = 32"
  by (auto simp: fields32_def byte_simps)

lemma concat_fields32:
  "off + 32 * n \<le> length bs \<Longrightarrow> concat (fields32 n bs off) = slice off (32 * n) bs"
proof (induction n)
  case 0
  then show ?case by (simp add: fields32_def slice_def)
next
  case (Suc n)
  have e: "32 * Suc n = 32 * n + 32" by simp
  have "slice off (32 * Suc n) bs = slice off (32 * n) bs @ slice (off + 32 * n) 32 bs"
    unfolding slice_def e by (subst take_add) (simp add: add.commute)
  with Suc show ?case by (simp add: fields32_def)
qed

lemma fields32_concat:
  assumes "\<forall>d \<in> set ds. length d = 32"
  shows "fields32 (length ds) (pre @ concat ds @ rest) (length pre) = ds"
proof (rule nth_equalityI)
  have s: "slice (32 * i) 32 (concat ds @ rest) = ds ! i"
    if "i < length ds" "\<forall>d \<in> set ds. length d = 32" for i ds
    using that
  proof (induction ds arbitrary: i)
    case (Cons d ds)
    show ?case
    proof (cases i)
      case (Suc j)
      have "drop (32 * i) (d @ concat ds @ rest) = drop (32 * j) (concat ds @ rest)"
        using Cons.prems by (simp add: Suc)
      with Cons.IH [of j] Cons.prems Suc show ?thesis by (simp add: slice_def)
    qed (use Cons.prems in \<open>simp add: slice_def\<close>)
  qed simp
  fix i assume "i < length (fields32 (length ds) (pre @ concat ds @ rest) (length pre))"
  then have i: "i < length ds" by simp
  have "slice (length pre + 32 * i) 32 (pre @ concat ds @ rest) = slice (32 * i) 32 (concat ds @ rest)"
    by (simp add: slice_def)
  with s [OF i assms] i show "fields32 (length ds) (pre @ concat ds @ rest) (length pre) ! i = ds ! i"
    by (simp add: fields32_def)
qed simp

end
