(* ===== verification/Sha256.thy ===== *)
theory Sha256
  imports Prelude
begin

unbundle bit_operations_syntax

text \<open>
  SHA-256 (FIPS 180-4), the function behind \<open>hashlib.sha256\<close>, on byte strings. Every Python
  module of \<open>bench/\<close> modelled here feeds a domain string and a sequence of parts to it:
  \<open>sha_parts domain parts\<close> is that transcript, the \<open>_sha\<close> and \<open>_hash\<close> helpers of the
  modules. The clients use one law of it, that a digest has 32 bytes, stated as the locale
  \<open>digest_function\<close>.
\<close>

type_synonym u32 = "32 word"

definition sha_ch :: "u32 \<Rightarrow> u32 \<Rightarrow> u32 \<Rightarrow> u32" where
  "sha_ch x y z = (x AND y) XOR (NOT x AND z)"

definition sha_maj :: "u32 \<Rightarrow> u32 \<Rightarrow> u32 \<Rightarrow> u32" where
  "sha_maj x y z = (x AND y) XOR (x AND z) XOR (y AND z)"

definition rotr32 :: "nat \<Rightarrow> u32 \<Rightarrow> u32" where
  "rotr32 n x = drop_bit n x OR push_bit (32 - n) x"

definition big_sigma0 :: "u32 \<Rightarrow> u32" where
  "big_sigma0 x = rotr32 2 x XOR rotr32 13 x XOR rotr32 22 x"

definition big_sigma1 :: "u32 \<Rightarrow> u32" where
  "big_sigma1 x = rotr32 6 x XOR rotr32 11 x XOR rotr32 25 x"

definition small_sigma0 :: "u32 \<Rightarrow> u32" where
  "small_sigma0 x = rotr32 7 x XOR rotr32 18 x XOR drop_bit 3 x"

definition small_sigma1 :: "u32 \<Rightarrow> u32" where
  "small_sigma1 x = rotr32 17 x XOR rotr32 19 x XOR drop_bit 10 x"

text \<open>The round constants and the initial state, in decimal.\<close>

definition sha_k :: "u32 list" where
  "sha_k =
    [1116352408, 1899447441, 3049323471, 3921009573, 961987163, 1508970993, 2453635748,
     2870763221, 3624381080, 310598401, 607225278, 1426881987, 1925078388, 2162078206,
     2614888103, 3248222580, 3835390401, 4022224774, 264347078, 604807628, 770255983,
     1249150122, 1555081692, 1996064986, 2554220882, 2821834349, 2952996808, 3210313671,
     3336571891, 3584528711, 113926993, 338241895, 666307205, 773529912, 1294757372, 1396182291,
     1695183700, 1986661051, 2177026350, 2456956037, 2730485921, 2820302411, 3259730800,
     3345764771, 3516065817, 3600352804, 4094571909, 275423344, 430227734, 506948616, 659060556,
     883997877, 958139571, 1322822218, 1537002063, 1747873779, 1955562222, 2024104815,
     2227730452, 2361852424, 2428436474, 2756734187, 3204031479, 3329325298]"

type_synonym sha_state = "u32 \<times> u32 \<times> u32 \<times> u32 \<times> u32 \<times> u32 \<times> u32 \<times> u32"

definition sha_h0 :: sha_state where
  "sha_h0 =
    (1779033703, 3144134277, 1013904242, 2773480762, 1359893119, 2600822924, 528734635, 1541459225)"

text \<open>
  The compression rounds. The message schedule is kept as a sliding window of its last sixteen
  words: its head is the word of the current round, and each round appends the next one.
\<close>

fun sha_rounds :: "u32 list \<Rightarrow> u32 list \<Rightarrow> sha_state \<Rightarrow> sha_state" where
  "sha_rounds (k # ks) (w # ws) (a, b, c, d, e, f, g, h) =
     (let t1 = h + big_sigma1 e + sha_ch e f g + k + w;
          t2 = big_sigma0 a + sha_maj a b c;
          w' = small_sigma1 (ws ! 13) + ws ! 8 + small_sigma0 (ws ! 0) + w
      in sha_rounds ks (ws @ [w']) (t1 + t2, a, b, c, d + t1, e, f, g))"
| "sha_rounds _ _ s = s"

fun be_words :: "bytes \<Rightarrow> u32 list" where
  "be_words (a # b # c # d # bs) =
     word_of_int (((uint a * 256 + uint b) * 256 + uint c) * 256 + uint d) # be_words bs"
| "be_words _ = []"

definition word_bytes :: "u32 \<Rightarrow> bytes" where
  "word_bytes w = map (\<lambda>n. word_of_int (uint w div 256 ^ n)) [3, 2, 1, 0]"

fun sha_block :: "bytes \<Rightarrow> sha_state \<Rightarrow> sha_state" where
  "sha_block bs (a, b, c, d, e, f, g, h) =
     (case sha_rounds sha_k (be_words bs) (a, b, c, d, e, f, g, h) of
        (a', b', c', d', e', f', g', h') \<Rightarrow>
          (a + a', b + b', c + c', d + d', e + e', f + f', g + g', h + h'))"

fun sha_blocks :: "nat \<Rightarrow> bytes \<Rightarrow> sha_state \<Rightarrow> sha_state" where
  "sha_blocks 0 bs s = s"
| "sha_blocks (Suc n) bs s = sha_blocks n (drop 64 bs) (sha_block (take 64 bs) s)"

definition be_len :: "nat \<Rightarrow> bytes" where
  "be_len n = map (\<lambda>i. word_of_int (int n div 256 ^ i mod 256)) [7, 6, 5, 4, 3, 2, 1, 0]"

definition sha_pad :: "bytes \<Rightarrow> bytes" where
  "sha_pad bs = bs @ [0x80] @ replicate ((119 - length bs mod 64) mod 64) 0 @ be_len (8 * length bs)"

definition sha256 :: "bytes \<Rightarrow> bytes" where
  "sha256 msg =
     (let p = sha_pad msg in
      case sha_blocks (length p div 64) p sha_h0 of
        (a, b, c, d, e, f, g, h) \<Rightarrow> concat (map word_bytes [a, b, c, d, e, f, g, h]))"

lemma length_word_bytes [simp]: "length (word_bytes w) = 4"
  by (simp add: word_bytes_def)

section \<open>The digest contract\<close>

text \<open>
  What the wire formats need of a hash: digests of a fixed width. A transcript is the domain
  string followed by the parts, hashed in one go.
\<close>

locale digest_function =
  fixes hash :: "bytes \<Rightarrow> bytes"
  assumes hash_length: "length (hash m) = 32"
begin

lemma digest_field:
  assumes "length pre = off"
  shows "slice off 32 (pre @ hash m @ rest) = hash m"
  using assms by (simp add: slice_def hash_length)

lemma hash_nonempty: "hash m \<noteq> []"
  using hash_length [of m] by auto

end

lemma length_sha256 [simp]: "length (sha256 m) = 32"
  by (simp add: sha256_def Let_def split: prod.split)

interpretation sha: digest_function sha256
  by unfold_locales simp

definition sha_parts :: "bytes \<Rightarrow> bytes list \<Rightarrow> bytes" where
  "sha_parts domain parts = sha256 (domain @ concat parts)"

lemma length_sha_parts [simp]: "length (sha_parts domain parts) = 32"
  by (simp add: sha_parts_def)

end
