(* ===== verification/Sha256_Eval.thy ===== *)
theory Sha256_Eval
  imports Sha256
begin

unbundle bit_operations_syntax

text \<open>
  A fast evaluator for \<open>sha256\<close> inside the kernel, used by the witnesses that need a concrete
  digest. A 32-bit word is the list of its eight hexadecimal digits, least significant first, so
  that one rewrite step with a table handles four bits; \<open>wv\<close> reads such a list as a word.
  \<open>sha256_eval\<close> proves the evaluator equal to \<open>sha256\<close>, and the collection
  \<open>sha_rules\<close> evaluates it on literal byte strings in a fraction of a second per block.
\<close>

section \<open>Hexadecimal digits and their tables\<close>

datatype nib = N0 | N1 | N2 | N3 | N4 | N5 | N6 | N7 | N8 | N9 | NA | NB | NC | ND | NE | NF

primrec nib_val :: "nib \<Rightarrow> nat" where
  "nib_val N0 = 0" | "nib_val N1 = 1" | "nib_val N2 = 2" | "nib_val N3 = 3"
| "nib_val N4 = 4" | "nib_val N5 = 5" | "nib_val N6 = 6" | "nib_val N7 = 7"
| "nib_val N8 = 8" | "nib_val N9 = 9" | "nib_val NA = 10" | "nib_val NB = 11"
| "nib_val NC = 12" | "nib_val ND = 13" | "nib_val NE = 14" | "nib_val NF = 15"

definition nib_of :: "nat \<Rightarrow> nib" where
  "nib_of n = [N0, N1, N2, N3, N4, N5, N6, N7, N8, N9, NA, NB, NC, ND, NE, NF] ! (n mod 16)"

definition nxor :: "nib \<Rightarrow> nib \<Rightarrow> nib" where
  "nxor a b = nib_of (nib_val a XOR nib_val b)"

definition nand :: "nib \<Rightarrow> nib \<Rightarrow> nib" where
  "nand a b = nib_of (nib_val a AND nib_val b)"

definition nrot1 :: "nib \<Rightarrow> nib \<Rightarrow> nib" where
  "nrot1 a b = nib_of (nib_val a div 2 + 8 * nib_val b)"

definition nrot2 :: "nib \<Rightarrow> nib \<Rightarrow> nib" where
  "nrot2 a b = nib_of (nib_val a div 4 + 4 * nib_val b)"

definition nrot3 :: "nib \<Rightarrow> nib \<Rightarrow> nib" where
  "nrot3 a b = nib_of (nib_val a div 8 + 2 * nib_val b)"

definition nadc :: "nib \<Rightarrow> nib \<Rightarrow> bool \<Rightarrow> nib \<times> bool" where
  "nadc a b c =
     (let s = nib_val a + nib_val b + of_bool c in (nib_of s, 16 \<le> s))"

definition lo_nib :: "8 word \<Rightarrow> nib" where
  "lo_nib b = nib_of (unat b)"

definition hi_nib :: "8 word \<Rightarrow> nib" where
  "hi_nib b = nib_of (unat b div 16)"

definition nib_byte :: "nib \<Rightarrow> nib \<Rightarrow> 8 word" where
  "nib_byte h l = of_nat (16 * nib_val h + nib_val l)"

lemma nxor_table:
  "nxor N0 N0 = N0" "nxor N0 N1 = N1" "nxor N0 N2 = N2" "nxor N0 N3 = N3" "nxor N0 N4 = N4" "nxor N0 N5 = N5"
  "nxor N0 N6 = N6" "nxor N0 N7 = N7" "nxor N0 N8 = N8" "nxor N0 N9 = N9" "nxor N0 NA = NA" "nxor N0 NB = NB"
  "nxor N0 NC = NC" "nxor N0 ND = ND" "nxor N0 NE = NE" "nxor N0 NF = NF" "nxor N1 N0 = N1" "nxor N1 N1 = N0"
  "nxor N1 N2 = N3" "nxor N1 N3 = N2" "nxor N1 N4 = N5" "nxor N1 N5 = N4" "nxor N1 N6 = N7" "nxor N1 N7 = N6"
  "nxor N1 N8 = N9" "nxor N1 N9 = N8" "nxor N1 NA = NB" "nxor N1 NB = NA" "nxor N1 NC = ND" "nxor N1 ND = NC"
  "nxor N1 NE = NF" "nxor N1 NF = NE" "nxor N2 N0 = N2" "nxor N2 N1 = N3" "nxor N2 N2 = N0" "nxor N2 N3 = N1"
  "nxor N2 N4 = N6" "nxor N2 N5 = N7" "nxor N2 N6 = N4" "nxor N2 N7 = N5" "nxor N2 N8 = NA" "nxor N2 N9 = NB"
  "nxor N2 NA = N8" "nxor N2 NB = N9" "nxor N2 NC = NE" "nxor N2 ND = NF" "nxor N2 NE = NC" "nxor N2 NF = ND"
  "nxor N3 N0 = N3" "nxor N3 N1 = N2" "nxor N3 N2 = N1" "nxor N3 N3 = N0" "nxor N3 N4 = N7" "nxor N3 N5 = N6"
  "nxor N3 N6 = N5" "nxor N3 N7 = N4" "nxor N3 N8 = NB" "nxor N3 N9 = NA" "nxor N3 NA = N9" "nxor N3 NB = N8"
  "nxor N3 NC = NF" "nxor N3 ND = NE" "nxor N3 NE = ND" "nxor N3 NF = NC" "nxor N4 N0 = N4" "nxor N4 N1 = N5"
  "nxor N4 N2 = N6" "nxor N4 N3 = N7" "nxor N4 N4 = N0" "nxor N4 N5 = N1" "nxor N4 N6 = N2" "nxor N4 N7 = N3"
  "nxor N4 N8 = NC" "nxor N4 N9 = ND" "nxor N4 NA = NE" "nxor N4 NB = NF" "nxor N4 NC = N8" "nxor N4 ND = N9"
  "nxor N4 NE = NA" "nxor N4 NF = NB" "nxor N5 N0 = N5" "nxor N5 N1 = N4" "nxor N5 N2 = N7" "nxor N5 N3 = N6"
  "nxor N5 N4 = N1" "nxor N5 N5 = N0" "nxor N5 N6 = N3" "nxor N5 N7 = N2" "nxor N5 N8 = ND" "nxor N5 N9 = NC"
  "nxor N5 NA = NF" "nxor N5 NB = NE" "nxor N5 NC = N9" "nxor N5 ND = N8" "nxor N5 NE = NB" "nxor N5 NF = NA"
  "nxor N6 N0 = N6" "nxor N6 N1 = N7" "nxor N6 N2 = N4" "nxor N6 N3 = N5" "nxor N6 N4 = N2" "nxor N6 N5 = N3"
  "nxor N6 N6 = N0" "nxor N6 N7 = N1" "nxor N6 N8 = NE" "nxor N6 N9 = NF" "nxor N6 NA = NC" "nxor N6 NB = ND"
  "nxor N6 NC = NA" "nxor N6 ND = NB" "nxor N6 NE = N8" "nxor N6 NF = N9" "nxor N7 N0 = N7" "nxor N7 N1 = N6"
  "nxor N7 N2 = N5" "nxor N7 N3 = N4" "nxor N7 N4 = N3" "nxor N7 N5 = N2" "nxor N7 N6 = N1" "nxor N7 N7 = N0"
  "nxor N7 N8 = NF" "nxor N7 N9 = NE" "nxor N7 NA = ND" "nxor N7 NB = NC" "nxor N7 NC = NB" "nxor N7 ND = NA"
  "nxor N7 NE = N9" "nxor N7 NF = N8" "nxor N8 N0 = N8" "nxor N8 N1 = N9" "nxor N8 N2 = NA" "nxor N8 N3 = NB"
  "nxor N8 N4 = NC" "nxor N8 N5 = ND" "nxor N8 N6 = NE" "nxor N8 N7 = NF" "nxor N8 N8 = N0" "nxor N8 N9 = N1"
  "nxor N8 NA = N2" "nxor N8 NB = N3" "nxor N8 NC = N4" "nxor N8 ND = N5" "nxor N8 NE = N6" "nxor N8 NF = N7"
  "nxor N9 N0 = N9" "nxor N9 N1 = N8" "nxor N9 N2 = NB" "nxor N9 N3 = NA" "nxor N9 N4 = ND" "nxor N9 N5 = NC"
  "nxor N9 N6 = NF" "nxor N9 N7 = NE" "nxor N9 N8 = N1" "nxor N9 N9 = N0" "nxor N9 NA = N3" "nxor N9 NB = N2"
  "nxor N9 NC = N5" "nxor N9 ND = N4" "nxor N9 NE = N7" "nxor N9 NF = N6" "nxor NA N0 = NA" "nxor NA N1 = NB"
  "nxor NA N2 = N8" "nxor NA N3 = N9" "nxor NA N4 = NE" "nxor NA N5 = NF" "nxor NA N6 = NC" "nxor NA N7 = ND"
  "nxor NA N8 = N2" "nxor NA N9 = N3" "nxor NA NA = N0" "nxor NA NB = N1" "nxor NA NC = N6" "nxor NA ND = N7"
  "nxor NA NE = N4" "nxor NA NF = N5" "nxor NB N0 = NB" "nxor NB N1 = NA" "nxor NB N2 = N9" "nxor NB N3 = N8"
  "nxor NB N4 = NF" "nxor NB N5 = NE" "nxor NB N6 = ND" "nxor NB N7 = NC" "nxor NB N8 = N3" "nxor NB N9 = N2"
  "nxor NB NA = N1" "nxor NB NB = N0" "nxor NB NC = N7" "nxor NB ND = N6" "nxor NB NE = N5" "nxor NB NF = N4"
  "nxor NC N0 = NC" "nxor NC N1 = ND" "nxor NC N2 = NE" "nxor NC N3 = NF" "nxor NC N4 = N8" "nxor NC N5 = N9"
  "nxor NC N6 = NA" "nxor NC N7 = NB" "nxor NC N8 = N4" "nxor NC N9 = N5" "nxor NC NA = N6" "nxor NC NB = N7"
  "nxor NC NC = N0" "nxor NC ND = N1" "nxor NC NE = N2" "nxor NC NF = N3" "nxor ND N0 = ND" "nxor ND N1 = NC"
  "nxor ND N2 = NF" "nxor ND N3 = NE" "nxor ND N4 = N9" "nxor ND N5 = N8" "nxor ND N6 = NB" "nxor ND N7 = NA"
  "nxor ND N8 = N5" "nxor ND N9 = N4" "nxor ND NA = N7" "nxor ND NB = N6" "nxor ND NC = N1" "nxor ND ND = N0"
  "nxor ND NE = N3" "nxor ND NF = N2" "nxor NE N0 = NE" "nxor NE N1 = NF" "nxor NE N2 = NC" "nxor NE N3 = ND"
  "nxor NE N4 = NA" "nxor NE N5 = NB" "nxor NE N6 = N8" "nxor NE N7 = N9" "nxor NE N8 = N6" "nxor NE N9 = N7"
  "nxor NE NA = N4" "nxor NE NB = N5" "nxor NE NC = N2" "nxor NE ND = N3" "nxor NE NE = N0" "nxor NE NF = N1"
  "nxor NF N0 = NF" "nxor NF N1 = NE" "nxor NF N2 = ND" "nxor NF N3 = NC" "nxor NF N4 = NB" "nxor NF N5 = NA"
  "nxor NF N6 = N9" "nxor NF N7 = N8" "nxor NF N8 = N7" "nxor NF N9 = N6" "nxor NF NA = N5" "nxor NF NB = N4"
  "nxor NF NC = N3" "nxor NF ND = N2" "nxor NF NE = N1" "nxor NF NF = N0"
  by (simp_all add: nxor_def nib_of_def)

lemma nand_table:
  "nand N0 N0 = N0" "nand N0 N1 = N0" "nand N0 N2 = N0" "nand N0 N3 = N0" "nand N0 N4 = N0" "nand N0 N5 = N0"
  "nand N0 N6 = N0" "nand N0 N7 = N0" "nand N0 N8 = N0" "nand N0 N9 = N0" "nand N0 NA = N0" "nand N0 NB = N0"
  "nand N0 NC = N0" "nand N0 ND = N0" "nand N0 NE = N0" "nand N0 NF = N0" "nand N1 N0 = N0" "nand N1 N1 = N1"
  "nand N1 N2 = N0" "nand N1 N3 = N1" "nand N1 N4 = N0" "nand N1 N5 = N1" "nand N1 N6 = N0" "nand N1 N7 = N1"
  "nand N1 N8 = N0" "nand N1 N9 = N1" "nand N1 NA = N0" "nand N1 NB = N1" "nand N1 NC = N0" "nand N1 ND = N1"
  "nand N1 NE = N0" "nand N1 NF = N1" "nand N2 N0 = N0" "nand N2 N1 = N0" "nand N2 N2 = N2" "nand N2 N3 = N2"
  "nand N2 N4 = N0" "nand N2 N5 = N0" "nand N2 N6 = N2" "nand N2 N7 = N2" "nand N2 N8 = N0" "nand N2 N9 = N0"
  "nand N2 NA = N2" "nand N2 NB = N2" "nand N2 NC = N0" "nand N2 ND = N0" "nand N2 NE = N2" "nand N2 NF = N2"
  "nand N3 N0 = N0" "nand N3 N1 = N1" "nand N3 N2 = N2" "nand N3 N3 = N3" "nand N3 N4 = N0" "nand N3 N5 = N1"
  "nand N3 N6 = N2" "nand N3 N7 = N3" "nand N3 N8 = N0" "nand N3 N9 = N1" "nand N3 NA = N2" "nand N3 NB = N3"
  "nand N3 NC = N0" "nand N3 ND = N1" "nand N3 NE = N2" "nand N3 NF = N3" "nand N4 N0 = N0" "nand N4 N1 = N0"
  "nand N4 N2 = N0" "nand N4 N3 = N0" "nand N4 N4 = N4" "nand N4 N5 = N4" "nand N4 N6 = N4" "nand N4 N7 = N4"
  "nand N4 N8 = N0" "nand N4 N9 = N0" "nand N4 NA = N0" "nand N4 NB = N0" "nand N4 NC = N4" "nand N4 ND = N4"
  "nand N4 NE = N4" "nand N4 NF = N4" "nand N5 N0 = N0" "nand N5 N1 = N1" "nand N5 N2 = N0" "nand N5 N3 = N1"
  "nand N5 N4 = N4" "nand N5 N5 = N5" "nand N5 N6 = N4" "nand N5 N7 = N5" "nand N5 N8 = N0" "nand N5 N9 = N1"
  "nand N5 NA = N0" "nand N5 NB = N1" "nand N5 NC = N4" "nand N5 ND = N5" "nand N5 NE = N4" "nand N5 NF = N5"
  "nand N6 N0 = N0" "nand N6 N1 = N0" "nand N6 N2 = N2" "nand N6 N3 = N2" "nand N6 N4 = N4" "nand N6 N5 = N4"
  "nand N6 N6 = N6" "nand N6 N7 = N6" "nand N6 N8 = N0" "nand N6 N9 = N0" "nand N6 NA = N2" "nand N6 NB = N2"
  "nand N6 NC = N4" "nand N6 ND = N4" "nand N6 NE = N6" "nand N6 NF = N6" "nand N7 N0 = N0" "nand N7 N1 = N1"
  "nand N7 N2 = N2" "nand N7 N3 = N3" "nand N7 N4 = N4" "nand N7 N5 = N5" "nand N7 N6 = N6" "nand N7 N7 = N7"
  "nand N7 N8 = N0" "nand N7 N9 = N1" "nand N7 NA = N2" "nand N7 NB = N3" "nand N7 NC = N4" "nand N7 ND = N5"
  "nand N7 NE = N6" "nand N7 NF = N7" "nand N8 N0 = N0" "nand N8 N1 = N0" "nand N8 N2 = N0" "nand N8 N3 = N0"
  "nand N8 N4 = N0" "nand N8 N5 = N0" "nand N8 N6 = N0" "nand N8 N7 = N0" "nand N8 N8 = N8" "nand N8 N9 = N8"
  "nand N8 NA = N8" "nand N8 NB = N8" "nand N8 NC = N8" "nand N8 ND = N8" "nand N8 NE = N8" "nand N8 NF = N8"
  "nand N9 N0 = N0" "nand N9 N1 = N1" "nand N9 N2 = N0" "nand N9 N3 = N1" "nand N9 N4 = N0" "nand N9 N5 = N1"
  "nand N9 N6 = N0" "nand N9 N7 = N1" "nand N9 N8 = N8" "nand N9 N9 = N9" "nand N9 NA = N8" "nand N9 NB = N9"
  "nand N9 NC = N8" "nand N9 ND = N9" "nand N9 NE = N8" "nand N9 NF = N9" "nand NA N0 = N0" "nand NA N1 = N0"
  "nand NA N2 = N2" "nand NA N3 = N2" "nand NA N4 = N0" "nand NA N5 = N0" "nand NA N6 = N2" "nand NA N7 = N2"
  "nand NA N8 = N8" "nand NA N9 = N8" "nand NA NA = NA" "nand NA NB = NA" "nand NA NC = N8" "nand NA ND = N8"
  "nand NA NE = NA" "nand NA NF = NA" "nand NB N0 = N0" "nand NB N1 = N1" "nand NB N2 = N2" "nand NB N3 = N3"
  "nand NB N4 = N0" "nand NB N5 = N1" "nand NB N6 = N2" "nand NB N7 = N3" "nand NB N8 = N8" "nand NB N9 = N9"
  "nand NB NA = NA" "nand NB NB = NB" "nand NB NC = N8" "nand NB ND = N9" "nand NB NE = NA" "nand NB NF = NB"
  "nand NC N0 = N0" "nand NC N1 = N0" "nand NC N2 = N0" "nand NC N3 = N0" "nand NC N4 = N4" "nand NC N5 = N4"
  "nand NC N6 = N4" "nand NC N7 = N4" "nand NC N8 = N8" "nand NC N9 = N8" "nand NC NA = N8" "nand NC NB = N8"
  "nand NC NC = NC" "nand NC ND = NC" "nand NC NE = NC" "nand NC NF = NC" "nand ND N0 = N0" "nand ND N1 = N1"
  "nand ND N2 = N0" "nand ND N3 = N1" "nand ND N4 = N4" "nand ND N5 = N5" "nand ND N6 = N4" "nand ND N7 = N5"
  "nand ND N8 = N8" "nand ND N9 = N9" "nand ND NA = N8" "nand ND NB = N9" "nand ND NC = NC" "nand ND ND = ND"
  "nand ND NE = NC" "nand ND NF = ND" "nand NE N0 = N0" "nand NE N1 = N0" "nand NE N2 = N2" "nand NE N3 = N2"
  "nand NE N4 = N4" "nand NE N5 = N4" "nand NE N6 = N6" "nand NE N7 = N6" "nand NE N8 = N8" "nand NE N9 = N8"
  "nand NE NA = NA" "nand NE NB = NA" "nand NE NC = NC" "nand NE ND = NC" "nand NE NE = NE" "nand NE NF = NE"
  "nand NF N0 = N0" "nand NF N1 = N1" "nand NF N2 = N2" "nand NF N3 = N3" "nand NF N4 = N4" "nand NF N5 = N5"
  "nand NF N6 = N6" "nand NF N7 = N7" "nand NF N8 = N8" "nand NF N9 = N9" "nand NF NA = NA" "nand NF NB = NB"
  "nand NF NC = NC" "nand NF ND = ND" "nand NF NE = NE" "nand NF NF = NF"
  by (simp_all add: nand_def nib_of_def)

lemma nrot1_table:
  "nrot1 N0 N0 = N0" "nrot1 N0 N1 = N8" "nrot1 N0 N2 = N0" "nrot1 N0 N3 = N8" "nrot1 N0 N4 = N0"
  "nrot1 N0 N5 = N8" "nrot1 N0 N6 = N0" "nrot1 N0 N7 = N8" "nrot1 N0 N8 = N0" "nrot1 N0 N9 = N8"
  "nrot1 N0 NA = N0" "nrot1 N0 NB = N8" "nrot1 N0 NC = N0" "nrot1 N0 ND = N8" "nrot1 N0 NE = N0"
  "nrot1 N0 NF = N8" "nrot1 N1 N0 = N0" "nrot1 N1 N1 = N8" "nrot1 N1 N2 = N0" "nrot1 N1 N3 = N8"
  "nrot1 N1 N4 = N0" "nrot1 N1 N5 = N8" "nrot1 N1 N6 = N0" "nrot1 N1 N7 = N8" "nrot1 N1 N8 = N0"
  "nrot1 N1 N9 = N8" "nrot1 N1 NA = N0" "nrot1 N1 NB = N8" "nrot1 N1 NC = N0" "nrot1 N1 ND = N8"
  "nrot1 N1 NE = N0" "nrot1 N1 NF = N8" "nrot1 N2 N0 = N1" "nrot1 N2 N1 = N9" "nrot1 N2 N2 = N1"
  "nrot1 N2 N3 = N9" "nrot1 N2 N4 = N1" "nrot1 N2 N5 = N9" "nrot1 N2 N6 = N1" "nrot1 N2 N7 = N9"
  "nrot1 N2 N8 = N1" "nrot1 N2 N9 = N9" "nrot1 N2 NA = N1" "nrot1 N2 NB = N9" "nrot1 N2 NC = N1"
  "nrot1 N2 ND = N9" "nrot1 N2 NE = N1" "nrot1 N2 NF = N9" "nrot1 N3 N0 = N1" "nrot1 N3 N1 = N9"
  "nrot1 N3 N2 = N1" "nrot1 N3 N3 = N9" "nrot1 N3 N4 = N1" "nrot1 N3 N5 = N9" "nrot1 N3 N6 = N1"
  "nrot1 N3 N7 = N9" "nrot1 N3 N8 = N1" "nrot1 N3 N9 = N9" "nrot1 N3 NA = N1" "nrot1 N3 NB = N9"
  "nrot1 N3 NC = N1" "nrot1 N3 ND = N9" "nrot1 N3 NE = N1" "nrot1 N3 NF = N9" "nrot1 N4 N0 = N2"
  "nrot1 N4 N1 = NA" "nrot1 N4 N2 = N2" "nrot1 N4 N3 = NA" "nrot1 N4 N4 = N2" "nrot1 N4 N5 = NA"
  "nrot1 N4 N6 = N2" "nrot1 N4 N7 = NA" "nrot1 N4 N8 = N2" "nrot1 N4 N9 = NA" "nrot1 N4 NA = N2"
  "nrot1 N4 NB = NA" "nrot1 N4 NC = N2" "nrot1 N4 ND = NA" "nrot1 N4 NE = N2" "nrot1 N4 NF = NA"
  "nrot1 N5 N0 = N2" "nrot1 N5 N1 = NA" "nrot1 N5 N2 = N2" "nrot1 N5 N3 = NA" "nrot1 N5 N4 = N2"
  "nrot1 N5 N5 = NA" "nrot1 N5 N6 = N2" "nrot1 N5 N7 = NA" "nrot1 N5 N8 = N2" "nrot1 N5 N9 = NA"
  "nrot1 N5 NA = N2" "nrot1 N5 NB = NA" "nrot1 N5 NC = N2" "nrot1 N5 ND = NA" "nrot1 N5 NE = N2"
  "nrot1 N5 NF = NA" "nrot1 N6 N0 = N3" "nrot1 N6 N1 = NB" "nrot1 N6 N2 = N3" "nrot1 N6 N3 = NB"
  "nrot1 N6 N4 = N3" "nrot1 N6 N5 = NB" "nrot1 N6 N6 = N3" "nrot1 N6 N7 = NB" "nrot1 N6 N8 = N3"
  "nrot1 N6 N9 = NB" "nrot1 N6 NA = N3" "nrot1 N6 NB = NB" "nrot1 N6 NC = N3" "nrot1 N6 ND = NB"
  "nrot1 N6 NE = N3" "nrot1 N6 NF = NB" "nrot1 N7 N0 = N3" "nrot1 N7 N1 = NB" "nrot1 N7 N2 = N3"
  "nrot1 N7 N3 = NB" "nrot1 N7 N4 = N3" "nrot1 N7 N5 = NB" "nrot1 N7 N6 = N3" "nrot1 N7 N7 = NB"
  "nrot1 N7 N8 = N3" "nrot1 N7 N9 = NB" "nrot1 N7 NA = N3" "nrot1 N7 NB = NB" "nrot1 N7 NC = N3"
  "nrot1 N7 ND = NB" "nrot1 N7 NE = N3" "nrot1 N7 NF = NB" "nrot1 N8 N0 = N4" "nrot1 N8 N1 = NC"
  "nrot1 N8 N2 = N4" "nrot1 N8 N3 = NC" "nrot1 N8 N4 = N4" "nrot1 N8 N5 = NC" "nrot1 N8 N6 = N4"
  "nrot1 N8 N7 = NC" "nrot1 N8 N8 = N4" "nrot1 N8 N9 = NC" "nrot1 N8 NA = N4" "nrot1 N8 NB = NC"
  "nrot1 N8 NC = N4" "nrot1 N8 ND = NC" "nrot1 N8 NE = N4" "nrot1 N8 NF = NC" "nrot1 N9 N0 = N4"
  "nrot1 N9 N1 = NC" "nrot1 N9 N2 = N4" "nrot1 N9 N3 = NC" "nrot1 N9 N4 = N4" "nrot1 N9 N5 = NC"
  "nrot1 N9 N6 = N4" "nrot1 N9 N7 = NC" "nrot1 N9 N8 = N4" "nrot1 N9 N9 = NC" "nrot1 N9 NA = N4"
  "nrot1 N9 NB = NC" "nrot1 N9 NC = N4" "nrot1 N9 ND = NC" "nrot1 N9 NE = N4" "nrot1 N9 NF = NC"
  "nrot1 NA N0 = N5" "nrot1 NA N1 = ND" "nrot1 NA N2 = N5" "nrot1 NA N3 = ND" "nrot1 NA N4 = N5"
  "nrot1 NA N5 = ND" "nrot1 NA N6 = N5" "nrot1 NA N7 = ND" "nrot1 NA N8 = N5" "nrot1 NA N9 = ND"
  "nrot1 NA NA = N5" "nrot1 NA NB = ND" "nrot1 NA NC = N5" "nrot1 NA ND = ND" "nrot1 NA NE = N5"
  "nrot1 NA NF = ND" "nrot1 NB N0 = N5" "nrot1 NB N1 = ND" "nrot1 NB N2 = N5" "nrot1 NB N3 = ND"
  "nrot1 NB N4 = N5" "nrot1 NB N5 = ND" "nrot1 NB N6 = N5" "nrot1 NB N7 = ND" "nrot1 NB N8 = N5"
  "nrot1 NB N9 = ND" "nrot1 NB NA = N5" "nrot1 NB NB = ND" "nrot1 NB NC = N5" "nrot1 NB ND = ND"
  "nrot1 NB NE = N5" "nrot1 NB NF = ND" "nrot1 NC N0 = N6" "nrot1 NC N1 = NE" "nrot1 NC N2 = N6"
  "nrot1 NC N3 = NE" "nrot1 NC N4 = N6" "nrot1 NC N5 = NE" "nrot1 NC N6 = N6" "nrot1 NC N7 = NE"
  "nrot1 NC N8 = N6" "nrot1 NC N9 = NE" "nrot1 NC NA = N6" "nrot1 NC NB = NE" "nrot1 NC NC = N6"
  "nrot1 NC ND = NE" "nrot1 NC NE = N6" "nrot1 NC NF = NE" "nrot1 ND N0 = N6" "nrot1 ND N1 = NE"
  "nrot1 ND N2 = N6" "nrot1 ND N3 = NE" "nrot1 ND N4 = N6" "nrot1 ND N5 = NE" "nrot1 ND N6 = N6"
  "nrot1 ND N7 = NE" "nrot1 ND N8 = N6" "nrot1 ND N9 = NE" "nrot1 ND NA = N6" "nrot1 ND NB = NE"
  "nrot1 ND NC = N6" "nrot1 ND ND = NE" "nrot1 ND NE = N6" "nrot1 ND NF = NE" "nrot1 NE N0 = N7"
  "nrot1 NE N1 = NF" "nrot1 NE N2 = N7" "nrot1 NE N3 = NF" "nrot1 NE N4 = N7" "nrot1 NE N5 = NF"
  "nrot1 NE N6 = N7" "nrot1 NE N7 = NF" "nrot1 NE N8 = N7" "nrot1 NE N9 = NF" "nrot1 NE NA = N7"
  "nrot1 NE NB = NF" "nrot1 NE NC = N7" "nrot1 NE ND = NF" "nrot1 NE NE = N7" "nrot1 NE NF = NF"
  "nrot1 NF N0 = N7" "nrot1 NF N1 = NF" "nrot1 NF N2 = N7" "nrot1 NF N3 = NF" "nrot1 NF N4 = N7"
  "nrot1 NF N5 = NF" "nrot1 NF N6 = N7" "nrot1 NF N7 = NF" "nrot1 NF N8 = N7" "nrot1 NF N9 = NF"
  "nrot1 NF NA = N7" "nrot1 NF NB = NF" "nrot1 NF NC = N7" "nrot1 NF ND = NF" "nrot1 NF NE = N7"
  "nrot1 NF NF = NF"
  by (simp_all add: nrot1_def nib_of_def)

lemma nrot2_table:
  "nrot2 N0 N0 = N0" "nrot2 N0 N1 = N4" "nrot2 N0 N2 = N8" "nrot2 N0 N3 = NC" "nrot2 N0 N4 = N0"
  "nrot2 N0 N5 = N4" "nrot2 N0 N6 = N8" "nrot2 N0 N7 = NC" "nrot2 N0 N8 = N0" "nrot2 N0 N9 = N4"
  "nrot2 N0 NA = N8" "nrot2 N0 NB = NC" "nrot2 N0 NC = N0" "nrot2 N0 ND = N4" "nrot2 N0 NE = N8"
  "nrot2 N0 NF = NC" "nrot2 N1 N0 = N0" "nrot2 N1 N1 = N4" "nrot2 N1 N2 = N8" "nrot2 N1 N3 = NC"
  "nrot2 N1 N4 = N0" "nrot2 N1 N5 = N4" "nrot2 N1 N6 = N8" "nrot2 N1 N7 = NC" "nrot2 N1 N8 = N0"
  "nrot2 N1 N9 = N4" "nrot2 N1 NA = N8" "nrot2 N1 NB = NC" "nrot2 N1 NC = N0" "nrot2 N1 ND = N4"
  "nrot2 N1 NE = N8" "nrot2 N1 NF = NC" "nrot2 N2 N0 = N0" "nrot2 N2 N1 = N4" "nrot2 N2 N2 = N8"
  "nrot2 N2 N3 = NC" "nrot2 N2 N4 = N0" "nrot2 N2 N5 = N4" "nrot2 N2 N6 = N8" "nrot2 N2 N7 = NC"
  "nrot2 N2 N8 = N0" "nrot2 N2 N9 = N4" "nrot2 N2 NA = N8" "nrot2 N2 NB = NC" "nrot2 N2 NC = N0"
  "nrot2 N2 ND = N4" "nrot2 N2 NE = N8" "nrot2 N2 NF = NC" "nrot2 N3 N0 = N0" "nrot2 N3 N1 = N4"
  "nrot2 N3 N2 = N8" "nrot2 N3 N3 = NC" "nrot2 N3 N4 = N0" "nrot2 N3 N5 = N4" "nrot2 N3 N6 = N8"
  "nrot2 N3 N7 = NC" "nrot2 N3 N8 = N0" "nrot2 N3 N9 = N4" "nrot2 N3 NA = N8" "nrot2 N3 NB = NC"
  "nrot2 N3 NC = N0" "nrot2 N3 ND = N4" "nrot2 N3 NE = N8" "nrot2 N3 NF = NC" "nrot2 N4 N0 = N1"
  "nrot2 N4 N1 = N5" "nrot2 N4 N2 = N9" "nrot2 N4 N3 = ND" "nrot2 N4 N4 = N1" "nrot2 N4 N5 = N5"
  "nrot2 N4 N6 = N9" "nrot2 N4 N7 = ND" "nrot2 N4 N8 = N1" "nrot2 N4 N9 = N5" "nrot2 N4 NA = N9"
  "nrot2 N4 NB = ND" "nrot2 N4 NC = N1" "nrot2 N4 ND = N5" "nrot2 N4 NE = N9" "nrot2 N4 NF = ND"
  "nrot2 N5 N0 = N1" "nrot2 N5 N1 = N5" "nrot2 N5 N2 = N9" "nrot2 N5 N3 = ND" "nrot2 N5 N4 = N1"
  "nrot2 N5 N5 = N5" "nrot2 N5 N6 = N9" "nrot2 N5 N7 = ND" "nrot2 N5 N8 = N1" "nrot2 N5 N9 = N5"
  "nrot2 N5 NA = N9" "nrot2 N5 NB = ND" "nrot2 N5 NC = N1" "nrot2 N5 ND = N5" "nrot2 N5 NE = N9"
  "nrot2 N5 NF = ND" "nrot2 N6 N0 = N1" "nrot2 N6 N1 = N5" "nrot2 N6 N2 = N9" "nrot2 N6 N3 = ND"
  "nrot2 N6 N4 = N1" "nrot2 N6 N5 = N5" "nrot2 N6 N6 = N9" "nrot2 N6 N7 = ND" "nrot2 N6 N8 = N1"
  "nrot2 N6 N9 = N5" "nrot2 N6 NA = N9" "nrot2 N6 NB = ND" "nrot2 N6 NC = N1" "nrot2 N6 ND = N5"
  "nrot2 N6 NE = N9" "nrot2 N6 NF = ND" "nrot2 N7 N0 = N1" "nrot2 N7 N1 = N5" "nrot2 N7 N2 = N9"
  "nrot2 N7 N3 = ND" "nrot2 N7 N4 = N1" "nrot2 N7 N5 = N5" "nrot2 N7 N6 = N9" "nrot2 N7 N7 = ND"
  "nrot2 N7 N8 = N1" "nrot2 N7 N9 = N5" "nrot2 N7 NA = N9" "nrot2 N7 NB = ND" "nrot2 N7 NC = N1"
  "nrot2 N7 ND = N5" "nrot2 N7 NE = N9" "nrot2 N7 NF = ND" "nrot2 N8 N0 = N2" "nrot2 N8 N1 = N6"
  "nrot2 N8 N2 = NA" "nrot2 N8 N3 = NE" "nrot2 N8 N4 = N2" "nrot2 N8 N5 = N6" "nrot2 N8 N6 = NA"
  "nrot2 N8 N7 = NE" "nrot2 N8 N8 = N2" "nrot2 N8 N9 = N6" "nrot2 N8 NA = NA" "nrot2 N8 NB = NE"
  "nrot2 N8 NC = N2" "nrot2 N8 ND = N6" "nrot2 N8 NE = NA" "nrot2 N8 NF = NE" "nrot2 N9 N0 = N2"
  "nrot2 N9 N1 = N6" "nrot2 N9 N2 = NA" "nrot2 N9 N3 = NE" "nrot2 N9 N4 = N2" "nrot2 N9 N5 = N6"
  "nrot2 N9 N6 = NA" "nrot2 N9 N7 = NE" "nrot2 N9 N8 = N2" "nrot2 N9 N9 = N6" "nrot2 N9 NA = NA"
  "nrot2 N9 NB = NE" "nrot2 N9 NC = N2" "nrot2 N9 ND = N6" "nrot2 N9 NE = NA" "nrot2 N9 NF = NE"
  "nrot2 NA N0 = N2" "nrot2 NA N1 = N6" "nrot2 NA N2 = NA" "nrot2 NA N3 = NE" "nrot2 NA N4 = N2"
  "nrot2 NA N5 = N6" "nrot2 NA N6 = NA" "nrot2 NA N7 = NE" "nrot2 NA N8 = N2" "nrot2 NA N9 = N6"
  "nrot2 NA NA = NA" "nrot2 NA NB = NE" "nrot2 NA NC = N2" "nrot2 NA ND = N6" "nrot2 NA NE = NA"
  "nrot2 NA NF = NE" "nrot2 NB N0 = N2" "nrot2 NB N1 = N6" "nrot2 NB N2 = NA" "nrot2 NB N3 = NE"
  "nrot2 NB N4 = N2" "nrot2 NB N5 = N6" "nrot2 NB N6 = NA" "nrot2 NB N7 = NE" "nrot2 NB N8 = N2"
  "nrot2 NB N9 = N6" "nrot2 NB NA = NA" "nrot2 NB NB = NE" "nrot2 NB NC = N2" "nrot2 NB ND = N6"
  "nrot2 NB NE = NA" "nrot2 NB NF = NE" "nrot2 NC N0 = N3" "nrot2 NC N1 = N7" "nrot2 NC N2 = NB"
  "nrot2 NC N3 = NF" "nrot2 NC N4 = N3" "nrot2 NC N5 = N7" "nrot2 NC N6 = NB" "nrot2 NC N7 = NF"
  "nrot2 NC N8 = N3" "nrot2 NC N9 = N7" "nrot2 NC NA = NB" "nrot2 NC NB = NF" "nrot2 NC NC = N3"
  "nrot2 NC ND = N7" "nrot2 NC NE = NB" "nrot2 NC NF = NF" "nrot2 ND N0 = N3" "nrot2 ND N1 = N7"
  "nrot2 ND N2 = NB" "nrot2 ND N3 = NF" "nrot2 ND N4 = N3" "nrot2 ND N5 = N7" "nrot2 ND N6 = NB"
  "nrot2 ND N7 = NF" "nrot2 ND N8 = N3" "nrot2 ND N9 = N7" "nrot2 ND NA = NB" "nrot2 ND NB = NF"
  "nrot2 ND NC = N3" "nrot2 ND ND = N7" "nrot2 ND NE = NB" "nrot2 ND NF = NF" "nrot2 NE N0 = N3"
  "nrot2 NE N1 = N7" "nrot2 NE N2 = NB" "nrot2 NE N3 = NF" "nrot2 NE N4 = N3" "nrot2 NE N5 = N7"
  "nrot2 NE N6 = NB" "nrot2 NE N7 = NF" "nrot2 NE N8 = N3" "nrot2 NE N9 = N7" "nrot2 NE NA = NB"
  "nrot2 NE NB = NF" "nrot2 NE NC = N3" "nrot2 NE ND = N7" "nrot2 NE NE = NB" "nrot2 NE NF = NF"
  "nrot2 NF N0 = N3" "nrot2 NF N1 = N7" "nrot2 NF N2 = NB" "nrot2 NF N3 = NF" "nrot2 NF N4 = N3"
  "nrot2 NF N5 = N7" "nrot2 NF N6 = NB" "nrot2 NF N7 = NF" "nrot2 NF N8 = N3" "nrot2 NF N9 = N7"
  "nrot2 NF NA = NB" "nrot2 NF NB = NF" "nrot2 NF NC = N3" "nrot2 NF ND = N7" "nrot2 NF NE = NB"
  "nrot2 NF NF = NF"
  by (simp_all add: nrot2_def nib_of_def)

lemma nrot3_table:
  "nrot3 N0 N0 = N0" "nrot3 N0 N1 = N2" "nrot3 N0 N2 = N4" "nrot3 N0 N3 = N6" "nrot3 N0 N4 = N8"
  "nrot3 N0 N5 = NA" "nrot3 N0 N6 = NC" "nrot3 N0 N7 = NE" "nrot3 N0 N8 = N0" "nrot3 N0 N9 = N2"
  "nrot3 N0 NA = N4" "nrot3 N0 NB = N6" "nrot3 N0 NC = N8" "nrot3 N0 ND = NA" "nrot3 N0 NE = NC"
  "nrot3 N0 NF = NE" "nrot3 N1 N0 = N0" "nrot3 N1 N1 = N2" "nrot3 N1 N2 = N4" "nrot3 N1 N3 = N6"
  "nrot3 N1 N4 = N8" "nrot3 N1 N5 = NA" "nrot3 N1 N6 = NC" "nrot3 N1 N7 = NE" "nrot3 N1 N8 = N0"
  "nrot3 N1 N9 = N2" "nrot3 N1 NA = N4" "nrot3 N1 NB = N6" "nrot3 N1 NC = N8" "nrot3 N1 ND = NA"
  "nrot3 N1 NE = NC" "nrot3 N1 NF = NE" "nrot3 N2 N0 = N0" "nrot3 N2 N1 = N2" "nrot3 N2 N2 = N4"
  "nrot3 N2 N3 = N6" "nrot3 N2 N4 = N8" "nrot3 N2 N5 = NA" "nrot3 N2 N6 = NC" "nrot3 N2 N7 = NE"
  "nrot3 N2 N8 = N0" "nrot3 N2 N9 = N2" "nrot3 N2 NA = N4" "nrot3 N2 NB = N6" "nrot3 N2 NC = N8"
  "nrot3 N2 ND = NA" "nrot3 N2 NE = NC" "nrot3 N2 NF = NE" "nrot3 N3 N0 = N0" "nrot3 N3 N1 = N2"
  "nrot3 N3 N2 = N4" "nrot3 N3 N3 = N6" "nrot3 N3 N4 = N8" "nrot3 N3 N5 = NA" "nrot3 N3 N6 = NC"
  "nrot3 N3 N7 = NE" "nrot3 N3 N8 = N0" "nrot3 N3 N9 = N2" "nrot3 N3 NA = N4" "nrot3 N3 NB = N6"
  "nrot3 N3 NC = N8" "nrot3 N3 ND = NA" "nrot3 N3 NE = NC" "nrot3 N3 NF = NE" "nrot3 N4 N0 = N0"
  "nrot3 N4 N1 = N2" "nrot3 N4 N2 = N4" "nrot3 N4 N3 = N6" "nrot3 N4 N4 = N8" "nrot3 N4 N5 = NA"
  "nrot3 N4 N6 = NC" "nrot3 N4 N7 = NE" "nrot3 N4 N8 = N0" "nrot3 N4 N9 = N2" "nrot3 N4 NA = N4"
  "nrot3 N4 NB = N6" "nrot3 N4 NC = N8" "nrot3 N4 ND = NA" "nrot3 N4 NE = NC" "nrot3 N4 NF = NE"
  "nrot3 N5 N0 = N0" "nrot3 N5 N1 = N2" "nrot3 N5 N2 = N4" "nrot3 N5 N3 = N6" "nrot3 N5 N4 = N8"
  "nrot3 N5 N5 = NA" "nrot3 N5 N6 = NC" "nrot3 N5 N7 = NE" "nrot3 N5 N8 = N0" "nrot3 N5 N9 = N2"
  "nrot3 N5 NA = N4" "nrot3 N5 NB = N6" "nrot3 N5 NC = N8" "nrot3 N5 ND = NA" "nrot3 N5 NE = NC"
  "nrot3 N5 NF = NE" "nrot3 N6 N0 = N0" "nrot3 N6 N1 = N2" "nrot3 N6 N2 = N4" "nrot3 N6 N3 = N6"
  "nrot3 N6 N4 = N8" "nrot3 N6 N5 = NA" "nrot3 N6 N6 = NC" "nrot3 N6 N7 = NE" "nrot3 N6 N8 = N0"
  "nrot3 N6 N9 = N2" "nrot3 N6 NA = N4" "nrot3 N6 NB = N6" "nrot3 N6 NC = N8" "nrot3 N6 ND = NA"
  "nrot3 N6 NE = NC" "nrot3 N6 NF = NE" "nrot3 N7 N0 = N0" "nrot3 N7 N1 = N2" "nrot3 N7 N2 = N4"
  "nrot3 N7 N3 = N6" "nrot3 N7 N4 = N8" "nrot3 N7 N5 = NA" "nrot3 N7 N6 = NC" "nrot3 N7 N7 = NE"
  "nrot3 N7 N8 = N0" "nrot3 N7 N9 = N2" "nrot3 N7 NA = N4" "nrot3 N7 NB = N6" "nrot3 N7 NC = N8"
  "nrot3 N7 ND = NA" "nrot3 N7 NE = NC" "nrot3 N7 NF = NE" "nrot3 N8 N0 = N1" "nrot3 N8 N1 = N3"
  "nrot3 N8 N2 = N5" "nrot3 N8 N3 = N7" "nrot3 N8 N4 = N9" "nrot3 N8 N5 = NB" "nrot3 N8 N6 = ND"
  "nrot3 N8 N7 = NF" "nrot3 N8 N8 = N1" "nrot3 N8 N9 = N3" "nrot3 N8 NA = N5" "nrot3 N8 NB = N7"
  "nrot3 N8 NC = N9" "nrot3 N8 ND = NB" "nrot3 N8 NE = ND" "nrot3 N8 NF = NF" "nrot3 N9 N0 = N1"
  "nrot3 N9 N1 = N3" "nrot3 N9 N2 = N5" "nrot3 N9 N3 = N7" "nrot3 N9 N4 = N9" "nrot3 N9 N5 = NB"
  "nrot3 N9 N6 = ND" "nrot3 N9 N7 = NF" "nrot3 N9 N8 = N1" "nrot3 N9 N9 = N3" "nrot3 N9 NA = N5"
  "nrot3 N9 NB = N7" "nrot3 N9 NC = N9" "nrot3 N9 ND = NB" "nrot3 N9 NE = ND" "nrot3 N9 NF = NF"
  "nrot3 NA N0 = N1" "nrot3 NA N1 = N3" "nrot3 NA N2 = N5" "nrot3 NA N3 = N7" "nrot3 NA N4 = N9"
  "nrot3 NA N5 = NB" "nrot3 NA N6 = ND" "nrot3 NA N7 = NF" "nrot3 NA N8 = N1" "nrot3 NA N9 = N3"
  "nrot3 NA NA = N5" "nrot3 NA NB = N7" "nrot3 NA NC = N9" "nrot3 NA ND = NB" "nrot3 NA NE = ND"
  "nrot3 NA NF = NF" "nrot3 NB N0 = N1" "nrot3 NB N1 = N3" "nrot3 NB N2 = N5" "nrot3 NB N3 = N7"
  "nrot3 NB N4 = N9" "nrot3 NB N5 = NB" "nrot3 NB N6 = ND" "nrot3 NB N7 = NF" "nrot3 NB N8 = N1"
  "nrot3 NB N9 = N3" "nrot3 NB NA = N5" "nrot3 NB NB = N7" "nrot3 NB NC = N9" "nrot3 NB ND = NB"
  "nrot3 NB NE = ND" "nrot3 NB NF = NF" "nrot3 NC N0 = N1" "nrot3 NC N1 = N3" "nrot3 NC N2 = N5"
  "nrot3 NC N3 = N7" "nrot3 NC N4 = N9" "nrot3 NC N5 = NB" "nrot3 NC N6 = ND" "nrot3 NC N7 = NF"
  "nrot3 NC N8 = N1" "nrot3 NC N9 = N3" "nrot3 NC NA = N5" "nrot3 NC NB = N7" "nrot3 NC NC = N9"
  "nrot3 NC ND = NB" "nrot3 NC NE = ND" "nrot3 NC NF = NF" "nrot3 ND N0 = N1" "nrot3 ND N1 = N3"
  "nrot3 ND N2 = N5" "nrot3 ND N3 = N7" "nrot3 ND N4 = N9" "nrot3 ND N5 = NB" "nrot3 ND N6 = ND"
  "nrot3 ND N7 = NF" "nrot3 ND N8 = N1" "nrot3 ND N9 = N3" "nrot3 ND NA = N5" "nrot3 ND NB = N7"
  "nrot3 ND NC = N9" "nrot3 ND ND = NB" "nrot3 ND NE = ND" "nrot3 ND NF = NF" "nrot3 NE N0 = N1"
  "nrot3 NE N1 = N3" "nrot3 NE N2 = N5" "nrot3 NE N3 = N7" "nrot3 NE N4 = N9" "nrot3 NE N5 = NB"
  "nrot3 NE N6 = ND" "nrot3 NE N7 = NF" "nrot3 NE N8 = N1" "nrot3 NE N9 = N3" "nrot3 NE NA = N5"
  "nrot3 NE NB = N7" "nrot3 NE NC = N9" "nrot3 NE ND = NB" "nrot3 NE NE = ND" "nrot3 NE NF = NF"
  "nrot3 NF N0 = N1" "nrot3 NF N1 = N3" "nrot3 NF N2 = N5" "nrot3 NF N3 = N7" "nrot3 NF N4 = N9"
  "nrot3 NF N5 = NB" "nrot3 NF N6 = ND" "nrot3 NF N7 = NF" "nrot3 NF N8 = N1" "nrot3 NF N9 = N3"
  "nrot3 NF NA = N5" "nrot3 NF NB = N7" "nrot3 NF NC = N9" "nrot3 NF ND = NB" "nrot3 NF NE = ND"
  "nrot3 NF NF = NF"
  by (simp_all add: nrot3_def nib_of_def)

lemma nadd0_table:
  "nadc N0 N0 False = (N0, False)" "nadc N0 N1 False = (N1, False)" "nadc N0 N2 False = (N2, False)"
  "nadc N0 N3 False = (N3, False)" "nadc N0 N4 False = (N4, False)" "nadc N0 N5 False = (N5, False)"
  "nadc N0 N6 False = (N6, False)" "nadc N0 N7 False = (N7, False)" "nadc N0 N8 False = (N8, False)"
  "nadc N0 N9 False = (N9, False)" "nadc N0 NA False = (NA, False)" "nadc N0 NB False = (NB, False)"
  "nadc N0 NC False = (NC, False)" "nadc N0 ND False = (ND, False)" "nadc N0 NE False = (NE, False)"
  "nadc N0 NF False = (NF, False)" "nadc N1 N0 False = (N1, False)" "nadc N1 N1 False = (N2, False)"
  "nadc N1 N2 False = (N3, False)" "nadc N1 N3 False = (N4, False)" "nadc N1 N4 False = (N5, False)"
  "nadc N1 N5 False = (N6, False)" "nadc N1 N6 False = (N7, False)" "nadc N1 N7 False = (N8, False)"
  "nadc N1 N8 False = (N9, False)" "nadc N1 N9 False = (NA, False)" "nadc N1 NA False = (NB, False)"
  "nadc N1 NB False = (NC, False)" "nadc N1 NC False = (ND, False)" "nadc N1 ND False = (NE, False)"
  "nadc N1 NE False = (NF, False)" "nadc N1 NF False = (N0, True)" "nadc N2 N0 False = (N2, False)"
  "nadc N2 N1 False = (N3, False)" "nadc N2 N2 False = (N4, False)" "nadc N2 N3 False = (N5, False)"
  "nadc N2 N4 False = (N6, False)" "nadc N2 N5 False = (N7, False)" "nadc N2 N6 False = (N8, False)"
  "nadc N2 N7 False = (N9, False)" "nadc N2 N8 False = (NA, False)" "nadc N2 N9 False = (NB, False)"
  "nadc N2 NA False = (NC, False)" "nadc N2 NB False = (ND, False)" "nadc N2 NC False = (NE, False)"
  "nadc N2 ND False = (NF, False)" "nadc N2 NE False = (N0, True)" "nadc N2 NF False = (N1, True)"
  "nadc N3 N0 False = (N3, False)" "nadc N3 N1 False = (N4, False)" "nadc N3 N2 False = (N5, False)"
  "nadc N3 N3 False = (N6, False)" "nadc N3 N4 False = (N7, False)" "nadc N3 N5 False = (N8, False)"
  "nadc N3 N6 False = (N9, False)" "nadc N3 N7 False = (NA, False)" "nadc N3 N8 False = (NB, False)"
  "nadc N3 N9 False = (NC, False)" "nadc N3 NA False = (ND, False)" "nadc N3 NB False = (NE, False)"
  "nadc N3 NC False = (NF, False)" "nadc N3 ND False = (N0, True)" "nadc N3 NE False = (N1, True)"
  "nadc N3 NF False = (N2, True)" "nadc N4 N0 False = (N4, False)" "nadc N4 N1 False = (N5, False)"
  "nadc N4 N2 False = (N6, False)" "nadc N4 N3 False = (N7, False)" "nadc N4 N4 False = (N8, False)"
  "nadc N4 N5 False = (N9, False)" "nadc N4 N6 False = (NA, False)" "nadc N4 N7 False = (NB, False)"
  "nadc N4 N8 False = (NC, False)" "nadc N4 N9 False = (ND, False)" "nadc N4 NA False = (NE, False)"
  "nadc N4 NB False = (NF, False)" "nadc N4 NC False = (N0, True)" "nadc N4 ND False = (N1, True)"
  "nadc N4 NE False = (N2, True)" "nadc N4 NF False = (N3, True)" "nadc N5 N0 False = (N5, False)"
  "nadc N5 N1 False = (N6, False)" "nadc N5 N2 False = (N7, False)" "nadc N5 N3 False = (N8, False)"
  "nadc N5 N4 False = (N9, False)" "nadc N5 N5 False = (NA, False)" "nadc N5 N6 False = (NB, False)"
  "nadc N5 N7 False = (NC, False)" "nadc N5 N8 False = (ND, False)" "nadc N5 N9 False = (NE, False)"
  "nadc N5 NA False = (NF, False)" "nadc N5 NB False = (N0, True)" "nadc N5 NC False = (N1, True)"
  "nadc N5 ND False = (N2, True)" "nadc N5 NE False = (N3, True)" "nadc N5 NF False = (N4, True)"
  "nadc N6 N0 False = (N6, False)" "nadc N6 N1 False = (N7, False)" "nadc N6 N2 False = (N8, False)"
  "nadc N6 N3 False = (N9, False)" "nadc N6 N4 False = (NA, False)" "nadc N6 N5 False = (NB, False)"
  "nadc N6 N6 False = (NC, False)" "nadc N6 N7 False = (ND, False)" "nadc N6 N8 False = (NE, False)"
  "nadc N6 N9 False = (NF, False)" "nadc N6 NA False = (N0, True)" "nadc N6 NB False = (N1, True)"
  "nadc N6 NC False = (N2, True)" "nadc N6 ND False = (N3, True)" "nadc N6 NE False = (N4, True)"
  "nadc N6 NF False = (N5, True)" "nadc N7 N0 False = (N7, False)" "nadc N7 N1 False = (N8, False)"
  "nadc N7 N2 False = (N9, False)" "nadc N7 N3 False = (NA, False)" "nadc N7 N4 False = (NB, False)"
  "nadc N7 N5 False = (NC, False)" "nadc N7 N6 False = (ND, False)" "nadc N7 N7 False = (NE, False)"
  "nadc N7 N8 False = (NF, False)" "nadc N7 N9 False = (N0, True)" "nadc N7 NA False = (N1, True)"
  "nadc N7 NB False = (N2, True)" "nadc N7 NC False = (N3, True)" "nadc N7 ND False = (N4, True)"
  "nadc N7 NE False = (N5, True)" "nadc N7 NF False = (N6, True)" "nadc N8 N0 False = (N8, False)"
  "nadc N8 N1 False = (N9, False)" "nadc N8 N2 False = (NA, False)" "nadc N8 N3 False = (NB, False)"
  "nadc N8 N4 False = (NC, False)" "nadc N8 N5 False = (ND, False)" "nadc N8 N6 False = (NE, False)"
  "nadc N8 N7 False = (NF, False)" "nadc N8 N8 False = (N0, True)" "nadc N8 N9 False = (N1, True)"
  "nadc N8 NA False = (N2, True)" "nadc N8 NB False = (N3, True)" "nadc N8 NC False = (N4, True)"
  "nadc N8 ND False = (N5, True)" "nadc N8 NE False = (N6, True)" "nadc N8 NF False = (N7, True)"
  "nadc N9 N0 False = (N9, False)" "nadc N9 N1 False = (NA, False)" "nadc N9 N2 False = (NB, False)"
  "nadc N9 N3 False = (NC, False)" "nadc N9 N4 False = (ND, False)" "nadc N9 N5 False = (NE, False)"
  "nadc N9 N6 False = (NF, False)" "nadc N9 N7 False = (N0, True)" "nadc N9 N8 False = (N1, True)"
  "nadc N9 N9 False = (N2, True)" "nadc N9 NA False = (N3, True)" "nadc N9 NB False = (N4, True)"
  "nadc N9 NC False = (N5, True)" "nadc N9 ND False = (N6, True)" "nadc N9 NE False = (N7, True)"
  "nadc N9 NF False = (N8, True)" "nadc NA N0 False = (NA, False)" "nadc NA N1 False = (NB, False)"
  "nadc NA N2 False = (NC, False)" "nadc NA N3 False = (ND, False)" "nadc NA N4 False = (NE, False)"
  "nadc NA N5 False = (NF, False)" "nadc NA N6 False = (N0, True)" "nadc NA N7 False = (N1, True)"
  "nadc NA N8 False = (N2, True)" "nadc NA N9 False = (N3, True)" "nadc NA NA False = (N4, True)"
  "nadc NA NB False = (N5, True)" "nadc NA NC False = (N6, True)" "nadc NA ND False = (N7, True)"
  "nadc NA NE False = (N8, True)" "nadc NA NF False = (N9, True)" "nadc NB N0 False = (NB, False)"
  "nadc NB N1 False = (NC, False)" "nadc NB N2 False = (ND, False)" "nadc NB N3 False = (NE, False)"
  "nadc NB N4 False = (NF, False)" "nadc NB N5 False = (N0, True)" "nadc NB N6 False = (N1, True)"
  "nadc NB N7 False = (N2, True)" "nadc NB N8 False = (N3, True)" "nadc NB N9 False = (N4, True)"
  "nadc NB NA False = (N5, True)" "nadc NB NB False = (N6, True)" "nadc NB NC False = (N7, True)"
  "nadc NB ND False = (N8, True)" "nadc NB NE False = (N9, True)" "nadc NB NF False = (NA, True)"
  "nadc NC N0 False = (NC, False)" "nadc NC N1 False = (ND, False)" "nadc NC N2 False = (NE, False)"
  "nadc NC N3 False = (NF, False)" "nadc NC N4 False = (N0, True)" "nadc NC N5 False = (N1, True)"
  "nadc NC N6 False = (N2, True)" "nadc NC N7 False = (N3, True)" "nadc NC N8 False = (N4, True)"
  "nadc NC N9 False = (N5, True)" "nadc NC NA False = (N6, True)" "nadc NC NB False = (N7, True)"
  "nadc NC NC False = (N8, True)" "nadc NC ND False = (N9, True)" "nadc NC NE False = (NA, True)"
  "nadc NC NF False = (NB, True)" "nadc ND N0 False = (ND, False)" "nadc ND N1 False = (NE, False)"
  "nadc ND N2 False = (NF, False)" "nadc ND N3 False = (N0, True)" "nadc ND N4 False = (N1, True)"
  "nadc ND N5 False = (N2, True)" "nadc ND N6 False = (N3, True)" "nadc ND N7 False = (N4, True)"
  "nadc ND N8 False = (N5, True)" "nadc ND N9 False = (N6, True)" "nadc ND NA False = (N7, True)"
  "nadc ND NB False = (N8, True)" "nadc ND NC False = (N9, True)" "nadc ND ND False = (NA, True)"
  "nadc ND NE False = (NB, True)" "nadc ND NF False = (NC, True)" "nadc NE N0 False = (NE, False)"
  "nadc NE N1 False = (NF, False)" "nadc NE N2 False = (N0, True)" "nadc NE N3 False = (N1, True)"
  "nadc NE N4 False = (N2, True)" "nadc NE N5 False = (N3, True)" "nadc NE N6 False = (N4, True)"
  "nadc NE N7 False = (N5, True)" "nadc NE N8 False = (N6, True)" "nadc NE N9 False = (N7, True)"
  "nadc NE NA False = (N8, True)" "nadc NE NB False = (N9, True)" "nadc NE NC False = (NA, True)"
  "nadc NE ND False = (NB, True)" "nadc NE NE False = (NC, True)" "nadc NE NF False = (ND, True)"
  "nadc NF N0 False = (NF, False)" "nadc NF N1 False = (N0, True)" "nadc NF N2 False = (N1, True)"
  "nadc NF N3 False = (N2, True)" "nadc NF N4 False = (N3, True)" "nadc NF N5 False = (N4, True)"
  "nadc NF N6 False = (N5, True)" "nadc NF N7 False = (N6, True)" "nadc NF N8 False = (N7, True)"
  "nadc NF N9 False = (N8, True)" "nadc NF NA False = (N9, True)" "nadc NF NB False = (NA, True)"
  "nadc NF NC False = (NB, True)" "nadc NF ND False = (NC, True)" "nadc NF NE False = (ND, True)"
  "nadc NF NF False = (NE, True)"
  by (simp_all add: nadc_def nib_of_def)

lemma nadd1_table:
  "nadc N0 N0 True = (N1, False)" "nadc N0 N1 True = (N2, False)" "nadc N0 N2 True = (N3, False)"
  "nadc N0 N3 True = (N4, False)" "nadc N0 N4 True = (N5, False)" "nadc N0 N5 True = (N6, False)"
  "nadc N0 N6 True = (N7, False)" "nadc N0 N7 True = (N8, False)" "nadc N0 N8 True = (N9, False)"
  "nadc N0 N9 True = (NA, False)" "nadc N0 NA True = (NB, False)" "nadc N0 NB True = (NC, False)"
  "nadc N0 NC True = (ND, False)" "nadc N0 ND True = (NE, False)" "nadc N0 NE True = (NF, False)"
  "nadc N0 NF True = (N0, True)" "nadc N1 N0 True = (N2, False)" "nadc N1 N1 True = (N3, False)"
  "nadc N1 N2 True = (N4, False)" "nadc N1 N3 True = (N5, False)" "nadc N1 N4 True = (N6, False)"
  "nadc N1 N5 True = (N7, False)" "nadc N1 N6 True = (N8, False)" "nadc N1 N7 True = (N9, False)"
  "nadc N1 N8 True = (NA, False)" "nadc N1 N9 True = (NB, False)" "nadc N1 NA True = (NC, False)"
  "nadc N1 NB True = (ND, False)" "nadc N1 NC True = (NE, False)" "nadc N1 ND True = (NF, False)"
  "nadc N1 NE True = (N0, True)" "nadc N1 NF True = (N1, True)" "nadc N2 N0 True = (N3, False)"
  "nadc N2 N1 True = (N4, False)" "nadc N2 N2 True = (N5, False)" "nadc N2 N3 True = (N6, False)"
  "nadc N2 N4 True = (N7, False)" "nadc N2 N5 True = (N8, False)" "nadc N2 N6 True = (N9, False)"
  "nadc N2 N7 True = (NA, False)" "nadc N2 N8 True = (NB, False)" "nadc N2 N9 True = (NC, False)"
  "nadc N2 NA True = (ND, False)" "nadc N2 NB True = (NE, False)" "nadc N2 NC True = (NF, False)"
  "nadc N2 ND True = (N0, True)" "nadc N2 NE True = (N1, True)" "nadc N2 NF True = (N2, True)"
  "nadc N3 N0 True = (N4, False)" "nadc N3 N1 True = (N5, False)" "nadc N3 N2 True = (N6, False)"
  "nadc N3 N3 True = (N7, False)" "nadc N3 N4 True = (N8, False)" "nadc N3 N5 True = (N9, False)"
  "nadc N3 N6 True = (NA, False)" "nadc N3 N7 True = (NB, False)" "nadc N3 N8 True = (NC, False)"
  "nadc N3 N9 True = (ND, False)" "nadc N3 NA True = (NE, False)" "nadc N3 NB True = (NF, False)"
  "nadc N3 NC True = (N0, True)" "nadc N3 ND True = (N1, True)" "nadc N3 NE True = (N2, True)"
  "nadc N3 NF True = (N3, True)" "nadc N4 N0 True = (N5, False)" "nadc N4 N1 True = (N6, False)"
  "nadc N4 N2 True = (N7, False)" "nadc N4 N3 True = (N8, False)" "nadc N4 N4 True = (N9, False)"
  "nadc N4 N5 True = (NA, False)" "nadc N4 N6 True = (NB, False)" "nadc N4 N7 True = (NC, False)"
  "nadc N4 N8 True = (ND, False)" "nadc N4 N9 True = (NE, False)" "nadc N4 NA True = (NF, False)"
  "nadc N4 NB True = (N0, True)" "nadc N4 NC True = (N1, True)" "nadc N4 ND True = (N2, True)"
  "nadc N4 NE True = (N3, True)" "nadc N4 NF True = (N4, True)" "nadc N5 N0 True = (N6, False)"
  "nadc N5 N1 True = (N7, False)" "nadc N5 N2 True = (N8, False)" "nadc N5 N3 True = (N9, False)"
  "nadc N5 N4 True = (NA, False)" "nadc N5 N5 True = (NB, False)" "nadc N5 N6 True = (NC, False)"
  "nadc N5 N7 True = (ND, False)" "nadc N5 N8 True = (NE, False)" "nadc N5 N9 True = (NF, False)"
  "nadc N5 NA True = (N0, True)" "nadc N5 NB True = (N1, True)" "nadc N5 NC True = (N2, True)"
  "nadc N5 ND True = (N3, True)" "nadc N5 NE True = (N4, True)" "nadc N5 NF True = (N5, True)"
  "nadc N6 N0 True = (N7, False)" "nadc N6 N1 True = (N8, False)" "nadc N6 N2 True = (N9, False)"
  "nadc N6 N3 True = (NA, False)" "nadc N6 N4 True = (NB, False)" "nadc N6 N5 True = (NC, False)"
  "nadc N6 N6 True = (ND, False)" "nadc N6 N7 True = (NE, False)" "nadc N6 N8 True = (NF, False)"
  "nadc N6 N9 True = (N0, True)" "nadc N6 NA True = (N1, True)" "nadc N6 NB True = (N2, True)"
  "nadc N6 NC True = (N3, True)" "nadc N6 ND True = (N4, True)" "nadc N6 NE True = (N5, True)"
  "nadc N6 NF True = (N6, True)" "nadc N7 N0 True = (N8, False)" "nadc N7 N1 True = (N9, False)"
  "nadc N7 N2 True = (NA, False)" "nadc N7 N3 True = (NB, False)" "nadc N7 N4 True = (NC, False)"
  "nadc N7 N5 True = (ND, False)" "nadc N7 N6 True = (NE, False)" "nadc N7 N7 True = (NF, False)"
  "nadc N7 N8 True = (N0, True)" "nadc N7 N9 True = (N1, True)" "nadc N7 NA True = (N2, True)"
  "nadc N7 NB True = (N3, True)" "nadc N7 NC True = (N4, True)" "nadc N7 ND True = (N5, True)"
  "nadc N7 NE True = (N6, True)" "nadc N7 NF True = (N7, True)" "nadc N8 N0 True = (N9, False)"
  "nadc N8 N1 True = (NA, False)" "nadc N8 N2 True = (NB, False)" "nadc N8 N3 True = (NC, False)"
  "nadc N8 N4 True = (ND, False)" "nadc N8 N5 True = (NE, False)" "nadc N8 N6 True = (NF, False)"
  "nadc N8 N7 True = (N0, True)" "nadc N8 N8 True = (N1, True)" "nadc N8 N9 True = (N2, True)"
  "nadc N8 NA True = (N3, True)" "nadc N8 NB True = (N4, True)" "nadc N8 NC True = (N5, True)"
  "nadc N8 ND True = (N6, True)" "nadc N8 NE True = (N7, True)" "nadc N8 NF True = (N8, True)"
  "nadc N9 N0 True = (NA, False)" "nadc N9 N1 True = (NB, False)" "nadc N9 N2 True = (NC, False)"
  "nadc N9 N3 True = (ND, False)" "nadc N9 N4 True = (NE, False)" "nadc N9 N5 True = (NF, False)"
  "nadc N9 N6 True = (N0, True)" "nadc N9 N7 True = (N1, True)" "nadc N9 N8 True = (N2, True)"
  "nadc N9 N9 True = (N3, True)" "nadc N9 NA True = (N4, True)" "nadc N9 NB True = (N5, True)"
  "nadc N9 NC True = (N6, True)" "nadc N9 ND True = (N7, True)" "nadc N9 NE True = (N8, True)"
  "nadc N9 NF True = (N9, True)" "nadc NA N0 True = (NB, False)" "nadc NA N1 True = (NC, False)"
  "nadc NA N2 True = (ND, False)" "nadc NA N3 True = (NE, False)" "nadc NA N4 True = (NF, False)"
  "nadc NA N5 True = (N0, True)" "nadc NA N6 True = (N1, True)" "nadc NA N7 True = (N2, True)"
  "nadc NA N8 True = (N3, True)" "nadc NA N9 True = (N4, True)" "nadc NA NA True = (N5, True)"
  "nadc NA NB True = (N6, True)" "nadc NA NC True = (N7, True)" "nadc NA ND True = (N8, True)"
  "nadc NA NE True = (N9, True)" "nadc NA NF True = (NA, True)" "nadc NB N0 True = (NC, False)"
  "nadc NB N1 True = (ND, False)" "nadc NB N2 True = (NE, False)" "nadc NB N3 True = (NF, False)"
  "nadc NB N4 True = (N0, True)" "nadc NB N5 True = (N1, True)" "nadc NB N6 True = (N2, True)"
  "nadc NB N7 True = (N3, True)" "nadc NB N8 True = (N4, True)" "nadc NB N9 True = (N5, True)"
  "nadc NB NA True = (N6, True)" "nadc NB NB True = (N7, True)" "nadc NB NC True = (N8, True)"
  "nadc NB ND True = (N9, True)" "nadc NB NE True = (NA, True)" "nadc NB NF True = (NB, True)"
  "nadc NC N0 True = (ND, False)" "nadc NC N1 True = (NE, False)" "nadc NC N2 True = (NF, False)"
  "nadc NC N3 True = (N0, True)" "nadc NC N4 True = (N1, True)" "nadc NC N5 True = (N2, True)"
  "nadc NC N6 True = (N3, True)" "nadc NC N7 True = (N4, True)" "nadc NC N8 True = (N5, True)"
  "nadc NC N9 True = (N6, True)" "nadc NC NA True = (N7, True)" "nadc NC NB True = (N8, True)"
  "nadc NC NC True = (N9, True)" "nadc NC ND True = (NA, True)" "nadc NC NE True = (NB, True)"
  "nadc NC NF True = (NC, True)" "nadc ND N0 True = (NE, False)" "nadc ND N1 True = (NF, False)"
  "nadc ND N2 True = (N0, True)" "nadc ND N3 True = (N1, True)" "nadc ND N4 True = (N2, True)"
  "nadc ND N5 True = (N3, True)" "nadc ND N6 True = (N4, True)" "nadc ND N7 True = (N5, True)"
  "nadc ND N8 True = (N6, True)" "nadc ND N9 True = (N7, True)" "nadc ND NA True = (N8, True)"
  "nadc ND NB True = (N9, True)" "nadc ND NC True = (NA, True)" "nadc ND ND True = (NB, True)"
  "nadc ND NE True = (NC, True)" "nadc ND NF True = (ND, True)" "nadc NE N0 True = (NF, False)"
  "nadc NE N1 True = (N0, True)" "nadc NE N2 True = (N1, True)" "nadc NE N3 True = (N2, True)"
  "nadc NE N4 True = (N3, True)" "nadc NE N5 True = (N4, True)" "nadc NE N6 True = (N5, True)"
  "nadc NE N7 True = (N6, True)" "nadc NE N8 True = (N7, True)" "nadc NE N9 True = (N8, True)"
  "nadc NE NA True = (N9, True)" "nadc NE NB True = (NA, True)" "nadc NE NC True = (NB, True)"
  "nadc NE ND True = (NC, True)" "nadc NE NE True = (ND, True)" "nadc NE NF True = (NE, True)"
  "nadc NF N0 True = (N0, True)" "nadc NF N1 True = (N1, True)" "nadc NF N2 True = (N2, True)"
  "nadc NF N3 True = (N3, True)" "nadc NF N4 True = (N4, True)" "nadc NF N5 True = (N5, True)"
  "nadc NF N6 True = (N6, True)" "nadc NF N7 True = (N7, True)" "nadc NF N8 True = (N8, True)"
  "nadc NF N9 True = (N9, True)" "nadc NF NA True = (NA, True)" "nadc NF NB True = (NB, True)"
  "nadc NF NC True = (NC, True)" "nadc NF ND True = (ND, True)" "nadc NF NE True = (NE, True)"
  "nadc NF NF True = (NF, True)"
  by (simp_all add: nadc_def nib_of_def)

lemma lo_nib_table:
  "lo_nib 0 = N0" "lo_nib 1 = N1" "lo_nib 2 = N2" "lo_nib 3 = N3" "lo_nib 4 = N4" "lo_nib 5 = N5"
  "lo_nib 6 = N6" "lo_nib 7 = N7" "lo_nib 8 = N8" "lo_nib 9 = N9" "lo_nib 10 = NA" "lo_nib 11 = NB"
  "lo_nib 12 = NC" "lo_nib 13 = ND" "lo_nib 14 = NE" "lo_nib 15 = NF" "lo_nib 16 = N0" "lo_nib 17 = N1"
  "lo_nib 18 = N2" "lo_nib 19 = N3" "lo_nib 20 = N4" "lo_nib 21 = N5" "lo_nib 22 = N6" "lo_nib 23 = N7"
  "lo_nib 24 = N8" "lo_nib 25 = N9" "lo_nib 26 = NA" "lo_nib 27 = NB" "lo_nib 28 = NC" "lo_nib 29 = ND"
  "lo_nib 30 = NE" "lo_nib 31 = NF" "lo_nib 32 = N0" "lo_nib 33 = N1" "lo_nib 34 = N2" "lo_nib 35 = N3"
  "lo_nib 36 = N4" "lo_nib 37 = N5" "lo_nib 38 = N6" "lo_nib 39 = N7" "lo_nib 40 = N8" "lo_nib 41 = N9"
  "lo_nib 42 = NA" "lo_nib 43 = NB" "lo_nib 44 = NC" "lo_nib 45 = ND" "lo_nib 46 = NE" "lo_nib 47 = NF"
  "lo_nib 48 = N0" "lo_nib 49 = N1" "lo_nib 50 = N2" "lo_nib 51 = N3" "lo_nib 52 = N4" "lo_nib 53 = N5"
  "lo_nib 54 = N6" "lo_nib 55 = N7" "lo_nib 56 = N8" "lo_nib 57 = N9" "lo_nib 58 = NA" "lo_nib 59 = NB"
  "lo_nib 60 = NC" "lo_nib 61 = ND" "lo_nib 62 = NE" "lo_nib 63 = NF" "lo_nib 64 = N0" "lo_nib 65 = N1"
  "lo_nib 66 = N2" "lo_nib 67 = N3" "lo_nib 68 = N4" "lo_nib 69 = N5" "lo_nib 70 = N6" "lo_nib 71 = N7"
  "lo_nib 72 = N8" "lo_nib 73 = N9" "lo_nib 74 = NA" "lo_nib 75 = NB" "lo_nib 76 = NC" "lo_nib 77 = ND"
  "lo_nib 78 = NE" "lo_nib 79 = NF" "lo_nib 80 = N0" "lo_nib 81 = N1" "lo_nib 82 = N2" "lo_nib 83 = N3"
  "lo_nib 84 = N4" "lo_nib 85 = N5" "lo_nib 86 = N6" "lo_nib 87 = N7" "lo_nib 88 = N8" "lo_nib 89 = N9"
  "lo_nib 90 = NA" "lo_nib 91 = NB" "lo_nib 92 = NC" "lo_nib 93 = ND" "lo_nib 94 = NE" "lo_nib 95 = NF"
  "lo_nib 96 = N0" "lo_nib 97 = N1" "lo_nib 98 = N2" "lo_nib 99 = N3" "lo_nib 100 = N4" "lo_nib 101 = N5"
  "lo_nib 102 = N6" "lo_nib 103 = N7" "lo_nib 104 = N8" "lo_nib 105 = N9" "lo_nib 106 = NA" "lo_nib 107 = NB"
  "lo_nib 108 = NC" "lo_nib 109 = ND" "lo_nib 110 = NE" "lo_nib 111 = NF" "lo_nib 112 = N0" "lo_nib 113 = N1"
  "lo_nib 114 = N2" "lo_nib 115 = N3" "lo_nib 116 = N4" "lo_nib 117 = N5" "lo_nib 118 = N6" "lo_nib 119 = N7"
  "lo_nib 120 = N8" "lo_nib 121 = N9" "lo_nib 122 = NA" "lo_nib 123 = NB" "lo_nib 124 = NC" "lo_nib 125 = ND"
  "lo_nib 126 = NE" "lo_nib 127 = NF" "lo_nib 128 = N0" "lo_nib 129 = N1" "lo_nib 130 = N2" "lo_nib 131 = N3"
  "lo_nib 132 = N4" "lo_nib 133 = N5" "lo_nib 134 = N6" "lo_nib 135 = N7" "lo_nib 136 = N8" "lo_nib 137 = N9"
  "lo_nib 138 = NA" "lo_nib 139 = NB" "lo_nib 140 = NC" "lo_nib 141 = ND" "lo_nib 142 = NE" "lo_nib 143 = NF"
  "lo_nib 144 = N0" "lo_nib 145 = N1" "lo_nib 146 = N2" "lo_nib 147 = N3" "lo_nib 148 = N4" "lo_nib 149 = N5"
  "lo_nib 150 = N6" "lo_nib 151 = N7" "lo_nib 152 = N8" "lo_nib 153 = N9" "lo_nib 154 = NA" "lo_nib 155 = NB"
  "lo_nib 156 = NC" "lo_nib 157 = ND" "lo_nib 158 = NE" "lo_nib 159 = NF" "lo_nib 160 = N0" "lo_nib 161 = N1"
  "lo_nib 162 = N2" "lo_nib 163 = N3" "lo_nib 164 = N4" "lo_nib 165 = N5" "lo_nib 166 = N6" "lo_nib 167 = N7"
  "lo_nib 168 = N8" "lo_nib 169 = N9" "lo_nib 170 = NA" "lo_nib 171 = NB" "lo_nib 172 = NC" "lo_nib 173 = ND"
  "lo_nib 174 = NE" "lo_nib 175 = NF" "lo_nib 176 = N0" "lo_nib 177 = N1" "lo_nib 178 = N2" "lo_nib 179 = N3"
  "lo_nib 180 = N4" "lo_nib 181 = N5" "lo_nib 182 = N6" "lo_nib 183 = N7" "lo_nib 184 = N8" "lo_nib 185 = N9"
  "lo_nib 186 = NA" "lo_nib 187 = NB" "lo_nib 188 = NC" "lo_nib 189 = ND" "lo_nib 190 = NE" "lo_nib 191 = NF"
  "lo_nib 192 = N0" "lo_nib 193 = N1" "lo_nib 194 = N2" "lo_nib 195 = N3" "lo_nib 196 = N4" "lo_nib 197 = N5"
  "lo_nib 198 = N6" "lo_nib 199 = N7" "lo_nib 200 = N8" "lo_nib 201 = N9" "lo_nib 202 = NA" "lo_nib 203 = NB"
  "lo_nib 204 = NC" "lo_nib 205 = ND" "lo_nib 206 = NE" "lo_nib 207 = NF" "lo_nib 208 = N0" "lo_nib 209 = N1"
  "lo_nib 210 = N2" "lo_nib 211 = N3" "lo_nib 212 = N4" "lo_nib 213 = N5" "lo_nib 214 = N6" "lo_nib 215 = N7"
  "lo_nib 216 = N8" "lo_nib 217 = N9" "lo_nib 218 = NA" "lo_nib 219 = NB" "lo_nib 220 = NC" "lo_nib 221 = ND"
  "lo_nib 222 = NE" "lo_nib 223 = NF" "lo_nib 224 = N0" "lo_nib 225 = N1" "lo_nib 226 = N2" "lo_nib 227 = N3"
  "lo_nib 228 = N4" "lo_nib 229 = N5" "lo_nib 230 = N6" "lo_nib 231 = N7" "lo_nib 232 = N8" "lo_nib 233 = N9"
  "lo_nib 234 = NA" "lo_nib 235 = NB" "lo_nib 236 = NC" "lo_nib 237 = ND" "lo_nib 238 = NE" "lo_nib 239 = NF"
  "lo_nib 240 = N0" "lo_nib 241 = N1" "lo_nib 242 = N2" "lo_nib 243 = N3" "lo_nib 244 = N4" "lo_nib 245 = N5"
  "lo_nib 246 = N6" "lo_nib 247 = N7" "lo_nib 248 = N8" "lo_nib 249 = N9" "lo_nib 250 = NA" "lo_nib 251 = NB"
  "lo_nib 252 = NC" "lo_nib 253 = ND" "lo_nib 254 = NE" "lo_nib 255 = NF"
  by (simp_all add: lo_nib_def nib_of_def)

lemma hi_nib_table:
  "hi_nib 0 = N0" "hi_nib 1 = N0" "hi_nib 2 = N0" "hi_nib 3 = N0" "hi_nib 4 = N0" "hi_nib 5 = N0"
  "hi_nib 6 = N0" "hi_nib 7 = N0" "hi_nib 8 = N0" "hi_nib 9 = N0" "hi_nib 10 = N0" "hi_nib 11 = N0"
  "hi_nib 12 = N0" "hi_nib 13 = N0" "hi_nib 14 = N0" "hi_nib 15 = N0" "hi_nib 16 = N1" "hi_nib 17 = N1"
  "hi_nib 18 = N1" "hi_nib 19 = N1" "hi_nib 20 = N1" "hi_nib 21 = N1" "hi_nib 22 = N1" "hi_nib 23 = N1"
  "hi_nib 24 = N1" "hi_nib 25 = N1" "hi_nib 26 = N1" "hi_nib 27 = N1" "hi_nib 28 = N1" "hi_nib 29 = N1"
  "hi_nib 30 = N1" "hi_nib 31 = N1" "hi_nib 32 = N2" "hi_nib 33 = N2" "hi_nib 34 = N2" "hi_nib 35 = N2"
  "hi_nib 36 = N2" "hi_nib 37 = N2" "hi_nib 38 = N2" "hi_nib 39 = N2" "hi_nib 40 = N2" "hi_nib 41 = N2"
  "hi_nib 42 = N2" "hi_nib 43 = N2" "hi_nib 44 = N2" "hi_nib 45 = N2" "hi_nib 46 = N2" "hi_nib 47 = N2"
  "hi_nib 48 = N3" "hi_nib 49 = N3" "hi_nib 50 = N3" "hi_nib 51 = N3" "hi_nib 52 = N3" "hi_nib 53 = N3"
  "hi_nib 54 = N3" "hi_nib 55 = N3" "hi_nib 56 = N3" "hi_nib 57 = N3" "hi_nib 58 = N3" "hi_nib 59 = N3"
  "hi_nib 60 = N3" "hi_nib 61 = N3" "hi_nib 62 = N3" "hi_nib 63 = N3" "hi_nib 64 = N4" "hi_nib 65 = N4"
  "hi_nib 66 = N4" "hi_nib 67 = N4" "hi_nib 68 = N4" "hi_nib 69 = N4" "hi_nib 70 = N4" "hi_nib 71 = N4"
  "hi_nib 72 = N4" "hi_nib 73 = N4" "hi_nib 74 = N4" "hi_nib 75 = N4" "hi_nib 76 = N4" "hi_nib 77 = N4"
  "hi_nib 78 = N4" "hi_nib 79 = N4" "hi_nib 80 = N5" "hi_nib 81 = N5" "hi_nib 82 = N5" "hi_nib 83 = N5"
  "hi_nib 84 = N5" "hi_nib 85 = N5" "hi_nib 86 = N5" "hi_nib 87 = N5" "hi_nib 88 = N5" "hi_nib 89 = N5"
  "hi_nib 90 = N5" "hi_nib 91 = N5" "hi_nib 92 = N5" "hi_nib 93 = N5" "hi_nib 94 = N5" "hi_nib 95 = N5"
  "hi_nib 96 = N6" "hi_nib 97 = N6" "hi_nib 98 = N6" "hi_nib 99 = N6" "hi_nib 100 = N6" "hi_nib 101 = N6"
  "hi_nib 102 = N6" "hi_nib 103 = N6" "hi_nib 104 = N6" "hi_nib 105 = N6" "hi_nib 106 = N6" "hi_nib 107 = N6"
  "hi_nib 108 = N6" "hi_nib 109 = N6" "hi_nib 110 = N6" "hi_nib 111 = N6" "hi_nib 112 = N7" "hi_nib 113 = N7"
  "hi_nib 114 = N7" "hi_nib 115 = N7" "hi_nib 116 = N7" "hi_nib 117 = N7" "hi_nib 118 = N7" "hi_nib 119 = N7"
  "hi_nib 120 = N7" "hi_nib 121 = N7" "hi_nib 122 = N7" "hi_nib 123 = N7" "hi_nib 124 = N7" "hi_nib 125 = N7"
  "hi_nib 126 = N7" "hi_nib 127 = N7" "hi_nib 128 = N8" "hi_nib 129 = N8" "hi_nib 130 = N8" "hi_nib 131 = N8"
  "hi_nib 132 = N8" "hi_nib 133 = N8" "hi_nib 134 = N8" "hi_nib 135 = N8" "hi_nib 136 = N8" "hi_nib 137 = N8"
  "hi_nib 138 = N8" "hi_nib 139 = N8" "hi_nib 140 = N8" "hi_nib 141 = N8" "hi_nib 142 = N8" "hi_nib 143 = N8"
  "hi_nib 144 = N9" "hi_nib 145 = N9" "hi_nib 146 = N9" "hi_nib 147 = N9" "hi_nib 148 = N9" "hi_nib 149 = N9"
  "hi_nib 150 = N9" "hi_nib 151 = N9" "hi_nib 152 = N9" "hi_nib 153 = N9" "hi_nib 154 = N9" "hi_nib 155 = N9"
  "hi_nib 156 = N9" "hi_nib 157 = N9" "hi_nib 158 = N9" "hi_nib 159 = N9" "hi_nib 160 = NA" "hi_nib 161 = NA"
  "hi_nib 162 = NA" "hi_nib 163 = NA" "hi_nib 164 = NA" "hi_nib 165 = NA" "hi_nib 166 = NA" "hi_nib 167 = NA"
  "hi_nib 168 = NA" "hi_nib 169 = NA" "hi_nib 170 = NA" "hi_nib 171 = NA" "hi_nib 172 = NA" "hi_nib 173 = NA"
  "hi_nib 174 = NA" "hi_nib 175 = NA" "hi_nib 176 = NB" "hi_nib 177 = NB" "hi_nib 178 = NB" "hi_nib 179 = NB"
  "hi_nib 180 = NB" "hi_nib 181 = NB" "hi_nib 182 = NB" "hi_nib 183 = NB" "hi_nib 184 = NB" "hi_nib 185 = NB"
  "hi_nib 186 = NB" "hi_nib 187 = NB" "hi_nib 188 = NB" "hi_nib 189 = NB" "hi_nib 190 = NB" "hi_nib 191 = NB"
  "hi_nib 192 = NC" "hi_nib 193 = NC" "hi_nib 194 = NC" "hi_nib 195 = NC" "hi_nib 196 = NC" "hi_nib 197 = NC"
  "hi_nib 198 = NC" "hi_nib 199 = NC" "hi_nib 200 = NC" "hi_nib 201 = NC" "hi_nib 202 = NC" "hi_nib 203 = NC"
  "hi_nib 204 = NC" "hi_nib 205 = NC" "hi_nib 206 = NC" "hi_nib 207 = NC" "hi_nib 208 = ND" "hi_nib 209 = ND"
  "hi_nib 210 = ND" "hi_nib 211 = ND" "hi_nib 212 = ND" "hi_nib 213 = ND" "hi_nib 214 = ND" "hi_nib 215 = ND"
  "hi_nib 216 = ND" "hi_nib 217 = ND" "hi_nib 218 = ND" "hi_nib 219 = ND" "hi_nib 220 = ND" "hi_nib 221 = ND"
  "hi_nib 222 = ND" "hi_nib 223 = ND" "hi_nib 224 = NE" "hi_nib 225 = NE" "hi_nib 226 = NE" "hi_nib 227 = NE"
  "hi_nib 228 = NE" "hi_nib 229 = NE" "hi_nib 230 = NE" "hi_nib 231 = NE" "hi_nib 232 = NE" "hi_nib 233 = NE"
  "hi_nib 234 = NE" "hi_nib 235 = NE" "hi_nib 236 = NE" "hi_nib 237 = NE" "hi_nib 238 = NE" "hi_nib 239 = NE"
  "hi_nib 240 = NF" "hi_nib 241 = NF" "hi_nib 242 = NF" "hi_nib 243 = NF" "hi_nib 244 = NF" "hi_nib 245 = NF"
  "hi_nib 246 = NF" "hi_nib 247 = NF" "hi_nib 248 = NF" "hi_nib 249 = NF" "hi_nib 250 = NF" "hi_nib 251 = NF"
  "hi_nib 252 = NF" "hi_nib 253 = NF" "hi_nib 254 = NF" "hi_nib 255 = NF"
  by (simp_all add: hi_nib_def nib_of_def)

lemma nib_byte_table:
  "nib_byte N0 N0 = 0" "nib_byte N0 N1 = 1" "nib_byte N0 N2 = 2" "nib_byte N0 N3 = 3" "nib_byte N0 N4 = 4"
  "nib_byte N0 N5 = 5" "nib_byte N0 N6 = 6" "nib_byte N0 N7 = 7" "nib_byte N0 N8 = 8" "nib_byte N0 N9 = 9"
  "nib_byte N0 NA = 10" "nib_byte N0 NB = 11" "nib_byte N0 NC = 12" "nib_byte N0 ND = 13"
  "nib_byte N0 NE = 14" "nib_byte N0 NF = 15" "nib_byte N1 N0 = 16" "nib_byte N1 N1 = 17"
  "nib_byte N1 N2 = 18" "nib_byte N1 N3 = 19" "nib_byte N1 N4 = 20" "nib_byte N1 N5 = 21"
  "nib_byte N1 N6 = 22" "nib_byte N1 N7 = 23" "nib_byte N1 N8 = 24" "nib_byte N1 N9 = 25"
  "nib_byte N1 NA = 26" "nib_byte N1 NB = 27" "nib_byte N1 NC = 28" "nib_byte N1 ND = 29"
  "nib_byte N1 NE = 30" "nib_byte N1 NF = 31" "nib_byte N2 N0 = 32" "nib_byte N2 N1 = 33"
  "nib_byte N2 N2 = 34" "nib_byte N2 N3 = 35" "nib_byte N2 N4 = 36" "nib_byte N2 N5 = 37"
  "nib_byte N2 N6 = 38" "nib_byte N2 N7 = 39" "nib_byte N2 N8 = 40" "nib_byte N2 N9 = 41"
  "nib_byte N2 NA = 42" "nib_byte N2 NB = 43" "nib_byte N2 NC = 44" "nib_byte N2 ND = 45"
  "nib_byte N2 NE = 46" "nib_byte N2 NF = 47" "nib_byte N3 N0 = 48" "nib_byte N3 N1 = 49"
  "nib_byte N3 N2 = 50" "nib_byte N3 N3 = 51" "nib_byte N3 N4 = 52" "nib_byte N3 N5 = 53"
  "nib_byte N3 N6 = 54" "nib_byte N3 N7 = 55" "nib_byte N3 N8 = 56" "nib_byte N3 N9 = 57"
  "nib_byte N3 NA = 58" "nib_byte N3 NB = 59" "nib_byte N3 NC = 60" "nib_byte N3 ND = 61"
  "nib_byte N3 NE = 62" "nib_byte N3 NF = 63" "nib_byte N4 N0 = 64" "nib_byte N4 N1 = 65"
  "nib_byte N4 N2 = 66" "nib_byte N4 N3 = 67" "nib_byte N4 N4 = 68" "nib_byte N4 N5 = 69"
  "nib_byte N4 N6 = 70" "nib_byte N4 N7 = 71" "nib_byte N4 N8 = 72" "nib_byte N4 N9 = 73"
  "nib_byte N4 NA = 74" "nib_byte N4 NB = 75" "nib_byte N4 NC = 76" "nib_byte N4 ND = 77"
  "nib_byte N4 NE = 78" "nib_byte N4 NF = 79" "nib_byte N5 N0 = 80" "nib_byte N5 N1 = 81"
  "nib_byte N5 N2 = 82" "nib_byte N5 N3 = 83" "nib_byte N5 N4 = 84" "nib_byte N5 N5 = 85"
  "nib_byte N5 N6 = 86" "nib_byte N5 N7 = 87" "nib_byte N5 N8 = 88" "nib_byte N5 N9 = 89"
  "nib_byte N5 NA = 90" "nib_byte N5 NB = 91" "nib_byte N5 NC = 92" "nib_byte N5 ND = 93"
  "nib_byte N5 NE = 94" "nib_byte N5 NF = 95" "nib_byte N6 N0 = 96" "nib_byte N6 N1 = 97"
  "nib_byte N6 N2 = 98" "nib_byte N6 N3 = 99" "nib_byte N6 N4 = 100" "nib_byte N6 N5 = 101"
  "nib_byte N6 N6 = 102" "nib_byte N6 N7 = 103" "nib_byte N6 N8 = 104" "nib_byte N6 N9 = 105"
  "nib_byte N6 NA = 106" "nib_byte N6 NB = 107" "nib_byte N6 NC = 108" "nib_byte N6 ND = 109"
  "nib_byte N6 NE = 110" "nib_byte N6 NF = 111" "nib_byte N7 N0 = 112" "nib_byte N7 N1 = 113"
  "nib_byte N7 N2 = 114" "nib_byte N7 N3 = 115" "nib_byte N7 N4 = 116" "nib_byte N7 N5 = 117"
  "nib_byte N7 N6 = 118" "nib_byte N7 N7 = 119" "nib_byte N7 N8 = 120" "nib_byte N7 N9 = 121"
  "nib_byte N7 NA = 122" "nib_byte N7 NB = 123" "nib_byte N7 NC = 124" "nib_byte N7 ND = 125"
  "nib_byte N7 NE = 126" "nib_byte N7 NF = 127" "nib_byte N8 N0 = 128" "nib_byte N8 N1 = 129"
  "nib_byte N8 N2 = 130" "nib_byte N8 N3 = 131" "nib_byte N8 N4 = 132" "nib_byte N8 N5 = 133"
  "nib_byte N8 N6 = 134" "nib_byte N8 N7 = 135" "nib_byte N8 N8 = 136" "nib_byte N8 N9 = 137"
  "nib_byte N8 NA = 138" "nib_byte N8 NB = 139" "nib_byte N8 NC = 140" "nib_byte N8 ND = 141"
  "nib_byte N8 NE = 142" "nib_byte N8 NF = 143" "nib_byte N9 N0 = 144" "nib_byte N9 N1 = 145"
  "nib_byte N9 N2 = 146" "nib_byte N9 N3 = 147" "nib_byte N9 N4 = 148" "nib_byte N9 N5 = 149"
  "nib_byte N9 N6 = 150" "nib_byte N9 N7 = 151" "nib_byte N9 N8 = 152" "nib_byte N9 N9 = 153"
  "nib_byte N9 NA = 154" "nib_byte N9 NB = 155" "nib_byte N9 NC = 156" "nib_byte N9 ND = 157"
  "nib_byte N9 NE = 158" "nib_byte N9 NF = 159" "nib_byte NA N0 = 160" "nib_byte NA N1 = 161"
  "nib_byte NA N2 = 162" "nib_byte NA N3 = 163" "nib_byte NA N4 = 164" "nib_byte NA N5 = 165"
  "nib_byte NA N6 = 166" "nib_byte NA N7 = 167" "nib_byte NA N8 = 168" "nib_byte NA N9 = 169"
  "nib_byte NA NA = 170" "nib_byte NA NB = 171" "nib_byte NA NC = 172" "nib_byte NA ND = 173"
  "nib_byte NA NE = 174" "nib_byte NA NF = 175" "nib_byte NB N0 = 176" "nib_byte NB N1 = 177"
  "nib_byte NB N2 = 178" "nib_byte NB N3 = 179" "nib_byte NB N4 = 180" "nib_byte NB N5 = 181"
  "nib_byte NB N6 = 182" "nib_byte NB N7 = 183" "nib_byte NB N8 = 184" "nib_byte NB N9 = 185"
  "nib_byte NB NA = 186" "nib_byte NB NB = 187" "nib_byte NB NC = 188" "nib_byte NB ND = 189"
  "nib_byte NB NE = 190" "nib_byte NB NF = 191" "nib_byte NC N0 = 192" "nib_byte NC N1 = 193"
  "nib_byte NC N2 = 194" "nib_byte NC N3 = 195" "nib_byte NC N4 = 196" "nib_byte NC N5 = 197"
  "nib_byte NC N6 = 198" "nib_byte NC N7 = 199" "nib_byte NC N8 = 200" "nib_byte NC N9 = 201"
  "nib_byte NC NA = 202" "nib_byte NC NB = 203" "nib_byte NC NC = 204" "nib_byte NC ND = 205"
  "nib_byte NC NE = 206" "nib_byte NC NF = 207" "nib_byte ND N0 = 208" "nib_byte ND N1 = 209"
  "nib_byte ND N2 = 210" "nib_byte ND N3 = 211" "nib_byte ND N4 = 212" "nib_byte ND N5 = 213"
  "nib_byte ND N6 = 214" "nib_byte ND N7 = 215" "nib_byte ND N8 = 216" "nib_byte ND N9 = 217"
  "nib_byte ND NA = 218" "nib_byte ND NB = 219" "nib_byte ND NC = 220" "nib_byte ND ND = 221"
  "nib_byte ND NE = 222" "nib_byte ND NF = 223" "nib_byte NE N0 = 224" "nib_byte NE N1 = 225"
  "nib_byte NE N2 = 226" "nib_byte NE N3 = 227" "nib_byte NE N4 = 228" "nib_byte NE N5 = 229"
  "nib_byte NE N6 = 230" "nib_byte NE N7 = 231" "nib_byte NE N8 = 232" "nib_byte NE N9 = 233"
  "nib_byte NE NA = 234" "nib_byte NE NB = 235" "nib_byte NE NC = 236" "nib_byte NE ND = 237"
  "nib_byte NE NE = 238" "nib_byte NE NF = 239" "nib_byte NF N0 = 240" "nib_byte NF N1 = 241"
  "nib_byte NF N2 = 242" "nib_byte NF N3 = 243" "nib_byte NF N4 = 244" "nib_byte NF N5 = 245"
  "nib_byte NF N6 = 246" "nib_byte NF N7 = 247" "nib_byte NF N8 = 248" "nib_byte NF N9 = 249"
  "nib_byte NF NA = 250" "nib_byte NF NB = 251" "nib_byte NF NC = 252" "nib_byte NF ND = 253"
  "nib_byte NF NE = 254" "nib_byte NF NF = 255"
  by (simp_all add: nib_byte_def)


section \<open>The evaluator\<close>

definition nbits :: "nib \<Rightarrow> bool list" where
  "nbits a = (let v = nib_val a in [odd v, odd (v div 2), odd (v div 4), odd (v div 8)])"

definition wv :: "nib list \<Rightarrow> u32" where
  "wv xs = horner_sum of_bool 2 (concat (map nbits xs))"

fun e_big0 :: "nib list \<Rightarrow> nib list" where
  "e_big0 [a, b, c, d, e, f, g, h] =
    [nxor (nxor (nrot2 a b) (nrot1 d e)) (nrot2 f g),
     nxor (nxor (nrot2 b c) (nrot1 e f)) (nrot2 g h),
     nxor (nxor (nrot2 c d) (nrot1 f g)) (nrot2 h a),
     nxor (nxor (nrot2 d e) (nrot1 g h)) (nrot2 a b),
     nxor (nxor (nrot2 e f) (nrot1 h a)) (nrot2 b c),
     nxor (nxor (nrot2 f g) (nrot1 a b)) (nrot2 c d),
     nxor (nxor (nrot2 g h) (nrot1 b c)) (nrot2 d e),
     nxor (nxor (nrot2 h a) (nrot1 c d)) (nrot2 e f)]"
| "e_big0 xs = xs"

fun e_big1 :: "nib list \<Rightarrow> nib list" where
  "e_big1 [a, b, c, d, e, f, g, h] =
    [nxor (nxor (nrot2 b c) (nrot3 c d)) (nrot1 g h),
     nxor (nxor (nrot2 c d) (nrot3 d e)) (nrot1 h a),
     nxor (nxor (nrot2 d e) (nrot3 e f)) (nrot1 a b),
     nxor (nxor (nrot2 e f) (nrot3 f g)) (nrot1 b c),
     nxor (nxor (nrot2 f g) (nrot3 g h)) (nrot1 c d),
     nxor (nxor (nrot2 g h) (nrot3 h a)) (nrot1 d e),
     nxor (nxor (nrot2 h a) (nrot3 a b)) (nrot1 e f),
     nxor (nxor (nrot2 a b) (nrot3 b c)) (nrot1 f g)]"
| "e_big1 xs = xs"

fun e_small0 :: "nib list \<Rightarrow> nib list" where
  "e_small0 [a, b, c, d, e, f, g, h] =
    [nxor (nxor (nrot3 b c) (nrot2 e f)) (nrot3 a b),
     nxor (nxor (nrot3 c d) (nrot2 f g)) (nrot3 b c),
     nxor (nxor (nrot3 d e) (nrot2 g h)) (nrot3 c d),
     nxor (nxor (nrot3 e f) (nrot2 h a)) (nrot3 d e),
     nxor (nxor (nrot3 f g) (nrot2 a b)) (nrot3 e f),
     nxor (nxor (nrot3 g h) (nrot2 b c)) (nrot3 f g),
     nxor (nxor (nrot3 h a) (nrot2 c d)) (nrot3 g h),
     nxor (nxor (nrot3 a b) (nrot2 d e)) (nrot3 h N0)]"
| "e_small0 xs = xs"

fun e_small1 :: "nib list \<Rightarrow> nib list" where
  "e_small1 [a, b, c, d, e, f, g, h] =
    [nxor (nxor (nrot1 e f) (nrot3 e f)) (nrot2 c d),
     nxor (nxor (nrot1 f g) (nrot3 f g)) (nrot2 d e),
     nxor (nxor (nrot1 g h) (nrot3 g h)) (nrot2 e f),
     nxor (nxor (nrot1 h a) (nrot3 h a)) (nrot2 f g),
     nxor (nxor (nrot1 a b) (nrot3 a b)) (nrot2 g h),
     nxor (nxor (nrot1 b c) (nrot3 b c)) (nrot2 h N0),
     nxor (nxor (nrot1 c d) (nrot3 c d)) (nrot2 N0 N0),
     nxor (nxor (nrot1 d e) (nrot3 d e)) (nrot2 N0 N0)]"
| "e_small1 xs = xs"

fun e_ch :: "nib list \<Rightarrow> nib list \<Rightarrow> nib list \<Rightarrow> nib list" where
  "e_ch (x # xs) (y # ys) (z # zs) = nxor z (nand x (nxor y z)) # e_ch xs ys zs"
| "e_ch _ _ _ = []"

fun e_maj :: "nib list \<Rightarrow> nib list \<Rightarrow> nib list \<Rightarrow> nib list" where
  "e_maj (x # xs) (y # ys) (z # zs) = nxor (nand x y) (nand z (nxor x y)) # e_maj xs ys zs"
| "e_maj _ _ _ = []"

fun e_carry :: "nib \<times> bool \<Rightarrow> nib list \<Rightarrow> nib list \<Rightarrow> nib list" where
  "e_carry (s, c) (a # as) (b # bs) = s # e_carry (nadc a b c) as bs"
| "e_carry (s, c) _ _ = [s]"

fun e_add :: "nib list \<Rightarrow> nib list \<Rightarrow> nib list" where
  "e_add (a # as) (b # bs) = e_carry (nadc a b False) as bs"
| "e_add _ _ = []"

definition e_k :: "nib list list" where
  "e_k =
    [[N8, N9, NF, N2, NA, N8, N2, N4],
     [N1, N9, N4, N4, N7, N3, N1, N7],
     [NF, NC, NB, NF, N0, NC, N5, NB],
     [N5, NA, NB, ND, N5, NB, N9, NE],
     [NB, N5, N2, NC, N6, N5, N9, N3],
     [N1, NF, N1, N1, N1, NF, N9, N5],
     [N4, NA, N2, N8, NF, N3, N2, N9],
     [N5, ND, NE, N5, NC, N1, NB, NA],
     [N8, N9, NA, NA, N7, N0, N8, ND],
     [N1, N0, NB, N5, N3, N8, N2, N1],
     [NE, NB, N5, N8, N1, N3, N4, N2],
     [N3, NC, ND, N7, NC, N0, N5, N5],
     [N4, N7, ND, N5, NE, NB, N2, N7],
     [NE, NF, N1, NB, NE, ND, N0, N8],
     [N7, NA, N6, N0, NC, ND, NB, N9],
     [N4, N7, N1, NF, NB, N9, N1, NC],
     [N1, NC, N9, N6, NB, N9, N4, NE],
     [N6, N8, N7, N4, NE, NB, NF, NE],
     [N6, NC, ND, N9, N1, NC, NF, N0],
     [NC, NC, N1, NA, NC, N0, N4, N2],
     [NF, N6, NC, N2, N9, NE, ND, N2],
     [NA, NA, N4, N8, N4, N7, NA, N4],
     [NC, ND, N9, NA, N0, NB, NC, N5],
     [NA, ND, N8, N8, N9, NF, N6, N7],
     [N2, N5, N1, N5, NE, N3, N8, N9],
     [ND, N6, N6, NC, N1, N3, N8, NA],
     [N8, NC, N7, N2, N3, N0, N0, NB],
     [N7, NC, NF, N7, N9, N5, NF, NB],
     [N3, NF, NB, N0, N0, NE, N6, NC],
     [N7, N4, N1, N9, N7, NA, N5, ND],
     [N1, N5, N3, N6, NA, NC, N6, N0],
     [N7, N6, N9, N2, N9, N2, N4, N1],
     [N5, N8, NA, N0, N7, NB, N7, N2],
     [N8, N3, N1, N2, NB, N1, NE, N2],
     [NC, NF, ND, N6, NC, N2, ND, N4],
     [N3, N1, ND, N0, N8, N3, N3, N5],
     [N4, N5, N3, N7, NA, N0, N5, N6],
     [NB, NB, NA, N0, NA, N6, N6, N7],
     [NE, N2, N9, NC, N2, NC, N1, N8],
     [N5, N8, NC, N2, N2, N7, N2, N9],
     [N1, NA, N8, NE, NF, NB, N2, NA],
     [NB, N4, N6, N6, NA, N1, N8, NA],
     [N0, N7, NB, N8, NB, N4, N2, NC],
     [N3, NA, N1, N5, NC, N6, N7, NC],
     [N9, N1, N8, NE, N2, N9, N1, ND],
     [N4, N2, N6, N0, N9, N9, N6, ND],
     [N5, N8, N5, N3, NE, N0, N4, NF],
     [N0, N7, N0, NA, NA, N6, N0, N1],
     [N6, N1, N1, NC, N4, NA, N9, N1],
     [N8, N0, NC, N6, N7, N3, NE, N1],
     [NC, N4, N7, N7, N8, N4, N7, N2],
     [N5, NB, NC, NB, N0, NB, N4, N3],
     [N3, NB, NC, N0, NC, N1, N9, N3],
     [NA, N4, NA, NA, N8, ND, NE, N4],
     [NF, N4, NA, NC, NC, N9, NB, N5],
     [N3, NF, NF, N6, NE, N2, N8, N6],
     [NE, NE, N2, N8, NF, N8, N4, N7],
     [NF, N6, N3, N6, N5, NA, N8, N7],
     [N4, N1, N8, N7, N8, NC, N4, N8],
     [N8, N0, N2, N0, N7, NC, NC, N8],
     [NA, NF, NF, NF, NE, NB, N0, N9],
     [NB, NE, NC, N6, N0, N5, N4, NA],
     [N7, NF, N3, NA, N9, NF, NE, NB],
     [N2, NF, N8, N7, N1, N7, N6, NC]]"

definition e_h0 :: "nib list list" where
  "e_h0 =
    [[N7, N6, N6, NE, N9, N0, NA, N6],
     [N5, N8, NE, NA, N7, N6, NB, NB],
     [N2, N7, N3, NF, NE, N6, NC, N3],
     [NA, N3, N5, NF, NF, N4, N5, NA],
     [NF, N7, N2, N5, NE, N0, N1, N5],
     [NC, N8, N8, N6, N5, N0, NB, N9],
     [NB, NA, N9, ND, N3, N8, NF, N1],
     [N9, N1, ND, NC, N0, NE, NB, N5]]"

section \<open>Correctness\<close>

lemma nib_val_less [simp]: "nib_val a < 16"
  by (cases a) simp_all

lemma nib_val_of [simp]: "nib_val (nib_of n) = n mod 16"
proof -
  define m where "m = n mod 16"
  have "m < 16" by (simp add: m_def)
  then have "m = 0 \<or> m = 1 \<or> m = 2 \<or> m = 3 \<or> m = 4 \<or> m = 5 \<or> m = 6 \<or> m = 7 \<or> m = 8 \<or> m = 9 \<or> m = 10 \<or> m = 11 \<or> m = 12 \<or> m = 13 \<or> m = 14 \<or> m = 15"
    by arith
  then have "nib_val ([N0, N1, N2, N3, N4, N5, N6, N7, N8, N9, NA, NB, NC, ND, NE, NF] ! m) = m"
    by (elim disjE) simp_all
  then show ?thesis by (simp add: nib_of_def m_def)
qed

lemma length_nbits [simp]: "length (nbits a) = 4"
  by (simp add: nbits_def Let_def)

lemma nval_bits: "horner_sum of_bool 2 (nbits a) = (of_nat (nib_val a) :: 'a :: comm_semiring_1)"
  by (cases a) (simp_all add: nbits_def)

primrec nval :: "nib list \<Rightarrow> nat" where
  "nval [] = 0"
| "nval (x # xs) = nib_val x + 16 * nval xs"

lemma wv_nval: "wv xs = of_nat (nval xs)"
proof (induction xs)
  case Nil
  then show ?case by (simp add: wv_def)
next
  case (Cons x xs)
  have "wv (x # xs) = horner_sum of_bool 2 (nbits x) + 2 ^ 4 * wv xs"
    by (simp add: wv_def horner_sum_append)
  with Cons.IH show ?case by (simp add: nval_bits)
qed

lemma nval_less: "nval xs < 16 ^ length xs"
proof (induction xs)
  case (Cons x xs)
  have "nib_val x + 16 * nval xs < 16 + 16 * nval xs" by simp
  also have "\<dots> \<le> 16 * 16 ^ length xs" using Cons.IH by simp
  finally show ?case by simp
qed simp

subsection \<open>Addition\<close>

lemma nadc_val:
  assumes "nadc a b c = (s, d)"
  shows "nib_val s + 16 * of_bool d = nib_val a + nib_val b + of_bool c"
proof -
  define t where "t = nib_val a + nib_val b + of_bool c"
  have "t < 32" using nib_val_less [of a] nib_val_less [of b]
    by (auto simp: t_def simp del: nib_val_less)
  moreover have "nib_val s = t mod 16" and "d = (16 \<le> t)"
    using assms by (auto simp: nadc_def Let_def t_def)
  moreover have "16 \<le> t \<Longrightarrow> t < 32 \<Longrightarrow> t mod 16 + 16 = t" by presburger
  ultimately have "nib_val s + 16 * of_bool d = t"
    by (cases "16 \<le> t") simp_all
  then show ?thesis by (simp add: t_def)
qed

lemma e_carry_length [simp]: "length xs = length ys \<Longrightarrow> length (e_carry p xs ys) = Suc (length xs)"
  by (induction p xs ys rule: e_carry.induct) auto

lemma e_carry_val:
  "length xs = length ys \<Longrightarrow>
   \<exists>k. nval (e_carry (s, c) xs ys) + 16 ^ Suc (length xs) * k
       = nib_val s + 16 * (nval xs + nval ys + of_bool c)"
proof (induction xs ys arbitrary: s c rule: list_induct2)
  case Nil
  then show ?case by (intro exI [of _ "of_bool c"]) simp
next
  case (Cons x xs y ys)
  obtain t d where t: "nadc x y c = (t, d)" by (cases "nadc x y c")
  note v = nadc_val [OF t]
  from Cons.IH [of t d] obtain k where
    k: "nval (e_carry (t, d) xs ys) + 16 ^ Suc (length xs) * k
        = nib_val t + 16 * (nval xs + nval ys + of_bool d)" by blast
  have "nval (e_carry (s, c) (x # xs) (y # ys)) + 16 ^ Suc (length (x # xs)) * k
      = nib_val s + 16 * (nval (e_carry (t, d) xs ys) + 16 ^ Suc (length xs) * k)"
    by (simp add: t algebra_simps)
  also have "\<dots> = nib_val s + 16 * ((nib_val t + 16 * of_bool d) + 16 * (nval xs + nval ys))"
    by (simp only: k) (simp add: algebra_simps)
  also have "\<dots> = nib_val s + 16 * (nval (x # xs) + nval (y # ys) + of_bool c)"
    by (simp only: v) (simp add: algebra_simps)
  finally show ?case by blast
qed

lemma e_add_length [simp]: "length xs = length ys \<Longrightarrow> length (e_add xs ys) = length xs"
  by (cases xs; cases ys) auto

lemma wv_add:
  assumes "length xs = 8" "length ys = 8"
  shows "wv (e_add xs ys) = wv xs + wv ys"
proof -
  obtain x xs' where x: "xs = x # xs'" "length xs' = 7" using assms by (cases xs) auto
  obtain y ys' where y: "ys = y # ys'" "length ys' = 7" using assms by (cases ys) auto
  obtain t d where t: "nadc x y False = (t, d)" by (cases "nadc x y False")
  note v = nadc_val [OF t]
  obtain k where k: "nval (e_carry (t, d) xs' ys') + 16 ^ Suc 7 * k
        = nib_val t + 16 * (nval xs' + nval ys' + of_bool d)"
    using e_carry_val [of xs' ys' t d] x y by auto
  have "nval (e_add xs ys) + 16 ^ Suc 7 * k = (nib_val t + 16 * of_bool d) + 16 * (nval xs' + nval ys')"
    using k by (simp add: x y t)
  also have "\<dots> = nval xs + nval ys"
    by (simp only: v) (simp add: x y algebra_simps)
  finally have e: "nval (e_add xs ys) + 4294967296 * k = nval xs + nval ys" by simp
  have "(4294967296 :: u32) = 0" by simp
  then have "(of_nat (nval (e_add xs ys) + 4294967296 * k) :: u32) = of_nat (nval (e_add xs ys))"
    by (simp only: of_nat_add of_nat_mult of_nat_numeral) simp
  then show ?thesis unfolding e by (simp add: wv_nval)
qed

subsection \<open>Bitwise operations\<close>

lemma bit_wv:
  assumes "length xs = 8"
  shows "bit (wv xs) n \<longleftrightarrow> n < 32 \<and> nbits (xs ! (n div 4)) ! (n mod 4)"
proof -
  have l: "length (concat (map nbits xs)) = 4 * length xs" for xs
    by (induction xs) auto
  have "m < 4 * length ys \<Longrightarrow> concat (map nbits ys) ! m = nbits (ys ! (m div 4)) ! (m mod 4)" for m ys
  proof (induction ys arbitrary: m)
    case (Cons y ys)
    show ?case
    proof (cases "m < 4")
      case True
      then show ?thesis by (simp add: nth_append)
    next
      case False
      with Cons.IH [of "m - 4"] Cons.prems show ?thesis
        by (simp add: nth_append div_if [of m 4] mod_if [of m 4])
    qed
  qed simp
  then show ?thesis
    by (auto simp: wv_def bit_horner_sum_bit_word_iff l assms)
qed

lemma nbits_ops:
  "nbits (nxor a b) = map2 (\<noteq>) (nbits a) (nbits b)"
  "nbits (nand a b) = map2 (\<and>) (nbits a) (nbits b)"
  by (cases a; cases b; simp add: nbits_def nxor_table nand_table)+

lemma nbits_rot:
  "nbits (nrot1 a b) = drop 1 (nbits a) @ take 1 (nbits b)"
  "nbits (nrot2 a b) = drop 2 (nbits a) @ take 2 (nbits b)"
  "nbits (nrot3 a b) = drop 3 (nbits a) @ take 3 (nbits b)"
  by (cases a; cases b; simp add: nbits_def nrot1_table nrot2_table nrot3_table)+

lemma nbits_expand: "nbits a = [nbits a ! 0, nbits a ! 1, nbits a ! 2, nbits a ! 3]"
  by (simp add: nbits_def Let_def)

text \<open>The word of a list of thirty-two bits, least significant first.\<close>

lemma wv_cons8:
  "wv [a, b, c, d, e, f, g, h] =
   horner_sum of_bool 2 (nbits a @ nbits b @ nbits c @ nbits d @ nbits e @ nbits f @ nbits g @ nbits h)"
  by (simp add: wv_def)

lemma rotr_bits:
  assumes "length bs = 32" "n \<le> 32"
  shows "rotr32 n (horner_sum of_bool 2 bs) = horner_sum of_bool 2 (drop n bs @ take n bs)"
proof (rule bit_word_eqI)
  fix i :: nat assume "i < LENGTH(32)"
  then have i: "i < 32" by simp
  show "bit (rotr32 n (horner_sum of_bool 2 bs)) i
      = bit (horner_sum of_bool (2 :: u32) (drop n bs @ take n bs)) i"
    using i assms
    by (auto simp: rotr32_def bit_or_iff bit_drop_bit_eq bit_push_bit_iff bit_horner_sum_bit_word_iff
        nth_append min_def add.commute)
qed

lemma shift_bits:
  assumes "length bs = 32" "n \<le> 32"
  shows "drop_bit n (horner_sum of_bool 2 bs :: u32) = horner_sum of_bool 2 (drop n bs @ replicate n False)"
proof (rule bit_word_eqI)
  fix i :: nat assume "i < LENGTH(32)"
  then have i: "i < 32" by simp
  show "bit (drop_bit n (horner_sum of_bool 2 bs :: u32)) i
      = bit (horner_sum of_bool (2 :: u32) (drop n bs @ replicate n False)) i"
    using i assms
    by (auto simp: bit_drop_bit_eq bit_horner_sum_bit_word_iff nth_append add.commute)
qed

lemma xor_bits:
  assumes "length bs = length cs"
  shows "(horner_sum of_bool 2 bs :: u32) XOR horner_sum of_bool 2 cs
    = horner_sum of_bool 2 (map2 (\<noteq>) bs cs)"
  by (rule bit_word_eqI) (use assms in \<open>auto simp: bit_xor_iff bit_horner_sum_bit_word_iff\<close>)

lemma and_bits:
  assumes "length bs = length cs"
  shows "(horner_sum of_bool 2 bs :: u32) AND horner_sum of_bool 2 cs
    = horner_sum of_bool 2 (map2 (\<and>) bs cs)"
  by (rule bit_word_eqI) (use assms in \<open>auto simp: bit_and_iff bit_horner_sum_bit_word_iff\<close>)

lemma list8: "length xs = 8 \<Longrightarrow> \<exists>a b c d e f g h. xs = [a, b, c, d, e, f, g, h]"
  by (auto simp: numeral_eq_Suc length_Suc_conv)

lemma wv_big0: "length xs = 8 \<Longrightarrow> wv (e_big0 xs) = big_sigma0 (wv xs)"
  and wv_big1: "length xs = 8 \<Longrightarrow> wv (e_big1 xs) = big_sigma1 (wv xs)"
  and wv_small0: "length xs = 8 \<Longrightarrow> wv (e_small0 xs) = small_sigma0 (wv xs)"
  and wv_small1: "length xs = 8 \<Longrightarrow> wv (e_small1 xs) = small_sigma1 (wv xs)"
proof -
  fix xs :: "nib list" assume "length xs = 8"
  then obtain a b c d e f g h where xs: "xs = [a, b, c, d, e, f, g, h]"
    using list8 by blast
  have z: "nbits N0 = [False, False, False, False]" by (simp add: nbits_def)
  obtain a0 a1 a2 a3 where b0: "nbits a = [a0, a1, a2, a3]"
    using nbits_expand by blast
  obtain b0 b1 b2 b3 where b1: "nbits b = [b0, b1, b2, b3]"
    using nbits_expand by blast
  obtain c0 c1 c2 c3 where b2: "nbits c = [c0, c1, c2, c3]"
    using nbits_expand by blast
  obtain d0 d1 d2 d3 where b3: "nbits d = [d0, d1, d2, d3]"
    using nbits_expand by blast
  obtain e0 e1 e2 e3 where b4: "nbits e = [e0, e1, e2, e3]"
    using nbits_expand by blast
  obtain f0 f1 f2 f3 where b5: "nbits f = [f0, f1, f2, f3]"
    using nbits_expand by blast
  obtain g0 g1 g2 g3 where b6: "nbits g = [g0, g1, g2, g3]"
    using nbits_expand by blast
  obtain h0 h1 h2 h3 where b7: "nbits h = [h0, h1, h2, h3]"
    using nbits_expand by blast
  note b = b0 b1 b2 b3 b4 b5 b6 b7
  have rp: "replicate 3 False = [False, False, False]"
    "replicate 10 False = [False, False, False, False, False, False, False, False, False, False]"
    by (simp_all add: numeral_eq_Suc)
  have x3: "((p = (\<not> q)) = (\<not> r)) = (p = (q = r))" for p q r by blast
  show "wv (e_big0 xs) = big_sigma0 (wv xs)"
    by (simp add: xs wv_cons8 nbits_ops nbits_rot b x3 big_sigma0_def rotr_bits xor_bits del: horner_sum_simps)
  show "wv (e_big1 xs) = big_sigma1 (wv xs)"
    by (simp add: xs wv_cons8 nbits_ops nbits_rot b x3 big_sigma1_def rotr_bits xor_bits del: horner_sum_simps)
  show "wv (e_small0 xs) = small_sigma0 (wv xs)"
    by (simp add: xs wv_cons8 nbits_ops nbits_rot b x3 rp z small_sigma0_def rotr_bits shift_bits xor_bits del: horner_sum_simps)
  show "wv (e_small1 xs) = small_sigma1 (wv xs)"
    by (simp add: xs wv_cons8 nbits_ops nbits_rot b x3 rp z small_sigma1_def rotr_bits shift_bits xor_bits del: horner_sum_simps)
qed

lemma length_e_sigma [simp]:
  "length xs = 8 \<Longrightarrow> length (e_big0 xs) = 8" "length xs = 8 \<Longrightarrow> length (e_big1 xs) = 8"
  "length xs = 8 \<Longrightarrow> length (e_small0 xs) = 8" "length xs = 8 \<Longrightarrow> length (e_small1 xs) = 8"
  by (auto dest!: list8)

lemma e_ch_nth:
  "length xs = length ys \<Longrightarrow> length ys = length zs \<Longrightarrow> i < length xs \<Longrightarrow>
   e_ch xs ys zs ! i = nxor (zs ! i) (nand (xs ! i) (nxor (ys ! i) (zs ! i)))"
  by (induction xs ys zs arbitrary: i rule: list_induct3) (auto simp: nth_Cons')

lemma e_maj_nth:
  "length xs = length ys \<Longrightarrow> length ys = length zs \<Longrightarrow> i < length xs \<Longrightarrow>
   e_maj xs ys zs ! i = nxor (nand (xs ! i) (ys ! i)) (nand (zs ! i) (nxor (xs ! i) (ys ! i)))"
  by (induction xs ys zs arbitrary: i rule: list_induct3) (auto simp: nth_Cons')

lemma e_chmaj_length [simp]:
  "length xs = length ys \<Longrightarrow> length ys = length zs \<Longrightarrow> length (e_ch xs ys zs) = length xs"
  "length xs = length ys \<Longrightarrow> length ys = length zs \<Longrightarrow> length (e_maj xs ys zs) = length xs"
  by (induction xs ys zs rule: list_induct3) auto

lemma wv_ch:
  assumes "length xs = 8" "length ys = 8" "length zs = 8"
  shows "wv (e_ch xs ys zs) = sha_ch (wv xs) (wv ys) (wv zs)"
  by (rule bit_word_eqI)
    (use assms in \<open>auto simp: bit_wv e_ch_nth nbits_ops sha_ch_def bit_xor_iff bit_and_iff bit_not_iff\<close>)

lemma wv_maj:
  assumes "length xs = 8" "length ys = 8" "length zs = 8"
  shows "wv (e_maj xs ys zs) = sha_maj (wv xs) (wv ys) (wv zs)"
  by (rule bit_word_eqI)
    (use assms in \<open>auto simp: bit_wv e_maj_nth nbits_ops sha_maj_def bit_xor_iff bit_and_iff\<close>)

subsection \<open>The rounds\<close>

definition e_fin ::
  "nib list list \<Rightarrow> nib list \<Rightarrow> nib list \<Rightarrow> nib list \<Rightarrow> nib list list \<Rightarrow> nib list list \<times> nib list list"
where
  "e_fin ws t1 t2 w' s =
     (ws @ [w'], [e_add t1 t2, s ! 0, s ! 1, s ! 2, e_add (s ! 3) t1, s ! 4, s ! 5, s ! 6])"

definition e_round :: "nib list \<Rightarrow> nib list list \<Rightarrow> nib list list \<Rightarrow> nib list list \<times> nib list list" where
  "e_round k ws s =
     e_fin (tl ws)
       (e_add (e_add (e_add (e_add (s ! 7) (e_big1 (s ! 4))) (e_ch (s ! 4) (s ! 5) (s ! 6))) k) (ws ! 0))
       (e_add (e_big0 (s ! 0)) (e_maj (s ! 0) (s ! 1) (s ! 2)))
       (e_add (e_add (e_add (e_small1 (ws ! 14)) (ws ! 9)) (e_small0 (ws ! 1))) (ws ! 0))
       s"

fun e_rounds :: "nib list list \<Rightarrow> nib list list \<times> nib list list \<Rightarrow> nib list list" where
  "e_rounds [] (ws, s) = s"
| "e_rounds (k # ks) (ws, s) = e_rounds ks (e_round k ws s)"

fun e_adds :: "nib list list \<Rightarrow> nib list list \<Rightarrow> nib list list" where
  "e_adds (x # xs) (y # ys) = e_add x y # e_adds xs ys"
| "e_adds _ _ = []"

lemma e_fin_eval:
  "e_fin ws t1 t2 w' [a, b, c, d, e, f, g, h] =
     (ws @ [w'], [e_add t1 t2, a, b, c, e_add d t1, e, f, g])"
  by (simp add: e_fin_def)

lemma e_round_eval:
  "e_round k [w0, w1, w2, w3, w4, w5, w6, w7, w8, w9, w10, w11, w12, w13, w14, w15]
     [a, b, c, d, e, f, g, h] =
   e_fin [w1, w2, w3, w4, w5, w6, w7, w8, w9, w10, w11, w12, w13, w14, w15]
     (e_add (e_add (e_add (e_add h (e_big1 e)) (e_ch e f g)) k) w0)
     (e_add (e_big0 a) (e_maj a b c))
     (e_add (e_add (e_add (e_small1 w14) w9) (e_small0 w1)) w0)
     [a, b, c, d, e, f, g, h]"
  by (simp add: e_round_def)

fun tup8 :: "'a list \<Rightarrow> 'a \<times> 'a \<times> 'a \<times> 'a \<times> 'a \<times> 'a \<times> 'a \<times> 'a" where
  "tup8 [a, b, c, d, e, f, g, h] = (a, b, c, d, e, f, g, h)"
| "tup8 xs = undefined"

definition ok8 :: "nib list list \<Rightarrow> bool" where
  "ok8 s \<longleftrightarrow> (\<forall>x \<in> set s. length x = 8)"

lemma sha_rounds_step:
  "sha_rounds (k # ks) [w0, w1, w2, w3, w4, w5, w6, w7, w8, w9, w10, w11, w12, w13, w14, w15]
     (a, b, c, d, e, f, g, h) =
   sha_rounds ks [w1, w2, w3, w4, w5, w6, w7, w8, w9, w10, w11, w12, w13, w14, w15,
       small_sigma1 w14 + w9 + small_sigma0 w1 + w0]
     ((h + big_sigma1 e + sha_ch e f g + k + w0) + (big_sigma0 a + sha_maj a b c), a, b, c,
      d + (h + big_sigma1 e + sha_ch e f g + k + w0), e, f, g)"
  by (simp only: sha_rounds.simps Let_def append.simps) simp

lemma e_rounds_correct:
  assumes "ok8 ks" "ok8 ws" "ok8 s" "length ws = 16" "length s = 8"
  shows "ok8 (e_rounds ks (ws, s)) \<and> length (e_rounds ks (ws, s)) = 8 \<and>
    tup8 (map wv (e_rounds ks (ws, s))) = sha_rounds (map wv ks) (map wv ws) (tup8 (map wv s))"
  using assms
proof (induction ks arbitrary: ws s)
  case Nil
  then show ?case by simp
next
  case (Cons k ks)
  obtain a b c d e f g h where s: "s = [a, b, c, d, e, f, g, h]"
    using Cons.prems by (auto simp: numeral_eq_Suc length_Suc_conv)
  obtain w0 w1 w2 w3 w4 w5 w6 w7 w8 w9 w10 w11 w12 w13 w14 w15 where
    ws: "ws = [w0, w1, w2, w3, w4, w5, w6, w7, w8, w9, w10, w11, w12, w13, w14, w15]"
    using Cons.prems by (auto simp: numeral_eq_Suc length_Suc_conv)
  have len: "length k = 8" "length a = 8" "length b = 8" "length c = 8" "length d = 8" "length e = 8"
    "length f = 8" "length g = 8" "length h = 8" "length w0 = 8" "length w1 = 8" "length w9 = 8"
    "length w14 = 8"
    using Cons.prems by (simp_all add: s ws ok8_def)
  obtain ws' s' where e: "e_round k ws s = (ws', s')" by (cases "e_round k ws s")
  have ok: "ok8 ws'" "ok8 s'" "length ws' = 16" "length s' = 8"
    using e Cons.prems len by (auto simp: s ws e_round_eval e_fin_eval ok8_def)
  define t1 where "t1 = e_add (e_add (e_add (e_add h (e_big1 e)) (e_ch e f g)) k) w0"
  define t2 where "t2 = e_add (e_big0 a) (e_maj a b c)"
  define w' where "w' = e_add (e_add (e_add (e_small1 w14) w9) (e_small0 w1)) w0"
  have len': "length t1 = 8" "length t2 = 8" "length w' = 8"
    by (simp_all add: t1_def t2_def w'_def len)
  have t1: "wv t1 = wv h + big_sigma1 (wv e) + sha_ch (wv e) (wv f) (wv g) + wv k + wv w0"
    by (simp add: t1_def wv_add wv_big1 wv_ch len)
  have t2: "wv t2 = big_sigma0 (wv a) + sha_maj (wv a) (wv b) (wv c)"
    by (simp add: t2_def wv_add wv_big0 wv_maj len)
  have w': "wv w' = small_sigma1 (wv w14) + wv w9 + small_sigma0 (wv w1) + wv w0"
    by (simp add: w'_def wv_add wv_small0 wv_small1 len)
  have e': "ws' = [w1, w2, w3, w4, w5, w6, w7, w8, w9, w10, w11, w12, w13, w14, w15, w']"
    and s': "s' = [e_add t1 t2, a, b, c, e_add d t1, e, f, g]"
    using e by (simp_all add: s ws e_round_eval e_fin_eval t1_def t2_def w'_def)
  have "sha_rounds (map wv (k # ks)) (map wv ws) (tup8 (map wv s))
      = sha_rounds (map wv ks) (map wv ws') (tup8 (map wv s'))"
    by (simp only: e' s' s ws list.map tup8.simps sha_rounds_step t1 t2 w'
        wv_add [OF len'(1,2)] wv_add [OF len(5) len'(1)])
  moreover have "ok8 ks" using Cons.prems(1) by (simp add: ok8_def)
  note Cons.IH [OF this ok]
  ultimately show ?case by (simp only: e_rounds.simps e)
qed

subsection \<open>Blocks and the digest\<close>

fun e_words :: "bytes \<Rightarrow> nib list list" where
  "e_words (a # b # c # d # bs) =
     [lo_nib d, hi_nib d, lo_nib c, hi_nib c, lo_nib b, hi_nib b, lo_nib a, hi_nib a] # e_words bs"
| "e_words _ = []"

primrec e_blocks :: "nat \<Rightarrow> nib list list \<Rightarrow> nib list list \<Rightarrow> nib list list" where
  "e_blocks 0 ws s = s"
| "e_blocks (Suc n) ws s = e_blocks n (drop 16 ws) (e_adds s (e_rounds e_k (take 16 ws, s)))"

definition e_run :: "nib list list \<Rightarrow> nib list list \<Rightarrow> nib list list" where
  "e_run ws s = e_blocks (length ws div 16) ws s"

fun e_out :: "nib list list \<Rightarrow> bytes" where
  "e_out ([a, b, c, d, e, f, g, h] # ws) =
     nib_byte h g # nib_byte f e # nib_byte d c # nib_byte b a # e_out ws"
| "e_out _ = []"

lemma e_run_eval:
  "e_run (w0 # w1 # w2 # w3 # w4 # w5 # w6 # w7 # w8 # w9 # w10 # w11 # w12 # w13 # w14 # w15 # ws) s =
   e_run ws (e_adds s (e_rounds e_k ([w0, w1, w2, w3, w4, w5, w6, w7, w8, w9, w10, w11, w12, w13, w14, w15], s)))"
  "e_run [] s = s"
proof -
  have n: "(16 + length ws) div 16 = Suc (length ws div 16)" by simp
  show "e_run (w0 # w1 # w2 # w3 # w4 # w5 # w6 # w7 # w8 # w9 # w10 # w11 # w12 # w13 # w14 # w15 # ws) s =
      e_run ws (e_adds s (e_rounds e_k ([w0, w1, w2, w3, w4, w5, w6, w7, w8, w9, w10, w11, w12, w13, w14, w15], s)))"
    by (simp add: e_run_def n)
qed (simp add: e_run_def)

lemma unat_byte_less: "unat (b :: byte) < 256"
proof -
  have "unat b < 2 ^ LENGTH(8)" by (rule unsigned_less)
  then show ?thesis by simp
qed

lemma lo_hi_val:
  "nib_val (lo_nib b) = unat b mod 16" "nib_val (hi_nib b) = unat b div 16"
  using unat_byte_less [of b] by (simp_all add: lo_nib_def hi_nib_def)

lemma e_words_wv: "map wv (e_words bs) = be_words bs"
proof (induction bs rule: e_words.induct)
  case (1 a b c d bs)
  have h: "x mod 16 + 16 * (x div 16 + 16 * r) = x + 256 * r" for x r :: nat
    by presburger
  have "nval [lo_nib d, hi_nib d, lo_nib c, hi_nib c, lo_nib b, hi_nib b, lo_nib a, hi_nib a]
      = unat d + 256 * (unat c + 256 * (unat b + 256 * (unat a + 256 * 0)))"
    by (simp only: nval.simps lo_hi_val h)
  moreover have "((uint a * 256 + uint b) * 256 + uint c) * 256 + uint d
      = int (unat d + 256 * (unat c + 256 * (unat b + 256 * (unat a + 256 * 0))))"
    by (simp only: uint_nat) simp
  ultimately have "wv [lo_nib d, hi_nib d, lo_nib c, hi_nib c, lo_nib b, hi_nib b, lo_nib a, hi_nib a]
      = word_of_int (((uint a * 256 + uint b) * 256 + uint c) * 256 + uint d)"
    by (simp only: wv_nval of_int_of_nat_eq)
  with 1 show ?case by simp
qed simp_all

lemma e_words_ok: "ok8 (e_words bs)"
  by (induction bs rule: e_words.induct) (simp_all add: ok8_def)

lemma e_words_length: "length (e_words bs) = length bs div 4"
  by (induction bs rule: e_words.induct) simp_all

lemma be_words_take: "be_words (take (4 * n) bs) = take n (be_words bs)"
  and be_words_drop: "be_words (drop (4 * n) bs) = drop n (be_words bs)"
proof (induction n arbitrary: bs)
  case (Suc n)
  have n: "4 * Suc n = Suc (Suc (Suc (Suc (4 * n))))" by simp
  { case 1 show ?case unfolding n using Suc.IH(1) by (cases bs rule: be_words.cases) simp_all }
  { case 2 show ?case unfolding n using Suc.IH(2) by (cases bs rule: be_words.cases) simp_all }
qed simp_all

lemma e_k_wv: "map wv e_k = sha_k" and e_h0_wv: "tup8 (map wv e_h0) = sha_h0"
  by (simp_all add: e_k_def e_h0_def sha_k_def sha_h0_def wv_nval)

lemma e_k_ok: "ok8 e_k" and e_h0_ok: "ok8 e_h0" and e_h0_length: "length e_h0 = 8"
  by (simp_all add: e_k_def e_h0_def ok8_def)

lemma e_block_correct:
  assumes "ok8 s" "length s = 8" "ok8 ws" "length ws = 16" "be_words bs = map wv ws"
  shows "ok8 (e_adds s (e_rounds e_k (ws, s))) \<and> length (e_adds s (e_rounds e_k (ws, s))) = 8 \<and>
    tup8 (map wv (e_adds s (e_rounds e_k (ws, s)))) = sha_block bs (tup8 (map wv s))"
proof -
  obtain r where r: "e_rounds e_k (ws, s) = r" by blast
  have c: "ok8 r \<and> length r = 8 \<and> tup8 (map wv r) = sha_rounds sha_k (be_words bs) (tup8 (map wv s))"
    using e_rounds_correct [OF e_k_ok assms(3,1,4,2)] by (simp add: r assms(5) e_k_wv)
  obtain a b c d e f g h where s: "s = [a, b, c, d, e, f, g, h]" using list8 assms(2) by blast
  obtain a' b' c' d' e' f' g' h' where r': "r = [a', b', c', d', e', f', g', h']"
    using list8 c by blast
  have rr: "sha_rounds sha_k (be_words bs) (wv a, wv b, wv c, wv d, wv e, wv f, wv g, wv h)
      = (wv a', wv b', wv c', wv d', wv e', wv f', wv g', wv h')"
    using c by (simp add: s r')
  show ?thesis
    using assms(1) c unfolding r unfolding s r' by (simp add: rr ok8_def wv_add)
qed

lemma e_blocks_correct:
  assumes "ok8 s" "length s = 8" "length bs = 64 * n" "ok8 ws" "be_words bs = map wv ws"
    "length ws = 16 * n"
  shows "ok8 (e_blocks n ws s) \<and> length (e_blocks n ws s) = 8 \<and>
    sha_blocks n bs (tup8 (map wv s)) = tup8 (map wv (e_blocks n ws s))"
  using assms
proof (induction n arbitrary: bs ws s)
  case 0
  then show ?case by simp
next
  case (Suc n)
  let ?s = "e_adds s (e_rounds e_k (take 16 ws, s))"
  have t: "be_words (take 64 bs) = map wv (take 16 ws)"
    using be_words_take [of 16 bs] Suc.prems(5) by (simp add: take_map)
  have ok: "ok8 (take 16 ws)" "length (take 16 ws) = 16"
    using Suc.prems by (auto simp: ok8_def dest: in_set_takeD)
  note b = e_block_correct [OF Suc.prems(1,2) ok t]
  have d: "be_words (drop 64 bs) = map wv (drop 16 ws)"
    using be_words_drop [of 16 bs] Suc.prems(5) by (simp add: drop_map)
  have "ok8 (drop 16 ws)" using Suc.prems(4) by (auto simp: ok8_def dest: in_set_dropD)
  with Suc.IH [of ?s "drop 64 bs" "drop 16 ws"] b d Suc.prems show ?case by simp
qed

lemma sha_pad_length: "64 dvd length (sha_pad msg)"
proof -
  have "length (be_len n) = 8" for n by (simp add: be_len_def)
  then have "length (sha_pad msg) = length msg + 9 + (119 - length msg mod 64) mod 64"
    by (simp add: sha_pad_def)
  moreover have "64 dvd (l + 9 + (119 - l mod 64) mod 64)" for l :: nat
  proof -
    define q m where "q = l div 64" and "m = l mod 64"
    have l: "l = 64 * q + m" and "m < 64" by (simp_all add: q_def m_def)
    moreover have "(119 - m) mod 64 = 55 - m" if "m \<le> 55"
      using mod_add_self2 [of "55 - m" 64] that by (simp add: add.commute)
    ultimately have "m + 9 + (119 - m) mod 64 = (if m \<le> 55 then 64 else 128)"
      by (cases "m \<le> 55") simp_all
    then have "l + 9 + (119 - m) mod 64 = 64 * (q + (if m \<le> 55 then 1 else 2))"
      by (auto simp: l split: if_splits)
    then show ?thesis by (simp add: m_def del: mod_less)
  qed
  ultimately show ?thesis by simp
qed

lemma e_out_word: "length x = 8 \<Longrightarrow> e_out (x # xs) = word_bytes (wv x) @ e_out xs"
proof -
  assume "length x = 8"
  then obtain a b c d e f g h where x: "x = [a, b, c, d, e, f, g, h]" using list8 by blast
  define k0 k1 k2 k3 where k: "k0 = nib_val a + 16 * nib_val b" "k1 = nib_val c + 16 * nib_val d"
    "k2 = nib_val e + 16 * nib_val f" "k3 = nib_val g + 16 * nib_val h"
  have l: "nib_val p + 16 * nib_val q < 256" for p q
    using nib_val_less [of p] nib_val_less [of q] by (simp del: nib_val_less)
  then have kl: "k0 < 256" "k1 < 256" "k2 < 256" by (simp_all add: k)
  have v: "nval x = k0 + 256 * (k1 + 256 * (k2 + 256 * k3))" by (simp add: x k)
  have d: "nval x div 256 = k1 + 256 * (k2 + 256 * k3)" "nval x div 65536 = k2 + 256 * k3"
    "nval x div 16777216 = k3"
    using kl by (simp_all add: v)
  have "nval x < 2 ^ 32" using nval_less [of x] by (simp add: x)
  then have u: "uint (wv x) = int (nval x)" by (simp add: wv_nval unsigned_of_nat take_bit_nat_eq_self)
  have z: "(of_nat (m + 256 * n) :: byte) = of_nat m" for m n
  proof -
    have "(256 :: byte) = 0" by simp
    then show ?thesis by (simp only: of_nat_add of_nat_mult of_nat_numeral) simp
  qed
  have v0: "(of_nat (nval x) :: byte) = of_nat k0" by (simp only: v z)
  have wd: "word_of_int (int m div numeral j) = (of_nat (m div numeral j) :: byte)" for m j
    by (metis of_int_of_nat_eq of_nat_numeral zdiv_int)
  have "word_bytes (wv x) = map of_nat [nval x div 16777216, nval x div 65536, nval x div 256, nval x]"
    by (simp add: word_bytes_def u wd)
  also have "\<dots> = [of_nat k3, of_nat k2, of_nat k1, of_nat k0]"
    by (simp only: d list.map z v0)
  finally show ?thesis by (simp add: x k nib_byte_def add.commute)
qed

lemma sha256_eval: "sha256 msg = e_out (e_run (e_words (sha_pad msg)) e_h0)"
proof -
  let ?p = "sha_pad msg" and ?n = "length (sha_pad msg) div 64"
  have n: "length ?p = 64 * ?n" using sha_pad_length [of msg] by simp
  have m: "length (e_words ?p) = 16 * ?n" using n by (simp add: e_words_length)
  have c: "ok8 (e_blocks ?n (e_words ?p) e_h0) \<and> length (e_blocks ?n (e_words ?p) e_h0) = 8 \<and>
      sha_blocks ?n ?p sha_h0 = tup8 (map wv (e_blocks ?n (e_words ?p) e_h0))"
    using e_blocks_correct [OF e_h0_ok e_h0_length n e_words_ok e_words_wv [symmetric] m]
    by (simp only: e_h0_wv)
  then obtain a b c d e f g h where x: "e_blocks ?n (e_words ?p) e_h0 = [a, b, c, d, e, f, g, h]"
    using list8 by blast
  have "e_run (e_words ?p) e_h0 = [a, b, c, d, e, f, g, h]"
    using m x by (simp add: e_run_def)
  moreover have "sha_blocks ?n ?p sha_h0 = (wv a, wv b, wv c, wv d, wv e, wv f, wv g, wv h)"
    using c by (simp add: x)
  moreover have "length a = 8" "length b = 8" "length c = 8" "length d = 8" "length e = 8" "length f = 8"
    "length g = 8" "length h = 8" using c by (simp_all add: x ok8_def)
  ultimately show ?thesis by (simp add: sha256_def Let_def e_out_word)
qed


section \<open>Evaluation rules\<close>

lemma e_nils: "e_ch [] [] [] = []" "e_maj [] [] [] = []" "e_carry (s, c) [] [] = [s]" "e_adds [] [] = []"
  by simp_all

lemmas sha_rules =
  nxor_table nand_table nrot1_table nrot2_table nrot3_table nadd0_table nadd1_table
  lo_nib_table hi_nib_table nib_byte_table
  e_big0.simps(1) e_big1.simps(1) e_small0.simps(1) e_small1.simps(1)
  e_ch.simps(1) e_maj.simps(1) e_carry.simps(1) e_add.simps(1) e_adds.simps(1) e_nils
  e_rounds.simps e_round_eval e_fin_eval e_run_eval e_out.simps e_words.simps append.simps
  e_k_def e_h0_def

text \<open>The padded message, with its length counted in one pass.\<close>

definition pad_tail :: "nat \<Rightarrow> bytes" where
  "pad_tail n = 0x80 # replicate ((119 - n mod 64) mod 64) 0 @ be_len (8 * n)"

lemma sha_pad_tail: "sha_pad msg = msg @ pad_tail (length msg)"
  by (simp add: sha_pad_def pad_tail_def)

lemma replicate_numeral_eval: "replicate (numeral k) x = x # replicate (pred_numeral k) x"
  by (simp add: numeral_eq_Suc)

lemmas sha_compute = sha256_eval sha_pad_tail pad_tail_def be_len_def replicate_numeral_eval sha_rules

text \<open>The first test vector of the standard.\<close>

lemma sha256_abc:
  "sha256 (ascii ''abc'') =
    [0xba, 0x78, 0x16, 0xbf, 0x8f, 0x01, 0xcf, 0xea, 0x41, 0x41, 0x40, 0xde, 0x5d, 0xae, 0x22, 0x23,
     0xb0, 0x03, 0x61, 0xa3, 0x96, 0x17, 0x7a, 0x9c, 0xb4, 0x10, 0xff, 0x61, 0xf2, 0x00, 0x15, 0xad]"
  by (simp add: ascii_def sha_compute)

end
