(* ===== verification/Outbox_Wire.thy ===== *)
theory Outbox_Wire
  imports Sha256
begin

text \<open>
  The ActionOutbox wire of \<open>bench/action_outbox_conformance.py\<close>: the journal header, the
  action identity and the journal record, their validation, their domain-separated digests and
  their fixed-width little-endian encodings. A dict of the code with a fixed field tuple is a
  record here, so the \<open>_strict_record\<close> and \<open>type(value) is not int\<close> checks hold by
  typing; every other check and every raise is a branch. The \<open>where\<close> text of a message is
  left out of the error value.
\<close>

datatype (plugins only: code) outbox_error =
    NotU64 | NotDigest | ZeroDigest | UnknownEnum | U8OutOfRange
  | InvalidHeader | HeaderLength | HeaderFraming | UnpinnedHeader
  | InvalidIdentity | InvalidRecord | ContradictoryRecord
  | DispatchTransition | NonterminalTransition | TerminalTransition | UnoccupiedState
  | RecordLength | RecordFraming | RecordMismatch
  | StateUnoccupied | InvalidPhase | LedgerOpen
  | NoncontiguousSequence | RecordCapacity | DuplicateAction | DuplicateIdempotencyKey
  | DuplicateRemoteRequest | DuplicateCompensation | ActionCapacity | ParentMissing
  | ParentNotSucceeded | NotEnqueued | IdentityDrift | UnsafeDispatch | WrongAttempt
  | UnknownTransition | HeaderIncomplete | OpenJournal | InvalidAnchor | AnchorMismatch

section \<open>Constants\<close>

abbreviation HEADER_ABI :: int where "HEADER_ABI \<equiv> 0x47544F4800000001"
abbreviation IDENTITY_ABI :: int where "IDENTITY_ABI \<equiv> 0x47544F4900000001"
abbreviation RECORD_ABI :: int where "RECORD_ABI \<equiv> 0x47544F5200000001"
abbreviation CLOSED_ANCHOR_ABI :: int where "CLOSED_ANCHOR_ABI \<equiv> 0x47544F4300000001"

definition HEADER_MAGIC :: bytes where "HEADER_MAGIC = ascii ''GTAOBXH1''"
definition RECORD_MAGIC :: bytes where "RECORD_MAGIC = ascii ''GTAOBXR1''"
definition COMMIT_MAGIC :: bytes where "COMMIT_MAGIC = ascii ''GTAOBCM1''"

abbreviation HEADER_BYTES :: nat where "HEADER_BYTES \<equiv> 320"
abbreviation RECORD_BODY_BYTES :: nat where "RECORD_BODY_BYTES \<equiv> 704"
abbreviation COMMIT_FOOTER_BYTES :: nat where "COMMIT_FOOTER_BYTES \<equiv> 48"
abbreviation RECORD_BYTES :: nat where "RECORD_BYTES \<equiv> 752"
abbreviation MAXIMUM_SUPPORTED_ACTIONS :: int where "MAXIMUM_SUPPORTED_ACTIONS \<equiv> 64"
abbreviation MAXIMUM_SUPPORTED_RECORDS :: int where "MAXIMUM_SUPPORTED_RECORDS \<equiv> 256"
abbreviation REQUIRED_CAPABILITIES :: int where "REQUIRED_CAPABILITIES \<equiv> 3"

abbreviation PURPOSE_PRIMARY :: int where "PURPOSE_PRIMARY \<equiv> 1"
abbreviation PURPOSE_COMPENSATION :: int where "PURPOSE_COMPENSATION \<equiv> 2"

abbreviation EVENT_ENQUEUED :: int where "EVENT_ENQUEUED \<equiv> 1"
abbreviation EVENT_DISPATCH_INTENT :: int where "EVENT_DISPATCH_INTENT \<equiv> 2"
abbreviation EVENT_AMBIGUITY_OBSERVED :: int where "EVENT_AMBIGUITY_OBSERVED \<equiv> 3"
abbreviation EVENT_ACKNOWLEDGED_SUCCESS :: int where "EVENT_ACKNOWLEDGED_SUCCESS \<equiv> 4"
abbreviation EVENT_ACKNOWLEDGED_FAILURE :: int where "EVENT_ACKNOWLEDGED_FAILURE \<equiv> 5"
abbreviation EVENT_RECONCILED_NOT_APPLIED :: int where "EVENT_RECONCILED_NOT_APPLIED \<equiv> 6"
abbreviation EVENT_RECONCILED_SUCCESS :: int where "EVENT_RECONCILED_SUCCESS \<equiv> 7"
abbreviation EVENT_RECONCILED_FAILURE :: int where "EVENT_RECONCILED_FAILURE \<equiv> 8"

definition EVENT_KINDS :: "int list" where "EVENT_KINDS = [1, 2, 3, 4, 5, 6, 7, 8]"

definition HEADER_DOMAIN :: bytes where
  "HEADER_DOMAIN = ascii ''glacier-tool-action-outbox-header-v1'' @ [0]"
definition ACTION_DOMAIN :: bytes where
  "ACTION_DOMAIN = ascii ''glacier-tool-action-outbox-identity-v1'' @ [0]"
definition REMOTE_REQUEST_DOMAIN :: bytes where
  "REMOTE_REQUEST_DOMAIN = ascii ''glacier-tool-action-outbox-remote-request-v1'' @ [0]"
definition DISPATCH_REQUEST_DOMAIN :: bytes where
  "DISPATCH_REQUEST_DOMAIN = ascii ''glacier-tool-action-outbox-dispatch-request-v1'' @ [0]"
definition RECORD_DOMAIN :: bytes where
  "RECORD_DOMAIN = ascii ''glacier-tool-action-outbox-record-v1'' @ [0]"

section \<open>Checked scalars\<close>

definition u64E :: "int \<Rightarrow> outbox_error + int" where
  "u64E v = (if \<not> (0 \<le> v \<and> v \<le> U64_MAX) then Inl NotU64 else Inr v)"

definition digestE :: "bytes \<Rightarrow> outbox_error + bytes" where
  "digestE v = (if length v \<noteq> 32 then Inl NotDigest
     else if v = ZERO_DIGEST then Inl ZeroDigest else Inr v)"

text \<open>\<open>_digest(value, where, allow_zero=True)\<close>\<close>

definition digest0E :: "bytes \<Rightarrow> outbox_error + bytes" where
  "digest0E v = (if length v \<noteq> 32 then Inl NotDigest else Inr v)"

definition enumE :: "int \<Rightarrow> int list \<Rightarrow> outbox_error + int" where
  "enumE v allowed = bindE (u64E v) (\<lambda>r. if r \<notin> set allowed then Inl UnknownEnum else Inr r)"

definition add_u64 :: "int \<Rightarrow> int \<Rightarrow> outbox_error + int" where
  "add_u64 l r = u64E (l + r)"

definition le_u8E :: "int \<Rightarrow> outbox_error + bytes" where
  "le_u8E v = bindE (u64E v) (\<lambda>c. if c > 0xFF then Inl U8OutOfRange else Inr [word_of_int c])"

definition le_u64E :: "int \<Rightarrow> outbox_error + bytes" where
  "le_u64E v = bindE (u64E v) (\<lambda>c. Inr (u64_bytes c))"

lemma u64E_Inr [result_simps]: "u64E v = Inr w \<longleftrightarrow> is_u64 v \<and> w = v"
  by (auto simp: u64E_def is_u64_def)

lemma digestE_Inr [result_simps]: "digestE v = Inr w \<longleftrightarrow> length v = 32 \<and> v \<noteq> ZERO_DIGEST \<and> w = v"
  by (auto simp: digestE_def)

lemma digest0E_Inr [result_simps]: "digest0E v = Inr w \<longleftrightarrow> length v = 32 \<and> w = v"
  by (auto simp: digest0E_def)

lemma enumE_Inr [result_simps]: "enumE v vs = Inr w \<longleftrightarrow> is_u64 v \<and> v \<in> set vs \<and> w = v"
  by (auto simp: enumE_def result_simps)

lemma add_u64_Inr [result_simps]: "add_u64 l r = Inr w \<longleftrightarrow> is_u64 (l + r) \<and> w = l + r"
  by (simp add: add_u64_def result_simps)

lemma le_u8E_Inr [result_simps]: "le_u8E v = Inr b \<longleftrightarrow> 0 \<le> v \<and> v \<le> 255 \<and> b = [word_of_int v]"
  by (auto simp: le_u8E_def u64E_def)

lemma le_u64E_Inr [result_simps]: "le_u64E v = Inr b \<longleftrightarrow> is_u64 v \<and> b = u64_bytes v"
  by (auto simp: le_u64E_def result_simps)

lemmas mapE_u64E [result_simps] = mapE_guard [of u64E is_u64 "\<lambda>v. v", OF u64E_Inr, simplified]
lemmas mapE_le_u64E [result_simps] = mapE_guard [of le_u64E is_u64 u64_bytes, OF le_u64E_Inr]

definition is_digest :: "bytes \<Rightarrow> bool" where
  "is_digest v \<longleftrightarrow> length v = 32 \<and> v \<noteq> ZERO_DIGEST"

lemma mapE_digestE [result_simps]:
  "mapE digestE vs = Inr ws \<longleftrightarrow> (\<forall>v \<in> set vs. is_digest v) \<and> ws = vs"
  using mapE_guard [of digestE is_digest "\<lambda>v. v"] by (simp add: digestE_Inr is_digest_def)

lemma mapE_digest0E [result_simps]:
  "mapE digest0E vs = Inr ws \<longleftrightarrow> (\<forall>v \<in> set vs. length v = 32) \<and> ws = vs"
  using mapE_guard [of digest0E "\<lambda>v. length v = 32" "\<lambda>v. v"] by (simp add: digest0E_Inr)

section \<open>Header\<close>

record outbox_header =
  h_abi_version :: int
  h_flags :: int
  h_outbox_epoch :: int
  h_outbox_id :: int
  h_tenant_key :: int
  h_maximum_actions :: int
  h_maximum_records :: int
  h_maximum_payload_bytes :: int
  h_capability_bits :: int
  h_adapter_descriptor_sha256 :: bytes
  h_payload_store_descriptor_sha256 :: bytes
  h_challenge_sha256 :: bytes
  h_header_sha256 :: bytes

text \<open>The values of \<open>HEADER_FIELDS[:9]\<close> and of \<open>HEADER_FIELDS[9:]\<close>, in field order.\<close>

definition header_words :: "outbox_header \<Rightarrow> int list" where
  "header_words h =
    [h_abi_version h, h_flags h, h_outbox_epoch h, h_outbox_id h, h_tenant_key h,
     h_maximum_actions h, h_maximum_records h, h_maximum_payload_bytes h, h_capability_bits h]"

definition header_digests :: "outbox_header \<Rightarrow> bytes list" where
  "header_digests h =
    [h_adapter_descriptor_sha256 h, h_payload_store_descriptor_sha256 h, h_challenge_sha256 h,
     h_header_sha256 h]"

definition header_sha256 :: "outbox_header \<Rightarrow> outbox_error + bytes" where
  "header_sha256 h =
     bindE (mapE le_u64E (header_words h)) (\<lambda>ws.
     bindE (digestE (h_adapter_descriptor_sha256 h)) (\<lambda>adapter.
     bindE (digestE (h_payload_store_descriptor_sha256 h)) (\<lambda>store.
     bindE (digestE (h_challenge_sha256 h)) (\<lambda>challenge.
       Inr (sha_parts HEADER_DOMAIN (ws @ [adapter, store, challenge]))))))"

definition validate_header :: "outbox_header \<Rightarrow> outbox_error + outbox_header" where
  "validate_header h =
     bindE (mapE u64E (header_words h)) (\<lambda>_.
     bindE (mapE digestE (header_digests h)) (\<lambda>_.
       if h_abi_version h \<noteq> HEADER_ABI
          \<or> h_flags h \<noteq> 0
          \<or> h_outbox_epoch h = 0
          \<or> h_outbox_id h = 0
          \<or> h_tenant_key h = 0
          \<or> \<not> (0 < h_maximum_actions h \<and> h_maximum_actions h \<le> MAXIMUM_SUPPORTED_ACTIONS)
          \<or> \<not> (0 < h_maximum_records h \<and> h_maximum_records h \<le> MAXIMUM_SUPPORTED_RECORDS)
          \<or> h_maximum_records h < h_maximum_actions h
          \<or> h_maximum_payload_bytes h = 0
          \<or> h_capability_bits h \<noteq> REQUIRED_CAPABILITIES
       then Inl InvalidHeader
       else bindE (header_sha256 h) (\<lambda>root.
         if h_header_sha256 h \<noteq> root then Inl InvalidHeader else Inr h)))"

definition make_header ::
  "int \<Rightarrow> int \<Rightarrow> int \<Rightarrow> int \<Rightarrow> int \<Rightarrow> int \<Rightarrow> bytes \<Rightarrow> bytes \<Rightarrow> bytes \<Rightarrow> outbox_error + outbox_header"
where
  "make_header outbox_epoch outbox_id tenant_key maximum_actions maximum_records
     maximum_payload_bytes adapter_descriptor_sha256 payload_store_descriptor_sha256
     challenge_sha256 =
   (let result = \<lparr>h_abi_version = HEADER_ABI, h_flags = 0, h_outbox_epoch = outbox_epoch,
          h_outbox_id = outbox_id, h_tenant_key = tenant_key, h_maximum_actions = maximum_actions,
          h_maximum_records = maximum_records, h_maximum_payload_bytes = maximum_payload_bytes,
          h_capability_bits = REQUIRED_CAPABILITIES,
          h_adapter_descriptor_sha256 = adapter_descriptor_sha256,
          h_payload_store_descriptor_sha256 = payload_store_descriptor_sha256,
          h_challenge_sha256 = challenge_sha256, h_header_sha256 = ZERO_DIGEST\<rparr>
    in bindE (header_sha256 result) (\<lambda>root. validate_header (result\<lparr>h_header_sha256 := root\<rparr>)))"

definition encode_header :: "outbox_header \<Rightarrow> outbox_error + bytes" where
  "encode_header value =
     bindE (validate_header value) (\<lambda>h.
       let encoded = zeros HEADER_BYTES;
           encoded = splice 0 8 HEADER_MAGIC encoded;
           encoded = splice 8 80 (pack_u64s [h_abi_version h, int HEADER_BYTES, h_flags h,
             h_outbox_epoch h, h_outbox_id h, h_tenant_key h, h_maximum_actions h,
             h_maximum_records h, h_maximum_payload_bytes h, h_capability_bits h]) encoded
       in Inr (splice32 96 (header_digests h) encoded))"

text \<open>The header read from the wire, before its validation.\<close>

definition parse_header :: "bytes \<Rightarrow> outbox_header" where
  "parse_header encoded =
    (let values = unpack_u64s 10 encoded 8
     in \<lparr>h_abi_version = values ! 0, h_flags = values ! 2, h_outbox_epoch = values ! 3,
         h_outbox_id = values ! 4, h_tenant_key = values ! 5, h_maximum_actions = values ! 6,
         h_maximum_records = values ! 7, h_maximum_payload_bytes = values ! 8,
         h_capability_bits = values ! 9,
         h_adapter_descriptor_sha256 = slice 96 32 encoded,
         h_payload_store_descriptor_sha256 = slice 128 32 encoded,
         h_challenge_sha256 = slice 160 32 encoded,
         h_header_sha256 = slice 192 32 encoded\<rparr>)"

definition decode_header :: "bytes \<Rightarrow> bytes \<Rightarrow> outbox_error + outbox_header" where
  "decode_header encoded expected_header_sha256 =
     bindE (digestE expected_header_sha256) (\<lambda>expected.
       if length encoded \<noteq> HEADER_BYTES then Inl HeaderLength
       else if slice 0 8 encoded \<noteq> HEADER_MAGIC
          \<or> read_u64 encoded 16 \<noteq> int HEADER_BYTES
          \<or> list_ex (\<lambda>b. b \<noteq> 0) (slice 88 8 encoded)
          \<or> list_ex (\<lambda>b. b \<noteq> 0) (drop 224 encoded)
       then Inl HeaderFraming
       else bindE (validate_header (parse_header encoded)) (\<lambda>header.
         if h_header_sha256 header \<noteq> expected then Inl UnpinnedHeader else Inr header))"

section \<open>Action identity\<close>

record action_identity =
  i_abi_version :: int
  i_purpose :: int
  i_action_ordinal :: int
  i_payload_bytes :: int
  i_parent_action_sha256 :: bytes
  i_descriptor_sha256 :: bytes
  i_arguments_sha256 :: bytes
  i_proposal_sha256 :: bytes
  i_policy_sha256 :: bytes
  i_authorization_sha256 :: bytes
  i_idempotency_key_sha256 :: bytes
  i_service_event_sha256 :: bytes
  i_payload_locator_sha256 :: bytes
  i_payload_sha256 :: bytes
  i_action_sha256 :: bytes
  i_stable_remote_request_sha256 :: bytes

text \<open>
  The values of \<open>IDENTITY_FIELDS[5:14]\<close> (after the parent, which alone may be zero) and of
  \<open>IDENTITY_FIELDS[4:]\<close>.
\<close>

definition identity_roots :: "action_identity \<Rightarrow> bytes list" where
  "identity_roots i =
    [i_descriptor_sha256 i, i_arguments_sha256 i, i_proposal_sha256 i, i_policy_sha256 i,
     i_authorization_sha256 i, i_idempotency_key_sha256 i, i_service_event_sha256 i,
     i_payload_locator_sha256 i, i_payload_sha256 i]"

definition identity_digests :: "action_identity \<Rightarrow> bytes list" where
  "identity_digests i = i_parent_action_sha256 i # identity_roots i
     @ [i_action_sha256 i, i_stable_remote_request_sha256 i]"

text \<open>\<open>_digest(value[name], ..., allow_zero=name == "parent_action_sha256")\<close> over \<open>IDENTITY_FIELDS[4:]\<close>\<close>

definition check_identity_digests :: "action_identity \<Rightarrow> outbox_error + bytes list" where
  "check_identity_digests i =
     bindE (digest0E (i_parent_action_sha256 i)) (\<lambda>parent.
     bindE (mapE digestE (identity_roots i @ [i_action_sha256 i, i_stable_remote_request_sha256 i]))
       (\<lambda>ds. Inr (parent # ds)))"

definition hash_identity_parts :: "action_identity \<Rightarrow> outbox_error + bytes list" where
  "hash_identity_parts i =
     bindE (le_u64E (i_abi_version i)) (\<lambda>a.
     bindE (le_u8E (i_purpose i)) (\<lambda>b.
     bindE (le_u64E (i_action_ordinal i)) (\<lambda>c.
     bindE (le_u64E (i_payload_bytes i)) (\<lambda>d.
     bindE (check_identity_digests i) (\<lambda>ds. Inr ([a, b, c, d] @ ds))))))"

definition action_identity_sha256 :: "outbox_header \<Rightarrow> action_identity \<Rightarrow> outbox_error + bytes" where
  "action_identity_sha256 header_value i =
     bindE (validate_header header_value) (\<lambda>header.
     bindE (le_u64E (i_abi_version i)) (\<lambda>a.
     bindE (le_u8E (i_purpose i)) (\<lambda>b.
     bindE (le_u64E (i_action_ordinal i)) (\<lambda>c.
     bindE (le_u64E (i_payload_bytes i)) (\<lambda>d.
     bindE (digest0E (i_parent_action_sha256 i)) (\<lambda>parent.
     bindE (mapE digestE (identity_roots i)) (\<lambda>ds.
       Inr (sha_parts ACTION_DOMAIN ([h_header_sha256 header, a, b, c, d, parent] @ ds)))))))))"

definition stable_remote_request_sha256 :: "outbox_header \<Rightarrow> action_identity \<Rightarrow> outbox_error + bytes" where
  "stable_remote_request_sha256 header_value i =
     bindE (validate_header header_value) (\<lambda>header.
     bindE (digestE (i_action_sha256 i)) (\<lambda>action.
     bindE (digestE (i_idempotency_key_sha256 i)) (\<lambda>key.
       Inr (sha_parts REMOTE_REQUEST_DOMAIN
         [h_header_sha256 header, h_adapter_descriptor_sha256 header, action, key]))))"

definition validate_action_identity ::
  "outbox_header \<Rightarrow> action_identity \<Rightarrow> outbox_error + action_identity" where
  "validate_action_identity header_value i =
     bindE (validate_header header_value) (\<lambda>header.
     bindE (mapE u64E [i_abi_version i, i_purpose i, i_action_ordinal i, i_payload_bytes i]) (\<lambda>_.
     bindE (enumE (i_purpose i) [PURPOSE_PRIMARY, PURPOSE_COMPENSATION]) (\<lambda>_.
     bindE (check_identity_digests i) (\<lambda>_.
       if i_abi_version i \<noteq> IDENTITY_ABI
          \<or> i_action_ordinal i = 0
          \<or> \<not> (0 < i_payload_bytes i \<and> i_payload_bytes i \<le> h_maximum_payload_bytes header)
          \<or> (i_purpose i = PURPOSE_PRIMARY \<and> i_parent_action_sha256 i \<noteq> ZERO_DIGEST)
          \<or> (i_purpose i = PURPOSE_COMPENSATION \<and> i_parent_action_sha256 i = ZERO_DIGEST)
       then Inl InvalidIdentity
       else bindE (action_identity_sha256 header i) (\<lambda>action.
         if i_action_sha256 i \<noteq> action then Inl InvalidIdentity
         else bindE (stable_remote_request_sha256 header i) (\<lambda>request.
           if i_stable_remote_request_sha256 i \<noteq> request then Inl InvalidIdentity else Inr i))))))"

definition dispatch_request_sha256 ::
  "outbox_header \<Rightarrow> action_identity \<Rightarrow> int \<Rightarrow> outbox_error + bytes" where
  "dispatch_request_sha256 header_value identity_value attempt_generation =
     bindE (validate_header header_value) (\<lambda>header.
     bindE (validate_action_identity header identity_value) (\<lambda>identity.
     bindE (u64E attempt_generation) (\<lambda>generation.
     bindE (le_u64E generation) (\<lambda>g.
       Inr (sha_parts DISPATCH_REQUEST_DOMAIN
         [h_header_sha256 header, i_stable_remote_request_sha256 identity, g])))))"

section \<open>Journal record\<close>

record outbox_record =
  r_abi_version :: int
  r_sequence :: int
  r_kind :: int
  r_attempt_generation :: int
  r_identity :: action_identity
  r_previous_action_event_sha256 :: bytes
  r_previous_journal_sha256 :: bytes
  r_dispatch_request_sha256 :: bytes
  r_observation_sha256 :: bytes
  r_result_sha256 :: bytes
  r_record_sha256 :: bytes

text \<open>The values of \<open>RECORD_FIELDS[5:]\<close>, and their check: the previous journal root and the record root may not be zero.\<close>

definition record_digests :: "outbox_record \<Rightarrow> bytes list" where
  "record_digests r =
    [r_previous_action_event_sha256 r, r_previous_journal_sha256 r, r_dispatch_request_sha256 r,
     r_observation_sha256 r, r_result_sha256 r, r_record_sha256 r]"

definition check_record_digests :: "outbox_record \<Rightarrow> outbox_error + unit" where
  "check_record_digests r =
     bindE (digest0E (r_previous_action_event_sha256 r)) (\<lambda>_.
     bindE (digestE (r_previous_journal_sha256 r)) (\<lambda>_.
     bindE (mapE digest0E [r_dispatch_request_sha256 r, r_observation_sha256 r, r_result_sha256 r]) (\<lambda>_.
     bindE (digestE (r_record_sha256 r)) (\<lambda>_. Inr ()))))"

definition record_sha256 :: "outbox_header \<Rightarrow> outbox_record \<Rightarrow> outbox_error + bytes" where
  "record_sha256 header_value r =
     bindE (validate_header header_value) (\<lambda>header.
     bindE (validate_action_identity header (r_identity r)) (\<lambda>identity.
     bindE (le_u64E (r_abi_version r)) (\<lambda>a.
     bindE (le_u64E (r_sequence r)) (\<lambda>b.
     bindE (le_u8E (r_kind r)) (\<lambda>c.
     bindE (le_u64E (r_attempt_generation r)) (\<lambda>d.
     bindE (hash_identity_parts identity) (\<lambda>ip.
     bindE (digest0E (r_previous_action_event_sha256 r)) (\<lambda>e.
     bindE (digestE (r_previous_journal_sha256 r)) (\<lambda>f.
     bindE (mapE digest0E [r_dispatch_request_sha256 r, r_observation_sha256 r, r_result_sha256 r])
       (\<lambda>gs. Inr (sha_parts RECORD_DOMAIN
         ([h_header_sha256 header, a, b, c, d] @ ip @ [e, f] @ gs))))))))))))"

text \<open>Which digests an event carries, by its kind.\<close>

definition kind_fields_valid :: "outbox_record \<Rightarrow> bool" where
  "kind_fields_valid r =
    (let kind = r_kind r; previous = r_previous_action_event_sha256 r;
         dispatch = r_dispatch_request_sha256 r; observation = r_observation_sha256 r;
         output = r_result_sha256 r in
     if kind = EVENT_ENQUEUED then
       r_attempt_generation r = 0 \<and> previous = ZERO_DIGEST \<and> dispatch = ZERO_DIGEST
       \<and> observation = ZERO_DIGEST \<and> output = ZERO_DIGEST
     else if kind = EVENT_DISPATCH_INTENT then
       r_attempt_generation r \<noteq> 0 \<and> previous \<noteq> ZERO_DIGEST \<and> dispatch \<noteq> ZERO_DIGEST
       \<and> observation = ZERO_DIGEST \<and> output = ZERO_DIGEST
     else if kind = EVENT_AMBIGUITY_OBSERVED \<or> kind = EVENT_RECONCILED_NOT_APPLIED then
       r_attempt_generation r \<noteq> 0 \<and> previous \<noteq> ZERO_DIGEST \<and> dispatch \<noteq> ZERO_DIGEST
       \<and> observation \<noteq> ZERO_DIGEST \<and> output = ZERO_DIGEST
     else
       r_attempt_generation r \<noteq> 0 \<and> previous \<noteq> ZERO_DIGEST \<and> dispatch \<noteq> ZERO_DIGEST
       \<and> observation \<noteq> ZERO_DIGEST \<and> output \<noteq> ZERO_DIGEST)"

definition validate_record :: "outbox_header \<Rightarrow> outbox_record \<Rightarrow> outbox_error + outbox_record" where
  "validate_record header_value r =
     bindE (validate_header header_value) (\<lambda>header.
     bindE (mapE u64E [r_abi_version r, r_sequence r, r_kind r, r_attempt_generation r]) (\<lambda>_.
     bindE (enumE (r_kind r) EVENT_KINDS) (\<lambda>kind.
     bindE (validate_action_identity header (r_identity r)) (\<lambda>_.
     bindE (check_record_digests r) (\<lambda>_.
       if r_abi_version r \<noteq> RECORD_ABI \<or> r_sequence r = 0 then Inl InvalidRecord
       else bindE (record_sha256 header r) (\<lambda>root.
         if r_record_sha256 r \<noteq> root then Inl InvalidRecord
         else if \<not> kind_fields_valid r then Inl ContradictoryRecord
         else Inr r))))))"

definition make_enqueued_record ::
  "outbox_header \<Rightarrow> int \<Rightarrow> bytes \<Rightarrow> action_identity \<Rightarrow> outbox_error + outbox_record" where
  "make_enqueued_record header_value sequence previous_journal_sha256 identity_value =
     bindE (validate_header header_value) (\<lambda>header.
     bindE (validate_action_identity header identity_value) (\<lambda>identity.
     bindE (u64E sequence) (\<lambda>seq.
     bindE (digestE previous_journal_sha256) (\<lambda>previous.
       let result = \<lparr>r_abi_version = RECORD_ABI, r_sequence = seq, r_kind = EVENT_ENQUEUED,
             r_attempt_generation = 0, r_identity = identity,
             r_previous_action_event_sha256 = ZERO_DIGEST, r_previous_journal_sha256 = previous,
             r_dispatch_request_sha256 = ZERO_DIGEST, r_observation_sha256 = ZERO_DIGEST,
             r_result_sha256 = ZERO_DIGEST, r_record_sha256 = ZERO_DIGEST\<rparr>
       in bindE (record_sha256 header result) (\<lambda>root.
            validate_record header (result\<lparr>r_record_sha256 := root\<rparr>))))))"

definition encode_record :: "outbox_header \<Rightarrow> outbox_record \<Rightarrow> outbox_error + bytes" where
  "encode_record header_value value =
     bindE (validate_header header_value) (\<lambda>header.
     bindE (validate_record header value) (\<lambda>r.
       let encoded = zeros RECORD_BYTES;
           encoded = splice 0 8 RECORD_MAGIC encoded;
           encoded = splice 8 64 (pack_u64s [r_abi_version r, int RECORD_BODY_BYTES, r_sequence r,
             r_kind r, r_attempt_generation r, i_purpose (r_identity r),
             i_action_ordinal (r_identity r), i_payload_bytes (r_identity r)]) encoded;
           encoded = splice32 80 (identity_digests (r_identity r) @ record_digests r) encoded;
           encoded = splice RECORD_BODY_BYTES 8 COMMIT_MAGIC encoded;
           encoded = splice (RECORD_BODY_BYTES + 8) 8 (u64_bytes (r_sequence r)) encoded
       in Inr (splice (RECORD_BODY_BYTES + 16) 32 (r_record_sha256 r) encoded)))"

text \<open>The record read from the wire, before its validation.\<close>

definition parse_record :: "bytes \<Rightarrow> outbox_record" where
  "parse_record encoded =
    (let values = unpack_u64s 8 encoded 8;
         ds = fields32 18 encoded 80
     in \<lparr>r_abi_version = values ! 0, r_sequence = values ! 2, r_kind = values ! 3,
         r_attempt_generation = values ! 4,
         r_identity =
           \<lparr>i_abi_version = IDENTITY_ABI, i_purpose = values ! 5, i_action_ordinal = values ! 6,
            i_payload_bytes = values ! 7, i_parent_action_sha256 = ds ! 0,
            i_descriptor_sha256 = ds ! 1, i_arguments_sha256 = ds ! 2, i_proposal_sha256 = ds ! 3,
            i_policy_sha256 = ds ! 4, i_authorization_sha256 = ds ! 5,
            i_idempotency_key_sha256 = ds ! 6, i_service_event_sha256 = ds ! 7,
            i_payload_locator_sha256 = ds ! 8, i_payload_sha256 = ds ! 9,
            i_action_sha256 = ds ! 10, i_stable_remote_request_sha256 = ds ! 11\<rparr>,
         r_previous_action_event_sha256 = ds ! 12, r_previous_journal_sha256 = ds ! 13,
         r_dispatch_request_sha256 = ds ! 14, r_observation_sha256 = ds ! 15,
         r_result_sha256 = ds ! 16, r_record_sha256 = ds ! 17\<rparr>)"

definition decode_record ::
  "outbox_header \<Rightarrow> int \<Rightarrow> bytes \<Rightarrow> bytes \<Rightarrow> outbox_error + outbox_record" where
  "decode_record header_value expected_sequence expected_previous_journal_sha256 encoded =
     bindE (validate_header header_value) (\<lambda>header.
     bindE (digestE expected_previous_journal_sha256) (\<lambda>previous.
       if length encoded \<noteq> RECORD_BYTES then Inl RecordLength
       else if slice 0 8 encoded \<noteq> RECORD_MAGIC
          \<or> read_u64 encoded 16 \<noteq> int RECORD_BODY_BYTES
          \<or> list_ex (\<lambda>b. b \<noteq> 0) (slice 72 8 encoded)
          \<or> list_ex (\<lambda>b. b \<noteq> 0) (slice 656 48 encoded)
          \<or> slice RECORD_BODY_BYTES 8 encoded \<noteq> COMMIT_MAGIC
       then Inl RecordFraming
       else bindE (validate_record header (parse_record encoded)) (\<lambda>record.
         bindE (u64E expected_sequence) (\<lambda>sequence.
           if r_sequence record \<noteq> sequence
              \<or> r_previous_journal_sha256 record \<noteq> previous
              \<or> read_u64 encoded (RECORD_BODY_BYTES + 8) \<noteq> r_sequence record
              \<or> drop (RECORD_BODY_BYTES + 16) encoded \<noteq> r_record_sha256 record
           then Inl RecordMismatch
           else Inr record))))"

definition append_plan ::
  "outbox_header \<Rightarrow> int \<Rightarrow> bytes \<Rightarrow> bytes \<Rightarrow> outbox_error + bytes \<times> bytes" where
  "append_plan header_value expected_sequence expected_previous_journal_sha256 encoded_record =
     bindE (decode_record header_value expected_sequence expected_previous_journal_sha256 encoded_record)
       (\<lambda>_. Inr (take RECORD_BODY_BYTES encoded_record, drop RECORD_BODY_BYTES encoded_record))"

end
