(* ===== verification/Outbox_Journal.thy ===== *)
theory Outbox_Journal
  imports Outbox_Wire
begin

text \<open>
  The ActionOutbox lifecycle of \<open>bench/action_outbox_conformance.py\<close>: the per-action state, the
  ledger of event counts, the transition records a writer may produce, the replay of one record,
  recovery of a journal from its bytes, and the closed anchor. The Python lists are lists, and the
  in-place updates of a copied ledger or state are functional updates.
\<close>

section \<open>State and ledger\<close>

abbreviation PHASE_FREE :: int where "PHASE_FREE \<equiv> 0"
abbreviation PHASE_READY :: int where "PHASE_READY \<equiv> 1"
abbreviation PHASE_UNCERTAIN :: int where "PHASE_UNCERTAIN \<equiv> 2"
abbreviation PHASE_SUCCEEDED :: int where "PHASE_SUCCEEDED \<equiv> 3"
abbreviation PHASE_FAILED :: int where "PHASE_FAILED \<equiv> 4"

definition PHASES :: "int list" where "PHASES = [0, 1, 2, 3, 4]"

definition STATE_DOMAIN :: bytes where
  "STATE_DOMAIN = ascii ''glacier-tool-action-outbox-state-v1'' @ [0]"
definition LEDGER_DOMAIN :: bytes where
  "LEDGER_DOMAIN = ascii ''glacier-tool-action-outbox-ledger-v1'' @ [0]"
definition CLOSED_ANCHOR_DOMAIN :: bytes where
  "CLOSED_ANCHOR_DOMAIN = ascii ''glacier-tool-action-outbox-closed-anchor-v1'' @ [0]"

record action_state =
  s_occupied :: bool
  s_identity :: action_identity
  s_phase :: int
  s_attempt_generation :: int
  s_dispatch_request_sha256 :: bytes
  s_observation_sha256 :: bytes
  s_result_sha256 :: bytes
  s_last_event_sha256 :: bytes

record outbox_ledger =
  l_committed_records :: int
  l_actions_enqueued :: int
  l_primary_actions :: int
  l_compensation_actions :: int
  l_dispatch_intents :: int
  l_safe_retry_dispatches :: int
  l_ambiguity_observations :: int
  l_acknowledged_successes :: int
  l_acknowledged_failures :: int
  l_reconciled_not_applied :: int
  l_reconciled_successes :: int
  l_reconciled_failures :: int
  l_ready_actions :: int
  l_uncertain_actions :: int
  l_succeeded_actions :: int
  l_failed_actions :: int

definition ledger_words :: "outbox_ledger \<Rightarrow> int list" where
  "ledger_words l =
    [l_committed_records l, l_actions_enqueued l, l_primary_actions l, l_compensation_actions l,
     l_dispatch_intents l, l_safe_retry_dispatches l, l_ambiguity_observations l,
     l_acknowledged_successes l, l_acknowledged_failures l, l_reconciled_not_applied l,
     l_reconciled_successes l, l_reconciled_failures l, l_ready_actions l, l_uncertain_actions l,
     l_succeeded_actions l, l_failed_actions l]"

definition empty_ledger :: outbox_ledger where
  "empty_ledger =
    \<lparr>l_committed_records = 0, l_actions_enqueued = 0, l_primary_actions = 0,
     l_compensation_actions = 0, l_dispatch_intents = 0, l_safe_retry_dispatches = 0,
     l_ambiguity_observations = 0, l_acknowledged_successes = 0, l_acknowledged_failures = 0,
     l_reconciled_not_applied = 0, l_reconciled_successes = 0, l_reconciled_failures = 0,
     l_ready_actions = 0, l_uncertain_actions = 0, l_succeeded_actions = 0, l_failed_actions = 0\<rparr>"

definition make_state :: "action_identity \<Rightarrow> action_state" where
  "make_state identity =
    \<lparr>s_occupied = True, s_identity = identity, s_phase = PHASE_READY, s_attempt_generation = 0,
     s_dispatch_request_sha256 = ZERO_DIGEST, s_observation_sha256 = ZERO_DIGEST,
     s_result_sha256 = ZERO_DIGEST, s_last_event_sha256 = ZERO_DIGEST\<rparr>"

definition state_digests :: "action_state \<Rightarrow> bytes list" where
  "state_digests s =
    [s_dispatch_request_sha256 s, s_observation_sha256 s, s_result_sha256 s, s_last_event_sha256 s]"

definition validate_state :: "outbox_header \<Rightarrow> action_state \<Rightarrow> outbox_error + action_state" where
  "validate_state header_value s =
     bindE (validate_header header_value) (\<lambda>header.
     bindE (validate_action_identity header (s_identity s)) (\<lambda>_.
     bindE (enumE (s_phase s) PHASES) (\<lambda>_.
     bindE (u64E (s_attempt_generation s)) (\<lambda>_.
     bindE (mapE digest0E (state_digests s)) (\<lambda>_.
       if \<not> s_occupied s \<or> s_phase s = PHASE_FREE then Inl StateUnoccupied else Inr s)))))"

definition validate_ledger :: "outbox_ledger \<Rightarrow> outbox_error + outbox_ledger" where
  "validate_ledger l = bindE (mapE u64E (ledger_words l)) (\<lambda>_. Inr l)"

definition clear_phase_counts :: "outbox_ledger \<Rightarrow> outbox_ledger" where
  "clear_phase_counts l = l\<lparr>l_ready_actions := 0, l_uncertain_actions := 0, l_succeeded_actions := 0,
     l_failed_actions := 0\<rparr>"

definition count_phase :: "outbox_ledger \<Rightarrow> action_state \<Rightarrow> outbox_error + outbox_ledger" where
  "count_phase ledger state =
    (if s_phase state = PHASE_READY then
       bindE (add_u64 (l_ready_actions ledger) 1) (\<lambda>n. Inr (ledger\<lparr>l_ready_actions := n\<rparr>))
     else if s_phase state = PHASE_UNCERTAIN then
       bindE (add_u64 (l_uncertain_actions ledger) 1) (\<lambda>n. Inr (ledger\<lparr>l_uncertain_actions := n\<rparr>))
     else if s_phase state = PHASE_SUCCEEDED then
       bindE (add_u64 (l_succeeded_actions ledger) 1) (\<lambda>n. Inr (ledger\<lparr>l_succeeded_actions := n\<rparr>))
     else if s_phase state = PHASE_FAILED then
       bindE (add_u64 (l_failed_actions ledger) 1) (\<lambda>n. Inr (ledger\<lparr>l_failed_actions := n\<rparr>))
     else Inl InvalidPhase)"

definition finalize_ledger ::
  "action_state list \<Rightarrow> outbox_ledger \<Rightarrow> outbox_error + outbox_ledger" where
  "finalize_ledger states ledger_value =
     bindE (validate_ledger ledger_value) (\<lambda>ledger.
     bindE (foldE count_phase (clear_phase_counts ledger) states) (\<lambda>ledger.
     bindE (add_u64 (l_primary_actions ledger) (l_compensation_actions ledger)) (\<lambda>total.
       if l_actions_enqueued ledger \<noteq> total
          \<or> l_actions_enqueued ledger \<noteq> l_ready_actions ledger + l_uncertain_actions ledger
              + l_succeeded_actions ledger + l_failed_actions ledger
       then Inl LedgerOpen
       else Inr ledger)))"

text \<open>The index of the first state with this action root, or \<open>None\<close>.\<close>

fun find_state :: "action_state list \<Rightarrow> bytes \<Rightarrow> nat option" where
  "find_state [] root = None"
| "find_state (s # ss) root =
     (if i_action_sha256 (s_identity s) = root then Some 0 else map_option Suc (find_state ss root))"

section \<open>Transition records\<close>

definition make_transition_record ::
  "outbox_header \<Rightarrow> int \<Rightarrow> bytes \<Rightarrow> action_state \<Rightarrow> int \<Rightarrow> int \<Rightarrow> bytes \<Rightarrow> bytes \<Rightarrow> outbox_error + outbox_record"
where
  "make_transition_record header_value sequence previous_journal_sha256 state_value kind
     attempt_generation observation_sha256 result_sha256 =
     bindE (validate_header header_value) (\<lambda>header.
     bindE (validate_state header state_value) (\<lambda>state.
     bindE (enumE kind (remove1 EVENT_ENQUEUED EVENT_KINDS)) (\<lambda>event_kind.
     bindE (u64E attempt_generation) (\<lambda>generation.
     bindE (digest0E observation_sha256) (\<lambda>observation.
     bindE (digest0E result_sha256) (\<lambda>output.
       if \<not> s_occupied state then Inl UnoccupiedState
       else bindE
         (if event_kind = EVENT_DISPATCH_INTENT then
            if s_phase state \<noteq> PHASE_READY then Inl DispatchTransition
            else bindE (add_u64 (s_attempt_generation state) 1) (\<lambda>next.
              if generation \<noteq> next \<or> observation \<noteq> ZERO_DIGEST \<or> output \<noteq> ZERO_DIGEST
              then Inl DispatchTransition
              else dispatch_request_sha256 header (s_identity state) generation)
          else if event_kind = EVENT_AMBIGUITY_OBSERVED \<or> event_kind = EVENT_RECONCILED_NOT_APPLIED then
            if s_phase state \<noteq> PHASE_UNCERTAIN \<or> generation \<noteq> s_attempt_generation state
               \<or> s_dispatch_request_sha256 state = ZERO_DIGEST
               \<or> observation = ZERO_DIGEST \<or> output \<noteq> ZERO_DIGEST
            then Inl NonterminalTransition
            else Inr (s_dispatch_request_sha256 state)
          else if s_phase state \<noteq> PHASE_UNCERTAIN \<or> generation \<noteq> s_attempt_generation state
               \<or> s_dispatch_request_sha256 state = ZERO_DIGEST
               \<or> observation = ZERO_DIGEST \<or> output = ZERO_DIGEST
            then Inl TerminalTransition
            else Inr (s_dispatch_request_sha256 state)) (\<lambda>dispatch.
         bindE (u64E sequence) (\<lambda>seq.
         bindE (digestE previous_journal_sha256) (\<lambda>previous.
           let result = \<lparr>r_abi_version = RECORD_ABI, r_sequence = seq, r_kind = event_kind,
                 r_attempt_generation = generation, r_identity = s_identity state,
                 r_previous_action_event_sha256 = s_last_event_sha256 state,
                 r_previous_journal_sha256 = previous, r_dispatch_request_sha256 = dispatch,
                 r_observation_sha256 = observation, r_result_sha256 = output,
                 r_record_sha256 = ZERO_DIGEST\<rparr>
           in bindE (record_sha256 header result) (\<lambda>root.
                validate_record header (result\<lparr>r_record_sha256 := root\<rparr>)))))))))))"

section \<open>Replaying one record\<close>

text \<open>The uniqueness checks of an enqueue against one existing state.\<close>

definition enqueue_conflict :: "action_identity \<Rightarrow> unit \<Rightarrow> action_state \<Rightarrow> outbox_error + unit" where
  "enqueue_conflict identity u state =
    (let existing = s_identity state in
     if i_idempotency_key_sha256 existing = i_idempotency_key_sha256 identity
     then Inl DuplicateIdempotencyKey
     else if i_stable_remote_request_sha256 existing = i_stable_remote_request_sha256 identity
     then Inl DuplicateRemoteRequest
     else if i_purpose identity = PURPOSE_COMPENSATION \<and> i_purpose existing = PURPOSE_COMPENSATION
       \<and> i_parent_action_sha256 existing = i_parent_action_sha256 identity
     then Inl DuplicateCompensation
     else Inr ())"

definition apply_enqueue ::
  "outbox_header \<Rightarrow> outbox_record \<Rightarrow> action_state list \<Rightarrow> outbox_ledger
    \<Rightarrow> outbox_error + action_state list \<times> outbox_ledger"
where
  "apply_enqueue header record states ledger =
    (let identity = r_identity record in
     if find_state states (i_action_sha256 identity) \<noteq> None then Inl DuplicateAction
     else bindE (foldE (enqueue_conflict identity) () states) (\<lambda>_.
       if int (length states) \<ge> h_maximum_actions header then Inl ActionCapacity
       else bindE
         (if i_purpose identity = PURPOSE_COMPENSATION then
            case find_state states (i_parent_action_sha256 identity) of
              None \<Rightarrow> Inl ParentMissing
            | Some parent_index \<Rightarrow>
                let parent = states ! parent_index in
                if i_purpose (s_identity parent) \<noteq> PURPOSE_PRIMARY \<or> s_phase parent \<noteq> PHASE_SUCCEEDED
                then Inl ParentNotSucceeded
                else bindE (add_u64 (l_compensation_actions ledger) 1)
                       (\<lambda>n. Inr (ledger\<lparr>l_compensation_actions := n\<rparr>))
          else bindE (add_u64 (l_primary_actions ledger) 1)
                 (\<lambda>n. Inr (ledger\<lparr>l_primary_actions := n\<rparr>))) (\<lambda>ledger.
         bindE (add_u64 (l_actions_enqueued ledger) 1) (\<lambda>n.
           Inr (states @ [(make_state identity)\<lparr>s_last_event_sha256 := r_record_sha256 record\<rparr>],
                ledger\<lparr>l_actions_enqueued := n\<rparr>)))))"

definition apply_dispatch ::
  "outbox_header \<Rightarrow> outbox_record \<Rightarrow> action_state \<Rightarrow> outbox_ledger
    \<Rightarrow> outbox_error + action_state \<times> outbox_ledger"
where
  "apply_dispatch header record state ledger =
    (if s_phase state \<noteq> PHASE_READY then Inl UnsafeDispatch
     else bindE (add_u64 (s_attempt_generation state) 1) (\<lambda>next.
       if r_attempt_generation record \<noteq> next then Inl UnsafeDispatch
       else bindE (dispatch_request_sha256 header (r_identity record) (r_attempt_generation record))
         (\<lambda>request.
          if r_dispatch_request_sha256 record \<noteq> request then Inl UnsafeDispatch
          else bindE
            (if s_attempt_generation state \<noteq> 0
             then bindE (add_u64 (l_safe_retry_dispatches ledger) 1)
                    (\<lambda>n. Inr (ledger\<lparr>l_safe_retry_dispatches := n\<rparr>))
             else Inr ledger) (\<lambda>ledger.
            bindE (add_u64 (l_dispatch_intents ledger) 1) (\<lambda>n.
              Inr (state\<lparr>s_phase := PHASE_UNCERTAIN,
                     s_attempt_generation := r_attempt_generation record,
                     s_dispatch_request_sha256 := r_dispatch_request_sha256 record,
                     s_observation_sha256 := ZERO_DIGEST, s_result_sha256 := ZERO_DIGEST\<rparr>,
                   ledger\<lparr>l_dispatch_intents := n\<rparr>))))))"

definition apply_observation ::
  "outbox_record \<Rightarrow> action_state \<Rightarrow> outbox_ledger \<Rightarrow> outbox_error + action_state \<times> outbox_ledger"
where
  "apply_observation record state ledger =
    (let kind = r_kind record in
     if s_phase state \<noteq> PHASE_UNCERTAIN
        \<or> r_attempt_generation record \<noteq> s_attempt_generation state
        \<or> r_dispatch_request_sha256 record \<noteq> s_dispatch_request_sha256 state
     then Inl WrongAttempt
     else bindE
       (if kind = EVENT_AMBIGUITY_OBSERVED then
          bindE (add_u64 (l_ambiguity_observations ledger) 1) (\<lambda>n.
            Inr (state\<lparr>s_observation_sha256 := r_observation_sha256 record\<rparr>,
                 ledger\<lparr>l_ambiguity_observations := n\<rparr>))
        else if kind = EVENT_ACKNOWLEDGED_SUCCESS then
          bindE (add_u64 (l_acknowledged_successes ledger) 1) (\<lambda>n.
            Inr (state\<lparr>s_phase := PHASE_SUCCEEDED\<rparr>, ledger\<lparr>l_acknowledged_successes := n\<rparr>))
        else if kind = EVENT_ACKNOWLEDGED_FAILURE then
          bindE (add_u64 (l_acknowledged_failures ledger) 1) (\<lambda>n.
            Inr (state\<lparr>s_phase := PHASE_FAILED\<rparr>, ledger\<lparr>l_acknowledged_failures := n\<rparr>))
        else if kind = EVENT_RECONCILED_NOT_APPLIED then
          bindE (add_u64 (l_reconciled_not_applied ledger) 1) (\<lambda>n.
            Inr (state\<lparr>s_phase := PHASE_READY, s_dispatch_request_sha256 := ZERO_DIGEST\<rparr>,
                 ledger\<lparr>l_reconciled_not_applied := n\<rparr>))
        else if kind = EVENT_RECONCILED_SUCCESS then
          bindE (add_u64 (l_reconciled_successes ledger) 1) (\<lambda>n.
            Inr (state\<lparr>s_phase := PHASE_SUCCEEDED\<rparr>, ledger\<lparr>l_reconciled_successes := n\<rparr>))
        else if kind = EVENT_RECONCILED_FAILURE then
          bindE (add_u64 (l_reconciled_failures ledger) 1) (\<lambda>n.
            Inr (state\<lparr>s_phase := PHASE_FAILED\<rparr>, ledger\<lparr>l_reconciled_failures := n\<rparr>))
        else Inl UnknownTransition) (\<lambda>(next_state, ledger).
       Inr (next_state\<lparr>s_observation_sha256 := r_observation_sha256 record,
              s_result_sha256 := r_result_sha256 record\<rparr>, ledger)))"

definition apply_transition ::
  "outbox_header \<Rightarrow> outbox_record \<Rightarrow> action_state list \<Rightarrow> outbox_ledger
    \<Rightarrow> outbox_error + action_state list \<times> outbox_ledger"
where
  "apply_transition header record states ledger =
    (case find_state states (i_action_sha256 (r_identity record)) of
       None \<Rightarrow> Inl NotEnqueued
     | Some state_index \<Rightarrow>
         let state = states ! state_index in
         if s_identity state \<noteq> r_identity record
            \<or> s_last_event_sha256 state \<noteq> r_previous_action_event_sha256 record
         then Inl IdentityDrift
         else bindE
           (if r_kind record = EVENT_DISPATCH_INTENT then apply_dispatch header record state ledger
            else apply_observation record state ledger) (\<lambda>(next_state, ledger).
           Inr (states[state_index := next_state\<lparr>s_last_event_sha256 := r_record_sha256 record\<rparr>],
                ledger)))"

definition apply_record ::
  "outbox_header \<Rightarrow> outbox_record \<Rightarrow> action_state list \<Rightarrow> outbox_ledger
    \<Rightarrow> outbox_error + action_state list \<times> outbox_ledger"
where
  "apply_record header_value record_value states_value ledger_value =
     bindE (validate_header header_value) (\<lambda>header.
     bindE (validate_record header record_value) (\<lambda>record.
     bindE (mapE (validate_state header) states_value) (\<lambda>states.
     bindE (validate_ledger ledger_value) (\<lambda>ledger.
       let ledger = clear_phase_counts ledger in
       bindE (add_u64 (l_committed_records ledger) 1) (\<lambda>expected.
         if r_sequence record \<noteq> expected then Inl NoncontiguousSequence
         else if expected > h_maximum_records header then Inl RecordCapacity
         else let ledger = ledger\<lparr>l_committed_records := expected\<rparr> in
           if r_kind record = EVENT_ENQUEUED then apply_enqueue header record states ledger
           else apply_transition header record states ledger)))))"

section \<open>Recovery\<close>

definition hash_ledger_parts :: "outbox_ledger \<Rightarrow> outbox_error + bytes list" where
  "hash_ledger_parts ledger_value =
     bindE (validate_ledger ledger_value) (\<lambda>ledger. mapE le_u64E (ledger_words ledger))"

definition hash_state_parts :: "action_state \<Rightarrow> outbox_error + bytes list" where
  "hash_state_parts state =
     bindE (le_u8E (if s_occupied state then 1 else 0)) (\<lambda>a.
     bindE (hash_identity_parts (s_identity state)) (\<lambda>ip.
     bindE (le_u8E (s_phase state)) (\<lambda>b.
     bindE (le_u64E (s_attempt_generation state)) (\<lambda>c.
       Inr ([a] @ ip @ [b, c] @ state_digests state)))))"

definition state_sha256 ::
  "outbox_header \<Rightarrow> action_state list \<Rightarrow> outbox_ledger \<Rightarrow> outbox_error + bytes" where
  "state_sha256 header_value states_value ledger_value =
     bindE (validate_header header_value) (\<lambda>header.
     bindE (mapE (validate_state header) states_value) (\<lambda>states.
     bindE (validate_ledger ledger_value) (\<lambda>ledger.
     bindE (le_u64E (int (length states))) (\<lambda>n.
     bindE (mapE hash_state_parts states) (\<lambda>parts.
     bindE (hash_ledger_parts ledger) (\<lambda>lp.
       Inr (sha_parts STATE_DOMAIN ([h_header_sha256 header, n] @ concat parts @ lp))))))))"

definition ledger_sha256 :: "outbox_ledger \<Rightarrow> outbox_error + bytes" where
  "ledger_sha256 ledger_value =
     bindE (hash_ledger_parts ledger_value) (\<lambda>lp. Inr (sha_parts LEDGER_DOMAIN lp))"

abbreviation RECOVERY_CLEAN :: int where "RECOVERY_CLEAN \<equiv> 1"
abbreviation RECOVERY_SHORT_BODY_TAIL :: int where "RECOVERY_SHORT_BODY_TAIL \<equiv> 2"
abbreviation RECOVERY_BODY_WITHOUT_FOOTER :: int where "RECOVERY_BODY_WITHOUT_FOOTER \<equiv> 3"
abbreviation RECOVERY_PARTIAL_FOOTER_TAIL :: int where "RECOVERY_PARTIAL_FOOTER_TAIL \<equiv> 4"

record recovery =
  v_header :: outbox_header
  v_records :: "outbox_record list"
  v_states :: "action_state list"
  v_status :: int
  v_committed_bytes :: int
  v_discarded_tail_bytes :: int
  v_final_chain_sha256 :: bytes
  v_state_sha256 :: bytes
  v_ledger :: outbox_ledger

text \<open>
  The \<open>while offset < len(encoded)\<close> loop. Its state is the offset, the records decoded so far,
  the states, the ledger and the last chain root; a \<open>break\<close> returns it with the tail status.
\<close>

record replay =
  p_offset :: nat
  p_records :: "outbox_record list"
  p_states :: "action_state list"
  p_ledger :: outbox_ledger
  p_final_chain :: bytes

definition replay_record :: "outbox_header \<Rightarrow> bytes \<Rightarrow> replay \<Rightarrow> outbox_error + replay" where
  "replay_record header encoded p =
    (if int (length (p_records p)) \<ge> h_maximum_records header then Inl RecordCapacity
     else bindE (decode_record header (int (length (p_records p)) + 1) (p_final_chain p)
            (slice (p_offset p) RECORD_BYTES encoded)) (\<lambda>record.
          bindE (apply_record header record (p_states p) (p_ledger p)) (\<lambda>(states, ledger).
            Inr \<lparr>p_offset = p_offset p + RECORD_BYTES, p_records = p_records p @ [record],
                 p_states = states, p_ledger = ledger,
                 p_final_chain = r_record_sha256 record\<rparr>)))"

lemma replay_record_offset [result_simps]:
  "replay_record header encoded p = Inr p' \<Longrightarrow> p_offset p' = p_offset p + RECORD_BYTES"
  by (auto simp: replay_record_def result_simps split: if_splits prod.splits)

function recover_loop :: "outbox_header \<Rightarrow> bytes \<Rightarrow> replay \<Rightarrow> outbox_error + replay \<times> int" where
  "recover_loop header encoded p =
    (if p_offset p < length encoded then
       let remaining = length encoded - p_offset p in
       if remaining < RECORD_BODY_BYTES then Inr (p, RECOVERY_SHORT_BODY_TAIL)
       else if remaining = RECORD_BODY_BYTES then Inr (p, RECOVERY_BODY_WITHOUT_FOOTER)
       else if remaining < RECORD_BYTES then Inr (p, RECOVERY_PARTIAL_FOOTER_TAIL)
       else bindE (replay_record header encoded p) (recover_loop header encoded)
     else Inr (p, RECOVERY_CLEAN))"
  by pat_completeness auto
termination
  by (relation "measure (\<lambda>(header, encoded, p). length encoded - p_offset p)")
    (auto dest!: replay_record_offset)

declare recover_loop.simps [simp del]

definition recover :: "bytes \<Rightarrow> bytes \<Rightarrow> outbox_error + recovery" where
  "recover encoded expected_header_sha256 =
    (if length encoded < HEADER_BYTES then Inl HeaderIncomplete
     else bindE (decode_header (take HEADER_BYTES encoded) expected_header_sha256) (\<lambda>header.
       bindE (recover_loop header encoded
          \<lparr>p_offset = HEADER_BYTES, p_records = [], p_states = [], p_ledger = empty_ledger,
           p_final_chain = h_header_sha256 header\<rparr>) (\<lambda>(p, status).
       bindE (finalize_ledger (p_states p) (p_ledger p)) (\<lambda>ledger.
       bindE (state_sha256 header (p_states p) ledger) (\<lambda>root.
         Inr \<lparr>v_header = header, v_records = p_records p, v_states = p_states p, v_status = status,
              v_committed_bytes = int (p_offset p),
              v_discarded_tail_bytes = int (length encoded) - int (p_offset p),
              v_final_chain_sha256 = p_final_chain p, v_state_sha256 = root,
              v_ledger = ledger\<rparr>)))))"

section \<open>The closed anchor\<close>

record closed_anchor =
  a_abi_version :: int
  a_header_sha256 :: bytes
  a_committed_bytes :: int
  a_committed_records :: int
  a_final_chain_sha256 :: bytes
  a_state_sha256 :: bytes
  a_ledger_sha256 :: bytes
  a_anchor_sha256 :: bytes

definition closed_anchor_sha256 :: "closed_anchor \<Rightarrow> outbox_error + bytes" where
  "closed_anchor_sha256 a =
     bindE (le_u64E (a_abi_version a)) (\<lambda>p1.
     bindE (digestE (a_header_sha256 a)) (\<lambda>p2.
     bindE (le_u64E (a_committed_bytes a)) (\<lambda>p3.
     bindE (le_u64E (a_committed_records a)) (\<lambda>p4.
     bindE (mapE digestE [a_final_chain_sha256 a, a_state_sha256 a, a_ledger_sha256 a]) (\<lambda>ds.
       Inr (sha_parts CLOSED_ANCHOR_DOMAIN ([p1, p2, p3, p4] @ ds)))))))"

definition validate_closed_anchor :: "closed_anchor \<Rightarrow> outbox_error + closed_anchor" where
  "validate_closed_anchor a =
     bindE (mapE u64E [a_abi_version a, a_committed_bytes a, a_committed_records a]) (\<lambda>_.
     bindE (mapE digestE [a_header_sha256 a, a_final_chain_sha256 a, a_state_sha256 a,
       a_ledger_sha256 a, a_anchor_sha256 a]) (\<lambda>_.
       if a_abi_version a \<noteq> CLOSED_ANCHOR_ABI then Inl InvalidAnchor
       else bindE (closed_anchor_sha256 a) (\<lambda>root.
         if a_anchor_sha256 a \<noteq> root then Inl InvalidAnchor else Inr a)))"

definition make_closed_anchor :: "recovery \<Rightarrow> outbox_error + closed_anchor" where
  "make_closed_anchor recovery_value =
     bindE (validate_ledger (v_ledger recovery_value)) (\<lambda>ledger.
       if v_status recovery_value \<noteq> RECOVERY_CLEAN
          \<or> v_discarded_tail_bytes recovery_value \<noteq> 0
          \<or> l_ready_actions ledger \<noteq> 0
          \<or> l_uncertain_actions ledger \<noteq> 0
       then Inl OpenJournal
       else bindE (ledger_sha256 ledger) (\<lambda>lroot.
         let result = \<lparr>a_abi_version = CLOSED_ANCHOR_ABI,
               a_header_sha256 = h_header_sha256 (v_header recovery_value),
               a_committed_bytes = v_committed_bytes recovery_value,
               a_committed_records = l_committed_records ledger,
               a_final_chain_sha256 = v_final_chain_sha256 recovery_value,
               a_state_sha256 = v_state_sha256 recovery_value,
               a_ledger_sha256 = lroot, a_anchor_sha256 = ZERO_DIGEST\<rparr>
         in bindE (closed_anchor_sha256 result) (\<lambda>root.
              validate_closed_anchor (result\<lparr>a_anchor_sha256 := root\<rparr>))))"

definition verify_closed :: "recovery \<Rightarrow> closed_anchor \<Rightarrow> outbox_error + unit" where
  "verify_closed recovery_value expected_value =
     bindE (validate_closed_anchor expected_value) (\<lambda>expected.
     bindE (make_closed_anchor recovery_value) (\<lambda>anchor.
       if anchor \<noteq> expected then Inl AnchorMismatch else Inr ()))"

end
