(* ===== verification/Outbox_Codec.thy ===== *)
theory Outbox_Codec
  imports Outbox_Wire
begin

text \<open>
  The wire theorems of the ActionOutbox. Validation returns its argument unchanged; every encoder
  is shown to be the plain concatenation of its parts (its layout); decoding an encoding gives the
  value back, and a decoder accepts nothing but encodings. The two laws are the locale
  \<open>wire_codec\<close>, interpreted on the header codec and on the record codec.
\<close>

section \<open>The codec contract\<close>

locale wire_codec =
  fixes enc :: "'a \<Rightarrow> 'e + bytes"
    and dec :: "bytes \<Rightarrow> 'e + 'a"
  assumes roundtrip: "enc x = Inr bs \<Longrightarrow> dec bs = Inr x"
    and canonical: "dec bs = Inr x \<Longrightarrow> enc x = Inr bs"
begin

lemma enc_dec_iff: "enc x = Inr bs \<longleftrightarrow> dec bs = Inr x"
  using roundtrip canonical by blast

lemma enc_injective: "enc x = Inr bs \<Longrightarrow> enc y = Inr bs \<Longrightarrow> x = y"
  by (metis Inr_inject roundtrip)

lemma dec_injective: "dec bs = Inr x \<Longrightarrow> dec cs = Inr x \<Longrightarrow> bs = cs"
  by (metis Inr_inject canonical)

end

section \<open>Validation returns its argument\<close>

lemma validate_header_same: "validate_header h = Inr h' \<Longrightarrow> h' = h"
  by (auto simp: validate_header_def result_simps)

lemma validate_action_identity_same: "validate_action_identity h i = Inr i' \<Longrightarrow> i' = i"
  by (auto simp: validate_action_identity_def result_simps)

lemma validate_record_same: "validate_record h r = Inr r' \<Longrightarrow> r' = r"
  by (auto simp: validate_record_def result_simps)

definition header_ok :: "outbox_header \<Rightarrow> bool" where
  "header_ok h \<longleftrightarrow> validate_header h = Inr h"

definition identity_ok :: "outbox_header \<Rightarrow> action_identity \<Rightarrow> bool" where
  "identity_ok h i \<longleftrightarrow> validate_action_identity h i = Inr i"

definition record_ok :: "outbox_header \<Rightarrow> outbox_record \<Rightarrow> bool" where
  "record_ok h r \<longleftrightarrow> validate_record h r = Inr r"

lemma validate_header_Inr: "validate_header h = Inr h' \<longleftrightarrow> header_ok h \<and> h' = h"
  using validate_header_same by (auto simp: header_ok_def)

lemma validate_action_identity_Inr: "validate_action_identity h i = Inr i' \<longleftrightarrow> identity_ok h i \<and> i' = i"
  using validate_action_identity_same by (auto simp: identity_ok_def)

lemma validate_record_Inr: "validate_record h r = Inr r' \<longleftrightarrow> record_ok h r \<and> r' = r"
  using validate_record_same by (auto simp: record_ok_def)

lemmas ok_simps = validate_header_Inr validate_action_identity_Inr validate_record_Inr

lemma validate_header_words: "validate_header h = Inr h' \<Longrightarrow> v \<in> set (header_words h) \<Longrightarrow> is_u64 v"
  by (auto simp: validate_header_def result_simps)

lemma validate_header_digests: "validate_header h = Inr h' \<Longrightarrow> d \<in> set (header_digests h) \<Longrightarrow> is_digest d"
  by (auto simp: validate_header_def result_simps)

lemma is_digest_length: "is_digest d \<Longrightarrow> length d = 32"
  by (simp add: is_digest_def)

lemma zero_bytes_iff: "list_ex (\<lambda>b. b \<noteq> 0) bs \<longleftrightarrow> bs \<noteq> zeros (length bs)"
  by (induction bs) (auto simp: zeros_def)

section \<open>Header\<close>

definition header_layout :: "outbox_header \<Rightarrow> bytes" where
  "header_layout h =
     HEADER_MAGIC @ pack_u64s (h_abi_version h # int HEADER_BYTES # tl (header_words h)) @ zeros 8
       @ concat (header_digests h) @ zeros 96"

lemma length_magic [simp]:
  "length HEADER_MAGIC = 8" "length RECORD_MAGIC = 8" "length COMMIT_MAGIC = 8"
  by (simp_all add: HEADER_MAGIC_def RECORD_MAGIC_def COMMIT_MAGIC_def ascii_def)

lemma encode_header_layout:
  assumes "validate_header h = Inr h"
  shows "encode_header h = Inr (header_layout h)"
proof -
  have d: "\<forall>p \<in> set (header_digests h). length p = 32"
    using validate_header_digests [OF assms] is_digest_length by blast
  have n: "length (header_digests h) = 4" "header_digests h \<noteq> []"
    by (simp_all add: header_digests_def)
  let ?w = "[h_abi_version h, 320, h_flags h, h_outbox_epoch h, h_outbox_id h, h_tenant_key h,
    h_maximum_actions h, h_maximum_records h, h_maximum_payload_bytes h, h_capability_bits h]"
  have s1: "splice 0 8 HEADER_MAGIC (zeros 320) = HEADER_MAGIC @ zeros 312"
    using splice_zeros [of "[]" 0 HEADER_MAGIC 8 320] by simp
  have s2: "splice 8 80 (pack_u64s ?w) (HEADER_MAGIC @ zeros 312) = HEADER_MAGIC @ pack_u64s ?w @ zeros 232"
    using splice_zeros [of HEADER_MAGIC 8 "pack_u64s ?w" 80 312] by simp
  have s3: "splice32 96 (header_digests h) (HEADER_MAGIC @ pack_u64s ?w @ zeros 232) = header_layout h"
    by (subst append_assoc [symmetric], subst splice32_zeros)
      (use d n in \<open>simp_all add: header_layout_def header_words_def\<close>)
  show ?thesis
    by (simp add: encode_header_def assms s1 s2 s3)
qed

lemma slice_drop: "slice off n bs @ drop (off + n) bs = drop off bs"
  by (simp add: slice_def add.commute flip: drop_drop)

lemma header_split:
  assumes "length bs = 320"
  shows "bs = slice 0 8 bs @ slice 8 80 bs @ slice 88 8 bs @ slice 96 128 bs @ drop 224 bs"
  using slice_drop [of 96 128 bs] slice_drop [of 88 8 bs] slice_drop [of 8 80 bs] slice_drop [of 0 8 bs]
  by simp

lemma length_header_layout:
  "\<forall>d \<in> set (header_digests h). length d = 32 \<Longrightarrow> length (header_layout h) = 320"
  by (simp add: header_layout_def header_words_def header_digests_def)

lemma header_layout_slices:
  assumes "\<forall>d \<in> set (header_digests h). length d = 32"
  shows "slice 0 8 (header_layout h) = HEADER_MAGIC"
    and "slice 88 8 (header_layout h) = zeros 8"
    and "drop 224 (header_layout h) = zeros 96"
    and "fields32 4 (header_layout h) 96 = header_digests h"
proof -
  let ?w = "pack_u64s (h_abi_version h # int HEADER_BYTES # tl (header_words h))"
  have w: "length ?w = 80" by (simp add: header_words_def)
  have d: "length (concat (header_digests h)) = 128" using assms by (simp add: header_digests_def)
  have n: "length (header_digests h) = 4" by (simp add: header_digests_def)
  show "slice 0 8 (header_layout h) = HEADER_MAGIC" "slice 88 8 (header_layout h) = zeros 8"
    "drop 224 (header_layout h) = zeros 96"
    using w d by (simp_all add: header_layout_def slice_def)
  have "fields32 (length (header_digests h))
      ((HEADER_MAGIC @ ?w @ zeros 8) @ concat (header_digests h) @ zeros 96)
      (length (HEADER_MAGIC @ ?w @ zeros 8)) = header_digests h"
    by (rule fields32_concat [OF assms])
  then show "fields32 4 (header_layout h) 96 = header_digests h"
    using w n by (simp add: header_layout_def)
qed

lemma header_layout_words:
  assumes "\<forall>v \<in> set (header_words h). is_u64 v"
  shows "unpack_u64s 10 (header_layout h) 8 = h_abi_version h # 320 # tl (header_words h)"
proof -
  let ?vs = "h_abi_version h # 320 # tl (header_words h)"
  have "\<forall>v \<in> set ?vs. is_u64 v"
    using assms by (auto simp: header_words_def is_u64_def)
  note u = unpack_pack_u64s [OF this, of HEADER_MAGIC "zeros 8 @ concat (header_digests h) @ zeros 96"]
  have n: "length ?vs = 10" by (simp add: header_words_def)
  show ?thesis using u unfolding n by (simp add: header_layout_def)
qed

lemma unpack_list10: "xs = unpack_u64s 10 bs off \<Longrightarrow>
    xs = [xs ! 0, xs ! 1, xs ! 2, xs ! 3, xs ! 4, xs ! 5, xs ! 6, xs ! 7, xs ! 8, xs ! 9]"
  by (simp add: unpack_u64s_def upt_rec)

lemma parse_header_words:
  "header_words (parse_header bs) = (let vs = unpack_u64s 10 bs 8 in vs ! 0 # drop 2 vs)"
  by (subst unpack_list10 [OF refl]) (simp add: parse_header_def header_words_def Let_def)

lemma parse_header_digests: "header_digests (parse_header bs) = fields32 4 bs 96"
  by (simp add: parse_header_def header_digests_def fields32_def Let_def upt_rec)

lemma header_eqI:
  "header_words g = header_words h \<Longrightarrow> header_digests g = header_digests h \<Longrightarrow> g = h"
  by (cases g; cases h) (simp add: header_words_def header_digests_def)

lemma parse_header_layout:
  assumes "\<forall>v \<in> set (header_words h). is_u64 v" "\<forall>d \<in> set (header_digests h). length d = 32"
  shows "parse_header (header_layout h) = h"
  by (rule header_eqI)
    (simp_all add: parse_header_words parse_header_digests header_layout_words [OF assms(1)]
      header_layout_slices [OF assms(2)], simp add: header_words_def)

lemma header_roundtrip:
  assumes "encode_header h = Inr bs"
  shows "decode_header bs (h_header_sha256 h) = Inr h"
proof -
  from assms have v: "validate_header h = Inr h"
    by (auto simp: encode_header_def result_simps dest: validate_header_same)
  have bs: "bs = header_layout h" using assms encode_header_layout [OF v] by simp
  have d: "\<forall>d \<in> set (header_digests h). length d = 32" and w: "\<forall>w \<in> set (header_words h). is_u64 w"
    using validate_header_digests [OF v] is_digest_length validate_header_words [OF v] by blast+
  have e: "digestE (h_header_sha256 h) = Inr (h_header_sha256 h)"
    using validate_header_digests [OF v, of "h_header_sha256 h"]
    by (simp add: header_digests_def is_digest_def digestE_def)
  have r: "read_u64 bs 16 = 320"
    using arg_cong [OF header_layout_words [OF w], of "\<lambda>xs. xs ! 1"] by (simp add: bs unpack_u64s_def)
  show ?thesis
    using v length_header_layout [OF d] header_layout_slices [OF d] e r
    by (simp add: decode_header_def bs zero_bytes_iff parse_header_layout [OF w d])
qed

lemma header_canonical:
  assumes "decode_header bs root = Inr h"
  shows "encode_header h = Inr bs" and "h_header_sha256 h = root"
proof -
  define vs where "vs = unpack_u64s 10 bs 8"
  from assms have l: "length bs = 320" and m: "slice 0 8 bs = HEADER_MAGIC"
    and r: "read_u64 bs 16 = 320" and z: "slice 88 8 bs = zeros 8" "drop 224 bs = zeros 96"
    and v: "validate_header (parse_header bs) = Inr h" and root: "h_header_sha256 h = root"
    by (auto simp: decode_header_def result_simps zero_bytes_iff byte_simps)
  have h: "h = parse_header bs" using validate_header_same [OF v] .
  have "vs ! 1 = 320" using r by (simp add: vs_def unpack_u64s_def)
  then have "vs = vs ! 0 # 320 # drop 2 vs"
    using unpack_list10 [OF vs_def] by (metis drop0 drop_Suc_Cons numeral_2_eq_2)
  moreover have w: "header_words h = vs ! 0 # drop 2 vs"
    by (simp add: h parse_header_words vs_def Let_def)
  moreover from w have "h_abi_version h = vs ! 0" by (simp add: header_words_def)
  ultimately have "pack_u64s (h_abi_version h # 320 # tl (header_words h)) = pack_u64s vs"
    by simp
  also have "\<dots> = slice 8 80 bs"
    using pack_unpack_u64s [of 8 10 bs] l by (simp add: vs_def)
  finally have "header_layout h = bs"
    using header_split [OF l] concat_fields32 [of 96 4 bs] l
    by (simp add: header_layout_def m z h parse_header_digests)
  then show "encode_header h = Inr bs" using encode_header_layout v h by simp
  show "h_header_sha256 h = root" by (rule root)
qed

interpretation header_codec: wire_codec
    "\<lambda>h. if h_header_sha256 h = root then encode_header h else Inl UnpinnedHeader"
    "\<lambda>bs. decode_header bs root" for root
proof unfold_locales
  fix h bs
  assume "(if h_header_sha256 h = root then encode_header h else Inl UnpinnedHeader) = Inr bs"
  then show "decode_header bs root = Inr h"
    using header_roundtrip [of h bs] by (simp split: if_splits)
next
  fix h bs
  assume "decode_header bs root = Inr h"
  then show "(if h_header_sha256 h = root then encode_header h else Inl UnpinnedHeader) = Inr bs"
    using header_canonical by simp
qed

section \<open>Record\<close>

text \<open>The eight integers of the record prefix, without the constant body length.\<close>

definition record_words :: "outbox_record \<Rightarrow> int list" where
  "record_words r =
    [r_abi_version r, r_sequence r, r_kind r, r_attempt_generation r, i_purpose (r_identity r),
     i_action_ordinal (r_identity r), i_payload_bytes (r_identity r)]"

lemma length_record_words [simp]: "length (record_words r) = 7"
  by (simp add: record_words_def)

definition wire_digests :: "outbox_record \<Rightarrow> bytes list" where
  "wire_digests r = identity_digests (r_identity r) @ record_digests r"

definition record_layout :: "outbox_record \<Rightarrow> bytes" where
  "record_layout r =
     RECORD_MAGIC @ pack_u64s (r_abi_version r # int RECORD_BODY_BYTES # tl (record_words r))
       @ zeros 8 @ concat (wire_digests r) @ zeros 48
       @ COMMIT_MAGIC @ u64_bytes (r_sequence r) @ r_record_sha256 r"

lemma validate_record_facts:
  assumes "validate_record h r = Inr r'"
  shows "v \<in> set (record_words r) \<Longrightarrow> is_u64 v"
    and "d \<in> set (wire_digests r) \<Longrightarrow> length d = 32"
    and "i_abi_version (r_identity r) = IDENTITY_ABI"
    and "validate_header h = Inr h"
  using assms
  by (auto simp: validate_record_def validate_action_identity_def check_record_digests_def
      check_identity_digests_def record_words_def wire_digests_def identity_digests_def
      record_digests_def is_digest_def result_simps dest: validate_header_same)

lemma length_wire_digests [simp]: "length (wire_digests r) = 18"
  by (simp add: wire_digests_def identity_digests_def identity_roots_def record_digests_def)

lemma length_concat32: "\<forall>d \<in> set ds. length d = 32 \<Longrightarrow> length (concat ds) = 32 * length ds"
  by (induction ds) simp_all

lemma encode_record_layout:
  assumes v: "validate_record h r = Inr r"
  shows "encode_record h r = Inr (record_layout r)"
proof -
  have d: "\<forall>p \<in> set (wire_digests r). length p = 32" using validate_record_facts(2) [OF v] by blast
  have n: "wire_digests r \<noteq> []" by (simp add: wire_digests_def record_digests_def)
  have dc: "length (concat (wire_digests r)) = 576" using length_concat32 [OF d] by simp
  have rl: "length (r_record_sha256 r) = 32"
    using validate_record_facts(2) [OF v] by (simp add: wire_digests_def record_digests_def)
  let ?w = "pack_u64s [r_abi_version r, 704, r_sequence r, r_kind r, r_attempt_generation r,
    i_purpose (r_identity r), i_action_ordinal (r_identity r), i_payload_bytes (r_identity r)]"
  let ?p2 = "RECORD_MAGIC @ ?w @ zeros 8 @ concat (wire_digests r) @ zeros 48"
  have l: "length ?w = 64" by simp
  have s1: "splice 0 8 RECORD_MAGIC (zeros 752) = RECORD_MAGIC @ zeros 744"
    using splice_zeros [of "[]" 0 RECORD_MAGIC 8 752] by simp
  have s2: "splice 8 64 ?w (RECORD_MAGIC @ zeros 744) = RECORD_MAGIC @ ?w @ zeros 680"
    using splice_zeros [of RECORD_MAGIC 8 ?w 64 744] by simp
  have s3: "splice32 80 (wire_digests r) (RECORD_MAGIC @ ?w @ zeros 680)
      = RECORD_MAGIC @ ?w @ zeros 8 @ concat (wire_digests r) @ zeros 96"
    by (subst append_assoc [symmetric], subst splice32_zeros) (use d n in simp_all)
  have s4: "splice 704 8 COMMIT_MAGIC (RECORD_MAGIC @ ?w @ zeros 8 @ concat (wire_digests r) @ zeros 96)
      = ?p2 @ COMMIT_MAGIC @ zeros 40"
    using splice_zeros [of "RECORD_MAGIC @ ?w @ zeros 8 @ concat (wire_digests r)" 704 COMMIT_MAGIC 8 96]
      l dc by simp
  have s5: "splice 712 8 (u64_bytes (r_sequence r)) (?p2 @ COMMIT_MAGIC @ zeros 40)
      = ?p2 @ COMMIT_MAGIC @ u64_bytes (r_sequence r) @ zeros 32"
    using splice_zeros [of "?p2 @ COMMIT_MAGIC" 712 "u64_bytes (r_sequence r)" 8 40] l dc by simp
  have s6: "splice 720 32 (r_record_sha256 r) (?p2 @ COMMIT_MAGIC @ u64_bytes (r_sequence r) @ zeros 32)
      = ?p2 @ COMMIT_MAGIC @ u64_bytes (r_sequence r) @ r_record_sha256 r"
    using splice_zeros [of "?p2 @ COMMIT_MAGIC @ u64_bytes (r_sequence r)" 720 "r_record_sha256 r" 32 32]
      l dc rl by simp
  show ?thesis
    using s1 s2 s3 s4 s5 s6
    by (simp add: encode_record_def v validate_record_facts(4) [OF v] record_layout_def
        record_words_def wire_digests_def Let_def)
qed

lemma record_split:
  assumes "length bs = 752"
  shows "bs = slice 0 8 bs @ slice 8 64 bs @ slice 72 8 bs @ slice 80 576 bs @ slice 656 48 bs
    @ slice 704 8 bs @ slice 712 8 bs @ drop 720 bs"
  using slice_drop [of 712 8 bs] slice_drop [of 704 8 bs] slice_drop [of 656 48 bs]
    slice_drop [of 80 576 bs] slice_drop [of 72 8 bs] slice_drop [of 8 64 bs] slice_drop [of 0 8 bs]
  by simp

lemma record_layout_slices:
  assumes d: "\<forall>d \<in> set (wire_digests r). length d = 32"
  shows "length (record_layout r) = 752"
    and "slice 0 8 (record_layout r) = RECORD_MAGIC"
    and "slice 72 8 (record_layout r) = zeros 8"
    and "slice 656 48 (record_layout r) = zeros 48"
    and "slice 704 8 (record_layout r) = COMMIT_MAGIC"
    and "slice 712 8 (record_layout r) = u64_bytes (r_sequence r)"
    and "drop 720 (record_layout r) = r_record_sha256 r"
    and "fields32 18 (record_layout r) 80 = wire_digests r"
proof -
  let ?w = "pack_u64s (r_abi_version r # int RECORD_BODY_BYTES # tl (record_words r))"
  have w: "length ?w = 64" by simp
  have c: "length (concat (wire_digests r)) = 576" using length_concat32 [OF d] by simp
  have rl: "length (r_record_sha256 r) = 32"
    using d by (simp add: wire_digests_def record_digests_def)
  note [simp] = c rl record_layout_def slice_def
  show "length (record_layout r) = 752" "slice 0 8 (record_layout r) = RECORD_MAGIC"
    "slice 72 8 (record_layout r) = zeros 8" "slice 656 48 (record_layout r) = zeros 48"
    "slice 704 8 (record_layout r) = COMMIT_MAGIC"
    "slice 712 8 (record_layout r) = u64_bytes (r_sequence r)"
    "drop 720 (record_layout r) = r_record_sha256 r"
    by simp_all
  have "fields32 (length (wire_digests r))
      ((RECORD_MAGIC @ ?w @ zeros 8) @ concat (wire_digests r) @
        zeros 48 @ COMMIT_MAGIC @ u64_bytes (r_sequence r) @ r_record_sha256 r)
      (length (RECORD_MAGIC @ ?w @ zeros 8)) = wire_digests r"
    by (rule fields32_concat [OF d])
  then show "fields32 18 (record_layout r) 80 = wire_digests r" by simp
qed

lemma record_layout_words:
  assumes "\<forall>v \<in> set (record_words r). is_u64 v"
  shows "unpack_u64s 8 (record_layout r) 8 = r_abi_version r # 704 # tl (record_words r)"
proof -
  let ?vs = "r_abi_version r # 704 # tl (record_words r)"
  have "\<forall>v \<in> set ?vs. is_u64 v"
    using assms by (auto simp: record_words_def is_u64_def)
  note u = unpack_pack_u64s [OF this, of RECORD_MAGIC "zeros 8 @ concat (wire_digests r) @ zeros 48
    @ COMMIT_MAGIC @ u64_bytes (r_sequence r) @ r_record_sha256 r"]
  have n: "length ?vs = 8" by (simp add: record_words_def)
  show ?thesis using u unfolding n by (simp add: record_layout_def)
qed

lemma unpack_list8: "xs = unpack_u64s 8 bs off \<Longrightarrow>
    xs = [xs ! 0, xs ! 1, xs ! 2, xs ! 3, xs ! 4, xs ! 5, xs ! 6, xs ! 7]"
  by (simp add: unpack_u64s_def upt_rec)

lemma parse_record_words:
  "record_words (parse_record bs) = (let vs = unpack_u64s 8 bs 8 in vs ! 0 # drop 2 vs)"
  by (subst unpack_list8 [OF refl]) (simp add: parse_record_def record_words_def Let_def)

lemma parse_record_digests: "wire_digests (parse_record bs) = fields32 18 bs 80"
  by (simp add: parse_record_def wire_digests_def identity_digests_def identity_roots_def
      record_digests_def fields32_def Let_def upt_rec)

lemma parse_record_identity_abi: "i_abi_version (r_identity (parse_record bs)) = IDENTITY_ABI"
  by (simp add: parse_record_def Let_def)

lemma record_eqI:
  assumes "record_words g = record_words r" "wire_digests g = wire_digests r"
    "i_abi_version (r_identity g) = i_abi_version (r_identity r)"
  shows "g = r"
proof -
  have "r_identity g = r_identity r"
    using assms by (cases "r_identity g"; cases "r_identity r")
      (simp add: record_words_def wire_digests_def identity_digests_def identity_roots_def record_digests_def)
  then show ?thesis
    using assms by (cases g; cases r)
      (simp add: record_words_def wire_digests_def identity_digests_def identity_roots_def record_digests_def)
qed

lemma parse_record_layout:
  assumes "\<forall>v \<in> set (record_words r). is_u64 v" "\<forall>d \<in> set (wire_digests r). length d = 32"
    "i_abi_version (r_identity r) = IDENTITY_ABI"
  shows "parse_record (record_layout r) = r"
proof (rule record_eqI)
  show "record_words (parse_record (record_layout r)) = record_words r"
    by (simp add: parse_record_words record_layout_words [OF assms(1)])
      (simp add: record_words_def)
qed (simp_all add: parse_record_digests record_layout_slices [OF assms(2)] parse_record_identity_abi assms(3))

lemma record_roundtrip:
  assumes "encode_record h r = Inr bs"
  shows "decode_record h (r_sequence r) (r_previous_journal_sha256 r) bs = Inr r"
proof -
  from assms have v: "validate_record h r = Inr r"
    by (auto simp: encode_record_def result_simps dest: validate_header_same validate_record_same)
  have bs: "bs = record_layout r" using assms encode_record_layout [OF v] by simp
  have d: "\<forall>d \<in> set (wire_digests r). length d = 32" and w: "\<forall>w \<in> set (record_words r). is_u64 w"
    using validate_record_facts(1,2) [OF v] by blast+
  have "is_digest (r_previous_journal_sha256 r)"
    using v by (auto simp: validate_record_def check_record_digests_def result_simps is_digest_def)
  then have e: "digestE (r_previous_journal_sha256 r) = Inr (r_previous_journal_sha256 r)"
    by (simp add: digestE_def is_digest_def)
  have q: "is_u64 (r_sequence r)" using w by (simp add: record_words_def)
  have r: "read_u64 bs 16 = 704"
    using arg_cong [OF record_layout_words [OF w], of "\<lambda>xs. xs ! 1"] by (simp add: bs unpack_u64s_def)
  note s = record_layout_slices [OF d]
  have f: "read_u64 bs 712 = r_sequence r" using s(6) q by (simp add: read_u64_def bs)
  show ?thesis
    using v validate_record_facts(4) [OF v] s e q r f
    by (simp add: decode_record_def bs zero_bytes_iff u64E_def is_u64_def
        parse_record_layout [OF w d validate_record_facts(3) [OF v]])
qed

lemma record_canonical:
  assumes "decode_record h seq root bs = Inr r"
  shows "encode_record h r = Inr bs" and "r_sequence r = seq" and "r_previous_journal_sha256 r = root"
    and "length bs = RECORD_BYTES"
proof -
  define vs where "vs = unpack_u64s 8 bs 8"
  from assms have l: "length bs = 752" and m: "slice 0 8 bs = RECORD_MAGIC" "slice 704 8 bs = COMMIT_MAGIC"
    and r: "read_u64 bs 16 = 704" and z: "slice 72 8 bs = zeros 8" "slice 656 48 bs = zeros 48"
    and v: "validate_record h (parse_record bs) = Inr r" and root: "r_previous_journal_sha256 r = root"
    and seq: "r_sequence r = seq" and f: "read_u64 bs 712 = r_sequence r" "drop 720 bs = r_record_sha256 r"
    by (auto simp: decode_record_def result_simps zero_bytes_iff byte_simps dest!: validate_header_same)
  have eq: "r = parse_record bs" using validate_record_same [OF v] .
  have "vs ! 1 = 704" using r by (simp add: vs_def unpack_u64s_def)
  then have "vs = vs ! 0 # 704 # drop 2 vs"
    using unpack_list8 [OF vs_def] by (metis drop0 drop_Suc_Cons numeral_2_eq_2)
  moreover have w: "record_words r = vs ! 0 # drop 2 vs"
    by (simp add: eq parse_record_words vs_def Let_def)
  moreover from w have "r_abi_version r = vs ! 0" by (simp add: record_words_def)
  ultimately have "pack_u64s (r_abi_version r # 704 # tl (record_words r)) = pack_u64s vs"
    by simp
  also have "\<dots> = slice 8 64 bs"
    using pack_unpack_u64s [of 8 8 bs] l by (simp add: vs_def)
  finally have p: "pack_u64s (r_abi_version r # 704 # tl (record_words r)) = slice 8 64 bs" .
  have q: "u64_bytes (r_sequence r) = slice 712 8 bs"
    using l by (simp add: read_u64_def byte_simps flip: f(1))
  have "record_layout r = bs"
    using record_split [OF l] concat_fields32 [of 80 18 bs] l parse_record_digests [of bs] p q
    by (simp add: record_layout_def m z f(2) flip: eq)
  then show "encode_record h r = Inr bs" using encode_record_layout v eq by simp
  show "r_sequence r = seq" "r_previous_journal_sha256 r = root" "length bs = RECORD_BYTES"
    by (simp_all add: seq root l)
qed

interpretation record_codec: wire_codec
    "\<lambda>r. if r_sequence r = seq \<and> r_previous_journal_sha256 r = root then encode_record h r
         else Inl RecordMismatch"
    "\<lambda>bs. decode_record h seq root bs" for h seq root
proof unfold_locales
  fix r bs
  assume "(if r_sequence r = seq \<and> r_previous_journal_sha256 r = root then encode_record h r
         else Inl RecordMismatch) = Inr bs"
  then show "decode_record h seq root bs = Inr r"
    using record_roundtrip [of h r bs] by (simp split: if_splits)
next
  fix r bs
  assume "decode_record h seq root bs = Inr r"
  then show "(if r_sequence r = seq \<and> r_previous_journal_sha256 r = root then encode_record h r
         else Inl RecordMismatch) = Inr bs"
    using record_canonical by simp
qed

end
