(* ===== verification/Outbox_Lifecycle.thy ===== *)
theory Outbox_Lifecycle
  imports Outbox_Journal Outbox_Codec
begin

text \<open>
  What one action may go through, as an abstract labelled step relation (\<open>life_step\<close>, its label
  the event kind of the journal), the inversion lemmas of the replay operations, and the proof that
  replaying a record is one abstract step of the action it names and none of any other.
\<close>

section \<open>The abstract lifecycle\<close>

datatype life = Absent | Ready nat | Uncertain nat | Succeeded nat | Failed nat

text \<open>The payload counts the dispatch intents the action has had.\<close>

inductive life_step :: "life \<Rightarrow> int \<Rightarrow> life \<Rightarrow> bool" where
  enqueue: "life_step Absent EVENT_ENQUEUED (Ready 0)"
| dispatch: "life_step (Ready n) EVENT_DISPATCH_INTENT (Uncertain (Suc n))"
| ambiguous: "life_step (Uncertain n) EVENT_AMBIGUITY_OBSERVED (Uncertain n)"
| acknowledged: "life_step (Uncertain n) EVENT_ACKNOWLEDGED_SUCCESS (Succeeded n)"
| refused: "life_step (Uncertain n) EVENT_ACKNOWLEDGED_FAILURE (Failed n)"
| not_applied: "life_step (Uncertain n) EVENT_RECONCILED_NOT_APPLIED (Ready n)"
| reconciled: "life_step (Uncertain n) EVENT_RECONCILED_SUCCESS (Succeeded n)"
| abandoned: "life_step (Uncertain n) EVENT_RECONCILED_FAILURE (Failed n)"

inductive_cases life_step_cases: "life_step s k t"
inductive_simps life_step_Absent: "life_step Absent k t"
inductive_simps life_step_Ready: "life_step (Ready n) k t"
inductive_simps life_step_Uncertain: "life_step (Uncertain n) k t"
inductive_simps life_step_Succeeded: "life_step (Succeeded n) k t"
inductive_simps life_step_Failed: "life_step (Failed n) k t"
lemmas life_step_simps = life_step_Absent life_step_Ready life_step_Uncertain life_step_Succeeded
  life_step_Failed

text \<open>The events of an action, oldest first, from the time it was absent.\<close>

inductive life_path :: "int list \<Rightarrow> life \<Rightarrow> bool" where
  start: "life_path [] Absent"
| step: "life_path ks s \<Longrightarrow> life_step s k t \<Longrightarrow> life_path (ks @ [k]) t"

inductive_simps life_path_Nil: "life_path [] s"

lemma life_path_snoc: "life_path (ks @ [k]) t \<longleftrightarrow> (\<exists>s. life_path ks s \<and> life_step s k t)"
  by (auto intro: life_path.step elim: life_path.cases)

fun attempts :: "life \<Rightarrow> nat" where
  "attempts Absent = 0"
| "attempts (Ready n) = n"
| "attempts (Uncertain n) = n"
| "attempts (Succeeded n) = n"
| "attempts (Failed n) = n"

definition terminal_event :: "int \<Rightarrow> bool" where
  "terminal_event k \<longleftrightarrow> k \<in> {EVENT_ACKNOWLEDGED_SUCCESS, EVENT_ACKNOWLEDGED_FAILURE,
     EVENT_RECONCILED_SUCCESS, EVENT_RECONCILED_FAILURE}"

fun settled :: "life \<Rightarrow> bool" where
  "settled (Succeeded n) = True"
| "settled (Failed n) = True"
| "settled _ = False"

fun in_doubt :: "life \<Rightarrow> bool" where
  "in_doubt (Uncertain n) = True"
| "in_doubt _ = False"

lemma life_path_dispatches: "life_path ks s \<Longrightarrow> tally (\<lambda>k. k = EVENT_DISPATCH_INTENT) ks = int (attempts s)"
  by (induction rule: life_path.induct) (auto elim!: life_step_cases)

text \<open>Every dispatch intent but the last one was reconciled as not applied.\<close>

lemma life_path_no_blind_retry:
  "life_path ks s \<Longrightarrow> tally (\<lambda>k. k = EVENT_DISPATCH_INTENT) ks =
     tally (\<lambda>k. k = EVENT_RECONCILED_NOT_APPLIED) ks + (if in_doubt s \<or> settled s then 1 else 0)"
  by (induction rule: life_path.induct) (auto elim!: life_step_cases)

lemma life_path_settled_once:
  "life_path ks s \<Longrightarrow> tally terminal_event ks = (if settled s then 1 else 0)"
  by (induction rule: life_path.induct) (auto elim!: life_step_cases simp: terminal_event_def)

lemma life_path_enqueued_first: "life_path ks s \<Longrightarrow> ks \<noteq> [] \<Longrightarrow> hd ks = EVENT_ENQUEUED"
proof (induction rule: life_path.induct)
  case (step ks s k t)
  show ?case
  proof (cases "ks = []")
    case True
    then show ?thesis using step by (auto simp: life_path_Nil life_step_simps)
  qed (use step in simp)
qed simp

lemma life_path_append: "life_path (ks @ ks') t \<Longrightarrow> \<exists>s. life_path ks s"
  by (induction ks' arbitrary: t rule: rev_induct) (auto simp: life_path_snoc simp flip: append_assoc)

lemma life_path_terminal_last:
  assumes "life_path (ks @ k # ks') t" "terminal_event k"
  shows "ks' = []"
proof (rule ccontr)
  assume "ks' \<noteq> []"
  then obtain k2 ks2 where ks': "ks' = k2 # ks2" by (cases ks') auto
  then obtain u where "life_path ((ks @ [k]) @ [k2]) u"
    using assms(1) life_path_append [of "(ks @ [k]) @ [k2]" ks2 t] by auto
  then obtain s where s: "life_path (ks @ [k]) s" "life_step s k2 u"
    by (auto simp only: life_path_snoc)
  then have "settled s" using assms(2) unfolding life_path_snoc
    by (auto simp: terminal_event_def elim!: life_step_cases)
  with s(2) show False by (cases s) (auto simp: life_step_simps)
qed

section \<open>The phase of a state\<close>

definition life_of :: "action_state \<Rightarrow> life" where
  "life_of s =
    (if s_phase s = PHASE_READY then Ready (nat (s_attempt_generation s))
     else if s_phase s = PHASE_UNCERTAIN then Uncertain (nat (s_attempt_generation s))
     else if s_phase s = PHASE_SUCCEEDED then Succeeded (nat (s_attempt_generation s))
     else if s_phase s = PHASE_FAILED then Failed (nat (s_attempt_generation s))
     else Absent)"

definition life_in :: "action_state list \<Rightarrow> bytes \<Rightarrow> life" where
  "life_in states root =
    (case find_state states root of None \<Rightarrow> Absent | Some i \<Rightarrow> life_of (states ! i))"

lemma find_state_Some:
  "find_state ss root = Some i \<Longrightarrow> i < length ss \<and> i_action_sha256 (s_identity (ss ! i)) = root"
  by (induction ss arbitrary: i) (auto split: if_splits)

lemma find_state_None:
  "find_state ss root = None \<longleftrightarrow> (\<forall>s \<in> set ss. i_action_sha256 (s_identity s) \<noteq> root)"
  by (induction ss) auto

lemma find_state_snoc:
  "find_state (ss @ [t]) root =
    (case find_state ss root of Some i \<Rightarrow> Some i
     | None \<Rightarrow> if i_action_sha256 (s_identity t) = root then Some (length ss) else None)"
  by (induction ss) (auto split: option.splits)

lemma find_state_update:
  "i_action_sha256 (s_identity t) = i_action_sha256 (s_identity (ss ! i)) \<Longrightarrow> i < length ss
    \<Longrightarrow> find_state (ss[i := t]) root = find_state ss root"
proof (induction ss arbitrary: i)
  case (Cons s ss)
  then show ?case by (cases i) auto
qed simp

section \<open>What a replayed record did\<close>

lemma validate_state_same: "validate_state h s = Inr s' \<Longrightarrow> s' = s"
  by (auto simp: validate_state_def result_simps)

definition state_ok :: "outbox_header \<Rightarrow> action_state \<Rightarrow> bool" where
  "state_ok h s \<longleftrightarrow> validate_state h s = Inr s"

lemma validate_state_Inr: "validate_state h s = Inr s' \<longleftrightarrow> state_ok h s \<and> s' = s"
  using validate_state_same by (auto simp: state_ok_def)

lemma mapE_validate_state:
  "mapE (validate_state h) ss = Inr ts \<longleftrightarrow> (\<forall>s \<in> set ss. state_ok h s) \<and> ts = ss"
  using mapE_guard [of "validate_state h" "state_ok h" "\<lambda>s. s", OF validate_state_Inr] by simp

definition ledger_ok :: "outbox_ledger \<Rightarrow> bool" where
  "ledger_ok l \<longleftrightarrow> (\<forall>v \<in> set (ledger_words l). is_u64 v)"

lemma validate_ledger_Inr: "validate_ledger l = Inr l' \<longleftrightarrow> ledger_ok l \<and> l' = l"
  by (auto simp: validate_ledger_def result_simps ledger_ok_def)

text \<open>The ledger a record is applied to: its sequence is counted, the phases are not.\<close>

definition opened_ledger :: "outbox_ledger \<Rightarrow> outbox_ledger" where
  "opened_ledger l = (clear_phase_counts l)\<lparr>l_committed_records := l_committed_records l + 1\<rparr>"

lemma apply_record_iff:
  "apply_record h r ss l = Inr (ss', l') \<longleftrightarrow>
     header_ok h \<and> record_ok h r \<and> (\<forall>s \<in> set ss. state_ok h s) \<and> ledger_ok l
     \<and> is_u64 (l_committed_records l + 1)
     \<and> r_sequence r = l_committed_records l + 1 \<and> r_sequence r \<le> h_maximum_records h
     \<and> (if r_kind r = EVENT_ENQUEUED then apply_enqueue h r ss (opened_ledger l) = Inr (ss', l')
        else apply_transition h r ss (opened_ledger l) = Inr (ss', l'))"
  by (auto simp: apply_record_def Let_def result_simps ok_simps mapE_validate_state validate_ledger_Inr
      opened_ledger_def clear_phase_counts_def linorder_not_less)

lemma foldE_unit_Inr: "foldE f () xs = Inr u \<longleftrightarrow> (\<forall>x \<in> set xs. f () x = Inr ())"
  by (induction xs) (auto simp: result_simps)

lemma enqueue_conflict_Inr:
  "enqueue_conflict i u s = Inr v \<longleftrightarrow>
     i_idempotency_key_sha256 (s_identity s) \<noteq> i_idempotency_key_sha256 i
     \<and> i_stable_remote_request_sha256 (s_identity s) \<noteq> i_stable_remote_request_sha256 i
     \<and> \<not> (i_purpose i = PURPOSE_COMPENSATION \<and> i_purpose (s_identity s) = PURPOSE_COMPENSATION
       \<and> i_parent_action_sha256 (s_identity s) = i_parent_action_sha256 i)"
  by (simp add: enqueue_conflict_def Let_def)

definition enqueue_admitted :: "outbox_header \<Rightarrow> action_identity \<Rightarrow> action_state list \<Rightarrow> bool" where
  "enqueue_admitted h i ss \<longleftrightarrow>
     (\<forall>s \<in> set ss. i_action_sha256 (s_identity s) \<noteq> i_action_sha256 i
        \<and> enqueue_conflict i () s = Inr ())
     \<and> int (length ss) < h_maximum_actions h
     \<and> (i_purpose i = PURPOSE_COMPENSATION \<longrightarrow>
        (\<exists>j. find_state ss (i_parent_action_sha256 i) = Some j
          \<and> i_purpose (s_identity (ss ! j)) = PURPOSE_PRIMARY \<and> s_phase (ss ! j) = PHASE_SUCCEEDED))"

definition enqueued_ledger :: "action_identity \<Rightarrow> outbox_ledger \<Rightarrow> outbox_ledger" where
  "enqueued_ledger i l =
    (if i_purpose i = PURPOSE_COMPENSATION
     then l\<lparr>l_compensation_actions := l_compensation_actions l + 1,
            l_actions_enqueued := l_actions_enqueued l + 1\<rparr>
     else l\<lparr>l_primary_actions := l_primary_actions l + 1,
            l_actions_enqueued := l_actions_enqueued l + 1\<rparr>)"

lemma apply_enqueue_iff:
  "apply_enqueue h r ss l = Inr (ss', l') \<longleftrightarrow>
     enqueue_admitted h (r_identity r) ss
     \<and> is_u64 (l_actions_enqueued l + 1)
     \<and> is_u64 ((if i_purpose (r_identity r) = PURPOSE_COMPENSATION then l_compensation_actions l
                else l_primary_actions l) + 1)
     \<and> ss' = ss @ [(make_state (r_identity r))\<lparr>s_last_event_sha256 := r_record_sha256 r\<rparr>]
     \<and> l' = enqueued_ledger (r_identity r) l"
  by (cases "find_state ss (i_parent_action_sha256 (r_identity r))")
    (auto simp: apply_enqueue_def Let_def result_simps foldE_unit_Inr
      find_state_None [of ss "i_action_sha256 (r_identity r)"]
      enqueue_admitted_def enqueued_ledger_def linorder_not_le)

definition dispatched :: "outbox_record \<Rightarrow> action_state \<Rightarrow> action_state" where
  "dispatched r s = s\<lparr>s_phase := PHASE_UNCERTAIN, s_attempt_generation := r_attempt_generation r,
     s_dispatch_request_sha256 := r_dispatch_request_sha256 r,
     s_observation_sha256 := ZERO_DIGEST, s_result_sha256 := ZERO_DIGEST\<rparr>"

definition dispatched_ledger :: "action_state \<Rightarrow> outbox_ledger \<Rightarrow> outbox_ledger" where
  "dispatched_ledger s l =
    l\<lparr>l_safe_retry_dispatches := l_safe_retry_dispatches l + (if s_attempt_generation s \<noteq> 0 then 1 else 0),
      l_dispatch_intents := l_dispatch_intents l + 1\<rparr>"

lemma apply_dispatch_iff:
  "apply_dispatch h r s l = Inr (s', l') \<longleftrightarrow>
     s_phase s = PHASE_READY \<and> is_u64 (s_attempt_generation s + 1)
     \<and> r_attempt_generation r = s_attempt_generation s + 1
     \<and> dispatch_request_sha256 h (r_identity r) (r_attempt_generation r) = Inr (r_dispatch_request_sha256 r)
     \<and> (s_attempt_generation s \<noteq> 0 \<longrightarrow> is_u64 (l_safe_retry_dispatches l + 1))
     \<and> is_u64 (l_dispatch_intents l + 1)
     \<and> s' = dispatched r s \<and> l' = dispatched_ledger s l"
  by (cases "s_attempt_generation s = 0")
    (auto simp: apply_dispatch_def result_simps dispatched_def dispatched_ledger_def)

text \<open>The phase an observation of this kind leads to, and its counter in the ledger.\<close>

definition observed_phase :: "int \<Rightarrow> int" where
  "observed_phase k =
    (if k = EVENT_AMBIGUITY_OBSERVED then PHASE_UNCERTAIN
     else if k = EVENT_RECONCILED_NOT_APPLIED then PHASE_READY
     else if k = EVENT_ACKNOWLEDGED_SUCCESS \<or> k = EVENT_RECONCILED_SUCCESS then PHASE_SUCCEEDED
     else PHASE_FAILED)"

definition observed :: "outbox_record \<Rightarrow> action_state \<Rightarrow> action_state" where
  "observed r s = s\<lparr>s_phase := observed_phase (r_kind r),
     s_dispatch_request_sha256 := (if r_kind r = EVENT_RECONCILED_NOT_APPLIED then ZERO_DIGEST
       else s_dispatch_request_sha256 s),
     s_observation_sha256 := r_observation_sha256 r, s_result_sha256 := r_result_sha256 r\<rparr>"

definition observed_count :: "int \<Rightarrow> outbox_ledger \<Rightarrow> int" where
  "observed_count k l =
    (if k = EVENT_AMBIGUITY_OBSERVED then l_ambiguity_observations l
     else if k = EVENT_ACKNOWLEDGED_SUCCESS then l_acknowledged_successes l
     else if k = EVENT_ACKNOWLEDGED_FAILURE then l_acknowledged_failures l
     else if k = EVENT_RECONCILED_NOT_APPLIED then l_reconciled_not_applied l
     else if k = EVENT_RECONCILED_SUCCESS then l_reconciled_successes l
     else l_reconciled_failures l)"

definition observed_ledger :: "int \<Rightarrow> outbox_ledger \<Rightarrow> outbox_ledger" where
  "observed_ledger k l =
    (if k = EVENT_AMBIGUITY_OBSERVED
     then l\<lparr>l_ambiguity_observations := l_ambiguity_observations l + 1\<rparr>
     else if k = EVENT_ACKNOWLEDGED_SUCCESS
     then l\<lparr>l_acknowledged_successes := l_acknowledged_successes l + 1\<rparr>
     else if k = EVENT_ACKNOWLEDGED_FAILURE
     then l\<lparr>l_acknowledged_failures := l_acknowledged_failures l + 1\<rparr>
     else if k = EVENT_RECONCILED_NOT_APPLIED
     then l\<lparr>l_reconciled_not_applied := l_reconciled_not_applied l + 1\<rparr>
     else if k = EVENT_RECONCILED_SUCCESS
     then l\<lparr>l_reconciled_successes := l_reconciled_successes l + 1\<rparr>
     else l\<lparr>l_reconciled_failures := l_reconciled_failures l + 1\<rparr>)"

definition OBSERVATION_KINDS :: "int set" where
  "OBSERVATION_KINDS = {3, 4, 5, 6, 7, 8}"

lemma apply_observation_iff:
  "apply_observation r s l = Inr (s', l') \<longleftrightarrow>
     s_phase s = PHASE_UNCERTAIN \<and> r_attempt_generation r = s_attempt_generation s
     \<and> r_dispatch_request_sha256 r = s_dispatch_request_sha256 s
     \<and> r_kind r \<in> OBSERVATION_KINDS \<and> is_u64 (observed_count (r_kind r) l + 1)
     \<and> s' = observed r s \<and> l' = observed_ledger (r_kind r) l"
proof (cases "r_kind r \<in> OBSERVATION_KINDS")
  case True
  then show ?thesis
    unfolding OBSERVATION_KINDS_def
    by (auto simp: apply_observation_def result_simps observed_def observed_phase_def
        observed_count_def observed_ledger_def)
next
  case False
  then show ?thesis
    by (auto simp: apply_observation_def Let_def OBSERVATION_KINDS_def result_simps)
qed

lemma apply_transition_iff:
  "apply_transition h r ss l = Inr (ss', l') \<longleftrightarrow>
    (\<exists>i s'. find_state ss (i_action_sha256 (r_identity r)) = Some i
      \<and> s_identity (ss ! i) = r_identity r
      \<and> s_last_event_sha256 (ss ! i) = r_previous_action_event_sha256 r
      \<and> (if r_kind r = EVENT_DISPATCH_INTENT then apply_dispatch h r (ss ! i) l = Inr (s', l')
         else apply_observation r (ss ! i) l = Inr (s', l'))
      \<and> ss' = ss[i := s'\<lparr>s_last_event_sha256 := r_record_sha256 r\<rparr>])"
  by (cases "find_state ss (i_action_sha256 (r_identity r))")
    (auto simp: apply_transition_def Let_def result_simps)

lemma state_identity_updates [simp]:
  "s_identity (dispatched r s) = s_identity s" "s_identity (observed r s) = s_identity s"
  "s_identity (make_state i) = i"
  by (simp_all add: dispatched_def observed_def make_state_def)

section \<open>Refinement: a record is one step of its action\<close>

lemma life_of_last_event [simp]: "life_of (s\<lparr>s_last_event_sha256 := e\<rparr>) = life_of s"
  by (simp add: life_of_def)

lemma life_of_make_state [simp]: "life_of (make_state i) = Ready 0"
  by (simp add: life_of_def make_state_def)

lemma dispatch_is_step:
  assumes "apply_dispatch h r s l = Inr (s', l')" "0 \<le> s_attempt_generation s"
  shows "life_step (life_of s) EVENT_DISPATCH_INTENT (life_of s')"
  using assms life_step.dispatch [of "nat (s_attempt_generation s)"]
  by (simp add: apply_dispatch_iff life_of_def dispatched_def Suc_nat_eq_nat_zadd1 add.commute)

lemma observation_is_step:
  assumes "apply_observation r s l = Inr (s', l')"
  shows "life_step (life_of s) (r_kind r) (life_of s')"
  using assms unfolding apply_observation_iff OBSERVATION_KINDS_def
  by (auto simp: life_of_def observed_def observed_phase_def life_step_simps)

lemma state_ok_facts:
  assumes "state_ok h s"
  shows "header_ok h" "identity_ok h (s_identity s)" "is_u64 (s_attempt_generation s)"
    and "s_phase s \<in> {PHASE_READY, PHASE_UNCERTAIN, PHASE_SUCCEEDED, PHASE_FAILED}"
    and "\<forall>d \<in> set (state_digests s). length d = 32" and "s_occupied s"
  using assms by (auto simp: state_ok_def validate_state_def result_simps ok_simps PHASES_def)

lemma apply_record_refines:
  assumes "apply_record h r ss l = Inr (ss', l')"
  shows "life_step (life_in ss (i_action_sha256 (r_identity r))) (r_kind r)
           (life_in ss' (i_action_sha256 (r_identity r)))"
    and "root \<noteq> i_action_sha256 (r_identity r) \<Longrightarrow> life_in ss' root = life_in ss root"
proof -
  let ?a = "i_action_sha256 (r_identity r)"
  have "life_step (life_in ss ?a) (r_kind r) (life_in ss' ?a)
    \<and> (root \<noteq> ?a \<longrightarrow> life_in ss' root = life_in ss root)"
  proof (cases "r_kind r = EVENT_ENQUEUED")
    case True
    then have ss': "ss' = ss @ [(make_state (r_identity r))\<lparr>s_last_event_sha256 := r_record_sha256 r\<rparr>]"
      and new: "find_state ss ?a = None"
      using assms by (auto simp: apply_record_iff apply_enqueue_iff enqueue_admitted_def find_state_None)
    have "life_in ss ?a = Absent" "life_in ss' ?a = Ready 0"
      using new by (simp_all add: life_in_def ss' find_state_snoc)
    moreover have "life_in ss' root = life_in ss root" if "root \<noteq> ?a"
      using that find_state_Some [of ss root]
      by (auto simp: life_in_def ss' find_state_snoc nth_append split: option.splits)
    ultimately show ?thesis using True by (simp add: life_step.enqueue)
  next
    case False
    then obtain i s' where i: "find_state ss ?a = Some i" and e: "s_identity (ss ! i) = r_identity r"
      and step: "if r_kind r = EVENT_DISPATCH_INTENT
        then apply_dispatch h r (ss ! i) (opened_ledger l) = Inr (s', l')
        else apply_observation r (ss ! i) (opened_ledger l) = Inr (s', l')"
      and ss': "ss' = ss[i := s'\<lparr>s_last_event_sha256 := r_record_sha256 r\<rparr>]"
      and ok: "\<forall>s \<in> set ss. state_ok h s"
      using assms by (auto simp: apply_record_iff apply_transition_iff)
    note lt = find_state_Some [OF i]
    have "0 \<le> s_attempt_generation (ss ! i)"
      using ok lt state_ok_facts(3) [of h "ss ! i"] by (simp add: is_u64_def)
    with step have ls: "life_step (life_of (ss ! i)) (r_kind r) (life_of s')"
      by (auto dest: dispatch_is_step observation_is_step split: if_splits)
    have id: "s_identity s' = s_identity (ss ! i)"
      using step by (auto simp: apply_dispatch_iff apply_observation_iff split: if_splits)
    then have f: "find_state (ss[i := s'\<lparr>s_last_event_sha256 := r_record_sha256 r\<rparr>]) b = find_state ss b" for b
      using find_state_update [of "s'\<lparr>s_last_event_sha256 := r_record_sha256 r\<rparr>" ss i b] lt by simp
    have "life_in ss' root = life_in ss root" if "root \<noteq> ?a"
      using that find_state_Some [of ss root] lt
      by (auto simp: life_in_def f ss' nth_list_update split: option.splits)
    then show ?thesis using ls lt by (simp add: life_in_def f i ss')
  qed
  then show "life_step (life_in ss ?a) (r_kind r) (life_in ss' ?a)"
    and "root \<noteq> ?a \<Longrightarrow> life_in ss' root = life_in ss root" by blast+
qed

end
