(* ===== verification/Outbox_Invariants.thy ===== *)
theory Outbox_Invariants
  imports Outbox_Lifecycle
begin

text \<open>
  The invariants of a replayed journal, each preserved by \<open>apply_record\<close>: the states stay valid and
  pairwise distinct, a compensation rests on a succeeded primary action, the ledger counts the
  records by kind and accounts for every state, and each action's events are a path of the abstract
  lifecycle. \<open>journal_ok\<close> collects them for the records replayed so far.
\<close>

section \<open>The three ways a record is applied\<close>

lemma apply_record_cases:
  assumes "apply_record h r ss l = Inr (ss', l')"
  obtains (enqueue) "r_kind r = EVENT_ENQUEUED" "enqueue_admitted h (r_identity r) ss"
      "ss' = ss @ [(make_state (r_identity r))\<lparr>s_last_event_sha256 := r_record_sha256 r\<rparr>]"
      "l' = enqueued_ledger (r_identity r) (opened_ledger l)"
  | (dispatch) i where "r_kind r = EVENT_DISPATCH_INTENT" "i < length ss"
      "s_identity (ss ! i) = r_identity r" "s_phase (ss ! i) = PHASE_READY"
      "r_attempt_generation r = s_attempt_generation (ss ! i) + 1"
      "is_u64 (r_attempt_generation r)"
      "ss' = ss[i := (dispatched r (ss ! i))\<lparr>s_last_event_sha256 := r_record_sha256 r\<rparr>]"
      "l' = dispatched_ledger (ss ! i) (opened_ledger l)"
  | (observe) i where "r_kind r \<in> OBSERVATION_KINDS" "i < length ss"
      "s_identity (ss ! i) = r_identity r" "s_phase (ss ! i) = PHASE_UNCERTAIN"
      "r_attempt_generation r = s_attempt_generation (ss ! i)"
      "ss' = ss[i := (observed r (ss ! i))\<lparr>s_last_event_sha256 := r_record_sha256 r\<rparr>]"
      "l' = observed_ledger (r_kind r) (opened_ledger l)"
proof (cases "r_kind r = EVENT_ENQUEUED")
  case True
  then show ?thesis using assms enqueue by (simp add: apply_record_iff apply_enqueue_iff)
next
  case False
  then obtain i s' where i: "find_state ss (i_action_sha256 (r_identity r)) = Some i"
      "s_identity (ss ! i) = r_identity r"
    and step: "if r_kind r = EVENT_DISPATCH_INTENT
        then apply_dispatch h r (ss ! i) (opened_ledger l) = Inr (s', l')
        else apply_observation r (ss ! i) (opened_ledger l) = Inr (s', l')"
    and ss': "ss' = ss[i := s'\<lparr>s_last_event_sha256 := r_record_sha256 r\<rparr>]"
    using assms by (auto simp: apply_record_iff apply_transition_iff)
  have "i < length ss" using find_state_Some [OF i(1)] by simp
  with i step ss' show ?thesis
    by (cases "r_kind r = EVENT_DISPATCH_INTENT")
      (auto simp: apply_dispatch_iff apply_observation_iff intro: dispatch observe)
qed

lemma apply_record_length: "apply_record h r ss l = Inr (ss', l') \<Longrightarrow> length ss \<le> length ss'"
  by (erule apply_record_cases) simp_all

section \<open>The states stay valid\<close>

lemma make_state_ok:
  assumes "header_ok h" "identity_ok h i" "length e = 32"
  shows "state_ok h ((make_state i)\<lparr>s_last_event_sha256 := e\<rparr>)"
  using assms
  by (simp add: state_ok_def validate_state_def header_ok_def identity_ok_def make_state_def PHASES_def state_digests_def
      enumE_def u64E_def digest0E_def)

lemma record_ok_facts:
  assumes "record_ok h r"
  shows "header_ok h" "identity_ok h (r_identity r)" "is_digest (r_record_sha256 r)"
    "is_digest (r_previous_journal_sha256 r)"
    "length (r_dispatch_request_sha256 r) = 32" "length (r_observation_sha256 r) = 32"
    "length (r_result_sha256 r) = 32" "length (r_previous_action_event_sha256 r) = 32"
    "is_u64 (r_sequence r)" "r_kind r \<in> set EVENT_KINDS" "kind_fields_valid r"
    "r_abi_version r = RECORD_ABI" "r_sequence r \<noteq> 0"
    "record_sha256 h r = Inr (r_record_sha256 r)" "is_u64 (r_attempt_generation r)"
  using assms
  by (auto simp: record_ok_def validate_record_def check_record_digests_def result_simps ok_simps
      is_digest_def)

lemma updated_state_ok:
  assumes "state_ok h s" "record_ok h r" "s_phase t \<in> {1, 2, 3, 4}" "is_u64 (s_attempt_generation t)"
    "s_identity t = s_identity s" "s_occupied t = s_occupied s"
    "s_dispatch_request_sha256 t \<in> {r_dispatch_request_sha256 r, s_dispatch_request_sha256 s, ZERO_DIGEST}"
    "s_observation_sha256 t \<in> {r_observation_sha256 r, ZERO_DIGEST}"
    "s_result_sha256 t \<in> {r_result_sha256 r, ZERO_DIGEST}"
    "s_last_event_sha256 t = r_record_sha256 r"
  shows "state_ok h t"
proof -
  note s = state_ok_facts [OF assms(1)] and r = record_ok_facts [OF assms(2)]
  have "length (s_dispatch_request_sha256 t) = 32" "length (s_observation_sha256 t) = 32"
      "length (s_result_sha256 t) = 32" "length (s_last_event_sha256 t) = 32"
    using assms(7) s(5) r(5) assms(8) r(6) assms(9) r(7) assms(10) r(3)
    by (auto simp: state_digests_def is_digest_def)
  then have d: "\<forall>d \<in> set (state_digests t). length d = 32" by (simp add: state_digests_def)
  have p: "is_u64 (s_phase t)" "s_phase t \<in> set PHASES" "s_phase t \<noteq> PHASE_FREE"
    using assms(3) by (auto simp: is_u64_def PHASES_def)
  have "validate_state h t = Inr t"
    using d p s(1,2,6) assms(4,5,6)
    by (simp add: validate_state_def result_simps ok_simps)
  then show ?thesis by (simp add: state_ok_def)
qed

lemma observed_phase_range: "observed_phase k \<in> {1, 2, 3, 4}"
  by (simp add: observed_phase_def)

lemma ball_update: "\<forall>x \<in> set xs. P x \<Longrightarrow> P y \<Longrightarrow> \<forall>x \<in> set (xs[i := y]). P x"
  using set_update_subset_insert [of xs i y] by blast

lemma apply_record_states_ok:
  assumes a: "apply_record h r ss l = Inr (ss', l')"
  shows "\<forall>s \<in> set ss'. state_ok h s"
proof -
  have ok: "\<forall>s \<in> set ss. state_ok h s" and r: "record_ok h r" and h: "header_ok h"
    using a by (simp_all add: apply_record_iff)
  note rf = record_ok_facts [OF r]
  from a show ?thesis
  proof (cases rule: apply_record_cases)
    case enqueue
    then show ?thesis using ok h rf by (auto intro!: make_state_ok simp: is_digest_def)
  next
    case (dispatch i)
    then have s: "state_ok h (ss ! i)" using ok by simp
    have "state_ok h ((dispatched r (ss ! i))\<lparr>s_last_event_sha256 := r_record_sha256 r\<rparr>)"
      by (intro updated_state_ok [OF s r]) (simp_all add: dispatched_def dispatch(6))
    with ok show ?thesis unfolding dispatch(7) by (rule ball_update)
  next
    case (observe i)
    then have s: "state_ok h (ss ! i)" using ok by simp
    from observed_phase_range [of "r_kind r"]
    have "state_ok h ((observed r (ss ! i))\<lparr>s_last_event_sha256 := r_record_sha256 r\<rparr>)"
      by (intro updated_state_ok [OF s r]) (simp_all add: observed_def state_ok_facts(3) [OF s])
    with ok show ?thesis unfolding observe(6) by (rule ball_update)
  qed
qed

section \<open>Distinct actions and safe compensation\<close>

definition states_unique :: "action_state list \<Rightarrow> bool" where
  "states_unique ss \<longleftrightarrow>
     distinct (map (i_action_sha256 \<circ> s_identity) ss)
     \<and> distinct (map (i_idempotency_key_sha256 \<circ> s_identity) ss)
     \<and> distinct (map (i_stable_remote_request_sha256 \<circ> s_identity) ss)"

definition is_compensation :: "action_state \<Rightarrow> bool" where
  "is_compensation s \<longleftrightarrow> i_purpose (s_identity s) = PURPOSE_COMPENSATION"

definition compensation_safe :: "action_state list \<Rightarrow> bool" where
  "compensation_safe ss \<longleftrightarrow>
     distinct (map (i_parent_action_sha256 \<circ> s_identity) (filter is_compensation ss))
     \<and> (\<forall>s \<in> set ss. is_compensation s \<longrightarrow>
         (\<exists>p \<in> set ss. i_action_sha256 (s_identity p) = i_parent_action_sha256 (s_identity s)
            \<and> i_purpose (s_identity p) = PURPOSE_PRIMARY \<and> s_phase p = PHASE_SUCCEEDED))"

text \<open>An update that keeps the identity of a state, and its phase once succeeded, keeps both.\<close>

lemma map_identity_update:
  "i < length ss \<Longrightarrow> s_identity t = s_identity (ss ! i) \<Longrightarrow>
     map (f \<circ> s_identity) (ss[i := t]) = map (f \<circ> s_identity) ss"
  by (simp add: map_update list_update_same_conv)

lemma states_unique_update:
  "i < length ss \<Longrightarrow> s_identity t = s_identity (ss ! i) \<Longrightarrow> states_unique (ss[i := t]) = states_unique ss"
  by (simp only: states_unique_def map_identity_update)

lemma filter_compensation_update:
  "i < length ss \<Longrightarrow> s_identity t = s_identity (ss ! i) \<Longrightarrow>
     map (f \<circ> s_identity) (filter is_compensation (ss[i := t])) =
     map (f \<circ> s_identity) (filter is_compensation ss)"
proof (induction ss arbitrary: i)
  case (Cons s ss)
  then show ?case by (cases i) (simp_all add: is_compensation_def)
qed simp

lemma compensation_safe_update:
  assumes i: "i < length ss" "s_identity t = s_identity (ss ! i)" and p: "s_phase (ss ! i) \<noteq> PHASE_SUCCEEDED"
    and safe: "compensation_safe ss"
  shows "compensation_safe (ss[i := t])"
  unfolding compensation_safe_def
proof (intro conjI ballI impI)
  show "distinct (map (i_parent_action_sha256 \<circ> s_identity) (filter is_compensation (ss[i := t])))"
    using safe by (simp only: compensation_safe_def filter_compensation_update [OF i])
  fix s assume s: "s \<in> set (ss[i := t])" "is_compensation s"
  then obtain s0 where s0: "s0 \<in> set ss" "s_identity s0 = s_identity s"
    by (metis i in_set_conv_nth length_list_update nth_list_update_eq nth_list_update_neq)
  then obtain q where q: "q \<in> set ss" "i_action_sha256 (s_identity q) = i_parent_action_sha256 (s_identity s)"
      "i_purpose (s_identity q) = PURPOSE_PRIMARY" "s_phase q = PHASE_SUCCEEDED"
    using safe s by (auto simp: compensation_safe_def is_compensation_def)
  then obtain j where j: "j < length ss" "ss ! j = q" by (auto simp: in_set_conv_nth)
  with q p have "j \<noteq> i" by auto
  with j have "q \<in> set (ss[i := t])" by (metis length_list_update nth_list_update_neq nth_mem)
  with q show "\<exists>p \<in> set (ss[i := t]). i_action_sha256 (s_identity p) = i_parent_action_sha256 (s_identity s)
            \<and> i_purpose (s_identity p) = PURPOSE_PRIMARY \<and> s_phase p = PHASE_SUCCEEDED" by blast
qed

lemma apply_record_unique:
  assumes "apply_record h r ss l = Inr (ss', l')" "states_unique ss"
  shows "states_unique ss'"
  using assms(1)
proof (cases rule: apply_record_cases)
  case enqueue
  then show ?thesis using assms(2)
    by (auto simp: states_unique_def enqueue_admitted_def enqueue_conflict_Inr)
qed (use assms(2) in \<open>simp_all add: states_unique_update\<close>)

lemma apply_record_compensation:
  assumes "apply_record h r ss l = Inr (ss', l')" "compensation_safe ss"
  shows "compensation_safe ss'"
  using assms(1)
proof (cases rule: apply_record_cases)
  case enqueue
  let ?t = "(make_state (r_identity r))\<lparr>s_last_event_sha256 := r_record_sha256 r\<rparr>"
  have old: "\<exists>p \<in> set ss'. i_action_sha256 (s_identity p) = i_parent_action_sha256 (s_identity s)
      \<and> i_purpose (s_identity p) = PURPOSE_PRIMARY \<and> s_phase p = PHASE_SUCCEEDED"
    if "s \<in> set ss" "is_compensation s" for s
    using that assms(2) unfolding compensation_safe_def enqueue by auto
  have new: "\<exists>p \<in> set ss'. i_action_sha256 (s_identity p) = i_parent_action_sha256 (r_identity r)
      \<and> i_purpose (s_identity p) = PURPOSE_PRIMARY \<and> s_phase p = PHASE_SUCCEEDED"
    if "is_compensation ?t"
  proof -
    from that enqueue obtain j where j: "find_state ss (i_parent_action_sha256 (r_identity r)) = Some j"
      "i_purpose (s_identity (ss ! j)) = PURPOSE_PRIMARY" "s_phase (ss ! j) = PHASE_SUCCEEDED"
      by (auto simp: is_compensation_def enqueue_admitted_def)
    with find_state_Some [OF j(1)] show ?thesis unfolding enqueue by (auto intro!: bexI [of _ "ss ! j"])
  qed
  have "distinct (map (i_parent_action_sha256 \<circ> s_identity) (filter is_compensation ss'))"
    using assms(2) enqueue
    by (auto simp: compensation_safe_def is_compensation_def enqueue_admitted_def enqueue_conflict_Inr)
  with old new show ?thesis unfolding compensation_safe_def enqueue by auto
next
  case (dispatch i)
  then show ?thesis using assms(2) by (simp add: compensation_safe_update)
next
  case (observe i)
  then show ?thesis using assms(2) by (simp add: compensation_safe_update)
qed

section \<open>The ledger\<close>

text \<open>The counters of the ledger are the numbers of records of each kind.\<close>

definition ledger_counts :: "outbox_record list \<Rightarrow> outbox_ledger \<Rightarrow> bool" where
  "ledger_counts rs l \<longleftrightarrow>
     l_committed_records l = int (length rs)
     \<and> l_actions_enqueued l = tally (\<lambda>r. r_kind r = EVENT_ENQUEUED) rs
     \<and> l_primary_actions l =
         tally (\<lambda>r. r_kind r = EVENT_ENQUEUED \<and> i_purpose (r_identity r) \<noteq> PURPOSE_COMPENSATION) rs
     \<and> l_compensation_actions l =
         tally (\<lambda>r. r_kind r = EVENT_ENQUEUED \<and> i_purpose (r_identity r) = PURPOSE_COMPENSATION) rs
     \<and> l_dispatch_intents l = tally (\<lambda>r. r_kind r = EVENT_DISPATCH_INTENT) rs
     \<and> l_safe_retry_dispatches l =
         tally (\<lambda>r. r_kind r = EVENT_DISPATCH_INTENT \<and> r_attempt_generation r \<noteq> 1) rs
     \<and> (\<forall>k \<in> OBSERVATION_KINDS. observed_count k l = tally (\<lambda>r. r_kind r = k) rs)"

text \<open>The ledger accounts for every state.\<close>

definition ledger_closed :: "action_state list \<Rightarrow> outbox_ledger \<Rightarrow> bool" where
  "ledger_closed ss l \<longleftrightarrow>
     l_actions_enqueued l = int (length ss)
     \<and> l_primary_actions l = tally (\<lambda>s. \<not> is_compensation s) ss
     \<and> l_compensation_actions l = tally is_compensation ss
     \<and> l_dispatch_intents l = l_reconciled_not_applied l + tally (\<lambda>s. s_phase s \<noteq> PHASE_READY) ss
     \<and> l_dispatch_intents l = l_safe_retry_dispatches l + tally (\<lambda>s. s_attempt_generation s \<noteq> 0) ss
     \<and> l_acknowledged_successes l + l_reconciled_successes l = tally (\<lambda>s. s_phase s = PHASE_SUCCEEDED) ss
     \<and> l_acknowledged_failures l + l_reconciled_failures l = tally (\<lambda>s. s_phase s = PHASE_FAILED) ss"

lemma opened_ledger_sel [simp]:
  "l_committed_records (opened_ledger l) = l_committed_records l + 1"
  "l_actions_enqueued (opened_ledger l) = l_actions_enqueued l"
  "l_primary_actions (opened_ledger l) = l_primary_actions l"
  "l_compensation_actions (opened_ledger l) = l_compensation_actions l"
  "l_dispatch_intents (opened_ledger l) = l_dispatch_intents l"
  "l_safe_retry_dispatches (opened_ledger l) = l_safe_retry_dispatches l"
  "l_ambiguity_observations (opened_ledger l) = l_ambiguity_observations l"
  "l_acknowledged_successes (opened_ledger l) = l_acknowledged_successes l"
  "l_acknowledged_failures (opened_ledger l) = l_acknowledged_failures l"
  "l_reconciled_not_applied (opened_ledger l) = l_reconciled_not_applied l"
  "l_reconciled_successes (opened_ledger l) = l_reconciled_successes l"
  "l_reconciled_failures (opened_ledger l) = l_reconciled_failures l"
  "observed_count k (opened_ledger l) = observed_count k l"
  by (simp_all add: opened_ledger_def clear_phase_counts_def observed_count_def)

lemma apply_record_counts:
  assumes a: "apply_record h r ss l = Inr (ss', l')" and c: "ledger_counts rs l"
    and ok: "\<forall>s \<in> set ss. state_ok h s"
  shows "ledger_counts (rs @ [r]) l'"
  using a
proof (cases rule: apply_record_cases)
  case enqueue
  then show ?thesis using c
    by (auto simp: ledger_counts_def enqueued_ledger_def OBSERVATION_KINDS_def observed_count_def)
next
  case (dispatch i)
  then show ?thesis using c
    by (simp add: ledger_counts_def dispatched_ledger_def OBSERVATION_KINDS_def observed_count_def)
next
  case (observe i)
  from observe(1) have "r_kind r = 3 \<or> r_kind r = 4 \<or> r_kind r = 5 \<or> r_kind r = 6 \<or> r_kind r = 7 \<or> r_kind r = 8"
    by (auto simp: OBSERVATION_KINDS_def)
  then show ?thesis using c unfolding observe(7)
    by (elim disjE) (simp_all add: ledger_counts_def observed_ledger_def OBSERVATION_KINDS_def observed_count_def)
qed

lemma apply_record_closed:
  assumes a: "apply_record h r ss l = Inr (ss', l')" and c: "ledger_closed ss l"
    and ok: "\<forall>s \<in> set ss. state_ok h s" and att: "\<forall>s \<in> set ss. s_phase s = PHASE_READY \<or> s_attempt_generation s \<noteq> 0"
  shows "ledger_closed ss' l'" and "\<forall>s \<in> set ss'. s_phase s = PHASE_READY \<or> s_attempt_generation s \<noteq> 0"
proof -
  have "ledger_closed ss' l' \<and> (\<forall>s \<in> set ss'. s_phase s = PHASE_READY \<or> s_attempt_generation s \<noteq> 0)"
    using a
  proof (cases rule: apply_record_cases)
    case enqueue
    then show ?thesis using c att
      by (auto simp: ledger_closed_def enqueued_ledger_def is_compensation_def make_state_def)
  next
    case (dispatch i)
    let ?t = "(dispatched r (ss ! i))\<lparr>s_last_event_sha256 := r_record_sha256 r\<rparr>"
    have "0 \<le> s_attempt_generation (ss ! i)"
      using dispatch(2) ok state_ok_facts(3) [of h "ss ! i"] by (simp add: is_u64_def)
    then have t: "is_compensation ?t = is_compensation (ss ! i)" "s_phase ?t = 2" "s_attempt_generation ?t \<noteq> 0"
      using dispatch(5) by (simp_all add: is_compensation_def dispatched_def)
    have "ledger_closed ss' l'" using c dispatch(2,4,8) t unfolding dispatch(7)
      by (simp add: ledger_closed_def dispatched_ledger_def tally_update)
    moreover have "\<forall>s \<in> set ss'. s_phase s = PHASE_READY \<or> s_attempt_generation s \<noteq> 0"
      unfolding dispatch(7) using att by (rule ball_update) (use t in simp)
    ultimately show ?thesis by blast
  next
    case (observe i)
    let ?t = "(observed r (ss ! i))\<lparr>s_last_event_sha256 := r_record_sha256 r\<rparr>"
    have t: "is_compensation ?t = is_compensation (ss ! i)" "s_phase ?t = observed_phase (r_kind r)"
        "s_attempt_generation ?t = s_attempt_generation (ss ! i)"
      by (auto simp: is_compensation_def observed_def)
    have n: "s_attempt_generation (ss ! i) \<noteq> 0" using att observe(2,4) by (metis nth_mem one_eq_numeral_iff semiring_norm(83))
    from observe(1) have "r_kind r = 3 \<or> r_kind r = 4 \<or> r_kind r = 5 \<or> r_kind r = 6 \<or> r_kind r = 7 \<or> r_kind r = 8"
      by (auto simp: OBSERVATION_KINDS_def)
    then have "ledger_closed ss' l'" using c observe(2,4) t n unfolding observe(6,7)
      by (elim disjE) (simp_all add: ledger_closed_def observed_ledger_def tally_update observed_phase_def)
    moreover have "\<forall>s \<in> set ss'. s_phase s = PHASE_READY \<or> s_attempt_generation s \<noteq> 0"
      unfolding observe(6) using att by (rule ball_update) (use t n in simp)
    ultimately show ?thesis by blast
  qed
  then show "ledger_closed ss' l'" and "\<forall>s \<in> set ss'. s_phase s = PHASE_READY \<or> s_attempt_generation s \<noteq> 0"
    by blast+
qed

lemma finalize_counts:
  assumes "\<forall>s \<in> set ss. s_phase s \<in> {1, 2, 3, 4}"
    and "is_u64 (l_ready_actions l + int (length ss))" "is_u64 (l_uncertain_actions l + int (length ss))"
    and "is_u64 (l_succeeded_actions l + int (length ss))" "is_u64 (l_failed_actions l + int (length ss))"
    and "0 \<le> l_ready_actions l" "0 \<le> l_uncertain_actions l" "0 \<le> l_succeeded_actions l" "0 \<le> l_failed_actions l"
  shows "foldE count_phase l ss = Inr (l\<lparr>
     l_ready_actions := l_ready_actions l + tally (\<lambda>s. s_phase s = PHASE_READY) ss,
     l_uncertain_actions := l_uncertain_actions l + tally (\<lambda>s. s_phase s = PHASE_UNCERTAIN) ss,
     l_succeeded_actions := l_succeeded_actions l + tally (\<lambda>s. s_phase s = PHASE_SUCCEEDED) ss,
     l_failed_actions := l_failed_actions l + tally (\<lambda>s. s_phase s = PHASE_FAILED) ss\<rparr>)"
  using assms
proof (induction ss arbitrary: l)
  case (Cons s ss)
  have "s_phase s = 1 \<or> s_phase s = 2 \<or> s_phase s = 3 \<or> s_phase s = 4" using Cons.prems(1) by simp
  then show ?case
    using Cons.prems Cons.IH [of "l\<lparr>l_ready_actions := l_ready_actions l + 1\<rparr>"]
      Cons.IH [of "l\<lparr>l_uncertain_actions := l_uncertain_actions l + 1\<rparr>"]
      Cons.IH [of "l\<lparr>l_succeeded_actions := l_succeeded_actions l + 1\<rparr>"]
      Cons.IH [of "l\<lparr>l_failed_actions := l_failed_actions l + 1\<rparr>"]
    by (elim disjE) (simp_all add: count_phase_def add_u64_def u64E_def is_u64_def algebra_simps)
qed simp

text \<open>The ledger with its phase counts, which \<open>finalize_ledger\<close> computes without an error.\<close>

definition closed_ledger :: "action_state list \<Rightarrow> outbox_ledger \<Rightarrow> outbox_ledger" where
  "closed_ledger ss l = l\<lparr>
     l_ready_actions := tally (\<lambda>s. s_phase s = PHASE_READY) ss,
     l_uncertain_actions := tally (\<lambda>s. s_phase s = PHASE_UNCERTAIN) ss,
     l_succeeded_actions := tally (\<lambda>s. s_phase s = PHASE_SUCCEEDED) ss,
     l_failed_actions := tally (\<lambda>s. s_phase s = PHASE_FAILED) ss\<rparr>"

lemma tally_phases:
  assumes "\<forall>s \<in> set ss. s_phase s \<in> {1, 2, 3, 4}"
  shows "tally (\<lambda>s. s_phase s = 1) ss + tally (\<lambda>s. s_phase s = 2) ss
    + tally (\<lambda>s. s_phase s = 3) ss + tally (\<lambda>s. s_phase s = 4) ss = int (length ss)"
  using assms by (induction ss) auto

lemma finalize_ledger_total:
  assumes ok: "\<forall>s \<in> set ss. state_ok h s" and l: "ledger_ok l" and c: "ledger_closed ss l"
    and n: "int (length ss) \<le> U64_MAX"
  shows "finalize_ledger ss l = Inr (closed_ledger ss l)"
proof -
  have p: "\<forall>s \<in> set ss. s_phase s \<in> {1, 2, 3, 4}" using ok state_ok_facts(4) by blast
  have f: "foldE count_phase (clear_phase_counts l) ss = Inr (closed_ledger ss l)"
    using finalize_counts [OF p, of "clear_phase_counts l"] n
    by (simp add: clear_phase_counts_def closed_ledger_def is_u64_def)
  have t: "l_primary_actions l + l_compensation_actions l = int (length ss)"
    using c tally_complement [of is_compensation ss] by (simp add: ledger_closed_def)
  have s: "l_primary_actions (closed_ledger ss l) = l_primary_actions l"
    "l_compensation_actions (closed_ledger ss l) = l_compensation_actions l"
    "l_actions_enqueued (closed_ledger ss l) = int (length ss)"
    "l_ready_actions (closed_ledger ss l) + l_uncertain_actions (closed_ledger ss l)
      + l_succeeded_actions (closed_ledger ss l) + l_failed_actions (closed_ledger ss l) = int (length ss)"
    using c tally_phases [OF p] by (simp_all add: closed_ledger_def ledger_closed_def)
  show ?thesis
    using l f t n s by (simp add: finalize_ledger_def validate_ledger_Inr [THEN iffD2] add_u64_def u64E_def)
qed

end
