(* ===== verification/Framed_Log.thy ===== *)
theory Framed_Log
  imports Prelude
begin

text \<open>
  An append-only log of fixed-size frames after a header, and the loop that replays it: it takes
  one whole frame at a time and stops at a tail shorter than a frame. The locale \<open>framed_log\<close>
  states what such a loop does; inside it the loop is shown to be a fold of the frame handler over
  the whole frames, whence the two facts a recovery needs: a truncated log replays a prefix of the
  frames, and an appended frame is replayed last.
\<close>

section \<open>Cutting a byte string into frames\<close>

definition chunks :: "nat \<Rightarrow> bytes \<Rightarrow> bytes list" where
  "chunks n bs = map (\<lambda>i. slice (i * n) n bs) [0..<length bs div n]"

lemma length_chunks [simp]: "length (chunks n bs) = length bs div n"
  by (simp add: chunks_def)

lemma chunks_short: "length bs < n \<Longrightarrow> chunks n bs = []"
  by (simp add: chunks_def)

lemma chunks_step:
  assumes "0 < n" "n \<le> length bs"
  shows "chunks n bs = take n bs # chunks n (drop n bs)"
proof -
  have l: "length bs div n = Suc ((length bs - n) div n)"
    using assms by (simp add: le_div_geq)
  have "map (\<lambda>i. slice (i * n) n bs) [0..<Suc m]
      = take n bs # map (\<lambda>i. slice (i * n) n (drop n bs)) [0..<m]" for m
    by (simp add: slice_def add.commute map_upt_Suc del: upt_Suc)
  with l show ?thesis by (simp add: chunks_def del: upt_Suc)
qed

lemma chunks_take:
  assumes "0 < n" "k \<le> length bs"
  shows "chunks n (take k bs) = take (k div n) (chunks n bs)"
proof -
  have "slice (i * n) n (take k bs) = slice (i * n) n bs" if "i < k div n" for i
  proof -
    have "(i + 1) * n \<le> k div n * n" using that by (intro mult_right_mono) simp_all
    also have "\<dots> \<le> k" by simp
    finally have "n \<le> k - i * n" by simp
    then show ?thesis by (simp add: slice_def drop_take min_def)
  qed
  moreover have "k div n \<le> length bs div n" using assms by (intro div_le_mono) simp
  ultimately show ?thesis using assms by (simp add: chunks_def take_map min_def)
qed

lemma chunks_append:
  assumes "0 < n" "n dvd length bs" "length c = n"
  shows "chunks n (bs @ c) = chunks n bs @ [c]"
proof -
  obtain m where m: "length bs = m * n" using assms(2) by (metis dvd_def mult.commute)
  have d: "length (bs @ c) div n = Suc m" using assms m by simp
  have s: "slice (i * n) n (bs @ c) = slice (i * n) n bs" if "i < m" for i
  proof -
    have "(i + 1) * n \<le> m * n" using that by (intro mult_right_mono) simp_all
    then show ?thesis using m by (simp add: slice_def)
  qed
  have e: "slice (m * n) n (bs @ c) = c" using assms m by (simp add: slice_def)
  show ?thesis using d s e m assms by (simp add: chunks_def)
qed

lemma chunks_length: "0 < n \<Longrightarrow> c \<in> set (chunks n bs) \<Longrightarrow> length c = n"
proof -
  assume n: "0 < n" and c: "c \<in> set (chunks n bs)"
  then obtain i where i: "i < length bs div n" "c = slice (i * n) n bs" by (auto simp: chunks_def)
  have "(i + 1) * n \<le> length bs div n * n" using i by (intro mult_right_mono) simp_all
  also have "\<dots> \<le> length bs" by simp
  finally show ?thesis using i by (simp add: byte_simps)
qed

section \<open>The replay loop\<close>

locale framed_log =
  fixes frame :: nat
    and handler :: "'s \<Rightarrow> bytes \<Rightarrow> 'e + 's"
    and offset :: "'s \<Rightarrow> nat"
    and tail_status :: "nat \<Rightarrow> 't"
    and loop :: "bytes \<Rightarrow> 's \<Rightarrow> 'e + 's \<times> 't"
  assumes frame_pos: "0 < frame"
    and handler_offset: "handler s c = Inr s' \<Longrightarrow> offset s' = offset s + frame"
    and loop_frame: "offset s + frame \<le> length bs \<Longrightarrow>
      loop bs s = bindE (handler s (slice (offset s) frame bs)) (loop bs)"
    and loop_tail: "offset s \<le> length bs \<Longrightarrow> length bs < offset s + frame \<Longrightarrow>
      loop bs s = Inr (s, tail_status (length bs - offset s))"
begin

lemma fold_offset: "foldE handler s cs = Inr s' \<Longrightarrow> offset s' = offset s + frame * length cs"
proof (induction cs arbitrary: s)
  case (Cons c cs)
  then obtain t where "handler s c = Inr t" "foldE handler t cs = Inr s'" by (auto simp: result_simps)
  with Cons.IH [of t] handler_offset [of s c t] show ?case by simp
qed simp

lemma loop_is_fold:
  assumes "offset s \<le> length bs"
  shows "loop bs s = bindE (foldE handler s (chunks frame (drop (offset s) bs)))
    (\<lambda>s'. Inr (s', tail_status ((length bs - offset s) mod frame)))"
  using assms
proof (induction "length bs - offset s" arbitrary: s rule: less_induct)
  case less
  show ?case
  proof (cases "offset s + frame \<le> length bs")
    case True
    have c: "chunks frame (drop (offset s) bs)
        = slice (offset s) frame bs # chunks frame (drop (offset s + frame) bs)"
      using chunks_step [OF frame_pos, of "drop (offset s) bs"] True
      by (simp add: slice_def add.commute)
    show ?thesis
    proof (cases "handler s (slice (offset s) frame bs)")
      case (Inl e)
      then show ?thesis by (simp add: loop_frame [OF True] c)
    next
      case (Inr t)
      have o: "offset t = offset s + frame" using handler_offset [OF Inr] .
      have m: "(length bs - offset t) mod frame = (length bs - offset s) mod frame"
        using True by (simp add: o le_mod_geq)
      show ?thesis
        using less.hyps [of t] True frame_pos by (simp add: loop_frame [OF True] c Inr m) (simp add: o)
    qed
  next
    case False
    then have "length (drop (offset s) bs) < frame" using less.prems by simp
    then have "chunks frame (drop (offset s) bs) = []" "(length bs - offset s) mod frame = length bs - offset s"
      by (simp_all add: chunks_short)
    then show ?thesis using loop_tail [OF less.prems] False by simp
  qed
qed

lemma loop_result:
  assumes "loop bs s = Inr (t, st)" "offset s \<le> length bs"
  shows "foldE handler s (chunks frame (drop (offset s) bs)) = Inr t"
    and "st = tail_status ((length bs - offset s) mod frame)"
    and "offset t = offset s + frame * ((length bs - offset s) div frame)"
  using assms fold_offset [of s "chunks frame (drop (offset s) bs)" t]
  by (auto simp: loop_is_fold result_simps)

text \<open>A truncated log replays a prefix of the frames.\<close>

lemma loop_truncated:
  assumes "loop bs s = Inr (t, st)" "offset s \<le> k" "k \<le> length bs"
  obtains u where "loop (take k bs) s = Inr (u, tail_status ((k - offset s) mod frame))"
    and "foldE handler s (take ((k - offset s) div frame) (chunks frame (drop (offset s) bs))) = Inr u"
    and "foldE handler u (drop ((k - offset s) div frame) (chunks frame (drop (offset s) bs))) = Inr t"
proof -
  let ?cs = "chunks frame (drop (offset s) bs)" and ?m = "(k - offset s) div frame"
  have "foldE handler s (take ?m ?cs @ drop ?m ?cs) = Inr t"
    using loop_result(1) [OF assms(1)] assms by simp
  then obtain u where u: "foldE handler s (take ?m ?cs) = Inr u" "foldE handler u (drop ?m ?cs) = Inr t"
    unfolding foldE_append bindE_Inr by blast
  have "chunks frame (drop (offset s) (take k bs)) = take ?m ?cs"
    using chunks_take [OF frame_pos, of "k - offset s" "drop (offset s) bs"] assms
    by (simp add: drop_take)
  with u assms have "loop (take k bs) s = Inr (u, tail_status ((k - offset s) mod frame))"
    by (simp add: loop_is_fold)
  with u that show ?thesis by blast
qed

text \<open>A frame appended to a log without a torn tail is replayed last.\<close>

lemma loop_extended:
  assumes "loop bs s = Inr (t, st)" "offset s \<le> length bs" "frame dvd length bs - offset s"
    and "length c = frame" "handler t c = Inr u"
  shows "loop (bs @ c) s = Inr (u, tail_status 0)"
proof -
  have "chunks frame (drop (offset s) (bs @ c)) = chunks frame (drop (offset s) bs) @ [c]"
    using chunks_append [OF frame_pos, of "drop (offset s) bs" c] assms by simp
  moreover have "length (bs @ c) - offset s = (length bs - offset s) + frame"
    using assms by simp
  then have "(length (bs @ c) - offset s) mod frame = 0"
    using assms(3) by simp
  ultimately show ?thesis
    using assms loop_result(1) [OF assms(1,2)] by (simp add: loop_is_fold foldE_append)
qed

end

end
