(* ===== verification/Outbox_Recovery.thy ===== *)
theory Outbox_Recovery
  imports Outbox_Invariants Framed_Log
begin

text \<open>
  Recovery of an ActionOutbox journal. The recovery loop is an instance of \<open>framed_log\<close>; the
  invariant \<open>journal_ok\<close> of the records replayed so far holds at its start and is kept by every
  frame, so it holds of whatever \<open>recover\<close> returns. The properties are stated of the value
  \<open>recover\<close> returns for the bytes of a journal.
\<close>

section \<open>Hash chains\<close>

definition tip :: "bytes \<Rightarrow> outbox_record list \<Rightarrow> bytes" where
  "tip seed rs = (if rs = [] then seed else r_record_sha256 (last rs))"

definition hash_chain :: "bytes \<Rightarrow> (outbox_record \<Rightarrow> bytes) \<Rightarrow> outbox_record list \<Rightarrow> bool" where
  "hash_chain seed previous rs \<longleftrightarrow>
     (\<forall>i < length rs. previous (rs ! i) = (if i = 0 then seed else r_record_sha256 (rs ! (i - 1))))"

lemma tip_simps [simp]: "tip seed [] = seed" "tip seed (rs @ [r]) = r_record_sha256 r"
  by (simp_all add: tip_def)

lemma hash_chain_Nil [simp]: "hash_chain seed previous []"
  by (simp add: hash_chain_def)

lemma hash_chain_snoc [simp]:
  "hash_chain seed previous (rs @ [r]) \<longleftrightarrow> hash_chain seed previous rs \<and> previous r = tip seed rs"
proof -
  have "(if length rs = 0 then seed else r_record_sha256 ((rs @ [r]) ! (length rs - 1))) = tip seed rs"
    by (cases rs rule: rev_cases) (simp_all add: tip_def nth_append)
  moreover have "(rs @ [r]) ! (i - 1) = rs ! (i - 1)" if "i < length rs" for i
    using that by (auto simp: nth_append)
  ultimately show ?thesis
    unfolding hash_chain_def by (auto simp: less_Suc_eq all_conj_distrib nth_append)
qed

section \<open>The records of one action\<close>

definition records_of :: "bytes \<Rightarrow> outbox_record list \<Rightarrow> outbox_record list" where
  "records_of root rs = filter (\<lambda>r. i_action_sha256 (r_identity r) = root) rs"

definition events_of :: "bytes \<Rightarrow> outbox_record list \<Rightarrow> int list" where
  "events_of root rs = map r_kind (records_of root rs)"

lemma records_of_simps [simp]:
  "records_of root [] = []"
  "records_of root (rs @ [r]) =
     (if i_action_sha256 (r_identity r) = root then records_of root rs @ [r] else records_of root rs)"
  by (simp_all add: records_of_def)

lemma life_path_Absent: "life_path ks Absent \<longleftrightarrow> ks = []"
  by (auto elim: life_path.cases life_step_cases intro: life_path.start)

section \<open>The journal invariant\<close>

definition journal_ok ::
  "outbox_header \<Rightarrow> outbox_record list \<Rightarrow> action_state list \<Rightarrow> outbox_ledger \<Rightarrow> bool" where
  "journal_ok h rs ss l \<longleftrightarrow>
     header_ok h \<and> (\<forall>r \<in> set rs. record_ok h r) \<and> (\<forall>s \<in> set ss. state_ok h s)
     \<and> int (length rs) \<le> h_maximum_records h \<and> int (length ss) \<le> h_maximum_actions h
     \<and> states_unique ss \<and> compensation_safe ss
     \<and> ledger_counts rs l \<and> ledger_closed ss l
     \<and> (\<forall>s \<in> set ss. s_phase s = PHASE_READY \<or> s_attempt_generation s \<noteq> 0)
     \<and> map r_sequence rs = map (\<lambda>i. int i + 1) [0..<length rs]
     \<and> hash_chain (h_header_sha256 h) r_previous_journal_sha256 rs
     \<and> (\<forall>root. life_path (events_of root rs) (life_in ss root))
     \<and> (\<forall>root. hash_chain ZERO_DIGEST r_previous_action_event_sha256 (records_of root rs))
     \<and> (\<forall>s \<in> set ss. s_last_event_sha256 s = tip ZERO_DIGEST (records_of (i_action_sha256 (s_identity s)) rs))"

lemma journal_ok_start: "header_ok h \<Longrightarrow> journal_ok h [] [] empty_ledger"
  unfolding journal_ok_def
  by (auto simp: states_unique_def compensation_safe_def ledger_counts_def ledger_closed_def
      empty_ledger_def OBSERVATION_KINDS_def observed_count_def life_path_Absent events_of_def
      life_in_def header_ok_def validate_header_def header_words_def is_u64_def result_simps)

lemma maximum_bounds:
  assumes "header_ok h"
  shows "0 < h_maximum_actions h" "h_maximum_actions h \<le> 64" "0 < h_maximum_records h"
    "h_maximum_records h \<le> 256"
  using assms by (auto simp: header_ok_def validate_header_def result_simps)

lemma apply_record_events:
  assumes a: "apply_record h r ss l = Inr (ss', l')"
    and path: "\<forall>root. life_path (events_of root rs) (life_in ss root)"
  shows "life_path (events_of root (rs @ [r])) (life_in ss' root)"
proof (cases "root = i_action_sha256 (r_identity r)")
  case True
  have "life_path (events_of root rs @ [r_kind r]) (life_in ss' root)"
    using path apply_record_refines(1) [OF a] unfolding True by (blast intro: life_path.step)
  then show ?thesis by (simp add: events_of_def True)
next
  case False
  then show ?thesis using path apply_record_refines(2) [OF a False] by (simp add: events_of_def)
qed

lemma apply_record_action_chain:
  assumes a: "apply_record h r ss l = Inr (ss', l')" and ok: "record_ok h r"
    and path: "\<forall>root. life_path (events_of root rs) (life_in ss root)"
    and last: "\<forall>s \<in> set ss. s_last_event_sha256 s = tip ZERO_DIGEST (records_of (i_action_sha256 (s_identity s)) rs)"
  shows "r_previous_action_event_sha256 r = tip ZERO_DIGEST (records_of (i_action_sha256 (r_identity r)) rs)"
proof (cases "r_kind r = EVENT_ENQUEUED")
  case True
  then have "find_state ss (i_action_sha256 (r_identity r)) = None"
    using a by (auto simp: apply_record_iff apply_enqueue_iff enqueue_admitted_def find_state_None)
  then have "life_in ss (i_action_sha256 (r_identity r)) = Absent" by (simp add: life_in_def)
  then have "records_of (i_action_sha256 (r_identity r)) rs = []"
    using path by (metis events_of_def life_path_Absent map_is_Nil_conv)
  moreover have "r_previous_action_event_sha256 r = ZERO_DIGEST"
    using record_ok_facts(11) [OF ok] True by (simp add: kind_fields_valid_def)
  ultimately show ?thesis by simp
next
  case False
  then obtain i where i: "find_state ss (i_action_sha256 (r_identity r)) = Some i"
      "s_identity (ss ! i) = r_identity r"
      "s_last_event_sha256 (ss ! i) = r_previous_action_event_sha256 r"
    using a by (auto simp: apply_record_iff apply_transition_iff)
  with last find_state_Some [OF i(1)] show ?thesis by (metis nth_mem)
qed

lemma apply_record_last_events:
  assumes a: "apply_record h r ss l = Inr (ss', l')" and u: "states_unique ss"
    and last: "\<forall>s \<in> set ss. s_last_event_sha256 s = tip ZERO_DIGEST (records_of (i_action_sha256 (s_identity s)) rs)"
  shows "\<forall>s \<in> set ss'. s_last_event_sha256 s = tip ZERO_DIGEST (records_of (i_action_sha256 (s_identity s)) (rs @ [r]))"
  (is "\<forall>s \<in> _. ?P s")
proof -
  have d: "i = j" if "i < length ss" "j < length ss"
    "i_action_sha256 (s_identity (ss ! i)) = i_action_sha256 (s_identity (ss ! j))" for i j
    using u that nth_eq_iff_index_eq [of "map (i_action_sha256 \<circ> s_identity) ss" i j]
    by (simp add: states_unique_def)
  have upd: "\<forall>s \<in> set (ss[i := t]). ?P s"
    if i: "i < length ss" "s_identity (ss ! i) = r_identity r" "s_identity t = r_identity r"
      "s_last_event_sha256 t = r_record_sha256 r" for i t
  proof
    fix s assume "s \<in> set (ss[i := t])"
    then obtain j where j: "j < length ss" "s = ss[i := t] ! j" by (auto simp: in_set_conv_nth)
    show "?P s"
    proof (cases "j = i")
      case True
      then show ?thesis using i j by simp
    next
      case False
      then have "i_action_sha256 (s_identity (ss ! j)) \<noteq> i_action_sha256 (r_identity r)"
        using d [OF j(1) i(1)] i(2) by metis
      then show ?thesis using False j last by simp
    qed
  qed
  from a show ?thesis
  proof (cases rule: apply_record_cases)
    case enqueue
    then show ?thesis using last by (auto simp: enqueue_admitted_def)
  next
    case (dispatch i)
    show ?thesis unfolding dispatch(7)
      by (rule upd) (use dispatch in simp_all)
  next
    case (observe i)
    show ?thesis unfolding observe(6)
      by (rule upd) (use observe in simp_all)
  qed
qed

lemma journal_ok_step:
  assumes j: "journal_ok h rs ss l" and a: "apply_record h r ss l = Inr (ss', l')"
    and p: "r_previous_journal_sha256 r = tip (h_header_sha256 h) rs"
  shows "journal_ok h (rs @ [r]) ss' l'"
proof -
  have r: "record_ok h r" "header_ok h" and s: "r_sequence r = l_committed_records l + 1"
    "r_sequence r \<le> h_maximum_records h"
    using a by (auto simp: apply_record_iff)
  have n: "l_committed_records l = int (length rs)" using j by (simp add: journal_ok_def ledger_counts_def)
  have c: "int (length ss') \<le> h_maximum_actions h"
    using a
  proof (cases rule: apply_record_cases)
    case enqueue
    then show ?thesis by (simp add: enqueue_admitted_def)
  qed (use j in \<open>simp_all add: journal_ok_def\<close>)
  note J = j [unfolded journal_ok_def]
  have ev: "life_path (events_of root (rs @ [r])) (life_in ss' root)" for root
    using apply_record_events [OF a] J by blast
  have ac: "r_previous_action_event_sha256 r = tip ZERO_DIGEST (records_of (i_action_sha256 (r_identity r)) rs)"
    using apply_record_action_chain [OF a r(1)] J by blast
  have le: "\<forall>s \<in> set ss'. s_last_event_sha256 s = tip ZERO_DIGEST (records_of (i_action_sha256 (s_identity s)) (rs @ [r]))"
    using apply_record_last_events [OF a] J by blast
  have cl: "ledger_closed ss' l'" "\<forall>s \<in> set ss'. s_phase s = PHASE_READY \<or> s_attempt_generation s \<noteq> 0"
    using apply_record_closed [OF a] J by blast+
  have ct: "ledger_counts (rs @ [r]) l'" using apply_record_counts [OF a] J by blast
  show ?thesis
    unfolding journal_ok_def
    using J r s n c ev ac le cl ct p apply_record_states_ok [OF a] apply_record_unique [OF a]
      apply_record_compensation [OF a]
    by simp
qed

lemma ledger_ok_of_counts:
  assumes "ledger_counts rs l" "int (length rs) \<le> 256" "is_u64 (l_ready_actions l)"
    "is_u64 (l_uncertain_actions l)" "is_u64 (l_succeeded_actions l)" "is_u64 (l_failed_actions l)"
  shows "ledger_ok l"
proof -
  have b: "is_u64 (tally P rs)" for P
    using tally_bounds [of P rs] assms(2) by (simp add: is_u64_def)
  have "is_u64 (observed_count k l)" if "k \<in> OBSERVATION_KINDS" for k
    using assms(1) b that by (simp add: ledger_counts_def)
  from this [of 3] this [of 4] this [of 5] this [of 6] this [of 7] this [of 8]
  show ?thesis using assms b
    by (simp add: ledger_ok_def ledger_words_def ledger_counts_def OBSERVATION_KINDS_def observed_count_def)
      (simp add: is_u64_def)
qed

section \<open>The recovery loop\<close>

text \<open>One frame of the journal, and the status of the bytes after the last whole frame.\<close>

definition replay_chunk :: "outbox_header \<Rightarrow> replay \<Rightarrow> bytes \<Rightarrow> outbox_error + replay" where
  "replay_chunk h p c =
    (if int (length (p_records p)) \<ge> h_maximum_records h then Inl RecordCapacity
     else bindE (decode_record h (int (length (p_records p)) + 1) (p_final_chain p) c) (\<lambda>record.
          bindE (apply_record h record (p_states p) (p_ledger p)) (\<lambda>(states, ledger).
            Inr \<lparr>p_offset = p_offset p + RECORD_BYTES, p_records = p_records p @ [record],
                 p_states = states, p_ledger = ledger,
                 p_final_chain = r_record_sha256 record\<rparr>)))"

definition tail_status :: "nat \<Rightarrow> int" where
  "tail_status n =
    (if n = 0 then RECOVERY_CLEAN
     else if n < RECORD_BODY_BYTES then RECOVERY_SHORT_BODY_TAIL
     else if n = RECORD_BODY_BYTES then RECOVERY_BODY_WITHOUT_FOOTER
     else RECOVERY_PARTIAL_FOOTER_TAIL)"

interpretation outbox_log: framed_log RECORD_BYTES "replay_chunk h" p_offset tail_status
    "recover_loop h" for h
proof unfold_locales
  fix h and s :: replay and bs :: bytes
  assume "p_offset s + RECORD_BYTES \<le> length bs"
  then show "recover_loop h bs s =
      bindE (replay_chunk h s (slice (p_offset s) RECORD_BYTES bs)) (recover_loop h bs)"
    by (subst recover_loop.simps) (auto simp: replay_record_def replay_chunk_def Let_def)
next
  fix h and s :: replay and bs :: bytes
  assume "p_offset s \<le> length bs" "length bs < p_offset s + RECORD_BYTES"
  then show "recover_loop h bs s = Inr (s, tail_status (length bs - p_offset s))"
    by (subst recover_loop.simps) (auto simp: tail_status_def Let_def)
qed (auto simp: replay_chunk_def result_simps split: if_splits prod.splits)

definition replay_start :: "outbox_header \<Rightarrow> replay" where
  "replay_start h = \<lparr>p_offset = HEADER_BYTES, p_records = [], p_states = [],
     p_ledger = empty_ledger, p_final_chain = h_header_sha256 h\<rparr>"

definition phases_clear :: "outbox_ledger \<Rightarrow> bool" where
  "phases_clear l \<longleftrightarrow> l_ready_actions l = 0 \<and> l_uncertain_actions l = 0 \<and> l_succeeded_actions l = 0
     \<and> l_failed_actions l = 0"

lemma apply_record_phases_clear: "apply_record h r ss l = Inr (ss', l') \<Longrightarrow> phases_clear l'"
  by (erule apply_record_cases)
    (simp_all add: phases_clear_def enqueued_ledger_def dispatched_ledger_def observed_ledger_def
      opened_ledger_def clear_phase_counts_def)

definition replay_ok :: "outbox_header \<Rightarrow> replay \<Rightarrow> bool" where
  "replay_ok h p \<longleftrightarrow> journal_ok h (p_records p) (p_states p) (p_ledger p) \<and> phases_clear (p_ledger p)
     \<and> p_final_chain p = tip (h_header_sha256 h) (p_records p)
     \<and> p_offset p = HEADER_BYTES + RECORD_BYTES * length (p_records p)"

lemma phases_clear_empty: "phases_clear empty_ledger"
  by (simp add: phases_clear_def empty_ledger_def)

lemma replay_ok_start: "header_ok h \<Longrightarrow> replay_ok h (replay_start h)"
  by (simp add: replay_ok_def replay_start_def journal_ok_start phases_clear_empty)

lemma replay_chunk_inv:
  assumes "replay_chunk h p c = Inr p'"
  obtains r ss l where "decode_record h (int (length (p_records p)) + 1) (p_final_chain p) c = Inr r"
    "apply_record h r (p_states p) (p_ledger p) = Inr (ss, l)"
    "p' = \<lparr>p_offset = p_offset p + RECORD_BYTES, p_records = p_records p @ [r],
       p_states = ss, p_ledger = l, p_final_chain = r_record_sha256 r\<rparr>"
    "int (length (p_records p)) < h_maximum_records h"
  using assms by (auto simp: replay_chunk_def result_simps split: if_splits prod.splits)

lemma replay_chunk_ok:
  assumes "replay_ok h p" "replay_chunk h p c = Inr p'"
  shows "replay_ok h p'"
  using assms(2)
proof (cases rule: replay_chunk_inv)
  case (1 r ss l)
  have "r_previous_journal_sha256 r = tip (h_header_sha256 h) (p_records p)"
    using record_canonical(3) [OF 1(1)] assms(1) by (simp add: replay_ok_def)
  with 1 assms(1) journal_ok_step [of h "p_records p" "p_states p" "p_ledger p" r ss l]
  show ?thesis by (simp add: replay_ok_def apply_record_phases_clear [OF 1(2)])
qed

lemma replay_ok_ledger: "replay_ok h p \<Longrightarrow> ledger_ok (p_ledger p)"
  using ledger_ok_of_counts [of "p_records p" "p_ledger p"] maximum_bounds [of h]
  by (auto simp: replay_ok_def journal_ok_def phases_clear_def is_u64_def)

lemma fold_replay_ok:
  "foldE (replay_chunk h) p cs = Inr q \<Longrightarrow> replay_ok h p \<Longrightarrow> replay_ok h q"
  by (rule foldE_invariant [where P = "replay_ok h"]) (use replay_chunk_ok in blast)+

lemma fold_replay_records:
  "foldE (replay_chunk h) p cs = Inr q \<Longrightarrow>
     take (length (p_records p)) (p_records q) = p_records p
     \<and> length (p_records q) = length (p_records p) + length cs"
proof (induction cs arbitrary: p)
  case (Cons c cs)
  then obtain p' where p': "replay_chunk h p c = Inr p'" "foldE (replay_chunk h) p' cs = Inr q"
    by (auto simp: result_simps)
  then obtain r where r: "p_records p' = p_records p @ [r]" by (auto elim!: replay_chunk_inv)
  have "take (length (p_records p)) (p_records q) = take (length (p_records p)) (take (length (p_records p')) (p_records q))"
    by (simp add: r)
  with Cons.IH [OF p'(2)] r show ?case by simp
qed simp

text \<open>The value \<open>recover\<close> builds from a finished loop, and that building it cannot fail.\<close>

definition recovered :: "outbox_header \<Rightarrow> nat \<Rightarrow> replay \<Rightarrow> int \<Rightarrow> bytes \<Rightarrow> recovery" where
  "recovered h n p status root =
    \<lparr>v_header = h, v_records = p_records p, v_states = p_states p, v_status = status,
     v_committed_bytes = int (p_offset p), v_discarded_tail_bytes = int n - int (p_offset p),
     v_final_chain_sha256 = p_final_chain p, v_state_sha256 = root,
     v_ledger = closed_ledger (p_states p) (p_ledger p)\<rparr>"

lemma replay_finalizes:
  assumes "replay_ok h p"
  shows "finalize_ledger (p_states p) (p_ledger p) = Inr (closed_ledger (p_states p) (p_ledger p))"
  using assms maximum_bounds [of h] replay_ok_ledger [OF assms]
  by (auto simp: replay_ok_def journal_ok_def intro!: finalize_ledger_total)

lemma closed_ledger_ok:
  assumes "replay_ok h p"
  shows "ledger_ok (closed_ledger (p_states p) (p_ledger p))"
proof -
  have n: "int (length (p_states p)) \<le> 64"
    using assms(1) maximum_bounds [of h] by (auto simp: replay_ok_def journal_ok_def)
  have "is_u64 (tally P (p_states p))" for P
    using n tally_bounds [of P "p_states p"] by (simp add: is_u64_def)
  with replay_ok_ledger [OF assms] show ?thesis by (simp add: ledger_ok_def ledger_words_def closed_ledger_def)
qed

lemma hash_identity_parts_total: "identity_ok h i \<Longrightarrow> \<exists>ps. hash_identity_parts i = Inr ps"
  by (auto simp: identity_ok_def validate_action_identity_def hash_identity_parts_def result_simps)

lemma mapE_exists: "(\<And>x. x \<in> set xs \<Longrightarrow> \<exists>y. f x = Inr y) \<Longrightarrow> \<exists>ys. mapE f xs = Inr ys"
  by (induction xs) (auto simp: result_simps)

lemma state_sha256_total:
  assumes "header_ok h" "\<forall>s \<in> set ss. state_ok h s" "ledger_ok l" "int (length ss) \<le> U64_MAX"
  shows "\<exists>root. state_sha256 h ss l = Inr root"
proof -
  have "\<exists>ps. hash_state_parts s = Inr ps" if "s \<in> set ss" for s
    using hash_identity_parts_total [of h "s_identity s"] state_ok_facts [of h s] assms(2) that
    by (auto simp: hash_state_parts_def result_simps)
  then have "\<exists>parts. mapE hash_state_parts ss = Inr parts" by (rule mapE_exists)
  moreover have "\<exists>lp. hash_ledger_parts l = Inr lp"
    using assms(3) by (simp add: hash_ledger_parts_def validate_ledger_Inr result_simps ledger_ok_def)
  ultimately show ?thesis using assms
    by (auto simp: state_sha256_def result_simps ok_simps mapE_validate_state validate_ledger_Inr is_u64_def)
qed

lemma recover_loop_start:
  assumes "HEADER_BYTES \<le> length bs"
  shows "recover_loop h bs (replay_start h) =
    bindE (foldE (replay_chunk h) (replay_start h) (chunks RECORD_BYTES (drop HEADER_BYTES bs)))
      (\<lambda>p. Inr (p, tail_status ((length bs - HEADER_BYTES) mod RECORD_BYTES)))"
  using outbox_log.loop_is_fold [of "replay_start h" bs h] assms by (simp add: replay_start_def)

lemma decode_header_ok: "decode_header bs root = Inr h \<Longrightarrow> header_ok h"
  by (auto simp: decode_header_def result_simps ok_simps)

text \<open>Recovery is: decode the header, fold the frames. Nothing after the fold can fail.\<close>

lemma recover_of_fold:
  assumes len: "HEADER_BYTES \<le> length bs" and hd: "decode_header (take HEADER_BYTES bs) root = Inr h"
    and fold: "foldE (replay_chunk h) (replay_start h) (chunks RECORD_BYTES (drop HEADER_BYTES bs)) = Inr p"
  shows "\<exists>sroot. recover bs root =
    Inr (recovered h (length bs) p (tail_status ((length bs - HEADER_BYTES) mod RECORD_BYTES)) sroot)"
proof -
  have ok: "replay_ok h p"
    using fold_replay_ok [OF fold replay_ok_start [OF decode_header_ok [OF hd]]] .
  then have "\<exists>sroot. state_sha256 h (p_states p) (closed_ledger (p_states p) (p_ledger p)) = Inr sroot"
    using maximum_bounds [of h] closed_ledger_ok [OF ok]
    by (intro state_sha256_total) (auto simp: replay_ok_def journal_ok_def)
  then show ?thesis
    using len hd fold replay_finalizes [OF ok] recover_loop_start [OF len, of h]
    by (auto simp: recover_def recovered_def replay_start_def)
qed

lemma recover_inv:
  assumes "recover bs root = Inr v"
  obtains h p sroot where "HEADER_BYTES \<le> length bs" "decode_header (take HEADER_BYTES bs) root = Inr h"
    "foldE (replay_chunk h) (replay_start h) (chunks RECORD_BYTES (drop HEADER_BYTES bs)) = Inr p"
    "replay_ok h p"
    "v = recovered h (length bs) p (tail_status ((length bs - HEADER_BYTES) mod RECORD_BYTES)) sroot"
    "state_sha256 h (p_states p) (closed_ledger (p_states p) (p_ledger p)) = Inr sroot"
proof -
  from assms obtain h where len: "HEADER_BYTES \<le> length bs"
    and hd: "decode_header (take HEADER_BYTES bs) root = Inr h"
    by (auto simp: recover_def result_simps)
  from assms obtain p st where "recover_loop h bs (replay_start h) = Inr (p, st)"
    using hd by (auto simp: recover_def result_simps replay_start_def)
  then have fold: "foldE (replay_chunk h) (replay_start h) (chunks RECORD_BYTES (drop HEADER_BYTES bs)) = Inr p"
    using recover_loop_start [OF len, of h] by (auto simp: result_simps)
  have ok: "replay_ok h p"
    using fold_replay_ok [OF fold replay_ok_start [OF decode_header_ok [OF hd]]] .
  obtain sroot where s: "state_sha256 h (p_states p) (closed_ledger (p_states p) (p_ledger p)) = Inr sroot"
      "v = recovered h (length bs) p (tail_status ((length bs - HEADER_BYTES) mod RECORD_BYTES)) sroot"
    using assms len hd fold replay_finalizes [OF ok] recover_loop_start [OF len, of h]
    by (auto simp: recover_def recovered_def replay_start_def result_simps)
  with that len hd fold ok show ?thesis by blast
qed

end
