(* ===== verification/Outbox_Append.thy ===== *)
theory Outbox_Append
  imports Outbox_Recovery
begin

text \<open>
  The writer's side of the journal: when a valid record applies to the recovered states, that
  \<open>apply_record\<close> then succeeds, what \<open>make_transition_record\<close> returns, and that appending the encoding
  of an applicable record to a clean journal gives a journal that recovers one record further.
\<close>

section \<open>What a recovery is made of\<close>

lemma recover_journal:
  assumes "recover bs root = Inr v"
  obtains p where "replay_ok (v_header v) p" "v_records v = p_records p" "v_states v = p_states p"
    "v_ledger v = closed_ledger (p_states p) (p_ledger p)" "v_final_chain_sha256 v = p_final_chain p"
  using assms by (elim recover_inv) (auto simp: recovered_def)

lemma closed_ledger_counts: "ledger_counts rs (closed_ledger ss l) = ledger_counts rs l"
  by (simp add: ledger_counts_def closed_ledger_def observed_count_def OBSERVATION_KINDS_def)

lemma closed_ledger_closed: "ledger_closed ss (closed_ledger us l) = ledger_closed ss l"
  by (simp add: ledger_closed_def closed_ledger_def)

lemma tail_status_clean: "tail_status n = RECOVERY_CLEAN \<longleftrightarrow> n = 0"
  by (simp add: tail_status_def)

text \<open>When a valid record applies to these states, and the states it leads to.\<close>

definition record_applies :: "outbox_header \<Rightarrow> outbox_record \<Rightarrow> action_state list \<Rightarrow> bool" where
  "record_applies h r ss \<longleftrightarrow>
    (if r_kind r = EVENT_ENQUEUED then enqueue_admitted h (r_identity r) ss
     else \<exists>s \<in> set ss. s_identity s = r_identity r
         \<and> s_last_event_sha256 s = r_previous_action_event_sha256 r
         \<and> (if r_kind r = EVENT_DISPATCH_INTENT
            then s_phase s = PHASE_READY \<and> r_attempt_generation r = s_attempt_generation s + 1
              \<and> dispatch_request_sha256 h (r_identity r) (r_attempt_generation r)
                  = Inr (r_dispatch_request_sha256 r)
            else s_phase s = PHASE_UNCERTAIN \<and> r_attempt_generation r = s_attempt_generation s
              \<and> r_dispatch_request_sha256 r = s_dispatch_request_sha256 s))"

definition after_record :: "outbox_record \<Rightarrow> action_state list \<Rightarrow> action_state list" where
  "after_record r ss =
    (if r_kind r = EVENT_ENQUEUED
     then ss @ [(make_state (r_identity r))\<lparr>s_last_event_sha256 := r_record_sha256 r\<rparr>]
     else case find_state ss (i_action_sha256 (r_identity r)) of
       None \<Rightarrow> ss
     | Some i \<Rightarrow> ss[i := (if r_kind r = EVENT_DISPATCH_INTENT then dispatched r (ss ! i)
         else observed r (ss ! i))\<lparr>s_last_event_sha256 := r_record_sha256 r\<rparr>])"

lemma apply_record_totality:
  assumes r: "record_ok h r" and p: "replay_ok h p" and room: "int (length (p_records p)) < h_maximum_records h"
    and seq: "r_sequence r = int (length (p_records p)) + 1" and step: "record_applies h r (p_states p)"
  shows "\<exists>l. apply_record h r (p_states p) (p_ledger p) = Inr (after_record r (p_states p), l)"
proof -
  let ?ss = "p_states p" and ?l = "p_ledger p" and ?rs = "p_records p"
  have h: "header_ok h" and c: "ledger_counts ?rs ?l" and u: "states_unique ?ss"
    and ok: "\<forall>s \<in> set ?ss. state_ok h s"
    using p by (auto simp: replay_ok_def journal_ok_def)
  have n: "int (length ?rs) < 256" using room maximum_bounds [OF h] by linarith
  have b: "is_u64 (tally P ?rs + 1)" for P
    using tally_bounds [of P ?rs] n by (simp add: is_u64_def)
  have pre: "header_ok h" "record_ok h r" "ledger_ok ?l" "is_u64 (l_committed_records ?l + 1)"
    "r_sequence r = l_committed_records ?l + 1" "r_sequence r \<le> h_maximum_records h"
    using h r replay_ok_ledger [OF p] c n seq room by (simp_all add: ledger_counts_def is_u64_def)
  show ?thesis
  proof (cases "r_kind r = EVENT_ENQUEUED")
    case True
    then show ?thesis using pre ok step c b
      by (auto simp: apply_record_iff apply_enqueue_iff ledger_counts_def record_applies_def after_record_def)
  next
    case False
    then obtain s where s: "s \<in> set ?ss" "s_identity s = r_identity r"
        "s_last_event_sha256 s = r_previous_action_event_sha256 r"
      and t: "if r_kind r = EVENT_DISPATCH_INTENT
            then s_phase s = PHASE_READY \<and> r_attempt_generation r = s_attempt_generation s + 1
              \<and> dispatch_request_sha256 h (r_identity r) (r_attempt_generation r)
                  = Inr (r_dispatch_request_sha256 r)
            else s_phase s = PHASE_UNCERTAIN \<and> r_attempt_generation r = s_attempt_generation s
              \<and> r_dispatch_request_sha256 r = s_dispatch_request_sha256 s"
      using step by (auto simp only: record_applies_def if_False)
    obtain i where i: "find_state ?ss (i_action_sha256 (r_identity r)) = Some i"
      using s find_state_None [of ?ss "i_action_sha256 (r_identity r)"] by fastforce
    have "?ss ! i = s"
    proof -
      obtain j where j: "j < length ?ss" "?ss ! j = s" using s(1) by (auto simp: in_set_conv_nth)
      then have "j = i"
        using u s(2) find_state_Some [OF i] nth_eq_iff_index_eq [of "map (i_action_sha256 \<circ> s_identity) ?ss" i j]
        by (simp add: states_unique_def)
      with j show ?thesis by simp
    qed
    note i = i this
    have k: "r_kind r \<in> OBSERVATION_KINDS" if "r_kind r \<noteq> EVENT_DISPATCH_INTENT"
      using record_ok_facts(10) [OF r] False that by (auto simp: EVENT_KINDS_def OBSERVATION_KINDS_def)
    have u64: "is_u64 (l_safe_retry_dispatches ?l + 1)" "is_u64 (l_dispatch_intents ?l + 1)"
      "r_kind r \<noteq> EVENT_DISPATCH_INTENT \<Longrightarrow> is_u64 (observed_count (r_kind r) ?l + 1)"
      using c b k by (simp_all add: ledger_counts_def)
    show ?thesis
      using pre ok False t i s k u64 record_ok_facts(15) [OF r]
      by (cases "r_kind r = EVENT_DISPATCH_INTENT")
        (auto simp: apply_record_iff apply_transition_iff apply_dispatch_iff apply_observation_iff
          after_record_def)
  qed
qed

section \<open>Transition records and appending\<close>

lemma make_transition_record_inv:
  assumes "make_transition_record h seq prev s kind gen obs out = Inr r"
  shows "record_ok h r" "r_sequence r = seq" "r_previous_journal_sha256 r = prev" "r_kind r = kind"
    and "r_identity r = s_identity s" "r_previous_action_event_sha256 r = s_last_event_sha256 s"
    and "kind \<noteq> EVENT_ENQUEUED"
    and "if kind = EVENT_DISPATCH_INTENT
      then s_phase s = PHASE_READY \<and> r_attempt_generation r = s_attempt_generation s + 1
        \<and> dispatch_request_sha256 h (r_identity r) (r_attempt_generation r) = Inr (r_dispatch_request_sha256 r)
      else s_phase s = PHASE_UNCERTAIN \<and> r_attempt_generation r = s_attempt_generation s
        \<and> r_dispatch_request_sha256 r = s_dispatch_request_sha256 s"
proof -
  from assms obtain dispatch root where
    fin: "validate_record h \<lparr>r_abi_version = RECORD_ABI, r_sequence = seq, r_kind = kind,
       r_attempt_generation = gen, r_identity = s_identity s,
       r_previous_action_event_sha256 = s_last_event_sha256 s,
       r_previous_journal_sha256 = prev, r_dispatch_request_sha256 = dispatch,
       r_observation_sha256 = obs, r_result_sha256 = out, r_record_sha256 = root\<rparr> = Inr r"
    and kind: "kind \<in> set (remove1 EVENT_ENQUEUED EVENT_KINDS)"
    and d: "if kind = EVENT_DISPATCH_INTENT
      then s_phase s = PHASE_READY \<and> gen = s_attempt_generation s + 1
        \<and> dispatch_request_sha256 h (s_identity s) gen = Inr dispatch
      else s_phase s = PHASE_UNCERTAIN \<and> gen = s_attempt_generation s \<and> dispatch = s_dispatch_request_sha256 s"
    by (auto simp: make_transition_record_def result_simps ok_simps validate_state_Inr Let_def
        split: if_splits)
  from fin have r: "record_ok h r" "r = \<lparr>r_abi_version = RECORD_ABI, r_sequence = seq, r_kind = kind,
       r_attempt_generation = gen, r_identity = s_identity s,
       r_previous_action_event_sha256 = s_last_event_sha256 s,
       r_previous_journal_sha256 = prev, r_dispatch_request_sha256 = dispatch,
       r_observation_sha256 = obs, r_result_sha256 = out, r_record_sha256 = root\<rparr>"
    by (auto simp: ok_simps)
  then show "record_ok h r" "r_sequence r = seq" "r_previous_journal_sha256 r = prev" "r_kind r = kind"
    "r_identity r = s_identity s" "r_previous_action_event_sha256 r = s_last_event_sha256 s"
    by simp_all
  show "kind \<noteq> EVENT_ENQUEUED" using kind by (auto simp: EVENT_KINDS_def)
  show "if kind = EVENT_DISPATCH_INTENT
      then s_phase s = PHASE_READY \<and> r_attempt_generation r = s_attempt_generation s + 1
        \<and> dispatch_request_sha256 h (r_identity r) (r_attempt_generation r) = Inr (r_dispatch_request_sha256 r)
      else s_phase s = PHASE_UNCERTAIN \<and> r_attempt_generation r = s_attempt_generation s
        \<and> r_dispatch_request_sha256 r = s_dispatch_request_sha256 s"
    using d r(2) by auto
qed

lemma encode_record_total: "record_ok h r \<Longrightarrow> encode_record h r = Inr (record_layout r)"
  by (rule encode_record_layout) (simp add: record_ok_def)

lemma record_layout_length: "record_ok h r \<Longrightarrow> length (record_layout r) = RECORD_BYTES"
  by (rule record_layout_slices(1)) (use validate_record_facts(2) [of h r] in \<open>auto simp: record_ok_def\<close>)

text \<open>Appending the encoding of a record that applies to what a clean journal recovers to.\<close>

lemma recover_append:
  assumes v: "recover bs root = Inr v" and clean: "v_status v = RECOVERY_CLEAN"
    and r: "record_ok (v_header v) r"
    and room: "int (length (v_records v)) < h_maximum_records (v_header v)"
    and seq: "r_sequence r = int (length (v_records v)) + 1"
    and prev: "r_previous_journal_sha256 r = v_final_chain_sha256 v"
    and step: "record_applies (v_header v) r (v_states v)"
  obtains v' where "recover (bs @ record_layout r) root = Inr v'" "v_status v' = RECOVERY_CLEAN"
    "v_header v' = v_header v" "v_records v' = v_records v @ [r]"
    "v_states v' = after_record r (v_states v)" "v_final_chain_sha256 v' = r_record_sha256 r"
proof -
  from v obtain h p sroot where len: "HEADER_BYTES \<le> length bs"
    and hd: "decode_header (take HEADER_BYTES bs) root = Inr h"
    and fold: "foldE (replay_chunk h) (replay_start h) (chunks RECORD_BYTES (drop HEADER_BYTES bs)) = Inr p"
    and ok: "replay_ok h p"
    and v': "v = recovered h (length bs) p (tail_status ((length bs - HEADER_BYTES) mod RECORD_BYTES)) sroot"
    by (rule recover_inv)
  have vs: "v_header v = h" "v_records v = p_records p" "v_states v = p_states p"
    "v_final_chain_sha256 v = p_final_chain p" by (simp_all add: v' recovered_def)
  have whole: "RECORD_BYTES dvd length (drop HEADER_BYTES bs)"
    using clean by (simp add: v' recovered_def tail_status_clean dvd_eq_mod_eq_0)
  obtain l where l: "apply_record h r (p_states p) (p_ledger p) = Inr (after_record r (p_states p), l)"
    using apply_record_totality [OF r [unfolded vs] ok room [unfolded vs] seq [unfolded vs] step [unfolded vs]]
    by blast
  have "decode_record h (int (length (p_records p)) + 1) (p_final_chain p) (record_layout r) = Inr r"
    using record_roundtrip [OF encode_record_total [OF r]] seq prev by (simp add: vs)
  then have chunk: "replay_chunk h p (record_layout r) = Inr \<lparr>p_offset = p_offset p + RECORD_BYTES,
      p_records = p_records p @ [r], p_states = after_record r (p_states p), p_ledger = l,
      p_final_chain = r_record_sha256 r\<rparr>" (is "_ = Inr ?q")
    using l room by (simp add: replay_chunk_def vs)
  have n: "length (record_layout r) = RECORD_BYTES" using record_layout_length [OF r] .
  have "chunks RECORD_BYTES (drop HEADER_BYTES (bs @ record_layout r))
      = chunks RECORD_BYTES (drop HEADER_BYTES bs) @ [record_layout r]"
    using chunks_append [OF _ whole n] len by simp
  then have fold': "foldE (replay_chunk h) (replay_start h)
      (chunks RECORD_BYTES (drop HEADER_BYTES (bs @ record_layout r))) = Inr ?q"
    using fold chunk by (simp add: foldE_append)
  have "length (bs @ record_layout r) - HEADER_BYTES = (length bs - HEADER_BYTES) + RECORD_BYTES"
    using len n by simp
  then have "(length (bs @ record_layout r) - HEADER_BYTES) mod RECORD_BYTES = 0"
    using whole by simp
  then obtain sr where "recover (bs @ record_layout r) root =
      Inr (recovered h (length (bs @ record_layout r)) ?q RECOVERY_CLEAN sr)"
    using recover_of_fold [OF _ _ fold', of root] len hd by (auto simp: tail_status_def)
  from that [OF this] show ?thesis by (simp add: recovered_def vs)
qed

end
