(* ===== verification/Outbox_Demo.thy ===== *)
theory Outbox_Demo
  imports Sha256_Eval Outbox_Append
begin

text \<open>
  A concrete journal for the witnesses: a header, a primary action that is enqueued, dispatched and
  acknowledged, and an action that compensates it. Every digest is computed from its transcript by
  simplification.
\<close>

section \<open>The values\<close>

definition demo_header_root :: bytes where
  "demo_header_root =
    [118, 175, 155, 220, 226, 105, 30, 163, 111, 111, 65, 195, 161, 222, 228, 171, 210, 77, 20,
     169, 47, 206, 240, 75, 213, 112, 30, 238, 63, 146, 103, 13]"

definition demo_action1 :: bytes where
  "demo_action1 =
    [116, 254, 64, 3, 92, 20, 20, 215, 8, 233, 229, 169, 159, 203, 143, 187, 52, 48, 201, 158,
     189, 191, 81, 112, 86, 80, 88, 24, 194, 14, 241, 137]"

definition demo_request1 :: bytes where
  "demo_request1 =
    [240, 109, 203, 31, 75, 131, 134, 252, 220, 250, 66, 149, 33, 29, 81, 185, 111, 129, 70,
     185, 185, 114, 37, 104, 98, 123, 114, 124, 47, 125, 193, 75]"

definition demo_action2 :: bytes where
  "demo_action2 =
    [58, 15, 9, 51, 175, 69, 80, 178, 249, 118, 173, 214, 242, 184, 178, 35, 10, 56, 161, 184,
     99, 23, 244, 219, 215, 9, 33, 127, 242, 165, 4, 19]"

definition demo_request2 :: bytes where
  "demo_request2 =
    [131, 90, 4, 240, 218, 11, 206, 206, 14, 128, 232, 80, 184, 130, 119, 70, 71, 199, 173, 119,
     150, 108, 209, 173, 94, 175, 104, 231, 144, 91, 57, 135]"

definition demo_dispatch :: bytes where
  "demo_dispatch =
    [194, 172, 208, 166, 191, 180, 81, 49, 226, 226, 151, 178, 46, 46, 147, 242, 0, 121, 21,
     183, 143, 4, 164, 209, 37, 168, 25, 162, 160, 226, 90, 151]"

definition demo_root1 :: bytes where
  "demo_root1 =
    [230, 55, 5, 180, 52, 156, 212, 234, 195, 171, 143, 99, 252, 252, 25, 60, 65, 130, 94, 28,
     104, 130, 15, 223, 144, 51, 155, 84, 27, 212, 7, 54]"

definition demo_root2 :: bytes where
  "demo_root2 =
    [94, 25, 71, 151, 132, 253, 171, 61, 74, 41, 66, 227, 143, 100, 136, 51, 79, 241, 231, 248,
     137, 108, 79, 216, 39, 102, 238, 109, 10, 79, 128, 214]"

definition demo_root3 :: bytes where
  "demo_root3 =
    [178, 126, 221, 91, 224, 189, 247, 228, 97, 25, 93, 79, 135, 34, 86, 25, 57, 119, 96, 48,
     35, 13, 131, 148, 130, 87, 46, 40, 149, 49, 169, 96]"

definition demo_root4 :: bytes where
  "demo_root4 =
    [161, 146, 31, 115, 249, 125, 79, 179, 46, 80, 141, 18, 46, 170, 98, 137, 233, 70, 194, 178,
     53, 139, 28, 69, 181, 31, 212, 253, 124, 87, 71, 237]"

definition demo_ledger_root :: bytes where
  "demo_ledger_root =
    [169, 34, 2, 153, 235, 78, 36, 93, 112, 166, 221, 23, 4, 247, 206, 2, 7, 190, 141, 75, 9,
     253, 230, 190, 199, 61, 234, 24, 58, 109, 226, 210]"

definition demo_state_root :: bytes where
  "demo_state_root =
    [180, 72, 241, 124, 100, 242, 36, 4, 5, 102, 108, 25, 255, 9, 154, 194, 155, 243, 219, 128,
     6, 223, 134, 104, 145, 27, 187, 249, 235, 138, 103, 113]"

definition demo_anchor_root :: bytes where
  "demo_anchor_root =
    [151, 115, 235, 148, 30, 187, 141, 102, 137, 126, 115, 131, 144, 220, 237, 247, 53, 116,
     157, 207, 150, 241, 142, 50, 44, 88, 36, 189, 238, 81, 66, 5]"

lemmas demo_roots = demo_header_root_def demo_action1_def demo_request1_def demo_action2_def demo_request2_def demo_dispatch_def demo_root1_def demo_root2_def demo_root3_def demo_root4_def demo_ledger_root_def demo_state_root_def demo_anchor_root_def

definition demo_header :: outbox_header where
  "demo_header =
    \<lparr>h_abi_version = HEADER_ABI, h_flags = 0, h_outbox_epoch = 1, h_outbox_id = 2, h_tenant_key = 3,
     h_maximum_actions = 4, h_maximum_records = 8, h_maximum_payload_bytes = 64, h_capability_bits = 3,
     h_adapter_descriptor_sha256 = replicate 32 0x11,
     h_payload_store_descriptor_sha256 = replicate 32 0x12,
     h_challenge_sha256 = replicate 32 0x13, h_header_sha256 = demo_header_root\<rparr>"

definition demo_identity1 :: action_identity where
  "demo_identity1 =
    \<lparr>i_abi_version = IDENTITY_ABI, i_purpose = 1, i_action_ordinal = 1, i_payload_bytes = 16,
     i_parent_action_sha256 = ZERO_DIGEST,
     i_descriptor_sha256 = replicate 32 32,
     i_arguments_sha256 = replicate 32 33,
     i_proposal_sha256 = replicate 32 34,
     i_policy_sha256 = replicate 32 35,
     i_authorization_sha256 = replicate 32 36,
     i_idempotency_key_sha256 = replicate 32 37,
     i_service_event_sha256 = replicate 32 38,
     i_payload_locator_sha256 = replicate 32 39,
     i_payload_sha256 = replicate 32 40,
     i_action_sha256 = demo_action1, i_stable_remote_request_sha256 = demo_request1\<rparr>"

definition demo_identity2 :: action_identity where
  "demo_identity2 =
    \<lparr>i_abi_version = IDENTITY_ABI, i_purpose = 2, i_action_ordinal = 2, i_payload_bytes = 16,
     i_parent_action_sha256 = demo_action1,
     i_descriptor_sha256 = replicate 32 64,
     i_arguments_sha256 = replicate 32 65,
     i_proposal_sha256 = replicate 32 66,
     i_policy_sha256 = replicate 32 67,
     i_authorization_sha256 = replicate 32 68,
     i_idempotency_key_sha256 = replicate 32 69,
     i_service_event_sha256 = replicate 32 70,
     i_payload_locator_sha256 = replicate 32 71,
     i_payload_sha256 = replicate 32 72,
     i_action_sha256 = demo_action2, i_stable_remote_request_sha256 = demo_request2\<rparr>"

definition demo_record1 :: outbox_record where
  "demo_record1 =
    \<lparr>r_abi_version = RECORD_ABI, r_sequence = 1, r_kind = 1, r_attempt_generation = 0,
     r_identity = demo_identity1, r_previous_action_event_sha256 = ZERO_DIGEST,
     r_previous_journal_sha256 = demo_header_root, r_dispatch_request_sha256 = ZERO_DIGEST,
     r_observation_sha256 = ZERO_DIGEST, r_result_sha256 = ZERO_DIGEST,
     r_record_sha256 = demo_root1\<rparr>"

definition demo_record2 :: outbox_record where
  "demo_record2 =
    \<lparr>r_abi_version = RECORD_ABI, r_sequence = 2, r_kind = 2, r_attempt_generation = 1,
     r_identity = demo_identity1, r_previous_action_event_sha256 = demo_root1,
     r_previous_journal_sha256 = demo_root1, r_dispatch_request_sha256 = demo_dispatch,
     r_observation_sha256 = ZERO_DIGEST, r_result_sha256 = ZERO_DIGEST,
     r_record_sha256 = demo_root2\<rparr>"

definition demo_record3 :: outbox_record where
  "demo_record3 =
    \<lparr>r_abi_version = RECORD_ABI, r_sequence = 3, r_kind = 4, r_attempt_generation = 1,
     r_identity = demo_identity1, r_previous_action_event_sha256 = demo_root2,
     r_previous_journal_sha256 = demo_root2, r_dispatch_request_sha256 = demo_dispatch,
     r_observation_sha256 = replicate 32 49, r_result_sha256 = replicate 32 50,
     r_record_sha256 = demo_root3\<rparr>"

definition demo_record4 :: outbox_record where
  "demo_record4 =
    \<lparr>r_abi_version = RECORD_ABI, r_sequence = 4, r_kind = 1, r_attempt_generation = 0,
     r_identity = demo_identity2, r_previous_action_event_sha256 = ZERO_DIGEST,
     r_previous_journal_sha256 = demo_root3, r_dispatch_request_sha256 = ZERO_DIGEST,
     r_observation_sha256 = ZERO_DIGEST, r_result_sha256 = ZERO_DIGEST,
     r_record_sha256 = demo_root4\<rparr>"

lemma demo_header_sel [simp]:
  "h_abi_version demo_header = HEADER_ABI"
  "h_flags demo_header = 0"
  "h_outbox_epoch demo_header = 1"
  "h_outbox_id demo_header = 2"
  "h_tenant_key demo_header = 3"
  "h_maximum_actions demo_header = 4"
  "h_maximum_records demo_header = 8"
  "h_maximum_payload_bytes demo_header = 64"
  "h_capability_bits demo_header = 3"
  "h_adapter_descriptor_sha256 demo_header = replicate 32 0x11"
  "h_payload_store_descriptor_sha256 demo_header = replicate 32 0x12"
  "h_challenge_sha256 demo_header = replicate 32 0x13"
  "h_header_sha256 demo_header = demo_header_root"
  by (simp_all add: demo_header_def)

lemma demo_identity1_sel [simp]:
  "i_abi_version demo_identity1 = IDENTITY_ABI"
  "i_purpose demo_identity1 = 1"
  "i_action_ordinal demo_identity1 = 1"
  "i_payload_bytes demo_identity1 = 16"
  "i_parent_action_sha256 demo_identity1 = ZERO_DIGEST"
  "i_descriptor_sha256 demo_identity1 = replicate 32 32"
  "i_arguments_sha256 demo_identity1 = replicate 32 33"
  "i_proposal_sha256 demo_identity1 = replicate 32 34"
  "i_policy_sha256 demo_identity1 = replicate 32 35"
  "i_authorization_sha256 demo_identity1 = replicate 32 36"
  "i_idempotency_key_sha256 demo_identity1 = replicate 32 37"
  "i_service_event_sha256 demo_identity1 = replicate 32 38"
  "i_payload_locator_sha256 demo_identity1 = replicate 32 39"
  "i_payload_sha256 demo_identity1 = replicate 32 40"
  "i_action_sha256 demo_identity1 = demo_action1"
  "i_stable_remote_request_sha256 demo_identity1 = demo_request1"
  by (simp_all add: demo_identity1_def)

lemma demo_identity2_sel [simp]:
  "i_abi_version demo_identity2 = IDENTITY_ABI"
  "i_purpose demo_identity2 = 2"
  "i_action_ordinal demo_identity2 = 2"
  "i_payload_bytes demo_identity2 = 16"
  "i_parent_action_sha256 demo_identity2 = demo_action1"
  "i_descriptor_sha256 demo_identity2 = replicate 32 64"
  "i_arguments_sha256 demo_identity2 = replicate 32 65"
  "i_proposal_sha256 demo_identity2 = replicate 32 66"
  "i_policy_sha256 demo_identity2 = replicate 32 67"
  "i_authorization_sha256 demo_identity2 = replicate 32 68"
  "i_idempotency_key_sha256 demo_identity2 = replicate 32 69"
  "i_service_event_sha256 demo_identity2 = replicate 32 70"
  "i_payload_locator_sha256 demo_identity2 = replicate 32 71"
  "i_payload_sha256 demo_identity2 = replicate 32 72"
  "i_action_sha256 demo_identity2 = demo_action2"
  "i_stable_remote_request_sha256 demo_identity2 = demo_request2"
  by (simp_all add: demo_identity2_def)

lemma demo_record1_sel [simp]:
  "r_abi_version demo_record1 = RECORD_ABI"
  "r_sequence demo_record1 = 1"
  "r_kind demo_record1 = 1"
  "r_attempt_generation demo_record1 = 0"
  "r_identity demo_record1 = demo_identity1"
  "r_previous_action_event_sha256 demo_record1 = ZERO_DIGEST"
  "r_previous_journal_sha256 demo_record1 = demo_header_root"
  "r_dispatch_request_sha256 demo_record1 = ZERO_DIGEST"
  "r_observation_sha256 demo_record1 = ZERO_DIGEST"
  "r_result_sha256 demo_record1 = ZERO_DIGEST"
  "r_record_sha256 demo_record1 = demo_root1"
  by (simp_all add: demo_record1_def)

lemma demo_record2_sel [simp]:
  "r_abi_version demo_record2 = RECORD_ABI"
  "r_sequence demo_record2 = 2"
  "r_kind demo_record2 = 2"
  "r_attempt_generation demo_record2 = 1"
  "r_identity demo_record2 = demo_identity1"
  "r_previous_action_event_sha256 demo_record2 = demo_root1"
  "r_previous_journal_sha256 demo_record2 = demo_root1"
  "r_dispatch_request_sha256 demo_record2 = demo_dispatch"
  "r_observation_sha256 demo_record2 = ZERO_DIGEST"
  "r_result_sha256 demo_record2 = ZERO_DIGEST"
  "r_record_sha256 demo_record2 = demo_root2"
  by (simp_all add: demo_record2_def)

lemma demo_record3_sel [simp]:
  "r_abi_version demo_record3 = RECORD_ABI"
  "r_sequence demo_record3 = 3"
  "r_kind demo_record3 = 4"
  "r_attempt_generation demo_record3 = 1"
  "r_identity demo_record3 = demo_identity1"
  "r_previous_action_event_sha256 demo_record3 = demo_root2"
  "r_previous_journal_sha256 demo_record3 = demo_root2"
  "r_dispatch_request_sha256 demo_record3 = demo_dispatch"
  "r_observation_sha256 demo_record3 = replicate 32 49"
  "r_result_sha256 demo_record3 = replicate 32 50"
  "r_record_sha256 demo_record3 = demo_root3"
  by (simp_all add: demo_record3_def)

lemma demo_record4_sel [simp]:
  "r_abi_version demo_record4 = RECORD_ABI"
  "r_sequence demo_record4 = 4"
  "r_kind demo_record4 = 1"
  "r_attempt_generation demo_record4 = 0"
  "r_identity demo_record4 = demo_identity2"
  "r_previous_action_event_sha256 demo_record4 = ZERO_DIGEST"
  "r_previous_journal_sha256 demo_record4 = demo_root3"
  "r_dispatch_request_sha256 demo_record4 = ZERO_DIGEST"
  "r_observation_sha256 demo_record4 = ZERO_DIGEST"
  "r_result_sha256 demo_record4 = ZERO_DIGEST"
  "r_record_sha256 demo_record4 = demo_root4"
  by (simp_all add: demo_record4_def)

section \<open>Their digests\<close>

lemma demo_lengths [simp]:
  "length demo_header_root = 32" "length demo_action1 = 32" "length demo_request1 = 32"
  "length demo_action2 = 32" "length demo_request2 = 32" "length demo_dispatch = 32"
  "length demo_root1 = 32" "length demo_root2 = 32" "length demo_root3 = 32" "length demo_root4 = 32"
  "length demo_ledger_root = 32" "length demo_state_root = 32" "length demo_anchor_root = 32"
  by (simp_all add: demo_roots)

lemma zeros32: "ZERO_DIGEST = [0, 0, 0, 0, 0, 0, 0, 0, 0, 0, 0, 0, 0, 0, 0, 0,
    0, 0, 0, 0, 0, 0, 0, 0, 0, 0, 0, 0, 0, 0, 0, 0]"
  by (simp add: zeros_def numeral_eq_Suc)

lemma replicate32: "replicate 32 x = [x, x, x, x, x, x, x, x, x, x, x, x, x, x, x, x,
    x, x, x, x, x, x, x, x, x, x, x, x, x, x, x, x]"
  by (simp add: numeral_eq_Suc)

lemma demo_nonzero [simp]:
  "demo_header_root \<noteq> ZERO_DIGEST" "demo_action1 \<noteq> ZERO_DIGEST" "demo_request1 \<noteq> ZERO_DIGEST"
  "demo_action2 \<noteq> ZERO_DIGEST" "demo_request2 \<noteq> ZERO_DIGEST" "demo_dispatch \<noteq> ZERO_DIGEST"
  "demo_root1 \<noteq> ZERO_DIGEST" "demo_root2 \<noteq> ZERO_DIGEST" "demo_root3 \<noteq> ZERO_DIGEST"
  "demo_root4 \<noteq> ZERO_DIGEST" "demo_ledger_root \<noteq> ZERO_DIGEST" "demo_state_root \<noteq> ZERO_DIGEST"
  "demo_anchor_root \<noteq> ZERO_DIGEST"
  by (simp_all add: demo_roots zeros32)

lemma replicate_nonzero [simp]: "replicate 32 x = ZERO_DIGEST \<longleftrightarrow> x = 0"
  by (simp add: zeros_def)

lemma le_u64E_ok: "is_u64 v \<Longrightarrow> le_u64E v = Inr (u64_bytes v)"
  by (simp add: result_simps)

lemma le_u8E_ok: "0 \<le> v \<Longrightarrow> v \<le> 255 \<Longrightarrow> le_u8E v = Inr [word_of_int v]"
  by (simp add: result_simps)

lemmas checked_simps = le_u64E_ok le_u8E_ok u64E_def enumE_def digestE_def digest0E_def is_u64_def

text \<open>The last step of each computation: the digest of a transcript of known bytes.\<close>

lemmas transcript_simps = sha_parts_def ascii_def sha_compute u64_bytes_def le_bytes_numeral
  replicate32 zeros32 demo_roots

lemma demo_header_hash: "header_sha256 demo_header = Inr demo_header_root"
  by (simp add: header_sha256_def header_words_def checked_simps)
    (simp add: HEADER_DOMAIN_def transcript_simps)

lemma demo_header_ok: "header_ok demo_header"
  by (simp add: header_ok_def validate_header_def header_words_def header_digests_def
      checked_simps demo_header_hash)

lemma validate_demo_header [simp]: "validate_header demo_header = Inr demo_header"
  using demo_header_ok by (simp add: header_ok_def)

lemma demo_identity1_action: "action_identity_sha256 demo_header demo_identity1 = Inr demo_action1"
  by (simp add: action_identity_sha256_def identity_roots_def checked_simps)
    (simp add: ACTION_DOMAIN_def transcript_simps)

lemma demo_identity1_request: "stable_remote_request_sha256 demo_header demo_identity1 = Inr demo_request1"
  by (simp add: stable_remote_request_sha256_def checked_simps)
    (simp add: REMOTE_REQUEST_DOMAIN_def transcript_simps)

lemma demo_identity2_action: "action_identity_sha256 demo_header demo_identity2 = Inr demo_action2"
  by (simp add: action_identity_sha256_def identity_roots_def checked_simps)
    (simp add: ACTION_DOMAIN_def transcript_simps)

lemma demo_identity2_request: "stable_remote_request_sha256 demo_header demo_identity2 = Inr demo_request2"
  by (simp add: stable_remote_request_sha256_def checked_simps)
    (simp add: REMOTE_REQUEST_DOMAIN_def transcript_simps)

lemma demo_identity_digests [simp]:
  "check_identity_digests demo_identity1 = Inr (identity_digests demo_identity1)"
  "check_identity_digests demo_identity2 = Inr (identity_digests demo_identity2)"
  by (simp_all add: check_identity_digests_def identity_digests_def identity_roots_def checked_simps)

lemma validate_demo_identity [simp]:
  "validate_action_identity demo_header demo_identity1 = Inr demo_identity1"
  "validate_action_identity demo_header demo_identity2 = Inr demo_identity2"
  by (simp_all add: validate_action_identity_def checked_simps demo_identity1_action
      demo_identity1_request demo_identity2_action demo_identity2_request)

lemma demo_dispatch_request: "dispatch_request_sha256 demo_header demo_identity1 1 = Inr demo_dispatch"
  by (simp add: dispatch_request_sha256_def checked_simps)
    (simp add: DISPATCH_REQUEST_DOMAIN_def transcript_simps)

lemma demo_identity_parts [simp]:
  "hash_identity_parts demo_identity1 = Inr ([u64_bytes IDENTITY_ABI, [1], u64_bytes 1, u64_bytes 16]
     @ identity_digests demo_identity1)"
  "hash_identity_parts demo_identity2 = Inr ([u64_bytes IDENTITY_ABI, [2], u64_bytes 2, u64_bytes 16]
     @ identity_digests demo_identity2)"
  by (simp_all add: hash_identity_parts_def checked_simps)

lemmas record_transcript = record_sha256_def checked_simps identity_digests_def identity_roots_def

lemma demo_record1_hash: "record_sha256 demo_header demo_record1 = Inr demo_root1"
  by (simp add: record_transcript) (simp add: RECORD_DOMAIN_def transcript_simps)

lemma demo_record2_hash: "record_sha256 demo_header demo_record2 = Inr demo_root2"
  by (simp add: record_transcript) (simp add: RECORD_DOMAIN_def transcript_simps)

lemma demo_record3_hash: "record_sha256 demo_header demo_record3 = Inr demo_root3"
  by (simp add: record_transcript) (simp add: RECORD_DOMAIN_def transcript_simps)

lemma demo_record4_hash: "record_sha256 demo_header demo_record4 = Inr demo_root4"
  by (simp add: record_transcript) (simp add: RECORD_DOMAIN_def transcript_simps)

lemma demo_record_ok [simp]:
  "record_ok demo_header demo_record1" "record_ok demo_header demo_record2"
  "record_ok demo_header demo_record3" "record_ok demo_header demo_record4"
  by (simp_all add: record_ok_def validate_record_def checked_simps check_record_digests_def
      demo_record1_hash demo_record2_hash demo_record3_hash demo_record4_hash kind_fields_valid_def
      EVENT_KINDS_def)

section \<open>The journals\<close>

definition demo_journal0 :: bytes where
  "demo_journal0 = header_layout demo_header"
definition demo_journal1 :: bytes where
  "demo_journal1 = demo_journal0 @ record_layout demo_record1"
definition demo_journal2 :: bytes where
  "demo_journal2 = demo_journal1 @ record_layout demo_record2"
definition demo_journal3 :: bytes where
  "demo_journal3 = demo_journal2 @ record_layout demo_record3"
definition demo_journal4 :: bytes where
  "demo_journal4 = demo_journal3 @ record_layout demo_record4"

definition demo_states1 :: "action_state list" where
  "demo_states1 = [(make_state demo_identity1)\<lparr>s_last_event_sha256 := demo_root1\<rparr>]"
definition demo_states2 :: "action_state list" where
  "demo_states2 = [(dispatched demo_record2 (demo_states1 ! 0))\<lparr>s_last_event_sha256 := demo_root2\<rparr>]"
definition demo_states3 :: "action_state list" where
  "demo_states3 = [(observed demo_record3 (demo_states2 ! 0))\<lparr>s_last_event_sha256 := demo_root3\<rparr>]"
definition demo_states4 :: "action_state list" where
  "demo_states4 = demo_states3 @ [(make_state demo_identity2)\<lparr>s_last_event_sha256 := demo_root4\<rparr>]"

definition demo_recovers :: "bytes \<Rightarrow> outbox_record list \<Rightarrow> action_state list \<Rightarrow> bytes \<Rightarrow> bool" where
  "demo_recovers bs rs ss chain \<longleftrightarrow> (\<exists>v. recover bs demo_header_root = Inr v
     \<and> v_status v = RECOVERY_CLEAN \<and> v_header v = demo_header \<and> v_records v = rs \<and> v_states v = ss
     \<and> v_final_chain_sha256 v = chain)"

lemma demo_recovers0: "demo_recovers demo_journal0 [] [] demo_header_root"
proof -
  have len: "length demo_journal0 = HEADER_BYTES"
    using length_header_layout [of demo_header] by (simp add: demo_journal0_def header_digests_def)
  have enc: "encode_header demo_header = Inr demo_journal0"
    using encode_header_layout [of demo_header] by (simp add: demo_journal0_def)
  have "decode_header demo_journal0 demo_header_root = Inr demo_header"
    using header_roundtrip [OF enc] by simp
  then show ?thesis
    using recover_of_fold [of demo_journal0 demo_header_root demo_header "replay_start demo_header"] len
    by (auto simp: demo_recovers_def chunks_short recovered_def tail_status_def replay_start_def)
qed

lemma demo_append:
  assumes "demo_recovers bs rs ss chain" "record_ok demo_header r" "length rs < 8"
    "r_sequence r = int (length rs) + 1" "r_previous_journal_sha256 r = chain"
    "record_applies demo_header r ss"
  shows "demo_recovers (bs @ record_layout r) (rs @ [r]) (after_record r ss) (r_record_sha256 r)"
proof -
  from assms(1) obtain v where v: "recover bs demo_header_root = Inr v" "v_status v = RECOVERY_CLEAN"
      "v_header v = demo_header" "v_records v = rs" "v_states v = ss" "v_final_chain_sha256 v = chain"
    by (auto simp: demo_recovers_def)
  from v assms obtain v' where "recover (bs @ record_layout r) demo_header_root = Inr v'"
      "v_status v' = RECOVERY_CLEAN" "v_header v' = demo_header" "v_records v' = rs @ [r]"
      "v_states v' = after_record r ss" "v_final_chain_sha256 v' = r_record_sha256 r"
    by (elim recover_append [of bs demo_header_root v r]) auto
  then show ?thesis unfolding demo_recovers_def by blast
qed

lemma demo_recovers1: "demo_recovers demo_journal1 [demo_record1] demo_states1 demo_root1"
  using demo_append [OF demo_recovers0, of demo_record1]
  by (simp add: demo_journal1_def demo_states1_def record_applies_def enqueue_admitted_def after_record_def)

lemma demo_recovers2: "demo_recovers demo_journal2 [demo_record1, demo_record2] demo_states2 demo_root2"
  using demo_append [OF demo_recovers1, of demo_record2]
  by (simp add: demo_journal2_def demo_states2_def demo_states1_def record_applies_def after_record_def
      demo_dispatch_request) (simp add: make_state_def)

lemma demo_recovers3:
  "demo_recovers demo_journal3 [demo_record1, demo_record2, demo_record3] demo_states3 demo_root3"
  using demo_append [OF demo_recovers2, of demo_record3]
  by (simp add: demo_journal3_def demo_states3_def demo_states2_def demo_states1_def record_applies_def
      after_record_def) (simp add: make_state_def dispatched_def)

lemma demo_distinct: "demo_action1 \<noteq> demo_action2" "demo_request1 \<noteq> demo_request2"
  by (simp_all add: demo_roots)

lemma demo_recovers4:
  "demo_recovers demo_journal4 [demo_record1, demo_record2, demo_record3, demo_record4] demo_states4 demo_root4"
  using demo_append [OF demo_recovers3, of demo_record4]
  by (simp add: demo_journal4_def demo_states4_def demo_states3_def demo_states2_def demo_states1_def
      record_applies_def enqueue_admitted_def enqueue_conflict_def after_record_def demo_distinct)
    (simp add: make_state_def dispatched_def observed_def observed_phase_def)

section \<open>The closed journal\<close>

definition demo_ledger3 :: outbox_ledger where
  "demo_ledger3 =
    \<lparr>l_committed_records = 3, l_actions_enqueued = 1, l_primary_actions = 1,
     l_compensation_actions = 0, l_dispatch_intents = 1, l_safe_retry_dispatches = 0,
     l_ambiguity_observations = 0, l_acknowledged_successes = 1, l_acknowledged_failures = 0,
     l_reconciled_not_applied = 0, l_reconciled_successes = 0, l_reconciled_failures = 0,
     l_ready_actions = 0, l_uncertain_actions = 0, l_succeeded_actions = 1, l_failed_actions = 0\<rparr>"

lemma demo_states3_eq:
  "demo_states3 = [\<lparr>s_occupied = True, s_identity = demo_identity1, s_phase = PHASE_SUCCEEDED,
     s_attempt_generation = 1, s_dispatch_request_sha256 = demo_dispatch,
     s_observation_sha256 = replicate 32 49, s_result_sha256 = replicate 32 50,
     s_last_event_sha256 = demo_root3\<rparr>]"
  by (simp add: demo_states3_def demo_states2_def demo_states1_def make_state_def)
    (simp add: dispatched_def observed_def observed_phase_def)

lemma demo_ledger3_hash: "ledger_sha256 demo_ledger3 = Inr demo_ledger_root"
  by (simp add: ledger_sha256_def hash_ledger_parts_def validate_ledger_def ledger_words_def
      demo_ledger3_def checked_simps)
    (simp add: LEDGER_DOMAIN_def transcript_simps)

lemma demo_state3_hash: "state_sha256 demo_header demo_states3 demo_ledger3 = Inr demo_state_root"
  by (simp add: state_sha256_def hash_state_parts_def hash_ledger_parts_def validate_ledger_def
      ledger_words_def demo_ledger3_def checked_simps validate_state_def PHASES_def state_digests_def
      demo_states3_eq identity_digests_def identity_roots_def)
    (simp add: STATE_DOMAIN_def transcript_simps)

lemma demo_recovery3:
  assumes "recover demo_journal3 demo_header_root = Inr v"
  shows "v_ledger v = demo_ledger3" "v_state_sha256 v = demo_state_root" "v_states v = demo_states3"
    "v_discarded_tail_bytes v = 0" "v_committed_bytes v = 2576" "v_status v = RECOVERY_CLEAN"
    "v_header v = demo_header" "v_final_chain_sha256 v = demo_root3"
    "v_records v = [demo_record1, demo_record2, demo_record3]"
proof -
  have f: "v_status v = RECOVERY_CLEAN" "v_header v = demo_header" "v_final_chain_sha256 v = demo_root3"
    "v_records v = [demo_record1, demo_record2, demo_record3]" "v_states v = demo_states3"
    using demo_recovers3 assms by (auto simp: demo_recovers_def)
  from assms obtain h p sroot where ok: "replay_ok h p"
    and v: "v = recovered h (length demo_journal3) p
      (tail_status ((length demo_journal3 - HEADER_BYTES) mod RECORD_BYTES)) sroot"
    and sr: "state_sha256 h (p_states p) (closed_ledger (p_states p) (p_ledger p)) = Inr sroot"
    by (rule recover_inv)
  have p: "h = demo_header" "p_states p = demo_states3" "p_records p = [demo_record1, demo_record2, demo_record3]"
    using f by (simp_all add: v recovered_def)
  have c: "ledger_counts [demo_record1, demo_record2, demo_record3] (closed_ledger demo_states3 (p_ledger p))"
    using ok by (simp add: replay_ok_def journal_ok_def p closed_ledger_counts)
  have l: "closed_ledger demo_states3 (p_ledger p) = demo_ledger3"
    by (rule outbox_ledger.equality)
      (use c in \<open>simp_all add: ledger_counts_def OBSERVATION_KINDS_def observed_count_def demo_ledger3_def\<close>,
       simp_all add: closed_ledger_def demo_states3_eq)
  have len: "length demo_journal3 = 2576"
    using record_layout_length [OF demo_record_ok(1)] record_layout_length [OF demo_record_ok(2)]
      record_layout_length [OF demo_record_ok(3)] length_header_layout [of demo_header]
    by (simp add: demo_journal3_def demo_journal2_def demo_journal1_def demo_journal0_def header_digests_def)
  have o: "p_offset p = 2576" using ok by (simp add: replay_ok_def p)
  show "v_ledger v = demo_ledger3" "v_state_sha256 v = demo_state_root"
    "v_discarded_tail_bytes v = 0" "v_committed_bytes v = 2576"
    using l sr demo_state3_hash o len by (simp_all add: v recovered_def p)
qed (use demo_recovers3 assms in \<open>auto simp: demo_recovers_def\<close>)

definition demo_anchor :: closed_anchor where
  "demo_anchor = \<lparr>a_abi_version = CLOSED_ANCHOR_ABI, a_header_sha256 = demo_header_root,
     a_committed_bytes = 2576, a_committed_records = 3, a_final_chain_sha256 = demo_root3,
     a_state_sha256 = demo_state_root, a_ledger_sha256 = demo_ledger_root,
     a_anchor_sha256 = demo_anchor_root\<rparr>"

lemma demo_anchor_hash:
  "closed_anchor_sha256 (demo_anchor\<lparr>a_anchor_sha256 := x\<rparr>) = Inr demo_anchor_root"
  by (simp add: closed_anchor_sha256_def demo_anchor_def checked_simps)
    (simp add: CLOSED_ANCHOR_DOMAIN_def transcript_simps)

lemma demo_closes:
  assumes "recover demo_journal3 demo_header_root = Inr v"
  shows "make_closed_anchor v = Inr demo_anchor"
proof -
  let ?a = "\<lparr>a_abi_version = CLOSED_ANCHOR_ABI, a_header_sha256 = demo_header_root,
     a_committed_bytes = 2576, a_committed_records = 3, a_final_chain_sha256 = demo_root3,
     a_state_sha256 = demo_state_root, a_ledger_sha256 = demo_ledger_root,
     a_anchor_sha256 = ZERO_DIGEST\<rparr>"
  have e: "?a = demo_anchor\<lparr>a_anchor_sha256 := ZERO_DIGEST\<rparr>" by (simp add: demo_anchor_def)
  note h = demo_anchor_hash [of ZERO_DIGEST, folded e]
  have "demo_anchor\<lparr>a_anchor_sha256 := demo_anchor_root\<rparr> = demo_anchor" by (simp add: demo_anchor_def)
  then have "closed_anchor_sha256 demo_anchor = Inr demo_anchor_root"
    using demo_anchor_hash [of demo_anchor_root] by simp
  then have "validate_closed_anchor demo_anchor = Inr demo_anchor"
    by (simp add: validate_closed_anchor_def) (simp add: demo_anchor_def checked_simps)
  moreover have "validate_ledger demo_ledger3 = Inr demo_ledger3"
    by (simp add: validate_ledger_def demo_ledger3_def ledger_words_def checked_simps)
  moreover have "l_ready_actions demo_ledger3 = 0" "l_uncertain_actions demo_ledger3 = 0"
    "l_committed_records demo_ledger3 = 3"
    by (simp_all add: demo_ledger3_def)
  ultimately show ?thesis
    using h by (simp add: make_closed_anchor_def demo_recovery3 [OF assms] demo_ledger3_hash Let_def
        flip: demo_anchor_def)
qed

end
