(* ===== verification/Outbox_Properties.thy ===== *)
theory Outbox_Properties
  imports Outbox_Demo
begin

text \<open>
  The properties of the ActionOutbox: of its two codecs, of what \<open>recover\<close> returns for the bytes
  of a journal, of a journal cut short by a crash, of a journal a writer extends, and of the closed
  anchor. The witnesses are the journals of \<open>Outbox_Demo\<close>.
\<close>

section \<open>Codecs\<close>

text \<open>
  C5. \<open>decode_record\<close> accepts exactly the encodings of valid records: a byte string decodes to a
  record, at an expected sequence and previous journal root, if and only if it is what
  \<open>encode_record\<close> produces for that record and the record carries that sequence and that root.
\<close>

theorem record_wire_exact:
  "decode_record h seq prev bs = Inr r \<longleftrightarrow>
     encode_record h r = Inr bs \<and> r_sequence r = seq \<and> r_previous_journal_sha256 r = prev"
  using record_codec.enc_dec_iff [of r seq prev h bs] by (auto split: if_splits)

text \<open>
  \<open>decode_header\<close> accepts exactly the encodings of valid headers with the expected root.
\<close>

theorem header_wire_exact:
  "decode_header bs root = Inr h \<longleftrightarrow> encode_header h = Inr bs \<and> h_header_sha256 h = root"
  using header_codec.enc_dec_iff [of h root bs] by (auto split: if_splits)

section \<open>What a recovery returns\<close>

text \<open>
  C1. Refinement: the events a recovered journal holds for an action are, in order, a path of the
  abstract lifecycle from its absence to the phase the recovered state has, attempts included.
\<close>

theorem recover_refines_lifecycle:
  assumes "recover bs root = Inr v"
  shows "life_path (events_of a (v_records v)) (life_in (v_states v) a)"
  using assms by (elim recover_journal) (simp add: replay_ok_def journal_ok_def)

theorem recover_refines_lifecycle_witness:
  "\<exists>v. recover demo_journal3 demo_header_root = Inr v
     \<and> life_path [EVENT_ENQUEUED, EVENT_DISPATCH_INTENT, EVENT_ACKNOWLEDGED_SUCCESS] (Succeeded 1)"
proof -
  obtain v where v: "recover demo_journal3 demo_header_root = Inr v"
      "v_records v = [demo_record1, demo_record2, demo_record3]" "v_states v = demo_states3"
    using demo_recovers3 by (auto simp: demo_recovers_def)
  have "life_in demo_states3 demo_action1 = Succeeded 1"
    by (simp add: demo_states3_def demo_states2_def demo_states1_def life_in_def)
      (simp add: life_of_def observed_def observed_phase_def dispatched_def)
  with v recover_refines_lifecycle [OF v(1), of demo_action1] show ?thesis
    by (simp add: events_of_def records_of_def)
qed

text \<open>
  C4. No blind retry: in a recovered journal every dispatch intent of an action but its last was
  reconciled as not applied before the next one, and the last one too when the action is ready.
\<close>

theorem recover_no_blind_retry:
  assumes "recover bs root = Inr v"
  shows "tally (\<lambda>r. r_kind r = EVENT_DISPATCH_INTENT) (records_of a (v_records v)) =
    tally (\<lambda>r. r_kind r = EVENT_RECONCILED_NOT_APPLIED) (records_of a (v_records v))
      + (if in_doubt (life_in (v_states v) a) \<or> settled (life_in (v_states v) a) then 1 else 0)"
proof -
  have t: "tally P (events_of a rs) = tally (\<lambda>r. P (r_kind r)) (records_of a rs)" for P rs
    by (simp add: events_of_def tally_def filter_map o_def)
  from assms obtain p where "life_path (events_of a (v_records v)) (life_in (v_states v) a)"
    by (elim recover_journal) (auto simp: replay_ok_def journal_ok_def)
  from life_path_no_blind_retry [OF this] show ?thesis by (simp add: t)
qed

theorem recover_no_blind_retry_witness:
  "\<exists>v. recover demo_journal2 demo_header_root = Inr v
     \<and> in_doubt (life_in (v_states v) demo_action1)
     \<and> tally (\<lambda>r. r_kind r = EVENT_DISPATCH_INTENT) (records_of demo_action1 (v_records v)) = 1"
proof -
  obtain v where v: "recover demo_journal2 demo_header_root = Inr v"
      "v_records v = [demo_record1, demo_record2]" "v_states v = demo_states2"
    using demo_recovers2 by (auto simp: demo_recovers_def)
  have "in_doubt (life_in demo_states2 demo_action1)"
    by (simp add: demo_states2_def demo_states1_def life_in_def)
      (simp add: life_of_def dispatched_def)
  with v recover_no_blind_retry [OF v(1), of demo_action1] show ?thesis
    by (simp add: records_of_def)
qed

text \<open>
  C6. A settled action stays settled: after a success or a failure of an action is recorded, no
  later record of a recovered journal names that action.
\<close>

theorem recover_terminal_is_final:
  assumes "recover bs root = Inr v" "v_records v = rs @ r # rs'" "terminal_event (r_kind r)"
  shows "\<forall>r' \<in> set rs'. i_action_sha256 (r_identity r') \<noteq> i_action_sha256 (r_identity r)"
proof -
  let ?a = "i_action_sha256 (r_identity r)"
  from assms(1) have "life_path (events_of ?a (v_records v)) (life_in (v_states v) ?a)"
    by (elim recover_journal) (simp add: replay_ok_def journal_ok_def)
  then have "life_path (events_of ?a rs @ r_kind r # events_of ?a rs') (life_in (v_states v) ?a)"
    by (simp add: assms(2) events_of_def records_of_def)
  from life_path_terminal_last [OF this assms(3)] show ?thesis
    by (simp add: events_of_def records_of_def filter_empty_conv)
qed

theorem recover_terminal_is_final_witness:
  "\<exists>v. recover demo_journal4 demo_header_root = Inr v
     \<and> v_records v = [demo_record1, demo_record2, demo_record3, demo_record4]
     \<and> demo_action2 \<noteq> demo_action1"
proof -
  obtain v where v: "recover demo_journal4 demo_header_root = Inr v"
      "v_records v = [demo_record1, demo_record2] @ demo_record3 # [demo_record4]"
    using demo_recovers4 by (auto simp: demo_recovers_def)
  from recover_terminal_is_final [OF v] v show ?thesis by (simp add: terminal_event_def)
qed

text \<open>
  C7. The ledger a recovery returns counts the journal's records by kind, accounts for every state
  and every dispatch intent, and its phase counts are those of the states.
\<close>

theorem recover_ledger_accounts:
  assumes "recover bs root = Inr v"
  shows "ledger_counts (v_records v) (v_ledger v) \<and> ledger_closed (v_states v) (v_ledger v)
    \<and> l_ready_actions (v_ledger v) = tally (\<lambda>s. s_phase s = PHASE_READY) (v_states v)
    \<and> l_uncertain_actions (v_ledger v) = tally (\<lambda>s. s_phase s = PHASE_UNCERTAIN) (v_states v)
    \<and> l_succeeded_actions (v_ledger v) = l_acknowledged_successes (v_ledger v) + l_reconciled_successes (v_ledger v)
    \<and> l_failed_actions (v_ledger v) = l_acknowledged_failures (v_ledger v) + l_reconciled_failures (v_ledger v)
    \<and> l_actions_enqueued (v_ledger v) = l_ready_actions (v_ledger v) + l_uncertain_actions (v_ledger v)
        + l_succeeded_actions (v_ledger v) + l_failed_actions (v_ledger v)
    \<and> l_dispatch_intents (v_ledger v) = l_reconciled_not_applied (v_ledger v) + l_uncertain_actions (v_ledger v)
        + l_succeeded_actions (v_ledger v) + l_failed_actions (v_ledger v)"
proof -
  from assms obtain p where p: "replay_ok (v_header v) p" "v_records v = p_records p"
    "v_states v = p_states p" "v_ledger v = closed_ledger (p_states p) (p_ledger p)"
    by (rule recover_journal)
  then have c: "ledger_counts (v_records v) (v_ledger v)" "ledger_closed (v_states v) (v_ledger v)"
    and ok: "\<forall>s \<in> set (v_states v). state_ok (v_header v) s"
    by (simp_all add: replay_ok_def journal_ok_def closed_ledger_counts closed_ledger_closed)
  have "\<forall>s \<in> set (v_states v). s_phase s \<in> {1, 2, 3, 4}" using ok state_ok_facts(4) by blast
  from tally_phases [OF this] have t: "tally (\<lambda>s. s_phase s = 1) (v_states v)
    + tally (\<lambda>s. s_phase s = 2) (v_states v) + tally (\<lambda>s. s_phase s = 3) (v_states v)
    + tally (\<lambda>s. s_phase s = 4) (v_states v) = int (length (v_states v))" .
  have f: "l_ready_actions (v_ledger v) = tally (\<lambda>s. s_phase s = 1) (v_states v)"
    "l_uncertain_actions (v_ledger v) = tally (\<lambda>s. s_phase s = 2) (v_states v)"
    "l_succeeded_actions (v_ledger v) = tally (\<lambda>s. s_phase s = 3) (v_states v)"
    "l_failed_actions (v_ledger v) = tally (\<lambda>s. s_phase s = 4) (v_states v)"
    by (simp_all add: p closed_ledger_def)
  show ?thesis using c t f tally_complement [of "\<lambda>s. s_phase s = 1" "v_states v"]
    by (simp add: ledger_closed_def)
qed

theorem recover_ledger_accounts_witness:
  "\<exists>v. recover demo_journal3 demo_header_root = Inr v
     \<and> l_committed_records (v_ledger v) = 3 \<and> l_dispatch_intents (v_ledger v) = 1
     \<and> l_succeeded_actions (v_ledger v) = 1 \<and> l_uncertain_actions (v_ledger v) = 0"
proof -
  obtain v where v: "recover demo_journal3 demo_header_root = Inr v"
      "v_records v = [demo_record1, demo_record2, demo_record3]" "v_states v = demo_states3"
    using demo_recovers3 by (auto simp: demo_recovers_def)
  have "observed_count 4 (v_ledger v) = 1" "observed_count 7 (v_ledger v) = 0"
    "observed_count 6 (v_ledger v) = 0"
    using recover_ledger_accounts [OF v(1)] v(2) by (simp_all add: ledger_counts_def OBSERVATION_KINDS_def)
  then show ?thesis
    using recover_ledger_accounts [OF v(1)] v
    by (simp add: ledger_counts_def observed_count_def)
      (simp add: demo_states3_def demo_states2_def demo_states1_def observed_def observed_phase_def)
qed

text \<open>
  C8. A recovered journal never holds one action twice: action roots, idempotency keys and stable
  remote requests are pairwise distinct over its states.
\<close>

theorem recover_unique_actions:
  assumes "recover bs root = Inr v"
  shows "states_unique (v_states v)"
  using assms by (elim recover_journal) (simp add: replay_ok_def journal_ok_def)

theorem recover_unique_actions_witness:
  "\<exists>v. recover demo_journal4 demo_header_root = Inr v \<and> length (v_states v) = 2
     \<and> states_unique (v_states v)"
proof -
  obtain v where v: "recover demo_journal4 demo_header_root = Inr v" "v_states v = demo_states4"
    using demo_recovers4 by (auto simp: demo_recovers_def)
  from recover_unique_actions [OF v(1)] v show ?thesis
    by (simp add: demo_states4_def demo_states3_def)
qed

text \<open>
  C9. Compensation is safe: each compensating action of a recovered journal has a recorded parent,
  that parent is a primary action that succeeded, and no two compensations have the same parent.
\<close>

theorem recover_compensation_safe:
  assumes "recover bs root = Inr v"
  shows "compensation_safe (v_states v)"
  using assms by (elim recover_journal) (simp add: replay_ok_def journal_ok_def)

theorem recover_compensation_safe_witness:
  "\<exists>v s. recover demo_journal4 demo_header_root = Inr v \<and> s \<in> set (v_states v)
     \<and> is_compensation s \<and> compensation_safe (v_states v)"
proof -
  obtain v where v: "recover demo_journal4 demo_header_root = Inr v" "v_states v = demo_states4"
    using demo_recovers4 by (auto simp: demo_recovers_def)
  have "demo_states4 ! 1 \<in> set demo_states4 \<and> is_compensation (demo_states4 ! 1)"
    by (simp add: demo_states4_def demo_states3_def is_compensation_def)
  with recover_compensation_safe [OF v(1)] v show ?thesis by auto
qed

text \<open>
  The journal is one hash chain: the records carry the sequences 1, 2, ... and each names the
  root of the record before it, the first the root of the header; the chain ends at the root the
  recovery reports. The records of one action form a chain of their own, from the zero digest.
\<close>

theorem recover_hash_chain:
  assumes "recover bs root = Inr v"
  shows "map r_sequence (v_records v) = map (\<lambda>i. int i + 1) [0..<length (v_records v)]
    \<and> hash_chain (h_header_sha256 (v_header v)) r_previous_journal_sha256 (v_records v)
    \<and> v_final_chain_sha256 v = tip (h_header_sha256 (v_header v)) (v_records v)
    \<and> hash_chain ZERO_DIGEST r_previous_action_event_sha256 (records_of a (v_records v))"
  using assms by (elim recover_journal) (simp add: replay_ok_def journal_ok_def)

theorem recover_hash_chain_witness:
  "\<exists>v. recover demo_journal4 demo_header_root = Inr v \<and> length (v_records v) = 4
     \<and> v_final_chain_sha256 v = tip (h_header_sha256 (v_header v)) (v_records v)
     \<and> hash_chain ZERO_DIGEST r_previous_action_event_sha256 (records_of demo_action1 (v_records v))"
proof -
  obtain v where v: "recover demo_journal4 demo_header_root = Inr v"
      "v_records v = [demo_record1, demo_record2, demo_record3, demo_record4]"
    using demo_recovers4 by (auto simp: demo_recovers_def)
  from recover_hash_chain [OF v(1)] v show ?thesis by simp
qed

section \<open>Bytes, crashes and errors\<close>

text \<open>
  Every byte is accounted for: the committed bytes are the header and one frame per record, the
  discarded tail is shorter than a frame, the two add up to the journal, and the status says which
  kind of tail was torn off.
\<close>

theorem recover_accounts_bytes:
  assumes "recover bs root = Inr v"
  shows "v_committed_bytes v = int (HEADER_BYTES + RECORD_BYTES * length (v_records v))
    \<and> v_committed_bytes v + v_discarded_tail_bytes v = int (length bs)
    \<and> 0 \<le> v_discarded_tail_bytes v \<and> v_discarded_tail_bytes v < int RECORD_BYTES
    \<and> v_status v = tail_status (nat (v_discarded_tail_bytes v))
    \<and> int (length (v_records v)) \<le> h_maximum_records (v_header v)"
proof -
  from assms obtain h p sroot where len: "HEADER_BYTES \<le> length bs"
    and fold: "foldE (replay_chunk h) (replay_start h) (chunks RECORD_BYTES (drop HEADER_BYTES bs)) = Inr p"
    and ok: "replay_ok h p"
    and v: "v = recovered h (length bs) p (tail_status ((length bs - HEADER_BYTES) mod RECORD_BYTES)) sroot"
    by (rule recover_inv)
  have n: "length (p_records p) = (length bs - HEADER_BYTES) div RECORD_BYTES"
    using fold_replay_records [OF fold] by (simp add: replay_start_def)
  have o: "p_offset p = HEADER_BYTES + RECORD_BYTES * length (p_records p)"
    and r: "int (length (p_records p)) \<le> h_maximum_records h"
    using ok by (simp_all add: replay_ok_def journal_ok_def)
  have m: "length bs = p_offset p + (length bs - HEADER_BYTES) mod RECORD_BYTES"
    using len div_mult_mod_eq [of "length bs - HEADER_BYTES" RECORD_BYTES] unfolding o n by linarith
  then have d: "int (length bs) - int (p_offset p) = int ((length bs - HEADER_BYTES) mod RECORD_BYTES)"
    by linarith
  have lt: "(length bs - HEADER_BYTES) mod RECORD_BYTES < RECORD_BYTES" by simp
  show ?thesis using d o r lt unfolding v recovered_def by (simp del: mod_less_divisor)
qed

theorem recover_accounts_bytes_witness:
  "\<exists>v. recover demo_journal3 demo_header_root = Inr v \<and> v_committed_bytes v = 2576
     \<and> v_discarded_tail_bytes v = 0"
proof -
  obtain v where v: "recover demo_journal3 demo_header_root = Inr v" "v_status v = RECOVERY_CLEAN"
      "v_records v = [demo_record1, demo_record2, demo_record3]"
    using demo_recovers3 by (auto simp: demo_recovers_def)
  from recover_accounts_bytes [OF v(1)] v show ?thesis by (auto simp: tail_status_clean)
qed

text \<open>
  C10. Crash recovery: a journal that recovers still recovers when it is cut at any byte after its
  header, to exactly the records whose frames are whole in the cut, and the rest of the cut is
  discarded.
\<close>

theorem recover_truncated:
  assumes v: "recover bs root = Inr v" and k: "HEADER_BYTES \<le> k" "k \<le> length bs"
  shows "\<exists>v'. recover (take k bs) root = Inr v'
    \<and> v_header v' = v_header v
    \<and> v_records v' = take ((k - HEADER_BYTES) div RECORD_BYTES) (v_records v)
    \<and> v_status v' = tail_status ((k - HEADER_BYTES) mod RECORD_BYTES)"
proof -
  from v obtain h p sroot where hd: "decode_header (take HEADER_BYTES bs) root = Inr h"
    and fold: "foldE (replay_chunk h) (replay_start h) (chunks RECORD_BYTES (drop HEADER_BYTES bs)) = Inr p"
    and v': "v = recovered h (length bs) p (tail_status ((length bs - HEADER_BYTES) mod RECORD_BYTES)) sroot"
    by (rule recover_inv)
  let ?m = "(k - HEADER_BYTES) div RECORD_BYTES" and ?cs = "chunks RECORD_BYTES (drop HEADER_BYTES bs)"
  have "foldE (replay_chunk h) (replay_start h) (take ?m ?cs @ drop ?m ?cs) = Inr p" using fold by simp
  then obtain q where q: "foldE (replay_chunk h) (replay_start h) (take ?m ?cs) = Inr q"
      "foldE (replay_chunk h) q (drop ?m ?cs) = Inr p"
    unfolding foldE_append bindE_Inr by blast
  have l: "length (take k bs) = k" and t: "take HEADER_BYTES (take k bs) = take HEADER_BYTES bs"
    using k by (simp_all add: min_def)
  have c: "chunks RECORD_BYTES (drop HEADER_BYTES (take k bs)) = take ?m ?cs"
    using chunks_take [of RECORD_BYTES "k - HEADER_BYTES" "drop HEADER_BYTES bs"] k by (simp add: drop_take)
  then obtain sr where r: "recover (take k bs) root =
      Inr (recovered h k q (tail_status ((k - HEADER_BYTES) mod RECORD_BYTES)) sr)"
    using recover_of_fold [OF _ _ q(1) [folded c], of root] l t hd k by auto
  have "?m \<le> length ?cs" using k by (simp add: div_le_mono)
  then have n: "length (p_records q) = ?m"
    using fold_replay_records [OF q(1)] by (simp add: replay_start_def)
  have "p_records q = take ?m (p_records p)"
    using fold_replay_records [OF q(2)] unfolding n by simp
  with r show ?thesis by (simp add: v' recovered_def)
qed

theorem recover_truncated_witness:
  "\<exists>v. recover (take 1500 demo_journal3) demo_header_root = Inr v
     \<and> v_records v = [demo_record1] \<and> v_status v = RECOVERY_SHORT_BODY_TAIL"
proof -
  obtain v where v: "recover demo_journal3 demo_header_root = Inr v"
      "v_records v = [demo_record1, demo_record2, demo_record3]"
    using demo_recovers3 by (auto simp: demo_recovers_def)
  have "length demo_journal3 = 2576"
    using record_layout_length [OF demo_record_ok(1)] record_layout_length [OF demo_record_ok(2)]
      record_layout_length [OF demo_record_ok(3)] length_header_layout [of demo_header]
    by (simp add: demo_journal3_def demo_journal2_def demo_journal1_def demo_journal0_def header_digests_def)
  with recover_truncated [OF v(1), of 1500] v show ?thesis by (auto simp: tail_status_def)
qed

text \<open>
  C11. The only errors of recovery: a journal shorter than a header, a header that does not decode,
  or, after a prefix of frames that replays, the error of the next frame. Once the frames replay,
  finalizing the ledger and hashing the state do not fail.
\<close>

theorem recover_error_source:
  "recover bs root = Inl e \<longleftrightarrow>
     (if length bs < HEADER_BYTES then e = HeaderIncomplete
      else case decode_header (take HEADER_BYTES bs) root of
        Inl e' \<Rightarrow> e = e'
      | Inr h \<Rightarrow> foldE (replay_chunk h) (replay_start h) (chunks RECORD_BYTES (drop HEADER_BYTES bs)) = Inl e)"
proof (cases "length bs < HEADER_BYTES")
  case False
  then have len: "HEADER_BYTES \<le> length bs" by simp
  show ?thesis
  proof (cases "decode_header (take HEADER_BYTES bs) root")
    case (Inl e')
    then show ?thesis using len by (auto simp: recover_def)
  next
    case (Inr h)
    show ?thesis
    proof (cases "foldE (replay_chunk h) (replay_start h) (chunks RECORD_BYTES (drop HEADER_BYTES bs))")
      case (Inl e')
      then show ?thesis using len Inr recover_loop_start [OF len, of h]
        by (auto simp: recover_def replay_start_def)
    next
      case (Inr p)
      then show ?thesis using recover_of_fold [OF len \<open>decode_header _ root = Inr h\<close> Inr]
          \<open>decode_header _ root = Inr h\<close> len by auto
    qed
  qed
qed (auto simp: recover_def)

section \<open>The writer\<close>

text \<open>
  C12. Writer and reader agree on transitions: any record \<open>make_transition_record\<close> returns for a
  state of a clean recovered journal, with the next sequence and the chain root, encodes, and the
  journal extended by its encoding recovers clean with that record last.
\<close>

theorem append_transition_recovers:
  assumes v: "recover bs root = Inr v" "v_status v = RECOVERY_CLEAN"
    and s: "s \<in> set (v_states v)"
    and room: "int (length (v_records v)) < h_maximum_records (v_header v)"
    and r: "make_transition_record (v_header v) (int (length (v_records v)) + 1) (v_final_chain_sha256 v)
      s kind generation observation output = Inr r"
  shows "\<exists>frame v'. encode_record (v_header v) r = Inr frame \<and> recover (bs @ frame) root = Inr v'
    \<and> v_status v' = RECOVERY_CLEAN \<and> v_records v' = v_records v @ [r]
    \<and> v_states v' = after_record r (v_states v)"
proof -
  note m = make_transition_record_inv [OF r]
  have "record_applies (v_header v) r (v_states v)"
    unfolding record_applies_def using m(4,7) m(5,6) m(8) s by (auto intro!: bexI [of _ s])
  then obtain v' where "recover (bs @ record_layout r) root = Inr v'" "v_status v' = RECOVERY_CLEAN"
      "v_records v' = v_records v @ [r]" "v_states v' = after_record r (v_states v)"
    using recover_append [OF v m(1) room m(2,3)] by metis
  then show ?thesis using encode_record_total [OF m(1)] by blast
qed

lemma demo_transition2:
  "make_transition_record demo_header 2 demo_root1 (demo_states1 ! 0) EVENT_DISPATCH_INTENT 1
     ZERO_DIGEST ZERO_DIGEST = Inr demo_record2"
proof -
  have s: "validate_state demo_header (demo_states1 ! 0) = Inr (demo_states1 ! 0)"
    using make_state_ok [OF demo_header_ok, of demo_identity1 demo_root1]
    by (simp add: demo_states1_def state_ok_def identity_ok_def)
  have f: "s_phase (demo_states1 ! 0) = 1" "s_attempt_generation (demo_states1 ! 0) = 0"
    "s_identity (demo_states1 ! 0) = demo_identity1" "s_occupied (demo_states1 ! 0)"
    "s_last_event_sha256 (demo_states1 ! 0) = demo_root1"
    by (simp_all add: demo_states1_def make_state_def)
  let ?r = "demo_record2\<lparr>r_record_sha256 := ZERO_DIGEST\<rparr>"
  have e: "\<lparr>r_abi_version = RECORD_ABI, r_sequence = 2, r_kind = EVENT_DISPATCH_INTENT,
       r_attempt_generation = 1, r_identity = demo_identity1,
       r_previous_action_event_sha256 = demo_root1, r_previous_journal_sha256 = demo_root1,
       r_dispatch_request_sha256 = demo_dispatch, r_observation_sha256 = ZERO_DIGEST,
       r_result_sha256 = ZERO_DIGEST, r_record_sha256 = ZERO_DIGEST\<rparr> = ?r"
    by (simp add: demo_record2_def)
  have "record_sha256 demo_header ?r = Inr demo_root2"
    using demo_record2_hash by (simp add: record_sha256_def)
  note h = this [folded e]
  have v: "validate_record demo_header demo_record2 = Inr demo_record2"
    using demo_record_ok(2) by (simp add: record_ok_def)
  show ?thesis
    by (simp add: make_transition_record_def s f h v enumE_def u64E_def digest0E_def digestE_def
        add_u64_def EVENT_KINDS_def demo_dispatch_request Let_def flip: demo_record2_def)
qed

theorem append_transition_recovers_witness:
  "\<exists>frame v. encode_record demo_header demo_record2 = Inr frame
     \<and> recover (demo_journal1 @ frame) demo_header_root = Inr v
     \<and> v_records v = [demo_record1, demo_record2]"
proof -
  obtain v where v: "recover demo_journal1 demo_header_root = Inr v" "v_status v = RECOVERY_CLEAN"
      "v_header v = demo_header" "v_records v = [demo_record1]" "v_states v = demo_states1"
      "v_final_chain_sha256 v = demo_root1"
    using demo_recovers1 by (auto simp: demo_recovers_def)
  have "demo_states1 ! 0 \<in> set (v_states v)" by (simp add: v demo_states1_def)
  from append_transition_recovers [OF v(1,2) this, of EVENT_DISPATCH_INTENT 1 ZERO_DIGEST ZERO_DIGEST demo_record2]
  show ?thesis using demo_transition2 by (auto simp: v)
qed

text \<open>
  C13. Writer and reader agree on enqueues: a record \<open>make_enqueued_record\<close> returns for an action
  whose roots are new, with room for it and, for a compensation, a succeeded primary parent,
  extends a clean journal to one that recovers clean with that record last.
\<close>

theorem append_enqueue_recovers:
  assumes v: "recover bs root = Inr v" "v_status v = RECOVERY_CLEAN"
    and room: "int (length (v_records v)) < h_maximum_records (v_header v)"
    and r: "make_enqueued_record (v_header v) (int (length (v_records v)) + 1) (v_final_chain_sha256 v)
      identity = Inr r"
    and new: "enqueue_admitted (v_header v) identity (v_states v)"
  shows "\<exists>frame v'. encode_record (v_header v) r = Inr frame \<and> recover (bs @ frame) root = Inr v'
    \<and> v_status v' = RECOVERY_CLEAN \<and> v_records v' = v_records v @ [r]
    \<and> v_states v' = v_states v @ [(make_state identity)\<lparr>s_last_event_sha256 := r_record_sha256 r\<rparr>]"
proof -
  from r have f: "record_ok (v_header v) r" "r_sequence r = int (length (v_records v)) + 1"
    "r_previous_journal_sha256 r = v_final_chain_sha256 v" "r_kind r = EVENT_ENQUEUED"
    "r_identity r = identity"
    by (auto simp: make_enqueued_record_def result_simps ok_simps Let_def)
  have "record_applies (v_header v) r (v_states v)"
    using f new by (simp add: record_applies_def)
  then obtain v' where "recover (bs @ record_layout r) root = Inr v'" "v_status v' = RECOVERY_CLEAN"
      "v_records v' = v_records v @ [r]" "v_states v' = after_record r (v_states v)"
    using recover_append [OF v f(1) room f(2,3)] by metis
  then show ?thesis using encode_record_total [OF f(1)] f by (auto simp: after_record_def)
qed

theorem append_enqueue_recovers_witness:
  "\<exists>frame v. encode_record demo_header demo_record4 = Inr frame
     \<and> recover (demo_journal3 @ frame) demo_header_root = Inr v
     \<and> v_records v = [demo_record1, demo_record2, demo_record3, demo_record4]"
proof -
  obtain v where v: "recover demo_journal3 demo_header_root = Inr v" "v_status v = RECOVERY_CLEAN"
      "v_header v = demo_header" "v_records v = [demo_record1, demo_record2, demo_record3]"
      "v_states v = demo_states3" "v_final_chain_sha256 v = demo_root3"
    using demo_recovers3 by (auto simp: demo_recovers_def)
  let ?r = "demo_record4\<lparr>r_record_sha256 := ZERO_DIGEST\<rparr>"
  have e: "\<lparr>r_abi_version = RECORD_ABI, r_sequence = 4, r_kind = EVENT_ENQUEUED,
       r_attempt_generation = 0, r_identity = demo_identity2,
       r_previous_action_event_sha256 = ZERO_DIGEST, r_previous_journal_sha256 = demo_root3,
       r_dispatch_request_sha256 = ZERO_DIGEST, r_observation_sha256 = ZERO_DIGEST,
       r_result_sha256 = ZERO_DIGEST, r_record_sha256 = ZERO_DIGEST\<rparr> = ?r"
    by (simp add: demo_record4_def)
  have "record_sha256 demo_header ?r = Inr demo_root4"
    using demo_record4_hash by (simp add: record_sha256_def)
  note h = this [folded e]
  have m: "make_enqueued_record demo_header 4 demo_root3 demo_identity2 = Inr demo_record4"
    using demo_record_ok(4)
    by (simp add: make_enqueued_record_def u64E_def digestE_def h record_ok_def Let_def flip: demo_record4_def)
  have n: "enqueue_admitted demo_header demo_identity2 demo_states3"
    by (simp add: demo_states3_def demo_states2_def demo_states1_def enqueue_admitted_def
        enqueue_conflict_def demo_distinct)
      (simp add: make_state_def dispatched_def observed_def observed_phase_def)
  from append_enqueue_recovers [OF v(1,2), of demo_identity2 demo_record4] m n
  show ?thesis by (auto simp: v)
qed

section \<open>The closed anchor\<close>

text \<open>
  C14. Only a finished journal closes: when a recovered journal yields a closed anchor, it has no
  torn tail and every action it holds succeeded or failed; the anchor carries the root of the
  header, the journal's length, its number of records and its chain and state roots.
\<close>

theorem closed_anchor_means_settled:
  assumes v: "recover bs root = Inr v" and a: "make_closed_anchor v = Inr a"
  shows "v_status v = RECOVERY_CLEAN \<and> (\<forall>s \<in> set (v_states v). settled (life_of s))
    \<and> a_header_sha256 a = root \<and> a_committed_bytes a = int (length bs)
    \<and> a_committed_records a = int (length (v_records v))
    \<and> a_final_chain_sha256 a = v_final_chain_sha256 v \<and> a_state_sha256 a = v_state_sha256 v"
proof -
  from a obtain lroot where led: "l_ready_actions (v_ledger v) = 0" "l_uncertain_actions (v_ledger v) = 0"
    and st: "v_status v = RECOVERY_CLEAN" "v_discarded_tail_bytes v = 0"
    and f: "a_header_sha256 a = h_header_sha256 (v_header v)" "a_committed_bytes a = v_committed_bytes v"
      "a_committed_records a = l_committed_records (v_ledger v)"
      "a_final_chain_sha256 a = v_final_chain_sha256 v" "a_state_sha256 a = v_state_sha256 v"
    by (auto simp: make_closed_anchor_def validate_closed_anchor_def result_simps validate_ledger_Inr Let_def
        split: if_splits)
  from v obtain h p sroot where hd: "decode_header (take HEADER_BYTES bs) root = Inr h"
    and ok: "replay_ok h p"
    and v': "v = recovered h (length bs) p (tail_status ((length bs - HEADER_BYTES) mod RECORD_BYTES)) sroot"
    by (rule recover_inv)
  have states: "v_states v = p_states p" "v_ledger v = closed_ledger (p_states p) (p_ledger p)"
    "v_header v = h" "v_records v = p_records p" by (simp_all add: v' recovered_def)
  have "settled (life_of s)" if "s \<in> set (v_states v)" for s
  proof -
    have "s_phase s \<noteq> 1" "s_phase s \<noteq> 2"
      using led that unfolding states by (simp_all add: closed_ledger_def tally_zero_iff)
    moreover have "s_phase s \<in> {1, 2, 3, 4}"
      using ok that state_ok_facts(4) [of h s] by (simp add: states replay_ok_def journal_ok_def)
    ultimately show ?thesis by (auto simp: life_of_def)
  qed
  moreover have "h_header_sha256 h = root" using header_canonical(2) [OF hd] .
  moreover have "v_committed_bytes v = int (length bs)"
    using st(2) by (simp add: v' recovered_def)
  moreover have "l_committed_records (v_ledger v) = int (length (v_records v))"
    using ok by (simp add: states replay_ok_def journal_ok_def ledger_counts_def closed_ledger_def)
  ultimately show ?thesis using st f states by simp
qed

theorem closed_anchor_means_settled_witness:
  "\<exists>v. recover demo_journal3 demo_header_root = Inr v \<and> make_closed_anchor v = Inr demo_anchor
     \<and> v_states v \<noteq> [] \<and> (\<forall>s \<in> set (v_states v). settled (life_of s))"
proof -
  obtain v where v: "recover demo_journal3 demo_header_root = Inr v"
    using demo_recovers3 by (auto simp: demo_recovers_def)
  from closed_anchor_means_settled [OF v demo_closes [OF v]] demo_closes [OF v] v
  show ?thesis by (auto simp: demo_recovery3 [OF v] demo_states3_eq)
qed

text \<open>
  An anchor verifies against a recovery if and only if it is the anchor that recovery makes: no
  second anchor is accepted, and an open journal accepts none.
\<close>

theorem verify_closed_exact: "verify_closed v a = Inr () \<longleftrightarrow> make_closed_anchor v = Inr a"
proof -
  have same: "validate_closed_anchor b = Inr c \<Longrightarrow> c = b" for b c
    by (auto simp: validate_closed_anchor_def result_simps)
  have "validate_closed_anchor a = Inr a" if "make_closed_anchor v = Inr a"
    using that same by (fastforce simp: make_closed_anchor_def result_simps Let_def)
  then show ?thesis using same by (fastforce simp: verify_closed_def result_simps)
qed

end
