(* ===== verification/Pressure_Wire.thy ===== *)
theory Pressure_Wire
  imports Sha256
begin

text \<open>
  The scenario of the workload pressure oracle, \<open>bench/workload_pressure.py\<close>: resource claims,
  media profiles, work items, their validation and digests, and the scenario wire. A dict whose key
  set the code checks is a record; the resource limits are the host limit and one limit per claim
  field. The records of the scheduler and of the result are in the theories that use them.
\<close>

datatype (plugins only: code) pressure_error =
    U64Range | InvalidDigest | UnknownMedia | InvalidRequestClaim | InvalidServiceEnvelope
  | InvalidRequestIdentity | InconsistentTerminalAction | InvalidTerminalAction
  | ActionPrecedesArrival | ForeignProfile | InvalidScenarioEnvelope | QueueBelowCapacity
  | InvalidItemCount | NoncanonicalItemOrder | DuplicateRequest | ServiceBound
  | InsufficientCohort | TraceEnvelope | ScenarioWire | ScenarioLength | ItemReserved
  | FairnessMarker | ItemRoot | ScenarioFooter
  | AccountingUnderflow | NoRunnable | ScanExhausted
  | DuplicateArrival | DeadlinePast | ActionLacksActive | DriverStepLimit | IncompleteOutcome
  | InvalidTraceCount | InvalidOutcomeCount | ResultWire | ResultLength | ZeroOrphanMarker
  | OutcomeReserved | InvalidMode | InvalidOutcomeRoot | InvalidTraceRoot | InvalidSummaryRoot
  | InvalidFinalAccounting | NoncanonicalOutcomes | InvalidOutcomeEnum | InvalidTraceEnum
  | InvalidTraceItem | TraceReordered | InvalidTraceRecordRoot | MissingClose
  | DuplicateAdmissionTrace | DuplicateRejectionTrace | DuplicateTerminalTrace | ItemScopedClose
  | TraceReferenceMismatch | ForeignScenario | ContradictsReplay

section \<open>Constants\<close>

abbreviation SCENARIO_ABI :: int where "SCENARIO_ABI \<equiv> 0x4757505300000001"
abbreviation PROFILE_ABI :: int where "PROFILE_ABI \<equiv> 0x4757505000000001"

definition SCENARIO_MAGIC :: bytes where "SCENARIO_MAGIC = ascii ''GWPSC1'' @ [0, 0]"

abbreviation SCENARIO_HEADER_BYTES :: nat where "SCENARIO_HEADER_BYTES \<equiv> 256"
abbreviation SCENARIO_ITEM_BYTES :: nat where "SCENARIO_ITEM_BYTES \<equiv> 272"
abbreviation MAXIMUM_ITEMS :: int where "MAXIMUM_ITEMS \<equiv> 16"
abbreviation MAXIMUM_TRACE_RECORDS :: int where "MAXIMUM_TRACE_RECORDS \<equiv> 64"
abbreviation MAXIMUM_DRIVER_STEPS :: int where "MAXIMUM_DRIVER_STEPS \<equiv> 512"
abbreviation MAXIMUM_SERVICE_QUANTA :: int where "MAXIMUM_SERVICE_QUANTA \<equiv> 256"
abbreviation MAXIMUM_WEIGHT :: int where "MAXIMUM_WEIGHT \<equiv> 65535"
abbreviation ABSENT_STEP :: int where "ABSENT_STEP \<equiv> 18446744073709551615"

definition SCENARIO_DOMAIN :: bytes where
  "SCENARIO_DOMAIN = ascii ''glacier-workload-pressure-scenario-v1'' @ [0]"
definition SCENARIO_ITEM_DOMAIN :: bytes where
  "SCENARIO_ITEM_DOMAIN = ascii ''glacier-workload-pressure-item-v1'' @ [0]"
definition PROFILE_DOMAIN :: bytes where
  "PROFILE_DOMAIN = ascii ''glacier-workload-pressure-profile-v1'' @ [0]"

abbreviation MODE_OPEN_LOOP :: int where "MODE_OPEN_LOOP \<equiv> 1"
abbreviation ACTION_NONE :: int where "ACTION_NONE \<equiv> 0"
abbreviation ACTION_CANCEL :: int where "ACTION_CANCEL \<equiv> 1"
abbreviation ACTION_TIMEOUT :: int where "ACTION_TIMEOUT \<equiv> 2"
abbreviation MEDIA_IMAGE :: int where "MEDIA_IMAGE \<equiv> 1"
abbreviation MEDIA_AUDIO :: int where "MEDIA_AUDIO \<equiv> 2"
abbreviation MEDIA_VIDEO :: int where "MEDIA_VIDEO \<equiv> 3"
abbreviation FAMILY_VISION_UNDERSTANDING :: int where "FAMILY_VISION_UNDERSTANDING \<equiv> 3"
abbreviation FAMILY_AUDIO_UNDERSTANDING :: int where "FAMILY_AUDIO_UNDERSTANDING \<equiv> 4"
abbreviation FAMILY_VIDEO_UNDERSTANDING :: int where "FAMILY_VIDEO_UNDERSTANDING \<equiv> 6"
abbreviation OPERATION_ENCODE :: int where "OPERATION_ENCODE \<equiv> 3"

section \<open>Checked scalars\<close>

text \<open>\<open>_u64\<close> packs the value it checks.\<close>

definition u64P :: "int \<Rightarrow> pressure_error + bytes" where
  "u64P v = (if \<not> (0 \<le> v \<and> v \<le> U64_MAX) then Inl U64Range else Inr (u64_bytes v))"

definition digestP :: "bytes \<Rightarrow> pressure_error + bytes" where
  "digestP v = (if length v \<noteq> 32 \<or> v = ZERO_DIGEST then Inl InvalidDigest else Inr v)"

lemma u64P_Inr [result_simps]: "u64P v = Inr b \<longleftrightarrow> is_u64 v \<and> b = u64_bytes v"
  by (auto simp: u64P_def is_u64_def)

lemma digestP_Inr [result_simps]: "digestP v = Inr w \<longleftrightarrow> length v = 32 \<and> v \<noteq> ZERO_DIGEST \<and> w = v"
  by (auto simp: digestP_def)

lemmas mapE_u64P [result_simps] = mapE_guard [of u64P is_u64 u64_bytes, OF u64P_Inr]

text \<open>A run of \<open>_write_u64\<close> calls from \<open>off\<close> on, eight bytes apart.\<close>

fun write_u64s :: "nat \<Rightarrow> int list \<Rightarrow> bytes \<Rightarrow> pressure_error + bytes" where
  "write_u64s off [] output = Inr output"
| "write_u64s off (v # vs) output =
     bindE (u64P v) (\<lambda>b. write_u64s (off + 8) vs (splice off 8 b output))"

section \<open>Resource claims\<close>

record claim =
  c_capsule_bytes :: int
  c_kv_bytes :: int
  c_activation_bytes :: int
  c_partial_bytes :: int
  c_logits_bytes :: int
  c_output_journal_bytes :: int
  c_staging_bytes :: int
  c_device_bytes :: int
  c_io_bytes :: int
  c_queue_slots :: int

text \<open>The values of \<open>CLAIM_FIELDS\<close> in order, and the claim with these values.\<close>

definition claim_words :: "claim \<Rightarrow> int list" where
  "claim_words c =
    [c_capsule_bytes c, c_kv_bytes c, c_activation_bytes c, c_partial_bytes c, c_logits_bytes c,
     c_output_journal_bytes c, c_staging_bytes c, c_device_bytes c, c_io_bytes c, c_queue_slots c]"

definition claim_of :: "int list \<Rightarrow> claim" where
  "claim_of vs =
    \<lparr>c_capsule_bytes = vs ! 0, c_kv_bytes = vs ! 1, c_activation_bytes = vs ! 2,
     c_partial_bytes = vs ! 3, c_logits_bytes = vs ! 4, c_output_journal_bytes = vs ! 5,
     c_staging_bytes = vs ! 6, c_device_bytes = vs ! 7, c_io_bytes = vs ! 8, c_queue_slots = vs ! 9\<rparr>"

definition empty_claim :: claim where
  "empty_claim = claim_of (replicate 10 0)"

text \<open>\<open>_claim(**values)\<close> is applied to constants within range only.\<close>

definition image_claim :: claim where
  "image_claim = empty_claim\<lparr>c_capsule_bytes := 928, c_activation_bytes := 12,
     c_output_journal_bytes := 12, c_staging_bytes := 512, c_io_bytes := 364, c_queue_slots := 1\<rparr>"

definition audio_claim :: claim where
  "audio_claim = empty_claim\<lparr>c_capsule_bytes := 928, c_activation_bytes := 32,
     c_output_journal_bytes := 4, c_staging_bytes := 256, c_io_bytes := 384, c_queue_slots := 1\<rparr>"

definition video_claim :: claim where
  "video_claim = empty_claim\<lparr>c_capsule_bytes := 928, c_activation_bytes := 8,
     c_output_journal_bytes := 4, c_staging_bytes := 128, c_io_bytes := 360, c_queue_slots := 1\<rparr>"

definition validate_claim :: "claim \<Rightarrow> pressure_error + claim" where
  "validate_claim c =
     bindE (mapE u64P (claim_words c)) (\<lambda>_.
       if \<not> list_ex (\<lambda>v. v \<noteq> 0) (claim_words c) \<or> c_queue_slots c \<noteq> 1
       then Inl InvalidRequestClaim else Inr c)"

definition claim_add :: "claim \<Rightarrow> claim \<Rightarrow> pressure_error + claim" where
  "claim_add left right =
     bindE (mapE (\<lambda>(l, r). bindE (u64P (l + r)) (\<lambda>_. Inr (l + r)))
       (zip (claim_words left) (claim_words right))) (\<lambda>vs. Inr (claim_of vs))"

definition claim_subtract :: "claim \<Rightarrow> claim \<Rightarrow> pressure_error + claim" where
  "claim_subtract left right =
     bindE (mapE (\<lambda>(l, r). if r > l then Inl AccountingUnderflow else Inr (l - r))
       (zip (claim_words left) (claim_words right))) (\<lambda>vs. Inr (claim_of vs))"

definition host_bytes :: "claim \<Rightarrow> pressure_error + int" where
  "host_bytes c =
     (let value = sum_list (take 7 (claim_words c)) in bindE (u64P value) (\<lambda>_. Inr value))"

record limits =
  m_host_bytes :: int
  m_fields :: claim

definition limit_words :: "limits \<Rightarrow> int list" where
  "limit_words m = m_host_bytes m # claim_words (m_fields m)"

definition fits :: "limits \<Rightarrow> claim \<Rightarrow> pressure_error + bool" where
  "fits limit c =
     bindE (host_bytes c) (\<lambda>host.
       Inr (host \<le> m_host_bytes limit
         \<and> list_all (\<lambda>(v, l). v \<le> l) (zip (claim_words c) (claim_words (m_fields limit)))))"

section \<open>Media profiles\<close>

record profile =
  f_family :: int
  f_operation :: int
  f_media_kind :: int
  f_claim :: claim
  f_profile_sha256 :: bytes

definition media_profile :: "int \<Rightarrow> pressure_error + profile" where
  "media_profile kind =
     bindE
       (if kind = MEDIA_IMAGE then Inr (FAMILY_VISION_UNDERSTANDING, image_claim)
        else if kind = MEDIA_AUDIO then Inr (FAMILY_AUDIO_UNDERSTANDING, audio_claim)
        else if kind = MEDIA_VIDEO then Inr (FAMILY_VIDEO_UNDERSTANDING, video_claim)
        else Inl UnknownMedia) (\<lambda>(family, c).
     bindE (mapE u64P ([PROFILE_ABI, kind, family, OPERATION_ENCODE] @ claim_words c)) (\<lambda>parts.
       Inr \<lparr>f_family = family, f_operation = OPERATION_ENCODE, f_media_kind = kind, f_claim = c,
            f_profile_sha256 = sha_parts PROFILE_DOMAIN parts\<rparr>))"

section \<open>Work items\<close>

record work_item =
  w_ordinal :: int
  w_family :: int
  w_operation :: int
  w_media_kind :: int
  w_arrival_step :: int
  w_weight :: int
  w_work_quanta :: int
  w_deadline_tick :: int
  w_terminal_action_step :: int
  w_terminal_action :: int
  w_fairness_member :: bool
  w_tenant_key :: int
  w_request_key :: int
  w_request_generation :: int
  w_resource_owner_key :: int
  w_claim :: claim
  w_profile_sha256 :: bytes

text \<open>The integers before and after the fairness marker, in wire order.\<close>

definition item_head_words :: "work_item \<Rightarrow> int list" where
  "item_head_words w =
    [w_ordinal w, w_family w, w_operation w, w_media_kind w, w_arrival_step w, w_weight w,
     w_work_quanta w, w_deadline_tick w, w_terminal_action_step w, w_terminal_action w]"

definition item_key_words :: "work_item \<Rightarrow> int list" where
  "item_key_words w =
    [w_tenant_key w, w_request_key w, w_request_generation w, w_resource_owner_key w]"

definition bool_word :: "bool \<Rightarrow> int" where
  "bool_word b = (if b then 1 else 0)"

definition item_words :: "work_item \<Rightarrow> int list" where
  "item_words w = item_head_words w @ [bool_word (w_fairness_member w)] @ item_key_words w"

definition validate_item :: "work_item \<Rightarrow> int \<Rightarrow> pressure_error + work_item" where
  "validate_item w max_weight =
     bindE (mapE u64P (item_head_words w @ item_key_words w)) (\<lambda>_.
       if \<not> (1 \<le> w_weight w \<and> w_weight w \<le> max_weight) \<or> w_work_quanta w = 0
       then Inl InvalidServiceEnvelope
       else if w_tenant_key w = 0 \<or> w_request_key w = 0 \<or> w_request_generation w = 0
          \<or> w_resource_owner_key w = 0
       then Inl InvalidRequestIdentity
       else if (w_terminal_action w = ACTION_NONE) \<noteq> (w_terminal_action_step w = ABSENT_STEP)
       then Inl InconsistentTerminalAction
       else if w_terminal_action w \<notin> {ACTION_NONE, ACTION_CANCEL, ACTION_TIMEOUT}
       then Inl InvalidTerminalAction
       else if w_terminal_action w \<noteq> ACTION_NONE \<and> w_terminal_action_step w < w_arrival_step w
       then Inl ActionPrecedesArrival
       else bindE (media_profile (w_media_kind w)) (\<lambda>profile.
         bindE (validate_claim (w_claim w)) (\<lambda>c.
           if w_family w \<noteq> f_family profile \<or> w_operation w \<noteq> f_operation profile
              \<or> c \<noteq> f_claim profile \<or> w_profile_sha256 w \<noteq> f_profile_sha256 profile
           then Inl ForeignProfile
           else Inr w)))"

definition item_sha256 :: "work_item \<Rightarrow> pressure_error + bytes" where
  "item_sha256 item_value =
     bindE (validate_item item_value U64_MAX) (\<lambda>w.
     bindE (mapE u64P (item_words w @ claim_words (w_claim w))) (\<lambda>parts.
       Inr (sha_parts SCENARIO_ITEM_DOMAIN (parts @ [w_profile_sha256 w]))))"

section \<open>Scenario\<close>

record scenario =
  x_mode :: int
  x_seed :: int
  x_max_driver_steps :: int
  x_fairness_start_tick :: int
  x_fairness_end_tick :: int
  x_bank_epoch :: int
  x_scheduler_epoch :: int
  x_max_weight :: int
  x_max_projection_quanta :: int
  x_max_projection_operations :: int
  x_capacity :: int
  x_limits :: limits
  x_challenge :: bytes
  x_items :: "work_item list"

definition scenario_words :: "scenario \<Rightarrow> int list" where
  "scenario_words x =
    [x_mode x, x_seed x, x_max_driver_steps x, x_fairness_start_tick x, x_fairness_end_tick x,
     x_bank_epoch x, x_scheduler_epoch x, x_max_weight x, x_max_projection_quanta x,
     x_max_projection_operations x, x_capacity x]"

text \<open>The state of the item loop of \<open>validate_scenario\<close>; the items checked so far are its index.\<close>

record item_check =
  k_index :: int
  k_tenants :: "int list"
  k_requests :: "int list"
  k_owners :: "int list"
  k_previous_arrival :: int
  k_fairness_members :: int
  k_total_quanta :: int
  k_items :: "work_item list"

definition check_item :: "scenario \<Rightarrow> item_check \<Rightarrow> work_item \<Rightarrow> pressure_error + item_check" where
  "check_item x k candidate =
     bindE (validate_item candidate (x_max_weight x)) (\<lambda>w.
       if w_ordinal w \<noteq> k_index k
          \<or> w_arrival_step w \<ge> x_max_driver_steps x
          \<or> (w_terminal_action w \<noteq> ACTION_NONE \<and> w_terminal_action_step w \<ge> x_max_driver_steps x)
          \<or> (k_index k \<noteq> 0 \<and> w_arrival_step w < k_previous_arrival k)
       then Inl NoncanonicalItemOrder
       else if w_tenant_key w \<in> set (k_tenants k) \<or> w_request_key w \<in> set (k_requests k)
          \<or> w_resource_owner_key w \<in> set (k_owners k)
       then Inl DuplicateRequest
       else if k_total_quanta k + w_work_quanta w > MAXIMUM_SERVICE_QUANTA then Inl ServiceBound
       else Inr \<lparr>k_index = k_index k + 1, k_tenants = w_tenant_key w # k_tenants k,
              k_requests = w_request_key w # k_requests k,
              k_owners = w_resource_owner_key w # k_owners k,
              k_previous_arrival = w_arrival_step w,
              k_fairness_members = k_fairness_members k + bool_word (w_fairness_member w),
              k_total_quanta = k_total_quanta k + w_work_quanta w,
              k_items = k_items k @ [w]\<rparr>)"

definition item_check_start :: item_check where
  "item_check_start = \<lparr>k_index = 0, k_tenants = [], k_requests = [], k_owners = [],
     k_previous_arrival = 0, k_fairness_members = 0, k_total_quanta = 0, k_items = []\<rparr>"

definition validate_scenario :: "scenario \<Rightarrow> pressure_error + scenario" where
  "validate_scenario x =
     bindE (mapE u64P (scenario_words x)) (\<lambda>_.
       if x_mode x \<noteq> MODE_OPEN_LOOP
          \<or> x_seed x = 0
          \<or> \<not> (0 < x_max_driver_steps x \<and> x_max_driver_steps x \<le> MAXIMUM_DRIVER_STEPS)
          \<or> x_fairness_end_tick x \<le> x_fairness_start_tick x
          \<or> x_bank_epoch x = 0
          \<or> x_scheduler_epoch x = 0
          \<or> \<not> (0 < x_max_weight x \<and> x_max_weight x \<le> MAXIMUM_WEIGHT)
          \<or> x_max_projection_quanta x = 0
          \<or> x_max_projection_operations x = 0
          \<or> \<not> (0 < x_capacity x \<and> x_capacity x \<le> MAXIMUM_ITEMS)
       then Inl InvalidScenarioEnvelope
       else bindE (digestP (x_challenge x)) (\<lambda>_.
         bindE (mapE u64P (limit_words (x_limits x))) (\<lambda>_.
           if c_queue_slots (m_fields (x_limits x)) < x_capacity x then Inl QueueBelowCapacity
           else if \<not> (0 < length (x_items x) \<and> int (length (x_items x)) \<le> MAXIMUM_ITEMS)
           then Inl InvalidItemCount
           else bindE (foldE (check_item x) item_check_start (x_items x)) (\<lambda>k.
             if k_fairness_members k < 2 then Inl InsufficientCohort
             else if k_total_quanta k + 2 * int (length (k_items k)) + 1 > MAXIMUM_TRACE_RECORDS
             then Inl TraceEnvelope
             else Inr (x\<lparr>x_items := k_items k\<rparr>)))))"

definition scenario_sha256 :: "scenario \<Rightarrow> pressure_error + bytes" where
  "scenario_sha256 scenario_value =
     bindE (validate_scenario scenario_value) (\<lambda>x.
     bindE (mapE u64P ([SCENARIO_ABI] @ scenario_words x @ limit_words (x_limits x))) (\<lambda>parts.
     bindE (u64P (int (length (x_items x)))) (\<lambda>count.
     bindE (mapE item_sha256 (x_items x)) (\<lambda>roots.
       Inr (sha_parts SCENARIO_DOMAIN (parts @ [x_challenge x, count] @ roots))))))"

definition required_scenario_bytes :: "int \<Rightarrow> pressure_error + nat" where
  "required_scenario_bytes item_count =
     (if \<not> (0 < item_count \<and> item_count \<le> MAXIMUM_ITEMS) then Inl InvalidItemCount
      else Inr (SCENARIO_HEADER_BYTES + nat item_count * SCENARIO_ITEM_BYTES + 32))"

section \<open>The scenario wire\<close>

definition encode_item :: "nat \<Rightarrow> work_item \<Rightarrow> bytes \<Rightarrow> pressure_error + bytes" where
  "encode_item offset w output =
     bindE (write_u64s offset (item_words w) output) (\<lambda>output.
     bindE (write_u64s (offset + 120) (claim_words (w_claim w)) output) (\<lambda>output.
       let output = splice (offset + 200) 32 (w_profile_sha256 w) output in
       bindE (item_sha256 w) (\<lambda>root. Inr (splice (offset + 232) 32 root output))))"

fun encode_items :: "nat \<Rightarrow> work_item list \<Rightarrow> bytes \<Rightarrow> pressure_error + bytes" where
  "encode_items offset [] output = Inr output"
| "encode_items offset (w # ws) output =
     bindE (encode_item offset w output) (encode_items (offset + SCENARIO_ITEM_BYTES) ws)"

definition encode_scenario :: "scenario \<Rightarrow> pressure_error + bytes" where
  "encode_scenario scenario_value =
     bindE (validate_scenario scenario_value) (\<lambda>x.
     bindE (required_scenario_bytes (int (length (x_items x)))) (\<lambda>size.
       let output = splice 0 8 SCENARIO_MAGIC (zeros size) in
       bindE (write_u64s 8 ([SCENARIO_ABI, int size, 0] @ scenario_words x
         @ [int (length (x_items x))]) output) (\<lambda>output.
       bindE (write_u64s 128 (limit_words (x_limits x)) output) (\<lambda>output.
         let output = splice 216 32 (x_challenge x) output in
         bindE (encode_items SCENARIO_HEADER_BYTES (x_items x) output) (\<lambda>output.
         bindE (scenario_sha256 x) (\<lambda>root. Inr (splice (size - 32) 32 root output)))))))"

definition claim_at :: "bytes \<Rightarrow> nat \<Rightarrow> claim" where
  "claim_at encoded offset = claim_of (unpack_u64s 10 encoded offset)"

text \<open>The item read from the wire at \<open>offset\<close>, before any check.\<close>

definition parse_item :: "bytes \<Rightarrow> nat \<Rightarrow> work_item" where
  "parse_item encoded offset =
    \<lparr>w_ordinal = read_u64 encoded offset, w_family = read_u64 encoded (offset + 8),
     w_operation = read_u64 encoded (offset + 16), w_media_kind = read_u64 encoded (offset + 24),
     w_arrival_step = read_u64 encoded (offset + 32), w_weight = read_u64 encoded (offset + 40),
     w_work_quanta = read_u64 encoded (offset + 48),
     w_deadline_tick = read_u64 encoded (offset + 56),
     w_terminal_action_step = read_u64 encoded (offset + 64),
     w_terminal_action = read_u64 encoded (offset + 72),
     w_fairness_member = (read_u64 encoded (offset + 80) \<noteq> 0),
     w_tenant_key = read_u64 encoded (offset + 88), w_request_key = read_u64 encoded (offset + 96),
     w_request_generation = read_u64 encoded (offset + 104),
     w_resource_owner_key = read_u64 encoded (offset + 112),
     w_claim = claim_at encoded (offset + 120),
     w_profile_sha256 = slice (offset + 200) 32 encoded\<rparr>"

definition decode_item :: "bytes \<Rightarrow> nat \<Rightarrow> pressure_error + work_item" where
  "decode_item encoded offset =
    (if slice (offset + 264) 8 encoded \<noteq> zeros 8 then Inl ItemReserved
     else if read_u64 encoded (offset + 80) \<notin> {0, 1} then Inl FairnessMarker
     else bindE (item_sha256 (parse_item encoded offset)) (\<lambda>root.
       if slice (offset + 232) 32 encoded \<noteq> root then Inl ItemRoot
       else Inr (parse_item encoded offset)))"

text \<open>The scenario read from the wire around already decoded items.\<close>

definition parse_scenario :: "bytes \<Rightarrow> work_item list \<Rightarrow> scenario" where
  "parse_scenario encoded items =
    \<lparr>x_mode = read_u64 encoded 32, x_seed = read_u64 encoded 40,
     x_max_driver_steps = read_u64 encoded 48, x_fairness_start_tick = read_u64 encoded 56,
     x_fairness_end_tick = read_u64 encoded 64, x_bank_epoch = read_u64 encoded 72,
     x_scheduler_epoch = read_u64 encoded 80, x_max_weight = read_u64 encoded 88,
     x_max_projection_quanta = read_u64 encoded 96,
     x_max_projection_operations = read_u64 encoded 104, x_capacity = read_u64 encoded 112,
     x_limits = \<lparr>m_host_bytes = read_u64 encoded 128, m_fields = claim_at encoded 136\<rparr>,
     x_challenge = slice 216 32 encoded, x_items = items\<rparr>"

definition decode_scenario :: "bytes \<Rightarrow> pressure_error + scenario" where
  "decode_scenario encoded =
    (if length encoded < SCENARIO_HEADER_BYTES + 32
        \<or> slice 0 8 encoded \<noteq> SCENARIO_MAGIC
        \<or> read_u64 encoded 8 \<noteq> SCENARIO_ABI
        \<or> read_u64 encoded 16 \<noteq> int (length encoded)
        \<or> read_u64 encoded 24 \<noteq> 0
        \<or> slice 248 8 encoded \<noteq> zeros 8
     then Inl ScenarioWire
     else let item_count = read_u64 encoded 120 in
       bindE (required_scenario_bytes item_count) (\<lambda>size.
         if length encoded \<noteq> size then Inl ScenarioLength
         else bindE (mapE (\<lambda>index. decode_item encoded (SCENARIO_HEADER_BYTES + index * SCENARIO_ITEM_BYTES))
                [0..<nat item_count]) (\<lambda>items.
           bindE (validate_scenario (parse_scenario encoded items)) (\<lambda>canonical.
           bindE (scenario_sha256 canonical) (\<lambda>root.
             if drop (length encoded - 32) encoded \<noteq> root then Inl ScenarioFooter
             else Inr canonical)))))"

end
