(* ===== verification/Pressure_Scheduler.thy ===== *)
theory Pressure_Scheduler
  imports Pressure_Wire
begin

text \<open>
  The scheduler of \<open>bench/workload_pressure.py\<close>: the slots, the interleaved weighted round robin
  scan \<open>_select_iwrr\<close>, and the admission projection \<open>_projection_rejection\<close> with its operation
  budget. The weights of the active slots are what both scans read of a slot list: \<open>None\<close> for a
  free or inactive slot.
\<close>

abbreviation REJECTION_NONE :: int where "REJECTION_NONE \<equiv> 0"
abbreviation REJECTION_NO_SLOT :: int where "REJECTION_NO_SLOT \<equiv> 1"
abbreviation REJECTION_DUPLICATE_TENANT :: int where "REJECTION_DUPLICATE_TENANT \<equiv> 2"
abbreviation REJECTION_RESOURCE_LIMIT :: int where "REJECTION_RESOURCE_LIMIT \<equiv> 3"
abbreviation REJECTION_PROJECTION_LIMIT :: int where "REJECTION_PROJECTION_LIMIT \<equiv> 4"
abbreviation REJECTION_DEADLINE_INFEASIBLE :: int where "REJECTION_DEADLINE_INFEASIBLE \<equiv> 5"

section \<open>Slots\<close>

record slot =
  t_item_index :: nat
  t_tenant_key :: int
  t_weight :: int
  t_remaining :: int
  t_deadline_tick :: int
  t_admitted_tick :: int
  t_last_service_tick :: int
  t_active :: bool
  t_claim :: claim

definition slot_weight :: "slot option \<Rightarrow> int option" where
  "slot_weight s = (case s of None \<Rightarrow> None | Some t \<Rightarrow> if t_active t then Some (t_weight t) else None)"

text \<open>\<open>[slot["weight"] for slot in slots if slot is not None and slot["active"]]\<close> and its maximum.\<close>

definition active_weights :: "int option list \<Rightarrow> int list" where
  "active_weights ws = List.map_filter (\<lambda>w. w) ws"

definition max_list :: "int list \<Rightarrow> int" where
  "max_list vs = fold max (tl vs) (hd vs)"

definition min_cursor :: "nat \<Rightarrow> int option list \<Rightarrow> nat" where
  "min_cursor cursor ws = min cursor (length ws)"

section \<open>Selecting the next slot\<close>

text \<open>
  The wrap at the top of a probe, and whether the probed slot is eligible at the level.
\<close>

definition probe :: "int option list \<Rightarrow> int \<Rightarrow> nat \<Rightarrow> int \<Rightarrow> nat \<times> int" where
  "probe ws max_weight cursor level =
     (if cursor \<ge> length ws then (0, if level \<ge> max_weight then 1 else level + 1) else (cursor, level))"

definition eligible :: "int option list \<Rightarrow> nat \<Rightarrow> int \<Rightarrow> bool" where
  "eligible ws index level = (case ws ! index of None \<Rightarrow> False | Some w \<Rightarrow> w \<ge> level)"

text \<open>The \<open>for _ in range(...)\<close> loop: at most \<open>n\<close> probes.\<close>

fun scan :: "nat \<Rightarrow> int option list \<Rightarrow> int \<Rightarrow> nat \<Rightarrow> int \<Rightarrow> pressure_error + nat \<times> nat \<times> int" where
  "scan 0 ws max_weight cursor level = Inl ScanExhausted"
| "scan (Suc n) ws max_weight cursor level =
     (case probe ws max_weight cursor level of (index, level') \<Rightarrow>
        if eligible ws index level' then Inr (index, index + 1, level')
        else scan n ws max_weight (index + 1) level')"

definition select_iwrr ::
  "slot option list \<Rightarrow> nat \<Rightarrow> int \<Rightarrow> pressure_error + nat \<times> nat \<times> int" where
  "select_iwrr slots initial_cursor initial_level =
    (let ws = map slot_weight slots; weights = active_weights ws in
     if weights = [] then Inl NoRunnable
     else let max_weight = max_list weights;
              cursor = min_cursor initial_cursor ws;
              level = (if initial_level = 0 then 1 else initial_level) in
       let (level, cursor) = (if level > max_weight then (1, 0) else (level, cursor)) in
       scan (nat (int (length slots) * max_weight)) ws max_weight cursor level)"

section \<open>The admission projection\<close>

record pslot =
  j_active :: bool
  j_weight :: int
  j_remaining :: int
  j_deadline_tick :: int

definition pslot_weight :: "pslot option \<Rightarrow> int option" where
  "pslot_weight s = (case s of None \<Rightarrow> None | Some t \<Rightarrow> if j_active t then Some (j_weight t) else None)"

text \<open>The operation budget and \<open>spend\<close>: whether the amount was available.\<close>

record budget =
  b_remaining_operations :: int
  b_budget_exhausted :: bool

definition spend :: "int \<Rightarrow> budget \<Rightarrow> bool \<times> budget" where
  "spend amount b =
    (if amount > b_remaining_operations b then (False, b\<lparr>b_budget_exhausted := True\<rparr>)
     else (True, b\<lparr>b_remaining_operations := b_remaining_operations b - amount\<rparr>))"

definition deadline_slot :: "pslot option \<Rightarrow> bool" where
  "deadline_slot s = (case s of None \<Rightarrow> False | Some t \<Rightarrow> j_active t \<and> j_deadline_tick t \<noteq> 0)"

definition project_slot :: "slot option \<Rightarrow> pslot option" where
  "project_slot s =
    (case s of None \<Rightarrow> None
     | Some t \<Rightarrow> if \<not> t_active t then None
         else Some \<lparr>j_active = True, j_weight = t_weight t, j_remaining = t_remaining t,
                j_deadline_tick = t_deadline_tick t\<rparr>)"

definition project_candidate :: "work_item \<Rightarrow> pslot" where
  "project_candidate w = \<lparr>j_active = True, j_weight = w_weight w, j_remaining = w_work_quanta w,
     j_deadline_tick = w_deadline_tick w\<rparr>"

definition missed_deadline :: "int \<Rightarrow> pslot option \<Rightarrow> bool" where
  "missed_deadline tick s = (case s of None \<Rightarrow> False
     | Some t \<Rightarrow> j_active t \<and> j_deadline_tick t \<noteq> 0 \<and> tick \<ge> j_deadline_tick t)"

text \<open>
  The probing loop of the projection: each probe spends one operation first. \<open>Inl\<close> is the return
  from inside the loop; \<open>Inr None\<close> is a loop that ended without a selection.
\<close>

fun project_scan ::
  "nat \<Rightarrow> int option list \<Rightarrow> int \<Rightarrow> nat \<Rightarrow> int \<Rightarrow> budget \<Rightarrow> int + nat option \<times> nat \<times> int \<times> budget" where
  "project_scan 0 ws maximum_active_weight cursor level b = Inr (None, cursor, level, b)"
| "project_scan (Suc n) ws maximum_active_weight cursor level b =
     (case spend 1 b of (ok, b') \<Rightarrow>
        if \<not> ok then Inl REJECTION_PROJECTION_LIMIT
        else case probe ws maximum_active_weight cursor level of (index, level') \<Rightarrow>
          if eligible ws index level' then Inr (Some index, index + 1, level', b')
          else project_scan n ws maximum_active_weight (index + 1) level' b')"

record projection =
  o_slots :: "pslot option list"
  o_cursor :: nat
  o_level :: int
  o_budget :: budget
  o_deadline_count :: int
  o_quanta :: int
  o_tick :: int

text \<open>
  Serving the selected slot of the projection: \<open>Inl\<close> is a missed deadline. A selected slot is
  eligible, so it is there (the code asserts it).
\<close>

definition project_serve :: "nat \<Rightarrow> projection \<Rightarrow> int + projection" where
  "project_serve selected o1 =
    (let t = the (o_slots o1 ! selected);
         remaining = j_remaining t - 1; tick = o_tick o1 + 1; quanta = o_quanta o1 + 1 in
     if remaining = 0 then
       if j_deadline_tick t \<noteq> 0 \<and> tick > j_deadline_tick t then Inl REJECTION_DEADLINE_INFEASIBLE
       else Inr (o1\<lparr>o_slots := (o_slots o1)[selected := Some (t\<lparr>j_remaining := remaining, j_active := False\<rparr>)],
              o_tick := tick, o_quanta := quanta,
              o_deadline_count := o_deadline_count o1 - bool_word (j_deadline_tick t \<noteq> 0)\<rparr>)
     else Inr (o1\<lparr>o_slots := (o_slots o1)[selected := Some (t\<lparr>j_remaining := remaining\<rparr>)],
            o_tick := tick, o_quanta := quanta\<rparr>))"

text \<open>One round of the \<open>while deadline_count\<close> loop: \<open>Inl\<close> is the rejection it returns.\<close>

definition project_round :: "int \<Rightarrow> int \<Rightarrow> projection \<Rightarrow> int + projection" where
  "project_round max_weight max_quanta o1 =
    (let n = int (length (o_slots o1)) in
     if o_quanta o1 \<ge> max_quanta then Inl REJECTION_PROJECTION_LIMIT
     else case spend n (o_budget o1) of (ok, b) \<Rightarrow>
       if \<not> ok then Inl REJECTION_PROJECTION_LIMIT
       else if list_ex (missed_deadline (o_tick o1)) (o_slots o1) then Inl REJECTION_DEADLINE_INFEASIBLE
       else case spend n b of (ok, b) \<Rightarrow>
         if \<not> ok then Inl REJECTION_PROJECTION_LIMIT
         else let ws = map pslot_weight (o_slots o1); weights = active_weights ws in
           if weights = [] then
             Inl (if b_budget_exhausted b then REJECTION_PROJECTION_LIMIT else REJECTION_DEADLINE_INFEASIBLE)
           else let maximum_active_weight = max_list weights;
                    cursor = min_cursor (o_cursor o1) ws;
                    level = (if o_level o1 = 0 then 1 else o_level o1) in
             let (level, cursor) =
               (if level > maximum_active_weight \<or> level > max_weight then (1, 0) else (level, cursor)) in
             case project_scan (nat (n * max_weight)) ws maximum_active_weight cursor level b of
               Inl rejection \<Rightarrow> Inl rejection
             | Inr (None, cursor, level, b) \<Rightarrow>
                 Inl (if b_budget_exhausted b then REJECTION_PROJECTION_LIMIT else REJECTION_DEADLINE_INFEASIBLE)
             | Inr (Some selected, cursor, level, b) \<Rightarrow>
                 project_serve selected (o1\<lparr>o_cursor := cursor, o_level := level, o_budget := b\<rparr>))"

lemma project_serve_quanta: "project_serve i o1 = Inr o2 \<Longrightarrow> o_quanta o2 = o_quanta o1 + 1"
  by (auto simp: project_serve_def Let_def split: option.splits if_splits)

lemma project_round_quanta:
  "project_round mw mq o1 = Inr o2 \<Longrightarrow> o_quanta o2 = o_quanta o1 + 1 \<and> o_quanta o1 < mq"
  by (auto simp: project_round_def Let_def dest!: project_serve_quanta
      split: prod.splits if_splits sum.splits option.splits)

function project_loop :: "int \<Rightarrow> int \<Rightarrow> projection \<Rightarrow> int" where
  "project_loop max_weight max_quanta o1 =
    (if o_deadline_count o1 = 0 then REJECTION_NONE
     else case project_round max_weight max_quanta o1 of
       Inl rejection \<Rightarrow> rejection
     | Inr o2 \<Rightarrow> project_loop max_weight max_quanta o2)"
  by pat_completeness auto
termination
  by (relation "measure (\<lambda>(mw, mq, o1). nat (mq - o_quanta o1))") (auto dest!: project_round_quanta)

declare project_loop.simps [simp del]

definition projection_rejection ::
  "slot option list \<Rightarrow> nat \<Rightarrow> work_item \<Rightarrow> int \<Rightarrow> nat \<Rightarrow> int \<Rightarrow> int \<Rightarrow> int \<Rightarrow> int \<Rightarrow> int" where
  "projection_rejection slots candidate_index w logical_tick cursor level max_weight max_quanta
     max_operations =
    (let n = int (length slots);
         b = \<lparr>b_remaining_operations = max_operations, b_budget_exhausted = False\<rparr> in
     if w_deadline_tick w \<noteq> 0 \<and> w_work_quanta w > max_quanta then REJECTION_PROJECTION_LIMIT
     else case (if w_deadline_tick w = 0 then spend n b else (True, b)) of (ok, b) \<Rightarrow>
       if \<not> ok then REJECTION_PROJECTION_LIMIT
       else if w_deadline_tick w = 0 \<and> \<not> list_ex (deadline_slot \<circ> project_slot) slots then REJECTION_NONE
       else case spend n b of (ok, b) \<Rightarrow>
         if \<not> ok then REJECTION_PROJECTION_LIMIT
         else let projected = (map project_slot slots)[candidate_index := Some (project_candidate w)];
                  deadlines = filter deadline_slot projected in
           if sum_list (map (j_remaining \<circ> the) deadlines) > max_quanta
           then REJECTION_PROJECTION_LIMIT
           else project_loop max_weight max_quanta
             \<lparr>o_slots = projected, o_cursor = cursor, o_level = level, o_budget = b,
              o_deadline_count = int (length deadlines), o_quanta = 0, o_tick = logical_tick\<rparr>)"

end
