(* ===== verification/Pressure_Iwrr.thy ===== *)
theory Pressure_Iwrr
  imports Pressure_Scheduler
begin

text \<open>
  The interleaved weighted round robin scan. It always finds a slot, within one pass over the
  slots, and it bounds how long a slot waits: \<open>gap_left\<close> counts the probes of other slots that can
  come before a slot is next eligible, every service of another slot lowers it, and it never exceeds
  \<open>(n - 1) * W\<close> for \<open>n\<close> slots of weight at most \<open>W\<close>.
\<close>

section \<open>Weights\<close>

definition weights_ok :: "int \<Rightarrow> int option list \<Rightarrow> bool" where
  "weights_ok bound ws \<longleftrightarrow> (\<forall>w. Some w \<in> set ws \<longrightarrow> 1 \<le> w \<and> w \<le> bound)"

lemma set_active_weights: "set (active_weights ws) = {w. Some w \<in> set ws}"
  by (induction ws) (auto simp: active_weights_def List.map_filter_def)

lemma max_list_Max: "vs \<noteq> [] \<Longrightarrow> max_list vs = Max (set vs)"
  by (cases vs) (simp_all only: max_list_def list.sel Max.set_eq_fold, simp_all)

lemma max_weight:
  assumes "active_weights ws \<noteq> []"
  shows "Some (max_list (active_weights ws)) \<in> set ws"
    and "Some w \<in> set ws \<Longrightarrow> w \<le> max_list (active_weights ws)"
proof -
  have m: "max_list (active_weights ws) = Max {w. Some w \<in> set ws}"
    using assms by (simp add: max_list_Max set_active_weights)
  have f: "finite {w. Some w \<in> set ws}" "{w. Some w \<in> set ws} \<noteq> {}"
    unfolding set_active_weights [symmetric] using assms by simp_all
  show "Some (max_list (active_weights ws)) \<in> set ws" using Max_in [OF f] by (simp add: m)
  show "Some w \<in> set ws \<Longrightarrow> w \<le> max_list (active_weights ws)" using f by (simp add: m)
qed

lemma eligible_Some: "eligible ws i l \<longleftrightarrow> (\<exists>w. ws ! i = Some w \<and> l \<le> w)"
  by (simp add: eligible_def split: option.splits)

section \<open>A probe and its bound\<close>

text \<open>
  Other slots' probes left before slot \<open>j\<close> of weight \<open>w\<close> is probed at a level it is eligible at, when
  the scan stands at \<open>cursor\<close> and \<open>level\<close>.
\<close>

definition gap_left :: "int \<Rightarrow> int \<Rightarrow> int \<Rightarrow> int \<Rightarrow> int \<Rightarrow> int \<Rightarrow> int" where
  "gap_left bound n j w cursor level =
    (if level \<le> w then
       if cursor \<le> j then j - cursor
       else (n - cursor) + (if level < w then j else (bound - w) * (n - 1) + j)
     else (n - cursor) - (if cursor \<le> j then 1 else 0) + (bound - level) * (n - 1) + j)"

lemma gap_left_nonneg:
  assumes "0 \<le> j" "j < n" "cursor \<le> n" "w \<le> bound" "level \<le> bound"
  shows "0 \<le> gap_left bound n j w cursor level"
proof -
  have "0 \<le> (bound - w) * (n - 1)" "0 \<le> (bound - level) * (n - 1)" using assms by simp_all
  then show ?thesis using assms by (simp add: gap_left_def)
qed

lemma gap_left_bound:
  assumes "0 \<le> j" "j < n" "0 \<le> cursor" "cursor \<le> n" "1 \<le> w" "w \<le> bound" "1 \<le> level" "level \<le> bound"
  shows "gap_left bound n j w cursor level \<le> (n - 1) * bound"
proof -
  have b: "(bound - k) * (n - 1) + k * (n - 1) = (n - 1) * bound" for k
    by (simp add: algebra_simps)
  have m: "n - 1 \<le> (n - 1) * bound" using assms mult_left_mono [of 1 bound "n - 1"] by simp
  have one: "n - 1 \<le> w * (n - 1)" using assms mult_right_mono [of 1 w "n - 1"] by simp
  show ?thesis
  proof (cases "level \<le> w")
    case True
    then show ?thesis using assms m one b [of w] by (auto simp: gap_left_def)
  next
    case False
    then have "2 * (n - 1) \<le> level * (n - 1)" using assms by (intro mult_right_mono) auto
    with False show ?thesis using assms b [of level] by (auto simp: gap_left_def)
  qed
qed

lemma probe_range:
  assumes "probe ws m cursor level = (i, l)" "ws \<noteq> []" "1 \<le> level" "level \<le> m" "1 \<le> m"
  shows "i < length ws" "1 \<le> l" "l \<le> m"
  using assms by (auto simp: probe_def split: if_splits)

lemma probe_gap:
  assumes p: "probe ws m cursor level = (i, l)" and c: "cursor \<le> length ws" and j: "j < length ws"
    and w: "1 \<le> w" "w \<le> m" "m \<le> bound" and l: "1 \<le> level" "level \<le> m"
  shows "i \<noteq> j \<Longrightarrow> gap_left bound (int (length ws)) (int j) w (int i + 1) l + 1
      \<le> gap_left bound (int (length ws)) (int j) w (int cursor) level"
    and "i = j \<Longrightarrow> w < l \<Longrightarrow> gap_left bound (int (length ws)) (int j) w (int i + 1) l
      \<le> gap_left bound (int (length ws)) (int j) w (int cursor) level"
proof -
  let ?n = "int (length ws)" and ?g = "gap_left bound (int (length ws)) (int j) w"
  have pos: "0 \<le> (bound - k) * (?n - 1)" if "k \<le> bound" for k
    using that j by (intro mult_nonneg_nonneg) auto
  have succ: "(bound - level) * (?n - 1) = (bound - (level + 1)) * (?n - 1) + (?n - 1)"
    by (simp add: algebra_simps)
  have wl: "(bound - w) * (?n - 1) = (bound - level) * (?n - 1)" if "level = w" using that by simp
  have "(i \<noteq> j \<longrightarrow> ?g (int i + 1) l + 1 \<le> ?g (int cursor) level)
    \<and> (i = j \<longrightarrow> w < l \<longrightarrow> ?g (int i + 1) l \<le> ?g (int cursor) level)"
  proof (cases "cursor < length ws")
    case True
    then have "i = cursor" "l = level" using p by (auto simp: probe_def)
    with True j w l show ?thesis by (auto simp: gap_left_def)
  next
    case False
    then have i: "i = 0" "l = (if level \<ge> m then 1 else level + 1)" "cursor = length ws"
      using p c by (auto simp: probe_def)
    show ?thesis
    proof (cases "level \<ge> m")
      case True
      then have lm: "level = m" "l = 1" using l i by auto
      show ?thesis
      proof (cases "w = 1")
        case w1: True
        then show ?thesis using i lm j w l pos [of level] pos [of w]
          by (auto simp: gap_left_def)
      next
        case False
        then show ?thesis using i lm j w l pos [of level] pos [of w]
          by (auto simp: gap_left_def)
      qed
    next
      case False
      then have lm: "l = level + 1" "level + 1 \<le> bound" using i w by auto
      consider "level < w" | "level = w" | "w < level" by linarith
      then show ?thesis
      proof cases
        case 1
        then show ?thesis using i lm j w l pos [of w] by (auto simp: gap_left_def)
      next
        case 2
        then show ?thesis using i lm j w l pos [of "level + 1"] succ by (auto simp: gap_left_def)
      next
        case 3
        then show ?thesis using i lm j w l pos [of "level + 1"] succ by (auto simp: gap_left_def)
      qed
    qed
  qed
  then show "i \<noteq> j \<Longrightarrow> ?g (int i + 1) l + 1 \<le> ?g (int cursor) level"
    and "i = j \<Longrightarrow> w < l \<Longrightarrow> ?g (int i + 1) l \<le> ?g (int cursor) level" by blast+
qed

section \<open>The scan\<close>

lemma scan_total:
  assumes "ws \<noteq> []" "j < length ws" "ws ! j = Some m" "1 \<le> level" "level \<le> m" "cursor \<le> length ws"
    and "(if cursor \<le> j then j - cursor else length ws - cursor + j) < fuel"
  shows "\<exists>i l. scan fuel ws m cursor level = Inr (i, i + 1, l) \<and> i < length ws \<and> eligible ws i l
    \<and> 1 \<le> l \<and> l \<le> m"
  using assms
proof (induction fuel arbitrary: cursor level)
  case (Suc fuel)
  obtain i l where p: "probe ws m cursor level = (i, l)" by fastforce
  have m: "1 \<le> m" using Suc.prems by linarith
  note r = probe_range [OF p Suc.prems(1,4,5) m]
  show ?case
  proof (cases "eligible ws i l")
    case True
    then show ?thesis using r by (simp add: p)
  next
    case False
    then have ij: "i \<noteq> j" using Suc.prems(3) r by (auto simp: eligible_Some)
    have "\<exists>i' l'. scan fuel ws m (i + 1) l = Inr (i', i' + 1, l') \<and> i' < length ws \<and> eligible ws i' l'
        \<and> 1 \<le> l' \<and> l' \<le> m"
    proof (rule Suc.IH)
      show "(if i + 1 \<le> j then j - (i + 1) else length ws - (i + 1) + j) < fuel"
        using Suc.prems(2,6,7) p ij by (auto simp: probe_def split: if_splits)
    qed (use Suc.prems r in auto)
    then show ?thesis using False by (simp add: p)
  qed
qed (use assms in auto)

text \<open>Whatever slot the scan picks, every other active slot moves nearer.\<close>

lemma scan_gap:
  assumes "scan fuel ws m cursor level = Inr (i, c, l)" "ws \<noteq> []" "j < length ws"
    "1 \<le> w" "w \<le> m" "m \<le> bound" "ws ! j = Some w" "1 \<le> level" "level \<le> m" "cursor \<le> length ws"
  shows "i \<noteq> j \<Longrightarrow> gap_left bound (int (length ws)) (int j) w (int c) l + 1
      \<le> gap_left bound (int (length ws)) (int j) w (int cursor) level"
  using assms
proof (induction fuel arbitrary: cursor level)
  case (Suc fuel)
  let ?g = "gap_left bound (int (length ws)) (int j) w"
  obtain i1 l1 where p: "probe ws m cursor level = (i1, l1)" by fastforce
  have m: "1 \<le> m" using Suc.prems by linarith
  note r = probe_range [OF p Suc.prems(3,9,10) m]
  note g = probe_gap [OF p Suc.prems(11,4,5,6,7,9,10)]
  show ?case
  proof (cases "eligible ws i1 l1")
    case True
    then have "i = i1" "c = i1 + 1" "l = l1" using Suc.prems(2) by (simp_all add: p)
    with g(1) Suc.prems(1) show ?thesis by (simp add: add.commute)
  next
    case False
    then have s: "scan fuel ws m (i1 + 1) l1 = Inr (i, c, l)" using Suc.prems(2) by (simp add: p)
    have "?g (int c) l + 1 \<le> ?g (int (i1 + 1)) l1"
      by (rule Suc.IH [OF Suc.prems(1) s]) (use Suc.prems r in auto)
    moreover have "?g (int (i1 + 1)) l1 \<le> ?g (int cursor) level"
    proof (cases "i1 = j")
      case True
      then have "w < l1" using False Suc.prems(8) by (auto simp: eligible_Some)
      with g(2) True show ?thesis by (simp add: add.commute)
    next
      case False
      with g(1) show ?thesis by (simp add: add.commute)
    qed
    ultimately show ?thesis by linarith
  qed
qed simp

section \<open>The selection\<close>

lemma reset_gap:
  assumes "0 \<le> j" "j < n" "cursor \<le> n" "1 \<le> w" "w \<le> m" "m < level" "level \<le> bound"
  shows "gap_left bound n j w 0 1 \<le> gap_left bound n j w cursor level"
proof -
  have "0 \<le> (bound - level) * (n - 1)" using assms by (intro mult_nonneg_nonneg) auto
  then show ?thesis using assms by (simp add: gap_left_def)
qed

lemma select_iwrr_scan:
  assumes "active_weights (map slot_weight slots) \<noteq> []"
  shows "select_iwrr slots cursor level =
    (let ws = map slot_weight slots; m = max_list (active_weights ws);
         level = (if level = 0 then 1 else level) in
     scan (nat (int (length slots) * m)) ws m (if level > m then 0 else min cursor (length slots))
       (if level > m then 1 else level))"
  using assms by (simp add: select_iwrr_def Let_def min_cursor_def)

lemma select_total:
  assumes a: "active_weights (map slot_weight slots) \<noteq> []" and ok: "weights_ok bound (map slot_weight slots)"
    and l: "1 \<le> level"
  shows "\<exists>i l'. select_iwrr slots cursor level = Inr (i, i + 1, l') \<and> i < length slots
    \<and> eligible (map slot_weight slots) i l' \<and> 1 \<le> l' \<and> l' \<le> bound"
proof -
  let ?ws = "map slot_weight slots" and ?m = "max_list (active_weights (map slot_weight slots))"
  have m: "Some ?m \<in> set ?ws" by (rule max_weight(1) [OF a])
  then have mb: "1 \<le> ?m" "?m \<le> bound" using ok by (auto simp: weights_ok_def)
  from m obtain j where j: "j < length ?ws" "?ws ! j = Some ?m" by (auto simp: in_set_conv_nth)
  let ?c = "if level > ?m then 0 else min cursor (length slots)" and ?l = "if level > ?m then 1 else level"
  have len: "length slots * 1 \<le> nat (int (length slots) * ?m)"
    using mb(1) by (simp add: nat_mult_distrib Suc_le_eq)
  have "\<exists>i l'. scan (nat (int (length slots) * ?m)) ?ws ?m ?c ?l = Inr (i, i + 1, l') \<and> i < length ?ws
      \<and> eligible ?ws i l' \<and> 1 \<le> l' \<and> l' \<le> ?m"
  proof (rule scan_total [OF _ j])
    show "(if ?c \<le> j then j - ?c else length ?ws - ?c + j) < nat (int (length slots) * ?m)"
      using len j(1) by (auto simp: min_def split: if_splits)
  qed (use j l mb in auto)
  then show ?thesis using mb l by (auto simp: select_iwrr_scan [OF a] Let_def)
qed

lemma select_gap:
  assumes s: "select_iwrr slots cursor level = Inr (i, c, l)" and j: "j < length slots"
    and w: "slot_weight (slots ! j) = Some w" and ok: "weights_ok bound (map slot_weight slots)"
    and l: "1 \<le> level" "level \<le> bound" and c: "cursor \<le> length slots" and ij: "i \<noteq> j"
  shows "gap_left bound (int (length slots)) (int j) w (int c) l + 1
    \<le> gap_left bound (int (length slots)) (int j) w (int cursor) level"
proof -
  let ?ws = "map slot_weight slots" and ?m = "max_list (active_weights (map slot_weight slots))"
  have sw: "Some w \<in> set ?ws" using j w by (force simp: in_set_conv_nth)
  then have a: "active_weights ?ws \<noteq> []" using set_active_weights [of ?ws] by auto
  have wm: "1 \<le> w" "w \<le> ?m" "?m \<le> bound"
    using ok sw max_weight [OF a] by (auto simp: weights_ok_def)
  let ?c = "if level > ?m then 0 else cursor" and ?l = "if level > ?m then 1 else level"
  have "scan (nat (int (length slots) * ?m)) ?ws ?m ?c ?l = Inr (i, c, l)"
    using s l c by (simp add: select_iwrr_scan [OF a] Let_def min_def split: if_splits)
  then have "gap_left bound (int (length ?ws)) (int j) w (int c) l + 1
      \<le> gap_left bound (int (length ?ws)) (int j) w (int ?c) ?l"
    by (rule scan_gap) (use j w wm l c ij in auto)
  moreover have "gap_left bound (int (length slots)) (int j) w (int ?c) ?l
      \<le> gap_left bound (int (length slots)) (int j) w (int cursor) level"
    using reset_gap [of "int j" "int (length slots)" "int cursor" w ?m level bound] j wm l c by auto
  ultimately show ?thesis by simp
qed

end
