(* ===== verification/Pressure_Replay.thy ===== *)
theory Pressure_Replay
  imports Pressure_Scheduler
begin

text \<open>
  The replay of a scenario, \<open>replay_scenario\<close> of \<open>bench/workload_pressure.py\<close>: per driver step the
  arrivals, the terminal actions and one quantum of service, until every item is terminal. The
  local variables of the function are the record \<open>world\<close>; its three inner blocks are
  \<open>arrive\<close>, \<open>act\<close> and \<open>serve\<close>. The summary and the digests of the result are in \<open>Pressure_Result\<close>.
\<close>

abbreviation TRACE_ABI :: int where "TRACE_ABI \<equiv> 0x4757505400000001"
abbreviation ABSENT_ITEM :: int where "ABSENT_ITEM \<equiv> 18446744073709551615"

definition TRACE_RECORD_DOMAIN :: bytes where
  "TRACE_RECORD_DOMAIN = ascii ''glacier-workload-pressure-trace-record-v1'' @ [0]"

abbreviation OUTCOME_COMPLETED :: int where "OUTCOME_COMPLETED \<equiv> 1"
abbreviation OUTCOME_REJECTED :: int where "OUTCOME_REJECTED \<equiv> 2"
abbreviation OUTCOME_CANCELLED :: int where "OUTCOME_CANCELLED \<equiv> 3"
abbreviation OUTCOME_TIMED_OUT :: int where "OUTCOME_TIMED_OUT \<equiv> 4"
abbreviation EVENT_ADMISSION_ACCEPTED :: int where "EVENT_ADMISSION_ACCEPTED \<equiv> 0"
abbreviation EVENT_ADMISSION_REJECTED :: int where "EVENT_ADMISSION_REJECTED \<equiv> 1"
abbreviation EVENT_SERVICE :: int where "EVENT_SERVICE \<equiv> 2"
abbreviation EVENT_CANCEL :: int where "EVENT_CANCEL \<equiv> 3"
abbreviation EVENT_RETIRE :: int where "EVENT_RETIRE \<equiv> 4"
abbreviation EVENT_CLOSE :: int where "EVENT_CLOSE \<equiv> 5"

section \<open>Trace\<close>

record trace_record =
  e_driver_step :: int
  e_item_ordinal :: int
  e_event_kind :: int
  e_rejection_reason :: int
  e_terminal_action :: int
  e_logical_tick_before :: int
  e_logical_tick_after :: int
  e_remaining_before :: int
  e_remaining_after :: int
  e_wait_quanta :: int
  e_record_sha256 :: bytes

definition trace_words :: "trace_record \<Rightarrow> int list" where
  "trace_words e =
    [e_driver_step e, e_item_ordinal e, e_event_kind e, e_rejection_reason e, e_terminal_action e,
     e_logical_tick_before e, e_logical_tick_after e, e_remaining_before e, e_remaining_after e,
     e_wait_quanta e]"

definition trace_record_sha256 :: "trace_record \<Rightarrow> pressure_error + bytes" where
  "trace_record_sha256 e =
     bindE (mapE u64P (TRACE_ABI # trace_words e)) (\<lambda>parts. Inr (sha_parts TRACE_RECORD_DOMAIN parts))"

text \<open>A record without its root and with the default fields of \<open>_append_trace\<close>.\<close>

definition trace_event :: "int \<Rightarrow> int \<Rightarrow> int \<Rightarrow> int \<Rightarrow> int \<Rightarrow> trace_record" where
  "trace_event step ordinal kind before after =
    \<lparr>e_driver_step = step, e_item_ordinal = ordinal, e_event_kind = kind,
     e_rejection_reason = REJECTION_NONE, e_terminal_action = ACTION_NONE,
     e_logical_tick_before = before, e_logical_tick_after = after, e_remaining_before = 0,
     e_remaining_after = 0, e_wait_quanta = 0, e_record_sha256 = ZERO_DIGEST\<rparr>"

definition append_trace ::
  "trace_record list \<Rightarrow> trace_record \<Rightarrow> pressure_error + trace_record list \<times> bytes" where
  "append_trace trace e =
     bindE (trace_record_sha256 e) (\<lambda>root. Inr (trace @ [e\<lparr>e_record_sha256 := root\<rparr>], root))"

section \<open>The state of a replay\<close>

datatype run_state = Pending | Active | Terminal

record run =
  q_state :: run_state
  q_admitted_step :: int
  q_first_service_step :: int
  q_terminal_step :: int
  q_served_quanta :: int
  q_fairness_quanta :: int
  q_maximum_wait_quanta :: int
  q_admission_trace_sha256 :: bytes
  q_terminal_trace_sha256 :: bytes
  q_outcome :: "int option"
  q_rejection_reason :: int
  q_terminal_action :: int
  q_slot_index :: nat

text \<open>\<open>slot_index\<close> is a key the code adds on admission and reads of active items only.\<close>

definition run_start :: run where
  "run_start = \<lparr>q_state = Pending, q_admitted_step = ABSENT_STEP, q_first_service_step = ABSENT_STEP,
     q_terminal_step = ABSENT_STEP, q_served_quanta = 0, q_fairness_quanta = 0,
     q_maximum_wait_quanta = 0, q_admission_trace_sha256 = ZERO_DIGEST,
     q_terminal_trace_sha256 = ZERO_DIGEST, q_outcome = None, q_rejection_reason = REJECTION_NONE,
     q_terminal_action = ACTION_NONE, q_slot_index = 0\<rparr>"

record world =
  y_slots :: "slot option list"
  y_runtime :: "run list"
  y_used :: claim
  y_peak :: claim
  y_peak_host_bytes :: int
  y_maximum_live :: int
  y_successful_commits :: int
  y_releases :: int
  y_cursor :: nat
  y_level :: int
  y_logical_tick :: int
  y_trace :: "trace_record list"

definition world_start :: "scenario \<Rightarrow> world" where
  "world_start x =
    \<lparr>y_slots = replicate (nat (x_capacity x)) None, y_runtime = map (\<lambda>_. run_start) (x_items x),
     y_used = empty_claim, y_peak = empty_claim, y_peak_host_bytes = 0, y_maximum_live = 0,
     y_successful_commits = 0, y_releases = 0, y_cursor = 0, y_level = 1, y_logical_tick = 0,
     y_trace = []\<rparr>"

definition claim_max :: "claim \<Rightarrow> claim \<Rightarrow> claim" where
  "claim_max a b = claim_of (map (\<lambda>(u, v). max u v) (zip (claim_words a) (claim_words b)))"

definition live :: "slot option list \<Rightarrow> int" where
  "live slots = tally (\<lambda>s. s \<noteq> None) slots"

definition update_peak :: "world \<Rightarrow> pressure_error + world" where
  "update_peak y =
     bindE (host_bytes (y_used y)) (\<lambda>host.
       Inr (y\<lparr>y_peak := claim_max (y_peak y) (y_used y),
              y_peak_host_bytes := max (y_peak_host_bytes y) host,
              y_maximum_live := max (y_maximum_live y) (live (y_slots y))\<rparr>))"

text \<open>The first free slot.\<close>

fun find_free :: "slot option list \<Rightarrow> nat option" where
  "find_free [] = None"
| "find_free (s # ss) = (if s = None then Some 0 else map_option Suc (find_free ss))"

definition tenant_live :: "int \<Rightarrow> slot option \<Rightarrow> bool" where
  "tenant_live key s = (case s of None \<Rightarrow> False | Some t \<Rightarrow> t_tenant_key t = key)"

section \<open>Arrivals\<close>

text \<open>
  The admission decision: the rejection reason, and for an admission the slot and the claims in use
  with the new one.
\<close>

definition admission ::
  "scenario \<Rightarrow> world \<Rightarrow> work_item \<Rightarrow> pressure_error + int + nat \<times> claim" where
  "admission x y w =
    (if list_ex (tenant_live (w_tenant_key w)) (y_slots y) then Inr (Inl REJECTION_DUPLICATE_TENANT)
     else case find_free (y_slots y) of
       None \<Rightarrow> Inr (Inl REJECTION_NO_SLOT)
     | Some free \<Rightarrow>
         bindE (claim_add (y_used y) (w_claim w)) (\<lambda>next_used.
         bindE (fits (x_limits x) next_used) (\<lambda>ok.
           if \<not> ok then Inr (Inl REJECTION_RESOURCE_LIMIT)
           else let rejection = projection_rejection (y_slots y) free w (y_logical_tick y) (y_cursor y)
                      (y_level y) (x_max_weight x) (x_max_projection_quanta x)
                      (x_max_projection_operations x)
             in if rejection \<noteq> REJECTION_NONE then Inr (Inl rejection)
                else Inr (Inr (free, next_used)))))"

definition reject_item :: "int \<Rightarrow> nat \<Rightarrow> work_item \<Rightarrow> int \<Rightarrow> world \<Rightarrow> pressure_error + world" where
  "reject_item step index w rejection y =
     bindE (append_trace (y_trace y)
        ((trace_event step (w_ordinal w) EVENT_ADMISSION_REJECTED (y_logical_tick y) (y_logical_tick y))
           \<lparr>e_rejection_reason := rejection\<rparr>)) (\<lambda>(trace, root).
       Inr (y\<lparr>y_trace := trace,
         y_runtime := (y_runtime y)[index := (y_runtime y ! index)
           \<lparr>q_state := Terminal, q_terminal_step := step, q_outcome := Some OUTCOME_REJECTED,
            q_rejection_reason := rejection, q_admission_trace_sha256 := root,
            q_terminal_trace_sha256 := root\<rparr>]\<rparr>))"

definition admit_item ::
  "int \<Rightarrow> nat \<Rightarrow> work_item \<Rightarrow> nat \<Rightarrow> claim \<Rightarrow> world \<Rightarrow> pressure_error + world" where
  "admit_item step index w free next_used y =
    (let y = y\<lparr>y_slots := (y_slots y)[free := Some
           \<lparr>t_item_index = index, t_tenant_key = w_tenant_key w, t_weight = w_weight w,
            t_remaining = w_work_quanta w, t_deadline_tick = w_deadline_tick w,
            t_admitted_tick = y_logical_tick y, t_last_service_tick = y_logical_tick y,
            t_active = True, t_claim = w_claim w\<rparr>],
         y_used := next_used, y_successful_commits := y_successful_commits y + 1\<rparr> in
     bindE (update_peak y) (\<lambda>y.
     bindE (append_trace (y_trace y)
        ((trace_event step (w_ordinal w) EVENT_ADMISSION_ACCEPTED (y_logical_tick y) (y_logical_tick y))
           \<lparr>e_remaining_after := w_work_quanta w\<rparr>)) (\<lambda>(trace, root).
       Inr (y\<lparr>y_trace := trace,
         y_runtime := (y_runtime y)[index := (y_runtime y ! index)
           \<lparr>q_state := Active, q_slot_index := free, q_admitted_step := step,
            q_admission_trace_sha256 := root\<rparr>]\<rparr>))))"

definition arrive :: "scenario \<Rightarrow> int \<Rightarrow> world \<Rightarrow> nat \<times> work_item \<Rightarrow> pressure_error + world" where
  "arrive x step y = (\<lambda>(index, w).
     if w_arrival_step w \<noteq> step then Inr y
     else if q_state (y_runtime y ! index) \<noteq> Pending then Inl DuplicateArrival
     else if w_deadline_tick w \<noteq> 0 \<and> w_deadline_tick w \<le> y_logical_tick y then Inl DeadlinePast
     else bindE (admission x y w) (\<lambda>decision.
       case decision of
         Inl rejection \<Rightarrow> reject_item step index w rejection y
       | Inr (free, next_used) \<Rightarrow> admit_item step index w free next_used y))"

section \<open>Terminal actions\<close>

definition act :: "int \<Rightarrow> world \<Rightarrow> nat \<times> work_item \<Rightarrow> pressure_error + world" where
  "act step y = (\<lambda>(index, w).
     if w_terminal_action_step w \<noteq> step then Inr y
     else let state = y_runtime y ! index in
       if q_state state \<noteq> Active \<or> w_terminal_action w = ACTION_NONE then Inl ActionLacksActive
       else let slot_index = q_slot_index state; t = the (y_slots y ! slot_index) in
         bindE (claim_subtract (y_used y) (t_claim t)) (\<lambda>used.
         bindE (append_trace (y_trace y)
            ((trace_event step (w_ordinal w) EVENT_CANCEL (y_logical_tick y) (y_logical_tick y))
               \<lparr>e_terminal_action := w_terminal_action w, e_remaining_before := t_remaining t\<rparr>))
           (\<lambda>(trace, root).
           Inr (y\<lparr>y_used := used, y_slots := (y_slots y)[slot_index := None],
             y_releases := y_releases y + 1, y_trace := trace,
             y_runtime := (y_runtime y)[index := state
               \<lparr>q_state := Terminal, q_terminal_step := step,
                q_terminal_action := w_terminal_action w,
                q_outcome := Some (if w_terminal_action w = ACTION_CANCEL then OUTCOME_CANCELLED
                  else OUTCOME_TIMED_OUT),
                q_terminal_trace_sha256 := root\<rparr>]\<rparr>))))"

section \<open>Service\<close>

text \<open>Retiring a slot whose work is done.\<close>

definition retire :: "int \<Rightarrow> nat \<Rightarrow> slot \<Rightarrow> work_item \<Rightarrow> world \<Rightarrow> pressure_error + world" where
  "retire step selected t w y =
     bindE (claim_subtract (y_used y) (t_claim t)) (\<lambda>used.
     bindE (append_trace (y_trace y)
        (trace_event step (w_ordinal w) EVENT_RETIRE (y_logical_tick y) (y_logical_tick y)))
       (\<lambda>(trace, root).
       Inr (y\<lparr>y_used := used, y_slots := (y_slots y)[selected := None],
         y_releases := y_releases y + 1, y_trace := trace,
         y_runtime := (y_runtime y)[t_item_index t := (y_runtime y ! t_item_index t)
           \<lparr>q_state := Terminal, q_terminal_step := step, q_outcome := Some OUTCOME_COMPLETED,
            q_terminal_trace_sha256 := root\<rparr>]\<rparr>)))"

definition serve :: "scenario \<Rightarrow> int \<Rightarrow> world \<Rightarrow> pressure_error + world" where
  "serve x step y =
    (if \<not> list_ex (\<lambda>s. case s of None \<Rightarrow> False | Some t \<Rightarrow> t_active t) (y_slots y) then Inr y
     else bindE (select_iwrr (y_slots y) (y_cursor y) (y_level y)) (\<lambda>(selected, cursor, level).
       let t = the (y_slots y ! selected);
           w = x_items x ! t_item_index t;
           state = y_runtime y ! t_item_index t;
           before = t_remaining t;
           tick = y_logical_tick y + 1;
           wait = tick - t_last_service_tick t;
           t = t\<lparr>t_remaining := t_remaining t - 1, t_last_service_tick := tick\<rparr>;
           state = state
             \<lparr>q_first_service_step := (if q_first_service_step state = ABSENT_STEP then step
                else q_first_service_step state),
              q_served_quanta := q_served_quanta state + 1,
              q_maximum_wait_quanta := max (q_maximum_wait_quanta state) wait,
              q_fairness_quanta := q_fairness_quanta state
                + bool_word (w_fairness_member w \<and> x_fairness_start_tick x < tick
                    \<and> tick \<le> x_fairness_end_tick x)\<rparr>;
           y = y\<lparr>y_slots := (y_slots y)[selected := Some t], y_cursor := cursor, y_level := level,
                 y_logical_tick := tick, y_runtime := (y_runtime y)[t_item_index t := state]\<rparr> in
       bindE (append_trace (y_trace y)
          ((trace_event step (w_ordinal w) EVENT_SERVICE (tick - 1) tick)
             \<lparr>e_remaining_before := before, e_remaining_after := t_remaining t, e_wait_quanta := wait\<rparr>))
         (\<lambda>(trace, _).
         let y = y\<lparr>y_trace := trace\<rparr> in
         if t_remaining t = 0 then retire step selected t w y else Inr y)))"

section \<open>The driver\<close>

definition driver_step :: "scenario \<Rightarrow> int \<Rightarrow> world \<Rightarrow> pressure_error + world" where
  "driver_step x step y =
     bindE (foldE (arrive x step) y (enumerate 0 (x_items x))) (\<lambda>y.
     bindE (foldE (act step) y (enumerate 0 (x_items x))) (\<lambda>y.
       serve x step y))"

text \<open>The \<open>for step in range(max_driver_steps)\<close> loop with its \<open>else\<close>: \<open>n\<close> steps are left.\<close>

fun drive :: "scenario \<Rightarrow> nat \<Rightarrow> int \<Rightarrow> world \<Rightarrow> pressure_error + world \<times> int" where
  "drive x 0 step y = Inl DriverStepLimit"
| "drive x (Suc n) step y =
     bindE (driver_step x step y) (\<lambda>y.
       if list_all (\<lambda>state. q_state state = Terminal) (y_runtime y) then Inr (y, step + 1)
       else drive x n (step + 1) y)"

end
