(* ===== verification/Pressure_Result.thy ===== *)
theory Pressure_Result
  imports Pressure_Replay
begin

text \<open>
  The result of a replay, the second half of \<open>replay_scenario\<close> of \<open>bench/workload_pressure.py\<close>: the
  outcomes and the summary, their digests, the structural validation of a result, the result wire
  and \<open>validate_result\<close>, which accepts a result by replaying its scenario.
\<close>

abbreviation RESULT_ABI :: int where "RESULT_ABI \<equiv> 0x4757505200000001"
abbreviation SUMMARY_ABI :: int where "SUMMARY_ABI \<equiv> 0x4757505900000001"

definition RESULT_MAGIC :: bytes where "RESULT_MAGIC = ascii ''GWPRS1'' @ [0, 0]"

abbreviation RESULT_HEADER_BYTES :: nat where "RESULT_HEADER_BYTES \<equiv> 544"
abbreviation OUTCOME_RECORD_BYTES :: nat where "OUTCOME_RECORD_BYTES \<equiv> 160"
abbreviation TRACE_RECORD_BYTES :: nat where "TRACE_RECORD_BYTES \<equiv> 112"
abbreviation RESULT_FOOTER_BYTES :: nat where "RESULT_FOOTER_BYTES \<equiv> 32"

definition RESULT_DOMAIN :: bytes where
  "RESULT_DOMAIN = ascii ''glacier-workload-pressure-result-v1'' @ [0]"
definition TRACE_DOMAIN :: bytes where
  "TRACE_DOMAIN = ascii ''glacier-workload-pressure-trace-v1'' @ [0]"
definition OUTCOME_DOMAIN :: bytes where
  "OUTCOME_DOMAIN = ascii ''glacier-workload-pressure-outcomes-v1'' @ [0]"
definition SUMMARY_DOMAIN :: bytes where
  "SUMMARY_DOMAIN = ascii ''glacier-workload-pressure-summary-v1'' @ [0]"

section \<open>Outcomes\<close>

record outcome =
  u_ordinal :: int
  u_kind :: int
  u_rejection_reason :: int
  u_terminal_action :: int
  u_admitted_step :: int
  u_first_service_step :: int
  u_terminal_step :: int
  u_served_quanta :: int
  u_maximum_wait_quanta :: int
  u_queue_delay_steps :: int
  u_completion_delay_steps :: int
  u_admission_trace_sha256 :: bytes
  u_terminal_trace_sha256 :: bytes

definition outcome_words :: "outcome \<Rightarrow> int list" where
  "outcome_words u =
    [u_ordinal u, u_kind u, u_rejection_reason u, u_terminal_action u, u_admitted_step u,
     u_first_service_step u, u_terminal_step u, u_served_quanta u, u_maximum_wait_quanta u,
     u_queue_delay_steps u, u_completion_delay_steps u]"

definition make_outcome :: "work_item \<times> run \<Rightarrow> pressure_error + outcome" where
  "make_outcome = (\<lambda>(w, state).
     case q_outcome state of
       None \<Rightarrow> Inl IncompleteOutcome
     | Some kind \<Rightarrow> Inr
         \<lparr>u_ordinal = w_ordinal w, u_kind = kind, u_rejection_reason = q_rejection_reason state,
          u_terminal_action = q_terminal_action state, u_admitted_step = q_admitted_step state,
          u_first_service_step = q_first_service_step state,
          u_terminal_step = q_terminal_step state, u_served_quanta = q_served_quanta state,
          u_maximum_wait_quanta = q_maximum_wait_quanta state,
          u_queue_delay_steps =
            (if q_first_service_step state \<noteq> ABSENT_STEP
             then q_first_service_step state - w_arrival_step w else ABSENT_STEP),
          u_completion_delay_steps =
            (if kind = OUTCOME_COMPLETED then q_terminal_step state - w_arrival_step w
             else ABSENT_STEP),
          u_admission_trace_sha256 = q_admission_trace_sha256 state,
          u_terminal_trace_sha256 = q_terminal_trace_sha256 state\<rparr>)"

section \<open>Summary\<close>

text \<open>
  \<open>_nearest_rank\<close>; the code rounds up a float quotient, which for the at most sixteen values here
  is the ceiling of the exact one.
\<close>

definition nearest_rank :: "int list \<Rightarrow> int \<Rightarrow> int" where
  "nearest_rank values percentile =
    (if values = [] then 0
     else let ordered = sort values;
              rank = max ((percentile * int (length ordered) + 99) div 100) 1
          in ordered ! nat (rank - 1))"

text \<open>The nested loop over pairs of fairness members.\<close>

fun fairness_error :: "int \<Rightarrow> (work_item \<times> run) list \<Rightarrow> int" where
  "fairness_error error [] = error"
| "fairness_error error ((left, left_state) # rest) =
     fairness_error
       (if w_fairness_member left then
          fold (\<lambda>(right, right_state) e.
            if w_fairness_member right then
              max e \<bar>q_fairness_quanta left_state * w_weight right
                     - q_fairness_quanta right_state * w_weight left\<bar>
            else e) rest error
        else error) rest"

record summary =
  z_admitted :: int
  z_rejected :: int
  z_completed :: int
  z_cancelled :: int
  z_timed_out :: int
  z_service_quanta :: int
  z_driver_steps :: int
  z_final_logical_tick :: int
  z_maximum_live_receipts :: int
  z_peak_host_bytes :: int
  z_maximum_wait_quanta :: int
  z_maximum_service_gap :: int
  z_fairness_cross_product_error :: int
  z_queue_delay :: "int list"
  z_completion_delay :: "int list"
  z_final_active :: int
  z_final_finished :: int
  z_final_active_reservations :: int
  z_final_committed_receipts :: int
  z_successful_commits :: int
  z_releases :: int
  z_bank_cancellations :: int
  z_bank_rejected_capacity :: int
  z_bank_rejected_slots :: int
  z_zero_orphan_ownership :: bool
  z_peak :: claim

text \<open>
  \<open>z_queue_delay\<close> and \<open>z_completion_delay\<close> are the four fields \<open>..._p50_steps\<close>, \<open>..._p95_steps\<close>,
  \<open>..._p99_steps\<close> and \<open>..._max_steps\<close> of each delay.
\<close>

definition delay_profile :: "int list \<Rightarrow> int list" where
  "delay_profile values =
    [nearest_rank values 50, nearest_rank values 95, nearest_rank values 99,
     if values = [] then 0 else max_list values]"

definition summary_words :: "summary \<Rightarrow> int list" where
  "summary_words z =
    [z_admitted z, z_rejected z, z_completed z, z_cancelled z, z_timed_out z, z_service_quanta z,
     z_driver_steps z, z_final_logical_tick z, z_maximum_live_receipts z, z_peak_host_bytes z,
     z_maximum_wait_quanta z, z_maximum_service_gap z, z_fairness_cross_product_error z]
    @ z_queue_delay z @ z_completion_delay z
    @ [z_final_active z, z_final_finished z, z_final_active_reservations z,
       z_final_committed_receipts z, z_successful_commits z, z_releases z, z_bank_cancellations z,
       z_bank_rejected_capacity z, z_bank_rejected_slots z, bool_word (z_zero_orphan_ownership z)]"

definition kind_count :: "int \<Rightarrow> outcome list \<Rightarrow> int" where
  "kind_count kind us = tally (\<lambda>u. u_kind u = kind) us"

definition present :: "int list \<Rightarrow> int list" where
  "present = filter (\<lambda>v. v \<noteq> ABSENT_STEP)"

definition make_summary :: "scenario \<Rightarrow> world \<Rightarrow> int \<Rightarrow> outcome list \<Rightarrow> summary" where
  "make_summary x y driver_steps us =
    \<lparr>z_admitted = tally (\<lambda>u. u_kind u \<noteq> OUTCOME_REJECTED) us,
     z_rejected = kind_count OUTCOME_REJECTED us,
     z_completed = kind_count OUTCOME_COMPLETED us,
     z_cancelled = kind_count OUTCOME_CANCELLED us,
     z_timed_out = kind_count OUTCOME_TIMED_OUT us,
     z_service_quanta = sum_list (map u_served_quanta us),
     z_driver_steps = driver_steps,
     z_final_logical_tick = y_logical_tick y,
     z_maximum_live_receipts = y_maximum_live y,
     z_peak_host_bytes = y_peak_host_bytes y,
     z_maximum_wait_quanta = max_list (map u_maximum_wait_quanta us),
     z_maximum_service_gap = (x_capacity x - 1) * x_max_weight x + 1,
     z_fairness_cross_product_error = fairness_error 0 (zip (x_items x) (y_runtime y)),
     z_queue_delay = delay_profile (present (map u_queue_delay_steps us)),
     z_completion_delay = delay_profile (present (map u_completion_delay_steps us)),
     z_final_active = 0, z_final_finished = 0, z_final_active_reservations = 0,
     z_final_committed_receipts = 0,
     z_successful_commits = y_successful_commits y, z_releases = y_releases y,
     z_bank_cancellations = 0, z_bank_rejected_capacity = 0, z_bank_rejected_slots = 0,
     z_zero_orphan_ownership = (list_all (\<lambda>v. v = 0) (claim_words (y_used y))
       \<and> list_all (\<lambda>s. s = None) (y_slots y) \<and> y_successful_commits y = y_releases y),
     z_peak = y_peak y\<rparr>"

section \<open>Digests\<close>

definition trace_sha256 :: "trace_record list \<Rightarrow> pressure_error + bytes" where
  "trace_sha256 trace =
    (if \<not> (0 < length trace \<and> int (length trace) \<le> MAXIMUM_TRACE_RECORDS) then Inl InvalidTraceCount
     else bindE (mapE u64P [TRACE_ABI, int (length trace)]) (\<lambda>head.
       bindE (mapE (\<lambda>e. bindE (mapE u64P (trace_words e)) (\<lambda>ps.
            bindE (digestP (e_record_sha256 e)) (\<lambda>root. Inr (ps @ [root])))) trace) (\<lambda>parts.
         Inr (sha_parts TRACE_DOMAIN (head @ concat parts)))))"

definition outcome_sha256 :: "outcome list \<Rightarrow> pressure_error + bytes" where
  "outcome_sha256 us =
    (if \<not> (0 < length us \<and> int (length us) \<le> MAXIMUM_ITEMS) then Inl InvalidOutcomeCount
     else bindE (mapE u64P [RESULT_ABI, int (length us)]) (\<lambda>head.
       bindE (mapE (\<lambda>u. bindE (mapE u64P (outcome_words u)) (\<lambda>ps.
            bindE (digestP (u_admission_trace_sha256 u)) (\<lambda>a.
            bindE (digestP (u_terminal_trace_sha256 u)) (\<lambda>t. Inr (ps @ [a, t]))))) us) (\<lambda>parts.
         Inr (sha_parts OUTCOME_DOMAIN (head @ concat parts)))))"

definition summary_sha256 :: "summary \<Rightarrow> pressure_error + bytes" where
  "summary_sha256 z =
     bindE (mapE u64P (claim_words (z_peak z))) (\<lambda>peak.
     bindE (mapE u64P (summary_words z)) (\<lambda>values.
     bindE (u64P SUMMARY_ABI) (\<lambda>abi.
       Inr (sha_parts SUMMARY_DOMAIN ([abi] @ values @ peak)))))"

section \<open>Results\<close>

record result =
  g_mode :: int
  g_scenario_sha256 :: bytes
  g_outcome_sha256 :: bytes
  g_trace_sha256 :: bytes
  g_summary_sha256 :: bytes
  g_summary :: summary
  g_outcomes :: "outcome list"
  g_trace :: "trace_record list"

definition check_outcome :: "nat \<times> outcome \<Rightarrow> pressure_error + unit" where
  "check_outcome = (\<lambda>(index, u).
     bindE (mapE u64P (outcome_words u)) (\<lambda>_.
       if u_ordinal u \<noteq> int index then Inl NoncanonicalOutcomes
       else if u_kind u \<notin> {OUTCOME_COMPLETED, OUTCOME_REJECTED, OUTCOME_CANCELLED, OUTCOME_TIMED_OUT}
          \<or> u_rejection_reason u \<notin> {REJECTION_NONE, REJECTION_NO_SLOT, REJECTION_DUPLICATE_TENANT,
               REJECTION_RESOURCE_LIMIT, REJECTION_PROJECTION_LIMIT, REJECTION_DEADLINE_INFEASIBLE}
          \<or> u_terminal_action u \<notin> {ACTION_NONE, ACTION_CANCEL, ACTION_TIMEOUT}
       then Inl InvalidOutcomeEnum
       else bindE (digestP (u_admission_trace_sha256 u)) (\<lambda>_.
         bindE (digestP (u_terminal_trace_sha256 u)) (\<lambda>_. Inr ()))))"

text \<open>One turn of the loop over the trace; its state is \<open>previous_step\<close>.\<close>

definition check_trace_record ::
  "nat \<Rightarrow> nat \<Rightarrow> int \<Rightarrow> nat \<times> trace_record \<Rightarrow> pressure_error + int" where
  "check_trace_record outcomes records previous_step = (\<lambda>(index, e).
     bindE (mapE u64P (trace_words e)) (\<lambda>_.
       if e_event_kind e \<notin> {EVENT_ADMISSION_ACCEPTED, EVENT_ADMISSION_REJECTED, EVENT_SERVICE,
               EVENT_CANCEL, EVENT_RETIRE, EVENT_CLOSE}
          \<or> e_rejection_reason e \<notin> {REJECTION_NONE, REJECTION_NO_SLOT, REJECTION_DUPLICATE_TENANT,
               REJECTION_RESOURCE_LIMIT, REJECTION_PROJECTION_LIMIT, REJECTION_DEADLINE_INFEASIBLE}
          \<or> e_terminal_action e \<notin> {ACTION_NONE, ACTION_CANCEL, ACTION_TIMEOUT}
       then Inl InvalidTraceEnum
       else if (e_event_kind e = EVENT_CLOSE \<and> (index \<noteq> records - 1 \<or> e_item_ordinal e \<noteq> ABSENT_ITEM))
          \<or> (e_event_kind e \<noteq> EVENT_CLOSE \<and> e_item_ordinal e \<ge> int outcomes)
       then Inl InvalidTraceItem
       else if index \<noteq> 0 \<and> e_driver_step e < previous_step then Inl TraceReordered
       else bindE (trace_record_sha256 e) (\<lambda>root.
         if e_record_sha256 e \<noteq> root then Inl InvalidTraceRecordRoot
         else Inr (e_driver_step e))))"

text \<open>The admission and terminal roots the trace gives one outcome.\<close>

definition trace_reference ::
  "int \<Rightarrow> bytes option \<times> bytes option \<Rightarrow> trace_record \<Rightarrow> pressure_error + bytes option \<times> bytes option" where
  "trace_reference ordinal = (\<lambda>(admission_root, terminal_root) e.
     if e_item_ordinal e \<noteq> ordinal then Inr (admission_root, terminal_root)
     else if e_event_kind e = EVENT_ADMISSION_ACCEPTED then
       if admission_root \<noteq> None then Inl DuplicateAdmissionTrace
       else Inr (Some (e_record_sha256 e), terminal_root)
     else if e_event_kind e = EVENT_ADMISSION_REJECTED then
       if admission_root \<noteq> None \<or> terminal_root \<noteq> None then Inl DuplicateRejectionTrace
       else Inr (Some (e_record_sha256 e), Some (e_record_sha256 e))
     else if e_event_kind e = EVENT_CANCEL \<or> e_event_kind e = EVENT_RETIRE then
       if terminal_root \<noteq> None then Inl DuplicateTerminalTrace
       else Inr (admission_root, Some (e_record_sha256 e))
     else if e_event_kind e = EVENT_CLOSE then Inl ItemScopedClose
     else Inr (admission_root, terminal_root))"

definition check_reference :: "trace_record list \<Rightarrow> outcome \<Rightarrow> pressure_error + unit" where
  "check_reference trace u =
     bindE (foldE (trace_reference (u_ordinal u)) (None, None) trace) (\<lambda>(admission_root, terminal_root).
       if admission_root \<noteq> Some (u_admission_trace_sha256 u)
          \<or> terminal_root \<noteq> Some (u_terminal_trace_sha256 u)
       then Inl TraceReferenceMismatch else Inr ())"

definition validate_result_structure :: "result \<Rightarrow> pressure_error + unit" where
  "validate_result_structure g =
    (let us = g_outcomes g; trace = g_trace g; z = g_summary g in
     if g_mode g \<noteq> MODE_OPEN_LOOP then Inl InvalidMode
     else bindE (mapE digestP [g_scenario_sha256 g, g_outcome_sha256 g, g_trace_sha256 g,
         g_summary_sha256 g]) (\<lambda>_.
       if \<not> (0 < length us \<and> int (length us) \<le> MAXIMUM_ITEMS) then Inl InvalidOutcomeCount
       else if \<not> (0 < length trace \<and> int (length trace) \<le> MAXIMUM_TRACE_RECORDS) then Inl InvalidTraceCount
       else bindE (outcome_sha256 us) (\<lambda>oroot.
         if g_outcome_sha256 g \<noteq> oroot then Inl InvalidOutcomeRoot
         else bindE (trace_sha256 trace) (\<lambda>troot.
           if g_trace_sha256 g \<noteq> troot then Inl InvalidTraceRoot
           else bindE (summary_sha256 z) (\<lambda>zroot.
             if g_summary_sha256 g \<noteq> zroot then Inl InvalidSummaryRoot
             else if \<not> z_zero_orphan_ownership z \<or> z_final_active z \<noteq> 0 \<or> z_final_finished z \<noteq> 0
               \<or> z_final_active_reservations z \<noteq> 0 \<or> z_final_committed_receipts z \<noteq> 0
               \<or> z_maximum_wait_quanta z > z_maximum_service_gap z
             then Inl InvalidFinalAccounting
             else bindE (mapE check_outcome (enumerate 0 us)) (\<lambda>_.
               bindE (foldE (check_trace_record (length us) (length trace)) 0 (enumerate 0 trace)) (\<lambda>_.
                 if e_event_kind (last trace) \<noteq> EVENT_CLOSE \<or> e_item_ordinal (last trace) \<noteq> ABSENT_ITEM
                 then Inl MissingClose
                 else bindE (mapE (check_reference trace) us) (\<lambda>_. Inr ()))))))))"

definition replay_scenario :: "scenario \<Rightarrow> pressure_error + result" where
  "replay_scenario scenario_value =
     bindE (validate_scenario scenario_value) (\<lambda>x.
     bindE (drive x (nat (x_max_driver_steps x)) 0 (world_start x)) (\<lambda>(y, driver_steps).
     bindE (append_trace (y_trace y)
        (trace_event driver_steps ABSENT_ITEM EVENT_CLOSE (y_logical_tick y) (y_logical_tick y)))
       (\<lambda>(trace, _).
     bindE (mapE make_outcome (zip (x_items x) (y_runtime y))) (\<lambda>us.
       let z = make_summary x y driver_steps us in
       bindE (scenario_sha256 x) (\<lambda>sroot.
       bindE (outcome_sha256 us) (\<lambda>oroot.
       bindE (trace_sha256 trace) (\<lambda>troot.
       bindE (summary_sha256 z) (\<lambda>zroot.
         let g = \<lparr>g_mode = x_mode x, g_scenario_sha256 = sroot, g_outcome_sha256 = oroot,
               g_trace_sha256 = troot, g_summary_sha256 = zroot, g_summary = z, g_outcomes = us,
               g_trace = trace\<rparr>
         in bindE (validate_result_structure g) (\<lambda>_. Inr g)))))))))"

definition validate_result :: "scenario \<Rightarrow> result \<Rightarrow> pressure_error + result" where
  "validate_result scenario_value g =
     bindE (validate_scenario scenario_value) (\<lambda>x.
     bindE (validate_result_structure g) (\<lambda>_.
     bindE (scenario_sha256 x) (\<lambda>root.
       if g_scenario_sha256 g \<noteq> root then Inl ForeignScenario
       else bindE (replay_scenario x) (\<lambda>expected.
         if g \<noteq> expected then Inl ContradictsReplay else Inr g))))"

section \<open>The result wire\<close>

definition required_result_bytes :: "int \<Rightarrow> int \<Rightarrow> pressure_error + nat" where
  "required_result_bytes item_count trace_count =
    (if \<not> (0 < item_count \<and> item_count \<le> MAXIMUM_ITEMS) then Inl InvalidOutcomeCount
     else if \<not> (0 < trace_count \<and> trace_count \<le> MAXIMUM_TRACE_RECORDS) then Inl InvalidTraceCount
     else Inr (RESULT_HEADER_BYTES + nat item_count * OUTCOME_RECORD_BYTES
       + nat trace_count * TRACE_RECORD_BYTES + RESULT_FOOTER_BYTES))"

fun encode_outcomes :: "nat \<Rightarrow> outcome list \<Rightarrow> bytes \<Rightarrow> pressure_error + nat \<times> bytes" where
  "encode_outcomes offset [] output = Inr (offset, output)"
| "encode_outcomes offset (u # us) output =
     bindE (write_u64s offset (outcome_words u) output) (\<lambda>output.
       encode_outcomes (offset + OUTCOME_RECORD_BYTES) us
         (splice32 (offset + 88) [u_admission_trace_sha256 u, u_terminal_trace_sha256 u] output))"

fun encode_trace :: "nat \<Rightarrow> trace_record list \<Rightarrow> bytes \<Rightarrow> pressure_error + bytes" where
  "encode_trace offset [] output = Inr output"
| "encode_trace offset (e # es) output =
     bindE (write_u64s offset (trace_words e) output) (\<lambda>output.
       encode_trace (offset + TRACE_RECORD_BYTES) es
         (splice (offset + 80) 32 (e_record_sha256 e) output))"

definition encode_result :: "result \<Rightarrow> pressure_error + bytes" where
  "encode_result g =
     bindE (validate_result_structure g) (\<lambda>_.
       let us = g_outcomes g; trace = g_trace g in
       bindE (required_result_bytes (int (length us)) (int (length trace))) (\<lambda>size.
         let output = splice 0 8 RESULT_MAGIC (zeros size) in
         bindE (write_u64s 8 [RESULT_ABI, int size, 0, g_mode g, int (length us), int (length trace)]
           output) (\<lambda>output.
         bindE (write_u64s 56 (summary_words (g_summary g)) output) (\<lambda>output.
           let output = splice32 312 [g_scenario_sha256 g, g_outcome_sha256 g, g_trace_sha256 g,
             g_summary_sha256 g] output in
           bindE (write_u64s 440 (claim_words (z_peak (g_summary g))) output) (\<lambda>output.
           bindE (encode_outcomes RESULT_HEADER_BYTES us output) (\<lambda>(offset, output).
           bindE (encode_trace offset trace output) (\<lambda>output.
             Inr (splice (size - 32) 32
               (sha_parts RESULT_DOMAIN [take (size - 32) output]) output))))))))"

definition parse_summary :: "bytes \<Rightarrow> summary" where
  "parse_summary encoded =
    (let v = unpack_u64s 31 encoded 56 in
     \<lparr>z_admitted = v ! 0, z_rejected = v ! 1, z_completed = v ! 2, z_cancelled = v ! 3,
      z_timed_out = v ! 4, z_service_quanta = v ! 5, z_driver_steps = v ! 6,
      z_final_logical_tick = v ! 7, z_maximum_live_receipts = v ! 8, z_peak_host_bytes = v ! 9,
      z_maximum_wait_quanta = v ! 10, z_maximum_service_gap = v ! 11,
      z_fairness_cross_product_error = v ! 12,
      z_queue_delay = [v ! 13, v ! 14, v ! 15, v ! 16],
      z_completion_delay = [v ! 17, v ! 18, v ! 19, v ! 20],
      z_final_active = v ! 21, z_final_finished = v ! 22, z_final_active_reservations = v ! 23,
      z_final_committed_receipts = v ! 24, z_successful_commits = v ! 25, z_releases = v ! 26,
      z_bank_cancellations = v ! 27, z_bank_rejected_capacity = v ! 28,
      z_bank_rejected_slots = v ! 29, z_zero_orphan_ownership = (v ! 30 \<noteq> 0),
      z_peak = claim_at encoded 440\<rparr>)"

definition decode_outcome :: "bytes \<Rightarrow> nat \<Rightarrow> pressure_error + outcome" where
  "decode_outcome encoded offset =
    (if slice (offset + 152) 8 encoded \<noteq> zeros 8 then Inl OutcomeReserved
     else let v = unpack_u64s 11 encoded offset in Inr
       \<lparr>u_ordinal = v ! 0, u_kind = v ! 1, u_rejection_reason = v ! 2, u_terminal_action = v ! 3,
        u_admitted_step = v ! 4, u_first_service_step = v ! 5, u_terminal_step = v ! 6,
        u_served_quanta = v ! 7, u_maximum_wait_quanta = v ! 8, u_queue_delay_steps = v ! 9,
        u_completion_delay_steps = v ! 10,
        u_admission_trace_sha256 = slice (offset + 88) 32 encoded,
        u_terminal_trace_sha256 = slice (offset + 120) 32 encoded\<rparr>)"

definition parse_trace_record :: "bytes \<Rightarrow> nat \<Rightarrow> trace_record" where
  "parse_trace_record encoded offset =
    (let v = unpack_u64s 10 encoded offset in
     \<lparr>e_driver_step = v ! 0, e_item_ordinal = v ! 1, e_event_kind = v ! 2,
      e_rejection_reason = v ! 3, e_terminal_action = v ! 4, e_logical_tick_before = v ! 5,
      e_logical_tick_after = v ! 6, e_remaining_before = v ! 7, e_remaining_after = v ! 8,
      e_wait_quanta = v ! 9, e_record_sha256 = slice (offset + 80) 32 encoded\<rparr>)"

definition decode_result :: "bytes \<Rightarrow> pressure_error + result" where
  "decode_result encoded =
    (if length encoded < RESULT_HEADER_BYTES + 32
        \<or> slice 0 8 encoded \<noteq> RESULT_MAGIC
        \<or> read_u64 encoded 8 \<noteq> RESULT_ABI
        \<or> read_u64 encoded 16 \<noteq> int (length encoded)
        \<or> read_u64 encoded 24 \<noteq> 0
        \<or> slice 304 8 encoded \<noteq> zeros 8
        \<or> slice 520 24 encoded \<noteq> zeros 24
        \<or> drop (length encoded - 32) encoded
            \<noteq> sha_parts RESULT_DOMAIN [take (length encoded - 32) encoded]
     then Inl ResultWire
     else let outcome_count = read_u64 encoded 40; trace_count = read_u64 encoded 48 in
       bindE (required_result_bytes outcome_count trace_count) (\<lambda>size.
         if length encoded \<noteq> size then Inl ResultLength
         else if read_u64 encoded 296 \<notin> {0, 1} then Inl ZeroOrphanMarker
         else bindE (mapE (\<lambda>i. decode_outcome encoded (RESULT_HEADER_BYTES + i * OUTCOME_RECORD_BYTES))
              [0..<nat outcome_count]) (\<lambda>us.
           let start = RESULT_HEADER_BYTES + nat outcome_count * OUTCOME_RECORD_BYTES;
               g = \<lparr>g_mode = read_u64 encoded 32, g_scenario_sha256 = slice 312 32 encoded,
                 g_outcome_sha256 = slice 344 32 encoded, g_trace_sha256 = slice 376 32 encoded,
                 g_summary_sha256 = slice 408 32 encoded, g_summary = parse_summary encoded,
                 g_outcomes = us,
                 g_trace = map (\<lambda>i. parse_trace_record encoded (start + i * TRACE_RECORD_BYTES))
                   [0..<nat trace_count]\<rparr>
           in bindE (validate_result_structure g) (\<lambda>_. Inr g))))"

end
