(* ===== verification/Resource_Account.thy ===== *)
theory Resource_Account
  imports Prelude
begin

text \<open>
  Accounting for resources held by slots: a total that is charged when a slot is filled and refunded
  when it is freed. The locale \<open>resource_account\<close> states what charging and refunding do to each of
  finitely many amounts; a total that is balanced against the slots stays so, refunding an occupied
  slot cannot fail, and a balanced total of empty slots is zero.
\<close>

lemma sum_list_update_int:
  "k < length (xs :: int list) \<Longrightarrow> sum_list (xs[k := v]) = sum_list xs - xs ! k + v"
proof (induction xs arbitrary: k)
  case (Cons x xs)
  then show ?case by (cases k) simp_all
qed simp

locale resource_account =
  fixes amount :: "'r \<Rightarrow> nat \<Rightarrow> int"
    and dims :: nat
    and charge :: "'r \<Rightarrow> 'r \<Rightarrow> 'e + 'r"
    and refund :: "'r \<Rightarrow> 'r \<Rightarrow> 'e + 'r"
  assumes charge_amount: "charge u c = Inr v \<Longrightarrow> i < dims \<Longrightarrow> amount v i = amount u i + amount c i"
    and refund_amount: "refund u c = Inr v \<Longrightarrow> i < dims \<Longrightarrow> amount v i = amount u i - amount c i"
    and refund_defined: "(\<And>i. i < dims \<Longrightarrow> amount c i \<le> amount u i) \<Longrightarrow> \<exists>v. refund u c = Inr v"
    and amount_ext: "(\<And>i. i < dims \<Longrightarrow> amount u i = amount v i) \<Longrightarrow> u = v"
begin

definition held :: "('s \<Rightarrow> 'r) \<Rightarrow> 's option list \<Rightarrow> nat \<Rightarrow> int" where
  "held f slots i = sum_list (map (\<lambda>s. case s of None \<Rightarrow> 0 | Some t \<Rightarrow> amount (f t) i) slots)"

definition balanced :: "('s \<Rightarrow> 'r) \<Rightarrow> 'r \<Rightarrow> 's option list \<Rightarrow> bool" where
  "balanced f u slots \<longleftrightarrow> (\<forall>i < dims. amount u i = held f slots i)
     \<and> (\<forall>t. Some t \<in> set slots \<longrightarrow> (\<forall>i < dims. 0 \<le> amount (f t) i))"

lemma held_update:
  "k < length slots \<Longrightarrow> held f (slots[k := s]) i = held f slots i
     - (case slots ! k of None \<Rightarrow> 0 | Some t \<Rightarrow> amount (f t) i)
     + (case s of None \<Rightarrow> 0 | Some t \<Rightarrow> amount (f t) i)"
  by (simp add: held_def map_update sum_list_update_int)

lemma balanced_charge:
  assumes b: "balanced f u slots" and k: "k < length slots" "slots ! k = None"
    and c: "charge u (f t) = Inr v" and p: "\<forall>i < dims. 0 \<le> amount (f t) i"
  shows "balanced f v (slots[k := Some t])"
  using b p unfolding balanced_def
  by (auto simp: held_update [OF k(1)] k(2) charge_amount [OF c]
      dest!: subsetD [OF set_update_subset_insert])

lemma balanced_refund:
  assumes b: "balanced f u slots" and k: "k < length slots" "slots ! k = Some t"
  obtains v where "refund u (f t) = Inr v" "balanced f v (slots[k := None])"
proof -
  have le: "amount (f t) i \<le> amount u i" if i: "i < dims" for i
  proof -
    have "0 \<le> held f (slots[k := None]) i"
      unfolding held_def using b i
      by (intro sum_list_nonneg)
        (auto simp: balanced_def dest!: subsetD [OF set_update_subset_insert] split: option.splits)
    then show ?thesis using b i by (simp add: balanced_def held_update [OF k(1)] k(2))
  qed
  then obtain v where v: "refund u (f t) = Inr v" using refund_defined by blast
  moreover have "balanced f v (slots[k := None])"
    using b unfolding balanced_def
    by (auto simp: held_update [OF k(1)] k(2) refund_amount [OF v]
        dest!: subsetD [OF set_update_subset_insert])
  ultimately show ?thesis using that by blast
qed

lemma balanced_replace:
  assumes b: "balanced f u slots" and k: "k < length slots" "slots ! k = Some t" and f: "f t' = f t"
  shows "balanced f u (slots[k := Some t'])"
proof -
  have "Some t \<in> set slots" using k by (metis nth_mem)
  with b f show ?thesis unfolding balanced_def
    by (auto simp: held_update [OF k(1)] k(2) dest!: subsetD [OF set_update_subset_insert])
qed

lemma balanced_empty: "balanced f u slots \<Longrightarrow> \<forall>s \<in> set slots. s = None \<Longrightarrow> i < dims \<Longrightarrow> amount u i = 0"
proof -
  assume b: "balanced f u slots" and n: "\<forall>s \<in> set slots. s = None" and i: "i < dims"
  from n have "held f slots i = 0" by (induction slots) (auto simp: held_def)
  with b i show ?thesis by (simp add: balanced_def)
qed

lemma balanced_start: "\<forall>i < dims. amount u i = 0 \<Longrightarrow> balanced f u (replicate n None)"
  by (simp add: balanced_def held_def sum_list_replicate)

text \<open>Refunding what was just charged restores the total.\<close>

lemma refund_charge: "charge u c = Inr v \<Longrightarrow> refund v c = Inr u' \<Longrightarrow> u' = u"
  by (rule amount_ext) (simp add: charge_amount refund_amount)

end

end
