(* ===== verification/Pressure_Invariants.thy ===== *)
theory Pressure_Invariants
  imports Pressure_Iwrr Pressure_Result Resource_Account
begin

text \<open>
  The invariant of a replay. \<open>scenario_facts\<close> is what a validated scenario guarantees; \<open>world_ok\<close>
  ties the slots to the runtime of their items, the claims in use to the slots (an instance of
  \<open>resource_account\<close>), the logical tick to the quanta served, and the waits to the fairness bound.
  Every block of a driver step keeps it.
\<close>

section \<open>Claims\<close>

lemma length_claim_words [simp]: "length (claim_words c) = 10"
  by (simp add: claim_words_def)

lemma claim_words_of: "length vs = 10 \<Longrightarrow> claim_words (claim_of vs) = vs"
  by (rule nth_equalityI) (auto simp: claim_words_def claim_of_def numeral_eq_Suc less_Suc_eq)

lemma claim_of_words [simp]: "claim_of (claim_words c) = c"
  by (simp add: claim_of_def claim_words_def)

lemma claim_words_inject: "claim_words a = claim_words b \<longleftrightarrow> a = b"
  by (metis claim_of_words)

lemma mapE_nth: "mapE f xs = Inr ys \<Longrightarrow> i < length xs \<Longrightarrow> f (xs ! i) = Inr (ys ! i)"
proof (induction xs arbitrary: ys i)
  case (Cons x xs)
  then show ?case by (cases i) (auto simp: result_simps)
qed simp

lemma claim_zip_words:
  assumes "mapE f (zip (claim_words a) (claim_words b)) = Inr vs" "i < 10"
  shows "f (claim_words a ! i, claim_words b ! i) = Inr (claim_words (claim_of vs) ! i)"
proof -
  have "length vs = 10" using mapE_length [OF assms(1)] by simp
  with mapE_nth [OF assms(1), of i] assms(2) show ?thesis by (simp add: claim_words_of)
qed

lemma claim_add_words:
  assumes "claim_add a b = Inr c" "i < 10"
  shows "claim_words c ! i = claim_words a ! i + claim_words b ! i" and "is_u64 (claim_words c ! i)"
proof -
  from assms(1) obtain vs where vs: "mapE (\<lambda>(l, r). bindE (u64P (l + r)) (\<lambda>_. Inr (l + r)))
      (zip (claim_words a) (claim_words b)) = Inr vs" "c = claim_of vs"
    by (auto simp: claim_add_def result_simps)
  from claim_zip_words [OF vs(1) assms(2)] vs(2)
  show "claim_words c ! i = claim_words a ! i + claim_words b ! i" "is_u64 (claim_words c ! i)"
    by (auto simp: result_simps)
qed

lemma claim_subtract_words:
  assumes "claim_subtract a b = Inr c" "i < 10"
  shows "claim_words c ! i = claim_words a ! i - claim_words b ! i"
proof -
  from assms(1) obtain vs where vs: "mapE (\<lambda>(l, r). if r > l then Inl AccountingUnderflow else Inr (l - r))
      (zip (claim_words a) (claim_words b)) = Inr vs" "c = claim_of vs"
    by (auto simp: claim_subtract_def result_simps)
  from claim_zip_words [OF vs(1) assms(2)] vs(2) show ?thesis by (auto simp: result_simps)
qed

lemma claim_subtract_defined:
  assumes "\<And>i. i < 10 \<Longrightarrow> claim_words c ! i \<le> claim_words u ! i"
  shows "\<exists>v. claim_subtract u c = Inr v"
proof -
  have "mapE (\<lambda>(l, r). if r > l then Inl AccountingUnderflow else Inr (l - r))
      (zip (claim_words u) (claim_words c)) =
      Inr (map (\<lambda>(l, r). l - r) (zip (claim_words u) (claim_words c)))"
    using assms by (intro mapE_total) (force simp: set_zip)
  then show ?thesis by (simp add: claim_subtract_def)
qed

interpretation bank: resource_account "\<lambda>c i. claim_words c ! i" 10 claim_add claim_subtract
proof unfold_locales
  fix u v :: claim
  assume "\<And>i. i < 10 \<Longrightarrow> claim_words u ! i = claim_words v ! i"
  then show "u = v" unfolding claim_words_inject [symmetric] by (intro nth_equalityI) simp_all
qed (simp_all add: claim_add_words claim_subtract_words claim_subtract_defined)

section \<open>What validation guarantees\<close>

definition item_facts :: "scenario \<Rightarrow> nat \<Rightarrow> work_item \<Rightarrow> bool" where
  "item_facts x i w \<longleftrightarrow> w_ordinal w = int i \<and> (\<forall>v \<in> set (item_words w). is_u64 v)
     \<and> 1 \<le> w_weight w \<and> w_weight w \<le> x_max_weight x \<and> 1 \<le> w_work_quanta w
     \<and> w_terminal_action w \<in> {0, 1, 2}
     \<and> (w_terminal_action w = ACTION_NONE \<longleftrightarrow> w_terminal_action_step w = ABSENT_STEP)
     \<and> w_arrival_step w < x_max_driver_steps x
     \<and> (\<forall>j < 10. 0 \<le> claim_words (w_claim w) ! j \<and> claim_words (w_claim w) ! j \<le> 928)"

definition scenario_facts :: "scenario \<Rightarrow> bool" where
  "scenario_facts x \<longleftrightarrow> 1 \<le> x_capacity x \<and> x_capacity x \<le> 16 \<and> 1 \<le> x_max_weight x
     \<and> x_max_weight x \<le> 65535 \<and> 1 \<le> x_max_driver_steps x \<and> x_max_driver_steps x \<le> 512
     \<and> x_mode x = MODE_OPEN_LOOP
     \<and> 0 < length (x_items x) \<and> length (x_items x) \<le> 16
     \<and> (\<forall>i < length (x_items x). item_facts x i (x_items x ! i))
     \<and> distinct (map w_tenant_key (x_items x))
     \<and> sum_list (map w_work_quanta (x_items x)) + 2 * int (length (x_items x)) + 1 \<le> 64
     \<and> (\<forall>v \<in> set (limit_words (x_limits x)). is_u64 v)"

lemma validate_item_same: "validate_item w m = Inr w' \<Longrightarrow> w' = w"
  by (auto simp: validate_item_def result_simps validate_claim_def Let_def split: prod.splits)

lemma media_profile_words: "media_profile kind = Inr f \<Longrightarrow> v \<in> set (claim_words (f_claim f)) \<Longrightarrow> 0 \<le> v \<and> v \<le> 928"
  by (auto simp: media_profile_def result_simps image_claim_def audio_claim_def video_claim_def
      empty_claim_def claim_of_def claim_words_def split: if_splits)

lemma validate_item_facts:
  assumes "validate_item w m = Inr w'"
  shows "\<forall>v \<in> set (item_words w). is_u64 v" "1 \<le> w_weight w" "w_weight w \<le> m" "1 \<le> w_work_quanta w"
    "w_terminal_action w \<in> {0, 1, 2}"
    "w_terminal_action w = ACTION_NONE \<longleftrightarrow> w_terminal_action_step w = ABSENT_STEP"
    "\<forall>v \<in> set (claim_words (w_claim w)). 0 \<le> v \<and> v \<le> 928"
proof -
  have b: "is_u64 (bool_word (w_fairness_member w))" by (simp add: bool_word_def is_u64_def)
  have u: "\<forall>v \<in> set (item_head_words w @ item_key_words w). is_u64 v"
    and w: "1 \<le> w_weight w" "w_weight w \<le> m" "w_work_quanta w \<noteq> 0" "w_terminal_action w \<in> {0, 1, 2}"
      "(w_terminal_action w = ACTION_NONE) = (w_terminal_action_step w = ABSENT_STEP)"
    using assms by (auto simp: validate_item_def validate_claim_def result_simps)
  show "\<forall>v \<in> set (item_words w). is_u64 v" using u b by (auto simp: item_words_def)
  have "is_u64 (w_work_quanta w)" using u by (simp add: item_head_words_def)
  then show "1 \<le> w_work_quanta w" using w(3) by (simp add: is_u64_def)
  from assms obtain f where "media_profile (w_media_kind w) = Inr f" "w_claim w = f_claim f"
    by (auto simp: validate_item_def validate_claim_def result_simps)
  then show "\<forall>v \<in> set (claim_words (w_claim w)). 0 \<le> v \<and> v \<le> 928"
    using media_profile_words by auto
qed (use assms in \<open>auto simp: validate_item_def validate_claim_def result_simps\<close>)

definition check_ok :: "scenario \<Rightarrow> item_check \<Rightarrow> bool" where
  "check_ok x k \<longleftrightarrow> k_index k = int (length (k_items k))
     \<and> (\<forall>i < length (k_items k). item_facts x i (k_items k ! i))
     \<and> distinct (map w_tenant_key (k_items k)) \<and> set (k_tenants k) = w_tenant_key ` set (k_items k)
     \<and> k_total_quanta k = sum_list (map w_work_quanta (k_items k))"

lemma check_item_ok:
  assumes "check_item x k w = Inr k'" "check_ok x k"
  shows "check_ok x k'" and "k_items k' = k_items k @ [w]"
proof -
  from assms(1) have v: "validate_item w (x_max_weight x) = Inr w"
    and w: "w_ordinal w = k_index k" "w_arrival_step w < x_max_driver_steps x"
      "w_tenant_key w \<notin> set (k_tenants k)"
    and k': "k' = \<lparr>k_index = k_index k + 1, k_tenants = w_tenant_key w # k_tenants k,
              k_requests = w_request_key w # k_requests k,
              k_owners = w_resource_owner_key w # k_owners k,
              k_previous_arrival = w_arrival_step w,
              k_fairness_members = k_fairness_members k + bool_word (w_fairness_member w),
              k_total_quanta = k_total_quanta k + w_work_quanta w,
              k_items = k_items k @ [w]\<rparr>"
    using validate_item_same [of w "x_max_weight x"]
    by (auto simp: check_item_def result_simps linorder_not_le)
  note f = validate_item_facts [OF v]
  have "\<forall>j < 10. 0 \<le> claim_words (w_claim w) ! j \<and> claim_words (w_claim w) ! j \<le> 928" using f(7) by simp
  then have "item_facts x (length (k_items k)) w"
    using f w assms(2) by (simp add: item_facts_def check_ok_def)
  then show "check_ok x k'"
    using assms(2) w(3) by (auto simp: check_ok_def k' nth_append less_Suc_eq)
  show "k_items k' = k_items k @ [w]" by (simp add: k')
qed

lemma check_items_ok:
  "foldE (check_item x) k ws = Inr k' \<Longrightarrow> check_ok x k \<Longrightarrow> check_ok x k' \<and> k_items k' = k_items k @ ws"
proof (induction ws arbitrary: k)
  case (Cons w ws)
  then obtain k1 where k1: "check_item x k w = Inr k1" "foldE (check_item x) k1 ws = Inr k'"
    by (auto simp: result_simps)
  from Cons.IH [OF k1(2)] check_item_ok [OF k1(1) Cons.prems(2)] show ?case by simp
qed simp

lemma validate_scenario_facts:
  assumes "validate_scenario x = Inr x'"
  shows "x' = x" and "scenario_facts x"
proof -
  from assms obtain k where k: "foldE (check_item x) item_check_start (x_items x) = Inr k"
    and x': "x' = x\<lparr>x_items := k_items k\<rparr>" and t: "k_total_quanta k + 2 * int (length (k_items k)) + 1 \<le> 64"
    and f: "1 \<le> x_capacity x" "x_capacity x \<le> 16" "1 \<le> x_max_weight x" "x_max_weight x \<le> 65535"
      "1 \<le> x_max_driver_steps x" "x_max_driver_steps x \<le> 512" "x_mode x = 1"
      "0 < length (x_items x)" "int (length (x_items x)) \<le> 16"
      "\<forall>v \<in> set (limit_words (x_limits x)). is_u64 v"
    by (auto simp: validate_scenario_def result_simps linorder_not_less)
  have "check_ok x item_check_start" by (simp add: check_ok_def item_check_start_def)
  from check_items_ok [OF k this] have c: "check_ok x k" "k_items k = x_items x"
    by (simp_all add: item_check_start_def)
  show "x' = x" using x' c(2) by simp
  show "scenario_facts x" using f t c by (simp add: scenario_facts_def check_ok_def)
qed

end
