(* ===== verification/Pressure_World.thy ===== *)
theory Pressure_World
  imports Pressure_Invariants
begin

text \<open>
  The invariant of a replay, \<open>world_ok\<close>: the slots and the runs of the items are bound to each other,
  the claims in use are those of the slots and fit the limits, the tick counts the quanta served, the
  trace has one record per admission, quantum and end, and every wait stays within the service gap.
  The four ways a replay changes its state keep it: rejecting an item, filling a slot, vacating a
  slot and serving a quantum.
\<close>

section \<open>The invariant\<close>

abbreviation slot_count :: "scenario \<Rightarrow> nat" where "slot_count x \<equiv> nat (x_capacity x)"

definition service_gap :: "scenario \<Rightarrow> int" where
  "service_gap x = (x_capacity x - 1) * x_max_weight x + 1"

definition slot_bound :: "scenario \<Rightarrow> run list \<Rightarrow> nat \<Rightarrow> slot \<Rightarrow> bool" where
  "slot_bound x runs k t \<longleftrightarrow> t_item_index t < length (x_items x)
     \<and> q_state (runs ! t_item_index t) = Active \<and> q_slot_index (runs ! t_item_index t) = k \<and> t_active t
     \<and> t_tenant_key t = w_tenant_key (x_items x ! t_item_index t)
     \<and> t_weight t = w_weight (x_items x ! t_item_index t)
     \<and> t_claim t = w_claim (x_items x ! t_item_index t)
     \<and> t_remaining t = w_work_quanta (x_items x ! t_item_index t) - q_served_quanta (runs ! t_item_index t)
     \<and> 0 \<le> t_remaining t"

definition ended :: "work_item \<Rightarrow> run \<Rightarrow> bool" where
  "ended w r \<longleftrightarrow>
     q_outcome r = Some OUTCOME_COMPLETED \<and> q_served_quanta r = w_work_quanta w
       \<and> q_rejection_reason r = REJECTION_NONE
   \<or> q_outcome r = Some OUTCOME_REJECTED \<and> q_served_quanta r = 0
       \<and> 1 \<le> q_rejection_reason r \<and> q_rejection_reason r \<le> 5
   \<or> w_terminal_action w = ACTION_CANCEL \<and> q_outcome r = Some OUTCOME_CANCELLED
       \<and> q_served_quanta r < w_work_quanta w \<and> q_rejection_reason r = REJECTION_NONE
   \<or> w_terminal_action w = ACTION_TIMEOUT \<and> q_outcome r = Some OUTCOME_TIMED_OUT
       \<and> q_served_quanta r < w_work_quanta w \<and> q_rejection_reason r = REJECTION_NONE"

definition run_bound :: "scenario \<Rightarrow> slot option list \<Rightarrow> nat \<Rightarrow> run \<Rightarrow> bool" where
  "run_bound x slots i r \<longleftrightarrow> 0 \<le> q_served_quanta r \<and> q_served_quanta r \<le> w_work_quanta (x_items x ! i)
     \<and> (case q_state r of
          Pending \<Rightarrow> q_served_quanta r = 0 \<and> q_rejection_reason r = REJECTION_NONE
        | Active \<Rightarrow> q_rejection_reason r = REJECTION_NONE \<and> q_slot_index r < length slots
            \<and> (\<exists>t. slots ! q_slot_index r = Some t \<and> t_item_index t = i)
        | Terminal \<Rightarrow> ended (x_items x ! i) r)"

definition linked :: "scenario \<Rightarrow> slot option list \<Rightarrow> run list \<Rightarrow> bool" where
  "linked x slots runs \<longleftrightarrow>
     length slots = slot_count x \<and> length runs = length (x_items x)
     \<and> (\<forall>k t. k < length slots \<longrightarrow> slots ! k = Some t \<longrightarrow> slot_bound x runs k t)
     \<and> (\<forall>i < length runs. run_bound x slots i (runs ! i))"

definition gap_of :: "scenario \<Rightarrow> nat \<Rightarrow> int \<Rightarrow> nat \<Rightarrow> int \<Rightarrow> int" where
  "gap_of x k w cursor level = gap_left (x_max_weight x) (x_capacity x) (int k) w (int cursor) level"

definition gaps :: "scenario \<Rightarrow> slot option list \<Rightarrow> nat \<Rightarrow> int \<Rightarrow> int \<Rightarrow> bool" where
  "gaps x slots cursor level tick \<longleftrightarrow> cursor \<le> slot_count x \<and> 1 \<le> level \<and> level \<le> x_max_weight x
     \<and> (\<forall>k t. k < length slots \<longrightarrow> slots ! k = Some t \<longrightarrow> t_last_service_tick t \<le> tick
         \<and> tick - t_last_service_tick t + gap_of x k (t_weight t) cursor level < service_gap x)"

definition run_events :: "run \<Rightarrow> int" where
  "run_events r = (case q_state r of Pending \<Rightarrow> 0 | Active \<Rightarrow> 1 + q_served_quanta r
     | Terminal \<Rightarrow> if q_outcome r = Some OUTCOME_REJECTED then 1 else 2 + q_served_quanta r)"

definition counted :: "world \<Rightarrow> bool" where
  "counted y \<longleftrightarrow> y_logical_tick y = sum_list (map q_served_quanta (y_runtime y))
     \<and> y_successful_commits y = y_releases y + live (y_slots y)
     \<and> int (length (y_trace y)) = sum_list (map run_events (y_runtime y))"

definition host_of :: "claim \<Rightarrow> int" where
  "host_of c = sum_list (take 7 (claim_words c))"

definition peaks_ok :: "scenario \<Rightarrow> world \<Rightarrow> bool" where
  "peaks_ok x y \<longleftrightarrow>
     (\<forall>j < 10. claim_words (y_used y) ! j \<le> claim_words (y_peak y) ! j
        \<and> claim_words (y_peak y) ! j \<le> claim_words (m_fields (x_limits x)) ! j)
     \<and> host_of (y_used y) \<le> y_peak_host_bytes y \<and> y_peak_host_bytes y \<le> m_host_bytes (x_limits x)
     \<and> live (y_slots y) \<le> y_maximum_live y \<and> y_maximum_live y \<le> x_capacity x"

definition waits_ok :: "scenario \<Rightarrow> run list \<Rightarrow> bool" where
  "waits_ok x runs \<longleftrightarrow> (\<forall>r \<in> set runs. 0 \<le> q_maximum_wait_quanta r \<and> q_maximum_wait_quanta r \<le> service_gap x)"

definition world_ok :: "scenario \<Rightarrow> world \<Rightarrow> bool" where
  "world_ok x y \<longleftrightarrow> linked x (y_slots y) (y_runtime y)
     \<and> bank.balanced t_claim (y_used y) (y_slots y)
     \<and> gaps x (y_slots y) (y_cursor y) (y_level y) (y_logical_tick y)
     \<and> counted y \<and> peaks_ok x y \<and> waits_ok x (y_runtime y)"

lemmas world_defs = world_ok_def linked_def gaps_def counted_def peaks_ok_def waits_ok_def

section \<open>Links\<close>

lemma linked_update:
  assumes l: "linked x slots runs" and k: "k < length slots" and i: "i < length runs"
    and m: "slots ! k = None \<and> q_state (runs ! i) \<noteq> Active \<or> (\<exists>t. slots ! k = Some t \<and> t_item_index t = i)"
    and r: "run_bound x (slots[k := s]) i r"
    and s: "\<And>t. s = Some t \<Longrightarrow> slot_bound x (runs[i := r]) k t"
  shows "linked x (slots[k := s]) (runs[i := r])"
proof -
  have other: "t_item_index t \<noteq> i" if "k' < length slots" "k' \<noteq> k" "slots ! k' = Some t" for k' t
  proof
    assume "t_item_index t = i"
    then have "q_state (runs ! i) = Active" "q_slot_index (runs ! i) = k'"
      using l that by (auto simp: linked_def slot_bound_def)
    moreover from this m obtain t' where "slots ! k = Some t'" "t_item_index t' = i" by auto
    then have "q_slot_index (runs ! i) = k" using l k by (auto simp: linked_def slot_bound_def)
    ultimately show False using that by simp
  qed
  have slots: "slot_bound x (runs[i := r]) k' t" if "k' < length slots" "slots[k := s] ! k' = Some t" for k' t
  proof (cases "k' = k")
    case False
    with that have t: "slots ! k' = Some t" by simp
    then have "slot_bound x runs k' t" using l that(1) by (simp add: linked_def)
    with other [OF that(1) False t] show ?thesis by (simp add: slot_bound_def)
  qed (use s that k in simp)
  have runs: "run_bound x (slots[k := s]) i' (runs[i := r] ! i')" if i': "i' < length runs" for i'
  proof (cases "i' = i")
    case False
    have b: "run_bound x slots i' (runs ! i')" using l i' by (simp add: linked_def)
    have "q_slot_index (runs ! i') \<noteq> k" if a: "q_state (runs ! i') = Active"
    proof
      assume "q_slot_index (runs ! i') = k"
      with b a obtain t where "slots ! k = Some t" "t_item_index t = i'" by (auto simp: run_bound_def)
      with m False show False by auto
    qed
    with b False show ?thesis by (simp add: run_bound_def split: run_state.splits)
  qed (use r i in simp)
  from slots runs l show ?thesis by (simp add: linked_def)
qed

lemma linked_run_update:
  assumes l: "linked x slots runs" and i: "i < length runs"
    and m: "q_state (runs ! i) \<noteq> Active" and r: "run_bound x slots i r"
  shows "linked x slots (runs[i := r])"
proof -
  have "t_item_index t \<noteq> i" if "k < length slots" "slots ! k = Some t" for k t
    using l m that by (auto simp: linked_def slot_bound_def)
  moreover have "slot_bound x (runs[i := r]) k t \<longleftrightarrow> slot_bound x runs k t" if "t_item_index t \<noteq> i" for k t
    using that by (simp add: slot_bound_def)
  ultimately show ?thesis using l i r by (auto simp: linked_def nth_list_update)
qed

text \<open>An occupied slot, its item and its run.\<close>

lemma linked_slot:
  assumes "linked x slots runs" "k < length slots" "slots ! k = Some t"
  shows "t_item_index t < length runs" "slot_bound x runs k t"
    "run_bound x slots (t_item_index t) (runs ! t_item_index t)"
  using assms by (auto simp: linked_def slot_bound_def)

lemma linked_active:
  assumes "linked x slots runs" "i < length runs" "q_state (runs ! i) = Active"
  obtains t where "q_slot_index (runs ! i) < length slots" "slots ! q_slot_index (runs ! i) = Some t"
    "t_item_index t = i"
  using assms by (fastforce simp: linked_def run_bound_def)

section \<open>Sums over the runs\<close>

lemma sum_update:
  "i < length xs \<Longrightarrow> sum_list (map f (xs[i := v])) = sum_list (map f xs) - f (xs ! i) + (f v :: int)"
  by (simp add: map_update sum_list_update_int)

lemma live_update:
  "k < length slots \<Longrightarrow> live (slots[k := s]) =
     live slots - bool_word (slots ! k \<noteq> None) + bool_word (s \<noteq> None)"
  by (simp add: live_def tally_update bool_word_def)

lemma live_le: "linked x slots runs \<Longrightarrow> 0 \<le> x_capacity x \<Longrightarrow> live slots \<le> x_capacity x"
  using tally_bounds(2) [of "\<lambda>s. s \<noteq> None" slots] by (simp add: live_def linked_def)

lemma host_words: "host_of c = (\<Sum>j<7. claim_words c ! j)"
  by (simp add: host_of_def claim_words_def numeral_eq_Suc)

lemma host_mono: "(\<And>j. j < 10 \<Longrightarrow> claim_words c ! j \<le> claim_words d ! j) \<Longrightarrow> host_of c \<le> host_of d"
  unfolding host_words by (rule sum_mono) simp

lemma gaps_update:
  assumes "gaps x slots cursor level tick"
    and "\<And>t. s = Some t \<Longrightarrow> t_last_service_tick t \<le> tick
      \<and> tick - t_last_service_tick t + gap_of x k (t_weight t) cursor level < service_gap x"
  shows "gaps x (slots[k := s]) cursor level tick"
  unfolding gaps_def
proof (intro conjI allI impI)
  fix k' t assume k': "k' < length (slots[k := s])" "slots[k := s] ! k' = Some t"
  show "t_last_service_tick t \<le> tick"
      "tick - t_last_service_tick t + gap_of x k' (t_weight t) cursor level < service_gap x"
    using assms k' by (cases "k' = k"; simp add: gaps_def)+
qed (use assms(1) in \<open>simp_all add: gaps_def\<close>)

lemma waits_update:
  "waits_ok x runs \<Longrightarrow> 0 \<le> q_maximum_wait_quanta r \<Longrightarrow> q_maximum_wait_quanta r \<le> service_gap x
    \<Longrightarrow> waits_ok x (runs[i := r])"
  by (auto simp: waits_ok_def dest!: subsetD [OF set_update_subset_insert])

lemma waits_nth:
  "waits_ok x runs \<Longrightarrow> i < length runs \<Longrightarrow>
    0 \<le> q_maximum_wait_quanta (runs ! i) \<and> q_maximum_wait_quanta (runs ! i) \<le> service_gap x"
  by (simp add: waits_ok_def)

lemma waits_keep:
  "waits_ok x runs \<Longrightarrow> i < length runs \<Longrightarrow> q_maximum_wait_quanta r = q_maximum_wait_quanta (runs ! i)
    \<Longrightarrow> waits_ok x (runs[i := r])"
  using waits_nth [of x runs i] by (simp add: waits_update)

section \<open>The four changes of state\<close>

lemma world_ok_reject:
  assumes y: "world_ok x y" and i: "i < length (y_runtime y)" "q_state (y_runtime y ! i) = Pending"
    and r: "q_state r = Terminal" "q_outcome r = Some OUTCOME_REJECTED"
      "q_served_quanta r = q_served_quanta (y_runtime y ! i)" "1 \<le> q_rejection_reason r" "q_rejection_reason r \<le> 5"
      "q_maximum_wait_quanta r = q_maximum_wait_quanta (y_runtime y ! i)"
    and tr: "length tr = Suc (length (y_trace y))"
  shows "world_ok x (y\<lparr>y_trace := tr, y_runtime := (y_runtime y)[i := r]\<rparr>)"
proof -
  have b: "run_bound x (y_slots y) i (y_runtime y ! i)" using y i by (simp add: world_ok_def linked_def)
  with i(2) have s0: "q_served_quanta (y_runtime y ! i) = 0" by (simp add: run_bound_def)
  have "run_bound x (y_slots y) i r" using b i(2) r s0 by (simp add: run_bound_def ended_def)
  with y i have "linked x (y_slots y) ((y_runtime y)[i := r])"
    by (intro linked_run_update) (simp_all add: world_ok_def)
  moreover have "waits_ok x ((y_runtime y)[i := r])"
    using y r(6) i(1) by (simp add: world_ok_def waits_keep)
  moreover have "counted (y\<lparr>y_trace := tr, y_runtime := (y_runtime y)[i := r]\<rparr>)"
    using y i r tr s0 by (simp add: world_ok_def counted_def sum_update run_events_def)
  ultimately show ?thesis using y by (simp add: world_ok_def peaks_ok_def)
qed

lemma world_ok_vacate:
  assumes y: "world_ok x y" and k: "k < length (y_slots y)" "y_slots y ! k = Some t"
    and i: "i = t_item_index t"
    and r: "q_state r = Terminal" "ended (x_items x ! i) r" "q_outcome r \<noteq> Some OUTCOME_REJECTED"
      "q_served_quanta r = q_served_quanta (y_runtime y ! i)"
      "q_maximum_wait_quanta r = q_maximum_wait_quanta (y_runtime y ! i)"
    and tr: "length tr = Suc (length (y_trace y))"
  obtains used where "claim_subtract (y_used y) (t_claim t) = Inr used"
    "world_ok x (y\<lparr>y_used := used, y_slots := (y_slots y)[k := None], y_releases := y_releases y + 1,
       y_trace := tr, y_runtime := (y_runtime y)[i := r]\<rparr>)"
proof -
  have l: "linked x (y_slots y) (y_runtime y)" using y by (simp add: world_ok_def)
  note s = linked_slot [OF l k, folded i]
  from s(2) i have a: "q_state (y_runtime y ! i) = Active" by (simp add: slot_bound_def)
  from y have bal: "bank.balanced t_claim (y_used y) (y_slots y)" by (simp add: world_ok_def)
  from bank.balanced_refund [OF bal k] obtain used where
    u: "claim_subtract (y_used y) (t_claim t) = Inr used" "bank.balanced t_claim used ((y_slots y)[k := None])" .
  let ?y = "y\<lparr>y_used := used, y_slots := (y_slots y)[k := None], y_releases := y_releases y + 1,
    y_trace := tr, y_runtime := (y_runtime y)[i := r]\<rparr>"
  have "run_bound x ((y_slots y)[k := None]) i r" using s(3) r by (simp add: run_bound_def)
  with l k i s(1) have "linked x ((y_slots y)[k := None]) ((y_runtime y)[i := r])"
    by (intro linked_update) auto
  moreover have "waits_ok x ((y_runtime y)[i := r])"
    using y r(5) s(1) by (simp add: world_ok_def waits_keep)
  moreover have "gaps x ((y_slots y)[k := None]) (y_cursor y) (y_level y) (y_logical_tick y)"
    using y by (intro gaps_update) (simp_all add: world_ok_def)
  moreover have "counted ?y"
    using y k s(1) a r tr by (simp add: world_ok_def counted_def sum_update run_events_def live_update bool_word_def)
  moreover have "peaks_ok x ?y"
  proof -
    have "0 \<le> claim_words (t_claim t) ! j" if "j < 10" for j
      using bal k that by (metis bank.balanced_def nth_mem)
    then have le: "claim_words used ! j \<le> claim_words (y_used y) ! j" if "j < 10" for j
      using claim_subtract_words [OF u(1) that] that by simp
    then have "host_of used \<le> host_of (y_used y)" by (rule host_mono)
    with y le k show ?thesis by (fastforce simp: world_ok_def peaks_ok_def live_update bool_word_def)
  qed
  ultimately have "world_ok x ?y" using y u(2) by (simp add: world_ok_def)
  with u(1) show ?thesis by (rule that)
qed

lemma world_ok_fill:
  assumes y: "world_ok x y" and k: "k < length (y_slots y)" "y_slots y ! k = None"
    and i: "i < length (y_runtime y)" "q_state (y_runtime y ! i) = Pending" and x: "scenario_facts x"
    and t: "t_item_index t = i" "t_tenant_key t = w_tenant_key (x_items x ! i)" "t_active t"
      "t_weight t = w_weight (x_items x ! i)" "t_claim t = w_claim (x_items x ! i)"
      "t_remaining t = w_work_quanta (x_items x ! i)" "t_last_service_tick t = y_logical_tick y"
    and r: "q_state r = Active" "q_slot_index r = k" "q_rejection_reason r = REJECTION_NONE"
      "q_served_quanta r = q_served_quanta (y_runtime y ! i)"
      "q_maximum_wait_quanta r = q_maximum_wait_quanta (y_runtime y ! i)"
    and u: "claim_add (y_used y) (t_claim t) = Inr used"
      "\<And>j. j < 10 \<Longrightarrow> claim_words used ! j \<le> claim_words (m_fields (x_limits x)) ! j"
      "host_of used \<le> m_host_bytes (x_limits x)"
    and p: "\<And>j. j < 10 \<Longrightarrow> claim_words peak ! j = max (claim_words (y_peak y) ! j) (claim_words used ! j)"
      "host = max (y_peak_host_bytes y) (host_of used)" "lv = max (y_maximum_live y) (live (y_slots y) + 1)"
    and tr: "length tr = Suc (length (y_trace y))"
  shows "world_ok x (y\<lparr>y_slots := (y_slots y)[k := Some t], y_used := used,
      y_successful_commits := y_successful_commits y + 1, y_peak := peak, y_peak_host_bytes := host,
      y_maximum_live := lv, y_trace := tr, y_runtime := (y_runtime y)[i := r]\<rparr>)"
proof -
  have l: "linked x (y_slots y) (y_runtime y)" using y by (simp add: world_ok_def)
  then have b: "run_bound x (y_slots y) i (y_runtime y ! i)" and ix: "i < length (x_items x)"
    and cap: "length (y_slots y) = slot_count x"
    using i(1) by (simp_all add: linked_def)
  from b i(2) have s0: "q_served_quanta (y_runtime y ! i) = 0" by (simp add: run_bound_def)
  from x ix have w: "item_facts x i (x_items x ! i)" and c1: "1 \<le> x_capacity x"
    by (simp_all add: scenario_facts_def)
  have "run_bound x ((y_slots y)[k := Some t]) i r"
    using b s0 r t k by (simp add: run_bound_def)
  moreover have "slot_bound x ((y_runtime y)[i := r]) k t"
    using t r s0 i(1) ix w by (simp add: slot_bound_def item_facts_def)
  ultimately have l': "linked x ((y_slots y)[k := Some t]) ((y_runtime y)[i := r])"
    using l k i by (intro linked_update) auto
  have bal: "bank.balanced t_claim used ((y_slots y)[k := Some t])"
    by (rule bank.balanced_charge [where u = "y_used y"])
      (use y k u(1) w t(5) in \<open>auto simp: world_ok_def item_facts_def\<close>)
  have wt: "waits_ok x ((y_runtime y)[i := r])"
    using y r(5) i(1) by (simp add: world_ok_def waits_keep)
  have "gap_of x k (t_weight t) (y_cursor y) (y_level y) \<le> (x_capacity x - 1) * x_max_weight x"
    unfolding gap_of_def
    by (rule gap_left_bound) (use k cap c1 w t(4) y in \<open>auto simp: item_facts_def world_ok_def gaps_def\<close>)
  then have g: "gaps x ((y_slots y)[k := Some t]) (y_cursor y) (y_level y) (y_logical_tick y)"
    using y t(7) by (intro gaps_update) (simp_all add: world_ok_def service_gap_def)
  have lv: "live ((y_slots y)[k := Some t]) = live (y_slots y) + 1" using k by (simp add: live_update bool_word_def)
  have pk: "claim_words used ! j \<le> claim_words peak ! j
      \<and> claim_words peak ! j \<le> claim_words (m_fields (x_limits x)) ! j" if "j < 10" for j
    using y that u(2) [OF that] p(1) [OF that] by (simp add: world_ok_def peaks_ok_def)
  have "live (y_slots y) + 1 \<le> x_capacity x" using live_le [OF l'] c1 lv by simp
  then have "peaks_ok x (y\<lparr>y_slots := (y_slots y)[k := Some t], y_used := used, y_peak := peak,
      y_peak_host_bytes := host, y_maximum_live := lv\<rparr>)"
    using y pk u(3) p(2,3) lv by (simp add: world_ok_def peaks_ok_def)
  moreover have "counted (y\<lparr>y_slots := (y_slots y)[k := Some t],
      y_successful_commits := y_successful_commits y + 1, y_trace := tr,
      y_runtime := (y_runtime y)[i := r]\<rparr>)"
    using y lv i r s0 tr by (simp add: world_ok_def counted_def sum_update run_events_def)
  ultimately show ?thesis using y l' bal wt g
    by (simp add: world_ok_def peaks_ok_def counted_def)
qed

lemma world_ok_tick:
  assumes y: "world_ok x y" and x: "scenario_facts x"
    and sel: "select_iwrr (y_slots y) (y_cursor y) (y_level y) = Inr (k, cursor, level)"
    and k: "k < length (y_slots y)" "y_slots y ! k = Some t" "1 \<le> t_remaining t"
    and l: "cursor = k + 1" "1 \<le> level" "level \<le> x_max_weight x"
    and i: "i = t_item_index t" and tick: "tick = y_logical_tick y + 1"
    and t': "t' = t\<lparr>t_remaining := t_remaining t - 1, t_last_service_tick := tick\<rparr>"
    and r: "q_state r = Active" "q_slot_index r = k" "q_rejection_reason r = REJECTION_NONE"
      "q_served_quanta r = q_served_quanta (y_runtime y ! i) + 1"
      "q_maximum_wait_quanta r = max (q_maximum_wait_quanta (y_runtime y ! i)) (tick - t_last_service_tick t)"
    and tr: "length tr = Suc (length (y_trace y))"
  shows "world_ok x (y\<lparr>y_slots := (y_slots y)[k := Some t'], y_cursor := cursor, y_level := level,
      y_logical_tick := tick, y_runtime := (y_runtime y)[i := r], y_trace := tr\<rparr>)"
proof -
  have lk: "linked x (y_slots y) (y_runtime y)" and g: "gaps x (y_slots y) (y_cursor y) (y_level y) (y_logical_tick y)"
    using y by (simp_all add: world_ok_def)
  note s = linked_slot [OF lk k(1,2), folded i]
  from lk x have cap: "length (y_slots y) = slot_count x" and c1: "1 \<le> x_capacity x"
    and it: "length (y_runtime y) = length (x_items x)"
    by (simp_all add: linked_def scenario_facts_def)
  have weight: "1 \<le> t_weight u \<and> t_weight u \<le> x_max_weight x"
    if "k' < length (y_slots y)" "y_slots y ! k' = Some u" for k' u
    using linked_slot(2) [OF lk that] x by (auto simp: slot_bound_def scenario_facts_def item_facts_def)
  have act: "slot_weight (y_slots y ! k') = Some (t_weight u)"
    if "k' < length (y_slots y)" "y_slots y ! k' = Some u" for k' u
    using linked_slot(2) [OF lk that] that by (simp add: slot_bound_def slot_weight_def)
  have wok: "weights_ok (x_max_weight x) (map slot_weight (y_slots y))"
    using weight act by (fastforce simp: weights_ok_def in_set_conv_nth slot_weight_def split: option.splits if_splits)
  have "slot_bound x ((y_runtime y)[i := r]) k t'"
    using s(1,2) t' r k(3) by (simp add: slot_bound_def i)
  moreover have "run_bound x ((y_slots y)[k := Some t']) i r"
    using s r k t' by (simp add: run_bound_def slot_bound_def i)
  ultimately have l': "linked x ((y_slots y)[k := Some t']) ((y_runtime y)[i := r])"
    using lk k(1,2) i s(1) by (intro linked_update) auto
  have bal: "bank.balanced t_claim (y_used y) ((y_slots y)[k := Some t'])"
    by (rule bank.balanced_replace [OF _ k(1,2)]) (use y t' in \<open>simp_all add: world_ok_def\<close>)
  have left: "0 \<le> gap_of x k (t_weight t) (y_cursor y) (y_level y)"
    unfolding gap_of_def
    by (rule gap_left_nonneg) (use g k cap weight [OF k(1,2)] in \<open>auto simp: gaps_def\<close>)
  then have w: "tick - t_last_service_tick t \<le> service_gap x" "0 \<le> tick - t_last_service_tick t"
    using g k tick by (auto simp: gaps_def)
  then have wt: "waits_ok x ((y_runtime y)[i := r])"
    using y r(5) s(1) waits_nth [of x "y_runtime y" i] by (intro waits_update) (auto simp: world_ok_def)
  have "gap_of x k (t_weight t) cursor level < service_gap x"
    using gap_left_bound [of "int k" "x_capacity x" "int cursor" "t_weight t" "x_max_weight x" level]
      k cap c1 l weight [OF k(1,2)] by (simp add: gap_of_def service_gap_def)
  moreover have "gap_of x k' (t_weight u) cursor level + 1 \<le> gap_of x k' (t_weight u) (y_cursor y) (y_level y)"
    if "k' < length (y_slots y)" "y_slots y ! k' = Some u" "k' \<noteq> k" for k' u
    using select_gap [OF sel that(1) act [OF that(1,2)] wok] g cap c1 that(3)
    by (simp add: gap_of_def gaps_def)
  ultimately have "gaps x ((y_slots y)[k := Some t']) cursor level tick"
    using g l k(1) cap t' tick by (fastforce simp: gaps_def nth_list_update)
  moreover have "counted (y\<lparr>y_slots := (y_slots y)[k := Some t'], y_logical_tick := tick,
      y_runtime := (y_runtime y)[i := r], y_trace := tr\<rparr>)"
    using y s(1,2) r(1,4) tick tr k(1,2)
    by (simp add: world_ok_def counted_def sum_update run_events_def slot_bound_def i live_update bool_word_def)
  moreover have "live ((y_slots y)[k := Some t']) = live (y_slots y)"
    using k(1,2) by (simp add: live_update bool_word_def)
  ultimately show ?thesis using y l' bal wt by (simp add: world_ok_def peaks_ok_def counted_def)
qed

end
