(* ===== verification/Pressure_Driver.thy ===== *)
theory Pressure_Driver
  imports Pressure_World
begin

text \<open>
  Every block of a driver step keeps \<open>world_ok\<close>, and a replay of a validated scenario fails for
  three reasons only: a deadline already past on arrival, a terminal action on an item that is not
  active, and the step limit. The overflow and underflow checks, the scheduler's errors and a second
  arrival of an item are unreachable.
\<close>

section \<open>Bounds\<close>

lemma sum_list_le: "(\<And>v. v \<in> set xs \<Longrightarrow> f v \<le> c) \<Longrightarrow> sum_list (map f xs) \<le> c * int (length xs)"
  by (induction xs) (auto simp: algebra_simps add_mono)

lemma tick_bounds:
  assumes y: "world_ok x y" and x: "scenario_facts x"
  shows "0 \<le> y_logical_tick y" "y_logical_tick y \<le> 64"
proof -
  have r: "0 \<le> q_served_quanta (y_runtime y ! i) \<and> q_served_quanta (y_runtime y ! i) \<le> w_work_quanta (x_items x ! i)"
    if "i < length (y_runtime y)" for i
    using y that by (simp add: world_ok_def linked_def run_bound_def)
  have t: "y_logical_tick y = sum_list (map q_served_quanta (y_runtime y))"
    using y by (simp add: world_ok_def counted_def)
  show "0 \<le> y_logical_tick y"
    unfolding t by (rule sum_list_nonneg) (use r in \<open>auto simp: in_set_conv_nth\<close>)
  have "sum_list (map q_served_quanta (y_runtime y)) \<le> sum_list (map w_work_quanta (x_items x))"
    by (rule sum_list_mono2) (use y r in \<open>simp_all add: world_ok_def linked_def\<close>)
  with t x show "y_logical_tick y \<le> 64" by (simp add: scenario_facts_def)
qed

lemma gap_bounds: assumes "scenario_facts x" shows "1 \<le> service_gap x" "service_gap x \<le> 983026"
proof -
  have "0 \<le> (x_capacity x - 1) * x_max_weight x" using assms by (simp add: scenario_facts_def)
  moreover have "(x_capacity x - 1) * x_max_weight x \<le> 15 * 65535"
    using assms by (intro mult_mono) (simp_all add: scenario_facts_def)
  ultimately show "1 \<le> service_gap x" "service_gap x \<le> 983026" by (simp_all add: service_gap_def)
qed

lemma used_bounds:
  assumes y: "world_ok x y" and x: "scenario_facts x" and j: "j < 10"
  shows "0 \<le> claim_words (y_used y) ! j" "claim_words (y_used y) ! j \<le> 14848"
proof -
  have b: "bank.balanced t_claim (y_used y) (y_slots y)" and l: "linked x (y_slots y) (y_runtime y)"
    using y by (simp_all add: world_ok_def)
  have c: "0 \<le> claim_words (t_claim t) ! j \<and> claim_words (t_claim t) ! j \<le> 928" if "Some t \<in> set (y_slots y)" for t
    using that linked_slot(2) [OF l, of _ t] x j
    by (auto simp: in_set_conv_nth slot_bound_def scenario_facts_def item_facts_def)
  have u: "claim_words (y_used y) ! j = bank.held t_claim (y_slots y) j"
    using b j by (simp add: bank.balanced_def)
  show "0 \<le> claim_words (y_used y) ! j"
    unfolding u bank.held_def by (rule sum_list_nonneg) (use c in \<open>auto split: option.splits\<close>)
  have "bank.held t_claim (y_slots y) j \<le> 928 * int (length (y_slots y))"
    unfolding bank.held_def by (rule sum_list_le) (use c in \<open>auto split: option.splits\<close>)
  moreover have "int (length (y_slots y)) \<le> 16" using l x by (simp add: linked_def scenario_facts_def)
  ultimately show "claim_words (y_used y) ! j \<le> 14848" using u by simp
qed

lemma claim_add_defined:
  assumes "\<And>j. j < 10 \<Longrightarrow> is_u64 (claim_words a ! j + claim_words b ! j)"
  shows "\<exists>v. claim_add a b = Inr v"
proof -
  have "mapE (\<lambda>(l, r). bindE (u64P (l + r)) (\<lambda>_. Inr (l + r))) (zip (claim_words a) (claim_words b)) =
      Inr (map (\<lambda>(l, r). l + r) (zip (claim_words a) (claim_words b)))"
    using assms by (intro mapE_total) (force simp: set_zip result_simps)
  then show ?thesis by (simp add: claim_add_def)
qed

lemma u64P_ok: "is_u64 v \<Longrightarrow> u64P v = Inr (u64_bytes v)"
  by (simp add: result_simps)

lemma host_bytes_of:
  assumes "\<And>j. j < 10 \<Longrightarrow> 0 \<le> claim_words c ! j \<and> claim_words c ! j \<le> 1000000"
  shows "host_bytes c = Inr (host_of c)"
proof -
  have "0 \<le> host_of c" unfolding host_words by (rule sum_nonneg) (use assms in simp)
  moreover have "host_of c \<le> (\<Sum>j<7::nat. 1000000)" unfolding host_words by (rule sum_mono) (use assms in simp)
  ultimately have "is_u64 (host_of c)" by (simp add: is_u64_def)
  then show ?thesis by (simp add: host_bytes_def host_of_def [symmetric] u64P_ok Let_def)
qed

lemma fits_iff:
  assumes "\<And>j. j < 10 \<Longrightarrow> 0 \<le> claim_words c ! j \<and> claim_words c ! j \<le> 1000000"
  shows "fits m c = Inr (host_of c \<le> m_host_bytes m \<and> (\<forall>j < 10. claim_words c ! j \<le> claim_words (m_fields m) ! j))"
proof -
  have "list_all (\<lambda>(v, l). v \<le> l) (zip (claim_words c) (claim_words d)) \<longleftrightarrow>
      (\<forall>j < 10. claim_words c ! j \<le> claim_words d ! j)" for d
    by (simp add: list_all_length)
  then show ?thesis by (simp add: fits_def host_bytes_of [OF assms])
qed

lemma append_trace_ok:
  assumes "\<forall>v \<in> set (trace_words e). is_u64 v"
  obtains root where "append_trace tr e = Inr (tr @ [e\<lparr>e_record_sha256 := root\<rparr>], root)"
proof -
  have "mapE u64P (TRACE_ABI # trace_words e) = Inr (map u64_bytes (TRACE_ABI # trace_words e))"
    using assms by (subst mapE_u64P) (auto simp: is_u64_def)
  then have "append_trace tr e = Inr (tr @ [e\<lparr>e_record_sha256 := sha_parts TRACE_RECORD_DOMAIN
      (map u64_bytes (TRACE_ABI # trace_words e))\<rparr>],
      sha_parts TRACE_RECORD_DOMAIN (map u64_bytes (TRACE_ABI # trace_words e)))"
    by (simp add: append_trace_def trace_record_sha256_def)
  then show ?thesis by (rule that)
qed

section \<open>The projection's answer\<close>

lemma project_scan_Inl: "project_scan n ws m c l b = Inl e \<Longrightarrow> e = REJECTION_PROJECTION_LIMIT"
  by (induction n arbitrary: c l b) (auto split: prod.splits if_splits)

lemma project_serve_Inl: "project_serve i o1 = Inl e \<Longrightarrow> e = REJECTION_DEADLINE_INFEASIBLE"
  by (auto simp: project_serve_def Let_def split: if_splits)

lemma project_round_Inl:
  "project_round mw mq o1 = Inl e \<Longrightarrow> e = REJECTION_PROJECTION_LIMIT \<or> e = REJECTION_DEADLINE_INFEASIBLE"
  by (auto simp: project_round_def Let_def dest: project_scan_Inl project_serve_Inl
      split: prod.splits if_splits sum.splits option.splits)

lemma project_loop_range: "project_loop mw mq o1 \<in> {0, 4, 5}"
proof (induction mw mq o1 rule: project_loop.induct)
  case (1 mw mq o1)
  show ?case
  proof (cases "o_deadline_count o1 = 0")
    case False
    with 1 project_round_Inl [of mw mq o1] show ?thesis
      by (subst project_loop.simps) (auto split: sum.splits)
  qed (subst project_loop.simps, simp)
qed

lemma projection_range: "projection_rejection slots i w tick c l mw mq mo \<in> {0, 4, 5}"
  using project_loop_range by (auto simp: projection_rejection_def Let_def split: prod.splits)

section \<open>Steps\<close>

abbreviation REPLAY_ERRORS :: "pressure_error set" where
  "REPLAY_ERRORS \<equiv> {DeadlinePast, ActionLacksActive, DriverStepLimit}"

definition busy :: "world \<Rightarrow> bool" where
  "busy y \<longleftrightarrow> (\<forall>t. Some t \<in> set (y_slots y) \<longrightarrow> 1 \<le> t_remaining t)"

text \<open>The items that have not arrived when the first \<open>k\<close> items of a step are done.\<close>

definition waiting :: "scenario \<Rightarrow> int \<Rightarrow> nat \<Rightarrow> run list \<Rightarrow> bool" where
  "waiting x step k runs \<longleftrightarrow> (\<forall>i < length runs.
     w_arrival_step (x_items x ! i) > step \<or> w_arrival_step (x_items x ! i) = step \<and> k \<le> i
     \<longrightarrow> q_state (runs ! i) = Pending)"

definition between :: "scenario \<Rightarrow> int \<Rightarrow> nat \<Rightarrow> world \<Rightarrow> bool" where
  "between x step k y \<longleftrightarrow> world_ok x y \<and> busy y \<and> waiting x step k (y_runtime y)"

lemma busy_update: "busy y \<Longrightarrow> (\<And>t. s = Some t \<Longrightarrow> 1 \<le> t_remaining t) \<Longrightarrow> busy (y\<lparr>y_slots := (y_slots y)[k := s]\<rparr>)"
  by (auto simp: busy_def dest!: subsetD [OF set_update_subset_insert])

lemma waiting_update:
  "waiting x step k runs \<Longrightarrow> q_state (runs ! i) \<noteq> Pending \<or> w_arrival_step (x_items x ! i) = step \<and> i < k'
    \<Longrightarrow> k \<le> k' \<Longrightarrow> waiting x step k' (runs[i := r])"
  unfolding waiting_def by (metis (no_types, lifting) dual_order.trans length_list_update less_irrefl linorder_not_le nth_list_update_neq)

lemma waiting_mono: "waiting x step k runs \<Longrightarrow> k \<le> k' \<Longrightarrow> waiting x step k' runs"
  by (auto simp: waiting_def)

lemma admission_ok:
  assumes y: "world_ok x y" and x: "scenario_facts x" and i: "i < length (x_items x)"
  shows "postE {} (\<lambda>d. case d of Inl e \<Rightarrow> 1 \<le> e \<and> e \<le> 5
      | Inr (free, next_used) \<Rightarrow> free < length (y_slots y) \<and> y_slots y ! free = None
          \<and> claim_add (y_used y) (w_claim (x_items x ! i)) = Inr next_used
          \<and> (\<forall>j < 10. 0 \<le> claim_words next_used ! j \<and> claim_words next_used ! j \<le> 1000000)
          \<and> (\<forall>j < 10. claim_words next_used ! j \<le> claim_words (m_fields (x_limits x)) ! j)
          \<and> host_of next_used \<le> m_host_bytes (x_limits x)) (admission x y (x_items x ! i))"
proof -
  have free: "find_free slots = Some f \<Longrightarrow> f < length slots \<and> slots ! f = None" for slots f
    by (induction slots arbitrary: f) (auto split: if_splits)
  have c: "0 \<le> claim_words (w_claim (x_items x ! i)) ! j \<and> claim_words (w_claim (x_items x ! i)) ! j \<le> 928"
    if "j < 10" for j using x i that by (simp add: scenario_facts_def item_facts_def)
  have "\<exists>u. claim_add (y_used y) (w_claim (x_items x ! i)) = Inr u"
    by (rule claim_add_defined) (use used_bounds [OF y x] c in \<open>force simp: is_u64_def\<close>)
  then obtain u where u: "claim_add (y_used y) (w_claim (x_items x ! i)) = Inr u" by blast
  have b: "0 \<le> claim_words u ! j \<and> claim_words u ! j \<le> 1000000" if "j < 10" for j
    using claim_add_words(1) [OF u that] used_bounds [OF y x that] c [OF that] by simp
  show ?thesis
  proof (cases "list_ex (tenant_live (w_tenant_key (x_items x ! i))) (y_slots y) \<or> find_free (y_slots y) = None")
    case False
    then obtain f where f: "find_free (y_slots y) = Some f" by auto
    let ?p = "projection_rejection (y_slots y) f (x_items x ! i) (y_logical_tick y) (y_cursor y) (y_level y)
      (x_max_weight x) (x_max_projection_quanta x) (x_max_projection_operations x)"
    have "?p \<noteq> 0 \<longrightarrow> 1 \<le> ?p \<and> ?p \<le> 5"
      using projection_range [of "y_slots y" f "x_items x ! i" "y_logical_tick y" "y_cursor y" "y_level y"
        "x_max_weight x" "x_max_projection_quanta x" "x_max_projection_operations x"] by auto
    with False free [OF f] b show ?thesis
      by (simp add: admission_def f u fits_iff [OF b] Let_def)
  qed (auto simp: admission_def)
qed

lemma item_word_bounds:
  assumes x: "scenario_facts x" and i: "i < length (x_items x)"
  shows "w_ordinal (x_items x ! i) = int i" "i < 16" "1 \<le> w_work_quanta (x_items x ! i)"
    "w_work_quanta (x_items x ! i) \<le> 64" "w_terminal_action (x_items x ! i) \<in> {0, 1, 2}"
proof -
  have "item_facts x i (x_items x ! i)" "length (x_items x) \<le> 16" using x i by (simp_all add: scenario_facts_def)
  then show "w_ordinal (x_items x ! i) = int i" "i < 16" "1 \<le> w_work_quanta (x_items x ! i)"
      "w_terminal_action (x_items x ! i) \<in> {0, 1, 2}"
    using i unfolding item_facts_def by (linarith | blast)+
  have "0 \<le> w_work_quanta w" if "w \<in> set (x_items x)" for w
    using that x by (force simp: in_set_conv_nth scenario_facts_def item_facts_def)
  then have "w_work_quanta (x_items x ! i) \<le> sum_list (map w_work_quanta (x_items x))"
    using i by (intro member_le_sum_list) auto
  then show "w_work_quanta (x_items x ! i) \<le> 64" using x by (simp add: scenario_facts_def)
qed

lemma trace_event_words:
  "set (trace_words (trace_event step ordinal kind before after)) = {step, ordinal, kind, before, after, 0}"
  by (auto simp: trace_words_def trace_event_def)

lemma arrive_ok:
  assumes y: "between x step k y" and x: "scenario_facts x" and k: "k < length (x_items x)"
    and step: "0 \<le> step" "step < 512"
  shows "postE REPLAY_ERRORS (between x step (Suc k)) (arrive x step y (k, x_items x ! k))"
proof -
  let ?w = "x_items x ! k"
  have ok: "world_ok x y" and b: "busy y" and wt: "waiting x step k (y_runtime y)"
    using y by (simp_all add: between_def)
  from ok k have kr: "k < length (y_runtime y)" by (simp add: world_ok_def linked_def)
  note t = tick_bounds [OF ok x] and iw = item_word_bounds [OF x k]
  show ?thesis
  proof (cases "w_arrival_step ?w = step")
    case False
    then have "waiting x step (Suc k) (y_runtime y)"
      using wt by (auto simp: waiting_def not_less_eq_eq order.order_iff_strict dest!: Suc_le_eq [THEN iffD1])
    with False ok b show ?thesis by (simp add: arrive_def between_def)
  next
    case True
    then have p: "q_state (y_runtime y ! k) = Pending" using wt kr by (simp add: waiting_def)
    have next_wait: "waiting x step (Suc k) ((y_runtime y)[k := r])" for r
      by (rule waiting_update [OF wt]) (simp_all add: True)
    have "postE REPLAY_ERRORS (between x step (Suc k)) (reject_item step k ?w e y)"
      if e: "1 \<le> e" "e \<le> 5" for e
    proof -
      let ?e = "(trace_event step (w_ordinal ?w) EVENT_ADMISSION_REJECTED (y_logical_tick y) (y_logical_tick y))
         \<lparr>e_rejection_reason := e\<rparr>"
      have "\<forall>v \<in> set (trace_words ?e). is_u64 v"
        using step t iw e by (auto simp: trace_words_def trace_event_def is_u64_def)
      from append_trace_ok [OF this, of "y_trace y"] obtain root where
        a: "append_trace (y_trace y) ?e = Inr (y_trace y @ [?e\<lparr>e_record_sha256 := root\<rparr>], root)" .
      let ?r = "(y_runtime y ! k)\<lparr>q_state := Terminal, q_terminal_step := step,
        q_outcome := Some OUTCOME_REJECTED, q_rejection_reason := e, q_admission_trace_sha256 := root,
        q_terminal_trace_sha256 := root\<rparr>"
      have "world_ok x (y\<lparr>y_trace := y_trace y @ [?e\<lparr>e_record_sha256 := root\<rparr>], y_runtime := (y_runtime y)[k := ?r]\<rparr>)"
        by (rule world_ok_reject [OF ok kr p]) (use e in simp_all)
      with b next_wait show ?thesis by (simp add: reject_item_def a between_def busy_def)
    qed
    moreover have "postE REPLAY_ERRORS (between x step (Suc k)) (admit_item step k ?w f u y)"
      if f: "f < length (y_slots y)" "y_slots y ! f = None" and u: "claim_add (y_used y) (w_claim ?w) = Inr u"
        and ub: "\<forall>j < 10. 0 \<le> claim_words u ! j \<and> claim_words u ! j \<le> 1000000"
        and ul: "\<forall>j < 10. claim_words u ! j \<le> claim_words (m_fields (x_limits x)) ! j"
          "host_of u \<le> m_host_bytes (x_limits x)" for f u
    proof -
      let ?e = "(trace_event step (w_ordinal ?w) EVENT_ADMISSION_ACCEPTED (y_logical_tick y) (y_logical_tick y))
         \<lparr>e_remaining_after := w_work_quanta ?w\<rparr>"
      have "\<forall>v \<in> set (trace_words ?e). is_u64 v"
        using step t iw by (auto simp: trace_words_def trace_event_def is_u64_def)
      from append_trace_ok [OF this, of "y_trace y"] obtain root where
        a: "append_trace (y_trace y) ?e = Inr (y_trace y @ [?e\<lparr>e_record_sha256 := root\<rparr>], root)" .
      let ?t = "\<lparr>t_item_index = k, t_tenant_key = w_tenant_key ?w, t_weight = w_weight ?w,
            t_remaining = w_work_quanta ?w, t_deadline_tick = w_deadline_tick ?w,
            t_admitted_tick = y_logical_tick y, t_last_service_tick = y_logical_tick y,
            t_active = True, t_claim = w_claim ?w\<rparr>"
      let ?r = "(y_runtime y ! k)\<lparr>q_state := Active, q_slot_index := f, q_admitted_step := step,
        q_admission_trace_sha256 := root\<rparr>"
      have m: "claim_words (claim_max (y_peak y) u) ! j = max (claim_words (y_peak y) ! j) (claim_words u ! j)"
        if "j < 10" for j using that by (simp add: claim_max_def claim_words_of)
      have lv: "live ((y_slots y)[f := Some ?t]) = live (y_slots y) + 1"
        using f by (simp add: live_update bool_word_def)
      have rj: "q_rejection_reason (y_runtime y ! k) = REJECTION_NONE"
        using ok kr p by (auto simp: world_ok_def linked_def run_bound_def)
      have "world_ok x (y\<lparr>y_slots := (y_slots y)[f := Some ?t], y_used := u,
          y_successful_commits := y_successful_commits y + 1, y_peak := claim_max (y_peak y) u,
          y_peak_host_bytes := max (y_peak_host_bytes y) (host_of u),
          y_maximum_live := max (y_maximum_live y) (live (y_slots y) + 1),
          y_trace := y_trace y @ [?e\<lparr>e_record_sha256 := root\<rparr>], y_runtime := (y_runtime y)[k := ?r]\<rparr>)"
        by (rule world_ok_fill [OF ok f kr p x]) (use u ul m rj in simp_all)
      moreover have "busy (y\<lparr>y_slots := (y_slots y)[f := Some ?t]\<rparr>)"
        by (rule busy_update [OF b]) (use iw in simp)
      moreover have "host_bytes u = Inr (host_of u)" using ub by (intro host_bytes_of) simp
      ultimately show ?thesis
        using next_wait by (simp add: admit_item_def update_peak_def Let_def a between_def busy_def lv)
    qed
    moreover from admission_ok [OF ok x k] obtain d where d: "admission x y ?w = Inr d"
      and dd: "case d of Inl e \<Rightarrow> 1 \<le> e \<and> e \<le> 5 | Inr (free, next_used) \<Rightarrow> free < length (y_slots y)
        \<and> y_slots y ! free = None \<and> claim_add (y_used y) (w_claim ?w) = Inr next_used
        \<and> (\<forall>j < 10. 0 \<le> claim_words next_used ! j \<and> claim_words next_used ! j \<le> 1000000)
        \<and> (\<forall>j < 10. claim_words next_used ! j \<le> claim_words (m_fields (x_limits x)) ! j)
        \<and> host_of next_used \<le> m_host_bytes (x_limits x)"
      by (cases "admission x y ?w") simp_all
    ultimately show ?thesis
      using True p by (cases d) (auto simp: arrive_def)
  qed
qed

text \<open>Ending an active item, by its terminal action or by retiring it.\<close>

lemma between_vacate:
  assumes ok: "world_ok x y" and wt: "waiting x step m (y_runtime y)"
    and b: "\<forall>k' t'. k' < length (y_slots y) \<longrightarrow> k' \<noteq> k \<longrightarrow> y_slots y ! k' = Some t' \<longrightarrow> 1 \<le> t_remaining t'"
    and k: "k < length (y_slots y)" "y_slots y ! k = Some t" and i: "i = t_item_index t"
    and r: "q_state r = Terminal" "ended (x_items x ! i) r" "q_outcome r \<noteq> Some OUTCOME_REJECTED"
      "q_served_quanta r = q_served_quanta (y_runtime y ! i)"
      "q_maximum_wait_quanta r = q_maximum_wait_quanta (y_runtime y ! i)"
    and tr: "length tr = Suc (length (y_trace y))"
  obtains used where "claim_subtract (y_used y) (t_claim t) = Inr used"
    "between x step m (y\<lparr>y_used := used, y_slots := (y_slots y)[k := None], y_releases := y_releases y + 1,
       y_trace := tr, y_runtime := (y_runtime y)[i := r]\<rparr>)"
proof -
  from world_ok_vacate [OF ok k i r tr] obtain used where u: "claim_subtract (y_used y) (t_claim t) = Inr used"
    "world_ok x (y\<lparr>y_used := used, y_slots := (y_slots y)[k := None], y_releases := y_releases y + 1,
       y_trace := tr, y_runtime := (y_runtime y)[i := r]\<rparr>)" .
  have l: "linked x (y_slots y) (y_runtime y)" using ok by (simp add: world_ok_def)
  have "q_state (y_runtime y ! i) = Active" using linked_slot(2) [OF l k] i by (simp add: slot_bound_def)
  then have "waiting x step m ((y_runtime y)[i := r])" by (intro waiting_update [OF wt]) simp_all
  moreover have "1 \<le> t_remaining t'" if t': "Some t' \<in> set ((y_slots y)[k := None])" for t'
  proof -
    from t' obtain k' where "k' < length (y_slots y)" "(y_slots y)[k := None] ! k' = Some t'"
      by (auto simp: in_set_conv_nth)
    with b show ?thesis by (cases "k' = k") auto
  qed
  ultimately show ?thesis using u that by (simp add: between_def busy_def)
qed

lemma act_ok:
  assumes y: "between x step m y" and x: "scenario_facts x" and k: "k < length (x_items x)"
    and step: "0 \<le> step" "step < 512"
  shows "postE REPLAY_ERRORS (between x step m) (act step y (k, x_items x ! k))"
proof (cases "w_terminal_action_step (x_items x ! k) = step \<and> q_state (y_runtime y ! k) = Active
    \<and> w_terminal_action (x_items x ! k) \<noteq> ACTION_NONE")
  case False
  then show ?thesis using y by (auto simp: act_def Let_def)
next
  case True
  let ?w = "x_items x ! k" and ?s = "y_runtime y ! k"
  have ok: "world_ok x y" and b: "busy y" and wt: "waiting x step m (y_runtime y)"
    and l: "linked x (y_slots y) (y_runtime y)"
    using y by (simp_all add: between_def world_ok_def)
  from l k have kr: "k < length (y_runtime y)" by (simp add: linked_def)
  from linked_active [OF l kr] True obtain t where
    t: "q_slot_index ?s < length (y_slots y)" "y_slots y ! q_slot_index ?s = Some t" "t_item_index t = k" by auto
  note ls = linked_slot [OF l t(1,2), unfolded t(3)]
  note tb = tick_bounds [OF ok x] and iw = item_word_bounds [OF x k]
  have rem: "1 \<le> t_remaining t" using b t by (metis busy_def nth_mem)
  let ?e = "(trace_event step (w_ordinal ?w) EVENT_CANCEL (y_logical_tick y) (y_logical_tick y))
    \<lparr>e_terminal_action := w_terminal_action ?w, e_remaining_before := t_remaining t\<rparr>"
  have sv: "q_served_quanta ?s < w_work_quanta ?w" "t_remaining t \<le> w_work_quanta ?w"
      "q_rejection_reason ?s = REJECTION_NONE"
    using ls(2,3) rem t(3) by (simp_all add: slot_bound_def run_bound_def)
  then have "\<forall>v \<in> set (trace_words ?e). is_u64 v"
    using step tb iw rem by (auto simp: trace_words_def trace_event_def is_u64_def)
  from append_trace_ok [OF this, of "y_trace y"] obtain root where
    a: "append_trace (y_trace y) ?e = Inr (y_trace y @ [?e\<lparr>e_record_sha256 := root\<rparr>], root)" .
  let ?r = "?s\<lparr>q_state := Terminal, q_terminal_step := step, q_terminal_action := w_terminal_action ?w,
      q_outcome := Some (if w_terminal_action ?w = ACTION_CANCEL then OUTCOME_CANCELLED else OUTCOME_TIMED_OUT),
      q_terminal_trace_sha256 := root\<rparr>"
  have e: "ended ?w ?r" using True iw(5) sv by (auto simp: ended_def)
  have c: "q_state ?r = Terminal" "q_outcome ?r \<noteq> Some OUTCOME_REJECTED" "q_served_quanta ?r = q_served_quanta ?s"
      "q_maximum_wait_quanta ?r = q_maximum_wait_quanta ?s" by simp_all
  have b': "\<forall>k' t'. k' < length (y_slots y) \<longrightarrow> k' \<noteq> q_slot_index ?s \<longrightarrow> y_slots y ! k' = Some t' \<longrightarrow> 1 \<le> t_remaining t'"
    using b by (metis busy_def nth_mem)
  from between_vacate [OF ok wt b' t(1,2) t(3) [symmetric] c(1) e c(2-4),
      of "y_trace y @ [?e\<lparr>e_record_sha256 := root\<rparr>]"]
  obtain used where "claim_subtract (y_used y) (t_claim t) = Inr used"
    "between x step m (y\<lparr>y_used := used, y_slots := (y_slots y)[q_slot_index ?s := None],
       y_releases := y_releases y + 1, y_trace := y_trace y @ [?e\<lparr>e_record_sha256 := root\<rparr>],
       y_runtime := (y_runtime y)[k := ?r]\<rparr>)"
    by auto
  with True t(2) show ?thesis by (simp add: act_def Let_def a)
qed

text \<open>The slot a step serves: the scheduler finds one whenever a slot is occupied.\<close>

lemma serve_choice:
  assumes ok: "world_ok x y" and b: "busy y" and x: "scenario_facts x" and s: "\<not> (\<forall>s \<in> set (y_slots y). s = None)"
  obtains k level t where "list_ex (\<lambda>s. case s of None \<Rightarrow> False | Some t \<Rightarrow> t_active t) (y_slots y)"
    "select_iwrr (y_slots y) (y_cursor y) (y_level y) = Inr (k, k + 1, level)" "k < length (y_slots y)"
    "y_slots y ! k = Some t" "1 \<le> level" "level \<le> x_max_weight x" "1 \<le> t_remaining t"
proof -
  have l: "linked x (y_slots y) (y_runtime y)"
    and g: "gaps x (y_slots y) (y_cursor y) (y_level y) (y_logical_tick y)"
    using ok by (simp_all add: world_ok_def)
  have act: "t_active t \<and> slot_weight (Some t) = Some (t_weight t) \<and> 1 \<le> t_weight t \<and> t_weight t \<le> x_max_weight x"
    if "Some t \<in> set (y_slots y)" for t
    using that linked_slot(2) [OF l, of _ t] x
    by (auto simp: in_set_conv_nth slot_bound_def slot_weight_def scenario_facts_def item_facts_def)
  from s obtain u where u: "Some u \<in> set (y_slots y)" by auto
  with act have some: "list_ex (\<lambda>s. case s of None \<Rightarrow> False | Some t \<Rightarrow> t_active t) (y_slots y)"
    by (force simp: list_ex_iff)
  have "Some (t_weight u) \<in> set (map slot_weight (y_slots y))" using u act [OF u] by force
  then have "active_weights (map slot_weight (y_slots y)) \<noteq> []"
    using set_active_weights [of "map slot_weight (y_slots y)"] by auto
  moreover have "weights_ok (x_max_weight x) (map slot_weight (y_slots y))"
    unfolding weights_ok_def using act by (auto simp: slot_weight_def split: option.splits)
  ultimately obtain k level where
    sel: "select_iwrr (y_slots y) (y_cursor y) (y_level y) = Inr (k, k + 1, level)" "k < length (y_slots y)"
      "eligible (map slot_weight (y_slots y)) k level" "1 \<le> level" "level \<le> x_max_weight x"
    using select_total [of "y_slots y" "x_max_weight x" "y_level y" "y_cursor y"] g by (auto simp: gaps_def)
  then obtain t where t: "y_slots y ! k = Some t"
    by (auto simp: eligible_Some slot_weight_def split: option.splits)
  have "1 \<le> t_remaining t" using b t sel(2) by (metis busy_def nth_mem)
  with some sel t show ?thesis using that by blast
qed

lemma serve_ok:
  assumes y: "between x step m y" and x: "scenario_facts x" and step: "0 \<le> step" "step < 512"
  shows "postE {} (between x step m) (serve x step y)"
proof (cases "\<forall>s \<in> set (y_slots y). s = None")
  case True
  then have "\<not> list_ex (\<lambda>s. case s of None \<Rightarrow> False | Some t \<Rightarrow> t_active t) (y_slots y)" by (auto simp: list_ex_iff)
  with y show ?thesis by (simp add: serve_def)
next
  case False
  have ok: "world_ok x y" and b: "busy y" and wt: "waiting x step m (y_runtime y)"
    and l: "linked x (y_slots y) (y_runtime y)"
    and g: "gaps x (y_slots y) (y_cursor y) (y_level y) (y_logical_tick y)"
    using y by (simp_all add: between_def world_ok_def)
  from serve_choice [OF ok b x False] obtain k level t where
    some: "list_ex (\<lambda>s. case s of None \<Rightarrow> False | Some t \<Rightarrow> t_active t) (y_slots y)"
    and sel: "select_iwrr (y_slots y) (y_cursor y) (y_level y) = Inr (k, k + 1, level)" "k < length (y_slots y)"
      "1 \<le> level" "level \<le> x_max_weight x"
    and t: "y_slots y ! k = Some t" and rem: "1 \<le> t_remaining t" .
  note ls = linked_slot [OF l sel(2) t]
  define i where "i = t_item_index t"
  have i: "i < length (x_items x)" using ls(2) by (simp add: slot_bound_def i_def)
  note tb = tick_bounds [OF ok x] and iw = item_word_bounds [OF x i]
  let ?w = "x_items x ! i" and ?s = "y_runtime y ! i" and ?tick = "y_logical_tick y + 1"
  let ?wait = "?tick - t_last_service_tick t"
  let ?t = "t\<lparr>t_remaining := t_remaining t - 1, t_last_service_tick := ?tick\<rparr>"
  let ?r = "?s\<lparr>q_first_service_step := (if q_first_service_step ?s = ABSENT_STEP then step else q_first_service_step ?s),
      q_served_quanta := q_served_quanta ?s + 1,
      q_maximum_wait_quanta := max (q_maximum_wait_quanta ?s) ?wait,
      q_fairness_quanta := q_fairness_quanta ?s + bool_word (w_fairness_member ?w
        \<and> x_fairness_start_tick x < ?tick \<and> ?tick \<le> x_fairness_end_tick x)\<rparr>"
  let ?y = "\<lambda>tr. y\<lparr>y_slots := (y_slots y)[k := Some ?t], y_cursor := k + 1, y_level := level,
      y_logical_tick := ?tick, y_runtime := (y_runtime y)[i := ?r], y_trace := tr\<rparr>"
  have sb: "q_state ?s = Active" "q_slot_index ?s = k" "t_remaining t = w_work_quanta ?w - q_served_quanta ?s"
      "q_rejection_reason ?s = REJECTION_NONE" "0 \<le> q_served_quanta ?s" "i < length (y_runtime y)"
    using ls i_def by (auto simp: slot_bound_def run_bound_def)
  have tickd: "world_ok x (?y tr)" if "length tr = Suc (length (y_trace y))" for tr
    by (rule world_ok_tick [OF ok x sel(1) sel(2) t rem refl sel(3,4) i_def refl refl])
      (use sb that in simp_all)
  have "?wait \<le> service_gap x"
  proof -
    have "waits_ok x ((y_runtime y)[i := ?r])" using tickd [of "undefined # y_trace y"] by (simp add: world_ok_def)
    from waits_nth [OF this, of i] show ?thesis using sb(6) by simp
  qed
  moreover have "1 \<le> ?wait" using g t sel(2) by (simp add: gaps_def)
  ultimately have wait: "0 \<le> ?wait" "?wait \<le> 983026" using gap_bounds [OF x] by simp_all
  let ?e = "(trace_event step (w_ordinal ?w) EVENT_SERVICE (?tick - 1) ?tick)
      \<lparr>e_remaining_before := t_remaining t, e_remaining_after := t_remaining t - 1, e_wait_quanta := ?wait\<rparr>"
  have "\<forall>v \<in> set (trace_words ?e). is_u64 v"
    using step tb iw wait rem sb(3,5) by (auto simp: trace_words_def trace_event_def is_u64_def)
  from append_trace_ok [OF this, of "y_trace y"] obtain root where
    a: "append_trace (y_trace y) ?e = Inr (y_trace y @ [?e\<lparr>e_record_sha256 := root\<rparr>], root)" .
  let ?tr = "y_trace y @ [?e\<lparr>e_record_sha256 := root\<rparr>]"
  have ok': "world_ok x (?y ?tr)" by (rule tickd) simp
  have wt': "waiting x step m (y_runtime (?y ?tr))" using waiting_update [OF wt, of i m ?r] sb(1) by simp
  have serve: "serve x step y =
      (if t_remaining t - 1 = 0 then retire step k ?t ?w (?y ?tr) else Inr (?y ?tr))"
    using some sel t a by (simp add: serve_def Let_def i_def [symmetric])
  show ?thesis
  proof (cases "t_remaining t = 1")
    case False
    then have "busy (?y ?tr)" using busy_update [OF b, of "Some ?t" k] rem by (simp add: busy_def)
    with False ok' wt' show ?thesis by (simp add: serve between_def)
  next
    case True
    let ?f = "trace_event step (w_ordinal ?w) EVENT_RETIRE ?tick ?tick"
    have "\<forall>v \<in> set (trace_words ?f). is_u64 v"
      using step tb iw by (auto simp: trace_words_def trace_event_def is_u64_def)
    from append_trace_ok [OF this, of ?tr] obtain root' where
      a': "append_trace ?tr ?f = Inr (?tr @ [?f\<lparr>e_record_sha256 := root'\<rparr>], root')" .
    let ?q = "?r\<lparr>q_state := Terminal, q_terminal_step := step, q_outcome := Some OUTCOME_COMPLETED,
        q_terminal_trace_sha256 := root'\<rparr>"
    have q: "q_state ?q = Terminal" "ended ?w ?q" "q_outcome ?q \<noteq> Some OUTCOME_REJECTED"
        "q_served_quanta ?q = q_served_quanta (y_runtime (?y ?tr) ! i)"
        "q_maximum_wait_quanta ?q = q_maximum_wait_quanta (y_runtime (?y ?tr) ! i)"
      using sb True by (simp_all add: ended_def)
    have k': "k < length (y_slots (?y ?tr))" "y_slots (?y ?tr) ! k = Some ?t" using sel(2) by simp_all
    have b': "\<forall>k' t'. k' < length (y_slots (?y ?tr)) \<longrightarrow> k' \<noteq> k \<longrightarrow> y_slots (?y ?tr) ! k' = Some t' \<longrightarrow> 1 \<le> t_remaining t'"
      using b by (auto simp: busy_def) (metis nth_mem)
    have it: "i = t_item_index ?t" by (simp add: i_def)
    have "length (?tr @ [?f\<lparr>e_record_sha256 := root'\<rparr>]) = Suc (length (y_trace (?y ?tr)))" by simp
    from between_vacate [OF ok' wt' b' k' it q this] obtain used where
      u: "claim_subtract (y_used (?y ?tr)) (t_claim ?t) = Inr used"
        "between x step m ((?y ?tr)\<lparr>y_used := used, y_slots := (y_slots (?y ?tr))[k := None],
          y_releases := y_releases (?y ?tr) + 1, y_trace := ?tr @ [?f\<lparr>e_record_sha256 := root'\<rparr>],
          y_runtime := (y_runtime (?y ?tr))[i := ?q]\<rparr>)" .
    have "retire step k ?t ?w (?y ?tr) = Inr ((?y ?tr)\<lparr>y_used := used, y_slots := (y_slots (?y ?tr))[k := None],
          y_releases := y_releases (?y ?tr) + 1, y_trace := ?tr @ [?f\<lparr>e_record_sha256 := root'\<rparr>],
          y_runtime := (y_runtime (?y ?tr))[i := ?q]\<rparr>)"
      unfolding retire_def u(1) using sb(6) a' by (simp add: i_def [symmetric])
    with True u(2) show ?thesis by (simp only: serve postE_simps) simp
  qed
qed

section \<open>The driver\<close>

lemma driver_step_ok:
  assumes y: "between x step 0 y" and x: "scenario_facts x" and step: "0 \<le> step" "step < 512"
  shows "postE REPLAY_ERRORS (between x (step + 1) 0) (driver_step x step y)"
proof -
  let ?n = "length (x_items x)" and ?es = "enumerate 0 (x_items x)"
  have "postE REPLAY_ERRORS (between x step (length ?es)) (foldE (arrive x step) y ?es)"
    by (rule postE_foldE [where P = "between x step"])
      (use y arrive_ok [OF _ x _ step] in \<open>simp_all add: nth_enumerate_eq\<close>)
  moreover have "postE REPLAY_ERRORS (between x step ?n) (foldE (act step) z ?es)" if "between x step ?n z" for z
  proof -
    have "postE REPLAY_ERRORS ((\<lambda>k. between x step ?n) (length ?es)) (foldE (act step) z ?es)"
      by (rule postE_foldE) (use that act_ok [OF _ x _ step] in \<open>simp_all add: nth_enumerate_eq\<close>)
    then show ?thesis .
  qed
  moreover have "postE REPLAY_ERRORS (between x (step + 1) 0) (serve x step z)" if z: "between x step ?n z" for z
  proof -
    have "between x (step + 1) 0 u" if "between x step ?n u" for u
      using that by (fastforce simp: between_def world_ok_def linked_def waiting_def)
    with serve_ok [OF z x step] show ?thesis by (cases "serve x step z") simp_all
  qed
  ultimately show ?thesis unfolding driver_step_def by (auto intro!: postE_bind)
qed

definition run_settled :: "scenario \<Rightarrow> world \<Rightarrow> bool" where
  "run_settled x y \<longleftrightarrow> world_ok x y \<and> (\<forall>r \<in> set (y_runtime y). q_state r = Terminal)"

lemma drive_ok:
  "between x step 0 y \<Longrightarrow> scenario_facts x \<Longrightarrow> 0 \<le> step \<Longrightarrow> step + int n \<le> 512 \<Longrightarrow>
    postE REPLAY_ERRORS (\<lambda>(y', steps). run_settled x y' \<and> step < steps \<and> steps \<le> step + int n) (drive x n step y)"
proof (induction n arbitrary: step y)
  case (Suc n)
  have d: "postE REPLAY_ERRORS (between x (step + 1) 0) (driver_step x step y)"
    using Suc.prems by (intro driver_step_ok) simp_all
  have "postE REPLAY_ERRORS (\<lambda>(y', steps). run_settled x y' \<and> step < steps \<and> steps \<le> step + int (Suc n))
      (if list_all (\<lambda>state. q_state state = Terminal) (y_runtime z) then Inr (z, step + 1) else drive x n (step + 1) z)"
    if z: "between x (step + 1) 0 z" for z
  proof (cases "list_all (\<lambda>state. q_state state = Terminal) (y_runtime z)")
    case True
    with z show ?thesis by (simp add: run_settled_def between_def list_all_iff)
  next
    case False
    have "postE REPLAY_ERRORS (\<lambda>(y', steps). run_settled x y' \<and> step + 1 < steps \<and> steps \<le> step + 1 + int n)
        (drive x n (step + 1) z)"
      by (rule Suc.IH) (use z Suc.prems in simp_all)
    with False show ?thesis by (auto elim!: postE_weaken)
  qed
  then show ?case by (auto intro!: postE_bind [OF d])
qed simp

lemma world_start_ok:
  assumes "scenario_facts x" "\<forall>w \<in> set (x_items x). 0 \<le> w_arrival_step w"
  shows "between x 0 0 (world_start x)"
proof -
  have h: "host_of empty_claim = 0" "\<forall>j < 10. claim_words empty_claim ! j = 0"
    by (simp_all add: host_of_def empty_claim_def claim_words_of sum_list_replicate)
  have "bank.balanced t_claim empty_claim (replicate (slot_count x) None)"
    by (rule bank.balanced_start) (use h in simp)
  moreover have "linked x (replicate (slot_count x) None) (map (\<lambda>_. run_start) (x_items x))"
    using assms(1)
    by (auto simp: linked_def run_bound_def run_start_def scenario_facts_def item_facts_def)
  moreover have "live (replicate (slot_count x) None) = 0" by (simp add: live_def tally_def)
  moreover have "\<forall>v \<in> set (limit_words (x_limits x)). 0 \<le> v" using assms(1) by (simp add: scenario_facts_def is_u64_def)
  then have "\<forall>j < 10. 0 \<le> claim_words (m_fields (x_limits x)) ! j" "0 \<le> m_host_bytes (x_limits x)"
    by (simp_all add: limit_words_def)
  moreover have "sum_list (map (\<lambda>x. 0 :: int) xs) = 0" for xs :: "work_item list" by (induction xs) simp_all
  ultimately show ?thesis using assms(1) h gap_bounds [OF assms(1)]
    by (simp add: between_def world_ok_def busy_def waiting_def world_start_def gaps_def counted_def peaks_ok_def
        waits_ok_def run_start_def run_events_def comp_def scenario_facts_def)
qed

lemma replay_ok:
  assumes x: "validate_scenario x = Inr x'"
  shows "postE REPLAY_ERRORS (\<lambda>(y, steps). run_settled x y \<and> 0 < steps \<and> steps \<le> x_max_driver_steps x)
    (drive x (nat (x_max_driver_steps x)) 0 (world_start x))"
proof -
  note f = validate_scenario_facts [OF x]
  have "0 \<le> w_arrival_step w" if "w \<in> set (x_items x)" for w
    using that f(2)
    by (force simp: in_set_conv_nth scenario_facts_def item_facts_def item_words_def item_head_words_def is_u64_def)
  then have "between x 0 0 (world_start x)" by (intro world_start_ok [OF f(2)]) simp
  from drive_ok [OF this f(2), of "nat (x_max_driver_steps x)"] f(2) show ?thesis
    by (simp add: scenario_facts_def)
qed

end
