(* ===== verification/Pressure_Properties.thy ===== *)
theory Pressure_Properties
  imports Pressure_Driver
begin

text \<open>
  The properties of the workload pressure oracle: the scheduler always finds a slot and starves
  none, a replay of a validated scenario fails for three reasons only, and what a finished replay
  has settled. Each replay property holds of the scenario \<open>demo\<close>, two image requests in two slots.
\<close>

section \<open>Settled replays\<close>

lemma settled_runs: "run_settled x y \<Longrightarrow> i < length (x_items x) \<Longrightarrow>
  length (y_runtime y) = length (x_items x) \<and> q_state (y_runtime y ! i) = Terminal \<and> ended (x_items x ! i) (y_runtime y ! i)"
  by (auto simp: run_settled_def world_ok_def linked_def run_bound_def dest!: bspec [OF _ nth_mem])

lemma settled_slots:
  assumes "run_settled x y"
  shows "\<forall>s \<in> set (y_slots y). s = None" and "y_used y = empty_claim"
    and "y_successful_commits y = y_releases y"
proof -
  have l: "linked x (y_slots y) (y_runtime y)" and b: "bank.balanced t_claim (y_used y) (y_slots y)"
    and c: "counted y" and t: "\<forall>r \<in> set (y_runtime y). q_state r = Terminal"
    using assms by (simp_all add: run_settled_def world_ok_def)
  show n: "\<forall>s \<in> set (y_slots y). s = None"
  proof
    fix s assume "s \<in> set (y_slots y)"
    then obtain k where k: "k < length (y_slots y)" "y_slots y ! k = s" by (auto simp: in_set_conv_nth)
    show "s = None"
    proof (cases s)
      case (Some u)
      then show ?thesis using linked_slot(1,2) [OF l k(1), of u] k t
        by (auto simp: slot_bound_def dest!: bspec [OF _ nth_mem])
    qed simp
  qed
  have "claim_words (y_used y) ! j = 0" if "j < 10" for j
    using bank.balanced_empty [OF b n that] .
  then show "y_used y = empty_claim"
    unfolding claim_words_inject [symmetric] by (intro nth_equalityI) (simp_all add: empty_claim_def claim_words_of)
  have "live (y_slots y) = 0" using n by (simp add: live_def tally_zero_iff)
  with c show "y_successful_commits y = y_releases y" by (simp add: counted_def)
qed

lemma replay_settled:
  assumes "validate_scenario x = Inr x'" "drive x (nat (x_max_driver_steps x)) 0 (world_start x) = Inr (y, steps)"
  shows "run_settled x y" "0 < steps" "steps \<le> x_max_driver_steps x"
  using postE_Inr [OF replay_ok [OF assms(1)] assms(2)] by auto

section \<open>Repeated selection\<close>

text \<open>The slots chosen by \<open>n\<close> successive calls of the scheduler.\<close>

fun selections :: "nat \<Rightarrow> slot option list \<Rightarrow> nat \<Rightarrow> int \<Rightarrow> pressure_error + nat list" where
  "selections 0 slots cursor level = Inr []"
| "selections (Suc n) slots cursor level =
     bindE (select_iwrr slots cursor level) (\<lambda>(i, cursor, level).
       bindE (selections n slots cursor level) (\<lambda>picks. Inr (i # picks)))"

lemma selections_reach:
  assumes ok: "weights_ok bound (map slot_weight slots)" and j: "j < length slots" "slot_weight (slots ! j) = Some w"
  shows "cursor \<le> length slots \<Longrightarrow> 1 \<le> level \<Longrightarrow> level \<le> bound \<Longrightarrow>
    \<exists>picks. selections n slots cursor level = Inr picks \<and> (\<forall>i \<in> set picks. \<exists>t. slots ! i = Some t \<and> t_active t)
      \<and> (gap_left bound (int (length slots)) (int j) w (int cursor) level < int n \<longrightarrow> j \<in> set picks)"
proof (induction n arbitrary: cursor level)
  case 0
  have "Some w \<in> set (map slot_weight slots)" using j by (metis length_map nth_map nth_mem)
  then have "1 \<le> w" "w \<le> bound" using ok by (simp_all add: weights_ok_def)
  then have "0 \<le> gap_left bound (int (length slots)) (int j) w (int cursor) level"
    using 0 j by (intro gap_left_nonneg) auto
  then show ?case by simp
next
  case (Suc n)
  have "Some w \<in> set (map slot_weight slots)" using j by (metis length_map nth_map nth_mem)
  then have "active_weights (map slot_weight slots) \<noteq> []" using set_active_weights [of "map slot_weight slots"] by auto
  from select_total [OF this ok Suc.prems(2), of cursor] obtain i l where
    s: "select_iwrr slots cursor level = Inr (i, i + 1, l)" "i < length slots"
      "eligible (map slot_weight slots) i l" "1 \<le> l" "l \<le> bound" by auto
  obtain t where t: "slots ! i = Some t" "t_active t"
    using s(2,3) by (auto simp: eligible_Some slot_weight_def split: option.splits if_splits)
  from Suc.IH [of "i + 1" l] s(2,4,5) obtain picks where
    picks: "selections n slots (i + 1) l = Inr picks" "\<forall>i \<in> set picks. \<exists>t. slots ! i = Some t \<and> t_active t"
      "gap_left bound (int (length slots)) (int j) w (int (i + 1)) l < int n \<longrightarrow> j \<in> set picks" by auto
  have "gap_left bound (int (length slots)) (int j) w (int (i + 1)) l + 1
      \<le> gap_left bound (int (length slots)) (int j) w (int cursor) level" if "i \<noteq> j"
    by (rule select_gap [OF s(1) j ok Suc.prems(2,3,1) that])
  with s(1) t picks show ?case by (cases "i = j") auto
qed

section \<open>Ranks\<close>

lemma tally_sort: "tally P (sort xs) = tally P (xs :: int list)"
  by (simp add: tally_def filter_sort)

lemma tally_split: "k \<le> length xs \<Longrightarrow> tally P xs = tally P (take k xs) + tally P (drop k xs)"
  using tally_simps(3) [of P "take k xs" "drop k xs"] by simp

lemma tally_all: "(\<And>v. v \<in> set xs \<Longrightarrow> P v) \<Longrightarrow> tally P xs = int (length xs)"
  by (induction xs) simp_all

lemma sorted_rank:
  assumes "sorted (xs :: int list)" "k < length xs"
  shows "int k < tally (\<lambda>u. u \<le> xs ! k) xs" "tally (\<lambda>u. u < xs ! k) xs \<le> int k"
proof -
  have "u \<le> xs ! k" if "u \<in> set (take (Suc k) xs)" for u
    using that assms by (auto simp: in_set_conv_nth intro!: sorted_nth_mono)
  then have "tally (\<lambda>u. u \<le> xs ! k) (take (Suc k) xs) = int (Suc k)"
    using tally_all [of "take (Suc k) xs" "\<lambda>u. u \<le> xs ! k"] assms(2) by simp
  then show "int k < tally (\<lambda>u. u \<le> xs ! k) xs"
    using tally_split [of "Suc k" xs] tally_bounds(1) [of "\<lambda>u. u \<le> xs ! k" "drop (Suc k) xs"] assms(2) by simp
  have "\<not> u < xs ! k" if "u \<in> set (drop k xs)" for u
    using that assms by (auto simp: in_set_conv_nth not_less intro!: sorted_nth_mono)
  then have "tally (\<lambda>u. u < xs ! k) (drop k xs) = 0" by (simp add: tally_zero_iff)
  then show "tally (\<lambda>u. u < xs ! k) xs \<le> int k"
    using tally_split [of k xs] tally_bounds(2) [of "\<lambda>u. u < xs ! k" "take k xs"] assms(2) by simp
qed

section \<open>The summary\<close>

lemma make_outcome_Inr:
  "make_outcome (w, r) = Inr u \<Longrightarrow> q_outcome r = Some (u_kind u) \<and> u_served_quanta u = q_served_quanta r
    \<and> u_maximum_wait_quanta u = q_maximum_wait_quanta r \<and> u_rejection_reason u = q_rejection_reason r
    \<and> u_ordinal u = w_ordinal w"
  by (auto simp: make_outcome_def split: option.splits)

lemma outcomes_of_runs:
  assumes "mapE make_outcome (zip ws rs) = Inr us" "length rs = length ws" "i < length ws"
  shows "length us = length ws \<and> q_outcome (rs ! i) = Some (u_kind (us ! i))
    \<and> u_served_quanta (us ! i) = q_served_quanta (rs ! i)
    \<and> u_maximum_wait_quanta (us ! i) = q_maximum_wait_quanta (rs ! i)
    \<and> u_rejection_reason (us ! i) = q_rejection_reason (rs ! i) \<and> u_ordinal (us ! i) = w_ordinal (ws ! i)"
proof -
  have "length us = length ws" using mapE_length [OF assms(1)] assms(2) by simp
  moreover have "make_outcome (ws ! i, rs ! i) = Inr (us ! i)"
    using mapE_nth [OF assms(1), of i] assms(2,3) by simp
  ultimately show ?thesis by (simp add: make_outcome_Inr)
qed

lemma max_list_in: "vs \<noteq> [] \<Longrightarrow> max_list vs \<in> set vs"
  by (simp add: max_list_Max)

text \<open>A finished run and its outcome agree, item by item.\<close>

lemma settled_outcomes:
  assumes st: "run_settled x y" and us: "mapE make_outcome (zip (x_items x) (y_runtime y)) = Inr us"
  shows "length us = length (x_items x)" "y_logical_tick y = sum_list (map u_served_quanta us)"
    "int (length (y_trace y)) = sum_list (map (\<lambda>u. if u_kind u = OUTCOME_REJECTED then 1 else 2 + u_served_quanta u) us)"
    "map u_maximum_wait_quanta us = map q_maximum_wait_quanta (y_runtime y)"
proof -
  have l: "length (y_runtime y) = length (x_items x)" and c: "counted y"
    using st by (simp_all add: run_settled_def world_ok_def linked_def)
  show n: "length us = length (x_items x)" using mapE_length [OF us] l by simp
  note o1 = outcomes_of_runs [OF us l]
  have "map u_served_quanta us = map q_served_quanta (y_runtime y)"
    using o1 l n by (intro nth_equalityI) auto
  then show "y_logical_tick y = sum_list (map u_served_quanta us)" using c by (simp add: counted_def)
  show "map u_maximum_wait_quanta us = map q_maximum_wait_quanta (y_runtime y)"
    using o1 l n by (intro nth_equalityI) auto
  have "map (\<lambda>u. if u_kind u = OUTCOME_REJECTED then 1 else 2 + u_served_quanta u) us = map run_events (y_runtime y)"
    using o1 l n settled_runs [OF st] by (intro nth_equalityI) (auto simp: run_events_def)
  then show "int (length (y_trace y)) = sum_list (map (\<lambda>u. if u_kind u = OUTCOME_REJECTED then 1 else 2 + u_served_quanta u) us)"
    using c by (simp add: counted_def)
qed

lemma settled_kinds:
  assumes st: "run_settled x y" and us: "mapE make_outcome (zip (x_items x) (y_runtime y)) = Inr us" and i: "i < length (x_items x)"
    and w: "1 \<le> w_work_quanta (x_items x ! i)"
  shows "u_kind (us ! i) \<in> {OUTCOME_COMPLETED, OUTCOME_REJECTED, OUTCOME_CANCELLED, OUTCOME_TIMED_OUT}"
    "(u_kind (us ! i) = OUTCOME_COMPLETED) = (u_served_quanta (us ! i) = w_work_quanta (x_items x ! i))"
    "u_kind (us ! i) = OUTCOME_REJECTED \<Longrightarrow> u_served_quanta (us ! i) = 0"
    "(u_kind (us ! i) = OUTCOME_REJECTED) = (u_rejection_reason (us ! i) \<noteq> REJECTION_NONE)"
proof -
  have l: "length (y_runtime y) = length (x_items x)" and x: "ended (x_items x ! i) (y_runtime y ! i)"
    using settled_runs [OF st i] by simp_all
  note o1 = outcomes_of_runs [OF us l i]
  show "u_kind (us ! i) \<in> {OUTCOME_COMPLETED, OUTCOME_REJECTED, OUTCOME_CANCELLED, OUTCOME_TIMED_OUT}"
      "u_kind (us ! i) = OUTCOME_REJECTED \<Longrightarrow> u_served_quanta (us ! i) = 0"
      "(u_kind (us ! i) = OUTCOME_REJECTED) = (u_rejection_reason (us ! i) \<noteq> REJECTION_NONE)"
    using x o1 by (auto simp: ended_def)
  show "(u_kind (us ! i) = OUTCOME_COMPLETED) = (u_served_quanta (us ! i) = w_work_quanta (x_items x ! i))"
    using x o1 w by (auto simp: ended_def)
qed

lemma tally_events:
  "sum_list (map (\<lambda>u. if u_kind u = OUTCOME_REJECTED then 1 else 2 + u_served_quanta u) us) =
     2 * tally (\<lambda>u. u_kind u \<noteq> OUTCOME_REJECTED) us + kind_count OUTCOME_REJECTED us
     + sum_list (map (\<lambda>u. if u_kind u = OUTCOME_REJECTED then 0 else u_served_quanta u) us)"
  by (induction us) (simp_all add: kind_count_def)

lemma kind_counts:
  "\<forall>u \<in> set us. u_kind u \<in> {OUTCOME_COMPLETED, OUTCOME_REJECTED, OUTCOME_CANCELLED, OUTCOME_TIMED_OUT} \<Longrightarrow>
    tally (\<lambda>u. u_kind u \<noteq> OUTCOME_REJECTED) us =
      kind_count OUTCOME_COMPLETED us + kind_count OUTCOME_CANCELLED us + kind_count OUTCOME_TIMED_OUT us"
  by (induction us) (auto simp: kind_count_def)

text \<open>\<open>demo\<close>: two image requests of one quantum each.\<close>

definition demo_profile :: bytes where
  "demo_profile = sha_parts PROFILE_DOMAIN (map u64_bytes
     ([PROFILE_ABI, MEDIA_IMAGE, FAMILY_VISION_UNDERSTANDING, OPERATION_ENCODE] @ claim_words image_claim))"

definition demo_item :: "int \<Rightarrow> work_item" where
  "demo_item n = \<lparr>w_ordinal = n, w_family = 3, w_operation = 3, w_media_kind = 1, w_arrival_step = 0,
     w_weight = 1, w_work_quanta = 1, w_deadline_tick = 0, w_terminal_action_step = ABSENT_STEP,
     w_terminal_action = 0, w_fairness_member = True, w_tenant_key = n + 1, w_request_key = n + 1,
     w_request_generation = 1, w_resource_owner_key = n + 1, w_claim = image_claim,
     w_profile_sha256 = demo_profile\<rparr>"

definition demo :: scenario where
  "demo = \<lparr>x_mode = 1, x_seed = 1, x_max_driver_steps = 4, x_fairness_start_tick = 0,
     x_fairness_end_tick = 8, x_bank_epoch = 1, x_scheduler_epoch = 1, x_max_weight = 1,
     x_max_projection_quanta = 8, x_max_projection_operations = 64, x_capacity = 2,
     x_limits = \<lparr>m_host_bytes = 10000, m_fields = claim_of (replicate 10 4096)\<rparr>,
     x_challenge = replicate 32 1, x_items = [demo_item 0, demo_item 1]\<rparr>"

lemma demo_valid: "validate_scenario demo = Inr demo"
  by (simp add: validate_scenario_def demo_def demo_item_def demo_profile_def scenario_words_def
      result_simps mapE_total u64P_def digestP_def check_item_def validate_item_def item_head_words_def
      item_key_words_def media_profile_def validate_claim_def image_claim_def empty_claim_def claim_of_def
      claim_words_def limit_words_def item_check_start_def bool_word_def zeros_def numeral_eq_Suc Let_def)


lemmas demo_eval = demo_def world_start_def driver_step_def demo_item_def arrive_def admission_def
  tenant_live_def run_start_def claim_add_def image_claim_def empty_claim_def claim_of_def claim_words_def
  u64P_def fits_def host_bytes_def projection_rejection_def spend_def project_slot_def deadline_slot_def
  admit_item_def update_peak_def append_trace_def trace_record_sha256_def trace_words_def trace_event_def
  live_def claim_max_def act_def numeral_eq_Suc

lemmas demo_serve = serve_def select_iwrr_def slot_weight_def active_weights_def map_filter_def max_list_def
  min_cursor_def probe_def eligible_def retire_def claim_subtract_def bool_word_def

lemma demo_drive: "\<exists>y. drive demo (nat (x_max_driver_steps demo)) 0 (world_start demo) = Inr (y, 2)"
  by (simp add: demo_eval demo_serve Let_def)

definition demo_late :: scenario where
  "demo_late = demo\<lparr>x_items := [(demo_item 0)\<lparr>w_terminal_action_step := 1, w_terminal_action := 1\<rparr>, demo_item 1]\<rparr>"

lemma demo_late_valid: "validate_scenario demo_late = Inr demo_late"
  by (simp add: validate_scenario_def demo_late_def demo_def demo_item_def demo_profile_def scenario_words_def
      result_simps mapE_total u64P_def digestP_def check_item_def validate_item_def item_head_words_def
      item_key_words_def media_profile_def validate_claim_def image_claim_def empty_claim_def claim_of_def
      claim_words_def limit_words_def item_check_start_def bool_word_def zeros_def numeral_eq_Suc Let_def)

lemma demo_late_drive:
  "drive demo_late (nat (x_max_driver_steps demo_late)) 0 (world_start demo_late) = Inl ActionLacksActive"
  by (simp add: demo_late_def demo_eval demo_serve Let_def)

section \<open>The scheduler\<close>

text \<open>
  C15. Starvation freedom of \<open>_select_iwrr\<close>: over any run of successive selections from a legal cursor
  and level, no call fails, every choice is an occupied active slot, and within
  \<open>(len(slots) - 1) * bound + 1\<close> selections every active slot is chosen, whatever its weight between
  1 and \<open>bound\<close>.
\<close>

theorem select_starves_none:
  assumes "weights_ok bound (map slot_weight slots)" and "j < length slots" "slot_weight (slots ! j) = Some w"
    and "cursor \<le> length slots" "1 \<le> level" "level \<le> bound"
    and "(int (length slots) - 1) * bound < int n"
  shows "\<exists>picks. selections n slots cursor level = Inr picks \<and> j \<in> set picks
    \<and> (\<forall>i \<in> set picks. \<exists>t. slots ! i = Some t \<and> t_active t)"
proof -
  have "Some w \<in> set (map slot_weight slots)" using assms(2,3) by (metis length_map nth_map nth_mem)
  then have "1 \<le> w" "w \<le> bound" using assms(1) by (simp_all add: weights_ok_def)
  then have "gap_left bound (int (length slots)) (int j) w (int cursor) level < int n"
    using gap_left_bound [of "int j" "int (length slots)" "int cursor" w bound level] assms by simp
  with selections_reach [OF assms(1-6), of n] show ?thesis by auto
qed

definition demo_slot :: "int \<Rightarrow> slot option" where
  "demo_slot w = Some \<lparr>t_item_index = 0, t_tenant_key = 1, t_weight = w, t_remaining = 5, t_deadline_tick = 0,
     t_admitted_tick = 0, t_last_service_tick = 0, t_active = True, t_claim = empty_claim\<rparr>"

theorem select_starves_none_witness:
  "\<exists>picks. selections 7 [demo_slot 3, None, demo_slot 1] 1 2 = Inr picks \<and> 2 \<in> set picks
    \<and> (\<forall>i \<in> set picks. \<exists>t. [demo_slot 3, None, demo_slot 1] ! i = Some t \<and> t_active t)"
  by (rule select_starves_none [where bound = 3 and w = 1])
    (auto simp: weights_ok_def demo_slot_def slot_weight_def)

text \<open>
  C20. The scan of \<open>_select_iwrr\<close> always ends with a choice: when a slot is active and the weights are
  between 1 and \<open>bound\<close>, the \<open>len(slots) * max_weight\<close> probes suffice from any cursor and positive
  level, so neither "no runnable request" nor "scan exhausted" is raised; the chosen slot's weight
  is at least the new level, and the cursor moves just past it.
\<close>

theorem select_terminates:
  assumes "active_weights (map slot_weight slots) \<noteq> []" "weights_ok bound (map slot_weight slots)" "1 \<le> level"
  shows "\<exists>i t level'. select_iwrr slots cursor level = Inr (i, i + 1, level') \<and> i < length slots
    \<and> slots ! i = Some t \<and> t_active t \<and> 1 \<le> level' \<and> level' \<le> t_weight t \<and> t_weight t \<le> bound"
proof -
  from select_total [OF assms, of cursor] obtain i l where
    s: "select_iwrr slots cursor level = Inr (i, i + 1, l)" "i < length slots"
      "eligible (map slot_weight slots) i l" "1 \<le> l" by auto
  then obtain t where t: "slots ! i = Some t" "t_active t" "l \<le> t_weight t"
    by (auto simp: eligible_Some slot_weight_def split: option.splits if_splits)
  then have "Some (t_weight t) \<in> set (map slot_weight slots)" using s(2) by (force simp: slot_weight_def in_set_conv_nth)
  then have "t_weight t \<le> bound" using assms(2) by (simp add: weights_ok_def)
  with s t show ?thesis by blast
qed

theorem select_terminates_witness:
  "\<exists>i t level'. select_iwrr [None, demo_slot 2] 2 5 = Inr (i, i + 1, level') \<and> i < length [None, demo_slot 2]
    \<and> [None, demo_slot 2] ! i = Some t \<and> t_active t \<and> 1 \<le> level' \<and> level' \<le> t_weight t \<and> t_weight t \<le> 7"
  by (rule select_terminates [where bound = 7])
    (auto simp: weights_ok_def demo_slot_def slot_weight_def active_weights_def map_filter_def)

section \<open>Replays\<close>

text \<open>
  C16. The driver loop of the replay of a validated scenario raises for three reasons only: an item arrives
  past its deadline, a terminal action finds its item not active, or the driver steps run out; the replay then
  raises just that. The u64 checks of the accounting and of the trace, the accounting underflow, both
  scheduler errors and the duplicate arrival are unreachable in it.
\<close>

theorem replay_error_source:
  assumes "validate_scenario v = Inr x"
    and "drive x (nat (x_max_driver_steps x)) 0 (world_start x) = Inl e"
  shows "replay_scenario v = Inl e \<and> e \<in> {DeadlinePast, ActionLacksActive, DriverStepLimit}"
proof -
  have "x = v" using validate_scenario_facts(1) [OF assms(1)] .
  then show ?thesis using postE_Inl [OF replay_ok assms(2)] assms by (simp add: replay_scenario_def)
qed

theorem replay_error_source_witness: "replay_scenario demo_late = Inl ActionLacksActive"
  using replay_error_source [OF demo_late_valid demo_late_drive] by simp

text \<open>
  C17. No orphans: when a replay ends, every slot is free, the claims in use are zero, every commit
  was released, every item is terminal, and the driver stayed within its step limit.
\<close>

theorem replay_releases_everything:
  assumes "validate_scenario x = Inr x'"
    and "drive x (nat (x_max_driver_steps x)) 0 (world_start x) = Inr (y, steps)"
  shows "list_all (\<lambda>s. s = None) (y_slots y) \<and> y_used y = empty_claim \<and> y_successful_commits y = y_releases y
    \<and> list_all (\<lambda>r. q_state r = Terminal) (y_runtime y) \<and> 1 \<le> steps \<and> steps \<le> x_max_driver_steps x"
  using settled_slots [OF replay_settled(1) [OF assms]] replay_settled [OF assms]
  by (simp add: list_all_iff run_settled_def)

theorem replay_releases_everything_witness:
  "\<exists>y. drive demo (nat (x_max_driver_steps demo)) 0 (world_start demo) = Inr (y, 2) \<and> y_used y = empty_claim"
  using demo_drive replay_releases_everything [OF demo_valid] by metis

text \<open>
  C18. The service gap: no item of a finished replay ever waited longer between two of its services,
  or between admission and its first one, than \<open>(capacity - 1) * configured_max_weight + 1\<close> quanta,
  the \<open>maximum_service_gap\<close> the summary reports.
\<close>

theorem replay_wait_bound:
  assumes "validate_scenario x = Inr x'"
    and "drive x (nat (x_max_driver_steps x)) 0 (world_start x) = Inr (y, steps)"
  shows "length (y_runtime y) = length (x_items x)
    \<and> list_all (\<lambda>r. q_maximum_wait_quanta r \<le> z_maximum_service_gap (make_summary x y steps us)) (y_runtime y)"
  using replay_settled(1) [OF assms]
  by (simp add: run_settled_def world_ok_def linked_def waits_ok_def list_all_iff make_summary_def service_gap_def)

theorem replay_wait_bound_witness:
  "\<exists>y. drive demo (nat (x_max_driver_steps demo)) 0 (world_start demo) = Inr (y, 2) \<and> length (y_runtime y) = 2
    \<and> list_all (\<lambda>r. q_maximum_wait_quanta r \<le> z_maximum_service_gap (make_summary demo y 2 [])) (y_runtime y)"
proof -
  obtain y where y: "drive demo (nat (x_max_driver_steps demo)) 0 (world_start demo) = Inr (y, 2)" using demo_drive by blast
  have "length (x_items demo) = 2" by (simp add: demo_def)
  with y replay_wait_bound [OF demo_valid y, of "[]"] show ?thesis by auto
qed

text \<open>
  C19. Resource safety: over the whole replay no more slots were live than the capacity, and the peak
  of every claim field and of the host bytes stayed within the scenario's limits, although
  only \<open>_fits\<close> on admission checks them.
\<close>

theorem replay_within_limits:
  assumes "validate_scenario x = Inr x'"
    and "drive x (nat (x_max_driver_steps x)) 0 (world_start x) = Inr (y, steps)"
  shows "y_maximum_live y \<le> x_capacity x \<and> y_peak_host_bytes y \<le> m_host_bytes (x_limits x)
    \<and> list_all2 (\<le>) (claim_words (y_peak y)) (claim_words (m_fields (x_limits x)))"
  using replay_settled(1) [OF assms]
  by (simp add: run_settled_def world_ok_def peaks_ok_def list_all2_conv_all_nth)

theorem replay_within_limits_witness:
  "\<exists>y. drive demo (nat (x_max_driver_steps demo)) 0 (world_start demo) = Inr (y, 2) \<and> y_maximum_live y \<le> 2"
proof -
  obtain y where y: "drive demo (nat (x_max_driver_steps demo)) 0 (world_start demo) = Inr (y, 2)" using demo_drive by blast
  have "x_capacity demo = 2" by (simp add: demo_def)
  with y replay_within_limits [OF demo_valid y] show ?thesis by auto
qed

text \<open>
  The summary of a finished replay accounts for every item and every quantum: the admitted and the
  rejected items are all items, each admitted item was completed, cancelled or timed out, the final
  logical tick is the number of quanta served, and the reported maximum wait is within the reported
  service gap, so the final accounting checks of \<open>_validate_result_structure\<close> on these fields hold.
\<close>

theorem summary_accounts:
  assumes "validate_scenario x = Inr x'"
    and "drive x (nat (x_max_driver_steps x)) 0 (world_start x) = Inr (y, steps)"
    and "mapE make_outcome (zip (x_items x) (y_runtime y)) = Inr us"
  shows "let z = make_summary x y steps us in
    z_admitted z + z_rejected z = int (length (x_items x))
    \<and> z_admitted z = z_completed z + z_cancelled z + z_timed_out z
    \<and> z_service_quanta z = z_final_logical_tick z
    \<and> z_maximum_wait_quanta z \<le> z_maximum_service_gap z \<and> z_zero_orphan_ownership z"
proof -
  have st: "run_settled x y" by (rule replay_settled(1) [OF assms(1,2)])
  note o1 = settled_outcomes [OF st assms(3)]
  note f = validate_scenario_facts(2) [OF assms(1)]
  have k: "\<forall>u \<in> set us. u_kind u \<in> {OUTCOME_COMPLETED, OUTCOME_REJECTED, OUTCOME_CANCELLED, OUTCOME_TIMED_OUT}"
    using settled_kinds(1) [OF st assms(3)] item_word_bounds(3) [OF f] o1(1) by (metis in_set_conv_nth)
  have "us \<noteq> []" using o1(1) f by (auto simp: scenario_facts_def)
  then have "max_list (map u_maximum_wait_quanta us) \<in> set (map u_maximum_wait_quanta us)" by (intro max_list_in) simp
  then have "max_list (map u_maximum_wait_quanta us) \<le> service_gap x"
    using st unfolding o1(4) by (auto simp: run_settled_def world_ok_def waits_ok_def)
  moreover have "tally (\<lambda>u. u_kind u \<noteq> OUTCOME_REJECTED) us + kind_count OUTCOME_REJECTED us = int (length us)"
    using tally_complement [of "\<lambda>u. u_kind u = OUTCOME_REJECTED" us] by (simp add: kind_count_def)
  moreover have "\<forall>v \<in> set (claim_words empty_claim). v = 0" by (simp add: empty_claim_def claim_words_of)
  ultimately show ?thesis
    using kind_counts [OF k] o1(1,2) settled_slots [OF st]
    by (simp add: make_summary_def Let_def service_gap_def list_all_iff)
qed

lemma demo_outcomes:
  "\<exists>y us. drive demo (nat (x_max_driver_steps demo)) 0 (world_start demo) = Inr (y, 2)
     \<and> mapE make_outcome (zip (x_items demo) (y_runtime y)) = Inr us"
  by (simp add: demo_eval demo_serve Let_def make_outcome_def)

theorem summary_accounts_witness:
  "\<exists>y us. drive demo (nat (x_max_driver_steps demo)) 0 (world_start demo) = Inr (y, 2)
     \<and> z_service_quanta (make_summary demo y 2 us) = z_final_logical_tick (make_summary demo y 2 us)"
  using demo_outcomes summary_accounts [OF demo_valid] by (metis (no_types, lifting))

text \<open>
  What became of every item: completed items are exactly those that were served all their work
  quanta, rejected items were served none and carry a rejection reason, and no other kind of
  outcome exists.
\<close>

theorem outcome_served:
  assumes "validate_scenario x = Inr x'"
    and "drive x (nat (x_max_driver_steps x)) 0 (world_start x) = Inr (y, steps)"
    and "mapE make_outcome (zip (x_items x) (y_runtime y)) = Inr us" and "i < length (x_items x)"
  shows "u_kind (us ! i) \<in> {OUTCOME_COMPLETED, OUTCOME_REJECTED, OUTCOME_CANCELLED, OUTCOME_TIMED_OUT}
    \<and> (u_kind (us ! i) = OUTCOME_COMPLETED \<longleftrightarrow> u_served_quanta (us ! i) = w_work_quanta (x_items x ! i))
    \<and> (u_kind (us ! i) = OUTCOME_REJECTED \<longrightarrow> u_served_quanta (us ! i) = 0)
    \<and> (u_kind (us ! i) = OUTCOME_REJECTED \<longleftrightarrow> u_rejection_reason (us ! i) \<noteq> REJECTION_NONE)"
  using settled_kinds [OF replay_settled(1) [OF assms(1,2)] assms(3,4)]
    item_word_bounds(3) [OF validate_scenario_facts(2) [OF assms(1)] assms(4)] by simp

theorem outcome_served_witness:
  "\<exists>y (us :: outcome list). drive demo (nat (x_max_driver_steps demo)) 0 (world_start demo) = Inr (y, 2)
     \<and> (u_kind (us ! 1) = OUTCOME_COMPLETED \<longleftrightarrow> u_served_quanta (us ! 1) = w_work_quanta (x_items demo ! 1))"
proof -
  obtain y us where y: "drive demo (nat (x_max_driver_steps demo)) 0 (world_start demo) = Inr (y, 2)"
    "mapE make_outcome (zip (x_items demo) (y_runtime y)) = Inr us" using demo_outcomes by blast
  have "1 < length (x_items demo)" by (simp add: demo_def)
  from outcome_served [OF demo_valid y this] y(1) show ?thesis by (intro exI [of _ y] exI [of _ us]) simp
qed

text \<open>
  The trace envelope: a finished replay wrote one record per rejected item, two per admitted item
  and one per quantum, at most 63 in all, so with the closing record the trace is never longer than
  \<open>MAXIMUM_TRACE_RECORDS\<close> and \<open>trace_sha256\<close> does not refuse its length.
\<close>

theorem trace_envelope:
  assumes "validate_scenario x = Inr x'"
    and "drive x (nat (x_max_driver_steps x)) 0 (world_start x) = Inr (y, steps)"
    and "mapE make_outcome (zip (x_items x) (y_runtime y)) = Inr us"
  shows "let z = make_summary x y steps us in
    int (length (y_trace y)) = z_rejected z + 2 * z_admitted z + z_service_quanta z
    \<and> int (length (y_trace y @ [e])) \<le> MAXIMUM_TRACE_RECORDS"
proof -
  have st: "run_settled x y" by (rule replay_settled(1) [OF assms(1,2)])
  note o1 = settled_outcomes [OF st assms(3)]
  note f = validate_scenario_facts(2) [OF assms(1)]
  note b = item_word_bounds(3) [OF f]
  have e: "map (\<lambda>u. if u_kind u = OUTCOME_REJECTED then 0 else u_served_quanta u) us = map u_served_quanta us"
    using settled_kinds(3) [OF st assms(3) _ b] o1(1) by (intro nth_equalityI) auto
  have "sum_list (map u_served_quanta us) \<le> sum_list (map w_work_quanta (x_items x))"
  proof (rule sum_list_mono2, simp add: o1(1), rule impI)
    fix i assume i: "i < length (map u_served_quanta us)"
    with o1(1) have i': "i < length (x_items x)" by simp
    have "run_bound x (y_slots y) i (y_runtime y ! i)" "length (y_runtime y) = length (x_items x)"
      using st i' by (simp_all add: run_settled_def world_ok_def linked_def)
    with outcomes_of_runs [OF assms(3) _ i'] i i'
    show "map u_served_quanta us ! i \<le> map w_work_quanta (x_items x) ! i" by (simp add: run_bound_def)
  qed
  moreover have "tally (\<lambda>u. u_kind u \<noteq> OUTCOME_REJECTED) us + kind_count OUTCOME_REJECTED us = int (length us)"
    using tally_complement [of "\<lambda>u. u_kind u = OUTCOME_REJECTED" us] by (simp add: kind_count_def)
  moreover have "0 \<le> kind_count OUTCOME_REJECTED us" by (simp add: kind_count_def tally_bounds)
  ultimately show ?thesis
    using o1(1,3) f by (simp add: tally_events e make_summary_def Let_def scenario_facts_def)
qed

theorem trace_envelope_witness:
  "\<exists>y us. drive demo (nat (x_max_driver_steps demo)) 0 (world_start demo) = Inr (y, 2)
     \<and> int (length (y_trace y)) = z_rejected (make_summary demo y 2 us) + 2 * z_admitted (make_summary demo y 2 us)
         + z_service_quanta (make_summary demo y 2 us)"
  using demo_outcomes trace_envelope [OF demo_valid] by (metis (no_types, lifting))

section \<open>Results\<close>

text \<open>
  C21. \<open>validate_result\<close> accepts exactly the result of the replay: a result is accepted for a scenario
  if and only if replaying the scenario returns that very result.
\<close>

theorem validate_result_exact:
  "validate_result x g = Inr g' \<longleftrightarrow> replay_scenario x = Inr g \<and> g' = g"
proof -
  have r: "validate_scenario x = Inr x' \<and> validate_result_structure g = Inr () \<and> scenario_sha256 x' = Inr (g_scenario_sha256 g)"
    if "replay_scenario x = Inr g" "validate_scenario x = Inr x'" for x'
    using that by (auto simp: replay_scenario_def result_simps Let_def)
  have v: "\<exists>x'. validate_scenario x = Inr x'" if "replay_scenario x = Inr g"
    using that by (auto simp: replay_scenario_def result_simps)
  show ?thesis
    using r v validate_scenario_facts(1) by (fastforce simp: validate_result_def result_simps)
qed

text \<open>
  \<open>_nearest_rank\<close> is the nearest-rank percentile: one of the values, at or below which lie at least
  \<open>percentile\<close> percent of them, and strictly below which lie fewer.
\<close>

theorem nearest_rank_percentile:
  assumes "values \<noteq> []" "1 \<le> percentile" "percentile \<le> 100"
  shows "nearest_rank values percentile \<in> set values
    \<and> percentile * int (length values) \<le> 100 * tally (\<lambda>u. u \<le> nearest_rank values percentile) values
    \<and> 100 * tally (\<lambda>u. u < nearest_rank values percentile) values < percentile * int (length values)"
proof -
  let ?n = "int (length values)" and ?xs = "sort values"
  let ?k = "nat ((percentile * ?n + 99) div 100 - 1)"
  have n: "1 \<le> ?n" using assms(1) by (cases "values") auto
  have pn: "1 \<le> percentile * ?n" "percentile * ?n \<le> 100 * ?n"
    using mult_mono [of 1 percentile 1 ?n] assms n by (simp_all add: mult_right_mono)
  then have k: "?k < length ?xs" "percentile * ?n \<le> 100 * (int ?k + 1)" "100 * int ?k < percentile * ?n"
    by (auto simp: nat_less_iff)
  have e: "nearest_rank values percentile = ?xs ! ?k"
    using assms(1) pn by (simp add: nearest_rank_def Let_def max_def)
  have "?xs ! ?k \<in> set values" using nth_mem [OF k(1)] by simp
  with sorted_rank [OF sorted_sort k(1)] k(2,3) show ?thesis
    unfolding e tally_sort by linarith
qed

theorem nearest_rank_percentile_witness:
  "nearest_rank [5, 1, 4] 50 \<in> set [5, 1, 4]
    \<and> 50 * int (length [5, 1, 4 :: int]) \<le> 100 * tally (\<lambda>u. u \<le> nearest_rank [5, 1, 4] 50) [5, 1, 4]
    \<and> 100 * tally (\<lambda>u. u < nearest_rank [5, 1, 4] 50) [5, 1, 4] < 50 * int (length [5, 1, 4 :: int])"
  by (rule nearest_rank_percentile) simp_all

end
