(* ===== verification/Device_Wire.thy ===== *)
theory Device_Wire
  imports Sha256
begin

unbundle bit_operations_syntax

text \<open>
  The values of the device allocation lease oracle, \<open>bench/device_allocation_lease.py\<close>: ResourceBank
  receipts and children with their mixed integrity words, the allocation authority, quotes and their
  alignment, and the allocation manifest. A value is sealed by the root of its transcript; a
  transcript is a list of chunks each of which is checked as it is packed.
\<close>

datatype (plugins only: code) device_error =
    DigestLength | OutsideU64 | OutsideU32 | AdditionOverflow | ReceiptIntegrity | ChildShape
  | MissingParent | InvalidChild | AlreadySealed | InvalidAuthority | InvalidQuote | InvalidAlignment
  | ManifestCount | ManifestEntry | InvalidManifest | RequestComposition | InvalidAdmission
  | AdmissionRootZero | InvalidCall | InvalidObject | SetBoundary | ForeignCall | DuplicateIdentity
  | SetMember | InvalidObjectSet | AdmissionSubstitution | InvalidLease | OutstandingOrder
  | InvalidRecovery | ReleasedWithoutLease | InvalidTerminal | ForeignAuthority | QuoteReplay
  | AnotherLease | OrdinalLive | ObjectCapacity | ByteCapacity | NoFreeSlot | BackendGeneration
  | StaleObject | FreeFailure | MissingOrdinal | ZeroEpoch | SlotOccupied | LiveQuoteReplay
  | CoordinatorGeneration | StaleAdmission | StaleLease | StaleTicket

section \<open>Constants\<close>

abbreviation U32_MAX :: int where "U32_MAX \<equiv> 4294967295"
abbreviation MAXIMUM_ALLOCATIONS :: int where "MAXIMUM_ALLOCATIONS \<equiv> 64"
abbreviation MANIFEST_ABI :: int where "MANIFEST_ABI \<equiv> 0x4744414D00000001"
abbreviation REQUEST_ABI :: int where "REQUEST_ABI \<equiv> 0x4744415100000001"
abbreviation AUTHORITY_ABI :: int where "AUTHORITY_ABI \<equiv> 0x4744414100000001"
abbreviation QUOTE_ABI :: int where "QUOTE_ABI \<equiv> 0x4744415500000001"
abbreviation ADMISSION_ABI :: int where "ADMISSION_ABI \<equiv> 0x4744414400000001"
abbreviation ALLOCATION_CALL_ABI :: int where "ALLOCATION_CALL_ABI \<equiv> 0x4744414300000001"
abbreviation BACKEND_OBJECT_ABI :: int where "BACKEND_OBJECT_ABI \<equiv> 0x4744414F00000001"
abbreviation OBJECT_SET_ABI :: int where "OBJECT_SET_ABI \<equiv> 0x4744415300000001"
abbreviation LEASE_ABI :: int where "LEASE_ABI \<equiv> 0x4744414C00000001"
abbreviation RECOVERY_ABI :: int where "RECOVERY_ABI \<equiv> 0x4744415200000001"
abbreviation TERMINAL_ABI :: int where "TERMINAL_ABI \<equiv> 0x4744415400000001"
abbreviation RESOURCE_CHILD_ABI :: int where "RESOURCE_CHILD_ABI \<equiv> 0x4752434C00000001"

definition MANIFEST_DOMAIN :: bytes where
  "MANIFEST_DOMAIN = ascii ''glacier-device-allocation-manifest-v1'' @ [0]"
definition REQUEST_DOMAIN :: bytes where
  "REQUEST_DOMAIN = ascii ''glacier-device-allocation-request-v1'' @ [0]"
definition AUTHORITY_DOMAIN :: bytes where
  "AUTHORITY_DOMAIN = ascii ''glacier-device-allocation-authority-v1'' @ [0]"
definition QUOTE_DOMAIN :: bytes where
  "QUOTE_DOMAIN = ascii ''glacier-device-allocation-quote-v1'' @ [0]"
definition ADMISSION_DOMAIN :: bytes where
  "ADMISSION_DOMAIN = ascii ''glacier-device-allocation-admission-v1'' @ [0]"
definition ALLOCATION_CALL_DOMAIN :: bytes where
  "ALLOCATION_CALL_DOMAIN = ascii ''glacier-device-allocation-call-v1'' @ [0]"
definition BACKEND_OBJECT_DOMAIN :: bytes where
  "BACKEND_OBJECT_DOMAIN = ascii ''glacier-device-allocation-object-v1'' @ [0]"
definition OBJECT_SET_DOMAIN :: bytes where
  "OBJECT_SET_DOMAIN = ascii ''glacier-device-allocation-object-set-v1'' @ [0]"
definition LEASE_DOMAIN :: bytes where
  "LEASE_DOMAIN = ascii ''glacier-device-allocation-lease-v1'' @ [0]"
definition RECOVERY_DOMAIN :: bytes where
  "RECOVERY_DOMAIN = ascii ''glacier-device-allocation-recovery-v1'' @ [0]"
definition OUTSTANDING_SET_DOMAIN :: bytes where
  "OUTSTANDING_SET_DOMAIN = ascii ''glacier-device-allocation-outstanding-v1'' @ [0]"
definition TERMINAL_DOMAIN :: bytes where
  "TERMINAL_DOMAIN = ascii ''glacier-device-allocation-terminal-v1'' @ [0]"
definition CHILD_KEY_DOMAIN :: bytes where
  "CHILD_KEY_DOMAIN = ascii ''glacier-device-allocation-child-key-v1'' @ [0]"
definition FAKE_OBJECT_IDENTITY_DOMAIN :: bytes where
  "FAKE_OBJECT_IDENTITY_DOMAIN = ascii ''glacier-device-allocation-fake-object-id-v1'' @ [0]"
definition RESOURCE_RECEIPT_DOMAIN :: bytes where
  "RESOURCE_RECEIPT_DOMAIN = ascii ''glacier-resource-receipt-binding-v1'' @ [0]"
definition RESOURCE_CHILD_DOMAIN :: bytes where
  "RESOURCE_CHILD_DOMAIN = ascii ''glacier-resource-child-binding-v1'' @ [0]"

abbreviation RESOURCE_RECEIPT_INTEGRITY_DOMAIN :: int where
  "RESOURCE_RECEIPT_INTEGRITY_DOMAIN \<equiv> 0x7265636569707431"
abbreviation RESOURCE_CHILD_INTEGRITY_DOMAIN :: int where
  "RESOURCE_CHILD_INTEGRITY_DOMAIN \<equiv> 0x6368696C646C7331"
abbreviation DEVICE_ACCELERATOR :: int where "DEVICE_ACCELERATOR \<equiv> 2"
abbreviation FEATURE_ALLOCATION :: int where "FEATURE_ALLOCATION \<equiv> 1"

section \<open>Checked scalars and transcripts\<close>

definition digestD :: "bytes \<Rightarrow> device_error + bytes" where
  "digestD v = (if length v \<noteq> 32 then Inl DigestLength else Inr v)"

definition u64D :: "int \<Rightarrow> device_error + int" where
  "u64D v = (if v < 0 \<or> v > U64_MAX then Inl OutsideU64 else Inr v)"

definition u32D :: "int \<Rightarrow> device_error + int" where
  "u32D v = bindE (u64D v) (\<lambda>_. if v > U32_MAX then Inl OutsideU32 else Inr v)"

definition u64sD :: "int list \<Rightarrow> device_error + unit" where
  "u64sD vs = bindE (mapE u64D vs) (\<lambda>_. Inr ())"

definition digestsD :: "bytes list \<Rightarrow> device_error + unit" where
  "digestsD vs = bindE (mapE digestD vs) (\<lambda>_. Inr ())"

text \<open>\<open>_le\<close> and \<open>_hash\<close>; the chunks of a transcript are checked in order as they are built.\<close>

definition le :: "int list \<Rightarrow> device_error + bytes" where
  "le vs = bindE (u64sD vs) (\<lambda>_. Inr (pack_u64s vs))"

definition hash_chunks :: "bytes \<Rightarrow> (device_error + bytes) list \<Rightarrow> device_error + bytes" where
  "hash_chunks domain chunks = bindE (mapE (\<lambda>c. c) chunks) (\<lambda>parts. Inr (sha_parts domain parts))"

definition add_u64D :: "int \<Rightarrow> int \<Rightarrow> device_error + int" where
  "add_u64D left right =
     bindE (u64sD [left, right]) (\<lambda>_.
       let value = left + right in if value > U64_MAX then Inl AdditionOverflow else Inr value)"

lemma digestD_Inr [result_simps]: "digestD v = Inr w \<longleftrightarrow> length v = 32 \<and> w = v"
  by (auto simp: digestD_def)

lemma u64D_Inr [result_simps]: "u64D v = Inr w \<longleftrightarrow> is_u64 v \<and> w = v"
  by (auto simp: u64D_def is_u64_def)

lemma u32D_Inr [result_simps]: "u32D v = Inr w \<longleftrightarrow> 0 \<le> v \<and> v \<le> U32_MAX \<and> w = v"
  by (auto simp: u32D_def result_simps is_u64_def)

lemmas mapE_u64D = mapE_guard [of u64D is_u64 "\<lambda>v. v", OF u64D_Inr]
lemmas mapE_digestD = mapE_guard [of digestD "\<lambda>v. length v = 32" "\<lambda>v. v", OF digestD_Inr]

lemma u64sD_Inr [result_simps]: "u64sD vs = Inr u \<longleftrightarrow> (\<forall>v \<in> set vs. is_u64 v)"
  by (simp add: u64sD_def bindE_Inr mapE_u64D)

lemma digestsD_Inr [result_simps]: "digestsD vs = Inr u \<longleftrightarrow> (\<forall>v \<in> set vs. length v = 32)"
  by (simp add: digestsD_def bindE_Inr mapE_digestD)

lemma add_u64D_Inr [result_simps]:
  "add_u64D a b = Inr c \<longleftrightarrow> is_u64 a \<and> is_u64 b \<and> c = a + b \<and> a + b \<le> U64_MAX"
  by (auto simp: add_u64D_def bindE_Inr u64sD_Inr Let_def)

text \<open>The same facts read forwards, to evaluate checks that pass.\<close>

lemma le_ok: "\<forall>v \<in> set vs. is_u64 v \<Longrightarrow> le vs = Inr (pack_u64s vs)"
  by (simp add: le_def result_simps)

lemma digestD_ok: "length v = 32 \<Longrightarrow> digestD v = Inr v"
  by (simp add: digestD_def)

lemma u64sD_ok: "\<forall>v \<in> set vs. is_u64 v \<Longrightarrow> u64sD vs = Inr ()"
  by (simp add: result_simps)

lemma u64D_ok: "is_u64 v \<Longrightarrow> u64D v = Inr v"
  by (simp add: result_simps)

lemma u32D_ok: "0 \<le> v \<Longrightarrow> v \<le> U32_MAX \<Longrightarrow> u32D v = Inr v"
  by (simp add: result_simps)

lemma digestsD_ok: "\<forall>v \<in> set vs. length v = 32 \<Longrightarrow> digestsD vs = Inr ()"
  by (simp add: result_simps)

lemma add_u64D_ok: "is_u64 a \<Longrightarrow> is_u64 b \<Longrightarrow> a + b \<le> U64_MAX \<Longrightarrow> add_u64D a b = Inr (a + b)"
  by (simp add: result_simps)

lemmas scalar_simps = u64sD_ok u64D_ok u32D_ok digestsD_ok add_u64D_ok is_u64_def
lemma hash_chunks_length: "hash_chunks d cs = Inr h \<Longrightarrow> length h = 32"
  by (auto simp: hash_chunks_def result_simps)

section \<open>Claims\<close>

record claim_v1 =
  cv_capsule_bytes :: int
  cv_kv_bytes :: int
  cv_activation_bytes :: int
  cv_partial_bytes :: int
  cv_logits_bytes :: int
  cv_output_journal_bytes :: int
  cv_staging_bytes :: int
  cv_device_bytes :: int
  cv_io_bytes :: int
  cv_queue_slots :: int

definition claim_values :: "claim_v1 \<Rightarrow> int list" where
  "claim_values c =
    [cv_capsule_bytes c, cv_kv_bytes c, cv_activation_bytes c, cv_partial_bytes c, cv_logits_bytes c,
     cv_output_journal_bytes c, cv_staging_bytes c, cv_device_bytes c, cv_io_bytes c, cv_queue_slots c]"

text \<open>\<open>ClaimV1()\<close>.\<close>

definition zero_claim :: claim_v1 where
  "zero_claim = \<lparr>cv_capsule_bytes = 0, cv_kv_bytes = 0, cv_activation_bytes = 0, cv_partial_bytes = 0,
     cv_logits_bytes = 0, cv_output_journal_bytes = 0, cv_staging_bytes = 0, cv_device_bytes = 0,
     cv_io_bytes = 0, cv_queue_slots = 0\<rparr>"

definition claim_bytes :: "claim_v1 \<Rightarrow> device_error + bytes" where
  "claim_bytes c = bindE (u64sD (claim_values c)) (\<lambda>_. le (claim_values c))"

definition claim_within :: "claim_v1 \<Rightarrow> claim_v1 \<Rightarrow> bool" where
  "claim_within value_claim ceiling =
     list_all (\<lambda>(current, maximum). current \<le> maximum) (zip (claim_values value_claim) (claim_values ceiling))"

definition claim_is_zero :: "claim_v1 \<Rightarrow> bool" where
  "claim_is_zero c = list_all (\<lambda>v. v = 0) (claim_values c)"

section \<open>Integrity words\<close>

text \<open>\<open>_mix64\<close> keeps every intermediate value within 64 bits, so it is a function of 64-bit words.\<close>

definition mix64 :: "64 word \<Rightarrow> 64 word" where
  "mix64 w =
     (let w = w XOR drop_bit 30 w; w = w * 0xBF58476D1CE4E5B9;
          w = w XOR drop_bit 27 w; w = w * 0x94D049BB133111EB
      in w XOR drop_bit 31 w)"

text \<open>The loop over the values: each is mixed into the word so far.\<close>

fun mix_values :: "64 word \<Rightarrow> int list \<Rightarrow> 64 word" where
  "mix_values r [] = r"
| "mix_values r (v # vs) = mix_values (mix64 (r XOR word_of_int v)) vs"

section \<open>ResourceBank receipts\<close>

record receipt =
  rr_bank_epoch :: int
  rr_slot_index :: int
  rr_generation :: int
  rr_owner_key :: int
  rr_claim :: claim_v1
  rr_integrity :: int

definition receipt_integrity :: "int \<Rightarrow> int \<Rightarrow> int \<Rightarrow> int \<Rightarrow> claim_v1 \<Rightarrow> device_error + int" where
  "receipt_integrity bank_epoch slot_index generation owner_key c =
     bindE (u64sD ([bank_epoch, slot_index, generation, owner_key] @ claim_values c)) (\<lambda>_.
       Inr (uint (mix_values
         (mix64 (word_of_int RESOURCE_RECEIPT_INTEGRITY_DOMAIN XOR word_of_int bank_epoch))
         ([slot_index, generation, owner_key] @ claim_values c))))"

definition validate_resource_receipt :: "receipt \<Rightarrow> device_error + unit" where
  "validate_resource_receipt r =
     bindE (u32D (rr_slot_index r)) (\<lambda>_.
     bindE (u64sD [rr_bank_epoch r, rr_generation r, rr_owner_key r, rr_integrity r]) (\<lambda>_.
     bindE (claim_bytes (rr_claim r)) (\<lambda>_.
     bindE (receipt_integrity (rr_bank_epoch r) (rr_slot_index r) (rr_generation r) (rr_owner_key r)
         (rr_claim r)) (\<lambda>integrity.
       if rr_integrity r \<noteq> integrity then Inl ReceiptIntegrity else Inr ()))))"

definition seal_resource_receipt ::
  "int \<Rightarrow> int \<Rightarrow> int \<Rightarrow> int \<Rightarrow> claim_v1 \<Rightarrow> device_error + receipt" where
  "seal_resource_receipt bank_epoch slot_index generation owner_key c =
     bindE (receipt_integrity bank_epoch slot_index generation owner_key c) (\<lambda>integrity.
       let r = \<lparr>rr_bank_epoch = bank_epoch, rr_slot_index = slot_index, rr_generation = generation,
             rr_owner_key = owner_key, rr_claim = c, rr_integrity = integrity\<rparr>
       in bindE (validate_resource_receipt r) (\<lambda>_. Inr r))"

definition resource_receipt_root :: "receipt \<Rightarrow> device_error + bytes" where
  "resource_receipt_root r =
     bindE (validate_resource_receipt r) (\<lambda>_.
       hash_chunks RESOURCE_RECEIPT_DOMAIN
         [le [rr_bank_epoch r, rr_slot_index r, rr_generation r, rr_owner_key r],
          claim_bytes (rr_claim r), le [rr_integrity r]])"

section \<open>ResourceBank children\<close>

record child =
  ch_abi_version :: int
  ch_parent :: "receipt option"
  ch_child_key :: int
  ch_generation :: int
  ch_ceiling :: claim_v1
  ch_claim :: claim_v1
  ch_integrity :: int

definition child_integrity :: "receipt \<Rightarrow> int \<Rightarrow> int \<Rightarrow> claim_v1 \<Rightarrow> claim_v1 \<Rightarrow> device_error + int" where
  "child_integrity parent child_key generation ceiling c =
     bindE (validate_resource_receipt parent) (\<lambda>_.
     bindE (u64sD ([child_key, generation] @ claim_values ceiling @ claim_values c)) (\<lambda>_.
       Inr (uint (mix_values
         (mix64 (word_of_int RESOURCE_CHILD_INTEGRITY_DOMAIN XOR word_of_int (rr_integrity parent)))
         ([rr_bank_epoch parent, rr_slot_index parent, rr_generation parent, rr_owner_key parent,
           child_key, generation] @ claim_values ceiling @ claim_values c)))))"

definition validate_resource_child :: "child \<Rightarrow> device_error + unit" where
  "validate_resource_child c =
     (case ch_parent c of None \<Rightarrow> Inl MissingParent
      | Some parent \<Rightarrow>
        bindE (validate_resource_receipt parent) (\<lambda>_.
        bindE (u64sD [ch_abi_version c, ch_child_key c, ch_generation c, ch_integrity c]) (\<lambda>_.
        bindE (claim_bytes (ch_ceiling c)) (\<lambda>_.
        bindE (claim_bytes (ch_claim c)) (\<lambda>_.
          if ch_abi_version c \<noteq> RESOURCE_CHILD_ABI \<or> ch_child_key c = 0 \<or> ch_generation c = 0
             \<or> claim_is_zero (ch_ceiling c) \<or> \<not> claim_within (ch_claim c) (ch_ceiling c)
          then Inl InvalidChild
          else bindE (child_integrity parent (ch_child_key c) (ch_generation c) (ch_ceiling c) (ch_claim c))
            (\<lambda>integrity. if ch_integrity c \<noteq> integrity then Inl InvalidChild else Inr ()))))))"

definition open_resource_child ::
  "receipt \<Rightarrow> int \<Rightarrow> int \<Rightarrow> claim_v1 \<Rightarrow> claim_v1 \<Rightarrow> device_error + child" where
  "open_resource_child parent child_key generation ceiling c =
     bindE (validate_resource_receipt parent) (\<lambda>_.
       if child_key = 0 \<or> generation = 0 \<or> claim_is_zero ceiling \<or> \<not> claim_within c ceiling
       then Inl ChildShape
       else bindE (child_integrity parent child_key generation ceiling c) (\<lambda>integrity.
         let r = \<lparr>ch_abi_version = RESOURCE_CHILD_ABI, ch_parent = Some parent, ch_child_key = child_key,
               ch_generation = generation, ch_ceiling = ceiling, ch_claim = c, ch_integrity = integrity\<rparr>
         in bindE (validate_resource_child r) (\<lambda>_. Inr r)))"

definition resource_child_root :: "child \<Rightarrow> device_error + bytes" where
  "resource_child_root c =
     bindE (validate_resource_child c) (\<lambda>_.
       hash_chunks RESOURCE_CHILD_DOMAIN
         [le [ch_abi_version c], resource_receipt_root (the (ch_parent c)),
          le [ch_child_key c, ch_generation c], claim_bytes (ch_ceiling c), claim_bytes (ch_claim c),
          le [ch_integrity c]])"

section \<open>Authority\<close>

record authority =
  au_abi_version :: int
  au_authority_epoch :: int
  au_maximum_leases :: int
  au_maximum_live_objects :: int
  au_allocation_granularity_bytes :: int
  au_max_single_allocation_bytes :: int
  au_max_total_device_bytes :: int
  au_max_queue_slots :: int
  au_selected_discovery_epoch :: int
  au_selected_capability_sha256 :: bytes
  au_selected_entry_sha256 :: bytes
  au_backend_authority_sha256 :: bytes
  au_authority_sha256 :: bytes

definition authority_words :: "authority \<Rightarrow> int list" where
  "authority_words a =
    [au_abi_version a, au_authority_epoch a, au_maximum_leases a, au_maximum_live_objects a,
     au_allocation_granularity_bytes a, au_max_single_allocation_bytes a,
     au_max_total_device_bytes a, au_max_queue_slots a, au_selected_discovery_epoch a]"

definition authority_root :: "authority \<Rightarrow> device_error + bytes" where
  "authority_root a =
     hash_chunks AUTHORITY_DOMAIN
       [le (authority_words a), digestD (au_selected_capability_sha256 a),
        digestD (au_selected_entry_sha256 a), digestD (au_backend_authority_sha256 a)]"

definition validate_authority :: "authority \<Rightarrow> device_error + unit" where
  "validate_authority a =
     bindE (u64sD (authority_words a)) (\<lambda>_.
     bindE (digestsD [au_selected_capability_sha256 a, au_selected_entry_sha256 a,
         au_backend_authority_sha256 a, au_authority_sha256 a]) (\<lambda>_.
       let granularity = au_allocation_granularity_bytes a in
       if au_abi_version a \<noteq> AUTHORITY_ABI
          \<or> au_authority_epoch a = 0
          \<or> au_maximum_leases a \<noteq> 1
          \<or> au_maximum_live_objects a = 0
          \<or> au_maximum_live_objects a > MAXIMUM_ALLOCATIONS
          \<or> granularity = 0
          \<or> granularity AND (granularity - 1) \<noteq> 0
          \<or> au_max_single_allocation_bytes a = 0
          \<or> granularity > au_max_single_allocation_bytes a
          \<or> au_max_total_device_bytes a = 0
          \<or> au_max_single_allocation_bytes a > au_max_total_device_bytes a
          \<or> au_max_queue_slots a = 0
          \<or> au_selected_discovery_epoch a = 0
          \<or> au_selected_capability_sha256 a = ZERO_DIGEST
          \<or> au_selected_entry_sha256 a = ZERO_DIGEST
          \<or> au_backend_authority_sha256 a = ZERO_DIGEST
          \<or> au_authority_sha256 a = ZERO_DIGEST
       then Inl InvalidAuthority
       else bindE (authority_root a) (\<lambda>root.
         if au_authority_sha256 a \<noteq> root then Inl InvalidAuthority else Inr ())))"

definition seal_authority :: "authority \<Rightarrow> device_error + authority" where
  "seal_authority a =
     (if au_authority_sha256 a \<noteq> ZERO_DIGEST then Inl AlreadySealed
      else let a = a\<lparr>au_abi_version := AUTHORITY_ABI\<rparr> in
        bindE (authority_root a) (\<lambda>root.
          let a = a\<lparr>au_authority_sha256 := root\<rparr> in
          bindE (validate_authority a) (\<lambda>_. Inr a)))"

section \<open>Quotes\<close>

record quote =
  qu_abi_version :: int
  qu_authority_sha256 :: bytes
  qu_binding_sha256 :: bytes
  qu_requested_bytes :: int
  qu_charged_bytes :: int
  qu_quote_sha256 :: bytes

definition quote_root :: "quote \<Rightarrow> device_error + bytes" where
  "quote_root q =
     hash_chunks QUOTE_DOMAIN
       [le [qu_abi_version q], digestD (qu_authority_sha256 q), digestD (qu_binding_sha256 q),
        le [qu_requested_bytes q, qu_charged_bytes q]]"

text \<open>A validated authority has a positive granularity, so the remainder is defined.\<close>

definition validate_quote :: "quote \<Rightarrow> authority \<Rightarrow> device_error + unit" where
  "validate_quote q a =
     bindE (validate_authority a) (\<lambda>_.
     bindE (u64sD [qu_abi_version q, qu_requested_bytes q, qu_charged_bytes q]) (\<lambda>_.
     bindE (digestsD [qu_authority_sha256 q, qu_binding_sha256 q, qu_quote_sha256 q]) (\<lambda>_.
       if qu_abi_version q \<noteq> QUOTE_ABI
          \<or> qu_authority_sha256 q \<noteq> au_authority_sha256 a
          \<or> qu_binding_sha256 q = ZERO_DIGEST
          \<or> qu_requested_bytes q = 0
          \<or> qu_charged_bytes q < qu_requested_bytes q
          \<or> qu_charged_bytes q mod au_allocation_granularity_bytes a \<noteq> 0
          \<or> qu_charged_bytes q > au_max_single_allocation_bytes a
          \<or> qu_quote_sha256 q = ZERO_DIGEST
       then Inl InvalidQuote
       else bindE (quote_root q) (\<lambda>root.
         if qu_quote_sha256 q \<noteq> root then Inl InvalidQuote else Inr ()))))"

definition make_quote :: "authority \<Rightarrow> bytes \<Rightarrow> int \<Rightarrow> int \<Rightarrow> device_error + quote" where
  "make_quote a binding_sha256 requested_bytes charged_bytes =
     bindE (validate_authority a) (\<lambda>_.
       let q = \<lparr>qu_abi_version = QUOTE_ABI, qu_authority_sha256 = au_authority_sha256 a,
             qu_binding_sha256 = binding_sha256, qu_requested_bytes = requested_bytes,
             qu_charged_bytes = charged_bytes, qu_quote_sha256 = ZERO_DIGEST\<rparr> in
       bindE (quote_root q) (\<lambda>root.
         let q = q\<lparr>qu_quote_sha256 := root\<rparr> in
         bindE (validate_quote q a) (\<lambda>_. Inr q)))"

definition align_forward :: "int \<Rightarrow> int \<Rightarrow> device_error + int" where
  "align_forward value alignment =
     bindE (u64sD [value, alignment]) (\<lambda>_.
       if value = 0 \<or> alignment = 0 \<or> alignment AND (alignment - 1) \<noteq> 0 then Inl InvalidAlignment
       else bindE (add_u64D value (alignment - 1)) (\<lambda>with_mask.
         Inr (with_mask AND NOT (alignment - 1))))"

definition make_fake_quote :: "authority \<Rightarrow> bytes \<Rightarrow> int \<Rightarrow> device_error + quote" where
  "make_fake_quote a binding_sha256 requested_bytes =
     bindE (align_forward requested_bytes (au_allocation_granularity_bytes a)) (\<lambda>charged.
       make_quote a binding_sha256 requested_bytes charged)"

section \<open>Manifest\<close>

record manifest_entry =
  en_binding_sha256 :: bytes
  en_requested_bytes :: int
  en_charged_bytes :: int
  en_quote_sha256 :: bytes

record manifest =
  mf_abi_version :: int
  mf_allocation_count :: int
  mf_largest_requested_bytes :: int
  mf_total_requested_bytes :: int
  mf_largest_charged_bytes :: int
  mf_total_charged_bytes :: int
  mf_manifest_sha256 :: bytes

text \<open>The lexicographic order of Python byte strings.\<close>

fun bytes_less :: "bytes \<Rightarrow> bytes \<Rightarrow> bool" where
  "bytes_less [] ys = (ys \<noteq> [])"
| "bytes_less (x # xs) [] = False"
| "bytes_less (x # xs) (y # ys) = (x < y \<or> x = y \<and> bytes_less xs ys)"

record totals =
  to_total_requested :: int
  to_total_charged :: int
  to_largest_requested :: int
  to_largest_charged :: int
  to_prior :: "bytes option"

definition totals_step :: "totals \<Rightarrow> manifest_entry \<Rightarrow> device_error + totals" where
  "totals_step t e =
     bindE (digestsD [en_binding_sha256 e, en_quote_sha256 e]) (\<lambda>_.
     bindE (u64sD [en_requested_bytes e, en_charged_bytes e]) (\<lambda>_.
       if en_binding_sha256 e = ZERO_DIGEST
          \<or> en_quote_sha256 e = ZERO_DIGEST
          \<or> en_requested_bytes e = 0
          \<or> en_charged_bytes e < en_requested_bytes e
          \<or> (case to_prior t of None \<Rightarrow> False | Some prior \<Rightarrow> \<not> bytes_less prior (en_binding_sha256 e))
       then Inl ManifestEntry
       else bindE (add_u64D (to_total_requested t) (en_requested_bytes e)) (\<lambda>requested.
         bindE (add_u64D (to_total_charged t) (en_charged_bytes e)) (\<lambda>charged.
           Inr \<lparr>to_total_requested = requested, to_total_charged = charged,
                to_largest_requested = max (to_largest_requested t) (en_requested_bytes e),
                to_largest_charged = max (to_largest_charged t) (en_charged_bytes e),
                to_prior = Some (en_binding_sha256 e)\<rparr>))))"

definition totals_start :: totals where
  "totals_start = \<lparr>to_total_requested = 0, to_total_charged = 0, to_largest_requested = 0,
     to_largest_charged = 0, to_prior = None\<rparr>"

text \<open>The four totals in the order the code returns them.\<close>

definition manifest_totals :: "manifest_entry list \<Rightarrow> device_error + int \<times> int \<times> int \<times> int" where
  "manifest_totals entries =
     (if entries = [] \<or> int (length entries) > MAXIMUM_ALLOCATIONS then Inl ManifestCount
      else bindE (foldE totals_step totals_start entries) (\<lambda>t.
        Inr (to_largest_requested t, to_total_requested t, to_largest_charged t, to_total_charged t)))"

definition manifest_words :: "manifest \<Rightarrow> int list" where
  "manifest_words m =
    [mf_abi_version m, mf_allocation_count m, mf_largest_requested_bytes m, mf_total_requested_bytes m,
     mf_largest_charged_bytes m, mf_total_charged_bytes m]"

definition manifest_root :: "manifest \<Rightarrow> manifest_entry list \<Rightarrow> device_error + bytes" where
  "manifest_root m entries =
     hash_chunks MANIFEST_DOMAIN (le (manifest_words m) #
       concat (map (\<lambda>e. [digestD (en_binding_sha256 e), le [en_requested_bytes e, en_charged_bytes e],
         digestD (en_quote_sha256 e)]) entries))"

definition validate_manifest :: "manifest \<Rightarrow> manifest_entry list \<Rightarrow> device_error + unit" where
  "validate_manifest m entries =
     bindE (u64sD (manifest_words m)) (\<lambda>_.
     bindE (digestD (mf_manifest_sha256 m)) (\<lambda>_.
     bindE (manifest_totals entries) (\<lambda>totals.
       if mf_abi_version m \<noteq> MANIFEST_ABI
          \<or> mf_allocation_count m \<noteq> int (length entries)
          \<or> (mf_largest_requested_bytes m, mf_total_requested_bytes m, mf_largest_charged_bytes m,
              mf_total_charged_bytes m) \<noteq> totals
          \<or> mf_manifest_sha256 m = ZERO_DIGEST
       then Inl InvalidManifest
       else bindE (manifest_root m entries) (\<lambda>root.
         if mf_manifest_sha256 m \<noteq> root then Inl InvalidManifest else Inr ()))))"

definition seal_manifest :: "manifest_entry list \<Rightarrow> device_error + manifest" where
  "seal_manifest entries =
     bindE (manifest_totals entries) (\<lambda>(largest_requested, total_requested, largest_charged, total_charged).
       let m = \<lparr>mf_abi_version = MANIFEST_ABI, mf_allocation_count = int (length entries),
             mf_largest_requested_bytes = largest_requested, mf_total_requested_bytes = total_requested,
             mf_largest_charged_bytes = largest_charged, mf_total_charged_bytes = total_charged,
             mf_manifest_sha256 = ZERO_DIGEST\<rparr> in
       bindE (manifest_root m entries) (\<lambda>root.
         let m = m\<lparr>mf_manifest_sha256 := root\<rparr> in
         bindE (validate_manifest m entries) (\<lambda>_. Inr m)))"

definition quote_from_entry :: "authority \<Rightarrow> manifest_entry \<Rightarrow> quote" where
  "quote_from_entry a e =
    \<lparr>qu_abi_version = QUOTE_ABI, qu_authority_sha256 = au_authority_sha256 a,
     qu_binding_sha256 = en_binding_sha256 e, qu_requested_bytes = en_requested_bytes e,
     qu_charged_bytes = en_charged_bytes e, qu_quote_sha256 = en_quote_sha256 e\<rparr>"

end
