(* ===== verification/Device_Request.thy ===== *)
theory Device_Request
  imports Device_Wire
begin

text \<open>
  Requests, admissions and backend calls of \<open>bench/device_allocation_lease.py\<close>: the composition of a
  request from an authority, a validated device selection, a parent receipt and a manifest; the
  admission; the calls, the backend objects they return and the set of both.
\<close>

section \<open>Requests\<close>

record selection =
  se_receipt_sha256 :: bytes
  se_requirement_sha256 :: bytes
  se_selected_capability_sha256 :: bytes
  se_selected_entry_sha256 :: bytes
  se_selected_discovery_epoch :: int
  se_selected_device_class :: int
  se_fallback_used :: int
  se_required_feature_bits :: int
  se_largest_single_allocation_bytes :: int
  se_total_device_bytes :: int
  se_queue_slots :: int
  se_selected_max_single_allocation_bytes :: int
  se_selected_max_total_device_bytes :: int
  se_selected_max_queue_slots :: int

definition selection_words :: "selection \<Rightarrow> int list" where
  "selection_words s =
    [se_selected_discovery_epoch s, se_selected_device_class s, se_fallback_used s,
     se_required_feature_bits s, se_largest_single_allocation_bytes s, se_total_device_bytes s,
     se_queue_slots s, se_selected_max_single_allocation_bytes s, se_selected_max_total_device_bytes s,
     se_selected_max_queue_slots s]"

record request =
  rq_abi_version :: int
  rq_request_epoch :: int
  rq_owner_sha256 :: bytes
  rq_authority_sha256 :: bytes
  rq_selection_receipt_sha256 :: bytes
  rq_requirement_sha256 :: bytes
  rq_selected_capability_sha256 :: bytes
  rq_selected_entry_sha256 :: bytes
  rq_allocation_manifest_sha256 :: bytes
  rq_parent_receipt_sha256 :: bytes
  rq_allocation_count :: int
  rq_largest_single_allocation_bytes :: int
  rq_total_device_bytes :: int
  rq_queue_slots :: int
  rq_request_sha256 :: bytes

definition request_roots :: "request \<Rightarrow> bytes list" where
  "request_roots r =
    [rq_owner_sha256 r, rq_authority_sha256 r, rq_selection_receipt_sha256 r, rq_requirement_sha256 r,
     rq_selected_capability_sha256 r, rq_selected_entry_sha256 r, rq_allocation_manifest_sha256 r,
     rq_parent_receipt_sha256 r]"

definition request_root :: "request \<Rightarrow> device_error + bytes" where
  "request_root r =
     hash_chunks REQUEST_DOMAIN
       ([le [rq_abi_version r, rq_request_epoch r]] @ map digestD (request_roots r)
        @ [le [rq_allocation_count r, rq_largest_single_allocation_bytes r, rq_total_device_bytes r,
               rq_queue_slots r]])"

text \<open>
  The conjunction \<open>expected\<close>: what it requires of the request against its authority, selection, parent
  root and manifest, up to the last conjunct, which recomputes the request root.
\<close>

definition request_composition ::
  "request \<Rightarrow> authority \<Rightarrow> selection \<Rightarrow> receipt \<Rightarrow> bytes \<Rightarrow> manifest \<Rightarrow> bool" where
  "request_composition r a s parent parent_root m =
    (rq_abi_version r = REQUEST_ABI
     \<and> rq_request_epoch r \<noteq> 0
     \<and> rq_owner_sha256 r \<noteq> ZERO_DIGEST
     \<and> rq_authority_sha256 r = au_authority_sha256 a
     \<and> rq_selection_receipt_sha256 r = se_receipt_sha256 s
     \<and> rq_requirement_sha256 r = se_requirement_sha256 s
     \<and> rq_selected_capability_sha256 r = se_selected_capability_sha256 s
     \<and> rq_selected_entry_sha256 r = se_selected_entry_sha256 s
     \<and> rq_allocation_manifest_sha256 r = mf_manifest_sha256 m
     \<and> rq_parent_receipt_sha256 r = parent_root
     \<and> rq_allocation_count r = mf_allocation_count m
     \<and> rq_largest_single_allocation_bytes r = mf_largest_charged_bytes m
     \<and> rq_total_device_bytes r = mf_total_charged_bytes m
     \<and> rq_queue_slots r = se_queue_slots s
     \<and> rq_largest_single_allocation_bytes r = se_largest_single_allocation_bytes s
     \<and> rq_total_device_bytes r = se_total_device_bytes s
     \<and> cv_device_bytes (rr_claim parent) = 0
     \<and> cv_queue_slots (rr_claim parent) = se_queue_slots s
     \<and> se_selected_device_class s = DEVICE_ACCELERATOR
     \<and> se_fallback_used s = 0
     \<and> se_required_feature_bits s AND FEATURE_ALLOCATION \<noteq> 0
     \<and> se_largest_single_allocation_bytes s \<noteq> 0
     \<and> se_selected_max_single_allocation_bytes s \<noteq> 0
     \<and> se_selected_max_total_device_bytes s \<noteq> 0
     \<and> se_selected_max_queue_slots s \<noteq> 0
     \<and> au_max_single_allocation_bytes a \<le> se_selected_max_single_allocation_bytes s
     \<and> au_max_total_device_bytes a \<le> se_selected_max_total_device_bytes s
     \<and> au_max_queue_slots a \<le> se_selected_max_queue_slots s
     \<and> au_selected_capability_sha256 a = se_selected_capability_sha256 s
     \<and> au_selected_entry_sha256 a = se_selected_entry_sha256 s
     \<and> au_selected_discovery_epoch a = se_selected_discovery_epoch s
     \<and> au_max_single_allocation_bytes a \<ge> rq_largest_single_allocation_bytes r
     \<and> au_max_total_device_bytes a \<ge> rq_total_device_bytes r
     \<and> au_max_queue_slots a \<ge> rq_queue_slots r
     \<and> au_maximum_live_objects a \<ge> rq_allocation_count r
     \<and> rq_request_sha256 r \<noteq> ZERO_DIGEST)"

definition validate_request ::
  "request \<Rightarrow> authority \<Rightarrow> selection \<Rightarrow> receipt \<Rightarrow> manifest \<Rightarrow> manifest_entry list
    \<Rightarrow> device_error + unit" where
  "validate_request r a s parent m entries =
     bindE (validate_authority a) (\<lambda>_.
     bindE (validate_resource_receipt parent) (\<lambda>_.
     bindE (validate_manifest m entries) (\<lambda>_.
     bindE (u64sD ([rq_abi_version r, rq_request_epoch r, rq_allocation_count r,
         rq_largest_single_allocation_bytes r, rq_total_device_bytes r, rq_queue_slots r]
         @ selection_words s)) (\<lambda>_.
     bindE (digestsD (request_roots r @ [rq_request_sha256 r, se_receipt_sha256 s,
         se_requirement_sha256 s, se_selected_capability_sha256 s, se_selected_entry_sha256 s])) (\<lambda>_.
     bindE (mapE (\<lambda>e. validate_quote (quote_from_entry a e) a) entries) (\<lambda>_.
     bindE (resource_receipt_root parent) (\<lambda>parent_root.
       if \<not> request_composition r a s parent parent_root m then Inl RequestComposition
       else bindE (request_root r) (\<lambda>root.
         if rq_request_sha256 r \<noteq> root then Inl RequestComposition else Inr ()))))))))"

definition make_request ::
  "int \<Rightarrow> bytes \<Rightarrow> authority \<Rightarrow> selection \<Rightarrow> receipt \<Rightarrow> manifest \<Rightarrow> manifest_entry list
    \<Rightarrow> device_error + request" where
  "make_request request_epoch owner_sha256 a s parent m entries =
     bindE (resource_receipt_root parent) (\<lambda>parent_root.
       let r = \<lparr>rq_abi_version = REQUEST_ABI, rq_request_epoch = request_epoch,
             rq_owner_sha256 = owner_sha256, rq_authority_sha256 = au_authority_sha256 a,
             rq_selection_receipt_sha256 = se_receipt_sha256 s,
             rq_requirement_sha256 = se_requirement_sha256 s,
             rq_selected_capability_sha256 = se_selected_capability_sha256 s,
             rq_selected_entry_sha256 = se_selected_entry_sha256 s,
             rq_allocation_manifest_sha256 = mf_manifest_sha256 m,
             rq_parent_receipt_sha256 = parent_root, rq_allocation_count = mf_allocation_count m,
             rq_largest_single_allocation_bytes = mf_largest_charged_bytes m,
             rq_total_device_bytes = mf_total_charged_bytes m, rq_queue_slots = se_queue_slots s,
             rq_request_sha256 = ZERO_DIGEST\<rparr> in
       bindE (request_root r) (\<lambda>root.
         let r = r\<lparr>rq_request_sha256 := root\<rparr> in
         bindE (validate_request r a s parent m entries) (\<lambda>_. Inr r)))"

text \<open>\<open>struct.unpack("<Q", root[:8])\<close>, with zero mapped to one.\<close>

definition allocation_child_key :: "int \<Rightarrow> int \<Rightarrow> int \<Rightarrow> bytes \<Rightarrow> device_error + int" where
  "allocation_child_key coordinator_epoch slot_index generation request_sha256 =
     bindE (u32D slot_index) (\<lambda>_.
     bindE (hash_chunks CHILD_KEY_DOMAIN
         [le [coordinator_epoch, slot_index, generation], digestD request_sha256]) (\<lambda>root.
       let value = read_u64 root 0 in Inr (if value = 0 then 1 else value)))"

section \<open>Admissions\<close>

record admission_v1 =
  ad_abi_version :: int
  ad_coordinator_epoch :: int
  ad_slot_index :: int
  ad_generation :: int
  ad_authority_sha256 :: bytes
  ad_request_sha256 :: bytes
  ad_selection_receipt_sha256 :: bytes
  ad_selected_capability_sha256 :: bytes
  ad_allocation_manifest_sha256 :: bytes
  ad_parent_receipt_sha256 :: bytes
  ad_child_lease_sha256 :: bytes
  ad_allocation_count :: int
  ad_total_device_bytes :: int
  ad_admission_sha256 :: bytes

definition admission_roots :: "admission_v1 \<Rightarrow> bytes list" where
  "admission_roots d =
    [ad_authority_sha256 d, ad_request_sha256 d, ad_selection_receipt_sha256 d,
     ad_selected_capability_sha256 d, ad_allocation_manifest_sha256 d, ad_parent_receipt_sha256 d,
     ad_child_lease_sha256 d]"

definition admission_root :: "admission_v1 \<Rightarrow> device_error + bytes" where
  "admission_root d =
     hash_chunks ADMISSION_DOMAIN
       ([le [ad_abi_version d, ad_coordinator_epoch d, ad_slot_index d, ad_generation d]]
        @ map digestD (admission_roots d) @ [le [ad_allocation_count d, ad_total_device_bytes d]])"

definition validate_admission :: "admission_v1 \<Rightarrow> device_error + unit" where
  "validate_admission d =
     bindE (u32D (ad_slot_index d)) (\<lambda>_.
     bindE (u64sD [ad_abi_version d, ad_coordinator_epoch d, ad_generation d, ad_allocation_count d,
         ad_total_device_bytes d]) (\<lambda>_.
     bindE (digestsD (admission_roots d @ [ad_admission_sha256 d])) (\<lambda>_.
       if ad_abi_version d \<noteq> ADMISSION_ABI
          \<or> ad_coordinator_epoch d = 0
          \<or> ad_generation d = 0
          \<or> list_ex (\<lambda>root. root = ZERO_DIGEST) (admission_roots d @ [ad_admission_sha256 d])
          \<or> ad_allocation_count d = 0
          \<or> ad_allocation_count d > MAXIMUM_ALLOCATIONS
          \<or> ad_total_device_bytes d = 0
       then Inl InvalidAdmission
       else bindE (admission_root d) (\<lambda>root.
         if ad_admission_sha256 d \<noteq> root then Inl InvalidAdmission else Inr ()))))"

definition make_admission ::
  "int \<Rightarrow> int \<Rightarrow> int \<Rightarrow> authority \<Rightarrow> request \<Rightarrow> child \<Rightarrow> device_error + admission_v1" where
  "make_admission coordinator_epoch slot_index generation a r c =
     bindE (resource_child_root c) (\<lambda>child_root.
       let d = \<lparr>ad_abi_version = ADMISSION_ABI, ad_coordinator_epoch = coordinator_epoch,
             ad_slot_index = slot_index, ad_generation = generation,
             ad_authority_sha256 = au_authority_sha256 a, ad_request_sha256 = rq_request_sha256 r,
             ad_selection_receipt_sha256 = rq_selection_receipt_sha256 r,
             ad_selected_capability_sha256 = rq_selected_capability_sha256 r,
             ad_allocation_manifest_sha256 = rq_allocation_manifest_sha256 r,
             ad_parent_receipt_sha256 = rq_parent_receipt_sha256 r,
             ad_child_lease_sha256 = child_root, ad_allocation_count = rq_allocation_count r,
             ad_total_device_bytes = rq_total_device_bytes r, ad_admission_sha256 = ZERO_DIGEST\<rparr> in
       bindE (admission_root d) (\<lambda>root.
         let d = d\<lparr>ad_admission_sha256 := root\<rparr> in
         bindE (validate_admission d) (\<lambda>_. Inr d)))"

section \<open>Calls\<close>

record call =
  ca_abi_version :: int
  ca_authority_sha256 :: bytes
  ca_admission_sha256 :: bytes
  ca_ordinal :: int
  ca_binding_sha256 :: bytes
  ca_requested_bytes :: int
  ca_charged_bytes :: int
  ca_quote_sha256 :: bytes
  ca_call_sha256 :: bytes

definition allocation_call_root :: "call \<Rightarrow> device_error + bytes" where
  "allocation_call_root c =
     hash_chunks ALLOCATION_CALL_DOMAIN
       [le [ca_abi_version c], digestD (ca_authority_sha256 c), digestD (ca_admission_sha256 c),
        le [ca_ordinal c], digestD (ca_binding_sha256 c), le [ca_requested_bytes c, ca_charged_bytes c],
        digestD (ca_quote_sha256 c)]"

definition validate_allocation_call :: "call \<Rightarrow> device_error + unit" where
  "validate_allocation_call c =
    (let roots = [ca_authority_sha256 c, ca_admission_sha256 c, ca_binding_sha256 c, ca_quote_sha256 c,
        ca_call_sha256 c] in
     bindE (u64sD [ca_abi_version c, ca_ordinal c, ca_requested_bytes c, ca_charged_bytes c]) (\<lambda>_.
     bindE (digestsD roots) (\<lambda>_.
       if ca_abi_version c \<noteq> ALLOCATION_CALL_ABI
          \<or> list_ex (\<lambda>root. root = ZERO_DIGEST) roots
          \<or> ca_ordinal c \<ge> MAXIMUM_ALLOCATIONS
          \<or> ca_requested_bytes c = 0
          \<or> ca_charged_bytes c < ca_requested_bytes c
       then Inl InvalidCall
       else bindE (allocation_call_root c) (\<lambda>root.
         if ca_call_sha256 c \<noteq> root then Inl InvalidCall else Inr ()))))"

definition make_allocation_call_for_admission_root ::
  "authority \<Rightarrow> bytes \<Rightarrow> int \<Rightarrow> manifest_entry \<Rightarrow> device_error + call" where
  "make_allocation_call_for_admission_root a admission_sha256 ordinal e =
     bindE (digestD admission_sha256) (\<lambda>_.
       if admission_sha256 = ZERO_DIGEST then Inl AdmissionRootZero
       else let c = \<lparr>ca_abi_version = ALLOCATION_CALL_ABI, ca_authority_sha256 = au_authority_sha256 a,
             ca_admission_sha256 = admission_sha256, ca_ordinal = ordinal,
             ca_binding_sha256 = en_binding_sha256 e, ca_requested_bytes = en_requested_bytes e,
             ca_charged_bytes = en_charged_bytes e, ca_quote_sha256 = en_quote_sha256 e,
             ca_call_sha256 = ZERO_DIGEST\<rparr> in
         bindE (allocation_call_root c) (\<lambda>root.
           let c = c\<lparr>ca_call_sha256 := root\<rparr> in
           bindE (validate_allocation_call c) (\<lambda>_. Inr c)))"

definition make_allocation_call ::
  "authority \<Rightarrow> admission_v1 \<Rightarrow> int \<Rightarrow> manifest_entry \<Rightarrow> device_error + call" where
  "make_allocation_call a d ordinal e =
     make_allocation_call_for_admission_root a (ad_admission_sha256 d) ordinal e"

section \<open>Backend objects\<close>

definition fake_object_identity :: "authority \<Rightarrow> int \<Rightarrow> int \<Rightarrow> bytes \<Rightarrow> device_error + bytes" where
  "fake_object_identity a slot_index generation call_sha256 =
     bindE (u32D slot_index) (\<lambda>_.
       hash_chunks FAKE_OBJECT_IDENTITY_DOMAIN
         [digestD (au_authority_sha256 a), le [slot_index, generation], digestD call_sha256])"

record backend_object =
  bo_abi_version :: int
  bo_allocation_call_sha256 :: bytes
  bo_binding_sha256 :: bytes
  bo_backend_object_sha256 :: bytes
  bo_backend_object_generation :: int
  bo_allocated_bytes :: int
  bo_object_sha256 :: bytes

definition backend_object_root :: "backend_object \<Rightarrow> device_error + bytes" where
  "backend_object_root b =
     hash_chunks BACKEND_OBJECT_DOMAIN
       [le [bo_abi_version b], digestD (bo_allocation_call_sha256 b), digestD (bo_binding_sha256 b),
        digestD (bo_backend_object_sha256 b),
        le [bo_backend_object_generation b, bo_allocated_bytes b]]"

definition validate_backend_object :: "backend_object \<Rightarrow> call \<Rightarrow> device_error + unit" where
  "validate_backend_object b c =
     bindE (validate_allocation_call c) (\<lambda>_.
     bindE (u64sD [bo_abi_version b, bo_backend_object_generation b, bo_allocated_bytes b]) (\<lambda>_.
     bindE (digestsD [bo_allocation_call_sha256 b, bo_binding_sha256 b, bo_backend_object_sha256 b,
         bo_object_sha256 b]) (\<lambda>_.
       if bo_abi_version b \<noteq> BACKEND_OBJECT_ABI
          \<or> bo_allocation_call_sha256 b \<noteq> ca_call_sha256 c
          \<or> bo_binding_sha256 b \<noteq> ca_binding_sha256 c
          \<or> bo_backend_object_sha256 b = ZERO_DIGEST
          \<or> bo_backend_object_generation b = 0
          \<or> bo_allocated_bytes b \<noteq> ca_charged_bytes c
          \<or> bo_object_sha256 b = ZERO_DIGEST
       then Inl InvalidObject
       else bindE (backend_object_root b) (\<lambda>root.
         if bo_object_sha256 b \<noteq> root then Inl InvalidObject else Inr ()))))"

definition make_backend_object :: "call \<Rightarrow> bytes \<Rightarrow> int \<Rightarrow> device_error + backend_object" where
  "make_backend_object c backend_object_sha256 backend_object_generation =
    (let b = \<lparr>bo_abi_version = BACKEND_OBJECT_ABI, bo_allocation_call_sha256 = ca_call_sha256 c,
           bo_binding_sha256 = ca_binding_sha256 c, bo_backend_object_sha256 = backend_object_sha256,
           bo_backend_object_generation = backend_object_generation,
           bo_allocated_bytes = ca_charged_bytes c, bo_object_sha256 = ZERO_DIGEST\<rparr> in
     bindE (backend_object_root b) (\<lambda>root.
       let b = b\<lparr>bo_object_sha256 := root\<rparr> in
       bindE (validate_backend_object b c) (\<lambda>_. Inr b)))"

text \<open>The key of an object in every registry.\<close>

definition object_key :: "backend_object \<Rightarrow> bytes \<times> int" where
  "object_key b = (bo_backend_object_sha256 b, bo_backend_object_generation b)"

section \<open>Object sets\<close>

record object_set =
  os_abi_version :: int
  os_admission_sha256 :: bytes
  os_allocation_count :: int
  os_total_allocated_bytes :: int
  os_object_set_sha256 :: bytes

definition object_set_root :: "object_set \<Rightarrow> backend_object list \<Rightarrow> device_error + bytes" where
  "object_set_root v objects =
     hash_chunks OBJECT_SET_DOMAIN
       ([le [os_abi_version v], digestD (os_admission_sha256 v),
         le [os_allocation_count v, os_total_allocated_bytes v]]
        @ map (\<lambda>b. digestD (bo_object_sha256 b)) objects)"

text \<open>
  The loop over the members in both functions below; its state is the running total and the
  identities seen. Making a set and validating one raise different errors for the same member.
\<close>

definition member_step ::
  "(device_error \<times> device_error) \<Rightarrow> bytes \<Rightarrow> bytes \<Rightarrow> int \<times> (bytes \<times> int) list
    \<Rightarrow> nat \<times> call \<times> backend_object \<Rightarrow> device_error + int \<times> (bytes \<times> int) list" where
  "member_step errors admission_sha256 authority_sha256 = (\<lambda>(running, identities) (index, c, b).
     bindE (validate_allocation_call c) (\<lambda>_.
     bindE (validate_backend_object b c) (\<lambda>_.
       if ca_ordinal c \<noteq> int index \<or> ca_authority_sha256 c \<noteq> authority_sha256
          \<or> ca_admission_sha256 c \<noteq> admission_sha256
       then Inl (fst errors)
       else if object_key b \<in> set identities then Inl (snd errors)
       else bindE (add_u64D running (bo_allocated_bytes b)) (\<lambda>running.
         Inr (running, object_key b # identities)))))"

definition set_members ::
  "(device_error \<times> device_error) \<Rightarrow> bytes \<Rightarrow> bytes \<Rightarrow> call list \<Rightarrow> backend_object list
    \<Rightarrow> device_error + int" where
  "set_members errors admission_sha256 authority_sha256 calls objects =
     bindE (foldE (member_step errors admission_sha256 authority_sha256) (0, [])
       (enumerate 0 (zip calls objects))) (\<lambda>(running, _). Inr running)"

definition validate_object_set_for_admission_root ::
  "object_set \<Rightarrow> bytes \<Rightarrow> bytes \<Rightarrow> int \<Rightarrow> int \<Rightarrow> call list \<Rightarrow> backend_object list
    \<Rightarrow> device_error + unit" where
  "validate_object_set_for_admission_root v admission_sha256 authority_sha256 allocation_count
     total_device_bytes calls objects =
     bindE (digestsD [admission_sha256, authority_sha256]) (\<lambda>_.
     bindE (u64sD [allocation_count, total_device_bytes, os_abi_version v, os_allocation_count v,
         os_total_allocated_bytes v]) (\<lambda>_.
     bindE (digestsD [os_admission_sha256 v, os_object_set_sha256 v]) (\<lambda>_.
       if admission_sha256 = ZERO_DIGEST \<or> authority_sha256 = ZERO_DIGEST \<or> allocation_count = 0
          \<or> allocation_count > MAXIMUM_ALLOCATIONS \<or> total_device_bytes = 0
          \<or> length calls \<noteq> length objects
       then Inl SetBoundary
       else bindE (set_members (SetMember, SetMember) admission_sha256 authority_sha256 calls objects)
         (\<lambda>running.
           if os_abi_version v \<noteq> OBJECT_SET_ABI
              \<or> os_admission_sha256 v \<noteq> admission_sha256
              \<or> length calls \<noteq> length objects
              \<or> os_allocation_count v \<noteq> int (length objects)
              \<or> os_allocation_count v \<noteq> allocation_count
              \<or> os_total_allocated_bytes v \<noteq> total_device_bytes
              \<or> os_total_allocated_bytes v \<noteq> running
              \<or> os_object_set_sha256 v = ZERO_DIGEST
           then Inl InvalidObjectSet
           else bindE (object_set_root v objects) (\<lambda>root.
             if os_object_set_sha256 v \<noteq> root then Inl InvalidObjectSet else Inr ())))))"

definition validate_object_set ::
  "object_set \<Rightarrow> admission_v1 \<Rightarrow> call list \<Rightarrow> backend_object list \<Rightarrow> device_error + unit" where
  "validate_object_set v d calls objects =
     bindE (validate_admission d) (\<lambda>_.
       validate_object_set_for_admission_root v (ad_admission_sha256 d) (ad_authority_sha256 d)
         (ad_allocation_count d) (ad_total_device_bytes d) calls objects)"

definition make_object_set_for_admission_root ::
  "bytes \<Rightarrow> bytes \<Rightarrow> int \<Rightarrow> int \<Rightarrow> call list \<Rightarrow> backend_object list \<Rightarrow> device_error + object_set" where
  "make_object_set_for_admission_root admission_sha256 authority_sha256 allocation_count
     total_device_bytes calls objects =
     bindE (digestsD [admission_sha256, authority_sha256]) (\<lambda>_.
     bindE (u64sD [allocation_count, total_device_bytes]) (\<lambda>_.
       if admission_sha256 = ZERO_DIGEST \<or> authority_sha256 = ZERO_DIGEST \<or> allocation_count = 0
          \<or> allocation_count > MAXIMUM_ALLOCATIONS \<or> total_device_bytes = 0
          \<or> int (length calls) \<noteq> allocation_count \<or> length calls \<noteq> length objects
       then Inl SetBoundary
       else bindE (set_members (ForeignCall, DuplicateIdentity) admission_sha256 authority_sha256
           calls objects) (\<lambda>running.
         let v = \<lparr>os_abi_version = OBJECT_SET_ABI, os_admission_sha256 = admission_sha256,
               os_allocation_count = int (length objects), os_total_allocated_bytes = running,
               os_object_set_sha256 = ZERO_DIGEST\<rparr> in
         bindE (object_set_root v objects) (\<lambda>root.
           let v = v\<lparr>os_object_set_sha256 := root\<rparr> in
           bindE (validate_object_set_for_admission_root v admission_sha256 authority_sha256
             allocation_count total_device_bytes calls objects) (\<lambda>_. Inr v)))))"

definition make_object_set ::
  "admission_v1 \<Rightarrow> call list \<Rightarrow> backend_object list \<Rightarrow> device_error + object_set" where
  "make_object_set d calls objects =
     bindE (validate_admission d) (\<lambda>_.
       make_object_set_for_admission_root (ad_admission_sha256 d) (ad_authority_sha256 d)
         (ad_allocation_count d) (ad_total_device_bytes d) calls objects)"

end
