(* ===== verification/Device_Lease.thy ===== *)
theory Device_Lease
  imports Device_Request
begin

text \<open>
  Leases, recovery tickets and terminal receipts of \<open>bench/device_allocation_lease.py\<close>.
\<close>

section \<open>Leases\<close>

record lease =
  ls_abi_version :: int
  ls_coordinator_epoch :: int
  ls_slot_index :: int
  ls_generation :: int
  ls_authority_sha256 :: bytes
  ls_request_sha256 :: bytes
  ls_admission_sha256 :: bytes
  ls_selection_receipt_sha256 :: bytes
  ls_selected_capability_sha256 :: bytes
  ls_allocation_manifest_sha256 :: bytes
  ls_parent_receipt_sha256 :: bytes
  ls_child_lease_sha256 :: bytes
  ls_backend_object_set_sha256 :: bytes
  ls_allocation_count :: int
  ls_materialized_bytes :: int
  ls_lease_sha256 :: bytes

definition lease_roots :: "lease \<Rightarrow> bytes list" where
  "lease_roots v =
    [ls_authority_sha256 v, ls_request_sha256 v, ls_admission_sha256 v, ls_selection_receipt_sha256 v,
     ls_selected_capability_sha256 v, ls_allocation_manifest_sha256 v, ls_parent_receipt_sha256 v,
     ls_child_lease_sha256 v, ls_backend_object_set_sha256 v]"

definition lease_root :: "lease \<Rightarrow> device_error + bytes" where
  "lease_root v =
     hash_chunks LEASE_DOMAIN
       ([le [ls_abi_version v, ls_coordinator_epoch v, ls_slot_index v, ls_generation v]]
        @ map digestD (lease_roots v) @ [le [ls_allocation_count v, ls_materialized_bytes v]])"

definition validate_lease :: "lease \<Rightarrow> device_error + unit" where
  "validate_lease v =
     bindE (u32D (ls_slot_index v)) (\<lambda>_.
     bindE (u64sD [ls_abi_version v, ls_coordinator_epoch v, ls_generation v, ls_allocation_count v,
         ls_materialized_bytes v]) (\<lambda>_.
     bindE (digestsD (lease_roots v @ [ls_lease_sha256 v])) (\<lambda>_.
       if ls_abi_version v \<noteq> LEASE_ABI
          \<or> ls_coordinator_epoch v = 0
          \<or> ls_generation v = 0
          \<or> list_ex (\<lambda>root. root = ZERO_DIGEST) (lease_roots v @ [ls_lease_sha256 v])
          \<or> ls_allocation_count v = 0
          \<or> ls_allocation_count v > MAXIMUM_ALLOCATIONS
          \<or> ls_materialized_bytes v = 0
       then Inl InvalidLease
       else bindE (lease_root v) (\<lambda>root.
         if ls_lease_sha256 v \<noteq> root then Inl InvalidLease else Inr ()))))"

definition make_lease :: "admission_v1 \<Rightarrow> request \<Rightarrow> object_set \<Rightarrow> device_error + lease" where
  "make_lease d r s =
    (if ad_request_sha256 d \<noteq> rq_request_sha256 r then Inl AdmissionSubstitution
     else let v = \<lparr>ls_abi_version = LEASE_ABI, ls_coordinator_epoch = ad_coordinator_epoch d,
           ls_slot_index = ad_slot_index d, ls_generation = ad_generation d,
           ls_authority_sha256 = ad_authority_sha256 d, ls_request_sha256 = ad_request_sha256 d,
           ls_admission_sha256 = ad_admission_sha256 d,
           ls_selection_receipt_sha256 = ad_selection_receipt_sha256 d,
           ls_selected_capability_sha256 = ad_selected_capability_sha256 d,
           ls_allocation_manifest_sha256 = ad_allocation_manifest_sha256 d,
           ls_parent_receipt_sha256 = ad_parent_receipt_sha256 d,
           ls_child_lease_sha256 = ad_child_lease_sha256 d,
           ls_backend_object_set_sha256 = os_object_set_sha256 s,
           ls_allocation_count = os_allocation_count s,
           ls_materialized_bytes = os_total_allocated_bytes s, ls_lease_sha256 = ZERO_DIGEST\<rparr> in
       bindE (lease_root v) (\<lambda>root.
         let v = v\<lparr>ls_lease_sha256 := root\<rparr> in
         bindE (validate_lease v) (\<lambda>_. Inr v)))"

section \<open>Outcomes and reasons\<close>

abbreviation OUTCOME_LEASE_CANCELLED :: int where "OUTCOME_LEASE_CANCELLED \<equiv> 1"
abbreviation OUTCOME_ALLOCATION_FAILED :: int where "OUTCOME_ALLOCATION_FAILED \<equiv> 2"
abbreviation OUTCOME_RELEASED :: int where "OUTCOME_RELEASED \<equiv> 3"
abbreviation REASON_EXPLICIT_CANCELLATION :: int where "REASON_EXPLICIT_CANCELLATION \<equiv> 1"
abbreviation REASON_BACKEND_ALLOCATION_FAILURE :: int where "REASON_BACKEND_ALLOCATION_FAILURE \<equiv> 2"
abbreviation REASON_BACKEND_PROTOCOL_VIOLATION :: int where "REASON_BACKEND_PROTOCOL_VIOLATION \<equiv> 3"
abbreviation REASON_NORMAL_RELEASE :: int where "REASON_NORMAL_RELEASE \<equiv> 4"

definition VALID_OUTCOMES :: "int list" where
  "VALID_OUTCOMES = [OUTCOME_LEASE_CANCELLED, OUTCOME_ALLOCATION_FAILED, OUTCOME_RELEASED]"

definition VALID_REASONS :: "int list" where
  "VALID_REASONS = [REASON_EXPLICIT_CANCELLATION, REASON_BACKEND_ALLOCATION_FAILURE,
     REASON_BACKEND_PROTOCOL_VIOLATION, REASON_NORMAL_RELEASE]"

definition terminal_pair_valid :: "int \<Rightarrow> int \<Rightarrow> bool" where
  "terminal_pair_valid outcome reason =
    (outcome = OUTCOME_LEASE_CANCELLED \<and> reason = REASON_EXPLICIT_CANCELLATION
     \<or> outcome = OUTCOME_ALLOCATION_FAILED
        \<and> reason \<in> {REASON_BACKEND_ALLOCATION_FAILURE, REASON_BACKEND_PROTOCOL_VIOLATION}
     \<or> outcome = OUTCOME_RELEASED \<and> reason = REASON_NORMAL_RELEASE)"

section \<open>Outstanding objects and recovery tickets\<close>

text \<open>One turn of the loop of \<open>outstanding_set_root\<close>: the chunks so far and the prior ordinal.\<close>

definition outstanding_step ::
  "bytes list \<times> int option \<Rightarrow> int \<times> backend_object \<Rightarrow> device_error + bytes list \<times> int option" where
  "outstanding_step = (\<lambda>(chunks, prior) (ordinal, b).
     bindE (u64D ordinal) (\<lambda>_.
       if (case prior of None \<Rightarrow> False | Some p \<Rightarrow> ordinal \<le> p) then Inl OutstandingOrder
       else bindE (le [ordinal]) (\<lambda>head.
         bindE (digestD (bo_object_sha256 b)) (\<lambda>root.
           Inr (chunks @ [head, root], Some ordinal)))))"

definition outstanding_set_root ::
  "int \<Rightarrow> int \<Rightarrow> int \<Rightarrow> (int \<times> backend_object) list \<Rightarrow> device_error + bytes" where
  "outstanding_set_root coordinator_epoch slot_index generation outstanding =
    (if outstanding = [] then Inr ZERO_DIGEST
     else bindE (le [coordinator_epoch, slot_index, generation]) (\<lambda>head.
       bindE (foldE outstanding_step ([head], None) outstanding) (\<lambda>(chunks, _).
         Inr (sha_parts OUTSTANDING_SET_DOMAIN chunks))))"

record recovery_ticket =
  rt_abi_version :: int
  rt_coordinator_epoch :: int
  rt_slot_index :: int
  rt_generation :: int
  rt_recovery_generation :: int
  rt_authority_sha256 :: bytes
  rt_admission_sha256 :: bytes
  rt_lease_sha256 :: bytes
  rt_backend_object_set_sha256 :: bytes
  rt_target_outcome :: int
  rt_target_reason :: int
  rt_outstanding_object_count :: int
  rt_outstanding_bytes :: int
  rt_outstanding_set_sha256 :: bytes
  rt_recovery_sha256 :: bytes

definition recovery_root :: "recovery_ticket \<Rightarrow> device_error + bytes" where
  "recovery_root v =
     hash_chunks RECOVERY_DOMAIN
       [le [rt_abi_version v, rt_coordinator_epoch v, rt_slot_index v, rt_generation v,
            rt_recovery_generation v],
        digestD (rt_authority_sha256 v), digestD (rt_admission_sha256 v), digestD (rt_lease_sha256 v),
        digestD (rt_backend_object_set_sha256 v),
        le [rt_target_outcome v, rt_target_reason v, rt_outstanding_object_count v,
            rt_outstanding_bytes v],
        digestD (rt_outstanding_set_sha256 v)]"

definition validate_recovery :: "recovery_ticket \<Rightarrow> device_error + unit" where
  "validate_recovery v =
     bindE (u32D (rt_slot_index v)) (\<lambda>_.
     bindE (u64sD [rt_abi_version v, rt_coordinator_epoch v, rt_generation v, rt_recovery_generation v,
         rt_target_outcome v, rt_target_reason v, rt_outstanding_object_count v,
         rt_outstanding_bytes v]) (\<lambda>_.
     bindE (digestsD [rt_authority_sha256 v, rt_admission_sha256 v, rt_lease_sha256 v,
         rt_backend_object_set_sha256 v, rt_outstanding_set_sha256 v, rt_recovery_sha256 v]) (\<lambda>_.
       let released = (rt_target_outcome v = OUTCOME_RELEASED) in
       if rt_abi_version v \<noteq> RECOVERY_ABI
          \<or> rt_coordinator_epoch v = 0
          \<or> rt_generation v = 0
          \<or> rt_recovery_generation v = 0
          \<or> rt_outstanding_object_count v > MAXIMUM_ALLOCATIONS
          \<or> rt_authority_sha256 v = ZERO_DIGEST
          \<or> rt_admission_sha256 v = ZERO_DIGEST
          \<or> rt_target_outcome v \<notin> set VALID_OUTCOMES
          \<or> rt_target_reason v \<notin> set VALID_REASONS
          \<or> \<not> terminal_pair_valid (rt_target_outcome v) (rt_target_reason v)
          \<or> released \<noteq> (rt_lease_sha256 v \<noteq> ZERO_DIGEST)
          \<or> released \<noteq> (rt_backend_object_set_sha256 v \<noteq> ZERO_DIGEST)
          \<or> (rt_outstanding_object_count v = 0) \<noteq> (rt_outstanding_set_sha256 v = ZERO_DIGEST)
          \<or> (rt_outstanding_object_count v = 0 \<and> rt_outstanding_bytes v \<noteq> 0)
          \<or> (rt_outstanding_object_count v \<noteq> 0 \<and> rt_outstanding_bytes v = 0)
          \<or> rt_recovery_sha256 v = ZERO_DIGEST
       then Inl InvalidRecovery
       else bindE (recovery_root v) (\<lambda>root.
         if rt_recovery_sha256 v \<noteq> root then Inl InvalidRecovery else Inr ()))))"

definition make_recovery ::
  "int \<Rightarrow> int \<Rightarrow> int \<Rightarrow> int \<Rightarrow> bytes \<Rightarrow> bytes \<Rightarrow> bytes \<Rightarrow> bytes \<Rightarrow> int \<Rightarrow> int
    \<Rightarrow> (int \<times> call \<times> backend_object) list \<Rightarrow> device_error + recovery_ticket" where
  "make_recovery coordinator_epoch slot_index generation recovery_generation authority_sha256
     admission_sha256 lease_sha256 backend_object_set_sha256 target_outcome target_reason outstanding =
     bindE (foldE (\<lambda>running (_, c, _). add_u64D running (ca_charged_bytes c)) 0 outstanding) (\<lambda>running.
     bindE (outstanding_set_root coordinator_epoch slot_index generation
         (map (\<lambda>(ordinal, _, b). (ordinal, b)) outstanding)) (\<lambda>outstanding_root.
       let v = \<lparr>rt_abi_version = RECOVERY_ABI, rt_coordinator_epoch = coordinator_epoch,
             rt_slot_index = slot_index, rt_generation = generation,
             rt_recovery_generation = recovery_generation, rt_authority_sha256 = authority_sha256,
             rt_admission_sha256 = admission_sha256, rt_lease_sha256 = lease_sha256,
             rt_backend_object_set_sha256 = backend_object_set_sha256,
             rt_target_outcome = target_outcome, rt_target_reason = target_reason,
             rt_outstanding_object_count = int (length outstanding), rt_outstanding_bytes = running,
             rt_outstanding_set_sha256 = outstanding_root, rt_recovery_sha256 = ZERO_DIGEST\<rparr> in
       bindE (recovery_root v) (\<lambda>root.
         let v = v\<lparr>rt_recovery_sha256 := root\<rparr> in
         bindE (validate_recovery v) (\<lambda>_. Inr v))))"

section \<open>Terminal receipts\<close>

record terminal_receipt =
  te_abi_version :: int
  te_outcome :: int
  te_reason :: int
  te_coordinator_epoch :: int
  te_slot_index :: int
  te_generation :: int
  te_authority_sha256 :: bytes
  te_request_sha256 :: bytes
  te_admission_sha256 :: bytes
  te_lease_sha256 :: bytes
  te_backend_object_set_sha256 :: bytes
  te_parent_receipt_sha256 :: bytes
  te_child_lease_sha256 :: bytes
  te_returned_device_bytes :: int
  te_terminal_sha256 :: bytes

definition terminal_root :: "terminal_receipt \<Rightarrow> device_error + bytes" where
  "terminal_root v =
     hash_chunks TERMINAL_DOMAIN
       [le [te_abi_version v, te_outcome v, te_reason v, te_coordinator_epoch v, te_slot_index v,
            te_generation v],
        digestD (te_authority_sha256 v), digestD (te_request_sha256 v), digestD (te_admission_sha256 v),
        digestD (te_lease_sha256 v), digestD (te_backend_object_set_sha256 v),
        digestD (te_parent_receipt_sha256 v), digestD (te_child_lease_sha256 v),
        le [te_returned_device_bytes v]]"

definition validate_terminal :: "terminal_receipt \<Rightarrow> device_error + unit" where
  "validate_terminal v =
     bindE (u32D (te_slot_index v)) (\<lambda>_.
     bindE (u64sD [te_abi_version v, te_outcome v, te_reason v, te_coordinator_epoch v,
         te_generation v, te_returned_device_bytes v]) (\<lambda>_.
     bindE (digestsD [te_authority_sha256 v, te_request_sha256 v, te_admission_sha256 v,
         te_lease_sha256 v, te_backend_object_set_sha256 v, te_parent_receipt_sha256 v,
         te_child_lease_sha256 v, te_terminal_sha256 v]) (\<lambda>_.
       let released = (te_outcome v = OUTCOME_RELEASED) in
       if te_abi_version v \<noteq> TERMINAL_ABI
          \<or> te_outcome v \<notin> set VALID_OUTCOMES
          \<or> te_reason v \<notin> set VALID_REASONS
          \<or> \<not> terminal_pair_valid (te_outcome v) (te_reason v)
          \<or> te_coordinator_epoch v = 0
          \<or> te_generation v = 0
          \<or> te_authority_sha256 v = ZERO_DIGEST
          \<or> te_request_sha256 v = ZERO_DIGEST
          \<or> te_admission_sha256 v = ZERO_DIGEST
          \<or> te_parent_receipt_sha256 v = ZERO_DIGEST
          \<or> te_child_lease_sha256 v = ZERO_DIGEST
          \<or> te_returned_device_bytes v = 0
          \<or> released \<noteq> (te_lease_sha256 v \<noteq> ZERO_DIGEST)
          \<or> released \<noteq> (te_backend_object_set_sha256 v \<noteq> ZERO_DIGEST)
          \<or> te_terminal_sha256 v = ZERO_DIGEST
       then Inl InvalidTerminal
       else bindE (terminal_root v) (\<lambda>root.
         if te_terminal_sha256 v \<noteq> root then Inl InvalidTerminal else Inr ()))))"

definition make_terminal ::
  "admission_v1 \<Rightarrow> request \<Rightarrow> int \<Rightarrow> int \<Rightarrow> lease option \<Rightarrow> device_error + terminal_receipt" where
  "make_terminal d r outcome reason l =
    (if (outcome = OUTCOME_RELEASED) \<noteq> (l \<noteq> None) then Inl ReleasedWithoutLease
     else let v = \<lparr>te_abi_version = TERMINAL_ABI, te_outcome = outcome, te_reason = reason,
           te_coordinator_epoch = ad_coordinator_epoch d, te_slot_index = ad_slot_index d,
           te_generation = ad_generation d, te_authority_sha256 = ad_authority_sha256 d,
           te_request_sha256 = rq_request_sha256 r, te_admission_sha256 = ad_admission_sha256 d,
           te_lease_sha256 = (case l of None \<Rightarrow> ZERO_DIGEST | Some v \<Rightarrow> ls_lease_sha256 v),
           te_backend_object_set_sha256 =
             (case l of None \<Rightarrow> ZERO_DIGEST | Some v \<Rightarrow> ls_backend_object_set_sha256 v),
           te_parent_receipt_sha256 = ad_parent_receipt_sha256 d,
           te_child_lease_sha256 = ad_child_lease_sha256 d,
           te_returned_device_bytes = rq_total_device_bytes r, te_terminal_sha256 = ZERO_DIGEST\<rparr> in
       bindE (terminal_root v) (\<lambda>root.
         let v = v\<lparr>te_terminal_sha256 := root\<rparr> in
         bindE (validate_terminal v) (\<lambda>_. Inr v)))"

end
