(* ===== verification/Device_Backend.thy ===== *)
theory Device_Backend
  imports Device_Lease "HOL-Library.AList"
begin

text \<open>
  \<open>ReferenceFakeBackend\<close> of \<open>bench/device_allocation_lease.py\<close>. A method is a function from the
  state to its result and the new state, an exception included: what was assigned before the
  exception stays assigned. \<open>_objects\<close> is an association list in insertion order.
\<close>

record backend =
  b_authority :: authority
  b_next_generation :: int
  b_used_bytes :: int
  b_objects :: "((bytes \<times> int) \<times> int \<times> backend_object \<times> call) list"
  b_active_admission_sha256 :: bytes
  b_active_ordinals :: "int set"
  b_fail_free_binding :: "bytes option"

definition backend_init :: "authority \<Rightarrow> device_error + backend" where
  "backend_init a =
     bindE (validate_authority a) (\<lambda>_. Inr
       \<lparr>b_authority = a, b_next_generation = 1, b_used_bytes = 0, b_objects = [],
        b_active_admission_sha256 = ZERO_DIGEST, b_active_ordinals = {}, b_fail_free_binding = None\<rparr>)"

definition live_objects :: "backend \<Rightarrow> int" where
  "live_objects b = int (length (b_objects b))"

definition fail_next_free_for :: "bytes \<Rightarrow> backend \<Rightarrow> (device_error + unit) \<times> backend" where
  "fail_next_free_for binding_sha256 b =
    (case digestD binding_sha256 of
       Inl e \<Rightarrow> (Inl e, b)
     | Inr d \<Rightarrow> (Inr (), b\<lparr>b_fail_free_binding := Some d\<rparr>))"

text \<open>The slot indices in use, and the first index below \<open>n\<close> that is not one of them.\<close>

definition used_slots :: "backend \<Rightarrow> int list" where
  "used_slots b = map (\<lambda>(_, slot_index, _). slot_index) (b_objects b)"

fun first_free :: "nat \<Rightarrow> int \<Rightarrow> int list \<Rightarrow> int option" where
  "first_free 0 index used = None"
| "first_free (Suc n) index used =
     (if index \<notin> set used then Some index else first_free n (index + 1) used)"

text \<open>
  The checks of \<open>allocate\<close>, before anything is assigned: the bytes in use after the allocation and
  the free slot.
\<close>

definition allocate_checks :: "call \<Rightarrow> backend \<Rightarrow> device_error + int \<times> int" where
  "allocate_checks c b =
     bindE (validate_allocation_call c) (\<lambda>_.
       if ca_authority_sha256 c \<noteq> au_authority_sha256 (b_authority b) then Inl ForeignAuthority
       else bindE (make_fake_quote (b_authority b) (ca_binding_sha256 c) (ca_requested_bytes c)) (\<lambda>expected.
         if ca_charged_bytes c \<noteq> qu_charged_bytes expected
            \<or> ca_quote_sha256 c \<noteq> qu_quote_sha256 expected
         then Inl QuoteReplay
         else if b_active_admission_sha256 b \<noteq> ZERO_DIGEST
            \<and> b_active_admission_sha256 b \<noteq> ca_admission_sha256 c
         then Inl AnotherLease
         else if ca_ordinal c \<in> b_active_ordinals b then Inl OrdinalLive
         else if int (length (b_objects b)) \<ge> au_maximum_live_objects (b_authority b)
         then Inl ObjectCapacity
         else bindE (add_u64D (b_used_bytes b) (ca_charged_bytes c)) (\<lambda>next_used.
           if next_used > au_max_total_device_bytes (b_authority b) then Inl ByteCapacity
           else case first_free (nat (au_maximum_live_objects (b_authority b))) 0 (used_slots b) of
             None \<Rightarrow> Inl NoFreeSlot
           | Some slot_index \<Rightarrow>
               if b_next_generation b = 0 \<or> b_next_generation b = U64_MAX then Inl BackendGeneration
               else Inr (next_used, slot_index))))"

definition allocate :: "call \<Rightarrow> backend \<Rightarrow> (device_error + backend_object) \<times> backend" where
  "allocate c b =
    (case allocate_checks c b of
       Inl e \<Rightarrow> (Inl e, b)
     | Inr (next_used, slot_index) \<Rightarrow>
         let generation = b_next_generation b;
             b = b\<lparr>b_next_generation := generation + 1\<rparr> in
         case bindE (fake_object_identity (b_authority b) slot_index generation (ca_call_sha256 c))
             (\<lambda>identity. make_backend_object c identity generation) of
           Inl e \<Rightarrow> (Inl e, b)
         | Inr item \<Rightarrow>
             (Inr item,
              b\<lparr>b_objects := AList.update (object_key item) (slot_index, item, c) (b_objects b),
                b_active_admission_sha256 := ca_admission_sha256 c,
                b_active_ordinals := insert (ca_ordinal c) (b_active_ordinals b),
                b_used_bytes := next_used\<rparr>))"

definition free :: "backend_object \<Rightarrow> backend \<Rightarrow> (device_error + unit) \<times> backend" where
  "free item b =
    (case map_of (b_objects b) (object_key item) of
       None \<Rightarrow> (Inl StaleObject, b)
     | Some (slot_index, stored, c) \<Rightarrow>
         if bo_allocation_call_sha256 stored \<noteq> bo_allocation_call_sha256 item then (Inl StaleObject, b)
         else if b_fail_free_binding b = Some (bo_binding_sha256 stored)
         then (Inl FreeFailure, b\<lparr>b_fail_free_binding := None\<rparr>)
         else let b = b\<lparr>b_used_bytes := b_used_bytes b - bo_allocated_bytes stored\<rparr> in
           if ca_ordinal c \<notin> b_active_ordinals b then (Inl MissingOrdinal, b)
           else let objects = AList.delete (object_key item) (b_objects b) in
             (Inr (),
              b\<lparr>b_active_ordinals := b_active_ordinals b - {ca_ordinal c}, b_objects := objects,
                b_active_admission_sha256 :=
                  (if objects = [] then ZERO_DIGEST else b_active_admission_sha256 b)\<rparr>))"

end
