(* ===== verification/Device_Coordinator.thy ===== *)
theory Device_Coordinator
  imports Device_Backend
begin

text \<open>
  \<open>ReferenceCoordinator\<close> of \<open>bench/device_allocation_lease.py\<close>: one admission at a time, materialized
  object by object, released or cancelled, and recovered when a free fails. The coordinator holds its
  backend; as in the backend, an exception keeps what was assigned before it.
\<close>

text \<open>\<open>_LiveState\<close>; its \<open>state\<close> strings are a datatype.\<close>

datatype live_phase = Admitted | Live | Recovery

record live_state =
  li_admission :: admission_v1
  li_child :: child
  li_calls :: "call list"
  li_objects :: "backend_object list"
  li_lease :: "lease option"
  li_target_outcome :: int
  li_target_reason :: int
  li_recovery_generation :: int
  li_state :: live_phase

record coordinator =
  co_epoch :: int
  co_authority :: authority
  co_request :: request
  co_selection :: selection
  co_parent :: receipt
  co_manifest :: manifest
  co_entries :: "manifest_entry list"
  co_backend :: backend
  co_next_generation :: int
  co_next_child_generation :: int
  co_charged_device_bytes :: int
  co_live :: "live_state option"

definition coordinator_init ::
  "int \<Rightarrow> authority \<Rightarrow> request \<Rightarrow> selection \<Rightarrow> receipt \<Rightarrow> manifest \<Rightarrow> manifest_entry list \<Rightarrow> backend
    \<Rightarrow> device_error + coordinator" where
  "coordinator_init epoch a r s parent m entries b =
     bindE (u64D epoch) (\<lambda>_.
       if epoch = 0 then Inl ZeroEpoch
       else bindE (validate_request r a s parent m entries) (\<lambda>_. Inr
         \<lparr>co_epoch = epoch, co_authority = a, co_request = r, co_selection = s, co_parent = parent,
          co_manifest = m, co_entries = entries, co_backend = b, co_next_generation = 1,
          co_next_child_generation = 1, co_charged_device_bytes = 0, co_live = None\<rparr>))"

section \<open>Admission\<close>

definition admit_checks :: "coordinator \<Rightarrow> device_error + unit" where
  "admit_checks k =
    (if co_live k \<noteq> None then Inl SlotOccupied
     else bindE (mapE (\<lambda>e.
         bindE (make_fake_quote (co_authority k) (en_binding_sha256 e) (en_requested_bytes e)) (\<lambda>q.
           if q \<noteq> quote_from_entry (co_authority k) e then Inl LiveQuoteReplay else Inr ()))
         (co_entries k)) (\<lambda>_.
       if co_next_generation k = U64_MAX \<or> co_next_child_generation k = U64_MAX
       then Inl CoordinatorGeneration else Inr ()))"

definition admit :: "coordinator \<Rightarrow> (device_error + admission_v1) \<times> coordinator" where
  "admit k =
    (case admit_checks k of
       Inl e \<Rightarrow> (Inl e, k)
     | Inr _ \<Rightarrow>
         let generation = co_next_generation k;
             child_generation = co_next_child_generation k;
             k = k\<lparr>co_next_generation := generation + 1,
                    co_next_child_generation := child_generation + 1\<rparr>;
             r = co_request k;
             c = zero_claim\<lparr>cv_device_bytes := rq_total_device_bytes r\<rparr> in
         case bindE (allocation_child_key (co_epoch k) 0 generation (rq_request_sha256 r)) (\<lambda>key.
             bindE (open_resource_child (co_parent k) key child_generation c c) (\<lambda>child_lease.
             bindE (make_admission (co_epoch k) 0 generation (co_authority k) r child_lease) (\<lambda>d.
               Inr (child_lease, d)))) of
           Inl e \<Rightarrow> (Inl e, k)
         | Inr (child_lease, d) \<Rightarrow>
             (Inr d, k\<lparr>co_charged_device_bytes := rq_total_device_bytes r,
               co_live := Some \<lparr>li_admission = d, li_child = child_lease, li_calls = [],
                 li_objects = [], li_lease = None, li_target_outcome = OUTCOME_LEASE_CANCELLED,
                 li_target_reason = REASON_EXPLICIT_CANCELLATION, li_recovery_generation = 0,
                 li_state = Admitted\<rparr>\<rparr>))"

definition require_admission :: "admission_v1 \<Rightarrow> coordinator \<Rightarrow> device_error + live_state" where
  "require_admission d k =
    (case co_live k of
       None \<Rightarrow> Inl StaleAdmission
     | Some live \<Rightarrow>
         if li_state live \<noteq> Admitted \<or> li_admission live \<noteq> d then Inl StaleAdmission
         else Inr live)"

definition finish :: "coordinator \<Rightarrow> coordinator" where
  "finish k = k\<lparr>co_charged_device_bytes := 0, co_live := None\<rparr>"

definition cancel :: "admission_v1 \<Rightarrow> coordinator \<Rightarrow> (device_error + terminal_receipt) \<times> coordinator" where
  "cancel d k =
    (case bindE (require_admission d k) (\<lambda>live.
         make_terminal (li_admission live) (co_request k) OUTCOME_LEASE_CANCELLED
           REASON_EXPLICIT_CANCELLATION None) of
       Inl e \<Rightarrow> (Inl e, k)
     | Inr t \<Rightarrow> (Inr t, finish k))"

section \<open>Materialization\<close>

text \<open>The loop over the entries: the live state and the backend, and the exception that ends it.\<close>

fun materialize_entries ::
  "authority \<Rightarrow> admission_v1 \<Rightarrow> int \<Rightarrow> manifest_entry list \<Rightarrow> live_state \<Rightarrow> backend
    \<Rightarrow> (device_error + unit) \<times> live_state \<times> backend" where
  "materialize_entries a d ordinal [] live b = (Inr (), live, b)"
| "materialize_entries a d ordinal (e # es) live b =
     (case make_allocation_call a d ordinal e of
        Inl err \<Rightarrow> (Inl err, live, b)
      | Inr c \<Rightarrow>
          let live = live\<lparr>li_calls := li_calls live @ [c]\<rparr> in
          case allocate c b of
            (Inl err, b) \<Rightarrow> (Inl err, live, b)
          | (Inr item, b) \<Rightarrow>
              materialize_entries a d (ordinal + 1) es
                (live\<lparr>li_objects := li_objects live @ [item]\<rparr>) b)"

definition materialize :: "admission_v1 \<Rightarrow> coordinator \<Rightarrow> (device_error + lease) \<times> coordinator" where
  "materialize d k =
    (case require_admission d k of
       Inl e \<Rightarrow> (Inl e, k)
     | Inr live \<Rightarrow>
         case materialize_entries (co_authority k) d 0 (co_entries k) live (co_backend k) of
           (result, live, b) \<Rightarrow>
             let k = k\<lparr>co_backend := b, co_live := Some live\<rparr> in
             case bindE result (\<lambda>_.
                 bindE (make_object_set d (li_calls live) (li_objects live)) (\<lambda>s.
                   make_lease d (co_request k) s)) of
               Inl e \<Rightarrow> (Inl e, k)
             | Inr l \<Rightarrow> (Inr l, k\<lparr>co_live := Some (live\<lparr>li_lease := Some l, li_state := Live\<rparr>)\<rparr>))"

section \<open>Cleanup and recovery\<close>

text \<open>
  The loop of \<open>_cleanup\<close> over the reversed objects: an object no longer registered is skipped, an
  injected failure is remembered, any other exception ends the loop.
\<close>

fun cleanup_objects :: "backend_object list \<Rightarrow> bool \<Rightarrow> backend \<Rightarrow> (device_error + bool) \<times> backend" where
  "cleanup_objects [] failed b = (Inr failed, b)"
| "cleanup_objects (item # items) failed b =
     (if map_of (b_objects b) (object_key item) = None then cleanup_objects items failed b
      else case free item b of
        (Inr _, b) \<Rightarrow> cleanup_objects items failed b
      | (Inl FreeFailure, b) \<Rightarrow> cleanup_objects items True b
      | (Inl e, b) \<Rightarrow> (Inl e, b))"

definition outstanding_objects :: "live_state \<Rightarrow> backend \<Rightarrow> (int \<times> call \<times> backend_object) list" where
  "outstanding_objects live b =
     List.map_filter (\<lambda>(ordinal, c, item).
       if map_of (b_objects b) (object_key item) = None then None else Some (int ordinal, c, item))
       (enumerate 0 (zip (li_calls live) (li_objects live)))"

definition current_recovery :: "live_state \<Rightarrow> coordinator \<Rightarrow> device_error + recovery_ticket" where
  "current_recovery live k =
     make_recovery (co_epoch k) (ad_slot_index (li_admission live)) (ad_generation (li_admission live))
       (li_recovery_generation live) (au_authority_sha256 (co_authority k))
       (ad_admission_sha256 (li_admission live))
       (case li_lease live of None \<Rightarrow> ZERO_DIGEST | Some l \<Rightarrow> ls_lease_sha256 l)
       (case li_lease live of None \<Rightarrow> ZERO_DIGEST | Some l \<Rightarrow> ls_backend_object_set_sha256 l)
       (li_target_outcome live) (li_target_reason live) (outstanding_objects live (co_backend k))"

text \<open>The result of \<open>_cleanup\<close>: a terminal receipt or a recovery ticket.\<close>

definition cleanup ::
  "live_state \<Rightarrow> coordinator \<Rightarrow> (device_error + terminal_receipt + recovery_ticket) \<times> coordinator" where
  "cleanup live k =
    (case cleanup_objects (rev (li_objects live)) False (co_backend k) of
       (Inl e, b) \<Rightarrow> (Inl e, k\<lparr>co_backend := b, co_live := Some live\<rparr>)
     | (Inr failed, b) \<Rightarrow>
         if failed then
           let live = live\<lparr>li_state := Recovery,
                 li_recovery_generation := min U64_MAX (li_recovery_generation live + 1)\<rparr>;
               k = k\<lparr>co_backend := b, co_live := Some live\<rparr> in
           (bindE (current_recovery live k) (\<lambda>t. Inr (Inr t)), k)
         else
           let k = k\<lparr>co_backend := b, co_live := Some live\<rparr> in
           case make_terminal (li_admission live) (co_request k) (li_target_outcome live)
               (li_target_reason live)
               (if li_target_outcome live = OUTCOME_RELEASED then li_lease live else None) of
             Inl e \<Rightarrow> (Inl e, k)
           | Inr t \<Rightarrow> (Inr (Inl t), finish k))"

definition release ::
  "lease \<Rightarrow> coordinator \<Rightarrow> (device_error + terminal_receipt + recovery_ticket) \<times> coordinator" where
  "release l k =
    (case co_live k of
       None \<Rightarrow> (Inl StaleLease, k)
     | Some live \<Rightarrow>
         if li_state live \<noteq> Live \<or> li_lease live \<noteq> Some l then (Inl StaleLease, k)
         else cleanup (live\<lparr>li_target_outcome := OUTCOME_RELEASED,
                li_target_reason := REASON_NORMAL_RELEASE\<rparr>) k)"

definition retry_recovery ::
  "recovery_ticket \<Rightarrow> coordinator
    \<Rightarrow> (device_error + terminal_receipt + recovery_ticket) \<times> coordinator" where
  "retry_recovery t k =
    (case co_live k of
       None \<Rightarrow> (Inl StaleTicket, k)
     | Some live \<Rightarrow>
         if li_state live \<noteq> Recovery then (Inl StaleTicket, k)
         else case current_recovery live k of
           Inl e \<Rightarrow> (Inl e, k)
         | Inr current \<Rightarrow> if current \<noteq> t then (Inl StaleTicket, k) else cleanup live k)"

definition current_objects :: "coordinator \<Rightarrow> backend_object list" where
  "current_objects k = (case co_live k of None \<Rightarrow> [] | Some live \<Rightarrow> li_objects live)"

definition current_calls :: "coordinator \<Rightarrow> call list" where
  "current_calls k = (case co_live k of None \<Rightarrow> [] | Some live \<Rightarrow> li_calls live)"

end
