(* ===== verification/Device_Facts.thy ===== *)
theory Device_Facts
  imports Device_Coordinator
begin

text \<open>
  Facts about the values of the device allocation lease oracle: the integrity mix is injective, so a
  sealed receipt or child binds each of its fields; aligning rounds up to the next multiple of a
  power of two; the manifest totals are the sums and maxima of strictly ordered entries.
\<close>

section \<open>The integrity mix\<close>

lemma xor_shift_inverse:
  fixes w v :: "64 word"
  assumes v: "v = w XOR drop_bit k w" and k: "64 \<le> 3 * k"
  shows "w = v XOR drop_bit k v XOR drop_bit (k + k) v"
proof -
  have "drop_bit (k + k + k) w = 0" by (rule bit_word_eqI) (use k in \<open>simp add: bit_simps\<close>)
  then show ?thesis
    by (intro bit_word_eqI) (auto simp: v bit_simps add.assoc dest: bit_imp_le_length)
qed

lemma xor_shift_inject:
  fixes w v :: "64 word"
  assumes "64 \<le> 3 * k" and "w XOR drop_bit k w = v XOR drop_bit k v"
  shows "w = v"
  using xor_shift_inverse [OF refl assms(1), of w] xor_shift_inverse [OF refl assms(1), of v] assms(2) by simp

lemma odd_factor_inject:
  fixes w v c d :: "64 word"
  assumes "c * d = 1" "w * c = v * c"
  shows "w = v"
proof -
  have "w * c * d = v * c * d" using assms(2) by simp
  then show ?thesis using assms(1) by (simp add: mult.assoc)
qed

text \<open>The mix in three stages; the two factors are odd, hence invertible.\<close>

definition mix_f :: "64 word \<Rightarrow> 64 word" where "mix_f w = (w XOR drop_bit 30 w) * 0xBF58476D1CE4E5B9"
definition mix_g :: "64 word \<Rightarrow> 64 word" where "mix_g w = (w XOR drop_bit 27 w) * 0x94D049BB133111EB"

lemma mix64_stages: "mix64 w = mix_g (mix_f w) XOR drop_bit 31 (mix_g (mix_f w))"
  by (simp only: mix64_def Let_def mix_f_def mix_g_def)

lemma mix_f_inject: "mix_f w = mix_f v \<Longrightarrow> w = v"
proof -
  have "(0xBF58476D1CE4E5B9 :: 64 word) * 0x96DE1B173F119089 = 1" by simp
  note this [THEN odd_factor_inject]
  moreover assume "mix_f w = mix_f v"
  ultimately have "w XOR drop_bit 30 w = v XOR drop_bit 30 v" unfolding mix_f_def by blast
  then show "w = v" by (rule xor_shift_inject [rotated]) simp
qed

lemma mix_g_inject: "mix_g w = mix_g v \<Longrightarrow> w = v"
proof -
  have "(0x94D049BB133111EB :: 64 word) * 0x319642B2D24D8EC3 = 1" by simp
  note this [THEN odd_factor_inject]
  moreover assume "mix_g w = mix_g v"
  ultimately have "w XOR drop_bit 27 w = v XOR drop_bit 27 v" unfolding mix_g_def by blast
  then show "w = v" by (rule xor_shift_inject [rotated]) simp
qed

lemma mix64_inject: "mix64 w = mix64 v \<longleftrightarrow> w = v"
proof
  assume "mix64 w = mix64 v"
  then have "mix_g (mix_f w) = mix_g (mix_f v)"
    unfolding mix64_stages by (rule xor_shift_inject [rotated]) simp
  then show "w = v" by (rule mix_f_inject [OF mix_g_inject])
qed simp

lemma xor_inject: "(a :: 64 word) XOR b = c XOR b \<longleftrightarrow> a = c" "(b :: 64 word) XOR a = b XOR c \<longleftrightarrow> a = c"
proof -
  show r: "a XOR b = c XOR b \<longleftrightarrow> a = c" for a b c :: "64 word"
  proof
    assume "a XOR b = c XOR b"
    then have "(a XOR b) XOR b = (c XOR b) XOR b" by simp
    then show "a = c" by (simp only: xor.assoc xor_self_eq xor.right_neutral)
  qed simp
  show "b XOR a = b XOR c \<longleftrightarrow> a = c" by (simp only: xor.commute [of b] r)
qed

lemma mix_values_inject: "mix_values r vs = mix_values s vs \<longleftrightarrow> r = s"
  by (induction vs arbitrary: r s) (simp_all add: mix64_inject xor_inject)

text \<open>Values that agree except at one place mix to different words.\<close>

lemma mix_values_differ:
  assumes "mix_values r (us @ a # ws) = mix_values r (us @ b # ws)"
  shows "(word_of_int a :: 64 word) = word_of_int b"
  using assms by (induction us arbitrary: r) (simp_all add: mix64_inject xor_inject mix_values_inject)

lemma word_of_u64_inject: "is_u64 a \<Longrightarrow> is_u64 b \<Longrightarrow> (word_of_int a :: 64 word) = word_of_int b \<Longrightarrow> a = b"
  by (simp add: is_u64_def word_of_int_inj word_of_int_eq_iff take_bit_int_eq_self)

lemma mix_values_nth:
  assumes "mix_values r vs = mix_values r ws" "length vs = length ws" "i < length vs"
    and "\<And>j. j < length vs \<Longrightarrow> j \<noteq> i \<Longrightarrow> vs ! j = ws ! j" and "is_u64 (vs ! i)" "is_u64 (ws ! i)"
  shows "vs ! i = ws ! i"
proof -
  have t: "take i vs = take i ws" using assms(2-4) by (intro nth_equalityI) auto
  have d: "drop (Suc i) vs = drop (Suc i) ws" using assms(2-4) by (intro nth_equalityI) auto
  have "mix_values r (take i vs @ vs ! i # drop (Suc i) vs) = mix_values r (take i vs @ ws ! i # drop (Suc i) vs)"
    using assms(1-3) id_take_nth_drop [of i vs] id_take_nth_drop [of i ws] t d by simp
  from word_of_u64_inject [OF assms(5,6) mix_values_differ [OF this]] show ?thesis .
qed

section \<open>Alignment\<close>

lemma power_of_two_iff:
  assumes "0 < (a :: int)"
  shows "a AND (a - 1) = 0 \<longleftrightarrow> (\<exists>k. a = 2 ^ k)"
  using assms
proof (induction "nat a" arbitrary: a rule: less_induct)
  case less
  show ?case
  proof (cases "even a")
    case True
    then obtain b where b: "a = 2 * b" by blast
    have "(2 * b - 1) div 2 = b - 1" by linarith
    then have "a AND (a - 1) = 2 * (b AND (b - 1))"
      unfolding b by (subst and_int.rec) simp
    moreover have "b AND (b - 1) = 0 \<longleftrightarrow> (\<exists>k. b = 2 ^ k)" using less b by (intro less.hyps) auto
    moreover have "(\<exists>k. a = 2 ^ k) \<longleftrightarrow> (\<exists>k. b = 2 ^ k)"
    proof
      assume "\<exists>k. a = 2 ^ k"
      then obtain k where k: "a = 2 ^ k" ..
      with True obtain j where "k = Suc j" by (cases k) auto
      with k b show "\<exists>k. b = 2 ^ k" by auto
    qed (use b in \<open>auto intro: exI [of _ "Suc _"]\<close>)
    ultimately show ?thesis by simp
  next
    case False
    then obtain b where b: "a = 2 * b + 1" by (rule oddE)
    have "a AND (a - 1) = 2 * b" unfolding b by (subst and_int.rec) simp
    moreover have "(\<exists>k. a = 2 ^ k) \<longleftrightarrow> a = 1"
    proof
      assume "\<exists>k. a = 2 ^ k"
      then obtain k where k: "a = 2 ^ k" ..
      with False have "k = 0" by (cases k) auto
      with k show "a = 1" by simp
    qed (auto intro: exI [of _ 0])
    ultimately show ?thesis using b by simp
  qed
qed

lemma clear_low_bits: "(x :: int) AND NOT (2 ^ k - 1) = x - x mod 2 ^ k"
proof -
  have "x AND NOT (2 ^ k - 1) = x AND NOT (take_bit k x)"
    by (rule bit_eqI) (auto simp: bit_simps mask_eq_exp_minus_1 [symmetric])
  also have "\<dots> = x - take_bit k x" by (rule disjunctive_diff [symmetric]) (simp add: bit_take_bit_iff)
  finally show ?thesis by (simp add: take_bit_eq_mod)
qed

lemma align_forward_Inr:
  "align_forward v a = Inr r \<longleftrightarrow> is_u64 v \<and> is_u64 a \<and> 0 < v \<and> (\<exists>k. a = 2 ^ k)
     \<and> v + a - 1 \<le> U64_MAX \<and> r = (v + a - 1) - (v + a - 1) mod a"
proof (cases "is_u64 v \<and> is_u64 a \<and> 0 < a")
  case True
  note p = power_of_two_iff [of a]
  have "(v + a - 1) AND NOT (a - 1) = (v + a - 1) - (v + a - 1) mod a" if "\<exists>k. a = 2 ^ k"
    using that clear_low_bits by auto
  moreover have "is_u64 (a - 1)" using True by (simp add: is_u64_def)
  ultimately show ?thesis using True p
    by (auto simp: align_forward_def result_simps is_u64_def add_diff_eq)
next
  case False
  then show ?thesis by (auto simp: align_forward_def result_simps is_u64_def)
qed

section \<open>The manifest\<close>

lemma bytes_less_irrefl: "\<not> bytes_less x x"
  by (induction x) simp_all

lemma bytes_less_trans: "bytes_less x y \<Longrightarrow> bytes_less y z \<Longrightarrow> bytes_less x z"
proof (induction x arbitrary: y z)
  case Nil
  then show ?case by (cases y; cases z) auto
next
  case (Cons a x)
  then show ?case by (cases y; cases z) (auto dest: less_trans)
qed

definition entry_ok :: "manifest_entry \<Rightarrow> bool" where
  "entry_ok e \<longleftrightarrow> length (en_binding_sha256 e) = 32 \<and> length (en_quote_sha256 e) = 32
     \<and> en_binding_sha256 e \<noteq> ZERO_DIGEST \<and> en_quote_sha256 e \<noteq> ZERO_DIGEST
     \<and> 0 < en_requested_bytes e \<and> en_requested_bytes e \<le> en_charged_bytes e \<and> en_charged_bytes e \<le> U64_MAX"

fun follows :: "bytes option \<Rightarrow> bytes list \<Rightarrow> bool" where
  "follows prior [] = True"
| "follows prior (x # xs) = ((case prior of None \<Rightarrow> True | Some p \<Rightarrow> bytes_less p x) \<and> follows (Some x) xs)"

lemma follows_sorted:
  "follows (Some p) xs \<longleftrightarrow> sorted_wrt bytes_less (p # xs)" "follows None xs \<longleftrightarrow> sorted_wrt bytes_less xs"
proof -
  show s: "follows (Some p) xs \<longleftrightarrow> sorted_wrt bytes_less (p # xs)" for p xs
    by (induction xs arbitrary: p) (auto intro: bytes_less_trans)
  show "follows None xs \<longleftrightarrow> sorted_wrt bytes_less xs" by (cases xs) (simp_all add: s)
qed

definition requested_sum :: "manifest_entry list \<Rightarrow> int" where
  "requested_sum es = sum_list (map en_requested_bytes es)"

definition charged_sum :: "manifest_entry list \<Rightarrow> int" where
  "charged_sum es = sum_list (map en_charged_bytes es)"

lemma totals_step_Inr:
  assumes "0 \<le> to_total_requested t" "to_total_requested t \<le> to_total_charged t" "to_total_charged t \<le> U64_MAX"
  shows "totals_step t e = Inr t' \<longleftrightarrow> entry_ok e
    \<and> (case to_prior t of None \<Rightarrow> True | Some p \<Rightarrow> bytes_less p (en_binding_sha256 e))
    \<and> to_total_charged t + en_charged_bytes e \<le> U64_MAX
    \<and> t' = \<lparr>to_total_requested = to_total_requested t + en_requested_bytes e,
         to_total_charged = to_total_charged t + en_charged_bytes e,
         to_largest_requested = max (to_largest_requested t) (en_requested_bytes e),
         to_largest_charged = max (to_largest_charged t) (en_charged_bytes e),
         to_prior = Some (en_binding_sha256 e)\<rparr>"
  using assms
  by (auto simp: totals_step_def result_simps entry_ok_def is_u64_def split: option.splits)

lemma totals_fold:
  assumes "0 \<le> to_total_requested t" "to_total_requested t \<le> to_total_charged t" "to_total_charged t \<le> U64_MAX"
  shows "foldE totals_step t es = Inr t' \<longleftrightarrow> (\<forall>e \<in> set es. entry_ok e)
    \<and> follows (to_prior t) (map en_binding_sha256 es) \<and> to_total_charged t + charged_sum es \<le> U64_MAX
    \<and> t' = \<lparr>to_total_requested = to_total_requested t + requested_sum es,
         to_total_charged = to_total_charged t + charged_sum es,
         to_largest_requested = fold max (map en_requested_bytes es) (to_largest_requested t),
         to_largest_charged = fold max (map en_charged_bytes es) (to_largest_charged t),
         to_prior = (if es = [] then to_prior t else Some (en_binding_sha256 (last es)))\<rparr>"
  using assms
proof (induction es arbitrary: t)
  case Nil
  then show ?case by (cases t) (auto simp: charged_sum_def requested_sum_def)
next
  case (Cons e es)
  let ?u = "\<lparr>to_total_requested = to_total_requested t + en_requested_bytes e,
      to_total_charged = to_total_charged t + en_charged_bytes e,
      to_largest_requested = max (to_largest_requested t) (en_requested_bytes e),
      to_largest_charged = max (to_largest_charged t) (en_charged_bytes e),
      to_prior = Some (en_binding_sha256 e)\<rparr>"
  have c: "0 \<le> charged_sum es" if "\<forall>e \<in> set es. entry_ok e"
    unfolding charged_sum_def by (rule sum_list_nonneg) (use that in \<open>auto simp: entry_ok_def\<close>)
  have m: "max (en_requested_bytes e) (to_largest_requested t) = max (to_largest_requested t) (en_requested_bytes e)"
    "max (en_charged_bytes e) (to_largest_charged t) = max (to_largest_charged t) (en_charged_bytes e)"
    by (simp_all add: max.commute)
  show ?case
  proof (cases "entry_ok e \<and> to_total_charged t + en_charged_bytes e \<le> U64_MAX")
    case True
    with Cons.IH [of ?u] Cons.prems c m show ?thesis
      by (auto simp: bindE_Inr totals_step_Inr [OF Cons.prems] charged_sum_def requested_sum_def entry_ok_def
          add.assoc split: option.splits)
  next
    case False
    with c show ?thesis
      by (auto simp: bindE_Inr totals_step_Inr [OF Cons.prems] charged_sum_def)
  qed
qed

lemma sorted_bytes_distinct: "sorted_wrt bytes_less xs \<Longrightarrow> distinct xs"
  using bytes_less_irrefl by (induction xs) auto

section \<open>The backend\<close>

lemma first_free_None: "first_free n i used = None \<Longrightarrow> {i ..< i + int n} \<subseteq> set used"
proof (induction n arbitrary: i)
  case (Suc n)
  then have "i \<in> set used" "{i + 1 ..< i + 1 + int n} \<subseteq> set used" by (auto split: if_splits)
  moreover have "{i ..< i + int (Suc n)} = insert i {i + 1 ..< i + 1 + int n}" by auto
  ultimately show ?case by simp
qed simp

lemma first_free_Some: "first_free n i used = Some j \<Longrightarrow> i \<le> j \<and> j < i + int n \<and> j \<notin> set used"
proof (induction n arbitrary: i)
  case (Suc n)
  then show ?case by (cases "i \<in> set used") fastforce+
qed simp

lemma first_free_defined:
  assumes "length used < n"
  shows "first_free n 0 used \<noteq> None"
proof
  assume "first_free n 0 used = None"
  from first_free_None [OF this] have "{0 ..< int n} \<subseteq> set used" by simp
  then have "card {0 ..< int n} \<le> card (set used)" by (rule card_mono [OF finite_set])
  also have "\<dots> \<le> length used" by (rule card_length)
  finally show False using assms by simp
qed

lemma update_fresh: "k \<notin> fst ` set al \<Longrightarrow> AList.update k v al = al @ [(k, v)]"
  by (induction al) auto

end
