(* ===== verification/Device_Invariants.thy ===== *)
theory Device_Invariants
  imports Device_Facts
begin

text \<open>
  The invariant of the reference backend, kept by every operation whether it returns or raises:
  the bytes in use are those of the registered objects, the slots and ordinals are distinct, and
  the registry belongs to one admission. \<open>backend_reach\<close> are the states the methods can produce.
\<close>

section \<open>What the operations assign\<close>

abbreviation obj_slot :: "(bytes \<times> int) \<times> int \<times> backend_object \<times> call \<Rightarrow> int" where "obj_slot r \<equiv> fst (snd r)"
abbreviation obj_item :: "(bytes \<times> int) \<times> int \<times> backend_object \<times> call \<Rightarrow> backend_object" where
  "obj_item r \<equiv> fst (snd (snd r))"
abbreviation obj_call :: "(bytes \<times> int) \<times> int \<times> backend_object \<times> call \<Rightarrow> call" where "obj_call r \<equiv> snd (snd (snd r))"

lemma make_backend_object_Inr:
  "make_backend_object c d g = Inr item \<Longrightarrow> object_key item = (d, g) \<and> bo_allocated_bytes item = ca_charged_bytes c
    \<and> bo_allocation_call_sha256 item = ca_call_sha256 c \<and> bo_binding_sha256 item = ca_binding_sha256 c
    \<and> validate_backend_object item c = Inr ()"
  by (auto simp: make_backend_object_def result_simps object_key_def Let_def)

lemma validate_call_facts:
  assumes "validate_allocation_call c = Inr u"
  shows "ca_admission_sha256 c \<noteq> ZERO_DIGEST" "0 \<le> ca_ordinal c" "ca_ordinal c < 64"
    "0 < ca_requested_bytes c" "ca_requested_bytes c \<le> ca_charged_bytes c" "ca_charged_bytes c \<le> U64_MAX"
  using assms by (auto simp: validate_allocation_call_def result_simps is_u64_def Let_def)

lemma authority_facts:
  assumes "validate_authority a = Inr u"
  shows "1 \<le> au_maximum_live_objects a" "au_maximum_live_objects a \<le> 64"
    "1 \<le> au_max_total_device_bytes a" "au_max_total_device_bytes a \<le> U64_MAX"
  using assms by (auto simp: validate_authority_def result_simps is_u64_def authority_words_def Let_def)

lemma allocate_checks_Inr:
  assumes "allocate_checks c b = Inr (next_used, slot)"
  shows "validate_allocation_call c = Inr ()" "ca_authority_sha256 c = au_authority_sha256 (b_authority b)"
    "b_active_admission_sha256 b = ZERO_DIGEST \<or> b_active_admission_sha256 b = ca_admission_sha256 c"
    "ca_ordinal c \<notin> b_active_ordinals b"
    "int (length (b_objects b)) < au_maximum_live_objects (b_authority b)"
    "next_used = b_used_bytes b + ca_charged_bytes c" "next_used \<le> au_max_total_device_bytes (b_authority b)"
    "first_free (nat (au_maximum_live_objects (b_authority b))) 0 (used_slots b) = Some slot"
    "b_next_generation b \<noteq> 0" "b_next_generation b \<noteq> U64_MAX"
  using assms by (auto simp: allocate_checks_def result_simps split: if_splits option.splits)

lemma allocate_cases:
  assumes "allocate c b = (r, b')"
  obtains (check) e where "r = Inl e" "b' = b" "allocate_checks c b = Inl e"
  | (seal) e next_used slot where "allocate_checks c b = Inr (next_used, slot)" "r = Inl e"
      "b' = b\<lparr>b_next_generation := b_next_generation b + 1\<rparr>"
  | (returned) next_used slot identity item where "allocate_checks c b = Inr (next_used, slot)" "r = Inr item"
      "make_backend_object c identity (b_next_generation b) = Inr item"
      "b' = b\<lparr>b_next_generation := b_next_generation b + 1,
        b_objects := AList.update (object_key item) (slot, item, c) (b_objects b),
        b_active_admission_sha256 := ca_admission_sha256 c,
        b_active_ordinals := insert (ca_ordinal c) (b_active_ordinals b), b_used_bytes := next_used\<rparr>"
proof (cases "allocate_checks c b")
  case (Inl e)
  with assms show ?thesis by (intro check [of e]) (auto simp: allocate_def)
next
  case (Inr p)
  obtain next_used slot where p: "p = (next_used, slot)" by (cases p)
  let ?m = "bindE (fake_object_identity (b_authority b) slot (b_next_generation b) (ca_call_sha256 c))
      (\<lambda>identity. make_backend_object c identity (b_next_generation b))"
  show ?thesis
  proof (cases ?m)
    case (Inl e)
    with assms \<open>allocate_checks c b = Inr p\<close> p show ?thesis
      by (intro seal [of next_used slot e]) (auto simp: allocate_def Let_def)
  next
    case (Inr item)
    then obtain identity where "make_backend_object c identity (b_next_generation b) = Inr item"
      by (auto simp: bindE_Inr)
    with Inr assms \<open>allocate_checks c b = Inr p\<close> p show ?thesis
      by (intro returned [of next_used slot item identity]) (auto simp: allocate_def Let_def)
  qed
qed

section \<open>The invariant\<close>

definition record_ok :: "backend \<Rightarrow> (bytes \<times> int) \<times> int \<times> backend_object \<times> call \<Rightarrow> bool" where
  "record_ok b r \<longleftrightarrow> fst r = object_key (obj_item r) \<and> validate_backend_object (obj_item r) (obj_call r) = Inr ()
     \<and> bo_backend_object_generation (obj_item r) < b_next_generation b
     \<and> 0 \<le> obj_slot r \<and> obj_slot r < au_maximum_live_objects (b_authority b)
     \<and> 0 < bo_allocated_bytes (obj_item r) \<and> bo_allocated_bytes (obj_item r) = ca_charged_bytes (obj_call r)
     \<and> bo_allocation_call_sha256 (obj_item r) = ca_call_sha256 (obj_call r)
     \<and> bo_binding_sha256 (obj_item r) = ca_binding_sha256 (obj_call r)
     \<and> ca_admission_sha256 (obj_call r) = b_active_admission_sha256 b"

definition object_bytes :: "backend \<Rightarrow> int" where
  "object_bytes b = sum_list (map (\<lambda>r. bo_allocated_bytes (obj_item r)) (b_objects b))"

definition backend_ok :: "backend \<Rightarrow> bool" where
  "backend_ok b \<longleftrightarrow> validate_authority (b_authority b) = Inr ()
     \<and> 1 \<le> b_next_generation b \<and> b_next_generation b \<le> U64_MAX
     \<and> b_used_bytes b = object_bytes b \<and> b_used_bytes b \<le> au_max_total_device_bytes (b_authority b)
     \<and> live_objects b \<le> au_maximum_live_objects (b_authority b)
     \<and> (\<forall>r \<in> set (b_objects b). record_ok b r)
     \<and> distinct (map fst (b_objects b)) \<and> distinct (used_slots b)
     \<and> distinct (map (\<lambda>r. ca_ordinal (obj_call r)) (b_objects b))
     \<and> b_active_ordinals b = set (map (\<lambda>r. ca_ordinal (obj_call r)) (b_objects b))
     \<and> (b_active_admission_sha256 b = ZERO_DIGEST \<longleftrightarrow> b_objects b = [])"

lemma used_slots_map: "used_slots b = map obj_slot (b_objects b)"
  by (auto simp: used_slots_def)

lemma backend_init_ok: "backend_init a = Inr b \<Longrightarrow> backend_ok b"
  by (auto simp: backend_init_def result_simps backend_ok_def object_bytes_def live_objects_def used_slots_def
      dest: authority_facts(1,3))

lemma backend_ok_allocate:
  assumes ok: "backend_ok b" and a: "allocate c b = (r, b')"
  shows "backend_ok b'"
  using a
proof (cases rule: allocate_cases)
  case check
  with ok show ?thesis by simp
next
  case (seal e next_used slot)
  note k = allocate_checks_Inr [OF seal(1)]
  have "record_ok b' r" if "record_ok b r" for r using that seal(3) by (simp add: record_ok_def)
  with ok seal(3) k(10) show ?thesis
    by (simp add: backend_ok_def object_bytes_def live_objects_def used_slots_def)
next
  case (returned next_used slot identity item)
  note k = allocate_checks_Inr [OF returned(1)] and m = make_backend_object_Inr [OF returned(3)]
  note c = validate_call_facts [OF k(1)] and s = first_free_Some [OF k(8)]
  let ?r = "(object_key item, slot, item, c)"
  have recs: "record_ok b q" if "q \<in> set (b_objects b)" for q using ok that by (simp add: backend_ok_def)
  have g: "bo_backend_object_generation item = b_next_generation b" using m by (simp add: object_key_def)
  have fresh: "object_key item \<notin> fst ` set (b_objects b)"
  proof
    assume "object_key item \<in> fst ` set (b_objects b)"
    then obtain q where q: "q \<in> set (b_objects b)" "fst q = object_key item" by auto
    then have "bo_backend_object_generation (obj_item q) = b_next_generation b"
      using recs [OF q(1)] g by (simp add: record_ok_def object_key_def)
    with recs [OF q(1)] show False by (simp add: record_ok_def)
  qed
  then have objs: "b_objects b' = b_objects b @ [?r]" using returned(4) by (simp add: update_fresh)
  have old: "record_ok b' q" if "q \<in> set (b_objects b)" for q
  proof -
    have "b_objects b \<noteq> []" using that by auto
    then have "b_active_admission_sha256 b = ca_admission_sha256 c" using k(3) ok by (simp add: backend_ok_def)
    with recs [OF that] returned(4) show ?thesis by (simp add: record_ok_def)
  qed
  have "validate_backend_object item c = Inr ()" using m by simp
  then have new: "record_ok b' ?r"
    using m c s g returned(4) k(5) by (simp add: record_ok_def)
  have "slot \<notin> set (used_slots b)" "ca_ordinal c \<notin> b_active_ordinals b" using s k(4) by simp_all
  with ok objs fresh old new k m c returned(4) show ?thesis
    by (simp add: backend_ok_def object_bytes_def live_objects_def used_slots_map)
qed

lemma delete_append: "AList.delete k (xs @ ys) = AList.delete k xs @ AList.delete k ys"
  by (simp add: AList.delete_eq)

lemma delete_split:
  assumes "distinct (map fst al)" "map_of al k = Some v"
  obtains xs ys where "al = xs @ (k, v) # ys" "AList.delete k al = xs @ ys"
proof -
  from map_of_SomeD [OF assms(2)] obtain xs ys where al: "al = xs @ (k, v) # ys" by (auto dest: split_list)
  with assms(1) have "k \<notin> fst ` set xs" "k \<notin> fst ` set ys" by (auto simp: image_def)
  then have "AList.delete k al = xs @ ys"
    unfolding al by (simp add: delete_append)
  with al show ?thesis by (rule that)
qed

lemma free_cases:
  assumes "backend_ok b" "free item b = (r, b')"
  obtains (stale) "r = Inl StaleObject" "b' = b"
      "map_of (b_objects b) (object_key item) = None
        \<or> (\<exists>slot stored c. map_of (b_objects b) (object_key item) = Some (slot, stored, c)
             \<and> bo_allocation_call_sha256 stored \<noteq> bo_allocation_call_sha256 item)"
  | (injected) slot stored c where "r = Inl FreeFailure" "b' = b\<lparr>b_fail_free_binding := None\<rparr>"
      "map_of (b_objects b) (object_key item) = Some (slot, stored, c)"
      "b_fail_free_binding b = Some (bo_binding_sha256 stored)"
  | (freed) slot stored c where "r = Inr ()"
      "map_of (b_objects b) (object_key item) = Some (slot, stored, c)"
      "b_fail_free_binding b \<noteq> Some (bo_binding_sha256 stored)"
      "b' = b\<lparr>b_used_bytes := b_used_bytes b - bo_allocated_bytes stored,
        b_active_ordinals := b_active_ordinals b - {ca_ordinal c},
        b_objects := AList.delete (object_key item) (b_objects b),
        b_active_admission_sha256 := (if AList.delete (object_key item) (b_objects b) = [] then ZERO_DIGEST
          else b_active_admission_sha256 b)\<rparr>"
proof (cases "map_of (b_objects b) (object_key item)")
  case None
  with assms(2) show ?thesis by (intro stale) (auto simp: free_def)
next
  case (Some p)
  obtain slot stored c where p: "p = (slot, stored, c)" by (cases p)
  have "(object_key item, slot, stored, c) \<in> set (b_objects b)" using map_of_SomeD [OF Some] p by simp
  then have "ca_ordinal c \<in> (\<lambda>r. ca_ordinal (obj_call r)) ` set (b_objects b)" by force
  then have "ca_ordinal c \<in> b_active_ordinals b" using assms(1) by (simp add: backend_ok_def)
  note facts = this assms(2) Some p
  consider (a) "bo_allocation_call_sha256 stored \<noteq> bo_allocation_call_sha256 item"
    | (b) "bo_allocation_call_sha256 stored = bo_allocation_call_sha256 item"
        "b_fail_free_binding b = Some (bo_binding_sha256 stored)"
    | (c) "bo_allocation_call_sha256 stored = bo_allocation_call_sha256 item"
        "b_fail_free_binding b \<noteq> Some (bo_binding_sha256 stored)" by blast
  then show ?thesis
  proof cases
    case a
    with facts show ?thesis by (intro stale) (simp_all add: free_def)
  next
    case b
    with facts show ?thesis by (intro injected [of slot stored c]) (simp_all add: free_def)
  next
    case c
    with facts show ?thesis by (intro freed [of slot stored c]) (auto simp: free_def Let_def)
  qed
qed

lemma backend_ok_free:
  assumes ok: "backend_ok b" and f: "free item b = (r, b')"
  shows "backend_ok b'"
  using ok f
proof (cases rule: free_cases)
  case stale
  with ok show ?thesis by simp
next
  case injected
  have "record_ok b' q" if "record_ok b q" for q using that injected(2) by (simp add: record_ok_def)
  with ok injected(2) show ?thesis
    by (simp add: backend_ok_def object_bytes_def live_objects_def used_slots_def)
next
  case (freed slot stored c)
  have "distinct (map fst (b_objects b))" using ok by (simp add: backend_ok_def)
  from delete_split [OF this freed(2)] obtain xs ys where
    o1: "b_objects b = xs @ (object_key item, slot, stored, c) # ys"
      "AList.delete (object_key item) (b_objects b) = xs @ ys" .
  have rec: "record_ok b' q" if "q \<in> set (xs @ ys)" for q
  proof -
    have q: "record_ok b q" "xs @ ys \<noteq> []" using ok o1(1) that by (auto simp: backend_ok_def)
    then have "b_active_admission_sha256 b' = b_active_admission_sha256 b" using freed(4) o1(2) by auto
    moreover have "b_authority b' = b_authority b" "b_next_generation b' = b_next_generation b" using freed(4) by simp_all
    ultimately show ?thesis using q(1) unfolding record_ok_def by metis
  qed
  have "0 < bo_allocated_bytes stored" using ok o1(1) by (simp add: backend_ok_def record_ok_def)
  with ok o1 rec freed(4) show ?thesis
    by (auto simp: backend_ok_def object_bytes_def live_objects_def used_slots_map)
qed

section \<open>Reachable backends\<close>

inductive backend_reach :: "backend \<Rightarrow> bool" where
  init: "backend_init a = Inr b \<Longrightarrow> backend_reach b"
| allocate: "backend_reach b \<Longrightarrow> allocate c b = (r, b') \<Longrightarrow> backend_reach b'"
| free: "backend_reach b \<Longrightarrow> free item b = (u, b') \<Longrightarrow> backend_reach b'"
| inject: "backend_reach b \<Longrightarrow> fail_next_free_for d b = (u, b') \<Longrightarrow> backend_reach b'"

lemma backend_ok_inject: "backend_ok b \<Longrightarrow> backend_ok (b\<lparr>b_fail_free_binding := d\<rparr>)"
proof -
  assume ok: "backend_ok b"
  have "record_ok (b\<lparr>b_fail_free_binding := d\<rparr>) q \<longleftrightarrow> record_ok b q" for q by (simp add: record_ok_def)
  with ok show ?thesis by (simp add: backend_ok_def object_bytes_def live_objects_def used_slots_def)
qed

lemma backend_reach_ok: "backend_reach b \<Longrightarrow> backend_ok b"
  by (induction rule: backend_reach.induct)
    (auto simp: fail_next_free_for_def digestD_def backend_ok_inject split: if_splits
      intro: backend_init_ok backend_ok_allocate backend_ok_free)

section \<open>Freeing what was allocated\<close>

lemma allocate_registers:
  assumes ok: "backend_ok b" and a: "allocate c b = (Inr item, b')"
  obtains slot where "b_objects b' = b_objects b @ [(object_key item, slot, item, c)]"
    "object_key item \<notin> fst ` set (b_objects b)" "b_used_bytes b' = b_used_bytes b + ca_charged_bytes c"
    "b_active_ordinals b' = insert (ca_ordinal c) (b_active_ordinals b)" "ca_ordinal c \<notin> b_active_ordinals b"
    "b_next_generation b' = b_next_generation b + 1" "b_authority b' = b_authority b"
    "b_fail_free_binding b' = b_fail_free_binding b" "b_active_admission_sha256 b' = ca_admission_sha256 c"
    "b_active_admission_sha256 b = ZERO_DIGEST \<or> b_active_admission_sha256 b = ca_admission_sha256 c"
    "bo_allocation_call_sha256 item = ca_call_sha256 c" "bo_binding_sha256 item = ca_binding_sha256 c"
    "bo_allocated_bytes item = ca_charged_bytes c" "slot \<notin> set (used_slots b)"
  using a
proof (cases rule: allocate_cases)
  case (returned next_used slot identity it)
  note k = allocate_checks_Inr [OF returned(1)]
  have it: "it = item" using returned(2) by simp
  note m = make_backend_object_Inr [OF returned(3)] and s = first_free_Some [OF k(8)]
  have "object_key item \<notin> fst ` set (b_objects b)"
  proof
    assume "object_key item \<in> fst ` set (b_objects b)"
    then obtain q where q: "q \<in> set (b_objects b)" "fst q = object_key item" by auto
    then show False using ok m it by (auto simp: backend_ok_def record_ok_def object_key_def)
  qed
  with returned(4) k m s it show ?thesis by (intro that [of slot]) (simp_all add: update_fresh)
qed simp_all

lemma free_allocated:
  assumes ok: "backend_ok b" and a: "allocate c b = (Inr item, b')"
    and f: "b_fail_free_binding b \<noteq> Some (ca_binding_sha256 c)"
  shows "free item b' = (Inr (), b\<lparr>b_next_generation := b_next_generation b + 1\<rparr>)"
proof -
  from allocate_registers [OF ok a] obtain slot where
    r: "b_objects b' = b_objects b @ [(object_key item, slot, item, c)]"
      "object_key item \<notin> fst ` set (b_objects b)" "b_used_bytes b' = b_used_bytes b + ca_charged_bytes c"
      "b_active_ordinals b' = insert (ca_ordinal c) (b_active_ordinals b)" "ca_ordinal c \<notin> b_active_ordinals b"
      "b_next_generation b' = b_next_generation b + 1" "b_authority b' = b_authority b"
      "b_fail_free_binding b' = b_fail_free_binding b" "b_active_admission_sha256 b' = ca_admission_sha256 c"
      "b_active_admission_sha256 b = ZERO_DIGEST \<or> b_active_admission_sha256 b = ca_admission_sha256 c"
      "bo_allocation_call_sha256 item = ca_call_sha256 c" "bo_binding_sha256 item = ca_binding_sha256 c"
      "bo_allocated_bytes item = ca_charged_bytes c" by metis
  have m: "map_of (b_objects b') (object_key item) = Some (slot, item, c)"
    using r(1,2) by (simp add: map_add_def map_of_eq_None_iff [THEN iffD2])
  have d: "AList.delete (object_key item) (b_objects b') = b_objects b"
    using r(1,2) by (simp add: delete_append)
  have "b_active_admission_sha256 b = ZERO_DIGEST \<longleftrightarrow> b_objects b = []" using ok by (simp add: backend_ok_def)
  then show ?thesis
    using m d r f by (auto simp: free_def Let_def intro!: backend.equality)
qed

end
