(* ===== verification/Device_Lifecycle.thy ===== *)
theory Device_Lifecycle
  imports Device_Invariants
begin

text \<open>
  The invariant of the reference coordinator over its own backend, \<open>coord_ok\<close>: without a live lease
  nothing is charged; a live lease holds exactly its inventory, until its release; a lease in recovery holds
  at most one object of it; and every registered object is one of the entries requested. \<open>coord_runs\<close> are the
  histories of a coordinator, of calls that return and of calls that raise.
\<close>

section \<open>Cleaning up\<close>

lemma free_registered:
  assumes ok: "backend_ok b" and m: "map_of (b_objects b) (object_key item) = Some (slot, stored, c)"
    and s: "stored = item"
  shows "b_fail_free_binding b = Some (bo_binding_sha256 item) \<Longrightarrow> free item b = (Inl FreeFailure, b\<lparr>b_fail_free_binding := None\<rparr>)"
    and "b_fail_free_binding b \<noteq> Some (bo_binding_sha256 item) \<Longrightarrow> \<exists>b'. free item b = (Inr (), b')
      \<and> b_objects b' = AList.delete (object_key item) (b_objects b) \<and> b_fail_free_binding b' = b_fail_free_binding b
      \<and> b_authority b' = b_authority b"
proof -
  assume "b_fail_free_binding b = Some (bo_binding_sha256 item)"
  with m s show "free item b = (Inl FreeFailure, b\<lparr>b_fail_free_binding := None\<rparr>)" by (simp add: free_def)
next
  assume f: "b_fail_free_binding b \<noteq> Some (bo_binding_sha256 item)"
  obtain r b' where r: "free item b = (r, b')" by (cases "free item b")
  from ok r show "\<exists>b'. free item b = (Inr (), b')
      \<and> b_objects b' = AList.delete (object_key item) (b_objects b) \<and> b_fail_free_binding b' = b_fail_free_binding b
      \<and> b_authority b' = b_authority b"
  proof (cases rule: free_cases)
    case freed
    with r show ?thesis by simp
  qed (use m s f in auto)
qed

abbreviation obj_binding :: "(bytes \<times> int) \<times> int \<times> backend_object \<times> call \<Rightarrow> bytes" where
  "obj_binding r \<equiv> bo_binding_sha256 (obj_item r)"

text \<open>
  What a cleanup leaves registered: what it was not asked to free, and the one object whose free was
  made to fail.
\<close>

lemma cleanup_objects_spec:
  assumes "backend_ok b" "distinct (map object_key items)"
    and "\<forall>r \<in> set (b_objects b). \<forall>item \<in> set items. fst r = object_key item \<longrightarrow> obj_item r = item"
    and "distinct (map obj_binding (b_objects b))"
  shows "\<exists>b'. cleanup_objects items failed b =
      (Inr (failed \<or> (\<exists>r \<in> set (b_objects b). fst r \<in> object_key ` set items \<and> b_fail_free_binding b = Some (obj_binding r))), b')
    \<and> backend_ok b' \<and> b_authority b' = b_authority b
    \<and> b_objects b' = filter (\<lambda>r. fst r \<notin> object_key ` set items \<or> b_fail_free_binding b = Some (obj_binding r)) (b_objects b)
    \<and> b_fail_free_binding b' = (if \<exists>r \<in> set (b_objects b). fst r \<in> object_key ` set items
          \<and> b_fail_free_binding b = Some (obj_binding r) then None else b_fail_free_binding b)"
  using assms
proof (induction items arbitrary: failed b)
  case Nil
  then show ?case by simp
next
  case (Cons item items)
  note ok = Cons.prems(1) and dk = Cons.prems(2) and same = Cons.prems(3) and db = Cons.prems(4)
  have kd: "distinct (map fst (b_objects b))" using ok by (simp add: backend_ok_def)
  show ?case
  proof (cases "map_of (b_objects b) (object_key item)")
    case None
    then have n: "fst r \<noteq> object_key item" if "r \<in> set (b_objects b)" for r
      using that by (metis image_eqI map_of_eq_None_iff)
    have "\<exists>b'. cleanup_objects items failed b =
        (Inr (failed \<or> (\<exists>r \<in> set (b_objects b). fst r \<in> object_key ` set items \<and> b_fail_free_binding b = Some (obj_binding r))), b')
      \<and> backend_ok b' \<and> b_authority b' = b_authority b
      \<and> b_objects b' = filter (\<lambda>r. fst r \<notin> object_key ` set items \<or> b_fail_free_binding b = Some (obj_binding r)) (b_objects b)
      \<and> b_fail_free_binding b' = (if \<exists>r \<in> set (b_objects b). fst r \<in> object_key ` set items
          \<and> b_fail_free_binding b = Some (obj_binding r) then None else b_fail_free_binding b)"
      by (rule Cons.IH) (use ok dk same db in auto)
    moreover have "filter (\<lambda>r. fst r \<notin> object_key ` set (item # items) \<or> P r) (b_objects b) =
        filter (\<lambda>r. fst r \<notin> object_key ` set items \<or> P r) (b_objects b)" for P
      using n by (intro filter_cong) auto
    moreover have "(\<exists>r \<in> set (b_objects b). fst r \<in> object_key ` set (item # items) \<and> P r) \<longleftrightarrow>
        (\<exists>r \<in> set (b_objects b). fst r \<in> object_key ` set items \<and> P r)" for P
      using n by auto
    ultimately show ?thesis using None by (simp del: list.set)
  next
    case (Some p)
    obtain slot stored c where p: "p = (slot, stored, c)" by (cases p)
    from map_of_SomeD [OF Some] p have mem: "(object_key item, slot, stored, c) \<in> set (b_objects b)" by simp
    then have st: "stored = item" using same [rule_format, OF mem, of item] by simp
    note m = Some [unfolded p]
    have ku: "r = (object_key item, slot, stored, c)" if "r \<in> set (b_objects b)" "fst r = object_key item" for r
      using kd that mem by (auto simp: distinct_map inj_on_def)
    have bu: "r = (object_key item, slot, stored, c)" if "r \<in> set (b_objects b)" "obj_binding r = bo_binding_sha256 item" for r
      using db that mem st by (auto simp: distinct_map inj_on_def)
    have ni: "object_key item \<notin> object_key ` set items" using dk by auto
    show ?thesis
    proof (cases "b_fail_free_binding b = Some (bo_binding_sha256 item)")
      case True
      let ?b = "b\<lparr>b_fail_free_binding := None\<rparr>"
      have "\<exists>b'. cleanup_objects items True ?b =
          (Inr (True \<or> (\<exists>r \<in> set (b_objects ?b). fst r \<in> object_key ` set items \<and> b_fail_free_binding ?b = Some (obj_binding r))), b')
        \<and> backend_ok b' \<and> b_authority b' = b_authority ?b
        \<and> b_objects b' = filter (\<lambda>r. fst r \<notin> object_key ` set items \<or> b_fail_free_binding ?b = Some (obj_binding r)) (b_objects ?b)
        \<and> b_fail_free_binding b' = (if \<exists>r \<in> set (b_objects ?b). fst r \<in> object_key ` set items
          \<and> b_fail_free_binding ?b = Some (obj_binding r) then None else b_fail_free_binding ?b)"
        by (rule Cons.IH) (use backend_ok_inject [OF ok] dk same db in auto)
      moreover have "filter (\<lambda>r. fst r \<notin> object_key ` set items) (b_objects b) =
          filter (\<lambda>r. fst r \<notin> object_key ` set (item # items) \<or> bo_binding_sha256 item = obj_binding r) (b_objects b)"
      proof (rule filter_cong [OF refl])
        fix r assume r: "r \<in> set (b_objects b)"
        show "(fst r \<notin> object_key ` set items) =
            (fst r \<notin> object_key ` set (item # items) \<or> bo_binding_sha256 item = obj_binding r)"
        proof (cases "fst r = object_key item")
          case True
          then show ?thesis using ku [OF r True] ni st by simp
        next
          case False
          then have "obj_binding r \<noteq> bo_binding_sha256 item" using bu [OF r] by auto
          with False show ?thesis by auto
        qed
      qed
      moreover have "\<exists>r \<in> set (b_objects b). fst r \<in> object_key ` set (item # items) \<and> bo_binding_sha256 item = obj_binding r"
        using mem st by (intro bexI [OF _ mem]) simp
      ultimately show ?thesis
        unfolding cleanup_objects.simps m free_registered(1) [OF ok m st True] True
        by (simp del: list.set cleanup_objects.simps)
    next
      case False
      have unarmed: "b_fail_free_binding b \<noteq> Some (obj_binding r)"
        if "r \<in> set (b_objects b)" "fst r = object_key item" for r
        using ku [OF that] False st by simp
      from free_registered(2) [OF ok m st False] obtain b1 where
        b1: "free item b = (Inr (), b1)" "b_objects b1 = AList.delete (object_key item) (b_objects b)"
          "b_fail_free_binding b1 = b_fail_free_binding b" "b_authority b1 = b_authority b" by blast
      have o1: "b_objects b1 = filter (\<lambda>r. fst r \<noteq> object_key item) (b_objects b)"
        unfolding b1(2) AList.delete_eq by (intro filter_cong) auto
      have "\<exists>b'. cleanup_objects items failed b1 =
          (Inr (failed \<or> (\<exists>r \<in> set (b_objects b1). fst r \<in> object_key ` set items \<and> b_fail_free_binding b1 = Some (obj_binding r))), b')
        \<and> backend_ok b' \<and> b_authority b' = b_authority b1
        \<and> b_objects b' = filter (\<lambda>r. fst r \<notin> object_key ` set items \<or> b_fail_free_binding b1 = Some (obj_binding r)) (b_objects b1)
        \<and> b_fail_free_binding b' = (if \<exists>r \<in> set (b_objects b1). fst r \<in> object_key ` set items
          \<and> b_fail_free_binding b1 = Some (obj_binding r) then None else b_fail_free_binding b1)"
        by (rule Cons.IH) (use backend_ok_free [OF ok b1(1)] dk same db in \<open>auto simp: o1 distinct_map_filter\<close>)
      moreover have "filter (\<lambda>r. fst r \<notin> object_key ` set items \<or> b_fail_free_binding b = Some (obj_binding r)) (b_objects b1) =
          filter (\<lambda>r. fst r \<notin> object_key ` set (item # items) \<or> b_fail_free_binding b = Some (obj_binding r)) (b_objects b)"
        unfolding o1 filter_filter
      proof (rule filter_cong [OF refl])
        fix r assume "r \<in> set (b_objects b)"
        then show "(fst r \<noteq> object_key item \<and> (fst r \<notin> object_key ` set items \<or> b_fail_free_binding b = Some (obj_binding r))) =
            (fst r \<notin> object_key ` set (item # items) \<or> b_fail_free_binding b = Some (obj_binding r))"
          using unarmed [of r] by auto
      qed
      moreover have "(\<exists>r \<in> set (b_objects b1). fst r \<in> object_key ` set items \<and> b_fail_free_binding b = Some (obj_binding r)) \<longleftrightarrow>
          (\<exists>r \<in> set (b_objects b). fst r \<in> object_key ` set (item # items) \<and> b_fail_free_binding b = Some (obj_binding r))"
        unfolding o1 set_filter list.set image_insert insert_iff using unarmed by blast
      ultimately have "\<exists>b'. cleanup_objects items failed b1 =
          (Inr (failed \<or> (\<exists>r \<in> set (b_objects b). fst r \<in> object_key ` set (item # items) \<and> b_fail_free_binding b = Some (obj_binding r))), b')
        \<and> backend_ok b' \<and> b_authority b' = b_authority b
        \<and> b_objects b' = filter (\<lambda>r. fst r \<notin> object_key ` set (item # items) \<or> b_fail_free_binding b = Some (obj_binding r)) (b_objects b)
        \<and> b_fail_free_binding b' = (if \<exists>r \<in> set (b_objects b). fst r \<in> object_key ` set (item # items)
          \<and> b_fail_free_binding b = Some (obj_binding r) then None else b_fail_free_binding b)"
        unfolding b1(3,4) by (simp only:)
      then show ?thesis unfolding cleanup_objects.simps m b1(1) prod.case sum.case by (simp only: option.simps if_False)
    qed
  qed
qed

section \<open>The coordinator's invariant\<close>

definition pairs :: "backend \<Rightarrow> (backend_object \<times> call) list" where
  "pairs b = map (\<lambda>r. (obj_item r, obj_call r)) (b_objects b)"

text \<open>The objects of a live state, made for its entries one by one.\<close>

definition inventory_ok :: "manifest_entry list \<Rightarrow> live_state \<Rightarrow> bool" where
  "inventory_ok es live \<longleftrightarrow> length (li_objects live) = length (li_calls live)
     \<and> map bo_binding_sha256 (li_objects live) = map en_binding_sha256 es
     \<and> map bo_allocated_bytes (li_objects live) = map en_charged_bytes es
     \<and> distinct (map object_key (li_objects live))"

definition phase_ok :: "coordinator \<Rightarrow> live_state \<Rightarrow> bool" where
  "phase_ok k live \<longleftrightarrow> (case li_state live of
     Admitted \<Rightarrow> li_lease live = None \<and> (b_objects (co_backend k) = [] \<longrightarrow> li_objects live = [])
   | Live \<Rightarrow> inventory_ok (co_entries k) live
       \<and> (pairs (co_backend k) = zip (li_objects live) (li_calls live)
          \<or> b_objects (co_backend k) = [] \<and> li_target_outcome live = OUTCOME_RELEASED)
       \<and> (\<exists>l. li_lease live = Some l \<and> ls_materialized_bytes l = rq_total_device_bytes (co_request k)
            \<and> ls_allocation_count l = int (length (co_entries k)))
   | Recovery \<Rightarrow> inventory_ok (co_entries k) live \<and> li_lease live \<noteq> None \<and> length (b_objects (co_backend k)) \<le> 1
       \<and> li_target_outcome live = OUTCOME_RELEASED \<and> li_target_reason live = REASON_NORMAL_RELEASE
       \<and> set (pairs (co_backend k)) \<subseteq> set (zip (li_objects live) (li_calls live)))"

text \<open>A registered object was made for an entry of the manifest, with its ordinal and its bytes.\<close>

definition made_for :: "manifest_entry list \<Rightarrow> int \<Rightarrow> (bytes \<times> int) \<times> int \<times> backend_object \<times> call \<Rightarrow> bool" where
  "made_for es ordinal r \<longleftrightarrow> (\<exists>i < length es. ca_ordinal (obj_call r) = ordinal + int i
     \<and> bo_allocated_bytes (obj_item r) = en_charged_bytes (es ! i))"

definition coord_ok :: "coordinator \<Rightarrow> bool" where
  "coord_ok k \<longleftrightarrow> backend_ok (co_backend k)
     \<and> validate_request (co_request k) (co_authority k) (co_selection k) (co_parent k) (co_manifest k)
         (co_entries k) = Inr ()
     \<and> (\<forall>r \<in> set (b_objects (co_backend k)). made_for (co_entries k) 0 r)
     \<and> (case co_live k of
          None \<Rightarrow> co_charged_device_bytes k = 0
        | Some live \<Rightarrow> co_charged_device_bytes k = rq_total_device_bytes (co_request k)
            \<and> ad_generation (li_admission live) < co_next_generation k
            \<and> ad_allocation_count (li_admission live) = rq_allocation_count (co_request k)
            \<and> ad_total_device_bytes (li_admission live) = rq_total_device_bytes (co_request k)
            \<and> phase_ok k live)"

lemma request_facts:
  assumes "validate_request r a s parent m es = Inr u"
  shows "sorted_wrt bytes_less (map en_binding_sha256 es)" "rq_total_device_bytes r = charged_sum es"
    "rq_allocation_count r = int (length es)" "es \<noteq> []" "\<forall>e \<in> set es. entry_ok e"
proof -
  from assms have m: "validate_manifest m es = Inr ()"
    and c: "rq_allocation_count r = mf_allocation_count m" "rq_total_device_bytes r = mf_total_charged_bytes m"
    by (auto simp: validate_request_def result_simps request_composition_def)
  from m obtain l1 t1 l2 t2 where t: "manifest_totals es = Inr (l1, t1, l2, t2)" "mf_total_charged_bytes m = t2"
    "mf_allocation_count m = int (length es)"
    by (auto simp: validate_manifest_def result_simps)
  then have n: "es \<noteq> []" and f: "\<exists>t'. foldE totals_step totals_start es = Inr t' \<and> t2 = to_total_charged t'"
    by (auto simp: manifest_totals_def result_simps)
  have f': "(\<forall>e \<in> set es. entry_ok e) \<and> follows None (map en_binding_sha256 es) \<and> t2 = charged_sum es"
    using f totals_fold [of totals_start es] by (auto simp: totals_start_def)
  then show "sorted_wrt bytes_less (map en_binding_sha256 es)" "rq_total_device_bytes r = charged_sum es"
    "rq_allocation_count r = int (length es)" "es \<noteq> []" "\<forall>e \<in> set es. entry_ok e"
    using n c t by (simp_all add: follows_sorted)
qed

section \<open>Materialization\<close>

lemma make_call_Inr:
  "make_allocation_call a d ordinal e = Inr c \<Longrightarrow> ca_binding_sha256 c = en_binding_sha256 e
    \<and> ca_charged_bytes c = en_charged_bytes e \<and> ca_ordinal c = ordinal \<and> ca_admission_sha256 c = ad_admission_sha256 d"
  by (auto simp: make_allocation_call_def make_allocation_call_for_admission_root_def result_simps Let_def)

lemma materialize_entries_ok:
  assumes "materialize_entries a d ordinal es live b = (Inr u, live', b')" "backend_ok b"
    and "inventory_ok made live" "pairs b = zip (li_objects live) (li_calls live)"
  shows "backend_ok b' \<and> inventory_ok (made @ es) live' \<and> pairs b' = zip (li_objects live') (li_calls live')
    \<and> live' = live\<lparr>li_calls := li_calls live', li_objects := li_objects live'\<rparr>"
  using assms
proof (induction es arbitrary: ordinal live b made)
  case Nil
  then show ?case by auto
next
  case (Cons e es)
  from Cons.prems(1) obtain c item b1 where
    c: "make_allocation_call a d ordinal e = Inr c"
    and al: "allocate c b = (Inr item, b1)"
    and rest: "materialize_entries a d (ordinal + 1) es
      (live\<lparr>li_calls := li_calls live @ [c], li_objects := li_objects live @ [item]\<rparr>) b1 = (Inr u, live', b')"
    by (auto simp: Let_def split: sum.splits prod.splits)
  let ?live = "live\<lparr>li_calls := li_calls live @ [c], li_objects := li_objects live @ [item]\<rparr>"
  from allocate_registers [OF Cons.prems(2) al] obtain slot where
    r: "b_objects b1 = b_objects b @ [(object_key item, slot, item, c)]"
      "object_key item \<notin> fst ` set (b_objects b)" "bo_binding_sha256 item = ca_binding_sha256 c"
      "bo_allocated_bytes item = ca_charged_bytes c" by metis
  have keys: "fst ` set (b_objects b) = set (map object_key (li_objects live))"
  proof -
    have "map fst (pairs b) = li_objects live" using Cons.prems(3,4) by (simp add: inventory_ok_def)
    then have "map obj_item (b_objects b) = li_objects live" by (simp add: pairs_def comp_def)
    moreover have "map fst (b_objects b) = map object_key (map obj_item (b_objects b))"
      using Cons.prems(2) by (auto simp: backend_ok_def record_ok_def)
    ultimately show ?thesis by (metis set_map)
  qed
  have "inventory_ok (made @ [e]) ?live"
    using Cons.prems(3) make_call_Inr [OF c] r keys by (simp add: inventory_ok_def)
  moreover have "pairs b1 = zip (li_objects ?live) (li_calls ?live)"
    using Cons.prems(3,4) r(1) by (simp add: pairs_def inventory_ok_def)
  ultimately have "backend_ok b' \<and> inventory_ok ((made @ [e]) @ es) live'
    \<and> pairs b' = zip (li_objects live') (li_calls live')
    \<and> live' = ?live\<lparr>li_calls := li_calls live', li_objects := li_objects live'\<rparr>"
    by (rule Cons.IH [OF rest backend_ok_allocate [OF Cons.prems(2) al]])
  then show ?case by simp
qed

text \<open>However the loop ends, the objects it made are those it registered, one for each entry in turn.\<close>

lemma materialize_entries_adds:
  assumes "materialize_entries a d ordinal es live b = (r, live', b')" "backend_ok b"
  shows "\<exists>made. backend_ok b' \<and> b_objects b' = b_objects b @ made
    \<and> li_objects live' = li_objects live @ map obj_item made
    \<and> live' = live\<lparr>li_calls := li_calls live', li_objects := li_objects live'\<rparr>
    \<and> (\<forall>q \<in> set made. made_for es ordinal q)
    \<and> (\<forall>u. r = Inr u \<longrightarrow> length (li_calls live') = length (li_calls live) + length es \<and> length made = length es)"
  using assms
proof (induction es arbitrary: ordinal live b)
  case Nil
  then show ?case by auto
next
  case (Cons e es)
  show ?case
  proof (cases "make_allocation_call a d ordinal e")
    case (Inl err)
    then show ?thesis using Cons.prems by (intro exI [of _ "[]"]) auto
  next
    case (Inr c)
    let ?live = "live\<lparr>li_calls := li_calls live @ [c]\<rparr>"
    obtain v b1 where al: "allocate c b = (v, b1)" by (cases "allocate c b")
    note ok1 = backend_ok_allocate [OF Cons.prems(2) al]
    show ?thesis
    proof (cases v)
      case (Inl err)
      from al [unfolded Inl] have "b_objects b1 = b_objects b" by (cases rule: allocate_cases) auto
      then show ?thesis using Cons.prems(1) Inr al Inl ok1 by (intro exI [of _ "[]"]) auto
    next
      case (Inr item)
      from allocate_registers [OF Cons.prems(2) al [unfolded Inr]] obtain slot where
        o: "b_objects b1 = b_objects b @ [(object_key item, slot, item, c)]"
          "bo_allocated_bytes item = ca_charged_bytes c" by metis
      have rest: "materialize_entries a d (ordinal + 1) es (?live\<lparr>li_objects := li_objects live @ [item]\<rparr>) b1 = (r, live', b')"
        using Cons.prems(1) \<open>make_allocation_call a d ordinal e = Inr c\<close> al Inr by (simp add: Let_def)
      from Cons.IH [OF rest ok1] obtain made where
        m: "backend_ok b'" "b_objects b' = b_objects b1 @ made" "li_objects live' = (li_objects live @ [item]) @ map obj_item made"
          "live' = ?live\<lparr>li_calls := li_calls live', li_objects := li_objects live'\<rparr>"
          "\<forall>q \<in> set made. made_for es (ordinal + 1) q"
          "\<forall>u. r = Inr u \<longrightarrow> length (li_calls live') = length (li_calls live @ [c]) + length es \<and> length made = length es"
        by auto
      have later: "made_for (e # es) ordinal q" if "made_for es (ordinal + 1) q" for q
      proof -
        from that obtain i where "i < length es" "ca_ordinal (obj_call q) = ordinal + 1 + int i"
          "bo_allocated_bytes (obj_item q) = en_charged_bytes (es ! i)" by (auto simp: made_for_def)
        then show ?thesis unfolding made_for_def by (intro exI [of _ "Suc i"]) simp
      qed
      have "made_for (e # es) ordinal (object_key item, slot, item, c)"
        unfolding made_for_def using make_call_Inr [OF \<open>make_allocation_call a d ordinal e = Inr c\<close>] o(2)
        by (intro exI [of _ 0]) simp
      then show ?thesis using m o(1) later by (intro exI [of _ "(object_key item, slot, item, c) # made"]) auto
    qed
  qed
qed

lemma materialize_entries_fresh:
  "materialize_entries a d ordinal es live b = (Inr u, live', b') \<Longrightarrow> backend_ok b
    \<Longrightarrow> i < length es \<Longrightarrow> ordinal + int i \<notin> b_active_ordinals b"
proof (induction es arbitrary: ordinal live b i)
  case (Cons e es)
  from Cons.prems(1) obtain c item b1 where
    c: "make_allocation_call a d ordinal e = Inr c"
    and al: "allocate c b = (Inr item, b1)"
    and rest: "materialize_entries a d (ordinal + 1) es
      (live\<lparr>li_calls := li_calls live @ [c], li_objects := li_objects live @ [item]\<rparr>) b1 = (Inr u, live', b')"
    by (auto simp: Let_def split: sum.splits prod.splits)
  from allocate_registers [OF Cons.prems(2) al] have
    o: "b_active_ordinals b1 = insert (ca_ordinal c) (b_active_ordinals b)" "ca_ordinal c \<notin> b_active_ordinals b" by metis+
  show ?case
  proof (cases i)
    case 0
    then show ?thesis using make_call_Inr [OF c] o(2) by simp
  next
    case (Suc j)
    then show ?thesis
      using Cons.IH [OF rest backend_ok_allocate [OF Cons.prems(2) al], of j] Cons.prems(3) o(1) by (simp add: algebra_simps)
  qed
qed simp

section \<open>Every call keeps the invariant, whether it returns or raises\<close>

lemma coord_init_ok:
  "coordinator_init e a r s p m es b = Inr k \<Longrightarrow> backend_ok b \<Longrightarrow> b_objects b = [] \<Longrightarrow> coord_ok k"
  by (auto simp: coordinator_init_def result_simps coord_ok_def)

lemma make_admission_Inr:
  "make_admission e i g a r c = Inr d \<Longrightarrow> ad_generation d = g \<and> ad_coordinator_epoch d = e
    \<and> ad_allocation_count d = rq_allocation_count r \<and> ad_total_device_bytes d = rq_total_device_bytes r"
  by (auto simp: make_admission_def result_simps Let_def)

lemma admit_Inr:
  assumes "admit k = (Inr d, k')"
  obtains c where "co_live k = None" "ad_generation d = co_next_generation k"
    "ad_allocation_count d = rq_allocation_count (co_request k)"
    "ad_total_device_bytes d = rq_total_device_bytes (co_request k)"
    "k' = k\<lparr>co_next_generation := co_next_generation k + 1,
       co_next_child_generation := co_next_child_generation k + 1,
       co_charged_device_bytes := rq_total_device_bytes (co_request k),
       co_live := Some \<lparr>li_admission = d, li_child = c, li_calls = [], li_objects = [], li_lease = None,
         li_target_outcome = OUTCOME_LEASE_CANCELLED, li_target_reason = REASON_EXPLICIT_CANCELLATION,
         li_recovery_generation = 0, li_state = Admitted\<rparr>\<rparr>"
proof -
  from assms have n: "co_live k = None" "\<exists>u. admit_checks k = Inr u"
    by (auto simp: admit_def admit_checks_def split: sum.splits if_splits)
  from assms n obtain key c where "make_admission (co_epoch k) 0 (co_next_generation k) (co_authority k) (co_request k) c = Inr d"
    "k' = k\<lparr>co_next_generation := co_next_generation k + 1,
       co_next_child_generation := co_next_child_generation k + 1,
       co_charged_device_bytes := rq_total_device_bytes (co_request k),
       co_live := Some \<lparr>li_admission = d, li_child = c, li_calls = [], li_objects = [], li_lease = None,
         li_target_outcome = OUTCOME_LEASE_CANCELLED, li_target_reason = REASON_EXPLICIT_CANCELLATION,
         li_recovery_generation = 0, li_state = Admitted\<rparr>\<rparr>"
    by (auto simp: admit_def Let_def result_simps split: sum.splits prod.splits)
  with n make_admission_Inr show ?thesis by (intro that [of c]) auto
qed

text \<open>A failed admission may have taken its generations.\<close>

lemma admit_Inl:
  "admit k = (Inl e, k') \<Longrightarrow> k' = k \<or> co_live k = None \<and> k' = k\<lparr>co_next_generation := co_next_generation k + 1,
     co_next_child_generation := co_next_child_generation k + 1\<rparr>"
  by (auto simp: admit_def admit_checks_def Let_def split: sum.splits if_splits prod.splits)

lemma admit_ok:
  assumes "coord_ok k" "admit k = (r, k')"
  shows "coord_ok k'"
proof (cases r)
  case (Inl e)
  with assms admit_Inl [of k e k'] show ?thesis by (auto simp: coord_ok_def)
next
  case (Inr d)
  with assms show ?thesis by (auto elim!: admit_Inr simp: coord_ok_def phase_ok_def)
qed

lemma require_admission_Inr:
  "require_admission d k = Inr live \<longleftrightarrow> co_live k = Some live \<and> li_state live = Admitted \<and> li_admission live = d"
  by (auto simp: require_admission_def split: option.splits)

lemma cancel_Inr:
  "cancel d k = (Inr t, k') \<Longrightarrow> k' = finish k \<and> (\<exists>live. co_live k = Some live \<and> li_state live = Admitted \<and> li_admission live = d)"
  by (auto simp: cancel_def bindE_Inr require_admission_Inr split: sum.splits)

lemma cancel_Inl: "cancel d k = (Inl e, k') \<Longrightarrow> k' = k"
  by (auto simp: cancel_def split: sum.splits)

lemma cancel_ok:
  assumes "coord_ok k" "cancel d k = (r, k')"
  shows "coord_ok k'"
proof (cases r)
  case (Inl e)
  with assms cancel_Inl show ?thesis by blast
next
  case (Inr t)
  with assms show ?thesis by (auto dest!: cancel_Inr simp: coord_ok_def phase_ok_def finish_def)
qed

lemma make_object_set_Inr:
  assumes "make_object_set d calls objects = Inr s"
  shows "os_total_allocated_bytes s = ad_total_device_bytes d \<and> os_allocation_count s = ad_allocation_count d
    \<and> length calls = length objects"
  using assms
  by (auto simp: make_object_set_def make_object_set_for_admission_root_def
      validate_object_set_for_admission_root_def result_simps Let_def)

lemma make_lease_Inr:
  "make_lease d r s = Inr l \<Longrightarrow> ls_materialized_bytes l = os_total_allocated_bytes s
    \<and> ls_allocation_count l = os_allocation_count s \<and> ls_generation l = ad_generation d
    \<and> ls_admission_sha256 l = ad_admission_sha256 d"
  by (auto simp: make_lease_def result_simps Let_def)

lemma materialize_Inr:
  assumes "materialize d k = (Inr l, k')"
  obtains live live' b' s u where "co_live k = Some live" "li_state live = Admitted" "li_admission live = d"
    "materialize_entries (co_authority k) d 0 (co_entries k) live (co_backend k) = (Inr u, live', b')"
    "make_object_set d (li_calls live') (li_objects live') = Inr s" "make_lease d (co_request k) s = Inr l"
    "k' = k\<lparr>co_backend := b', co_live := Some (live'\<lparr>li_lease := Some l, li_state := Live\<rparr>)\<rparr>"
proof -
  obtain live where live: "require_admission d k = Inr live"
    using assms by (auto simp: materialize_def split: sum.splits)
  obtain r live' b' where m: "materialize_entries (co_authority k) d 0 (co_entries k) live (co_backend k) = (r, live', b')"
    by (metis prod_cases3)
  from assms live m show ?thesis
    by (auto simp: materialize_def require_admission_Inr bindE_Inr Let_def split: sum.splits intro: that)
qed

lemma materialize_Inl:
  assumes "materialize d k = (Inl e, k')"
  obtains "k' = k" | live r live' b' where "co_live k = Some live" "li_state live = Admitted"
    "materialize_entries (co_authority k) d 0 (co_entries k) live (co_backend k) = (r, live', b')"
    "k' = k\<lparr>co_backend := b', co_live := Some live'\<rparr>"
proof (cases "require_admission d k")
  case (Inl err)
  then show ?thesis using assms by (intro that(1)) (simp add: materialize_def)
next
  case (Inr live)
  obtain r live' b' where m: "materialize_entries (co_authority k) d 0 (co_entries k) live (co_backend k) = (r, live', b')"
    by (metis prod_cases3)
  from assms Inr m show ?thesis
    by (intro that(2) [OF _ _ m]) (auto simp: materialize_def require_admission_Inr Let_def split: sum.splits)
qed

text \<open>
  All entries can only be allocated when none of them is registered, so that a lease holds exactly its
  inventory although an earlier materialization may have raised.
\<close>

lemma materialized_from_nothing:
  assumes ok: "coord_ok k" and live: "co_live k = Some live" "li_state live = Admitted"
    and e: "materialize_entries (co_authority k) d 0 (co_entries k) live (co_backend k) = (Inr u, live', b')"
    and s: "make_object_set d (li_calls live') (li_objects live') = Inr s"
  shows "b_objects (co_backend k) = []" "li_calls live = []" "li_objects live = []"
proof -
  have b: "backend_ok (co_backend k)" using ok by (simp add: coord_ok_def)
  have "False" if r: "r \<in> set (b_objects (co_backend k))" for r
  proof -
    obtain i where "i < length (co_entries k)" "ca_ordinal (obj_call r) = int i"
      using ok r by (auto simp: coord_ok_def made_for_def)
    moreover have "ca_ordinal (obj_call r) \<in> b_active_ordinals (co_backend k)"
      using b r by (auto simp: backend_ok_def)
    ultimately show False using materialize_entries_fresh [OF e b, of i] by simp
  qed
  then show none: "b_objects (co_backend k) = []" by (meson last_in_set)
  then show objects: "li_objects live = []" using ok live by (simp add: coord_ok_def phase_ok_def)
  from materialize_entries_adds [OF e b] obtain made where "li_objects live' = li_objects live @ map obj_item made"
    "length (li_calls live') = length (li_calls live) + length (co_entries k)" "length made = length (co_entries k)" by auto
  then show "li_calls live = []" using make_object_set_Inr [OF s] objects by simp
qed

lemma materialize_ok:
  assumes ok: "coord_ok k" and m: "materialize d k = (r, k')"
  shows "coord_ok k'"
proof (cases r)
  case (Inl e)
  from m [unfolded Inl] show ?thesis
  proof (cases rule: materialize_Inl)
    case 1
    with ok show ?thesis by simp
  next
    case (2 live v live' b')
    from ok have b: "backend_ok (co_backend k)" by (simp add: coord_ok_def)
    from materialize_entries_adds [OF 2(3) b] obtain made where
      a: "backend_ok b'" "b_objects b' = b_objects (co_backend k) @ made" "li_objects live' = li_objects live @ map obj_item made"
        "live' = live\<lparr>li_calls := li_calls live', li_objects := li_objects live'\<rparr>"
        "\<forall>q \<in> set made. made_for (co_entries k) 0 q" by auto
    have f: "li_state live' = Admitted" "li_lease live' = li_lease live" "li_admission live' = li_admission live"
      using a(4) 2(2) by (cases live, cases live', simp)+
    show ?thesis using ok 2(1,2,4) a f by (auto simp: coord_ok_def phase_ok_def)
  qed
next
  case (Inr l)
  from m [unfolded Inr] show ?thesis
  proof (rule materialize_Inr)
    fix live live' b' s u
    assume live: "co_live k = Some live" "li_state live = Admitted" "li_admission live = d"
      and e: "materialize_entries (co_authority k) d 0 (co_entries k) live (co_backend k) = (Inr u, live', b')"
      and s: "make_object_set d (li_calls live') (li_objects live') = Inr s" "make_lease d (co_request k) s = Inr l"
      and k': "k' = k\<lparr>co_backend := b', co_live := Some (live'\<lparr>li_lease := Some l, li_state := Live\<rparr>)\<rparr>"
    note n = materialized_from_nothing [OF ok live(1,2) e s(1)]
    from ok have b: "backend_ok (co_backend k)" by (simp add: coord_ok_def)
    from materialize_entries_ok [OF e b, of "[]"] n
    have r: "backend_ok b'" "inventory_ok (co_entries k) live'" "pairs b' = zip (li_objects live') (li_calls live')"
        "live' = live\<lparr>li_calls := li_calls live', li_objects := li_objects live'\<rparr>"
      by (simp_all add: inventory_ok_def pairs_def)
    have held: "\<forall>q \<in> set (b_objects b'). made_for (co_entries k) 0 q"
      using materialize_entries_adds [OF e b] n(1) by auto
    have a: "li_admission live' = li_admission live" using r(4) by (cases live, cases live') simp
    have "rq_allocation_count (co_request k) = int (length (co_entries k))"
      using ok request_facts(3) by (fastforce simp: coord_ok_def)
    with ok live r(1-3) a held make_object_set_Inr [OF s(1)] make_lease_Inr [OF s(2)] show ?thesis
      by (simp add: coord_ok_def phase_ok_def k' inventory_ok_def)
  qed
qed

text \<open>What a cleanup does to the backend: it ends empty, or with the one object that failed.\<close>

lemma held_bindings:
  assumes ok: "coord_ok k" and inv: "inventory_ok (co_entries k) live"
    and held: "set (pairs (co_backend k)) \<subseteq> set (zip (li_objects live) (li_calls live))"
  shows "distinct (map obj_binding (b_objects (co_backend k)))"
    and "\<And>r. r \<in> set (b_objects (co_backend k)) \<Longrightarrow> fst r \<in> object_key ` set (li_objects live)"
    and "\<And>r item. r \<in> set (b_objects (co_backend k)) \<Longrightarrow> item \<in> set (li_objects live) \<Longrightarrow> fst r = object_key item
      \<Longrightarrow> obj_item r = item"
proof -
  have b: "backend_ok (co_backend k)" using ok by (simp add: coord_ok_def)
  have item: "obj_item r \<in> set (li_objects live)" "fst r = object_key (obj_item r)" if "r \<in> set (b_objects (co_backend k))" for r
  proof -
    have "(obj_item r, obj_call r) \<in> set (pairs (co_backend k))" unfolding pairs_def set_map using that by blast
    from set_zip_leftD [OF subsetD [OF held this]] show "obj_item r \<in> set (li_objects live)" .
    show "fst r = object_key (obj_item r)" using b that by (simp add: backend_ok_def record_ok_def)
  qed
  then show "fst r \<in> object_key ` set (li_objects live)" if "r \<in> set (b_objects (co_backend k))" for r
    using that by simp
  have dk: "distinct (map object_key (li_objects live))" using inv by (simp add: inventory_ok_def)
  show "obj_item r = i" if "r \<in> set (b_objects (co_backend k))" "i \<in> set (li_objects live)" "fst r = object_key i" for r i
    using item [OF that(1)] that(2,3) dk by (auto simp: distinct_map inj_on_def)
  have "distinct (map en_binding_sha256 (co_entries k))"
    using ok request_facts(1) sorted_bytes_distinct by (fastforce simp: coord_ok_def)
  then have db: "distinct (map bo_binding_sha256 (li_objects live))" using inv by (simp add: inventory_ok_def)
  have dr: "distinct (map fst (b_objects (co_backend k)))" using b by (simp add: backend_ok_def)
  have "r = q" if "r \<in> set (b_objects (co_backend k))" "q \<in> set (b_objects (co_backend k))"
    "obj_binding r = obj_binding q" for r q
  proof -
    have "obj_item r = obj_item q" using item [OF that(1)] item [OF that(2)] that(3) db by (auto simp: distinct_map inj_on_def)
    then have "fst r = fst q" using item [OF that(1)] item [OF that(2)] by simp
    with dr that show ?thesis by (simp add: distinct_map inj_on_def)
  qed
  moreover have "distinct (b_objects (co_backend k))" using dr by (simp add: distinct_map)
  ultimately show "distinct (map obj_binding (b_objects (co_backend k)))"
    unfolding distinct_map inj_on_def by blast
qed

definition armed :: "backend \<Rightarrow> bool" where
  "armed b \<longleftrightarrow> (\<exists>r \<in> set (b_objects b). b_fail_free_binding b = Some (obj_binding r))"

lemma cleanup_backend:
  assumes ok: "coord_ok k" and inv: "inventory_ok (co_entries k) live"
    and held: "set (pairs (co_backend k)) \<subseteq> set (zip (li_objects live) (li_calls live))"
  obtains b' where "cleanup_objects (rev (li_objects live)) False (co_backend k) = (Inr (armed (co_backend k)), b')"
    "backend_ok b'" "b_objects b' = filter (\<lambda>r. b_fail_free_binding (co_backend k) = Some (obj_binding r)) (b_objects (co_backend k))"
    "b_fail_free_binding b' = (if armed (co_backend k) then None else b_fail_free_binding (co_backend k))"
proof -
  note h = held_bindings [OF assms]
  have b: "backend_ok (co_backend k)" using ok by (simp add: coord_ok_def)
  have dk: "distinct (map object_key (rev (li_objects live)))"
    using inv by (simp add: inventory_ok_def rev_map [symmetric])
  have "\<forall>r \<in> set (b_objects (co_backend k)). \<forall>item \<in> set (rev (li_objects live)). fst r = object_key item \<longrightarrow> obj_item r = item"
    using h(3) by simp
  from cleanup_objects_spec [OF b dk this h(1), of False] obtain b' where
    c: "cleanup_objects (rev (li_objects live)) False (co_backend k) =
      (Inr (False \<or> (\<exists>r \<in> set (b_objects (co_backend k)). fst r \<in> object_key ` set (rev (li_objects live))
        \<and> b_fail_free_binding (co_backend k) = Some (obj_binding r))), b')"
      "backend_ok b'"
      "b_objects b' = filter (\<lambda>r. fst r \<notin> object_key ` set (rev (li_objects live))
        \<or> b_fail_free_binding (co_backend k) = Some (obj_binding r)) (b_objects (co_backend k))"
      "b_fail_free_binding b' = (if \<exists>r \<in> set (b_objects (co_backend k)). fst r \<in> object_key ` set (rev (li_objects live))
        \<and> b_fail_free_binding (co_backend k) = Some (obj_binding r) then None else b_fail_free_binding (co_backend k))"
    by (elim exE conjE)
  have e1: "(\<exists>r \<in> set (b_objects (co_backend k)). fst r \<in> object_key ` set (rev (li_objects live))
        \<and> b_fail_free_binding (co_backend k) = Some (obj_binding r)) = armed (co_backend k)"
    unfolding armed_def set_rev using h(2) by (metis (no_types, lifting))
  have e2: "filter (\<lambda>r. fst r \<notin> object_key ` set (rev (li_objects live))
        \<or> b_fail_free_binding (co_backend k) = Some (obj_binding r)) (b_objects (co_backend k)) =
      filter (\<lambda>r. b_fail_free_binding (co_backend k) = Some (obj_binding r)) (b_objects (co_backend k))"
    unfolding set_rev by (rule filter_cong [OF refl]) (use h(2) in metis)
  show ?thesis by (rule that [OF c(1) [unfolded e1 simp_thms] c(2) c(3) [unfolded e2] c(4) [unfolded e1]])
qed

section \<open>Release and recovery\<close>

lemma filter_unique: "distinct (map f xs) \<Longrightarrow> x \<in> set xs \<Longrightarrow> filter (\<lambda>y. f y = f x) xs = [x]"
  by (induction xs) (auto simp: filter_empty_conv image_iff)

lemma map_filter_if: "List.map_filter (\<lambda>x. if P x then None else Some (g x)) xs = map g (filter (\<lambda>x. \<not> P x) xs)"
  by (induction xs) (simp_all add: List.map_filter_def)

text \<open>With one object left, the outstanding objects are that object.\<close>

lemma outstanding_one:
  assumes inv: "inventory_ok es live" and ok: "backend_ok b" and one: "b_objects b = [r]"
    and held: "(obj_item r, obj_call r) \<in> set (zip (li_objects live) (li_calls live))"
  shows "\<exists>i. outstanding_objects live b = [(int i, obj_call r, obj_item r)]"
proof -
  let ?xs = "enumerate 0 (zip (li_calls live) (li_objects live))" and ?f = "\<lambda>(i :: nat, c :: call, item). object_key item"
  have len: "length (li_objects live) = length (li_calls live)" using inv by (simp add: inventory_ok_def)
  have "map ?f ?xs = map object_key (map (\<lambda>p. snd (snd p)) ?xs)" by (simp add: split_def comp_def)
  also have "map (\<lambda>p. snd (snd p)) ?xs = map snd (map snd ?xs)" by (simp only: map_map comp_def)
  also have "\<dots> = li_objects live" using len by simp
  finally have d: "distinct (map ?f ?xs)" using inv by (simp add: inventory_ok_def)
  from held obtain i where i: "i < length (li_calls live)" "li_objects live ! i = obj_item r" "li_calls live ! i = obj_call r"
    using len by (auto simp: in_set_zip)
  then have x: "(i, obj_call r, obj_item r) \<in> set ?xs" using len
    by (metis (no_types, lifting) add_0 in_set_conv_nth length_enumerate length_zip min.idem nth_enumerate_eq nth_zip)
  have key: "fst r = object_key (obj_item r)" using ok one by (simp add: backend_ok_def record_ok_def)
  have reg: "map_of (b_objects b) q \<noteq> None \<longleftrightarrow> q = object_key (obj_item r)" for q
    using one key by (cases r) auto
  have "outstanding_objects live b = map (\<lambda>(i, c, item). (int i, c, item)) (filter (\<lambda>y. ?f y = object_key (obj_item r)) ?xs)"
    unfolding outstanding_objects_def using reg
    by (simp add: split_def map_filter_if)
  also have "filter (\<lambda>y. ?f y = object_key (obj_item r)) ?xs = [(i, obj_call r, obj_item r)]"
    using filter_unique [OF d x] by simp
  finally show ?thesis by auto
qed

text \<open>The state a cleanup starts from.\<close>

definition releasing :: "coordinator \<Rightarrow> live_state \<Rightarrow> bool" where
  "releasing k live \<longleftrightarrow> coord_ok k \<and> inventory_ok (co_entries k) live \<and> li_lease live \<noteq> None
     \<and> li_target_outcome live = OUTCOME_RELEASED \<and> li_target_reason live = REASON_NORMAL_RELEASE
     \<and> set (pairs (co_backend k)) \<subseteq> set (zip (li_objects live) (li_calls live))
     \<and> (\<exists>old. co_live k = Some old \<and> li_admission live = li_admission old \<and> li_lease live = li_lease old
          \<and> li_state live = li_state old \<and> li_state old \<noteq> Admitted)"

lemma cleanup_unarmed:
  assumes l: "releasing k live" and f: "\<not> armed (co_backend k)" and c: "cleanup live k = (Inr res, k')"
  shows "\<exists>t. res = Inl t" and "co_live k' = None" "b_objects (co_backend k') = []"
proof -
  have a: "coord_ok k" "inventory_ok (co_entries k) live"
    "set (pairs (co_backend k)) \<subseteq> set (zip (li_objects live) (li_calls live))" using l by (simp_all add: releasing_def)
  from cleanup_backend [OF a] obtain b' where
    b: "cleanup_objects (rev (li_objects live)) False (co_backend k) = (Inr False, b')" "backend_ok b'"
      "b_objects b' = filter (\<lambda>r. b_fail_free_binding (co_backend k) = Some (obj_binding r)) (b_objects (co_backend k))"
    using f by auto
  have e: "b_objects b' = []" using b(3) f by (simp add: armed_def filter_empty_conv)
  from c b(1) have t: "\<exists>t. res = Inl t" "k' = finish (k\<lparr>co_backend := b', co_live := Some live\<rparr>)"
    by (auto simp: cleanup_def Let_def split: sum.splits)
  then show "\<exists>t. res = Inl t" "co_live k' = None" "b_objects (co_backend k') = []"
    using e by (simp_all add: finish_def)
qed

text \<open>
  Whatever a cleanup answers, it leaves one of three states: ended, in recovery with the one object that failed,
  or, when its receipt could not be sealed, with nothing registered.
\<close>

lemma cleanup_states:
  assumes l: "releasing k live" and c: "cleanup live k = (r, k')"
  obtains (ended) b' where "backend_ok b'" "b_objects b' = []" "k' = finish (k\<lparr>co_backend := b', co_live := Some live\<rparr>)"
  | (failed) b' q where "backend_ok b'" "b_objects b' = [q]" "q \<in> set (b_objects (co_backend k))"
      "k' = k\<lparr>co_backend := b', co_live := Some (live\<lparr>li_state := Recovery,
         li_recovery_generation := min U64_MAX (li_recovery_generation live + 1)\<rparr>)\<rparr>"
  | (unsealed) b' e where "backend_ok b'" "b_objects b' = []" "k' = k\<lparr>co_backend := b', co_live := Some live\<rparr>" "r = Inl e"
proof -
  have a: "coord_ok k" "inventory_ok (co_entries k) live"
    "set (pairs (co_backend k)) \<subseteq> set (zip (li_objects live) (li_calls live))" using l by (simp_all add: releasing_def)
  from cleanup_backend [OF a] obtain b' where
    b: "cleanup_objects (rev (li_objects live)) False (co_backend k) = (Inr (armed (co_backend k)), b')" "backend_ok b'"
      "b_objects b' = filter (\<lambda>r. b_fail_free_binding (co_backend k) = Some (obj_binding r)) (b_objects (co_backend k))"
    by metis
  show ?thesis
  proof (cases "armed (co_backend k)")
    case False
    then have e: "b_objects b' = []" using b(3) by (simp add: armed_def filter_empty_conv)
    show ?thesis
    proof (cases r)
      case (Inl err)
      then show ?thesis using c b(1) False by (intro unsealed [OF b(2) e]) (auto simp: cleanup_def Let_def split: sum.splits)
    next
      case (Inr v)
      then show ?thesis using c b(1) False by (intro ended [OF b(2) e]) (auto simp: cleanup_def Let_def split: sum.splits)
    qed
  next
    case True
    then obtain q where q: "q \<in> set (b_objects (co_backend k))" "b_fail_free_binding (co_backend k) = Some (obj_binding q)"
      by (auto simp: armed_def)
    have "filter (\<lambda>p. obj_binding p = obj_binding q) (b_objects (co_backend k)) = [q]"
      by (rule filter_unique [OF held_bindings(1) [OF a] q(1)])
    then have "b_objects b' = [q]" unfolding b(3) q(2) by (simp add: eq_commute [of "obj_binding q"])
    then show ?thesis using c b(1) True by (intro failed [OF b(2) _ q(1)]) (auto simp: cleanup_def Let_def)
  qed
qed

lemma cleanup_ok:
  assumes l: "releasing k live" and c: "cleanup live k = (r, k')"
  shows "coord_ok k'"
proof -
  have ok: "coord_ok k" using l by (simp add: releasing_def)
  from l obtain old where old: "co_live k = Some old" "li_admission live = li_admission old" "li_lease live = li_lease old"
    "li_state live = li_state old" "li_state old \<noteq> Admitted" by (auto simp: releasing_def)
  from l c show ?thesis
  proof (cases rule: cleanup_states)
    case ended
    then show ?thesis using ok by (simp add: coord_ok_def finish_def)
  next
    case (failed b' q)
    have "(obj_item q, obj_call q) \<in> set (pairs (co_backend k))" using failed(3) by (auto simp: pairs_def)
    then show ?thesis using failed ok l old by (auto simp: coord_ok_def releasing_def phase_ok_def inventory_ok_def pairs_def)
  next
    case (unsealed b' e)
    show ?thesis
      using unsealed(1-3) ok l old
      by (cases "li_state old") (auto simp: coord_ok_def releasing_def phase_ok_def pairs_def)
  qed
qed

lemma cleanup_armed:
  assumes l: "releasing k live" and f: "armed (co_backend k)" and c: "cleanup live k = (Inr res, k')"
  obtains t r live' where "res = Inr t" "co_live k' = Some live'" "li_state live' = Recovery"
    "current_recovery live' k' = Inr t" "b_objects (co_backend k') = [r]" "r \<in> set (b_objects (co_backend k))"
    "b_fail_free_binding (co_backend k) = Some (obj_binding r)"
    "b_fail_free_binding (co_backend k') = None" "releasing k' live'"
    "li_admission live' = li_admission live" "li_lease live' = li_lease live"
proof -
  have a: "coord_ok k" "inventory_ok (co_entries k) live"
    "set (pairs (co_backend k)) \<subseteq> set (zip (li_objects live) (li_calls live))" using l by (simp_all add: releasing_def)
  from cleanup_backend [OF a] obtain b' where
    b: "cleanup_objects (rev (li_objects live)) False (co_backend k) = (Inr True, b')" "backend_ok b'"
      "b_objects b' = filter (\<lambda>r. b_fail_free_binding (co_backend k) = Some (obj_binding r)) (b_objects (co_backend k))"
      "b_fail_free_binding b' = None"
    using f by auto
  from f obtain r where r: "r \<in> set (b_objects (co_backend k))" "b_fail_free_binding (co_backend k) = Some (obj_binding r)"
    by (auto simp: armed_def)
  have "filter (\<lambda>q. obj_binding q = obj_binding r) (b_objects (co_backend k)) = [r]"
    by (rule filter_unique [OF held_bindings(1) [OF a] r(1)])
  then have one: "b_objects b' = [r]" unfolding b(3) r(2) by (simp add: eq_commute [of "obj_binding r"])
  let ?live = "live\<lparr>li_state := Recovery, li_recovery_generation := min U64_MAX (li_recovery_generation live + 1)\<rparr>"
  let ?k = "k\<lparr>co_backend := b', co_live := Some ?live\<rparr>"
  from c b(1) obtain t where t: "k' = ?k" "res = Inr t" "current_recovery ?live ?k = Inr t"
    by (auto simp: cleanup_def Let_def result_simps)
  have "set (pairs b') \<subseteq> set (pairs (co_backend k))" using one r(1) by (auto simp: pairs_def)
  then have h: "set (pairs b') \<subseteq> set (zip (li_objects ?live) (li_calls ?live))" using a(3) by auto
  have inv: "inventory_ok (co_entries k) ?live" using a(2) by (simp add: inventory_ok_def)
  have "coord_ok ?k" using cleanup_ok [OF l c] t(1) by simp
  then have "releasing ?k ?live" using l h inv by (simp add: releasing_def)
  then show ?thesis using that [of t ?live r] t one r b(4) by simp
qed

lemma live_inventory:
  assumes "coord_ok k" "co_live k = Some live" "li_state live \<noteq> Admitted"
  shows "inventory_ok (co_entries k) live" "li_lease live \<noteq> None"
    "set (pairs (co_backend k)) \<subseteq> set (zip (li_objects live) (li_calls live))"
proof -
  have p: "phase_ok k live" using assms(1,2) by (simp add: coord_ok_def)
  have "pairs (co_backend k) = []" if "b_objects (co_backend k) = []" using that by (simp add: pairs_def)
  then show "inventory_ok (co_entries k) live" "li_lease live \<noteq> None"
    "set (pairs (co_backend k)) \<subseteq> set (zip (li_objects live) (li_calls live))"
    using p assms(3) by (cases "li_state live"; force simp: phase_ok_def)+
qed

lemma releasing_live:
  assumes "coord_ok k" "co_live k = Some live" "li_state live \<in> {Live, Recovery}"
  shows "releasing k (live\<lparr>li_target_outcome := OUTCOME_RELEASED, li_target_reason := REASON_NORMAL_RELEASE\<rparr>)"
  using assms live_inventory [OF assms(1,2)] by (auto simp: releasing_def inventory_ok_def)

lemma release_cleanup:
  assumes "release l k = (Inr res, k')"
  obtains live where "co_live k = Some live" "li_state live = Live" "li_lease live = Some l"
    "cleanup (live\<lparr>li_target_outcome := OUTCOME_RELEASED, li_target_reason := REASON_NORMAL_RELEASE\<rparr>) k = (Inr res, k')"
  using assms by (auto simp: release_def split: option.splits if_splits)

lemma retry_cleanup:
  assumes "retry_recovery t k = (Inr res, k')"
  obtains live where "co_live k = Some live" "li_state live = Recovery" "current_recovery live k = Inr t"
    "cleanup live k = (Inr res, k')"
  using assms by (auto simp: retry_recovery_def split: option.splits if_splits sum.splits)

lemma releasing_recovery:
  assumes "coord_ok k" "co_live k = Some live" "li_state live = Recovery"
  shows "releasing k live"
  using assms live_inventory [OF assms(1,2)] by (auto simp: releasing_def coord_ok_def phase_ok_def)

text \<open>A release or a retry that does not change the state was refused; otherwise it is a cleanup.\<close>

lemma release_step:
  assumes "coord_ok k" "release l k = (r, k')"
  obtains "k' = k" | live old where "releasing k live" "co_live k = Some old" "li_admission live = li_admission old"
    "li_lease live = li_lease old" "cleanup live k = (r, k')"
proof (cases "co_live k")
  case None
  then show ?thesis using assms(2) by (intro that(1)) (simp add: release_def)
next
  case (Some live)
  show ?thesis
  proof (cases "li_state live = Live \<and> li_lease live = Some l")
    case True
    then show ?thesis using assms(2) Some
      by (intro that(2) [OF releasing_live [OF assms(1) Some] Some]) (auto simp: release_def)
  next
    case False
    then show ?thesis using assms(2) Some by (intro that(1)) (auto simp: release_def)
  qed
qed

lemma retry_step:
  assumes "coord_ok k" "retry_recovery t k = (r, k')"
  obtains "k' = k" | live where "releasing k live" "co_live k = Some live" "cleanup live k = (r, k')"
proof (cases "\<exists>live. co_live k = Some live \<and> li_state live = Recovery \<and> current_recovery live k = Inr t")
  case True
  then obtain live where l: "co_live k = Some live" "li_state live = Recovery" "current_recovery live k = Inr t" by blast
  then show ?thesis using assms(2)
    by (intro that(2) [OF releasing_recovery [OF assms(1) l(1,2)] l(1)]) (simp add: retry_recovery_def)
next
  case False
  then show ?thesis using assms(2) by (intro that(1)) (auto simp: retry_recovery_def split: option.splits sum.splits if_splits)
qed

lemma release_ok:
  assumes "coord_ok k" "release l k = (r, k')"
  shows "coord_ok k'"
  using assms by (cases rule: release_step) (use assms(1) cleanup_ok in auto)

lemma retry_ok:
  assumes "coord_ok k" "retry_recovery t k = (r, k')"
  shows "coord_ok k'"
  using assms by (cases rule: retry_step) (use assms(1) cleanup_ok in auto)

section \<open>Reachable coordinators\<close>

text \<open>
  The coordinator runs over a backend of its own with no objects. Every call is a step, whatever it answers: a
  call that raises leaves what it assigned before. The flag says that some admission was cancelled while
  objects were registered for it, as an earlier materialization that raised leaves them: a cancellation
  does not free them.
\<close>

definition strands :: "device_error + terminal_receipt \<Rightarrow> coordinator \<Rightarrow> bool" where
  "strands t k = (case t of Inl _ \<Rightarrow> False | Inr _ \<Rightarrow> b_objects (co_backend k) \<noteq> [])"

inductive coord_runs :: "bool \<Rightarrow> coordinator \<Rightarrow> bool" where
  init: "coordinator_init e a r s p m es b = Inr k \<Longrightarrow> backend_reach b \<Longrightarrow> b_objects b = [] \<Longrightarrow> coord_runs False k"
| admit: "coord_runs f k \<Longrightarrow> admit k = (d, k') \<Longrightarrow> coord_runs f k'"
| cancel: "coord_runs f k \<Longrightarrow> cancel d k = (t, k') \<Longrightarrow> coord_runs (f \<or> strands t k) k'"
| materialize: "coord_runs f k \<Longrightarrow> materialize d k = (l, k') \<Longrightarrow> coord_runs f k'"
| release: "coord_runs f k \<Longrightarrow> release l k = (res, k') \<Longrightarrow> coord_runs f k'"
| retry: "coord_runs f k \<Longrightarrow> retry_recovery t k = (res, k') \<Longrightarrow> coord_runs f k'"
| inject: "coord_runs f k \<Longrightarrow> fail_next_free_for d (co_backend k) = (u, b') \<Longrightarrow> coord_runs f (k\<lparr>co_backend := b'\<rparr>)"

definition coord_reach :: "coordinator \<Rightarrow> bool" where
  "coord_reach k \<longleftrightarrow> (\<exists>f. coord_runs f k)"

lemma injected:
  assumes "fail_next_free_for d b = (u, b')"
  shows "b_objects b' = b_objects b" "pairs b' = pairs b" "backend_ok b \<Longrightarrow> backend_ok b'"
  using assms by (auto simp: fail_next_free_for_def backend_ok_inject pairs_def split: sum.splits)

lemma coord_ok_inject:
  assumes "coord_ok k" "fail_next_free_for d (co_backend k) = (u, b')"
  shows "coord_ok (k\<lparr>co_backend := b'\<rparr>)"
  using assms(1) injected [OF assms(2)]
  by (auto simp: coord_ok_def phase_ok_def split: option.splits live_phase.splits)

lemma coord_runs_ok: "coord_runs f k \<Longrightarrow> coord_ok k"
  by (induction rule: coord_runs.induct)
    (auto intro: coord_init_ok backend_reach_ok admit_ok cancel_ok materialize_ok release_ok retry_ok coord_ok_inject)

lemma coord_reach_ok: "coord_reach k \<Longrightarrow> coord_ok k"
  using coord_runs_ok by (auto simp: coord_reach_def)

text \<open>Unless a cancellation stranded some, the objects are those of the live lease.\<close>

definition accounted :: "coordinator \<Rightarrow> bool" where
  "accounted k \<longleftrightarrow> (case co_live k of None \<Rightarrow> b_objects (co_backend k) = []
     | Some live \<Rightarrow> li_state live = Admitted \<longrightarrow> map obj_item (b_objects (co_backend k)) = li_objects live)"

lemma accounted_cleanup:
  assumes "releasing k live" "cleanup live k = (r, k')"
  shows "accounted k'"
  using assms
proof (cases rule: cleanup_states)
  case (unsealed b' e)
  have "li_state live \<noteq> Admitted" using assms(1) by (auto simp: releasing_def)
  then show ?thesis using unsealed(3) by (simp add: accounted_def)
qed (simp_all add: accounted_def finish_def)

lemma accounted_materialize:
  assumes ok: "coord_ok k" and a: "accounted k" and m: "materialize d k = (r, k')"
  shows "accounted k'"
proof (cases r)
  case (Inl e)
  from m [unfolded Inl] show ?thesis
  proof (cases rule: materialize_Inl)
    case (2 live v live' b')
    have "backend_ok (co_backend k)" using ok by (simp add: coord_ok_def)
    from materialize_entries_adds [OF 2(3) this] show ?thesis using a 2(1,2,4) by (auto simp: accounted_def)
  qed (use a in simp)
next
  case (Inr l)
  from m [unfolded Inr] show ?thesis by (rule materialize_Inr) (simp add: accounted_def)
qed

lemma coord_runs_accounted: "coord_runs f k \<Longrightarrow> \<not> f \<Longrightarrow> accounted k"
proof (induction rule: coord_runs.induct)
  case (init e a r s p m es b k)
  then show ?case by (auto simp: coordinator_init_def result_simps accounted_def)
next
  case (admit f k d k')
  show ?case
  proof (cases d)
    case (Inl e)
    with admit admit_Inl [of k e k'] show ?thesis by (auto simp: accounted_def)
  next
    case (Inr a)
    with admit show ?thesis by (auto elim!: admit_Inr simp: accounted_def)
  qed
next
  case (cancel f k d t k')
  then show ?case by (cases t) (auto dest!: cancel_Inl cancel_Inr simp: accounted_def finish_def strands_def)
next
  case (materialize f k d l k')
  then show ?case using accounted_materialize coord_runs_ok by blast
next
  case (release f k l res k')
  from coord_runs_ok [OF release.hyps(1)] release.hyps(2) show ?case
    by (cases rule: release_step) (use release accounted_cleanup in auto)
next
  case (retry f k t res k')
  from coord_runs_ok [OF retry.hyps(1)] retry.hyps(2) show ?case
    by (cases rule: retry_step) (use retry accounted_cleanup in auto)
next
  case (inject f k d u b')
  then show ?case using injected [OF inject.hyps(2)] by (auto simp: accounted_def split: option.splits)
qed

end
