(* ===== verification/Device_Outcomes.thy ===== *)
theory Device_Outcomes
  imports Device_Lifecycle
begin

text \<open>
  What the calls of the coordinator return, on reachable states: the admission and the lease it holds
  are sealed, the bytes of the backend are those of the lease, a release that cannot free an object
  returns a ticket for it, and the retry of that ticket ends the lease.
\<close>

section \<open>Sealed values\<close>

definition lease_of :: "live_state \<Rightarrow> lease \<Rightarrow> bool" where
  "lease_of live l \<longleftrightarrow> validate_lease l = Inr () \<and> ls_generation l = ad_generation (li_admission live)
     \<and> ls_admission_sha256 l = ad_admission_sha256 (li_admission live)"

definition sealed :: "coordinator \<Rightarrow> bool" where
  "sealed k \<longleftrightarrow> (case co_live k of None \<Rightarrow> True
     | Some live \<Rightarrow> validate_admission (li_admission live) = Inr ()
         \<and> (\<forall>l. li_lease live = Some l \<longrightarrow> lease_of live l))"

lemma admit_validates: "admit k = (Inr d, k') \<Longrightarrow> validate_admission d = Inr ()"
  by (auto simp: admit_def make_admission_def result_simps Let_def split: sum.splits)

lemma make_lease_validates: "make_lease d r s = Inr l \<Longrightarrow> validate_lease l = Inr ()"
  by (auto simp: make_lease_def result_simps Let_def)

lemma materialize_entries_keeps:
  "materialize_entries a d i es live b = (r, live', b') \<Longrightarrow>
     li_admission live' = li_admission live \<and> li_lease live' = li_lease live"
proof (induction es arbitrary: i live b)
  case (Cons e es)
  then show ?case by (auto simp: Let_def split: sum.splits prod.splits)
qed simp

lemma sealed_cleanup:
  assumes "sealed k" "releasing k live" "co_live k = Some old" "li_admission live = li_admission old"
    "li_lease live = li_lease old" "cleanup live k = (r, k')"
  shows "sealed k'"
  using assms(2,6) by (cases rule: cleanup_states) (use assms(1,3-5) in \<open>simp_all add: sealed_def lease_of_def finish_def\<close>)

lemma sealed_materialize:
  assumes "sealed k" "materialize d k = (r, k')"
  shows "sealed k'"
proof (cases r)
  case (Inl e)
  from assms(2) [unfolded Inl] show ?thesis
  proof (cases rule: materialize_Inl)
    case (2 live v live' b')
    with assms(1) materialize_entries_keeps [OF 2(3)] show ?thesis by (simp add: sealed_def lease_of_def)
  qed (use assms(1) in simp)
next
  case (Inr l)
  from assms(2) [unfolded Inr] show ?thesis
  proof (rule materialize_Inr)
    fix live live' b' s u
    assume "co_live k = Some live" "li_state live = Admitted" "li_admission live = d"
      and e: "materialize_entries (co_authority k) d 0 (co_entries k) live (co_backend k) = (Inr u, live', b')"
      and "make_object_set d (li_calls live') (li_objects live') = Inr s" "make_lease d (co_request k) s = Inr l"
        "k' = k\<lparr>co_backend := b', co_live := Some (live'\<lparr>li_lease := Some l, li_state := Live\<rparr>)\<rparr>"
    with assms(1) materialize_entries_keeps [OF e] make_lease_validates make_lease_Inr show ?thesis
      by (auto simp: sealed_def lease_of_def)
  qed
qed

lemma coord_runs_sealed: "coord_runs f k \<Longrightarrow> sealed k"
proof (induction rule: coord_runs.induct)
  case (init e a r s p m es b k)
  then show ?case by (auto simp: coordinator_init_def result_simps sealed_def)
next
  case (admit f k d k')
  show ?case
  proof (cases d)
    case (Inl e)
    with admit admit_Inl [of k e k'] show ?thesis by (auto simp: sealed_def)
  next
    case (Inr a)
    from admit.hyps(2) [unfolded Inr] show ?thesis
      by (rule admit_Inr) (simp add: sealed_def admit_validates [OF admit.hyps(2) [unfolded Inr]])
  qed
next
  case (cancel f k d t k')
  then show ?case by (cases t) (auto dest!: cancel_Inl cancel_Inr simp: sealed_def finish_def)
next
  case (materialize f k d l k')
  then show ?case using sealed_materialize by blast
next
  case (release f k l res k')
  from coord_runs_ok [OF release.hyps(1)] release.hyps(2) show ?case
    by (cases rule: release_step) (use release.IH sealed_cleanup in auto)
next
  case (retry f k t res k')
  from coord_runs_ok [OF retry.hyps(1)] retry.hyps(2) show ?case
    by (cases rule: retry_step) (use retry.IH sealed_cleanup in auto)
next
  case (inject f k d u b')
  then show ?case by (simp add: sealed_def)
qed

lemma coord_reach_sealed: "coord_reach k \<Longrightarrow> sealed k"
  using coord_runs_sealed by (auto simp: coord_reach_def)

section \<open>Bytes\<close>

lemma inventory_bytes:
  assumes "inventory_ok es live"
  shows "sum_list (map bo_allocated_bytes (li_objects live)) = charged_sum es"
  using assms by (simp add: inventory_ok_def charged_sum_def)

lemma pairs_items: "map fst (pairs b) = map obj_item (b_objects b)"
  by (simp add: pairs_def)

lemma live_bytes:
  assumes "inventory_ok es live" "pairs b = zip (li_objects live) (li_calls live)"
  shows "object_bytes b = charged_sum es" "length (b_objects b) = length es"
proof -
  have l: "length (li_objects live) = length (li_calls live)" using assms(1) by (simp add: inventory_ok_def)
  have "map obj_item (b_objects b) = li_objects live"
    using l unfolding pairs_items [symmetric] assms(2) by simp
  moreover have "object_bytes b = sum_list (map bo_allocated_bytes (map obj_item (b_objects b)))"
    by (simp add: object_bytes_def comp_def)
  ultimately show "object_bytes b = charged_sum es" using inventory_bytes [OF assms(1)] by simp
  have "length (b_objects b) = length (li_objects live)"
    using arg_cong [OF assms(2), of length] l by (simp add: pairs_def)
  also have "\<dots> = length es" using assms(1) by (metis inventory_ok_def length_map)
  finally show "length (b_objects b) = length es" .
qed

text \<open>The registered objects are at most one for each entry, with the bytes of that entry.\<close>

lemma registered_bytes:
  assumes ok: "backend_ok b" and pos: "\<forall>e \<in> set es. entry_ok e"
    and made: "\<forall>r \<in> set (b_objects b). made_for es 0 r"
  shows "object_bytes b \<le> charged_sum es"
proof -
  let ?ord = "\<lambda>r. nat (ca_ordinal (obj_call r))"
  have at: "?ord r < length es \<and> bo_allocated_bytes (obj_item r) = en_charged_bytes (es ! ?ord r)
      \<and> ca_ordinal (obj_call r) = int (?ord r)" if "r \<in> set (b_objects b)" for r
    using made that by (auto simp: made_for_def)
  have "map (\<lambda>r. ca_ordinal (obj_call r)) (b_objects b) = map int (map ?ord (b_objects b))" using at by simp
  moreover have "distinct (map (\<lambda>r. ca_ordinal (obj_call r)) (b_objects b))" using ok by (simp add: backend_ok_def)
  ultimately have d: "distinct (map ?ord (b_objects b))" by (simp only: distinct_map [of int])
  have nn: "0 \<le> en_charged_bytes (es ! i)" if "i < length es" for i
    using pos nth_mem [OF that] by (auto simp: entry_ok_def)
  have "object_bytes b = sum_list (map (\<lambda>i. en_charged_bytes (es ! i)) (map ?ord (b_objects b)))"
    unfolding object_bytes_def map_map comp_def by (rule arg_cong [of _ _ sum_list], rule map_cong) (use at in auto)
  also have "\<dots> = (\<Sum>i \<in> set (map ?ord (b_objects b)). en_charged_bytes (es ! i))"
    using d by (rule sum_list_distinct_conv_sum_set)
  also have "\<dots> \<le> (\<Sum>i \<in> {..<length es}. en_charged_bytes (es ! i))"
    by (rule sum_mono2) (use at nn in auto)
  also have "\<dots> = charged_sum es" by (simp add: charged_sum_def sum_list_sum_nth atLeast0LessThan)
  finally show ?thesis .
qed

section \<open>Tickets\<close>

lemma make_recovery_one:
  "make_recovery e s g rg a ad ls os out why [(i, c, item)] = Inr t \<Longrightarrow>
     rt_outstanding_object_count t = 1 \<and> rt_outstanding_bytes t = ca_charged_bytes c
     \<and> rt_lease_sha256 t = ls \<and> rt_admission_sha256 t = ad \<and> validate_recovery t = Inr ()"
  by (auto simp: make_recovery_def result_simps Let_def)

lemma ticket_facts:
  assumes l: "releasing k live" and s: "co_live k = Some live" and one: "b_objects (co_backend k) = [r]"
    and c: "current_recovery live k = Inr t"
  shows "rt_outstanding_object_count t = 1 \<and> rt_outstanding_bytes t = b_used_bytes (co_backend k)
    \<and> rt_lease_sha256 t = (case li_lease live of None \<Rightarrow> ZERO_DIGEST | Some v \<Rightarrow> ls_lease_sha256 v)
    \<and> validate_recovery t = Inr ()"
proof -
  have k: "coord_ok k" "inventory_ok (co_entries k) live"
    "set (pairs (co_backend k)) \<subseteq> set (zip (li_objects live) (li_calls live))" using l by (simp_all add: releasing_def)
  have b: "backend_ok (co_backend k)" using k(1) by (simp add: coord_ok_def)
  have "(obj_item r, obj_call r) \<in> set (pairs (co_backend k))" using one by (simp add: pairs_def)
  from outstanding_one [OF k(2) b one subsetD [OF k(3) this]] obtain i where
    o: "outstanding_objects live (co_backend k) = [(int i, obj_call r, obj_item r)]" ..
  have "b_used_bytes (co_backend k) = ca_charged_bytes (obj_call r)"
    using b one by (simp add: backend_ok_def object_bytes_def record_ok_def)
  with make_recovery_one [OF c [unfolded current_recovery_def o]] show ?thesis by simp
qed

section \<open>Terminal receipts\<close>

lemma admission_sealed_facts:
  assumes "validate_admission d = Inr ()"
  shows "0 \<le> ad_slot_index d" "ad_slot_index d \<le> U32_MAX" "is_u64 (ad_coordinator_epoch d)"
    "is_u64 (ad_generation d)" "is_u64 (ad_total_device_bytes d)" "ad_total_device_bytes d \<noteq> 0"
    "ad_coordinator_epoch d \<noteq> 0" "ad_generation d \<noteq> 0"
    "length (ad_authority_sha256 d) = 32" "length (ad_admission_sha256 d) = 32"
    "length (ad_parent_receipt_sha256 d) = 32" "length (ad_child_lease_sha256 d) = 32"
    "ad_authority_sha256 d \<noteq> ZERO_DIGEST" "ad_admission_sha256 d \<noteq> ZERO_DIGEST"
    "ad_parent_receipt_sha256 d \<noteq> ZERO_DIGEST" "ad_child_lease_sha256 d \<noteq> ZERO_DIGEST"
  using assms by (auto simp: validate_admission_def result_simps admission_roots_def)

lemma lease_sealed_facts:
  assumes "validate_lease l = Inr ()"
  shows "length (ls_lease_sha256 l) = 32" "length (ls_backend_object_set_sha256 l) = 32"
    "ls_lease_sha256 l \<noteq> ZERO_DIGEST" "ls_backend_object_set_sha256 l \<noteq> ZERO_DIGEST"
  using assms by (auto simp: validate_lease_def result_simps lease_roots_def)

lemma request_sealed_facts:
  assumes "validate_request r a s p m es = Inr ()"
  shows "length (rq_request_sha256 r) = 32" "rq_request_sha256 r \<noteq> ZERO_DIGEST"
  using assms by (auto simp: validate_request_def result_simps request_composition_def)

text \<open>The receipt of a release, but for its own digest.\<close>

definition released_receipt :: "admission_v1 \<Rightarrow> request \<Rightarrow> lease \<Rightarrow> bytes \<Rightarrow> terminal_receipt" where
  "released_receipt d r l root = \<lparr>te_abi_version = TERMINAL_ABI, te_outcome = OUTCOME_RELEASED,
    te_reason = REASON_NORMAL_RELEASE, te_coordinator_epoch = ad_coordinator_epoch d,
    te_slot_index = ad_slot_index d, te_generation = ad_generation d,
    te_authority_sha256 = ad_authority_sha256 d, te_request_sha256 = rq_request_sha256 r,
    te_admission_sha256 = ad_admission_sha256 d, te_lease_sha256 = ls_lease_sha256 l,
    te_backend_object_set_sha256 = ls_backend_object_set_sha256 l,
    te_parent_receipt_sha256 = ad_parent_receipt_sha256 d, te_child_lease_sha256 = ad_child_lease_sha256 d,
    te_returned_device_bytes = rq_total_device_bytes r, te_terminal_sha256 = root\<rparr>"

text \<open>
  The only way for the receipt of a release to fail is that its transcript hashes to the digest that
  stands for no digest.
\<close>

lemma make_terminal_released:
  assumes d: "validate_admission d = Inr ()" and l: "validate_lease l = Inr ()"
    and r: "length (rq_request_sha256 r) = 32" "rq_request_sha256 r \<noteq> ZERO_DIGEST"
      "rq_total_device_bytes r = ad_total_device_bytes d"
  obtains h where "terminal_root (released_receipt d r l ZERO_DIGEST) = Inr h"
    "make_terminal d r OUTCOME_RELEASED REASON_NORMAL_RELEASE (Some l) =
       (if h = ZERO_DIGEST then Inl InvalidTerminal else Inr (released_receipt d r l h))"
proof -
  note f = admission_sealed_facts [OF d] lease_sealed_facts [OF l] r
  let ?v = "released_receipt d r l"
  have "\<exists>h. \<forall>root. terminal_root (?v root) = Inr h"
    using f by (simp add: released_receipt_def terminal_root_def hash_chunks_def le_ok digestD_ok is_u64_def)
  then obtain h where h: "\<And>root. terminal_root (?v root) = Inr h" by blast
  have len: "length h = 32" using h [of ZERO_DIGEST] unfolding terminal_root_def by (rule hash_chunks_length)
  have "validate_terminal (?v h) = (if h = ZERO_DIGEST then Inl InvalidTerminal else Inr ())"
    using f len h [of h]
    by (simp add: released_receipt_def validate_terminal_def u32D_ok u64sD_ok digestsD_ok is_u64_def Let_def
        terminal_pair_valid_def VALID_OUTCOMES_def VALID_REASONS_def)
  moreover have "make_terminal d r OUTCOME_RELEASED REASON_NORMAL_RELEASE (Some l) =
      bindE (terminal_root (?v ZERO_DIGEST)) (\<lambda>root. bindE (validate_terminal (?v root)) (\<lambda>_. Inr (?v root)))"
    by (simp add: make_terminal_def released_receipt_def Let_def)
  ultimately show ?thesis using h by (intro that [of h]) simp_all
qed

lemma cleanup_unarmed_result:
  assumes l: "releasing k live" and f: "\<not> armed (co_backend k)" and s: "sealed k" and v: "li_lease live = Some v"
  obtains h k' where "terminal_root (released_receipt (li_admission live) (co_request k) v ZERO_DIGEST) = Inr h"
    "b_objects (co_backend k') = []" "b_used_bytes (co_backend k') = 0"
    "if h = ZERO_DIGEST then cleanup live k = (Inl InvalidTerminal, k') \<and> co_live k' = Some live
     else cleanup live k = (Inr (Inl (released_receipt (li_admission live) (co_request k) v h)), k')
       \<and> co_live k' = None \<and> co_charged_device_bytes k' = 0"
proof -
  have a: "coord_ok k" "inventory_ok (co_entries k) live"
    "set (pairs (co_backend k)) \<subseteq> set (zip (li_objects live) (li_calls live))"
    "li_target_outcome live = OUTCOME_RELEASED" "li_target_reason live = REASON_NORMAL_RELEASE"
    using l by (simp_all add: releasing_def)
  from l obtain old where o: "co_live k = Some old" "li_admission live = li_admission old" "li_lease live = li_lease old"
    by (auto simp: releasing_def)
  from cleanup_backend [OF a(1-3)] obtain b' where
    b: "cleanup_objects (rev (li_objects live)) False (co_backend k) = (Inr False, b')" "backend_ok b'"
      "b_objects b' = filter (\<lambda>r. b_fail_free_binding (co_backend k) = Some (obj_binding r)) (b_objects (co_backend k))"
    using f by auto
  have e: "b_objects b' = []" using b(3) f by (simp add: armed_def filter_empty_conv)
  then have u: "b_used_bytes b' = 0" using b(2) by (simp add: backend_ok_def object_bytes_def)
  let ?k = "k\<lparr>co_backend := b', co_live := Some live\<rparr>"
  have q: "length (rq_request_sha256 (co_request k)) = 32" "rq_request_sha256 (co_request k) \<noteq> ZERO_DIGEST"
    "rq_total_device_bytes (co_request k) = ad_total_device_bytes (li_admission live)"
    using a(1) o request_sealed_facts by (fastforce simp: coord_ok_def)+
  have z: "validate_admission (li_admission live) = Inr ()" "validate_lease v = Inr ()"
    using s o v by (auto simp: sealed_def lease_of_def)
  from make_terminal_released [OF z q] obtain h where
    h: "terminal_root (released_receipt (li_admission live) (co_request k) v ZERO_DIGEST) = Inr h"
      "make_terminal (li_admission live) (co_request k) OUTCOME_RELEASED REASON_NORMAL_RELEASE (Some v) =
        (if h = ZERO_DIGEST then Inl InvalidTerminal else Inr (released_receipt (li_admission live) (co_request k) v h))" .
  show ?thesis
  proof (rule that [OF h(1), of "if h = ZERO_DIGEST then ?k else finish ?k"])
  qed (use b(1) h(2) a(4,5) v e u in \<open>auto simp: cleanup_def Let_def finish_def\<close>)
qed

section \<open>Errors of the backend\<close>

lemma hash_chunks_Inl: "hash_chunks d cs = Inl e \<Longrightarrow> Inl e \<in> set cs"
proof -
  have "mapE (\<lambda>c. c) cs = Inl e \<Longrightarrow> Inl e \<in> set cs" for cs :: "(device_error + bytes) list"
    by (induction cs) (auto simp: bindE_Inl)
  then show "hash_chunks d cs = Inl e \<Longrightarrow> Inl e \<in> set cs" by (simp add: hash_chunks_def bindE_Inl)
qed

lemma mapE_Inl: "mapE f xs = Inl e \<Longrightarrow> \<exists>x \<in> set xs. f x = Inl e"
  by (induction xs) (auto simp: bindE_Inl)

lemma scalar_errors:
  "u64D v = Inl e \<Longrightarrow> e = OutsideU64" "digestD d = Inl e \<Longrightarrow> e = DigestLength"
  "u32D v = Inl e \<Longrightarrow> e \<in> {OutsideU64, OutsideU32}"
  by (auto simp: u64D_def digestD_def u32D_def bindE_Inl split: if_splits)

lemma list_errors:
  "u64sD vs = Inl e \<Longrightarrow> e = OutsideU64" "le vs = Inl e \<Longrightarrow> e = OutsideU64" "digestsD ds = Inl e \<Longrightarrow> e = DigestLength"
  using scalar_errors by (auto simp: u64sD_def le_def digestsD_def bindE_Inl dest!: mapE_Inl)

lemmas error_sources = scalar_errors list_errors hash_chunks_Inl

end
