(* ===== verification/Device_Fixture.thy ===== *)
theory Device_Fixture
  imports Sha256_Eval Device_Coordinator
begin

unbundle bit_operations_syntax

text \<open>
  \<open>make_fixture\<close> of \<open>bench/device_allocation_lease.py\<close> and the campaign that
  \<open>bench/tests/test_device_allocation_lease.py\<close> runs on it: an admission that is cancelled, an
  admission that is materialized, a release whose free of one object fails, and the recovery. The
  values of the campaign are written out, its digests as literals; that the operations compute them
  is proved by simplification, one lemma per transcript.
\<close>

section \<open>The fixture\<close>

definition digest_v1 :: "bytes \<Rightarrow> bytes" where
  "digest_v1 v = sha256 v"

record fixture =
  fx_selection :: selection
  fx_authority :: authority
  fx_entries :: "manifest_entry list"
  fx_manifest :: manifest
  fx_parent :: receipt
  fx_request :: request

text \<open>\<open>bytes.fromhex\<close> of a numeral of 64 hexadecimal digits.\<close>

definition from_hex :: "int \<Rightarrow> bytes" where
  "from_hex n = rev (le_bytes 32 n)"

definition fixture_selection :: selection where
  "fixture_selection =
    \<lparr>se_receipt_sha256 = from_hex 0x561a5b05d02d933773147d26b3686b845900ed8896a4254f27f3a3bfdeb19034,
     se_requirement_sha256 = from_hex 0x8915b184332b4fbfbceb328d516814e9111c31993e185e709c7827246ac82a19,
     se_selected_capability_sha256 = from_hex 0x049c2bd29030d4aa2ef6a4716ec4556f6c54ffe9e0cea5ce66796ab4f64f34c5,
     se_selected_entry_sha256 = from_hex 0xc146a8879a1004bad5ac4f9e8854b0f3afd1117c7d3c38771578845d3975041c,
     se_selected_discovery_epoch = 20, se_selected_device_class = DEVICE_ACCELERATOR,
     se_fallback_used = 0, se_required_feature_bits = FEATURE_ALLOCATION,
     se_largest_single_allocation_bytes = 4096, se_total_device_bytes = 8192, se_queue_slots = 1,
     se_selected_max_single_allocation_bytes = 4096, se_selected_max_total_device_bytes = 8192,
     se_selected_max_queue_slots = 1\<rparr>"

text \<open>The draft that \<open>seal_authority\<close> seals; its version and root are the defaults of the class.\<close>

definition fixture_authority_draft :: authority where
  "fixture_authority_draft =
    \<lparr>au_abi_version = AUTHORITY_ABI, au_authority_epoch = 77, au_maximum_leases = 1,
     au_maximum_live_objects = 3, au_allocation_granularity_bytes = 1024,
     au_max_single_allocation_bytes = 4096, au_max_total_device_bytes = 8192, au_max_queue_slots = 1,
     au_selected_discovery_epoch = se_selected_discovery_epoch fixture_selection,
     au_selected_capability_sha256 = se_selected_capability_sha256 fixture_selection,
     au_selected_entry_sha256 = se_selected_entry_sha256 fixture_selection,
     au_backend_authority_sha256 = digest_v1 (ascii ''fake allocation authority''),
     au_authority_sha256 = ZERO_DIGEST\<rparr>"

definition fixture_raw :: "(bytes \<times> int) list" where
  "fixture_raw =
    [(digest_v1 (ascii ''activation allocation''), 1000), (digest_v1 (ascii ''kv allocation''), 3000),
     (digest_v1 (ascii ''weight allocation''), 4000)]"

text \<open>\<open>sorted\<close> by the binding, which keeps the order of equal keys.\<close>

fun insert_entry :: "manifest_entry \<Rightarrow> manifest_entry list \<Rightarrow> manifest_entry list" where
  "insert_entry e [] = [e]"
| "insert_entry e (x # xs) =
     (if bytes_less (en_binding_sha256 x) (en_binding_sha256 e) then x # insert_entry e xs
      else e # x # xs)"

definition sort_entries :: "manifest_entry list \<Rightarrow> manifest_entry list" where
  "sort_entries es = foldr insert_entry es []"

definition make_fixture :: "device_error + fixture" where
  "make_fixture =
     bindE (seal_authority fixture_authority_draft) (\<lambda>a.
     bindE (mapE (\<lambda>(binding, requested).
         bindE (make_fake_quote a binding requested) (\<lambda>q. Inr
           \<lparr>en_binding_sha256 = binding, en_requested_bytes = requested,
            en_charged_bytes = qu_charged_bytes q, en_quote_sha256 = qu_quote_sha256 q\<rparr>))
         fixture_raw) (\<lambda>built.
       let entries = sort_entries built in
     bindE (seal_manifest entries) (\<lambda>m.
     bindE (seal_resource_receipt 41 0 1 9001 (zero_claim\<lparr>cv_capsule_bytes := 64, cv_queue_slots := 1\<rparr>))
       (\<lambda>parent.
     bindE (make_request 61 (digest_v1 (ascii ''allocation request owner'')) a fixture_selection parent m
         entries) (\<lambda>r.
       Inr \<lparr>fx_selection = fixture_selection, fx_authority = a, fx_entries = entries, fx_manifest = m,
            fx_parent = parent, fx_request = r\<rparr>)))))"

section \<open>The campaign\<close>

text \<open>A method call, and what follows it when it returns; the test stops at anything else.\<close>

definition call_then :: "('e + 'a) \<times> 's \<Rightarrow> ('a \<Rightarrow> 's \<Rightarrow> 'b option) \<Rightarrow> 'b option" where
  "call_then = (\<lambda>(result, s) f. case result of Inl _ \<Rightarrow> None | Inr x \<Rightarrow> f x s)"

definition returned :: "'e + 'a \<Rightarrow> 'a option" where
  "returned r = (case r of Inl _ \<Rightarrow> None | Inr x \<Rightarrow> Some x)"

lemma call_then_simps [simp]:
  "call_then (Inr x, s) f = f x s" "returned (Inr x) = Some x"
  by (simp_all add: call_then_def returned_def)

text \<open>The roots that the test compares, in its order.\<close>

definition campaign_roots ::
  "fixture \<Rightarrow> child \<Rightarrow> admission_v1 \<Rightarrow> terminal_receipt \<Rightarrow> child \<Rightarrow> admission_v1 \<Rightarrow> backend_object list
    \<Rightarrow> lease \<Rightarrow> recovery_ticket \<Rightarrow> terminal_receipt \<Rightarrow> bytes list option" where
  "campaign_roots f child_1 admission_1 terminal_1 child_2 admission_2 objects lease_2 recovery_1 terminal_2 =
     returned (bindE (resource_receipt_root (fx_parent f)) (\<lambda>parent_root.
     bindE (resource_child_root child_1) (\<lambda>child_root_1.
     bindE (resource_child_root child_2) (\<lambda>child_root_2.
       Inr ([se_receipt_sha256 (fx_selection f), au_authority_sha256 (fx_authority f)]
         @ map en_quote_sha256 (fx_entries f)
         @ [mf_manifest_sha256 (fx_manifest f), parent_root, rq_request_sha256 (fx_request f),
            child_root_1, ad_admission_sha256 admission_1, te_terminal_sha256 terminal_1,
            child_root_2, ad_admission_sha256 admission_2]
         @ map bo_allocation_call_sha256 objects @ map bo_object_sha256 objects
         @ [ls_backend_object_set_sha256 lease_2, ls_lease_sha256 lease_2,
            rt_outstanding_set_sha256 recovery_1, rt_recovery_sha256 recovery_1,
            te_terminal_sha256 terminal_2])))))"

text \<open>\<open>setUp\<close> makes the fixture and \<open>_campaign\<close> runs on it.\<close>

definition campaign :: "fixture \<Rightarrow> bytes list option" where
  "campaign f =
     Option.bind (returned (backend_init (fx_authority f))) (\<lambda>b.
     Option.bind (returned (coordinator_init 51 (fx_authority f) (fx_request f) (fx_selection f)
       (fx_parent f) (fx_manifest f) (fx_entries f) b)) (\<lambda>k.
     call_then (admit k) (\<lambda>admission_1 k.
       let child_1 = li_child (the (co_live k)) in
     call_then (cancel admission_1 k) (\<lambda>terminal_1 k.
     call_then (admit k) (\<lambda>admission_2 k.
       let child_2 = li_child (the (co_live k)) in
     call_then (materialize admission_2 k) (\<lambda>lease_2 k.
       let objects = current_objects k in
     call_then (fail_next_free_for (en_binding_sha256 (fx_entries f ! 1)) (co_backend k)) (\<lambda>_ b.
     call_then (release lease_2 (k\<lparr>co_backend := b\<rparr>)) (\<lambda>released k.
       case released of
         Inl _ \<Rightarrow> None
       | Inr recovery_1 \<Rightarrow>
     call_then (retry_recovery recovery_1 k) (\<lambda>recovered k.
       case recovered of
         Inr _ \<Rightarrow> None
       | Inl terminal_2 \<Rightarrow>
           campaign_roots f child_1 admission_1 terminal_1 child_2 admission_2 objects lease_2
             recovery_1 terminal_2)))))))))"

section \<open>The digests\<close>

definition golden_sel_receipt :: bytes where
  "golden_sel_receipt =
    [86, 26, 91, 5, 208, 45, 147, 55, 115, 20, 125, 38, 179, 104, 107, 132, 89, 0, 237, 136,
     150, 164, 37, 79, 39, 243, 163, 191, 222, 177, 144, 52]"

definition golden_sel_requirement :: bytes where
  "golden_sel_requirement =
    [137, 21, 177, 132, 51, 43, 79, 191, 188, 235, 50, 141, 81, 104, 20, 233, 17, 28, 49, 153,
     62, 24, 94, 112, 156, 120, 39, 36, 106, 200, 42, 25]"

definition golden_sel_capability :: bytes where
  "golden_sel_capability =
    [4, 156, 43, 210, 144, 48, 212, 170, 46, 246, 164, 113, 110, 196, 85, 111, 108, 84, 255,
     233, 224, 206, 165, 206, 102, 121, 106, 180, 246, 79, 52, 197]"

definition golden_sel_entry :: bytes where
  "golden_sel_entry =
    [193, 70, 168, 135, 154, 16, 4, 186, 213, 172, 79, 158, 136, 84, 176, 243, 175, 209, 17,
     124, 125, 60, 56, 119, 21, 120, 132, 93, 57, 117, 4, 28]"

definition golden_backend_authority :: bytes where
  "golden_backend_authority =
    [224, 208, 108, 22, 130, 58, 212, 2, 194, 50, 107, 88, 243, 253, 223, 200, 141, 144, 136,
     98, 208, 119, 218, 165, 199, 230, 121, 138, 53, 35, 203, 26]"

definition golden_owner :: bytes where
  "golden_owner =
    [10, 207, 236, 242, 239, 192, 193, 205, 210, 74, 197, 111, 139, 60, 109, 156, 200, 107, 78,
     235, 169, 90, 49, 172, 193, 27, 195, 45, 241, 97, 174, 249]"

definition golden_authority :: bytes where
  "golden_authority =
    [156, 181, 157, 153, 47, 213, 224, 173, 162, 52, 247, 15, 129, 19, 193, 151, 140, 165, 118,
     152, 129, 68, 166, 44, 28, 207, 85, 76, 22, 34, 130, 12]"

definition golden_bind0 :: bytes where
  "golden_bind0 =
    [6, 86, 214, 145, 250, 206, 122, 185, 92, 190, 160, 92, 165, 54, 248, 153, 133, 129, 240,
     41, 25, 229, 38, 165, 119, 61, 158, 227, 28, 12, 115, 66]"

definition golden_quote0 :: bytes where
  "golden_quote0 =
    [242, 184, 97, 179, 24, 193, 31, 0, 127, 233, 75, 135, 150, 161, 62, 185, 75, 180, 156, 0,
     31, 103, 13, 253, 240, 198, 234, 225, 75, 69, 50, 79]"

definition golden_bind1 :: bytes where
  "golden_bind1 =
    [47, 173, 194, 206, 141, 237, 149, 52, 185, 226, 102, 111, 20, 178, 182, 135, 27, 29, 48,
     178, 100, 32, 215, 181, 109, 88, 126, 175, 126, 58, 47, 106]"

definition golden_quote1 :: bytes where
  "golden_quote1 =
    [156, 79, 153, 206, 125, 96, 239, 61, 83, 180, 15, 48, 200, 171, 202, 7, 145, 226, 252, 74,
     11, 226, 242, 5, 59, 220, 103, 130, 83, 114, 112, 79]"

definition golden_bind2 :: bytes where
  "golden_bind2 =
    [103, 66, 7, 104, 226, 136, 144, 185, 155, 26, 156, 239, 104, 216, 156, 1, 206, 248, 233,
     34, 107, 9, 24, 212, 79, 70, 13, 42, 164, 239, 184, 142]"

definition golden_quote2 :: bytes where
  "golden_quote2 =
    [48, 133, 95, 116, 205, 98, 17, 103, 42, 144, 57, 78, 16, 128, 174, 102, 87, 199, 1, 157,
     244, 36, 138, 168, 115, 197, 169, 19, 158, 168, 42, 174]"

definition golden_manifest :: bytes where
  "golden_manifest =
    [58, 157, 233, 197, 126, 74, 211, 156, 130, 14, 67, 153, 101, 50, 43, 200, 240, 17, 13, 151,
     139, 203, 1, 201, 228, 252, 28, 21, 9, 33, 93, 142]"

definition golden_parent :: bytes where
  "golden_parent =
    [43, 179, 200, 76, 204, 186, 182, 253, 101, 232, 3, 226, 221, 100, 91, 59, 130, 94, 143, 67,
     53, 98, 237, 135, 103, 194, 157, 215, 248, 221, 115, 176]"

definition golden_request :: bytes where
  "golden_request =
    [173, 231, 253, 147, 43, 45, 42, 63, 130, 123, 13, 51, 104, 115, 95, 56, 246, 92, 32, 125,
     204, 224, 53, 214, 55, 102, 154, 74, 61, 114, 242, 41]"

definition golden_key1 :: bytes where
  "golden_key1 =
    [89, 184, 127, 158, 88, 44, 42, 78, 167, 98, 5, 120, 99, 118, 239, 8, 109, 127, 194, 33, 40,
     100, 185, 83, 246, 134, 177, 231, 226, 241, 74, 101]"

definition golden_child1 :: bytes where
  "golden_child1 =
    [97, 178, 74, 52, 246, 205, 136, 108, 18, 233, 253, 218, 123, 194, 185, 134, 254, 70, 123,
     52, 147, 213, 139, 219, 45, 74, 121, 209, 35, 132, 54, 145]"

definition golden_admission1 :: bytes where
  "golden_admission1 =
    [155, 28, 198, 146, 2, 70, 102, 162, 35, 86, 52, 191, 83, 96, 231, 46, 92, 0, 212, 119, 3,
     243, 108, 40, 70, 2, 54, 147, 17, 219, 254, 169]"

definition golden_key2 :: bytes where
  "golden_key2 =
    [94, 123, 133, 151, 252, 221, 75, 92, 84, 144, 248, 247, 91, 222, 122, 15, 95, 107, 122,
     222, 90, 196, 187, 231, 64, 138, 141, 45, 67, 111, 208, 199]"

definition golden_child2 :: bytes where
  "golden_child2 =
    [147, 127, 231, 169, 144, 199, 18, 153, 123, 164, 103, 122, 208, 134, 213, 170, 114, 45, 10,
     15, 238, 158, 193, 131, 160, 129, 9, 17, 231, 83, 144, 87]"

definition golden_admission2 :: bytes where
  "golden_admission2 =
    [78, 21, 186, 9, 180, 112, 193, 254, 253, 246, 141, 50, 84, 79, 197, 108, 0, 199, 113, 167,
     164, 12, 157, 251, 9, 95, 151, 215, 170, 101, 145, 153]"

definition golden_cancelled :: bytes where
  "golden_cancelled =
    [156, 241, 201, 122, 87, 157, 104, 120, 70, 212, 143, 99, 32, 123, 113, 179, 30, 205, 2, 13,
     143, 67, 226, 216, 29, 81, 138, 222, 169, 215, 233, 18]"

definition golden_call0 :: bytes where
  "golden_call0 =
    [29, 4, 101, 110, 112, 244, 152, 161, 194, 227, 4, 113, 96, 113, 104, 126, 151, 239, 3, 108,
     98, 81, 150, 38, 155, 140, 162, 178, 178, 30, 209, 147]"

definition golden_identity0 :: bytes where
  "golden_identity0 =
    [125, 33, 174, 135, 178, 183, 142, 205, 114, 225, 11, 252, 62, 142, 30, 249, 135, 235, 157,
     105, 38, 74, 128, 195, 118, 123, 201, 60, 66, 199, 155, 207]"

definition golden_object0 :: bytes where
  "golden_object0 =
    [232, 255, 187, 77, 84, 73, 58, 4, 17, 242, 109, 125, 82, 48, 99, 170, 255, 224, 52, 43,
     182, 191, 218, 27, 233, 67, 160, 143, 177, 41, 140, 185]"

definition golden_call1 :: bytes where
  "golden_call1 =
    [170, 118, 11, 117, 27, 49, 108, 42, 233, 12, 241, 113, 191, 252, 40, 26, 128, 168, 246, 68,
     34, 123, 229, 102, 72, 179, 183, 26, 200, 151, 177, 114]"

definition golden_identity1 :: bytes where
  "golden_identity1 =
    [129, 192, 232, 168, 185, 224, 25, 145, 148, 201, 234, 19, 52, 138, 172, 184, 142, 7, 42, 7,
     22, 162, 76, 90, 36, 30, 61, 243, 31, 120, 109, 244]"

definition golden_object1 :: bytes where
  "golden_object1 =
    [112, 90, 78, 24, 62, 14, 99, 16, 101, 184, 69, 95, 143, 116, 236, 37, 159, 60, 49, 155,
     103, 63, 207, 46, 250, 190, 233, 90, 15, 210, 140, 12]"

definition golden_call2 :: bytes where
  "golden_call2 =
    [86, 247, 45, 230, 39, 241, 139, 121, 81, 70, 223, 42, 240, 179, 202, 66, 89, 1, 48, 13, 63,
     187, 31, 4, 220, 114, 207, 189, 64, 234, 21, 46]"

definition golden_identity2 :: bytes where
  "golden_identity2 =
    [96, 160, 84, 13, 11, 122, 123, 131, 16, 83, 50, 88, 234, 111, 80, 175, 157, 111, 204, 146,
     155, 135, 83, 36, 159, 143, 16, 224, 81, 198, 131, 79]"

definition golden_object2 :: bytes where
  "golden_object2 =
    [171, 196, 116, 168, 73, 91, 103, 180, 76, 226, 237, 213, 77, 211, 99, 38, 21, 52, 179, 225,
     243, 60, 73, 38, 149, 55, 224, 98, 172, 227, 192, 123]"

definition golden_object_set :: bytes where
  "golden_object_set =
    [41, 179, 140, 171, 60, 199, 215, 170, 6, 149, 156, 227, 233, 241, 150, 18, 116, 43, 242,
     45, 61, 41, 43, 34, 82, 123, 34, 15, 141, 107, 64, 182]"

definition golden_lease :: bytes where
  "golden_lease =
    [228, 42, 81, 18, 34, 170, 63, 145, 184, 83, 168, 16, 181, 197, 242, 27, 180, 156, 168, 211,
     220, 176, 191, 122, 26, 66, 121, 43, 31, 210, 198, 182]"

definition golden_outstanding :: bytes where
  "golden_outstanding =
    [199, 186, 60, 213, 93, 178, 92, 64, 102, 82, 13, 31, 153, 83, 111, 76, 57, 187, 200, 228,
     213, 224, 67, 8, 228, 149, 226, 137, 157, 40, 150, 1]"

definition golden_recovery :: bytes where
  "golden_recovery =
    [235, 77, 237, 131, 198, 171, 35, 39, 240, 131, 197, 75, 187, 7, 148, 51, 116, 255, 226, 69,
     228, 199, 124, 207, 136, 35, 59, 107, 82, 124, 91, 219]"

definition golden_released :: bytes where
  "golden_released =
    [250, 95, 178, 142, 252, 73, 12, 75, 229, 242, 6, 14, 88, 226, 27, 107, 119, 240, 181, 116,
     195, 62, 96, 22, 238, 4, 107, 72, 225, 145, 153, 208]"

lemmas golden_roots = golden_sel_receipt_def golden_sel_requirement_def golden_sel_capability_def golden_sel_entry_def golden_backend_authority_def golden_owner_def golden_authority_def golden_bind0_def golden_quote0_def golden_bind1_def golden_quote1_def golden_bind2_def golden_quote2_def golden_manifest_def golden_parent_def golden_request_def golden_key1_def golden_child1_def golden_admission1_def golden_key2_def golden_child2_def golden_admission2_def golden_cancelled_def golden_call0_def golden_identity0_def golden_object0_def golden_call1_def golden_identity1_def golden_object1_def golden_call2_def golden_identity2_def golden_object2_def golden_object_set_def golden_lease_def golden_outstanding_def golden_recovery_def golden_released_def

lemma golden_length [simp]:
  "length golden_sel_receipt = 32"
  "length golden_sel_requirement = 32"
  "length golden_sel_capability = 32"
  "length golden_sel_entry = 32"
  "length golden_backend_authority = 32"
  "length golden_owner = 32"
  "length golden_authority = 32"
  "length golden_bind0 = 32"
  "length golden_quote0 = 32"
  "length golden_bind1 = 32"
  "length golden_quote1 = 32"
  "length golden_bind2 = 32"
  "length golden_quote2 = 32"
  "length golden_manifest = 32"
  "length golden_parent = 32"
  "length golden_request = 32"
  "length golden_key1 = 32"
  "length golden_child1 = 32"
  "length golden_admission1 = 32"
  "length golden_key2 = 32"
  "length golden_child2 = 32"
  "length golden_admission2 = 32"
  "length golden_cancelled = 32"
  "length golden_call0 = 32"
  "length golden_identity0 = 32"
  "length golden_object0 = 32"
  "length golden_call1 = 32"
  "length golden_identity1 = 32"
  "length golden_object1 = 32"
  "length golden_call2 = 32"
  "length golden_identity2 = 32"
  "length golden_object2 = 32"
  "length golden_object_set = 32"
  "length golden_lease = 32"
  "length golden_outstanding = 32"
  "length golden_recovery = 32"
  "length golden_released = 32"
  by (simp_all add: golden_roots)

lemma zeros32_list: "ZERO_DIGEST = [0, 0, 0, 0, 0, 0, 0, 0, 0, 0, 0, 0, 0, 0, 0, 0,
    0, 0, 0, 0, 0, 0, 0, 0, 0, 0, 0, 0, 0, 0, 0, 0]"
  by (simp add: zeros_def numeral_eq_Suc)

lemma golden_nonzero [simp]:
  "golden_sel_receipt \<noteq> ZERO_DIGEST"
  "golden_sel_requirement \<noteq> ZERO_DIGEST"
  "golden_sel_capability \<noteq> ZERO_DIGEST"
  "golden_sel_entry \<noteq> ZERO_DIGEST"
  "golden_backend_authority \<noteq> ZERO_DIGEST"
  "golden_owner \<noteq> ZERO_DIGEST"
  "golden_authority \<noteq> ZERO_DIGEST"
  "golden_bind0 \<noteq> ZERO_DIGEST"
  "golden_quote0 \<noteq> ZERO_DIGEST"
  "golden_bind1 \<noteq> ZERO_DIGEST"
  "golden_quote1 \<noteq> ZERO_DIGEST"
  "golden_bind2 \<noteq> ZERO_DIGEST"
  "golden_quote2 \<noteq> ZERO_DIGEST"
  "golden_manifest \<noteq> ZERO_DIGEST"
  "golden_parent \<noteq> ZERO_DIGEST"
  "golden_request \<noteq> ZERO_DIGEST"
  "golden_key1 \<noteq> ZERO_DIGEST"
  "golden_child1 \<noteq> ZERO_DIGEST"
  "golden_admission1 \<noteq> ZERO_DIGEST"
  "golden_key2 \<noteq> ZERO_DIGEST"
  "golden_child2 \<noteq> ZERO_DIGEST"
  "golden_admission2 \<noteq> ZERO_DIGEST"
  "golden_cancelled \<noteq> ZERO_DIGEST"
  "golden_call0 \<noteq> ZERO_DIGEST"
  "golden_identity0 \<noteq> ZERO_DIGEST"
  "golden_object0 \<noteq> ZERO_DIGEST"
  "golden_call1 \<noteq> ZERO_DIGEST"
  "golden_identity1 \<noteq> ZERO_DIGEST"
  "golden_object1 \<noteq> ZERO_DIGEST"
  "golden_call2 \<noteq> ZERO_DIGEST"
  "golden_identity2 \<noteq> ZERO_DIGEST"
  "golden_object2 \<noteq> ZERO_DIGEST"
  "golden_object_set \<noteq> ZERO_DIGEST"
  "golden_lease \<noteq> ZERO_DIGEST"
  "golden_outstanding \<noteq> ZERO_DIGEST"
  "golden_recovery \<noteq> ZERO_DIGEST"
  "golden_released \<noteq> ZERO_DIGEST"
  by (simp_all add: golden_roots zeros32_list)

lemma golden_distinct [simp]:
  "golden_bind0 \<noteq> golden_bind1"
  "golden_bind0 \<noteq> golden_bind2"
  "golden_bind1 \<noteq> golden_bind0"
  "golden_bind1 \<noteq> golden_bind2"
  "golden_bind2 \<noteq> golden_bind0"
  "golden_bind2 \<noteq> golden_bind1"
  "golden_identity0 \<noteq> golden_identity1"
  "golden_identity0 \<noteq> golden_identity2"
  "golden_identity1 \<noteq> golden_identity0"
  "golden_identity1 \<noteq> golden_identity2"
  "golden_identity2 \<noteq> golden_identity0"
  "golden_identity2 \<noteq> golden_identity1"
  by (simp_all add: golden_roots)

section \<open>Transcripts\<close>

declare digestD_ok [simp]

lemmas chunk_simps = le_ok is_u64_def

lemmas hash_simps = sha_parts_def ascii_def sha_compute pack_u64s_def u64_bytes_def le_bytes_numeral
  zeros32_list golden_roots


lemma digest_backend_authority [simp]: "digest_v1 (ascii ''fake allocation authority'') = golden_backend_authority"
  by (simp add: digest_v1_def hash_simps)

lemma digest_owner [simp]: "digest_v1 (ascii ''allocation request owner'') = golden_owner"
  by (simp add: digest_v1_def hash_simps)

lemma digest_bind2 [simp]: "digest_v1 (ascii ''activation allocation'') = golden_bind2"
  by (simp add: digest_v1_def hash_simps)

lemma digest_bind0 [simp]: "digest_v1 (ascii ''kv allocation'') = golden_bind0"
  by (simp add: digest_v1_def hash_simps)

lemma digest_bind1 [simp]: "digest_v1 (ascii ''weight allocation'') = golden_bind1"
  by (simp add: digest_v1_def hash_simps)

lemma hash_authority [simp]:
  "hash_chunks AUTHORITY_DOMAIN
      [le [5135301222537887745, 77, 1, 3, 1024, 4096, 8192, 1, 20], Inr golden_sel_capability,
       Inr golden_sel_entry, Inr golden_backend_authority] = Inr golden_authority"
  by (simp add: hash_chunks_def chunk_simps) (simp add: AUTHORITY_DOMAIN_def hash_simps)

lemma hash_quote0 [simp]:
  "hash_chunks QUOTE_DOMAIN
      [le [5135301308437233665], Inr golden_authority, Inr golden_bind0, le [3000, 3072]] = Inr
       golden_quote0"
  by (simp add: hash_chunks_def chunk_simps) (simp add: QUOTE_DOMAIN_def hash_simps)

lemma hash_quote1 [simp]:
  "hash_chunks QUOTE_DOMAIN
      [le [5135301308437233665], Inr golden_authority, Inr golden_bind1, le [4000, 4096]] = Inr
       golden_quote1"
  by (simp add: hash_chunks_def chunk_simps) (simp add: QUOTE_DOMAIN_def hash_simps)

lemma hash_quote2 [simp]:
  "hash_chunks QUOTE_DOMAIN
      [le [5135301308437233665], Inr golden_authority, Inr golden_bind2, le [1000, 1024]] = Inr
       golden_quote2"
  by (simp add: hash_chunks_def chunk_simps) (simp add: QUOTE_DOMAIN_def hash_simps)

lemma hash_manifest [simp]:
  "hash_chunks MANIFEST_DOMAIN
      [le [5135301274077495297, 3, 4000, 8000, 4096, 8192], Inr golden_bind0, le [3000, 3072],
       Inr golden_quote0, Inr golden_bind1, le [4000, 4096], Inr golden_quote1, Inr
       golden_bind2, le [1000, 1024], Inr golden_quote2] = Inr golden_manifest"
  by (simp add: hash_chunks_def chunk_simps) (simp add: MANIFEST_DOMAIN_def hash_simps)

lemma hash_parent [simp]:
  "hash_chunks RESOURCE_RECEIPT_DOMAIN
      [le [41, 0, 1, 9001], le [64, 0, 0, 0, 0, 0, 0, 0, 0, 1], le [14110425505377406172]] = Inr
       golden_parent"
  by (simp add: hash_chunks_def chunk_simps) (simp add: RESOURCE_RECEIPT_DOMAIN_def hash_simps)

lemma hash_request [simp]:
  "hash_chunks REQUEST_DOMAIN
      [le [5135301291257364481, 61], Inr golden_owner, Inr golden_authority, Inr
       golden_sel_receipt, Inr golden_sel_requirement, Inr golden_sel_capability, Inr
       golden_sel_entry, Inr golden_manifest, Inr golden_parent, le [3, 4096, 8192, 1]] = Inr
       golden_request"
  by (simp add: hash_chunks_def chunk_simps) (simp add: REQUEST_DOMAIN_def hash_simps)

lemma hash_key1 [simp]:
  "hash_chunks CHILD_KEY_DOMAIN
      [le [51, 0, 1], Inr golden_request] = Inr golden_key1"
  by (simp add: hash_chunks_def chunk_simps) (simp add: CHILD_KEY_DOMAIN_def hash_simps)

lemma hash_child1 [simp]:
  "hash_chunks RESOURCE_CHILD_DOMAIN
      [le [5139244118479732737], Inr golden_parent, le [5632363043108141145, 1], le [0, 0, 0, 0,
       0, 0, 0, 8192, 0, 0], le [0, 0, 0, 0, 0, 0, 0, 8192, 0, 0], le [8446355554354773203]] =
       Inr golden_child1"
  by (simp add: hash_chunks_def chunk_simps) (simp add: RESOURCE_CHILD_DOMAIN_def hash_simps)

lemma hash_admission1 [simp]:
  "hash_chunks ADMISSION_DOMAIN
      [le [5135301235422789633, 51, 0, 1], Inr golden_authority, Inr golden_request, Inr
       golden_sel_receipt, Inr golden_sel_capability, Inr golden_manifest, Inr golden_parent,
       Inr golden_child1, le [3, 8192]] = Inr golden_admission1"
  by (simp add: hash_chunks_def chunk_simps) (simp add: ADMISSION_DOMAIN_def hash_simps)

lemma hash_key2 [simp]:
  "hash_chunks CHILD_KEY_DOMAIN
      [le [51, 0, 2], Inr golden_request] = Inr golden_key2"
  by (simp add: hash_chunks_def chunk_simps) (simp add: CHILD_KEY_DOMAIN_def hash_simps)

lemma hash_child2 [simp]:
  "hash_chunks RESOURCE_CHILD_DOMAIN
      [le [5139244118479732737], Inr golden_parent, le [6650653351686273886, 2], le [0, 0, 0, 0,
       0, 0, 0, 8192, 0, 0], le [0, 0, 0, 0, 0, 0, 0, 8192, 0, 0], le [4167153523113286087]] =
       Inr golden_child2"
  by (simp add: hash_chunks_def chunk_simps) (simp add: RESOURCE_CHILD_DOMAIN_def hash_simps)

lemma hash_admission2 [simp]:
  "hash_chunks ADMISSION_DOMAIN
      [le [5135301235422789633, 51, 0, 2], Inr golden_authority, Inr golden_request, Inr
       golden_sel_receipt, Inr golden_sel_capability, Inr golden_manifest, Inr golden_parent,
       Inr golden_child2, le [3, 8192]] = Inr golden_admission2"
  by (simp add: hash_chunks_def chunk_simps) (simp add: ADMISSION_DOMAIN_def hash_simps)

lemma hash_cancelled [simp]:
  "hash_chunks TERMINAL_DOMAIN
      [le [5135301304142266369, 1, 1, 51, 0, 1], Inr golden_authority, Inr golden_request, Inr
       golden_admission1, Inr ZERO_DIGEST, Inr ZERO_DIGEST, Inr golden_parent, Inr
       golden_child1, le [8192]] = Inr golden_cancelled"
  by (simp add: hash_chunks_def chunk_simps) (simp add: TERMINAL_DOMAIN_def hash_simps)

lemma hash_call0 [simp]:
  "hash_chunks ALLOCATION_CALL_DOMAIN
      [le [5135301231127822337], Inr golden_authority, Inr golden_admission2, le [0], Inr
       golden_bind0, le [3000, 3072], Inr golden_quote0] = Inr golden_call0"
  by (simp add: hash_chunks_def chunk_simps) (simp add: ALLOCATION_CALL_DOMAIN_def hash_simps)

lemma hash_identity0 [simp]:
  "hash_chunks FAKE_OBJECT_IDENTITY_DOMAIN
      [Inr golden_authority, le [0, 1], Inr golden_call0] = Inr golden_identity0"
  by (simp add: hash_chunks_def chunk_simps) (simp add: FAKE_OBJECT_IDENTITY_DOMAIN_def hash_simps)

lemma hash_object0 [simp]:
  "hash_chunks BACKEND_OBJECT_DOMAIN
      [le [5135301282667429889], Inr golden_call0, Inr golden_bind0, Inr golden_identity0, le
       [1, 3072]] = Inr golden_object0"
  by (simp add: hash_chunks_def chunk_simps) (simp add: BACKEND_OBJECT_DOMAIN_def hash_simps)

lemma hash_call1 [simp]:
  "hash_chunks ALLOCATION_CALL_DOMAIN
      [le [5135301231127822337], Inr golden_authority, Inr golden_admission2, le [1], Inr
       golden_bind1, le [4000, 4096], Inr golden_quote1] = Inr golden_call1"
  by (simp add: hash_chunks_def chunk_simps) (simp add: ALLOCATION_CALL_DOMAIN_def hash_simps)

lemma hash_identity1 [simp]:
  "hash_chunks FAKE_OBJECT_IDENTITY_DOMAIN
      [Inr golden_authority, le [1, 2], Inr golden_call1] = Inr golden_identity1"
  by (simp add: hash_chunks_def chunk_simps) (simp add: FAKE_OBJECT_IDENTITY_DOMAIN_def hash_simps)

lemma hash_object1 [simp]:
  "hash_chunks BACKEND_OBJECT_DOMAIN
      [le [5135301282667429889], Inr golden_call1, Inr golden_bind1, Inr golden_identity1, le
       [2, 4096]] = Inr golden_object1"
  by (simp add: hash_chunks_def chunk_simps) (simp add: BACKEND_OBJECT_DOMAIN_def hash_simps)

lemma hash_call2 [simp]:
  "hash_chunks ALLOCATION_CALL_DOMAIN
      [le [5135301231127822337], Inr golden_authority, Inr golden_admission2, le [2], Inr
       golden_bind2, le [1000, 1024], Inr golden_quote2] = Inr golden_call2"
  by (simp add: hash_chunks_def chunk_simps) (simp add: ALLOCATION_CALL_DOMAIN_def hash_simps)

lemma hash_identity2 [simp]:
  "hash_chunks FAKE_OBJECT_IDENTITY_DOMAIN
      [Inr golden_authority, le [2, 3], Inr golden_call2] = Inr golden_identity2"
  by (simp add: hash_chunks_def chunk_simps) (simp add: FAKE_OBJECT_IDENTITY_DOMAIN_def hash_simps)

lemma hash_object2 [simp]:
  "hash_chunks BACKEND_OBJECT_DOMAIN
      [le [5135301282667429889], Inr golden_call2, Inr golden_bind2, Inr golden_identity2, le
       [3, 1024]] = Inr golden_object2"
  by (simp add: hash_chunks_def chunk_simps) (simp add: BACKEND_OBJECT_DOMAIN_def hash_simps)

lemma hash_object_set [simp]:
  "hash_chunks OBJECT_SET_DOMAIN
      [le [5135301299847299073], Inr golden_admission2, le [3, 8192], Inr golden_object0, Inr
       golden_object1, Inr golden_object2] = Inr golden_object_set"
  by (simp add: hash_chunks_def chunk_simps) (simp add: OBJECT_SET_DOMAIN_def hash_simps)

lemma hash_lease [simp]:
  "hash_chunks LEASE_DOMAIN
      [le [5135301269782528001, 51, 0, 2], Inr golden_authority, Inr golden_request, Inr
       golden_admission2, Inr golden_sel_receipt, Inr golden_sel_capability, Inr
       golden_manifest, Inr golden_parent, Inr golden_child2, Inr golden_object_set, le [3,
       8192]] = Inr golden_lease"
  by (simp add: hash_chunks_def chunk_simps) (simp add: LEASE_DOMAIN_def hash_simps)

lemma hash_recovery [simp]:
  "hash_chunks RECOVERY_DOMAIN
      [le [5135301295552331777, 51, 0, 2, 1], Inr golden_authority, Inr golden_admission2, Inr
       golden_lease, Inr golden_object_set, le [3, 4, 1, 4096], Inr golden_outstanding] = Inr
       golden_recovery"
  by (simp add: hash_chunks_def chunk_simps) (simp add: RECOVERY_DOMAIN_def hash_simps)

lemma hash_released [simp]:
  "hash_chunks TERMINAL_DOMAIN
      [le [5135301304142266369, 3, 4, 51, 0, 2], Inr golden_authority, Inr golden_request, Inr
       golden_admission2, Inr golden_lease, Inr golden_object_set, Inr golden_parent, Inr
       golden_child2, le [8192]] = Inr golden_released"
  by (simp add: hash_chunks_def chunk_simps) (simp add: TERMINAL_DOMAIN_def hash_simps)

lemma hash_outstanding [simp]:
  "sha_parts OUTSTANDING_SET_DOMAIN [pack_u64s [51, 0, 2], pack_u64s [1], golden_object1] = golden_outstanding"
  by (simp add: OUTSTANDING_SET_DOMAIN_def hash_simps)

end
