(* ===== verification/Device_Campaign.thy ===== *)
theory Device_Campaign
  imports Device_Fixture Device_Lifecycle
begin

unbundle bit_operations_syntax

text \<open>
  The values of the campaign of \<open>Device_Fixture\<close> and the proof, operation by operation, that the
  model computes them. The states it goes through are reachable, and the properties of the backend
  and the coordinator are instantiated on them.
\<close>

section \<open>Integrity words on integers\<close>

definition mix_shift :: "nat \<Rightarrow> int \<Rightarrow> int" where "mix_shift k n = n XOR (n div 2 ^ k)"
definition mix_times :: "int \<Rightarrow> int \<Rightarrow> int" where "mix_times c n = n * c mod 2 ^ 64"
definition mix_int :: "int \<Rightarrow> int" where
  "mix_int n = mix_shift 31 (mix_times 0x94D049BB133111EB (mix_shift 27
     (mix_times 0xBF58476D1CE4E5B9 (mix_shift 30 n))))"

lemma uint_drop: "uint (drop_bit k (w :: 64 word)) = uint w div 2 ^ k"
proof -
  have "take_bit 64 (uint w) = uint w"
    by (rule take_bit_int_eq_self) (use uint_lt2p [of w] in simp_all)
  then show ?thesis by (simp add: unsigned_drop_bit_eq drop_bit_eq_div [of _ "uint w"])
qed

lemma uint_mix64: "uint (mix64 w) = mix_int (uint w)"
  by (simp add: mix64_def mix_int_def mix_shift_def mix_times_def Let_def unsigned_xor_eq uint_drop
      uint_word_ariths del: power_numeral)

lemma mix_values_int:
  "\<forall>v \<in> set vs. is_u64 v \<Longrightarrow>
     uint (mix_values w vs) = foldl (\<lambda>r v. mix_int (r XOR v)) (uint w) vs"
  by (induction vs arbitrary: w) (simp_all add: uint_mix64 unsigned_xor_eq uint_word_of_int is_u64_def)

lemmas mix_simps = mix_values_int uint_mix64 unsigned_xor_eq uint_word_of_int mix_int_def mix_shift_def
  mix_times_def is_u64_def

section \<open>The values\<close>

definition gold_selection :: selection where
  "gold_selection =
    \<lparr>se_receipt_sha256 = golden_sel_receipt, se_requirement_sha256 =
     golden_sel_requirement, se_selected_capability_sha256 = golden_sel_capability,
     se_selected_entry_sha256 = golden_sel_entry, se_selected_discovery_epoch = 20,
     se_selected_device_class = 2, se_fallback_used = 0, se_required_feature_bits = 1,
     se_largest_single_allocation_bytes = 4096, se_total_device_bytes = 8192, se_queue_slots
     = 1, se_selected_max_single_allocation_bytes = 4096, se_selected_max_total_device_bytes
     = 8192, se_selected_max_queue_slots = 1\<rparr>"

lemma gold_selection_sel [simp]:
  "se_receipt_sha256 gold_selection = golden_sel_receipt"
  "se_requirement_sha256 gold_selection = golden_sel_requirement"
  "se_selected_capability_sha256 gold_selection = golden_sel_capability"
  "se_selected_entry_sha256 gold_selection = golden_sel_entry"
  "se_selected_discovery_epoch gold_selection = 20"
  "se_selected_device_class gold_selection = 2"
  "se_fallback_used gold_selection = 0"
  "se_required_feature_bits gold_selection = 1"
  "se_largest_single_allocation_bytes gold_selection = 4096"
  "se_total_device_bytes gold_selection = 8192"
  "se_queue_slots gold_selection = 1"
  "se_selected_max_single_allocation_bytes gold_selection = 4096"
  "se_selected_max_total_device_bytes gold_selection = 8192"
  "se_selected_max_queue_slots gold_selection = 1"
  by (simp_all add: gold_selection_def)

definition gold_authority :: authority where
  "gold_authority =
    \<lparr>au_abi_version = AUTHORITY_ABI, au_authority_epoch = 77, au_maximum_leases = 1,
     au_maximum_live_objects = 3, au_allocation_granularity_bytes = 1024,
     au_max_single_allocation_bytes = 4096, au_max_total_device_bytes = 8192,
     au_max_queue_slots = 1, au_selected_discovery_epoch = 20, au_selected_capability_sha256
     = golden_sel_capability, au_selected_entry_sha256 = golden_sel_entry,
     au_backend_authority_sha256 = golden_backend_authority, au_authority_sha256 =
     golden_authority\<rparr>"

lemma gold_authority_sel [simp]:
  "au_abi_version gold_authority = AUTHORITY_ABI"
  "au_authority_epoch gold_authority = 77"
  "au_maximum_leases gold_authority = 1"
  "au_maximum_live_objects gold_authority = 3"
  "au_allocation_granularity_bytes gold_authority = 1024"
  "au_max_single_allocation_bytes gold_authority = 4096"
  "au_max_total_device_bytes gold_authority = 8192"
  "au_max_queue_slots gold_authority = 1"
  "au_selected_discovery_epoch gold_authority = 20"
  "au_selected_capability_sha256 gold_authority = golden_sel_capability"
  "au_selected_entry_sha256 gold_authority = golden_sel_entry"
  "au_backend_authority_sha256 gold_authority = golden_backend_authority"
  "au_authority_sha256 gold_authority = golden_authority"
  by (simp_all add: gold_authority_def)

definition gold_quote0 :: quote where
  "gold_quote0 =
    \<lparr>qu_abi_version = QUOTE_ABI, qu_authority_sha256 = golden_authority,
     qu_binding_sha256 = golden_bind0, qu_requested_bytes = 3000, qu_charged_bytes = 3072,
     qu_quote_sha256 = golden_quote0\<rparr>"

lemma gold_quote0_sel [simp]:
  "qu_abi_version gold_quote0 = QUOTE_ABI"
  "qu_authority_sha256 gold_quote0 = golden_authority"
  "qu_binding_sha256 gold_quote0 = golden_bind0"
  "qu_requested_bytes gold_quote0 = 3000"
  "qu_charged_bytes gold_quote0 = 3072"
  "qu_quote_sha256 gold_quote0 = golden_quote0"
  by (simp_all add: gold_quote0_def)

definition gold_entry0 :: manifest_entry where
  "gold_entry0 =
    \<lparr>en_binding_sha256 = golden_bind0, en_requested_bytes = 3000, en_charged_bytes =
     3072, en_quote_sha256 = golden_quote0\<rparr>"

lemma gold_entry0_sel [simp]:
  "en_binding_sha256 gold_entry0 = golden_bind0"
  "en_requested_bytes gold_entry0 = 3000"
  "en_charged_bytes gold_entry0 = 3072"
  "en_quote_sha256 gold_entry0 = golden_quote0"
  by (simp_all add: gold_entry0_def)

definition gold_quote1 :: quote where
  "gold_quote1 =
    \<lparr>qu_abi_version = QUOTE_ABI, qu_authority_sha256 = golden_authority,
     qu_binding_sha256 = golden_bind1, qu_requested_bytes = 4000, qu_charged_bytes = 4096,
     qu_quote_sha256 = golden_quote1\<rparr>"

lemma gold_quote1_sel [simp]:
  "qu_abi_version gold_quote1 = QUOTE_ABI"
  "qu_authority_sha256 gold_quote1 = golden_authority"
  "qu_binding_sha256 gold_quote1 = golden_bind1"
  "qu_requested_bytes gold_quote1 = 4000"
  "qu_charged_bytes gold_quote1 = 4096"
  "qu_quote_sha256 gold_quote1 = golden_quote1"
  by (simp_all add: gold_quote1_def)

definition gold_entry1 :: manifest_entry where
  "gold_entry1 =
    \<lparr>en_binding_sha256 = golden_bind1, en_requested_bytes = 4000, en_charged_bytes =
     4096, en_quote_sha256 = golden_quote1\<rparr>"

lemma gold_entry1_sel [simp]:
  "en_binding_sha256 gold_entry1 = golden_bind1"
  "en_requested_bytes gold_entry1 = 4000"
  "en_charged_bytes gold_entry1 = 4096"
  "en_quote_sha256 gold_entry1 = golden_quote1"
  by (simp_all add: gold_entry1_def)

definition gold_quote2 :: quote where
  "gold_quote2 =
    \<lparr>qu_abi_version = QUOTE_ABI, qu_authority_sha256 = golden_authority,
     qu_binding_sha256 = golden_bind2, qu_requested_bytes = 1000, qu_charged_bytes = 1024,
     qu_quote_sha256 = golden_quote2\<rparr>"

lemma gold_quote2_sel [simp]:
  "qu_abi_version gold_quote2 = QUOTE_ABI"
  "qu_authority_sha256 gold_quote2 = golden_authority"
  "qu_binding_sha256 gold_quote2 = golden_bind2"
  "qu_requested_bytes gold_quote2 = 1000"
  "qu_charged_bytes gold_quote2 = 1024"
  "qu_quote_sha256 gold_quote2 = golden_quote2"
  by (simp_all add: gold_quote2_def)

definition gold_entry2 :: manifest_entry where
  "gold_entry2 =
    \<lparr>en_binding_sha256 = golden_bind2, en_requested_bytes = 1000, en_charged_bytes =
     1024, en_quote_sha256 = golden_quote2\<rparr>"

lemma gold_entry2_sel [simp]:
  "en_binding_sha256 gold_entry2 = golden_bind2"
  "en_requested_bytes gold_entry2 = 1000"
  "en_charged_bytes gold_entry2 = 1024"
  "en_quote_sha256 gold_entry2 = golden_quote2"
  by (simp_all add: gold_entry2_def)

definition gold_manifest :: manifest where
  "gold_manifest =
    \<lparr>mf_abi_version = MANIFEST_ABI, mf_allocation_count = 3,
     mf_largest_requested_bytes = 4000, mf_total_requested_bytes = 8000,
     mf_largest_charged_bytes = 4096, mf_total_charged_bytes = 8192, mf_manifest_sha256 =
     golden_manifest\<rparr>"

lemma gold_manifest_sel [simp]:
  "mf_abi_version gold_manifest = MANIFEST_ABI"
  "mf_allocation_count gold_manifest = 3"
  "mf_largest_requested_bytes gold_manifest = 4000"
  "mf_total_requested_bytes gold_manifest = 8000"
  "mf_largest_charged_bytes gold_manifest = 4096"
  "mf_total_charged_bytes gold_manifest = 8192"
  "mf_manifest_sha256 gold_manifest = golden_manifest"
  by (simp_all add: gold_manifest_def)

definition gold_claim :: claim_v1 where
  "gold_claim =
    \<lparr>cv_capsule_bytes = 64, cv_kv_bytes = 0, cv_activation_bytes = 0,
     cv_partial_bytes = 0, cv_logits_bytes = 0, cv_output_journal_bytes = 0,
     cv_staging_bytes = 0, cv_device_bytes = 0, cv_io_bytes = 0, cv_queue_slots = 1\<rparr>"

lemma gold_claim_sel [simp]:
  "cv_capsule_bytes gold_claim = 64"
  "cv_kv_bytes gold_claim = 0"
  "cv_activation_bytes gold_claim = 0"
  "cv_partial_bytes gold_claim = 0"
  "cv_logits_bytes gold_claim = 0"
  "cv_output_journal_bytes gold_claim = 0"
  "cv_staging_bytes gold_claim = 0"
  "cv_device_bytes gold_claim = 0"
  "cv_io_bytes gold_claim = 0"
  "cv_queue_slots gold_claim = 1"
  by (simp_all add: gold_claim_def)

definition gold_device_claim :: claim_v1 where
  "gold_device_claim =
    \<lparr>cv_capsule_bytes = 0, cv_kv_bytes = 0, cv_activation_bytes = 0, cv_partial_bytes
     = 0, cv_logits_bytes = 0, cv_output_journal_bytes = 0, cv_staging_bytes = 0,
     cv_device_bytes = 8192, cv_io_bytes = 0, cv_queue_slots = 0\<rparr>"

lemma gold_device_claim_sel [simp]:
  "cv_capsule_bytes gold_device_claim = 0"
  "cv_kv_bytes gold_device_claim = 0"
  "cv_activation_bytes gold_device_claim = 0"
  "cv_partial_bytes gold_device_claim = 0"
  "cv_logits_bytes gold_device_claim = 0"
  "cv_output_journal_bytes gold_device_claim = 0"
  "cv_staging_bytes gold_device_claim = 0"
  "cv_device_bytes gold_device_claim = 8192"
  "cv_io_bytes gold_device_claim = 0"
  "cv_queue_slots gold_device_claim = 0"
  by (simp_all add: gold_device_claim_def)

definition gold_parent :: receipt where
  "gold_parent =
    \<lparr>rr_bank_epoch = 41, rr_slot_index = 0, rr_generation = 1, rr_owner_key = 9001,
     rr_claim = gold_claim, rr_integrity = 14110425505377406172\<rparr>"

lemma gold_parent_sel [simp]:
  "rr_bank_epoch gold_parent = 41"
  "rr_slot_index gold_parent = 0"
  "rr_generation gold_parent = 1"
  "rr_owner_key gold_parent = 9001"
  "rr_claim gold_parent = gold_claim"
  "rr_integrity gold_parent = 14110425505377406172"
  by (simp_all add: gold_parent_def)

definition gold_request :: request where
  "gold_request =
    \<lparr>rq_abi_version = REQUEST_ABI, rq_request_epoch = 61, rq_owner_sha256 =
     golden_owner, rq_authority_sha256 = golden_authority, rq_selection_receipt_sha256 =
     golden_sel_receipt, rq_requirement_sha256 = golden_sel_requirement,
     rq_selected_capability_sha256 = golden_sel_capability, rq_selected_entry_sha256 =
     golden_sel_entry, rq_allocation_manifest_sha256 = golden_manifest,
     rq_parent_receipt_sha256 = golden_parent, rq_allocation_count = 3,
     rq_largest_single_allocation_bytes = 4096, rq_total_device_bytes = 8192, rq_queue_slots
     = 1, rq_request_sha256 = golden_request\<rparr>"

lemma gold_request_sel [simp]:
  "rq_abi_version gold_request = REQUEST_ABI"
  "rq_request_epoch gold_request = 61"
  "rq_owner_sha256 gold_request = golden_owner"
  "rq_authority_sha256 gold_request = golden_authority"
  "rq_selection_receipt_sha256 gold_request = golden_sel_receipt"
  "rq_requirement_sha256 gold_request = golden_sel_requirement"
  "rq_selected_capability_sha256 gold_request = golden_sel_capability"
  "rq_selected_entry_sha256 gold_request = golden_sel_entry"
  "rq_allocation_manifest_sha256 gold_request = golden_manifest"
  "rq_parent_receipt_sha256 gold_request = golden_parent"
  "rq_allocation_count gold_request = 3"
  "rq_largest_single_allocation_bytes gold_request = 4096"
  "rq_total_device_bytes gold_request = 8192"
  "rq_queue_slots gold_request = 1"
  "rq_request_sha256 gold_request = golden_request"
  by (simp_all add: gold_request_def)

definition gold_child1 :: child where
  "gold_child1 =
    \<lparr>ch_abi_version = RESOURCE_CHILD_ABI, ch_parent = Some gold_parent, ch_child_key
     = 5632363043108141145, ch_generation = 1, ch_ceiling = gold_device_claim, ch_claim =
     gold_device_claim, ch_integrity = 8446355554354773203\<rparr>"

lemma gold_child1_sel [simp]:
  "ch_abi_version gold_child1 = RESOURCE_CHILD_ABI"
  "ch_parent gold_child1 = Some gold_parent"
  "ch_child_key gold_child1 = 5632363043108141145"
  "ch_generation gold_child1 = 1"
  "ch_ceiling gold_child1 = gold_device_claim"
  "ch_claim gold_child1 = gold_device_claim"
  "ch_integrity gold_child1 = 8446355554354773203"
  by (simp_all add: gold_child1_def)

definition gold_admission1 :: admission_v1 where
  "gold_admission1 =
    \<lparr>ad_abi_version = ADMISSION_ABI, ad_coordinator_epoch = 51, ad_slot_index = 0,
     ad_generation = 1, ad_authority_sha256 = golden_authority, ad_request_sha256 =
     golden_request, ad_selection_receipt_sha256 = golden_sel_receipt,
     ad_selected_capability_sha256 = golden_sel_capability, ad_allocation_manifest_sha256 =
     golden_manifest, ad_parent_receipt_sha256 = golden_parent, ad_child_lease_sha256 =
     golden_child1, ad_allocation_count = 3, ad_total_device_bytes = 8192,
     ad_admission_sha256 = golden_admission1\<rparr>"

lemma gold_admission1_sel [simp]:
  "ad_abi_version gold_admission1 = ADMISSION_ABI"
  "ad_coordinator_epoch gold_admission1 = 51"
  "ad_slot_index gold_admission1 = 0"
  "ad_generation gold_admission1 = 1"
  "ad_authority_sha256 gold_admission1 = golden_authority"
  "ad_request_sha256 gold_admission1 = golden_request"
  "ad_selection_receipt_sha256 gold_admission1 = golden_sel_receipt"
  "ad_selected_capability_sha256 gold_admission1 = golden_sel_capability"
  "ad_allocation_manifest_sha256 gold_admission1 = golden_manifest"
  "ad_parent_receipt_sha256 gold_admission1 = golden_parent"
  "ad_child_lease_sha256 gold_admission1 = golden_child1"
  "ad_allocation_count gold_admission1 = 3"
  "ad_total_device_bytes gold_admission1 = 8192"
  "ad_admission_sha256 gold_admission1 = golden_admission1"
  by (simp_all add: gold_admission1_def)

definition gold_child2 :: child where
  "gold_child2 =
    \<lparr>ch_abi_version = RESOURCE_CHILD_ABI, ch_parent = Some gold_parent, ch_child_key
     = 6650653351686273886, ch_generation = 2, ch_ceiling = gold_device_claim, ch_claim =
     gold_device_claim, ch_integrity = 4167153523113286087\<rparr>"

lemma gold_child2_sel [simp]:
  "ch_abi_version gold_child2 = RESOURCE_CHILD_ABI"
  "ch_parent gold_child2 = Some gold_parent"
  "ch_child_key gold_child2 = 6650653351686273886"
  "ch_generation gold_child2 = 2"
  "ch_ceiling gold_child2 = gold_device_claim"
  "ch_claim gold_child2 = gold_device_claim"
  "ch_integrity gold_child2 = 4167153523113286087"
  by (simp_all add: gold_child2_def)

definition gold_admission2 :: admission_v1 where
  "gold_admission2 =
    \<lparr>ad_abi_version = ADMISSION_ABI, ad_coordinator_epoch = 51, ad_slot_index = 0,
     ad_generation = 2, ad_authority_sha256 = golden_authority, ad_request_sha256 =
     golden_request, ad_selection_receipt_sha256 = golden_sel_receipt,
     ad_selected_capability_sha256 = golden_sel_capability, ad_allocation_manifest_sha256 =
     golden_manifest, ad_parent_receipt_sha256 = golden_parent, ad_child_lease_sha256 =
     golden_child2, ad_allocation_count = 3, ad_total_device_bytes = 8192,
     ad_admission_sha256 = golden_admission2\<rparr>"

lemma gold_admission2_sel [simp]:
  "ad_abi_version gold_admission2 = ADMISSION_ABI"
  "ad_coordinator_epoch gold_admission2 = 51"
  "ad_slot_index gold_admission2 = 0"
  "ad_generation gold_admission2 = 2"
  "ad_authority_sha256 gold_admission2 = golden_authority"
  "ad_request_sha256 gold_admission2 = golden_request"
  "ad_selection_receipt_sha256 gold_admission2 = golden_sel_receipt"
  "ad_selected_capability_sha256 gold_admission2 = golden_sel_capability"
  "ad_allocation_manifest_sha256 gold_admission2 = golden_manifest"
  "ad_parent_receipt_sha256 gold_admission2 = golden_parent"
  "ad_child_lease_sha256 gold_admission2 = golden_child2"
  "ad_allocation_count gold_admission2 = 3"
  "ad_total_device_bytes gold_admission2 = 8192"
  "ad_admission_sha256 gold_admission2 = golden_admission2"
  by (simp_all add: gold_admission2_def)

definition gold_cancelled :: terminal_receipt where
  "gold_cancelled =
    \<lparr>te_abi_version = TERMINAL_ABI, te_outcome = 1, te_reason = 1,
     te_coordinator_epoch = 51, te_slot_index = 0, te_generation = 1, te_authority_sha256 =
     golden_authority, te_request_sha256 = golden_request, te_admission_sha256 =
     golden_admission1, te_lease_sha256 = ZERO_DIGEST, te_backend_object_set_sha256 =
     ZERO_DIGEST, te_parent_receipt_sha256 = golden_parent, te_child_lease_sha256 =
     golden_child1, te_returned_device_bytes = 8192, te_terminal_sha256 = golden_cancelled\<rparr>"

lemma gold_cancelled_sel [simp]:
  "te_abi_version gold_cancelled = TERMINAL_ABI"
  "te_outcome gold_cancelled = 1"
  "te_reason gold_cancelled = 1"
  "te_coordinator_epoch gold_cancelled = 51"
  "te_slot_index gold_cancelled = 0"
  "te_generation gold_cancelled = 1"
  "te_authority_sha256 gold_cancelled = golden_authority"
  "te_request_sha256 gold_cancelled = golden_request"
  "te_admission_sha256 gold_cancelled = golden_admission1"
  "te_lease_sha256 gold_cancelled = ZERO_DIGEST"
  "te_backend_object_set_sha256 gold_cancelled = ZERO_DIGEST"
  "te_parent_receipt_sha256 gold_cancelled = golden_parent"
  "te_child_lease_sha256 gold_cancelled = golden_child1"
  "te_returned_device_bytes gold_cancelled = 8192"
  "te_terminal_sha256 gold_cancelled = golden_cancelled"
  by (simp_all add: gold_cancelled_def)

definition gold_call0 :: call where
  "gold_call0 =
    \<lparr>ca_abi_version = ALLOCATION_CALL_ABI, ca_authority_sha256 = golden_authority,
     ca_admission_sha256 = golden_admission2, ca_ordinal = 0, ca_binding_sha256 =
     golden_bind0, ca_requested_bytes = 3000, ca_charged_bytes = 3072, ca_quote_sha256 =
     golden_quote0, ca_call_sha256 = golden_call0\<rparr>"

lemma gold_call0_sel [simp]:
  "ca_abi_version gold_call0 = ALLOCATION_CALL_ABI"
  "ca_authority_sha256 gold_call0 = golden_authority"
  "ca_admission_sha256 gold_call0 = golden_admission2"
  "ca_ordinal gold_call0 = 0"
  "ca_binding_sha256 gold_call0 = golden_bind0"
  "ca_requested_bytes gold_call0 = 3000"
  "ca_charged_bytes gold_call0 = 3072"
  "ca_quote_sha256 gold_call0 = golden_quote0"
  "ca_call_sha256 gold_call0 = golden_call0"
  by (simp_all add: gold_call0_def)

definition gold_object0 :: backend_object where
  "gold_object0 =
    \<lparr>bo_abi_version = BACKEND_OBJECT_ABI, bo_allocation_call_sha256 = golden_call0,
     bo_binding_sha256 = golden_bind0, bo_backend_object_sha256 = golden_identity0,
     bo_backend_object_generation = 1, bo_allocated_bytes = 3072, bo_object_sha256 =
     golden_object0\<rparr>"

lemma gold_object0_sel [simp]:
  "bo_abi_version gold_object0 = BACKEND_OBJECT_ABI"
  "bo_allocation_call_sha256 gold_object0 = golden_call0"
  "bo_binding_sha256 gold_object0 = golden_bind0"
  "bo_backend_object_sha256 gold_object0 = golden_identity0"
  "bo_backend_object_generation gold_object0 = 1"
  "bo_allocated_bytes gold_object0 = 3072"
  "bo_object_sha256 gold_object0 = golden_object0"
  by (simp_all add: gold_object0_def)

definition gold_call1 :: call where
  "gold_call1 =
    \<lparr>ca_abi_version = ALLOCATION_CALL_ABI, ca_authority_sha256 = golden_authority,
     ca_admission_sha256 = golden_admission2, ca_ordinal = 1, ca_binding_sha256 =
     golden_bind1, ca_requested_bytes = 4000, ca_charged_bytes = 4096, ca_quote_sha256 =
     golden_quote1, ca_call_sha256 = golden_call1\<rparr>"

lemma gold_call1_sel [simp]:
  "ca_abi_version gold_call1 = ALLOCATION_CALL_ABI"
  "ca_authority_sha256 gold_call1 = golden_authority"
  "ca_admission_sha256 gold_call1 = golden_admission2"
  "ca_ordinal gold_call1 = 1"
  "ca_binding_sha256 gold_call1 = golden_bind1"
  "ca_requested_bytes gold_call1 = 4000"
  "ca_charged_bytes gold_call1 = 4096"
  "ca_quote_sha256 gold_call1 = golden_quote1"
  "ca_call_sha256 gold_call1 = golden_call1"
  by (simp_all add: gold_call1_def)

definition gold_object1 :: backend_object where
  "gold_object1 =
    \<lparr>bo_abi_version = BACKEND_OBJECT_ABI, bo_allocation_call_sha256 = golden_call1,
     bo_binding_sha256 = golden_bind1, bo_backend_object_sha256 = golden_identity1,
     bo_backend_object_generation = 2, bo_allocated_bytes = 4096, bo_object_sha256 =
     golden_object1\<rparr>"

lemma gold_object1_sel [simp]:
  "bo_abi_version gold_object1 = BACKEND_OBJECT_ABI"
  "bo_allocation_call_sha256 gold_object1 = golden_call1"
  "bo_binding_sha256 gold_object1 = golden_bind1"
  "bo_backend_object_sha256 gold_object1 = golden_identity1"
  "bo_backend_object_generation gold_object1 = 2"
  "bo_allocated_bytes gold_object1 = 4096"
  "bo_object_sha256 gold_object1 = golden_object1"
  by (simp_all add: gold_object1_def)

definition gold_call2 :: call where
  "gold_call2 =
    \<lparr>ca_abi_version = ALLOCATION_CALL_ABI, ca_authority_sha256 = golden_authority,
     ca_admission_sha256 = golden_admission2, ca_ordinal = 2, ca_binding_sha256 =
     golden_bind2, ca_requested_bytes = 1000, ca_charged_bytes = 1024, ca_quote_sha256 =
     golden_quote2, ca_call_sha256 = golden_call2\<rparr>"

lemma gold_call2_sel [simp]:
  "ca_abi_version gold_call2 = ALLOCATION_CALL_ABI"
  "ca_authority_sha256 gold_call2 = golden_authority"
  "ca_admission_sha256 gold_call2 = golden_admission2"
  "ca_ordinal gold_call2 = 2"
  "ca_binding_sha256 gold_call2 = golden_bind2"
  "ca_requested_bytes gold_call2 = 1000"
  "ca_charged_bytes gold_call2 = 1024"
  "ca_quote_sha256 gold_call2 = golden_quote2"
  "ca_call_sha256 gold_call2 = golden_call2"
  by (simp_all add: gold_call2_def)

definition gold_object2 :: backend_object where
  "gold_object2 =
    \<lparr>bo_abi_version = BACKEND_OBJECT_ABI, bo_allocation_call_sha256 = golden_call2,
     bo_binding_sha256 = golden_bind2, bo_backend_object_sha256 = golden_identity2,
     bo_backend_object_generation = 3, bo_allocated_bytes = 1024, bo_object_sha256 =
     golden_object2\<rparr>"

lemma gold_object2_sel [simp]:
  "bo_abi_version gold_object2 = BACKEND_OBJECT_ABI"
  "bo_allocation_call_sha256 gold_object2 = golden_call2"
  "bo_binding_sha256 gold_object2 = golden_bind2"
  "bo_backend_object_sha256 gold_object2 = golden_identity2"
  "bo_backend_object_generation gold_object2 = 3"
  "bo_allocated_bytes gold_object2 = 1024"
  "bo_object_sha256 gold_object2 = golden_object2"
  by (simp_all add: gold_object2_def)

definition gold_set :: object_set where
  "gold_set =
    \<lparr>os_abi_version = OBJECT_SET_ABI, os_admission_sha256 = golden_admission2,
     os_allocation_count = 3, os_total_allocated_bytes = 8192, os_object_set_sha256 =
     golden_object_set\<rparr>"

lemma gold_set_sel [simp]:
  "os_abi_version gold_set = OBJECT_SET_ABI"
  "os_admission_sha256 gold_set = golden_admission2"
  "os_allocation_count gold_set = 3"
  "os_total_allocated_bytes gold_set = 8192"
  "os_object_set_sha256 gold_set = golden_object_set"
  by (simp_all add: gold_set_def)

definition gold_lease :: lease where
  "gold_lease =
    \<lparr>ls_abi_version = LEASE_ABI, ls_coordinator_epoch = 51, ls_slot_index = 0,
     ls_generation = 2, ls_authority_sha256 = golden_authority, ls_request_sha256 =
     golden_request, ls_admission_sha256 = golden_admission2, ls_selection_receipt_sha256 =
     golden_sel_receipt, ls_selected_capability_sha256 = golden_sel_capability,
     ls_allocation_manifest_sha256 = golden_manifest, ls_parent_receipt_sha256 =
     golden_parent, ls_child_lease_sha256 = golden_child2, ls_backend_object_set_sha256 =
     golden_object_set, ls_allocation_count = 3, ls_materialized_bytes = 8192,
     ls_lease_sha256 = golden_lease\<rparr>"

lemma gold_lease_sel [simp]:
  "ls_abi_version gold_lease = LEASE_ABI"
  "ls_coordinator_epoch gold_lease = 51"
  "ls_slot_index gold_lease = 0"
  "ls_generation gold_lease = 2"
  "ls_authority_sha256 gold_lease = golden_authority"
  "ls_request_sha256 gold_lease = golden_request"
  "ls_admission_sha256 gold_lease = golden_admission2"
  "ls_selection_receipt_sha256 gold_lease = golden_sel_receipt"
  "ls_selected_capability_sha256 gold_lease = golden_sel_capability"
  "ls_allocation_manifest_sha256 gold_lease = golden_manifest"
  "ls_parent_receipt_sha256 gold_lease = golden_parent"
  "ls_child_lease_sha256 gold_lease = golden_child2"
  "ls_backend_object_set_sha256 gold_lease = golden_object_set"
  "ls_allocation_count gold_lease = 3"
  "ls_materialized_bytes gold_lease = 8192"
  "ls_lease_sha256 gold_lease = golden_lease"
  by (simp_all add: gold_lease_def)

definition gold_ticket :: recovery_ticket where
  "gold_ticket =
    \<lparr>rt_abi_version = RECOVERY_ABI, rt_coordinator_epoch = 51, rt_slot_index = 0,
     rt_generation = 2, rt_recovery_generation = 1, rt_authority_sha256 = golden_authority,
     rt_admission_sha256 = golden_admission2, rt_lease_sha256 = golden_lease,
     rt_backend_object_set_sha256 = golden_object_set, rt_target_outcome = 3,
     rt_target_reason = 4, rt_outstanding_object_count = 1, rt_outstanding_bytes = 4096,
     rt_outstanding_set_sha256 = golden_outstanding, rt_recovery_sha256 = golden_recovery\<rparr>"

lemma gold_ticket_sel [simp]:
  "rt_abi_version gold_ticket = RECOVERY_ABI"
  "rt_coordinator_epoch gold_ticket = 51"
  "rt_slot_index gold_ticket = 0"
  "rt_generation gold_ticket = 2"
  "rt_recovery_generation gold_ticket = 1"
  "rt_authority_sha256 gold_ticket = golden_authority"
  "rt_admission_sha256 gold_ticket = golden_admission2"
  "rt_lease_sha256 gold_ticket = golden_lease"
  "rt_backend_object_set_sha256 gold_ticket = golden_object_set"
  "rt_target_outcome gold_ticket = 3"
  "rt_target_reason gold_ticket = 4"
  "rt_outstanding_object_count gold_ticket = 1"
  "rt_outstanding_bytes gold_ticket = 4096"
  "rt_outstanding_set_sha256 gold_ticket = golden_outstanding"
  "rt_recovery_sha256 gold_ticket = golden_recovery"
  by (simp_all add: gold_ticket_def)

definition gold_released :: terminal_receipt where
  "gold_released =
    \<lparr>te_abi_version = TERMINAL_ABI, te_outcome = 3, te_reason = 4,
     te_coordinator_epoch = 51, te_slot_index = 0, te_generation = 2, te_authority_sha256 =
     golden_authority, te_request_sha256 = golden_request, te_admission_sha256 =
     golden_admission2, te_lease_sha256 = golden_lease, te_backend_object_set_sha256 =
     golden_object_set, te_parent_receipt_sha256 = golden_parent, te_child_lease_sha256 =
     golden_child2, te_returned_device_bytes = 8192, te_terminal_sha256 = golden_released\<rparr>"

lemma gold_released_sel [simp]:
  "te_abi_version gold_released = TERMINAL_ABI"
  "te_outcome gold_released = 3"
  "te_reason gold_released = 4"
  "te_coordinator_epoch gold_released = 51"
  "te_slot_index gold_released = 0"
  "te_generation gold_released = 2"
  "te_authority_sha256 gold_released = golden_authority"
  "te_request_sha256 gold_released = golden_request"
  "te_admission_sha256 gold_released = golden_admission2"
  "te_lease_sha256 gold_released = golden_lease"
  "te_backend_object_set_sha256 gold_released = golden_object_set"
  "te_parent_receipt_sha256 gold_released = golden_parent"
  "te_child_lease_sha256 gold_released = golden_child2"
  "te_returned_device_bytes gold_released = 8192"
  "te_terminal_sha256 gold_released = golden_released"
  by (simp_all add: gold_released_def)

definition gold_backend0 :: backend where
  "gold_backend0 =
    \<lparr>b_authority = gold_authority, b_next_generation = 1, b_used_bytes = 0, b_objects
     = [], b_active_admission_sha256 = ZERO_DIGEST, b_active_ordinals = {},
     b_fail_free_binding = None\<rparr>"

lemma gold_backend0_sel [simp]:
  "b_authority gold_backend0 = gold_authority"
  "b_next_generation gold_backend0 = 1"
  "b_used_bytes gold_backend0 = 0"
  "b_objects gold_backend0 = []"
  "b_active_admission_sha256 gold_backend0 = ZERO_DIGEST"
  "b_active_ordinals gold_backend0 = {}"
  "b_fail_free_binding gold_backend0 = None"
  by (simp_all add: gold_backend0_def)

definition gold_backend1 :: backend where
  "gold_backend1 =
    \<lparr>b_authority = gold_authority, b_next_generation = 2, b_used_bytes = 3072,
     b_objects = [((golden_identity0, 1), 0, gold_object0, gold_call0)],
     b_active_admission_sha256 = golden_admission2, b_active_ordinals = {0},
     b_fail_free_binding = None\<rparr>"

lemma gold_backend1_sel [simp]:
  "b_authority gold_backend1 = gold_authority"
  "b_next_generation gold_backend1 = 2"
  "b_used_bytes gold_backend1 = 3072"
  "b_objects gold_backend1 = [((golden_identity0, 1), 0, gold_object0, gold_call0)]"
  "b_active_admission_sha256 gold_backend1 = golden_admission2"
  "b_active_ordinals gold_backend1 = {0}"
  "b_fail_free_binding gold_backend1 = None"
  by (simp_all add: gold_backend1_def)

definition gold_backend2 :: backend where
  "gold_backend2 =
    \<lparr>b_authority = gold_authority, b_next_generation = 3, b_used_bytes = 7168,
     b_objects = [((golden_identity0, 1), 0, gold_object0, gold_call0), ((golden_identity1,
     2), 1, gold_object1, gold_call1)], b_active_admission_sha256 = golden_admission2,
     b_active_ordinals = {0, 1}, b_fail_free_binding = None\<rparr>"

lemma gold_backend2_sel [simp]:
  "b_authority gold_backend2 = gold_authority"
  "b_next_generation gold_backend2 = 3"
  "b_used_bytes gold_backend2 = 7168"
  "b_objects gold_backend2 = [((golden_identity0, 1), 0, gold_object0, gold_call0), ((golden_identity1, 2), 1, gold_object1, gold_call1)]"
  "b_active_admission_sha256 gold_backend2 = golden_admission2"
  "b_active_ordinals gold_backend2 = {0, 1}"
  "b_fail_free_binding gold_backend2 = None"
  by (simp_all add: gold_backend2_def)

definition gold_backend3 :: backend where
  "gold_backend3 =
    \<lparr>b_authority = gold_authority, b_next_generation = 4, b_used_bytes = 8192,
     b_objects = [((golden_identity0, 1), 0, gold_object0, gold_call0), ((golden_identity1,
     2), 1, gold_object1, gold_call1), ((golden_identity2, 3), 2, gold_object2,
     gold_call2)], b_active_admission_sha256 = golden_admission2, b_active_ordinals = {0, 1,
     2}, b_fail_free_binding = None\<rparr>"

lemma gold_backend3_sel [simp]:
  "b_authority gold_backend3 = gold_authority"
  "b_next_generation gold_backend3 = 4"
  "b_used_bytes gold_backend3 = 8192"
  "b_objects gold_backend3 = [((golden_identity0, 1), 0, gold_object0, gold_call0), ((golden_identity1, 2), 1, gold_object1, gold_call1), ((golden_identity2, 3), 2, gold_object2, gold_call2)]"
  "b_active_admission_sha256 gold_backend3 = golden_admission2"
  "b_active_ordinals gold_backend3 = {0, 1, 2}"
  "b_fail_free_binding gold_backend3 = None"
  by (simp_all add: gold_backend3_def)

definition gold_backend4 :: backend where
  "gold_backend4 =
    \<lparr>b_authority = gold_authority, b_next_generation = 4, b_used_bytes = 8192,
     b_objects = [((golden_identity0, 1), 0, gold_object0, gold_call0), ((golden_identity1,
     2), 1, gold_object1, gold_call1), ((golden_identity2, 3), 2, gold_object2,
     gold_call2)], b_active_admission_sha256 = golden_admission2, b_active_ordinals = {0, 1,
     2}, b_fail_free_binding = Some golden_bind1\<rparr>"

lemma gold_backend4_sel [simp]:
  "b_authority gold_backend4 = gold_authority"
  "b_next_generation gold_backend4 = 4"
  "b_used_bytes gold_backend4 = 8192"
  "b_objects gold_backend4 = [((golden_identity0, 1), 0, gold_object0, gold_call0), ((golden_identity1, 2), 1, gold_object1, gold_call1), ((golden_identity2, 3), 2, gold_object2, gold_call2)]"
  "b_active_admission_sha256 gold_backend4 = golden_admission2"
  "b_active_ordinals gold_backend4 = {0, 1, 2}"
  "b_fail_free_binding gold_backend4 = Some golden_bind1"
  by (simp_all add: gold_backend4_def)

definition gold_backend5 :: backend where
  "gold_backend5 =
    \<lparr>b_authority = gold_authority, b_next_generation = 4, b_used_bytes = 4096,
     b_objects = [((golden_identity1, 2), 1, gold_object1, gold_call1)],
     b_active_admission_sha256 = golden_admission2, b_active_ordinals = {1},
     b_fail_free_binding = None\<rparr>"

lemma gold_backend5_sel [simp]:
  "b_authority gold_backend5 = gold_authority"
  "b_next_generation gold_backend5 = 4"
  "b_used_bytes gold_backend5 = 4096"
  "b_objects gold_backend5 = [((golden_identity1, 2), 1, gold_object1, gold_call1)]"
  "b_active_admission_sha256 gold_backend5 = golden_admission2"
  "b_active_ordinals gold_backend5 = {1}"
  "b_fail_free_binding gold_backend5 = None"
  by (simp_all add: gold_backend5_def)

definition gold_backend6 :: backend where
  "gold_backend6 =
    \<lparr>b_authority = gold_authority, b_next_generation = 4, b_used_bytes = 0, b_objects
     = [], b_active_admission_sha256 = ZERO_DIGEST, b_active_ordinals = {},
     b_fail_free_binding = None\<rparr>"

lemma gold_backend6_sel [simp]:
  "b_authority gold_backend6 = gold_authority"
  "b_next_generation gold_backend6 = 4"
  "b_used_bytes gold_backend6 = 0"
  "b_objects gold_backend6 = []"
  "b_active_admission_sha256 gold_backend6 = ZERO_DIGEST"
  "b_active_ordinals gold_backend6 = {}"
  "b_fail_free_binding gold_backend6 = None"
  by (simp_all add: gold_backend6_def)

definition gold_live1 :: live_state where
  "gold_live1 =
    \<lparr>li_admission = gold_admission1, li_child = gold_child1, li_calls = [],
     li_objects = [], li_lease = None, li_target_outcome = 1, li_target_reason = 1,
     li_recovery_generation = 0, li_state = Admitted\<rparr>"

lemma gold_live1_sel [simp]:
  "li_admission gold_live1 = gold_admission1"
  "li_child gold_live1 = gold_child1"
  "li_calls gold_live1 = []"
  "li_objects gold_live1 = []"
  "li_lease gold_live1 = None"
  "li_target_outcome gold_live1 = 1"
  "li_target_reason gold_live1 = 1"
  "li_recovery_generation gold_live1 = 0"
  "li_state gold_live1 = Admitted"
  by (simp_all add: gold_live1_def)

definition gold_live2 :: live_state where
  "gold_live2 =
    \<lparr>li_admission = gold_admission2, li_child = gold_child2, li_calls = [],
     li_objects = [], li_lease = None, li_target_outcome = 1, li_target_reason = 1,
     li_recovery_generation = 0, li_state = Admitted\<rparr>"

lemma gold_live2_sel [simp]:
  "li_admission gold_live2 = gold_admission2"
  "li_child gold_live2 = gold_child2"
  "li_calls gold_live2 = []"
  "li_objects gold_live2 = []"
  "li_lease gold_live2 = None"
  "li_target_outcome gold_live2 = 1"
  "li_target_reason gold_live2 = 1"
  "li_recovery_generation gold_live2 = 0"
  "li_state gold_live2 = Admitted"
  by (simp_all add: gold_live2_def)

definition gold_live3 :: live_state where
  "gold_live3 =
    \<lparr>li_admission = gold_admission2, li_child = gold_child2, li_calls = [gold_call0,
     gold_call1, gold_call2], li_objects = [gold_object0, gold_object1, gold_object2],
     li_lease = Some gold_lease, li_target_outcome = 1, li_target_reason = 1,
     li_recovery_generation = 0, li_state = Live\<rparr>"

lemma gold_live3_sel [simp]:
  "li_admission gold_live3 = gold_admission2"
  "li_child gold_live3 = gold_child2"
  "li_calls gold_live3 = [gold_call0, gold_call1, gold_call2]"
  "li_objects gold_live3 = [gold_object0, gold_object1, gold_object2]"
  "li_lease gold_live3 = Some gold_lease"
  "li_target_outcome gold_live3 = 1"
  "li_target_reason gold_live3 = 1"
  "li_recovery_generation gold_live3 = 0"
  "li_state gold_live3 = Live"
  by (simp_all add: gold_live3_def)

definition gold_live4 :: live_state where
  "gold_live4 =
    \<lparr>li_admission = gold_admission2, li_child = gold_child2, li_calls = [gold_call0,
     gold_call1, gold_call2], li_objects = [gold_object0, gold_object1, gold_object2],
     li_lease = Some gold_lease, li_target_outcome = 3, li_target_reason = 4,
     li_recovery_generation = 1, li_state = Recovery\<rparr>"

lemma gold_live4_sel [simp]:
  "li_admission gold_live4 = gold_admission2"
  "li_child gold_live4 = gold_child2"
  "li_calls gold_live4 = [gold_call0, gold_call1, gold_call2]"
  "li_objects gold_live4 = [gold_object0, gold_object1, gold_object2]"
  "li_lease gold_live4 = Some gold_lease"
  "li_target_outcome gold_live4 = 3"
  "li_target_reason gold_live4 = 4"
  "li_recovery_generation gold_live4 = 1"
  "li_state gold_live4 = Recovery"
  by (simp_all add: gold_live4_def)

definition gold_coord0 :: coordinator where
  "gold_coord0 =
    \<lparr>co_epoch = 51, co_authority = gold_authority, co_request = gold_request,
     co_selection = gold_selection, co_parent = gold_parent, co_manifest = gold_manifest,
     co_entries = [gold_entry0, gold_entry1, gold_entry2], co_backend = gold_backend0,
     co_next_generation = 1, co_next_child_generation = 1, co_charged_device_bytes = 0,
     co_live = None\<rparr>"

lemma gold_coord0_sel [simp]:
  "co_epoch gold_coord0 = 51"
  "co_authority gold_coord0 = gold_authority"
  "co_request gold_coord0 = gold_request"
  "co_selection gold_coord0 = gold_selection"
  "co_parent gold_coord0 = gold_parent"
  "co_manifest gold_coord0 = gold_manifest"
  "co_entries gold_coord0 = [gold_entry0, gold_entry1, gold_entry2]"
  "co_backend gold_coord0 = gold_backend0"
  "co_next_generation gold_coord0 = 1"
  "co_next_child_generation gold_coord0 = 1"
  "co_charged_device_bytes gold_coord0 = 0"
  "co_live gold_coord0 = None"
  by (simp_all add: gold_coord0_def)

definition gold_coord1 :: coordinator where
  "gold_coord1 =
    \<lparr>co_epoch = 51, co_authority = gold_authority, co_request = gold_request,
     co_selection = gold_selection, co_parent = gold_parent, co_manifest = gold_manifest,
     co_entries = [gold_entry0, gold_entry1, gold_entry2], co_backend = gold_backend0,
     co_next_generation = 2, co_next_child_generation = 2, co_charged_device_bytes = 8192,
     co_live = Some gold_live1\<rparr>"

lemma gold_coord1_sel [simp]:
  "co_epoch gold_coord1 = 51"
  "co_authority gold_coord1 = gold_authority"
  "co_request gold_coord1 = gold_request"
  "co_selection gold_coord1 = gold_selection"
  "co_parent gold_coord1 = gold_parent"
  "co_manifest gold_coord1 = gold_manifest"
  "co_entries gold_coord1 = [gold_entry0, gold_entry1, gold_entry2]"
  "co_backend gold_coord1 = gold_backend0"
  "co_next_generation gold_coord1 = 2"
  "co_next_child_generation gold_coord1 = 2"
  "co_charged_device_bytes gold_coord1 = 8192"
  "co_live gold_coord1 = Some gold_live1"
  by (simp_all add: gold_coord1_def)

definition gold_coord2 :: coordinator where
  "gold_coord2 =
    \<lparr>co_epoch = 51, co_authority = gold_authority, co_request = gold_request,
     co_selection = gold_selection, co_parent = gold_parent, co_manifest = gold_manifest,
     co_entries = [gold_entry0, gold_entry1, gold_entry2], co_backend = gold_backend0,
     co_next_generation = 2, co_next_child_generation = 2, co_charged_device_bytes = 0,
     co_live = None\<rparr>"

lemma gold_coord2_sel [simp]:
  "co_epoch gold_coord2 = 51"
  "co_authority gold_coord2 = gold_authority"
  "co_request gold_coord2 = gold_request"
  "co_selection gold_coord2 = gold_selection"
  "co_parent gold_coord2 = gold_parent"
  "co_manifest gold_coord2 = gold_manifest"
  "co_entries gold_coord2 = [gold_entry0, gold_entry1, gold_entry2]"
  "co_backend gold_coord2 = gold_backend0"
  "co_next_generation gold_coord2 = 2"
  "co_next_child_generation gold_coord2 = 2"
  "co_charged_device_bytes gold_coord2 = 0"
  "co_live gold_coord2 = None"
  by (simp_all add: gold_coord2_def)

definition gold_coord3 :: coordinator where
  "gold_coord3 =
    \<lparr>co_epoch = 51, co_authority = gold_authority, co_request = gold_request,
     co_selection = gold_selection, co_parent = gold_parent, co_manifest = gold_manifest,
     co_entries = [gold_entry0, gold_entry1, gold_entry2], co_backend = gold_backend0,
     co_next_generation = 3, co_next_child_generation = 3, co_charged_device_bytes = 8192,
     co_live = Some gold_live2\<rparr>"

lemma gold_coord3_sel [simp]:
  "co_epoch gold_coord3 = 51"
  "co_authority gold_coord3 = gold_authority"
  "co_request gold_coord3 = gold_request"
  "co_selection gold_coord3 = gold_selection"
  "co_parent gold_coord3 = gold_parent"
  "co_manifest gold_coord3 = gold_manifest"
  "co_entries gold_coord3 = [gold_entry0, gold_entry1, gold_entry2]"
  "co_backend gold_coord3 = gold_backend0"
  "co_next_generation gold_coord3 = 3"
  "co_next_child_generation gold_coord3 = 3"
  "co_charged_device_bytes gold_coord3 = 8192"
  "co_live gold_coord3 = Some gold_live2"
  by (simp_all add: gold_coord3_def)

definition gold_coord4 :: coordinator where
  "gold_coord4 =
    \<lparr>co_epoch = 51, co_authority = gold_authority, co_request = gold_request,
     co_selection = gold_selection, co_parent = gold_parent, co_manifest = gold_manifest,
     co_entries = [gold_entry0, gold_entry1, gold_entry2], co_backend = gold_backend3,
     co_next_generation = 3, co_next_child_generation = 3, co_charged_device_bytes = 8192,
     co_live = Some gold_live3\<rparr>"

lemma gold_coord4_sel [simp]:
  "co_epoch gold_coord4 = 51"
  "co_authority gold_coord4 = gold_authority"
  "co_request gold_coord4 = gold_request"
  "co_selection gold_coord4 = gold_selection"
  "co_parent gold_coord4 = gold_parent"
  "co_manifest gold_coord4 = gold_manifest"
  "co_entries gold_coord4 = [gold_entry0, gold_entry1, gold_entry2]"
  "co_backend gold_coord4 = gold_backend3"
  "co_next_generation gold_coord4 = 3"
  "co_next_child_generation gold_coord4 = 3"
  "co_charged_device_bytes gold_coord4 = 8192"
  "co_live gold_coord4 = Some gold_live3"
  by (simp_all add: gold_coord4_def)

definition gold_coord5 :: coordinator where
  "gold_coord5 =
    \<lparr>co_epoch = 51, co_authority = gold_authority, co_request = gold_request,
     co_selection = gold_selection, co_parent = gold_parent, co_manifest = gold_manifest,
     co_entries = [gold_entry0, gold_entry1, gold_entry2], co_backend = gold_backend4,
     co_next_generation = 3, co_next_child_generation = 3, co_charged_device_bytes = 8192,
     co_live = Some gold_live3\<rparr>"

lemma gold_coord5_sel [simp]:
  "co_epoch gold_coord5 = 51"
  "co_authority gold_coord5 = gold_authority"
  "co_request gold_coord5 = gold_request"
  "co_selection gold_coord5 = gold_selection"
  "co_parent gold_coord5 = gold_parent"
  "co_manifest gold_coord5 = gold_manifest"
  "co_entries gold_coord5 = [gold_entry0, gold_entry1, gold_entry2]"
  "co_backend gold_coord5 = gold_backend4"
  "co_next_generation gold_coord5 = 3"
  "co_next_child_generation gold_coord5 = 3"
  "co_charged_device_bytes gold_coord5 = 8192"
  "co_live gold_coord5 = Some gold_live3"
  by (simp_all add: gold_coord5_def)

definition gold_coord6 :: coordinator where
  "gold_coord6 =
    \<lparr>co_epoch = 51, co_authority = gold_authority, co_request = gold_request,
     co_selection = gold_selection, co_parent = gold_parent, co_manifest = gold_manifest,
     co_entries = [gold_entry0, gold_entry1, gold_entry2], co_backend = gold_backend5,
     co_next_generation = 3, co_next_child_generation = 3, co_charged_device_bytes = 8192,
     co_live = Some gold_live4\<rparr>"

lemma gold_coord6_sel [simp]:
  "co_epoch gold_coord6 = 51"
  "co_authority gold_coord6 = gold_authority"
  "co_request gold_coord6 = gold_request"
  "co_selection gold_coord6 = gold_selection"
  "co_parent gold_coord6 = gold_parent"
  "co_manifest gold_coord6 = gold_manifest"
  "co_entries gold_coord6 = [gold_entry0, gold_entry1, gold_entry2]"
  "co_backend gold_coord6 = gold_backend5"
  "co_next_generation gold_coord6 = 3"
  "co_next_child_generation gold_coord6 = 3"
  "co_charged_device_bytes gold_coord6 = 8192"
  "co_live gold_coord6 = Some gold_live4"
  by (simp_all add: gold_coord6_def)

definition gold_coord7 :: coordinator where
  "gold_coord7 =
    \<lparr>co_epoch = 51, co_authority = gold_authority, co_request = gold_request,
     co_selection = gold_selection, co_parent = gold_parent, co_manifest = gold_manifest,
     co_entries = [gold_entry0, gold_entry1, gold_entry2], co_backend = gold_backend6,
     co_next_generation = 3, co_next_child_generation = 3, co_charged_device_bytes = 0,
     co_live = None\<rparr>"

lemma gold_coord7_sel [simp]:
  "co_epoch gold_coord7 = 51"
  "co_authority gold_coord7 = gold_authority"
  "co_request gold_coord7 = gold_request"
  "co_selection gold_coord7 = gold_selection"
  "co_parent gold_coord7 = gold_parent"
  "co_manifest gold_coord7 = gold_manifest"
  "co_entries gold_coord7 = [gold_entry0, gold_entry1, gold_entry2]"
  "co_backend gold_coord7 = gold_backend6"
  "co_next_generation gold_coord7 = 3"
  "co_next_child_generation gold_coord7 = 3"
  "co_charged_device_bytes gold_coord7 = 0"
  "co_live gold_coord7 = None"
  by (simp_all add: gold_coord7_def)

section \<open>The fixture\<close>

abbreviation "gold_entries \<equiv> [gold_entry0, gold_entry1, gold_entry2]"

lemma hex_values:
  "from_hex 0x561a5b05d02d933773147d26b3686b845900ed8896a4254f27f3a3bfdeb19034 = golden_sel_receipt"
  "from_hex 0x8915b184332b4fbfbceb328d516814e9111c31993e185e709c7827246ac82a19 = golden_sel_requirement"
  "from_hex 0x049c2bd29030d4aa2ef6a4716ec4556f6c54ffe9e0cea5ce66796ab4f64f34c5 = golden_sel_capability"
  "from_hex 0xc146a8879a1004bad5ac4f9e8854b0f3afd1117c7d3c38771578845d3975041c = golden_sel_entry"
  by (simp_all add: from_hex_def le_bytes_numeral golden_roots)

lemma fixture_selection_gold: "fixture_selection = gold_selection"
  by (simp add: fixture_selection_def gold_selection_def hex_values)

lemma gold_authority_root [simp]: "authority_root gold_authority = Inr golden_authority"
  by (simp add: authority_root_def authority_words_def)

lemma gold_authority_ok [simp]: "validate_authority gold_authority = Inr ()"
  by (simp add: validate_authority_def authority_words_def scalar_simps)

lemma gold_seal_authority: "seal_authority fixture_authority_draft = Inr gold_authority"
  by (simp add: seal_authority_def fixture_authority_draft_def fixture_selection_gold authority_root_def
      authority_words_def gold_authority_def [symmetric])

lemma gold_quote_ok [simp]:
  "validate_quote gold_quote0 gold_authority = Inr ()" "validate_quote gold_quote1 gold_authority = Inr ()"
  "validate_quote gold_quote2 gold_authority = Inr ()"
  by (simp_all add: validate_quote_def quote_root_def scalar_simps)

lemma gold_make_quote [simp]:
  "make_quote gold_authority golden_bind0 3000 3072 = Inr gold_quote0"
  "make_quote gold_authority golden_bind1 4000 4096 = Inr gold_quote1"
  "make_quote gold_authority golden_bind2 1000 1024 = Inr gold_quote2"
  by (simp_all add: make_quote_def quote_root_def gold_quote0_def [symmetric] gold_quote1_def [symmetric]
      gold_quote2_def [symmetric])

lemma gold_align [simp]:
  "align_forward 3000 1024 = Inr 3072" "align_forward 4000 1024 = Inr 4096" "align_forward 1000 1024 = Inr 1024"
  by (simp_all add: align_forward_def scalar_simps)

lemma gold_fake_quote [simp]:
  "make_fake_quote gold_authority golden_bind0 3000 = Inr gold_quote0"
  "make_fake_quote gold_authority golden_bind1 4000 = Inr gold_quote1"
  "make_fake_quote gold_authority golden_bind2 1000 = Inr gold_quote2"
  by (simp_all add: make_fake_quote_def)

lemma gold_quote_from_entry [simp]:
  "quote_from_entry gold_authority gold_entry0 = gold_quote0"
  "quote_from_entry gold_authority gold_entry1 = gold_quote1"
  "quote_from_entry gold_authority gold_entry2 = gold_quote2"
  by (simp_all add: quote_from_entry_def gold_quote0_def gold_quote1_def gold_quote2_def)

lemma gold_bind_order [simp]:
  "bytes_less golden_bind0 golden_bind1" "bytes_less golden_bind1 golden_bind2" "bytes_less golden_bind0 golden_bind2"
  "\<not> bytes_less golden_bind1 golden_bind0" "\<not> bytes_less golden_bind2 golden_bind1" "\<not> bytes_less golden_bind2 golden_bind0"
  by (simp_all add: golden_roots)

lemma gold_totals [simp]: "manifest_totals gold_entries = Inr (4000, 8000, 4096, 8192)"
  by (simp add: manifest_totals_def totals_step_def totals_start_def scalar_simps)

lemma gold_manifest_ok [simp]: "validate_manifest gold_manifest gold_entries = Inr ()"
  by (simp add: validate_manifest_def manifest_words_def manifest_root_def scalar_simps)

lemma gold_seal_manifest: "seal_manifest gold_entries = Inr gold_manifest"
  by (simp add: seal_manifest_def manifest_root_def manifest_words_def gold_manifest_def [symmetric])

lemma gold_claim_bytes [simp]:
  "claim_bytes gold_claim = le [64, 0, 0, 0, 0, 0, 0, 0, 0, 1]"
  "claim_bytes gold_device_claim = le [0, 0, 0, 0, 0, 0, 0, 8192, 0, 0]"
  by (simp_all add: claim_bytes_def claim_values_def scalar_simps)

lemma gold_receipt_integrity [simp]: "receipt_integrity 41 0 1 9001 gold_claim = Inr 14110425505377406172"
  by (simp add: receipt_integrity_def claim_values_def scalar_simps) (simp add: mix_simps)

lemma gold_parent_ok [simp]: "validate_resource_receipt gold_parent = Inr ()"
  by (simp add: validate_resource_receipt_def scalar_simps le_ok)

lemma gold_seal_receipt: "seal_resource_receipt 41 0 1 9001 (zero_claim\<lparr>cv_capsule_bytes := 64, cv_queue_slots := 1\<rparr>) = Inr gold_parent"
  by (simp add: seal_resource_receipt_def zero_claim_def gold_claim_def [symmetric] gold_parent_def [symmetric] Let_def)

lemma gold_parent_root [simp]: "resource_receipt_root gold_parent = Inr golden_parent"
  by (simp add: resource_receipt_root_def)

lemma gold_request_ok [simp]:
  "validate_request gold_request gold_authority gold_selection gold_parent gold_manifest gold_entries = Inr ()"
  by (simp add: validate_request_def selection_words_def request_roots_def request_composition_def
      request_root_def scalar_simps)

lemma gold_make_request:
  "make_request 61 golden_owner gold_authority gold_selection gold_parent gold_manifest gold_entries = Inr gold_request"
  by (simp add: make_request_def request_root_def request_roots_def gold_request_def [symmetric])

definition gold_fixture :: fixture where
  "gold_fixture = \<lparr>fx_selection = gold_selection, fx_authority = gold_authority, fx_entries = gold_entries,
     fx_manifest = gold_manifest, fx_parent = gold_parent, fx_request = gold_request\<rparr>"

lemma gold_make_fixture: "make_fixture = Inr gold_fixture"
  by (simp add: make_fixture_def gold_seal_authority fixture_raw_def gold_entry0_def [symmetric]
      gold_entry1_def [symmetric] gold_entry2_def [symmetric] sort_entries_def gold_seal_manifest
      gold_seal_receipt fixture_selection_gold gold_make_request gold_fixture_def Let_def)

section \<open>Admissions\<close>

lemma gold_child_key [simp]:
  "allocation_child_key 51 0 1 golden_request = Inr 5632363043108141145"
  "allocation_child_key 51 0 2 golden_request = Inr 6650653351686273886"
  by (simp_all add: allocation_child_key_def scalar_simps)
    (simp_all add: read_u64_def slice_def golden_roots)

lemma gold_device_claim_shape [simp]:
  "\<not> claim_is_zero gold_device_claim" "claim_within gold_device_claim gold_device_claim"
  by (simp_all add: claim_is_zero_def claim_within_def claim_values_def)

lemma gold_child_integrity [simp]:
  "child_integrity gold_parent 5632363043108141145 1 gold_device_claim gold_device_claim = Inr 8446355554354773203"
  "child_integrity gold_parent 6650653351686273886 2 gold_device_claim gold_device_claim = Inr 4167153523113286087"
  by (simp_all add: child_integrity_def claim_values_def scalar_simps) (simp_all add: mix_simps)

lemma gold_child_ok [simp]:
  "validate_resource_child gold_child1 = Inr ()" "validate_resource_child gold_child2 = Inr ()"
  by (simp_all add: validate_resource_child_def scalar_simps le_ok)

lemma gold_open_child [simp]:
  "open_resource_child gold_parent 5632363043108141145 1 gold_device_claim gold_device_claim = Inr gold_child1"
  "open_resource_child gold_parent 6650653351686273886 2 gold_device_claim gold_device_claim = Inr gold_child2"
  by (simp_all add: open_resource_child_def Let_def gold_child1_def [symmetric] gold_child2_def [symmetric])

lemma gold_child_root [simp]:
  "resource_child_root gold_child1 = Inr golden_child1" "resource_child_root gold_child2 = Inr golden_child2"
  by (simp_all add: resource_child_root_def)

lemma gold_admission_ok [simp]:
  "validate_admission gold_admission1 = Inr ()" "validate_admission gold_admission2 = Inr ()"
  by (simp_all add: validate_admission_def admission_root_def admission_roots_def scalar_simps)

lemma gold_make_admission [simp]:
  "make_admission 51 0 1 gold_authority gold_request gold_child1 = Inr gold_admission1"
  "make_admission 51 0 2 gold_authority gold_request gold_child2 = Inr gold_admission2"
  by (simp_all add: make_admission_def admission_root_def admission_roots_def
      gold_admission1_def [symmetric] gold_admission2_def [symmetric])

lemma gold_init: "backend_init gold_authority = Inr gold_backend0"
  "coordinator_init 51 gold_authority gold_request gold_selection gold_parent gold_manifest gold_entries
     gold_backend0 = Inr gold_coord0"
  by (simp_all add: backend_init_def coordinator_init_def gold_backend0_def gold_coord0_def scalar_simps)

lemma gold_zero_claim [simp]: "zero_claim\<lparr>cv_device_bytes := 8192\<rparr> = gold_device_claim"
  by (simp add: zero_claim_def gold_device_claim_def)

lemma gold_admit: "admit gold_coord0 = (Inr gold_admission1, gold_coord1)"
  "admit gold_coord2 = (Inr gold_admission2, gold_coord3)"
  by (simp_all add: admit_def admit_checks_def Let_def
      gold_coord1_def gold_coord3_def gold_live1_def gold_live2_def gold_coord0_def gold_coord2_def)

section \<open>Cancellation and materialization\<close>

lemma gold_make_cancelled [simp]:
  "make_terminal gold_admission1 gold_request 1 1 None = Inr gold_cancelled"
  by (simp add: make_terminal_def terminal_root_def validate_terminal_def terminal_pair_valid_def
      VALID_OUTCOMES_def VALID_REASONS_def scalar_simps Let_def gold_cancelled_def)

lemma gold_cancel: "cancel gold_admission1 gold_coord1 = (Inr gold_cancelled, gold_coord2)"
  by (simp add: cancel_def require_admission_def finish_def gold_coord1_def gold_coord2_def)

lemma gold_call_ok [simp]:
  "validate_allocation_call gold_call0 = Inr ()" "validate_allocation_call gold_call1 = Inr ()"
  "validate_allocation_call gold_call2 = Inr ()"
  by (simp_all add: validate_allocation_call_def allocation_call_root_def scalar_simps)

lemma gold_make_call [simp]:
  "make_allocation_call gold_authority gold_admission2 0 gold_entry0 = Inr gold_call0"
  "make_allocation_call gold_authority gold_admission2 1 gold_entry1 = Inr gold_call1"
  "make_allocation_call gold_authority gold_admission2 2 gold_entry2 = Inr gold_call2"
  by (simp_all add: make_allocation_call_def make_allocation_call_for_admission_root_def
      allocation_call_root_def gold_call0_def [symmetric] gold_call1_def [symmetric] gold_call2_def [symmetric])

lemma gold_identity [simp]:
  "fake_object_identity gold_authority 0 1 golden_call0 = Inr golden_identity0"
  "fake_object_identity gold_authority 1 2 golden_call1 = Inr golden_identity1"
  "fake_object_identity gold_authority 2 3 golden_call2 = Inr golden_identity2"
  by (simp_all add: fake_object_identity_def scalar_simps)

lemma gold_object_ok [simp]:
  "validate_backend_object gold_object0 gold_call0 = Inr ()" "validate_backend_object gold_object1 gold_call1 = Inr ()"
  "validate_backend_object gold_object2 gold_call2 = Inr ()"
  by (simp_all add: validate_backend_object_def backend_object_root_def scalar_simps)

lemma gold_make_object [simp]:
  "make_backend_object gold_call0 golden_identity0 1 = Inr gold_object0"
  "make_backend_object gold_call1 golden_identity1 2 = Inr gold_object1"
  "make_backend_object gold_call2 golden_identity2 3 = Inr gold_object2"
  by (simp_all add: make_backend_object_def backend_object_root_def Let_def
      gold_object0_def [symmetric] gold_object1_def [symmetric] gold_object2_def [symmetric])

lemma gold_key [simp]: "object_key gold_object0 = (golden_identity0, 1)"
  "object_key gold_object1 = (golden_identity1, 2)" "object_key gold_object2 = (golden_identity2, 3)"
  by (simp_all add: object_key_def)

lemma gold_checks [simp]:
  "allocate_checks gold_call0 gold_backend0 = Inr (3072, 0)"
  "allocate_checks gold_call1 gold_backend1 = Inr (7168, 1)"
  "allocate_checks gold_call2 gold_backend2 = Inr (8192, 2)"
  by (simp_all add: allocate_checks_def used_slots_def scalar_simps numeral_eq_Suc)

lemma gold_allocate [simp]:
  "allocate gold_call0 gold_backend0 = (Inr gold_object0, gold_backend1)"
  "allocate gold_call1 gold_backend1 = (Inr gold_object1, gold_backend2)"
  "allocate gold_call2 gold_backend2 = (Inr gold_object2, gold_backend3)"
  by (simp_all add: allocate_def Let_def)
    (auto simp: gold_backend0_def gold_backend1_def gold_backend2_def gold_backend3_def)

lemma gold_make_set [simp]:
  "make_object_set gold_admission2 [gold_call0, gold_call1, gold_call2]
     [gold_object0, gold_object1, gold_object2] = Inr gold_set"
  by (simp add: make_object_set_def make_object_set_for_admission_root_def
      validate_object_set_for_admission_root_def set_members_def member_step_def object_set_root_def
      scalar_simps Let_def gold_set_def)

lemma gold_make_lease [simp]: "make_lease gold_admission2 gold_request gold_set = Inr gold_lease"
  by (simp add: make_lease_def lease_root_def lease_roots_def validate_lease_def scalar_simps Let_def gold_lease_def)

lemma gold_materialize: "materialize gold_admission2 gold_coord3 = (Inr gold_lease, gold_coord4)"
  by (simp add: materialize_def require_admission_def Let_def gold_live2_def gold_coord3_def gold_coord4_def gold_live3_def)

section \<open>Release and recovery\<close>

lemma gold_inject: "fail_next_free_for golden_bind1 gold_backend3 = (Inr (), gold_backend4)"
  "gold_coord4\<lparr>co_backend := gold_backend4\<rparr> = gold_coord5"
  by (simp_all add: fail_next_free_for_def gold_backend3_def gold_backend4_def gold_coord4_def gold_coord5_def)

lemma gold_cleanup_failed: "cleanup_objects [gold_object2, gold_object1, gold_object0] False gold_backend4 = (Inr True, gold_backend5)"
  by (simp add: free_def Let_def gold_backend4_def) (auto simp: gold_backend5_def)

lemma gold_cleanup_rest: "cleanup_objects [gold_object2, gold_object1, gold_object0] False gold_backend5 = (Inr False, gold_backend6)"
  by (simp add: free_def Let_def gold_backend5_def gold_backend6_def)

lemma gold_outstanding [simp]: "outstanding_objects gold_live4 gold_backend5 = [(1, gold_call1, gold_object1)]"
  by (simp add: outstanding_objects_def List.map_filter_def)

lemma gold_ticket_ok [simp]: "validate_recovery gold_ticket = Inr ()"
  by (simp add: validate_recovery_def recovery_root_def terminal_pair_valid_def VALID_OUTCOMES_def
      VALID_REASONS_def scalar_simps)

lemma gold_outstanding_root [simp]:
  "outstanding_set_root 51 0 2 [(1, gold_object1)] = Inr golden_outstanding"
  by (simp add: outstanding_set_root_def outstanding_step_def le_ok scalar_simps)

lemma gold_make_recovery [simp]:
  "make_recovery 51 0 2 1 golden_authority golden_admission2 golden_lease golden_object_set 3 4
     [(1, gold_call1, gold_object1)] = Inr gold_ticket"
  by (simp add: make_recovery_def recovery_root_def scalar_simps gold_ticket_def [symmetric])

lemma gold_current_recovery [simp]: "current_recovery gold_live4 gold_coord6 = Inr gold_ticket"
  by (simp add: current_recovery_def)

lemma gold_release: "release gold_lease gold_coord5 = (Inr (Inr gold_ticket), gold_coord6)"
  by (simp add: release_def cleanup_def gold_cleanup_failed Let_def gold_coord5_def gold_live3_def
      gold_live4_def [symmetric] gold_coord6_def [symmetric] del: cleanup_objects.simps)

lemma gold_make_released [simp]:
  "make_terminal gold_admission2 gold_request 3 4 (Some gold_lease) = Inr gold_released"
  by (simp add: make_terminal_def terminal_root_def validate_terminal_def terminal_pair_valid_def
      VALID_OUTCOMES_def VALID_REASONS_def scalar_simps Let_def gold_released_def)

lemma gold_retry: "retry_recovery gold_ticket gold_coord6 = (Inr (Inl gold_released), gold_coord7)"
proof -
  have "cleanup gold_live4 gold_coord6 = (Inr (Inl gold_released), gold_coord7)"
    by (simp add: cleanup_def gold_cleanup_rest Let_def finish_def gold_coord6_def gold_coord7_def
        del: cleanup_objects.simps)
  then show ?thesis by (simp add: retry_recovery_def)
qed

section \<open>The campaign and its states\<close>

lemma gold_campaign: "campaign gold_fixture = Some [golden_sel_receipt, golden_authority, golden_quote0,
    golden_quote1, golden_quote2, golden_manifest, golden_parent, golden_request, golden_child1,
    golden_admission1, golden_cancelled, golden_child2, golden_admission2, golden_call0, golden_call1,
    golden_call2, golden_object0, golden_object1, golden_object2, golden_object_set, golden_lease,
    golden_outstanding, golden_recovery, golden_released]"
  by (simp add: campaign_def gold_fixture_def gold_init gold_admit gold_cancel gold_materialize gold_inject
      gold_release gold_retry current_objects_def campaign_roots_def)

lemma gold_backend_reach: "backend_reach gold_backend0" "backend_reach gold_backend3" "backend_reach gold_backend4"
proof -
  show r: "backend_reach gold_backend0" by (rule backend_reach.init [OF gold_init(1)])
  show r: "backend_reach gold_backend3"
    using backend_reach.allocate [OF backend_reach.allocate [OF backend_reach.allocate [OF r gold_allocate(1)]
        gold_allocate(2)] gold_allocate(3)] .
  show "backend_reach gold_backend4" by (rule backend_reach.inject [OF r gold_inject(1)])
qed

lemma gold_runs: "coord_runs False gold_coord0" "coord_runs False gold_coord3" "coord_runs False gold_coord4"
  "coord_runs False gold_coord5" "coord_runs False gold_coord6" "coord_runs False gold_coord7"
proof -
  show r0: "coord_runs False gold_coord0"
    by (rule coord_runs.init [OF gold_init(2) gold_backend_reach(1)]) simp
  have "\<not> strands (Inr gold_cancelled) gold_coord1" by (simp add: strands_def)
  then have r2: "coord_runs False gold_coord2"
    using coord_runs.cancel [OF coord_runs.admit [OF r0 gold_admit(1)] gold_cancel] by simp
  show r3: "coord_runs False gold_coord3" by (rule coord_runs.admit [OF r2 gold_admit(2)])
  show r4: "coord_runs False gold_coord4" by (rule coord_runs.materialize [OF r3 gold_materialize])
  show r5: "coord_runs False gold_coord5"
    using coord_runs.inject [of False gold_coord4 golden_bind1] r4 gold_inject by simp
  show r6: "coord_runs False gold_coord6" by (rule coord_runs.release [OF r5 gold_release])
  show "coord_runs False gold_coord7" by (rule coord_runs.retry [OF r6 gold_retry])
qed

lemma gold_reach: "coord_reach gold_coord0" "coord_reach gold_coord3" "coord_reach gold_coord4"
  "coord_reach gold_coord5" "coord_reach gold_coord6" "coord_reach gold_coord7"
  using gold_runs by (auto simp: coord_reach_def)

end
