(* ===== verification/Device_Properties.thy ===== *)
theory Device_Properties
  imports Device_Outcomes Device_Campaign
begin

text \<open>
  The properties of the device allocation lease oracle, with their witnesses on the states of the
  golden campaign.
\<close>

section \<open>The golden campaign\<close>

lemma golden_hex:
  "from_hex 0x9cb59d992fd5e0ada234f70f8113c1978ca576988144a62c1ccf554c1622820c = golden_authority"
  "from_hex 0xf2b861b318c11f007fe94b8796a13eb94bb49c001f670dfdf0c6eae14b45324f = golden_quote0"
  "from_hex 0x9c4f99ce7d60ef3d53b40f30c8abca0791e2fc4a0be2f2053bdc67825372704f = golden_quote1"
  "from_hex 0x30855f74cd6211672a90394e1080ae6657c7019df4248aa873c5a9139ea82aae = golden_quote2"
  "from_hex 0x3a9de9c57e4ad39c820e439965322bc8f0110d978bcb01c9e4fc1c1509215d8e = golden_manifest"
  "from_hex 0x2bb3c84cccbab6fd65e803e2dd645b3b825e8f433562ed8767c29dd7f8dd73b0 = golden_parent"
  "from_hex 0xade7fd932b2d2a3f827b0d3368735f38f65c207dcce035d637669a4a3d72f229 = golden_request"
  "from_hex 0x61b24a34f6cd886c12e9fdda7bc2b986fe467b3493d58bdb2d4a79d123843691 = golden_child1"
  "from_hex 0x9b1cc692024666a2235634bf5360e72e5c00d47703f36c284602369311dbfea9 = golden_admission1"
  "from_hex 0x9cf1c97a579d687846d48f63207b71b31ecd020d8f43e2d81d518adea9d7e912 = golden_cancelled"
  "from_hex 0x937fe7a990c712997ba4677ad086d5aa722d0a0fee9ec183a0810911e7539057 = golden_child2"
  "from_hex 0x4e15ba09b470c1fefdf68d32544fc56c00c771a7a40c9dfb095f97d7aa659199 = golden_admission2"
  "from_hex 0x1d04656e70f498a1c2e304716071687e97ef036c625196269b8ca2b2b21ed193 = golden_call0"
  "from_hex 0xaa760b751b316c2ae90cf171bffc281a80a8f644227be56648b3b71ac897b172 = golden_call1"
  "from_hex 0x56f72de627f18b795146df2af0b3ca425901300d3fbb1f04dc72cfbd40ea152e = golden_call2"
  "from_hex 0xe8ffbb4d54493a0411f26d7d523063aaffe0342bb6bfda1be943a08fb1298cb9 = golden_object0"
  "from_hex 0x705a4e183e0e631065b8455f8f74ec259f3c319b673fcf2efabee95a0fd28c0c = golden_object1"
  "from_hex 0xabc474a8495b67b44ce2edd54dd363261534b3e1f33c49269537e062ace3c07b = golden_object2"
  "from_hex 0x29b38cab3cc7d7aa06959ce3e9f19612742bf22d3d292b22527b220f8d6b40b6 = golden_object_set"
  "from_hex 0xe42a511222aa3f91b853a810b5c5f21bb49ca8d3dcb0bf7a1a42792b1fd2c6b6 = golden_lease"
  "from_hex 0xc7ba3cd55db25c4066520d1f99536f4c39bbc8e4d5e04308e495e2899d289601 = golden_outstanding"
  "from_hex 0xeb4ded83c6ab2327f083c54bbb07943374ffe245e4c77ccf88233b6b527c5bdb = golden_recovery"
  "from_hex 0xfa5fb28efc490c4be5f2060e58e21b6b77f0b574c33e6016ee046b48e19199d0 = golden_released"
  by (simp_all add: from_hex_def le_bytes_numeral golden_roots)

text \<open>
  On the fixture of the repository, the campaign of its conformance test (admit and cancel; admit,
  materialize, release with one injected failure, retry) returns at every step, and the twenty-four
  roots it compares are the literal digests of that test: SHA-256, every transcript, the integrity
  words of the receipts, the alignment of the quotes and the order of the entries are those of the code.
\<close>

theorem campaign_golden_roots:
  "Option.bind (returned make_fixture) campaign = Some
      [from_hex 0x561a5b05d02d933773147d26b3686b845900ed8896a4254f27f3a3bfdeb19034,
       from_hex 0x9cb59d992fd5e0ada234f70f8113c1978ca576988144a62c1ccf554c1622820c,
       from_hex 0xf2b861b318c11f007fe94b8796a13eb94bb49c001f670dfdf0c6eae14b45324f,
       from_hex 0x9c4f99ce7d60ef3d53b40f30c8abca0791e2fc4a0be2f2053bdc67825372704f,
       from_hex 0x30855f74cd6211672a90394e1080ae6657c7019df4248aa873c5a9139ea82aae,
       from_hex 0x3a9de9c57e4ad39c820e439965322bc8f0110d978bcb01c9e4fc1c1509215d8e,
       from_hex 0x2bb3c84cccbab6fd65e803e2dd645b3b825e8f433562ed8767c29dd7f8dd73b0,
       from_hex 0xade7fd932b2d2a3f827b0d3368735f38f65c207dcce035d637669a4a3d72f229,
       from_hex 0x61b24a34f6cd886c12e9fdda7bc2b986fe467b3493d58bdb2d4a79d123843691,
       from_hex 0x9b1cc692024666a2235634bf5360e72e5c00d47703f36c284602369311dbfea9,
       from_hex 0x9cf1c97a579d687846d48f63207b71b31ecd020d8f43e2d81d518adea9d7e912,
       from_hex 0x937fe7a990c712997ba4677ad086d5aa722d0a0fee9ec183a0810911e7539057,
       from_hex 0x4e15ba09b470c1fefdf68d32544fc56c00c771a7a40c9dfb095f97d7aa659199,
       from_hex 0x1d04656e70f498a1c2e304716071687e97ef036c625196269b8ca2b2b21ed193,
       from_hex 0xaa760b751b316c2ae90cf171bffc281a80a8f644227be56648b3b71ac897b172,
       from_hex 0x56f72de627f18b795146df2af0b3ca425901300d3fbb1f04dc72cfbd40ea152e,
       from_hex 0xe8ffbb4d54493a0411f26d7d523063aaffe0342bb6bfda1be943a08fb1298cb9,
       from_hex 0x705a4e183e0e631065b8455f8f74ec259f3c319b673fcf2efabee95a0fd28c0c,
       from_hex 0xabc474a8495b67b44ce2edd54dd363261534b3e1f33c49269537e062ace3c07b,
       from_hex 0x29b38cab3cc7d7aa06959ce3e9f19612742bf22d3d292b22527b220f8d6b40b6,
       from_hex 0xe42a511222aa3f91b853a810b5c5f21bb49ca8d3dcb0bf7a1a42792b1fd2c6b6,
       from_hex 0xc7ba3cd55db25c4066520d1f99536f4c39bbc8e4d5e04308e495e2899d289601,
       from_hex 0xeb4ded83c6ab2327f083c54bbb07943374ffe245e4c77ccf88233b6b527c5bdb,
       from_hex 0xfa5fb28efc490c4be5f2060e58e21b6b77f0b574c33e6016ee046b48e19199d0]"
  by (simp add: gold_make_fixture gold_campaign golden_hex hex_values)

section \<open>The backend\<close>

text \<open>
  C23. In every state the reference backend reaches by allocations, frees and injected failures, however
  they end, the bytes it counts are those of the registered objects and within its limit, there are at
  most as many objects as slots, no two objects share a slot, an ordinal or a key, and they all belong
  to the one active admission, which is absent exactly when there is no object.
\<close>

theorem backend_account:
  assumes "backend_reach b"
  shows "b_used_bytes b = sum_list (map (\<lambda>r. bo_allocated_bytes (obj_item r)) (b_objects b))
    \<and> b_used_bytes b \<le> au_max_total_device_bytes (b_authority b)
    \<and> live_objects b \<le> au_maximum_live_objects (b_authority b)
    \<and> distinct (map fst (b_objects b)) \<and> distinct (used_slots b)
    \<and> set (used_slots b) \<subseteq> {0 ..< au_maximum_live_objects (b_authority b)}
    \<and> distinct (map (\<lambda>r. ca_ordinal (obj_call r)) (b_objects b))
    \<and> (\<forall>r \<in> set (b_objects b). ca_admission_sha256 (obj_call r) = b_active_admission_sha256 b)
    \<and> (b_active_admission_sha256 b = ZERO_DIGEST \<longleftrightarrow> b_objects b = [])"
proof -
  note ok = backend_reach_ok [OF assms]
  have "set (used_slots b) \<subseteq> {0 ..< au_maximum_live_objects (b_authority b)}"
    using ok by (auto simp: backend_ok_def record_ok_def used_slots_map)
  then show ?thesis using ok by (simp add: backend_ok_def record_ok_def object_bytes_def)
qed

theorem backend_account_witness:
  "backend_reach gold_backend4 \<and> b_used_bytes gold_backend4 = 8192
    \<and> b_used_bytes gold_backend4 = sum_list (map (\<lambda>r. bo_allocated_bytes (obj_item r)) (b_objects gold_backend4))"
  using backend_account [OF gold_backend_reach(3)] gold_backend_reach(3) by simp

text \<open>
  An allocation followed by the free of the object it returned restores the backend, but for the
  generation, which is never used again.
\<close>

theorem allocate_then_free:
  assumes "backend_reach b" "allocate c b = (Inr item, b')"
    and "b_fail_free_binding b \<noteq> Some (ca_binding_sha256 c)"
  shows "free item b' = (Inr (), b\<lparr>b_next_generation := b_next_generation b + 1\<rparr>)"
  by (rule free_allocated [OF backend_reach_ok [OF assms(1)] assms(2,3)])

theorem allocate_then_free_witness:
  "free gold_object0 gold_backend1 = (Inr (), gold_backend0\<lparr>b_next_generation := 2\<rparr>)"
  using allocate_then_free [OF gold_backend_reach(1) gold_allocate(1)] by simp

text \<open>
  An operation of the backend that raises leaves its objects, bytes, ordinals and admission as they
  were. A free raises only for a handle that is not registered or for an injected failure; its missing
  ordinal, and the missing slot of an allocation, cannot happen.
\<close>

lemma scalars_pass_slot [simp]:
  "u64D v \<noteq> Inl NoFreeSlot" "u32D v \<noteq> Inl NoFreeSlot" "digestD d \<noteq> Inl NoFreeSlot"
  "u64sD vs \<noteq> Inl NoFreeSlot" "le vs \<noteq> Inl NoFreeSlot" "digestsD ds \<noteq> Inl NoFreeSlot"
  "add_u64D x y \<noteq> Inl NoFreeSlot"
  by (auto simp: add_u64D_def bindE_Inl Let_def split: if_splits dest!: error_sources)

lemma hash_passes_slot [simp]: "\<forall>c \<in> set cs. c \<noteq> Inl NoFreeSlot \<Longrightarrow> hash_chunks d cs \<noteq> Inl NoFreeSlot"
  using hash_chunks_Inl by blast

lemma calls_pass_slot [simp]: "validate_allocation_call c \<noteq> Inl NoFreeSlot"
  by (simp add: validate_allocation_call_def allocation_call_root_def bindE_Inl Let_def)

lemma identity_errors:
  "bindE (fake_object_identity a s g d) (\<lambda>i. make_backend_object c i g) \<noteq> Inl NoFreeSlot"
  by (simp add: bindE_Inl fake_object_identity_def make_backend_object_def backend_object_root_def
      validate_backend_object_def Let_def)

lemma quotes_pass_slot [simp]: "make_fake_quote a d n \<noteq> Inl NoFreeSlot"
proof -
  have "validate_authority a \<noteq> Inl NoFreeSlot"
    by (simp add: validate_authority_def authority_root_def bindE_Inl Let_def)
  then show ?thesis
    by (simp add: bindE_Inl make_fake_quote_def align_forward_def make_quote_def quote_root_def
        validate_quote_def Let_def)
qed

lemma checks_errors:
  assumes "backend_ok b"
  shows "allocate_checks c b \<noteq> Inl NoFreeSlot"
proof
  assume e: "allocate_checks c b = Inl NoFreeSlot"
  then have f: "int (length (b_objects b)) < au_maximum_live_objects (b_authority b)"
      "first_free (nat (au_maximum_live_objects (b_authority b))) 0 (used_slots b) = None"
    by (auto simp: allocate_checks_def bindE_Inl split: if_splits option.splits)
  then show False
    using first_free_defined [of "used_slots b" "nat (au_maximum_live_objects (b_authority b))"]
    by (simp add: used_slots_map zless_nat_eq_int_zless)
qed

theorem backend_errors_keep_state:
  assumes "backend_reach b"
  shows "(\<forall>c e b'. allocate c b = (Inl e, b') \<longrightarrow> e \<noteq> NoFreeSlot
      \<and> b' \<in> {b, b\<lparr>b_next_generation := b_next_generation b + 1\<rparr>})
    \<and> (\<forall>item e b'. free item b = (Inl e, b') \<longrightarrow> e = StaleObject \<and> b' = b
      \<or> e = FreeFailure \<and> b' = b\<lparr>b_fail_free_binding := None\<rparr>)"
proof (intro conjI allI impI)
  note ok = backend_reach_ok [OF assms]
  show "e \<noteq> NoFreeSlot" if "allocate c b = (Inl e, b')" for c e b'
    using that checks_errors [OF ok] identity_errors
    by (auto simp: allocate_def Let_def split: sum.splits prod.splits)
  show "b' \<in> {b, b\<lparr>b_next_generation := b_next_generation b + 1\<rparr>}" if "allocate c b = (Inl e, b')" for c e b'
    using that by (cases rule: allocate_cases) auto
  show "e = StaleObject \<and> b' = b \<or> e = FreeFailure \<and> b' = b\<lparr>b_fail_free_binding := None\<rparr>"
    if "free item b = (Inl e, b')" for item e b'
    using ok that by (cases rule: free_cases) auto
qed

theorem backend_errors_keep_state_witness:
  "free gold_object1 gold_backend4 = (Inl FreeFailure, gold_backend4\<lparr>b_fail_free_binding := None\<rparr>)"
proof -
  have "fst (free gold_object1 gold_backend4) = Inl FreeFailure" by (simp add: free_def)
  then obtain b' where "free gold_object1 gold_backend4 = (Inl FreeFailure, b')"
    by (cases "free gold_object1 gold_backend4") simp
  with conjunct2 [OF backend_errors_keep_state [OF gold_backend_reach(3)]] show ?thesis by blast
qed

section \<open>The coordinator\<close>

text \<open>
  C26. Every value a reachable coordinator holds is sealed: its request validates against its authority,
  selection, parent and manifest; the admission and the lease validate, the lease is of that admission
  and generation, and the generation is below the next one; every registered object validates against
  the call it was made for.
\<close>

theorem coordinator_values_sealed:
  assumes "coord_reach k"
  shows "validate_request (co_request k) (co_authority k) (co_selection k) (co_parent k) (co_manifest k)
      (co_entries k) = Inr ()
    \<and> (\<forall>r \<in> set (b_objects (co_backend k)). validate_backend_object (obj_item r) (obj_call r) = Inr ())
    \<and> (case co_live k of None \<Rightarrow> True | Some live \<Rightarrow>
        validate_admission (li_admission live) = Inr ()
        \<and> ad_generation (li_admission live) < co_next_generation k
        \<and> (case li_lease live of None \<Rightarrow> li_state live = Admitted | Some l \<Rightarrow>
            validate_lease l = Inr () \<and> ls_generation l = ad_generation (li_admission live)
            \<and> ls_admission_sha256 l = ad_admission_sha256 (li_admission live)))"
proof -
  note ok = coord_reach_ok [OF assms] and s = coord_reach_sealed [OF assms]
  show ?thesis using ok s
    by (auto simp: coord_ok_def backend_ok_def record_ok_def sealed_def lease_of_def phase_ok_def
        split: option.splits live_phase.splits)
qed

theorem coordinator_values_sealed_witness:
  "coord_reach gold_coord6 \<and> validate_lease gold_lease = Inr ()
    \<and> validate_backend_object gold_object1 gold_call1 = Inr () \<and> ls_generation gold_lease = 2"
  using coordinator_values_sealed [OF gold_reach(5)] gold_reach(5) by simp

text \<open>
  C22. Bytes are conserved between the coordinator and its backend, whatever calls are made and whether they
  return or raise. The backend never holds more than the bytes requested. With a live admission the whole
  request is charged, without one nothing is. A lease says that it has the charged bytes and the requested
  number of objects, and until it is released it has exactly those: they are gone at once in a release whose
  receipt cannot be sealed. A lease in recovery has at most one object left, one of its own. In a history in
  which no admission was cancelled while it had objects registered, the objects of an admission are those it
  records, and without a live admission no object is registered.
\<close>

theorem coordinator_conserves_bytes:
  assumes "coord_runs stranded k"
  shows "b_used_bytes (co_backend k) \<le> rq_total_device_bytes (co_request k)
    \<and> (case co_live k of
        None \<Rightarrow> co_charged_device_bytes k = 0
          \<and> (\<not> stranded \<longrightarrow> b_objects (co_backend k) = [] \<and> b_used_bytes (co_backend k) = 0)
      | Some live \<Rightarrow> co_charged_device_bytes k = rq_total_device_bytes (co_request k)
          \<and> (case li_state live of
              Admitted \<Rightarrow> li_lease live = None
                \<and> (\<not> stranded \<longrightarrow> map obj_item (b_objects (co_backend k)) = li_objects live)
            | Live \<Rightarrow> (\<exists>l. li_lease live = Some l \<and> ls_materialized_bytes l = co_charged_device_bytes k
                \<and> ls_allocation_count l = rq_allocation_count (co_request k))
                \<and> (map obj_item (b_objects (co_backend k)) = li_objects live
                     \<and> b_used_bytes (co_backend k) = co_charged_device_bytes k
                     \<and> live_objects (co_backend k) = rq_allocation_count (co_request k)
                   \<or> b_objects (co_backend k) = [] \<and> li_target_outcome live = OUTCOME_RELEASED)
            | Recovery \<Rightarrow> live_objects (co_backend k) \<le> 1
                \<and> set (map obj_item (b_objects (co_backend k))) \<subseteq> set (li_objects live)))"
proof -
  note ok = coord_runs_ok [OF assms] and a = coord_runs_accounted [OF assms]
  have b: "b_used_bytes (co_backend k) = object_bytes (co_backend k)" "backend_ok (co_backend k)"
    using ok by (simp_all add: coord_ok_def backend_ok_def)
  have r: "rq_total_device_bytes (co_request k) = charged_sum (co_entries k)"
      "rq_allocation_count (co_request k) = int (length (co_entries k))" "\<forall>e \<in> set (co_entries k). entry_ok e"
    using ok request_facts(2,3,5) by (fastforce simp: coord_ok_def)+
  have "b_used_bytes (co_backend k) \<le> rq_total_device_bytes (co_request k)"
    using registered_bytes [OF b(2) r(3)] ok by (simp add: b(1) r(1) coord_ok_def)
  moreover have "?thesis" if u: "b_used_bytes (co_backend k) \<le> rq_total_device_bytes (co_request k)"
  proof (cases "co_live k")
    case None
    with u ok a b show ?thesis by (auto simp: coord_ok_def accounted_def object_bytes_def)
  next
    case (Some live)
    with ok have p: "phase_ok k live" "co_charged_device_bytes k = rq_total_device_bytes (co_request k)"
      by (simp_all add: coord_ok_def)
    show ?thesis
    proof (cases "li_state live")
      case Admitted
      with u p a Some show ?thesis by (simp add: phase_ok_def accounted_def)
    next
      case Live
      have "map obj_item (b_objects (co_backend k)) = li_objects live" "object_bytes (co_backend k) = charged_sum (co_entries k)"
          "length (b_objects (co_backend k)) = length (co_entries k)"
        if "pairs (co_backend k) = zip (li_objects live) (li_calls live)"
      proof -
        have i: "inventory_ok (co_entries k) live" using p(1) Live by (simp add: phase_ok_def)
        show "object_bytes (co_backend k) = charged_sum (co_entries k)"
          "length (b_objects (co_backend k)) = length (co_entries k)" by (rule live_bytes [OF i that])+
        show "map obj_item (b_objects (co_backend k)) = li_objects live"
          unfolding pairs_items [symmetric] that using i by (simp add: inventory_ok_def)
      qed
      with Live u p r b Some show ?thesis by (auto simp: phase_ok_def live_objects_def)
    next
      case Recovery
      have "set (map obj_item (b_objects (co_backend k))) \<subseteq> set (li_objects live)"
        unfolding pairs_items [symmetric] using p(1) Recovery by (force simp: phase_ok_def dest: set_zip_leftD)
      with Recovery u p Some show ?thesis by (simp add: phase_ok_def live_objects_def)
    qed
  qed
  ultimately show ?thesis by blast
qed

theorem coordinator_conserves_bytes_witness:
  "coord_runs False gold_coord4 \<and> b_used_bytes gold_backend3 = 8192 \<and> ls_materialized_bytes gold_lease = 8192
    \<and> live_objects gold_backend3 = 3"
  using coordinator_conserves_bytes [OF gold_runs(3)] gold_runs(3) by simp

text \<open>
  What the condition is for. Where a materialization raised after it registered objects, the cancellation of its
  admission returns a receipt for all the requested bytes, charges nothing any more and leaves the objects
  registered, without a handle of the coordinator for them; no later admission can be materialized.
\<close>

lemma cancel_strands_objects:
  assumes "coord_reach k" "b_objects (co_backend k) \<noteq> []" "cancel d k = (Inr t, k')"
  shows "te_returned_device_bytes t = rq_total_device_bytes (co_request k)" "co_live k' = None"
    "co_charged_device_bytes k' = 0" "b_objects (co_backend k') = b_objects (co_backend k)"
    "admit k' = (Inr d', k'') \<Longrightarrow> materialize d' k'' \<noteq> (Inr l, m)"
proof -
  from assms(3) show "te_returned_device_bytes t = rq_total_device_bytes (co_request k)"
    by (auto simp: cancel_def make_terminal_def result_simps Let_def split: sum.splits)
  from cancel_Inr [OF assms(3)] show k': "co_live k' = None" "co_charged_device_bytes k' = 0"
    "b_objects (co_backend k') = b_objects (co_backend k)" by (simp_all add: finish_def)
  show "materialize d' k'' \<noteq> (Inr l, m)" if a: "admit k' = (Inr d', k'')"
  proof
    assume z: "materialize d' k'' = (Inr l, m)"
    have ok: "coord_ok k''" using admit_ok [OF cancel_ok [OF coord_reach_ok [OF assms(1)] assms(3)] a] .
    have "b_objects (co_backend k'') \<noteq> []" using a assms(2) k'(3) by (auto elim!: admit_Inr)
    moreover from z have "b_objects (co_backend k'') = []"
      by (rule materialize_Inr) (rule materialized_from_nothing(1) [OF ok])
    ultimately show False by simp
  qed
qed

text \<open>
  C24. A release answers with a ticket exactly when the failure armed in the backend is for one of its
  objects. The ticket is then for that object alone: it counts one object, its bytes are the bytes the
  backend still holds, it names the released lease, it validates, and the backend holds nothing else.
\<close>

theorem release_ticket_exact:
  assumes "coord_reach k" "release l k = (Inr res, k')"
  shows "((\<exists>t. res = Inr t) \<longleftrightarrow> armed (co_backend k))
    \<and> (\<forall>t. res = Inr t \<longrightarrow> rt_outstanding_object_count t = 1
        \<and> rt_outstanding_bytes t = b_used_bytes (co_backend k') \<and> rt_lease_sha256 t = ls_lease_sha256 l
        \<and> validate_recovery t = Inr ()
        \<and> (\<exists>r. b_objects (co_backend k') = [r] \<and> r \<in> set (b_objects (co_backend k))
            \<and> b_fail_free_binding (co_backend k) = Some (obj_binding r)))"
proof -
  from assms(2) obtain live where live: "co_live k = Some live" "li_state live = Live" "li_lease live = Some l"
    and c: "cleanup (live\<lparr>li_target_outcome := OUTCOME_RELEASED, li_target_reason := REASON_NORMAL_RELEASE\<rparr>) k = (Inr res, k')"
    by (rule release_cleanup)
  have rel: "releasing k (live\<lparr>li_target_outcome := OUTCOME_RELEASED, li_target_reason := REASON_NORMAL_RELEASE\<rparr>)"
    using releasing_live [OF coord_reach_ok [OF assms(1)] live(1)] live(2) by simp
  show ?thesis
  proof (cases "armed (co_backend k)")
    case True
    show ?thesis
    proof (rule cleanup_armed [OF rel True c])
      fix t r live'
      assume "res = Inr t" "co_live k' = Some live'" "current_recovery live' k' = Inr t"
        "b_objects (co_backend k') = [r]" "r \<in> set (b_objects (co_backend k))"
        "b_fail_free_binding (co_backend k) = Some (obj_binding r)" "releasing k' live'"
        "li_lease live' = li_lease (live\<lparr>li_target_outcome := OUTCOME_RELEASED, li_target_reason := REASON_NORMAL_RELEASE\<rparr>)"
      with ticket_facts [of k' live' r t] live(3) True show ?thesis by auto
    qed
  next
    case False
    from cleanup_unarmed(1) [OF rel False c] False show ?thesis by auto
  qed
qed

theorem release_ticket_exact_witness:
  "armed gold_backend4 \<and> rt_outstanding_object_count gold_ticket = 1
    \<and> rt_outstanding_bytes gold_ticket = b_used_bytes gold_backend5"
  using release_ticket_exact [OF gold_reach(4) gold_release] by simp

text \<open>
  C25. The retry of the ticket a release returned ends the lease: it empties the backend and answers with the
  receipt of a release of all the requested bytes, sealed with the digest of its transcript, and then no lease
  is live and nothing is charged. There is never a second ticket. The one receipt that is refused is one whose
  transcript hashes to the digest that stands for none; its lease stays.
\<close>

theorem retry_ends_the_lease:
  assumes "coord_reach k" "co_live k = Some live" "release l k = (Inr (Inr t), k')"
  shows "\<exists>h k''. terminal_root (released_receipt (li_admission live) (co_request k) l ZERO_DIGEST) = Inr h
    \<and> b_objects (co_backend k'') = [] \<and> b_used_bytes (co_backend k'') = 0
    \<and> (if h = ZERO_DIGEST then retry_recovery t k' = (Inl InvalidTerminal, k'') \<and> co_live k'' = co_live k'
       else retry_recovery t k' = (Inr (Inl (released_receipt (li_admission live) (co_request k) l h)), k'')
         \<and> co_live k'' = None \<and> co_charged_device_bytes k'' = 0)"
proof -
  let ?live = "live\<lparr>li_target_outcome := OUTCOME_RELEASED, li_target_reason := REASON_NORMAL_RELEASE\<rparr>"
  from assms(3,2) have live: "li_state live = Live" "li_lease live = Some l"
    and c: "cleanup ?live k = (Inr (Inr t), k')"
    by (auto elim!: release_cleanup)
  have rel: "releasing k ?live" using releasing_live [OF coord_reach_ok [OF assms(1)] assms(2)] live(1) by simp
  have "armed (co_backend k)" using cleanup_unarmed(1) [OF rel _ c] by blast
  then obtain live' where
    t: "co_live k' = Some live'" "li_state live' = Recovery" "current_recovery live' k' = Inr t"
      "b_fail_free_binding (co_backend k') = None" "releasing k' live'"
      "li_admission live' = li_admission live" "li_lease live' = Some l"
    by (rule cleanup_armed [OF rel _ c]) (use live(2) in simp)
  have f: "\<not> armed (co_backend k')" using t(4) by (simp add: armed_def)
  have s: "sealed k'"
    using assms(1,3) coord_runs.release coord_runs_sealed unfolding coord_reach_def by metis
  have e: "retry_recovery t k' = cleanup live' k'" using t(1-3) by (simp add: retry_recovery_def)
  have q: "co_request k' = co_request k" using c by (auto simp: cleanup_def Let_def finish_def split: sum.splits prod.splits if_splits)
  from cleanup_unarmed_result [OF t(5) f s t(7)] show ?thesis
    unfolding t(6) q e t(1) by metis
qed

theorem retry_ends_the_lease_witness:
  "\<exists>h. terminal_root (released_receipt (li_admission gold_live3) (co_request gold_coord5) gold_lease ZERO_DIGEST) = Inr h
    \<and> h \<noteq> ZERO_DIGEST
    \<and> gold_released = released_receipt (li_admission gold_live3) (co_request gold_coord5) gold_lease h
    \<and> b_used_bytes gold_backend6 = 0"
proof -
  have "co_live gold_coord5 = Some gold_live3" by (simp add: gold_coord5_def)
  from retry_ends_the_lease [OF gold_reach(4) this gold_release] show ?thesis
    by (auto simp: gold_retry split: if_splits)
qed

section \<open>Receipts\<close>

text \<open>
  The integrity word of a receipt binds each of its fields: a receipt that carries the integrity
  word of a valid one and differs from it in exactly one of the fourteen words that the integrity word
  covers is refused.
\<close>

definition receipt_words :: "receipt \<Rightarrow> int list" where
  "receipt_words r = [rr_bank_epoch r, rr_slot_index r, rr_generation r, rr_owner_key r] @ claim_values (rr_claim r)"

lemma valid_receipt_words:
  assumes "validate_resource_receipt q = Inr ()"
  shows "\<forall>v \<in> set (receipt_words q). is_u64 v" "length (receipt_words q) = 14"
    "rr_integrity q = uint (mix_values (word_of_int RESOURCE_RECEIPT_INTEGRITY_DOMAIN) (receipt_words q))"
  using assms by (auto simp: validate_resource_receipt_def receipt_integrity_def result_simps receipt_words_def
      claim_bytes_def claim_values_def is_u64_def)

theorem receipt_integrity_binds:
  assumes "validate_resource_receipt r = Inr ()" "rr_integrity s = rr_integrity r" "i < 14"
    and "receipt_words s ! i \<noteq> receipt_words r ! i"
    and "\<forall>j < 14. j \<noteq> i \<longrightarrow> receipt_words s ! j = receipt_words r ! j"
  shows "validate_resource_receipt s \<noteq> Inr ()"
proof
  assume "validate_resource_receipt s = Inr ()"
  note r = valid_receipt_words [OF assms(1)] and s = valid_receipt_words [OF this]
  have m: "mix_values (word_of_int RESOURCE_RECEIPT_INTEGRITY_DOMAIN) (receipt_words s) =
      mix_values (word_of_int RESOURCE_RECEIPT_INTEGRITY_DOMAIN) (receipt_words r)"
    using r(3) s(3) assms(2) by (simp add: word_uint_eq_iff)
  have "receipt_words s ! i = receipt_words r ! i"
    by (rule mix_values_nth [OF m]) (use r(1,2) s(1,2) assms(3,5) in \<open>simp_all add: nth_mem\<close>)
  with assms(4) show False ..
qed

theorem receipt_integrity_binds_witness:
  "validate_resource_receipt (gold_parent\<lparr>rr_claim := gold_claim\<lparr>cv_queue_slots := 2\<rparr>\<rparr>) \<noteq> Inr ()"
proof (rule receipt_integrity_binds [OF gold_parent_ok, of _ 13])
  let ?s = "gold_parent\<lparr>rr_claim := gold_claim\<lparr>cv_queue_slots := 2\<rparr>\<rparr>"
  have w: "receipt_words gold_parent = [41, 0, 1, 9001, 64, 0, 0, 0, 0, 0, 0, 0, 0, 1]"
    "receipt_words ?s = [41, 0, 1, 9001, 64, 0, 0, 0, 0, 0, 0, 0, 0, 2]"
    by (simp_all add: receipt_words_def claim_values_def)
  show "receipt_words ?s ! 13 \<noteq> receipt_words gold_parent ! 13" by (simp add: w)
  have "receipt_words ?s = (receipt_words gold_parent)[13 := 2]" unfolding w by simp
  then show "\<forall>j < 14. j \<noteq> 13 \<longrightarrow> receipt_words ?s ! j = receipt_words gold_parent ! j" by simp
qed simp_all

end
