(* ===== verification/Wire_Reader.thy ===== *)
theory Wire_Reader
  imports Sha256
begin

text \<open>
  The class \<open>_Reader\<close> of \<open>bench/continuation_capsule.py\<close> and \<open>bench/continuation_bundle.py\<close>: a
  cursor over a byte string, here the bytes that are left, whose reads raise when the bytes run out.
  The locale \<open>wire_field\<close> is the contract between a read and the bytes written for its value: the
  read returns a value exactly when its bytes are next. Every field of a wire satisfies it, and
  sequences of fields inherit it.
\<close>

abbreviation U32_LIMIT :: int where "U32_LIMIT \<equiv> 4294967295"

definition rd_take :: "'e \<Rightarrow> nat \<Rightarrow> bytes \<Rightarrow> 'e + bytes \<times> bytes" where
  "rd_take truncated n r = (if length r < n then Inl truncated else Inr (take n r, drop n r))"

definition rd_u64 :: "'e \<Rightarrow> bytes \<Rightarrow> 'e + int \<times> bytes" where
  "rd_u64 truncated r = bindE (rd_take truncated 8 r) (\<lambda>(b, r). Inr (le_int b, r))"

definition rd_u32 :: "'e \<Rightarrow> bytes \<Rightarrow> 'e + int \<times> bytes" where
  "rd_u32 truncated r = bindE (rd_take truncated 4 r) (\<lambda>(b, r). Inr (le_int b, r))"

definition rd_digest :: "'e \<Rightarrow> bytes \<Rightarrow> 'e + bytes \<times> bytes" where
  "rd_digest truncated r = rd_take truncated 32 r"

text \<open>A number of fields of one kind, one after another.\<close>

primrec rd_list :: "(bytes \<Rightarrow> 'e + 'a \<times> bytes) \<Rightarrow> nat \<Rightarrow> bytes \<Rightarrow> 'e + 'a list \<times> bytes" where
  "rd_list rd 0 r = Inr ([], r)"
| "rd_list rd (Suc n) r = bindE (rd r) (\<lambda>(v, r). bindE (rd_list rd n r) (\<lambda>(vs, r). Inr (v # vs, r)))"

locale wire_field =
  fixes rd :: "bytes \<Rightarrow> 'e + 'a \<times> bytes" and wr :: "'a \<Rightarrow> bytes" and ok :: "'a \<Rightarrow> bool"
  assumes field: "rd r = Inr (v, rest) \<longleftrightarrow> ok v \<and> r = wr v @ rest"
begin

lemma read_written: "ok v \<Longrightarrow> rd (wr v @ rest) = Inr (v, rest)"
  by (simp add: field)

lemma prefix_free: "ok v \<Longrightarrow> ok w \<Longrightarrow> wr v @ rest = wr w @ rest' \<Longrightarrow> v = w \<and> rest = rest'"
  using field [of "wr v @ rest" v rest] field [of "wr v @ rest" w rest'] by simp

lemma fields: "rd_list rd n r = Inr (vs, rest) \<longleftrightarrow>
    length vs = n \<and> (\<forall>v \<in> set vs. ok v) \<and> r = concat (map wr vs) @ rest"
proof (induction n arbitrary: r vs rest)
  case (Suc n)
  show ?case by (cases vs) (auto simp: bindE_Inr field Suc.IH)
qed auto

end

lemma rd_take_Inr [result_simps]:
  "rd_take e n r = Inr (b, rest) \<longleftrightarrow> length b = n \<and> r = b @ rest"
  by (auto simp: rd_take_def not_less)

lemma le_bytes_le_int_n: "length b = n \<Longrightarrow> le_bytes n (le_int b) = b"
  using le_bytes_le_int [of b] by simp

lemma rd_u64_Inr [result_simps]: "rd_u64 e r = Inr (v, rest) \<longleftrightarrow> is_u64 v \<and> r = u64_bytes v @ rest"
proof
  assume "rd_u64 e r = Inr (v, rest)"
  then show "is_u64 v \<and> r = u64_bytes v @ rest"
    by (auto simp: rd_u64_def bindE_Inr rd_take_Inr)
next
  assume "is_u64 v \<and> r = u64_bytes v @ rest"
  then show "rd_u64 e r = Inr (v, rest)"
    by (auto simp: rd_u64_def bindE_Inr rd_take_Inr)
qed

lemma rd_u32_Inr [result_simps]:
  "rd_u32 e r = Inr (v, rest) \<longleftrightarrow> 0 \<le> v \<and> v \<le> U32_LIMIT \<and> r = le_bytes 4 v @ rest"
proof
  assume "rd_u32 e r = Inr (v, rest)"
  then obtain b where b: "length b = 4" "v = le_int b" "r = b @ rest"
    by (auto simp: rd_u32_def bindE_Inr rd_take_Inr)
  with le_int_bounds [of b] show "0 \<le> v \<and> v \<le> U32_LIMIT \<and> r = le_bytes 4 v @ rest"
    by (simp add: le_bytes_le_int_n)
next
  assume "0 \<le> v \<and> v \<le> U32_LIMIT \<and> r = le_bytes 4 v @ rest"
  then show "rd_u32 e r = Inr (v, rest)"
    by (auto simp: rd_u32_def bindE_Inr rd_take_Inr le_int_le_bytes intro!: exI [of _ "le_bytes 4 v"])
qed

lemma rd_digest_Inr [result_simps]:
  "rd_digest e r = Inr (d, rest) \<longleftrightarrow> length d = 32 \<and> r = d @ rest"
  by (simp add: rd_digest_def rd_take_Inr)

interpretation u64_field: wire_field "rd_u64 e" u64_bytes is_u64 for e
  by unfold_locales (rule rd_u64_Inr)

interpretation u32_field: wire_field "rd_u32 e" "le_bytes 4" "\<lambda>v. 0 \<le> v \<and> v \<le> U32_LIMIT" for e
  by unfold_locales (simp add: rd_u32_Inr)

interpretation digest_field: wire_field "rd_digest e" "\<lambda>d. d" "\<lambda>d. length d = 32" for e
  by unfold_locales (rule rd_digest_Inr)

end
