(* ===== verification/Capsule.thy ===== *)
theory Capsule
  imports Wire_Reader
begin

text \<open>
  \<open>bench/continuation_capsule.py\<close>: the fixed-size manifest of a continuation capsule, its encoder,
  its decoder, and the verification of a manifest against the objects it names. \<open>objects\<close> is the
  dictionary of a capsule as an association list with one pair per key.
\<close>

datatype (plugins only: code) capsule_error =
    CapU64 | CapDigest | CapZeroDigest | CapScalars | CapParent | CapKind | CapObject | CapObjectSet
  | CapLength | CapTruncated | CapMagic | CapAbi | CapDeclared | CapFlags | CapReference | CapTrailing
  | CapEnvelope | CapIdentity | CapSubstitution

section \<open>Constants\<close>

definition CAPSULE_MAGIC :: bytes where "CAPSULE_MAGIC = ascii ''GCCAPV01''"
abbreviation (input) CAPSULE_WIRE_ABI :: int where "CAPSULE_WIRE_ABI \<equiv> 0x4743434100000001"
abbreviation (input) CAPSULE_FLAGS :: int where "CAPSULE_FLAGS \<equiv> 1"
abbreviation (input) CAPSULE_HEADER_BYTES :: nat where "CAPSULE_HEADER_BYTES \<equiv> 144"
abbreviation (input) OBJECT_REF_BYTES :: nat where "OBJECT_REF_BYTES \<equiv> 48"

definition OBJECT_NAMES :: "string list" where
  "OBJECT_NAMES = [''model'', ''tokenizer'', ''execution_plan'', ''resource_state'', ''lane_state'',
     ''kv_state'', ''sampler_state'', ''output_state'', ''publication_receipt'']"

definition CAPSULE_BYTES :: nat where
  "CAPSULE_BYTES = CAPSULE_HEADER_BYTES + length OBJECT_NAMES * OBJECT_REF_BYTES + 32"

definition OBJECT_DOMAIN :: bytes where
  "OBJECT_DOMAIN = ascii ''glacier-continuation-object-v1'' @ [0]"
definition CAPSULE_ENVELOPE_DOMAIN :: bytes where
  "CAPSULE_ENVELOPE_DOMAIN = ascii ''glacier-continuation-capsule-wire-v1'' @ [0]"

lemma object_names_length [simp]: "length OBJECT_NAMES = 9"
  by (simp add: OBJECT_NAMES_def)

lemma capsule_bytes [simp]: "CAPSULE_BYTES = 608"
  by (simp add: CAPSULE_BYTES_def)

section \<open>Configuration\<close>

record capsule_config =
  cc_execution_abi :: int
  cc_request_epoch :: int
  cc_publication_sequence :: int
  cc_checkpoint_generation :: int
  cc_kv_tokens :: int
  cc_output_tokens :: int
  cc_challenge_sha256 :: bytes
  cc_parent_capsule_sha256 :: bytes

text \<open>\<open>_u64\<close> packs what it checks.\<close>

definition capsule_u64 :: "int \<Rightarrow> capsule_error + bytes" where
  "capsule_u64 v = (if 0 \<le> v \<and> v \<le> U64_MAX then Inr (u64_bytes v) else Inl CapU64)"

definition capsule_digest :: "bool \<Rightarrow> bytes \<Rightarrow> capsule_error + bytes" where
  "capsule_digest allow_zero v =
    (if length v \<noteq> 32 then Inl CapDigest
     else if \<not> allow_zero \<and> v = ZERO_DIGEST then Inl CapZeroDigest else Inr v)"

definition capsule_scalars :: "capsule_config \<Rightarrow> int list" where
  "capsule_scalars c =
    [cc_execution_abi c, cc_request_epoch c, cc_publication_sequence c, cc_checkpoint_generation c,
     cc_kv_tokens c, cc_output_tokens c]"

definition capsule_validate_config :: "capsule_config \<Rightarrow> capsule_error + unit" where
  "capsule_validate_config c =
     bindE (mapE capsule_u64 (capsule_scalars c)) (\<lambda>_.
       if cc_execution_abi c = 0 \<or> cc_request_epoch c = 0 \<or> cc_publication_sequence c = 0
          \<or> cc_kv_tokens c = 0 \<or> cc_output_tokens c = 0 \<or> cc_output_tokens c > cc_kv_tokens c
       then Inl CapScalars
       else bindE (capsule_digest False (cc_challenge_sha256 c)) (\<lambda>_.
         bindE (capsule_digest True (cc_parent_capsule_sha256 c)) (\<lambda>parent.
           let has_parent = parent \<noteq> ZERO_DIGEST in
           if cc_checkpoint_generation c = 0 \<and> has_parent
              \<or> cc_checkpoint_generation c \<noteq> 0 \<and> \<not> has_parent
           then Inl CapParent else Inr ())))"

section \<open>Object references\<close>

type_synonym object = "int \<times> bytes"
type_synonym objects = "(string \<times> object) list"

record object_ref =
  or_abi_version :: int
  or_byte_length :: int
  or_sha256 :: bytes

definition make_object_ref :: "int \<Rightarrow> object \<Rightarrow> capsule_error + object_ref" where
  "make_object_ref kind_index = (\<lambda>(abi_version, payload).
    if \<not> (0 \<le> kind_index \<and> kind_index < int (length OBJECT_NAMES)) then Inl CapKind
    else bindE (capsule_u64 abi_version) (\<lambda>abi.
      if abi_version = 0 \<or> payload = [] then Inl CapObject
      else bindE (capsule_u64 (int (length payload))) (\<lambda>len.
        bindE (capsule_u64 kind_index) (\<lambda>kind.
          Inr \<lparr>or_abi_version = abi_version, or_byte_length = int (length payload),
               or_sha256 = sha_parts OBJECT_DOMAIN [kind, abi, len, payload]\<rparr>))))"

text \<open>The references of all the objects, in the order of \<open>OBJECT_NAMES\<close>.\<close>

definition object_refs :: "objects \<Rightarrow> capsule_error + object_ref list" where
  "object_refs objects =
     mapE (\<lambda>(i, name). make_object_ref (int i) (the (map_of objects name))) (enumerate 0 OBJECT_NAMES)"

section \<open>The encoder\<close>

definition ref_parts :: "object_ref \<Rightarrow> (capsule_error + bytes) list" where
  "ref_parts r = [capsule_u64 (or_abi_version r), capsule_u64 (or_byte_length r), Inr (or_sha256 r)]"

text \<open>
  The chunks of the prefix. The two 32-bit words, the flags and the reserved word, are constants in
  range.
\<close>

definition capsule_chunks :: "capsule_config \<Rightarrow> object_ref list \<Rightarrow> (capsule_error + bytes) list" where
  "capsule_chunks c refs =
     [Inr CAPSULE_MAGIC, capsule_u64 CAPSULE_WIRE_ABI, capsule_u64 (int CAPSULE_BYTES),
      Inr (le_bytes 4 CAPSULE_FLAGS), Inr (le_bytes 4 0)]
     @ map capsule_u64 (capsule_scalars c)
     @ [Inr (cc_challenge_sha256 c), Inr (cc_parent_capsule_sha256 c)]
     @ concat (map ref_parts refs)"

definition capsule_encode :: "capsule_config \<Rightarrow> objects \<Rightarrow> capsule_error + bytes" where
  "capsule_encode c objects =
     bindE (capsule_validate_config c) (\<lambda>_.
       if set (map fst objects) \<noteq> set OBJECT_NAMES then Inl CapObjectSet
       else bindE (object_refs objects) (\<lambda>refs.
         bindE (mapE (\<lambda>p. p) (capsule_chunks c refs)) (\<lambda>parts.
           let prefix = concat parts in
           if length prefix \<noteq> CAPSULE_BYTES - 32 then Inl CapLength
           else Inr (prefix @ sha_parts CAPSULE_ENVELOPE_DOMAIN [prefix]))))"

section \<open>The decoder\<close>

record capsule_manifest =
  cm_config :: capsule_config
  cm_refs :: "object_ref list"
  cm_envelope_sha256 :: bytes

definition rd_ref :: "bytes \<Rightarrow> capsule_error + object_ref \<times> bytes" where
  "rd_ref r =
     bindE (rd_u64 CapTruncated r) (\<lambda>(abi_version, r).
     bindE (rd_u64 CapTruncated r) (\<lambda>(byte_length, r).
     bindE (rd_digest CapTruncated r) (\<lambda>(sha256, r).
       if abi_version = 0 \<or> byte_length = 0 then Inl CapReference
       else bindE (capsule_digest False sha256) (\<lambda>_.
         Inr (\<lparr>or_abi_version = abi_version, or_byte_length = byte_length, or_sha256 = sha256\<rparr>, r)))))"

definition rd_capsule_config :: "bytes \<Rightarrow> capsule_error + capsule_config \<times> bytes" where
  "rd_capsule_config r =
     bindE (rd_list (rd_u64 CapTruncated) 6 r) (\<lambda>(vs, r).
     bindE (rd_digest CapTruncated r) (\<lambda>(challenge, r).
     bindE (rd_digest CapTruncated r) (\<lambda>(parent, r).
       Inr (\<lparr>cc_execution_abi = vs ! 0, cc_request_epoch = vs ! 1, cc_publication_sequence = vs ! 2,
             cc_checkpoint_generation = vs ! 3, cc_kv_tokens = vs ! 4, cc_output_tokens = vs ! 5,
             cc_challenge_sha256 = challenge, cc_parent_capsule_sha256 = parent\<rparr>, r))))"

definition capsule_decode_manifest :: "bytes \<Rightarrow> capsule_error + capsule_manifest" where
  "capsule_decode_manifest encoded =
    (if length encoded \<noteq> CAPSULE_BYTES then Inl CapLength
     else bindE (rd_take CapTruncated 8 encoded) (\<lambda>(magic, r).
       if magic \<noteq> CAPSULE_MAGIC then Inl CapMagic
       else bindE (rd_u64 CapTruncated r) (\<lambda>(abi, r).
       if abi \<noteq> CAPSULE_WIRE_ABI then Inl CapAbi
       else bindE (rd_u64 CapTruncated r) (\<lambda>(declared, r).
       if declared \<noteq> int CAPSULE_BYTES then Inl CapDeclared
       else bindE (rd_u32 CapTruncated r) (\<lambda>(flags, r).
       if flags \<noteq> CAPSULE_FLAGS then Inl CapFlags
       else bindE (rd_u32 CapTruncated r) (\<lambda>(reserved, r).
       if reserved \<noteq> 0 then Inl CapFlags
       else bindE (rd_capsule_config r) (\<lambda>(config, r).
       bindE (capsule_validate_config config) (\<lambda>_.
       bindE (rd_list rd_ref (length OBJECT_NAMES) r) (\<lambda>(refs, r).
       bindE (rd_digest CapTruncated r) (\<lambda>(envelope, r).
       if r \<noteq> [] then Inl CapTrailing
       else if envelope \<noteq> sha_parts CAPSULE_ENVELOPE_DOMAIN [take (length encoded - 32) encoded]
       then Inl CapEnvelope
       else Inr \<lparr>cm_config = config, cm_refs = refs, cm_envelope_sha256 = envelope\<rparr>))))))))))"

definition capsule_decode_and_verify ::
  "bytes \<Rightarrow> capsule_config \<Rightarrow> objects \<Rightarrow> capsule_error + capsule_manifest" where
  "capsule_decode_and_verify encoded expected_config objects =
     bindE (capsule_decode_manifest encoded) (\<lambda>decoded.
     bindE (capsule_validate_config expected_config) (\<lambda>_.
       if cm_config decoded \<noteq> expected_config then Inl CapIdentity
       else bindE (capsule_encode expected_config objects) (\<lambda>wire.
         if wire \<noteq> encoded then Inl CapSubstitution else Inr decoded)))"

section \<open>Layout\<close>

text \<open>Every field of the manifest, and the manifest, is its bytes and nothing else.\<close>

definition ref_bytes :: "object_ref \<Rightarrow> bytes" where
  "ref_bytes r = u64_bytes (or_abi_version r) @ u64_bytes (or_byte_length r) @ or_sha256 r"

definition ref_ok :: "object_ref \<Rightarrow> bool" where
  "ref_ok r \<longleftrightarrow> is_u64 (or_abi_version r) \<and> is_u64 (or_byte_length r) \<and> or_abi_version r \<noteq> 0
     \<and> or_byte_length r \<noteq> 0 \<and> length (or_sha256 r) = 32 \<and> or_sha256 r \<noteq> ZERO_DIGEST"

definition config_bytes :: "capsule_config \<Rightarrow> bytes" where
  "config_bytes c = concat (map u64_bytes (capsule_scalars c)) @ cc_challenge_sha256 c @ cc_parent_capsule_sha256 c"

definition config_fits :: "capsule_config \<Rightarrow> bool" where
  "config_fits c \<longleftrightarrow> (\<forall>v \<in> set (capsule_scalars c). is_u64 v) \<and> length (cc_challenge_sha256 c) = 32
     \<and> length (cc_parent_capsule_sha256 c) = 32"

definition capsule_prefix :: "capsule_config \<Rightarrow> object_ref list \<Rightarrow> bytes" where
  "capsule_prefix c refs =
     CAPSULE_MAGIC @ u64_bytes CAPSULE_WIRE_ABI @ u64_bytes (int CAPSULE_BYTES) @ le_bytes 4 CAPSULE_FLAGS
     @ le_bytes 4 0 @ config_bytes c @ concat (map ref_bytes refs)"

lemma capsule_u64_Inr [result_simps]: "capsule_u64 v = Inr b \<longleftrightarrow> is_u64 v \<and> b = u64_bytes v"
  by (auto simp: capsule_u64_def is_u64_def)

lemma capsule_digest_Inr [result_simps]:
  "capsule_digest z v = Inr d \<longleftrightarrow> length v = 32 \<and> (z \<or> v \<noteq> ZERO_DIGEST) \<and> d = v"
  by (auto simp: capsule_digest_def)

lemma mapE_capsule_u64 [result_simps]:
  "mapE capsule_u64 vs = Inr bs \<longleftrightarrow> (\<forall>v \<in> set vs. is_u64 v) \<and> bs = map u64_bytes vs"
  using mapE_guard [of capsule_u64 is_u64 u64_bytes, OF capsule_u64_Inr] .

lemma capsule_magic_length [simp]: "length CAPSULE_MAGIC = 8"
  by (simp add: CAPSULE_MAGIC_def ascii_def)

lemma rd_ref_field: "rd_ref r = Inr (v, rest) \<longleftrightarrow> ref_ok v \<and> r = ref_bytes v @ rest"
proof -
  have "rd_ref r = Inr (v, rest) \<longleftrightarrow> (\<exists>a n d. is_u64 a \<and> is_u64 n \<and> length d = 32 \<and> a \<noteq> 0 \<and> n \<noteq> 0
      \<and> d \<noteq> ZERO_DIGEST \<and> r = u64_bytes a @ u64_bytes n @ d @ rest
      \<and> v = \<lparr>or_abi_version = a, or_byte_length = n, or_sha256 = d\<rparr>)"
    by (auto simp: rd_ref_def result_simps)
  then show ?thesis by (cases v) (auto simp: ref_ok_def ref_bytes_def)
qed

interpretation ref_field: wire_field rd_ref ref_bytes ref_ok
  by unfold_locales (rule rd_ref_field)

lemma length6: "length vs = 6 \<longleftrightarrow> (\<exists>a b c d e f. vs = [a, b, c, d, e, f])"
  by (auto simp: numeral_eq_Suc length_Suc_conv)

lemma rd_capsule_config_field:
  "rd_capsule_config r = Inr (c, rest) \<longleftrightarrow> config_fits c \<and> r = config_bytes c @ rest"
proof -
  have "rd_capsule_config r = Inr (c, rest) \<longleftrightarrow> (\<exists>vs p q. length vs = 6 \<and> (\<forall>v \<in> set vs. is_u64 v)
      \<and> length p = 32 \<and> length q = 32 \<and> r = concat (map u64_bytes vs) @ p @ q @ rest
      \<and> c = \<lparr>cc_execution_abi = vs ! 0, cc_request_epoch = vs ! 1, cc_publication_sequence = vs ! 2,
             cc_checkpoint_generation = vs ! 3, cc_kv_tokens = vs ! 4, cc_output_tokens = vs ! 5,
             cc_challenge_sha256 = p, cc_parent_capsule_sha256 = q\<rparr>)"
    by (auto simp: rd_capsule_config_def bindE_Inr rd_digest_Inr u64_field.fields)
  also have "\<dots> \<longleftrightarrow> config_fits c \<and> r = config_bytes c @ rest"
  proof
    assume "config_fits c \<and> r = config_bytes c @ rest"
    then show "\<exists>vs p q. length vs = 6 \<and> (\<forall>v \<in> set vs. is_u64 v)
      \<and> length p = 32 \<and> length q = 32 \<and> r = concat (map u64_bytes vs) @ p @ q @ rest
      \<and> c = \<lparr>cc_execution_abi = vs ! 0, cc_request_epoch = vs ! 1, cc_publication_sequence = vs ! 2,
             cc_checkpoint_generation = vs ! 3, cc_kv_tokens = vs ! 4, cc_output_tokens = vs ! 5,
             cc_challenge_sha256 = p, cc_parent_capsule_sha256 = q\<rparr>"
      by (intro exI [of _ "capsule_scalars c"] exI [of _ "cc_challenge_sha256 c"] exI [of _ "cc_parent_capsule_sha256 c"])
        (simp add: config_fits_def config_bytes_def capsule_scalars_def)
  qed (auto simp: config_fits_def config_bytes_def capsule_scalars_def length6)
  finally show ?thesis .
qed

interpretation config_field: wire_field rd_capsule_config config_bytes config_fits
  by unfold_locales (rule rd_capsule_config_field)

lemma config_valid_fits: "capsule_validate_config c = Inr u \<Longrightarrow> config_fits c"
  by (auto simp: capsule_validate_config_def result_simps config_fits_def Let_def)

lemma length_ref_bytes: "ref_ok r \<Longrightarrow> length (ref_bytes r) = 48"
  by (simp add: ref_ok_def ref_bytes_def)

lemma length_refs: "(\<forall>r \<in> set refs. length (or_sha256 r) = 32) \<Longrightarrow>
    length (concat (map ref_bytes refs)) = 48 * length refs"
  by (induction refs) (simp_all add: ref_bytes_def)

lemma length_config_bytes: "config_fits c \<Longrightarrow> length (config_bytes c) = 112"
  by (simp add: config_fits_def config_bytes_def capsule_scalars_def)

lemma length_capsule_prefix:
  "config_fits c \<Longrightarrow> length refs = 9 \<Longrightarrow> \<forall>r \<in> set refs. length (or_sha256 r) = 32 \<Longrightarrow>
     length (capsule_prefix c refs) = 576"
  using length_refs [of refs] by (simp add: capsule_prefix_def length_config_bytes)

lemma capsule_decode_layout:
  "capsule_decode_manifest bs = Inr d \<longleftrightarrow>
     capsule_validate_config (cm_config d) = Inr () \<and> length (cm_refs d) = 9
     \<and> (\<forall>r \<in> set (cm_refs d). ref_ok r)
     \<and> cm_envelope_sha256 d = sha_parts CAPSULE_ENVELOPE_DOMAIN [capsule_prefix (cm_config d) (cm_refs d)]
     \<and> bs = capsule_prefix (cm_config d) (cm_refs d) @ cm_envelope_sha256 d" (is "?l \<longleftrightarrow> ?r")
proof
  assume l: ?l
  then have n: "length bs = 608" by (simp add: capsule_decode_manifest_def split: if_splits)
  from l obtain magic r0 abi r1 declared r2 flags r3 reserved r4 r5 r6 where
    p: "rd_take CapTruncated 8 bs = Inr (magic, r0)" "magic = CAPSULE_MAGIC"
      "rd_u64 CapTruncated r0 = Inr (abi, r1)" "abi = CAPSULE_WIRE_ABI"
      "rd_u64 CapTruncated r1 = Inr (declared, r2)" "declared = int CAPSULE_BYTES"
      "rd_u32 CapTruncated r2 = Inr (flags, r3)" "flags = CAPSULE_FLAGS"
      "rd_u32 CapTruncated r3 = Inr (reserved, r4)" "reserved = 0"
      "rd_capsule_config r4 = Inr (cm_config d, r5)" "capsule_validate_config (cm_config d) = Inr ()"
      "rd_list rd_ref 9 r5 = Inr (cm_refs d, r6)" "rd_digest CapTruncated r6 = Inr (cm_envelope_sha256 d, [])"
      "cm_envelope_sha256 d = sha_parts CAPSULE_ENVELOPE_DOMAIN [take (length bs - 32) bs]"
    by (auto simp: capsule_decode_manifest_def bindE_Inr if_Inl_Inr)
  note q = p [unfolded rd_take_Inr rd_u64_Inr rd_u32_Inr rd_digest_Inr config_field.field ref_field.fields]
  from q(1-14) have bs: "bs = capsule_prefix (cm_config d) (cm_refs d) @ cm_envelope_sha256 d"
    by (simp add: capsule_prefix_def)
  have "length (cm_envelope_sha256 d) = 32" using q(14) by simp
  then have t: "take (length bs - 32) bs = capsule_prefix (cm_config d) (cm_refs d)" unfolding bs by simp
  have "cm_envelope_sha256 d = sha_parts CAPSULE_ENVELOPE_DOMAIN [capsule_prefix (cm_config d) (cm_refs d)]"
    using q(15) by (simp only: t)
  with q(12,13) bs show ?r by blast
next
  assume r: ?r
  define e c refs where "e = cm_envelope_sha256 d" and "c = cm_config d" and "refs = cm_refs d"
  have d: "d = \<lparr>cm_config = c, cm_refs = refs, cm_envelope_sha256 = e\<rparr>" by (simp add: e_def c_def refs_def)
  from r have v: "capsule_validate_config c = Inr ()" "length refs = 9" "\<forall>r \<in> set refs. ref_ok r"
    and e: "e = sha_parts CAPSULE_ENVELOPE_DOMAIN [capsule_prefix c refs]" and bs: "bs = capsule_prefix c refs @ e"
    by (simp_all add: e_def c_def refs_def)
  have f: "config_fits c" using v(1) by (rule config_valid_fits)
  have n: "length (capsule_prefix c refs) = 576"
    by (rule length_capsule_prefix) (use v f in \<open>auto simp: ref_ok_def\<close>)
  have le: "length e = 32" using e by simp
  have t: "take (length bs - 32) bs = capsule_prefix c refs" "length bs = 608" using n le by (simp_all add: bs)
  have t3: "take 576 bs = capsule_prefix c refs" using t by simp
  define r5 where "r5 = concat (map ref_bytes refs) @ e"
  define r4 where "r4 = config_bytes c @ r5"
  define r3 where "r3 = le_bytes 4 0 @ r4"
  define r2 where "r2 = le_bytes 4 CAPSULE_FLAGS @ r3"
  define r1 where "r1 = u64_bytes (int CAPSULE_BYTES) @ r2"
  define r0 where "r0 = u64_bytes CAPSULE_WIRE_ABI @ r1"
  note tails = r0_def r1_def r2_def r3_def r4_def r5_def
  have "rd_take CapTruncated 8 bs = Inr (CAPSULE_MAGIC, r0)"
    by (simp add: rd_take_Inr bs capsule_prefix_def tails)
  moreover have "rd_u64 CapTruncated r0 = Inr (CAPSULE_WIRE_ABI, r1)" "rd_u64 CapTruncated r1 = Inr (608, r2)"
    "rd_u32 CapTruncated r2 = Inr (CAPSULE_FLAGS, r3)" "rd_u32 CapTruncated r3 = Inr (0, r4)"
    by (simp_all add: rd_u64_Inr rd_u32_Inr is_u64_def r0_def r1_def r2_def r3_def)
  moreover have "rd_capsule_config r4 = Inr (c, r5)" using f by (simp add: config_field.field r4_def)
  moreover have "rd_list rd_ref 9 r5 = Inr (refs, e)" using v by (simp add: ref_field.fields r5_def)
  moreover have "rd_digest CapTruncated e = Inr (e, [])" using le by (simp add: rd_digest_Inr)
  ultimately show ?l
    by (simp add: capsule_decode_manifest_def t(2) v(1) d t3 e)
qed

section \<open>The decoder accepts exactly what the encoder writes\<close>

lemma make_object_ref_Inr:
  "make_object_ref k ob = Inr r \<longleftrightarrow> 0 \<le> k \<and> k < 9 \<and> is_u64 (fst ob) \<and> fst ob \<noteq> 0 \<and> snd ob \<noteq> []
     \<and> is_u64 (int (length (snd ob)))
     \<and> r = \<lparr>or_abi_version = fst ob, or_byte_length = int (length (snd ob)),
            or_sha256 = sha_parts OBJECT_DOMAIN [u64_bytes k, u64_bytes (fst ob), u64_bytes (int (length (snd ob))), snd ob]\<rparr>"
  by (cases ob) (auto simp: make_object_ref_def result_simps is_u64_def)

lemma mapE_Inr_all: "mapE f xs = Inr ys \<Longrightarrow> length ys = length xs \<and> (\<forall>i < length xs. f (xs ! i) = Inr (ys ! i))"
proof (induction xs arbitrary: ys)
  case (Cons x xs)
  then obtain y zs where "f x = Inr y" "mapE f xs = Inr zs" "ys = y # zs" by (auto simp: bindE_Inr)
  with Cons.IH [of zs] show ?case by (auto simp: nth_Cons split: nat.splits)
qed simp

lemma object_refs_Inr:
  assumes "object_refs objects = Inr refs"
  shows "length refs = 9"
    and "i < 9 \<Longrightarrow> make_object_ref (int i) (the (map_of objects (OBJECT_NAMES ! i))) = Inr (refs ! i)"
  using mapE_Inr_all [OF assms [unfolded object_refs_def]] by (auto simp: nth_enumerate_eq)

definition ref_fits :: "object_ref \<Rightarrow> bool" where
  "ref_fits r \<longleftrightarrow> is_u64 (or_abi_version r) \<and> is_u64 (or_byte_length r) \<and> or_abi_version r \<noteq> 0
     \<and> or_byte_length r \<noteq> 0 \<and> length (or_sha256 r) = 32"

lemma object_refs_fit: "object_refs objects = Inr refs \<Longrightarrow> r \<in> set refs \<Longrightarrow> ref_fits r"
  using object_refs_Inr [of objects refs] by (auto simp: in_set_conv_nth make_object_ref_Inr ref_fits_def)

lemma ref_bytes_inject: "ref_fits r \<Longrightarrow> ref_fits q \<Longrightarrow> ref_bytes r = ref_bytes q \<Longrightarrow> r = q"
  by (cases r, cases q) (simp add: ref_bytes_def ref_fits_def append_eq_append_conv u64_bytes_inject)

lemma refs_inject:
  assumes "concat (map ref_bytes rs) = concat (map ref_bytes qs)" "length rs = length qs"
    and fits: "\<forall>r \<in> set rs. ref_fits r" "\<forall>q \<in> set qs. ref_fits q"
  shows "rs = qs"
proof -
  have "length (ref_bytes r) = 48" if "ref_fits r" for r using that by (simp add: ref_bytes_def ref_fits_def)
  then have "\<forall>(x, y) \<in> set (zip (map ref_bytes rs) (map ref_bytes qs)). length x = length y"
    using fits by (auto dest!: set_zip_leftD set_zip_rightD simp: set_zip)
  then have "map ref_bytes rs = map ref_bytes qs" using assms(1,2) by (simp add: concat_eq_concat_iff)
  with fits ref_bytes_inject show ?thesis by (auto simp: list_eq_iff_nth_eq)
qed

lemma ref_ok_fits: "ref_ok r \<longleftrightarrow> ref_fits r \<and> or_sha256 r \<noteq> ZERO_DIGEST"
  by (auto simp: ref_ok_def ref_fits_def)

lemma mapE_map_Inr: "mapE (\<lambda>p. p) (map Inr xs) = Inr xs"
  by (induction xs) simp_all

lemma capsule_u64_ok: "is_u64 v \<Longrightarrow> capsule_u64 v = Inr (u64_bytes v)"
  by (simp add: capsule_u64_Inr)

lemma ref_parts_ok: "ref_fits r \<Longrightarrow> ref_parts r = map Inr [u64_bytes (or_abi_version r), u64_bytes (or_byte_length r), or_sha256 r]"
  by (simp add: ref_parts_def ref_fits_def capsule_u64_ok)

lemma refs_parts_ok:
  "\<forall>r \<in> set refs. ref_fits r \<Longrightarrow> concat (map ref_parts refs) =
     map Inr (concat (map (\<lambda>r. [u64_bytes (or_abi_version r), u64_bytes (or_byte_length r), or_sha256 r]) refs))"
  by (induction refs) (simp_all add: ref_parts_ok)

lemma capsule_chunks_ok:
  assumes "config_fits c" "\<forall>r \<in> set refs. ref_fits r"
  shows "\<exists>parts. mapE (\<lambda>p. p) (capsule_chunks c refs) = Inr parts \<and> concat parts = capsule_prefix c refs"
proof -
  let ?parts = "[CAPSULE_MAGIC, u64_bytes CAPSULE_WIRE_ABI, u64_bytes (int CAPSULE_BYTES), le_bytes 4 CAPSULE_FLAGS,
      le_bytes 4 0] @ map u64_bytes (capsule_scalars c) @ [cc_challenge_sha256 c, cc_parent_capsule_sha256 c]
      @ concat (map (\<lambda>r. [u64_bytes (or_abi_version r), u64_bytes (or_byte_length r), or_sha256 r]) refs)"
  have "map capsule_u64 (capsule_scalars c) = map Inr (map u64_bytes (capsule_scalars c))"
    using assms(1) by (simp add: config_fits_def capsule_u64_ok)
  then have "capsule_chunks c refs = map Inr ?parts"
    unfolding capsule_chunks_def refs_parts_ok [OF assms(2)] by (simp add: capsule_u64_ok is_u64_def)
  then have "mapE (\<lambda>p. p) (capsule_chunks c refs) = Inr ?parts" by (simp only: mapE_map_Inr)
  moreover have "concat (concat (map (\<lambda>r. [u64_bytes (or_abi_version r), u64_bytes (or_byte_length r), or_sha256 r]) refs))
      = concat (map ref_bytes refs)"
    by (induction refs) (simp_all add: ref_bytes_def)
  ultimately show ?thesis by (intro exI [of _ ?parts]) (simp add: capsule_prefix_def config_bytes_def)
qed

lemma capsule_encode_Inr:
  "capsule_encode c objects = Inr bs \<longleftrightarrow> capsule_validate_config c = Inr ()
     \<and> set (map fst objects) = set OBJECT_NAMES
     \<and> (\<exists>refs. object_refs objects = Inr refs
          \<and> bs = capsule_prefix c refs @ sha_parts CAPSULE_ENVELOPE_DOMAIN [capsule_prefix c refs])"
proof -
  have "bindE (mapE (\<lambda>p. p) (capsule_chunks c refs)) (\<lambda>parts. let prefix = concat parts in
           if length prefix \<noteq> CAPSULE_BYTES - 32 then Inl CapLength
           else Inr (prefix @ sha_parts CAPSULE_ENVELOPE_DOMAIN [prefix])) =
      Inr (capsule_prefix c refs @ sha_parts CAPSULE_ENVELOPE_DOMAIN [capsule_prefix c refs])"
    if "capsule_validate_config c = Inr ()" "object_refs objects = Inr refs" for refs
  proof -
    have fits: "config_fits c" "\<forall>r \<in> set refs. ref_fits r"
      using config_valid_fits that(1) object_refs_fit [OF that(2)] by blast+
    have "length (capsule_prefix c refs) = 576"
      by (rule length_capsule_prefix) (use fits object_refs_Inr(1) [OF that(2)] in \<open>auto simp: ref_fits_def\<close>)
    moreover obtain parts where "mapE (\<lambda>p. p) (capsule_chunks c refs) = Inr parts" "concat parts = capsule_prefix c refs"
      using capsule_chunks_ok [OF fits] by blast
    ultimately show ?thesis by (simp add: Let_def)
  qed
  then show ?thesis by (auto simp: capsule_encode_def bindE_Inr if_Inl_Inr)
qed

lemma capsule_exact:
  "capsule_decode_and_verify bs c objects = Inr d \<longleftrightarrow>
     capsule_encode c objects = Inr bs \<and> (\<exists>refs. object_refs objects = Inr refs
       \<and> (\<forall>r \<in> set refs. or_sha256 r \<noteq> ZERO_DIGEST)
       \<and> d = \<lparr>cm_config = c, cm_refs = refs,
              cm_envelope_sha256 = sha_parts CAPSULE_ENVELOPE_DOMAIN [capsule_prefix c refs]\<rparr>)"
    (is "?l \<longleftrightarrow> ?r")
proof
  assume ?l
  then have d: "capsule_decode_manifest bs = Inr d" "cm_config d = c" and e: "capsule_encode c objects = Inr bs"
    by (auto simp: capsule_decode_and_verify_def bindE_Inr if_Inl_Inr)
  from e obtain refs where refs: "object_refs objects = Inr refs"
    "bs = capsule_prefix c refs @ sha_parts CAPSULE_ENVELOPE_DOMAIN [capsule_prefix c refs]"
    by (auto simp: capsule_encode_Inr)
  from d have l: "length (cm_refs d) = 9" "\<forall>r \<in> set (cm_refs d). ref_ok r"
    "cm_envelope_sha256 d = sha_parts CAPSULE_ENVELOPE_DOMAIN [capsule_prefix c (cm_refs d)]"
    "bs = capsule_prefix c (cm_refs d) @ cm_envelope_sha256 d" "config_fits c"
    by (auto simp: capsule_decode_layout config_valid_fits)
  have "\<forall>r \<in> set refs. length (or_sha256 r) = 32" "\<forall>r \<in> set (cm_refs d). length (or_sha256 r) = 32"
    using object_refs_fit [OF refs(1)] l(2) by (auto simp: ref_fits_def ref_ok_def)
  then have n: "length (capsule_prefix c refs) = 576" "length (capsule_prefix c (cm_refs d)) = 576"
    using length_capsule_prefix [OF l(5)] object_refs_Inr(1) [OF refs(1)] l(1) by blast+
  then have "capsule_prefix c (cm_refs d) = capsule_prefix c refs" using l(4) refs(2) by simp
  then have "concat (map ref_bytes (cm_refs d)) = concat (map ref_bytes refs)"
    by (simp add: capsule_prefix_def)
  then have s: "cm_refs d = refs"
    by (rule refs_inject) (use l(1,2) object_refs_Inr(1) [OF refs(1)] object_refs_fit [OF refs(1)] in \<open>auto simp: ref_ok_fits\<close>)
  have "d = \<lparr>cm_config = c, cm_refs = refs, cm_envelope_sha256 = sha_parts CAPSULE_ENVELOPE_DOMAIN [capsule_prefix c refs]\<rparr>"
    using d(2) l(3) s by simp
  with e refs(1) l(2) s show ?r by (auto simp: ref_ok_def)
next
  assume r: ?r
  then obtain refs where refs: "object_refs objects = Inr refs" "\<forall>r \<in> set refs. or_sha256 r \<noteq> ZERO_DIGEST"
    "d = \<lparr>cm_config = c, cm_refs = refs, cm_envelope_sha256 = sha_parts CAPSULE_ENVELOPE_DOMAIN [capsule_prefix c refs]\<rparr>"
    by blast
  from r have e: "capsule_encode c objects = Inr bs" by blast
  from r refs(1) have v: "capsule_validate_config c = Inr ()"
    and bs: "bs = capsule_prefix c refs @ sha_parts CAPSULE_ENVELOPE_DOMAIN [capsule_prefix c refs]"
    by (auto simp: capsule_encode_Inr)
  from v bs refs object_refs_fit [OF refs(1)] object_refs_Inr(1) [OF refs(1)]
  have "capsule_decode_manifest bs = Inr d"
    by (simp add: capsule_decode_layout ref_ok_fits)
  with e v refs(3) show ?l by (simp add: capsule_decode_and_verify_def)
qed

end
