(* ===== verification/Bundle.thy ===== *)
theory Bundle
  imports Capsule
begin

text \<open>
  \<open>bench/continuation_bundle.py\<close>: the manifest of a continuation bundle, which ties a capsule to the
  tenant-scoped blobs that store its objects. Objects with one payload share one blob: every entry
  carries the ordinal of its blob, in the order in which the blobs first occur, and the totals count
  each blob once.
\<close>

datatype (plugins only: code) bundle_error =
    BndU64 | BndDigest | BndZeroDigest | BndParent | BndPayload | BndCapsuleRoot | BndComposition
  | BndCapsule capsule_error | BndCollision | BndLength | BndTruncated | BndMagic | BndAbi | BndDeclared
  | BndFlags | BndTotals | BndKind | BndEntry | BndBlobIdentity | BndOrdinal | BndTotalsMismatch
  | BndTrailing | BndEnvelope | BndConfig | BndInvalidCapsule | BndCapsuleBlob | BndMismatch

section \<open>Constants\<close>

definition BUNDLE_MAGIC :: bytes where "BUNDLE_MAGIC = ascii ''GCBNDV01''"
abbreviation (input) BUNDLE_WIRE_ABI :: int where "BUNDLE_WIRE_ABI \<equiv> 0x4743424E00000001"
abbreviation (input) BUNDLE_FLAGS :: int where "BUNDLE_FLAGS \<equiv> 7"
abbreviation (input) BUNDLE_HEADER_BYTES :: nat where "BUNDLE_HEADER_BYTES \<equiv> 240"
abbreviation (input) ENTRY_BYTES :: nat where "ENTRY_BYTES \<equiv> 96"

definition BUNDLE_BYTES :: nat where
  "BUNDLE_BYTES = BUNDLE_HEADER_BYTES + length OBJECT_NAMES * ENTRY_BYTES + 32"

definition BLOB_DOMAIN :: bytes where
  "BLOB_DOMAIN = ascii ''glacier-continuation-bundle-blob-v1'' @ [0]"
definition BUNDLE_ENVELOPE_DOMAIN :: bytes where
  "BUNDLE_ENVELOPE_DOMAIN = ascii ''glacier-continuation-bundle-wire-v1'' @ [0]"

lemma bundle_bytes [simp]: "BUNDLE_BYTES = 1136"
  by (simp add: BUNDLE_BYTES_def)

lemma bundle_magic_length [simp]: "length BUNDLE_MAGIC = 8"
  by (simp add: BUNDLE_MAGIC_def ascii_def)

section \<open>Configuration and blobs\<close>

record bundle_config =
  bc_tenant_scope_sha256 :: bytes
  bc_capsule_sha256 :: bytes
  bc_bundle_generation :: int
  bc_challenge_sha256 :: bytes
  bc_parent_bundle_sha256 :: bytes

definition bundle_u64 :: "int \<Rightarrow> bundle_error + bytes" where
  "bundle_u64 v = (if 0 \<le> v \<and> v \<le> U64_MAX then Inr (u64_bytes v) else Inl BndU64)"

definition bundle_digest :: "bool \<Rightarrow> bytes \<Rightarrow> bundle_error + bytes" where
  "bundle_digest allow_zero v =
    (if length v \<noteq> 32 then Inl BndDigest
     else if \<not> allow_zero \<and> v = ZERO_DIGEST then Inl BndZeroDigest else Inr v)"

definition bundle_validate_config :: "bundle_config \<Rightarrow> bundle_error + unit" where
  "bundle_validate_config c =
     bindE (bundle_digest False (bc_tenant_scope_sha256 c)) (\<lambda>_.
     bindE (bundle_digest False (bc_capsule_sha256 c)) (\<lambda>_.
     bindE (bundle_u64 (bc_bundle_generation c)) (\<lambda>_.
     bindE (bundle_digest False (bc_challenge_sha256 c)) (\<lambda>_.
     bindE (bundle_digest True (bc_parent_bundle_sha256 c)) (\<lambda>parent.
       let has_parent = parent \<noteq> ZERO_DIGEST in
       if bc_bundle_generation c = 0 \<and> has_parent \<or> bc_bundle_generation c \<noteq> 0 \<and> \<not> has_parent
       then Inl BndParent else Inr ())))))"

record blob_reference =
  br_byte_length :: int
  br_sha256 :: bytes

definition blob_ref :: "bytes \<Rightarrow> bytes \<Rightarrow> bundle_error + blob_reference" where
  "blob_ref tenant payload =
     bindE (bundle_digest False tenant) (\<lambda>_.
       if payload = [] then Inl BndPayload
       else bindE (bundle_u64 (int (length payload))) (\<lambda>len.
         Inr \<lparr>br_byte_length = int (length payload),
              br_sha256 = sha_parts BLOB_DOMAIN [tenant, len, payload]\<rparr>))"

section \<open>Entries and totals\<close>

record bundle_entry =
  be_kind :: int
  be_abi_version :: int
  be_byte_length :: int
  be_blob_ordinal :: int
  be_typed_sha256 :: bytes
  be_blob_sha256 :: bytes

text \<open>What both loops accumulate: the entries so far and the three totals.\<close>

record bundle_table =
  tb_entries :: "bundle_entry list"
  tb_logical_bytes :: int
  tb_unique_count :: int
  tb_unique_bytes :: int

definition empty_table :: bundle_table where
  "empty_table = \<lparr>tb_entries = [], tb_logical_bytes = 0, tb_unique_count = 0, tb_unique_bytes = 0\<rparr>"

text \<open>The search of both loops for the first earlier entry with the same blob digest.\<close>

definition prior_entry :: "bundle_table \<Rightarrow> bytes \<Rightarrow> (nat \<times> bundle_entry) option" where
  "prior_entry t sha = find (\<lambda>(_, e). be_blob_sha256 e = sha) (enumerate 0 (tb_entries t))"

text \<open>The end of both loop bodies: a new blob takes the next ordinal and is counted.\<close>

definition count_blob :: "bundle_table \<Rightarrow> bool \<Rightarrow> int \<Rightarrow> bundle_error + bundle_table" where
  "count_blob t fresh byte_length =
    (if fresh then
       bindE (bundle_u64 (tb_unique_count t + 1)) (\<lambda>_.
       bindE (bundle_u64 (tb_unique_bytes t + byte_length)) (\<lambda>_.
         Inr (t\<lparr>tb_unique_count := tb_unique_count t + 1,
                tb_unique_bytes := tb_unique_bytes t + byte_length\<rparr>)))
     else Inr t)"

definition add_entry :: "bundle_entry \<Rightarrow> bundle_table \<Rightarrow> bundle_table" where
  "add_entry e t = t\<lparr>tb_entries := tb_entries t @ [e]\<rparr>"

section \<open>The encoder\<close>

definition lift_capsule :: "capsule_error + 'a \<Rightarrow> bundle_error + 'a" where
  "lift_capsule m = (case m of Inl e \<Rightarrow> Inl (BndCapsule e) | Inr x \<Rightarrow> Inr x)"

definition encode_prior ::
  "objects \<Rightarrow> bundle_table \<Rightarrow> blob_reference \<Rightarrow> bytes \<Rightarrow> bundle_error + int option" where
  "encode_prior objects t ref payload =
    (case prior_entry t (br_sha256 ref) of None \<Rightarrow> Inr None
     | Some (previous_index, previous) \<Rightarrow>
         if be_byte_length previous \<noteq> br_byte_length ref
            \<or> snd (the (map_of objects (OBJECT_NAMES ! previous_index))) \<noteq> payload
         then Inl BndCollision else Inr (Some (be_blob_ordinal previous)))"

definition encode_entry ::
  "bytes \<Rightarrow> objects \<Rightarrow> bundle_table \<Rightarrow> nat \<times> string \<Rightarrow> bundle_error + bundle_table" where
  "encode_entry tenant objects t = (\<lambda>(index, name).
     let ob = the (map_of objects name) in
     bindE (lift_capsule (make_object_ref (int index) ob)) (\<lambda>typed.
     bindE (blob_ref tenant (snd ob)) (\<lambda>ref.
     bindE (bundle_u64 (tb_logical_bytes t + br_byte_length ref)) (\<lambda>_.
     bindE (encode_prior objects t ref (snd ob)) (\<lambda>prior.
     bindE (count_blob (t\<lparr>tb_logical_bytes := tb_logical_bytes t + br_byte_length ref\<rparr>) (prior = None)
         (br_byte_length ref)) (\<lambda>t'.
       Inr (add_entry \<lparr>be_kind = int index, be_abi_version = fst ob, be_byte_length = or_byte_length typed,
           be_blob_ordinal = (case prior of None \<Rightarrow> tb_unique_count t | Some k \<Rightarrow> k),
           be_typed_sha256 = or_sha256 typed, be_blob_sha256 = br_sha256 ref\<rparr> t')))))))"

definition encode_table :: "bytes \<Rightarrow> objects \<Rightarrow> bundle_error + bundle_table" where
  "encode_table tenant objects = foldE (encode_entry tenant objects) empty_table (enumerate 0 OBJECT_NAMES)"

definition entry_parts :: "bundle_entry \<Rightarrow> (bundle_error + bytes) list" where
  "entry_parts e = [bundle_u64 (be_kind e), bundle_u64 (be_abi_version e), bundle_u64 (be_byte_length e),
     bundle_u64 (be_blob_ordinal e), Inr (be_typed_sha256 e), Inr (be_blob_sha256 e)]"

definition bundle_chunks ::
  "bundle_config \<Rightarrow> int \<Rightarrow> bytes \<Rightarrow> bundle_table \<Rightarrow> (bundle_error + bytes) list" where
  "bundle_chunks c capsule_length capsule_blob t =
     [Inr BUNDLE_MAGIC, bundle_u64 BUNDLE_WIRE_ABI, bundle_u64 (int BUNDLE_BYTES),
      Inr (le_bytes 4 BUNDLE_FLAGS), Inr (le_bytes 4 0), bundle_u64 capsule_length,
      bundle_u64 (int (length OBJECT_NAMES)), bundle_u64 (tb_logical_bytes t),
      bundle_u64 (tb_unique_count t), bundle_u64 (tb_unique_bytes t), bundle_u64 (bc_bundle_generation c),
      Inr (bc_tenant_scope_sha256 c), Inr (bc_capsule_sha256 c), Inr capsule_blob,
      Inr (bc_challenge_sha256 c), Inr (bc_parent_bundle_sha256 c)]
     @ concat (map entry_parts (tb_entries t))"

text \<open>Errors of the capsule inside the \<open>try\<close> blocks become errors of the bundle.\<close>

definition or_raise :: "bundle_error \<Rightarrow> capsule_error + 'a \<Rightarrow> bundle_error + 'a" where
  "or_raise e m = (case m of Inl _ \<Rightarrow> Inl e | Inr x \<Rightarrow> Inr x)"

definition bundle_encode :: "bundle_config \<Rightarrow> bytes \<Rightarrow> objects \<Rightarrow> bundle_error + bytes" where
  "bundle_encode c capsule_wire objects =
     bindE (bundle_validate_config c) (\<lambda>_.
     bindE (or_raise BndComposition (capsule_decode_manifest capsule_wire)) (\<lambda>decoded.
       if cm_envelope_sha256 decoded \<noteq> bc_capsule_sha256 c then Inl BndCapsuleRoot
       else bindE (or_raise BndComposition
           (capsule_decode_and_verify capsule_wire (cm_config decoded) objects)) (\<lambda>_.
       bindE (encode_table (bc_tenant_scope_sha256 c) objects) (\<lambda>t.
       bindE (blob_ref (bc_tenant_scope_sha256 c) capsule_wire) (\<lambda>capsule_ref.
       bindE (mapE (\<lambda>p. p) (bundle_chunks c (int (length capsule_wire)) (br_sha256 capsule_ref) t)) (\<lambda>parts.
         let prefix = concat parts in
         if length prefix \<noteq> BUNDLE_BYTES - 32 then Inl BndLength
         else Inr (prefix @ sha_parts BUNDLE_ENVELOPE_DOMAIN [prefix])))))))"

section \<open>The decoder\<close>

record bundle_manifest =
  bm_config :: bundle_config
  bm_capsule_wire_length :: int
  bm_capsule_blob_sha256 :: bytes
  bm_logical_payload_bytes :: int
  bm_unique_blob_count :: int
  bm_unique_blob_bytes :: int
  bm_deduplicated_payload_bytes :: int
  bm_entries :: "bundle_entry list"
  bm_envelope_sha256 :: bytes

definition rd_entry :: "bytes \<Rightarrow> bundle_error + bundle_entry \<times> bytes" where
  "rd_entry r =
     bindE (rd_list (rd_u64 BndTruncated) 4 r) (\<lambda>(vs, r).
     bindE (rd_digest BndTruncated r) (\<lambda>(typed, r).
     bindE (rd_digest BndTruncated r) (\<lambda>(blob, r).
       Inr (\<lparr>be_kind = vs ! 0, be_abi_version = vs ! 1, be_byte_length = vs ! 2, be_blob_ordinal = vs ! 3,
             be_typed_sha256 = typed, be_blob_sha256 = blob\<rparr>, r))))"

definition decode_prior :: "bundle_table \<Rightarrow> bundle_entry \<Rightarrow> bundle_error + int option" where
  "decode_prior t e =
    (case prior_entry t (be_blob_sha256 e) of None \<Rightarrow> Inr None
     | Some (_, previous) \<Rightarrow>
         if be_byte_length previous \<noteq> be_byte_length e then Inl BndBlobIdentity
         else Inr (Some (be_blob_ordinal previous)))"

definition check_entry :: "bundle_table \<Rightarrow> nat \<Rightarrow> bundle_entry \<Rightarrow> bundle_error + bundle_table" where
  "check_entry t expected_kind e =
    (if be_kind e \<noteq> int expected_kind then Inl BndKind
     else if be_abi_version e = 0 \<or> be_byte_length e = 0 then Inl BndEntry
     else bindE (bundle_digest False (be_typed_sha256 e)) (\<lambda>_.
       bindE (bundle_digest False (be_blob_sha256 e)) (\<lambda>_.
       bindE (bundle_u64 (tb_logical_bytes t + be_byte_length e)) (\<lambda>_.
       bindE (decode_prior t e) (\<lambda>prior.
         if be_blob_ordinal e \<noteq> (case prior of None \<Rightarrow> tb_unique_count t | Some k \<Rightarrow> k)
         then Inl BndOrdinal
         else bindE (count_blob (t\<lparr>tb_logical_bytes := tb_logical_bytes t + be_byte_length e\<rparr>) (prior = None)
             (be_byte_length e)) (\<lambda>t'. Inr (add_entry e t')))))))"

definition rd_table :: "bytes \<Rightarrow> bundle_error + bundle_table \<times> bytes" where
  "rd_table r = foldE (\<lambda>(t, r) expected_kind.
     bindE (rd_entry r) (\<lambda>(e, r). bindE (check_entry t expected_kind e) (\<lambda>t. Inr (t, r))))
     (empty_table, r) [0..<length OBJECT_NAMES]"

definition rd_bundle_header :: "bytes \<Rightarrow> bundle_error + unit \<times> bytes" where
  "rd_bundle_header r =
     bindE (rd_take BndTruncated 8 r) (\<lambda>(magic, r).
       if magic \<noteq> BUNDLE_MAGIC then Inl BndMagic
       else bindE (rd_u64 BndTruncated r) (\<lambda>(abi, r).
       if abi \<noteq> BUNDLE_WIRE_ABI then Inl BndAbi
       else bindE (rd_u64 BndTruncated r) (\<lambda>(declared, r).
       if declared \<noteq> int BUNDLE_BYTES then Inl BndDeclared
       else bindE (rd_u32 BndTruncated r) (\<lambda>(flags, r).
       if flags \<noteq> BUNDLE_FLAGS then Inl BndFlags
       else bindE (rd_u32 BndTruncated r) (\<lambda>(reserved, r).
       if reserved \<noteq> 0 then Inl BndFlags else Inr ((), r))))))"

definition bundle_decode_manifest :: "bytes \<Rightarrow> bundle_error + bundle_manifest" where
  "bundle_decode_manifest encoded =
    (if length encoded \<noteq> BUNDLE_BYTES then Inl BndLength
     else bindE (rd_bundle_header encoded) (\<lambda>(_, r).
     bindE (rd_list (rd_u64 BndTruncated) 6 r) (\<lambda>(vs, r).
     bindE (rd_list (rd_digest BndTruncated) 5 r) (\<lambda>(ds, r).
     let config = \<lparr>bc_tenant_scope_sha256 = ds ! 0, bc_capsule_sha256 = ds ! 1, bc_bundle_generation = vs ! 5,
           bc_challenge_sha256 = ds ! 3, bc_parent_bundle_sha256 = ds ! 4\<rparr> in
     bindE (bundle_validate_config config) (\<lambda>_.
       if vs ! 0 \<noteq> int CAPSULE_BYTES \<or> vs ! 1 \<noteq> int (length OBJECT_NAMES) \<or> vs ! 2 = 0
          \<or> \<not> (0 < vs ! 3 \<and> vs ! 3 \<le> int (length OBJECT_NAMES)) \<or> \<not> (0 < vs ! 4 \<and> vs ! 4 \<le> vs ! 2)
       then Inl BndTotals
       else bindE (bundle_digest False (ds ! 2)) (\<lambda>_.
       bindE (rd_table r) (\<lambda>(t, r).
         if tb_logical_bytes t \<noteq> vs ! 2 \<or> tb_unique_count t \<noteq> vs ! 3 \<or> tb_unique_bytes t \<noteq> vs ! 4
         then Inl BndTotalsMismatch
         else bindE (rd_digest BndTruncated r) (\<lambda>(envelope, r).
         if r \<noteq> [] then Inl BndTrailing
         else if envelope \<noteq> sha_parts BUNDLE_ENVELOPE_DOMAIN [take (length encoded - 32) encoded]
         then Inl BndEnvelope
         else Inr \<lparr>bm_config = config, bm_capsule_wire_length = vs ! 0, bm_capsule_blob_sha256 = ds ! 2,
               bm_logical_payload_bytes = vs ! 2, bm_unique_blob_count = vs ! 3, bm_unique_blob_bytes = vs ! 4,
               bm_deduplicated_payload_bytes = vs ! 2 - vs ! 4, bm_entries = tb_entries t,
               bm_envelope_sha256 = envelope\<rparr>))))))))"

definition bundle_decode_and_verify ::
  "bytes \<Rightarrow> bundle_config \<Rightarrow> bytes \<Rightarrow> objects \<Rightarrow> bundle_error + bundle_manifest" where
  "bundle_decode_and_verify encoded expected_config capsule_wire objects =
     bindE (bundle_decode_manifest encoded) (\<lambda>decoded.
     bindE (bundle_validate_config expected_config) (\<lambda>_.
       if bm_config decoded \<noteq> expected_config then Inl BndConfig
       else bindE (or_raise BndInvalidCapsule (capsule_decode_manifest capsule_wire)) (\<lambda>decoded_capsule.
       if cm_envelope_sha256 decoded_capsule \<noteq> bc_capsule_sha256 expected_config then Inl BndCapsuleRoot
       else bindE (blob_ref (bc_tenant_scope_sha256 expected_config) capsule_wire) (\<lambda>capsule_ref.
       if br_byte_length capsule_ref \<noteq> bm_capsule_wire_length decoded
          \<or> br_sha256 capsule_ref \<noteq> bm_capsule_blob_sha256 decoded
       then Inl BndCapsuleBlob
       else bindE (or_raise BndComposition
           (capsule_decode_and_verify capsule_wire (cm_config decoded_capsule) objects)) (\<lambda>_.
       bindE (bundle_encode expected_config capsule_wire objects) (\<lambda>wire.
         if wire \<noteq> encoded then Inl BndMismatch else Inr decoded))))))"

end
