(* ===== verification/Store_Grant.thy ===== *)
theory Store_Grant
  imports Bundle "HOL-Library.List_Lexorder" "HOL-Library.Product_Lexorder"
begin

unbundle bit_operations_syntax

text \<open>
  The values of \<open>bench/continuation_object_store.py\<close> outside its class: the three grants and their
  roots, the targets of a retired commit, the logical accounting, and the receipts with their
  verification.
\<close>

datatype (plugins only: code) store_error =
    StU64 | StDigest | StGrant | StZeroTarget | StEmptyTargets | StTargetOrder | StReceipt
  | StLifecycleGrant | StRepairGrant | StStaleGrant | StCapacity | StClosed | StDenied | StProvenance
  | StBlobMismatch | StTooLarge | StCollision | StQuarantined | StRetired | StReferenceBudget
  | StEntryCapacity | StIndexBudget | StPayloadBudget | StAllocator | StNativeCapacity | StNotFound
  | StCorrupt | StLeaseActive | StRepairAccounting | StRetiredRelease | StFinalReference
  | StLeaseAccounting | StLifecycleScope | StLeaseWindow | StLeaseSpan | StLeaseNotActive | StStaleLease
  | StLeaseBudget | StGeneration | StLeaseExpired | StLeaseNotExpired | StRepairScope | StRepairTarget
  | StRepairSource | StNotQuarantined | StRepairReason | StRepairTooLarge | StUnsafeSource | StPermit
  | StCommitScope | StCommitEntries | StCommitSnapshot | StTargetMissing | StTargetMismatch
  | StCommitBytes | StCommitUnderflow | StPreview | StAssertion | StAccounting | StLiveState
  | StQuarantineState | StRetiredState | StClearedLease | StAccountingMismatch | StBundleMismatch
  | StBundle bundle_error

section \<open>Constants and checks\<close>

abbreviation LOGICAL_INDEX_ENTRY_BYTES :: int where "LOGICAL_INDEX_ENTRY_BYTES \<equiv> 128"
abbreviation (input) OPERATION_PUT :: int where "OPERATION_PUT \<equiv> 1"
abbreviation (input) OPERATION_GET :: int where "OPERATION_GET \<equiv> 2"
abbreviation (input) OPERATION_RELEASE :: int where "OPERATION_RELEASE \<equiv> 4"
abbreviation (input) OPERATION_QUARANTINE :: int where "OPERATION_QUARANTINE \<equiv> 8"
abbreviation (input) OPERATION_VERIFY :: int where "OPERATION_VERIFY \<equiv> 16"
abbreviation (input) ALLOWED_OPERATIONS :: int where "ALLOWED_OPERATIONS \<equiv> 31"
abbreviation (input) LEASE_OPERATION_ACQUIRE :: int where "LEASE_OPERATION_ACQUIRE \<equiv> 1"
abbreviation (input) LEASE_OPERATION_RENEW :: int where "LEASE_OPERATION_RENEW \<equiv> 2"
abbreviation (input) LEASE_OPERATION_RELEASE :: int where "LEASE_OPERATION_RELEASE \<equiv> 4"
abbreviation (input) LEASE_OPERATION_EXPIRE :: int where "LEASE_OPERATION_EXPIRE \<equiv> 8"
abbreviation (input) ALLOWED_LEASE_OPERATIONS :: int where "ALLOWED_LEASE_OPERATIONS \<equiv> 15"

definition store_domain :: "string \<Rightarrow> bytes" where
  "store_domain s = ascii s @ [0]"

definition store_u64 :: "int \<Rightarrow> store_error + bytes" where
  "store_u64 v = (if 0 \<le> v \<and> v \<le> U64_MAX then Inr (u64_bytes v) else Inl StU64)"

definition store_digest :: "bytes \<Rightarrow> store_error + bytes" where
  "store_digest v = (if length v \<noteq> 32 \<or> v = ZERO_DIGEST then Inl StDigest else Inr v)"

text \<open>A hash of parts, some of which are integers whose packing may raise.\<close>

definition store_hash :: "string \<Rightarrow> (store_error + bytes) list \<Rightarrow> store_error + bytes" where
  "store_hash domain parts =
     bindE (mapE (\<lambda>p. p) parts) (\<lambda>parts. Inr (sha_parts (store_domain domain) parts))"

lemma store_u64_Inr [result_simps]: "store_u64 v = Inr b \<longleftrightarrow> is_u64 v \<and> b = u64_bytes v"
  by (auto simp: store_u64_def is_u64_def)

lemma store_digest_Inr [result_simps]:
  "store_digest v = Inr d \<longleftrightarrow> length v = 32 \<and> v \<noteq> ZERO_DIGEST \<and> d = v"
  by (auto simp: store_digest_def)

lemma store_u64_ok: "is_u64 v \<Longrightarrow> store_u64 v = Inr (u64_bytes v)"
  by (simp add: store_u64_Inr)

section \<open>The store grant\<close>

record store_grant =
  sg_authority_epoch :: int
  sg_tenant_scope_sha256 :: bytes
  sg_bundle_sha256 :: bytes
  sg_allowed_operation_mask :: int
  sg_max_entries :: int
  sg_max_object_bytes :: int
  sg_max_payload_bytes :: int
  sg_max_index_bytes :: int
  sg_max_references :: int
  sg_challenge_sha256 :: bytes

definition validate_grant :: "store_grant \<Rightarrow> store_error + unit" where
  "validate_grant g =
     bindE (mapE store_u64 [sg_authority_epoch g, sg_allowed_operation_mask g, sg_max_entries g,
       sg_max_object_bytes g, sg_max_payload_bytes g, sg_max_index_bytes g, sg_max_references g]) (\<lambda>_.
     bindE (mapE store_digest [sg_tenant_scope_sha256 g, sg_bundle_sha256 g, sg_challenge_sha256 g]) (\<lambda>_.
       if sg_authority_epoch g = 0 \<or> sg_allowed_operation_mask g = 0
          \<or> sg_allowed_operation_mask g AND NOT ALLOWED_OPERATIONS \<noteq> 0
          \<or> sg_max_entries g = 0 \<or> sg_max_object_bytes g = 0 \<or> sg_max_payload_bytes g = 0
          \<or> sg_max_index_bytes g = 0 \<or> sg_max_references g = 0
          \<or> sg_max_object_bytes g > sg_max_payload_bytes g
       then Inl StGrant else Inr ()))"

definition grant_root :: "store_grant \<Rightarrow> store_error + bytes" where
  "grant_root g = bindE (validate_grant g) (\<lambda>_.
     store_hash ''glacier-continuation-store-grant-v1''
      [store_u64 (sg_authority_epoch g), Inr (sg_tenant_scope_sha256 g), Inr (sg_bundle_sha256 g),
       store_u64 (sg_allowed_operation_mask g), store_u64 (sg_max_entries g),
       store_u64 (sg_max_object_bytes g), store_u64 (sg_max_payload_bytes g),
       store_u64 (sg_max_index_bytes g), store_u64 (sg_max_references g), Inr (sg_challenge_sha256 g)])"

section \<open>Retired targets\<close>

type_synonym store_target = blob_reference

definition target_key :: "store_target \<Rightarrow> store_error + bytes \<times> int" where
  "target_key t =
    (if br_byte_length t = 0 then Inl StZeroTarget
     else bindE (store_u64 (br_byte_length t)) (\<lambda>_.
       bindE (store_digest (br_sha256 t)) (\<lambda>_. Inr (br_sha256 t, br_byte_length t))))"

definition retired_targets_root :: "store_target list \<Rightarrow> store_error + bytes" where
  "retired_targets_root targets =
    (if targets = [] then Inl StEmptyTargets
     else bindE (mapE target_key targets) (\<lambda>ks.
       if ks \<noteq> sort ks \<or> length (remdups ks) \<noteq> length ks then Inl StTargetOrder
       else store_hash ''glacier-continuation-store-retired-targets-v1''
        (store_u64 (int (length targets))
         # concat (map (\<lambda>t. [store_u64 (br_byte_length t), Inr (br_sha256 t)]) targets))))"

section \<open>Logical accounting\<close>

record accounting =
  ac_entry_count :: int
  ac_live_entries :: int
  ac_quarantined_entries :: int
  ac_retired_entries :: int
  ac_payload_bytes :: int
  ac_logical_index_bytes :: int
  ac_reference_count :: int
  ac_active_leases :: int
  ac_repair_count :: int

definition accounting_fields :: "accounting \<Rightarrow> int list" where
  "accounting_fields a =
    [ac_entry_count a, ac_live_entries a, ac_quarantined_entries a, ac_retired_entries a,
     ac_payload_bytes a, ac_logical_index_bytes a, ac_reference_count a, ac_active_leases a,
     ac_repair_count a]"

definition accounting_is_valid :: "accounting \<Rightarrow> bool" where
  "accounting_is_valid a =
    (let occupied = ac_live_entries a + ac_quarantined_entries a + ac_retired_entries a;
         expected_index_bytes = ac_entry_count a * LOGICAL_INDEX_ENTRY_BYTES;
         classified = ac_live_entries a + ac_quarantined_entries a in
     case mapE store_u64 (accounting_fields a @ [occupied, expected_index_bytes]) of
       Inl _ \<Rightarrow> False
     | Inr _ \<Rightarrow>
         ac_entry_count a = occupied \<and> ac_logical_index_bytes a = expected_index_bytes
         \<and> ac_reference_count a \<ge> classified \<and> ac_active_leases a \<le> ac_live_entries a
         \<and> (if ac_entry_count a = 0
            then ac_payload_bytes a = 0 \<and> ac_reference_count a = 0 \<and> ac_repair_count a = 0
            else ac_payload_bytes a \<ge> ac_entry_count a)
         \<and> (classified \<noteq> 0 \<or> ac_reference_count a = 0))"

section \<open>The receipt of a retired commit\<close>

record commit_receipt =
  cr_authorization_sha256 :: bytes
  cr_targets_sha256 :: bytes
  cr_snapshot_before_sha256 :: bytes
  cr_snapshot_after_sha256 :: bytes
  cr_accounting_before :: accounting
  cr_accounting_after :: accounting
  cr_freed_entries :: int
  cr_freed_payload_bytes :: int
  cr_freed_index_bytes :: int
  cr_freed_repair_count :: int
  cr_allocator_deallocation_calls :: int
  cr_commit_sha256 :: bytes

definition retired_commit_receipt_root :: "commit_receipt \<Rightarrow> store_error + bytes" where
  "retired_commit_receipt_root r =
     store_hash ''glacier-continuation-store-retired-commit-v1''
      ([Inr (cr_authorization_sha256 r), Inr (cr_targets_sha256 r), Inr (cr_snapshot_before_sha256 r),
        Inr (cr_snapshot_after_sha256 r)]
       @ map store_u64 (accounting_fields (cr_accounting_before r))
       @ map store_u64 (accounting_fields (cr_accounting_after r))
       @ map store_u64 [cr_freed_entries r, cr_freed_payload_bytes r, cr_freed_index_bytes r,
           cr_freed_repair_count r, cr_allocator_deallocation_calls r])"

text \<open>
  The fields that the accounting before the commit must have: those after it plus what was freed.
\<close>

definition expected_before :: "commit_receipt \<Rightarrow> int list" where
  "expected_before r =
    (let after = cr_accounting_after r in
     [ac_entry_count after + cr_freed_entries r, ac_retired_entries after + cr_freed_entries r,
      ac_payload_bytes after + cr_freed_payload_bytes r,
      ac_logical_index_bytes after + cr_freed_index_bytes r,
      ac_repair_count after + cr_freed_repair_count r])"

definition receipt_checks :: "commit_receipt \<Rightarrow> store_error + unit" where
  "receipt_checks r =
     bindE (mapE store_digest [cr_authorization_sha256 r, cr_targets_sha256 r, cr_snapshot_before_sha256 r,
       cr_snapshot_after_sha256 r, cr_commit_sha256 r]) (\<lambda>_.
     bindE (mapE store_u64 ([cr_freed_entries r, cr_freed_payload_bytes r, cr_freed_index_bytes r,
       cr_freed_repair_count r, cr_allocator_deallocation_calls r]
       @ [cr_freed_entries r * LOGICAL_INDEX_ENTRY_BYTES] @ expected_before r)) (\<lambda>_. Inr ()))"

text \<open>
  The last test hashes the receipt, which raises the error of \<open>_u64\<close> when a count is out of range;
  it is reached only after both accountings have been found valid.
\<close>

definition verify_retired_commit_receipt :: "commit_receipt \<Rightarrow> store_error + unit" where
  "verify_retired_commit_receipt r =
    (case receipt_checks r of Inl _ \<Rightarrow> Inl StReceipt
     | Inr _ \<Rightarrow>
       let before = cr_accounting_before r; after = cr_accounting_after r in
       if cr_snapshot_before_sha256 r = cr_snapshot_after_sha256 r
          \<or> cr_freed_entries r = 0 \<or> cr_freed_payload_bytes r = 0
          \<or> cr_freed_index_bytes r \<noteq> cr_freed_entries r * LOGICAL_INDEX_ENTRY_BYTES
          \<or> cr_allocator_deallocation_calls r \<noteq> cr_freed_entries r
          \<or> [ac_entry_count before, ac_retired_entries before, ac_payload_bytes before,
              ac_logical_index_bytes before, ac_repair_count before] \<noteq> expected_before r
          \<or> ac_live_entries before \<noteq> ac_live_entries after
          \<or> ac_quarantined_entries before \<noteq> ac_quarantined_entries after
          \<or> ac_reference_count before \<noteq> ac_reference_count after
          \<or> ac_active_leases before \<noteq> ac_active_leases after
          \<or> \<not> accounting_is_valid before \<or> \<not> accounting_is_valid after
       then Inl StReceipt
       else bindE (retired_commit_receipt_root r) (\<lambda>root.
         if cr_commit_sha256 r \<noteq> root then Inl StReceipt else Inr ()))"

section \<open>Lifecycle grants and leases\<close>

record lifecycle_grant =
  lg_authority_epoch :: int
  lg_tenant_scope_sha256 :: bytes
  lg_bundle_sha256 :: bytes
  lg_store_grant_sha256 :: bytes
  lg_allowed_operation_mask :: int
  lg_max_active_leases :: int
  lg_max_lease_span_ticks :: int
  lg_challenge_sha256 :: bytes

definition validate_lifecycle_grant :: "lifecycle_grant \<Rightarrow> store_error + unit" where
  "validate_lifecycle_grant g =
     bindE (mapE store_u64 [lg_authority_epoch g, lg_allowed_operation_mask g, lg_max_active_leases g,
       lg_max_lease_span_ticks g]) (\<lambda>_.
     bindE (mapE store_digest [lg_tenant_scope_sha256 g, lg_bundle_sha256 g, lg_store_grant_sha256 g,
       lg_challenge_sha256 g]) (\<lambda>_.
       if lg_authority_epoch g = 0 \<or> lg_allowed_operation_mask g = 0
          \<or> lg_allowed_operation_mask g AND NOT ALLOWED_LEASE_OPERATIONS \<noteq> 0
          \<or> lg_max_active_leases g = 0 \<or> lg_max_lease_span_ticks g = 0
       then Inl StLifecycleGrant else Inr ()))"

definition lifecycle_grant_root :: "lifecycle_grant \<Rightarrow> store_error + bytes" where
  "lifecycle_grant_root g = bindE (validate_lifecycle_grant g) (\<lambda>_.
     store_hash ''glacier-continuation-store-lifecycle-grant-v1''
      [store_u64 (lg_authority_epoch g), Inr (lg_tenant_scope_sha256 g), Inr (lg_bundle_sha256 g),
       Inr (lg_store_grant_sha256 g), store_u64 (lg_allowed_operation_mask g),
       store_u64 (lg_max_active_leases g), store_u64 (lg_max_lease_span_ticks g),
       Inr (lg_challenge_sha256 g)])"

record lease_receipt =
  lr_target :: store_target
  lr_generation :: int
  lr_owner_sha256 :: bytes
  lr_expires_at_tick :: int
  lr_lifecycle_grant_sha256 :: bytes
  lr_lease_sha256 :: bytes

definition lease_receipt_root :: "lease_receipt \<Rightarrow> store_error + bytes" where
  "lease_receipt_root r =
     store_hash ''glacier-continuation-store-lease-receipt-v1''
      [store_u64 (br_byte_length (lr_target r)), Inr (br_sha256 (lr_target r)), store_u64 (lr_generation r),
       Inr (lr_owner_sha256 r), store_u64 (lr_expires_at_tick r), Inr (lr_lifecycle_grant_sha256 r)]"

section \<open>Repair grants and receipts\<close>

record repair_grant =
  rg_authority_epoch :: int
  rg_tenant_scope_sha256 :: bytes
  rg_bundle_sha256 :: bytes
  rg_store_grant_sha256 :: bytes
  rg_target :: store_target
  rg_trusted_source_sha256 :: bytes
  rg_expected_quarantine_reason_sha256 :: bytes
  rg_max_repair_bytes :: int
  rg_challenge_sha256 :: bytes

definition validate_repair_grant :: "repair_grant \<Rightarrow> store_error + unit" where
  "validate_repair_grant g =
     bindE (mapE store_u64 [rg_authority_epoch g, rg_max_repair_bytes g]) (\<lambda>_.
     bindE (mapE store_digest [rg_tenant_scope_sha256 g, rg_bundle_sha256 g, rg_store_grant_sha256 g,
       rg_trusted_source_sha256 g, rg_expected_quarantine_reason_sha256 g, rg_challenge_sha256 g]) (\<lambda>_.
     bindE (store_u64 (br_byte_length (rg_target g))) (\<lambda>_.
     bindE (store_digest (br_sha256 (rg_target g))) (\<lambda>_.
       if rg_authority_epoch g = 0 \<or> br_byte_length (rg_target g) = 0 \<or> rg_max_repair_bytes g = 0
          \<or> br_byte_length (rg_target g) > rg_max_repair_bytes g
       then Inl StRepairGrant else Inr ()))))"

definition repair_grant_root :: "repair_grant \<Rightarrow> store_error + bytes" where
  "repair_grant_root g = bindE (validate_repair_grant g) (\<lambda>_.
     store_hash ''glacier-continuation-store-repair-grant-v1''
      [store_u64 (rg_authority_epoch g), Inr (rg_tenant_scope_sha256 g), Inr (rg_bundle_sha256 g),
       Inr (rg_store_grant_sha256 g), store_u64 (br_byte_length (rg_target g)), Inr (br_sha256 (rg_target g)),
       Inr (rg_trusted_source_sha256 g), Inr (rg_expected_quarantine_reason_sha256 g),
       store_u64 (rg_max_repair_bytes g), Inr (rg_challenge_sha256 g)])"

record repair_receipt =
  rr_target :: store_target
  rr_repair_generation :: int
  rr_source_provenance_sha256 :: bytes
  rr_quarantine_reason_sha256 :: bytes
  rr_repair_grant_sha256 :: bytes
  rr_snapshot_sha256 :: bytes
  rr_repair_sha256 :: bytes

definition repair_receipt_root :: "repair_receipt \<Rightarrow> store_error + bytes" where
  "repair_receipt_root r =
     store_hash ''glacier-continuation-store-repair-receipt-v1''
      [store_u64 (br_byte_length (rr_target r)), Inr (br_sha256 (rr_target r)),
       store_u64 (rr_repair_generation r), Inr (rr_source_provenance_sha256 r),
       Inr (rr_quarantine_reason_sha256 r), Inr (rr_repair_grant_sha256 r), Inr (rr_snapshot_sha256 r)]"

end
