(* ===== verification/Store_Core.thy ===== *)
theory Store_Core
  imports Store_Grant
begin

text \<open>
  The class \<open>Store\<close> of \<open>bench/continuation_object_store.py\<close>. A method is a function from a store to a
  result and the store it leaves, so an exception carries whatever the method had already changed. A
  slot holds an object or nothing; an object is live, quarantined or retired.
\<close>

section \<open>Operations on a state\<close>

type_synonym ('e, 'a, 's) stateful = "'s \<Rightarrow> ('e + 'a) \<times> 's"
type_synonym ('a, 's) op = "(store_error, 'a, 's) stateful"

definition failS :: "'e \<Rightarrow> ('e, 'a, 's) stateful" where
  "failS e s = (Inl e, s)"

definition returnS :: "'a \<Rightarrow> ('e, 'a, 's) stateful" where
  "returnS x s = (Inr x, s)"

definition bindS :: "('e, 'a, 's) stateful \<Rightarrow> ('a \<Rightarrow> ('e, 'b, 's) stateful) \<Rightarrow> ('e, 'b, 's) stateful" where
  "bindS m f s = (case m s of (Inl e, t) \<Rightarrow> (Inl e, t) | (Inr x, t) \<Rightarrow> f x t)"

text \<open>A check, which cannot change the state, and then the rest of the method.\<close>

definition checkS :: "'e + 'a \<Rightarrow> ('a \<Rightarrow> ('e, 'b, 's) stateful) \<Rightarrow> ('e, 'b, 's) stateful" where
  "checkS m f s = (case m of Inl e \<Rightarrow> (Inl e, s) | Inr x \<Rightarrow> f x s)"

lemma failS_simps [simp]: "failS e s = (Inl e, s)"
  by (simp add: failS_def)

lemma returnS_simps [simp]: "returnS x s = (Inr x, s)"
  by (simp add: returnS_def)

lemma checkS_simps [simp]: "checkS (Inl e) f s = (Inl e, s)" "checkS (Inr x) f s = f x s"
  by (simp_all add: checkS_def)

lemma checkS_Inr [result_simps]: "checkS m f s = (Inr y, t) \<longleftrightarrow> (\<exists>x. m = Inr x \<and> f x s = (Inr y, t))"
  by (cases m) simp_all

lemma checkS_Inl [result_simps]:
  "checkS m f s = (Inl e, t) \<longleftrightarrow> m = Inl e \<and> t = s \<or> (\<exists>x. m = Inr x \<and> f x s = (Inl e, t))"
  by (cases m) auto

lemma bindS_Inr [result_simps]:
  "bindS m f s = (Inr y, t) \<longleftrightarrow> (\<exists>x u. m s = (Inr x, u) \<and> f x u = (Inr y, t))"
  by (auto simp: bindS_def split: prod.splits sum.splits)

lemma bindS_Inl [result_simps]:
  "bindS m f s = (Inl e, t) \<longleftrightarrow> m s = (Inl e, t) \<or> (\<exists>x u. m s = (Inr x, u) \<and> f x u = (Inl e, t))"
  by (auto simp: bindS_def split: prod.splits sum.splits)

text \<open>\<open>if c: raise e\<close>.\<close>

definition guardE :: "'e \<Rightarrow> bool \<Rightarrow> 'e + unit" where
  "guardE e c = (if c then Inl e else Inr ())"

lemma guardE_Inr [result_simps]: "guardE e c = Inr u \<longleftrightarrow> \<not> c"
  by (auto simp: guardE_def)

lemma guardE_Inl [result_simps]: "guardE e c = Inl f \<longleftrightarrow> c \<and> f = e"
  by (auto simp: guardE_def)

section \<open>Slots and the store\<close>

datatype (plugins only: code) slot_state = Live | Quarantined | Retired

record store_slot =
  sl_state :: slot_state
  sl_byte_length :: int
  sl_sha256 :: bytes
  sl_payload :: bytes
  sl_reference_count :: int
  sl_provenance_sha256 :: bytes
  sl_quarantine_reason_sha256 :: bytes
  sl_lease_generation :: int
  sl_lease_active :: bool
  sl_lease_receipt_sha256 :: bytes
  sl_repair_generation :: int

record store =
  st_grant :: store_grant
  st_grant_sha256 :: bytes
  st_capacity :: int
  st_slots :: "store_slot option list"
  st_books :: accounting
  st_closed :: bool
  st_fail_after_new_entries :: "int option"
  st_allocator_insertions :: int

text \<open>
  The nine counters of the class are the fields of \<open>logical_accounting\<close>, kept as one record.
\<close>

definition new_books :: accounting where
  "new_books = \<lparr>ac_entry_count = 0, ac_live_entries = 0, ac_quarantined_entries = 0, ac_retired_entries = 0,
     ac_payload_bytes = 0, ac_logical_index_bytes = 0, ac_reference_count = 0, ac_active_leases = 0,
     ac_repair_count = 0\<rparr>"

definition new_store :: "store_grant \<Rightarrow> int \<Rightarrow> int \<Rightarrow> int option \<Rightarrow> store_error + store" where
  "new_store g expected_authority_epoch capacity fail_after =
     bindE (validate_grant g) (\<lambda>_.
       if sg_authority_epoch g \<noteq> expected_authority_epoch then Inl StStaleGrant
       else if sg_max_entries g > capacity \<or> capacity \<le> 0 then Inl StCapacity
       else bindE (grant_root g) (\<lambda>root.
         Inr \<lparr>st_grant = g, st_grant_sha256 = root, st_capacity = capacity,
              st_slots = replicate (nat capacity) None, st_books = new_books, st_closed = False,
              st_fail_after_new_entries = fail_after, st_allocator_insertions = 0\<rparr>))"

definition store_operation :: "store \<Rightarrow> int \<Rightarrow> store_error + unit" where
  "store_operation s operation =
    (if st_closed s then Inl StClosed
     else if sg_allowed_operation_mask (st_grant s) AND operation = 0 then Inl StDenied else Inr ())"

text \<open>The first index, and what is there, that satisfies a condition.\<close>

fun first_index :: "('a \<Rightarrow> bool) \<Rightarrow> 'a list \<Rightarrow> nat option" where
  "first_index P [] = None"
| "first_index P (x # xs) = (if P x then Some 0 else map_option Suc (first_index P xs))"

definition slot_is :: "(store_slot \<Rightarrow> bool) \<Rightarrow> store_slot option \<Rightarrow> bool" where
  "slot_is P v = (case v of None \<Rightarrow> False | Some sl \<Rightarrow> P sl)"

definition store_find :: "store \<Rightarrow> store_target \<Rightarrow> nat option" where
  "store_find s expected = first_index
     (slot_is (\<lambda>sl. sl_byte_length sl = br_byte_length expected \<and> sl_sha256 sl = br_sha256 expected))
     (st_slots s)"

definition slot_at :: "store \<Rightarrow> nat \<Rightarrow> store_slot" where
  "slot_at s i = the (st_slots s ! i)"

definition set_slot :: "nat \<Rightarrow> store_slot option \<Rightarrow> store \<Rightarrow> store" where
  "set_slot i v s = s\<lparr>st_slots := (st_slots s)[i := v]\<rparr>"

definition set_books :: "(accounting \<Rightarrow> accounting) \<Rightarrow> store \<Rightarrow> store" where
  "set_books f s = s\<lparr>st_books := f (st_books s)\<rparr>"

text \<open>The lookup every method on a target opens with: the index, or \<open>not found\<close>.\<close>

definition find_slot :: "store \<Rightarrow> store_target \<Rightarrow> store_error + nat" where
  "find_slot s expected =
    (case store_find s expected of None \<Rightarrow> Inl StNotFound | Some i \<Rightarrow> Inr i)"

definition not_set_aside :: "store_slot \<Rightarrow> store_error + unit" where
  "not_set_aside sl =
    (case sl_state sl of Quarantined \<Rightarrow> Inl StQuarantined | Retired \<Rightarrow> Inl StRetired | Live \<Rightarrow> Inr ())"

definition lift_blob :: "bundle_error + 'a \<Rightarrow> store_error + 'a" where
  "lift_blob m = (case m of Inl e \<Rightarrow> Inl (StBundle e) | Inr x \<Rightarrow> Inr x)"

section \<open>put, get and release\<close>

datatype (plugins only: code) disposition = Inserted | Reused

record put_receipt =
  pr_slot_index :: nat
  pr_disposition :: disposition
  pr_reference_count :: int

definition add_reference :: "int \<Rightarrow> accounting \<Rightarrow> accounting" where
  "add_reference n a = a\<lparr>ac_reference_count := ac_reference_count a + n\<rparr>"

definition put_reuse :: "store_target \<Rightarrow> bytes \<Rightarrow> nat \<Rightarrow> (put_receipt, store) op" where
  "put_reuse expected payload i s =
    (let sl = slot_at s i; count = sl_reference_count sl + 1 in
     checkS (guardE StCollision (sl_byte_length sl \<noteq> br_byte_length expected \<or> sl_payload sl \<noteq> payload)) (\<lambda>_.
     checkS (not_set_aside sl) (\<lambda>_.
     checkS (guardE StReferenceBudget
         (ac_reference_count (st_books s) + 1 > sg_max_references (st_grant s))) (\<lambda>_ s.
       (Inr \<lparr>pr_slot_index = i, pr_disposition = Reused, pr_reference_count = count\<rparr>,
        set_books (add_reference 1) (set_slot i (Some (sl\<lparr>sl_reference_count := count\<rparr>)) s))))) s)"

definition count_insert :: "int \<Rightarrow> accounting \<Rightarrow> accounting" where
  "count_insert n a = a\<lparr>ac_entry_count := ac_entry_count a + 1, ac_live_entries := ac_live_entries a + 1,
     ac_payload_bytes := ac_payload_bytes a + n,
     ac_logical_index_bytes := ac_logical_index_bytes a + LOGICAL_INDEX_ENTRY_BYTES,
     ac_reference_count := ac_reference_count a + 1\<rparr>"

definition new_slot :: "store_target \<Rightarrow> bytes \<Rightarrow> bytes \<Rightarrow> store_slot" where
  "new_slot expected payload provenance =
     \<lparr>sl_state = Live, sl_byte_length = br_byte_length expected, sl_sha256 = br_sha256 expected,
      sl_payload = payload, sl_reference_count = 1, sl_provenance_sha256 = provenance,
      sl_quarantine_reason_sha256 = ZERO_DIGEST, sl_lease_generation = 0, sl_lease_active = False,
      sl_lease_receipt_sha256 = ZERO_DIGEST, sl_repair_generation = 0\<rparr>"

definition put_insert :: "store_target \<Rightarrow> bytes \<Rightarrow> bytes \<Rightarrow> (put_receipt, store) op" where
  "put_insert expected payload provenance s =
    (let a = st_books s; g = st_grant s in
     checkS (guardE StEntryCapacity (ac_entry_count a \<ge> sg_max_entries g)) (\<lambda>_.
     checkS (guardE StIndexBudget
         (ac_logical_index_bytes a + LOGICAL_INDEX_ENTRY_BYTES > sg_max_index_bytes g)) (\<lambda>_.
     checkS (guardE StPayloadBudget
         (ac_payload_bytes a + br_byte_length expected > sg_max_payload_bytes g)) (\<lambda>_.
     checkS (guardE StReferenceBudget (ac_reference_count a + 1 > sg_max_references g)) (\<lambda>_.
     checkS (guardE StAllocator (case st_fail_after_new_entries s of None \<Rightarrow> False
         | Some n \<Rightarrow> st_allocator_insertions s \<ge> n)) (\<lambda>_.
     checkS (case first_index (\<lambda>v. v = None) (st_slots s) of None \<Rightarrow> Inl StNativeCapacity | Some i \<Rightarrow> Inr i) (\<lambda>i s.
       (Inr \<lparr>pr_slot_index = i, pr_disposition = Inserted, pr_reference_count = 1\<rparr>,
        set_books (count_insert (br_byte_length expected))
         (set_slot i (Some (new_slot expected payload provenance)) s)
           \<lparr>st_allocator_insertions := st_allocator_insertions s + 1\<rparr>))))))) s)"

definition store_put :: "store_target \<Rightarrow> bytes \<Rightarrow> bytes \<Rightarrow> (put_receipt, store) op" where
  "store_put expected payload provenance s =
     checkS (store_operation s OPERATION_PUT) (\<lambda>_.
     checkS (store_digest provenance) (\<lambda>_.
     checkS (guardE StProvenance (provenance \<noteq> sg_bundle_sha256 (st_grant s))) (\<lambda>_.
     checkS (lift_blob (blob_ref (sg_tenant_scope_sha256 (st_grant s)) payload)) (\<lambda>computed.
     checkS (guardE StBlobMismatch (computed \<noteq> expected)) (\<lambda>_.
     checkS (guardE StTooLarge (br_byte_length expected > sg_max_object_bytes (st_grant s))) (\<lambda>_.
       case first_index (slot_is (\<lambda>sl. sl_sha256 sl = br_sha256 expected)) (st_slots s) of
         Some i \<Rightarrow> put_reuse expected payload i
       | None \<Rightarrow> put_insert expected payload provenance)))))) s"

definition store_get :: "store_target \<Rightarrow> (bytes, store) op" where
  "store_get expected s =
     checkS (store_operation s OPERATION_GET) (\<lambda>_.
     checkS (find_slot s expected) (\<lambda>i.
     checkS (not_set_aside (slot_at s i)) (\<lambda>_.
     checkS (lift_blob (blob_ref (sg_tenant_scope_sha256 (st_grant s)) (sl_payload (slot_at s i)))) (\<lambda>computed.
     checkS (guardE StCorrupt (computed \<noteq> expected)) (\<lambda>_.
       returnS (sl_payload (slot_at s i))))))) s"

definition count_state :: "slot_state \<Rightarrow> int \<Rightarrow> accounting \<Rightarrow> accounting" where
  "count_state st n a = (case st of
      Live \<Rightarrow> a\<lparr>ac_live_entries := ac_live_entries a + n\<rparr>
    | Quarantined \<Rightarrow> a\<lparr>ac_quarantined_entries := ac_quarantined_entries a + n\<rparr>
    | Retired \<Rightarrow> a\<lparr>ac_retired_entries := ac_retired_entries a + n\<rparr>)"

definition count_freed :: "store_slot \<Rightarrow> accounting \<Rightarrow> accounting" where
  "count_freed sl a = (let a = a\<lparr>ac_entry_count := ac_entry_count a - 1\<rparr>; a = count_state (sl_state sl) (-1) a in
     a\<lparr>ac_payload_bytes := ac_payload_bytes a - sl_byte_length sl,
       ac_logical_index_bytes := ac_logical_index_bytes a - LOGICAL_INDEX_ENTRY_BYTES,
       ac_reference_count := ac_reference_count a - 1,
       ac_repair_count := ac_repair_count a - sl_repair_generation sl\<rparr>)"

text \<open>
  The branch \<open>invalid retired release\<close> after the slot has been cleared is dead, since a retired slot
  was refused at the top; \<open>count_state\<close> is only reached on the other two states.
\<close>

definition store_release :: "store_target \<Rightarrow> (unit, store) op" where
  "store_release expected s =
     checkS (store_operation s OPERATION_RELEASE) (\<lambda>_.
     checkS (find_slot s expected) (\<lambda>i.
       let sl = slot_at s i in
       checkS (guardE StRetired (sl_state sl = Retired)) (\<lambda>_.
         if sl_reference_count sl > 1 then (\<lambda>s.
           (Inr (), set_books (add_reference (-1))
              (set_slot i (Some (sl\<lparr>sl_reference_count := sl_reference_count sl - 1\<rparr>)) s)))
         else
           checkS (guardE StLeaseActive (sl_lease_active sl)) (\<lambda>_.
           checkS (guardE StRepairAccounting (ac_repair_count (st_books s) < sl_repair_generation sl)) (\<lambda>_ s.
             (Inr (), set_books (count_freed sl) (set_slot i None s))))))) s"

section \<open>retire and quarantine\<close>

definition count_retire :: "accounting \<Rightarrow> accounting" where
  "count_retire a = a\<lparr>ac_reference_count := ac_reference_count a - 1, ac_live_entries := ac_live_entries a - 1,
     ac_retired_entries := ac_retired_entries a + 1\<rparr>"

definition store_retire :: "store_target \<Rightarrow> (unit, store) op" where
  "store_retire expected s =
     checkS (store_operation s OPERATION_RELEASE) (\<lambda>_.
     checkS (find_slot s expected) (\<lambda>i.
       let sl = slot_at s i in
       checkS (not_set_aside sl) (\<lambda>_.
       checkS (guardE StLeaseActive (sl_lease_active sl)) (\<lambda>_.
       checkS (guardE StFinalReference (sl_reference_count sl \<noteq> 1)) (\<lambda>_ s.
         (Inr (), set_books count_retire
            (set_slot i (Some (sl\<lparr>sl_reference_count := 0, sl_state := Retired\<rparr>)) s))))))) s"

definition add_lease :: "int \<Rightarrow> accounting \<Rightarrow> accounting" where
  "add_lease n a = a\<lparr>ac_active_leases := ac_active_leases a + n\<rparr>"

definition clear_lease :: "nat \<Rightarrow> (unit, store) op" where
  "clear_lease i s =
    (let sl = slot_at s i in
     checkS (guardE StLeaseAccounting (\<not> sl_lease_active sl \<or> ac_active_leases (st_books s) = 0)) (\<lambda>_ s.
       (Inr (), set_books (add_lease (-1)) (set_slot i
          (Some (sl\<lparr>sl_lease_active := False, sl_lease_receipt_sha256 := ZERO_DIGEST\<rparr>)) s))) s)"

definition count_quarantine :: "accounting \<Rightarrow> accounting" where
  "count_quarantine a = a\<lparr>ac_live_entries := ac_live_entries a - 1,
     ac_quarantined_entries := ac_quarantined_entries a + 1\<rparr>"

definition mark_quarantined :: "nat \<Rightarrow> bytes \<Rightarrow> (unit, store) op" where
  "mark_quarantined i reason s = (Inr (), set_books count_quarantine (set_slot i
     (Some ((slot_at s i)\<lparr>sl_state := Quarantined, sl_quarantine_reason_sha256 := reason\<rparr>)) s))"

definition store_quarantine :: "store_target \<Rightarrow> bytes \<Rightarrow> (unit, store) op" where
  "store_quarantine expected reason s =
     checkS (store_operation s OPERATION_QUARANTINE) (\<lambda>_.
     checkS (store_digest reason) (\<lambda>_.
     checkS (find_slot s expected) (\<lambda>i.
     checkS (not_set_aside (slot_at s i)) (\<lambda>_.
       bindS (if sl_lease_active (slot_at s i) then clear_lease i else returnS ()) (\<lambda>_.
         mark_quarantined i reason))))) s"

section \<open>Leases\<close>

definition lifecycle_operation :: "store \<Rightarrow> lifecycle_grant \<Rightarrow> int \<Rightarrow> store_error + bytes" where
  "lifecycle_operation s g operation =
    (if st_closed s then Inl StClosed
     else bindE (validate_lifecycle_grant g) (\<lambda>_.
       if lg_allowed_operation_mask g AND operation = 0 then Inl StDenied
       else if lg_authority_epoch g \<noteq> sg_authority_epoch (st_grant s)
          \<or> lg_tenant_scope_sha256 g \<noteq> sg_tenant_scope_sha256 (st_grant s)
          \<or> lg_bundle_sha256 g \<noteq> sg_bundle_sha256 (st_grant s)
          \<or> lg_store_grant_sha256 g \<noteq> st_grant_sha256 s
          \<or> lg_max_active_leases g > sg_max_entries (st_grant s)
       then Inl StLifecycleScope else lifecycle_grant_root g))"

definition validate_lease_window :: "int \<Rightarrow> int \<Rightarrow> int \<Rightarrow> store_error + unit" where
  "validate_lease_window observed expires max_span =
     bindE (store_u64 observed) (\<lambda>_. bindE (store_u64 expires) (\<lambda>_.
       if expires \<le> observed then Inl StLeaseWindow
       else if expires - observed > max_span then Inl StLeaseSpan else Inr ()))"

definition make_lease_receipt :: "store_target \<Rightarrow> int \<Rightarrow> bytes \<Rightarrow> int \<Rightarrow> bytes \<Rightarrow> store_error + lease_receipt" where
  "make_lease_receipt expected generation owner expires lifecycle_root =
    (let r = \<lparr>lr_target = expected, lr_generation = generation, lr_owner_sha256 = owner,
          lr_expires_at_tick = expires, lr_lifecycle_grant_sha256 = lifecycle_root, lr_lease_sha256 = []\<rparr> in
     bindE (lease_receipt_root r) (\<lambda>root. Inr (r\<lparr>lr_lease_sha256 := root\<rparr>)))"

definition current_lease :: "store_slot \<Rightarrow> store_target \<Rightarrow> lease_receipt \<Rightarrow> store_error + unit" where
  "current_lease sl expected r =
    (if \<not> sl_lease_active sl then Inl StLeaseNotActive
     else case lease_receipt_root r of Inl _ \<Rightarrow> Inl StStaleLease
     | Inr valid_root \<Rightarrow>
         if lr_target r \<noteq> expected \<or> lr_generation r = 0 \<or> lr_owner_sha256 r = ZERO_DIGEST
            \<or> lr_expires_at_tick r = 0 \<or> lr_lifecycle_grant_sha256 r = ZERO_DIGEST
            \<or> lr_lease_sha256 r \<noteq> valid_root \<or> lr_generation r \<noteq> sl_lease_generation sl
            \<or> lr_lease_sha256 r \<noteq> sl_lease_receipt_sha256 sl
         then Inl StStaleLease else Inr ())"

definition intact :: "store \<Rightarrow> store_slot \<Rightarrow> store_target \<Rightarrow> store_error + unit" where
  "intact s sl expected =
     bindE (lift_blob (blob_ref (sg_tenant_scope_sha256 (st_grant s)) (sl_payload sl))) (\<lambda>computed.
       guardE StCorrupt (computed \<noteq> expected))"

text \<open>The generation and the lease are set before the receipt is made.\<close>

definition issue_lease :: "nat \<Rightarrow> store_target \<Rightarrow> bytes \<Rightarrow> int \<Rightarrow> bytes \<Rightarrow> (lease_receipt, store) op" where
  "issue_lease i expected owner expires lifecycle_root s =
     checkS (make_lease_receipt expected (sl_lease_generation (slot_at s i)) owner expires lifecycle_root) (\<lambda>r s.
       (Inr r, set_slot i (Some ((slot_at s i)\<lparr>sl_lease_receipt_sha256 := lr_lease_sha256 r\<rparr>)) s)) s"

definition start_lease :: "nat \<Rightarrow> (unit, store) op" where
  "start_lease i s = (Inr (), set_books (add_lease 1) (set_slot i
     (Some ((slot_at s i)\<lparr>sl_lease_generation := sl_lease_generation (slot_at s i) + 1,
        sl_lease_active := True\<rparr>)) s))"

definition acquire_lease ::
  "store_target \<Rightarrow> lifecycle_grant \<Rightarrow> bytes \<Rightarrow> int \<Rightarrow> int \<Rightarrow> (lease_receipt, store) op" where
  "acquire_lease expected g owner observed expires s =
     checkS (lifecycle_operation s g LEASE_OPERATION_ACQUIRE) (\<lambda>root.
     checkS (store_digest owner) (\<lambda>_.
     checkS (validate_lease_window observed expires (lg_max_lease_span_ticks g)) (\<lambda>_.
     checkS (find_slot s expected) (\<lambda>i.
       let sl = slot_at s i in
       checkS (not_set_aside sl) (\<lambda>_.
       checkS (guardE StLeaseActive (sl_lease_active sl)) (\<lambda>_.
       checkS (guardE StLeaseBudget (ac_active_leases (st_books s) \<ge> lg_max_active_leases g)) (\<lambda>_.
       checkS (intact s sl expected) (\<lambda>_.
       checkS (guardE StGeneration (sl_lease_generation sl = U64_MAX)) (\<lambda>_.
         bindS (start_lease i) (\<lambda>_. issue_lease i expected owner expires root)))))))))) s"

definition next_generation :: "nat \<Rightarrow> (unit, store) op" where
  "next_generation i s = (Inr (), set_slot i
     (Some ((slot_at s i)\<lparr>sl_lease_generation := sl_lease_generation (slot_at s i) + 1\<rparr>)) s)"

definition renew_lease ::
  "store_target \<Rightarrow> lease_receipt \<Rightarrow> lifecycle_grant \<Rightarrow> int \<Rightarrow> int \<Rightarrow> (lease_receipt, store) op" where
  "renew_lease expected current g observed expires s =
     checkS (lifecycle_operation s g LEASE_OPERATION_RENEW) (\<lambda>root.
     checkS (find_slot s expected) (\<lambda>i.
       let sl = slot_at s i in
       checkS (current_lease sl expected current) (\<lambda>_.
       checkS (store_u64 observed) (\<lambda>_.
       checkS (store_u64 expires) (\<lambda>_.
       checkS (guardE StLeaseExpired (observed \<ge> lr_expires_at_tick current)) (\<lambda>_.
       checkS (guardE StLeaseWindow (expires \<le> lr_expires_at_tick current)) (\<lambda>_.
       checkS (validate_lease_window observed expires (lg_max_lease_span_ticks g)) (\<lambda>_.
       checkS (intact s sl expected) (\<lambda>_.
       checkS (guardE StGeneration (sl_lease_generation sl = U64_MAX)) (\<lambda>_.
         bindS (next_generation i) (\<lambda>_.
           issue_lease i expected (lr_owner_sha256 current) expires root))))))))))) s"

definition release_lease :: "store_target \<Rightarrow> lease_receipt \<Rightarrow> lifecycle_grant \<Rightarrow> (unit, store) op" where
  "release_lease expected current g s =
     checkS (lifecycle_operation s g LEASE_OPERATION_RELEASE) (\<lambda>_.
     checkS (find_slot s expected) (\<lambda>i.
     checkS (current_lease (slot_at s i) expected current) (\<lambda>_. clear_lease i))) s"

definition expire_lease :: "store_target \<Rightarrow> lease_receipt \<Rightarrow> lifecycle_grant \<Rightarrow> int \<Rightarrow> (unit, store) op" where
  "expire_lease expected current g observed s =
     checkS (lifecycle_operation s g LEASE_OPERATION_EXPIRE) (\<lambda>_.
     checkS (find_slot s expected) (\<lambda>i.
     checkS (current_lease (slot_at s i) expected current) (\<lambda>_.
     checkS (store_u64 observed) (\<lambda>_.
     checkS (guardE StLeaseNotExpired (observed < lr_expires_at_tick current)) (\<lambda>_. clear_lease i))))) s"

end
