(* ===== verification/Store_Admin.thy ===== *)
theory Store_Admin
  imports Store_Core
begin

text \<open>
  The methods of \<open>bench/continuation_object_store.py\<close> that concern the whole store: the audit, the
  snapshot roots, repair of a quarantined object, the two-step commit that frees retired objects, and the
  import of a bundle with its rollback.
\<close>

section \<open>The audit\<close>

record audit =
  au_seen_roots :: "bytes list"
  au_books :: accounting

definition audit_state :: "store_slot \<Rightarrow> store_error + unit" where
  "audit_state sl = (case sl_state sl of
      Live \<Rightarrow> guardE StLiveState (sl_reference_count sl = 0 \<or> sl_quarantine_reason_sha256 sl \<noteq> ZERO_DIGEST)
    | Quarantined \<Rightarrow> bindE (guardE StQuarantineState (sl_reference_count sl = 0)) (\<lambda>_.
        bindE (store_digest (sl_quarantine_reason_sha256 sl)) (\<lambda>_. Inr ()))
    | Retired \<Rightarrow> guardE StRetiredState (sl_reference_count sl \<noteq> 0 \<or> sl_quarantine_reason_sha256 sl \<noteq> ZERO_DIGEST))"

definition audit_lease :: "store_slot \<Rightarrow> store_error + unit" where
  "audit_lease sl =
    (if sl_lease_active sl
     then guardE StLeaseAccounting (sl_state sl \<noteq> Live \<or> sl_lease_generation sl = 0
       \<or> sl_lease_receipt_sha256 sl = ZERO_DIGEST)
     else guardE StClearedLease (sl_lease_receipt_sha256 sl \<noteq> ZERO_DIGEST))"

definition audit_payload :: "bytes \<Rightarrow> bool \<Rightarrow> store_slot \<Rightarrow> store_error + unit" where
  "audit_payload tenant allow_quarantined_corruption sl =
     bindE (lift_blob (blob_ref tenant (sl_payload sl))) (\<lambda>computed.
       guardE StCorrupt ((br_byte_length computed \<noteq> sl_byte_length sl \<or> br_sha256 computed \<noteq> sl_sha256 sl)
         \<and> \<not> (allow_quarantined_corruption \<and> sl_state sl = Quarantined)))"

definition count_slot :: "store_slot \<Rightarrow> accounting \<Rightarrow> accounting" where
  "count_slot sl a = (let a = count_state (sl_state sl) 1 a in
     a\<lparr>ac_entry_count := ac_entry_count a + 1, ac_payload_bytes := ac_payload_bytes a + sl_byte_length sl,
       ac_logical_index_bytes := ac_logical_index_bytes a + LOGICAL_INDEX_ENTRY_BYTES,
       ac_reference_count := ac_reference_count a + sl_reference_count sl,
       ac_active_leases := ac_active_leases a + (if sl_lease_active sl then 1 else 0),
       ac_repair_count := ac_repair_count a + sl_repair_generation sl\<rparr>)"

definition audit_slot :: "store_grant \<Rightarrow> bool \<Rightarrow> audit \<Rightarrow> store_slot option \<Rightarrow> store_error + audit" where
  "audit_slot g allow u v = (case v of None \<Rightarrow> Inr u | Some sl \<Rightarrow>
     bindE (guardE StAccounting (sl_byte_length sl > sg_max_object_bytes g
         \<or> sl_provenance_sha256 sl \<noteq> sg_bundle_sha256 g \<or> sl_sha256 sl \<in> set (au_seen_roots u))) (\<lambda>_.
     bindE (audit_state sl) (\<lambda>_.
     bindE (audit_lease sl) (\<lambda>_.
     bindE (store_u64 (ac_repair_count (au_books u) + sl_repair_generation sl)) (\<lambda>_.
     bindE (audit_payload (sg_tenant_scope_sha256 g) allow sl) (\<lambda>_.
       Inr \<lparr>au_seen_roots = sl_sha256 sl # au_seen_roots u, au_books = count_slot sl (au_books u)\<rparr>))))))"

definition verify_state :: "bool \<Rightarrow> store \<Rightarrow> store_error + unit" where
  "verify_state allow s =
    (let g = st_grant s in
     bindE (foldE (audit_slot g allow) \<lparr>au_seen_roots = [], au_books = new_books\<rparr> (st_slots s)) (\<lambda>u.
       let a = au_books u in
       guardE StAccountingMismatch (a \<noteq> st_books s \<or> ac_entry_count a > sg_max_entries g
         \<or> ac_payload_bytes a > sg_max_payload_bytes g \<or> ac_logical_index_bytes a > sg_max_index_bytes g
         \<or> ac_reference_count a > sg_max_references g)))"

definition verify_all :: "store \<Rightarrow> store_error + unit" where
  "verify_all s = bindE (store_operation s OPERATION_VERIFY) (\<lambda>_. verify_state False s)"

section \<open>Snapshots\<close>

definition state_code :: "slot_state \<Rightarrow> int" where
  "state_code st = (case st of Live \<Rightarrow> 1 | Quarantined \<Rightarrow> 2 | Retired \<Rightarrow> 3)"

text \<open>The occupied slots with their indexes, in order.\<close>

definition occupied :: "store_slot option list \<Rightarrow> (nat \<times> store_slot) list" where
  "occupied slots = map (\<lambda>(i, v). (i, the v)) (filter (\<lambda>(i, v). v \<noteq> None) (enumerate 0 slots))"

definition slot_parts :: "nat \<times> store_slot \<Rightarrow> (store_error + bytes) list" where
  "slot_parts = (\<lambda>(i, sl). [store_u64 (int i), store_u64 (state_code (sl_state sl)), store_u64 (sl_byte_length sl),
     Inr (sl_sha256 sl), store_u64 (sl_reference_count sl), Inr (sl_provenance_sha256 sl),
     Inr (sl_quarantine_reason_sha256 sl)])"

definition snapshot_root_unchecked :: "store \<Rightarrow> store_error + bytes" where
  "snapshot_root_unchecked s =
    (let a = st_books s in
     store_hash ''glacier-continuation-store-snapshot-v1''
      ([Inr (st_grant_sha256 s)]
       @ map store_u64 [ac_entry_count a, ac_live_entries a, ac_quarantined_entries a, ac_payload_bytes a,
           ac_logical_index_bytes a, ac_reference_count a]
       @ concat (map slot_parts (occupied (st_slots s)))))"

definition snapshot_root :: "store \<Rightarrow> store_error + bytes" where
  "snapshot_root s = bindE (verify_all s) (\<lambda>_. snapshot_root_unchecked s)"

definition lease_parts :: "nat \<times> store_slot \<Rightarrow> (store_error + bytes) list" where
  "lease_parts = (\<lambda>(i, sl). [store_u64 (int i), store_u64 (if sl_lease_active sl then 1 else 0),
     store_u64 (sl_lease_generation sl), Inr (sl_lease_receipt_sha256 sl), store_u64 (sl_repair_generation sl)])"

definition snapshot_root_v2_unchecked :: "store \<Rightarrow> store_error + bytes" where
  "snapshot_root_v2_unchecked s =
     store_hash ''glacier-continuation-store-snapshot-v2''
      ([snapshot_root_unchecked s, store_u64 (ac_active_leases (st_books s)),
        store_u64 (ac_repair_count (st_books s))]
       @ concat (map lease_parts (occupied (st_slots s))))"

definition snapshot_root_v2 :: "store \<Rightarrow> store_error + bytes" where
  "snapshot_root_v2 s = bindE (verify_all s) (\<lambda>_. snapshot_root_v2_unchecked s)"

definition audit_snapshot_root_v2 :: "store \<Rightarrow> store_error + bytes" where
  "audit_snapshot_root_v2 s =
     bindE (store_operation s OPERATION_VERIFY) (\<lambda>_.
     bindE (verify_state True s) (\<lambda>_. snapshot_root_v2_unchecked s))"

section \<open>Repair\<close>

definition count_repair :: "accounting \<Rightarrow> accounting" where
  "count_repair a = a\<lparr>ac_live_entries := ac_live_entries a + 1,
     ac_quarantined_entries := ac_quarantined_entries a - 1, ac_repair_count := ac_repair_count a + 1\<rparr>"

definition install_repair :: "nat \<Rightarrow> bytes \<Rightarrow> (unit, store) op" where
  "install_repair i candidate s = (Inr (), set_books count_repair (set_slot i
     (Some ((slot_at s i)\<lparr>sl_payload := candidate, sl_state := Live, sl_quarantine_reason_sha256 := ZERO_DIGEST,
        sl_repair_generation := sl_repair_generation (slot_at s i) + 1\<rparr>)) s))"

definition make_repair_receipt ::
  "store \<Rightarrow> nat \<Rightarrow> store_target \<Rightarrow> bytes \<Rightarrow> bytes \<Rightarrow> repair_grant \<Rightarrow> store_error + repair_receipt" where
  "make_repair_receipt s i expected source reason g =
     bindE (repair_grant_root g) (\<lambda>grant_root.
     bindE (snapshot_root_v2_unchecked s) (\<lambda>snapshot.
       let r = \<lparr>rr_target = expected, rr_repair_generation = sl_repair_generation (slot_at s i),
           rr_source_provenance_sha256 = source, rr_quarantine_reason_sha256 = reason,
           rr_repair_grant_sha256 = grant_root, rr_snapshot_sha256 = snapshot, rr_repair_sha256 = []\<rparr> in
       bindE (repair_receipt_root r) (\<lambda>root. Inr (r\<lparr>rr_repair_sha256 := root\<rparr>))))"

text \<open>
  \<open>same_object\<close> is the identity test \<open>candidate is slot["payload"]\<close>, which the bytes alone do not
  decide.
\<close>

definition store_repair ::
  "store_target \<Rightarrow> bytes \<Rightarrow> bool \<Rightarrow> bytes \<Rightarrow> repair_grant \<Rightarrow> (repair_receipt, store) op" where
  "store_repair expected candidate same_object source g s =
     checkS (guardE StClosed (st_closed s)) (\<lambda>_.
     checkS (validate_repair_grant g) (\<lambda>_.
     checkS (guardE StRepairScope (rg_authority_epoch g \<noteq> sg_authority_epoch (st_grant s)
         \<or> rg_tenant_scope_sha256 g \<noteq> sg_tenant_scope_sha256 (st_grant s)
         \<or> rg_bundle_sha256 g \<noteq> sg_bundle_sha256 (st_grant s)
         \<or> rg_store_grant_sha256 g \<noteq> st_grant_sha256 s)) (\<lambda>_.
     checkS (guardE StRepairTarget (rg_target g \<noteq> expected)) (\<lambda>_.
     checkS (guardE StRepairSource (rg_trusted_source_sha256 g \<noteq> source)) (\<lambda>_.
     checkS (find_slot s expected) (\<lambda>i.
       let sl = slot_at s i; reason = sl_quarantine_reason_sha256 sl in
       checkS (guardE StNotQuarantined (sl_state sl \<noteq> Quarantined)) (\<lambda>_.
       checkS (guardE StLeaseActive (sl_lease_active sl)) (\<lambda>_.
       checkS (guardE StRepairReason (reason \<noteq> rg_expected_quarantine_reason_sha256 g)) (\<lambda>_.
       checkS (guardE StRepairTooLarge (br_byte_length expected > rg_max_repair_bytes g)) (\<lambda>_.
       checkS (lift_blob (blob_ref (sg_tenant_scope_sha256 (st_grant s)) candidate)) (\<lambda>computed.
       checkS (guardE StRepairTarget (computed \<noteq> expected)) (\<lambda>_.
       checkS (guardE StUnsafeSource same_object) (\<lambda>_.
       checkS (guardE StGeneration (sl_repair_generation sl = U64_MAX)) (\<lambda>_.
       checkS (guardE StGeneration (ac_repair_count (st_books s) = U64_MAX)) (\<lambda>_.
         bindS (install_repair i candidate) (\<lambda>_ s.
           checkS (make_repair_receipt s i expected source reason g) returnS s)))))))))))))))) s"

section \<open>The commit of retired objects\<close>

record commit_permit =
  cp_authority_epoch :: int
  cp_tenant_scope_sha256 :: bytes
  cp_bundle_sha256 :: bytes
  cp_store_grant_sha256 :: bytes
  cp_expected_snapshot_sha256 :: bytes
  cp_authorization_sha256 :: bytes
  cp_max_freed_entries :: int
  cp_max_freed_bytes :: int

definition validate_permit :: "store \<Rightarrow> commit_permit \<Rightarrow> store_error + unit" where
  "validate_permit s p =
     bindE (store_operation s OPERATION_RELEASE) (\<lambda>_.
     bindE (mapE store_u64 [cp_authority_epoch p, cp_max_freed_entries p, cp_max_freed_bytes p]) (\<lambda>_.
     bindE (mapE store_digest [cp_tenant_scope_sha256 p, cp_bundle_sha256 p, cp_store_grant_sha256 p,
       cp_expected_snapshot_sha256 p, cp_authorization_sha256 p]) (\<lambda>_.
     bindE (guardE StPermit (cp_authority_epoch p = 0 \<or> cp_max_freed_entries p = 0 \<or> cp_max_freed_bytes p = 0)) (\<lambda>_.
       guardE StCommitScope (cp_authority_epoch p \<noteq> sg_authority_epoch (st_grant s)
         \<or> cp_tenant_scope_sha256 p \<noteq> sg_tenant_scope_sha256 (st_grant s)
         \<or> cp_bundle_sha256 p \<noteq> sg_bundle_sha256 (st_grant s)
         \<or> cp_store_grant_sha256 p \<noteq> st_grant_sha256 s)))))"

record freed =
  fr_indexes :: "nat list"
  fr_payload_bytes :: int
  fr_repairs :: int

definition free_target :: "store \<Rightarrow> freed \<Rightarrow> store_target \<Rightarrow> store_error + freed" where
  "free_target s f target =
    (case store_find s target of None \<Rightarrow> Inl StTargetMissing
     | Some i \<Rightarrow>
       let sl = slot_at s i; f' = \<lparr>fr_indexes = fr_indexes f @ [i],
           fr_payload_bytes = fr_payload_bytes f + sl_byte_length sl,
           fr_repairs = fr_repairs f + sl_repair_generation sl\<rparr> in
       bindE (guardE StTargetMismatch (sl_state sl \<noteq> Retired \<or> sl_reference_count sl \<noteq> 0
         \<or> sl_lease_active sl \<or> sl_quarantine_reason_sha256 sl \<noteq> ZERO_DIGEST)) (\<lambda>_.
       bindE (store_u64 (fr_payload_bytes f')) (\<lambda>_.
       bindE (store_u64 (fr_repairs f')) (\<lambda>_. Inr f'))))"

definition books_without :: "int \<Rightarrow> freed \<Rightarrow> accounting \<Rightarrow> accounting" where
  "books_without n f a = a\<lparr>ac_entry_count := ac_entry_count a - n, ac_retired_entries := ac_retired_entries a - n,
     ac_payload_bytes := ac_payload_bytes a - fr_payload_bytes f,
     ac_logical_index_bytes := ac_logical_index_bytes a - n * LOGICAL_INDEX_ENTRY_BYTES,
     ac_repair_count := ac_repair_count a - fr_repairs f\<rparr>"

definition clear_slots :: "nat list \<Rightarrow> store \<Rightarrow> store" where
  "clear_slots idxs s = fold (\<lambda>i. set_slot i None) idxs s"

definition preview_retired :: "store \<Rightarrow> commit_permit \<Rightarrow> store_target list \<Rightarrow> store_error + commit_receipt" where
  "preview_retired s p targets =
     bindE (validate_permit s p) (\<lambda>_.
     bindE (guardE StCommitEntries (targets = [] \<or> int (length targets) > cp_max_freed_entries p)) (\<lambda>_.
     bindE (retired_targets_root targets) (\<lambda>targets_sha256.
     bindE (audit_snapshot_root_v2 s) (\<lambda>snapshot_before.
     bindE (guardE StCommitSnapshot (snapshot_before \<noteq> cp_expected_snapshot_sha256 p)) (\<lambda>_.
     bindE (foldE (free_target s) \<lparr>fr_indexes = [], fr_payload_bytes = 0, fr_repairs = 0\<rparr> targets) (\<lambda>f.
     bindE (guardE StCommitBytes (fr_payload_bytes f > cp_max_freed_bytes p)) (\<lambda>_.
       let n = int (length targets); before = st_books s; after = books_without n f before;
           shadow = (clear_slots (fr_indexes f) s)\<lparr>st_books := after\<rparr> in
     bindE (guardE StCommitUnderflow (ac_entry_count before < n \<or> ac_retired_entries before < n
         \<or> ac_payload_bytes before < fr_payload_bytes f
         \<or> ac_logical_index_bytes before < n * LOGICAL_INDEX_ENTRY_BYTES
         \<or> ac_repair_count before < fr_repairs f)) (\<lambda>_.
     bindE (snapshot_root_v2_unchecked shadow) (\<lambda>snapshot_after.
       let r = \<lparr>cr_authorization_sha256 = cp_authorization_sha256 p, cr_targets_sha256 = targets_sha256,
           cr_snapshot_before_sha256 = snapshot_before, cr_snapshot_after_sha256 = snapshot_after,
           cr_accounting_before = before, cr_accounting_after = after, cr_freed_entries = n,
           cr_freed_payload_bytes = fr_payload_bytes f, cr_freed_index_bytes = n * LOGICAL_INDEX_ENTRY_BYTES,
           cr_freed_repair_count = fr_repairs f, cr_allocator_deallocation_calls = n, cr_commit_sha256 = []\<rparr> in
     bindE (retired_commit_receipt_root r) (\<lambda>root. Inr (r\<lparr>cr_commit_sha256 := root\<rparr>)))))))))))"

text \<open>
  The targets were validated by the preview, so a missing one is an \<open>AssertionError\<close>; so is a snapshot
  that differs from the previewed one after the slots have been cleared.
\<close>

definition apply_preview :: "nat list \<Rightarrow> commit_receipt \<Rightarrow> (unit, store) op" where
  "apply_preview ixs r s = (Inr (), (clear_slots ixs s)\<lparr>st_books := cr_accounting_after r\<rparr>)"

definition commit_retired_preview ::
  "commit_permit \<Rightarrow> store_target list \<Rightarrow> commit_receipt \<Rightarrow> (commit_receipt, store) op" where
  "commit_retired_preview p targets expected_preview s =
     checkS (preview_retired s p targets) (\<lambda>preview.
     checkS (guardE StPreview (preview \<noteq> expected_preview)) (\<lambda>_.
     checkS (mapE (\<lambda>t. case store_find s t of None \<Rightarrow> Inl StAssertion | Some i \<Rightarrow> Inr i) targets) (\<lambda>ixs.
       bindS (apply_preview ixs preview) (\<lambda>_ s.
         checkS (snapshot_root_v2_unchecked s) (\<lambda>root.
         checkS (guardE StAssertion (root \<noteq> cr_snapshot_after_sha256 preview)) (\<lambda>_.
           returnS preview)) s)))) s"

definition commit_retired :: "commit_permit \<Rightarrow> store_target list \<Rightarrow> (commit_receipt, store) op" where
  "commit_retired p targets s =
     checkS (preview_retired s p targets) (\<lambda>preview. commit_retired_preview p targets preview) s"

section \<open>The import of a bundle\<close>

record import_action =
  ia_slot_index :: nat
  ia_inserted :: bool

definition uncount_insert :: "store_slot \<Rightarrow> accounting \<Rightarrow> accounting" where
  "uncount_insert sl a = (let a = a\<lparr>ac_entry_count := ac_entry_count a - 1\<rparr>;
       a = count_state (if sl_state sl = Live then Live else Quarantined) (-1) a in
     a\<lparr>ac_payload_bytes := ac_payload_bytes a - sl_byte_length sl,
       ac_logical_index_bytes := ac_logical_index_bytes a - LOGICAL_INDEX_ENTRY_BYTES,
       ac_reference_count := ac_reference_count a - sl_reference_count sl\<rparr>)"

definition rollback_action :: "import_action \<Rightarrow> (unit, store) op" where
  "rollback_action act s =
    (case st_slots s ! ia_slot_index act of None \<Rightarrow> (Inl StAssertion, s)
     | Some sl \<Rightarrow>
         if ia_inserted act then
           (Inr (), set_books (uncount_insert sl) (set_slot (ia_slot_index act) None s)
              \<lparr>st_allocator_insertions := st_allocator_insertions s - 1\<rparr>)
         else (Inr (), set_books (add_reference (-1)) (set_slot (ia_slot_index act)
              (Some (sl\<lparr>sl_reference_count := sl_reference_count sl - 1\<rparr>)) s)))"

primrec rollback_newest_first :: "import_action list \<Rightarrow> (unit, store) op" where
  "rollback_newest_first [] = returnS ()"
| "rollback_newest_first (act # acts) = bindS (rollback_action act) (\<lambda>_. rollback_newest_first acts)"

definition store_rollback :: "import_action list \<Rightarrow> (unit, store) op" where
  "store_rollback actions = rollback_newest_first (rev actions)"

record import_progress =
  ip_actions :: "import_action list"
  ip_unique_entries_added :: int
  ip_references_reused :: int
  ip_payload_bytes_added :: int

definition note_put :: "bundle_entry \<Rightarrow> put_receipt \<Rightarrow> import_progress \<Rightarrow> import_progress" where
  "note_put e r p =
    (let inserted = (pr_disposition r = Inserted);
         p = p\<lparr>ip_actions := ip_actions p @ [\<lparr>ia_slot_index = pr_slot_index r, ia_inserted = inserted\<rparr>]\<rparr> in
     if inserted then p\<lparr>ip_unique_entries_added := ip_unique_entries_added p + 1,
         ip_payload_bytes_added := ip_payload_bytes_added p + be_byte_length e\<rparr>
     else p\<lparr>ip_references_reused := ip_references_reused p + 1\<rparr>)"

definition put_entry :: "objects \<Rightarrow> bytes \<Rightarrow> bundle_entry \<times> string \<Rightarrow> (put_receipt, store) op" where
  "put_entry objects envelope = (\<lambda>(e, name).
     store_put \<lparr>br_byte_length = be_byte_length e, br_sha256 = be_blob_sha256 e\<rparr>
       (snd (the (map_of objects name))) envelope)"

text \<open>The loop of the \<open>try\<close> block: the error that stopped it, if any, and what it had done.\<close>

primrec import_loop ::
  "objects \<Rightarrow> bytes \<Rightarrow> (bundle_entry \<times> string) list \<Rightarrow> import_progress \<Rightarrow> store \<Rightarrow>
     (store_error option \<times> import_progress) \<times> store" where
  "import_loop objects envelope [] p s = ((None, p), s)"
| "import_loop objects envelope (x # xs) p s =
    (case put_entry objects envelope x s of
       (Inl e, t) \<Rightarrow> ((Some e, p), t)
     | (Inr r, t) \<Rightarrow> import_loop objects envelope xs (note_put (fst x) r p) t)"

record import_receipt =
  ir_bundle_sha256 :: bytes
  ir_semantic_references :: int
  ir_unique_entries_added :: int
  ir_references_reused :: int
  ir_payload_bytes_added :: int
  ir_entry_count_after :: int
  ir_payload_bytes_after :: int
  ir_reference_count_after :: int
  ir_snapshot_sha256 :: bytes

definition no_progress :: import_progress where
  "no_progress = \<lparr>ip_actions = [], ip_unique_entries_added = 0, ip_references_reused = 0, ip_payload_bytes_added = 0\<rparr>"

definition finish_import :: "bytes \<Rightarrow> import_progress \<Rightarrow> (import_receipt, store) op" where
  "finish_import envelope p s =
     checkS (snapshot_root s) (\<lambda>root. returnS
       \<lparr>ir_bundle_sha256 = envelope, ir_semantic_references = int (length OBJECT_NAMES),
        ir_unique_entries_added = ip_unique_entries_added p, ir_references_reused = ip_references_reused p,
        ir_payload_bytes_added = ip_payload_bytes_added p, ir_entry_count_after = ac_entry_count (st_books s),
        ir_payload_bytes_after = ac_payload_bytes (st_books s),
        ir_reference_count_after = ac_reference_count (st_books s), ir_snapshot_sha256 = root\<rparr>) s"

definition run_import :: "bundle_manifest \<Rightarrow> objects \<Rightarrow> (import_receipt, store) op" where
  "run_import d objects s =
    (case import_loop objects (bm_envelope_sha256 d) (zip (bm_entries d) OBJECT_NAMES) no_progress s of
       ((Some e, p), t) \<Rightarrow> bindS (store_rollback (ip_actions p)) (\<lambda>_. failS e) t
     | ((None, p), t) \<Rightarrow> finish_import (bm_envelope_sha256 d) p t)"

definition import_bundle :: "bytes \<Rightarrow> bundle_config \<Rightarrow> bytes \<Rightarrow> objects \<Rightarrow> (import_receipt, store) op" where
  "import_bundle bundle_wire expected_config capsule_wire objects s =
     checkS (store_operation s OPERATION_PUT) (\<lambda>_.
     checkS (lift_blob (bundle_decode_and_verify bundle_wire expected_config capsule_wire objects)) (\<lambda>d.
     checkS (guardE StBundleMismatch (bm_envelope_sha256 d \<noteq> sg_bundle_sha256 (st_grant s)
         \<or> bc_tenant_scope_sha256 (bm_config d) \<noteq> sg_tenant_scope_sha256 (st_grant s))) (\<lambda>_.
       run_import d objects))) s"

end
