(* ===== verification/Store_Facts.thy ===== *)
theory Store_Facts
  imports Store_Admin
begin

text \<open>
  What the books of a store count, and the well-formedness of its slots and of the store. The counters
  are sums over the slots, so a method that changes one slot changes each of them by the difference of
  two slots (\<open>books_update\<close>).
\<close>

named_theorems store_simps "the parts of a store after a method"

section \<open>Sums over the slots\<close>

definition of_slot :: "(store_slot \<Rightarrow> int) \<Rightarrow> store_slot option \<Rightarrow> int" where
  "of_slot f v = (case v of None \<Rightarrow> 0 | Some sl \<Rightarrow> f sl)"

lemma of_slot_simps [simp]: "of_slot f None = 0" "of_slot f (Some sl) = f sl"
  by (simp_all add: of_slot_def)

definition slot_sum :: "(store_slot \<Rightarrow> int) \<Rightarrow> store_slot option list \<Rightarrow> int" where
  "slot_sum f slots = sum_list (map (of_slot f) slots)"

lemma slot_sum_simps [simp]:
  "slot_sum f [] = 0" "slot_sum f (v # vs) = of_slot f v + slot_sum f vs"
  by (simp_all add: slot_sum_def)

lemma slot_sum_replicate [simp]: "slot_sum f (replicate n None) = 0"
  by (induction n) simp_all

lemma slot_sum_update:
  "i < length vs \<Longrightarrow> slot_sum f (vs[i := v]) = slot_sum f vs - of_slot f (vs ! i) + of_slot f v"
proof (induction vs arbitrary: i)
  case (Cons w ws)
  then show ?case by (cases i) simp_all
qed simp

lemma slot_sum_nonneg: "(\<And>sl. Some sl \<in> set vs \<Longrightarrow> 0 \<le> f sl) \<Longrightarrow> 0 \<le> slot_sum f vs"
proof (induction vs)
  case (Cons v vs)
  have "0 \<le> of_slot f v" using Cons.prems by (cases v) auto
  moreover have "0 \<le> slot_sum f vs" using Cons.IH Cons.prems by auto
  ultimately show ?case by simp
qed simp

lemma slot_sum_mono: "(\<And>sl. Some sl \<in> set vs \<Longrightarrow> f sl \<le> g sl) \<Longrightarrow> slot_sum f vs \<le> slot_sum g vs"
proof (induction vs)
  case (Cons v vs)
  have "of_slot f v \<le> of_slot g v" using Cons.prems by (cases v) auto
  moreover have "slot_sum f vs \<le> slot_sum g vs" using Cons.IH Cons.prems by auto
  ultimately show ?case by simp
qed simp

lemma slot_sum_member: "Some sl \<in> set vs \<Longrightarrow> (\<And>sl. Some sl \<in> set vs \<Longrightarrow> 0 \<le> f sl) \<Longrightarrow> f sl \<le> slot_sum f vs"
proof (induction vs)
  case (Cons v vs)
  show ?case
  proof (cases "v = Some sl")
    case True
    then show ?thesis using slot_sum_nonneg [of vs f] Cons.prems by simp
  next
    case False
    then have "f sl \<le> slot_sum f vs" using Cons by simp
    moreover have "0 \<le> of_slot f v" using Cons.prems by (cases v) auto
    ultimately show ?thesis by simp
  qed
qed simp

lemma slot_sum_add: "slot_sum (\<lambda>sl. f sl + g sl) vs = slot_sum f vs + slot_sum g vs"
proof (induction vs)
  case (Cons v vs)
  then show ?case by (cases v) simp_all
qed simp

lemma slot_sum_scale: "slot_sum (\<lambda>sl. c) vs = c * slot_sum (\<lambda>_. 1) vs"
proof (induction vs)
  case (Cons v vs)
  then show ?case by (cases v) (simp_all add: algebra_simps)
qed simp

lemma slot_sum_cong: "(\<And>sl. Some sl \<in> set vs \<Longrightarrow> f sl = g sl) \<Longrightarrow> slot_sum f vs = slot_sum g vs"
  by (simp add: order_antisym slot_sum_mono)

section \<open>The books\<close>

definition books_of :: "store_slot option list \<Rightarrow> accounting" where
  "books_of vs = \<lparr>ac_entry_count = slot_sum (\<lambda>_. 1) vs,
     ac_live_entries = slot_sum (\<lambda>sl. if sl_state sl = Live then 1 else 0) vs,
     ac_quarantined_entries = slot_sum (\<lambda>sl. if sl_state sl = Quarantined then 1 else 0) vs,
     ac_retired_entries = slot_sum (\<lambda>sl. if sl_state sl = Retired then 1 else 0) vs,
     ac_payload_bytes = slot_sum sl_byte_length vs,
     ac_logical_index_bytes = slot_sum (\<lambda>_. LOGICAL_INDEX_ENTRY_BYTES) vs,
     ac_reference_count = slot_sum sl_reference_count vs,
     ac_active_leases = slot_sum (\<lambda>sl. if sl_lease_active sl then 1 else 0) vs,
     ac_repair_count = slot_sum sl_repair_generation vs\<rparr>"

lemma books_of_empty: "books_of (replicate n None) = new_books"
  by (simp add: books_of_def new_books_def)

lemma books_of_snoc: "books_of (vs @ [v]) = (case v of None \<Rightarrow> books_of vs | Some sl \<Rightarrow> count_slot sl (books_of vs))"
proof (cases v)
  case None
  then show ?thesis by (simp add: books_of_def slot_sum_def)
next
  case (Some sl)
  then show ?thesis
    by (cases "sl_state sl") (simp_all add: books_of_def slot_sum_def count_slot_def count_state_def Let_def)
qed

text \<open>The books with one slot taken out: what remains is common to the books before and after a method.\<close>

lemma books_update:
  "i < length vs \<Longrightarrow> books_of (vs[i := Some sl]) = count_slot sl (books_of (vs[i := None]))"
  by (cases "sl_state sl") (simp_all add: books_of_def slot_sum_update count_slot_def count_state_def Let_def)

lemma books_split:
  assumes "i < length vs" "vs ! i = Some sl"
  shows "books_of vs = count_slot sl (books_of (vs[i := None]))"
  using books_update [OF assms(1), of sl] assms by (metis list_update_id)

section \<open>Well-formed slots\<close>

definition slot_ok :: "store_grant \<Rightarrow> store_slot \<Rightarrow> bool" where
  "slot_ok g sl \<longleftrightarrow> 1 \<le> sl_byte_length sl \<and> sl_byte_length sl \<le> sg_max_object_bytes g
     \<and> length (sl_sha256 sl) = 32
     \<and> sl_provenance_sha256 sl = sg_bundle_sha256 g
     \<and> (if sl_state sl = Retired then sl_reference_count sl = 0 else 1 \<le> sl_reference_count sl)
     \<and> (if sl_state sl = Quarantined
        then length (sl_quarantine_reason_sha256 sl) = 32 \<and> sl_quarantine_reason_sha256 sl \<noteq> ZERO_DIGEST
        else sl_quarantine_reason_sha256 sl = ZERO_DIGEST)
     \<and> 0 \<le> sl_lease_generation sl \<and> sl_lease_generation sl \<le> U64_MAX \<and> 0 \<le> sl_repair_generation sl
     \<and> (if sl_lease_active sl
        then sl_state sl = Live \<and> sl_lease_generation sl \<noteq> 0 \<and> sl_lease_receipt_sha256 sl \<noteq> ZERO_DIGEST
        else sl_lease_receipt_sha256 sl = ZERO_DIGEST)"

definition shas_distinct :: "store_slot option list \<Rightarrow> bool" where
  "shas_distinct vs \<longleftrightarrow> (\<forall>i j a b. i < length vs \<and> j < length vs \<and> vs ! i = Some a \<and> vs ! j = Some b
     \<and> sl_sha256 a = sl_sha256 b \<longrightarrow> i = j)"

definition within_budget :: "store_grant \<Rightarrow> accounting \<Rightarrow> bool" where
  "within_budget g a \<longleftrightarrow> ac_entry_count a \<le> sg_max_entries g \<and> ac_payload_bytes a \<le> sg_max_payload_bytes g
     \<and> ac_logical_index_bytes a \<le> sg_max_index_bytes g \<and> ac_reference_count a \<le> sg_max_references g
     \<and> ac_repair_count a \<le> U64_MAX"

definition store_ok :: "store \<Rightarrow> bool" where
  "store_ok s \<longleftrightarrow> validate_grant (st_grant s) = Inr () \<and> grant_root (st_grant s) = Inr (st_grant_sha256 s)
     \<and> sg_max_entries (st_grant s) \<le> int (length (st_slots s)) \<and> st_capacity s = int (length (st_slots s))
     \<and> st_books s = books_of (st_slots s)
     \<and> (\<forall>sl. Some sl \<in> set (st_slots s) \<longrightarrow> slot_ok (st_grant s) sl)
     \<and> shas_distinct (st_slots s) \<and> within_budget (st_grant s) (st_books s)"

lemma set_slot_parts [store_simps]:
  "st_grant (set_slot i v s) = st_grant s" "st_grant_sha256 (set_slot i v s) = st_grant_sha256 s"
  "st_slots (set_slot i v s) = (st_slots s)[i := v]" "st_books (set_slot i v s) = st_books s"
  "st_closed (set_slot i v s) = st_closed s" "st_capacity (set_slot i v s) = st_capacity s"
  by (simp_all add: set_slot_def)

lemma set_books_parts [store_simps]:
  "st_grant (set_books f s) = st_grant s" "st_grant_sha256 (set_books f s) = st_grant_sha256 s"
  "st_slots (set_books f s) = st_slots s" "st_books (set_books f s) = f (st_books s)"
  "st_closed (set_books f s) = st_closed s" "st_capacity (set_books f s) = st_capacity s"
  by (simp_all add: set_books_def)

section \<open>Finding a slot\<close>

lemma first_index_Some:
  "first_index P xs = Some i \<longleftrightarrow> i < length xs \<and> P (xs ! i) \<and> (\<forall>j < i. \<not> P (xs ! j))"
proof (induction xs arbitrary: i)
  case (Cons x xs)
  show ?case by (cases i) (auto simp: Cons.IH nth_Cons split: nat.splits)
qed simp

lemma first_index_None: "first_index P xs = None \<longleftrightarrow> (\<forall>x \<in> set xs. \<not> P x)"
  by (induction xs) auto

lemma slot_is_iff: "slot_is P v \<longleftrightarrow> (\<exists>sl. v = Some sl \<and> P sl)"
  by (cases v) (simp_all add: slot_is_def)

lemma find_slot_Inr:
  assumes "find_slot s expected = Inr i"
  obtains sl where "i < length (st_slots s)" "st_slots s ! i = Some sl" "slot_at s i = sl"
    "sl_byte_length sl = br_byte_length expected" "sl_sha256 sl = br_sha256 expected"
  using assms
  by (auto simp: find_slot_def store_find_def first_index_Some slot_is_iff slot_at_def split: option.splits)

lemma not_set_aside_Inr [result_simps]: "not_set_aside sl = Inr u \<longleftrightarrow> sl_state sl = Live"
  by (auto simp: not_set_aside_def split: slot_state.splits)

text \<open>The first field of every hash is found in the order of the slots; a store with distinct digests finds a slot by digest.\<close>

lemma blob_ref_returns [result_simps]:
  "blob_ref tenant payload = Inr r \<longleftrightarrow> length tenant = 32 \<and> tenant \<noteq> ZERO_DIGEST \<and> payload \<noteq> []
     \<and> is_u64 (int (length payload))
     \<and> r = \<lparr>br_byte_length = int (length payload),
            br_sha256 = sha_parts BLOB_DOMAIN [tenant, u64_bytes (int (length payload)), payload]\<rparr>"
  by (auto simp: blob_ref_def bindE_Inr bundle_digest_def bundle_u64_def is_u64_def)

lemma lift_blob_Inr [result_simps]: "lift_blob m = Inr x \<longleftrightarrow> m = Inr x"
  by (cases m) (simp_all add: lift_blob_def)

lemma mapE_store_u64: "mapE store_u64 vs = Inr bs \<longleftrightarrow> (\<forall>v \<in> set vs. is_u64 v) \<and> bs = map u64_bytes vs"
  by (rule mapE_guard) (rule store_u64_Inr)

section \<open>Changing one slot\<close>

lemma shas_distinct_None: "shas_distinct vs \<Longrightarrow> shas_distinct (vs[i := None])"
  unfolding shas_distinct_def by (metis length_list_update nth_list_update nth_list_update_neq option.distinct(1))

lemma shas_distinct_update:
  assumes "shas_distinct vs" "i < length vs"
    and "\<And>j sl. j < length vs \<Longrightarrow> j \<noteq> i \<Longrightarrow> vs ! j = Some sl \<Longrightarrow> sl_sha256 sl \<noteq> sl_sha256 new"
  shows "shas_distinct (vs[i := Some new])"
  unfolding shas_distinct_def
proof (intro allI impI, elim conjE)
  fix j k a b
  assume jk: "j < length (vs[i := Some new])" "k < length (vs[i := Some new])" "vs[i := Some new] ! j = Some a"
    "vs[i := Some new] ! k = Some b" "sl_sha256 a = sl_sha256 b"
  show "j = k"
  proof (cases "j = i")
    case True
    with jk assms(2) show ?thesis using assms(3) [of k b] by (auto simp: nth_list_update split: if_splits)
  next
    case False
    with jk assms(2) show ?thesis using assms(1) assms(3) [of j a]
      by (cases "k = i") (auto simp: shas_distinct_def)
  qed
qed

lemma shas_distinct_same:
  assumes "shas_distinct vs" "i < length vs" "vs ! i = Some old" "sl_sha256 new = sl_sha256 old"
  shows "shas_distinct (vs[i := Some new])"
  by (rule shas_distinct_update) (use assms in \<open>auto simp: shas_distinct_def\<close>)

text \<open>
  A method that replaces one slot keeps the store well formed when the new slot is, when it keeps its
  digest, and when the books are changed by the difference of the two slots and stay in the budget.
\<close>

lemma store_ok_set:
  assumes ok: "store_ok s" and i: "i < length (st_slots s)" "st_slots s ! i = Some old"
    and new: "slot_ok (st_grant s) new" "sl_sha256 new = sl_sha256 old"
    and t: "st_grant t = st_grant s" "st_grant_sha256 t = st_grant_sha256 s" "st_capacity t = st_capacity s"
      "st_slots t = (st_slots s)[i := Some new]"
    and books: "\<And>a. st_books s = count_slot old a \<Longrightarrow> st_books t = count_slot new a"
    and budget: "within_budget (st_grant s) (st_books t)"
  shows "store_ok t"
proof -
  have b: "st_books t = books_of (st_slots t)"
    using books [of "books_of ((st_slots s)[i := None])"] ok i books_split [OF i] books_update [OF i(1), of new]
    by (simp add: store_ok_def t)
  have "slot_ok (st_grant s) sl" if "Some sl \<in> set (st_slots t)" for sl
    using that set_update_subset_insert [of "st_slots s" i "Some new"] ok new by (auto simp: store_ok_def t)
  moreover have "shas_distinct (st_slots t)"
    unfolding t using ok i new by (auto simp: store_ok_def intro: shas_distinct_same)
  ultimately show ?thesis using ok b budget by (simp add: store_ok_def t)
qed

lemma store_ok_clear:
  assumes ok: "store_ok s" and i: "i < length (st_slots s)" "st_slots s ! i = Some old"
    and t: "st_grant t = st_grant s" "st_grant_sha256 t = st_grant_sha256 s" "st_capacity t = st_capacity s"
      "st_slots t = (st_slots s)[i := None]"
    and books: "\<And>a. st_books s = count_slot old a \<Longrightarrow> st_books t = a"
  shows "store_ok t"
proof -
  have old: "slot_ok (st_grant s) old" using ok i nth_mem [OF i(1)] by (simp add: store_ok_def)
  have b: "st_books t = books_of (st_slots t)"
    using books [of "books_of ((st_slots s)[i := None])"] ok i books_split [OF i] by (simp add: store_ok_def t)
  have "slot_ok (st_grant s) sl" if "Some sl \<in> set (st_slots t)" for sl
    using that set_update_subset_insert [of "st_slots s" i None] ok by (auto simp: store_ok_def t)
  moreover have "shas_distinct (st_slots t)" unfolding t using ok by (auto simp: store_ok_def intro: shas_distinct_None)
  moreover have "within_budget (st_grant s) (st_books t)"
  proof -
    have "st_books s = count_slot old (st_books t)" using b books_split [OF i] ok by (simp add: store_ok_def t)
    with ok old show ?thesis
      by (cases "sl_state old") (auto simp: store_ok_def within_budget_def slot_ok_def count_slot_def count_state_def Let_def)
  qed
  ultimately show ?thesis using ok b by (simp add: store_ok_def t)
qed

end
