(* ===== verification/Store_Invariants.thy ===== *)
theory Store_Invariants
  imports Store_Facts
begin

text \<open>
  Every method of the store keeps it well formed, whether it returns or raises. \<open>keeps s p\<close> says so of
  the outcome \<open>p\<close> of a method on \<open>s\<close>; it passes through checks and sequences, so the proof of a method
  looks only at the stores it writes.
\<close>

lemma checkS_cases:
  assumes "checkS m f s = (r, t)"
  obtains (raised) e where "r = Inl e" "t = s" | (passed) x where "m = Inr x" "f x s = (r, t)"
  using assms by (cases m) auto

section \<open>Keeping a store well formed\<close>

definition same_scope :: "store \<Rightarrow> store \<Rightarrow> bool" where
  "same_scope s t \<longleftrightarrow> st_grant t = st_grant s \<and> st_grant_sha256 t = st_grant_sha256 s \<and> st_closed t = st_closed s
     \<and> st_capacity t = st_capacity s"

definition keeps :: "store \<Rightarrow> (store_error + 'a) \<times> store \<Rightarrow> bool" where
  "keeps s p \<longleftrightarrow> store_ok (snd p) \<and> same_scope s (snd p)"

lemma keeps_same: "store_ok s \<Longrightarrow> keeps s (r, s)"
  by (simp add: keeps_def same_scope_def)

lemma keeps_check:
  "store_ok s \<Longrightarrow> (\<And>x. m = Inr x \<Longrightarrow> keeps s (f x s)) \<Longrightarrow> keeps s (checkS m f s)"
  by (cases m) (simp_all add: keeps_same)

lemma keeps_guard: "store_ok s \<Longrightarrow> (\<not> c \<Longrightarrow> keeps s (f () s)) \<Longrightarrow> keeps s (checkS (guardE e c) f s)"
  by (simp add: guardE_def keeps_same)

lemmas keeps_checks = keeps_guard keeps_check

lemma keeps_bind:
  assumes "keeps s (m s)" "\<And>x t. m s = (Inr x, t) \<Longrightarrow> store_ok t \<Longrightarrow> keeps t (f x t)"
  shows "keeps s (bindS m f s)"
proof (cases "m s")
  case (Pair r t)
  show ?thesis
  proof (cases r)
    case (Inl e)
    with Pair assms(1) show ?thesis by (simp add: bindS_def keeps_def)
  next
    case (Inr x)
    with Pair assms(1) have "store_ok t" "same_scope s t" by (simp_all add: keeps_def)
    with assms(2) [of x t] Pair Inr show ?thesis by (auto simp: bindS_def keeps_def same_scope_def)
  qed
qed

lemma keepsD: "keeps s (m s) \<Longrightarrow> m s = (r, t) \<Longrightarrow> store_ok t \<and> same_scope s t"
  by (simp add: keeps_def)

lemma keeps_set:
  assumes "store_ok s" "i < length (st_slots s)" "st_slots s ! i = Some old"
    and "slot_ok (st_grant s) new" "sl_sha256 new = sl_sha256 old"
    and "same_scope s t" "st_slots t = (st_slots s)[i := Some new]"
    and "\<And>a. st_books s = count_slot old a \<Longrightarrow> st_books t = count_slot new a"
    and "within_budget (st_grant s) (st_books t)"
  shows "keeps s (r, t)"
  using store_ok_set [of s i old new t] assms by (simp add: keeps_def same_scope_def)

lemma keeps_clear:
  assumes "store_ok s" "i < length (st_slots s)" "st_slots s ! i = Some old"
    and "same_scope s t" "st_slots t = (st_slots s)[i := None]"
    and "\<And>a. st_books s = count_slot old a \<Longrightarrow> st_books t = a"
  shows "keeps s (r, t)"
  using store_ok_clear [of s i old t] assms by (simp add: keeps_def same_scope_def)

lemma scope_parts [simp]:
  "same_scope s (set_books f t) \<longleftrightarrow> same_scope s t" "same_scope s (set_slot i v t) \<longleftrightarrow> same_scope s t"
  "same_scope s (t\<lparr>st_allocator_insertions := n\<rparr>) \<longleftrightarrow> same_scope s t" "same_scope s s"
  by (simp_all add: same_scope_def store_simps)

lemma slot_of_ok: "store_ok s \<Longrightarrow> i < length (st_slots s) \<Longrightarrow> st_slots s ! i = Some sl \<Longrightarrow> slot_ok (st_grant s) sl"
  by (metis nth_mem store_ok_def)

lemma budget_of_ok: "store_ok s \<Longrightarrow> within_budget (st_grant s) (st_books s)"
  unfolding store_ok_def by blast

lemmas slot_change_simps = store_simps slot_ok_def count_slot_def count_state_def Let_def within_budget_def

section \<open>put\<close>

lemma put_reuse_keeps:
  assumes ok: "store_ok s" and i: "i < length (st_slots s)" "st_slots s ! i = Some sl"
  shows "keeps s (put_reuse expected payload i s)"
proof -
  have sl: "slot_at s i = sl" "slot_ok (st_grant s) sl" using i slot_of_ok [OF ok i] by (simp_all add: slot_at_def)
  show ?thesis unfolding put_reuse_def Let_def sl(1)
    by (intro keeps_checks ok keeps_set [OF ok i])
      (use budget_of_ok [OF ok] sl(2) in \<open>auto simp: result_simps slot_change_simps add_reference_def\<close>)
qed

lemma store_ok_insert:
  assumes ok: "store_ok s" and i: "i < length (st_slots s)" "st_slots s ! i = None"
    and new: "slot_ok (st_grant s) new"
      "\<And>j sl. j < length (st_slots s) \<Longrightarrow> st_slots s ! j = Some sl \<Longrightarrow> sl_sha256 sl \<noteq> sl_sha256 new"
    and t: "same_scope s t" "st_slots t = (st_slots s)[i := Some new]" "st_books t = count_slot new (st_books s)"
      "within_budget (st_grant s) (st_books t)"
  shows "keeps s (r, t)"
proof -
  have "books_of ((st_slots s)[i := None]) = books_of (st_slots s)" using i by (metis list_update_id)
  with ok t books_update [OF i(1), of new] have b: "st_books t = books_of (st_slots t)" by (simp add: store_ok_def)
  have "slot_ok (st_grant s) sl" if "Some sl \<in> set (st_slots t)" for sl
    using that set_update_subset_insert [of "st_slots s" i "Some new"] ok new by (auto simp: store_ok_def t)
  moreover have "shas_distinct (st_slots t)"
    unfolding t(2) using ok i new by (auto simp: store_ok_def intro: shas_distinct_update)
  ultimately show ?thesis using ok b t by (simp add: store_ok_def keeps_def same_scope_def)
qed

lemma put_insert_keeps:
  assumes ok: "store_ok s" and p: "provenance = sg_bundle_sha256 (st_grant s)"
    and e: "1 \<le> br_byte_length expected" "br_byte_length expected \<le> sg_max_object_bytes (st_grant s)"
      "length (br_sha256 expected) = 32"
    and fresh: "first_index (slot_is (\<lambda>sl. sl_sha256 sl = br_sha256 expected)) (st_slots s) = None"
  shows "keeps s (put_insert expected payload provenance s)"
proof -
  have new: "slot_ok (st_grant s) (new_slot expected payload provenance)"
    using e p by (simp add: slot_ok_def new_slot_def)
  have f: "sl_sha256 sl \<noteq> sl_sha256 (new_slot expected payload provenance)"
    if "j < length (st_slots s)" "st_slots s ! j = Some sl" for j sl
    using fresh nth_mem [OF that(1)] that(2) by (auto simp: first_index_None slot_is_iff new_slot_def)
  have "keeps s (r, set_books (count_insert (br_byte_length expected))
      (set_slot i (Some (new_slot expected payload provenance)) s)\<lparr>st_allocator_insertions := n\<rparr>)"
    if "first_index (\<lambda>v. v = None) (st_slots s) = Some i"
      "ac_entry_count (st_books s) < sg_max_entries (st_grant s)"
      "ac_logical_index_bytes (st_books s) + 128 \<le> sg_max_index_bytes (st_grant s)"
      "ac_payload_bytes (st_books s) + br_byte_length expected \<le> sg_max_payload_bytes (st_grant s)"
      "ac_reference_count (st_books s) + 1 \<le> sg_max_references (st_grant s)" for i n and r :: "store_error + put_receipt"
    by (rule store_ok_insert [OF ok _ _ new f, of i])
      (use that ok in \<open>auto simp: store_simps first_index_Some count_insert_def count_slot_def count_state_def Let_def
        new_slot_def within_budget_def store_ok_def\<close>)
  then show ?thesis unfolding put_insert_def Let_def
    by (intro keeps_checks ok) (auto simp: result_simps not_le not_less split: option.splits)
qed

lemma put_keeps:
  assumes ok: "store_ok s"
  shows "keeps s (store_put expected payload provenance s)"
  unfolding store_put_def
proof (intro keeps_checks ok)
  fix computed
  assume g: "\<not> provenance \<noteq> sg_bundle_sha256 (st_grant s)" "\<not> computed \<noteq> expected"
    "\<not> br_byte_length expected > sg_max_object_bytes (st_grant s)"
    "lift_blob (blob_ref (sg_tenant_scope_sha256 (st_grant s)) payload) = Inr computed"
  show "keeps s ((case first_index (slot_is (\<lambda>sl. sl_sha256 sl = br_sha256 expected)) (st_slots s) of
         Some i \<Rightarrow> put_reuse expected payload i | None \<Rightarrow> put_insert expected payload provenance) s)"
  proof (cases "first_index (slot_is (\<lambda>sl. sl_sha256 sl = br_sha256 expected)) (st_slots s)")
    case None
    have "1 \<le> br_byte_length computed" "length (br_sha256 computed) = 32"
      using g(4) by (auto simp: result_simps Suc_le_eq)
    with g(1-3) None put_insert_keeps [OF ok] show ?thesis by simp
  next
    case (Some i)
    then obtain sl where "i < length (st_slots s)" "st_slots s ! i = Some sl"
      by (auto simp: first_index_Some slot_is_iff)
    with Some show ?thesis by (simp add: put_reuse_keeps [OF ok])
  qed
qed

section \<open>get, release, retire and quarantine\<close>

lemma get_keeps: "store_ok s \<Longrightarrow> keeps s (store_get expected s)"
  unfolding store_get_def by (intro keeps_checks) (simp_all add: keeps_same)

lemma get_unchanged: "store_get expected s = (r, t) \<Longrightarrow> t = s"
  by (cases r) (auto simp: store_get_def result_simps)

lemma release_keeps:
  assumes ok: "store_ok s"
  shows "keeps s (store_release expected s)"
  unfolding store_release_def
proof (intro keeps_checks ok)
  fix j assume "find_slot s expected = Inr j"
  then obtain i sl where i: "i < length (st_slots s)" "st_slots s ! i = Some sl" "slot_at s i = sl" "j = i"
    by (rule find_slot_Inr) auto
  note sl = slot_of_ok [OF ok i(1,2)]
  show "keeps s ((let sl = slot_at s j in
       checkS (guardE StRetired (sl_state sl = Retired)) (\<lambda>_.
         if sl_reference_count sl > 1 then (\<lambda>s.
           (Inr (), set_books (add_reference (-1))
              (set_slot j (Some (sl\<lparr>sl_reference_count := sl_reference_count sl - 1\<rparr>)) s)))
         else
           checkS (guardE StLeaseActive (sl_lease_active sl)) (\<lambda>_.
           checkS (guardE StRepairAccounting (ac_repair_count (st_books s) < sl_repair_generation sl)) (\<lambda>_ s.
             (Inr (), set_books (count_freed sl) (set_slot j None s)))))) s)"
    unfolding Let_def i(3,4)
  proof (intro keeps_checks ok)
    assume live: "sl_state sl \<noteq> Retired"
    show "keeps s ((if sl_reference_count sl > 1 then (\<lambda>s. (Inr (), set_books (add_reference (-1))
              (set_slot i (Some (sl\<lparr>sl_reference_count := sl_reference_count sl - 1\<rparr>)) s)))
         else checkS (guardE StLeaseActive (sl_lease_active sl)) (\<lambda>_.
           checkS (guardE StRepairAccounting (ac_repair_count (st_books s) < sl_repair_generation sl)) (\<lambda>_ s.
             (Inr (), set_books (count_freed sl) (set_slot i None s))))) s)"
    proof (cases "sl_reference_count sl > 1")
      case True
      then show ?thesis
        by simp (rule keeps_set [OF ok i(1,2)], use sl live budget_of_ok [OF ok] in
          \<open>auto simp: slot_change_simps add_reference_def\<close>)
    next
      case False
      then have one: "sl_reference_count sl = 1" using sl live by (simp add: slot_ok_def)
      have "keeps s (Inr (), set_books (count_freed sl) (set_slot i None s))" if "\<not> sl_lease_active sl"
        by (rule keeps_clear [OF ok i(1,2)]) (use one live that in \<open>auto simp: store_simps count_slot_def
          count_state_def count_freed_def Let_def split: slot_state.splits\<close>)
      with False show ?thesis by simp (intro keeps_checks ok)
    qed
  qed
qed


lemma retire_keeps:
  assumes ok: "store_ok s"
  shows "keeps s (store_retire expected s)"
  unfolding store_retire_def
proof (intro keeps_checks ok)
  fix j assume "find_slot s expected = Inr j"
  then obtain i sl where i: "i < length (st_slots s)" "st_slots s ! i = Some sl" "slot_at s i = sl" "j = i"
    by (rule find_slot_Inr) auto
  note sl = slot_of_ok [OF ok i(1,2)]
  show "keeps s ((let sl = slot_at s j in
       checkS (not_set_aside sl) (\<lambda>_.
       checkS (guardE StLeaseActive (sl_lease_active sl)) (\<lambda>_.
       checkS (guardE StFinalReference (sl_reference_count sl \<noteq> 1)) (\<lambda>_ s.
         (Inr (), set_books count_retire
            (set_slot j (Some (sl\<lparr>sl_reference_count := 0, sl_state := Retired\<rparr>)) s)))))) s)"
    unfolding Let_def i(3,4)
    by (intro keeps_checks ok keeps_set [OF ok i(1,2)])
      (use budget_of_ok [OF ok] sl in \<open>auto simp: result_simps slot_change_simps count_retire_def\<close>)
qed

lemma clear_lease_keeps:
  assumes ok: "store_ok s" and i: "i < length (st_slots s)" "st_slots s ! i = Some sl"
  shows "keeps s (clear_lease i s)"
proof -
  have sl: "slot_at s i = sl" "slot_ok (st_grant s) sl" using i slot_of_ok [OF ok i] by (simp_all add: slot_at_def)
  show ?thesis unfolding clear_lease_def Let_def sl(1)
    by (intro keeps_checks ok keeps_set [OF ok i])
      (use budget_of_ok [OF ok] sl(2) in \<open>auto simp: result_simps slot_change_simps add_lease_def\<close>)
qed

lemma clear_lease_Inr:
  "clear_lease i s = (Inr u, t) \<Longrightarrow> slot_at s i = sl \<Longrightarrow> st_slots t = (st_slots s)[i := Some (sl\<lparr>sl_lease_active := False,
     sl_lease_receipt_sha256 := ZERO_DIGEST\<rparr>)]"
  by (auto simp: clear_lease_def Let_def result_simps store_simps)

lemma mark_quarantined_keeps:
  assumes ok: "store_ok s" and i: "i < length (st_slots s)" "st_slots s ! i = Some sl"
    and sl: "sl_state sl = Live" "\<not> sl_lease_active sl" and r: "length reason = 32" "reason \<noteq> ZERO_DIGEST"
  shows "keeps s (mark_quarantined i reason s)"
proof -
  have e: "slot_at s i = sl" using i by (simp add: slot_at_def)
  show ?thesis unfolding mark_quarantined_def e
    by (rule keeps_set [OF ok i])
      (use budget_of_ok [OF ok] slot_of_ok [OF ok i] sl r in \<open>auto simp: slot_change_simps count_quarantine_def\<close>)
qed

lemma quarantine_keeps:
  assumes ok: "store_ok s"
  shows "keeps s (store_quarantine expected reason s)"
  unfolding store_quarantine_def
proof (intro keeps_checks ok keeps_bind)
  fix j assume "find_slot s expected = Inr j"
  then obtain i sl where i: "i < length (st_slots s)" "st_slots s ! i = Some sl" "slot_at s i = sl" "j = i"
    by (rule find_slot_Inr) auto
  { show "keeps s ((if sl_lease_active (slot_at s j) then clear_lease j else returnS ()) s)"
      using clear_lease_keeps [OF ok i(1,2)] by (simp add: i keeps_same ok) }
  fix x t and u :: unit and d
  assume "store_digest reason = Inr d" "not_set_aside (slot_at s j) = Inr u"
    and m: "(if sl_lease_active (slot_at s j) then clear_lease j else returnS ()) s = (Inr x, t)" and t: "store_ok t"
  then have r: "length reason = 32" "reason \<noteq> ZERO_DIGEST" and live: "sl_state sl = Live"
    by (simp_all add: result_simps i)
  obtain sl' where "st_slots t ! i = Some sl'" "sl_state sl' = Live" "\<not> sl_lease_active sl'" "i < length (st_slots t)"
    using m i live clear_lease_Inr [of i s x t sl] by (auto split: if_splits)
  then show "keeps t (mark_quarantined j reason t)" using mark_quarantined_keeps [OF t _ _ _ _ r] i by blast
qed

section \<open>Leases\<close>

lemma lease_window_Inr [result_simps]:
  "validate_lease_window a b m = Inr u \<longleftrightarrow> is_u64 a \<and> is_u64 b \<and> a < b \<and> b - a \<le> m"
  by (auto simp: validate_lease_window_def result_simps)

definition lease_receipt_hash :: "store_target \<Rightarrow> int \<Rightarrow> bytes \<Rightarrow> int \<Rightarrow> bytes \<Rightarrow> bytes" where
  "lease_receipt_hash expected generation owner expires root = sha_parts (store_domain ''glacier-continuation-store-lease-receipt-v1'')
     [u64_bytes (br_byte_length expected), br_sha256 expected, u64_bytes generation, owner, u64_bytes expires, root]"

lemma length_lease_receipt_hash [simp]: "length (lease_receipt_hash expected generation owner expires root) = 32"
  by (simp add: lease_receipt_hash_def)

lemma make_lease_receipt_ok:
  "is_u64 (br_byte_length expected) \<Longrightarrow> is_u64 generation \<Longrightarrow> is_u64 expires \<Longrightarrow>
   make_lease_receipt expected generation owner expires root =
    Inr \<lparr>lr_target = expected, lr_generation = generation, lr_owner_sha256 = owner, lr_expires_at_tick = expires,
         lr_lifecycle_grant_sha256 = root, lr_lease_sha256 = lease_receipt_hash expected generation owner expires root\<rparr>"
  by (simp add: make_lease_receipt_def lease_receipt_root_def store_hash_def store_u64_ok lease_receipt_hash_def)

lemma intact_Inr [result_simps]:
  "intact s sl expected = Inr u \<longleftrightarrow> blob_ref (sg_tenant_scope_sha256 (st_grant s)) (sl_payload sl) = Inr expected"
  by (auto simp: intact_def bindE_Inr lift_blob_Inr guardE_Inr)

text \<open>What \<open>acquire_lease\<close> and \<open>renew_lease\<close> write once every check has passed.\<close>

definition leased :: "store_slot \<Rightarrow> bytes \<Rightarrow> store_slot" where
  "leased sl root = sl\<lparr>sl_lease_generation := sl_lease_generation sl + 1, sl_lease_active := True,
     sl_lease_receipt_sha256 := root\<rparr>"

definition next_receipt :: "store_slot \<Rightarrow> store_target \<Rightarrow> bytes \<Rightarrow> int \<Rightarrow> bytes \<Rightarrow> lease_receipt" where
  "next_receipt sl expected owner expires root =
    (let n = sl_lease_generation sl + 1 in
     \<lparr>lr_target = expected, lr_generation = n, lr_owner_sha256 = owner, lr_expires_at_tick = expires,
      lr_lifecycle_grant_sha256 = root, lr_lease_sha256 = lease_receipt_hash expected n owner expires root\<rparr>)"

lemma next_receipt_root: "lr_lease_sha256 (next_receipt sl expected owner expires root) =
    lease_receipt_hash expected (sl_lease_generation sl + 1) owner expires root"
  by (simp add: next_receipt_def Let_def)

definition lease_ready :: "store \<Rightarrow> nat \<Rightarrow> store_slot \<Rightarrow> store_target \<Rightarrow> int \<Rightarrow> bool" where
  "lease_ready s i sl expected expires \<longleftrightarrow> i < length (st_slots s) \<and> st_slots s ! i = Some sl
     \<and> is_u64 (br_byte_length expected) \<and> is_u64 expires \<and> 0 \<le> sl_lease_generation sl
     \<and> sl_lease_generation sl < U64_MAX"

lemma issue_after_start:
  assumes "lease_ready s i sl expected expires"
  shows "bindS (start_lease i) (\<lambda>_. issue_lease i expected owner expires root) s =
     (Inr (next_receipt sl expected owner expires root), set_books (add_lease 1) (set_slot i (Some (leased sl
        (lease_receipt_hash expected (sl_lease_generation sl + 1) owner expires root))) s))"
proof -
  have "is_u64 (sl_lease_generation sl + 1)" using assms by (simp add: is_u64_def lease_ready_def)
  then show ?thesis using assms
    by (simp add: bindS_def start_lease_def issue_lease_def slot_at_def store_simps make_lease_receipt_ok next_receipt_def
      Let_def leased_def set_slot_def set_books_def lease_ready_def)
qed

lemma issue_after_next:
  assumes "lease_ready s i sl expected expires" "sl_lease_active sl"
  shows "bindS (next_generation i) (\<lambda>_. issue_lease i expected owner expires root) s =
     (Inr (next_receipt sl expected owner expires root), set_slot i (Some (leased sl
        (lease_receipt_hash expected (sl_lease_generation sl + 1) owner expires root))) s)"
proof -
  have "is_u64 (sl_lease_generation sl + 1)" using assms by (simp add: is_u64_def lease_ready_def)
  then show ?thesis using assms
    by (cases sl) (simp add: bindS_def next_generation_def issue_lease_def slot_at_def store_simps make_lease_receipt_ok next_receipt_def
      Let_def leased_def set_slot_def set_books_def lease_ready_def)
qed

lemma blob_length_u64: "blob_ref tenant payload = Inr expected \<Longrightarrow> is_u64 (br_byte_length expected)"
  by (auto simp: blob_ref_returns)

text \<open>Both methods either leave the store as it was or write exactly the new lease.\<close>

lemma acquire_cases:
  assumes ok: "store_ok s" and m: "acquire_lease expected g owner observed expires s = (r, t)"
  obtains (error) e where "r = Inl e" "t = s"
  | (granted) i sl root where "lease_ready s i sl expected expires" "sl_state sl = Live" "\<not> sl_lease_active sl"
      "r = Inr (next_receipt sl expected owner expires root)"
      "t = set_books (add_lease 1) (set_slot i (Some (leased sl
        (lease_receipt_hash expected (sl_lease_generation sl + 1) owner expires root))) s)"
proof (cases "\<exists>e. r = Inl e \<and> t = s")
  case True
  then show ?thesis using error by blast
next
  case False
  with m obtain j root where c: "validate_lease_window observed expires (lg_max_lease_span_ticks g) = Inr ()"
    "find_slot s expected = Inr j" "not_set_aside (slot_at s j) = Inr ()" "\<not> sl_lease_active (slot_at s j)"
    "intact s (slot_at s j) expected = Inr ()" "sl_lease_generation (slot_at s j) \<noteq> U64_MAX"
    and e: "bindS (start_lease j) (\<lambda>_. issue_lease j expected owner expires root) s = (r, t)"
    unfolding acquire_lease_def Let_def by (elim checkS_cases) (auto simp: guardE_Inr)
  from c(2) obtain i sl where i: "i < length (st_slots s)" "st_slots s ! i = Some sl" "slot_at s i = sl" "j = i"
    by (rule find_slot_Inr) auto
  have ready: "lease_ready s i sl expected expires"
    using c i slot_of_ok [OF ok i(1,2)] by (auto simp: lease_ready_def lease_window_Inr intact_Inr slot_ok_def blob_length_u64)
  have "sl_state sl = Live" "\<not> sl_lease_active sl" using c(3,4) i by (simp_all add: not_set_aside_Inr)
  from granted [OF ready this, of root] e show ?thesis by (simp add: i(4) issue_after_start [OF ready] eq_commute)
qed

lemma renew_cases:
  assumes ok: "store_ok s" and m: "renew_lease expected current g observed expires s = (r, t)"
  obtains (error) e where "r = Inl e" "t = s"
  | (granted) i sl root where "lease_ready s i sl expected expires" "current_lease sl expected current = Inr ()"
      "find_slot s expected = Inr i" "0 < expires" "r = Inr (next_receipt sl expected (lr_owner_sha256 current) expires root)"
      "t = set_slot i (Some (leased sl
        (lease_receipt_hash expected (sl_lease_generation sl + 1) (lr_owner_sha256 current) expires root))) s"
proof (cases "\<exists>e. r = Inl e \<and> t = s")
  case True
  then show ?thesis using error by blast
next
  case False
  with m obtain j root where c: "validate_lease_window observed expires (lg_max_lease_span_ticks g) = Inr ()"
    "find_slot s expected = Inr j" "current_lease (slot_at s j) expected current = Inr ()"
    "intact s (slot_at s j) expected = Inr ()" "sl_lease_generation (slot_at s j) \<noteq> U64_MAX"
    and e: "bindS (next_generation j) (\<lambda>_. issue_lease j expected (lr_owner_sha256 current) expires root) s = (r, t)"
    unfolding renew_lease_def Let_def by (elim checkS_cases) (auto simp: guardE_Inr)
  from c(2) obtain i sl where i: "i < length (st_slots s)" "st_slots s ! i = Some sl" "slot_at s i = sl" "j = i"
    by (rule find_slot_Inr) auto
  have r: "lease_ready s i sl expected expires"
    using c i slot_of_ok [OF ok i(1,2)] by (auto simp: lease_ready_def lease_window_Inr intact_Inr slot_ok_def blob_length_u64)
  have "sl_lease_active sl" using c(3) i by (auto simp: current_lease_def split: if_splits)
  from e have "r = Inr (next_receipt sl expected (lr_owner_sha256 current) expires root)"
    "t = set_slot i (Some (leased sl (lease_receipt_hash expected (sl_lease_generation sl + 1) (lr_owner_sha256 current)
       expires root))) s"
    by (simp_all add: i(4) issue_after_next [OF r \<open>sl_lease_active sl\<close>])
  moreover have "current_lease sl expected current = Inr ()" using c(3) i by simp
  moreover have "find_slot s expected = Inr i" "0 < expires" using c(1,2) i(4) by (auto simp: lease_window_Inr is_u64_def)
  ultimately show ?thesis using granted r by blast
qed

text \<open>
  A lease keeps the store well formed unless its root is 32 zero bytes, which no check of the code
  excludes.
\<close>

lemma acquire_keeps:
  assumes ok: "store_ok s" and m: "acquire_lease expected g owner observed expires s = (r, t)"
    and nonzero: "\<And>x. r = Inr x \<Longrightarrow> lr_lease_sha256 x \<noteq> ZERO_DIGEST"
  shows "keeps s (r, t)"
  using ok m
proof (cases rule: acquire_cases)
  case (granted i sl root)
  then have i: "i < length (st_slots s)" "st_slots s ! i = Some sl" by (simp_all add: lease_ready_def)
  show ?thesis unfolding granted(5)
    by (rule keeps_set [OF ok i])
      (use budget_of_ok [OF ok] slot_of_ok [OF ok i] granted(1-4) nonzero in
        \<open>auto simp: slot_change_simps add_lease_def leased_def lease_ready_def next_receipt_root\<close>)
qed (simp add: keeps_same ok)

lemma renew_keeps:
  assumes ok: "store_ok s" and m: "renew_lease expected current g observed expires s = (r, t)"
    and nonzero: "\<And>x. r = Inr x \<Longrightarrow> lr_lease_sha256 x \<noteq> ZERO_DIGEST"
  shows "keeps s (r, t)"
  using ok m
proof (cases rule: renew_cases)
  case (granted i sl root)
  then have i: "i < length (st_slots s)" "st_slots s ! i = Some sl" by (simp_all add: lease_ready_def)
  have "sl_lease_active sl" using granted(2) by (auto simp: current_lease_def split: if_splits)
  then show ?thesis unfolding granted(6)
    by (intro keeps_set [OF ok i])
      (use budget_of_ok [OF ok] slot_of_ok [OF ok i] granted(1,2,5) nonzero in
        \<open>auto simp: slot_change_simps leased_def lease_ready_def next_receipt_root\<close>)
qed (simp add: keeps_same ok)

lemma end_lease_keeps:
  "store_ok s \<Longrightarrow> find_slot s expected = Inr j \<Longrightarrow> keeps s (clear_lease j s)"
  by (erule find_slot_Inr) (auto intro: clear_lease_keeps)

lemma release_lease_keeps: "store_ok s \<Longrightarrow> keeps s (release_lease expected current g s)"
  unfolding release_lease_def by (intro keeps_checks end_lease_keeps)

lemma expire_lease_keeps: "store_ok s \<Longrightarrow> keeps s (expire_lease expected current g observed s)"
  unfolding expire_lease_def by (intro keeps_checks end_lease_keeps)

section \<open>Repair\<close>

lemma install_repair_keeps:
  assumes ok: "store_ok s" and i: "i < length (st_slots s)" "st_slots s ! i = Some sl"
    and sl: "sl_state sl = Quarantined" "\<not> sl_lease_active sl" "ac_repair_count (st_books s) \<noteq> U64_MAX"
  shows "keeps s (install_repair i candidate s)"
proof -
  have e: "slot_at s i = sl" using i by (simp add: slot_at_def)
  show ?thesis unfolding install_repair_def e
    by (rule keeps_set [OF ok i])
      (use budget_of_ok [OF ok] slot_of_ok [OF ok i] sl in \<open>auto simp: slot_change_simps count_repair_def\<close>)
qed

lemma repair_keeps:
  assumes ok: "store_ok s"
  shows "keeps s (store_repair expected candidate same_object source g s)"
  unfolding store_repair_def Let_def
proof (intro keeps_checks ok keeps_bind keeps_same)
  fix j assume "find_slot s expected = Inr j"
  then obtain i sl where i: "i < length (st_slots s)" "st_slots s ! i = Some sl" "slot_at s i = sl" "j = i"
    by (rule find_slot_Inr) auto
  assume "\<not> sl_state (slot_at s j) \<noteq> Quarantined" "\<not> sl_lease_active (slot_at s j)" "\<not> ac_repair_count (st_books s) = U64_MAX"
  then show "keeps s (install_repair j candidate s)" using i by (auto intro: install_repair_keeps [OF ok i(1,2)])
qed (simp_all add: keeps_same)

end
