(* ===== verification/Store_Audit.thy ===== *)
theory Store_Audit
  imports Store_Invariants
begin

text \<open>
  What the audit of a well-formed store finds: its books always balance, so the audit fails only where a
  payload no longer hashes to its digest.
\<close>

section \<open>One slot\<close>

definition stored_ref :: "store_slot \<Rightarrow> blob_reference" where
  "stored_ref sl = \<lparr>br_byte_length = sl_byte_length sl, br_sha256 = sl_sha256 sl\<rparr>"

definition payload_accepted :: "bytes \<Rightarrow> bool \<Rightarrow> store_slot \<Rightarrow> bool" where
  "payload_accepted tenant allow sl = (case blob_ref tenant (sl_payload sl) of Inl _ \<Rightarrow> False
     | Inr b \<Rightarrow> b = stored_ref sl \<or> allow \<and> sl_state sl = Quarantined)"

lemma audit_payload_Inr [result_simps]:
  "audit_payload tenant allow sl = Inr u \<longleftrightarrow> payload_accepted tenant allow sl"
  by (cases "blob_ref tenant (sl_payload sl)")
    (auto simp: audit_payload_def lift_blob_def payload_accepted_def stored_ref_def guardE_Inr)

lemma audit_state_ok: "slot_ok g sl \<Longrightarrow> audit_state sl = Inr ()"
  by (cases "sl_state sl") (auto simp: slot_ok_def audit_state_def guardE_def store_digest_def)

lemma audit_lease_ok: "slot_ok g sl \<Longrightarrow> audit_lease sl = Inr ()"
  by (auto simp: slot_ok_def audit_lease_def guardE_def)

section \<open>The loop\<close>

definition shas :: "store_slot option list \<Rightarrow> bytes list" where
  "shas vs = map sl_sha256 (map the (filter (\<lambda>v. v \<noteq> None) vs))"

lemma shas_simps [simp]:
  "shas [] = []" "shas (vs @ [None]) = shas vs" "shas (vs @ [Some sl]) = shas vs @ [sl_sha256 sl]"
  by (simp_all add: shas_def)

lemma shas_fresh:
  assumes "shas_distinct (vs @ [Some sl])"
  shows "sl_sha256 sl \<notin> set (shas vs)"
proof
  assume "sl_sha256 sl \<in> set (shas vs)"
  then obtain a where "Some a \<in> set vs" "sl_sha256 a = sl_sha256 sl" by (auto simp: shas_def)
  then obtain i where "i < length vs" "vs ! i = Some a" "sl_sha256 a = sl_sha256 sl" by (auto simp: in_set_conv_nth)
  with assms [unfolded shas_distinct_def, rule_format, of i "length vs" a sl] show False by (simp add: nth_append)
qed

lemma shas_distinct_butlast: "shas_distinct (vs @ [v]) \<Longrightarrow> shas_distinct vs"
  unfolding shas_distinct_def by (metis length_append_singleton less_SucI nth_append)

definition first_audit :: audit where
  "first_audit = \<lparr>au_seen_roots = [], au_books = new_books\<rparr>"

lemma audit_fold:
  assumes "\<forall>sl. Some sl \<in> set vs \<longrightarrow> slot_ok g sl" "shas_distinct vs" "ac_repair_count (books_of vs) \<le> U64_MAX"
  shows "foldE (audit_slot g allow) first_audit vs = Inr u \<longleftrightarrow>
     (\<forall>sl. Some sl \<in> set vs \<longrightarrow> payload_accepted (sg_tenant_scope_sha256 g) allow sl)
     \<and> u = \<lparr>au_seen_roots = rev (shas vs), au_books = books_of vs\<rparr>"
  using assms
proof (induction vs arbitrary: u rule: rev_induct)
  case Nil
  then show ?case using books_of_empty [of 0] by (auto simp: first_audit_def)
next
  case (snoc v vs)
  have oks: "\<forall>sl. Some sl \<in> set vs \<longrightarrow> slot_ok g sl" "shas_distinct vs"
    using snoc.prems shas_distinct_butlast by auto
  have nonneg: "0 \<le> ac_repair_count (books_of vs)"
    using slot_sum_nonneg [of vs sl_repair_generation] oks(1) by (simp add: books_of_def slot_ok_def)
  show ?case
  proof (cases v)
    case None
    have "ac_repair_count (books_of vs) \<le> U64_MAX" using snoc.prems(3) by (simp add: books_of_snoc None)
    from snoc.IH [OF oks this] show ?thesis
      by (auto simp: foldE_append bindE_Inr audit_slot_def None books_of_snoc)
  next
    case (Some sl)
    have sl: "slot_ok g sl" using snoc.prems(1) Some by simp
    have r: "ac_repair_count (books_of vs) + sl_repair_generation sl \<le> U64_MAX" "0 \<le> sl_repair_generation sl"
      using snoc.prems(3) sl
      by (auto simp: books_of_snoc Some count_slot_def count_state_def Let_def slot_ok_def split: slot_state.splits)
    then have "ac_repair_count (books_of vs) \<le> U64_MAX" by simp
    note ih = snoc.IH [OF oks this]
    have "sl_sha256 sl \<notin> set (shas vs)" using shas_fresh snoc.prems(2) Some by simp
    then have "audit_slot g allow \<lparr>au_seen_roots = rev (shas vs), au_books = books_of vs\<rparr> (Some sl) = Inr u \<longleftrightarrow>
        payload_accepted (sg_tenant_scope_sha256 g) allow sl
        \<and> u = \<lparr>au_seen_roots = rev (shas (vs @ [v])), au_books = books_of (vs @ [v])\<rparr>" for u
      using sl r nonneg
      by (auto simp: audit_slot_def audit_state_ok [OF sl] audit_lease_ok [OF sl] result_simps slot_ok_def
          is_u64_def books_of_snoc Some)
    with ih show ?thesis by (auto simp: foldE_append bindE_Inr Some)
  qed
qed

text \<open>The audit of a well-formed store passes exactly when every payload is intact.\<close>

lemma verify_state_ok:
  assumes ok: "store_ok s"
  shows "verify_state allow s = Inr () \<longleftrightarrow>
     (\<forall>sl. Some sl \<in> set (st_slots s) \<longrightarrow> payload_accepted (sg_tenant_scope_sha256 (st_grant s)) allow sl)"
proof -
  let ?g = "st_grant s"
  have p: "\<forall>sl. Some sl \<in> set (st_slots s) \<longrightarrow> slot_ok ?g sl" "shas_distinct (st_slots s)"
    and b: "st_books s = books_of (st_slots s)" and w: "within_budget ?g (books_of (st_slots s))"
    using ok budget_of_ok [OF ok] unfolding store_ok_def by simp_all
  have "ac_repair_count (books_of (st_slots s)) \<le> U64_MAX" using w by (simp add: within_budget_def)
  note f = audit_fold [OF p this, of allow]
  have "verify_state allow s = Inr () \<longleftrightarrow> (\<exists>u. foldE (audit_slot ?g allow) first_audit (st_slots s) = Inr u
      \<and> au_books u = st_books s \<and> within_budget ?g (st_books s))"
    using w b by (auto simp: verify_state_def Let_def bindE_Inr guardE_Inr first_audit_def within_budget_def)
  with f b w show ?thesis by auto
qed

end
