(* ===== verification/Store_Commit.thy ===== *)
theory Store_Commit
  imports Store_Audit
begin

text \<open>
  The commit of retired objects. A preview that passes its checks describes exactly the store that the
  commit leaves: the targets are gone, the books are what is left to count, and the assertions of the
  commit cannot fail.
\<close>

section \<open>The targets\<close>

definition freeable :: "store_slot \<Rightarrow> bool" where
  "freeable sl \<longleftrightarrow> sl_state sl = Retired \<and> sl_reference_count sl = 0 \<and> \<not> sl_lease_active sl
     \<and> sl_quarantine_reason_sha256 sl = ZERO_DIGEST"

definition target_slot :: "store \<Rightarrow> store_target \<Rightarrow> store_slot" where
  "target_slot s t = slot_at s (the (store_find s t))"

definition freed_by :: "store \<Rightarrow> store_target list \<Rightarrow> freed" where
  "freed_by s ts = \<lparr>fr_indexes = map (the o store_find s) ts,
     fr_payload_bytes = sum_list (map (sl_byte_length o target_slot s) ts),
     fr_repairs = sum_list (map (sl_repair_generation o target_slot s) ts)\<rparr>"

definition target_ok :: "store \<Rightarrow> store_target \<Rightarrow> bool" where
  "target_ok s t \<longleftrightarrow> store_find s t \<noteq> None \<and> freeable (target_slot s t)"

lemma free_targets:
  "foldE (free_target s) f ts = Inr f' \<Longrightarrow>
     (\<forall>t \<in> set ts. target_ok s t)
     \<and> f' = \<lparr>fr_indexes = fr_indexes f @ map (the o store_find s) ts,
             fr_payload_bytes = fr_payload_bytes f + sum_list (map (sl_byte_length o target_slot s) ts),
             fr_repairs = fr_repairs f + sum_list (map (sl_repair_generation o target_slot s) ts)\<rparr>
     \<and> (ts = [] \<or> is_u64 (fr_payload_bytes f') \<and> is_u64 (fr_repairs f'))"
proof (induction ts arbitrary: f)
  case (Cons t ts)
  from Cons.prems obtain g where g: "free_target s f t = Inr g" "foldE (free_target s) g ts = Inr f'"
    by (auto simp: bindE_Inr)
  then obtain i where i: "store_find s t = Some i" by (auto simp: free_target_def split: option.splits)
  with g(1) have g1: "g = \<lparr>fr_indexes = fr_indexes f @ [i], fr_payload_bytes = fr_payload_bytes f + sl_byte_length (target_slot s t),
      fr_repairs = fr_repairs f + sl_repair_generation (target_slot s t)\<rparr>" "freeable (target_slot s t)"
      "is_u64 (fr_payload_bytes g)" "is_u64 (fr_repairs g)"
    by (auto simp: free_target_def Let_def bindE_Inr guardE_Inr store_u64_Inr target_slot_def freeable_def)
  from Cons.IH [OF g(2)] g1 i show ?case by (auto simp: target_ok_def)
qed simp

lemma found_target:
  assumes "store_find s t = Some i"
  shows "i < length (st_slots s)" "st_slots s ! i = Some (target_slot s t)" "stored_ref (target_slot s t) = t"
proof -
  from assms obtain sl where sl: "i < length (st_slots s)" "st_slots s ! i = Some sl"
    "sl_byte_length sl = br_byte_length t" "sl_sha256 sl = br_sha256 t"
    by (auto simp: store_find_def first_index_Some slot_is_iff)
  have "target_slot s t = sl" using assms sl(2) by (simp add: target_slot_def slot_at_def)
  with sl show "i < length (st_slots s)" "st_slots s ! i = Some (target_slot s t)" "stored_ref (target_slot s t) = t"
    by (simp_all add: stored_ref_def)
qed

lemma target_indexes_distinct:
  assumes "distinct ts" "\<forall>t \<in> set ts. target_ok s t"
  shows "distinct (map (the o store_find s) ts)"
proof -
  have "inj_on (the o store_find s) (set ts)"
  proof (rule inj_onI)
    fix t u assume tu: "t \<in> set ts" "u \<in> set ts" "(the o store_find s) t = (the o store_find s) u"
    then obtain i where "store_find s t = Some i" "store_find s u = Some i" using assms(2)
      by (fastforce simp: target_ok_def)
    then show "t = u" using found_target(3) [of s t i] found_target(3) [of s u i] by (simp add: target_slot_def)
  qed
  with assms(1) show ?thesis by (simp add: distinct_map)
qed

section \<open>Clearing the slots\<close>

lemma clear_slots_parts [store_simps]:
  "st_grant (clear_slots ixs s) = st_grant s" "st_grant_sha256 (clear_slots ixs s) = st_grant_sha256 s"
  "st_closed (clear_slots ixs s) = st_closed s" "st_capacity (clear_slots ixs s) = st_capacity s"
  "st_books (clear_slots ixs s) = st_books s"
  "st_slots (clear_slots ixs s) = fold (\<lambda>i vs. vs[i := None]) ixs (st_slots s)"
  by (induction ixs arbitrary: s) (simp_all add: clear_slots_def store_simps)

lemma length_clear [simp]: "length (fold (\<lambda>i vs. vs[i := None]) ixs vs) = length vs"
  by (induction ixs arbitrary: vs) simp_all

lemma nth_clear:
  "k < length vs \<Longrightarrow> fold (\<lambda>i vs. vs[i := None]) ixs vs ! k = (if k \<in> set ixs then None else vs ! k)"
  by (induction ixs arbitrary: vs) (auto simp: nth_list_update)

lemma slot_sum_clear:
  "distinct ixs \<Longrightarrow> (\<forall>i \<in> set ixs. i < length vs) \<Longrightarrow>
     slot_sum f (fold (\<lambda>i vs. vs[i := None]) ixs vs) = slot_sum f vs - sum_list (map (\<lambda>i. of_slot f (vs ! i)) ixs)"
proof (induction ixs arbitrary: vs)
  case (Cons i ixs)
  have "map (\<lambda>k. of_slot f (vs[i := None] ! k)) ixs = map (\<lambda>k. of_slot f (vs ! k)) ixs"
    using Cons.prems(1) by (intro map_cong [OF refl]) (metis distinct.simps(2) nth_list_update_neq)
  note e = arg_cong [OF this, of sum_list]
  show ?case using Cons.prems Cons.IH [of "vs[i := None]"] by (simp add: slot_sum_update e del: map_eq_conv)
qed simp

definition committed :: "store \<Rightarrow> store_target list \<Rightarrow> store" where
  "committed s ts = (clear_slots (map (the o store_find s) ts) s)
     \<lparr>st_books := books_without (int (length ts)) (freed_by s ts) (st_books s)\<rparr>"

lemma committed_parts [store_simps]:
  "st_grant (committed s ts) = st_grant s" "st_grant_sha256 (committed s ts) = st_grant_sha256 s"
  "st_closed (committed s ts) = st_closed s" "st_capacity (committed s ts) = st_capacity s"
  "st_slots (committed s ts) = fold (\<lambda>i vs. vs[i := None]) (map (the o store_find s) ts) (st_slots s)"
  "st_books (committed s ts) = books_without (int (length ts)) (freed_by s ts) (st_books s)"
  by (simp_all add: committed_def store_simps)

lemma committed_sum:
  assumes "distinct ts" "\<forall>t \<in> set ts. target_ok s t"
  shows "slot_sum f (st_slots (committed s ts)) = slot_sum f (st_slots s) - sum_list (map (f o target_slot s) ts)"
proof -
  have n: "(the o store_find s) t < length (st_slots s)" "of_slot f (st_slots s ! (the o store_find s) t) = f (target_slot s t)"
    if "t \<in> set ts" for t
    using assms(2) that found_target [of s t] by (auto simp: target_ok_def)
  have "map ((\<lambda>i. of_slot f (st_slots s ! i)) o (the o store_find s)) ts = map (f o target_slot s) ts"
    using n(2) by simp
  with slot_sum_clear [OF target_indexes_distinct [OF assms], of "st_slots s" f] n(1) show ?thesis
    by (simp add: committed_parts)
qed

lemma committed_books:
  assumes ok: "store_ok s" and ts: "distinct ts" "\<forall>t \<in> set ts. target_ok s t"
  shows "st_books (committed s ts) = books_of (st_slots (committed s ts))"
proof -
  note sum = committed_sum [OF ts]
  have z: "sum_list (map (f o target_slot s) ts) = c * int (length ts)"
    if "\<And>t. target_ok s t \<Longrightarrow> f (target_slot s t) = c" for f c
    using ts(2) that by (induction ts) (auto simp: algebra_simps)
  have st: "sl_state (target_slot s t) = Retired \<and> sl_reference_count (target_slot s t) = 0
      \<and> \<not> sl_lease_active (target_slot s t)" if "target_ok s t" for t
    using that by (simp add: target_ok_def freeable_def)
  have zs: "sum_list (map ((\<lambda>_. 1) o target_slot s) ts) = int (length ts)"
    "sum_list (map ((\<lambda>_. 128) o target_slot s) ts) = 128 * int (length ts)"
    "sum_list (map ((\<lambda>sl. if sl_state sl = Live then 1 else 0) o target_slot s) ts) = (0::int)"
    "sum_list (map ((\<lambda>sl. if sl_state sl = Quarantined then 1 else 0) o target_slot s) ts) = (0::int)"
    "sum_list (map ((\<lambda>sl. if sl_state sl = Retired then 1 else 0) o target_slot s) ts) = int (length ts)"
    "sum_list (map (sl_reference_count o target_slot s) ts) = 0"
    "sum_list (map ((\<lambda>sl. if sl_lease_active sl then 1 else 0) o target_slot s) ts) = (0::int)"
    by (rule trans [OF z [where c = 1]] trans [OF z [where c = 128]] trans [OF z [where c = 0]], use st in simp, simp)+
  have "st_books s = books_of (st_slots s)" using ok by (simp add: store_ok_def)
  then show ?thesis
    unfolding books_of_def sum zs by (simp add: committed_parts(6) books_without_def freed_by_def books_of_def)
qed

lemma committed_slots: "Some sl \<in> set (st_slots (committed s ts)) \<Longrightarrow> Some sl \<in> set (st_slots s)"
  by (auto simp: in_set_conv_nth committed_parts nth_clear split: if_splits)

lemma cleared_iff:
  assumes ok: "store_ok s" and ts: "\<forall>u \<in> set ts. target_ok s u" and i: "i < length (st_slots s)"
  shows "(if i \<in> set (map (the o store_find s) ts) then None else st_slots s ! i) =
    (case st_slots s ! i of None \<Rightarrow> None | Some sl \<Rightarrow> if stored_ref sl \<in> set ts then None else Some sl)"
proof (cases "st_slots s ! i")
  case (Some sl)
  have "i \<in> set (map (the o store_find s) ts) \<longleftrightarrow> stored_ref sl \<in> set ts"
  proof
    assume "i \<in> set (map (the o store_find s) ts)"
    then obtain u where u: "u \<in> set ts" "i = the (store_find s u)" by auto
    with ts have "store_find s u = Some i" by (auto simp: target_ok_def)
    from found_target(2,3) [OF this] Some u show "stored_ref sl \<in> set ts" by simp
  next
    assume r: "stored_ref sl \<in> set ts"
    with ts obtain j where j: "store_find s (stored_ref sl) = Some j" by (auto simp: target_ok_def)
    note f = found_target [OF j]
    have "sl_sha256 (target_slot s (stored_ref sl)) = sl_sha256 sl" using f(3) by (simp add: stored_ref_def)
    with ok Some i f have "j = i" by (auto simp: store_ok_def shas_distinct_def)
    with j r show "i \<in> set (map (the o store_find s) ts)" by force
  qed
  with Some show ?thesis by simp
qed simp

lemma committed_ok:
  assumes ok: "store_ok s" and ts: "distinct ts" "\<forall>t \<in> set ts. target_ok s t"
  shows "store_ok (committed s ts)"
proof -
  have slots: "slot_ok (st_grant s) sl" if "Some sl \<in> set (st_slots s)" for sl using that ok by (simp add: store_ok_def)
  have nonneg: "0 \<le> sl_byte_length sl \<and> 0 \<le> sl_repair_generation sl" if "slot_ok g sl" for g sl
    using that by (simp add: slot_ok_def)
  have ts_ok: "slot_ok (st_grant s) (target_slot s t)" if "t \<in> set ts" for t
  proof -
    from ts(2) that obtain i where i: "store_find s t = Some i" by (auto simp: target_ok_def)
    show ?thesis using nth_mem [OF found_target(1) [OF i]] by (intro slots) (simp add: found_target(2) [OF i])
  qed
  have "0 \<le> fr_payload_bytes (freed_by s ts)" "0 \<le> fr_repairs (freed_by s ts)"
    using nonneg [OF ts_ok] by (auto simp: freed_by_def intro!: sum_list_nonneg)
  then have w: "within_budget (st_grant s) (st_books (committed s ts))"
    using budget_of_ok [OF ok] by (simp add: within_budget_def committed_parts books_without_def)
  have "shas_distinct (st_slots (committed s ts))"
    using ok by (auto simp: store_ok_def shas_distinct_def committed_parts nth_clear split: if_splits)
  then show ?thesis using ok w slots committed_slots committed_books [OF ok ts]
    by (auto simp: store_ok_def committed_parts(1-4)) (simp_all add: committed_parts)
qed

section \<open>The preview and the commit\<close>

lemma target_keys: "mapE target_key ts = Inr ks \<Longrightarrow> ks = map (\<lambda>t. (br_sha256 t, br_byte_length t)) ts
    \<and> (\<forall>t \<in> set ts. is_u64 (br_byte_length t) \<and> br_byte_length t \<noteq> 0)"
  by (induction ts arbitrary: ks) (auto simp: target_key_def bindE_Inr store_u64_Inr split: if_splits)

lemma targets_root_distinct: "retired_targets_root ts = Inr d \<Longrightarrow> distinct ts \<and> ts \<noteq> []"
proof -
  assume "retired_targets_root ts = Inr d"
  then obtain ks where "mapE target_key ts = Inr ks" "length (remdups ks) = length ks" "ts \<noteq> []"
    by (auto simp: retired_targets_root_def bindE_Inr split: if_splits)
  then have "distinct (map (\<lambda>t. (br_sha256 t, br_byte_length t)) ts)" "ts \<noteq> []"
    using target_keys [of ts ks] by (auto simp: length_remdups_eq)
  then show ?thesis by (auto simp: distinct_map)
qed

definition preview_receipt :: "store \<Rightarrow> commit_permit \<Rightarrow> store_target list \<Rightarrow> bytes \<Rightarrow> bytes \<Rightarrow> bytes \<Rightarrow> commit_receipt" where
  "preview_receipt s p ts targets_sha256 after commit =
     \<lparr>cr_authorization_sha256 = cp_authorization_sha256 p, cr_targets_sha256 = targets_sha256,
      cr_snapshot_before_sha256 = cp_expected_snapshot_sha256 p, cr_snapshot_after_sha256 = after,
      cr_accounting_before = st_books s, cr_accounting_after = st_books (committed s ts),
      cr_freed_entries = int (length ts), cr_freed_payload_bytes = fr_payload_bytes (freed_by s ts),
      cr_freed_index_bytes = int (length ts) * LOGICAL_INDEX_ENTRY_BYTES,
      cr_freed_repair_count = fr_repairs (freed_by s ts),
      cr_allocator_deallocation_calls = int (length ts), cr_commit_sha256 = commit\<rparr>"

lemma preview_Inr:
  assumes "preview_retired s p ts = Inr r"
  obtains d after commit where "validate_permit s p = Inr ()" "retired_targets_root ts = Inr d" "distinct ts" "ts \<noteq> []"
    "\<forall>t \<in> set ts. target_ok s t" "audit_snapshot_root_v2 s = Inr (cp_expected_snapshot_sha256 p)"
    "snapshot_root_v2_unchecked (committed s ts) = Inr after"
    "r = preview_receipt s p ts d after commit"
    "retired_commit_receipt_root (preview_receipt s p ts d after []) = Inr commit"
    "int (length ts) \<le> cp_max_freed_entries p" "fr_payload_bytes (freed_by s ts) \<le> cp_max_freed_bytes p"
    "is_u64 (fr_payload_bytes (freed_by s ts))" "is_u64 (fr_repairs (freed_by s ts))"
proof -
  from assms obtain d f after commit where c: "validate_permit s p = Inr ()" "int (length ts) \<le> cp_max_freed_entries p"
    "retired_targets_root ts = Inr d" "audit_snapshot_root_v2 s = Inr (cp_expected_snapshot_sha256 p)"
    "foldE (free_target s) \<lparr>fr_indexes = [], fr_payload_bytes = 0, fr_repairs = 0\<rparr> ts = Inr f"
    "fr_payload_bytes f \<le> cp_max_freed_bytes p"
    and a: "snapshot_root_v2_unchecked ((clear_slots (fr_indexes f) s)
       \<lparr>st_books := books_without (int (length ts)) f (st_books s)\<rparr>) = Inr after"
    and r: "retired_commit_receipt_root \<lparr>cr_authorization_sha256 = cp_authorization_sha256 p, cr_targets_sha256 = d,
           cr_snapshot_before_sha256 = cp_expected_snapshot_sha256 p, cr_snapshot_after_sha256 = after,
           cr_accounting_before = st_books s, cr_accounting_after = books_without (int (length ts)) f (st_books s),
           cr_freed_entries = int (length ts), cr_freed_payload_bytes = fr_payload_bytes f,
           cr_freed_index_bytes = int (length ts) * LOGICAL_INDEX_ENTRY_BYTES,
           cr_freed_repair_count = fr_repairs f, cr_allocator_deallocation_calls = int (length ts),
           cr_commit_sha256 = []\<rparr> = Inr commit"
    and e: "r = \<lparr>cr_authorization_sha256 = cp_authorization_sha256 p, cr_targets_sha256 = d,
           cr_snapshot_before_sha256 = cp_expected_snapshot_sha256 p, cr_snapshot_after_sha256 = after,
           cr_accounting_before = st_books s, cr_accounting_after = books_without (int (length ts)) f (st_books s),
           cr_freed_entries = int (length ts), cr_freed_payload_bytes = fr_payload_bytes f,
           cr_freed_index_bytes = int (length ts) * LOGICAL_INDEX_ENTRY_BYTES,
           cr_freed_repair_count = fr_repairs f, cr_allocator_deallocation_calls = int (length ts),
           cr_commit_sha256 = commit\<rparr>"
    unfolding preview_retired_def Let_def by (auto simp: bindE_Inr guardE_Inr)
  note ft = free_targets [OF c(5)]
  have "\<forall>t \<in> set ts. target_ok s t" using ft by blast
  moreover have "ts = [] \<or> is_u64 (fr_payload_bytes f) \<and> is_u64 (fr_repairs f)" using ft by blast
  moreover have "f = freed_by s ts" using ft by (simp add: freed_by_def)
  ultimately have f: "\<forall>t \<in> set ts. target_ok s t" "f = freed_by s ts"
    "ts = [] \<or> is_u64 (fr_payload_bytes f) \<and> is_u64 (fr_repairs f)" by blast+
  have t: "distinct ts" "ts \<noteq> []" using targets_root_distinct [OF c(3)] by simp_all
  show ?thesis
    by (rule that [of d after commit])
      (use c a r e f t in \<open>simp_all add: preview_receipt_def committed_def freed_by_def store_simps\<close>)
qed

lemma commit_retired_result:
  assumes p: "preview_retired s p ts = Inr r"
  shows "commit_retired p ts s = (Inr r, committed s ts)"
proof -
  from p obtain d after commit where c: "\<forall>t \<in> set ts. target_ok s t"
    "snapshot_root_v2_unchecked (committed s ts) = Inr after" "r = preview_receipt s p ts d after commit"
    by (rule preview_Inr) (rule that)
  have "mapE (\<lambda>t. case store_find s t of None \<Rightarrow> Inl StAssertion | Some i \<Rightarrow> Inr i) ts = Inr (map (the o store_find s) ts)"
    using c(1) by (intro mapE_total) (auto simp: target_ok_def)
  moreover have "apply_preview (map (the o store_find s) ts) r s = (Inr (), committed s ts)"
    by (simp add: apply_preview_def c(3) preview_receipt_def committed_def store_simps)
  ultimately show ?thesis using p c
    by (simp add: commit_retired_def commit_retired_preview_def bindS_def guardE_def preview_receipt_def)
qed

lemma commit_preview_cases:
  "commit_retired_preview p ts expected s =
    (case preview_retired s p ts of Inl e \<Rightarrow> (Inl e, s)
     | Inr r \<Rightarrow> if r = expected then (Inr r, committed s ts) else (Inl StPreview, s))"
proof (cases "preview_retired s p ts")
  case (Inr r)
  with commit_retired_result [OF Inr] show ?thesis
    by (auto simp: commit_retired_def commit_retired_preview_def guardE_def)
qed (simp add: commit_retired_preview_def)

lemma commit_cases:
  "commit_retired p ts s =
    (case preview_retired s p ts of Inl e \<Rightarrow> (Inl e, s) | Inr r \<Rightarrow> (Inr r, committed s ts))"
  by (cases "preview_retired s p ts") (simp_all add: commit_retired_result, simp add: commit_retired_def)

lemma committed_keeps:
  assumes "store_ok s" "preview_retired s p ts = Inr r"
  shows "keeps s (x, committed s ts)"
  using assms(2) by (rule preview_Inr) (simp add: keeps_def same_scope_def store_simps committed_ok assms(1))

lemma commit_preview_keeps: "store_ok s \<Longrightarrow> keeps s (commit_retired_preview p ts expected s)"
  by (auto simp: commit_preview_cases keeps_same intro: committed_keeps split: sum.splits)

lemma commit_keeps: "store_ok s \<Longrightarrow> keeps s (commit_retired p ts s)"
  by (auto simp: commit_cases keeps_same intro: committed_keeps split: sum.splits)

end
