(* ===== verification/Store_Import.thy ===== *)
theory Store_Import
  imports Store_Invariants
begin

text \<open>
  The import of a bundle puts nine objects and takes every one of them back if a put raises. Undoing a
  put restores the store exactly, so an import that fails inside its loop changes nothing; an import
  that gets through the loop keeps the store well formed.
\<close>

section \<open>Undoing a put\<close>

definition put_action :: "put_receipt \<Rightarrow> import_action" where
  "put_action r = \<lparr>ia_slot_index = pr_slot_index r, ia_inserted = (pr_disposition r = Inserted)\<rparr>"

lemma undo_reuse:
  assumes i: "i < length (st_slots s)" "st_slots s ! i = Some sl" and m: "put_reuse expected payload i s = (Inr r, t)"
  shows "rollback_action (put_action r) t = (Inr (), s)"
proof -
  have "slot_at s i = sl" using i by (simp add: slot_at_def)
  with m have "r = \<lparr>pr_slot_index = i, pr_disposition = Reused, pr_reference_count = sl_reference_count sl + 1\<rparr>"
    "t = set_books (add_reference 1) (set_slot i (Some (sl\<lparr>sl_reference_count := sl_reference_count sl + 1\<rparr>)) s)"
    by (auto simp: put_reuse_def Let_def checkS_Inr)
  then show ?thesis using i
    by (cases s) (simp add: rollback_action_def put_action_def store_simps set_books_def set_slot_def add_reference_def
        list_update_same_conv)
qed

lemma undo_insert:
  assumes "put_insert expected payload provenance s = (Inr r, t)"
  shows "rollback_action (put_action r) t = (Inr (), s)"
proof -
  from assms obtain i where f: "first_index (\<lambda>v. v = None) (st_slots s) = Some i"
    and r: "r = \<lparr>pr_slot_index = i, pr_disposition = Inserted, pr_reference_count = 1\<rparr>"
    and t: "t = set_books (count_insert (br_byte_length expected))
         (set_slot i (Some (new_slot expected payload provenance)) s)
           \<lparr>st_allocator_insertions := st_allocator_insertions s + 1\<rparr>"
    by (auto simp: put_insert_def Let_def checkS_Inr split: option.splits)
  have "i < length (st_slots s)" "st_slots s ! i = None" using f by (auto simp: first_index_Some)
  then show ?thesis unfolding r t
    by (cases s) (simp add: rollback_action_def put_action_def set_books_def set_slot_def uncount_insert_def
        count_insert_def count_state_def new_slot_def Let_def list_update_same_conv)
qed

lemma undo_put:
  assumes "store_put expected payload provenance s = (Inr r, t)"
  shows "rollback_action (put_action r) t = (Inr (), s)"
proof (cases "first_index (slot_is (\<lambda>sl. sl_sha256 sl = br_sha256 expected)) (st_slots s)")
  case None
  with assms show ?thesis by (auto simp: store_put_def checkS_Inr intro: undo_insert)
next
  case (Some i)
  then obtain sl where i: "i < length (st_slots s)" "st_slots s ! i = Some sl"
    by (auto simp: first_index_Some slot_is_iff)
  from assms Some have "put_reuse expected payload i s = (Inr r, t)" by (auto simp: store_put_def checkS_Inr)
  with i show ?thesis by (rule undo_reuse)
qed

lemma put_error: "store_put expected payload provenance s = (Inl e, t) \<Longrightarrow> t = s"
  by (auto simp: store_put_def put_reuse_def put_insert_def Let_def checkS_Inl split: option.splits)

section \<open>The loop and its rollback\<close>

lemma rollback_append:
  "rollback_newest_first (xs @ ys) s = bindS (rollback_newest_first xs) (\<lambda>_. rollback_newest_first ys) s"
proof (induction xs arbitrary: s)
  case (Cons x xs)
  then show ?case by (simp add: bindS_def Cons.IH split: prod.splits sum.splits)
qed (simp add: bindS_def)

lemma note_put_actions: "ip_actions (note_put e r p) = ip_actions p @ [put_action r]"
  by (simp add: note_put_def put_action_def Let_def)

lemma import_loop_undo:
  "import_loop objects envelope xs p s = ((x, q), t) \<Longrightarrow>
     \<exists>acts. ip_actions q = ip_actions p @ acts \<and> store_rollback acts t = (Inr (), s)"
proof (induction xs arbitrary: p s)
  case Nil
  then show ?case by (simp add: store_rollback_def)
next
  case (Cons y ys)
  obtain r u where m: "put_entry objects envelope y s = (r, u)" by fastforce
  show ?case
  proof (cases r)
    case (Inl e)
    with m Cons.prems have "u = s" by (auto simp: put_entry_def split: prod.splits intro: put_error)
    with Inl m Cons.prems show ?thesis by (auto simp: store_rollback_def)
  next
    case (Inr a)
    have undo: "rollback_action (put_action a) u = (Inr (), s)"
      using m Inr by (cases y) (auto simp: put_entry_def intro: undo_put)
    from Cons.prems m Inr have "import_loop objects envelope ys (note_put (fst y) a p) u = ((x, q), t)" by simp
    from Cons.IH [OF this] obtain acts where acts: "ip_actions q = ip_actions p @ put_action a # acts"
      "store_rollback acts t = (Inr (), u)"
      by (auto simp: note_put_actions)
    have "store_rollback (put_action a # acts) t = (Inr (), s)"
      using acts(2) undo by (simp add: store_rollback_def rollback_append bindS_def)
    with acts(1) show ?thesis by blast
  qed
qed

definition import_puts :: "bundle_manifest \<Rightarrow> objects \<Rightarrow> store \<Rightarrow> (store_error option \<times> import_progress) \<times> store" where
  "import_puts d objects s =
     import_loop objects (bm_envelope_sha256 d) (zip (bm_entries d) OBJECT_NAMES) no_progress s"

lemma run_import_cases:
  "run_import d objects s =
    (case import_puts d objects s of ((Some e, p), t) \<Rightarrow> (Inl e, s)
     | ((None, p), t) \<Rightarrow> finish_import (bm_envelope_sha256 d) p t)"
proof -
  obtain x q t where l: "import_puts d objects s = ((x, q), t)" by (metis prod.exhaust)
  obtain acts where "ip_actions q = acts" "store_rollback acts t = (Inr (), s)"
    using import_loop_undo [OF l [unfolded import_puts_def]] by (auto simp: no_progress_def)
  with l show ?thesis
    by (cases x) (simp_all add: run_import_def import_puts_def bindS_def)
qed

lemma import_loop_keeps:
  "store_ok s \<Longrightarrow> import_loop objects envelope xs p s = (z, t) \<Longrightarrow> store_ok t \<and> same_scope s t"
proof (induction xs arbitrary: p s)
  case (Cons y ys)
  obtain r u where m: "put_entry objects envelope y s = (r, u)" by fastforce
  have "keeps s (put_entry objects envelope y s)"
    using put_keeps [OF Cons.prems(1)] by (cases y) (simp add: put_entry_def)
  with m have u: "store_ok u" "same_scope s u" by (simp_all add: keeps_def)
  show ?case
  proof (cases r)
    case (Inl e)
    with m Cons.prems u show ?thesis by simp
  next
    case (Inr a)
    with m Cons.prems have "import_loop objects envelope ys (note_put (fst y) a p) u = (z, t)" by simp
    from Cons.IH [OF u(1) this] u(2) show ?thesis by (simp add: same_scope_def)
  qed
qed simp

lemma finish_import_unchanged: "snd (finish_import envelope p s) = s"
  by (cases "snapshot_root s") (simp_all add: finish_import_def)

lemma import_keeps:
  assumes ok: "store_ok s"
  shows "keeps s (import_bundle wire c capsule_wire objects s)"
  unfolding import_bundle_def
proof (intro keeps_checks ok)
  fix d
  obtain x p t where l: "import_puts d objects s = ((x, p), t)" by (metis prod.exhaust)
  then have "store_ok t" "same_scope s t" using import_loop_keeps [OF ok] by (auto simp: import_puts_def)
  with l show "keeps s (run_import d objects s)"
    by (cases x) (simp_all add: run_import_cases keeps_same ok, simp add: keeps_def finish_import_unchanged)
qed

end
