(* ===== verification/Store_Run.thy ===== *)
theory Store_Run
  imports Store_Commit Store_Import
begin

text \<open>
  The runs of a store: any sequence of its methods, with any arguments and whether they return or raise,
  and between them any corruption of the stored payloads. Every store of a run is well formed, so its
  books are valid, its receipts verify, and a slot is always free when the entry budget allows one.
\<close>

section \<open>Runs\<close>

inductive store_step :: "store \<Rightarrow> store \<Rightarrow> bool" where
  step_put: "store_put expected payload provenance s = (r, t) \<Longrightarrow> store_step s t"
| step_get: "store_get expected s = (r, t) \<Longrightarrow> store_step s t"
| step_release: "store_release expected s = (r, t) \<Longrightarrow> store_step s t"
| step_retire: "store_retire expected s = (r, t) \<Longrightarrow> store_step s t"
| step_quarantine: "store_quarantine expected reason s = (r, t) \<Longrightarrow> store_step s t"
| step_acquire: "acquire_lease expected lg owner observed expires s = (r, t) \<Longrightarrow>
     (\<And>x. r = Inr x \<Longrightarrow> lr_lease_sha256 x \<noteq> ZERO_DIGEST) \<Longrightarrow> store_step s t"
| step_renew: "renew_lease expected current lg observed expires s = (r, t) \<Longrightarrow>
     (\<And>x. r = Inr x \<Longrightarrow> lr_lease_sha256 x \<noteq> ZERO_DIGEST) \<Longrightarrow> store_step s t"
| step_release_lease: "release_lease expected current lg s = (r, t) \<Longrightarrow> store_step s t"
| step_expire_lease: "expire_lease expected current lg observed s = (r, t) \<Longrightarrow> store_step s t"
| step_repair: "store_repair expected candidate same_object source rg s = (r, t) \<Longrightarrow> store_step s t"
| step_commit_preview: "commit_retired_preview p targets preview s = (r, t) \<Longrightarrow> store_step s t"
| step_commit: "commit_retired p targets s = (r, t) \<Longrightarrow> store_step s t"
| step_import: "import_bundle wire c capsule_wire objects s = (r, t) \<Longrightarrow> store_step s t"
| step_corrupt: "i < length (st_slots s) \<Longrightarrow> st_slots s ! i = Some sl \<Longrightarrow>
     store_step s (set_slot i (Some (sl\<lparr>sl_payload := payload\<rparr>)) s)"

inductive store_reach :: "store_grant \<Rightarrow> store \<Rightarrow> bool" for g where
  reach_new: "new_store g epoch capacity fail_after = Inr s \<Longrightarrow> store_reach g s"
| reach_step: "store_reach g s \<Longrightarrow> store_step s t \<Longrightarrow> store_reach g t"

lemma new_store_Inr:
  assumes "new_store g epoch capacity fail_after = Inr s"
  obtains root where "validate_grant g = Inr ()" "grant_root g = Inr root" "sg_max_entries g \<le> capacity" "0 < capacity"
    "s = \<lparr>st_grant = g, st_grant_sha256 = root, st_capacity = capacity,
       st_slots = replicate (nat capacity) None, st_books = new_books, st_closed = False,
       st_fail_after_new_entries = fail_after, st_allocator_insertions = 0\<rparr>"
  using assms by (auto simp: new_store_def bindE_Inr split: if_splits)

lemma grant_u64:
  assumes "validate_grant g = Inr u"
  shows "is_u64 (sg_max_entries g)" "is_u64 (sg_max_payload_bytes g)" "is_u64 (sg_max_index_bytes g)"
    "is_u64 (sg_max_references g)" "length (sg_tenant_scope_sha256 g) = 32" "sg_tenant_scope_sha256 g \<noteq> ZERO_DIGEST"
  using assms by (auto simp: validate_grant_def bindE_Inr store_u64_Inr store_digest_Inr)

lemma new_store_ok:
  assumes "new_store g epoch capacity fail_after = Inr s"
  shows "store_ok s \<and> st_grant s = g \<and> \<not> st_closed s"
proof -
  from assms obtain root where n: "validate_grant g = Inr ()" "grant_root g = Inr root" "sg_max_entries g \<le> capacity" "0 < capacity"
    "s = \<lparr>st_grant = g, st_grant_sha256 = root, st_capacity = capacity,
       st_slots = replicate (nat capacity) None, st_books = new_books, st_closed = False,
       st_fail_after_new_entries = fail_after, st_allocator_insertions = 0\<rparr>"
    by (rule new_store_Inr)
  have "within_budget g new_books" using grant_u64 [OF n(1)] by (simp add: within_budget_def new_books_def is_u64_def)
  moreover have "shas_distinct (replicate n None)" for n by (auto simp: shas_distinct_def)
  ultimately show ?thesis using n(1-4) by (simp add: n(5) store_ok_def books_of_empty)
qed

lemma corrupt_keeps:
  assumes ok: "store_ok s" and i: "i < length (st_slots s)" "st_slots s ! i = Some sl"
  shows "keeps s (r, set_slot i (Some (sl\<lparr>sl_payload := payload\<rparr>)) s)"
  by (rule keeps_set [OF ok i, where new = "sl\<lparr>sl_payload := payload\<rparr>"])
    (use budget_of_ok [OF ok] slot_of_ok [OF ok i] in \<open>auto simp: slot_change_simps\<close>)

lemma step_keeps: "store_step s t \<Longrightarrow> store_ok s \<Longrightarrow> store_ok t \<and> same_scope s t"
proof (induction rule: store_step.induct)
  case (step_acquire expected lg owner observed expires s r t)
  then show ?case using acquire_keeps by (fastforce simp: keeps_def)
next
  case (step_renew expected current lg observed expires s r t)
  then show ?case using renew_keeps by (fastforce simp: keeps_def)
next
  case (step_corrupt i s sl payload)
  then show ?case using corrupt_keeps [of s i sl "Inr ()" payload] by (simp add: keeps_def)
qed (metis keepsD put_keeps get_keeps release_keeps retire_keeps quarantine_keeps release_lease_keeps
    expire_lease_keeps repair_keeps commit_preview_keeps commit_keeps import_keeps)+

lemma reach_ok: "store_reach g s \<Longrightarrow> store_ok s \<and> st_grant s = g \<and> \<not> st_closed s"
proof (induction rule: store_reach.induct)
  case (reach_new epoch capacity fail_after s)
  then show ?case by (rule new_store_ok)
next
  case (reach_step s t)
  then show ?case using step_keeps [of s t] by (simp add: same_scope_def)
qed

section \<open>Books and receipts\<close>

lemma one_state: "(if st = Live then 1 else 0) + (if st = Quarantined then 1 else 0) + (if st = Retired then 1 else 0) = (1::int)"
  by (cases st) simp_all

lemma books_bounds:
  assumes ok: "store_ok s"
  shows "\<forall>v \<in> set (accounting_fields (st_books s)). 0 \<le> v"
    and "ac_live_entries (st_books s) + ac_quarantined_entries (st_books s) + ac_retired_entries (st_books s)
       = ac_entry_count (st_books s)"
    and "ac_logical_index_bytes (st_books s) = ac_entry_count (st_books s) * 128"
    and "ac_live_entries (st_books s) + ac_quarantined_entries (st_books s) \<le> ac_reference_count (st_books s)"
    and "ac_active_leases (st_books s) \<le> ac_live_entries (st_books s)"
    and "ac_entry_count (st_books s) \<le> ac_payload_bytes (st_books s)"
    and "ac_entry_count (st_books s) = 0 \<Longrightarrow> st_books s = new_books"
    and "ac_live_entries (st_books s) + ac_quarantined_entries (st_books s) = 0 \<Longrightarrow> ac_reference_count (st_books s) = 0"
proof -
  let ?vs = "st_slots s"
  have sl: "slot_ok (st_grant s) sl" if "Some sl \<in> set ?vs" for sl using ok that by (simp add: store_ok_def)
  have b: "st_books s = books_of ?vs" using ok by (simp add: store_ok_def)
  show "\<forall>v \<in> set (accounting_fields (st_books s)). 0 \<le> v"
    unfolding b by (auto simp: accounting_fields_def books_of_def slot_ok_def intro!: slot_sum_nonneg dest!: sl split: if_splits)
  show sum: "ac_live_entries (st_books s) + ac_quarantined_entries (st_books s) + ac_retired_entries (st_books s)
       = ac_entry_count (st_books s)"
    unfolding b books_of_def accounting.simps slot_sum_add [symmetric]
    by (simp only: one_state)
  show "ac_logical_index_bytes (st_books s) = ac_entry_count (st_books s) * 128"
    unfolding b books_of_def accounting.simps by (subst slot_sum_scale) simp
  show cl: "ac_live_entries (st_books s) + ac_quarantined_entries (st_books s) \<le> ac_reference_count (st_books s)"
    unfolding b books_of_def accounting.simps slot_sum_add [symmetric]
    by (rule slot_sum_mono) (auto simp: slot_ok_def dest!: sl split: if_splits)
  show "ac_active_leases (st_books s) \<le> ac_live_entries (st_books s)"
    unfolding b books_of_def accounting.simps
    by (rule slot_sum_mono) (auto simp: slot_ok_def dest!: sl split: if_splits)
  show "ac_entry_count (st_books s) \<le> ac_payload_bytes (st_books s)"
    unfolding b books_of_def accounting.simps by (rule slot_sum_mono) (auto simp: slot_ok_def dest!: sl)
  show "st_books s = new_books" if "ac_entry_count (st_books s) = 0"
  proof -
    have z: "Some sl \<notin> set ?vs" for sl
      using slot_sum_member [of sl ?vs "\<lambda>_. 1"] that by (auto simp: b books_of_def)
    have "slot_sum f ?vs = 0" for f using slot_sum_cong [of ?vs f "\<lambda>_. 0"] z slot_sum_scale [of 0 ?vs] by simp
    then show ?thesis by (simp add: b books_of_def new_books_def)
  qed
  show "ac_reference_count (st_books s) = 0"
    if c: "ac_live_entries (st_books s) + ac_quarantined_entries (st_books s) = 0"
  proof -
    have retired: "sl_state sl = Retired" if "Some sl \<in> set ?vs" for sl
      using slot_sum_member [OF that, of "\<lambda>sl. (if sl_state sl = Live then 1 else 0) + (if sl_state sl = Quarantined then 1 else 0)"]
        c by (cases "sl_state sl") (auto simp: b books_of_def slot_sum_add)
    have "sl_reference_count sl = 0" if "Some sl \<in> set ?vs" for sl
      using sl [OF that] retired [OF that] by (simp add: slot_ok_def)
    then have "slot_sum sl_reference_count ?vs = slot_sum (\<lambda>_. 0) ?vs"
      by (rule slot_sum_cong)
    then show ?thesis using slot_sum_scale [of 0 ?vs] by (simp add: b books_of_def)
  qed
qed

lemma books_u64:
  assumes ok: "store_ok s"
  shows "\<forall>v \<in> set (accounting_fields (st_books s)). is_u64 v"
proof -
  have "validate_grant (st_grant s) = Inr ()" using ok by (simp add: store_ok_def)
  note g = grant_u64(1-4) [OF this]
  have "\<forall>v \<in> set (accounting_fields (st_books s)). v \<le> U64_MAX"
    using books_bounds [OF ok] budget_of_ok [OF ok] g
    by (auto simp: accounting_fields_def within_budget_def is_u64_def)
  with books_bounds(1) [OF ok] show ?thesis by (auto simp: is_u64_def)
qed

lemma books_valid:
  assumes ok: "store_ok s"
  shows "accounting_is_valid (st_books s)"
proof -
  note b = books_bounds [OF ok] and u = books_u64 [OF ok]
  have i: "is_u64 (ac_entry_count (st_books s))" "is_u64 (ac_logical_index_bytes (st_books s))"
    using u by (simp_all add: accounting_fields_def)
  have "mapE store_u64 (accounting_fields (st_books s) @ [ac_live_entries (st_books s)
      + ac_quarantined_entries (st_books s) + ac_retired_entries (st_books s), ac_entry_count (st_books s) * 128])
    = Inr (map u64_bytes (accounting_fields (st_books s) @ [ac_entry_count (st_books s), ac_entry_count (st_books s) * 128]))"
    using u i b(2,3) by (subst mapE_total [of _ _ u64_bytes]) (auto simp: store_u64_ok)
  with b show ?thesis by (auto simp: accounting_is_valid_def Let_def new_books_def)
qed

lemma store_hash_length: "store_hash domain parts = Inr d \<Longrightarrow> length d = 32"
  by (auto simp: store_hash_def bindE_Inr)

lemma freed_positive:
  assumes ok: "store_ok s" and ts: "\<forall>t \<in> set ts. target_ok s t" "ts \<noteq> []"
  shows "0 < fr_payload_bytes (freed_by s ts)"
proof -
  have one: "1 \<le> sl_byte_length (target_slot s t)" if "t \<in> set ts" for t
  proof -
    from ts(1) that obtain i where i: "store_find s t = Some i" by (auto simp: target_ok_def)
    have "slot_ok (st_grant s) (target_slot s t)" by (rule slot_of_ok [OF ok found_target(1,2) [OF i]])
    then show ?thesis by (simp add: slot_ok_def)
  qed
  obtain t us where u: "ts = t # us" using ts(2) by (cases ts) auto
  have "0 \<le> sum_list (map (sl_byte_length o target_slot s) us)"
    using one by (intro sum_list_nonneg) (force simp: u)
  then show ?thesis using one [of t] by (simp add: freed_by_def u)
qed

text \<open>The receipt of a commit verifies, unless one of its hashes is zero or the two snapshots collide.\<close>

lemma preview_verifies:
  assumes ok: "store_ok s" and p: "preview_retired s p ts = Inr r"
    and nonzero: "cr_targets_sha256 r \<noteq> ZERO_DIGEST" "cr_snapshot_after_sha256 r \<noteq> ZERO_DIGEST"
      "cr_commit_sha256 r \<noteq> ZERO_DIGEST" "cr_snapshot_before_sha256 r \<noteq> cr_snapshot_after_sha256 r"
  shows "verify_retired_commit_receipt r = Inr ()"
proof -
  from p obtain d after commit where c: "validate_permit s p = Inr ()" "retired_targets_root ts = Inr d" "distinct ts"
    "ts \<noteq> []" "\<forall>t \<in> set ts. target_ok s t" "snapshot_root_v2_unchecked (committed s ts) = Inr after"
    "r = preview_receipt s p ts d after commit"
    "retired_commit_receipt_root (preview_receipt s p ts d after []) = Inr commit"
    "is_u64 (fr_payload_bytes (freed_by s ts))" "is_u64 (fr_repairs (freed_by s ts))"
    by (rule preview_Inr) (rule that)
  let ?t = "committed s ts"
  have t: "store_ok ?t" by (rule committed_ok [OF ok c(3,5)])
  have root: "retired_commit_receipt_root r = Inr commit"
    using c(8) by (simp add: c(7) preview_receipt_def retired_commit_receipt_root_def)
  have len: "length d = 32" "length after = 32" "length commit = 32"
    using c(2,6,8) store_hash_length
    by (auto simp: retired_targets_root_def bindE_Inr snapshot_root_v2_unchecked_def retired_commit_receipt_root_def
        split: if_splits)
  have auth: "length (cp_authorization_sha256 p) = 32" "cp_authorization_sha256 p \<noteq> ZERO_DIGEST"
    "length (cp_expected_snapshot_sha256 p) = 32" "cp_expected_snapshot_sha256 p \<noteq> ZERO_DIGEST"
    using c(1) by (auto simp: validate_permit_def result_simps)
  have after: "st_books ?t = books_without (int (length ts)) (freed_by s ts) (st_books s)" by (simp add: committed_parts)
  have "\<forall>v \<in> set (accounting_fields (st_books s)). is_u64 v" "\<forall>v \<in> set (accounting_fields (st_books ?t)). is_u64 v"
    using books_u64 ok t by blast+
  then have u: "is_u64 (int (length ts))" "is_u64 (int (length ts) * 128)"
    "\<forall>v \<in> set (expected_before r). is_u64 v"
    using books_bounds(1,3) [OF t] books_bounds(3) [OF ok]
    by (auto simp: accounting_fields_def expected_before_def Let_def c(7) preview_receipt_def after books_without_def is_u64_def)
  have "receipt_checks r = Inr ()"
    using u c(9,10) len auth nonzero
    by (auto simp: receipt_checks_def result_simps mapE_store_u64 c(7) preview_receipt_def)
  moreover have "expected_before r = [ac_entry_count (st_books s), ac_retired_entries (st_books s),
      ac_payload_bytes (st_books s), ac_logical_index_bytes (st_books s), ac_repair_count (st_books s)]"
    by (simp add: expected_before_def Let_def c(7) preview_receipt_def after books_without_def)
  ultimately show ?thesis
    using root nonzero(4) c(4) freed_positive [OF ok c(5,4)] books_valid [OF ok] books_valid [OF t]
    by (simp add: verify_retired_commit_receipt_def c(7) preview_receipt_def after books_without_def)
qed

section \<open>Capacity\<close>

lemma all_occupied: "\<forall>v \<in> set vs. v \<noteq> None \<Longrightarrow> slot_sum (\<lambda>_. 1) vs = int (length vs)"
  by (induction vs) auto

lemma free_slot:
  assumes ok: "store_ok s" and room: "ac_entry_count (st_books s) < sg_max_entries (st_grant s)"
  shows "first_index (\<lambda>v. v = None) (st_slots s) \<noteq> None"
proof
  assume "first_index (\<lambda>v. v = None) (st_slots s) = None"
  then have "\<forall>v \<in> set (st_slots s). v \<noteq> None" by (simp add: first_index_None)
  then have "slot_sum (\<lambda>_. 1) (st_slots s) = int (length (st_slots s))"
    by (rule all_occupied)
  with ok room show False by (simp add: store_ok_def books_of_def)
qed

lemma put_capacity: "store_ok s \<Longrightarrow> store_put expected payload provenance s \<noteq> (Inl StNativeCapacity, t)"
  using free_slot [of s]
  by (auto simp: store_put_def put_insert_def put_reuse_def Let_def result_simps store_operation_def store_digest_def
      lift_blob_def not_set_aside_def split: if_splits option.splits sum.splits slot_state.splits)

end
