(* ===== verification/Bundle_Facts.thy ===== *)
theory Bundle_Facts
  imports Bundle
begin

text \<open>
  The manifest of a bundle reads back. Encoder and decoder build their tables with the same steps, so
  the decoder recomputes every ordinal and total the encoder wrote; and the totals count each distinct
  payload once.
\<close>

section \<open>Blobs\<close>

definition blob_sha :: "bytes \<Rightarrow> bytes \<Rightarrow> bytes" where
  "blob_sha tenant payload = sha_parts BLOB_DOMAIN [tenant, u64_bytes (int (length payload)), payload]"

lemma bundle_u64_Inr [result_simps]: "bundle_u64 v = Inr b \<longleftrightarrow> is_u64 v \<and> b = u64_bytes v"
  by (auto simp: bundle_u64_def is_u64_def)

lemma bundle_u64_ok: "is_u64 v \<Longrightarrow> bundle_u64 v = Inr (u64_bytes v)"
  by (simp add: bundle_u64_Inr)

lemma bundle_digest_Inr [result_simps]:
  "bundle_digest z v = Inr d \<longleftrightarrow> length v = 32 \<and> (z \<or> v \<noteq> ZERO_DIGEST) \<and> d = v"
  by (auto simp: bundle_digest_def)

lemma blob_ref_Inr [result_simps]:
  "blob_ref tenant payload = Inr r \<longleftrightarrow> length tenant = 32 \<and> tenant \<noteq> ZERO_DIGEST \<and> payload \<noteq> []
     \<and> is_u64 (int (length payload)) \<and> r = \<lparr>br_byte_length = int (length payload), br_sha256 = blob_sha tenant payload\<rparr>"
  by (auto simp: blob_ref_def bindE_Inr bundle_digest_def bundle_u64_def is_u64_def blob_sha_def)

lemma length_blob_sha [simp]: "length (blob_sha tenant payload) = 32"
  by (simp add: blob_sha_def)

lemma lift_capsule_Inr [result_simps]: "lift_capsule m = Inr x \<longleftrightarrow> m = Inr x"
  by (cases m) (simp_all add: lift_capsule_def)

lemma or_raise_Inr [result_simps]: "or_raise e m = Inr x \<longleftrightarrow> m = Inr x"
  by (cases m) (simp_all add: or_raise_def)

section \<open>The table\<close>

definition payload_of :: "objects \<Rightarrow> string \<Rightarrow> bytes" where
  "payload_of objects name = snd (the (map_of objects name))"

text \<open>The table after some names: what it says of their payloads.\<close>

definition table_inv :: "bytes \<Rightarrow> objects \<Rightarrow> string list \<Rightarrow> bundle_table \<Rightarrow> bool" where
  "table_inv tenant objects names t \<longleftrightarrow>
     map be_blob_sha256 (tb_entries t) = map (blob_sha tenant o payload_of objects) names
     \<and> map be_byte_length (tb_entries t) = map (int o length o payload_of objects) names
     \<and> (\<forall>e \<in> set (tb_entries t). 0 \<le> be_blob_ordinal e \<and> be_blob_ordinal e < tb_unique_count t)
     \<and> is_u64 (tb_unique_count t) \<and> is_u64 (tb_unique_bytes t) \<and> is_u64 (tb_logical_bytes t)
     \<and> tb_logical_bytes t = sum_list (map (int o length o payload_of objects) names)
     \<and> tb_unique_count t = int (card (payload_of objects ` set names))
     \<and> tb_unique_bytes t = (\<Sum>p \<in> payload_of objects ` set names. int (length p))
     \<and> (\<forall>name \<in> set names. payload_of objects name \<noteq> [])"

lemma table_inv_empty: "table_inv tenant objects [] empty_table"
  by (simp add: table_inv_def empty_table_def is_u64_def)

lemma prior_entry_None: "prior_entry t sha = None \<longleftrightarrow> sha \<notin> be_blob_sha256 ` set (tb_entries t)"
proof -
  have "set (tb_entries t) = snd ` set (enumerate 0 (tb_entries t))"
    by (metis list.set_map map_snd_enumerate)
  then show ?thesis by (force simp: prior_entry_def find_None_iff)
qed

lemma prior_entry_Some:
  "prior_entry t sha = Some (i, e) \<Longrightarrow> i < length (tb_entries t) \<and> tb_entries t ! i = e \<and> be_blob_sha256 e = sha"
  by (auto simp: prior_entry_def find_Some_iff nth_enumerate_eq)

definition entry_fits :: "bundle_entry \<Rightarrow> bool" where
  "entry_fits e \<longleftrightarrow> is_u64 (be_kind e) \<and> is_u64 (be_abi_version e) \<and> is_u64 (be_byte_length e)
     \<and> is_u64 (be_blob_ordinal e) \<and> length (be_typed_sha256 e) = 32 \<and> length (be_blob_sha256 e) = 32"

definition entry_nonzero :: "bundle_entry \<Rightarrow> bool" where
  "entry_nonzero e \<longleftrightarrow> be_typed_sha256 e \<noteq> ZERO_DIGEST \<and> be_blob_sha256 e \<noteq> ZERO_DIGEST"

text \<open>One turn of the encoder's loop is a turn of the decoder's loop on the entry it adds.\<close>

lemma encode_entry_step:
  assumes m: "encode_entry tenant objects t (k, name) = Inr t'" and inv: "table_inv tenant objects names t"
    and k: "length names = k" "\<And>j. j < k \<Longrightarrow> OBJECT_NAMES ! j = names ! j"
  obtains e where "tb_entries t' = tb_entries t @ [e]" "entry_fits e" "be_kind e = int k"
    "table_inv tenant objects (names @ [name]) t'" "entry_nonzero e \<longrightarrow> check_entry t k e = Inr t'"
proof -
  let ?p = "payload_of objects name"
  from m obtain typed prior t1 where c: "make_object_ref (int k) (the (map_of objects name)) = Inr typed"
    "blob_ref tenant ?p = Inr \<lparr>br_byte_length = int (length ?p), br_sha256 = blob_sha tenant ?p\<rparr>"
    "is_u64 (tb_logical_bytes t + int (length ?p))"
    "encode_prior objects t \<lparr>br_byte_length = int (length ?p), br_sha256 = blob_sha tenant ?p\<rparr> ?p = Inr prior"
    "count_blob (t\<lparr>tb_logical_bytes := tb_logical_bytes t + int (length ?p)\<rparr>) (prior = None) (int (length ?p)) = Inr t1"
    and t': "t' = add_entry \<lparr>be_kind = int k, be_abi_version = fst (the (map_of objects name)),
       be_byte_length = or_byte_length typed, be_blob_ordinal = (case prior of None \<Rightarrow> tb_unique_count t | Some k \<Rightarrow> k),
       be_typed_sha256 = or_sha256 typed, be_blob_sha256 = blob_sha tenant ?p\<rparr> t1" (is "_ = add_entry ?e t1")
    by (auto simp: encode_entry_def Let_def result_simps payload_of_def)
  from c(1) have typed: "or_byte_length typed = int (length ?p)" "length (or_sha256 typed) = 32"
    "is_u64 (fst (the (map_of objects name)))" "fst (the (map_of objects name)) \<noteq> 0" "is_u64 (int k)"
    by (auto simp: make_object_ref_Inr payload_of_def is_u64_def)
  from c(2) have p: "?p \<noteq> []" "is_u64 (int (length ?p))" by (simp_all add: blob_ref_Inr)
  note inv' = inv [unfolded table_inv_def]
  have len: "length (tb_entries t) = k" using inv' k(1) by (metis length_map)
  have e: "be_byte_length ?e = int (length ?p)" by (simp add: typed)
  show ?thesis
  proof (cases "prior_entry t (blob_sha tenant ?p)")
    case None
    then have new: "prior = None" using c(4) by (simp add: encode_prior_def)
    have fresh: "?p \<notin> payload_of objects ` set names"
    proof
      assume "?p \<in> payload_of objects ` set names"
      then have "blob_sha tenant ?p \<in> set (map (blob_sha tenant o payload_of objects) names)" by auto
      then have "blob_sha tenant ?p \<in> set (map be_blob_sha256 (tb_entries t))" using inv' by argo
      with None show False by (simp add: prior_entry_None)
    qed
    have u: "is_u64 (tb_unique_count t + 1)" "is_u64 (tb_unique_bytes t + int (length ?p))"
      and t1: "t1 = t\<lparr>tb_logical_bytes := tb_logical_bytes t + int (length ?p), tb_unique_count := tb_unique_count t + 1,
        tb_unique_bytes := tb_unique_bytes t + int (length ?p)\<rparr>"
      using c(5) new by (auto simp: count_blob_def bundle_u64_Inr bindE_Inr)
    have "check_entry t k ?e = Inr t'" if "entry_nonzero ?e"
      using that None new c(3) u t1 p typed
      by (simp add: check_entry_def entry_nonzero_def bundle_digest_def bundle_u64_ok decode_prior_def count_blob_def t')
    moreover have "table_inv tenant objects (names @ [name]) t'"
      using inv' fresh c(3) u typed new p by (auto simp: table_inv_def t' t1 add_entry_def)
    moreover have "is_u64 (tb_unique_count t)" using inv' by blast
    then have "entry_fits ?e" using typed p new by (simp add: entry_fits_def)
    ultimately show ?thesis using that [of ?e] t1 by (simp add: t' add_entry_def)
  next
    case (Some ie)
    obtain i q where ie: "ie = (i, q)" by fastforce
    note q = prior_entry_Some [OF Some [unfolded ie]]
    have old: "prior = Some (be_blob_ordinal q)" "be_byte_length q = int (length ?p)"
      "payload_of objects (OBJECT_NAMES ! i) = ?p"
      using c(4) Some ie by (auto simp: encode_prior_def payload_of_def split: if_splits)
    have "OBJECT_NAMES ! i = names ! i" "i < length names" using q len k by auto
    then have seen: "?p \<in> payload_of objects ` set names" using old(3) by (metis image_eqI nth_mem)
    have ord: "0 \<le> be_blob_ordinal q" "be_blob_ordinal q < tb_unique_count t" using inv' q nth_mem by metis+
    have t1: "t1 = t\<lparr>tb_logical_bytes := tb_logical_bytes t + int (length ?p)\<rparr>"
      using c(5) old(1) by (simp add: count_blob_def)
    have "check_entry t k ?e = Inr t'" if "entry_nonzero ?e"
      using that Some ie old(1,2) c(3) t1 p typed
      by (simp add: check_entry_def entry_nonzero_def bundle_digest_def bundle_u64_ok decode_prior_def count_blob_def t')
    moreover have "table_inv tenant objects (names @ [name]) t'"
      using inv' seen c(3) typed old(1) ord p by (auto simp: table_inv_def t' t1 add_entry_def insert_absorb)
    moreover have "entry_fits ?e" using inv' typed p old(1) ord by (auto simp: entry_fits_def is_u64_def)
    ultimately show ?thesis using that [of ?e] t1 by (simp add: t' add_entry_def)
  qed
qed

section \<open>Reading the table back\<close>

definition entry_bytes :: "bundle_entry \<Rightarrow> bytes" where
  "entry_bytes e = u64_bytes (be_kind e) @ u64_bytes (be_abi_version e) @ u64_bytes (be_byte_length e)
     @ u64_bytes (be_blob_ordinal e) @ be_typed_sha256 e @ be_blob_sha256 e"

lemma rd_entry_back:
  assumes "entry_fits e"
  shows "rd_entry (entry_bytes e @ rest) = Inr (e, rest)"
proof -
  let ?vs = "[be_kind e, be_abi_version e, be_byte_length e, be_blob_ordinal e]"
  have "rd_list (rd_u64 BndTruncated) 4 (entry_bytes e @ rest) = Inr (?vs, be_typed_sha256 e @ be_blob_sha256 e @ rest)"
    using assms by (subst u64_field.fields) (simp add: entry_fits_def entry_bytes_def)
  then show ?thesis using assms by (cases e) (simp add: rd_entry_def entry_fits_def rd_digest_def rd_take_def)
qed

definition rd_step :: "bundle_table \<times> bytes \<Rightarrow> nat \<Rightarrow> bundle_error + bundle_table \<times> bytes" where
  "rd_step = (\<lambda>(t, r) expected_kind.
     bindE (rd_entry r) (\<lambda>(e, r). bindE (check_entry t expected_kind e) (\<lambda>t. Inr (t, r))))"

lemma encode_rest:
  assumes "foldE (encode_entry tenant objects) t (enumerate k ns) = Inr t'" "table_inv tenant objects names t"
    and "length names = k" "\<And>j. j < k + length ns \<Longrightarrow> OBJECT_NAMES ! j = (names @ ns) ! j"
  shows "\<exists>es. tb_entries t' = tb_entries t @ es \<and> length es = length ns \<and> table_inv tenant objects (names @ ns) t'
     \<and> (\<forall>e \<in> set es. entry_fits e)
     \<and> ((\<forall>e \<in> set es. entry_nonzero e) \<longrightarrow>
          foldE rd_step (t, concat (map entry_bytes es) @ rest) [k..<k + length ns] = Inr (t', rest))"
  using assms
proof (induction ns arbitrary: k t names)
  case (Cons n ns)
  from Cons.prems(1) obtain u where u: "encode_entry tenant objects t (k, n) = Inr u"
    "foldE (encode_entry tenant objects) u (enumerate (Suc k) ns) = Inr t'"
    by (auto simp: bindE_Inr)
  have names: "OBJECT_NAMES ! j = names ! j" if "j < k" for j
    using Cons.prems(4) [of j] that Cons.prems(3) by (simp add: nth_append)
  obtain e where e: "tb_entries u = tb_entries t @ [e]" "entry_fits e" "be_kind e = int k"
    "table_inv tenant objects (names @ [n]) u" "entry_nonzero e \<longrightarrow> check_entry t k e = Inr u"
    by (rule encode_entry_step [OF u(1) Cons.prems(2,3) names]) blast
  have "length (names @ [n]) = Suc k" using Cons.prems(3) by simp
  moreover have "OBJECT_NAMES ! j = ((names @ [n]) @ ns) ! j" if "j < Suc k + length ns" for j
    using Cons.prems(4) [of j] that by simp
  ultimately obtain es where es: "tb_entries t' = tb_entries u @ es" "length es = length ns"
    "table_inv tenant objects ((names @ [n]) @ ns) t'" "\<forall>e \<in> set es. entry_fits e"
    "(\<forall>e \<in> set es. entry_nonzero e) \<longrightarrow>
       foldE rd_step (u, concat (map entry_bytes es) @ rest) [Suc k..<Suc k + length ns] = Inr (t', rest)"
    using Cons.IH [OF u(2) e(4)] by blast
  have "foldE rd_step (t, concat (map entry_bytes (e # es)) @ rest) [k..<k + length (n # ns)] = Inr (t', rest)"
    if "\<forall>e \<in> set (e # es). entry_nonzero e"
  proof -
    have "[k..<k + length (n # ns)] = k # [Suc k..<Suc k + length ns]" by (simp add: upt_conv_Cons del: upt_Suc)
    moreover have "rd_step (t, concat (map entry_bytes (e # es)) @ rest) k = Inr (u, concat (map entry_bytes es) @ rest)"
      using that e(5) rd_entry_back [OF e(2)] by (simp add: rd_step_def)
    ultimately show ?thesis using that es(5) by simp
  qed
  with es e show ?case by (intro exI [of _ "e # es"]) simp
qed simp

lemma encode_table_reads_back:
  assumes "encode_table tenant objects = Inr t"
  shows "length (tb_entries t) = 9" "table_inv tenant objects OBJECT_NAMES t" "\<forall>e \<in> set (tb_entries t). entry_fits e"
    and "\<forall>e \<in> set (tb_entries t). entry_nonzero e \<Longrightarrow>
      rd_table (concat (map entry_bytes (tb_entries t)) @ rest) = Inr (t, rest)"
proof -
  have "\<exists>es. tb_entries t = tb_entries empty_table @ es \<and> length es = length OBJECT_NAMES
     \<and> table_inv tenant objects ([] @ OBJECT_NAMES) t \<and> (\<forall>e \<in> set es. entry_fits e)
     \<and> ((\<forall>e \<in> set es. entry_nonzero e) \<longrightarrow>
          foldE rd_step (empty_table, concat (map entry_bytes es) @ rest) [0..<0 + length OBJECT_NAMES] = Inr (t, rest))"
    by (rule encode_rest [OF assms [unfolded encode_table_def] table_inv_empty]) simp_all
  then obtain es where es: "tb_entries t = es" "length es = 9" "table_inv tenant objects OBJECT_NAMES t"
    "\<forall>e \<in> set es. entry_fits e" "(\<forall>e \<in> set es. entry_nonzero e) \<longrightarrow>
       foldE rd_step (empty_table, concat (map entry_bytes es) @ rest) [0..<9] = Inr (t, rest)"
    by (auto simp: empty_table_def)
  then show "length (tb_entries t) = 9" "table_inv tenant objects OBJECT_NAMES t" "\<forall>e \<in> set (tb_entries t). entry_fits e"
    "\<forall>e \<in> set (tb_entries t). entry_nonzero e \<Longrightarrow>
      rd_table (concat (map entry_bytes (tb_entries t)) @ rest) = Inr (t, rest)"
    by (simp_all add: rd_table_def rd_step_def)
qed

section \<open>The whole manifest\<close>

definition bundle_prefix :: "bundle_config \<Rightarrow> bytes \<Rightarrow> bundle_table \<Rightarrow> bytes" where
  "bundle_prefix c capsule_blob t =
     BUNDLE_MAGIC @ u64_bytes BUNDLE_WIRE_ABI @ u64_bytes (int BUNDLE_BYTES) @ le_bytes 4 BUNDLE_FLAGS @ le_bytes 4 0
     @ concat (map u64_bytes [int CAPSULE_BYTES, int (length OBJECT_NAMES), tb_logical_bytes t, tb_unique_count t,
         tb_unique_bytes t, bc_bundle_generation c])
     @ concat [bc_tenant_scope_sha256 c, bc_capsule_sha256 c, capsule_blob, bc_challenge_sha256 c,
         bc_parent_bundle_sha256 c]
     @ concat (map entry_bytes (tb_entries t))"

lemma config_valid: "bundle_validate_config c = Inr u \<Longrightarrow> is_u64 (bc_bundle_generation c)
    \<and> length (bc_tenant_scope_sha256 c) = 32 \<and> length (bc_capsule_sha256 c) = 32 \<and> length (bc_challenge_sha256 c) = 32
    \<and> length (bc_parent_bundle_sha256 c) = 32 \<and> bc_capsule_sha256 c \<noteq> ZERO_DIGEST"
  by (auto simp: bundle_validate_config_def result_simps Let_def)

lemma length_entries: "\<forall>e \<in> set es. entry_fits e \<Longrightarrow> length (concat (map entry_bytes es)) = 96 * length es"
  by (induction es) (simp_all add: entry_fits_def entry_bytes_def)

lemma capsule_decode_length: "capsule_decode_manifest w = Inr d \<Longrightarrow> length w = 608"
  by (simp add: capsule_decode_manifest_def split: if_splits)

definition entry_fields :: "bundle_entry \<Rightarrow> bytes list" where
  "entry_fields e = [u64_bytes (be_kind e), u64_bytes (be_abi_version e), u64_bytes (be_byte_length e),
     u64_bytes (be_blob_ordinal e), be_typed_sha256 e, be_blob_sha256 e]"

lemma entries_chunks:
  "\<forall>e \<in> set es. entry_fits e \<Longrightarrow> concat (map entry_parts es) = map Inr (concat (map entry_fields es))"
  "concat (concat (map entry_fields es)) = concat (map entry_bytes es)"
  by (induction es) (simp_all add: entry_parts_def entry_fits_def entry_fields_def entry_bytes_def bundle_u64_ok)

lemma bundle_chunks_ok:
  assumes c: "bundle_validate_config c = Inr ()" and t: "encode_table tenant objects = Inr t" and w: "length w = 608"
  shows "\<exists>parts. mapE (\<lambda>p. p) (bundle_chunks c (int (length w)) blob t) = Inr parts \<and> concat parts = bundle_prefix c blob t"
proof -
  note rb = encode_table_reads_back(2,3) [OF t]
  have u: "is_u64 (tb_logical_bytes t)" "is_u64 (tb_unique_count t)" "is_u64 (tb_unique_bytes t)"
    using rb(1) unfolding table_inv_def by blast+
  let ?parts = "[BUNDLE_MAGIC, u64_bytes BUNDLE_WIRE_ABI, u64_bytes (int BUNDLE_BYTES), le_bytes 4 BUNDLE_FLAGS, le_bytes 4 0]
     @ map u64_bytes [int CAPSULE_BYTES, int (length OBJECT_NAMES), tb_logical_bytes t, tb_unique_count t,
         tb_unique_bytes t, bc_bundle_generation c]
     @ [bc_tenant_scope_sha256 c, bc_capsule_sha256 c, blob, bc_challenge_sha256 c, bc_parent_bundle_sha256 c]
     @ concat (map entry_fields (tb_entries t))"
  have "bundle_chunks c (int (length w)) blob t = map Inr ?parts"
    unfolding bundle_chunks_def entries_chunks(1) [OF rb(2)] using u config_valid [OF c] w
    by (simp add: bundle_u64_def is_u64_def)
  then have "mapE (\<lambda>p. p) (bundle_chunks c (int (length w)) blob t) = Inr ?parts" by (simp only: mapE_map_Inr)
  moreover have "concat ?parts = bundle_prefix c blob t" by (simp add: bundle_prefix_def entries_chunks(2))
  ultimately show ?thesis by blast
qed

lemma length_bundle_prefix:
  assumes c: "bundle_validate_config c = Inr ()" and t: "encode_table tenant objects = Inr t" and "length blob = 32"
  shows "length (bundle_prefix c blob t) = 1104"
  using config_valid [OF c] encode_table_reads_back(1,3) [OF t] length_entries [of "tb_entries t"] assms(3)
  by (simp add: bundle_prefix_def)

text \<open>When the encoder returns, and what it returns.\<close>

lemma bundle_encode_iff:
  "bundle_encode c w objects = Inr bs \<longleftrightarrow> bundle_validate_config c = Inr ()
     \<and> (\<exists>cap t. capsule_decode_manifest w = Inr cap \<and> cm_envelope_sha256 cap = bc_capsule_sha256 c
        \<and> capsule_decode_and_verify w (cm_config cap) objects = Inr cap
        \<and> encode_table (bc_tenant_scope_sha256 c) objects = Inr t
        \<and> bs = bundle_prefix c (blob_sha (bc_tenant_scope_sha256 c) w) t
            @ sha_parts BUNDLE_ENVELOPE_DOMAIN [bundle_prefix c (blob_sha (bc_tenant_scope_sha256 c) w) t])"
    (is "?l \<longleftrightarrow> ?r")
proof
  let ?blob = "blob_sha (bc_tenant_scope_sha256 c) w"
  { assume ?l
    then obtain cap d t parts where c: "bundle_validate_config c = Inr ()" "capsule_decode_manifest w = Inr cap"
      "cm_envelope_sha256 cap = bc_capsule_sha256 c" "capsule_decode_and_verify w (cm_config cap) objects = Inr d"
      "encode_table (bc_tenant_scope_sha256 c) objects = Inr t"
      and parts: "mapE (\<lambda>p. p) (bundle_chunks c (int (length w)) ?blob t) = Inr parts"
      and bs: "bs = concat parts @ sha_parts BUNDLE_ENVELOPE_DOMAIN [concat parts]"
      by (auto simp: bundle_encode_def result_simps Let_def)
    have "d = cap" using c(2,4) by (auto simp: capsule_decode_and_verify_def result_simps)
    moreover have "concat parts = bundle_prefix c ?blob t"
      using bundle_chunks_ok [OF c(1,5) capsule_decode_length [OF c(2)], of ?blob] parts by auto
    ultimately show ?r using c bs by auto }
  { assume ?r
    then obtain cap t where c: "bundle_validate_config c = Inr ()" "capsule_decode_manifest w = Inr cap"
      "cm_envelope_sha256 cap = bc_capsule_sha256 c" "capsule_decode_and_verify w (cm_config cap) objects = Inr cap"
      "encode_table (bc_tenant_scope_sha256 c) objects = Inr t"
      and bs: "bs = bundle_prefix c ?blob t @ sha_parts BUNDLE_ENVELOPE_DOMAIN [bundle_prefix c ?blob t]"
      by blast
    note w = capsule_decode_length [OF c(2)]
    obtain parts where "mapE (\<lambda>p. p) (bundle_chunks c (int (length w)) ?blob t) = Inr parts"
      "concat parts = bundle_prefix c ?blob t"
      using bundle_chunks_ok [OF c(1,5) w, of ?blob] by blast
    moreover have "blob_ref (bc_tenant_scope_sha256 c) w = Inr \<lparr>br_byte_length = int (length w), br_sha256 = ?blob\<rparr>"
      using c(1) w by (auto simp: blob_ref_Inr bundle_validate_config_def result_simps Let_def is_u64_def)
    ultimately show ?l
      using c bs length_bundle_prefix [OF c(1,5), of ?blob] by (simp add: bundle_encode_def or_raise_def Let_def) }
qed

section \<open>The round trip\<close>

definition bundle_digests_nonzero :: "bundle_config \<Rightarrow> bytes \<Rightarrow> objects \<Rightarrow> bool" where
  "bundle_digests_nonzero c w objects \<longleftrightarrow> blob_sha (bc_tenant_scope_sha256 c) w \<noteq> ZERO_DIGEST
     \<and> (case encode_table (bc_tenant_scope_sha256 c) objects of Inl _ \<Rightarrow> True
        | Inr t \<Rightarrow> \<forall>e \<in> set (tb_entries t). entry_nonzero e)"

definition manifest_of :: "bundle_config \<Rightarrow> bytes \<Rightarrow> bundle_table \<Rightarrow> bundle_manifest" where
  "manifest_of c blob t =
     \<lparr>bm_config = c, bm_capsule_wire_length = int CAPSULE_BYTES, bm_capsule_blob_sha256 = blob,
      bm_logical_payload_bytes = tb_logical_bytes t, bm_unique_blob_count = tb_unique_count t,
      bm_unique_blob_bytes = tb_unique_bytes t,
      bm_deduplicated_payload_bytes = tb_logical_bytes t - tb_unique_bytes t, bm_entries = tb_entries t,
      bm_envelope_sha256 = sha_parts BUNDLE_ENVELOPE_DOMAIN [bundle_prefix c blob t]\<rparr>"

lemma distinct_object_names: "distinct OBJECT_NAMES"
  by (simp add: OBJECT_NAMES_def)

lemma table_totals:
  assumes "table_inv tenant objects OBJECT_NAMES t"
  shows "0 < tb_unique_count t" "tb_unique_count t \<le> 9" "0 < tb_unique_bytes t" "tb_unique_bytes t \<le> tb_logical_bytes t"
proof -
  let ?p = "payload_of objects"
  note inv = assms [unfolded table_inv_def]
  have card: "card (?p ` set OBJECT_NAMES) \<le> 9"
    using card_image_le [of "set OBJECT_NAMES" ?p] distinct_card [OF distinct_object_names] by simp
  have ne: "set OBJECT_NAMES \<noteq> {}" by (simp add: OBJECT_NAMES_def)
  then have "0 < card (?p ` set OBJECT_NAMES)" by (simp add: card_gt_0_iff)
  with card show "0 < tb_unique_count t" "tb_unique_count t \<le> 9" using inv by linarith+
  have "0 < (\<Sum>p \<in> ?p ` set OBJECT_NAMES. int (length p))"
    by (rule sum_pos) (use inv ne in auto)
  then show "0 < tb_unique_bytes t" using inv by argo
  have "(\<Sum>p \<in> ?p ` set OBJECT_NAMES. int (length p)) \<le> (\<Sum>n \<in> set OBJECT_NAMES. int (length (?p n)))"
    by (rule sum_image_le [unfolded o_def]) simp_all
  also have "\<dots> = sum_list (map (int o length o ?p) OBJECT_NAMES)"
    by (simp add: sum_list_distinct_conv_sum_set [OF distinct_object_names] o_def)
  finally show "tb_unique_bytes t \<le> tb_logical_bytes t" using inv by argo
qed

lemma bundle_header_back:
  "rd_bundle_header (BUNDLE_MAGIC @ u64_bytes BUNDLE_WIRE_ABI @ u64_bytes (int BUNDLE_BYTES) @ le_bytes 4 BUNDLE_FLAGS
     @ le_bytes 4 0 @ rest) = Inr ((), rest)"
  by (auto simp: rd_bundle_header_def bindE_Inr rd_take_Inr rd_u64_Inr rd_u32_Inr is_u64_def if_Inl_Inr)

lemma manifest_reads_back:
  assumes c: "bundle_validate_config c = Inr ()" and t: "encode_table tenant objects = Inr t"
    and nonzero: "length blob = 32" "blob \<noteq> ZERO_DIGEST" "\<forall>e \<in> set (tb_entries t). entry_nonzero e"
    and n: "length (bundle_prefix c blob t) = 1104"
  shows "bundle_decode_manifest (bundle_prefix c blob t @ sha_parts BUNDLE_ENVELOPE_DOMAIN [bundle_prefix c blob t])
    = Inr (manifest_of c blob t)"
proof -
  let ?e = "sha_parts BUNDLE_ENVELOPE_DOMAIN [bundle_prefix c blob t]"
  let ?vs = "[int CAPSULE_BYTES, int (length OBJECT_NAMES), tb_logical_bytes t, tb_unique_count t,
         tb_unique_bytes t, bc_bundle_generation c]"
  let ?ds = "[bc_tenant_scope_sha256 c, bc_capsule_sha256 c, blob, bc_challenge_sha256 c, bc_parent_bundle_sha256 c]"
  note rb = encode_table_reads_back [OF t]
  define r2 where "r2 = concat (map entry_bytes (tb_entries t)) @ ?e"
  define r1 where "r1 = concat ?ds @ r2"
  define r0 where "r0 = concat (map u64_bytes ?vs) @ r1"
  have u: "is_u64 (tb_logical_bytes t)" "is_u64 (tb_unique_count t)" "is_u64 (tb_unique_bytes t)"
    using rb(2) unfolding table_inv_def by blast+
  have h: "rd_bundle_header (bundle_prefix c blob t @ ?e) = Inr ((), r0)"
    using bundle_header_back [of r0] by (simp add: bundle_prefix_def r0_def r1_def r2_def)
  have vs: "rd_list (rd_u64 BndTruncated) 6 r0 = Inr (?vs, r1)"
    unfolding u64_field.fields using u config_valid [OF c] by (simp add: r0_def is_u64_def)
  have ds: "rd_list (rd_digest BndTruncated) 5 r1 = Inr (?ds, r2)"
    unfolding digest_field.fields using config_valid [OF c] nonzero by (simp add: r1_def)
  have tab: "rd_table r2 = Inr (t, ?e)" unfolding r2_def by (rule rb(4) [OF nonzero(3)])
  have d: "rd_digest BndTruncated ?e = Inr (?e, [])" by (simp add: rd_digest_Inr)
  have cfg: "\<lparr>bc_tenant_scope_sha256 = bc_tenant_scope_sha256 c, bc_capsule_sha256 = bc_capsule_sha256 c,
       bc_bundle_generation = bc_bundle_generation c, bc_challenge_sha256 = bc_challenge_sha256 c,
       bc_parent_bundle_sha256 = bc_parent_bundle_sha256 c\<rparr> = c" by simp
  have len: "length (bundle_prefix c blob t @ ?e) = 1136" using n by simp
  have tk: "take (length (bundle_prefix c blob t @ ?e) - 32) (bundle_prefix c blob t @ ?e) = bundle_prefix c blob t"
    using n by simp
  show ?thesis
    unfolding bundle_decode_manifest_def h bindE_simps prod.case vs ds Let_def tk
    using len c tab d nonzero(1,2) table_totals [OF rb(2)]
    by (simp add: cfg bundle_digest_def manifest_of_def)
qed

lemma bundle_reads_back:
  assumes m: "bundle_encode c w objects = Inr bs" and nonzero: "bundle_digests_nonzero c w objects"
    and t: "encode_table (bc_tenant_scope_sha256 c) objects = Inr t"
  shows "bundle_decode_and_verify bs c w objects = Inr (manifest_of c (blob_sha (bc_tenant_scope_sha256 c) w) t)"
proof -
  let ?blob = "blob_sha (bc_tenant_scope_sha256 c) w"
  from m obtain cap t' where c: "bundle_validate_config c = Inr ()" "capsule_decode_manifest w = Inr cap"
    "cm_envelope_sha256 cap = bc_capsule_sha256 c" "capsule_decode_and_verify w (cm_config cap) objects = Inr cap"
    "encode_table (bc_tenant_scope_sha256 c) objects = Inr t'"
    "bs = bundle_prefix c ?blob t' @ sha_parts BUNDLE_ENVELOPE_DOMAIN [bundle_prefix c ?blob t']"
    by (auto simp: bundle_encode_iff)
  with t have "t' = t" by simp
  have "bundle_decode_manifest bs = Inr (manifest_of c ?blob t)"
    unfolding c(6) \<open>t' = t\<close>
    by (rule manifest_reads_back [OF c(1) t]) (use nonzero t length_bundle_prefix [OF c(1) t] in \<open>simp_all add: bundle_digests_nonzero_def\<close>)
  moreover have "blob_ref (bc_tenant_scope_sha256 c) w = Inr \<lparr>br_byte_length = 608, br_sha256 = ?blob\<rparr>"
    using c(1) capsule_decode_length [OF c(2)]
    by (auto simp: blob_ref_Inr bundle_validate_config_def result_simps Let_def is_u64_def)
  ultimately show ?thesis using c m
    by (simp add: bundle_decode_and_verify_def manifest_of_def or_raise_def)
qed

end
