(* ===== verification/Store_Demo.thy ===== *)
theory Store_Demo
  imports Sha256_Eval Store_Run Bundle_Facts
begin

text \<open>
  The demonstration of the three modules: \<open>build_demo\<close> of \<open>bench/continuation_bundle.py\<close> and of
  \<open>bench/continuation_object_store.py\<close>, and the import of its bundle into a new store. The digests of
  the demonstration are written out as literals and proved to be what the operations compute; the roots
  of the bundle, of the grant and of the snapshot are those the tests of the repository expect.
\<close>

section \<open>The demonstration\<close>

definition filled :: "byte \<Rightarrow> bytes" where
  "filled b = replicate 32 b"

definition demo_capsule_config :: capsule_config where
  "demo_capsule_config =
     \<lparr>cc_execution_abi = 0x4341455800000001, cc_request_epoch = 0x4341525100000001,
      cc_publication_sequence = 5, cc_checkpoint_generation = 0, cc_kv_tokens = 37, cc_output_tokens = 5,
      cc_challenge_sha256 = filled 0xA8, cc_parent_capsule_sha256 = ZERO_DIGEST\<rparr>"

definition demo_objects :: objects where
  "demo_objects =
    [(''model'', 0x43414D4F00000001, ascii ''shared-static-identity-v1''),
     (''tokenizer'', 0x4341544B00000001, ascii ''shared-static-identity-v1''),
     (''execution_plan'', 0x4341504C00000001, ascii ''plan-v1:cpu:threads=4:strict''),
     (''resource_state'', 0x4341525300000001, ascii ''resource-v1:bank=17:kv=4096:output=64''),
     (''lane_state'', 0x43414C4E00000001, ascii ''lane-v1:request=41:service=11''),
     (''kv_state'', 0x43414B5600000001, ascii ''kv-v1:positions=37:root=bundle''),
     (''sampler_state'', 0x4341534D00000001, ascii ''sampler-v1:rng=01020304:calls=5''),
     (''output_state'', 0x43414F5500000001, ascii ''output-v1:tokens=901,902,903,904,905''),
     (''publication_receipt'', 0x4341505200000001, ascii ''publication-v1:sequence=5:commit=bundle'')]"

definition demo_bundle_config :: "bytes \<Rightarrow> bundle_config" where
  "demo_bundle_config capsule_sha256 =
     \<lparr>bc_tenant_scope_sha256 = filled 0x6D, bc_capsule_sha256 = capsule_sha256, bc_bundle_generation = 0,
      bc_challenge_sha256 = filled 0xE3, bc_parent_bundle_sha256 = ZERO_DIGEST\<rparr>"

record bundle_demo =
  bd_capsule_config :: capsule_config
  bd_objects :: objects
  bd_capsule_wire :: bytes
  bd_bundle_config :: bundle_config
  bd_encoded :: bytes

definition last32 :: "bytes \<Rightarrow> bytes" where
  "last32 bs = drop (length bs - 32) bs"

definition build_bundle_demo :: "bundle_error + bundle_demo" where
  "build_bundle_demo =
     bindE (lift_capsule (capsule_encode demo_capsule_config demo_objects)) (\<lambda>capsule_wire.
       let c = demo_bundle_config (last32 capsule_wire) in
       bindE (bundle_encode c capsule_wire demo_objects) (\<lambda>encoded.
         Inr \<lparr>bd_capsule_config = demo_capsule_config, bd_objects = demo_objects, bd_capsule_wire = capsule_wire,
              bd_bundle_config = c, bd_encoded = encoded\<rparr>))"

definition demo_grant :: "bytes \<Rightarrow> store_grant" where
  "demo_grant bundle_sha256 =
     \<lparr>sg_authority_epoch = 11, sg_tenant_scope_sha256 = filled 0x6D, sg_bundle_sha256 = bundle_sha256,
      sg_allowed_operation_mask = ALLOWED_OPERATIONS, sg_max_entries = 12, sg_max_object_bytes = 64,
      sg_max_payload_bytes = 512, sg_max_index_bytes = 12 * LOGICAL_INDEX_ENTRY_BYTES, sg_max_references = 16,
      sg_challenge_sha256 = filled 0xF2\<rparr>"

definition build_store_demo :: "bundle_error + bundle_demo \<times> store_grant" where
  "build_store_demo = bindE build_bundle_demo (\<lambda>demo. Inr (demo, demo_grant (last32 (bd_encoded demo))))"

text \<open>
  \<open>store\<close> and \<open>import_bundle\<close> of the test: a new store with the default capacity, and the import of the
  demonstration bundle into it.
\<close>

definition demo_store :: "store_grant \<Rightarrow> int option \<Rightarrow> store_error + store" where
  "demo_store g fail_after = new_store g (sg_authority_epoch g) 16 fail_after"

definition demo_import :: "bundle_demo \<Rightarrow> (import_receipt, store) op" where
  "demo_import d = import_bundle (bd_encoded d) (bd_bundle_config d) (bd_capsule_wire d) (bd_objects d)"

section \<open>Digests\<close>

definition dg_typed0 :: bytes where
  "dg_typed0 =
    [0xe6, 0x15, 0xf5, 0xc3, 0x5d, 0xa0, 0xac, 0x05, 0xb5, 0xf1, 0x95, 0x9d, 0xd1, 0xdb, 0xae,
     0x32, 0x7b, 0xe3, 0x14, 0xf2, 0x18, 0xee, 0xf7, 0x00, 0x12, 0x29, 0x7a, 0xad, 0x3a, 0x67,
     0x32, 0x1f]"

definition dg_typed1 :: bytes where
  "dg_typed1 =
    [0x39, 0x5f, 0xd1, 0x09, 0x04, 0x09, 0xb6, 0xcd, 0xa6, 0xbe, 0x8b, 0x24, 0x74, 0x11, 0xb9,
     0xd6, 0x5f, 0x40, 0xa7, 0x4f, 0x12, 0x0e, 0x6b, 0x18, 0xee, 0xc3, 0x99, 0xb5, 0x12, 0x59,
     0x9c, 0xbe]"

definition dg_typed2 :: bytes where
  "dg_typed2 =
    [0x83, 0x2d, 0xc9, 0xa5, 0xe2, 0x12, 0xd9, 0x35, 0xd0, 0xca, 0x61, 0xf8, 0x1c, 0x88, 0xd3,
     0x96, 0xc9, 0x38, 0xae, 0xa8, 0x30, 0x3d, 0xf3, 0x07, 0xbb, 0x57, 0x2a, 0x42, 0x90, 0xfd,
     0x82, 0x95]"

definition dg_typed3 :: bytes where
  "dg_typed3 =
    [0x42, 0x48, 0x38, 0xf6, 0xeb, 0x0d, 0xd0, 0x64, 0xc9, 0x38, 0x29, 0xd2, 0x24, 0x34, 0xad,
     0x97, 0xba, 0x0d, 0x64, 0x7a, 0x11, 0x6f, 0x91, 0x3c, 0x98, 0xe5, 0x58, 0x2a, 0x6a, 0x31,
     0xb7, 0xf5]"

definition dg_typed4 :: bytes where
  "dg_typed4 =
    [0x3a, 0x60, 0x98, 0xf7, 0x1d, 0x90, 0x2e, 0x45, 0xee, 0x9d, 0x9d, 0x29, 0x1e, 0x4e, 0x30,
     0x5f, 0x0e, 0x38, 0x57, 0xb5, 0xad, 0x41, 0x40, 0x61, 0x72, 0x1f, 0xef, 0xd3, 0xd3, 0xcf,
     0x28, 0x42]"

definition dg_typed5 :: bytes where
  "dg_typed5 =
    [0x21, 0x4c, 0xb3, 0x7c, 0xd9, 0x6e, 0x52, 0x5f, 0xbe, 0x02, 0x1e, 0x86, 0x52, 0x7a, 0xec,
     0x4b, 0x6f, 0x57, 0x44, 0xe6, 0xf9, 0x84, 0x03, 0x6f, 0xfe, 0x35, 0x70, 0x48, 0x57, 0x5d,
     0xda, 0x4b]"

definition dg_typed6 :: bytes where
  "dg_typed6 =
    [0xc2, 0xbc, 0x5c, 0x95, 0xad, 0xed, 0xf2, 0xd9, 0x3b, 0xcd, 0x57, 0x43, 0x80, 0x17, 0x64,
     0x80, 0x1a, 0xdb, 0xd1, 0xd5, 0xc8, 0xc5, 0xe1, 0x3f, 0xa9, 0x6e, 0x1d, 0x40, 0x10, 0xe1,
     0x32, 0x3c]"

definition dg_typed7 :: bytes where
  "dg_typed7 =
    [0xd8, 0xbe, 0xe0, 0xa3, 0xf1, 0xb9, 0x4c, 0xd7, 0x6e, 0xa7, 0xa1, 0x07, 0x4a, 0xf6, 0x2e,
     0x1a, 0xaf, 0x76, 0xad, 0x41, 0x26, 0xfa, 0xbd, 0x5c, 0x6b, 0x52, 0xe8, 0xba, 0x2b, 0x16,
     0x74, 0x52]"

definition dg_typed8 :: bytes where
  "dg_typed8 =
    [0x37, 0x61, 0x31, 0x91, 0xb5, 0xda, 0x0f, 0x85, 0xe7, 0x3e, 0x5a, 0x7c, 0x61, 0x3f, 0xce,
     0xa0, 0x55, 0xcf, 0x73, 0x65, 0x7b, 0x87, 0x34, 0x6c, 0xae, 0x46, 0xb6, 0x4c, 0xbb, 0x92,
     0xb4, 0xbe]"

definition dg_capsule :: bytes where
  "dg_capsule =
    [0xbe, 0x6d, 0xb5, 0x04, 0x17, 0x38, 0xc5, 0xda, 0x57, 0xfd, 0xfe, 0xb4, 0x8a, 0x19, 0x5b,
     0x15, 0x07, 0x06, 0xbb, 0x36, 0xf0, 0x37, 0x61, 0x16, 0xf5, 0xbb, 0xe8, 0xa5, 0x4d, 0x27,
     0x0f, 0x92]"

definition dg_blob0 :: bytes where
  "dg_blob0 =
    [0x83, 0xda, 0xb6, 0x88, 0x4e, 0x59, 0x68, 0x42, 0xb7, 0x2a, 0x48, 0xb7, 0x57, 0x5c, 0xb8,
     0xc9, 0x58, 0x20, 0xd5, 0x12, 0x8f, 0xd0, 0x1c, 0xd7, 0xc1, 0x7c, 0xc4, 0x66, 0x41, 0x9e,
     0xa2, 0x3f]"

definition dg_blob2 :: bytes where
  "dg_blob2 =
    [0x77, 0x0e, 0x19, 0xea, 0xaa, 0x57, 0x4d, 0x53, 0x95, 0xb0, 0xf1, 0xb9, 0x7c, 0x25, 0xc1,
     0xc6, 0x39, 0x6d, 0x81, 0xcd, 0x98, 0x0e, 0x60, 0x7d, 0x33, 0x67, 0x1c, 0xaa, 0x61, 0xd9,
     0x61, 0x79]"

definition dg_blob3 :: bytes where
  "dg_blob3 =
    [0x2f, 0x50, 0x0d, 0x1f, 0x9c, 0x68, 0xff, 0x7e, 0x46, 0x9e, 0x5f, 0xc8, 0x04, 0x7b, 0x0c,
     0xc3, 0x0b, 0x5f, 0x19, 0x02, 0xc3, 0x26, 0x34, 0x66, 0xf9, 0xd3, 0x40, 0xca, 0x51, 0xac,
     0x97, 0x4c]"

definition dg_blob4 :: bytes where
  "dg_blob4 =
    [0x3c, 0x31, 0x6c, 0x79, 0x77, 0x10, 0x3e, 0x21, 0x46, 0x4a, 0x26, 0x62, 0x6c, 0x95, 0x1f,
     0xeb, 0x1f, 0x4d, 0xb4, 0x0f, 0xcc, 0x9f, 0xb1, 0x70, 0xb4, 0x7b, 0x05, 0xa6, 0xa5, 0x19,
     0xf6, 0x75]"

definition dg_blob5 :: bytes where
  "dg_blob5 =
    [0x61, 0x25, 0x33, 0xdc, 0x74, 0x31, 0xbe, 0x4d, 0x8c, 0xdd, 0xe5, 0x66, 0xc7, 0x8e, 0x63,
     0x0d, 0x20, 0x58, 0xb0, 0x0c, 0xc8, 0x16, 0xe1, 0xc5, 0x5d, 0xdb, 0x3a, 0xf6, 0x18, 0xaa,
     0x8b, 0x30]"

definition dg_blob6 :: bytes where
  "dg_blob6 =
    [0x11, 0x33, 0x5b, 0x3c, 0xca, 0x4d, 0x3a, 0xe7, 0xbe, 0x43, 0x2f, 0xcb, 0xd1, 0xf2, 0xc5,
     0xb9, 0xcf, 0xed, 0x6f, 0x24, 0x80, 0xd4, 0x20, 0xf8, 0x6a, 0x44, 0xfc, 0xee, 0x33, 0xef,
     0x1e, 0xbd]"

definition dg_blob7 :: bytes where
  "dg_blob7 =
    [0x56, 0xe6, 0xb7, 0x01, 0x83, 0xc7, 0x89, 0x60, 0xa6, 0x93, 0xc2, 0x1e, 0x12, 0x72, 0xfe,
     0x4b, 0xbe, 0x09, 0xdc, 0x26, 0xc5, 0x0b, 0x71, 0x7d, 0x3a, 0x77, 0xc0, 0x46, 0x8b, 0xa0,
     0x55, 0xb3]"

definition dg_blob8 :: bytes where
  "dg_blob8 =
    [0x43, 0x96, 0x35, 0xaf, 0x92, 0x1b, 0xfb, 0x0f, 0x84, 0x83, 0xf2, 0x8b, 0x6f, 0xe2, 0xdd,
     0x8b, 0x42, 0x47, 0xbf, 0x02, 0xf2, 0xa9, 0x65, 0xaa, 0x56, 0x2e, 0x0b, 0xcd, 0x6f, 0x12,
     0x96, 0xbb]"

definition dg_capsule_blob :: bytes where
  "dg_capsule_blob =
    [0x35, 0x8b, 0x91, 0xf6, 0x65, 0x08, 0x2f, 0x08, 0xe1, 0x90, 0xfb, 0xef, 0x1d, 0x9b, 0x83,
     0x8f, 0xe7, 0xa2, 0x9e, 0xe5, 0x2c, 0x55, 0xc1, 0x83, 0x3c, 0x63, 0x43, 0x36, 0x93, 0x6a,
     0xe9, 0xb4]"

definition dg_bundle :: bytes where
  "dg_bundle =
    [0x39, 0x0c, 0x29, 0xd5, 0x8b, 0x4c, 0xf9, 0x79, 0xf4, 0x46, 0x06, 0xf6, 0x11, 0xf1, 0x0b,
     0x81, 0x13, 0x51, 0xd8, 0x5c, 0xdb, 0xe1, 0xde, 0xda, 0xee, 0xbe, 0x7b, 0x31, 0xb8, 0x56,
     0x4c, 0xc5]"

definition dg_grant :: bytes where
  "dg_grant =
    [0x1d, 0x7b, 0x76, 0x6c, 0xd0, 0x9f, 0x48, 0x42, 0x1c, 0x86, 0x38, 0x91, 0x67, 0x16, 0x29,
     0x9c, 0xbb, 0xe0, 0xd7, 0x04, 0x6a, 0xa7, 0xc2, 0x4c, 0x54, 0xb5, 0x97, 0x1c, 0x68, 0xd9,
     0x17, 0x71]"

definition dg_snapshot :: bytes where
  "dg_snapshot =
    [0x5e, 0xf5, 0x33, 0xc5, 0xbb, 0xf2, 0xdb, 0x21, 0x68, 0x06, 0x73, 0x6f, 0x6a, 0x12, 0xc5,
     0x95, 0x03, 0xf6, 0x68, 0xb0, 0x2e, 0x3c, 0x12, 0xdb, 0xa8, 0xdc, 0x8b, 0x50, 0x31, 0x21,
     0x86, 0x0f]"

lemmas demo_digests =
  dg_typed0_def dg_typed1_def dg_typed2_def dg_typed3_def dg_typed4_def dg_typed5_def
   dg_typed6_def dg_typed7_def dg_typed8_def dg_capsule_def dg_blob0_def dg_blob2_def
   dg_blob3_def dg_blob4_def dg_blob5_def dg_blob6_def dg_blob7_def dg_blob8_def
   dg_capsule_blob_def dg_bundle_def dg_grant_def dg_snapshot_def

lemma demo_digest_lengths [simp]:
  "length dg_typed0 = 32"
  "length dg_typed1 = 32"
  "length dg_typed2 = 32"
  "length dg_typed3 = 32"
  "length dg_typed4 = 32"
  "length dg_typed5 = 32"
  "length dg_typed6 = 32"
  "length dg_typed7 = 32"
  "length dg_typed8 = 32"
  "length dg_capsule = 32"
  "length dg_blob0 = 32"
  "length dg_blob2 = 32"
  "length dg_blob3 = 32"
  "length dg_blob4 = 32"
  "length dg_blob5 = 32"
  "length dg_blob6 = 32"
  "length dg_blob7 = 32"
  "length dg_blob8 = 32"
  "length dg_capsule_blob = 32"
  "length dg_bundle = 32"
  "length dg_grant = 32"
  "length dg_snapshot = 32"
  by (simp_all add: demo_digests)

lemma zero_list: "ZERO_DIGEST = [0, 0, 0, 0, 0, 0, 0, 0, 0, 0, 0, 0, 0, 0, 0, 0, 0, 0, 0, 0, 0, 0, 0, 0, 0, 0, 0, 0, 0, 0, 0, 0]"
  by (simp add: zeros_def numeral_eq_Suc)

lemma demo_digests_not_zero [simp]:
  "dg_typed0 \<noteq> ZERO_DIGEST"
  "dg_typed1 \<noteq> ZERO_DIGEST"
  "dg_typed2 \<noteq> ZERO_DIGEST"
  "dg_typed3 \<noteq> ZERO_DIGEST"
  "dg_typed4 \<noteq> ZERO_DIGEST"
  "dg_typed5 \<noteq> ZERO_DIGEST"
  "dg_typed6 \<noteq> ZERO_DIGEST"
  "dg_typed7 \<noteq> ZERO_DIGEST"
  "dg_typed8 \<noteq> ZERO_DIGEST"
  "dg_capsule \<noteq> ZERO_DIGEST"
  "dg_blob0 \<noteq> ZERO_DIGEST"
  "dg_blob2 \<noteq> ZERO_DIGEST"
  "dg_blob3 \<noteq> ZERO_DIGEST"
  "dg_blob4 \<noteq> ZERO_DIGEST"
  "dg_blob5 \<noteq> ZERO_DIGEST"
  "dg_blob6 \<noteq> ZERO_DIGEST"
  "dg_blob7 \<noteq> ZERO_DIGEST"
  "dg_blob8 \<noteq> ZERO_DIGEST"
  "dg_capsule_blob \<noteq> ZERO_DIGEST"
  "dg_bundle \<noteq> ZERO_DIGEST"
  "dg_grant \<noteq> ZERO_DIGEST"
  "dg_snapshot \<noteq> ZERO_DIGEST"
  by (simp_all add: demo_digests zero_list)

lemma demo_blobs_distinct [simp]:
  "dg_blob0 \<noteq> dg_blob2"
  "dg_blob0 \<noteq> dg_blob3"
  "dg_blob0 \<noteq> dg_blob4"
  "dg_blob0 \<noteq> dg_blob5"
  "dg_blob0 \<noteq> dg_blob6"
  "dg_blob0 \<noteq> dg_blob7"
  "dg_blob0 \<noteq> dg_blob8"
  "dg_blob2 \<noteq> dg_blob0"
  "dg_blob2 \<noteq> dg_blob3"
  "dg_blob2 \<noteq> dg_blob4"
  "dg_blob2 \<noteq> dg_blob5"
  "dg_blob2 \<noteq> dg_blob6"
  "dg_blob2 \<noteq> dg_blob7"
  "dg_blob2 \<noteq> dg_blob8"
  "dg_blob3 \<noteq> dg_blob0"
  "dg_blob3 \<noteq> dg_blob2"
  "dg_blob3 \<noteq> dg_blob4"
  "dg_blob3 \<noteq> dg_blob5"
  "dg_blob3 \<noteq> dg_blob6"
  "dg_blob3 \<noteq> dg_blob7"
  "dg_blob3 \<noteq> dg_blob8"
  "dg_blob4 \<noteq> dg_blob0"
  "dg_blob4 \<noteq> dg_blob2"
  "dg_blob4 \<noteq> dg_blob3"
  "dg_blob4 \<noteq> dg_blob5"
  "dg_blob4 \<noteq> dg_blob6"
  "dg_blob4 \<noteq> dg_blob7"
  "dg_blob4 \<noteq> dg_blob8"
  "dg_blob5 \<noteq> dg_blob0"
  "dg_blob5 \<noteq> dg_blob2"
  "dg_blob5 \<noteq> dg_blob3"
  "dg_blob5 \<noteq> dg_blob4"
  "dg_blob5 \<noteq> dg_blob6"
  "dg_blob5 \<noteq> dg_blob7"
  "dg_blob5 \<noteq> dg_blob8"
  "dg_blob6 \<noteq> dg_blob0"
  "dg_blob6 \<noteq> dg_blob2"
  "dg_blob6 \<noteq> dg_blob3"
  "dg_blob6 \<noteq> dg_blob4"
  "dg_blob6 \<noteq> dg_blob5"
  "dg_blob6 \<noteq> dg_blob7"
  "dg_blob6 \<noteq> dg_blob8"
  "dg_blob7 \<noteq> dg_blob0"
  "dg_blob7 \<noteq> dg_blob2"
  "dg_blob7 \<noteq> dg_blob3"
  "dg_blob7 \<noteq> dg_blob4"
  "dg_blob7 \<noteq> dg_blob5"
  "dg_blob7 \<noteq> dg_blob6"
  "dg_blob7 \<noteq> dg_blob8"
  "dg_blob8 \<noteq> dg_blob0"
  "dg_blob8 \<noteq> dg_blob2"
  "dg_blob8 \<noteq> dg_blob3"
  "dg_blob8 \<noteq> dg_blob4"
  "dg_blob8 \<noteq> dg_blob5"
  "dg_blob8 \<noteq> dg_blob6"
  "dg_blob8 \<noteq> dg_blob7"
  by (simp_all add: demo_digests)

lemma filled_simps [simp]:
  "length (filled b) = 32" "filled b = ZERO_DIGEST \<longleftrightarrow> b = 0"
  by (simp_all add: filled_def zeros_def)

lemma length_ascii [simp]: "length (ascii s) = length s"
  by (simp add: ascii_def)

lemma ascii_Nil [simp]: "ascii s = [] \<longleftrightarrow> s = []"
  by (simp add: ascii_def)

lemmas store_transcripts = sha_parts_def ascii_def sha_compute u64_bytes_def le_bytes_numeral
  filled_def replicate_numeral_eval zero_list demo_digests

section \<open>The capsule\<close>

lemma typed0 [simp]:
  "sha_parts OBJECT_DOMAIN [u64_bytes 0, u64_bytes 0x43414D4F00000001, u64_bytes 25, ascii ''shared-static-identity-v1''] = dg_typed0"
  by (simp add: OBJECT_DOMAIN_def store_transcripts)

lemma typed1 [simp]:
  "sha_parts OBJECT_DOMAIN [u64_bytes 1, u64_bytes 0x4341544B00000001, u64_bytes 25, ascii ''shared-static-identity-v1''] = dg_typed1"
  by (simp add: OBJECT_DOMAIN_def store_transcripts)

lemma typed2 [simp]:
  "sha_parts OBJECT_DOMAIN [u64_bytes 2, u64_bytes 0x4341504C00000001, u64_bytes 28, ascii ''plan-v1:cpu:threads=4:strict''] = dg_typed2"
  by (simp add: OBJECT_DOMAIN_def store_transcripts)

lemma typed3 [simp]:
  "sha_parts OBJECT_DOMAIN [u64_bytes 3, u64_bytes 0x4341525300000001, u64_bytes 37, ascii ''resource-v1:bank=17:kv=4096:output=64''] = dg_typed3"
  by (simp add: OBJECT_DOMAIN_def store_transcripts)

lemma typed4 [simp]:
  "sha_parts OBJECT_DOMAIN [u64_bytes 4, u64_bytes 0x43414C4E00000001, u64_bytes 29, ascii ''lane-v1:request=41:service=11''] = dg_typed4"
  by (simp add: OBJECT_DOMAIN_def store_transcripts)

lemma typed5 [simp]:
  "sha_parts OBJECT_DOMAIN [u64_bytes 5, u64_bytes 0x43414B5600000001, u64_bytes 30, ascii ''kv-v1:positions=37:root=bundle''] = dg_typed5"
  by (simp add: OBJECT_DOMAIN_def store_transcripts)

lemma typed6 [simp]:
  "sha_parts OBJECT_DOMAIN [u64_bytes 6, u64_bytes 0x4341534D00000001, u64_bytes 31, ascii ''sampler-v1:rng=01020304:calls=5''] = dg_typed6"
  by (simp add: OBJECT_DOMAIN_def store_transcripts)

lemma typed7 [simp]:
  "sha_parts OBJECT_DOMAIN [u64_bytes 7, u64_bytes 0x43414F5500000001, u64_bytes 36, ascii ''output-v1:tokens=901,902,903,904,905''] = dg_typed7"
  by (simp add: OBJECT_DOMAIN_def store_transcripts)

lemma typed8 [simp]:
  "sha_parts OBJECT_DOMAIN [u64_bytes 8, u64_bytes 0x4341505200000001, u64_bytes 39, ascii ''publication-v1:sequence=5:commit=bundle''] = dg_typed8"
  by (simp add: OBJECT_DOMAIN_def store_transcripts)

definition demo_refs :: "object_ref list" where
  "demo_refs = [
     \<lparr>or_abi_version = 0x43414D4F00000001, or_byte_length = 25, or_sha256 = dg_typed0\<rparr>,
     \<lparr>or_abi_version = 0x4341544B00000001, or_byte_length = 25, or_sha256 = dg_typed1\<rparr>,
     \<lparr>or_abi_version = 0x4341504C00000001, or_byte_length = 28, or_sha256 = dg_typed2\<rparr>,
     \<lparr>or_abi_version = 0x4341525300000001, or_byte_length = 37, or_sha256 = dg_typed3\<rparr>,
     \<lparr>or_abi_version = 0x43414C4E00000001, or_byte_length = 29, or_sha256 = dg_typed4\<rparr>,
     \<lparr>or_abi_version = 0x43414B5600000001, or_byte_length = 30, or_sha256 = dg_typed5\<rparr>,
     \<lparr>or_abi_version = 0x4341534D00000001, or_byte_length = 31, or_sha256 = dg_typed6\<rparr>,
     \<lparr>or_abi_version = 0x43414F5500000001, or_byte_length = 36, or_sha256 = dg_typed7\<rparr>,
     \<lparr>or_abi_version = 0x4341505200000001, or_byte_length = 39, or_sha256 = dg_typed8\<rparr>]"

lemma demo_refs_made: "object_refs demo_objects = Inr demo_refs"
  by (simp add: object_refs_def OBJECT_NAMES_def demo_objects_def make_object_ref_def capsule_u64_def demo_refs_def)

lemma demo_capsule_root [simp]:
  "sha_parts CAPSULE_ENVELOPE_DOMAIN [capsule_prefix demo_capsule_config demo_refs] = dg_capsule"
  by (simp add: capsule_prefix_def config_bytes_def capsule_scalars_def demo_capsule_config_def demo_refs_def ref_bytes_def
      CAPSULE_ENVELOPE_DOMAIN_def CAPSULE_MAGIC_def)
    (simp add: store_transcripts)

definition demo_capsule_wire :: bytes where
  "demo_capsule_wire = capsule_prefix demo_capsule_config demo_refs @ dg_capsule"

lemma demo_capsule_valid: "capsule_validate_config demo_capsule_config = Inr ()"
  by (simp add: capsule_validate_config_def capsule_scalars_def demo_capsule_config_def capsule_u64_def capsule_digest_def)

lemma demo_object_names: "set (map fst demo_objects) = set OBJECT_NAMES"
  by (simp add: demo_objects_def OBJECT_NAMES_def)

lemma demo_capsule_encodes: "capsule_encode demo_capsule_config demo_objects = Inr demo_capsule_wire"
  unfolding capsule_encode_Inr using demo_capsule_valid demo_object_names demo_refs_made
  by (simp add: demo_capsule_wire_def)

definition demo_capsule :: capsule_manifest where
  "demo_capsule = \<lparr>cm_config = demo_capsule_config, cm_refs = demo_refs, cm_envelope_sha256 = dg_capsule\<rparr>"

lemma demo_capsule_verifies:
  "capsule_decode_and_verify demo_capsule_wire demo_capsule_config demo_objects = Inr demo_capsule"
  unfolding capsule_exact using demo_capsule_encodes demo_refs_made
  by (simp add: demo_capsule_def) (simp add: demo_refs_def)

lemma demo_capsule_decodes: "capsule_decode_manifest demo_capsule_wire = Inr demo_capsule"
  using demo_capsule_verifies by (auto simp: capsule_decode_and_verify_def result_simps)

lemma demo_capsule_length: "length demo_capsule_wire = 608"
  using demo_capsule_decodes by (rule capsule_decode_length)

lemma last32_append: "length d = 32 \<Longrightarrow> last32 (bs @ d) = d"
  by (simp add: last32_def)

section \<open>The bundle\<close>

lemma blob0 [simp]:
  "sha_parts BLOB_DOMAIN [filled 0x6D, u64_bytes 25, ascii ''shared-static-identity-v1''] = dg_blob0"
  by (simp add: BLOB_DOMAIN_def store_transcripts)

lemma blob2 [simp]:
  "sha_parts BLOB_DOMAIN [filled 0x6D, u64_bytes 28, ascii ''plan-v1:cpu:threads=4:strict''] = dg_blob2"
  by (simp add: BLOB_DOMAIN_def store_transcripts)

lemma blob3 [simp]:
  "sha_parts BLOB_DOMAIN [filled 0x6D, u64_bytes 37, ascii ''resource-v1:bank=17:kv=4096:output=64''] = dg_blob3"
  by (simp add: BLOB_DOMAIN_def store_transcripts)

lemma blob4 [simp]:
  "sha_parts BLOB_DOMAIN [filled 0x6D, u64_bytes 29, ascii ''lane-v1:request=41:service=11''] = dg_blob4"
  by (simp add: BLOB_DOMAIN_def store_transcripts)

lemma blob5 [simp]:
  "sha_parts BLOB_DOMAIN [filled 0x6D, u64_bytes 30, ascii ''kv-v1:positions=37:root=bundle''] = dg_blob5"
  by (simp add: BLOB_DOMAIN_def store_transcripts)

lemma blob6 [simp]:
  "sha_parts BLOB_DOMAIN [filled 0x6D, u64_bytes 31, ascii ''sampler-v1:rng=01020304:calls=5''] = dg_blob6"
  by (simp add: BLOB_DOMAIN_def store_transcripts)

lemma blob7 [simp]:
  "sha_parts BLOB_DOMAIN [filled 0x6D, u64_bytes 36, ascii ''output-v1:tokens=901,902,903,904,905''] = dg_blob7"
  by (simp add: BLOB_DOMAIN_def store_transcripts)

lemma blob8 [simp]:
  "sha_parts BLOB_DOMAIN [filled 0x6D, u64_bytes 39, ascii ''publication-v1:sequence=5:commit=bundle''] = dg_blob8"
  by (simp add: BLOB_DOMAIN_def store_transcripts)

definition demo_entries :: "bundle_entry list" where
  "demo_entries = [
     \<lparr>be_kind = 0, be_abi_version = 0x43414D4F00000001, be_byte_length = 25, be_blob_ordinal = 0,
      be_typed_sha256 = dg_typed0, be_blob_sha256 = dg_blob0\<rparr>,
     \<lparr>be_kind = 1, be_abi_version = 0x4341544B00000001, be_byte_length = 25, be_blob_ordinal = 0,
      be_typed_sha256 = dg_typed1, be_blob_sha256 = dg_blob0\<rparr>,
     \<lparr>be_kind = 2, be_abi_version = 0x4341504C00000001, be_byte_length = 28, be_blob_ordinal = 1,
      be_typed_sha256 = dg_typed2, be_blob_sha256 = dg_blob2\<rparr>,
     \<lparr>be_kind = 3, be_abi_version = 0x4341525300000001, be_byte_length = 37, be_blob_ordinal = 2,
      be_typed_sha256 = dg_typed3, be_blob_sha256 = dg_blob3\<rparr>,
     \<lparr>be_kind = 4, be_abi_version = 0x43414C4E00000001, be_byte_length = 29, be_blob_ordinal = 3,
      be_typed_sha256 = dg_typed4, be_blob_sha256 = dg_blob4\<rparr>,
     \<lparr>be_kind = 5, be_abi_version = 0x43414B5600000001, be_byte_length = 30, be_blob_ordinal = 4,
      be_typed_sha256 = dg_typed5, be_blob_sha256 = dg_blob5\<rparr>,
     \<lparr>be_kind = 6, be_abi_version = 0x4341534D00000001, be_byte_length = 31, be_blob_ordinal = 5,
      be_typed_sha256 = dg_typed6, be_blob_sha256 = dg_blob6\<rparr>,
     \<lparr>be_kind = 7, be_abi_version = 0x43414F5500000001, be_byte_length = 36, be_blob_ordinal = 6,
      be_typed_sha256 = dg_typed7, be_blob_sha256 = dg_blob7\<rparr>,
     \<lparr>be_kind = 8, be_abi_version = 0x4341505200000001, be_byte_length = 39, be_blob_ordinal = 7,
      be_typed_sha256 = dg_typed8, be_blob_sha256 = dg_blob8\<rparr>]"

definition demo_table :: bundle_table where
  "demo_table = \<lparr>tb_entries = demo_entries, tb_logical_bytes = 280, tb_unique_count = 8, tb_unique_bytes = 255\<rparr>"

lemma demo_table_made: "encode_table (filled 0x6D) demo_objects = Inr demo_table"
  by (simp add: encode_table_def OBJECT_NAMES_def encode_entry_def demo_objects_def lift_capsule_def make_object_ref_def
      capsule_u64_def blob_ref_def bundle_digest_def bundle_u64_def encode_prior_def prior_entry_def count_blob_def
      add_entry_def empty_table_def demo_table_def demo_entries_def)

lemma demo_capsule_blob [simp]: "blob_sha (filled 0x6D) demo_capsule_wire = dg_capsule_blob"
  unfolding blob_sha_def demo_capsule_length
  by (simp add: demo_capsule_wire_def capsule_prefix_def config_bytes_def capsule_scalars_def demo_capsule_config_def
      demo_refs_def ref_bytes_def BLOB_DOMAIN_def CAPSULE_MAGIC_def)
    (simp add: store_transcripts)

abbreviation demo_config :: bundle_config where "demo_config \<equiv> demo_bundle_config dg_capsule"

lemma demo_bundle_root [simp]:
  "sha_parts BUNDLE_ENVELOPE_DOMAIN [bundle_prefix demo_config dg_capsule_blob demo_table] = dg_bundle"
  by (simp add: bundle_prefix_def demo_bundle_config_def demo_table_def demo_entries_def entry_bytes_def
      BUNDLE_ENVELOPE_DOMAIN_def BUNDLE_MAGIC_def)
    (simp add: store_transcripts)

definition demo_bundle_wire :: bytes where
  "demo_bundle_wire = bundle_prefix demo_config dg_capsule_blob demo_table @ dg_bundle"

lemma demo_bundle_valid: "bundle_validate_config demo_config = Inr ()"
  by (simp add: bundle_validate_config_def demo_bundle_config_def bundle_digest_def bundle_u64_def)

lemma demo_config_parts: "bc_tenant_scope_sha256 demo_config = filled 0x6D" "bc_capsule_sha256 demo_config = dg_capsule"
  by (simp_all add: demo_bundle_config_def)

lemma demo_bundle_encodes: "bundle_encode demo_config demo_capsule_wire demo_objects = Inr demo_bundle_wire"
  unfolding bundle_encode_iff
  using demo_bundle_valid demo_capsule_decodes demo_capsule_verifies demo_table_made
  by (simp add: demo_config_parts demo_capsule_def demo_bundle_wire_def)

lemma demo_digests_nonzero: "bundle_digests_nonzero demo_config demo_capsule_wire demo_objects"
  using demo_table_made by (simp add: bundle_digests_nonzero_def demo_config_parts)
    (simp add: demo_table_def demo_entries_def entry_nonzero_def)

definition demo_manifest :: bundle_manifest where
  "demo_manifest = manifest_of demo_config dg_capsule_blob demo_table"

lemma demo_bundle_verifies:
  "bundle_decode_and_verify demo_bundle_wire demo_config demo_capsule_wire demo_objects = Inr demo_manifest"
  using bundle_reads_back [OF demo_bundle_encodes demo_digests_nonzero] demo_table_made
  by (simp add: demo_config_parts demo_manifest_def)

lemma demo_manifest_parts:
  "bm_envelope_sha256 demo_manifest = dg_bundle" "bm_entries demo_manifest = demo_entries"
  "bm_config demo_manifest = demo_config"
  by (simp_all add: demo_manifest_def manifest_of_def) (simp add: demo_table_def)

definition the_demo :: bundle_demo where
  "the_demo = \<lparr>bd_capsule_config = demo_capsule_config, bd_objects = demo_objects, bd_capsule_wire = demo_capsule_wire,
     bd_bundle_config = demo_config, bd_encoded = demo_bundle_wire\<rparr>"

lemma demo_last32: "last32 demo_capsule_wire = dg_capsule" "last32 demo_bundle_wire = dg_bundle"
  by (simp_all add: demo_capsule_wire_def demo_bundle_wire_def last32_append)

lemma build_demo: "build_store_demo = Inr (the_demo, demo_grant dg_bundle)"
  by (simp add: build_store_demo_def build_bundle_demo_def demo_capsule_encodes lift_capsule_def demo_last32
      demo_bundle_encodes the_demo_def)

section \<open>The store\<close>

lemma demo_grant_root [simp]: "grant_root (demo_grant dg_bundle) = Inr dg_grant"
  by (simp add: grant_root_def validate_grant_def demo_grant_def store_u64_def store_digest_def store_hash_def)
    (simp add: store_domain_def store_transcripts)

definition new_demo :: "int option \<Rightarrow> store" where
  "new_demo fail_after = \<lparr>st_grant = demo_grant dg_bundle, st_grant_sha256 = dg_grant, st_capacity = 16,
     st_slots = replicate 16 None, st_books = new_books, st_closed = False,
     st_fail_after_new_entries = fail_after, st_allocator_insertions = 0\<rparr>"

lemma new_demo_made: "demo_store (demo_grant dg_bundle) fail_after = Inr (new_demo fail_after)"
  by (simp add: demo_store_def new_store_def new_demo_def)
    (simp add: validate_grant_def demo_grant_def store_u64_def store_digest_def)

lemma new_demo_reach: "store_reach (demo_grant dg_bundle) (new_demo fail_after)"
  using new_demo_made by (auto simp: demo_store_def intro: reach_new)

definition stored_slot :: "bytes \<Rightarrow> int \<Rightarrow> bytes \<Rightarrow> int \<Rightarrow> store_slot option" where
  "stored_slot sha n payload references = Some
     \<lparr>sl_state = Live, sl_byte_length = n, sl_sha256 = sha, sl_payload = payload, sl_reference_count = references,
      sl_provenance_sha256 = dg_bundle, sl_quarantine_reason_sha256 = ZERO_DIGEST, sl_lease_generation = 0,
      sl_lease_active = False, sl_lease_receipt_sha256 = ZERO_DIGEST, sl_repair_generation = 0\<rparr>"

definition demo_slots :: "store_slot option list" where
  "demo_slots = [
     stored_slot dg_blob0 25 (ascii ''shared-static-identity-v1'') 2,
     stored_slot dg_blob2 28 (ascii ''plan-v1:cpu:threads=4:strict'') 1,
     stored_slot dg_blob3 37 (ascii ''resource-v1:bank=17:kv=4096:output=64'') 1,
     stored_slot dg_blob4 29 (ascii ''lane-v1:request=41:service=11'') 1,
     stored_slot dg_blob5 30 (ascii ''kv-v1:positions=37:root=bundle'') 1,
     stored_slot dg_blob6 31 (ascii ''sampler-v1:rng=01020304:calls=5'') 1,
     stored_slot dg_blob7 36 (ascii ''output-v1:tokens=901,902,903,904,905'') 1,
     stored_slot dg_blob8 39 (ascii ''publication-v1:sequence=5:commit=bundle'') 1] @ replicate 8 None"

definition imported_demo :: store where
  "imported_demo = (new_demo None)\<lparr>st_slots := demo_slots,
     st_books := \<lparr>ac_entry_count = 8, ac_live_entries = 8, ac_quarantined_entries = 0, ac_retired_entries = 0,
       ac_payload_bytes = 255, ac_logical_index_bytes = 1024, ac_reference_count = 9, ac_active_leases = 0,
       ac_repair_count = 0\<rparr>, st_allocator_insertions := 8\<rparr>"

definition demo_progress :: import_progress where
  "demo_progress = \<lparr>ip_actions = map (\<lambda>(i, fresh). \<lparr>ia_slot_index = i, ia_inserted = fresh\<rparr>)
       [(0, True), (0, False), (1, True), (2, True), (3, True), (4, True), (5, True), (6, True), (7, True)],
     ip_unique_entries_added = 8, ip_references_reused = 1, ip_payload_bytes_added = 255\<rparr>"

lemma demo_puts: "import_puts demo_manifest demo_objects (new_demo None) = ((None, demo_progress), imported_demo)"
  by (simp add: import_puts_def demo_manifest_parts demo_entries_def OBJECT_NAMES_def
      put_entry_def demo_objects_def store_put_def store_operation_def new_demo_def demo_grant_def store_digest_def
      guardE_def lift_blob_def blob_ref_def bundle_digest_def bundle_u64_def put_insert_def put_reuse_def slot_is_def
      not_set_aside_def slot_at_def set_slot_def set_books_def new_books_def count_insert_def add_reference_def
      new_slot_def note_put_def no_progress_def replicate_numeral_eval demo_progress_def imported_demo_def demo_slots_def
      stored_slot_def Let_def)

lemma imported_ok: "store_ok imported_demo"
proof -
  have "store_ok (new_demo None)" using reach_ok [OF new_demo_reach] by blast
  from import_loop_keeps [OF this demo_puts [unfolded import_puts_def]] show ?thesis by blast
qed

lemma imported_members: "Some sl \<in> set demo_slots \<longleftrightarrow> Some sl \<in> set [
     stored_slot dg_blob0 25 (ascii ''shared-static-identity-v1'') 2,
     stored_slot dg_blob2 28 (ascii ''plan-v1:cpu:threads=4:strict'') 1,
     stored_slot dg_blob3 37 (ascii ''resource-v1:bank=17:kv=4096:output=64'') 1,
     stored_slot dg_blob4 29 (ascii ''lane-v1:request=41:service=11'') 1,
     stored_slot dg_blob5 30 (ascii ''kv-v1:positions=37:root=bundle'') 1,
     stored_slot dg_blob6 31 (ascii ''sampler-v1:rng=01020304:calls=5'') 1,
     stored_slot dg_blob7 36 (ascii ''output-v1:tokens=901,902,903,904,905'') 1,
     stored_slot dg_blob8 39 (ascii ''publication-v1:sequence=5:commit=bundle'') 1]"
  by (simp add: demo_slots_def)

lemma imported_verifies: "verify_all imported_demo = Inr ()"
proof -
  have "payload_accepted (filled 0x6D) False sl" if "Some sl \<in> set demo_slots" for sl
    using that unfolding imported_members
    by (auto simp: stored_slot_def payload_accepted_def stored_ref_def blob_ref_def bundle_digest_def bundle_u64_def)
  then have "verify_state False imported_demo = Inr ()"
    unfolding verify_state_ok [OF imported_ok] by (simp add: imported_demo_def new_demo_def demo_grant_def)
  then show ?thesis
    by (simp add: verify_all_def store_operation_def imported_demo_def new_demo_def demo_grant_def)
qed

lemma imported_snapshot: "snapshot_root imported_demo = Inr dg_snapshot"
  by (simp add: snapshot_root_def imported_verifies)
    (simp add: snapshot_root_unchecked_def imported_demo_def new_demo_def demo_slots_def stored_slot_def occupied_def
      replicate_numeral_eval slot_parts_def state_code_def store_u64_def store_hash_def Let_def,
     simp add: store_domain_def store_transcripts)

definition demo_receipt :: import_receipt where
  "demo_receipt = \<lparr>ir_bundle_sha256 = dg_bundle, ir_semantic_references = 9, ir_unique_entries_added = 8,
     ir_references_reused = 1, ir_payload_bytes_added = 255, ir_entry_count_after = 8, ir_payload_bytes_after = 255,
     ir_reference_count_after = 9, ir_snapshot_sha256 = dg_snapshot\<rparr>"

lemma demo_import_runs: "demo_import the_demo (new_demo fail) =
    (case import_puts demo_manifest demo_objects (new_demo fail) of ((Some e, p), t) \<Rightarrow> (Inl e, new_demo fail)
     | ((None, p), t) \<Rightarrow> finish_import dg_bundle p t)"
proof -
  have "store_operation (new_demo fail) OPERATION_PUT = Inr ()"
    by (simp add: store_operation_def new_demo_def demo_grant_def)
  moreover have "bm_envelope_sha256 demo_manifest = sg_bundle_sha256 (st_grant (new_demo fail))"
    "bc_tenant_scope_sha256 (bm_config demo_manifest) = sg_tenant_scope_sha256 (st_grant (new_demo fail))"
    by (simp_all add: demo_manifest_parts new_demo_def demo_grant_def demo_config_parts)
  ultimately show ?thesis
    by (simp add: demo_import_def import_bundle_def the_demo_def demo_bundle_verifies lift_blob_def guardE_def
        run_import_cases) (unfold demo_manifest_parts(1), rule refl)
qed

lemma demo_import_result: "demo_import the_demo (new_demo None) = (Inr demo_receipt, imported_demo)"
  unfolding demo_import_runs demo_puts
  by (simp add: finish_import_def imported_snapshot) (simp add: demo_receipt_def demo_progress_def imported_demo_def)

text \<open>With an allocator that fails after three new entries, the fifth put raises.\<close>

lemma demo_puts_fail: "fst (fst (import_puts demo_manifest demo_objects (new_demo (Some 3)))) = Some StAllocator"
  by (simp add: import_puts_def demo_manifest_parts demo_entries_def OBJECT_NAMES_def
      put_entry_def demo_objects_def store_put_def store_operation_def new_demo_def demo_grant_def store_digest_def
      guardE_def lift_blob_def blob_ref_def bundle_digest_def bundle_u64_def put_insert_def put_reuse_def slot_is_def
      not_set_aside_def slot_at_def set_slot_def set_books_def new_books_def count_insert_def add_reference_def
      new_slot_def note_put_def no_progress_def replicate_numeral_eval Let_def)

end
