(* ===== verification/Store_Scenario.thy ===== *)
theory Store_Scenario
  imports Store_Demo
begin

text \<open>
  Runs of the demonstration store that the witnesses of its properties use: one object is put, leased
  and renewed; or put, retired and freed by a commit. Their digests are computed like those of the
  demonstration. The grants are \<open>demo_lifecycle_grant\<close> and \<open>demo_repair_grant\<close> of
  \<open>bench/continuation_object_store.py\<close>.
\<close>

section \<open>Grants\<close>

definition demo_lifecycle_grant :: "store_grant \<Rightarrow> store_error + lifecycle_grant" where
  "demo_lifecycle_grant g = bindE (grant_root g) (\<lambda>root. Inr
     \<lparr>lg_authority_epoch = sg_authority_epoch g, lg_tenant_scope_sha256 = sg_tenant_scope_sha256 g,
      lg_bundle_sha256 = sg_bundle_sha256 g, lg_store_grant_sha256 = root,
      lg_allowed_operation_mask = ALLOWED_LEASE_OPERATIONS, lg_max_active_leases = 4, lg_max_lease_span_ticks = 64,
      lg_challenge_sha256 = filled 0xC4\<rparr>)"

definition demo_repair_grant :: "store_grant \<Rightarrow> store_target \<Rightarrow> bytes \<Rightarrow> bytes \<Rightarrow> store_error + repair_grant" where
  "demo_repair_grant g target source reason = bindE (grant_root g) (\<lambda>root. Inr
     \<lparr>rg_authority_epoch = sg_authority_epoch g, rg_tenant_scope_sha256 = sg_tenant_scope_sha256 g,
      rg_bundle_sha256 = sg_bundle_sha256 g, rg_store_grant_sha256 = root, rg_target = target,
      rg_trusted_source_sha256 = source, rg_expected_quarantine_reason_sha256 = reason, rg_max_repair_bytes = 64,
      rg_challenge_sha256 = filled 0xD7\<rparr>)"

section \<open>Digests\<close>

definition dg_before1 :: bytes where
  "dg_before1 =
    [0xde, 0x80, 0x5d, 0xda, 0xe7, 0x5a, 0x47, 0x73, 0xac, 0xca, 0xe2, 0x2c, 0xbc, 0xcd, 0x17,
     0x9f, 0xfa, 0x56, 0x18, 0xb2, 0xbf, 0xe2, 0x5b, 0x45, 0x8b, 0x12, 0x27, 0xbd, 0x86, 0xcd,
     0xd0, 0xdd]"

definition dg_before2 :: bytes where
  "dg_before2 =
    [0x4f, 0x70, 0x2d, 0x6c, 0x57, 0xc3, 0x00, 0xa3, 0xe8, 0xb7, 0x1c, 0x5a, 0x30, 0xe0, 0x35,
     0x4f, 0x55, 0x20, 0x2e, 0x69, 0x7d, 0x5f, 0x8f, 0x80, 0x5f, 0xa0, 0xd7, 0xfe, 0x93, 0x4d,
     0xad, 0xb0]"

definition dg_targets :: bytes where
  "dg_targets =
    [0xf3, 0x29, 0xa9, 0x87, 0x9a, 0x9f, 0x47, 0x77, 0xa5, 0x22, 0xde, 0xf6, 0x81, 0xd0, 0xa8,
     0x4e, 0x58, 0xf8, 0x28, 0xfc, 0x3a, 0xdc, 0x19, 0xd9, 0xcd, 0x73, 0x84, 0xdc, 0x4c, 0x0c,
     0x14, 0x57]"

definition dg_after1 :: bytes where
  "dg_after1 =
    [0x0a, 0xb6, 0xcb, 0xec, 0xd4, 0xcf, 0x6e, 0xf2, 0x29, 0x76, 0xa2, 0x15, 0x93, 0x0c, 0x83,
     0x66, 0x51, 0x24, 0xc5, 0x06, 0x76, 0x5a, 0xf9, 0xbe, 0x2f, 0xb1, 0x53, 0xfa, 0x5b, 0x75,
     0x64, 0x13]"

definition dg_after2 :: bytes where
  "dg_after2 =
    [0x7b, 0x83, 0x5b, 0x78, 0xd3, 0x27, 0x27, 0xf8, 0x22, 0xcb, 0x00, 0xa9, 0x6b, 0x15, 0xb8,
     0x52, 0xb9, 0x94, 0x52, 0x2d, 0x4a, 0xb1, 0xf8, 0x93, 0xbd, 0xa1, 0x25, 0x47, 0xa9, 0x4d,
     0xe8, 0xe5]"

definition dg_commit :: bytes where
  "dg_commit =
    [0x77, 0xcb, 0x58, 0x91, 0x0c, 0xac, 0x58, 0x4e, 0x23, 0x8d, 0x7a, 0x96, 0x2e, 0xbe, 0x65,
     0xb8, 0x1c, 0x8a, 0x58, 0x93, 0xaa, 0xeb, 0x2f, 0xb1, 0xc5, 0x36, 0x34, 0x88, 0xb9, 0xd9,
     0x2f, 0x57]"

definition dg_lifecycle :: bytes where
  "dg_lifecycle =
    [0xcf, 0xd5, 0xdf, 0x48, 0x6b, 0x00, 0xf6, 0xfc, 0xf2, 0xfb, 0x61, 0x79, 0x2a, 0x49, 0xbd,
     0x4c, 0x4a, 0xd3, 0x58, 0xbe, 0x18, 0x3b, 0x9e, 0xc2, 0xb4, 0xdf, 0x51, 0x7a, 0x4b, 0x79,
     0xb8, 0x5b]"

definition dg_lease1 :: bytes where
  "dg_lease1 =
    [0x16, 0x69, 0x98, 0xea, 0x8e, 0x55, 0xfe, 0x05, 0xbb, 0xc7, 0x60, 0x00, 0x8e, 0x45, 0x24,
     0xe5, 0x8d, 0xa5, 0x9e, 0xce, 0xba, 0x2b, 0x1c, 0x8f, 0x00, 0x2a, 0x64, 0x2d, 0xbf, 0x96,
     0x20, 0xb7]"

definition dg_lease2 :: bytes where
  "dg_lease2 =
    [0x32, 0x4d, 0xd0, 0x84, 0xed, 0x62, 0xd5, 0xd1, 0x76, 0x60, 0xe3, 0xf6, 0x12, 0x4b, 0xb0,
     0x00, 0x65, 0x9f, 0xb3, 0x50, 0x33, 0xf0, 0x09, 0x02, 0x63, 0xe3, 0x4e, 0x21, 0x06, 0xf9,
     0xcc, 0x80]"

lemmas scenario_digests =
  dg_before1_def dg_before2_def dg_targets_def dg_after1_def dg_after2_def dg_commit_def
   dg_lifecycle_def dg_lease1_def dg_lease2_def

lemma scenario_lengths [simp]:
  "length dg_before1 = 32"
  "length dg_before2 = 32"
  "length dg_targets = 32"
  "length dg_after1 = 32"
  "length dg_after2 = 32"
  "length dg_commit = 32"
  "length dg_lifecycle = 32"
  "length dg_lease1 = 32"
  "length dg_lease2 = 32"
  by (simp_all add: scenario_digests)

lemma scenario_nonzero [simp]:
  "dg_before1 \<noteq> ZERO_DIGEST"
  "dg_before2 \<noteq> ZERO_DIGEST"
  "dg_targets \<noteq> ZERO_DIGEST"
  "dg_after1 \<noteq> ZERO_DIGEST"
  "dg_after2 \<noteq> ZERO_DIGEST"
  "dg_commit \<noteq> ZERO_DIGEST"
  "dg_lifecycle \<noteq> ZERO_DIGEST"
  "dg_lease1 \<noteq> ZERO_DIGEST"
  "dg_lease2 \<noteq> ZERO_DIGEST"
  by (simp_all add: scenario_digests zero_list)

lemma scenario_distinct [simp]: "dg_before2 \<noteq> dg_after2" "dg_after2 \<noteq> dg_before2" "dg_lease1 \<noteq> dg_lease2"
  by (simp_all add: scenario_digests)

lemmas scenario_transcripts = store_transcripts scenario_digests

section \<open>One object\<close>

definition one_target :: store_target where
  "one_target = \<lparr>br_byte_length = 25, br_sha256 = dg_blob0\<rparr>"

abbreviation one_payload :: bytes where
  "one_payload \<equiv> ascii ''shared-static-identity-v1''"

definition one_store :: store where
  "one_store = (new_demo None)\<lparr>st_slots := stored_slot dg_blob0 25 one_payload 1 # replicate 15 None,
     st_books := \<lparr>ac_entry_count = 1, ac_live_entries = 1, ac_quarantined_entries = 0, ac_retired_entries = 0,
       ac_payload_bytes = 25, ac_logical_index_bytes = 128, ac_reference_count = 1, ac_active_leases = 0,
       ac_repair_count = 0\<rparr>, st_allocator_insertions := 1\<rparr>"

lemma one_put: "store_put one_target one_payload dg_bundle (new_demo None) =
    (Inr \<lparr>pr_slot_index = 0, pr_disposition = Inserted, pr_reference_count = 1\<rparr>, one_store)"
  by (simp add: store_put_def store_operation_def new_demo_def demo_grant_def store_digest_def one_target_def
      guardE_def lift_blob_def blob_ref_def bundle_digest_def bundle_u64_def put_insert_def slot_is_def
      set_slot_def set_books_def new_books_def count_insert_def new_slot_def replicate_numeral_eval one_store_def
      stored_slot_def Let_def)

lemma one_reach: "store_reach (demo_grant dg_bundle) one_store"
  by (rule reach_step [OF new_demo_reach step_put [OF one_put]])

section \<open>A lease and its renewal\<close>

definition the_lifecycle :: lifecycle_grant where
  "the_lifecycle =
     \<lparr>lg_authority_epoch = 11, lg_tenant_scope_sha256 = filled 0x6D, lg_bundle_sha256 = dg_bundle,
      lg_store_grant_sha256 = dg_grant, lg_allowed_operation_mask = ALLOWED_LEASE_OPERATIONS, lg_max_active_leases = 4,
      lg_max_lease_span_ticks = 64, lg_challenge_sha256 = filled 0xC4\<rparr>"

lemma the_lifecycle_made: "demo_lifecycle_grant (demo_grant dg_bundle) = Inr the_lifecycle"
  by (simp add: demo_lifecycle_grant_def) (simp add: the_lifecycle_def demo_grant_def)

lemma lifecycle_root [simp]: "lifecycle_grant_root the_lifecycle = Inr dg_lifecycle"
  by (simp add: lifecycle_grant_root_def validate_lifecycle_grant_def the_lifecycle_def store_u64_def store_digest_def
      store_hash_def)
    (simp add: store_domain_def scenario_transcripts)

definition lease_receipt_of :: "int \<Rightarrow> int \<Rightarrow> bytes \<Rightarrow> lease_receipt" where
  "lease_receipt_of generation expires root =
     \<lparr>lr_target = one_target, lr_generation = generation, lr_owner_sha256 = filled 0x11, lr_expires_at_tick = expires,
      lr_lifecycle_grant_sha256 = dg_lifecycle, lr_lease_sha256 = root\<rparr>"

lemma lease_hashes [simp]:
  "lease_receipt_hash one_target 1 (filled 0x11) 20 dg_lifecycle = dg_lease1"
  "lease_receipt_hash one_target 2 (filled 0x11) 40 dg_lifecycle = dg_lease2"
  by (simp_all add: lease_receipt_hash_def one_target_def store_domain_def scenario_transcripts)

definition leased_store :: "int \<Rightarrow> bytes \<Rightarrow> store" where
  "leased_store generation root = one_store\<lparr>
     st_slots := map_option (\<lambda>sl. sl\<lparr>sl_lease_generation := generation, sl_lease_active := True,
       sl_lease_receipt_sha256 := root\<rparr>) (stored_slot dg_blob0 25 one_payload 1) # replicate 15 None,
     st_books := (st_books one_store)\<lparr>ac_active_leases := 1\<rparr>\<rparr>"

lemma one_lifecycle:
  "a \<in> {1, 2, 4, 8} \<Longrightarrow> lifecycle_operation one_store the_lifecycle a = Inr dg_lifecycle"
  "a \<in> {1, 2, 4, 8} \<Longrightarrow> lifecycle_operation (leased_store n root) the_lifecycle a = Inr dg_lifecycle"
  by (auto simp: lifecycle_operation_def leased_store_def one_store_def new_demo_def demo_grant_def)
    (auto simp: the_lifecycle_def validate_lifecycle_grant_def store_u64_def store_digest_def)

lemma one_found:
  "find_slot one_store one_target = Inr 0" "find_slot (leased_store n root) one_target = Inr 0"
  by (simp_all add: find_slot_def store_find_def one_store_def leased_store_def new_demo_def stored_slot_def slot_is_def
      one_target_def)

lemma one_blob: "blob_ref (filled 0x6D) one_payload = Inr one_target"
  by (simp add: blob_ref_def bundle_digest_def bundle_u64_def one_target_def)

lemma one_lease: "acquire_lease one_target the_lifecycle (filled 0x11) 10 20 one_store =
    (Inr (lease_receipt_of 1 20 dg_lease1), leased_store 1 dg_lease1)"
proof -
  define sl where "sl = the (stored_slot dg_blob0 25 one_payload 1)"
  have at: "slot_at one_store 0 = sl" "lg_max_lease_span_ticks the_lifecycle = 64" "lg_max_active_leases the_lifecycle = 4"
    "ac_active_leases (st_books one_store) = 0" "not_set_aside sl = Inr ()" "\<not> sl_lease_active sl"
    "sl_lease_generation sl = 0"
    by (simp_all add: slot_at_def one_store_def the_lifecycle_def sl_def stored_slot_def not_set_aside_def)
  have blob: "intact one_store sl one_target = Inr ()"
    using one_blob by (simp add: intact_Inr) (simp add: sl_def stored_slot_def one_store_def new_demo_def demo_grant_def)
  have "lease_ready one_store 0 sl one_target 20"
    by (simp add: lease_ready_def one_store_def new_demo_def sl_def stored_slot_def one_target_def is_u64_def)
  note issue = issue_after_start [OF this, of "filled 0x11" dg_lifecycle]
  have "acquire_lease one_target the_lifecycle (filled 0x11) 10 20 one_store =
      (Inr (next_receipt sl one_target (filled 0x11) 20 dg_lifecycle),
       set_books (add_lease 1) (set_slot 0 (Some (leased sl dg_lease1)) one_store))"
    using issue by (simp add: acquire_lease_def one_lifecycle one_found at blob store_digest_def validate_lease_window_def
        store_u64_def Let_def guardE_def)
  then show ?thesis
    by (simp add: next_receipt_def Let_def at lease_receipt_of_def set_slot_def set_books_def leased_def leased_store_def
        add_lease_def one_store_def new_demo_def) (simp add: sl_def stored_slot_def)
qed

lemma leased_reach: "store_reach (demo_grant dg_bundle) (leased_store 1 dg_lease1)"
  by (rule reach_step [OF one_reach step_acquire [OF one_lease]]) (simp add: lease_receipt_of_def)

lemma one_renewal: "renew_lease one_target (lease_receipt_of 1 20 dg_lease1) the_lifecycle 15 40 (leased_store 1 dg_lease1) =
    (Inr (lease_receipt_of 2 40 dg_lease2), leased_store 2 dg_lease2)"
proof -
  let ?s = "leased_store 1 dg_lease1"
  define sl where "sl = (the (stored_slot dg_blob0 25 one_payload 1))\<lparr>sl_lease_generation := 1, sl_lease_active := True,
       sl_lease_receipt_sha256 := dg_lease1\<rparr>"
  have at: "slot_at ?s 0 = sl" "lg_max_lease_span_ticks the_lifecycle = 64" "sl_lease_active sl"
    "sl_lease_generation sl = 1" "sl_lease_receipt_sha256 sl = dg_lease1"
    by (simp_all add: slot_at_def leased_store_def the_lifecycle_def sl_def stored_slot_def)
  have blob: "intact ?s sl one_target = Inr ()"
    using one_blob by (simp add: intact_Inr)
      (simp add: sl_def stored_slot_def leased_store_def one_store_def new_demo_def demo_grant_def)
  have "lease_ready ?s 0 sl one_target 40"
    by (simp add: lease_ready_def leased_store_def sl_def stored_slot_def one_target_def is_u64_def)
  note issue = issue_after_next [OF this at(3), of "filled 0x11" dg_lifecycle]
  have "lease_receipt_root (lease_receipt_of 1 20 dg_lease1) = Inr dg_lease1"
    using lease_hashes(1) by (simp add: lease_receipt_root_def lease_receipt_of_def store_hash_def store_u64_def lease_receipt_hash_def
        one_target_def)
  then have current: "current_lease sl one_target (lease_receipt_of 1 20 dg_lease1) = Inr ()"
    by (simp add: current_lease_def lease_receipt_of_def at)
  have receipt: "lr_expires_at_tick (lease_receipt_of 1 20 dg_lease1) = 20"
    "lr_owner_sha256 (lease_receipt_of 1 20 dg_lease1) = filled 0x11"
    by (simp_all add: lease_receipt_of_def)
  have "renew_lease one_target (lease_receipt_of 1 20 dg_lease1) the_lifecycle 15 40 ?s =
      (Inr (next_receipt sl one_target (filled 0x11) 40 dg_lifecycle), set_slot 0 (Some (leased sl dg_lease2)) ?s)"
    using issue by (simp add: renew_lease_def one_lifecycle one_found at blob current receipt validate_lease_window_def
        store_u64_def Let_def guardE_def)
  then show ?thesis
    by (simp add: next_receipt_def Let_def at lease_receipt_of_def set_slot_def leased_def leased_store_def)
      (simp add: sl_def stored_slot_def)
qed

section \<open>A retirement and its commit\<close>

definition retired_store :: store where
  "retired_store = one_store\<lparr>
     st_slots := map_option (\<lambda>sl. sl\<lparr>sl_state := Retired, sl_reference_count := 0\<rparr>) (stored_slot dg_blob0 25 one_payload 1)
       # replicate 15 None,
     st_books := \<lparr>ac_entry_count = 1, ac_live_entries = 0, ac_quarantined_entries = 0, ac_retired_entries = 1,
       ac_payload_bytes = 25, ac_logical_index_bytes = 128, ac_reference_count = 0, ac_active_leases = 0,
       ac_repair_count = 0\<rparr>\<rparr>"

lemma one_retire: "store_retire one_target one_store = (Inr (), retired_store)"
proof -
  have "store_operation one_store OPERATION_RELEASE = Inr ()"
    by (simp add: store_operation_def one_store_def new_demo_def demo_grant_def)
  then show ?thesis
    by (simp add: store_retire_def one_found Let_def)
      (simp add: slot_at_def one_store_def stored_slot_def not_set_aside_def guardE_def set_slot_def
        set_books_def count_retire_def retired_store_def)
qed

lemma retired_reach: "store_reach (demo_grant dg_bundle) retired_store"
  by (rule reach_step [OF one_reach step_retire [OF one_retire]])

definition one_permit :: commit_permit where
  "one_permit =
     \<lparr>cp_authority_epoch = 11, cp_tenant_scope_sha256 = filled 0x6D, cp_bundle_sha256 = dg_bundle,
      cp_store_grant_sha256 = dg_grant, cp_expected_snapshot_sha256 = dg_before2,
      cp_authorization_sha256 = filled 0x22, cp_max_freed_entries = 4, cp_max_freed_bytes = 100\<rparr>"

lemmas snapshot_defs = snapshot_root_v2_unchecked_def snapshot_root_unchecked_def occupied_def replicate_numeral_eval
  slot_parts_def lease_parts_def state_code_def store_u64_def store_hash_def Let_def

lemma retired_roots:
  "sha_parts (store_domain ''glacier-continuation-store-snapshot-v1'')
     [dg_grant, u64_bytes 1, u64_bytes 0, u64_bytes 0, u64_bytes 25, u64_bytes 128, u64_bytes 0,
      u64_bytes 0, u64_bytes 3, u64_bytes 25, dg_blob0, u64_bytes 0, dg_bundle, ZERO_DIGEST] = dg_before1"
  "sha_parts (store_domain ''glacier-continuation-store-snapshot-v2'')
     [dg_before1, u64_bytes 0, u64_bytes 0, u64_bytes 0, u64_bytes 0, u64_bytes 0, ZERO_DIGEST, u64_bytes 0] = dg_before2"
  "sha_parts (store_domain ''glacier-continuation-store-snapshot-v1'')
     [dg_grant, u64_bytes 0, u64_bytes 0, u64_bytes 0, u64_bytes 0, u64_bytes 0, u64_bytes 0] = dg_after1"
  "sha_parts (store_domain ''glacier-continuation-store-snapshot-v2'') [dg_after1, u64_bytes 0, u64_bytes 0] = dg_after2"
  "sha_parts (store_domain ''glacier-continuation-store-retired-targets-v1'') [u64_bytes 1, u64_bytes 25, dg_blob0] = dg_targets"
  by (simp_all add: store_domain_def scenario_transcripts)

lemma commit_root:
  "sha_parts (store_domain ''glacier-continuation-store-retired-commit-v1'')
     [filled 0x22, dg_targets, dg_before2, dg_after2, u64_bytes 1, u64_bytes 0, u64_bytes 0, u64_bytes 1, u64_bytes 25,
      u64_bytes 128, u64_bytes 0, u64_bytes 0, u64_bytes 0, u64_bytes 0, u64_bytes 0, u64_bytes 0, u64_bytes 0, u64_bytes 0,
      u64_bytes 0, u64_bytes 0, u64_bytes 0, u64_bytes 0, u64_bytes 1, u64_bytes 25, u64_bytes 128, u64_bytes 0, u64_bytes 1]
   = dg_commit"
  by (simp add: store_domain_def scenario_transcripts)

lemma retired_snapshot: "snapshot_root_v2_unchecked retired_store = Inr dg_before2"
  using retired_roots by (simp add: snapshot_defs retired_store_def one_store_def new_demo_def stored_slot_def)

lemma retired_audit: "audit_snapshot_root_v2 retired_store = Inr dg_before2"
proof -
  have ok: "store_ok retired_store" using reach_ok [OF retired_reach] by blast
  have "verify_state True retired_store = Inr ()"
    unfolding verify_state_ok [OF ok] using one_blob
    by (simp add: retired_store_def one_store_def stored_slot_def new_demo_def demo_grant_def payload_accepted_def
        stored_ref_def one_target_def)
  moreover have "store_operation retired_store OPERATION_VERIFY = Inr ()"
    by (simp add: store_operation_def retired_store_def one_store_def new_demo_def demo_grant_def)
  ultimately show ?thesis using retired_snapshot by (simp add: audit_snapshot_root_v2_def)
qed

definition one_commit_receipt :: commit_receipt where
  "one_commit_receipt =
     \<lparr>cr_authorization_sha256 = filled 0x22, cr_targets_sha256 = dg_targets, cr_snapshot_before_sha256 = dg_before2,
      cr_snapshot_after_sha256 = dg_after2, cr_accounting_before = st_books retired_store,
      cr_accounting_after = new_books, cr_freed_entries = 1, cr_freed_payload_bytes = 25, cr_freed_index_bytes = 128,
      cr_freed_repair_count = 0, cr_allocator_deallocation_calls = 1, cr_commit_sha256 = dg_commit\<rparr>"

lemma one_preview: "preview_retired retired_store one_permit [one_target] = Inr one_commit_receipt"
proof -
  let ?g = "demo_grant dg_bundle"
  have permit: "validate_permit retired_store one_permit = Inr ()"
    by (simp add: validate_permit_def store_operation_def retired_store_def one_store_def new_demo_def demo_grant_def
        one_permit_def store_u64_def store_digest_def guardE_def)
  have targets: "retired_targets_root [one_target] = Inr dg_targets"
    using retired_roots(5) by (simp add: retired_targets_root_def target_key_def one_target_def store_u64_def
        store_digest_def store_hash_def)
  have freed: "foldE (free_target retired_store) \<lparr>fr_indexes = [], fr_payload_bytes = 0, fr_repairs = 0\<rparr> [one_target]
    = Inr \<lparr>fr_indexes = [0], fr_payload_bytes = 25, fr_repairs = 0\<rparr>"
    by (simp add: free_target_def store_find_def retired_store_def one_store_def stored_slot_def slot_is_def one_target_def
        slot_at_def guardE_def store_u64_def)
  have shadow: "(clear_slots [0] retired_store)\<lparr>st_books := new_books\<rparr> = (new_demo None)\<lparr>st_allocator_insertions := 1\<rparr>"
    by (simp add: clear_slots_def set_slot_def retired_store_def one_store_def new_demo_def replicate_numeral_eval)
  have after: "snapshot_root_v2_unchecked ((new_demo None)\<lparr>st_allocator_insertions := 1\<rparr>) = Inr dg_after2"
    using retired_roots(3,4) by (simp add: snapshot_defs new_demo_def new_books_def)
  have books: "books_without 1 \<lparr>fr_indexes = [0], fr_payload_bytes = 25, fr_repairs = 0\<rparr> (st_books retired_store) = new_books"
    by (simp add: books_without_def retired_store_def new_books_def)
  have root: "retired_commit_receipt_root (one_commit_receipt\<lparr>cr_commit_sha256 := []\<rparr>) = Inr dg_commit"
    using commit_root by (simp add: retired_commit_receipt_root_def one_commit_receipt_def accounting_fields_def
        retired_store_def new_books_def store_u64_def store_hash_def)
  show ?thesis
    unfolding preview_retired_def permit targets retired_audit freed bindE_simps Let_def
    using root by (simp add: shadow after books one_permit_def guardE_def one_commit_receipt_def)
      (simp add: retired_store_def)
qed

end
