(* ===== verification/Store_Properties.thy ===== *)
theory Store_Properties
  imports Store_Scenario
begin

text \<open>
  What the continuation modules promise: the bundle manifest and its totals, the object store and its
  audit, the import, the commit of retired objects, and the leases.
\<close>

section \<open>Lemmas for the properties\<close>

lemma receipt_found:
  assumes "find_slot t expected = Inr i" "slot_at t i = sl" "sl_state sl = Live"
    "blob_ref (sg_tenant_scope_sha256 (st_grant t)) (sl_payload sl) = Inr expected"
    "store_operation t OPERATION_GET = Inr ()"
  shows "store_get expected t = (Inr (sl_payload sl), t)"
  using assms by (simp add: store_get_def not_set_aside_def lift_blob_def guardE_def)

lemma find_first:
  assumes "i < length (st_slots t)" "st_slots t ! i = Some sl" "stored_ref sl = expected"
    and "\<And>j a. j < i \<Longrightarrow> st_slots t ! j = Some a \<Longrightarrow> sl_sha256 a \<noteq> br_sha256 expected"
  shows "find_slot t expected = Inr i"
proof -
  have "store_find t expected = Some i"
    unfolding store_find_def first_index_Some slot_is_iff using assms by (auto simp: stored_ref_def)
  then show ?thesis by (simp add: find_slot_def)
qed

text \<open>A put that returns leaves the object in a live slot that is the first with its digest.\<close>

lemma put_slot:
  assumes "store_put expected payload provenance s = (Inr r, t)"
  obtains i sl where "i < length (st_slots t)" "st_slots t ! i = Some sl" "stored_ref sl = expected" "sl_state sl = Live"
    "sl_payload sl = payload" "st_grant t = st_grant s"
    "blob_ref (sg_tenant_scope_sha256 (st_grant s)) payload = Inr expected"
    "\<And>j a. j < i \<Longrightarrow> st_slots t ! j = Some a \<Longrightarrow> sl_sha256 a \<noteq> br_sha256 expected"
proof (cases "first_index (slot_is (\<lambda>sl. sl_sha256 sl = br_sha256 expected)) (st_slots s)")
  case None
  with assms have m: "put_insert expected payload provenance s = (Inr r, t)"
    and b: "blob_ref (sg_tenant_scope_sha256 (st_grant s)) payload = Inr expected"
    by (auto simp: store_put_def checkS_Inr lift_blob_Inr guardE_Inr)
  from m obtain i where i: "first_index (\<lambda>v. v = None) (st_slots s) = Some i"
    "t = set_books (count_insert (br_byte_length expected))
         (set_slot i (Some (new_slot expected payload provenance)) s)
           \<lparr>st_allocator_insertions := st_allocator_insertions s + 1\<rparr>"
    by (auto simp: put_insert_def Let_def checkS_Inr split: option.splits)
  have n: "i < length (st_slots s)" using i(1) by (simp add: first_index_Some)
  have "sl_sha256 a \<noteq> br_sha256 expected" if "j < i" "st_slots t ! j = Some a" for j a
    using None that n nth_mem [of j "st_slots s"] by (auto simp: i(2) store_simps first_index_None slot_is_iff)
  then show ?thesis
    using that [of i "new_slot expected payload provenance"] n b by (simp add: i(2) store_simps new_slot_def stored_ref_def)
next
  case (Some i)
  then obtain sl where i: "i < length (st_slots s)" "st_slots s ! i = Some sl" "sl_sha256 sl = br_sha256 expected"
    "\<And>j a. j < i \<Longrightarrow> st_slots s ! j = Some a \<Longrightarrow> sl_sha256 a \<noteq> br_sha256 expected"
    by (auto simp: first_index_Some slot_is_iff)
  from assms Some have m: "put_reuse expected payload i s = (Inr r, t)"
    and b: "blob_ref (sg_tenant_scope_sha256 (st_grant s)) payload = Inr expected"
    by (auto simp: store_put_def checkS_Inr lift_blob_Inr guardE_Inr)
  have "slot_at s i = sl" using i(2) by (simp add: slot_at_def)
  with m have "sl_byte_length sl = br_byte_length expected" "sl_payload sl = payload" "sl_state sl = Live"
    "t = set_books (add_reference 1) (set_slot i (Some (sl\<lparr>sl_reference_count := sl_reference_count sl + 1\<rparr>)) s)"
    by (auto simp: put_reuse_def Let_def checkS_Inr guardE_Inr not_set_aside_Inr)
  then show ?thesis
    using that [of i "sl\<lparr>sl_reference_count := sl_reference_count sl + 1\<rparr>"] i b
    by (simp add: store_simps stored_ref_def)
qed

lemma checkS_raises: "(\<And>x. m = Inr x \<Longrightarrow> fst (f x s) \<in> range Inl) \<Longrightarrow> fst (checkS m f s) \<in> range Inl"
  by (cases m) simp_all

lemma next_is_current:
  assumes "lease_ready s i sl expected expires" "owner \<noteq> ZERO_DIGEST" "root \<noteq> ZERO_DIGEST" "expires \<noteq> 0"
  shows "current_lease (leased sl (lease_receipt_hash expected (sl_lease_generation sl + 1) owner expires root)) expected
     (next_receipt sl expected owner expires root) = Inr ()"
proof -
  have "is_u64 (sl_lease_generation sl + 1)" using assms(1) by (simp add: is_u64_def lease_ready_def)
  with assms show ?thesis
    by (simp add: current_lease_def leased_def next_receipt_def Let_def lease_receipt_root_def store_hash_def store_u64_ok
        lease_ready_def lease_receipt_hash_def)
qed

section \<open>The demonstration\<close>

text \<open>
  The demonstration of the modules returns, its bundle root, its grant root and the root of the
  snapshot after the import are the literal roots of the tests, and the import of its nine references
  adds eight entries of 255 bytes, with one reference reused.
\<close>

theorem store_demo_golden:
  "\<exists>d g s r t. build_store_demo = Inr (d, g)
     \<and> last32 (bd_encoded d) =
      [0x39, 0x0c, 0x29, 0xd5, 0x8b, 0x4c, 0xf9, 0x79, 0xf4, 0x46, 0x06, 0xf6, 0x11, 0xf1, 0x0b,
       0x81, 0x13, 0x51, 0xd8, 0x5c, 0xdb, 0xe1, 0xde, 0xda, 0xee, 0xbe, 0x7b, 0x31, 0xb8, 0x56,
       0x4c, 0xc5]
     \<and> grant_root g = Inr
      [0x1d, 0x7b, 0x76, 0x6c, 0xd0, 0x9f, 0x48, 0x42, 0x1c, 0x86, 0x38, 0x91, 0x67, 0x16, 0x29,
       0x9c, 0xbb, 0xe0, 0xd7, 0x04, 0x6a, 0xa7, 0xc2, 0x4c, 0x54, 0xb5, 0x97, 0x1c, 0x68, 0xd9,
       0x17, 0x71]
     \<and> demo_store g None = Inr s \<and> demo_import d s = (Inr r, t)
     \<and> ir_semantic_references r = 9 \<and> ir_unique_entries_added r = 8 \<and> ir_references_reused r = 1
     \<and> ir_payload_bytes_added r = 255 \<and> ac_entry_count (st_books t) = 8 \<and> ac_reference_count (st_books t) = 9
     \<and> ac_payload_bytes (st_books t) = 255 \<and> ac_logical_index_bytes (st_books t) = 1024
     \<and> ir_snapshot_sha256 r =
      [0x5e, 0xf5, 0x33, 0xc5, 0xbb, 0xf2, 0xdb, 0x21, 0x68, 0x06, 0x73, 0x6f, 0x6a, 0x12, 0xc5,
       0x95, 0x03, 0xf6, 0x68, 0xb0, 0x2e, 0x3c, 0x12, 0xdb, 0xa8, 0xdc, 0x8b, 0x50, 0x31, 0x21,
       0x86, 0x0f]"
proof (intro exI conjI)
  show "build_store_demo = Inr (the_demo, demo_grant dg_bundle)" by (rule build_demo)
  show "demo_store (demo_grant dg_bundle) None = Inr (new_demo None)" by (rule new_demo_made)
  show "demo_import the_demo (new_demo None) = (Inr demo_receipt, imported_demo)" by (rule demo_import_result)
  show "grant_root (demo_grant dg_bundle) = Inr
      [0x1d, 0x7b, 0x76, 0x6c, 0xd0, 0x9f, 0x48, 0x42, 0x1c, 0x86, 0x38, 0x91, 0x67, 0x16, 0x29,
       0x9c, 0xbb, 0xe0, 0xd7, 0x04, 0x6a, 0xa7, 0xc2, 0x4c, 0x54, 0xb5, 0x97, 0x1c, 0x68, 0xd9,
       0x17, 0x71]" by (simp only: demo_grant_root dg_grant_def)
qed (simp_all add: the_demo_def demo_last32 demo_receipt_def imported_demo_def dg_bundle_def dg_snapshot_def)

section \<open>The bundle manifest\<close>

text \<open>
  C27. The decoder accepts what the encoder writes for a capsule and its objects (when no digest of the
  bundle is zero): it returns the configuration, and its totals count the bytes of all nine payloads and,
  for the blobs, each distinct payload once.
\<close>

theorem bundle_round_trip:
  assumes "bundle_encode c w objects = Inr bs" "bundle_digests_nonzero c w objects"
  shows "\<exists>d. bundle_decode_and_verify bs c w objects = Inr d \<and> bm_config d = c \<and> length (bm_entries d) = 9
     \<and> bm_logical_payload_bytes d = sum_list (map (int o length o payload_of objects) OBJECT_NAMES)
     \<and> bm_unique_blob_count d = int (card (payload_of objects ` set OBJECT_NAMES))
     \<and> bm_unique_blob_bytes d = (\<Sum>p \<in> payload_of objects ` set OBJECT_NAMES. int (length p))
     \<and> bm_deduplicated_payload_bytes d = bm_logical_payload_bytes d - bm_unique_blob_bytes d"
proof -
  from assms(1) obtain t where t: "encode_table (bc_tenant_scope_sha256 c) objects = Inr t"
    by (auto simp: bundle_encode_iff)
  have inv: "table_inv (bc_tenant_scope_sha256 c) objects OBJECT_NAMES t" "length (tb_entries t) = 9"
    using encode_table_reads_back(1,2) [OF t] by simp_all
  show ?thesis
    using inv by (intro exI conjI) (rule bundle_reads_back [OF assms t], simp_all add: manifest_of_def table_inv_def)
qed

theorem bundle_round_trip_witness:
  "\<exists>d. bundle_decode_and_verify demo_bundle_wire demo_config demo_capsule_wire demo_objects = Inr d
     \<and> bm_logical_payload_bytes d = 280"
  using bundle_round_trip [OF demo_bundle_encodes demo_digests_nonzero]
  by (auto simp: payload_of_def OBJECT_NAMES_def demo_objects_def)

section \<open>The audit\<close>

text \<open>
  C3. In every store a run can reach, whatever the methods raised and whatever was corrupted in between,
  the audit passes exactly when every stored payload still hashes to its digest (or, if quarantined
  corruption is allowed, can still be hashed): the books and the states never fail it.
\<close>

theorem store_audit_exact:
  assumes "store_reach g s"
  shows "verify_state allow s = Inr () \<longleftrightarrow>
     (\<forall>sl. Some sl \<in> set (st_slots s) \<longrightarrow> payload_accepted (sg_tenant_scope_sha256 g) allow sl)"
proof -
  have "store_ok s" "st_grant s = g" using reach_ok [OF assms] by simp_all
  then show ?thesis using verify_state_ok [of s allow] by simp
qed

definition damaged_store :: store where
  "damaged_store = set_slot 0 (Some ((slot_at one_store 0)\<lparr>sl_payload := []\<rparr>)) one_store"

lemma damaged_reach: "store_reach (demo_grant dg_bundle) damaged_store"
  unfolding damaged_store_def
  by (rule reach_step [OF one_reach step_corrupt])
    (simp_all add: one_store_def new_demo_def stored_slot_def slot_at_def)

theorem store_audit_exact_witness:
  "verify_state False one_store = Inr () \<and> verify_state True damaged_store \<noteq> Inr ()"
proof
  show "verify_state False one_store = Inr ()"
    unfolding store_audit_exact [OF one_reach] using one_blob
    by (simp add: one_store_def stored_slot_def demo_grant_def payload_accepted_def stored_ref_def one_target_def)
  have "Some ((slot_at one_store 0)\<lparr>sl_payload := []\<rparr>) \<in> set (st_slots damaged_store)"
    by (simp add: damaged_store_def store_simps one_store_def)
  moreover have "\<not> payload_accepted (filled 0x6D) True ((slot_at one_store 0)\<lparr>sl_payload := []\<rparr>)"
    by (simp add: payload_accepted_def blob_ref_def bundle_digest_def)
  ultimately show "verify_state True damaged_store \<noteq> Inr ()"
    unfolding store_audit_exact [OF damaged_reach] by (auto simp: demo_grant_def)
qed

section \<open>The import\<close>

text \<open>
  C28. An import that raises leaves the store exactly as it was, unless all nine puts went through and only
  the snapshot root that closes the import raised; then, and only then, its objects stay.
\<close>

theorem import_is_atomic:
  assumes "import_bundle wire c w objects s = (Inl e, t)"
  shows "t = s \<or> (\<exists>d p. bundle_decode_and_verify wire c w objects = Inr d
     \<and> import_puts d objects s = ((None, p), t) \<and> snapshot_root t = Inl e)"
proof (cases "t = s")
  case False
  with assms obtain d where d: "bundle_decode_and_verify wire c w objects = Inr d" "run_import d objects s = (Inl e, t)"
    unfolding import_bundle_def by (elim checkS_cases) (auto simp: lift_blob_Inr)
  then obtain p u where p: "import_puts d objects s = ((None, p), u)"
    "finish_import (bm_envelope_sha256 d) p u = (Inl e, t)"
    using False by (auto simp: run_import_cases split: prod.splits option.splits)
  then have "u = t" "snapshot_root t = Inl e" by (auto simp: finish_import_def checkS_Inl)
  with d p show ?thesis by blast
qed simp

theorem import_is_atomic_witness:
  "demo_import the_demo (new_demo (Some 3)) = (Inl StAllocator, new_demo (Some 3))"
proof -
  obtain t where t: "demo_import the_demo (new_demo (Some 3)) = (Inl StAllocator, t)"
    using demo_puts_fail unfolding demo_import_runs
    by (cases "import_puts demo_manifest demo_objects (new_demo (Some 3))") (auto split: prod.splits option.splits)
  then have "import_bundle demo_bundle_wire demo_config demo_capsule_wire demo_objects (new_demo (Some 3)) = (Inl StAllocator, t)"
    by (simp add: demo_import_def the_demo_def)
  from import_is_atomic [OF this] demo_puts_fail have "t = new_demo (Some 3)"
    by (auto simp: demo_bundle_verifies)
  with t show ?thesis by simp
qed

text \<open>
  The remaining case happens: under a grant that allows puts but not verification, an import whose puts
  all succeed raises and keeps the objects.
\<close>

lemma import_without_verify:
  assumes "store_operation s OPERATION_PUT = Inr ()" "store_operation s OPERATION_VERIFY = Inl StDenied"
    and d: "bundle_decode_and_verify wire c w objects = Inr d" "bm_envelope_sha256 d = sg_bundle_sha256 (st_grant s)"
      "bc_tenant_scope_sha256 (bm_config d) = sg_tenant_scope_sha256 (st_grant s)"
    and puts: "import_puts d objects s = ((None, p), t)" "st_grant t = st_grant s" "st_closed t = st_closed s"
  shows "import_bundle wire c w objects s = (Inl StDenied, t)"
proof -
  have "store_operation t OPERATION_VERIFY = Inl StDenied" using assms(2) puts(2,3)
    by (simp add: store_operation_def split: if_splits)
  then have "snapshot_root t = Inl StDenied" by (simp add: snapshot_root_def verify_all_def)
  with assms show ?thesis
    by (simp add: import_bundle_def lift_blob_def guardE_def run_import_cases finish_import_def)
qed

section \<open>Objects\<close>

text \<open>
  An object that was put is returned byte for byte by a get, whether the put stored it or found it
  stored already, and the get changes nothing.
\<close>

theorem put_then_get:
  assumes "store_put expected payload provenance s = (Inr r, t)" "store_operation t OPERATION_GET = Inr ()"
  shows "store_get expected t = (Inr payload, t)"
  using assms(1)
proof (rule put_slot)
  fix i sl
  assume i: "i < length (st_slots t)" "st_slots t ! i = Some sl" "stored_ref sl = expected" "sl_state sl = Live"
    "sl_payload sl = payload" "st_grant t = st_grant s"
    "blob_ref (sg_tenant_scope_sha256 (st_grant s)) payload = Inr expected"
    and first: "\<And>j a. j < i \<Longrightarrow> st_slots t ! j = Some a \<Longrightarrow> sl_sha256 a \<noteq> br_sha256 expected"
  have "find_slot t expected = Inr i" by (rule find_first [OF i(1,2,3) first])
  then show "store_get expected t = (Inr payload, t)"
    using i assms(2) receipt_found [of t expected i sl] by (simp add: slot_at_def)
qed

theorem put_then_get_witness: "store_get one_target one_store = (Inr one_payload, one_store)"
  by (rule put_then_get [OF one_put]) (simp add: store_operation_def one_store_def new_demo_def demo_grant_def)

text \<open>
  C29. A commit of retired objects clears exactly the slots of its targets and no other slot, leaves a store
  whose audit passes, and returns a receipt that verifies (unless one of its hashes is zero or its two
  snapshots have one root).
\<close>

theorem commit_frees_exactly:
  assumes "store_reach g s" "commit_retired p ts s = (Inr r, t)"
  shows "length (st_slots t) = length (st_slots s)
     \<and> (\<forall>i < length (st_slots s). st_slots t ! i = (case st_slots s ! i of None \<Rightarrow> None
          | Some sl \<Rightarrow> if stored_ref sl \<in> set ts then None else Some sl))
     \<and> verify_state True t = Inr ()
     \<and> (cr_targets_sha256 r \<noteq> ZERO_DIGEST \<and> cr_snapshot_after_sha256 r \<noteq> ZERO_DIGEST \<and> cr_commit_sha256 r \<noteq> ZERO_DIGEST
        \<and> cr_snapshot_before_sha256 r \<noteq> cr_snapshot_after_sha256 r \<longrightarrow> verify_retired_commit_receipt r = Inr ())"
proof -
  have ok: "store_ok s" using reach_ok [OF assms(1)] by simp
  from assms(2) have p: "preview_retired s p ts = Inr r" and t: "t = committed s ts"
    by (auto simp: commit_cases split: sum.splits)
  from p obtain e where c: "distinct ts" "\<forall>u \<in> set ts. target_ok s u" "audit_snapshot_root_v2 s = Inr e"
    by (rule preview_Inr) (rule that)
  have tok: "store_ok t" unfolding t by (rule committed_ok [OF ok c(1,2)])
  have slots: "st_slots t ! i = (case st_slots s ! i of None \<Rightarrow> None
      | Some sl \<Rightarrow> if stored_ref sl \<in> set ts then None else Some sl)" if i: "i < length (st_slots s)" for i
    unfolding t committed_parts nth_clear [OF i] by (rule cleared_iff [OF ok c(2) i])
  have "verify_state True s = Inr ()" using c(3) by (auto simp: audit_snapshot_root_v2_def bindE_Inr)
  then have "verify_state True t = Inr ()"
    unfolding verify_state_ok [OF ok] verify_state_ok [OF tok] using committed_slots [of _ s ts]
    by (simp add: t committed_parts(1))
  with slots preview_verifies [OF ok p] show ?thesis by (simp add: t committed_parts)
qed

theorem commit_frees_exactly_witness:
  "\<exists>t. commit_retired one_permit [one_target] retired_store = (Inr one_commit_receipt, t)
     \<and> st_slots t ! 0 = None \<and> verify_retired_commit_receipt one_commit_receipt = Inr ()"
proof -
  have m: "commit_retired one_permit [one_target] retired_store = (Inr one_commit_receipt, committed retired_store [one_target])"
    by (rule commit_retired_result [OF one_preview])
  have "0 < length (st_slots retired_store)" by (simp add: retired_store_def)
  with commit_frees_exactly [OF retired_reach m] have "st_slots (committed retired_store [one_target]) ! 0 = None"
    "verify_retired_commit_receipt one_commit_receipt = Inr ()"
    by (auto simp: retired_store_def one_store_def stored_slot_def stored_ref_def one_target_def one_commit_receipt_def)
  with m show ?thesis by blast
qed

section \<open>Leases\<close>

text \<open>
  C30. Renewing a lease makes the receipt it replaces stale: no method accepts it any more, while the
  receipt it returns is the current one (unless the root of the lifecycle grant is zero).
\<close>

theorem renewal_makes_stale:
  assumes "store_reach g s" "renew_lease expected current lg observed expires s = (Inr new, t)"
  shows "fst (release_lease expected current lg' t) \<in> range Inl
     \<and> fst (expire_lease expected current lg' now t) \<in> range Inl
     \<and> fst (renew_lease expected current lg' now later t) \<in> range Inl
     \<and> (\<exists>i. find_slot t expected = Inr i \<and> current_lease (slot_at t i) expected current = Inl StStaleLease
        \<and> (lr_lifecycle_grant_sha256 new \<noteq> ZERO_DIGEST \<longrightarrow> current_lease (slot_at t i) expected new = Inr ()))"
proof -
  have ok: "store_ok s" using reach_ok [OF assms(1)] by simp
  from ok assms(2) obtain i sl root where g: "lease_ready s i sl expected expires" "current_lease sl expected current = Inr ()"
    "find_slot s expected = Inr i" "0 < expires" "new = next_receipt sl expected (lr_owner_sha256 current) expires root"
    "t = set_slot i (Some (leased sl (lease_receipt_hash expected (sl_lease_generation sl + 1) (lr_owner_sha256 current)
       expires root))) s"
    by (cases rule: renew_cases) auto
  have i: "i < length (st_slots s)" "st_slots s ! i = Some sl" using g(1) by (simp_all add: lease_ready_def)
  have at: "slot_at t i = leased sl (lease_receipt_hash expected (sl_lease_generation sl + 1) (lr_owner_sha256 current) expires root)"
    using i by (simp add: g(6) slot_at_def store_simps)
  have "stored_ref sl = expected"
    using g(3) i by (auto elim!: find_slot_Inr simp: stored_ref_def)
  then have "stored_ref (slot_at t i) = expected" by (simp add: at leased_def stored_ref_def)
  moreover have "sl_sha256 a \<noteq> br_sha256 expected" if "j < i" "st_slots t ! j = Some a" for j a
  proof -
    have "shas_distinct (st_slots s)" using ok by (simp add: store_ok_def)
    from this [unfolded shas_distinct_def, rule_format, of j i a sl] that i \<open>stored_ref sl = expected\<close>
    show ?thesis by (auto simp: g(6) store_simps stored_ref_def)
  qed
  ultimately have found: "find_slot t expected = Inr i"
    using i by (intro find_first [of i t "slot_at t i"]) (simp_all add: g(6) store_simps slot_at_def)
  have "lr_generation current = sl_lease_generation sl" "lr_owner_sha256 current \<noteq> ZERO_DIGEST"
    using g(2) by (auto simp: current_lease_def split: if_splits sum.splits)
  then have stale: "current_lease (slot_at t i) expected current = Inl StStaleLease"
    by (simp add: at current_lease_def leased_def split: sum.splits)
  have "current_lease (slot_at t i) expected new = Inr ()" if "lr_lifecycle_grant_sha256 new \<noteq> ZERO_DIGEST"
    unfolding at g(5) using g(1,4) \<open>lr_owner_sha256 current \<noteq> ZERO_DIGEST\<close> that
    by (intro next_is_current) (simp_all add: g(5) next_receipt_def Let_def)
  moreover have "fst (release_lease expected current lg' t) \<in> range Inl"
    "fst (expire_lease expected current lg' now t) \<in> range Inl"
    "fst (renew_lease expected current lg' now later t) \<in> range Inl"
    unfolding release_lease_def expire_lease_def renew_lease_def Let_def
    by (rule checkS_raises, simp add: found stale)+
  ultimately show ?thesis using found stale by blast
qed

theorem renewal_makes_stale_witness:
  "fst (release_lease one_target (lease_receipt_of 1 20 dg_lease1) the_lifecycle (leased_store 2 dg_lease2)) \<in> range Inl
   \<and> current_lease (slot_at (leased_store 2 dg_lease2) 0) one_target (lease_receipt_of 2 40 dg_lease2) = Inr ()"
  using renewal_makes_stale [OF leased_reach one_renewal] one_found(2) [of 2 dg_lease2]
  by (auto simp: lease_receipt_of_def)

end
