(* ===== verification/Collection.thy ===== *)
theory Collection
  imports Store_Run
begin

text \<open>
  \<open>bench/continuation_object_collection.py\<close>: the plan of a collection. Given a store, the references its
  clients hold and the leases that are active, the plan classifies every occupied slot and charges the
  retired ones as collectible; a reference or a lease that the store does not agree with is an error, so
  a plan exists only when the evidence accounts for every reference of the store.
\<close>

datatype (plugins only: code) collection_error =
    ClU64 | ClDigest | ClZeroTarget | ClGrant | ClRootOrder | ClLeaseReceipt | ClLeaseOrder | ClLeaseMismatch
  | ClClosed | ClScope | ClRootBudget | ClLeaseBudget | ClScanBudget | ClSnapshot | ClUnknownRoot
  | ClRetiredRoot | ClUnknownLease | ClDuplicateLease | ClRetiredReach | ClMultiplicity | ClCoverage
  | ClEntryBudget | ClByteBudget
  | ClStore store_error

section \<open>Checks and hashes\<close>

definition collection_u64 :: "int \<Rightarrow> collection_error + bytes" where
  "collection_u64 v = (if 0 \<le> v \<and> v \<le> U64_MAX then Inr (u64_bytes v) else Inl ClU64)"

definition collection_digest :: "bytes \<Rightarrow> collection_error + bytes" where
  "collection_digest v = (if length v \<noteq> 32 \<or> v = ZERO_DIGEST then Inl ClDigest else Inr v)"

text \<open>A hash of parts, some of which are integers whose packing may raise.\<close>

definition hash_checked :: "string \<Rightarrow> ('e + bytes) list \<Rightarrow> 'e + bytes" where
  "hash_checked domain parts =
     bindE (mapE (\<lambda>p. p) parts) (\<lambda>parts. Inr (sha_parts (store_domain domain) parts))"

lemma hash_checked_length: "hash_checked domain parts = Inr d \<Longrightarrow> length d = 32"
  by (auto simp: hash_checked_def bindE_Inr)

definition lift_store :: "store_error + 'a \<Rightarrow> collection_error + 'a" where
  "lift_store m = (case m of Inl e \<Rightarrow> Inl (ClStore e) | Inr x \<Rightarrow> Inr x)"

lemma collection_u64_Inr [result_simps]: "collection_u64 v = Inr b \<longleftrightarrow> is_u64 v \<and> b = u64_bytes v"
  by (auto simp: collection_u64_def is_u64_def)

lemma collection_digest_Inr [result_simps]:
  "collection_digest v = Inr d \<longleftrightarrow> length v = 32 \<and> v \<noteq> ZERO_DIGEST \<and> d = v"
  by (auto simp: collection_digest_def)

lemma lift_store_Inr [result_simps]: "lift_store m = Inr x \<longleftrightarrow> m = Inr x"
  by (cases m) (simp_all add: lift_store_def)

section \<open>Grants, references and leases\<close>

record collection_grant =
  kg_authority_epoch :: int
  kg_tenant_scope_sha256 :: bytes
  kg_bundle_sha256 :: bytes
  kg_store_grant_sha256 :: bytes
  kg_expected_snapshot_sha256 :: bytes
  kg_max_root_references :: int
  kg_max_lease_receipts :: int
  kg_max_slot_scans :: int
  kg_max_collectible_entries :: int
  kg_max_collectible_bytes :: int
  kg_challenge_sha256 :: bytes

definition validate_collection_grant :: "collection_grant \<Rightarrow> collection_error + unit" where
  "validate_collection_grant g =
     bindE (mapE collection_u64 [kg_authority_epoch g, kg_max_root_references g, kg_max_lease_receipts g,
       kg_max_slot_scans g, kg_max_collectible_entries g, kg_max_collectible_bytes g]) (\<lambda>_.
     bindE (mapE collection_digest [kg_tenant_scope_sha256 g, kg_bundle_sha256 g, kg_store_grant_sha256 g,
       kg_expected_snapshot_sha256 g, kg_challenge_sha256 g]) (\<lambda>_.
       guardE ClGrant (kg_authority_epoch g = 0 \<or> kg_max_slot_scans g = 0)))"

definition collection_grant_root :: "collection_grant \<Rightarrow> collection_error + bytes" where
  "collection_grant_root g = bindE (validate_collection_grant g) (\<lambda>_.
     hash_checked ''glacier-continuation-store-collection-grant-v1''
      [collection_u64 (kg_authority_epoch g), Inr (kg_tenant_scope_sha256 g), Inr (kg_bundle_sha256 g),
       Inr (kg_store_grant_sha256 g), Inr (kg_expected_snapshot_sha256 g),
       collection_u64 (kg_max_root_references g), collection_u64 (kg_max_lease_receipts g),
       collection_u64 (kg_max_slot_scans g), collection_u64 (kg_max_collectible_entries g),
       collection_u64 (kg_max_collectible_bytes g), Inr (kg_challenge_sha256 g)])"

definition collection_target_key :: "store_target \<Rightarrow> collection_error + bytes \<times> int" where
  "collection_target_key t =
     bindE (collection_u64 (br_byte_length t)) (\<lambda>_.
     bindE (collection_digest (br_sha256 t)) (\<lambda>_.
     bindE (guardE ClZeroTarget (br_byte_length t = 0)) (\<lambda>_. Inr (br_sha256 t, br_byte_length t))))"

definition lease_key :: "lease_receipt \<Rightarrow> collection_error + bytes \<times> int \<times> int \<times> bytes" where
  "lease_key r = bindE (collection_target_key (lr_target r)) (\<lambda>(sha, n).
     Inr (sha, n, lr_generation r, lr_lease_sha256 r))"

text \<open>The targets and receipts in the order of their keys, the order in which a root hashes them.\<close>

definition canonical_roots :: "store_target list \<Rightarrow> collection_error + store_target list" where
  "canonical_roots ts = bindE (mapE collection_target_key ts) (\<lambda>_.
     Inr (sort_key (\<lambda>t. (br_sha256 t, br_byte_length t)) ts))"

definition canonical_lease_receipts :: "lease_receipt list \<Rightarrow> collection_error + lease_receipt list" where
  "canonical_lease_receipts rs = bindE (mapE lease_key rs) (\<lambda>_.
     Inr (sort_key (\<lambda>r. (br_sha256 (lr_target r), br_byte_length (lr_target r), lr_generation r,
       lr_lease_sha256 r)) rs))"

definition root_references_root :: "store_target list \<Rightarrow> collection_error + bytes" where
  "root_references_root ts = bindE (mapE collection_target_key ts) (\<lambda>ks.
     bindE (guardE ClRootOrder (ks \<noteq> sort ks)) (\<lambda>_.
       hash_checked ''glacier-continuation-store-collection-roots-v1''
        (collection_u64 (int (length ts))
         # concat (map (\<lambda>t. [collection_u64 (br_byte_length t), Inr (br_sha256 t)]) ts))))"

definition collection_lease_root :: "lease_receipt \<Rightarrow> collection_error + bytes" where
  "collection_lease_root r =
     bindE (collection_target_key (lr_target r)) (\<lambda>_.
     bindE (collection_u64 (lr_generation r)) (\<lambda>_.
     bindE (collection_digest (lr_owner_sha256 r)) (\<lambda>_.
     bindE (collection_u64 (lr_expires_at_tick r)) (\<lambda>_.
     bindE (collection_digest (lr_lifecycle_grant_sha256 r)) (\<lambda>_.
     bindE (guardE ClLeaseReceipt (lr_generation r = 0 \<or> lr_expires_at_tick r = 0)) (\<lambda>_.
       hash_checked ''glacier-continuation-store-lease-receipt-v1''
        [collection_u64 (br_byte_length (lr_target r)), Inr (br_sha256 (lr_target r)),
         collection_u64 (lr_generation r), Inr (lr_owner_sha256 r), collection_u64 (lr_expires_at_tick r),
         Inr (lr_lifecycle_grant_sha256 r)]))))))"

definition checked_lease :: "lease_receipt \<Rightarrow> collection_error + bytes" where
  "checked_lease r = bindE (collection_lease_root r) (\<lambda>computed.
     bindE (guardE ClLeaseMismatch (lr_lease_sha256 r \<noteq> computed)) (\<lambda>_. Inr (lr_lease_sha256 r)))"

definition lease_receipts_root :: "lease_receipt list \<Rightarrow> collection_error + bytes" where
  "lease_receipts_root rs = bindE (mapE lease_key rs) (\<lambda>ks.
     bindE (guardE ClLeaseOrder (ks \<noteq> sort ks)) (\<lambda>_.
       hash_checked ''glacier-continuation-store-collection-leases-v1''
        (collection_u64 (int (length rs)) # map checked_lease rs)))"

section \<open>The plan\<close>

datatype (plugins only: code) slot_class = Reachable | Leased | Set_Aside | Collectible

definition class_id :: "slot_class \<Rightarrow> int" where
  "class_id c = (case c of Reachable \<Rightarrow> 1 | Leased \<Rightarrow> 2 | Set_Aside \<Rightarrow> 3 | Collectible \<Rightarrow> 4)"

record decision =
  de_slot_index :: nat
  de_class :: slot_class
  de_target :: store_target
  de_reference_count :: int
  de_lease_generation :: int
  de_repair_generation :: int

record collection_counters =
  kc_reachable_entries :: int
  kc_reachable_references :: int
  kc_leased_entries :: int
  kc_leased_references :: int
  kc_quarantined_entries :: int
  kc_quarantined_references :: int
  kc_collectible_entries :: int
  kc_collectible_bytes :: int

record collection_receipt =
  kr_collection_grant_sha256 :: bytes
  kr_snapshot_sha256 :: bytes
  kr_root_references_sha256 :: bytes
  kr_lease_receipts_sha256 :: bytes
  kr_slot_scans :: int
  kr_occupied_entries :: int
  kr_root_reference_count :: int
  kr_lease_receipt_count :: int
  kr_counters :: collection_counters
  kr_plan_sha256 :: bytes

definition counter_list :: "collection_counters \<Rightarrow> int list" where
  "counter_list c = [kc_reachable_entries c, kc_reachable_references c, kc_leased_entries c,
     kc_leased_references c, kc_quarantined_entries c, kc_quarantined_references c,
     kc_collectible_entries c, kc_collectible_bytes c]"

definition decision_parts :: "decision \<Rightarrow> (collection_error + bytes) list" where
  "decision_parts d = [collection_u64 (int (de_slot_index d)), collection_u64 (class_id (de_class d)),
     collection_u64 (br_byte_length (de_target d)), Inr (br_sha256 (de_target d)),
     collection_u64 (de_reference_count d), collection_u64 (de_lease_generation d),
     collection_u64 (de_repair_generation d)]"

definition collection_plan_root :: "collection_receipt \<Rightarrow> decision list \<Rightarrow> collection_error + bytes" where
  "collection_plan_root r ds =
     hash_checked ''glacier-continuation-store-collection-plan-v1''
      ([Inr (kr_collection_grant_sha256 r), Inr (kr_snapshot_sha256 r), Inr (kr_root_references_sha256 r),
        Inr (kr_lease_receipts_sha256 r)]
       @ map collection_u64 ([kr_slot_scans r, kr_occupied_entries r, kr_root_reference_count r,
           kr_lease_receipt_count r] @ counter_list (kr_counters r))
       @ concat (map decision_parts ds))"

text \<open>
  The references per slot: \<open>roots_per_slot[index] += 1\<close> for each reference, which must name a stored
  object that is not retired.
\<close>

definition count_root :: "store \<Rightarrow> int list \<Rightarrow> store_target \<Rightarrow> collection_error + int list" where
  "count_root s roots t =
    (case store_find s t of None \<Rightarrow> Inl ClUnknownRoot
     | Some i \<Rightarrow>
       bindE (guardE ClRetiredRoot (sl_state (slot_at s i) = Retired)) (\<lambda>_.
       bindE (collection_u64 (roots ! i + 1)) (\<lambda>_. Inr (roots[i := roots ! i + 1]))))"

text \<open>The leases per slot: at most one receipt for a slot, and that the current one.\<close>

definition mark_lease :: "store \<Rightarrow> bool list \<Rightarrow> lease_receipt \<Rightarrow> collection_error + bool list" where
  "mark_lease s leases r =
    (case store_find s (lr_target r) of None \<Rightarrow> Inl ClUnknownLease
     | Some i \<Rightarrow>
       bindE (guardE ClDuplicateLease (leases ! i)) (\<lambda>_.
       let sl = slot_at s i in
       if \<not> sl_lease_active sl then Inl ClLeaseMismatch
       else bindE (collection_lease_root r) (\<lambda>root.
         bindE (guardE ClLeaseMismatch (root \<noteq> lr_lease_sha256 r \<or> lr_generation r \<noteq> sl_lease_generation sl
           \<or> lr_lease_sha256 r \<noteq> sl_lease_receipt_sha256 sl)) (\<lambda>_. Inr (leases[i := True])))))"

definition check_reach :: "store_slot \<Rightarrow> int \<Rightarrow> bool \<Rightarrow> collection_error + unit" where
  "check_reach sl roots marked =
     bindE (if sl_state sl = Retired
            then guardE ClRetiredReach (roots \<noteq> 0 \<or> sl_reference_count sl \<noteq> 0 \<or> marked \<or> sl_lease_active sl)
            else guardE ClMultiplicity (roots \<noteq> sl_reference_count sl)) (\<lambda>_.
     guardE ClCoverage (sl_lease_active sl \<noteq> marked))"

definition slot_class_of :: "store_slot \<Rightarrow> slot_class" where
  "slot_class_of sl = (case sl_state sl of Quarantined \<Rightarrow> Set_Aside | Retired \<Rightarrow> Collectible
     | Live \<Rightarrow> if sl_lease_active sl then Leased else Reachable)"

definition count_class :: "slot_class \<Rightarrow> store_slot \<Rightarrow> collection_counters \<Rightarrow> collection_counters" where
  "count_class c sl k = (case c of
      Reachable \<Rightarrow> k\<lparr>kc_reachable_entries := kc_reachable_entries k + 1,
        kc_reachable_references := kc_reachable_references k + sl_reference_count sl\<rparr>
    | Leased \<Rightarrow> k\<lparr>kc_leased_entries := kc_leased_entries k + 1,
        kc_leased_references := kc_leased_references k + sl_reference_count sl\<rparr>
    | Set_Aside \<Rightarrow> k\<lparr>kc_quarantined_entries := kc_quarantined_entries k + 1,
        kc_quarantined_references := kc_quarantined_references k + sl_reference_count sl\<rparr>
    | Collectible \<Rightarrow> k\<lparr>kc_collectible_entries := kc_collectible_entries k + 1,
        kc_collectible_bytes := kc_collectible_bytes k + sl_byte_length sl\<rparr>)"

definition decision_of :: "nat \<Rightarrow> store_slot \<Rightarrow> decision" where
  "decision_of i sl = \<lparr>de_slot_index = i, de_class = slot_class_of sl,
     de_target = \<lparr>br_byte_length = sl_byte_length sl, br_sha256 = sl_sha256 sl\<rparr>,
     de_reference_count = sl_reference_count sl, de_lease_generation = sl_lease_generation sl,
     de_repair_generation = sl_repair_generation sl\<rparr>"

definition decide :: "int list \<Rightarrow> bool list \<Rightarrow> collection_counters \<times> decision list \<Rightarrow> nat \<times> store_slot
    \<Rightarrow> collection_error + collection_counters \<times> decision list" where
  "decide roots leases = (\<lambda>(k, ds) (i, sl).
     bindE (check_reach sl (roots ! i) (leases ! i)) (\<lambda>_.
       Inr (count_class (slot_class_of sl) sl k, ds @ [decision_of i sl])))"

definition no_counts :: collection_counters where
  "no_counts = \<lparr>kc_reachable_entries = 0, kc_reachable_references = 0, kc_leased_entries = 0,
     kc_leased_references = 0, kc_quarantined_entries = 0, kc_quarantined_references = 0,
     kc_collectible_entries = 0, kc_collectible_bytes = 0\<rparr>"

definition collection_scope :: "store \<Rightarrow> collection_grant \<Rightarrow> store_target list \<Rightarrow> lease_receipt list
    \<Rightarrow> collection_error + unit" where
  "collection_scope s g refs leases =
     bindE (validate_collection_grant g) (\<lambda>_.
     bindE (guardE ClClosed (st_closed s)) (\<lambda>_.
     bindE (guardE ClScope (kg_authority_epoch g \<noteq> sg_authority_epoch (st_grant s)
       \<or> kg_tenant_scope_sha256 g \<noteq> sg_tenant_scope_sha256 (st_grant s)
       \<or> kg_bundle_sha256 g \<noteq> sg_bundle_sha256 (st_grant s)
       \<or> kg_store_grant_sha256 g \<noteq> st_grant_sha256 s)) (\<lambda>_.
     bindE (guardE ClRootBudget (int (length refs) > kg_max_root_references g)) (\<lambda>_.
     bindE (guardE ClLeaseBudget (int (length leases) > kg_max_lease_receipts g)) (\<lambda>_.
       guardE ClScanBudget (st_capacity s > kg_max_slot_scans g))))))"

definition plan_decisions :: "store \<Rightarrow> store_target list \<Rightarrow> lease_receipt list
    \<Rightarrow> collection_error + collection_counters \<times> decision list" where
  "plan_decisions s refs leases =
     bindE (foldE (count_root s) (replicate (nat (st_capacity s)) 0) refs) (\<lambda>roots.
     bindE (foldE (mark_lease s) (replicate (nat (st_capacity s)) False) leases) (\<lambda>marks.
       foldE (decide roots marks) (no_counts, []) (occupied (st_slots s))))"

definition plan_collection :: "store \<Rightarrow> collection_grant \<Rightarrow> store_target list \<Rightarrow> lease_receipt list
    \<Rightarrow> collection_error + collection_receipt \<times> decision list" where
  "plan_collection s g refs leases =
     bindE (collection_scope s g refs leases) (\<lambda>_.
     bindE (lift_store (audit_snapshot_root_v2 s)) (\<lambda>snapshot.
     bindE (guardE ClSnapshot (snapshot \<noteq> kg_expected_snapshot_sha256 g)) (\<lambda>_.
     bindE (root_references_root refs) (\<lambda>roots_sha256.
     bindE (lease_receipts_root leases) (\<lambda>leases_sha256.
     bindE (plan_decisions s refs leases) (\<lambda>(k, ds).
     bindE (guardE ClEntryBudget (kc_collectible_entries k > kg_max_collectible_entries g)) (\<lambda>_.
     bindE (guardE ClByteBudget (kc_collectible_bytes k > kg_max_collectible_bytes g)) (\<lambda>_.
     bindE (collection_grant_root g) (\<lambda>grant_sha256.
       let r = \<lparr>kr_collection_grant_sha256 = grant_sha256, kr_snapshot_sha256 = snapshot,
           kr_root_references_sha256 = roots_sha256, kr_lease_receipts_sha256 = leases_sha256,
           kr_slot_scans = st_capacity s, kr_occupied_entries = ac_entry_count (st_books s),
           kr_root_reference_count = int (length refs), kr_lease_receipt_count = int (length leases),
           kr_counters = k, kr_plan_sha256 = []\<rparr> in
       bindE (collection_plan_root r ds) (\<lambda>root. Inr (r\<lparr>kr_plan_sha256 := root\<rparr>, ds)))))))))))"

section \<open>The demonstration grant\<close>

definition demo_collection_grant :: "store \<Rightarrow> collection_error + collection_grant" where
  "demo_collection_grant s = bindE (lift_store (audit_snapshot_root_v2 s)) (\<lambda>snapshot.
     Inr \<lparr>kg_authority_epoch = sg_authority_epoch (st_grant s),
       kg_tenant_scope_sha256 = sg_tenant_scope_sha256 (st_grant s),
       kg_bundle_sha256 = sg_bundle_sha256 (st_grant s), kg_store_grant_sha256 = st_grant_sha256 s,
       kg_expected_snapshot_sha256 = snapshot, kg_max_root_references = 16, kg_max_lease_receipts = 4,
       kg_max_slot_scans = st_capacity s, kg_max_collectible_entries = 2, kg_max_collectible_bytes = 128,
       kg_challenge_sha256 = replicate 32 0xE8\<rparr>)"

end
