(* ===== verification/Sweep.thy ===== *)
theory Sweep
  imports Collection
begin

text \<open>
  \<open>bench/continuation_object_sweep.py\<close>: the journal of a sweep. A sweep is prepared against the plan of a
  collection, which the journal binds together with the snapshot it was made of; it is then aborted, or
  committed, which frees the collectible objects of the plan in the store. A grant limits the preparation
  and a second grant the commit.
\<close>

datatype (plugins only: code) sweep_error =
    SwU64 | SwDigest | SwGrant | SwCommitGrant | SwClosed | SwScope | SwCommitScope | SwCommitJournal
  | SwAlreadyPrepared | SwEmptyJournal | SwNotPrepared | SwPreparedJournal | SwPrepareRoot | SwState
  | SwAbortMissing | SwAbortRoot | SwSnapshot | SwPlan | SwNothing | SwBudget | SwCommitBudget | SwPreview
  | SwReceipt
  | SwStore store_error
  | SwCollection collection_error

definition sweep_u64 :: "int \<Rightarrow> sweep_error + bytes" where
  "sweep_u64 v = (if 0 \<le> v \<and> v \<le> U64_MAX then Inr (u64_bytes v) else Inl SwU64)"

definition sweep_digest :: "bytes \<Rightarrow> sweep_error + bytes" where
  "sweep_digest v = (if length v \<noteq> 32 \<or> v = ZERO_DIGEST then Inl SwDigest else Inr v)"

definition of_store :: "store_error + 'a \<Rightarrow> sweep_error + 'a" where
  "of_store m = (case m of Inl e \<Rightarrow> Inl (SwStore e) | Inr x \<Rightarrow> Inr x)"

definition of_collection :: "collection_error + 'a \<Rightarrow> sweep_error + 'a" where
  "of_collection m = (case m of Inl e \<Rightarrow> Inl (SwCollection e) | Inr x \<Rightarrow> Inr x)"

lemma sweep_u64_Inr [result_simps]: "sweep_u64 v = Inr b \<longleftrightarrow> is_u64 v \<and> b = u64_bytes v"
  by (auto simp: sweep_u64_def is_u64_def)

lemma sweep_digest_Inr [result_simps]:
  "sweep_digest v = Inr d \<longleftrightarrow> length v = 32 \<and> v \<noteq> ZERO_DIGEST \<and> d = v"
  by (auto simp: sweep_digest_def)

lemma of_store_Inr [result_simps]: "of_store m = Inr x \<longleftrightarrow> m = Inr x"
  by (cases m) (simp_all add: of_store_def)

lemma of_collection_Inr [result_simps]: "of_collection m = Inr x \<longleftrightarrow> m = Inr x"
  by (cases m) (simp_all add: of_collection_def)

section \<open>Grants\<close>

record sweep_grant =
  wg_authority_epoch :: int
  wg_tenant_scope_sha256 :: bytes
  wg_bundle_sha256 :: bytes
  wg_store_grant_sha256 :: bytes
  wg_expected_snapshot_sha256 :: bytes
  wg_collection_plan_sha256 :: bytes
  wg_max_staged_entries :: int
  wg_max_staged_bytes :: int
  wg_challenge_sha256 :: bytes

record sweep_commit_grant =
  xg_authority_epoch :: int
  xg_tenant_scope_sha256 :: bytes
  xg_bundle_sha256 :: bytes
  xg_store_grant_sha256 :: bytes
  xg_sweep_grant_sha256 :: bytes
  xg_prepare_sha256 :: bytes
  xg_expected_snapshot_sha256 :: bytes
  xg_collection_plan_sha256 :: bytes
  xg_max_freed_entries :: int
  xg_max_freed_bytes :: int
  xg_challenge_sha256 :: bytes

definition validate_sweep_grant :: "sweep_grant \<Rightarrow> sweep_error + unit" where
  "validate_sweep_grant g =
     bindE (mapE sweep_u64 [wg_authority_epoch g, wg_max_staged_entries g, wg_max_staged_bytes g]) (\<lambda>_.
     bindE (mapE sweep_digest [wg_tenant_scope_sha256 g, wg_bundle_sha256 g, wg_store_grant_sha256 g,
       wg_expected_snapshot_sha256 g, wg_collection_plan_sha256 g, wg_challenge_sha256 g]) (\<lambda>_.
       guardE SwGrant (wg_authority_epoch g = 0 \<or> wg_max_staged_entries g = 0 \<or> wg_max_staged_bytes g = 0)))"

definition sweep_grant_root :: "sweep_grant \<Rightarrow> sweep_error + bytes" where
  "sweep_grant_root g = bindE (validate_sweep_grant g) (\<lambda>_.
     hash_checked ''glacier-continuation-store-sweep-grant-v1''
      [sweep_u64 (wg_authority_epoch g), Inr (wg_tenant_scope_sha256 g), Inr (wg_bundle_sha256 g),
       Inr (wg_store_grant_sha256 g), Inr (wg_expected_snapshot_sha256 g), Inr (wg_collection_plan_sha256 g),
       sweep_u64 (wg_max_staged_entries g), sweep_u64 (wg_max_staged_bytes g), Inr (wg_challenge_sha256 g)])"

definition validate_commit_grant :: "sweep_commit_grant \<Rightarrow> sweep_error + unit" where
  "validate_commit_grant g =
     bindE (mapE sweep_u64 [xg_authority_epoch g, xg_max_freed_entries g, xg_max_freed_bytes g]) (\<lambda>_.
     bindE (mapE sweep_digest [xg_tenant_scope_sha256 g, xg_bundle_sha256 g, xg_store_grant_sha256 g,
       xg_sweep_grant_sha256 g, xg_prepare_sha256 g, xg_expected_snapshot_sha256 g,
       xg_collection_plan_sha256 g, xg_challenge_sha256 g]) (\<lambda>_.
       guardE SwCommitGrant (xg_authority_epoch g = 0 \<or> xg_max_freed_entries g = 0 \<or> xg_max_freed_bytes g = 0)))"

definition sweep_commit_grant_root :: "sweep_commit_grant \<Rightarrow> sweep_error + bytes" where
  "sweep_commit_grant_root g = bindE (validate_commit_grant g) (\<lambda>_.
     hash_checked ''glacier-continuation-store-sweep-commit-grant-v1''
      [sweep_u64 (xg_authority_epoch g), Inr (xg_tenant_scope_sha256 g), Inr (xg_bundle_sha256 g),
       Inr (xg_store_grant_sha256 g), Inr (xg_sweep_grant_sha256 g), Inr (xg_prepare_sha256 g),
       Inr (xg_expected_snapshot_sha256 g), Inr (xg_collection_plan_sha256 g),
       sweep_u64 (xg_max_freed_entries g), sweep_u64 (xg_max_freed_bytes g), Inr (xg_challenge_sha256 g)])"

section \<open>The journal and the receipts\<close>

text \<open>
  What a preparation seals; an abort adds its root, and a journal the root of an abort and its state. The
  state is a string, as in the code, and one that is none of the three known ones is an error.
\<close>

record prepare_receipt =
  sp_sweep_grant_sha256 :: bytes
  sp_collection_plan_sha256 :: bytes
  sp_snapshot_sha256 :: bytes
  sp_staged_entries :: int
  sp_staged_bytes :: int
  sp_prepare_sha256 :: bytes

record abort_receipt = prepare_receipt +
  sp_abort_sha256 :: bytes

record sweep_journal = abort_receipt +
  sp_state :: string

record sweep_receipt =
  sr_commit_grant_sha256 :: bytes
  sr_sweep_grant_sha256 :: bytes
  sr_prepare_sha256 :: bytes
  sr_collection_plan_sha256 :: bytes
  sr_targets_sha256 :: bytes
  sr_snapshot_before_sha256 :: bytes
  sr_snapshot_after_sha256 :: bytes
  sr_store_commit_sha256 :: bytes
  sr_freed_entries :: int
  sr_freed_payload_bytes :: int
  sr_freed_index_bytes :: int
  sr_freed_repair_count :: int
  sr_allocator_deallocation_calls :: int
  sr_commit_sha256 :: bytes

definition empty_journal :: sweep_journal where
  "empty_journal = \<lparr>sp_sweep_grant_sha256 = ZERO_DIGEST, sp_collection_plan_sha256 = ZERO_DIGEST,
     sp_snapshot_sha256 = ZERO_DIGEST, sp_staged_entries = 0, sp_staged_bytes = 0,
     sp_prepare_sha256 = ZERO_DIGEST, sp_abort_sha256 = ZERO_DIGEST, sp_state = ''empty''\<rparr>"

definition sweep_prepare_root :: "'a prepare_receipt_scheme \<Rightarrow> sweep_error + bytes" where
  "sweep_prepare_root r =
     hash_checked ''glacier-continuation-store-sweep-prepare-v1''
      [Inr (sp_sweep_grant_sha256 r), Inr (sp_collection_plan_sha256 r), Inr (sp_snapshot_sha256 r),
       sweep_u64 (sp_staged_entries r), sweep_u64 (sp_staged_bytes r)]"

definition sweep_abort_root :: "'a prepare_receipt_scheme \<Rightarrow> sweep_error + bytes" where
  "sweep_abort_root r =
     hash_checked ''glacier-continuation-store-sweep-abort-v1''
      [Inr (sp_sweep_grant_sha256 r), Inr (sp_collection_plan_sha256 r), Inr (sp_snapshot_sha256 r),
       sweep_u64 (sp_staged_entries r), sweep_u64 (sp_staged_bytes r), Inr (sp_prepare_sha256 r)]"

definition freed_fields :: "sweep_receipt \<Rightarrow> int list" where
  "freed_fields r = [sr_freed_entries r, sr_freed_payload_bytes r, sr_freed_index_bytes r,
     sr_freed_repair_count r, sr_allocator_deallocation_calls r]"

definition sweep_commit_root :: "sweep_receipt \<Rightarrow> sweep_error + bytes" where
  "sweep_commit_root r =
     hash_checked ''glacier-continuation-store-sweep-commit-v1''
      ([Inr (sr_commit_grant_sha256 r), Inr (sr_sweep_grant_sha256 r), Inr (sr_prepare_sha256 r),
        Inr (sr_collection_plan_sha256 r), Inr (sr_targets_sha256 r), Inr (sr_snapshot_before_sha256 r),
        Inr (sr_snapshot_after_sha256 r), Inr (sr_store_commit_sha256 r)]
       @ map sweep_u64 (freed_fields r))"

section \<open>Scope and journal checks\<close>

definition ensure_sweep_grant :: "store \<Rightarrow> sweep_grant \<Rightarrow> sweep_error + bytes" where
  "ensure_sweep_grant s g =
     bindE (sweep_grant_root g) (\<lambda>root.
     bindE (guardE SwClosed (st_closed s)) (\<lambda>_.
     bindE (guardE SwScope (wg_authority_epoch g \<noteq> sg_authority_epoch (st_grant s)
       \<or> wg_tenant_scope_sha256 g \<noteq> sg_tenant_scope_sha256 (st_grant s)
       \<or> wg_bundle_sha256 g \<noteq> sg_bundle_sha256 (st_grant s)
       \<or> wg_store_grant_sha256 g \<noteq> st_grant_sha256 s)) (\<lambda>_. Inr root)))"

definition ensure_commit_grant ::
  "store \<Rightarrow> sweep_grant \<Rightarrow> bytes \<Rightarrow> sweep_commit_grant \<Rightarrow> sweep_journal \<Rightarrow> sweep_error + bytes" where
  "ensure_commit_grant s g sweep_root x j =
     bindE (sweep_commit_grant_root x) (\<lambda>root.
     bindE (guardE SwClosed (st_closed s)) (\<lambda>_.
     bindE (guardE SwCommitScope (xg_authority_epoch x \<noteq> sg_authority_epoch (st_grant s)
       \<or> xg_tenant_scope_sha256 x \<noteq> sg_tenant_scope_sha256 (st_grant s)
       \<or> xg_bundle_sha256 x \<noteq> sg_bundle_sha256 (st_grant s)
       \<or> xg_store_grant_sha256 x \<noteq> st_grant_sha256 s)) (\<lambda>_.
     bindE (guardE SwCommitJournal (xg_sweep_grant_sha256 x \<noteq> sweep_root
       \<or> xg_prepare_sha256 x \<noteq> sp_prepare_sha256 j
       \<or> xg_expected_snapshot_sha256 x \<noteq> sp_snapshot_sha256 j
       \<or> xg_collection_plan_sha256 x \<noteq> sp_collection_plan_sha256 j
       \<or> xg_max_freed_entries x > wg_max_staged_entries g
       \<or> xg_max_freed_bytes x > wg_max_staged_bytes g)) (\<lambda>_. Inr root))))"

definition ensure_empty_journal :: "sweep_journal \<Rightarrow> sweep_error + unit" where
  "ensure_empty_journal j =
    (if j = empty_journal then Inr ()
     else if sp_state j \<noteq> ''empty'' then Inl SwAlreadyPrepared else Inl SwEmptyJournal)"

definition verify_prepared_journal :: "sweep_grant \<Rightarrow> bytes \<Rightarrow> sweep_journal \<Rightarrow> sweep_error + unit" where
  "verify_prepared_journal g sweep_root j =
     bindE (guardE SwNotPrepared (sp_state j \<noteq> ''prepared'')) (\<lambda>_.
     bindE (guardE SwPreparedJournal (sp_abort_sha256 j \<noteq> ZERO_DIGEST
       \<or> sp_staged_entries j = 0 \<or> sp_staged_bytes j = 0
       \<or> sp_staged_entries j > wg_max_staged_entries g \<or> sp_staged_bytes j > wg_max_staged_bytes g
       \<or> sp_sweep_grant_sha256 j \<noteq> sweep_root
       \<or> sp_collection_plan_sha256 j \<noteq> wg_collection_plan_sha256 g
       \<or> sp_snapshot_sha256 j \<noteq> wg_expected_snapshot_sha256 g)) (\<lambda>_.
     bindE (sweep_prepare_root j) (\<lambda>root. guardE SwPrepareRoot (root \<noteq> sp_prepare_sha256 j))))"

definition verify_journal :: "sweep_grant \<Rightarrow> sweep_journal \<Rightarrow> sweep_error + unit" where
  "verify_journal g j =
     bindE (sweep_grant_root g) (\<lambda>root.
       if sp_state j = ''empty'' then ensure_empty_journal j
       else if sp_state j = ''prepared'' then verify_prepared_journal g root j
       else bindE (guardE SwState (sp_state j \<noteq> ''aborted'')) (\<lambda>_.
         bindE (verify_prepared_journal g root (j\<lparr>sp_state := ''prepared'', sp_abort_sha256 := ZERO_DIGEST\<rparr>)) (\<lambda>_.
         bindE (guardE SwAbortMissing (sp_abort_sha256 j = ZERO_DIGEST)) (\<lambda>_.
         bindE (sweep_abort_root j) (\<lambda>abort. guardE SwAbortRoot (abort \<noteq> sp_abort_sha256 j))))))"

section \<open>Preparing and aborting\<close>

definition sweep_prepare ::
  "store \<Rightarrow> sweep_grant \<Rightarrow> collection_grant \<Rightarrow> store_target list \<Rightarrow> lease_receipt list \<Rightarrow> sweep_journal
    \<Rightarrow> sweep_error + sweep_journal \<times> prepare_receipt \<times> collection_receipt" where
  "sweep_prepare s g kg refs leases current =
     bindE (ensure_empty_journal current) (\<lambda>_.
     bindE (ensure_sweep_grant s g) (\<lambda>root.
     bindE (guardE SwSnapshot (kg_expected_snapshot_sha256 kg \<noteq> wg_expected_snapshot_sha256 g)) (\<lambda>_.
     bindE (of_collection (plan_collection s kg refs leases)) (\<lambda>(plan, ds).
     let entries = kc_collectible_entries (kr_counters plan); n = kc_collectible_bytes (kr_counters plan) in
     bindE (guardE SwSnapshot (kr_snapshot_sha256 plan \<noteq> wg_expected_snapshot_sha256 g)) (\<lambda>_.
     bindE (guardE SwPlan (kr_plan_sha256 plan \<noteq> wg_collection_plan_sha256 g)) (\<lambda>_.
     bindE (guardE SwNothing (entries = 0 \<or> n = 0)) (\<lambda>_.
     bindE (guardE SwBudget (entries > wg_max_staged_entries g \<or> n > wg_max_staged_bytes g)) (\<lambda>_.
     bindE (of_store (audit_snapshot_root_v2 s)) (\<lambda>snapshot_after.
     bindE (guardE SwSnapshot (snapshot_after \<noteq> wg_expected_snapshot_sha256 g)) (\<lambda>_.
       let r = \<lparr>sp_sweep_grant_sha256 = root, sp_collection_plan_sha256 = kr_plan_sha256 plan,
           sp_snapshot_sha256 = snapshot_after, sp_staged_entries = entries, sp_staged_bytes = n,
           sp_prepare_sha256 = []\<rparr> in
       bindE (sweep_prepare_root r) (\<lambda>prepare.
         let r = r\<lparr>sp_prepare_sha256 := prepare\<rparr> in
         Inr (prepare_receipt.extend r \<lparr>sp_abort_sha256 = ZERO_DIGEST, sp_state = ''prepared''\<rparr>, r, plan))))))))))))"

definition sweep_abort :: "store \<Rightarrow> sweep_grant \<Rightarrow> sweep_journal \<Rightarrow> sweep_error + sweep_journal \<times> abort_receipt" where
  "sweep_abort s g current =
     bindE (ensure_sweep_grant s g) (\<lambda>root.
     bindE (verify_prepared_journal g root current) (\<lambda>_.
     bindE (of_store (audit_snapshot_root_v2 s)) (\<lambda>snapshot.
     bindE (guardE SwSnapshot (snapshot \<noteq> wg_expected_snapshot_sha256 g)) (\<lambda>_.
       let r = \<lparr>sp_sweep_grant_sha256 = sp_sweep_grant_sha256 current,
           sp_collection_plan_sha256 = sp_collection_plan_sha256 current, sp_snapshot_sha256 = snapshot,
           sp_staged_entries = sp_staged_entries current, sp_staged_bytes = sp_staged_bytes current,
           sp_prepare_sha256 = sp_prepare_sha256 current\<rparr> in
       bindE (sweep_abort_root r) (\<lambda>abort.
         Inr (current\<lparr>sp_state := ''aborted'', sp_abort_sha256 := abort\<rparr>,
           prepare_receipt.extend r \<lparr>sp_abort_sha256 = abort\<rparr>))))))"

section \<open>Committing\<close>

record sweep_preview =
  sv_commit_grant :: sweep_commit_grant
  sv_permit :: commit_permit
  sv_targets :: "store_target list"
  sv_receipt :: sweep_receipt
  sv_store_receipt :: commit_receipt

definition permit_of :: "sweep_commit_grant \<Rightarrow> bytes \<Rightarrow> commit_permit" where
  "permit_of x root = \<lparr>cp_authority_epoch = xg_authority_epoch x,
     cp_tenant_scope_sha256 = xg_tenant_scope_sha256 x, cp_bundle_sha256 = xg_bundle_sha256 x,
     cp_store_grant_sha256 = xg_store_grant_sha256 x,
     cp_expected_snapshot_sha256 = xg_expected_snapshot_sha256 x, cp_authorization_sha256 = root,
     cp_max_freed_entries = xg_max_freed_entries x, cp_max_freed_bytes = xg_max_freed_bytes x\<rparr>"

definition receipt_of :: "bytes \<Rightarrow> bytes \<Rightarrow> sweep_journal \<Rightarrow> commit_receipt \<Rightarrow> sweep_receipt" where
  "receipt_of commit_grant_sha256 sweep_root j c = \<lparr>sr_commit_grant_sha256 = commit_grant_sha256,
     sr_sweep_grant_sha256 = sweep_root, sr_prepare_sha256 = sp_prepare_sha256 j,
     sr_collection_plan_sha256 = sp_collection_plan_sha256 j, sr_targets_sha256 = cr_targets_sha256 c,
     sr_snapshot_before_sha256 = cr_snapshot_before_sha256 c,
     sr_snapshot_after_sha256 = cr_snapshot_after_sha256 c, sr_store_commit_sha256 = cr_commit_sha256 c,
     sr_freed_entries = cr_freed_entries c, sr_freed_payload_bytes = cr_freed_payload_bytes c,
     sr_freed_index_bytes = cr_freed_index_bytes c, sr_freed_repair_count = cr_freed_repair_count c,
     sr_allocator_deallocation_calls = cr_allocator_deallocation_calls c, sr_commit_sha256 = []\<rparr>"

definition collectible_targets :: "decision list \<Rightarrow> store_target list" where
  "collectible_targets ds = map de_target (filter (\<lambda>d. de_class d = Collectible) ds)"

definition sweep_preview_commit ::
  "store \<Rightarrow> sweep_grant \<Rightarrow> sweep_commit_grant \<Rightarrow> collection_grant \<Rightarrow> store_target list \<Rightarrow> lease_receipt list
    \<Rightarrow> sweep_journal \<Rightarrow> sweep_error + sweep_preview" where
  "sweep_preview_commit s g x kg refs leases current =
     bindE (ensure_sweep_grant s g) (\<lambda>sweep_root.
     bindE (verify_prepared_journal g sweep_root current) (\<lambda>_.
     bindE (ensure_commit_grant s g sweep_root x current) (\<lambda>grant_sha256.
     bindE (guardE SwCommitJournal (kg_expected_snapshot_sha256 kg \<noteq> sp_snapshot_sha256 current)) (\<lambda>_.
     bindE (of_collection (plan_collection s kg refs leases)) (\<lambda>(plan, ds).
     bindE (guardE SwCommitJournal (kr_plan_sha256 plan \<noteq> sp_collection_plan_sha256 current
       \<or> kr_plan_sha256 plan \<noteq> xg_collection_plan_sha256 x
       \<or> kr_snapshot_sha256 plan \<noteq> sp_snapshot_sha256 current)) (\<lambda>_.
     bindE (of_collection (canonical_roots (collectible_targets ds))) (\<lambda>targets.
     let n = int (length targets); target_bytes = sum_list (map br_byte_length targets) in
     bindE (sweep_u64 target_bytes) (\<lambda>_.
     bindE (guardE SwCommitJournal (n \<noteq> sp_staged_entries current \<or> target_bytes \<noteq> sp_staged_bytes current
       \<or> n \<noteq> kc_collectible_entries (kr_counters plan)
       \<or> target_bytes \<noteq> kc_collectible_bytes (kr_counters plan))) (\<lambda>_.
     bindE (guardE SwCommitBudget (n > xg_max_freed_entries x \<or> target_bytes > xg_max_freed_bytes x)) (\<lambda>_.
     bindE (of_store (preview_retired s (permit_of x grant_sha256) targets)) (\<lambda>c.
     bindE (sweep_commit_root (receipt_of grant_sha256 sweep_root current c)) (\<lambda>root.
       Inr \<lparr>sv_commit_grant = x, sv_permit = permit_of x grant_sha256, sv_targets = targets,
         sv_receipt = (receipt_of grant_sha256 sweep_root current c)\<lparr>sr_commit_sha256 := root\<rparr>,
         sv_store_receipt = c\<rparr>))))))))))))"

definition verify_commit_receipt :: "sweep_commit_grant \<Rightarrow> sweep_receipt \<Rightarrow> commit_receipt \<Rightarrow> sweep_error + unit" where
  "verify_commit_receipt x r c =
     bindE (sweep_commit_grant_root x) (\<lambda>root.
     bindE (case verify_retired_commit_receipt c of Inl _ \<Rightarrow> Inl SwReceipt | Inr _ \<Rightarrow> Inr ()) (\<lambda>_.
     bindE (guardE SwReceipt (sr_commit_grant_sha256 r \<noteq> root
       \<or> sr_sweep_grant_sha256 r \<noteq> xg_sweep_grant_sha256 x
       \<or> sr_prepare_sha256 r \<noteq> xg_prepare_sha256 x
       \<or> sr_collection_plan_sha256 r \<noteq> xg_collection_plan_sha256 x
       \<or> sr_snapshot_before_sha256 r \<noteq> xg_expected_snapshot_sha256 x
       \<or> cr_authorization_sha256 c \<noteq> root)) (\<lambda>_.
     bindE (of_store (retired_commit_receipt_root c)) (\<lambda>store_root.
     bindE (guardE SwReceipt (cr_commit_sha256 c \<noteq> store_root
       \<or> sr_targets_sha256 r \<noteq> cr_targets_sha256 c
       \<or> sr_snapshot_before_sha256 r \<noteq> cr_snapshot_before_sha256 c
       \<or> sr_snapshot_after_sha256 r \<noteq> cr_snapshot_after_sha256 c
       \<or> sr_store_commit_sha256 r \<noteq> cr_commit_sha256 c
       \<or> sr_freed_entries r \<noteq> cr_freed_entries c
       \<or> sr_freed_payload_bytes r \<noteq> cr_freed_payload_bytes c
       \<or> sr_freed_index_bytes r \<noteq> cr_freed_index_bytes c
       \<or> sr_freed_repair_count r \<noteq> cr_freed_repair_count c
       \<or> sr_allocator_deallocation_calls r \<noteq> cr_allocator_deallocation_calls c
       \<or> sr_freed_entries r > xg_max_freed_entries x
       \<or> sr_freed_payload_bytes r > xg_max_freed_bytes x)) (\<lambda>_.
     bindE (sweep_commit_root r) (\<lambda>commit. guardE SwReceipt (sr_commit_sha256 r \<noteq> commit)))))))"

text \<open>
  \<open>commit_preview\<close> turns a \<open>StoreError\<close> of the store into its own error, and lets an
  \<open>AssertionError\<close> through.
\<close>

definition preview_error :: "store_error \<Rightarrow> sweep_error" where
  "preview_error e = (if e = StAssertion then SwStore e else SwPreview)"

definition check_preview :: "sweep_preview \<Rightarrow> sweep_error + unit" where
  "check_preview v =
     bindE (verify_commit_receipt (sv_commit_grant v) (sv_receipt v) (sv_store_receipt v)) (\<lambda>_.
     bindE (guardE SwPreview (sv_targets v = [])) (\<lambda>_.
     bindE (case retired_targets_root (sv_targets v) of Inl _ \<Rightarrow> Inl SwPreview | Inr d \<Rightarrow> Inr d) (\<lambda>d.
       guardE SwPreview (d \<noteq> sr_targets_sha256 (sv_receipt v)))))"

definition sweep_commit_preview :: "sweep_preview \<Rightarrow> store \<Rightarrow> (sweep_error + sweep_receipt \<times> commit_receipt) \<times> store" where
  "sweep_commit_preview v s =
    (case check_preview v of Inl e \<Rightarrow> (Inl e, s)
     | Inr _ \<Rightarrow>
       case commit_retired_preview (sv_permit v) (sv_targets v) (sv_store_receipt v) s of
         (Inl e, t) \<Rightarrow> (Inl (preview_error e), t)
       | (Inr actual, t) \<Rightarrow> (if actual \<noteq> sv_store_receipt v then Inl SwPreview
           else Inr (sv_receipt v, sv_store_receipt v), t))"

definition sweep_commit ::
  "sweep_grant \<Rightarrow> sweep_commit_grant \<Rightarrow> collection_grant \<Rightarrow> store_target list \<Rightarrow> lease_receipt list
    \<Rightarrow> sweep_journal \<Rightarrow> store \<Rightarrow> (sweep_error + sweep_receipt \<times> commit_receipt) \<times> store" where
  "sweep_commit g x kg refs leases current s =
    (case sweep_preview_commit s g x kg refs leases current of Inl e \<Rightarrow> (Inl e, s)
     | Inr v \<Rightarrow> sweep_commit_preview v s)"

section \<open>The demonstration grants\<close>

definition demo_sweep_grant :: "store \<Rightarrow> bytes \<Rightarrow> sweep_error + sweep_grant" where
  "demo_sweep_grant s plan_sha256 = bindE (of_store (audit_snapshot_root_v2 s)) (\<lambda>snapshot.
     Inr \<lparr>wg_authority_epoch = sg_authority_epoch (st_grant s),
       wg_tenant_scope_sha256 = sg_tenant_scope_sha256 (st_grant s),
       wg_bundle_sha256 = sg_bundle_sha256 (st_grant s), wg_store_grant_sha256 = st_grant_sha256 s,
       wg_expected_snapshot_sha256 = snapshot, wg_collection_plan_sha256 = plan_sha256,
       wg_max_staged_entries = 2, wg_max_staged_bytes = 128, wg_challenge_sha256 = replicate 32 0xD4\<rparr>)"

definition demo_commit_grant :: "store \<Rightarrow> sweep_grant \<Rightarrow> sweep_journal \<Rightarrow> sweep_error + sweep_commit_grant" where
  "demo_commit_grant s g prepared = bindE (sweep_grant_root g) (\<lambda>root.
     Inr \<lparr>xg_authority_epoch = sg_authority_epoch (st_grant s),
       xg_tenant_scope_sha256 = sg_tenant_scope_sha256 (st_grant s),
       xg_bundle_sha256 = sg_bundle_sha256 (st_grant s), xg_store_grant_sha256 = st_grant_sha256 s,
       xg_sweep_grant_sha256 = root, xg_prepare_sha256 = sp_prepare_sha256 prepared,
       xg_expected_snapshot_sha256 = sp_snapshot_sha256 prepared,
       xg_collection_plan_sha256 = sp_collection_plan_sha256 prepared, xg_max_freed_entries = 2,
       xg_max_freed_bytes = 128, xg_challenge_sha256 = replicate 32 0xD7\<rparr>)"

end
