(* ===== verification/Collection_Facts.thy ===== *)
theory Collection_Facts
  imports Collection
begin

text \<open>
  What a plan that was returned says of its store: every reference of every object is one of the references
  given, every active lease has its receipt, every occupied slot is decided once, and the counters are the
  books of the store by class.
\<close>

section \<open>The slot of a target\<close>

lemma find_stored:
  assumes ok: "store_ok s" and i: "i < length (st_slots s)" "st_slots s ! i = Some sl"
  shows "store_find s t = Some i \<longleftrightarrow> t = stored_ref sl"
proof
  assume "store_find s t = Some i"
  from found_target(2,3) [OF this] i show "t = stored_ref sl" by simp
next
  assume t: "t = stored_ref sl"
  have d: "shas_distinct (st_slots s)" using ok by (simp add: store_ok_def)
  have "\<not> slot_is (\<lambda>a. sl_byte_length a = br_byte_length t \<and> sl_sha256 a = br_sha256 t) (st_slots s ! j)"
    if "j < i" for j
    using d [unfolded shas_distinct_def, rule_format, of j i _ sl] that i t
    by (auto simp: slot_is_iff stored_ref_def)
  with i t show "store_find s t = Some i"
    by (simp add: store_find_def first_index_Some slot_is_def stored_ref_def)
qed

lemma found_slot_at: "store_find s t = Some i \<Longrightarrow> slot_at s i = target_slot s t"
  by (simp add: target_slot_def)

section \<open>The references per slot\<close>

definition names_slot :: "store \<Rightarrow> nat \<Rightarrow> store_target \<Rightarrow> bool" where
  "names_slot s i t \<longleftrightarrow> store_find s t = Some i"

lemma sum_list_bump: "i < length xs \<Longrightarrow> sum_list (xs[i := xs ! i + 1]) = sum_list xs + (1::int)"
proof (induction xs arbitrary: i)
  case (Cons x xs)
  then show ?case by (cases i) simp_all
qed simp

lemma count_roots:
  assumes "foldE (count_root s) roots refs = Inr roots'" "length roots = length (st_slots s)"
  shows "length roots' = length roots
     \<and> (\<forall>i < length roots. roots' ! i = roots ! i + int (length (filter (names_slot s i) refs)))
     \<and> sum_list roots' = sum_list roots + int (length refs)"
  using assms
proof (induction refs arbitrary: roots)
  case (Cons t refs)
  from Cons.prems obtain mid where m: "count_root s roots t = Inr mid" "foldE (count_root s) mid refs = Inr roots'"
    by (auto simp: bindE_Inr)
  then obtain i where i: "store_find s t = Some i" "mid = roots[i := roots ! i + 1]"
    by (auto simp: count_root_def result_simps split: option.splits)
  have l: "i < length roots" using found_target(1) [OF i(1)] Cons.prems(2) by simp
  have "sum_list mid = sum_list roots + 1" using l by (simp add: i(2) sum_list_bump)
  with Cons.IH [OF m(2)] Cons.prems(2) i l show ?case
    by (auto simp: names_slot_def nth_list_update)
qed simp

lemma roots_live:
  "foldE (count_root s) roots refs = Inr roots' \<Longrightarrow> t \<in> set refs \<Longrightarrow>
     target_slot s t = sl \<Longrightarrow> store_find s t \<noteq> None \<and> sl_state sl \<noteq> Retired"
proof (induction refs arbitrary: roots)
  case (Cons u refs)
  from Cons.prems obtain mid where m: "count_root s roots u = Inr mid" "foldE (count_root s) mid refs = Inr roots'"
    by (auto simp: bindE_Inr)
  show ?case
  proof (cases "t = u")
    case True
    with m(1) Cons.prems show ?thesis
      by (auto simp: count_root_def result_simps target_slot_def split: option.splits)
  next
    case False
    with Cons m show ?thesis by simp
  qed
qed simp

lemma count_stored:
  assumes "store_ok s" "i < length (st_slots s)" "st_slots s ! i = Some sl"
  shows "length (filter (names_slot s i) refs) = count_list refs (stored_ref sl)"
  using find_stored [OF assms] by (induction refs) (auto simp: names_slot_def)

lemma count_free: "st_slots s ! i = None \<Longrightarrow> filter (names_slot s i) refs = []"
  using found_target(2) [of s _ i] by (auto simp: names_slot_def filter_empty_conv)

section \<open>The leases per slot\<close>

definition current_receipt :: "store \<Rightarrow> nat \<Rightarrow> lease_receipt \<Rightarrow> bool" where
  "current_receipt s i r \<longleftrightarrow> store_find s (lr_target r) = Some i \<and> sl_lease_active (slot_at s i)
     \<and> lr_generation r = sl_lease_generation (slot_at s i)
     \<and> lr_lease_sha256 r = sl_lease_receipt_sha256 (slot_at s i)"

lemma mark_leases:
  assumes "foldE (mark_lease s) marks rs = Inr marks'" "length marks = length (st_slots s)"
  shows "length marks' = length marks \<and> (\<forall>i < length marks.
      (marks' ! i \<longleftrightarrow> marks ! i \<or> (\<exists>r \<in> set rs. current_receipt s i r)))
     \<and> (\<forall>r \<in> set rs. \<exists>i. current_receipt s i r)"
  using assms
proof (induction rs arbitrary: marks)
  case (Cons r rs)
  from Cons.prems obtain mid where m: "mark_lease s marks r = Inr mid" "foldE (mark_lease s) mid rs = Inr marks'"
    by (auto simp: bindE_Inr)
  then obtain i where i: "store_find s (lr_target r) = Some i" "mid = marks[i := True]" "current_receipt s i r"
    by (auto simp: mark_lease_def Let_def result_simps current_receipt_def split: option.splits if_splits)
  have l: "i < length marks" using found_target(1) [OF i(1)] Cons.prems(2) by simp
  have mid: "mid ! k \<longleftrightarrow> marks ! k \<or> current_receipt s k r" if "k < length marks" for k
  proof (cases "k = i")
    case False
    then have "\<not> current_receipt s k r" using i(1) by (simp add: current_receipt_def)
    with False show ?thesis by (simp add: i(2))
  qed (use i l in simp)
  have "length mid = length marks" by (simp add: i(2))
  with Cons.IH [OF m(2)] Cons.prems(2) have IH: "length marks' = length marks"
    "\<And>k. k < length marks \<Longrightarrow> marks' ! k \<longleftrightarrow> mid ! k \<or> (\<exists>r \<in> set rs. current_receipt s k r)"
    "\<And>q. q \<in> set rs \<Longrightarrow> \<exists>k. current_receipt s k q"
    by simp_all
  show ?case using IH mid i(3) by auto
qed simp

section \<open>The decisions\<close>

lemma occupied_snoc: "occupied (vs @ [v]) = occupied vs @ (case v of None \<Rightarrow> [] | Some sl \<Rightarrow> [(length vs, sl)])"
  by (cases v) (simp_all add: occupied_def enumerate_append_eq)

lemma enumerated: "(i, v) \<in> set (enumerate 0 vs) \<longleftrightarrow> i < length vs \<and> vs ! i = v"
  by (simp add: in_set_enumerate_eq)

lemma occupied_iff: "(i, sl) \<in> set (occupied vs) \<longleftrightarrow> i < length vs \<and> vs ! i = Some sl"
proof
  assume "(i, sl) \<in> set (occupied vs)"
  then obtain v where "(i, v) \<in> set (enumerate 0 vs)" "v \<noteq> None" "the v = sl"
    unfolding occupied_def by auto
  then show "i < length vs \<and> vs ! i = Some sl" unfolding enumerated by auto
next
  assume "i < length vs \<and> vs ! i = Some sl"
  then have "(i, Some sl) \<in> set (enumerate 0 vs)" unfolding enumerated by simp
  then show "(i, sl) \<in> set (occupied vs)" unfolding occupied_def by force
qed

lemma decide_pair: "decide roots marks (k, ds) (i, sl) =
    bindE (check_reach sl (roots ! i) (marks ! i)) (\<lambda>_.
      Inr (count_class (slot_class_of sl) sl k, ds @ [decision_of i sl]))"
  by (simp add: decide_def)

lemma decides:
  "foldE (decide roots marks) (k, ds) xs = Inr (k', ds') \<longleftrightarrow>
     (\<forall>(i, sl) \<in> set xs. check_reach sl (roots ! i) (marks ! i) = Inr ())
     \<and> k' = fold (\<lambda>(i, sl). count_class (slot_class_of sl) sl) xs k
     \<and> ds' = ds @ map (\<lambda>(i, sl). decision_of i sl) xs"
proof (induction xs arbitrary: k ds)
  case (Cons x xs)
  show ?case by (cases x) (auto simp: decide_pair bindE_Inr Cons.IH)
qed auto

definition counters_of :: "store_slot option list \<Rightarrow> collection_counters" where
  "counters_of vs =
    (let entries = (\<lambda>c. slot_sum (\<lambda>sl. if slot_class_of sl = c then 1 else 0) vs);
         refs = (\<lambda>c. slot_sum (\<lambda>sl. if slot_class_of sl = c then sl_reference_count sl else 0) vs) in
     \<lparr>kc_reachable_entries = entries Reachable, kc_reachable_references = refs Reachable,
       kc_leased_entries = entries Leased, kc_leased_references = refs Leased,
       kc_quarantined_entries = entries Set_Aside, kc_quarantined_references = refs Set_Aside,
       kc_collectible_entries = entries Collectible,
       kc_collectible_bytes = slot_sum (\<lambda>sl. if slot_class_of sl = Collectible then sl_byte_length sl else 0) vs\<rparr>)"

lemma slot_sum_snoc [simp]: "slot_sum f (vs @ [v]) = slot_sum f vs + of_slot f v"
  by (simp add: slot_sum_def)

lemma counts_are_sums: "fold (\<lambda>(i, sl). count_class (slot_class_of sl) sl) (occupied vs) no_counts = counters_of vs"
proof (induction vs rule: rev_induct)
  case (snoc v vs)
  show ?case
  proof (cases v)
    case (Some sl)
    have "fold (\<lambda>(i, sl). count_class (slot_class_of sl) sl) (occupied (vs @ [v])) no_counts
        = count_class (slot_class_of sl) sl (counters_of vs)"
      by (simp add: occupied_snoc snoc.IH Some)
    also have "\<dots> = counters_of (vs @ [v])"
      by (cases "slot_class_of sl") (simp_all add: Some counters_of_def count_class_def Let_def)
    finally show ?thesis .
  qed (simp add: occupied_snoc snoc.IH counters_of_def)
qed (simp add: occupied_def counters_of_def no_counts_def)

lemma check_reach_Inr [result_simps]:
  "check_reach sl roots marked = Inr u \<longleftrightarrow> sl_lease_active sl = marked
     \<and> (if sl_state sl = Retired then roots = 0 \<and> sl_reference_count sl = 0 \<and> \<not> marked
        else roots = sl_reference_count sl)"
  by (auto simp: check_reach_def result_simps)

section \<open>A returned plan\<close>

lemma plan_Inr:
  assumes "plan_collection s g refs leases = Inr (r, ds)"
  obtains snapshot roots_sha leases_sha roots marks grant root where
    "collection_scope s g refs leases = Inr ()"
    "audit_snapshot_root_v2 s = Inr (kg_expected_snapshot_sha256 g)"
    "root_references_root refs = Inr roots_sha" "lease_receipts_root leases = Inr leases_sha"
    "foldE (count_root s) (replicate (nat (st_capacity s)) 0) refs = Inr roots"
    "foldE (mark_lease s) (replicate (nat (st_capacity s)) False) leases = Inr marks"
    "\<forall>(i, sl) \<in> set (occupied (st_slots s)). check_reach sl (roots ! i) (marks ! i) = Inr ()"
    "ds = map (\<lambda>(i, sl). decision_of i sl) (occupied (st_slots s))"
    "kr_counters r = counters_of (st_slots s)" "kr_snapshot_sha256 r = kg_expected_snapshot_sha256 g"
    "kr_root_reference_count r = int (length refs)" "kr_lease_receipt_count r = int (length leases)"
    "kr_occupied_entries r = ac_entry_count (st_books s)" "kr_slot_scans r = st_capacity s"
    "kc_collectible_entries (kr_counters r) \<le> kg_max_collectible_entries g"
    "kc_collectible_bytes (kr_counters r) \<le> kg_max_collectible_bytes g"
proof -
  from assms obtain snapshot roots_sha leases_sha roots marks k grant root where p:
    "collection_scope s g refs leases = Inr ()" "audit_snapshot_root_v2 s = Inr snapshot"
    "snapshot = kg_expected_snapshot_sha256 g"
    "root_references_root refs = Inr roots_sha" "lease_receipts_root leases = Inr leases_sha"
    "foldE (count_root s) (replicate (nat (st_capacity s)) 0) refs = Inr roots"
    "foldE (mark_lease s) (replicate (nat (st_capacity s)) False) leases = Inr marks"
    "foldE (decide roots marks) (no_counts, []) (occupied (st_slots s)) = Inr (k, ds)"
    "kc_collectible_entries k \<le> kg_max_collectible_entries g"
    "kc_collectible_bytes k \<le> kg_max_collectible_bytes g"
    "r = \<lparr>kr_collection_grant_sha256 = grant, kr_snapshot_sha256 = snapshot,
       kr_root_references_sha256 = roots_sha, kr_lease_receipts_sha256 = leases_sha,
       kr_slot_scans = st_capacity s, kr_occupied_entries = ac_entry_count (st_books s),
       kr_root_reference_count = int (length refs), kr_lease_receipt_count = int (length leases),
       kr_counters = k, kr_plan_sha256 = root\<rparr>"
    unfolding plan_collection_def plan_decisions_def Let_def
    by (auto simp: bindE_Inr guardE_Inr lift_store_Inr split: prod.splits)
  from p(8) have d: "\<forall>(i, sl) \<in> set (occupied (st_slots s)). check_reach sl (roots ! i) (marks ! i) = Inr ()"
    "k = counters_of (st_slots s)" "ds = map (\<lambda>(i, sl). decision_of i sl) (occupied (st_slots s))"
    by (auto simp: decides counts_are_sums)
  show thesis using that [OF p(1) _ p(4,5,6,7) d(1,3)] p d(2) by simp
qed

lemma counters_books:
  assumes ok: "store_ok s"
  shows "let k = counters_of (st_slots s); a = st_books s in
     kc_reachable_entries k + kc_leased_entries k = ac_live_entries a
     \<and> kc_leased_entries k = ac_active_leases a \<and> kc_quarantined_entries k = ac_quarantined_entries a
     \<and> kc_collectible_entries k = ac_retired_entries a
     \<and> kc_reachable_references k + kc_leased_references k + kc_quarantined_references k = ac_reference_count a"
proof -
  let ?vs = "st_slots s"
  have b: "st_books s = books_of ?vs" and sl: "Some sl \<in> set ?vs \<Longrightarrow> slot_ok (st_grant s) sl" for sl
    using ok by (simp_all add: store_ok_def)
  show ?thesis unfolding Let_def counters_of_def b books_of_def collection_counters.simps accounting.simps
      slot_sum_add [symmetric]
    by (intro conjI slot_sum_cong) (auto simp: slot_class_of_def slot_ok_def dest!: sl split: slot_state.splits)
qed

lemma plan_references:
  assumes ok: "store_ok s" and roots: "foldE (count_root s) (replicate (nat (st_capacity s)) 0) refs = Inr roots"
    and reach: "\<forall>(i, sl) \<in> set (occupied (st_slots s)). check_reach sl (roots ! i) (marks ! i) = Inr ()"
  shows "int (length refs) = ac_reference_count (st_books s)"
    and "i < length (st_slots s) \<Longrightarrow> st_slots s ! i = Some sl \<Longrightarrow>
      int (count_list refs (stored_ref sl)) = sl_reference_count sl"
proof -
  have c: "nat (st_capacity s) = length (st_slots s)" using ok by (simp add: store_ok_def)
  have z: "sum_list (replicate n 0) = (0::int)" for n by (induction n) simp_all
  from count_roots [OF roots] c have r: "length roots = length (st_slots s)"
    "sum_list roots = int (length refs)"
    "\<And>i. i < length (st_slots s) \<Longrightarrow> roots ! i = int (length (filter (names_slot s i) refs))"
    by (simp_all add: z)
  have count: "roots ! i = sl_reference_count sl" if "i < length (st_slots s)" "st_slots s ! i = Some sl" for i sl
  proof -
    have "check_reach sl (roots ! i) (marks ! i) = Inr ()" using that reach by (auto simp: occupied_iff)
    then show ?thesis by (auto simp: check_reach_Inr split: if_splits)
  qed
  have "roots ! i = of_slot sl_reference_count (st_slots s ! i)" if "i < length (st_slots s)" for i
    using that count [of i] r(3) [of i] count_free [of s i refs] by (cases "st_slots s ! i") simp_all
  then have "roots = map (of_slot sl_reference_count) (st_slots s)" using r(1) by (intro nth_equalityI) simp_all
  then have "sum_list roots = slot_sum sl_reference_count (st_slots s)" by (simp add: slot_sum_def)
  with r(2) ok show "int (length refs) = ac_reference_count (st_books s)" by (simp add: store_ok_def books_of_def)
  assume i: "i < length (st_slots s)" "st_slots s ! i = Some sl"
  show "int (count_list refs (stored_ref sl)) = sl_reference_count sl"
    using count [OF i] r(3) [OF i(1)] count_stored [OF ok i] by simp
qed

lemma plan_leases:
  assumes ok: "store_ok s" and marks: "foldE (mark_lease s) (replicate (nat (st_capacity s)) False) leases = Inr marks"
    and reach: "\<forall>(i, sl) \<in> set (occupied (st_slots s)). check_reach sl (roots ! i) (marks ! i) = Inr ()"
    and i: "i < length (st_slots s)" "st_slots s ! i = Some sl"
  shows "sl_lease_active sl \<longleftrightarrow> (\<exists>r \<in> set leases. lr_target r = stored_ref sl
     \<and> lr_generation r = sl_lease_generation sl \<and> lr_lease_sha256 r = sl_lease_receipt_sha256 sl)"
proof -
  have "nat (st_capacity s) = length (st_slots s)" using ok by (simp add: store_ok_def)
  with mark_leases [OF marks] i have m: "marks ! i \<longleftrightarrow> (\<exists>r \<in> set leases. current_receipt s i r)"
    "\<And>r. r \<in> set leases \<Longrightarrow> \<exists>i. current_receipt s i r" by simp_all
  have "check_reach sl (roots ! i) (marks ! i) = Inr ()" using i reach by (auto simp: occupied_iff)
  then have a: "sl_lease_active sl = marks ! i" by (simp add: check_reach_Inr)
  have at: "slot_at s i = sl" using i by (simp add: slot_at_def)
  have c: "current_receipt s i r \<longleftrightarrow> sl_lease_active sl \<and> lr_target r = stored_ref sl
      \<and> lr_generation r = sl_lease_generation sl \<and> lr_lease_sha256 r = sl_lease_receipt_sha256 sl" for r
    by (auto simp: current_receipt_def at find_stored [OF ok i])
  have "sl_lease_active sl" if r: "r \<in> set leases" "lr_target r = stored_ref sl" for r
  proof -
    from m(2) [OF r(1)] obtain k where k: "current_receipt s k r" ..
    then have "store_find s (stored_ref sl) = Some k" using r(2) by (simp add: current_receipt_def)
    then have "k = i" using find_stored [OF ok i, of "stored_ref sl"] by simp
    with k show ?thesis by (simp add: c)
  qed
  with a m(1) show ?thesis unfolding c by blast
qed

section \<open>The collectible targets\<close>

lemma decision_class [simp]:
  "de_class (decision_of i sl) = slot_class_of sl" "de_target (decision_of i sl) = stored_ref sl"
  by (simp_all add: decision_of_def stored_ref_def)

lemma collectible_class: "slot_class_of sl = Collectible \<longleftrightarrow> sl_state sl = Retired"
  by (simp add: slot_class_of_def split: slot_state.splits)

lemma filter_decisions: "map de_target (filter (\<lambda>d. de_class d = c) (map (\<lambda>(i, sl). decision_of i sl) xs)) =
    map (stored_ref o snd) (filter (\<lambda>(i, sl). slot_class_of sl = c) xs)"
proof (induction xs)
  case (Cons x xs)
  then show ?case by (cases x) simp
qed simp

lemma snd_occupied: "map snd (occupied vs) = map the (filter (\<lambda>v. v \<noteq> None) vs)"
proof (induction vs rule: rev_induct)
  case (snoc v vs)
  then show ?case by (cases v) (simp_all add: occupied_snoc)
qed (simp add: occupied_def)

lemma slot_sum_occupied: "slot_sum f vs = sum_list (map (f o snd) (occupied vs))"
proof (induction vs rule: rev_induct)
  case (snoc v vs)
  then show ?case by (cases v) (simp_all add: occupied_snoc)
qed (simp add: occupied_def)

end
