(* ===== verification/Sweep_Facts.thy ===== *)
theory Sweep_Facts
  imports Sweep Collection_Facts
begin

text \<open>
  What a sweep does to a well-formed store. A commit frees the retired objects, all of them and nothing
  else, and can be made once: it leaves a store whose snapshot is not the one the journal was made of. A
  call that raises leaves the store as it was.
\<close>

section \<open>The targets of a commit\<close>

lemma canonical_roots_Inr:
  assumes "canonical_roots ts = Inr us"
  shows "us = sort_key (\<lambda>t. (br_sha256 t, br_byte_length t)) ts"
  using assms by (auto simp: canonical_roots_def bindE_Inr)

lemma occupied_member: "Some sl \<in> set vs \<longleftrightarrow> (\<exists>i. (i, sl) \<in> set (occupied vs))"
  unfolding occupied_iff by (auto simp: in_set_conv_nth)

lemma collectible_set:
  "set (collectible_targets (map (\<lambda>(i, sl). decision_of i sl) (occupied vs))) =
     {stored_ref sl | sl. Some sl \<in> set vs \<and> sl_state sl = Retired}"
proof -
  have "set (collectible_targets (map (\<lambda>(i, sl). decision_of i sl) (occupied vs))) =
      {stored_ref sl | i sl. (i, sl) \<in> set (occupied vs) \<and> sl_state sl = Retired}"
    unfolding collectible_targets_def filter_decisions by (force simp: collectible_class)
  also have "\<dots> = {stored_ref sl | sl. Some sl \<in> set vs \<and> sl_state sl = Retired}"
    unfolding occupied_member by blast
  finally show ?thesis .
qed

section \<open>The outcome of a commit\<close>

lemma sweep_preview_Inr:
  assumes "sweep_preview_commit s g x kg refs leases j = Inr v"
  obtains root plan ds where "sweep_commit_grant_root x = Inr root" "plan_collection s kg refs leases = Inr (plan, ds)"
    "kg_expected_snapshot_sha256 kg = sp_snapshot_sha256 j" "xg_expected_snapshot_sha256 x = sp_snapshot_sha256 j"
    "sv_commit_grant v = x" "sv_permit v = permit_of x root"
    "sv_targets v = sort_key (\<lambda>t. (br_sha256 t, br_byte_length t)) (collectible_targets ds)"
    "preview_retired s (permit_of x root) (sv_targets v) = Inr (sv_store_receipt v)"
    "sp_state j = ''prepared''" "kr_plan_sha256 plan = sp_collection_plan_sha256 j"
    "int (length (sv_targets v)) = sp_staged_entries j"
    "sum_list (map br_byte_length (sv_targets v)) = sp_staged_bytes j"
proof -
  from assms obtain sweep_root root plan ds ts c commit where p:
    "verify_prepared_journal g sweep_root j = Inr ()" "ensure_commit_grant s g sweep_root x j = Inr root"
    "kg_expected_snapshot_sha256 kg = sp_snapshot_sha256 j" "plan_collection s kg refs leases = Inr (plan, ds)"
    "kr_plan_sha256 plan = sp_collection_plan_sha256 j" "canonical_roots (collectible_targets ds) = Inr ts"
    "int (length ts) = sp_staged_entries j" "sum_list (map br_byte_length ts) = sp_staged_bytes j"
    "preview_retired s (permit_of x root) ts = Inr c"
    "v = \<lparr>sv_commit_grant = x, sv_permit = permit_of x root, sv_targets = ts,
         sv_receipt = (receipt_of root sweep_root j c)\<lparr>sr_commit_sha256 := commit\<rparr>, sv_store_receipt = c\<rparr>"
    unfolding sweep_preview_commit_def Let_def
    by (auto simp: bindE_Inr guardE_Inr of_collection_Inr of_store_Inr)
  have g: "sweep_commit_grant_root x = Inr root" "xg_expected_snapshot_sha256 x = sp_snapshot_sha256 j"
    using p(2) by (auto simp: ensure_commit_grant_def result_simps)
  have st: "sp_state j = ''prepared''" using p(1) by (auto simp: verify_prepared_journal_def result_simps)
  show thesis
    by (rule that [OF g(1) p(4) p(3) g(2)]) (use p(5,7,8,9) canonical_roots_Inr [OF p(6)] st in \<open>simp_all add: p(10)\<close>)
qed

lemma check_preview_Inr:
  "check_preview v = Inr () \<Longrightarrow> verify_commit_receipt (sv_commit_grant v) (sv_receipt v) (sv_store_receipt v) = Inr ()"
  by (auto simp: check_preview_def bindE_Inr)

lemma receipt_snapshots:
  "verify_commit_receipt x r c = Inr () \<Longrightarrow>
     verify_retired_commit_receipt c = Inr () \<and> cr_snapshot_before_sha256 c \<noteq> cr_snapshot_after_sha256 c"
  by (auto simp: verify_commit_receipt_def verify_retired_commit_receipt_def bindE_Inr Let_def
      split: sum.splits if_splits)

lemma sweep_commit_cases:
  "sweep_commit g x kg refs leases j s =
    (case sweep_preview_commit s g x kg refs leases j of Inl e \<Rightarrow> (Inl e, s)
     | Inr v \<Rightarrow> (case check_preview v of Inl e \<Rightarrow> (Inl e, s)
         | Inr _ \<Rightarrow> (Inr (sv_receipt v, sv_store_receipt v), committed s (sv_targets v))))"
proof (cases "sweep_preview_commit s g x kg refs leases j")
  case (Inr v)
  then have "preview_retired s (sv_permit v) (sv_targets v) = Inr (sv_store_receipt v)"
    by (rule sweep_preview_Inr) simp
  then show ?thesis
    by (simp add: sweep_commit_def Inr sweep_commit_preview_def commit_preview_cases split: sum.splits)
qed (simp add: sweep_commit_def)

lemma sweep_commit_keeps_on_error: "sweep_commit g x kg refs leases j s = (Inl e, t) \<Longrightarrow> t = s"
  by (auto simp: sweep_commit_cases split: sum.splits)

lemma sweep_commit_Inr:
  assumes "sweep_commit g x kg refs leases j s = (Inr (r, c), t)"
  obtains v plan ds root where "sweep_preview_commit s g x kg refs leases j = Inr v" "check_preview v = Inr ()"
    "r = sv_receipt v" "c = sv_store_receipt v" "t = committed s (sv_targets v)"
  using assms by (auto simp: sweep_commit_cases split: sum.splits)

lemma sweep_clears:
  assumes ok: "store_ok s" and c: "sweep_commit g x kg refs leases j s = (Inr (r, c), t)"
    and i: "i < length (st_slots s)"
  shows "st_slots t ! i = (case st_slots s ! i of None \<Rightarrow> None
    | Some sl \<Rightarrow> if sl_state sl = Retired then None else Some sl)"
proof -
  from c obtain v where v: "sweep_preview_commit s g x kg refs leases j = Inr v" "t = committed s (sv_targets v)"
    by (rule sweep_commit_Inr)
  from v(1) obtain root plan ds where p: "plan_collection s kg refs leases = Inr (plan, ds)"
    "sv_targets v = sort_key (\<lambda>t. (br_sha256 t, br_byte_length t)) (collectible_targets ds)"
    "preview_retired s (permit_of x root) (sv_targets v) = Inr (sv_store_receipt v)"
    by (rule sweep_preview_Inr)
  from p(1) have ds: "ds = map (\<lambda>(i, sl). decision_of i sl) (occupied (st_slots s))" by (rule plan_Inr)
  have set: "set (sv_targets v) = {stored_ref sl | sl. Some sl \<in> set (st_slots s) \<and> sl_state sl = Retired}"
    using p(2) collectible_set by (simp add: ds)
  from p(3) have ts: "\<forall>u \<in> set (sv_targets v). target_ok s u" by (rule preview_Inr)
  show ?thesis
  proof (cases "st_slots s ! i")
    case (Some sl)
    have "stored_ref sl \<in> set (sv_targets v) \<longleftrightarrow> sl_state sl = Retired"
    proof
      assume "stored_ref sl \<in> set (sv_targets v)"
      then obtain a where a: "stored_ref sl = stored_ref a" "Some a \<in> set (st_slots s)" "sl_state a = Retired"
        by (auto simp: set)
      then obtain k where k: "k < length (st_slots s)" "st_slots s ! k = Some a" by (auto simp: in_set_conv_nth)
      have "k = i" using find_stored [OF ok k, of "stored_ref a"] find_stored [OF ok i Some, of "stored_ref a"] a(1)
        by simp
      with k a(3) Some show "sl_state sl = Retired" by simp
    next
      assume "sl_state sl = Retired"
      moreover have "Some sl \<in> set (st_slots s)" using i Some by (metis nth_mem)
      ultimately show "stored_ref sl \<in> set (sv_targets v)" by (auto simp: set)
    qed
    with cleared_iff [OF ok ts i] Some show ?thesis unfolding v(2) committed_parts nth_clear [OF i] by simp
  qed (use nth_clear [OF i] in \<open>simp add: v(2) committed_parts\<close>)
qed

lemma sweep_commit_well:
  assumes ok: "store_ok s" and c: "sweep_commit g x kg refs leases j s = (Inr (r, c), t)"
  shows "store_ok t" "verify_commit_receipt x r c = Inr ()" "verify_state True t = Inr ()"
    "cr_freed_entries c = ac_retired_entries (st_books s)" "st_books t = cr_accounting_after c"
    "snapshot_root_v2_unchecked t = Inr (cr_snapshot_after_sha256 c)"
    "cr_snapshot_before_sha256 c = sp_snapshot_sha256 j" "same_scope s t"
proof -
  from c obtain v where v: "sweep_preview_commit s g x kg refs leases j = Inr v" "check_preview v = Inr ()"
    "r = sv_receipt v" "c = sv_store_receipt v" "t = committed s (sv_targets v)"
    by (rule sweep_commit_Inr)
  from v(1) obtain root plan ds where p: "plan_collection s kg refs leases = Inr (plan, ds)"
    "xg_expected_snapshot_sha256 x = sp_snapshot_sha256 j" "sv_commit_grant v = x"
    "sv_targets v = sort_key (\<lambda>t. (br_sha256 t, br_byte_length t)) (collectible_targets ds)"
    "preview_retired s (permit_of x root) (sv_targets v) = Inr (sv_store_receipt v)"
    by (rule sweep_preview_Inr)
  from p(5) obtain d after commit where w: "distinct (sv_targets v)" "\<forall>u \<in> set (sv_targets v). target_ok s u"
    "snapshot_root_v2_unchecked (committed s (sv_targets v)) = Inr after"
    "sv_store_receipt v = preview_receipt s (permit_of x root) (sv_targets v) d after commit"
    "audit_snapshot_root_v2 s = Inr (cp_expected_snapshot_sha256 (permit_of x root))"
    by (rule preview_Inr)
  show tok: "store_ok t" unfolding v(5) by (rule committed_ok [OF ok w(1,2)])
  show "verify_commit_receipt x r c = Inr ()" using check_preview_Inr [OF v(2)] v(3,4) p(3) by simp
  have "verify_state True s = Inr ()" using w(5) by (auto simp: audit_snapshot_root_v2_def bindE_Inr)
  then show "verify_state True t = Inr ()"
    unfolding verify_state_ok [OF ok] verify_state_ok [OF tok] using committed_slots [of _ s "sv_targets v"]
    by (simp add: v(5) committed_parts(1))
  from p(1) have ds: "ds = map (\<lambda>(i, sl). decision_of i sl) (occupied (st_slots s))" by (rule plan_Inr)
  have "length (sv_targets v) = length (filter (\<lambda>(i, sl). slot_class_of sl = Collectible) (occupied (st_slots s)))"
    by (simp add: p(4) ds collectible_targets_def filter_decisions)
  moreover have "int (length (filter (\<lambda>(i, sl). slot_class_of sl = Collectible) xs))
      = sum_list (map ((\<lambda>sl. if sl_state sl = Retired then 1 else 0) o snd) xs)" for xs
    by (induction xs) (auto simp: collectible_class)
  ultimately have "int (length (sv_targets v)) = slot_sum (\<lambda>sl. if sl_state sl = Retired then 1 else 0) (st_slots s)"
    unfolding slot_sum_occupied by simp
  then show "cr_freed_entries c = ac_retired_entries (st_books s)" using ok
    by (simp add: v(4) w(4) preview_receipt_def store_ok_def books_of_def)
  show "st_books t = cr_accounting_after c" "snapshot_root_v2_unchecked t = Inr (cr_snapshot_after_sha256 c)"
    using w(3) by (simp_all add: v(4,5) w(4) preview_receipt_def)
  show "cr_snapshot_before_sha256 c = sp_snapshot_sha256 j"
    by (simp add: v(4) w(4) preview_receipt_def permit_of_def p(2))
  show "same_scope s t" by (simp add: v(5) same_scope_def committed_parts)
qed

text \<open>
  A commit needs the snapshot its journal was prepared for. The store it leaves has another one, so the same
  journal is refused there; it is accepted again where a store has come back to that snapshot.
\<close>

lemma sweep_needs_snapshot:
  assumes "sweep_commit g x kg refs leases j u = (Inr rc, t)"
  shows "audit_snapshot_root_v2 u = Inr (sp_snapshot_sha256 j)" "snapshot_root_v2_unchecked u = Inr (sp_snapshot_sha256 j)"
proof -
  obtain r c where "sweep_commit g x kg refs leases j u = (Inr (r, c), t)" using assms by (cases rc) simp
  then obtain v where "sweep_preview_commit u g x kg refs leases j = Inr v" by (rule sweep_commit_Inr)
  then obtain plan ds where p: "plan_collection u kg refs leases = Inr (plan, ds)"
    "kg_expected_snapshot_sha256 kg = sp_snapshot_sha256 j"
    by (rule sweep_preview_Inr)
  from p(1) have "audit_snapshot_root_v2 u = Inr (kg_expected_snapshot_sha256 kg)" by (rule plan_Inr)
  then show "audit_snapshot_root_v2 u = Inr (sp_snapshot_sha256 j)" by (simp add: p(2))
  then show "snapshot_root_v2_unchecked u = Inr (sp_snapshot_sha256 j)"
    by (auto simp: audit_snapshot_root_v2_def bindE_Inr)
qed

lemma sweep_changes_snapshot:
  assumes ok: "store_ok s" and c: "sweep_commit g x kg refs leases j s = (Inr (r, c), t)"
  shows "snapshot_root_v2_unchecked t \<noteq> Inr (sp_snapshot_sha256 j)"
  using sweep_commit_well(6,7) [OF ok c] receipt_snapshots [OF sweep_commit_well(2) [OF ok c]] by auto

lemma sweep_refused:
  assumes "snapshot_root_v2_unchecked u \<noteq> Inr (sp_snapshot_sha256 j)"
  shows "\<exists>e. sweep_commit g x kg refs leases j u = (Inl e, u)"
proof (cases "sweep_commit g x kg refs leases j u")
  case (Pair m t)
  then show ?thesis using assms sweep_needs_snapshot(2) sweep_commit_keeps_on_error by (cases m) blast+
qed

section \<open>The journal\<close>

lemma prepared_verifies:
  assumes "sweep_prepare s g kg refs leases current = Inr (j, r, plan)"
  shows "current = empty_journal" "verify_journal g j = Inr ()" "sp_state j = ''prepared''"
    "sp_staged_entries j = kc_collectible_entries (kr_counters plan)"
    "sp_staged_bytes j = kc_collectible_bytes (kr_counters plan)"
    "\<exists>ds. plan_collection s kg refs leases = Inr (plan, ds)"
proof -
  from assms obtain root snapshot prepare ds where p: "ensure_empty_journal current = Inr ()" "ensure_sweep_grant s g = Inr root"
    "plan_collection s kg refs leases = Inr (plan, ds)" "kr_plan_sha256 plan = wg_collection_plan_sha256 g"
    "kc_collectible_entries (kr_counters plan) \<noteq> 0" "kc_collectible_bytes (kr_counters plan) \<noteq> 0"
    "kc_collectible_entries (kr_counters plan) \<le> wg_max_staged_entries g"
    "kc_collectible_bytes (kr_counters plan) \<le> wg_max_staged_bytes g" "snapshot = wg_expected_snapshot_sha256 g"
    and r: "sweep_prepare_root \<lparr>sp_sweep_grant_sha256 = root, sp_collection_plan_sha256 = kr_plan_sha256 plan,
           sp_snapshot_sha256 = snapshot, sp_staged_entries = kc_collectible_entries (kr_counters plan),
           sp_staged_bytes = kc_collectible_bytes (kr_counters plan), sp_prepare_sha256 = []\<rparr> = Inr prepare"
    and j: "j = \<lparr>sp_sweep_grant_sha256 = root, sp_collection_plan_sha256 = kr_plan_sha256 plan,
           sp_snapshot_sha256 = snapshot, sp_staged_entries = kc_collectible_entries (kr_counters plan),
           sp_staged_bytes = kc_collectible_bytes (kr_counters plan), sp_prepare_sha256 = prepare,
           sp_abort_sha256 = ZERO_DIGEST, sp_state = ''prepared''\<rparr>"
    unfolding sweep_prepare_def Let_def
    by (auto simp: bindE_Inr guardE_Inr of_collection_Inr of_store_Inr prepare_receipt.defs)
  show "current = empty_journal" using p(1) by (auto simp: ensure_empty_journal_def split: if_splits)
  have "sweep_grant_root g = Inr root" using p(2) by (auto simp: ensure_sweep_grant_def bindE_Inr guardE_Inr)
  moreover have "sweep_prepare_root j = Inr prepare" using r by (simp add: j sweep_prepare_root_def)
  ultimately show "verify_journal g j = Inr ()"
    using p by (simp add: verify_journal_def verify_prepared_journal_def guardE_def j)
  show "sp_state j = ''prepared''" "sp_staged_entries j = kc_collectible_entries (kr_counters plan)"
    "sp_staged_bytes j = kc_collectible_bytes (kr_counters plan)" by (simp_all add: j)
  show "\<exists>ds. plan_collection s kg refs leases = Inr (plan, ds)" using p(3) by blast
qed

lemma aborted_verifies:
  assumes "sweep_abort s g j = Inr (j', r)" "sp_abort_sha256 j' \<noteq> ZERO_DIGEST"
  shows "verify_journal g j' = Inr ()" "sp_state j' = ''aborted''"
proof -
  from assms(1) obtain root abort where p: "sweep_grant_root g = Inr root" "verify_prepared_journal g root j = Inr ()"
    "j' = j\<lparr>sp_state := ''aborted'', sp_abort_sha256 := abort\<rparr>" and a: "sweep_abort_root j = Inr abort"
    unfolding sweep_abort_def Let_def
    by (auto simp: bindE_Inr guardE_Inr of_store_Inr ensure_sweep_grant_def sweep_abort_root_def
        verify_prepared_journal_def)
  show "sp_state j' = ''aborted''" by (simp add: p(3))
  have "j'\<lparr>sp_state := ''prepared'', sp_abort_sha256 := ZERO_DIGEST\<rparr> = j"
    using p(2) by (auto simp: p(3) verify_prepared_journal_def result_simps)
  moreover have "sweep_abort_root j' = Inr abort" using a by (simp add: p(3) sweep_abort_root_def)
  ultimately show "verify_journal g j' = Inr ()"
    using p(1,2) assms(2) by (simp add: verify_journal_def guardE_def) (simp add: p(3))
qed

lemma raises_or_returns: "(\<exists>e. m = Inl e) \<longleftrightarrow> \<not> (\<exists>x. m = Inr x)"
  by (cases m) auto

lemma aborted_is_final:
  assumes "sp_state j = ''aborted''"
  shows "\<exists>e. sweep_commit g x kg refs leases j s = (Inl e, s)" "\<exists>e. sweep_abort s g j = Inl e"
    "\<exists>e. sweep_prepare s g kg refs leases j = Inl e"
proof -
  have n: "verify_prepared_journal g root j \<noteq> Inr ()" for root
    using assms by (auto simp: verify_prepared_journal_def result_simps)
  show "\<exists>e. sweep_commit g x kg refs leases j s = (Inl e, s)"
  proof (cases "sweep_preview_commit s g x kg refs leases j")
    case (Inr v)
    then have "sp_state j = ''prepared''" by (rule sweep_preview_Inr)
    with assms show ?thesis by simp
  qed (simp add: sweep_commit_def)
  show "\<exists>e. sweep_abort s g j = Inl e" unfolding raises_or_returns using n
    by (auto simp: sweep_abort_def bindE_Inr)
  show "\<exists>e. sweep_prepare s g kg refs leases j = Inl e" unfolding raises_or_returns using assms
    by (auto simp: sweep_prepare_def bindE_Inr ensure_empty_journal_def empty_journal_def split: if_splits)
qed

end
