(* ===== verification/Sweep_Scenario.thy ===== *)
theory Sweep_Scenario
  imports Sweep_Facts Store_Scenario
begin

text \<open>
  A sweep of the demonstration store with one retired object: its plan, its journal, the abort and the
  commit. Their digests are computed like those of the demonstration; the grants are the \<open>demo_grant\<close> of
  \<open>bench/continuation_object_collection.py\<close> and of \<open>bench/continuation_object_sweep.py\<close> and the latter's
  \<open>demo_commit_grant\<close>.
\<close>

section \<open>Digests\<close>

definition dg_kgrant :: bytes where
  "dg_kgrant =
    [0x9f, 0xc3, 0x21, 0xb2, 0x10, 0xc9, 0xf3, 0xb4, 0x35, 0xc3, 0x2e, 0x43, 0x83, 0xdf, 0x27,
     0xd5, 0x32, 0x57, 0x36, 0x55, 0xde, 0x06, 0x8d, 0xd5, 0x27, 0x5f, 0x24, 0xf4, 0xe2, 0xd2,
     0x35, 0x37]"

definition dg_roots0 :: bytes where
  "dg_roots0 =
    [0xf0, 0x50, 0x6f, 0xfa, 0x91, 0x48, 0x33, 0x17, 0xab, 0x62, 0x7f, 0x9d, 0x90, 0x42, 0xe9,
     0x05, 0x38, 0xb5, 0xbe, 0x05, 0x81, 0xfe, 0xe4, 0x6b, 0x82, 0x48, 0x2f, 0x5c, 0x6d, 0x52,
     0xbe, 0x47]"

definition dg_leases0 :: bytes where
  "dg_leases0 =
    [0xd5, 0x96, 0x3f, 0x28, 0xc8, 0xdc, 0x95, 0xb6, 0x22, 0x88, 0xdd, 0x54, 0x6a, 0xab, 0x56,
     0xa2, 0x4e, 0x32, 0xaa, 0x65, 0xb4, 0x2f, 0x13, 0x13, 0x37, 0xb2, 0xa9, 0x07, 0x64, 0x44,
     0x42, 0xa1]"

definition dg_plan :: bytes where
  "dg_plan =
    [0xf5, 0xb3, 0x19, 0xe8, 0x84, 0x7b, 0xfa, 0x65, 0xbc, 0x66, 0x0f, 0x04, 0xed, 0x03, 0xab,
     0x0a, 0x60, 0x22, 0x78, 0x10, 0x57, 0xbb, 0x44, 0xf3, 0xd5, 0x07, 0x59, 0xcd, 0x0e, 0x2f,
     0x4b, 0x16]"

definition dg_wgrant :: bytes where
  "dg_wgrant =
    [0xf4, 0x85, 0xab, 0x55, 0x2c, 0xd8, 0x7f, 0x32, 0xef, 0xc9, 0x76, 0x05, 0x6d, 0xf0, 0xb1,
     0x47, 0xba, 0xcb, 0x8c, 0x8a, 0x81, 0x1c, 0x87, 0xd6, 0x36, 0xe3, 0x9c, 0x02, 0x46, 0x8a,
     0x0e, 0xaa]"

definition dg_prepare :: bytes where
  "dg_prepare =
    [0xb9, 0xd3, 0x8f, 0x04, 0x81, 0xfb, 0x79, 0x07, 0x7c, 0x98, 0x29, 0x92, 0x47, 0xb4, 0x8c,
     0xec, 0xf0, 0x6c, 0x03, 0xb4, 0xd7, 0x51, 0x97, 0xb9, 0x66, 0x18, 0x70, 0x36, 0xe4, 0xd7,
     0x13, 0xfd]"

definition dg_abort :: bytes where
  "dg_abort =
    [0x22, 0xf7, 0xd7, 0x9a, 0x91, 0xa6, 0x9d, 0x0a, 0x6f, 0x89, 0x10, 0xb2, 0x26, 0xdc, 0xd2,
     0x0b, 0x72, 0x7b, 0x47, 0x2a, 0x81, 0xf7, 0xc8, 0xc0, 0x1f, 0x1c, 0xe2, 0xf0, 0x7d, 0x1e,
     0xb2, 0x7b]"

definition dg_xgrant :: bytes where
  "dg_xgrant =
    [0x1c, 0xee, 0x6b, 0xa9, 0x40, 0x0c, 0x14, 0xa3, 0x62, 0xd8, 0x99, 0xbc, 0xca, 0x77, 0xa1,
     0xe2, 0x8d, 0x15, 0xc8, 0xe7, 0x44, 0xfb, 0xf7, 0x02, 0x80, 0xdc, 0x01, 0xf0, 0xd2, 0x28,
     0x42, 0x3c]"

definition dg_scommit :: bytes where
  "dg_scommit =
    [0xd8, 0xd2, 0xbd, 0x68, 0x21, 0x2c, 0x20, 0xc3, 0x09, 0xa8, 0xf9, 0xa2, 0x90, 0x1f, 0x94,
     0x2c, 0xab, 0x70, 0x8d, 0xc1, 0xd5, 0x81, 0x6d, 0x9b, 0x81, 0xfa, 0xdd, 0x78, 0xca, 0x2f,
     0x1f, 0xa6]"

definition dg_sweep :: bytes where
  "dg_sweep =
    [0x1a, 0x8a, 0x4b, 0x77, 0x58, 0x0a, 0x75, 0xeb, 0x05, 0x7f, 0xd9, 0xc4, 0x16, 0x09, 0x0b,
     0xa7, 0x26, 0xb6, 0x3a, 0x3f, 0xdf, 0x7a, 0x26, 0x76, 0x6a, 0xe2, 0x44, 0x13, 0x45, 0x5b,
     0x37, 0x43]"

lemmas sweep_digests =
  dg_kgrant_def dg_roots0_def dg_leases0_def dg_plan_def dg_wgrant_def dg_prepare_def
   dg_abort_def dg_xgrant_def dg_scommit_def dg_sweep_def

lemma sweep_lengths [simp]:
  "length dg_kgrant = 32"
  "length dg_roots0 = 32"
  "length dg_leases0 = 32"
  "length dg_plan = 32"
  "length dg_wgrant = 32"
  "length dg_prepare = 32"
  "length dg_abort = 32"
  "length dg_xgrant = 32"
  "length dg_scommit = 32"
  "length dg_sweep = 32"
  by (simp_all add: sweep_digests)

lemma sweep_nonzero [simp]:
  "dg_kgrant \<noteq> ZERO_DIGEST"
  "dg_roots0 \<noteq> ZERO_DIGEST"
  "dg_leases0 \<noteq> ZERO_DIGEST"
  "dg_plan \<noteq> ZERO_DIGEST"
  "dg_wgrant \<noteq> ZERO_DIGEST"
  "dg_prepare \<noteq> ZERO_DIGEST"
  "dg_abort \<noteq> ZERO_DIGEST"
  "dg_xgrant \<noteq> ZERO_DIGEST"
  "dg_scommit \<noteq> ZERO_DIGEST"
  "dg_sweep \<noteq> ZERO_DIGEST"
  by (simp_all add: sweep_digests zero_list)

lemmas sweep_transcripts = scenario_transcripts sweep_digests store_domain_def

section \<open>The plan\<close>

definition the_collection_grant :: collection_grant where
  "the_collection_grant = \<lparr>kg_authority_epoch = 11, kg_tenant_scope_sha256 = filled 0x6D,
     kg_bundle_sha256 = dg_bundle, kg_store_grant_sha256 = dg_grant, kg_expected_snapshot_sha256 = dg_before2,
     kg_max_root_references = 16, kg_max_lease_receipts = 4, kg_max_slot_scans = 16,
     kg_max_collectible_entries = 2, kg_max_collectible_bytes = 128, kg_challenge_sha256 = filled 0xE8\<rparr>"

lemma retired_parts: "st_grant retired_store = demo_grant dg_bundle" "st_grant_sha256 retired_store = dg_grant"
  "st_capacity retired_store = 16" "st_closed retired_store = False"
  by (simp_all add: retired_store_def one_store_def new_demo_def)

lemma demo_grant_parts [simp]: "sg_authority_epoch (demo_grant b) = 11"
  "sg_tenant_scope_sha256 (demo_grant b) = filled 0x6D" "sg_bundle_sha256 (demo_grant b) = b"
  by (simp_all add: demo_grant_def)

lemma the_collection_grant_made: "demo_collection_grant retired_store = Inr the_collection_grant"
  by (simp add: demo_collection_grant_def retired_audit lift_store_def retired_parts the_collection_grant_def
      filled_def)

lemma collection_hashes [simp]:
  "sha_parts (store_domain ''glacier-continuation-store-collection-grant-v1'')
     [u64_bytes 11, filled 0x6D, dg_bundle, dg_grant, dg_before2, u64_bytes 16, u64_bytes 4, u64_bytes 16,
      u64_bytes 2, u64_bytes 128, filled 0xE8] = dg_kgrant"
  "sha_parts (store_domain ''glacier-continuation-store-collection-roots-v1'') [u64_bytes 0] = dg_roots0"
  "sha_parts (store_domain ''glacier-continuation-store-collection-leases-v1'') [u64_bytes 0] = dg_leases0"
  "sha_parts (store_domain ''glacier-continuation-store-collection-plan-v1'')
     [dg_kgrant, dg_before2, dg_roots0, dg_leases0, u64_bytes 16, u64_bytes 1, u64_bytes 0, u64_bytes 0, u64_bytes 0,
      u64_bytes 0, u64_bytes 0, u64_bytes 0, u64_bytes 0, u64_bytes 0, u64_bytes 1, u64_bytes 25, u64_bytes 0,
      u64_bytes 4, u64_bytes 25, dg_blob0, u64_bytes 0, u64_bytes 0, u64_bytes 0] = dg_plan"
  by (simp_all add: sweep_transcripts)

definition retired_slot :: store_slot where
  "retired_slot = (the (stored_slot dg_blob0 25 one_payload 1))\<lparr>sl_state := Retired, sl_reference_count := 0\<rparr>"

lemma retired_slots: "st_slots retired_store = Some retired_slot # replicate 15 None"
  by (simp add: retired_store_def retired_slot_def stored_slot_def)

lemma retired_occupied: "occupied (st_slots retired_store) = [(0, retired_slot)]"
  by (simp add: retired_slots occupied_def replicate_numeral_eval)

lemma retired_books: "ac_entry_count (st_books retired_store) = 1"
  by (simp add: retired_store_def)

definition one_counters :: collection_counters where
  "one_counters = no_counts\<lparr>kc_collectible_entries := 1, kc_collectible_bytes := 25\<rparr>"

definition one_plan :: collection_receipt where
  "one_plan = \<lparr>kr_collection_grant_sha256 = dg_kgrant, kr_snapshot_sha256 = dg_before2,
     kr_root_references_sha256 = dg_roots0, kr_lease_receipts_sha256 = dg_leases0, kr_slot_scans = 16,
     kr_occupied_entries = 1, kr_root_reference_count = 0, kr_lease_receipt_count = 0,
     kr_counters = one_counters, kr_plan_sha256 = dg_plan\<rparr>"

lemma one_planned:
  "plan_collection retired_store the_collection_grant [] [] = Inr (one_plan, [decision_of 0 retired_slot])"
proof -
  let ?g = the_collection_grant
  have valid: "validate_collection_grant ?g = Inr ()"
    by (simp add: validate_collection_grant_def the_collection_grant_def collection_u64_def collection_digest_def
        guardE_def)
  then have scope: "collection_scope retired_store ?g [] [] = Inr ()"
    by (simp add: collection_scope_def retired_parts guardE_def) (simp add: the_collection_grant_def)
  have roots: "root_references_root [] = Inr dg_roots0" "lease_receipts_root [] = Inr dg_leases0"
    by (simp_all add: root_references_root_def lease_receipts_root_def guardE_def hash_checked_def collection_u64_def)
  have ds: "plan_decisions retired_store [] [] = Inr (one_counters, [decision_of 0 retired_slot])"
    by (simp add: plan_decisions_def retired_occupied decide_pair retired_parts)
      (simp add: check_reach_def retired_slot_def stored_slot_def guardE_def slot_class_of_def count_class_def
        one_counters_def no_counts_def)
  have grant: "collection_grant_root ?g = Inr dg_kgrant"
    unfolding collection_grant_root_def valid
    by (simp add: the_collection_grant_def hash_checked_def collection_u64_def)
  have root: "collection_plan_root (one_plan\<lparr>kr_plan_sha256 := []\<rparr>) [decision_of 0 retired_slot] = Inr dg_plan"
    by (simp add: collection_plan_root_def one_plan_def counter_list_def one_counters_def no_counts_def
        decision_parts_def decision_of_def retired_slot_def stored_slot_def slot_class_of_def class_id_def
        collection_u64_def hash_checked_def)
  show ?thesis
    unfolding plan_collection_def scope retired_audit roots ds grant bindE_simps Let_def lift_store_def sum.case prod.case
    using root by (simp add: guardE_def retired_parts retired_books one_plan_def)
      (simp add: the_collection_grant_def one_counters_def no_counts_def)
qed

section \<open>The journal\<close>

definition the_sweep_grant :: sweep_grant where
  "the_sweep_grant = \<lparr>wg_authority_epoch = 11, wg_tenant_scope_sha256 = filled 0x6D,
     wg_bundle_sha256 = dg_bundle, wg_store_grant_sha256 = dg_grant, wg_expected_snapshot_sha256 = dg_before2,
     wg_collection_plan_sha256 = dg_plan, wg_max_staged_entries = 2, wg_max_staged_bytes = 128,
     wg_challenge_sha256 = filled 0xD4\<rparr>"

lemma the_sweep_grant_made: "demo_sweep_grant retired_store dg_plan = Inr the_sweep_grant"
  by (simp add: demo_sweep_grant_def retired_audit of_store_def retired_parts the_sweep_grant_def filled_def)

lemma sweep_hashes [simp]:
  "sha_parts (store_domain ''glacier-continuation-store-sweep-grant-v1'')
     [u64_bytes 11, filled 0x6D, dg_bundle, dg_grant, dg_before2, dg_plan, u64_bytes 2, u64_bytes 128, filled 0xD4]
     = dg_wgrant"
  "sha_parts (store_domain ''glacier-continuation-store-sweep-prepare-v1'')
     [dg_wgrant, dg_plan, dg_before2, u64_bytes 1, u64_bytes 25] = dg_prepare"
  "sha_parts (store_domain ''glacier-continuation-store-sweep-abort-v1'')
     [dg_wgrant, dg_plan, dg_before2, u64_bytes 1, u64_bytes 25, dg_prepare] = dg_abort"
  "sha_parts (store_domain ''glacier-continuation-store-sweep-commit-grant-v1'')
     [u64_bytes 11, filled 0x6D, dg_bundle, dg_grant, dg_wgrant, dg_prepare, dg_before2, dg_plan, u64_bytes 2,
      u64_bytes 128, filled 0xD7] = dg_xgrant"
  "sha_parts (store_domain ''glacier-continuation-store-retired-commit-v1'')
     [dg_xgrant, dg_targets, dg_before2, dg_after2, u64_bytes 1, u64_bytes 0, u64_bytes 0, u64_bytes 1, u64_bytes 25,
      u64_bytes 128, u64_bytes 0, u64_bytes 0, u64_bytes 0, u64_bytes 0, u64_bytes 0, u64_bytes 0, u64_bytes 0, u64_bytes 0,
      u64_bytes 0, u64_bytes 0, u64_bytes 0, u64_bytes 0, u64_bytes 1, u64_bytes 25, u64_bytes 128, u64_bytes 0, u64_bytes 1]
   = dg_scommit"
  "sha_parts (store_domain ''glacier-continuation-store-sweep-commit-v1'')
     [dg_xgrant, dg_wgrant, dg_prepare, dg_plan, dg_targets, dg_before2, dg_after2, dg_scommit, u64_bytes 1,
      u64_bytes 25, u64_bytes 128, u64_bytes 0, u64_bytes 1] = dg_sweep"
  by (simp_all add: sweep_transcripts)

lemma the_sweep_root [simp]: "sweep_grant_root the_sweep_grant = Inr dg_wgrant"
  by (simp add: sweep_grant_root_def validate_sweep_grant_def the_sweep_grant_def sweep_u64_def sweep_digest_def
      guardE_def hash_checked_def)

lemma the_sweep_scope: "ensure_sweep_grant retired_store the_sweep_grant = Inr dg_wgrant"
  by (simp add: ensure_sweep_grant_def guardE_def retired_parts) (simp add: the_sweep_grant_def)

definition one_prepared :: prepare_receipt where
  "one_prepared = \<lparr>sp_sweep_grant_sha256 = dg_wgrant, sp_collection_plan_sha256 = dg_plan,
     sp_snapshot_sha256 = dg_before2, sp_staged_entries = 1, sp_staged_bytes = 25, sp_prepare_sha256 = dg_prepare\<rparr>"

definition one_journal :: sweep_journal where
  "one_journal = prepare_receipt.extend one_prepared \<lparr>sp_abort_sha256 = ZERO_DIGEST, sp_state = ''prepared''\<rparr>"

lemma one_prepares:
  "sweep_prepare retired_store the_sweep_grant the_collection_grant [] [] empty_journal = Inr (one_journal, one_prepared, one_plan)"
  by (simp add: sweep_prepare_def ensure_empty_journal_def the_sweep_scope guardE_def one_planned retired_audit
      of_collection_def of_store_def Let_def)
    (simp add: the_sweep_grant_def the_collection_grant_def one_plan_def one_counters_def no_counts_def
      sweep_prepare_root_def hash_checked_def sweep_u64_def one_journal_def one_prepared_def prepare_receipt.defs)

lemma one_journal_ok: "verify_prepared_journal the_sweep_grant dg_wgrant one_journal = Inr ()"
  by (simp add: verify_prepared_journal_def guardE_def one_journal_def one_prepared_def the_sweep_grant_def
      sweep_prepare_root_def hash_checked_def sweep_u64_def prepare_receipt.defs)

lemma one_aborts: "sweep_abort retired_store the_sweep_grant one_journal =
    Inr (one_journal\<lparr>sp_state := ''aborted'', sp_abort_sha256 := dg_abort\<rparr>,
      prepare_receipt.extend one_prepared \<lparr>sp_abort_sha256 = dg_abort\<rparr>)"
  by (simp add: sweep_abort_def the_sweep_scope one_journal_ok retired_audit of_store_def guardE_def Let_def)
    (simp add: the_sweep_grant_def sweep_abort_root_def hash_checked_def sweep_u64_def one_journal_def one_prepared_def
      prepare_receipt.defs)

section \<open>The commit\<close>

definition the_commit_grant :: sweep_commit_grant where
  "the_commit_grant = \<lparr>xg_authority_epoch = 11, xg_tenant_scope_sha256 = filled 0x6D,
     xg_bundle_sha256 = dg_bundle, xg_store_grant_sha256 = dg_grant, xg_sweep_grant_sha256 = dg_wgrant,
     xg_prepare_sha256 = dg_prepare, xg_expected_snapshot_sha256 = dg_before2, xg_collection_plan_sha256 = dg_plan,
     xg_max_freed_entries = 2, xg_max_freed_bytes = 128, xg_challenge_sha256 = filled 0xD7\<rparr>"

lemma the_commit_grant_made: "demo_commit_grant retired_store the_sweep_grant one_journal = Inr the_commit_grant"
  by (simp add: demo_commit_grant_def retired_parts the_commit_grant_def filled_def one_journal_def one_prepared_def
      prepare_receipt.defs)

lemma the_commit_root [simp]: "sweep_commit_grant_root the_commit_grant = Inr dg_xgrant"
  by (simp add: sweep_commit_grant_root_def validate_commit_grant_def the_commit_grant_def sweep_u64_def
      sweep_digest_def guardE_def hash_checked_def)

lemma the_commit_scope:
  "ensure_commit_grant retired_store the_sweep_grant dg_wgrant the_commit_grant one_journal = Inr dg_xgrant"
  by (simp add: ensure_commit_grant_def guardE_def retired_parts)
    (simp add: the_commit_grant_def one_journal_def one_prepared_def the_sweep_grant_def prepare_receipt.defs)

definition swept_receipt :: commit_receipt where
  "swept_receipt = one_commit_receipt\<lparr>cr_authorization_sha256 := dg_xgrant, cr_commit_sha256 := dg_scommit\<rparr>"

lemma one_swept: "preview_retired retired_store (permit_of the_commit_grant dg_xgrant) [one_target] = Inr swept_receipt"
proof -
  let ?p = "permit_of the_commit_grant dg_xgrant"
  have permit: "validate_permit retired_store ?p = Inr ()"
    by (simp add: validate_permit_def store_operation_def retired_parts permit_of_def the_commit_grant_def
        store_u64_def store_digest_def guardE_def) (simp add: demo_grant_def)
  have auth: "preview_retired retired_store one_permit [one_target] = Inr one_commit_receipt"
    by (rule one_preview)
  have root: "retired_commit_receipt_root (swept_receipt\<lparr>cr_commit_sha256 := []\<rparr>) = Inr dg_scommit"
    by (simp add: retired_commit_receipt_root_def swept_receipt_def one_commit_receipt_def accounting_fields_def
        retired_store_def new_books_def store_u64_def store_hash_def)
  from auth obtain d after where c: "retired_targets_root [one_target] = Inr d"
    "snapshot_root_v2_unchecked (committed retired_store [one_target]) = Inr after"
    "one_commit_receipt = preview_receipt retired_store one_permit [one_target] d after dg_commit"
    by (rule preview_Inr) (simp add: one_commit_receipt_def preview_receipt_def)
  have d: "d = dg_targets" "after = dg_after2" using c(3) by (simp_all add: one_commit_receipt_def preview_receipt_def)
  have freed: "foldE (free_target retired_store) \<lparr>fr_indexes = [], fr_payload_bytes = 0, fr_repairs = 0\<rparr> [one_target]
    = Inr \<lparr>fr_indexes = [0], fr_payload_bytes = 25, fr_repairs = 0\<rparr>"
    by (simp add: free_target_def store_find_def retired_slots retired_slot_def stored_slot_def slot_is_def one_target_def
        slot_at_def guardE_def store_u64_def)
  have shadow: "(clear_slots [0] retired_store)\<lparr>st_books := new_books\<rparr> = (new_demo None)\<lparr>st_allocator_insertions := 1\<rparr>"
    by (simp add: clear_slots_def set_slot_def retired_store_def one_store_def new_demo_def replicate_numeral_eval)
  have after: "snapshot_root_v2_unchecked ((new_demo None)\<lparr>st_allocator_insertions := 1\<rparr>) = Inr dg_after2"
    using retired_roots(3,4) by (simp add: snapshot_defs new_demo_def new_books_def)
  have books: "books_without 1 \<lparr>fr_indexes = [0], fr_payload_bytes = 25, fr_repairs = 0\<rparr> (st_books retired_store) = new_books"
    by (simp add: books_without_def retired_store_def new_books_def)
  show ?thesis
    unfolding preview_retired_def permit c(1) d retired_audit freed bindE_simps Let_def
    using root by (simp add: shadow after books permit_of_def the_commit_grant_def guardE_def swept_receipt_def
        one_commit_receipt_def) (simp add: retired_store_def)
qed

definition sweep_result :: sweep_receipt where
  "sweep_result = (receipt_of dg_xgrant dg_wgrant one_journal swept_receipt)\<lparr>sr_commit_sha256 := dg_sweep\<rparr>"

lemma sweep_result_root: "sweep_commit_root (receipt_of dg_xgrant dg_wgrant one_journal swept_receipt) = Inr dg_sweep"
  "sweep_commit_root sweep_result = Inr dg_sweep"
  by (simp_all add: sweep_result_def sweep_commit_root_def receipt_of_def one_journal_def one_prepared_def
      swept_receipt_def one_commit_receipt_def freed_fields_def sweep_u64_def hash_checked_def prepare_receipt.defs)

lemma one_targets: "canonical_roots (collectible_targets [decision_of 0 retired_slot]) = Inr [one_target]"
  by (simp add: collectible_targets_def canonical_roots_def decision_of_def retired_slot_def stored_slot_def
      slot_class_of_def collection_target_key_def collection_u64_def collection_digest_def guardE_def one_target_def)

lemma one_sweep_preview:
  "sweep_preview_commit retired_store the_sweep_grant the_commit_grant the_collection_grant [] [] one_journal =
    Inr \<lparr>sv_commit_grant = the_commit_grant, sv_permit = permit_of the_commit_grant dg_xgrant,
      sv_targets = [one_target], sv_receipt = sweep_result, sv_store_receipt = swept_receipt\<rparr>"
  unfolding sweep_preview_commit_def the_sweep_scope one_journal_ok the_commit_scope one_planned one_targets
    of_collection_def sum.case prod.case bindE_simps Let_def
  by (simp add: guardE_def one_swept of_store_def sweep_result_root sweep_u64_def)
    (simp add: the_collection_grant_def one_journal_def one_prepared_def one_plan_def the_commit_grant_def
      one_counters_def no_counts_def one_target_def sweep_result_def prepare_receipt.defs)

lemma swept_verifies: "verify_retired_commit_receipt swept_receipt = Inr ()"
proof (rule preview_verifies [OF _ one_swept])
  show "store_ok retired_store" using reach_ok [OF retired_reach] by simp
qed (simp_all add: swept_receipt_def one_commit_receipt_def)

lemma sweep_result_verifies: "verify_commit_receipt the_commit_grant sweep_result swept_receipt = Inr ()"
proof -
  have "retired_commit_receipt_root swept_receipt = Inr dg_scommit"
    by (simp add: retired_commit_receipt_root_def swept_receipt_def one_commit_receipt_def accounting_fields_def
        retired_store_def new_books_def store_u64_def store_hash_def)
  then show ?thesis
    by (simp add: verify_commit_receipt_def swept_verifies of_store_def sweep_result_root guardE_def)
      (simp add: sweep_result_def receipt_of_def swept_receipt_def one_commit_receipt_def the_commit_grant_def
        one_journal_def one_prepared_def prepare_receipt.defs)
qed

lemma one_sweep: "sweep_commit the_sweep_grant the_commit_grant the_collection_grant [] [] one_journal retired_store =
    (Inr (sweep_result, swept_receipt), committed retired_store [one_target])"
proof -
  have "retired_targets_root [one_target] = Inr dg_targets"
    using retired_roots(5) by (simp add: retired_targets_root_def target_key_def one_target_def store_u64_def
        store_digest_def store_hash_def)
  moreover have "sr_targets_sha256 sweep_result = dg_targets"
    by (simp add: sweep_result_def receipt_of_def swept_receipt_def one_commit_receipt_def)
  ultimately show ?thesis
    by (simp add: sweep_commit_cases one_sweep_preview check_preview_def sweep_result_verifies guardE_def)
qed

end
