(* ===== verification/Sweep_Record.thy ===== *)
theory Sweep_Record
  imports Sweep
begin

text \<open>
  \<open>bench/continuation_object_sweep_record.py\<close>: the record of a committed sweep, a fixed-size body and a
  footer that commits it, and the classification of a stream of records that a crash may have cut short.
\<close>

datatype (plugins only: code) sweep_record_error =
    RcU64 | RcDigest | RcChainDigest | RcPrefix | RcPosition | RcPrevious | RcEvidence | RcLayout | RcDrift
  | RcTruncated | RcLength | RcMagic | RcAbi | RcDeclared | RcFlags | RcPrefixLength | RcBodyRoot
  | RcBodyLength | RcFooter | RcSequence | RcCommitRoot | RcGrant | RcInvalid | RcExpectedPosition
  | RcExpectedPrevious | RcMismatch | RcAnchorPosition | RcAnchorChain | RcBody
  | RcStore store_error

section \<open>Constants and checks\<close>

abbreviation (input) SWEEP_ABI :: int where "SWEEP_ABI \<equiv> 0x4743535200000001"
definition SWEEP_BODY_MAGIC :: bytes where "SWEEP_BODY_MAGIC = ascii ''GCSWRB01''"
definition SWEEP_FOOTER_MAGIC :: bytes where "SWEEP_FOOTER_MAGIC = ascii ''GCSWRF01''"
abbreviation (input) SWEEP_FLAGS :: int where "SWEEP_FLAGS \<equiv> 0"
abbreviation (input) SWEEP_PREFIX_BYTES :: nat where "SWEEP_PREFIX_BYTES \<equiv> 704"
abbreviation (input) SWEEP_BODY_BYTES :: nat where "SWEEP_BODY_BYTES \<equiv> 736"
abbreviation (input) SWEEP_FOOTER_BYTES :: nat where "SWEEP_FOOTER_BYTES \<equiv> 48"
abbreviation (input) SWEEP_RECORD_BYTES :: nat where "SWEEP_RECORD_BYTES \<equiv> 784"
abbreviation (input) SWEEP_SEQUENCE_OFFSET :: nat where "SWEEP_SEQUENCE_OFFSET \<equiv> 40"

definition record_u64 :: "int \<Rightarrow> sweep_record_error + bytes" where
  "record_u64 v = (if 0 \<le> v \<and> v \<le> U64_MAX then Inr (u64_bytes v) else Inl RcU64)"

definition nonzero_digest :: "bytes \<Rightarrow> sweep_record_error + bytes" where
  "nonzero_digest v = (if length v \<noteq> 32 \<or> v = ZERO_DIGEST then Inl RcDigest else Inr v)"

definition chain_digest :: "bytes \<Rightarrow> sweep_record_error + bytes" where
  "chain_digest v = (if length v \<noteq> 32 then Inl RcChainDigest else Inr v)"

lemma record_u64_Inr [result_simps]: "record_u64 v = Inr b \<longleftrightarrow> is_u64 v \<and> b = u64_bytes v"
  by (auto simp: record_u64_def is_u64_def)

lemma nonzero_digest_Inr [result_simps]: "nonzero_digest v = Inr d \<longleftrightarrow> length v = 32 \<and> v \<noteq> ZERO_DIGEST \<and> d = v"
  by (auto simp: nonzero_digest_def)

lemma chain_digest_Inr [result_simps]: "chain_digest v = Inr d \<longleftrightarrow> length v = 32 \<and> d = v"
  by (auto simp: chain_digest_def)

definition sweep_record_root :: "bytes \<Rightarrow> sweep_record_error + bytes" where
  "sweep_record_root prefix = (if length prefix \<noteq> SWEEP_PREFIX_BYTES then Inl RcPrefix
     else Inr (sha_parts (store_domain ''glacier-continuation-sweep-record-body-v1'') [prefix]))"

section \<open>The record\<close>

record sweep_record =
  rc_record_epoch :: int
  rc_sequence :: int
  rc_previous_record_sha256 :: bytes
  rc_record_challenge_sha256 :: bytes
  rc_commit_grant :: sweep_commit_grant
  rc_commit_receipt :: sweep_receipt
  rc_store_receipt :: commit_receipt

definition validate_sweep_input :: "sweep_record \<Rightarrow> sweep_record_error + unit" where
  "validate_sweep_input r =
     bindE (chain_digest (rc_previous_record_sha256 r)) (\<lambda>previous.
     bindE (nonzero_digest (rc_record_challenge_sha256 r)) (\<lambda>_.
     bindE (record_u64 (rc_record_epoch r)) (\<lambda>_.
     bindE (record_u64 (rc_sequence r)) (\<lambda>_.
     bindE (guardE RcPosition (rc_record_epoch r = 0 \<or> rc_sequence r = 0)) (\<lambda>_.
     bindE (guardE RcPrevious ((rc_sequence r = 1) \<noteq> (previous = ZERO_DIGEST))) (\<lambda>_.
       case verify_commit_receipt (rc_commit_grant r) (rc_commit_receipt r) (rc_store_receipt r) of
         Inl (SwStore e) \<Rightarrow> Inl (RcStore e)
       | Inl _ \<Rightarrow> Inl RcEvidence
       | Inr _ \<Rightarrow> Inr ()))))))"

section \<open>The encoder\<close>

definition grant_chunks :: "sweep_commit_grant \<Rightarrow> (sweep_record_error + bytes) list" where
  "grant_chunks g =
     [record_u64 (xg_authority_epoch g), nonzero_digest (xg_tenant_scope_sha256 g),
      nonzero_digest (xg_bundle_sha256 g), nonzero_digest (xg_store_grant_sha256 g),
      nonzero_digest (xg_sweep_grant_sha256 g), nonzero_digest (xg_prepare_sha256 g),
      nonzero_digest (xg_expected_snapshot_sha256 g), nonzero_digest (xg_collection_plan_sha256 g),
      record_u64 (xg_max_freed_entries g), record_u64 (xg_max_freed_bytes g),
      nonzero_digest (xg_challenge_sha256 g)]"

definition sweep_record_chunks :: "sweep_record \<Rightarrow> (sweep_record_error + bytes) list" where
  "sweep_record_chunks r =
    (let x = rc_commit_receipt r; c = rc_store_receipt r in
     [Inr SWEEP_BODY_MAGIC, record_u64 SWEEP_ABI, record_u64 (int SWEEP_RECORD_BYTES),
      Inr (le_bytes 4 SWEEP_FLAGS), Inr (le_bytes 4 0), record_u64 (rc_record_epoch r),
      record_u64 (rc_sequence r), chain_digest (rc_previous_record_sha256 r),
      nonzero_digest (rc_record_challenge_sha256 r)]
     @ grant_chunks (rc_commit_grant r)
     @ [nonzero_digest (sr_targets_sha256 x), nonzero_digest (sr_snapshot_after_sha256 x)]
     @ map record_u64 (accounting_fields (cr_accounting_before c))
     @ map record_u64 (accounting_fields (cr_accounting_after c))
     @ map record_u64 (freed_fields x)
     @ [nonzero_digest (cr_commit_sha256 c), nonzero_digest (sr_commit_sha256 x)])"

definition sweep_record_encode :: "sweep_record \<Rightarrow> sweep_record_error + bytes" where
  "sweep_record_encode r =
     bindE (validate_sweep_input r) (\<lambda>_.
     bindE (mapE (\<lambda>p. p) (sweep_record_chunks r)) (\<lambda>parts.
       let prefix = concat parts in
       bindE (guardE RcLayout (length prefix \<noteq> SWEEP_PREFIX_BYTES)) (\<lambda>_.
       bindE (sweep_record_root prefix) (\<lambda>root.
       bindE (record_u64 (rc_sequence r)) (\<lambda>sequence.
         let encoded = prefix @ root @ SWEEP_FOOTER_MAGIC @ sequence @ root in
         bindE (guardE RcDrift (length encoded \<noteq> SWEEP_RECORD_BYTES)) (\<lambda>_. Inr encoded))))))"

section \<open>The decoder\<close>

text \<open>The fields of a body in the order of the wire, before the evidence is put together from them.\<close>

record sweep_body =
  sb_record_epoch :: int
  sb_sequence :: int
  sb_previous_record_sha256 :: bytes
  sb_record_challenge_sha256 :: bytes
  sb_grant :: sweep_commit_grant
  sb_targets_sha256 :: bytes
  sb_snapshot_after_sha256 :: bytes
  sb_accounting_before :: accounting
  sb_accounting_after :: accounting
  sb_freed :: "int list"
  sb_store_commit_sha256 :: bytes
  sb_sweep_commit_sha256 :: bytes

definition rd_commit_grant :: "bytes \<Rightarrow> sweep_record_error + sweep_commit_grant \<times> bytes" where
  "rd_commit_grant r =
     bindE (rd_u64 RcTruncated r) (\<lambda>(epoch, r).
     bindE (rd_list (rd_digest RcTruncated) 7 r) (\<lambda>(ds, r).
     bindE (rd_u64 RcTruncated r) (\<lambda>(entries, r).
     bindE (rd_u64 RcTruncated r) (\<lambda>(freed, r).
     bindE (rd_digest RcTruncated r) (\<lambda>(challenge, r).
       Inr (\<lparr>xg_authority_epoch = epoch, xg_tenant_scope_sha256 = ds ! 0, xg_bundle_sha256 = ds ! 1,
         xg_store_grant_sha256 = ds ! 2, xg_sweep_grant_sha256 = ds ! 3, xg_prepare_sha256 = ds ! 4,
         xg_expected_snapshot_sha256 = ds ! 5, xg_collection_plan_sha256 = ds ! 6,
         xg_max_freed_entries = entries, xg_max_freed_bytes = freed, xg_challenge_sha256 = challenge\<rparr>, r))))))"

definition rd_accounting :: "bytes \<Rightarrow> sweep_record_error + accounting \<times> bytes" where
  "rd_accounting r = bindE (rd_list (rd_u64 RcTruncated) 9 r) (\<lambda>(vs, r).
     Inr (\<lparr>ac_entry_count = vs ! 0, ac_live_entries = vs ! 1, ac_quarantined_entries = vs ! 2,
       ac_retired_entries = vs ! 3, ac_payload_bytes = vs ! 4, ac_logical_index_bytes = vs ! 5,
       ac_reference_count = vs ! 6, ac_active_leases = vs ! 7, ac_repair_count = vs ! 8\<rparr>, r))"

definition rd_sweep_body :: "bytes \<Rightarrow> sweep_record_error + sweep_body \<times> bytes" where
  "rd_sweep_body r =
     bindE (rd_u64 RcTruncated r) (\<lambda>(epoch, r).
     bindE (rd_u64 RcTruncated r) (\<lambda>(sequence, r).
     bindE (rd_digest RcTruncated r) (\<lambda>(previous, r).
     bindE (rd_digest RcTruncated r) (\<lambda>(challenge, r).
     bindE (rd_commit_grant r) (\<lambda>(grant, r).
     bindE (rd_digest RcTruncated r) (\<lambda>(targets, r).
     bindE (rd_digest RcTruncated r) (\<lambda>(snapshot_after, r).
     bindE (rd_accounting r) (\<lambda>(before, r).
     bindE (rd_accounting r) (\<lambda>(after, r).
     bindE (rd_list (rd_u64 RcTruncated) 5 r) (\<lambda>(freed, r).
     bindE (rd_digest RcTruncated r) (\<lambda>(store_commit, r).
     bindE (rd_digest RcTruncated r) (\<lambda>(sweep_commit_sha256, r).
       Inr (\<lparr>sb_record_epoch = epoch, sb_sequence = sequence, sb_previous_record_sha256 = previous,
         sb_record_challenge_sha256 = challenge, sb_grant = grant, sb_targets_sha256 = targets,
         sb_snapshot_after_sha256 = snapshot_after, sb_accounting_before = before,
         sb_accounting_after = after, sb_freed = freed, sb_store_commit_sha256 = store_commit,
         sb_sweep_commit_sha256 = sweep_commit_sha256\<rparr>, r)))))))))))))"

text \<open>The evidence of a body: the two receipts repeat what the grant says.\<close>

definition evidence :: "sweep_body \<Rightarrow> bytes \<Rightarrow> sweep_record" where
  "evidence b root =
    (let g = sb_grant b in
     \<lparr>rc_record_epoch = sb_record_epoch b, rc_sequence = sb_sequence b,
       rc_previous_record_sha256 = sb_previous_record_sha256 b,
       rc_record_challenge_sha256 = sb_record_challenge_sha256 b, rc_commit_grant = g,
       rc_commit_receipt =
         \<lparr>sr_commit_grant_sha256 = root, sr_sweep_grant_sha256 = xg_sweep_grant_sha256 g,
           sr_prepare_sha256 = xg_prepare_sha256 g, sr_collection_plan_sha256 = xg_collection_plan_sha256 g,
           sr_targets_sha256 = sb_targets_sha256 b, sr_snapshot_before_sha256 = xg_expected_snapshot_sha256 g,
           sr_snapshot_after_sha256 = sb_snapshot_after_sha256 b,
           sr_store_commit_sha256 = sb_store_commit_sha256 b, sr_freed_entries = sb_freed b ! 0,
           sr_freed_payload_bytes = sb_freed b ! 1, sr_freed_index_bytes = sb_freed b ! 2,
           sr_freed_repair_count = sb_freed b ! 3, sr_allocator_deallocation_calls = sb_freed b ! 4,
           sr_commit_sha256 = sb_sweep_commit_sha256 b\<rparr>,
       rc_store_receipt =
         \<lparr>cr_authorization_sha256 = root, cr_targets_sha256 = sb_targets_sha256 b,
           cr_snapshot_before_sha256 = xg_expected_snapshot_sha256 g,
           cr_snapshot_after_sha256 = sb_snapshot_after_sha256 b,
           cr_accounting_before = sb_accounting_before b, cr_accounting_after = sb_accounting_after b,
           cr_freed_entries = sb_freed b ! 0, cr_freed_payload_bytes = sb_freed b ! 1,
           cr_freed_index_bytes = sb_freed b ! 2, cr_freed_repair_count = sb_freed b ! 3,
           cr_allocator_deallocation_calls = sb_freed b ! 4, cr_commit_sha256 = sb_store_commit_sha256 b\<rparr>\<rparr>)"

definition sweep_record_decode_raw :: "bytes \<Rightarrow> sweep_record_error + sweep_record \<times> bytes" where
  "sweep_record_decode_raw encoded =
    (let position = (\<lambda>r. length encoded - length r) in
     bindE (guardE RcLength (length encoded \<noteq> SWEEP_RECORD_BYTES)) (\<lambda>_.
     bindE (rd_take RcTruncated 8 encoded) (\<lambda>(magic, r).
     bindE (guardE RcMagic (magic \<noteq> SWEEP_BODY_MAGIC)) (\<lambda>_.
     bindE (rd_u64 RcTruncated r) (\<lambda>(abi, r).
     bindE (guardE RcAbi (abi \<noteq> SWEEP_ABI)) (\<lambda>_.
     bindE (rd_u64 RcTruncated r) (\<lambda>(declared, r).
     bindE (guardE RcDeclared (declared \<noteq> int SWEEP_RECORD_BYTES)) (\<lambda>_.
     bindE (rd_u32 RcTruncated r) (\<lambda>(flags, r).
     bindE (guardE RcFlags (flags \<noteq> SWEEP_FLAGS)) (\<lambda>_.
     bindE (rd_u32 RcTruncated r) (\<lambda>(reserved, r).
     bindE (guardE RcFlags (reserved \<noteq> 0)) (\<lambda>_.
     bindE (rd_sweep_body r) (\<lambda>(b, r).
     bindE (guardE RcPrefixLength (position r \<noteq> SWEEP_PREFIX_BYTES)) (\<lambda>_.
     bindE (rd_digest RcTruncated r) (\<lambda>(stored, r).
     bindE (sweep_record_root (take SWEEP_PREFIX_BYTES encoded)) (\<lambda>computed.
     bindE (guardE RcBodyRoot (stored \<noteq> computed)) (\<lambda>_.
     bindE (guardE RcBodyLength (position r \<noteq> SWEEP_BODY_BYTES)) (\<lambda>_.
     bindE (rd_take RcTruncated 8 r) (\<lambda>(footer, r).
     bindE (guardE RcFooter (footer \<noteq> SWEEP_FOOTER_MAGIC)) (\<lambda>_.
     bindE (rd_u64 RcTruncated r) (\<lambda>(sequence, r).
     bindE (guardE RcSequence (sequence \<noteq> sb_sequence b)) (\<lambda>_.
     bindE (rd_digest RcTruncated r) (\<lambda>(committed, r).
     bindE (guardE RcCommitRoot (committed \<noteq> stored \<or> r \<noteq> [])) (\<lambda>_.
     bindE (case sweep_commit_grant_root (sb_grant b) of Inl _ \<Rightarrow> Inl RcGrant | Inr root \<Rightarrow> Inr root) (\<lambda>root.
     bindE (validate_sweep_input (evidence b root)) (\<lambda>_.
       Inr (evidence b root, stored)))))))))))))))))))))))))))"

definition sweep_record_decode :: "bytes \<Rightarrow> sweep_record_error + sweep_record \<times> bytes" where
  "sweep_record_decode encoded =
    (case sweep_record_decode_raw encoded of
       Inl (RcStore _) \<Rightarrow> Inl RcInvalid
     | Inl e \<Rightarrow> Inl e
     | Inr d \<Rightarrow> Inr d)"

section \<open>Expectations\<close>

record sweep_expectation =
  se_record_epoch :: int
  se_sequence :: int
  se_previous_record_sha256 :: bytes
  se_sweep_commit_sha256 :: bytes
  se_record_sha256 :: bytes

definition validate_expectation :: "sweep_expectation \<Rightarrow> sweep_record_error + unit" where
  "validate_expectation e =
     bindE (chain_digest (se_previous_record_sha256 e)) (\<lambda>previous.
     bindE (nonzero_digest (se_sweep_commit_sha256 e)) (\<lambda>_.
     bindE (nonzero_digest (se_record_sha256 e)) (\<lambda>_.
     bindE (record_u64 (se_record_epoch e)) (\<lambda>_.
     bindE (record_u64 (se_sequence e)) (\<lambda>_.
     bindE (guardE RcExpectedPosition (se_record_epoch e = 0 \<or> se_sequence e = 0)) (\<lambda>_.
       guardE RcExpectedPrevious ((se_sequence e = 1) \<noteq> (previous = ZERO_DIGEST))))))))"

definition expectation_of :: "sweep_record \<Rightarrow> bytes \<Rightarrow> sweep_expectation" where
  "expectation_of r root = \<lparr>se_record_epoch = rc_record_epoch r, se_sequence = rc_sequence r,
     se_previous_record_sha256 = rc_previous_record_sha256 r,
     se_sweep_commit_sha256 = sr_commit_sha256 (rc_commit_receipt r), se_record_sha256 = root\<rparr>"

definition make_sweep_expectation :: "sweep_record \<Rightarrow> bytes \<Rightarrow> sweep_record_error + sweep_expectation" where
  "make_sweep_expectation r root =
     bindE (validate_sweep_input r) (\<lambda>_.
     bindE (nonzero_digest root) (\<lambda>root.
     bindE (validate_expectation (expectation_of r root)) (\<lambda>_. Inr (expectation_of r root))))"

definition sweep_record_verify :: "bytes \<Rightarrow> sweep_expectation \<Rightarrow> sweep_record_error + sweep_record \<times> bytes" where
  "sweep_record_verify encoded expected =
     bindE (validate_expectation expected) (\<lambda>_.
     bindE (sweep_record_decode encoded) (\<lambda>(r, root).
     bindE (guardE RcMismatch (expectation_of r root \<noteq> expected)) (\<lambda>_. Inr (r, root))))"

definition sweep_append_plan :: "bytes \<Rightarrow> sweep_record_error + bytes \<times> bytes \<times> bytes" where
  "sweep_append_plan encoded =
     bindE (sweep_record_decode encoded) (\<lambda>(r, root).
       Inr (take SWEEP_BODY_BYTES encoded, drop SWEEP_BODY_BYTES encoded, root))"

section \<open>Recovery\<close>

record recovery_anchor =
  ra_record_epoch :: int
  ra_next_sequence :: int
  ra_previous_record_sha256 :: bytes

definition validate_recovery_anchor :: "recovery_anchor \<Rightarrow> sweep_record_error + unit" where
  "validate_recovery_anchor a =
     bindE (chain_digest (ra_previous_record_sha256 a)) (\<lambda>previous.
     bindE (record_u64 (ra_record_epoch a)) (\<lambda>_.
     bindE (record_u64 (ra_next_sequence a)) (\<lambda>_.
     bindE (guardE RcAnchorPosition (ra_record_epoch a = 0 \<or> ra_next_sequence a = 0)) (\<lambda>_.
       guardE RcAnchorChain ((ra_next_sequence a = 1) \<noteq> (previous = ZERO_DIGEST))))))"

definition origin_recovery_anchor :: "int \<Rightarrow> sweep_record_error + recovery_anchor" where
  "origin_recovery_anchor epoch =
    (let a = \<lparr>ra_record_epoch = epoch, ra_next_sequence = 1, ra_previous_record_sha256 = ZERO_DIGEST\<rparr> in
     bindE (validate_recovery_anchor a) (\<lambda>_. Inr a))"

definition expected_footer :: "bytes \<Rightarrow> sweep_record_error + bytes" where
  "expected_footer body = bindE (guardE RcBody (length body \<noteq> SWEEP_BODY_BYTES)) (\<lambda>_.
     Inr (SWEEP_FOOTER_MAGIC @ slice SWEEP_SEQUENCE_OFFSET 8 body @ slice SWEEP_PREFIX_BYTES 32 body))"

definition decode_body_for_recovery :: "bytes \<Rightarrow> sweep_record_error + sweep_record \<times> bytes" where
  "decode_body_for_recovery body = bindE (expected_footer body) (\<lambda>footer. sweep_record_decode (body @ footer))"

datatype (plugins only: code) recovery_status =
  Clean | Short_Body_Tail | Body_Without_Footer | Partial_Footer_Tail | Corrupt_Record

record sweep_scan =
  ss_last_sequence :: int
  ss_committed_records :: int
  ss_offset :: nat
  ss_final_record_sha256 :: bytes
  ss_expected_sequence :: int
  ss_expected_previous :: bytes

record classification =
  cl_status :: recovery_status
  cl_record_epoch :: int
  cl_first_sequence :: int
  cl_last_sequence :: int
  cl_committed_records :: int
  cl_committed_bytes :: nat
  cl_tail_bytes :: nat
  cl_final_record_sha256 :: bytes

definition recovery_classification ::
  "recovery_status \<Rightarrow> recovery_anchor \<Rightarrow> sweep_scan \<Rightarrow> nat \<Rightarrow> classification" where
  "recovery_classification status a z tail = \<lparr>cl_status = status, cl_record_epoch = ra_record_epoch a,
     cl_first_sequence = ra_next_sequence a, cl_last_sequence = ss_last_sequence z,
     cl_committed_records = ss_committed_records z, cl_committed_bytes = ss_offset z, cl_tail_bytes = tail,
     cl_final_record_sha256 = ss_final_record_sha256 z\<rparr>"

definition recovery_record_matches :: "sweep_record \<Rightarrow> int \<Rightarrow> int \<Rightarrow> bytes \<Rightarrow> bool" where
  "recovery_record_matches r epoch sequence previous \<longleftrightarrow>
     rc_record_epoch r = epoch \<and> rc_sequence r = sequence \<and> rc_previous_record_sha256 r = previous"

text \<open>
  One turn of the loop over whole records. \<open>Inl\<close> leaves the loop with \<open>corrupt_record\<close> at the state it
  carries.
\<close>

definition scan_record :: "recovery_anchor \<Rightarrow> bytes \<Rightarrow> sweep_scan \<Rightarrow> sweep_scan + sweep_scan" where
  "scan_record a stream z =
    (case sweep_record_decode (slice (ss_offset z) SWEEP_RECORD_BYTES stream) of
       Inl _ \<Rightarrow> Inl z
     | Inr (r, root) \<Rightarrow>
         if \<not> recovery_record_matches r (ra_record_epoch a) (ss_expected_sequence z) (ss_expected_previous z)
         then Inl z
         else
           let z = z\<lparr>ss_offset := ss_offset z + SWEEP_RECORD_BYTES,
               ss_committed_records := ss_committed_records z + 1, ss_last_sequence := rc_sequence r,
               ss_final_record_sha256 := root, ss_expected_previous := root\<rparr> in
           if ss_offset z < length stream then
             if ss_last_sequence z = U64_MAX then Inl z
             else Inr (z\<lparr>ss_expected_sequence := ss_last_sequence z + 1\<rparr>)
           else Inr z)"

lemma scan_record_offset: "scan_record a stream z = Inr y \<Longrightarrow> ss_offset y = ss_offset z + SWEEP_RECORD_BYTES"
  by (auto simp: scan_record_def Let_def split: sum.splits prod.splits if_splits)

function scan_records :: "recovery_anchor \<Rightarrow> bytes \<Rightarrow> sweep_scan \<Rightarrow> sweep_scan + sweep_scan" where
  "scan_records a stream z =
    (if length stream - ss_offset z \<ge> SWEEP_RECORD_BYTES
     then case scan_record a stream z of Inl y \<Rightarrow> Inl y | Inr y \<Rightarrow> scan_records a stream y
     else Inr z)"
  by pat_completeness auto
termination
  by (relation "measure (\<lambda>(a, stream, z). length stream - ss_offset z)")
    (auto dest: scan_record_offset)

declare scan_records.simps [simp del]

definition scan_start :: "recovery_anchor \<Rightarrow> sweep_scan" where
  "scan_start a = \<lparr>ss_last_sequence = ra_next_sequence a - 1, ss_committed_records = 0, ss_offset = 0,
     ss_final_record_sha256 = ra_previous_record_sha256 a, ss_expected_sequence = ra_next_sequence a,
     ss_expected_previous = ra_previous_record_sha256 a\<rparr>"

text \<open>What is left after the whole records: nothing, part of a body, a body, or a body and part of its footer.\<close>

definition classify_tail :: "recovery_anchor \<Rightarrow> bytes \<Rightarrow> sweep_scan \<Rightarrow> recovery_status" where
  "classify_tail a stream z =
    (let tail = length stream - ss_offset z; body = slice (ss_offset z) SWEEP_BODY_BYTES stream in
     if tail = 0 then Clean
     else if tail < SWEEP_BODY_BYTES then Short_Body_Tail
     else case decode_body_for_recovery body of
       Inl _ \<Rightarrow> Corrupt_Record
     | Inr (r, root) \<Rightarrow>
         if \<not> recovery_record_matches r (ra_record_epoch a) (ss_expected_sequence z) (ss_expected_previous z)
         then Corrupt_Record
         else if tail = SWEEP_BODY_BYTES then Body_Without_Footer
         else
           let partial = drop (ss_offset z + SWEEP_BODY_BYTES) stream in
           case expected_footer body of
             Inl _ \<Rightarrow> Corrupt_Record
           | Inr footer \<Rightarrow>
               if partial \<noteq> take (length partial) footer then Corrupt_Record else Partial_Footer_Tail)"

definition classify_recovery :: "bytes \<Rightarrow> recovery_anchor \<Rightarrow> sweep_record_error + classification" where
  "classify_recovery stream a =
     bindE (validate_recovery_anchor a) (\<lambda>_.
       case scan_records a stream (scan_start a) of
         Inl z \<Rightarrow> Inr (recovery_classification Corrupt_Record a z (length stream - ss_offset z))
       | Inr z \<Rightarrow> Inr (recovery_classification (classify_tail a stream z) a z (length stream - ss_offset z)))"

end
