(* ===== verification/Sweep_Codec.thy ===== *)
theory Sweep_Codec
  imports Sweep_Record
begin

text \<open>
  The record of a sweep reads back. Every part of a body is a \<open>wire_field\<close>; the evidence a decoder puts
  together from a body is the evidence the encoder took it from, because the verification of a receipt
  binds what the wire leaves out.
\<close>

section \<open>Fields\<close>

lemma grant_field_length7: "length vs = 7 \<longleftrightarrow> (\<exists>a b c d e f g. vs = [a, b, c, d, e, f, g])"
  by (auto simp: numeral_eq_Suc length_Suc_conv)

lemma length9: "length vs = 9 \<longleftrightarrow> (\<exists>a b c d e f g h i. vs = [a, b, c, d, e, f, g, h, i])"
  by (auto simp: numeral_eq_Suc length_Suc_conv)

lemma length5: "length vs = 5 \<longleftrightarrow> (\<exists>a b c d e. vs = [a, b, c, d, e])"
  by (auto simp: numeral_eq_Suc length_Suc_conv)

definition grant_digests :: "sweep_commit_grant \<Rightarrow> bytes list" where
  "grant_digests g = [xg_tenant_scope_sha256 g, xg_bundle_sha256 g, xg_store_grant_sha256 g,
     xg_sweep_grant_sha256 g, xg_prepare_sha256 g, xg_expected_snapshot_sha256 g, xg_collection_plan_sha256 g]"

definition grant_bytes :: "sweep_commit_grant \<Rightarrow> bytes" where
  "grant_bytes g = u64_bytes (xg_authority_epoch g) @ concat (grant_digests g) @ u64_bytes (xg_max_freed_entries g)
     @ u64_bytes (xg_max_freed_bytes g) @ xg_challenge_sha256 g"

definition grant_fits :: "sweep_commit_grant \<Rightarrow> bool" where
  "grant_fits g \<longleftrightarrow> is_u64 (xg_authority_epoch g) \<and> is_u64 (xg_max_freed_entries g) \<and> is_u64 (xg_max_freed_bytes g)
     \<and> (\<forall>d \<in> set (grant_digests g). length d = 32) \<and> length (xg_challenge_sha256 g) = 32"

lemma rd_commit_grant_field:
  "rd_commit_grant r = Inr (g, rest) \<longleftrightarrow> grant_fits g \<and> r = grant_bytes g @ rest"
proof
  assume "rd_commit_grant r = Inr (g, rest)"
  then show "grant_fits g \<and> r = grant_bytes g @ rest"
    by (auto simp: rd_commit_grant_def bindE_Inr rd_u64_Inr rd_digest_Inr digest_field.fields grant_fits_def
        grant_bytes_def grant_digests_def grant_field_length7)
next
  assume g: "grant_fits g \<and> r = grant_bytes g @ rest"
  then have "rd_list (rd_digest RcTruncated) 7 (concat (grant_digests g) @ t) = Inr (grant_digests g, t)" for t
    by (simp add: digest_field.fields grant_fits_def) (simp add: grant_digests_def)
  with g show "rd_commit_grant r = Inr (g, rest)"
    by (simp add: rd_commit_grant_def grant_fits_def grant_bytes_def u64_field.read_written
        digest_field.read_written) (simp add: grant_digests_def)
qed

interpretation grant_field: wire_field rd_commit_grant grant_bytes grant_fits
  by unfold_locales (rule rd_commit_grant_field)

definition accounting_bytes :: "accounting \<Rightarrow> bytes" where
  "accounting_bytes a = concat (map u64_bytes (accounting_fields a))"

definition accounting_fits :: "accounting \<Rightarrow> bool" where
  "accounting_fits a \<longleftrightarrow> (\<forall>v \<in> set (accounting_fields a). is_u64 v)"

lemma rd_accounting_field:
  "rd_accounting r = Inr (a, rest) \<longleftrightarrow> accounting_fits a \<and> r = accounting_bytes a @ rest"
proof
  assume "rd_accounting r = Inr (a, rest)"
  then show "accounting_fits a \<and> r = accounting_bytes a @ rest"
    by (auto simp: rd_accounting_def bindE_Inr u64_field.fields accounting_fits_def accounting_bytes_def
        accounting_fields_def length9)
next
  assume a: "accounting_fits a \<and> r = accounting_bytes a @ rest"
  then have "rd_list (rd_u64 RcTruncated) 9 (concat (map u64_bytes (accounting_fields a)) @ t)
      = Inr (accounting_fields a, t)" for t
    by (simp add: u64_field.fields accounting_fits_def) (simp add: accounting_fields_def)
  with a show "rd_accounting r = Inr (a, rest)"
    by (simp add: rd_accounting_def accounting_bytes_def) (simp add: accounting_fields_def)
qed

interpretation accounting_field: wire_field rd_accounting accounting_bytes accounting_fits
  by unfold_locales (rule rd_accounting_field)

definition body_bytes :: "sweep_body \<Rightarrow> bytes" where
  "body_bytes b = u64_bytes (sb_record_epoch b) @ u64_bytes (sb_sequence b) @ sb_previous_record_sha256 b
     @ sb_record_challenge_sha256 b @ grant_bytes (sb_grant b) @ sb_targets_sha256 b @ sb_snapshot_after_sha256 b
     @ accounting_bytes (sb_accounting_before b) @ accounting_bytes (sb_accounting_after b)
     @ concat (map u64_bytes (sb_freed b)) @ sb_store_commit_sha256 b @ sb_sweep_commit_sha256 b"

definition body_fits :: "sweep_body \<Rightarrow> bool" where
  "body_fits b \<longleftrightarrow> is_u64 (sb_record_epoch b) \<and> is_u64 (sb_sequence b) \<and> length (sb_previous_record_sha256 b) = 32
     \<and> length (sb_record_challenge_sha256 b) = 32 \<and> grant_fits (sb_grant b) \<and> length (sb_targets_sha256 b) = 32
     \<and> length (sb_snapshot_after_sha256 b) = 32 \<and> accounting_fits (sb_accounting_before b)
     \<and> accounting_fits (sb_accounting_after b) \<and> length (sb_freed b) = 5 \<and> (\<forall>v \<in> set (sb_freed b). is_u64 v)
     \<and> length (sb_store_commit_sha256 b) = 32 \<and> length (sb_sweep_commit_sha256 b) = 32"

lemma rd_sweep_body_field: "rd_sweep_body r = Inr (b, rest) \<longleftrightarrow> body_fits b \<and> r = body_bytes b @ rest"
proof
  assume "rd_sweep_body r = Inr (b, rest)"
  then show "body_fits b \<and> r = body_bytes b @ rest"
    by (auto simp: rd_sweep_body_def bindE_Inr rd_u64_Inr rd_digest_Inr grant_field.field accounting_field.field
        u64_field.fields body_fits_def body_bytes_def)
next
  assume b: "body_fits b \<and> r = body_bytes b @ rest"
  then have "rd_list (rd_u64 RcTruncated) 5 (concat (map u64_bytes (sb_freed b)) @ t) = Inr (sb_freed b, t)" for t
    by (simp add: u64_field.fields body_fits_def)
  with b show "rd_sweep_body r = Inr (b, rest)"
    by (simp add: rd_sweep_body_def body_fits_def body_bytes_def u64_field.read_written
        digest_field.read_written grant_field.read_written accounting_field.read_written)
qed

interpretation body_field: wire_field rd_sweep_body body_bytes body_fits
  by unfold_locales (rule rd_sweep_body_field)

lemma length_grant_bytes: "grant_fits g \<Longrightarrow> length (grant_bytes g) = 280"
  by (simp add: grant_fits_def grant_bytes_def grant_digests_def)

lemma length_accounting_bytes [simp]: "length (accounting_bytes a) = 72"
  by (simp add: accounting_bytes_def accounting_fields_def)

lemma length_body_bytes: "body_fits b \<Longrightarrow> length (body_bytes b) = 672"
  by (auto simp: body_fits_def body_bytes_def length_grant_bytes length5)

section \<open>The layout of a record\<close>

definition record_prefix :: "sweep_body \<Rightarrow> bytes" where
  "record_prefix b = SWEEP_BODY_MAGIC @ u64_bytes SWEEP_ABI @ u64_bytes (int SWEEP_RECORD_BYTES)
     @ le_bytes 4 SWEEP_FLAGS @ le_bytes 4 0 @ body_bytes b"

definition record_hash :: "bytes \<Rightarrow> bytes" where
  "record_hash prefix = sha_parts (store_domain ''glacier-continuation-sweep-record-body-v1'') [prefix]"

definition record_bytes :: "sweep_body \<Rightarrow> bytes" where
  "record_bytes b = record_prefix b @ record_hash (record_prefix b) @ SWEEP_FOOTER_MAGIC @ u64_bytes (sb_sequence b)
     @ record_hash (record_prefix b)"

lemma sweep_magic_length [simp]: "length SWEEP_BODY_MAGIC = 8" "length SWEEP_FOOTER_MAGIC = 8"
  by (simp_all add: SWEEP_BODY_MAGIC_def SWEEP_FOOTER_MAGIC_def ascii_def)

lemma length_record_hash [simp]: "length (record_hash p) = 32"
  by (simp add: record_hash_def)

lemma length_record_prefix: "body_fits b \<Longrightarrow> length (record_prefix b) = 704"
  by (simp add: record_prefix_def length_body_bytes)

lemma length_record_bytes: "body_fits b \<Longrightarrow> length (record_bytes b) = 784"
  by (simp add: record_bytes_def length_record_prefix)

lemma record_root_prefix: "body_fits b \<Longrightarrow> sweep_record_root (record_prefix b) = Inr (record_hash (record_prefix b))"
  by (simp add: sweep_record_root_def length_record_prefix record_hash_def)

lemma recast_Inr: "(case m of Inl _ \<Rightarrow> Inl e | Inr x \<Rightarrow> Inr x) = Inr y \<longleftrightarrow> m = Inr y"
  by (cases m) simp_all

lemma decode_raw_layout:
  "sweep_record_decode_raw bs = Inr (r, root) \<longleftrightarrow>
     (\<exists>b g. body_fits b \<and> sweep_commit_grant_root (sb_grant b) = Inr g \<and> r = evidence b g
        \<and> validate_sweep_input r = Inr () \<and> bs = record_bytes b \<and> root = record_hash (record_prefix b))"
    (is "?l \<longleftrightarrow> ?r")
proof
  assume l: ?l
  then have n: "length bs = 784" by (auto simp: sweep_record_decode_raw_def Let_def bindE_Inr guardE_Inr)
  from l obtain r0 r1 r2 r3 r4 r5 r6 r7 r8 b g where p:
    "rd_take RcTruncated 8 bs = Inr (SWEEP_BODY_MAGIC, r0)" "rd_u64 RcTruncated r0 = Inr (SWEEP_ABI, r1)"
    "rd_u64 RcTruncated r1 = Inr (784, r2)" "rd_u32 RcTruncated r2 = Inr (0, r3)" "rd_u32 RcTruncated r3 = Inr (0, r4)"
    "rd_sweep_body r4 = Inr (b, r5)" "rd_digest RcTruncated r5 = Inr (root, r6)"
    "sweep_record_root (take 704 bs) = Inr root" "rd_take RcTruncated 8 r6 = Inr (SWEEP_FOOTER_MAGIC, r7)"
    "rd_u64 RcTruncated r7 = Inr (sb_sequence b, r8)" "rd_digest RcTruncated r8 = Inr (root, [])"
    "sweep_commit_grant_root (sb_grant b) = Inr g" "validate_sweep_input (evidence b g) = Inr ()" "r = evidence b g"
    unfolding sweep_record_decode_raw_def Let_def
    by (auto simp: bindE_Inr guardE_Inr recast_Inr)
  note q = p [unfolded rd_take_Inr rd_u64_Inr rd_u32_Inr rd_digest_Inr body_field.field]
  have fits: "body_fits b" using q(6) by simp
  from q have bs: "bs = record_prefix b @ root @ SWEEP_FOOTER_MAGIC @ u64_bytes (sb_sequence b) @ root"
    by (simp add: record_prefix_def)
  then have "take 704 bs = record_prefix b" using length_record_prefix [OF fits] by simp
  with q(8) record_root_prefix [OF fits] have "root = record_hash (record_prefix b)" by simp
  with fits q(12-14) bs show ?r by (auto simp: record_bytes_def)
next
  assume ?r
  then obtain b g where p: "body_fits b" "sweep_commit_grant_root (sb_grant b) = Inr g" "r = evidence b g"
    "validate_sweep_input r = Inr ()" "bs = record_bytes b" "root = record_hash (record_prefix b)"
    by blast
  have n: "length bs = 784" using length_record_bytes p by simp
  have t: "take 704 bs = record_prefix b" using length_record_prefix [OF p(1)] by (simp add: p(5) record_bytes_def)
  have lroot: "length root = 32" by (simp add: p(6))
  have seq: "is_u64 (sb_sequence b)" using p(1) by (simp add: body_fits_def)
  define r8 where "r8 = root"
  define r7 where "r7 = u64_bytes (sb_sequence b) @ r8"
  define r6 where "r6 = SWEEP_FOOTER_MAGIC @ r7"
  define r5 where "r5 = root @ r6"
  define r4 where "r4 = body_bytes b @ r5"
  define r3 where "r3 = le_bytes 4 0 @ r4"
  define r2 where "r2 = le_bytes 4 SWEEP_FLAGS @ r3"
  define r1 where "r1 = u64_bytes (int SWEEP_RECORD_BYTES) @ r2"
  define r0 where "r0 = u64_bytes SWEEP_ABI @ r1"
  note tails = r0_def r1_def r2_def r3_def r4_def r5_def r6_def r7_def r8_def
  have "rd_take RcTruncated 8 bs = Inr (SWEEP_BODY_MAGIC, r0)"
    by (simp add: rd_take_Inr p(5,6) record_bytes_def record_prefix_def tails)
  moreover have "rd_u64 RcTruncated r0 = Inr (SWEEP_ABI, r1)" "rd_u64 RcTruncated r1 = Inr (784, r2)"
    "rd_u32 RcTruncated r2 = Inr (0, r3)" "rd_u32 RcTruncated r3 = Inr (0, r4)"
    by (simp_all add: rd_u64_Inr rd_u32_Inr is_u64_def r0_def r1_def r2_def r3_def)
  moreover have "rd_sweep_body r4 = Inr (b, r5)" using p(1) by (simp add: body_field.field r4_def)
  moreover have "rd_digest RcTruncated r5 = Inr (root, r6)" using lroot by (simp add: rd_digest_Inr r5_def)
  moreover have "rd_take RcTruncated 8 r6 = Inr (SWEEP_FOOTER_MAGIC, r7)" by (simp add: rd_take_Inr r6_def)
  moreover have "rd_u64 RcTruncated r7 = Inr (sb_sequence b, r8)" using seq by (simp add: rd_u64_Inr r7_def)
  moreover have "rd_digest RcTruncated r8 = Inr (root, [])" using lroot by (simp add: rd_digest_Inr r8_def)
  moreover have "sweep_record_root (take 704 bs) = Inr root" using record_root_prefix [OF p(1)] t p(6) by simp
  moreover have "length r5 = 80" "length r6 = 48" using lroot by (simp_all add: tails)
  ultimately show ?l using p(2-4) n
    by (simp add: sweep_record_decode_raw_def Let_def guardE_def)
qed

section \<open>Round trip\<close>

definition body_of :: "sweep_record \<Rightarrow> sweep_body" where
  "body_of r = (let x = rc_commit_receipt r; c = rc_store_receipt r in
     \<lparr>sb_record_epoch = rc_record_epoch r, sb_sequence = rc_sequence r,
       sb_previous_record_sha256 = rc_previous_record_sha256 r,
       sb_record_challenge_sha256 = rc_record_challenge_sha256 r, sb_grant = rc_commit_grant r,
       sb_targets_sha256 = sr_targets_sha256 x, sb_snapshot_after_sha256 = sr_snapshot_after_sha256 x,
       sb_accounting_before = cr_accounting_before c, sb_accounting_after = cr_accounting_after c,
       sb_freed = freed_fields x, sb_store_commit_sha256 = cr_commit_sha256 c,
       sb_sweep_commit_sha256 = sr_commit_sha256 x\<rparr>)"

lemma body_of_evidence: "length (sb_freed b) = 5 \<Longrightarrow> body_of (evidence b g) = b"
  by (cases b) (auto simp: body_of_def evidence_def Let_def freed_fields_def length5)

lemma validate_sweep_input_Inr:
  "validate_sweep_input r = Inr u \<longleftrightarrow> length (rc_previous_record_sha256 r) = 32
     \<and> length (rc_record_challenge_sha256 r) = 32 \<and> rc_record_challenge_sha256 r \<noteq> ZERO_DIGEST
     \<and> is_u64 (rc_record_epoch r) \<and> is_u64 (rc_sequence r) \<and> rc_record_epoch r \<noteq> 0 \<and> rc_sequence r \<noteq> 0
     \<and> (rc_sequence r = 1 \<longleftrightarrow> rc_previous_record_sha256 r = ZERO_DIGEST)
     \<and> verify_commit_receipt (rc_commit_grant r) (rc_commit_receipt r) (rc_store_receipt r) = Inr ()"
  by (auto simp: validate_sweep_input_def result_simps split: sum.splits sweep_error.splits)

lemma commit_grant_fits:
  "sweep_commit_grant_root g = Inr root \<Longrightarrow> grant_fits g \<and> ZERO_DIGEST \<notin> set (grant_digests g)
     \<and> xg_challenge_sha256 g \<noteq> ZERO_DIGEST"
  by (auto simp: sweep_commit_grant_root_def validate_commit_grant_def result_simps grant_fits_def grant_digests_def)

lemma verified_receipt:
  assumes "verify_commit_receipt x r c = Inr ()"
  obtains root where "sweep_commit_grant_root x = Inr root" "verify_retired_commit_receipt c = Inr ()"
    "r = \<lparr>sr_commit_grant_sha256 = root, sr_sweep_grant_sha256 = xg_sweep_grant_sha256 x,
       sr_prepare_sha256 = xg_prepare_sha256 x, sr_collection_plan_sha256 = xg_collection_plan_sha256 x,
       sr_targets_sha256 = cr_targets_sha256 c, sr_snapshot_before_sha256 = xg_expected_snapshot_sha256 x,
       sr_snapshot_after_sha256 = cr_snapshot_after_sha256 c, sr_store_commit_sha256 = cr_commit_sha256 c,
       sr_freed_entries = cr_freed_entries c, sr_freed_payload_bytes = cr_freed_payload_bytes c,
       sr_freed_index_bytes = cr_freed_index_bytes c, sr_freed_repair_count = cr_freed_repair_count c,
       sr_allocator_deallocation_calls = cr_allocator_deallocation_calls c, sr_commit_sha256 = sr_commit_sha256 r\<rparr>"
    "cr_authorization_sha256 c = root" "cr_snapshot_before_sha256 c = xg_expected_snapshot_sha256 x"
    "sweep_commit_root r = Inr (sr_commit_sha256 r)"
proof -
  from assms obtain root where v: "sweep_commit_grant_root x = Inr root" "verify_retired_commit_receipt c = Inr ()"
    "sr_commit_grant_sha256 r = root" "sr_sweep_grant_sha256 r = xg_sweep_grant_sha256 x"
    "sr_prepare_sha256 r = xg_prepare_sha256 x" "sr_collection_plan_sha256 r = xg_collection_plan_sha256 x"
    "sr_snapshot_before_sha256 r = xg_expected_snapshot_sha256 x" "cr_authorization_sha256 c = root"
    "sr_targets_sha256 r = cr_targets_sha256 c" "sr_snapshot_before_sha256 r = cr_snapshot_before_sha256 c"
    "sr_snapshot_after_sha256 r = cr_snapshot_after_sha256 c" "sr_store_commit_sha256 r = cr_commit_sha256 c"
    "sr_freed_entries r = cr_freed_entries c" "sr_freed_payload_bytes r = cr_freed_payload_bytes c"
    "sr_freed_index_bytes r = cr_freed_index_bytes c" "sr_freed_repair_count r = cr_freed_repair_count c"
    "sr_allocator_deallocation_calls r = cr_allocator_deallocation_calls c"
    "sweep_commit_root r = Inr (sr_commit_sha256 r)"
    by (auto simp: verify_commit_receipt_def bindE_Inr guardE_Inr split: sum.splits)
  show thesis by (rule that [OF v(1,2) _ v(8) _ v(18)]) (use v in \<open>simp_all\<close>)
qed

lemma receipt_digests:
  assumes "verify_retired_commit_receipt c = Inr ()"
  shows "\<forall>d \<in> {cr_targets_sha256 c, cr_snapshot_after_sha256 c, cr_commit_sha256 c}. length d = 32 \<and> d \<noteq> ZERO_DIGEST"
    and "accounting_fits (cr_accounting_before c)" "accounting_fits (cr_accounting_after c)"
    and "\<forall>v \<in> {cr_freed_entries c, cr_freed_payload_bytes c, cr_freed_index_bytes c, cr_freed_repair_count c,
      cr_allocator_deallocation_calls c}. is_u64 v"
proof -
  from assms have c: "receipt_checks c = Inr ()" "accounting_is_valid (cr_accounting_before c)"
    "accounting_is_valid (cr_accounting_after c)"
    by (auto simp: verify_retired_commit_receipt_def Let_def bindE_Inr split: sum.splits if_splits)
  show "\<forall>d \<in> {cr_targets_sha256 c, cr_snapshot_after_sha256 c, cr_commit_sha256 c}. length d = 32 \<and> d \<noteq> ZERO_DIGEST"
    "\<forall>v \<in> {cr_freed_entries c, cr_freed_payload_bytes c, cr_freed_index_bytes c, cr_freed_repair_count c,
      cr_allocator_deallocation_calls c}. is_u64 v"
    using c(1) by (auto simp: receipt_checks_def result_simps mapE_store_u64)
  have "accounting_fits a" if "accounting_is_valid a" for a
    using that by (auto simp: accounting_is_valid_def Let_def accounting_fits_def mapE_store_u64 split: sum.splits)
  with c(2,3) show "accounting_fits (cr_accounting_before c)" "accounting_fits (cr_accounting_after c)" by blast+
qed

lemma valid_record:
  assumes "validate_sweep_input r = Inr ()"
  obtains g where "sweep_commit_grant_root (rc_commit_grant r) = Inr g" "evidence (body_of r) g = r" "body_fits (body_of r)"
    "\<forall>d \<in> {sr_targets_sha256 (rc_commit_receipt r), sr_snapshot_after_sha256 (rc_commit_receipt r),
       cr_commit_sha256 (rc_store_receipt r)}. length d = 32 \<and> d \<noteq> ZERO_DIGEST"
proof -
  let ?x = "rc_commit_receipt r" and ?c = "rc_store_receipt r" and ?g = "rc_commit_grant r"
  from assms have v: "verify_commit_receipt ?g ?x ?c = Inr ()" by (simp add: validate_sweep_input_Inr)
  then obtain g where g: "sweep_commit_grant_root ?g = Inr g" "verify_retired_commit_receipt ?c = Inr ()"
    "?x = \<lparr>sr_commit_grant_sha256 = g, sr_sweep_grant_sha256 = xg_sweep_grant_sha256 ?g,
       sr_prepare_sha256 = xg_prepare_sha256 ?g, sr_collection_plan_sha256 = xg_collection_plan_sha256 ?g,
       sr_targets_sha256 = cr_targets_sha256 ?c, sr_snapshot_before_sha256 = xg_expected_snapshot_sha256 ?g,
       sr_snapshot_after_sha256 = cr_snapshot_after_sha256 ?c, sr_store_commit_sha256 = cr_commit_sha256 ?c,
       sr_freed_entries = cr_freed_entries ?c, sr_freed_payload_bytes = cr_freed_payload_bytes ?c,
       sr_freed_index_bytes = cr_freed_index_bytes ?c, sr_freed_repair_count = cr_freed_repair_count ?c,
       sr_allocator_deallocation_calls = cr_allocator_deallocation_calls ?c, sr_commit_sha256 = sr_commit_sha256 ?x\<rparr>"
    "cr_authorization_sha256 ?c = g" "cr_snapshot_before_sha256 ?c = xg_expected_snapshot_sha256 ?g"
    "sweep_commit_root ?x = Inr (sr_commit_sha256 ?x)"
    by (rule verified_receipt)
  note d = receipt_digests [OF g(2)]
  have x: "sr_targets_sha256 ?x = cr_targets_sha256 ?c" "sr_snapshot_after_sha256 ?x = cr_snapshot_after_sha256 ?c"
    "freed_fields ?x = [cr_freed_entries ?c, cr_freed_payload_bytes ?c, cr_freed_index_bytes ?c,
       cr_freed_repair_count ?c, cr_allocator_deallocation_calls ?c]"
    by (subst g(3), simp add: freed_fields_def)+
  have "length (sr_commit_sha256 ?x) = 32"
    using g(6) by (auto simp: sweep_commit_root_def dest: hash_checked_length)
  then have fits: "body_fits (body_of r)" using assms commit_grant_fits [OF g(1)] d
    by (simp add: body_fits_def body_of_def Let_def x validate_sweep_input_Inr)
  have "evidence (body_of r) g = r"
  proof -
    have "rc_commit_receipt (evidence (body_of r) g) = ?x"
      by (subst g(3)) (simp add: evidence_def body_of_def Let_def x)
    moreover have "rc_store_receipt (evidence (body_of r) g) = ?c"
      using g(4,5) by (cases ?c) (simp add: evidence_def body_of_def Let_def x)
    ultimately show ?thesis by (cases r) (simp add: evidence_def body_of_def Let_def)
  qed
  with g(1) fits d(1) show thesis by (intro that) (simp_all add: x)
qed

lemma mapE_id: "mapE (\<lambda>p. p) ps = Inr xs \<longleftrightarrow> ps = map Inr xs"
proof (induction ps arbitrary: xs)
  case (Cons p ps)
  then show ?case by (cases xs) (auto simp: bindE_Inr)
qed auto

definition record_front :: "sweep_record \<Rightarrow> bytes list" where
  "record_front r = (let b = body_of r; g = sb_grant b in
     [SWEEP_BODY_MAGIC, u64_bytes SWEEP_ABI, u64_bytes (int SWEEP_RECORD_BYTES), le_bytes 4 SWEEP_FLAGS,
      le_bytes 4 0, u64_bytes (sb_record_epoch b), u64_bytes (sb_sequence b), sb_previous_record_sha256 b,
      sb_record_challenge_sha256 b, u64_bytes (xg_authority_epoch g)] @ grant_digests g
     @ [u64_bytes (xg_max_freed_entries g), u64_bytes (xg_max_freed_bytes g), xg_challenge_sha256 g,
        sb_targets_sha256 b, sb_snapshot_after_sha256 b] @ map u64_bytes (accounting_fields (sb_accounting_before b))
     @ map u64_bytes (accounting_fields (sb_accounting_after b)) @ map u64_bytes (sb_freed b)
     @ [sb_store_commit_sha256 b])"

definition record_parts :: "sweep_record \<Rightarrow> bytes list" where
  "record_parts r = record_front r @ [sb_sweep_commit_sha256 (body_of r)]"

lemma concat_record_parts: "concat (record_parts r) = record_prefix (body_of r)"
  by (simp add: record_parts_def record_front_def record_prefix_def body_bytes_def grant_bytes_def grant_digests_def
      accounting_bytes_def Let_def)

lemma record_chunks:
  assumes v: "validate_sweep_input r = Inr ()"
  shows "sweep_record_chunks r = map Inr parts \<longleftrightarrow>
    sr_commit_sha256 (rc_commit_receipt r) \<noteq> ZERO_DIGEST \<and> parts = record_parts r"
proof -
  from v obtain g where g: "sweep_commit_grant_root (rc_commit_grant r) = Inr g" "body_fits (body_of r)"
    "\<forall>d \<in> {sr_targets_sha256 (rc_commit_receipt r), sr_snapshot_after_sha256 (rc_commit_receipt r),
       cr_commit_sha256 (rc_store_receipt r)}. length d = 32 \<and> d \<noteq> ZERO_DIGEST"
    by (rule valid_record)
  have n: "nonzero_digest d = Inr d" if "length d = 32" "d \<noteq> ZERO_DIGEST" for d
    using that by (simp add: nonzero_digest_def)
  have u: "record_u64 w = Inr (u64_bytes w)" if "is_u64 w" for w using that by (simp add: record_u64_Inr)
  have us: "map record_u64 ws = map Inr (map u64_bytes ws)" if "\<forall>w \<in> set ws. is_u64 w" for ws
    using that u by simp
  note fits = g(2) [unfolded body_fits_def body_of_def Let_def sweep_body.simps grant_fits_def accounting_fits_def]
  have grant: "grant_chunks (rc_commit_grant r) = map Inr (u64_bytes (xg_authority_epoch (rc_commit_grant r))
      # grant_digests (rc_commit_grant r) @ [u64_bytes (xg_max_freed_entries (rc_commit_grant r)),
        u64_bytes (xg_max_freed_bytes (rc_commit_grant r)), xg_challenge_sha256 (rc_commit_grant r)])"
    using commit_grant_fits [OF g(1)] by (auto simp: grant_chunks_def grant_fits_def grant_digests_def nonzero_digest_def u)
  have fixed: "record_u64 SWEEP_ABI = Inr (u64_bytes SWEEP_ABI)" "record_u64 784 = Inr (u64_bytes 784)"
    by (simp_all add: u is_u64_def)
  let ?h = "sr_commit_sha256 (rc_commit_receipt r)"
  have split: "sweep_record_chunks r = map Inr (record_front r) @ [nonzero_digest ?h]" "record_parts r = record_front r @ [?h]"
    using v g(3) fits
    by (simp_all add: record_front_def record_parts_def body_of_def Let_def sweep_record_chunks_def grant fixed us n u
        validate_sweep_input_Inr chain_digest_def)
  have len: "length ?h = 32" using fits by simp
  show ?thesis
  proof (cases "?h = ZERO_DIGEST")
    case True
    then have "nonzero_digest ?h = Inl RcDigest" by (simp add: nonzero_digest_def)
    then have "sweep_record_chunks r \<noteq> map Inr parts" unfolding split(1)
      by (metis last_map last_snoc append_is_Nil_conv list.distinct(1) list.map_disc_iff sum.distinct(1))
    with True show ?thesis by simp
  next
    case False
    with len have "sweep_record_chunks r = map Inr (record_parts r)" by (simp add: split n)
    then have "sweep_record_chunks r = map Inr parts \<longleftrightarrow> map Inr (record_parts r) = (map Inr parts :: (sweep_record_error + bytes) list)"
      by simp
    also have "\<dots> \<longleftrightarrow> parts = record_parts r" by (subst inj_map_eq_map) (auto simp: inj_on_def)
    finally show ?thesis using False by simp
  qed
qed

lemma encode_layout:
  "sweep_record_encode r = Inr bs \<longleftrightarrow> validate_sweep_input r = Inr ()
     \<and> sr_commit_sha256 (rc_commit_receipt r) \<noteq> ZERO_DIGEST \<and> bs = record_bytes (body_of r)"
proof (cases "validate_sweep_input r")
  case (Inr u)
  then have v: "validate_sweep_input r = Inr ()" by simp
  then obtain g where fits: "body_fits (body_of r)" by (rule valid_record)
  have seq: "record_u64 (rc_sequence r) = Inr (u64_bytes (rc_sequence r))"
    using v by (simp add: validate_sweep_input_Inr record_u64_Inr)
  have s: "sb_sequence (body_of r) = rc_sequence r" by (simp add: body_of_def Let_def)
  have "sweep_record_encode r = Inr bs \<longleftrightarrow> (\<exists>parts. mapE (\<lambda>p. p) (sweep_record_chunks r) = Inr parts
      \<and> sweep_record_encode r = Inr bs)"
    by (auto simp: sweep_record_encode_def bindE_Inr)
  also have "\<dots> \<longleftrightarrow> sr_commit_sha256 (rc_commit_receipt r) \<noteq> ZERO_DIGEST \<and> bs = record_bytes (body_of r)"
  proof -
    have e: "sweep_record_encode r = Inr (record_bytes (body_of r))" if "mapE (\<lambda>p. p) (sweep_record_chunks r) = Inr (record_parts r)"
      using length_record_bytes [OF fits] unfolding record_bytes_def s
      by (simp add: sweep_record_encode_def v that Let_def concat_record_parts length_record_prefix [OF fits]
          record_root_prefix [OF fits] seq guardE_def)
    show ?thesis unfolding mapE_id record_chunks [OF v] using e unfolding mapE_id record_chunks [OF v] by auto
  qed
  finally show ?thesis using v by simp
qed (simp add: sweep_record_encode_def)

lemma decode_wrapper: "sweep_record_decode bs = Inr d \<longleftrightarrow> sweep_record_decode_raw bs = Inr d"
  by (auto simp: sweep_record_decode_def split: sum.splits sweep_record_error.splits)

text \<open>
  The decoder accepts what the encoder writes and, but for a commit root that is zero, nothing else.
\<close>

lemma record_exact:
  "sweep_record_decode bs = Inr (r, root) \<and> sr_commit_sha256 (rc_commit_receipt r) \<noteq> ZERO_DIGEST \<longleftrightarrow>
     sweep_record_encode r = Inr bs \<and> root = record_hash (take 704 bs)"
proof -
  have "sweep_record_decode bs = Inr (r, root) \<longleftrightarrow> validate_sweep_input r = Inr () \<and> bs = record_bytes (body_of r)
      \<and> root = record_hash (record_prefix (body_of r))"
  proof
    assume "sweep_record_decode bs = Inr (r, root)"
    then obtain b g where b: "body_fits b" "r = evidence b g" "validate_sweep_input r = Inr ()" "bs = record_bytes b"
      "root = record_hash (record_prefix b)"
      by (auto simp: decode_wrapper decode_raw_layout)
    have "body_of r = b" unfolding b(2) by (rule body_of_evidence) (use b(1) in \<open>simp add: body_fits_def\<close>)
    with b show "validate_sweep_input r = Inr () \<and> bs = record_bytes (body_of r)
      \<and> root = record_hash (record_prefix (body_of r))" by simp
  next
    assume r: "validate_sweep_input r = Inr () \<and> bs = record_bytes (body_of r)
      \<and> root = record_hash (record_prefix (body_of r))"
    then have v: "validate_sweep_input r = Inr ()" by simp
    then obtain g where "sweep_commit_grant_root (rc_commit_grant r) = Inr g" "evidence (body_of r) g = r"
      "body_fits (body_of r)" by (rule valid_record)
    with r show "sweep_record_decode bs = Inr (r, root)" unfolding decode_wrapper decode_raw_layout
      by (intro exI [of _ "body_of r"] exI [of _ g]) (simp add: body_of_def Let_def)
  qed
  moreover have "take 704 (record_bytes (body_of r)) = record_prefix (body_of r)" if "validate_sweep_input r = Inr ()"
  proof -
    from that obtain g where "body_fits (body_of r)" by (rule valid_record)
    then show ?thesis using length_record_prefix by (simp add: record_bytes_def)
  qed
  ultimately show ?thesis unfolding encode_layout by auto
qed

section \<open>The parts of a decoded record\<close>

lemma decoded_parts:
  assumes "sweep_record_decode bs = Inr (r, root)"
  shows "length bs = 784" "length root = 32" "validate_sweep_input r = Inr ()"
    "expected_footer (take 736 bs) = Inr (drop 736 bs)"
proof -
  from assms obtain b g where b: "body_fits b" "r = evidence b g" "validate_sweep_input r = Inr ()"
    "bs = record_bytes b" "root = record_hash (record_prefix b)"
    by (auto simp: decode_wrapper decode_raw_layout)
  note n = length_record_prefix [OF b(1)]
  show "length bs = 784" "length root = 32" "validate_sweep_input r = Inr ()"
    using length_record_bytes [OF b(1)] b(3-5) by simp_all
  have body: "take 736 bs = record_prefix b @ root" "drop 736 bs = SWEEP_FOOTER_MAGIC @ u64_bytes (sb_sequence b) @ root"
    using n by (simp_all add: b(4,5) record_bytes_def)
  have "slice 40 8 (record_prefix b @ root) = u64_bytes (sb_sequence b)"
    using n by (simp add: slice_def record_prefix_def body_bytes_def)
  moreover have "slice 704 32 (record_prefix b @ root) = root" using n by (simp add: slice_def b(5))
  ultimately show "expected_footer (take 736 bs) = Inr (drop 736 bs)"
    using n by (simp add: expected_footer_def body guardE_def b(5))
qed

lemma decoded_root:
  assumes "sweep_record_decode bs = Inr (r, root)"
  shows "slice 704 32 bs = root" "root = record_hash (take 704 bs)"
proof -
  from assms obtain b g where b: "body_fits b" "bs = record_bytes b" "root = record_hash (record_prefix b)"
    by (auto simp: decode_wrapper decode_raw_layout)
  note n = length_record_prefix [OF b(1)]
  show "slice 704 32 bs = root" "root = record_hash (take 704 bs)"
    using n by (simp_all add: b(2,3) record_bytes_def slice_def)
qed

lemma recovered_body:
  assumes "sweep_record_decode bs = Inr (r, root)"
  shows "decode_body_for_recovery (take 736 bs) = Inr (r, root)"
  using assms decoded_parts(4) [OF assms] by (simp add: decode_body_for_recovery_def)

end
