(* ===== verification/Sweep_Recovery.thy ===== *)
theory Sweep_Recovery
  imports Sweep_Codec
begin

text \<open>
  What the classification of a stream means. A \<open>sweep_chain\<close> is a list of encoded records each of which
  decodes, has the next sequence number and names the root of the one before it. Whatever the stream, the
  bytes classified as committed are such a chain; and a chain followed by any proper part of the record
  that comes next is classified as just that.
\<close>

section \<open>Chains\<close>

definition root_of :: "bytes \<Rightarrow> bytes" where
  "root_of b = (case sweep_record_decode b of Inl _ \<Rightarrow> [] | Inr (r, root) \<Rightarrow> root)"

definition continues :: "int \<Rightarrow> int \<Rightarrow> bytes \<Rightarrow> bytes \<Rightarrow> bool" where
  "continues epoch sequence previous b =
    (case sweep_record_decode b of Inl _ \<Rightarrow> False
     | Inr (r, root) \<Rightarrow> recovery_record_matches r epoch sequence previous)"

fun sweep_chain :: "int \<Rightarrow> int \<Rightarrow> bytes \<Rightarrow> bytes list \<Rightarrow> bool" where
  "sweep_chain epoch sequence previous [] \<longleftrightarrow> True"
| "sweep_chain epoch sequence previous (b # bs) \<longleftrightarrow>
     continues epoch sequence previous b \<and> sweep_chain epoch (sequence + 1) (root_of b) bs"

definition chain_root :: "bytes \<Rightarrow> bytes list \<Rightarrow> bytes" where
  "chain_root previous bs = (if bs = [] then previous else root_of (last bs))"

lemma chain_root_simps [simp]:
  "chain_root p [] = p" "chain_root p (bs @ [b]) = root_of b" "chain_root p (b # bs) = chain_root (root_of b) bs"
  by (simp_all add: chain_root_def)

lemma chain_append:
  "sweep_chain e q p (bs @ cs) \<longleftrightarrow> sweep_chain e q p bs \<and> sweep_chain e (q + int (length bs)) (chain_root p bs) cs"
  by (induction bs arbitrary: q p) (auto simp: algebra_simps)

lemma chain_snoc:
  "sweep_chain e q p (bs @ [b]) \<longleftrightarrow> sweep_chain e q p bs \<and> continues e (q + int (length bs)) (chain_root p bs) b"
  by (simp add: chain_append)

lemma continues_decode:
  assumes "continues e q p b"
  obtains r where "sweep_record_decode b = Inr (r, root_of b)" "rc_record_epoch r = e" "rc_sequence r = q"
    "rc_previous_record_sha256 r = p" "length b = 784" "is_u64 q"
proof -
  from assms obtain r root where r: "sweep_record_decode b = Inr (r, root)" "rc_record_epoch r = e"
    "rc_sequence r = q" "rc_previous_record_sha256 r = p"
    by (auto simp: continues_def recovery_record_matches_def split: sum.splits)
  have "validate_sweep_input r = Inr ()" by (rule decoded_parts [OF r(1)])
  then have "is_u64 q" using r(3) by (simp add: validate_sweep_input_Inr)
  with r decoded_parts(1) [OF r(1)] show thesis by (intro that [of r]) (simp_all add: root_of_def)
qed

lemma continuesI: "sweep_record_decode b = Inr (r, root) \<Longrightarrow> recovery_record_matches r e q p \<Longrightarrow>
    continues e q p b \<and> root_of b = root"
  by (simp add: continues_def root_of_def)

lemma chain_lengths: "sweep_chain e q p bs \<Longrightarrow> b \<in> set bs \<Longrightarrow> length b = 784"
  by (induction bs arbitrary: q p) (auto elim: continues_decode)

lemma length_chain: "sweep_chain e q p bs \<Longrightarrow> length (concat bs) = 784 * length bs"
  using chain_lengths [of e q p bs] by (induction bs arbitrary: q p) (auto elim: continues_decode)

section \<open>The scan\<close>

definition scanned :: "recovery_anchor \<Rightarrow> bytes \<Rightarrow> bytes list \<Rightarrow> sweep_scan" where
  "scanned a stream bs =
     \<lparr>ss_last_sequence = ra_next_sequence a + int (length bs) - 1, ss_committed_records = int (length bs),
       ss_offset = 784 * length bs, ss_final_record_sha256 = chain_root (ra_previous_record_sha256 a) bs,
       ss_expected_sequence = (if 784 * length bs < length stream \<or> bs = [] then ra_next_sequence a + int (length bs)
         else ra_next_sequence a + int (length bs) - 1),
       ss_expected_previous = chain_root (ra_previous_record_sha256 a) bs\<rparr>"

abbreviation chain_of :: "recovery_anchor \<Rightarrow> bytes list \<Rightarrow> bool" where
  "chain_of a \<equiv> sweep_chain (ra_record_epoch a) (ra_next_sequence a) (ra_previous_record_sha256 a)"

abbreviation continues_chain :: "recovery_anchor \<Rightarrow> bytes list \<Rightarrow> bytes \<Rightarrow> bool" where
  "continues_chain a bs \<equiv> continues (ra_record_epoch a) (ra_next_sequence a + int (length bs))
     (chain_root (ra_previous_record_sha256 a) bs)"

lemma scanned_offset [simp]: "ss_offset (scanned a stream bs) = 784 * length bs"
  by (simp add: scanned_def)

lemma scan_start_scanned: "scan_start a = scanned a stream []"
  by (simp add: scan_start_def scanned_def)

text \<open>One turn, at a state that has scanned a chain and has a whole record left.\<close>

definition take_frame :: "bytes list \<Rightarrow> bytes \<Rightarrow> bytes" where
  "take_frame bs stream = slice (784 * length bs) 784 stream"

lemma scan_record_cases:
  assumes "784 * length bs + 784 \<le> length stream"
  shows "scan_record a stream (scanned a stream bs) =
    (let b = take_frame bs stream in
     if \<not> continues_chain a bs b then Inl (scanned a stream bs)
     else if 784 * length (bs @ [b]) < length stream \<and> ra_next_sequence a + int (length bs) = U64_MAX
     then Inl ((scanned a stream (bs @ [b]))\<lparr>ss_expected_sequence := ra_next_sequence a + int (length bs)\<rparr>)
     else Inr (scanned a stream (bs @ [b])))"
proof -
  let ?b = "take_frame bs stream"
  have slice: "slice (784 * length bs) 784 stream = ?b" by (simp add: take_frame_def)
  have more: "784 * length bs < length stream" using assms by simp
  show ?thesis
  proof (cases "sweep_record_decode ?b")
    case (Inl e)
    then show ?thesis by (simp add: scan_record_def slice continues_def Let_def)
  next
    case (Inr d)
    then obtain r root where d: "sweep_record_decode ?b = Inr (r, root)" by (cases d) auto
    have root: "root_of ?b = root" using d by (simp add: root_of_def)
    show ?thesis using more
      by (auto simp: scan_record_def slice d continues_def Let_def scanned_def root recovery_record_matches_def)
  qed
qed

lemma scan_records_stop:
  assumes "length stream < 784 * length bs + 784"
  shows "scan_records a stream (scanned a stream bs) = Inr (scanned a stream bs)"
proof -
  have "\<not> 784 \<le> length stream - 784 * length bs" using assms by linarith
  then show ?thesis by (subst scan_records.simps) simp
qed

text \<open>A chain at the front of the stream is scanned, record by record.\<close>

lemma frame_of_chain:
  assumes "chain_of a bs" "length c = 784" "stream = concat bs @ c @ rest"
  shows "take_frame bs stream = c"
  using length_chain [OF assms(1)] assms(2,3) by (simp add: take_frame_def slice_def)

lemma scan_chain:
  assumes "chain_of a (bs @ cs)" "stream = concat (bs @ cs) @ tail"
    "tail \<noteq> [] \<Longrightarrow> ra_next_sequence a + int (length (bs @ cs)) \<le> U64_MAX"
  shows "scan_records a stream (scanned a stream bs) = scan_records a stream (scanned a stream (bs @ cs))"
  using assms
proof (induction cs arbitrary: bs)
  case (Cons c cs)
  from Cons.prems(1) have chain: "chain_of a bs" "continues_chain a bs c"
    "chain_of a ((bs @ [c]) @ cs)"
    by (simp_all add: chain_append)
  have c: "length c = 784" using chain(2) by (rule continues_decode)
  have stream: "stream = concat bs @ c @ concat cs @ tail" using Cons.prems(2) by simp
  have frame: "take_frame bs stream = c" by (rule frame_of_chain [OF chain(1) c stream])
  have n: "784 * length bs + 784 \<le> length stream" using length_chain [OF chain(1)] c by (simp add: stream)
  have "ra_next_sequence a + int (length bs) \<noteq> U64_MAX" if "784 * length (bs @ [c]) < length stream"
  proof (cases cs)
    case Nil
    then have "tail \<noteq> []" using that length_chain [OF chain(1)] c by (auto simp: stream)
    with Cons.prems(3) Nil show ?thesis by simp
  next
    case (Cons d ds)
    with chain(3) have "continues (ra_record_epoch a) (ra_next_sequence a + int (length bs) + 1) (root_of c) d"
      by (simp add: chain_append)
    then have "is_u64 (ra_next_sequence a + int (length bs) + 1)" by (rule continues_decode)
    then show ?thesis by (simp add: is_u64_def)
  qed
  then have "scan_record a stream (scanned a stream bs) = Inr (scanned a stream (bs @ [c]))"
    using chain(2) by (auto simp: scan_record_cases [OF n] frame)
  moreover have "length stream - ss_offset (scanned a stream bs) \<ge> 784" using n by (simp add: scanned_def)
  ultimately have "scan_records a stream (scanned a stream bs) = scan_records a stream (scanned a stream (bs @ [c]))"
    by (subst scan_records.simps) simp
  also have "\<dots> = scan_records a stream (scanned a stream ((bs @ [c]) @ cs))"
    by (rule Cons.IH) (use Cons.prems chain(3) in \<open>simp_all\<close>)
  finally show ?case by simp
qed simp

text \<open>And whatever the stream, what has been scanned when the loop ends is a chain at its front.\<close>

definition front_chain :: "recovery_anchor \<Rightarrow> bytes \<Rightarrow> bytes list \<Rightarrow> bool" where
  "front_chain a stream bs \<longleftrightarrow> chain_of a bs \<and> 784 * length bs \<le> length stream
     \<and> take (784 * length bs) stream = concat bs"

definition stuck :: "recovery_anchor \<Rightarrow> bytes \<Rightarrow> bytes list \<Rightarrow> bool" where
  "stuck a stream bs \<longleftrightarrow>
     784 * length bs + 784 \<le> length stream \<and> \<not> continues_chain a bs (take_frame bs stream)
     \<or> 784 * length bs < length stream \<and> ra_next_sequence a + int (length bs) - 1 = U64_MAX"

lemma front_snoc:
  assumes "front_chain a stream bs" "784 * length bs + 784 \<le> length stream"
    "continues_chain a bs (take_frame bs stream)"
  shows "front_chain a stream (bs @ [take_frame bs stream])"
proof -
  have "take (784 * length bs + 784) stream = concat bs @ take_frame bs stream"
    using assms(1) by (simp add: take_add front_chain_def take_frame_def slice_def)
  with assms show ?thesis by (simp add: front_chain_def chain_snoc algebra_simps)
qed

lemma scan_sound:
  assumes "front_chain a stream bs"
  obtains cs where "front_chain a stream cs"
    "scan_records a stream (scanned a stream bs) = Inr (scanned a stream cs)" "length stream < 784 * length cs + 784"
  | cs n where "front_chain a stream cs" "stuck a stream cs"
    "scan_records a stream (scanned a stream bs) = Inl ((scanned a stream cs)\<lparr>ss_expected_sequence := n\<rparr>)"
  using assms
proof (induction "length stream - 784 * length bs" arbitrary: bs thesis rule: less_induct)
  case less
  show ?case
  proof (cases "784 * length bs + 784 \<le> length stream")
    case False
    with less.prems show ?thesis using scan_records_stop [of stream bs a] by simp
  next
    case n: True
    let ?c = "take_frame bs stream"
    have o: "length stream - ss_offset (scanned a stream bs) \<ge> 784" using n by (simp add: scanned_def)
    have step: "scan_records a stream (scanned a stream bs) =
        (case scan_record a stream (scanned a stream bs) of Inl y \<Rightarrow> Inl y | Inr y \<Rightarrow> scan_records a stream y)"
      using o by (subst scan_records.simps) simp
    show ?thesis
    proof (cases "continues_chain a bs ?c")
      case False
      then have "scan_records a stream (scanned a stream bs)
          = Inl ((scanned a stream bs)\<lparr>ss_expected_sequence := ss_expected_sequence (scanned a stream bs)\<rparr>)"
        by (simp add: step scan_record_cases [OF n])
      moreover have "stuck a stream bs" using False n by (simp add: stuck_def)
      ultimately show ?thesis using less.prems by blast
    next
      case True
      note front = front_snoc [OF less.prems(3) n True]
      show ?thesis
      proof (cases "784 * length (bs @ [?c]) < length stream \<and> ra_next_sequence a + int (length bs) = U64_MAX")
        case True
        then have "stuck a stream (bs @ [?c])" by (simp add: stuck_def)
        moreover have "scan_records a stream (scanned a stream bs)
            = Inl ((scanned a stream (bs @ [?c]))\<lparr>ss_expected_sequence := ra_next_sequence a + int (length bs)\<rparr>)"
          using True \<open>continues_chain a bs ?c\<close> by (simp add: step scan_record_cases [OF n] Let_def)
        ultimately show ?thesis using less.prems(2) front by blast
      next
        case False
        then have onward: "scan_records a stream (scanned a stream bs) = scan_records a stream (scanned a stream (bs @ [?c]))"
          using \<open>continues_chain a bs ?c\<close> by (auto simp: step scan_record_cases [OF n] Let_def)
        have d: "length stream - 784 * length (bs @ [?c]) < length stream - 784 * length bs" using n by simp
        show ?thesis by (rule less.hyps [OF d _ _ front]) (use less.prems(1,2) onward in \<open>simp_all\<close>)
      qed
    qed
  qed
qed

section \<open>The tail\<close>

lemma tail_status:
  assumes front: "front_chain a stream bs" and rest: "rest = drop (784 * length bs) stream" "length rest < 784"
  shows "classify_tail a stream (scanned a stream bs) =
    (if rest = [] then Clean else if length rest < 736 then Short_Body_Tail
     else if \<exists>b. continues_chain a bs b \<and> rest = take (length rest) b
     then if length rest = 736 then Body_Without_Footer else Partial_Footer_Tail
     else Corrupt_Record)"
proof (cases "length rest < 736")
  case True
  then show ?thesis using rest by (auto simp: classify_tail_def Let_def scanned_def)
next
  case False
  let ?z = "scanned a stream bs" and ?body = "take 736 rest"
  have body: "slice (ss_offset ?z) 736 stream = ?body" "length ?body = 736"
    using False rest by (simp_all add: scanned_def slice_def)
  have e: "ss_expected_sequence ?z = ra_next_sequence a + int (length bs)"
    "ss_expected_previous ?z = chain_root (ra_previous_record_sha256 a) bs"
    using False rest by (auto simp: scanned_def)
  have partial: "drop (ss_offset ?z + 736) stream = drop 736 rest"
    by (simp add: rest(1) scanned_def add.commute)
  have len: "length stream - ss_offset ?z = length rest" by (simp add: rest(1) scanned_def)
  have nz: "rest \<noteq> []" "\<not> length rest < 736" using False by auto
  obtain footer where footer: "expected_footer ?body = Inr footer"
    using body(2) by (simp add: expected_footer_def guardE_def)
  have all: "take (min (length footer) n) footer = take n footer" for n by (simp add: min_def)
  have "classify_tail a stream ?z =
      (if continues_chain a bs (?body @ footer) \<and> drop 736 rest = take (length rest - 736) footer
       then if length rest = 736 then Body_Without_Footer else Partial_Footer_Tail else Corrupt_Record)"
  proof (cases "sweep_record_decode (?body @ footer)")
    case (Inl err)
    then show ?thesis using nz unfolding classify_tail_def Let_def len body(1) partial footer
        decode_body_for_recovery_def bindE_simps e
      by (simp add: continues_def)
  next
    case (Inr d)
    then obtain r root where d: "sweep_record_decode (?body @ footer) = Inr (r, root)" by (cases d) auto
    show ?thesis using nz unfolding classify_tail_def Let_def len body(1) partial footer
        decode_body_for_recovery_def bindE_simps e d
      by (simp add: continues_def d all)
  qed
  moreover have "continues_chain a bs (?body @ footer) \<and> drop 736 rest = take (length rest - 736) footer
      \<longleftrightarrow> (\<exists>b. continues_chain a bs b \<and> rest = take (length rest) b)" (is "?l \<longleftrightarrow> ?r")
  proof
    assume ?l
    moreover have "rest = ?body @ drop 736 rest" by simp
    moreover have "take (length rest) (?body @ footer) = ?body @ take (length rest - 736) footer"
      using False by (simp add: min_def)
    ultimately show ?r by metis
  next
    assume ?r
    then obtain b where b: "continues_chain a bs b" "rest = take (length rest) b" by blast
    from b(1) obtain r where r: "sweep_record_decode b = Inr (r, root_of b)" by (rule continues_decode)
    have "take 736 (take (length rest) b) = take 736 b" using False by (simp add: min_def)
    then have t: "?body = take 736 b" using b(2) by simp
    have f: "footer = drop 736 b" using decoded_parts(4) [OF r] footer unfolding t by simp
    have w: "?body @ footer = b" unfolding f t by (rule append_take_drop_id)
    have "drop 736 rest = drop 736 (take (length rest) b)" using b(2) by simp
    also have "\<dots> = take (length rest - 736) footer" unfolding f by (simp add: drop_take)
    finally show ?l using b(1) w by simp
  qed
  ultimately show ?thesis using nz by simp
qed

section \<open>The classification\<close>

lemma classification_parts [simp]:
  "recovery_classification st a (z\<lparr>ss_expected_sequence := n\<rparr>) k = recovery_classification st a z k"
  by (simp add: recovery_classification_def)

definition classified :: "recovery_status \<Rightarrow> recovery_anchor \<Rightarrow> bytes \<Rightarrow> bytes list \<Rightarrow> classification" where
  "classified st a stream bs = \<lparr>cl_status = st, cl_record_epoch = ra_record_epoch a,
     cl_first_sequence = ra_next_sequence a, cl_last_sequence = ra_next_sequence a + int (length bs) - 1,
     cl_committed_records = int (length bs), cl_committed_bytes = 784 * length bs,
     cl_tail_bytes = length stream - 784 * length bs,
     cl_final_record_sha256 = chain_root (ra_previous_record_sha256 a) bs\<rparr>"

lemma classified_scanned:
  "recovery_classification st a (scanned a stream bs) (length stream - 784 * length bs) = classified st a stream bs"
  by (simp add: recovery_classification_def scanned_def classified_def)

lemma front_empty: "front_chain a stream []"
  by (simp add: front_chain_def)

lemma classify_sound:
  assumes "classify_recovery stream a = Inr c"
  obtains bs st where "front_chain a stream bs" "c = classified st a stream bs"
    "st \<noteq> Corrupt_Record \<Longrightarrow> length stream < 784 * length bs + 784
       \<and> st = classify_tail a stream (scanned a stream bs)"
proof -
  have v: "validate_recovery_anchor a = Inr ()" using assms by (auto simp: classify_recovery_def bindE_Inr)
  show thesis
  proof (rule scan_sound [OF front_empty [of a stream]])
    fix cs assume cs: "front_chain a stream cs" "scan_records a stream (scanned a stream []) = Inr (scanned a stream cs)"
      "length stream < 784 * length cs + 784"
    then have "c = classified (classify_tail a stream (scanned a stream cs)) a stream cs"
      using assms v by (simp add: classify_recovery_def scan_start_scanned [of a stream] classified_scanned)
    with cs show thesis by (intro that) simp_all
  next
    fix cs n assume cs: "front_chain a stream cs"
      "scan_records a stream (scanned a stream []) = Inl ((scanned a stream cs)\<lparr>ss_expected_sequence := n\<rparr>)"
    then have c: "c = classified Corrupt_Record a stream cs"
      using assms v classified_scanned [of Corrupt_Record a stream cs]
      by (simp add: classify_recovery_def scan_start_scanned [of a stream])
    show thesis by (rule that [OF cs(1) c]) simp
  qed
qed

lemma classify_chain:
  assumes v: "validate_recovery_anchor a = Inr ()" and chain: "chain_of a bs"
    and stream: "stream = concat bs @ tail" "length tail < 784"
    and room: "tail \<noteq> [] \<Longrightarrow> ra_next_sequence a + int (length bs) \<le> U64_MAX"
  shows "classify_recovery stream a = Inr (classified (classify_tail a stream (scanned a stream bs)) a stream bs)"
proof -
  have n: "length stream < 784 * length bs + 784" using length_chain [OF chain] stream by simp
  have "scan_records a stream (scan_start a) = scan_records a stream (scanned a stream bs)"
    using scan_chain [of a "[]" bs stream tail] chain stream room by (simp add: scan_start_scanned [of a stream])
  also have "\<dots> = Inr (scanned a stream bs)" by (rule scan_records_stop [OF n])
  finally show ?thesis using v by (simp add: classify_recovery_def classified_scanned)
qed

lemma front_of_chain: "chain_of a bs \<Longrightarrow> front_chain a (concat bs @ tail) bs"
  using length_chain by (simp add: front_chain_def)

text \<open>A chain is clean, and a chain with part of its next record says which part.\<close>

lemma classify_whole:
  assumes "validate_recovery_anchor a = Inr ()" "chain_of a bs"
  shows "classify_recovery (concat bs) a = Inr (classified Clean a (concat bs) bs)"
  using classify_chain [OF assms, of "concat bs" "[]"] tail_status [OF front_of_chain [OF assms(2), of "[]"] refl]
    length_chain [OF assms(2)]
  by simp

definition torn_status :: "nat \<Rightarrow> recovery_status" where
  "torn_status k = (if k = 0 then Clean else if k < 736 then Short_Body_Tail
     else if k = 736 then Body_Without_Footer else Partial_Footer_Tail)"

lemma classify_torn:
  assumes v: "validate_recovery_anchor a = Inr ()" and chain: "chain_of a (bs @ [b])" and k: "k < 784"
  shows "classify_recovery (concat bs @ take k b) a = Inr (classified (torn_status k) a (concat bs @ take k b) bs)"
proof -
  from chain have c: "chain_of a bs" "continues_chain a bs b" by (simp_all add: chain_snoc)
  from c(2) have b: "length b = 784" "is_u64 (ra_next_sequence a + int (length bs))" by (rule continues_decode, simp)+
  let ?stream = "concat bs @ take k b"
  have rest: "take k b = drop (784 * length bs) ?stream" using length_chain [OF c(1)] by simp
  have "classify_tail a ?stream (scanned a ?stream bs) = torn_status k"
    unfolding tail_status [OF front_of_chain [OF c(1)] rest] using k b(1) c(2)
    by (subst tail_status [OF front_of_chain [OF c(1)] rest]) (auto simp: torn_status_def intro!: exI [of _ b])
  then show ?thesis using classify_chain [OF v c(1) refl, of "take k b"] k b by (simp add: is_u64_def)
qed

end
