(* ===== verification/Sweep_Writer.thy ===== *)
theory Sweep_Writer
  imports Sweep_Recovery
begin

text \<open>
  \<open>bench/continuation_object_sweep_writer.py\<close>: the writer of a stream of sweep records, the repairer of a torn
  one, and the storage they share. Capabilities, leases, writers and repairers hold a reference to one
  storage; here it is the state of the methods, which take and return it. A method that also changes its
  own object has the pair of the two as its state.
\<close>

section \<open>Errors, phases and faults\<close>

datatype (plugins only: code) io_phase =
  Body_Write | Body_Sync | Footer_Write | Footer_Sync | Repair_Truncate | Repair_Sync

datatype (plugins only: code) writer_error =
    WrU64 | WrSnapshotInput | WrSnapshotMismatch | WrStorage | WrBusy | WrGeneration | WrTiming | WrInactive
  | WrPersistence | WrOrder | WrSyncPrefix | WrBeforePrefix | WrPartial | WrCapacity | WrStale | WrBodyWrite
  | WrFooterWrite | WrUnbound | WrTarget | WrMint | WrForeign | WrBinding | WrRepairPhase | WrNoRepair | WrNoEvidence
  | WrIncomplete | WrCorrupt | WrReopen | WrExhausted | WrRecordPosition | WrRepairBinding | WrRepairer
  | Injected io_phase
  | WrRecord sweep_record_error

record io_fault =
  fl_call_index :: int
  fl_timing :: string
  fl_write_prefix :: "int option"

abbreviation (input) WRITER_ABI :: int where "WRITER_ABI \<equiv> 0x4743535700000001"
definition APPEND_PHASES :: "io_phase list" where
  "APPEND_PHASES = [Body_Write, Body_Sync, Footer_Write, Footer_Sync]"
definition REPAIR_PHASES :: "io_phase list" where
  "REPAIR_PHASES = [Repair_Truncate, Repair_Sync]"

definition writer_u64 :: "int \<Rightarrow> writer_error + bytes" where
  "writer_u64 v = (if 0 \<le> v \<and> v \<le> U64_MAX then Inr (u64_bytes v) else Inl WrU64)"

definition of_record :: "sweep_record_error + 'a \<Rightarrow> writer_error + 'a" where
  "of_record m = (case m of Inl e \<Rightarrow> Inl (WrRecord e) | Inr x \<Rightarrow> Inr x)"

lemma of_record_Inr [result_simps]: "of_record m = Inr x \<longleftrightarrow> m = Inr x"
  by (simp add: of_record_def split: sum.splits)

lemma of_record_simps [simp]: "of_record (Inr x) = Inr x" "of_record (Inl e) = Inl (WrRecord e)"
  by (simp_all add: of_record_def)

lemma writer_u64_Inr [result_simps]: "writer_u64 v = Inr b \<longleftrightarrow> is_u64 v \<and> b = u64_bytes v"
  by (auto simp: writer_u64_def is_u64_def)

section \<open>Snapshots\<close>

record storage_snapshot =
  sn_storage_epoch :: int
  sn_lease_generation :: int
  sn_observed_bytes :: nat
  sn_max_bytes :: int
  sn_stream_sha256 :: bytes
  sn_snapshot_sha256 :: bytes

definition make_snapshot :: "int \<Rightarrow> int \<Rightarrow> bytes \<Rightarrow> int \<Rightarrow> writer_error + storage_snapshot" where
  "make_snapshot epoch generation stream max_bytes =
     bindE (guardE WrSnapshotInput (epoch = 0 \<or> generation = 0 \<or> int (length stream) > max_bytes)) (\<lambda>_.
     bindE (writer_u64 WRITER_ABI) (\<lambda>abi.
     bindE (writer_u64 epoch) (\<lambda>e.
     bindE (writer_u64 generation) (\<lambda>g.
     bindE (writer_u64 (int (length stream))) (\<lambda>n.
     bindE (writer_u64 max_bytes) (\<lambda>m.
       let stream_sha256 = sha256 stream in
       Inr \<lparr>sn_storage_epoch = epoch, sn_lease_generation = generation, sn_observed_bytes = length stream,
         sn_max_bytes = max_bytes, sn_stream_sha256 = stream_sha256,
         sn_snapshot_sha256 = sha_parts (store_domain ''glacier-continuation-sweep-writer-snapshot-v1'')
           [abi, e, g, n, m, stream_sha256]\<rparr>))))))"

definition validate_snapshot :: "storage_snapshot \<Rightarrow> bytes \<Rightarrow> writer_error + unit" where
  "validate_snapshot n stream =
     bindE (make_snapshot (sn_storage_epoch n) (sn_lease_generation n) stream (sn_max_bytes n)) (\<lambda>expected.
       guardE WrSnapshotMismatch (n \<noteq> expected))"

datatype (plugins only: code) recovery_action = Open_Clean | Repair_Incomplete_Tail | Reject_Corrupt

record recovery_plan =
  rp_action :: recovery_action
  rp_snapshot_sha256 :: bytes
  rp_classification :: classification
  rp_truncate_to_bytes :: nat
  rp_discard_tail_bytes :: nat

definition action_of :: "recovery_status \<Rightarrow> recovery_action" where
  "action_of st = (if st = Clean then Open_Clean
     else if st = Short_Body_Tail \<or> st = Body_Without_Footer \<or> st = Partial_Footer_Tail then Repair_Incomplete_Tail
     else Reject_Corrupt)"

definition plan_recovery :: "bytes \<Rightarrow> recovery_anchor \<Rightarrow> storage_snapshot \<Rightarrow> writer_error + recovery_plan" where
  "plan_recovery stream a n =
     bindE (validate_snapshot n stream) (\<lambda>_.
     bindE (of_record (classify_recovery stream a)) (\<lambda>c.
       Inr \<lparr>rp_action = action_of (cl_status c), rp_snapshot_sha256 = sn_snapshot_sha256 n, rp_classification = c,
         rp_truncate_to_bytes = cl_committed_bytes c, rp_discard_tail_bytes = cl_tail_bytes c\<rparr>))"

section \<open>The storage\<close>

record storage =
  ds_backing :: bytes
  ds_length :: nat
  ds_synced_length :: nat
  ds_storage_epoch :: int
  ds_next_generation :: int
  ds_active_generation :: int
  ds_expected_phase :: io_phase
  ds_fault :: "io_fault option"
  ds_call_index :: int
  ds_trace :: "io_phase list"
  ds_append_generation :: int
  ds_append_snapshot_sha256 :: bytes
  ds_repair_generation :: int
  ds_repair_snapshot_sha256 :: bytes
  ds_repair_expected_bytes :: nat
  ds_repair_target_bytes :: nat

definition new_storage :: "bytes \<Rightarrow> int \<Rightarrow> int \<Rightarrow> writer_error + storage" where
  "new_storage initial max_bytes epoch =
     bindE (guardE WrStorage (epoch = 0 \<or> int (length initial) > max_bytes)) (\<lambda>_.
       Inr \<lparr>ds_backing = initial @ replicate (nat max_bytes - length initial) 0, ds_length = length initial,
         ds_synced_length = length initial, ds_storage_epoch = epoch, ds_next_generation = 1,
         ds_active_generation = 0, ds_expected_phase = Body_Write, ds_fault = None, ds_call_index = 0,
         ds_trace = [], ds_append_generation = 0, ds_append_snapshot_sha256 = ZERO_DIGEST,
         ds_repair_generation = 0, ds_repair_snapshot_sha256 = ZERO_DIGEST, ds_repair_expected_bytes = 0,
         ds_repair_target_bytes = 0\<rparr>)"

definition storage_bytes :: "storage \<Rightarrow> bytes" where
  "storage_bytes s = take (ds_length s) (ds_backing s)"

definition clear_repair_authorization :: "storage \<Rightarrow> storage" where
  "clear_repair_authorization s = s\<lparr>ds_repair_generation := 0, ds_repair_snapshot_sha256 := ZERO_DIGEST,
     ds_repair_expected_bytes := 0, ds_repair_target_bytes := 0\<rparr>"

definition clear_append_authorization :: "storage \<Rightarrow> storage" where
  "clear_append_authorization s = s\<lparr>ds_append_generation := 0, ds_append_snapshot_sha256 := ZERO_DIGEST\<rparr>"

record storage_lease =
  le_generation :: int
  le_snapshot :: storage_snapshot

definition acquire :: "(writer_error, storage_lease, storage) stateful" where
  "acquire s =
     (if ds_active_generation s \<noteq> 0 then failS WrBusy s
      else if ds_next_generation s > U64_MAX then failS WrGeneration s
      else
        let generation = ds_next_generation s;
            s = s\<lparr>ds_next_generation := ds_next_generation s + 1, ds_active_generation := generation,
                  ds_expected_phase := Body_Write, ds_fault := None, ds_call_index := 0, ds_trace := []\<rparr>;
            s = clear_append_authorization s;
            s = clear_repair_authorization s in
        checkS (make_snapshot (ds_storage_epoch s) generation (storage_bytes s) (int (length (ds_backing s))))
          (\<lambda>n. returnS \<lparr>le_generation = generation, le_snapshot = n\<rparr>) s)"

definition set_fault :: "io_fault option \<Rightarrow> (writer_error, unit, storage) stateful" where
  "set_fault f s =
     checkS (guardE WrTiming (case f of None \<Rightarrow> False
         | Some f \<Rightarrow> fl_timing f \<notin> {''before'', ''after''})) (\<lambda>_ s.
       returnS () (s\<lparr>ds_fault := f, ds_call_index := 0, ds_trace := []\<rparr>)) s"

definition storage_validate :: "int \<Rightarrow> storage \<Rightarrow> writer_error + unit" where
  "storage_validate generation s =
     guardE WrInactive (generation = 0 \<or> ds_active_generation s \<noteq> generation)"

definition crash_bounds :: "storage \<Rightarrow> nat \<times> nat" where
  "crash_bounds s =
     (min (ds_length s) (ds_synced_length s), max (ds_length s) (ds_synced_length s))"

definition crash_persist :: "int \<Rightarrow> (writer_error, unit, storage) stateful" where
  "crash_persist persisted s =
    (let (lower, upper) = crash_bounds s in
     checkS (guardE WrPersistence (\<not> (int lower \<le> persisted \<and> persisted \<le> int upper))) (\<lambda>_ s.
       let s = s\<lparr>ds_length := nat persisted, ds_synced_length := nat persisted, ds_active_generation := 0,
             ds_expected_phase := Body_Write, ds_fault := None, ds_call_index := 0\<rparr>;
           s = clear_append_authorization s;
           s = clear_repair_authorization s in
       returnS () s) s)"

text \<open>\<open>_begin\<close>: the checks of every call, its place in the trace, and the fault that is due, if any.\<close>

definition io_begin :: "int \<Rightarrow> io_phase \<Rightarrow> bool \<Rightarrow> (writer_error, io_fault option, storage) stateful" where
  "io_begin generation phase write s =
     checkS (storage_validate generation s) (\<lambda>_.
     checkS (guardE WrOrder (ds_expected_phase s \<noteq> phase)) (\<lambda>_ s.
       let call_index = ds_call_index s;
           s = s\<lparr>ds_trace := ds_trace s @ [phase], ds_call_index := ds_call_index s + 1\<rparr> in
       case ds_fault s of
         None \<Rightarrow> returnS None s
       | Some f \<Rightarrow>
           if fl_call_index f \<noteq> call_index then returnS None s
           else
             checkS (guardE WrSyncPrefix (\<not> write \<and> fl_write_prefix f \<noteq> None)) (\<lambda>_.
               if fl_timing f = ''before''
               then checkS (guardE WrBeforePrefix (fl_write_prefix f \<noteq> None)) (\<lambda>_. failS (Injected phase))
               else returnS (Some f)) s)) s"

text \<open>\<open>_append\<close>: \<open>n\<close> bytes of the payload reach the backing at the live length.\<close>

definition write_backing :: "bytes \<Rightarrow> nat \<Rightarrow> storage \<Rightarrow> storage" where
  "write_backing payload n s =
     s\<lparr>ds_backing := take (ds_length s) (ds_backing s) @ take n payload @ drop (ds_length s + n) (ds_backing s),
        ds_length := ds_length s + n\<rparr>"

definition write_length :: "io_fault option \<Rightarrow> bytes \<Rightarrow> writer_error + nat" where
  "write_length fault payload =
     (case fault of None \<Rightarrow> Inr (length payload)
      | Some f \<Rightarrow> (case fl_write_prefix f of None \<Rightarrow> Inr (length payload)
        | Some p \<Rightarrow> if \<not> (0 \<le> p \<and> p \<le> int (length payload)) then Inl WrPartial else Inr (nat p)))"

definition io_append :: "int \<Rightarrow> io_phase \<Rightarrow> io_phase \<Rightarrow> bytes \<Rightarrow> (writer_error, unit, storage) stateful" where
  "io_append generation phase follow payload =
     bindS (io_begin generation phase True) (\<lambda>fault.
     checkS (write_length fault payload) (\<lambda>n s.
     checkS (guardE WrCapacity (ds_length s + n > length (ds_backing s))) (\<lambda>_ s.
       let s = write_backing payload n s;
           s = (if n = length payload then s\<lparr>ds_expected_phase := follow\<rparr> else s) in
       (if fault \<noteq> None then failS (Injected phase) else returnS ()) s) s))"

definition io_sync :: "int \<Rightarrow> io_phase \<Rightarrow> io_phase \<Rightarrow> (writer_error, unit, storage) stateful" where
  "io_sync generation phase follow =
     bindS (io_begin generation phase False) (\<lambda>fault s.
       let s = s\<lparr>ds_synced_length := ds_length s, ds_expected_phase := follow\<rparr> in
       (if fault \<noteq> None then failS (Injected phase) else returnS ()) s)"

section \<open>Capabilities and leases\<close>

record append_capability =
  ak_generation :: int
  ak_snapshot :: storage_snapshot

definition append_validate :: "append_capability \<Rightarrow> nat \<Rightarrow> storage \<Rightarrow> writer_error + unit" where
  "append_validate k expected s =
     bindE (storage_validate (ak_generation k) s) (\<lambda>_.
       guardE WrStale (ds_append_generation s \<noteq> ak_generation k
         \<or> ds_append_snapshot_sha256 s \<noteq> sn_snapshot_sha256 (ak_snapshot k) \<or> ds_length s \<noteq> expected))"

definition append_body :: "append_capability \<Rightarrow> bytes \<Rightarrow> (writer_error, unit, storage) stateful" where
  "append_body k payload =
     checkS (guardE WrBodyWrite (length payload \<noteq> SWEEP_BODY_BYTES)) (\<lambda>_.
       io_append (ak_generation k) Body_Write Body_Sync payload)"

definition sync_body :: "append_capability \<Rightarrow> (writer_error, unit, storage) stateful" where
  "sync_body k = io_sync (ak_generation k) Body_Sync Footer_Write"

definition append_footer :: "append_capability \<Rightarrow> bytes \<Rightarrow> (writer_error, unit, storage) stateful" where
  "append_footer k payload =
     checkS (guardE WrFooterWrite (length payload \<noteq> SWEEP_FOOTER_BYTES)) (\<lambda>_.
       io_append (ak_generation k) Footer_Write Footer_Sync payload)"

definition sync_footer :: "append_capability \<Rightarrow> (writer_error, unit, storage) stateful" where
  "sync_footer k = io_sync (ak_generation k) Footer_Sync Body_Write"

record repair_capability =
  rk_generation :: int
  rk_snapshot :: storage_snapshot
  rk_expected_current_bytes :: nat
  rk_target_bytes :: nat
  rk_discarded_tail_bytes :: nat
  rk_final_record_sha256 :: bytes

definition new_repair_capability :: "storage_lease \<Rightarrow> recovery_plan \<Rightarrow> repair_capability" where
  "new_repair_capability l p = \<lparr>rk_generation = le_generation l, rk_snapshot = le_snapshot l,
     rk_expected_current_bytes = sn_observed_bytes (le_snapshot l), rk_target_bytes = rp_truncate_to_bytes p,
     rk_discarded_tail_bytes = rp_discard_tail_bytes p,
     rk_final_record_sha256 = cl_final_record_sha256 (rp_classification p)\<rparr>"

definition repair_truncate :: "repair_capability \<Rightarrow> (writer_error, unit, storage) stateful" where
  "repair_truncate k s =
     checkS (guardE WrUnbound (ds_repair_generation s \<noteq> rk_generation k
         \<or> ds_repair_snapshot_sha256 s \<noteq> sn_snapshot_sha256 (rk_snapshot k))) (\<lambda>_.
     bindS (io_begin (rk_generation k) Repair_Truncate False) (\<lambda>fault s.
     checkS (guardE WrTarget (ds_length s \<noteq> ds_repair_expected_bytes s
         \<or> \<not> ds_repair_target_bytes s \<le> ds_repair_expected_bytes s)) (\<lambda>_ s.
       let s = s\<lparr>ds_length := ds_repair_target_bytes s, ds_expected_phase := Repair_Sync\<rparr> in
       (if fault \<noteq> None then failS (Injected Repair_Truncate) else returnS ()) s) s)) s"

definition repair_sync :: "repair_capability \<Rightarrow> (writer_error, unit, storage) stateful" where
  "repair_sync k = io_sync (rk_generation k) Repair_Sync Body_Write"

definition mint_append :: "storage_lease \<Rightarrow> (writer_error, append_capability, storage) stateful" where
  "mint_append l s =
     checkS (storage_validate (le_generation l) s) (\<lambda>_.
     checkS (guardE WrMint (ds_expected_phase s \<noteq> Body_Write
         \<or> ds_length s \<noteq> sn_observed_bytes (le_snapshot l))) (\<lambda>_.
     checkS (guardE WrForeign (ds_append_generation s \<notin> {0, le_generation l})) (\<lambda>_.
     checkS (guardE WrBinding (ds_append_generation s = le_generation l
         \<and> ds_append_snapshot_sha256 s \<noteq> sn_snapshot_sha256 (le_snapshot l))) (\<lambda>_ s.
       returnS \<lparr>ak_generation = le_generation l, ak_snapshot = le_snapshot l\<rparr>
         (s\<lparr>ds_append_generation := le_generation l,
             ds_append_snapshot_sha256 := sn_snapshot_sha256 (le_snapshot l)\<rparr>))))) s"

definition prepare_repair ::
  "storage_lease \<Rightarrow> bytes \<Rightarrow> recovery_anchor \<Rightarrow> (writer_error, repair_capability, storage) stateful" where
  "prepare_repair l stream a s =
     checkS (storage_validate (le_generation l) s) (\<lambda>_.
     checkS (guardE WrRepairPhase (ds_expected_phase s \<noteq> Body_Write)) (\<lambda>_.
     checkS (plan_recovery stream a (le_snapshot l)) (\<lambda>p.
     checkS (guardE WrNoRepair (rp_action p = Open_Clean)) (\<lambda>_.
     checkS (guardE WrNoEvidence (rp_action p = Reject_Corrupt)) (\<lambda>_ s.
       let s = clear_append_authorization s in
       returnS (new_repair_capability l p)
         (s\<lparr>ds_expected_phase := Repair_Truncate, ds_repair_generation := le_generation l,
             ds_repair_snapshot_sha256 := sn_snapshot_sha256 (le_snapshot l),
             ds_repair_expected_bytes := sn_observed_bytes (le_snapshot l),
             ds_repair_target_bytes := rp_truncate_to_bytes p\<rparr>)))))) s"

definition release_storage :: "(writer_error, unit, storage_lease \<times> storage) stateful" where
  "release_storage = (\<lambda>(l, s).
     checkS (storage_validate (le_generation l) s) (\<lambda>_ (l, s).
       returnS () (l\<lparr>le_generation := 0\<rparr>, s\<lparr>ds_active_generation := 0\<rparr>)) (l, s))"

section \<open>The writer\<close>

datatype (plugins only: code) writer_state = Writer_Ready | Writer_Poisoned

record sweep_writer =
  wr_capability :: append_capability
  wr_record_epoch :: int
  wr_next_sequence :: int
  wr_previous_record_sha256 :: bytes
  wr_committed_bytes :: nat
  wr_sequence_exhausted :: bool
  wr_state :: writer_state

definition open_clean ::
  "bytes \<Rightarrow> recovery_anchor \<Rightarrow> append_capability \<Rightarrow> storage \<Rightarrow> writer_error + sweep_writer" where
  "open_clean stream a k s =
     bindE (append_validate k (sn_observed_bytes (ak_snapshot k)) s) (\<lambda>_.
     bindE (plan_recovery stream a (ak_snapshot k)) (\<lambda>p.
     bindE (guardE WrIncomplete (rp_action p = Repair_Incomplete_Tail)) (\<lambda>_.
     bindE (guardE WrCorrupt (rp_action p = Reject_Corrupt)) (\<lambda>_.
       let c = rp_classification p;
           exhausted = (cl_committed_records c \<noteq> 0 \<and> cl_last_sequence c = U64_MAX);
           following = (if cl_committed_records c = 0 then ra_next_sequence a
             else if exhausted then cl_last_sequence c else cl_last_sequence c + 1) in
       Inr \<lparr>wr_capability = k, wr_record_epoch = ra_record_epoch a, wr_next_sequence = following,
         wr_previous_record_sha256 = cl_final_record_sha256 c, wr_committed_bytes = cl_committed_bytes c,
         wr_sequence_exhausted = exhausted, wr_state = Writer_Ready\<rparr>))))"

text \<open>A method of a part of the state, run on the whole.\<close>

definition on_storage :: "('e, 'a, 's) stateful \<Rightarrow> ('e, 'a, 'o \<times> 's) stateful" where
  "on_storage m = (\<lambda>(o1, s). case m s of (r, t) \<Rightarrow> (r, (o1, t)))"

lemma on_storage_simp [simp]: "on_storage m (o1, s) = (fst (m s), (o1, snd (m s)))"
  by (simp add: on_storage_def split: prod.splits)

record append_receipt =
  ar_sequence :: int
  ar_committed_bytes :: nat
  ar_record_sha256 :: bytes
  ar_next_sequence_exhausted :: bool
  ar_body_sync_exercised :: bool
  ar_footer_sync_exercised :: bool

definition append_checks :: "bytes \<Rightarrow> sweep_writer \<Rightarrow> storage \<Rightarrow> writer_error + sweep_record \<times> bytes" where
  "append_checks encoded w s =
     bindE (guardE WrReopen (wr_state w \<noteq> Writer_Ready)) (\<lambda>_.
     bindE (append_validate (wr_capability w) (wr_committed_bytes w) s) (\<lambda>_.
     bindE (guardE WrExhausted (wr_sequence_exhausted w)) (\<lambda>_.
     bindE (of_record (sweep_record_decode encoded)) (\<lambda>(r, root).
     bindE (guardE WrRecordPosition (\<not> recovery_record_matches r (wr_record_epoch w) (wr_next_sequence w)
         (wr_previous_record_sha256 w))) (\<lambda>_.
     bindE (guardE WrCapacity (int (wr_committed_bytes w + length encoded)
         > sn_max_bytes (ak_snapshot (wr_capability w)))) (\<lambda>_. Inr (r, root)))))))"

definition append_io :: "append_capability \<Rightarrow> bytes \<times> bytes \<times> bytes \<Rightarrow> (writer_error, unit, storage) stateful" where
  "append_io k = (\<lambda>(body, footer, _).
     bindS (append_body k body) (\<lambda>_.
     bindS (sync_body k) (\<lambda>_.
     bindS (append_footer k footer) (\<lambda>_.
       sync_footer k))))"

text \<open>The position after a record, and what the method then returns.\<close>

definition advance_writer :: "bytes \<Rightarrow> bytes \<Rightarrow> sweep_writer \<Rightarrow> sweep_writer" where
  "advance_writer encoded root w =
    (let exhausted = (wr_next_sequence w = U64_MAX) in
     w\<lparr>wr_committed_bytes := wr_committed_bytes w + length encoded, wr_previous_record_sha256 := root,
        wr_sequence_exhausted := exhausted,
        wr_next_sequence := (if exhausted then wr_next_sequence w else wr_next_sequence w + 1),
        wr_state := Writer_Ready\<rparr>)"

definition append_receipt_of :: "sweep_record \<Rightarrow> bytes \<Rightarrow> sweep_writer \<Rightarrow> append_receipt" where
  "append_receipt_of r root w = \<lparr>ar_sequence = rc_sequence r, ar_committed_bytes = wr_committed_bytes w,
     ar_record_sha256 = root, ar_next_sequence_exhausted = wr_sequence_exhausted w, ar_body_sync_exercised = True,
     ar_footer_sync_exercised = True\<rparr>"

definition append_record :: "bytes \<Rightarrow> (writer_error, append_receipt, sweep_writer \<times> storage) stateful" where
  "append_record encoded = (\<lambda>(w, s).
     checkS (append_checks encoded w s) (\<lambda>(r, root).
     checkS (of_record (sweep_append_plan encoded)) (\<lambda>p (w, s).
     bindS (on_storage (append_io (wr_capability w) p)) (\<lambda>_ (w, s).
       returnS (append_receipt_of r root (advance_writer encoded root w)) (advance_writer encoded root w, s))
       (w\<lparr>wr_state := Writer_Poisoned\<rparr>, s))) (w, s))"

section \<open>The repairer\<close>

datatype (plugins only: code) repairer_state = Repairer_Ready | Repairer_Poisoned | Repairer_Complete

record repairer =
  rr_capability :: repair_capability
  rr_plan :: recovery_plan
  rr_state :: repairer_state

record tail_repair_receipt =
  rq_original_bytes :: nat
  rq_committed_bytes :: nat
  rq_discarded_tail_bytes :: nat
  rq_final_record_sha256 :: bytes
  rq_truncate_exercised :: bool
  rq_sync_exercised :: bool

definition create_repairer ::
  "bytes \<Rightarrow> recovery_anchor \<Rightarrow> repair_capability \<Rightarrow> storage \<Rightarrow> writer_error + repairer" where
  "create_repairer stream a k s =
     bindE (storage_validate (rk_generation k) s) (\<lambda>_.
     bindE (plan_recovery stream a (rk_snapshot k)) (\<lambda>p.
     bindE (guardE WrNoRepair (rp_action p = Open_Clean)) (\<lambda>_.
     bindE (guardE WrNoEvidence (rp_action p = Reject_Corrupt)) (\<lambda>_.
     bindE (guardE WrRepairBinding (rk_expected_current_bytes k \<noteq> sn_observed_bytes (rk_snapshot k)
         \<or> rk_target_bytes k \<noteq> rp_truncate_to_bytes p \<or> rk_discarded_tail_bytes k \<noteq> rp_discard_tail_bytes p
         \<or> rk_final_record_sha256 k \<noteq> cl_final_record_sha256 (rp_classification p))) (\<lambda>_.
       Inr \<lparr>rr_capability = k, rr_plan = p, rr_state = Repairer_Ready\<rparr>)))))"

definition repair_io :: "repair_capability \<Rightarrow> (writer_error, unit, storage) stateful" where
  "repair_io k = bindS (repair_truncate k) (\<lambda>_. repair_sync k)"

definition apply_repair :: "(writer_error, tail_repair_receipt, repairer \<times> storage) stateful" where
  "apply_repair = (\<lambda>(x, s).
     checkS (guardE WrRepairer (rr_state x \<noteq> Repairer_Ready)) (\<lambda>_.
     checkS (storage_validate (rk_generation (rr_capability x)) s) (\<lambda>_ (x, s).
     bindS (on_storage (repair_io (rr_capability x))) (\<lambda>_ (x, s).
       returnS \<lparr>rq_original_bytes = sn_observed_bytes (rk_snapshot (rr_capability x)),
           rq_committed_bytes = rp_truncate_to_bytes (rr_plan x),
           rq_discarded_tail_bytes = rp_discard_tail_bytes (rr_plan x),
           rq_final_record_sha256 = cl_final_record_sha256 (rp_classification (rr_plan x)),
           rq_truncate_exercised = True, rq_sync_exercised = True\<rparr>
         (x\<lparr>rr_state := Repairer_Complete\<rparr>, s))
       (x\<lparr>rr_state := Repairer_Poisoned\<rparr>, s))) (x, s))"

end
