(* ===== verification/Sweep_Crash.thy ===== *)
theory Sweep_Crash
  imports Sweep_Writer "HOL-Library.Sublist"
begin

text \<open>
  What a crash can leave of the storage. The bytes the device may yet show, up to the larger of the live and
  the synced length, are at every moment a prefix of a chain of records, and the records whose append
  returned lie below both lengths.
\<close>

section \<open>Prefixes of a chain\<close>

lemma take_concat_frames:
  "(\<And>b. b \<in> set bs \<Longrightarrow> length b = k) \<Longrightarrow> take (k * n) (concat bs) = concat (take n bs)"
proof (induction bs arbitrary: n)
  case (Cons b bs)
  then show ?case by (cases n) (auto simp: take_append)
qed simp

lemma drop_concat_frames:
  "(\<And>b. b \<in> set bs \<Longrightarrow> length b = k) \<Longrightarrow> drop (k * n) (concat bs) = concat (drop n bs)"
proof (induction bs arbitrary: n)
  case (Cons b bs)
  then show ?case by (cases n) (auto simp: drop_append)
qed simp

lemma concat_frames_eq:
  assumes "length bs = length cs" "\<And>b. b \<in> set bs \<union> set cs \<Longrightarrow> length b = k" "concat bs = concat cs"
  shows "bs = cs"
  using assms by (induction bs cs rule: list_induct2) auto

lemma chain_take: "chain_of a bs \<Longrightarrow> chain_of a (take n bs)"
  using chain_append [of _ _ _ "take n bs" "drop n bs"] by simp

lemma chain_take_bytes: "chain_of a bs \<Longrightarrow> take (784 * n) (concat bs) = concat (take n bs)"
  by (rule take_concat_frames) (rule chain_lengths)

lemma chain_cut:
  assumes "chain_of a bs" "n < length bs" "j \<le> 784"
  shows "take (784 * n + j) (concat bs) = concat (take n bs) @ take j (bs ! n)"
proof -
  have len: "\<And>b. b \<in> set bs \<Longrightarrow> length b = 784" using assms(1) by (rule chain_lengths)
  have "drop (784 * n) (concat bs) = bs ! n @ concat (drop (Suc n) bs)"
    using drop_concat_frames [OF len] Cons_nth_drop_Suc [OF assms(2)] by (metis concat.simps(2))
  then show ?thesis using chain_take_bytes [OF assms(1)] len [OF nth_mem [OF assms(2)]] assms(3)
    by (simp add: take_add)
qed

lemma classify_cut:
  assumes v: "validate_recovery_anchor a = Inr ()" and chain: "chain_of a bs" and k: "k \<le> 784 * length bs"
  shows "\<exists>st. st \<noteq> Corrupt_Record &
    classify_recovery (take k (concat bs)) a = Inr (classified st a (take k (concat bs)) (take (k div 784) bs))"
proof (cases "k div 784 < length bs")
  case True
  let ?n = "k div 784" and ?j = "k mod 784"
  have "chain_of a (take ?n bs @ [bs ! ?n])" using chain_take [OF chain, of "Suc ?n"] True
    by (simp add: take_Suc_conv_app_nth)
  moreover have "take k (concat bs) = concat (take ?n bs) @ take ?j (bs ! ?n)"
    using chain_cut [OF chain True, of ?j] by simp
  moreover have "torn_status ?j \<noteq> Corrupt_Record" by (simp add: torn_status_def)
  ultimately show ?thesis using classify_torn [OF v, of "take ?n bs" "bs ! ?n" ?j] by auto
next
  case False
  with k have "k = 784 * length bs" by (simp add: not_less less_eq_div_iff_mult_less_eq)
  then show ?thesis using classify_whole [OF v chain] length_chain [OF chain] by auto
qed

section \<open>What each call does to the bytes\<close>

definition same_bytes :: "storage \<Rightarrow> storage \<Rightarrow> bool" where
  "same_bytes s t \<longleftrightarrow> ds_backing t = ds_backing s \<and> ds_length t = ds_length s
     \<and> ds_synced_length t = ds_synced_length s"

lemma same_bytes_refl [simp]: "same_bytes s s"
  by (simp add: same_bytes_def)

lemma clear_authorizations [simp]:
  "same_bytes s (clear_append_authorization t) \<longleftrightarrow> same_bytes s t"
  "same_bytes s (clear_repair_authorization t) \<longleftrightarrow> same_bytes s t"
  by (simp_all add: same_bytes_def clear_append_authorization_def clear_repair_authorization_def)

lemmas io_cases = checkS_def bindS_def guardE_def Let_def

lemma io_begin_bytes: "io_begin g p w s = (r, t) \<Longrightarrow> same_bytes s t"
  by (auto simp: io_begin_def io_cases storage_validate_def same_bytes_def split: if_splits option.splits sum.splits)

lemma acquire_bytes: "acquire s = (r, t) \<Longrightarrow> same_bytes s t"
  by (auto simp: acquire_def io_cases split: if_splits sum.splits) (simp_all add: same_bytes_def)

lemma set_fault_bytes: "set_fault f s = (r, t) \<Longrightarrow> same_bytes s t"
  by (auto simp: set_fault_def io_cases same_bytes_def split: if_splits option.splits)

lemma mint_append_bytes: "mint_append l s = (r, t) \<Longrightarrow> same_bytes s t"
  by (auto simp: mint_append_def io_cases storage_validate_def same_bytes_def split: if_splits)

lemma prepare_repair_bytes: "prepare_repair l stream a s = (r, t) \<Longrightarrow> same_bytes s t"
  by (auto simp: prepare_repair_def io_cases storage_validate_def same_bytes_def clear_append_authorization_def
      split: if_splits sum.splits)

lemma release_bytes: "release_storage (l, s) = (r, (m, t)) \<Longrightarrow> same_bytes s t"
  by (auto simp: release_storage_def io_cases storage_validate_def same_bytes_def split: if_splits)

text \<open>\<open>appended s t x\<close>: the bytes \<open>x\<close> have been appended, and perhaps synced in part.\<close>

definition in_order :: "storage \<Rightarrow> bool" where
  "in_order s \<longleftrightarrow> ds_synced_length s \<le> ds_length s \<and> ds_length s \<le> length (ds_backing s)"

definition appended :: "storage \<Rightarrow> storage \<Rightarrow> bytes \<Rightarrow> bool" where
  "appended s t x \<longleftrightarrow> storage_bytes t = storage_bytes s @ x \<and> ds_length t = ds_length s + length x
     \<and> in_order t \<and> ds_synced_length s \<le> ds_synced_length t"

lemma appended_trans: "appended s t x \<Longrightarrow> appended t u y \<Longrightarrow> appended s u (x @ y)"
  by (simp add: appended_def)

lemma appended_same: "same_bytes s t \<Longrightarrow> in_order s \<Longrightarrow> appended s t []"
  by (simp add: appended_def same_bytes_def in_order_def storage_bytes_def)

lemma write_backing_appended:
  assumes "in_order s" "n \<le> length p" "ds_length s + n \<le> length (ds_backing s)"
  shows "appended s (write_backing p n s) (take n p)"
  using assms by (simp add: appended_def in_order_def write_backing_def storage_bytes_def min_def) arith

lemma appended_phase [simp]:
  "appended s (t\<lparr>ds_expected_phase := p\<rparr>) x \<longleftrightarrow> appended s t x" "in_order (t\<lparr>ds_expected_phase := p\<rparr>) \<longleftrightarrow> in_order t"
  by (simp_all add: appended_def in_order_def storage_bytes_def)

lemma write_length_le: "write_length f p = Inr n \<Longrightarrow> n \<le> length p"
  by (auto simp: write_length_def split: option.splits if_splits)

lemma write_length_None: "write_length None p = Inr (length p)"
  by (simp add: write_length_def)

lemma io_append_bytes:
  assumes "io_append g ph follow p s = (r, t)" "in_order s"
  obtains n where "n \<le> length p" "appended s t (take n p)" "r = Inr () \<Longrightarrow> n = length p"
proof -
  obtain b u where u: "io_begin g ph True s = (b, u)" by (cases "io_begin g ph True s")
  note same = io_begin_bytes [OF u]
  have su: "in_order u" using same assms(2) by (simp add: same_bytes_def in_order_def)
  note same0 = appended_same [OF same assms(2)]
  show thesis
  proof (cases b)
    case (Inl e)
    then show thesis using assms(1) u same0 by (intro that [of 0]) (auto simp: io_append_def bindS_def)
  next
    case (Inr f)
    show thesis
    proof (cases "write_length f p")
      case (Inl e)
      then show thesis using assms(1) u same0 \<open>b = Inr f\<close>
        by (intro that [of 0]) (auto simp: io_append_def bindS_def)
    next
      case n: (Inr n)
      show thesis
      proof (cases "ds_length u + n > length (ds_backing u)")
        case True
        then show thesis using assms(1) u same0 \<open>b = Inr f\<close> n
          by (intro that [of 0]) (auto simp: io_append_def io_cases)
      next
        case False
        then have "appended u (write_backing p n u) (take n p)"
          using write_backing_appended [OF su write_length_le [OF n]] by simp
        with same0 have "appended s (write_backing p n u) (take n p)" by (metis appended_trans append_Nil)
        then show thesis using assms(1) u \<open>b = Inr f\<close> n False write_length_le [OF n] write_length_None [of p]
          by (intro that [of n]) (auto simp: io_append_def io_cases split: if_splits)
      qed
    qed
  qed
qed

lemma io_sync_bytes:
  assumes "io_sync g ph follow s = (r, t)" "in_order s"
  shows "appended s t []" "r = Inr () \<Longrightarrow> ds_synced_length t = ds_length t"
proof -
  obtain b u where u: "io_begin g ph False s = (b, u)" by (cases "io_begin g ph False s")
  note same = io_begin_bytes [OF u]
  show "appended s t []" "r = Inr () \<Longrightarrow> ds_synced_length t = ds_length t"
    using assms same u
    by (auto simp: io_sync_def io_cases appended_def in_order_def storage_bytes_def same_bytes_def
        split: sum.splits if_splits)
qed

lemma append_body_bytes:
  assumes "append_body k p s = (r, t)" "in_order s"
  obtains n where "n \<le> length p" "appended s t (take n p)" "r = Inr () \<Longrightarrow> n = length p"
proof (cases "length p = 736")
  case True
  then have io: "io_append (ak_generation k) Body_Write Body_Sync p s = (r, t)"
    using assms(1) by (simp add: append_body_def guardE_def)
  show thesis by (rule io_append_bytes [OF io assms(2)]) (rule that)
next
  case False
  then show thesis using assms appended_same [of s s] by (intro that [of 0]) (auto simp: append_body_def guardE_def)
qed

lemma append_footer_bytes:
  assumes "append_footer k p s = (r, t)" "in_order s"
  obtains n where "n \<le> length p" "appended s t (take n p)" "r = Inr () \<Longrightarrow> n = length p"
proof (cases "length p = 48")
  case True
  then have io: "io_append (ak_generation k) Footer_Write Footer_Sync p s = (r, t)"
    using assms(1) by (simp add: append_footer_def guardE_def)
  show thesis by (rule io_append_bytes [OF io assms(2)]) (rule that)
next
  case False
  then show thesis using assms appended_same [of s s] by (intro that [of 0]) (auto simp: append_footer_def guardE_def)
qed

text \<open>The four calls of an append: some part of the record, or all of it and synced.\<close>

lemma append_io_bytes:
  assumes io: "append_io k (body, footer, root) s = (r, t)" and s: "in_order s"
  obtains n where "n \<le> length (body @ footer)" "appended s t (take n (body @ footer))"
    "r = Inr () \<Longrightarrow> n = length (body @ footer) \<and> ds_synced_length t = ds_length t"
proof -
  obtain r1 s1 where 1: "append_body k body s = (r1, s1)" by (cases "append_body k body s")
  obtain n where n: "n \<le> length body" "appended s s1 (take n body)" "r1 = Inr () \<Longrightarrow> n = length body"
    by (rule append_body_bytes [OF 1 s]) (rule that)
  have s1: "in_order s1" using n(2) by (simp add: appended_def)
  obtain r2 s2 where 2: "sync_body k s1 = (r2, s2)" by (cases "sync_body k s1")
  have a2: "appended s1 s2 []" using io_sync_bytes(1) [OF 2 [unfolded sync_body_def] s1] .
  have s2: "in_order s2" using a2 by (simp add: appended_def)
  obtain r3 s3 where 3: "append_footer k footer s2 = (r3, s3)" by (cases "append_footer k footer s2")
  obtain m where m: "m \<le> length footer" "appended s2 s3 (take m footer)" "r3 = Inr () \<Longrightarrow> m = length footer"
    by (rule append_footer_bytes [OF 3 s2]) (rule that)
  have s3: "in_order s3" using m(2) by (simp add: appended_def)
  obtain r4 s4 where 4: "sync_footer k s3 = (r4, s4)" by (cases "sync_footer k s3")
  note a4 = io_sync_bytes [OF 4 [unfolded sync_footer_def] s3]
  have a12: "appended s s2 (take n body)" using appended_trans [OF n(2) a2] by simp
  have p1: "take n (body @ footer) = take n body" using n(1) by simp
  show thesis
  proof (cases "r1 = Inr () \<and> r2 = Inr ()")
    case False
    then have "t = s1 \<or> t = s2" "r \<noteq> Inr ()" using io 1 2 by (auto simp: append_io_def bindS_def split: sum.splits)
    then show thesis using n(1,2) a12 p1 by (intro that [of n]) auto
  next
    case True
    then have nb: "n = length body" using n(3) by simp
    have p2: "take (length body + m) (body @ footer) = take n body @ take m footer" using nb by simp
    have a3: "appended s s3 (take n body @ take m footer)" using appended_trans [OF a12 m(2)] .
    have a4': "appended s s4 (take n body @ take m footer)" using appended_trans [OF a3 a4(1)] by simp
    show thesis
    proof (rule that [of "length body + m"])
      show "length body + m \<le> length (body @ footer)" using m(1) by simp
      show "appended s t (take (length body + m) (body @ footer))"
        using True io 1 2 3 4 a3 a4' unfolding p2 by (auto simp: append_io_def bindS_def split: sum.splits)
      show "length body + m = length (body @ footer) \<and> ds_synced_length t = ds_length t" if "r = Inr ()"
        using that True io 1 2 3 4 a4(2) m(3) by (auto simp: append_io_def bindS_def split: sum.splits)
    qed
  qed
qed

end
