(* ===== verification/Sweep_Protocol.thy ===== *)
theory Sweep_Protocol
  imports Sweep_Crash
begin

text \<open>
  The storage under a protocol: leases, faults, one writer, repairs and crashes in any order. The one thing
  asked of the caller is that a writer is opened only while the synced length is not above the live one,
  which is what an interrupted truncate leaves. Under it, what a crash leaves is never corrupt, and every
  record whose append returned is among those recovered.
\<close>

section \<open>Where a writer stands\<close>

definition writer_at :: "recovery_anchor \<Rightarrow> sweep_writer \<Rightarrow> storage \<Rightarrow> bytes list \<Rightarrow> bool" where
  "writer_at a w s bs \<longleftrightarrow> chain_of a bs \<and> storage_bytes s = concat bs \<and> in_order s
     \<and> wr_record_epoch w = ra_record_epoch a
     \<and> wr_previous_record_sha256 w = chain_root (ra_previous_record_sha256 a) bs
     \<and> wr_committed_bytes w = 784 * length bs
     \<and> (\<not> wr_sequence_exhausted w \<longrightarrow> wr_next_sequence w = ra_next_sequence a + int (length bs))"

definition writer_ok :: "recovery_anchor \<Rightarrow> sweep_writer \<Rightarrow> storage \<Rightarrow> bool" where
  "writer_ok a w s \<longleftrightarrow> (wr_state w = Writer_Ready \<longrightarrow> (\<exists>bs. writer_at a w s bs))"

lemma writer_at_length: "writer_at a w s bs \<Longrightarrow> ds_length s = 784 * length bs"
  using length_chain by (force simp: writer_at_def storage_bytes_def in_order_def dest: arg_cong [where f = length])

lemma writer_at_same: "same_bytes s t \<Longrightarrow> writer_at a w t bs \<longleftrightarrow> writer_at a w s bs"
  by (simp add: writer_at_def same_bytes_def storage_bytes_def in_order_def)

lemma writer_ok_same: "same_bytes s t \<Longrightarrow> writer_ok a w s \<Longrightarrow> writer_ok a w t"
  by (simp add: writer_ok_def writer_at_same)

lemma classify_tail_Clean: "classify_tail a stream z = Clean \<Longrightarrow> length stream \<le> ss_offset z"
  by (auto simp: classify_tail_def Let_def split: if_splits sum.splits prod.splits)

lemma action_of_simps [simp]:
  "action_of st = Open_Clean \<longleftrightarrow> st = Clean" "action_of st = Reject_Corrupt \<longleftrightarrow> st = Corrupt_Record"
  "action_of st = Repair_Incomplete_Tail \<longleftrightarrow> st \<noteq> Clean \<and> st \<noteq> Corrupt_Record"
  by (cases st; simp add: action_of_def)+

lemmas action_of_flipped [simp] = action_of_simps [THEN trans [OF eq_commute]]

lemma plan_recovery_Inr:
  "plan_recovery stream a n = Inr p \<longleftrightarrow> validate_snapshot n stream = Inr () &
     (\<exists>c. classify_recovery stream a = Inr c \<and> rp_action p = action_of (cl_status c)
       \<and> p = \<lparr>rp_action = action_of (cl_status c), rp_snapshot_sha256 = sn_snapshot_sha256 n,
         rp_classification = c, rp_truncate_to_bytes = cl_committed_bytes c,
         rp_discard_tail_bytes = cl_tail_bytes c\<rparr>)"
  by (auto simp: plan_recovery_def bindE_Inr result_simps)

lemma classified_simps [simp]:
  "cl_status (classified st a x bs) = st" "cl_committed_records (classified st a x bs) = int (length bs)"
  "cl_last_sequence (classified st a x bs) = ra_next_sequence a + int (length bs) - 1"
  "cl_committed_bytes (classified st a x bs) = 784 * length bs"
  "cl_tail_bytes (classified st a x bs) = length x - 784 * length bs"
  "cl_final_record_sha256 (classified st a x bs) = chain_root (ra_previous_record_sha256 a) bs"
  by (simp_all add: classified_def)

lemma clean_chain:
  assumes "classify_recovery stream a = Inr c" "cl_status c = Clean"
  obtains bs where "chain_of a bs" "stream = concat bs" "c = classified Clean a stream bs"
proof (rule classify_sound [OF assms(1)])
  fix bs st assume bs: "front_chain a stream bs" "c = classified st a stream bs"
    "st \<noteq> Corrupt_Record \<Longrightarrow> length stream < 784 * length bs + 784 \<and> st = classify_tail a stream (scanned a stream bs)"
  with assms(2) have "classify_tail a stream (scanned a stream bs) = Clean" by simp
  then have "length stream \<le> 784 * length bs" using classify_tail_Clean by force
  then have "stream = concat bs" "chain_of a bs" using bs(1) by (auto simp: front_chain_def)
  then show thesis using bs(2) assms(2) by (intro that [of bs]) simp_all
qed

lemma open_clean_at:
  assumes o: "open_clean (storage_bytes s) a k s = Inr w" and s: "in_order s"
  obtains bs where "writer_at a w s bs" "wr_state w = Writer_Ready" "wr_capability w = k"
proof -
  obtain c where c: "classify_recovery (storage_bytes s) a = Inr c" "cl_status c = Clean"
    "w = \<lparr>wr_capability = k, wr_record_epoch = ra_record_epoch a,
       wr_next_sequence = (if cl_committed_records c = 0 then ra_next_sequence a
         else if cl_committed_records c \<noteq> 0 \<and> cl_last_sequence c = U64_MAX then cl_last_sequence c
         else cl_last_sequence c + 1),
       wr_previous_record_sha256 = cl_final_record_sha256 c, wr_committed_bytes = cl_committed_bytes c,
       wr_sequence_exhausted = (cl_committed_records c \<noteq> 0 \<and> cl_last_sequence c = U64_MAX),
       wr_state = Writer_Ready\<rparr>"
    using o by (auto simp: open_clean_def bindE_Inr guardE_Inr plan_recovery_Inr Let_def)
  obtain bs where bs: "chain_of a bs" "storage_bytes s = concat bs" "c = classified Clean a (storage_bytes s) bs"
    using clean_chain [OF c(1,2)] .
  then have "writer_at a w s bs" using s by (auto simp: writer_at_def c(3))
  then show thesis by (rule that) (simp_all add: c(3))
qed

section \<open>What the device holds\<close>

definition kept :: "recovery_anchor \<Rightarrow> storage \<Rightarrow> bytes list \<Rightarrow> bytes list \<Rightarrow> bool" where
  "kept a s acked bs \<longleftrightarrow>
    (let low = min (ds_length s) (ds_synced_length s); high = max (ds_length s) (ds_synced_length s) in
     chain_of a bs \<and> high \<le> length (ds_backing s) \<and> high \<le> 784 * length bs
     \<and> take high (ds_backing s) = take high (concat bs) \<and> subseq acked (take (low div 784) bs))"

lemma kept_same: "same_bytes s t \<Longrightarrow> kept a s acked bs \<Longrightarrow> kept a t acked bs"
  by (simp add: kept_def same_bytes_def)

lemma subseq_take: "m \<le> n \<Longrightarrow> subseq xs (take m ys) \<Longrightarrow> subseq xs (take n ys)"
proof -
  assume n: "m \<le> n" and s: "subseq xs (take m ys)"
  have "take n ys = take m ys @ take (n - m) (drop m ys)"
    using n by (metis le_add_diff_inverse take_add)
  then show ?thesis using s by (simp add: list_emb_prefix)
qed

text \<open>Any length between the two, or below the larger and not below a whole acknowledged part, keeps it.\<close>

lemma kept_shrink:
  assumes k: "kept a s acked bs" and b: "ds_backing t = ds_backing s"
    and high: "max (ds_length t) (ds_synced_length t) \<le> max (ds_length s) (ds_synced_length s)"
    and low: "min (ds_length s) (ds_synced_length s) div 784 \<le> min (ds_length t) (ds_synced_length t) div 784"
  shows "kept a t acked bs"
proof -
  let ?h = "max (ds_length s) (ds_synced_length s)" and ?g = "max (ds_length t) (ds_synced_length t)"
  have "take ?h (ds_backing s) = take ?h (concat bs)" using k by (simp add: kept_def Let_def)
  then have "take ?g (take ?h (ds_backing s)) = take ?g (take ?h (concat bs))" by simp
  then have "take ?g (ds_backing s) = take ?g (concat bs)" using high by (simp add: min_absorb1)
  moreover have "subseq acked (take (min (ds_length s) (ds_synced_length s) div 784) bs)" "chain_of a bs"
    "?h \<le> length (ds_backing s)" "?h \<le> 784 * length bs"
    using k by (simp_all only: kept_def Let_def)
  ultimately show ?thesis using b high subseq_take [OF low] order_trans [OF high]
    by (simp only: kept_def Let_def) simp
qed

text \<open>A chain that the live bytes are is the front of the chain that is kept.\<close>

lemma chains_agree:
  assumes "chain_of a bs" "chain_of a cs" "concat bs = take (784 * length bs) (concat cs)" "length bs \<le> length cs"
  shows "bs = take (length bs) cs"
proof (rule concat_frames_eq)
  show "length bs = length (take (length bs) cs)" using assms(4) by simp
  show "length b = 784" if "b \<in> set bs \<union> set (take (length bs) cs)" for b
    using that chain_lengths [OF assms(1)] chain_lengths [OF assms(2)] by (auto dest: in_set_takeD)
  show "concat bs = concat (take (length bs) cs)" using chain_take_bytes [OF assms(2)] assms(3) by simp
qed

lemma kept_settled: "in_order s \<Longrightarrow> kept a s acked bs \<longleftrightarrow>
    chain_of a bs \<and> ds_length s \<le> 784 * length bs \<and> storage_bytes s = take (ds_length s) (concat bs)
    \<and> subseq acked (take (ds_synced_length s div 784) bs)"
  by (auto simp: kept_def Let_def in_order_def storage_bytes_def max_def min_def)

lemma synced_frames: "in_order s \<Longrightarrow> ds_length s = 784 * n \<Longrightarrow> ds_synced_length s div 784 \<le> n"
  using div_le_mono [of "ds_synced_length s" "784 * n" 784] by (simp add: in_order_def)

lemma kept_front:
  assumes k: "kept a s acked cs" and s: "in_order s" and bs: "chain_of a bs" "storage_bytes s = concat bs"
  shows "kept a s acked bs"
proof -
  have len: "ds_length s = 784 * length bs" using length_chain [OF bs(1)] bs(2) s
    by (force simp: storage_bytes_def in_order_def dest: arg_cong [where f = length])
  have k: "chain_of a cs" "ds_length s \<le> 784 * length cs" "storage_bytes s = take (ds_length s) (concat cs)"
    "subseq acked (take (ds_synced_length s div 784) cs)"
    using k by (simp_all add: kept_settled [OF s])
  have "bs = take (length bs) cs" using k(1-3) len bs by (intro chains_agree [of a]) simp_all
  moreover have "ds_synced_length s div 784 \<le> length bs" using synced_frames [OF s len] .
  ultimately have "take (ds_synced_length s div 784) bs = take (ds_synced_length s div 784) cs"
    by (metis min.absorb1 take_take)
  then show ?thesis using k(4) bs len length_chain [OF bs(1)] by (simp add: kept_settled [OF s])
qed

section \<open>The append\<close>

lemma append_checks_Inr:
  "append_checks encoded w s = Inr (r, root) \<Longrightarrow> wr_state w = Writer_Ready \<and> \<not> wr_sequence_exhausted w
     \<and> sweep_record_decode encoded = Inr (r, root)
     \<and> continues (wr_record_epoch w) (wr_next_sequence w) (wr_previous_record_sha256 w) encoded"
  by (auto simp: append_checks_def bindE_Inr guardE_Inr result_simps continues_def)

lemma append_plan_whole:
  "sweep_append_plan encoded = Inr (body, footer, root) \<Longrightarrow> body @ footer = encoded"
  by (auto simp: sweep_append_plan_def bindE_Inr)

text \<open>An append refuses and changes nothing, or writes some part of the record and poisons the writer, or returns.\<close>

lemma append_record_cases:
  assumes ap: "append_record encoded (w, s) = (r, (v, t))" and s: "in_order s"
  obtains e where "r = Inl e" "v = w" "t = s"
  | e n rc root where "r = Inl e" "append_checks encoded w s = Inr (rc, root)" "v = w\<lparr>wr_state := Writer_Poisoned\<rparr>"
      "n \<le> length encoded" "appended s t (take n encoded)"
  | x rc root where "r = Inr x" "append_checks encoded w s = Inr (rc, root)" "v = advance_writer encoded root (w\<lparr>wr_state := Writer_Poisoned\<rparr>)"
      "appended s t encoded" "ds_synced_length t = ds_length t" "x = append_receipt_of rc root v"
proof (cases "append_checks encoded w s")
  case (Inl e)
  then show thesis using ap by (intro that(1) [of e]) (simp_all add: append_record_def checkS_def)
next
  case (Inr d)
  then obtain rc root where d: "append_checks encoded w s = Inr (rc, root)" by (cases d) auto
  have dec: "sweep_record_decode encoded = Inr (rc, root)" using append_checks_Inr [OF d] by simp
  obtain body footer where p: "sweep_append_plan encoded = Inr (body, footer, root)"
    by (simp add: sweep_append_plan_def dec)
  note whole = append_plan_whole [OF p]
  obtain q u where u: "append_io (wr_capability w) (body, footer, root) s = (q, u)"
    by (cases "append_io (wr_capability w) (body, footer, root) s")
  obtain n where n: "n \<le> length encoded" "appended s u (take n encoded)"
    "q = Inr () \<Longrightarrow> n = length encoded \<and> ds_synced_length u = ds_length u"
    by (rule append_io_bytes [OF u s]) (use whole that in \<open>simp\<close>)
  show thesis
  proof (cases q)
    case (Inl e)
    then show thesis using ap d p u n(1,2) by (intro that(2) [of e rc root n]) (auto simp: append_record_def checkS_def bindS_def)
  next
    case (Inr x)
    then show thesis using ap d p u n by (intro that(3)) (auto simp: append_record_def checkS_def bindS_def)
  qed
qed

text \<open>From where the writer stands, the bytes written begin the record that comes next.\<close>

lemma appended_kept:
  assumes k: "kept a s acked bs" and at: "writer_at a w s bs" and b: "continues_chain a bs b"
    and ap: "appended s t (take n b)" and n: "n \<le> 784"
  shows "kept a t acked (bs @ [b])"
proof -
  have s: "in_order s" "in_order t" using at ap by (simp_all add: writer_at_def appended_def)
  have len: "ds_length s = 784 * length bs" by (rule writer_at_length [OF at])
  have chain: "chain_of a bs" "concat bs = storage_bytes s" using at by (simp_all add: writer_at_def)
  have lb: "length b = 784" using b by (rule continues_decode)
  have bytes: "storage_bytes t = concat bs @ take n b" "ds_length t = 784 * length bs + n"
    using ap len chain n lb by (simp_all add: appended_def)
  have "storage_bytes t = take (ds_length t) (concat (bs @ [b]))"
    using length_chain [OF chain(1)] by (simp add: bytes)
  moreover have "subseq acked (take (ds_synced_length t div 784) (bs @ [b]))"
  proof -
    have "subseq acked (take (ds_synced_length s div 784) bs)" using k by (simp add: kept_settled [OF s(1)])
    moreover have "ds_synced_length s div 784 \<le> length bs" using synced_frames [OF s(1) len] .
    ultimately have "subseq acked (take (ds_synced_length s div 784) (bs @ [b]))" by simp
    moreover have "ds_synced_length s \<le> ds_synced_length t" using ap by (simp add: appended_def)
    ultimately show ?thesis using subseq_take [OF div_le_mono] by blast
  qed
  moreover have "chain_of a (bs @ [b])" using chain(1) b by (simp only: chain_snoc)
  moreover have "ds_length t \<le> 784 * length (bs @ [b])" using n by (simp add: bytes(2))
  ultimately show ?thesis by (simp only: kept_settled [OF s(2)])
qed

lemma appended_acked:
  assumes k: "kept a s acked bs" and at: "writer_at a w s bs" and b: "continues_chain a bs b"
    and ap: "appended s t b" "ds_synced_length t = ds_length t"
  shows "kept a t (acked @ [b]) (bs @ [b])"
proof -
  have lb: "length b = 784" using b by (rule continues_decode)
  have t: "in_order t" using ap by (simp add: appended_def)
  have k2: "kept a t acked (bs @ [b])" using appended_kept [OF k at b, of t 784] ap lb by simp
  have "ds_length t = 784 * length (bs @ [b])" using ap writer_at_length [OF at] lb by (simp add: appended_def)
  moreover have "subseq acked bs"
  proof -
    have "in_order s" using at by (simp add: writer_at_def)
    then have "subseq acked (take (ds_synced_length s div 784) bs)" using k by (simp add: kept_settled)
    then show ?thesis by (metis append_take_drop_id list_emb_prefix)
  qed
  ultimately show ?thesis using k2 ap(2) by (simp add: kept_settled [OF t] list_emb_append_mono)
qed

lemma writer_advanced:
  assumes at: "writer_at a w s bs" and ap: "append_checks encoded w s = Inr (rc, root)" "appended s t encoded"
  shows "writer_at a (advance_writer encoded root (w\<lparr>wr_state := Writer_Poisoned\<rparr>)) t (bs @ [encoded])"
proof -
  note c = append_checks_Inr [OF ap(1)]
  have n: "wr_next_sequence w = ra_next_sequence a + int (length bs)" using c at by (simp add: writer_at_def)
  have b: "continues_chain a bs encoded" using c at n by (simp add: writer_at_def)
  have lb: "length encoded = 784" using b by (rule continues_decode)
  have "root_of encoded = root" using c by (simp add: root_of_def)
  then show ?thesis using at ap(2) b lb n
    by (auto simp: writer_at_def appended_def advance_writer_def Let_def chain_snoc)
qed

end
