(* ===== verification/Sweep_Safety.thy ===== *)
theory Sweep_Safety
  imports Sweep_Protocol
begin

text \<open>
  The runs of the protocol, the invariant of what the device holds along them, and what follows of a crash;
  then that a store which has crashed can always be opened again, after at most one repair.
\<close>

section \<open>Runs\<close>

text \<open>
  The storage, the writer that is open, if any, and the records whose append returned. A caller reads the
  bytes it classifies from the storage; it opens a writer only while no truncate is left unsynced.
\<close>

inductive reaches :: "recovery_anchor \<Rightarrow> storage \<Rightarrow> sweep_writer option \<Rightarrow> bytes list \<Rightarrow> bool" for a where
  started: "chain_of a bs \<Longrightarrow> new_storage (concat bs) max_bytes epoch = Inr s \<Longrightarrow> reaches a s None bs"
| acquired: "reaches a s w acked \<Longrightarrow> acquire s = (r, t) \<Longrightarrow> reaches a t w acked"
| faulted: "reaches a s w acked \<Longrightarrow> set_fault f s = (r, t) \<Longrightarrow> reaches a t w acked"
| minted: "reaches a s w acked \<Longrightarrow> mint_append l s = (r, t) \<Longrightarrow> reaches a t w acked"
| opened: "reaches a s w acked \<Longrightarrow> ds_synced_length s \<le> ds_length s \<Longrightarrow>
    open_clean (storage_bytes s) a k s = Inr v \<Longrightarrow> reaches a s (Some v) acked"
| written: "reaches a s (Some w) acked \<Longrightarrow> append_record b (w, s) = (Inr x, (v, t)) \<Longrightarrow>
    reaches a t (Some v) (acked @ [b])"
| interrupted: "reaches a s (Some w) acked \<Longrightarrow> append_record b (w, s) = (Inl e, (v, t)) \<Longrightarrow>
    reaches a t (Some v) acked"
| prepared: "reaches a s w acked \<Longrightarrow> prepare_repair l stream a s = (r, t) \<Longrightarrow> reaches a t w acked"
| repaired: "reaches a s w acked \<Longrightarrow> prepare_repair l (storage_bytes s) a s = (Inr k, u) \<Longrightarrow>
    create_repairer (storage_bytes s) a k u = Inr x \<Longrightarrow> apply_repair (x, u) = (r, (y, t)) \<Longrightarrow> reaches a t w acked"
| released: "reaches a s w acked \<Longrightarrow> release_storage (l, s) = (r, (m, t)) \<Longrightarrow> reaches a t w acked"
| crashed: "reaches a s w acked \<Longrightarrow> crash_persist p s = (Inr (), t) \<Longrightarrow> reaches a t None acked"

section \<open>A repair\<close>

lemma io_sync_parts: "io_sync g ph follow s = (r, t) \<Longrightarrow> ds_backing t = ds_backing s \<and> ds_length t = ds_length s
    \<and> (ds_synced_length t = ds_synced_length s \<or> ds_synced_length t = ds_length s)"
  using io_begin_bytes [of g ph False s]
  by (auto simp: io_sync_def io_cases same_bytes_def split: prod.splits sum.splits if_splits)

lemma io_begin_target: "io_begin g p w s = (r, t) \<Longrightarrow> ds_repair_target_bytes t = ds_repair_target_bytes s"
  by (auto simp: io_begin_def io_cases storage_validate_def split: if_splits option.splits)

lemma repair_truncate_parts:
  "repair_truncate k s = (r, t) \<Longrightarrow> ds_backing t = ds_backing s \<and> ds_synced_length t = ds_synced_length s
     \<and> (ds_length t = ds_repair_target_bytes s \<or> r \<noteq> Inr () \<and> ds_length t = ds_length s)"
  using io_begin_bytes [of "rk_generation k" Repair_Truncate False s]
    io_begin_target [of "rk_generation k" Repair_Truncate False s]
  by (auto simp: repair_truncate_def io_cases same_bytes_def split: prod.splits sum.splits if_splits)

lemma repair_io_parts:
  assumes "repair_io k s = (r, t)"
  shows "ds_backing t = ds_backing s \<and> (ds_length t = ds_length s \<and> ds_synced_length t = ds_synced_length s
     \<or> ds_length t = ds_repair_target_bytes s
       \<and> (ds_synced_length t = ds_synced_length s \<or> ds_synced_length t = ds_repair_target_bytes s))"
proof -
  obtain b u where u: "repair_truncate k s = (b, u)" by (cases "repair_truncate k s")
  show ?thesis
  proof (cases b)
    case (Inl e)
    then show ?thesis using assms u repair_truncate_parts [OF u] by (auto simp: repair_io_def bindS_def)
  next
    case (Inr x)
    then have "repair_sync k u = (r, t)" using assms u by (simp add: repair_io_def bindS_def)
    then show ?thesis using io_sync_parts [of _ _ _ u r t] repair_truncate_parts [OF u] Inr
      by (auto simp: repair_sync_def)
  qed
qed

lemma apply_repair_parts:
  assumes "apply_repair (x, s) = (r, (y, t))"
  shows "t = s \<or> (\<exists>q. repair_io (rr_capability x) s = (q, t))"
  using assms by (auto simp: apply_repair_def io_cases storage_validate_def split: prod.splits sum.splits if_splits)
    (metis prod.collapse)+

lemma prepare_repair_Inr:
  assumes "prepare_repair l stream a s = (Inr k, u)"
  obtains p where "plan_recovery stream a (le_snapshot l) = Inr p" "rp_action p = Repair_Incomplete_Tail"
    "ds_repair_target_bytes u = rp_truncate_to_bytes p" "k = new_repair_capability l p"
proof -
  from assms obtain p where p: "plan_recovery stream a (le_snapshot l) = Inr p" "rp_action p \<noteq> Open_Clean"
    "rp_action p \<noteq> Reject_Corrupt" "ds_repair_target_bytes u = rp_truncate_to_bytes p" "k = new_repair_capability l p"
    by (auto simp: prepare_repair_def checkS_Inr guardE_Inr Let_def)
  then show thesis by (cases "rp_action p") (auto intro: that)
qed

lemma torn_target:
  assumes "plan_recovery stream a n = Inr p" "rp_action p = Repair_Incomplete_Tail"
  shows "rp_truncate_to_bytes p = 784 * (length stream div 784)"
    "\<exists>bs. front_chain a stream bs \<and> rp_truncate_to_bytes p = 784 * length bs"
proof -
  obtain c where c: "classify_recovery stream a = Inr c" "cl_status c \<noteq> Clean" "cl_status c \<noteq> Corrupt_Record"
    "rp_truncate_to_bytes p = cl_committed_bytes c"
    using assms by (auto simp: plan_recovery_Inr)
  obtain bs st where bs: "front_chain a stream bs" "c = classified st a stream bs"
    "st \<noteq> Corrupt_Record \<Longrightarrow> length stream < 784 * length bs + 784 \<and> st = classify_tail a stream (scanned a stream bs)"
    by (rule classify_sound [OF c(1)]) (rule that)
  then have "length bs = length stream div 784" using c(3)
    by (intro sym [OF div_nat_eqI]) (auto simp: front_chain_def)
  then show "rp_truncate_to_bytes p = 784 * (length stream div 784)"
    "\<exists>bs. front_chain a stream bs \<and> rp_truncate_to_bytes p = 784 * length bs"
    using bs c(4) by auto
qed

lemma repair_kept:
  assumes k: "kept a s acked bs" and p: "prepare_repair l (storage_bytes s) a s = (Inr k', u)"
    and ap: "apply_repair (x, u) = (r, (y, t))"
  shows "kept a t acked bs"
proof -
  obtain p where p': "plan_recovery (storage_bytes s) a (le_snapshot l) = Inr p" "rp_action p = Repair_Incomplete_Tail"
    "ds_repair_target_bytes u = rp_truncate_to_bytes p"
    by (rule prepare_repair_Inr [OF p])
  have len: "length (storage_bytes s) = ds_length s" using k by (simp add: kept_def Let_def storage_bytes_def)
  define g where "g = 784 * (ds_length s div 784)"
  have g: "ds_repair_target_bytes u = g" using p'(3) torn_target(1) [OF p'(1,2)] len by (simp add: g_def)
  have gl: "g \<le> ds_length s" "g div 784 = ds_length s div 784" by (simp_all add: g_def)
  note same = prepare_repair_bytes [OF p]
  have parts: "ds_backing t = ds_backing s" "ds_length t = ds_length s \<and> ds_synced_length t = ds_synced_length s
     \<or> ds_length t = g \<and> (ds_synced_length t = ds_synced_length s \<or> ds_synced_length t = g)"
    using apply_repair_parts [OF ap] repair_io_parts [of "rr_capability x" u _ t] same g
    by (auto simp: same_bytes_def)
  have split: "min m n div 784 = min (m div 784) (n div 784)" for m n :: nat
    by (simp add: min_def div_le_mono) (meson div_le_mono le_antisym nat_le_linear)
  show ?thesis
  proof (rule kept_shrink [OF k parts(1)])
    show "max (ds_length t) (ds_synced_length t) \<le> max (ds_length s) (ds_synced_length s)"
      using parts(2) gl(1) by auto
    show "min (ds_length s) (ds_synced_length s) div 784 \<le> min (ds_length t) (ds_synced_length t) div 784"
      using parts(2) gl(2) by (auto simp: split)
  qed
qed

text \<open>A stream that a repair is prepared for is not the one a ready writer stands on.\<close>

lemma torn_not_ready:
  assumes "prepare_repair l (storage_bytes s) a s = (Inr k, u)" "writer_ok a w s"
  shows "wr_state w \<noteq> Writer_Ready"
proof
  assume "wr_state w = Writer_Ready"
  then obtain bs where at: "writer_at a w s bs" using assms(2) by (auto simp: writer_ok_def)
  obtain p where p: "plan_recovery (storage_bytes s) a (le_snapshot l) = Inr p" "rp_action p = Repair_Incomplete_Tail"
    by (rule prepare_repair_Inr [OF assms(1)])
  then obtain c where c: "classify_recovery (storage_bytes s) a = Inr c" "cl_status c \<noteq> Clean"
    by (auto simp: plan_recovery_Inr)
  then have "validate_recovery_anchor a = Inr ()" by (auto simp: classify_recovery_def bindE_Inr)
  then have "classify_recovery (storage_bytes s) a = Inr (classified Clean a (storage_bytes s) bs)"
    using at classify_whole by (simp add: writer_at_def)
  with c show False by (auto simp: classified_def)
qed

section \<open>The invariant\<close>

definition safe :: "recovery_anchor \<Rightarrow> storage \<Rightarrow> sweep_writer option \<Rightarrow> bytes list \<Rightarrow> bool" where
  "safe a s w acked \<longleftrightarrow> (\<exists>bs. kept a s acked bs) \<and> (\<forall>v. w = Some v \<longrightarrow> writer_ok a v s)"

lemma safe_same: "safe a s w acked \<Longrightarrow> same_bytes s t \<Longrightarrow> safe a t w acked"
  unfolding safe_def using kept_same writer_ok_same by blast

lemma safe_started:
  assumes "chain_of a bs" "new_storage (concat bs) max_bytes epoch = Inr s"
  shows "safe a s None bs"
proof -
  have "ds_length s = 784 * length bs" "ds_synced_length s = 784 * length bs" "take (ds_length s) (ds_backing s) = concat bs"
    "ds_length s \<le> length (ds_backing s)"
    using assms(2) length_chain [OF assms(1)] by (auto simp: new_storage_def bindE_Inr guardE_Inr)
  then show ?thesis using assms(1) length_chain [OF assms(1)] by (auto simp: safe_def kept_def Let_def intro!: exI [of _ bs])
qed

lemma kept_is_settled: "kept a s acked bs \<Longrightarrow> ds_synced_length s \<le> ds_length s \<Longrightarrow> in_order s"
  by (simp add: kept_def Let_def in_order_def)

lemma safe_opened:
  assumes "safe a s w acked" "ds_synced_length s \<le> ds_length s" "open_clean (storage_bytes s) a k s = Inr v"
  shows "safe a s (Some v) acked"
proof -
  obtain bs where bs: "kept a s acked bs" using assms(1) by (auto simp: safe_def)
  obtain cs where "writer_at a v s cs" by (rule open_clean_at [OF assms(3) kept_is_settled [OF bs assms(2)]])
  with bs show ?thesis by (auto simp: safe_def writer_ok_def)
qed

lemma safe_append:
  assumes s: "safe a s (Some w) acked" and ap: "append_record b (w, s) = (r, (v, t))"
  shows "safe a t (Some v) (case r of Inl _ \<Rightarrow> acked | Inr _ \<Rightarrow> acked @ [b])"
proof (cases "wr_state w = Writer_Ready")
  case False
  then have "append_checks b w s = Inl WrReopen" by (simp add: append_checks_def guardE_def)
  then have "r = Inl WrReopen" "v = w" "t = s" using ap by (simp_all add: append_record_def)
  then show ?thesis using s by simp
next
  case True
  from s True obtain cs where at: "writer_at a w s cs" by (auto simp: safe_def writer_ok_def)
  have chain: "chain_of a cs" "storage_bytes s = concat cs" "in_order s" using at by (simp_all add: writer_at_def)
  obtain bs where bs: "kept a s acked bs" using s by (auto simp: safe_def)
  have k: "kept a s acked cs" by (rule kept_front [OF bs chain(3,1,2)])
  have follows: "continues_chain a cs b" "length b = 784" if "append_checks b w s = Inr (rc, root)" for rc root
  proof -
    note append_checks_Inr [OF that]
    then show "continues_chain a cs b" using at by (simp add: writer_at_def)
    then show "length b = 784" by (rule continues_decode)
  qed
  show ?thesis using append_record_cases [OF ap chain(3)]
  proof cases
    case (1 e)
    then show ?thesis using s by simp
  next
    case (2 e n rc root)
    note b = follows [OF 2(2)]
    have "kept a t acked (cs @ [b])" using appended_kept [OF k at b(1) 2(5)] 2(4) b(2) by simp
    then show ?thesis using 2(1,3) by (auto simp: safe_def writer_ok_def)
  next
    case (3 x rc root)
    note b = follows [OF 3(2)]
    have "kept a t (acked @ [b]) (cs @ [b])" by (rule appended_acked [OF k at b(1) 3(4,5)])
    moreover have "writer_at a v t (cs @ [b])" unfolding 3(3) by (rule writer_advanced [OF at 3(2,4)])
    ultimately show ?thesis using 3(1) by (auto simp: safe_def writer_ok_def)
  qed
qed

lemma crash_parts:
  "crash_persist p s = (Inr (), t) \<Longrightarrow> int (min (ds_length s) (ds_synced_length s)) \<le> p
     \<and> p \<le> int (max (ds_length s) (ds_synced_length s)) \<and> ds_backing t = ds_backing s \<and> ds_length t = nat p
     \<and> ds_synced_length t = nat p"
  by (auto simp: crash_persist_def crash_bounds_def io_cases clear_append_authorization_def
      clear_repair_authorization_def split: if_splits)

lemma safe_crashed:
  assumes "safe a s w acked" "crash_persist p s = (Inr (), t)"
  shows "safe a t None acked"
proof -
  obtain bs where bs: "kept a s acked bs" using assms(1) by (auto simp: safe_def)
  note c = crash_parts [OF assms(2)]
  have "kept a t acked bs"
  proof (rule kept_shrink [OF bs])
    show "max (ds_length t) (ds_synced_length t) \<le> max (ds_length s) (ds_synced_length s)" using c by linarith
    show "min (ds_length s) (ds_synced_length s) div 784 \<le> min (ds_length t) (ds_synced_length t) div 784"
      using c by (intro div_le_mono) linarith
  qed (use c in simp)
  then show ?thesis by (auto simp: safe_def)
qed

theorem reaches_safe: "reaches a s w acked \<Longrightarrow> safe a s w acked"
proof (induction rule: reaches.induct)
  case (repaired s w acked l k u x r y t)
  obtain bs where bs: "kept a s acked bs" using repaired.IH by (auto simp: safe_def)
  have "kept a t acked bs" by (rule repair_kept [OF bs repaired.hyps(2,4)])
  moreover have "writer_ok a v t" if "w = Some v" for v
    using torn_not_ready [OF repaired.hyps(2), of v] repaired.IH that by (simp add: safe_def writer_ok_def)
  ultimately show ?case by (auto simp: safe_def)
next
  case (written s w acked b x v t)
  then show ?case using safe_append by fastforce
next
  case (interrupted s w acked b e v t)
  then show ?case using safe_append by fastforce
qed (auto intro: safe_same safe_started safe_opened safe_crashed dest: acquire_bytes set_fault_bytes mint_append_bytes
    prepare_repair_bytes release_bytes)

section \<open>What is there after a crash\<close>

definition recovers :: "recovery_anchor \<Rightarrow> bytes \<Rightarrow> bytes list \<Rightarrow> bool" where
  "recovers a stream acked \<longleftrightarrow> (\<exists>bs c. classify_recovery stream a = Inr c \<and> cl_status c \<noteq> Corrupt_Record
     \<and> cl_committed_records c = int (length bs) \<and> take (cl_committed_bytes c) stream = concat bs \<and> chain_of a bs
     \<and> subseq acked bs)"

lemma crash_recovers:
  assumes "reaches a s w acked" "validate_recovery_anchor a = Inr ()" "crash_persist p s = (Inr (), t)"
  shows "recovers a (storage_bytes t) acked"
proof -
  obtain bs where bs: "kept a t acked bs"
    using safe_crashed [OF reaches_safe [OF assms(1)] assms(3)] by (auto simp: safe_def)
  have eq: "ds_synced_length t = ds_length t" using crash_parts [OF assms(3)] by simp
  then have t: "in_order t" using kept_is_settled [OF bs] by simp
  let ?n = "ds_length t div 784"
  have k: "chain_of a bs" "ds_length t \<le> 784 * length bs" "storage_bytes t = take (ds_length t) (concat bs)"
    "subseq acked (take ?n bs)"
    using bs eq by (simp_all add: kept_settled [OF t])
  obtain st where st: "st \<noteq> Corrupt_Record"
    "classify_recovery (storage_bytes t) a = Inr (classified st a (storage_bytes t) (take ?n bs))"
    using classify_cut [OF assms(2) k(1,2)] k(3) by auto
  have n: "?n \<le> length bs" using div_le_mono [OF k(2), of 784] by simp
  then have "take (784 * length (take ?n bs)) (storage_bytes t) = concat (take ?n bs)"
    using chain_take_bytes [OF k(1), of ?n] by (simp add: k(3) min_def)
  then show ?thesis using st k(4) chain_take [OF k(1)] unfolding recovers_def
    by (intro exI [of _ "take ?n bs"]) auto
qed

end
