(* ===== verification/Sweep_Session.thy ===== *)
theory Sweep_Session
  imports Sweep_Safety
begin

text \<open>
  Whole sessions on the storage, as \<open>docs/CONTINUATION_OBJECT_SWEEP_WRITER.md\<close> describes them: acquire a
  lease, read the bytes and classify them, then open a writer or repair, release and open. A store that has
  crashed can always be opened this way.
\<close>

section \<open>Sessions\<close>

definition open_session :: "recovery_anchor \<Rightarrow> storage_lease \<Rightarrow> (writer_error, sweep_writer, storage) stateful" where
  "open_session a l = bindS (mint_append l) (\<lambda>k s. checkS (open_clean (storage_bytes s) a k s) returnS s)"

definition with_lease :: "('e, 'a, storage_lease \<times> storage) stateful \<Rightarrow> storage_lease \<Rightarrow> ('e, 'a, storage) stateful" where
  "with_lease m l s = (case m (l, s) of (r, (_, t)) \<Rightarrow> (r, t))"

definition repair_session :: "recovery_anchor \<Rightarrow> storage_lease \<Rightarrow> io_fault option \<Rightarrow> (writer_error, tail_repair_receipt, storage) stateful" where
  "repair_session a l f s =
     bindS (prepare_repair l (storage_bytes s) a) (\<lambda>k s.
     checkS (create_repairer (storage_bytes s) a k s) (\<lambda>x.
     bindS (set_fault f) (\<lambda>_ s. case apply_repair (x, s) of (r, (_, t)) \<Rightarrow> (r, t))) s) s"

definition reopen :: "recovery_anchor \<Rightarrow> (writer_error, sweep_writer, storage) stateful" where
  "reopen a =
     bindS acquire (\<lambda>l s.
     checkS (plan_recovery (storage_bytes s) a (le_snapshot l)) (\<lambda>p.
       if rp_action p = Open_Clean then open_session a l
       else
         bindS (repair_session a l None) (\<lambda>_.
         bindS (with_lease release_storage l) (\<lambda>_.
         bindS acquire (open_session a)))) s)"

section \<open>Acquiring\<close>

definition leasable :: "storage \<Rightarrow> bool" where
  "leasable s \<longleftrightarrow> ds_active_generation s = 0 \<and> 0 < ds_next_generation s \<and> ds_next_generation s \<le> U64_MAX
     \<and> 0 < ds_storage_epoch s \<and> ds_storage_epoch s \<le> U64_MAX \<and> int (length (ds_backing s)) \<le> U64_MAX
     \<and> ds_length s \<le> length (ds_backing s)"

definition on_lease :: "storage \<Rightarrow> storage" where
  "on_lease s = s\<lparr>ds_next_generation := ds_next_generation s + 1, ds_active_generation := ds_next_generation s,
     ds_expected_phase := Body_Write, ds_fault := None, ds_call_index := 0, ds_trace := [],
     ds_append_generation := 0, ds_append_snapshot_sha256 := ZERO_DIGEST, ds_repair_generation := 0,
     ds_repair_snapshot_sha256 := ZERO_DIGEST, ds_repair_expected_bytes := 0, ds_repair_target_bytes := 0\<rparr>"

definition snapshot_of :: "storage \<Rightarrow> storage_snapshot" where
  "snapshot_of s = projr (make_snapshot (ds_storage_epoch s) (ds_next_generation s) (storage_bytes s)
     (int (length (ds_backing s))))"

definition lease_on :: "storage \<Rightarrow> storage_lease" where
  "lease_on s = \<lparr>le_generation = ds_next_generation s, le_snapshot = snapshot_of s\<rparr>"

lemma make_snapshot_ok:
  "leasable s \<Longrightarrow> make_snapshot (ds_storage_epoch s) (ds_next_generation s) (storage_bytes s)
     (int (length (ds_backing s))) = Inr (snapshot_of s)"
  by (simp add: snapshot_of_def make_snapshot_def leasable_def guardE_def writer_u64_def storage_bytes_def Let_def)

lemma make_snapshot_fields:
  "make_snapshot e g x m = Inr n \<Longrightarrow> sn_storage_epoch n = e \<and> sn_lease_generation n = g
     \<and> sn_observed_bytes n = length x \<and> sn_max_bytes n = m"
  by (auto simp: make_snapshot_def bindE_Inr Let_def)

lemma snapshot_fields:
  assumes "leasable s"
  shows "sn_storage_epoch (snapshot_of s) = ds_storage_epoch s" "sn_lease_generation (snapshot_of s) = ds_next_generation s"
    "sn_observed_bytes (snapshot_of s) = ds_length s" "sn_max_bytes (snapshot_of s) = int (length (ds_backing s))"
    "validate_snapshot (snapshot_of s) (storage_bytes s) = Inr ()"
proof -
  note ok = make_snapshot_ok [OF assms]
  then show 1: "sn_storage_epoch (snapshot_of s) = ds_storage_epoch s" "sn_lease_generation (snapshot_of s) = ds_next_generation s"
    "sn_observed_bytes (snapshot_of s) = ds_length s" "sn_max_bytes (snapshot_of s) = int (length (ds_backing s))"
    using assms make_snapshot_fields [OF ok] by (simp_all add: storage_bytes_def leasable_def)
  show "validate_snapshot (snapshot_of s) (storage_bytes s) = Inr ()"
    by (simp add: validate_snapshot_def 1 ok guardE_def)
qed

lemma acquire_ok: "leasable s \<Longrightarrow> acquire s = (Inr (lease_on s), on_lease s)"
  using make_snapshot_ok [of s]
  by (simp add: acquire_def leasable_def Let_def clear_append_authorization_def clear_repair_authorization_def
      storage_bytes_def on_lease_def lease_on_def)

lemma on_lease_fields [simp]:
  "ds_backing (on_lease s) = ds_backing s" "ds_length (on_lease s) = ds_length s"
  "ds_synced_length (on_lease s) = ds_synced_length s" "ds_active_generation (on_lease s) = ds_next_generation s"
  "ds_expected_phase (on_lease s) = Body_Write" "ds_fault (on_lease s) = None" "ds_call_index (on_lease s) = 0"
  "ds_append_generation (on_lease s) = 0" "ds_next_generation (on_lease s) = ds_next_generation s + 1"
  "ds_storage_epoch (on_lease s) = ds_storage_epoch s" "storage_bytes (on_lease s) = storage_bytes s"
  by (simp_all add: on_lease_def storage_bytes_def)

lemma plan_leased:
  "leasable s \<Longrightarrow> classify_recovery (storage_bytes s) a = Inr c \<Longrightarrow>
   plan_recovery (storage_bytes s) a (snapshot_of s) = Inr \<lparr>rp_action = action_of (cl_status c),
     rp_snapshot_sha256 = sn_snapshot_sha256 (snapshot_of s), rp_classification = c,
     rp_truncate_to_bytes = cl_committed_bytes c, rp_discard_tail_bytes = cl_tail_bytes c\<rparr>"
  by (simp add: plan_recovery_def snapshot_fields(5))

section \<open>Opening\<close>

definition minted_on :: "storage \<Rightarrow> storage" where
  "minted_on s = (on_lease s)\<lparr>ds_append_generation := ds_next_generation s,
     ds_append_snapshot_sha256 := sn_snapshot_sha256 (snapshot_of s)\<rparr>"

definition writer_on :: "recovery_anchor \<Rightarrow> storage \<Rightarrow> bytes list \<Rightarrow> sweep_writer" where
  "writer_on a s bs = (let exhausted = (bs \<noteq> [] \<and> ra_next_sequence a + int (length bs) - 1 = U64_MAX) in
     \<lparr>wr_capability = \<lparr>ak_generation = ds_next_generation s, ak_snapshot = snapshot_of s\<rparr>,
       wr_record_epoch = ra_record_epoch a,
       wr_next_sequence = (if exhausted then U64_MAX else ra_next_sequence a + int (length bs)),
       wr_previous_record_sha256 = chain_root (ra_previous_record_sha256 a) bs,
       wr_committed_bytes = 784 * length bs, wr_sequence_exhausted = exhausted, wr_state = Writer_Ready\<rparr>)"

lemma minted_bytes [simp]: "storage_bytes (minted_on s) = storage_bytes s"
  by (simp add: minted_on_def storage_bytes_def)

lemma mint_ok:
  assumes "leasable s"
  shows "mint_append (lease_on s) (on_lease s) =
    (Inr \<lparr>ak_generation = ds_next_generation s, ak_snapshot = snapshot_of s\<rparr>, minted_on s)"
  using assms snapshot_fields(3) [OF assms]
  by (simp add: mint_append_def storage_validate_def guardE_def lease_on_def minted_on_def leasable_def)

lemma open_on:
  assumes s: "leasable s" and v: "validate_recovery_anchor a = Inr ()" and bs: "chain_of a bs" "storage_bytes s = concat bs"
  shows "open_clean (storage_bytes s) a \<lparr>ak_generation = ds_next_generation s, ak_snapshot = snapshot_of s\<rparr> (minted_on s)
    = Inr (writer_on a s bs)"
proof -
  let ?k = "\<lparr>ak_generation = ds_next_generation s, ak_snapshot = snapshot_of s\<rparr>"
  have c: "classify_recovery (storage_bytes s) a = Inr (classified Clean a (storage_bytes s) bs)"
    using classify_whole [OF v bs(1)] bs(2) by simp
  have "append_validate ?k (sn_observed_bytes (snapshot_of s)) (minted_on s) = Inr ()"
    using s by (simp add: append_validate_def storage_validate_def guardE_def minted_on_def snapshot_fields(3) [OF s])
      (simp add: leasable_def)
  then show ?thesis using plan_leased [OF s c] by (simp add: open_clean_def guardE_def writer_on_def Let_def)
qed

lemma open_session_ok:
  assumes "leasable s" "validate_recovery_anchor a = Inr ()" "chain_of a bs" "storage_bytes s = concat bs"
  shows "open_session a (lease_on s) (on_lease s) = (Inr (writer_on a s bs), minted_on s)"
  using open_on [OF assms] by (simp add: open_session_def bindS_def mint_ok [OF assms(1)])

section \<open>Repairing\<close>

definition repaired_on :: "storage \<Rightarrow> nat \<Rightarrow> storage" where
  "repaired_on s n = (on_lease s)\<lparr>ds_length := n, ds_synced_length := n,
     ds_call_index := 2, ds_trace := [Repair_Truncate, Repair_Sync], ds_repair_generation := ds_next_generation s,
     ds_repair_snapshot_sha256 := sn_snapshot_sha256 (snapshot_of s), ds_repair_expected_bytes := ds_length s,
     ds_repair_target_bytes := n\<rparr>"

definition preparing_on :: "storage \<Rightarrow> nat \<Rightarrow> storage" where
  "preparing_on s n = (on_lease s)\<lparr>ds_expected_phase := Repair_Truncate, ds_repair_generation := ds_next_generation s,
     ds_repair_snapshot_sha256 := sn_snapshot_sha256 (snapshot_of s), ds_repair_expected_bytes := ds_length s,
     ds_repair_target_bytes := n\<rparr>"

lemma clear_leased: "clear_append_authorization (on_lease s) = on_lease s"
  by (simp add: clear_append_authorization_def on_lease_def)

definition repairer_on :: "storage \<Rightarrow> classification \<Rightarrow> repairer" where
  "repairer_on s c =
    (let p = \<lparr>rp_action = action_of (cl_status c), rp_snapshot_sha256 = sn_snapshot_sha256 (snapshot_of s),
         rp_classification = c, rp_truncate_to_bytes = cl_committed_bytes c, rp_discard_tail_bytes = cl_tail_bytes c\<rparr> in
     \<lparr>rr_capability = new_repair_capability (lease_on s) p, rr_plan = p, rr_state = Repairer_Ready\<rparr>)"

lemma repair_ready:
  assumes s: "leasable s" and c: "classify_recovery (storage_bytes s) a = Inr c" "cl_status c \<noteq> Clean"
    "cl_status c \<noteq> Corrupt_Record"
  shows "prepare_repair (lease_on s) (storage_bytes s) a (on_lease s) =
      (Inr (rr_capability (repairer_on s c)), preparing_on s (cl_committed_bytes c))"
    "create_repairer (storage_bytes s) a (rr_capability (repairer_on s c)) (preparing_on s (cl_committed_bytes c))
      = Inr (repairer_on s c)"
  using s c(2,3) plan_leased [OF s c(1)] snapshot_fields(3) [OF s]
  by (simp_all add: prepare_repair_def create_repairer_def storage_validate_def guardE_def lease_on_def
      preparing_on_def repairer_on_def new_repair_capability_def clear_leased Let_def) (simp_all add: leasable_def)

lemma apply_ok:
  assumes s: "leasable s" and n: "cl_committed_bytes c \<le> ds_length s"
  shows "\<exists>q. apply_repair (repairer_on s c, preparing_on s (cl_committed_bytes c)) =
    (Inr q, ((repairer_on s c)\<lparr>rr_state := Repairer_Complete\<rparr>, repaired_on s (cl_committed_bytes c)))"
  using s n unfolding leasable_def
  by (simp add: apply_repair_def repair_io_def repair_truncate_def repair_sync_def io_sync_def io_begin_def io_cases
      storage_validate_def repairer_on_def new_repair_capability_def lease_on_def preparing_on_def on_lease_def
      repaired_on_def)

lemma repaired_bytes: "n \<le> ds_length s \<Longrightarrow> ds_length s \<le> length (ds_backing s) \<Longrightarrow>
    storage_bytes (repaired_on s n) = take n (storage_bytes s)"
  by (simp add: repaired_on_def storage_bytes_def min_absorb1)

section \<open>Opening after a crash\<close>

lemma writer_on_at:
  assumes "chain_of a bs" "storage_bytes s = concat bs" "in_order s"
  shows "writer_at a (writer_on a s bs) (minted_on s) bs" "wr_state (writer_on a s bs) = Writer_Ready"
  using assms by (auto simp: writer_at_def writer_on_def Let_def minted_on_def on_lease_def in_order_def storage_bytes_def)

lemma release_session_ok:
  "leasable s \<Longrightarrow> with_lease release_storage (lease_on s) (repaired_on s n) =
    (Inr (), (repaired_on s n)\<lparr>ds_active_generation := 0\<rparr>)"
  by (simp add: with_lease_def release_storage_def storage_validate_def guardE_def lease_on_def leasable_def
      repaired_on_def on_lease_def)

lemma repair_session_ok:
  assumes s: "leasable s" and c: "classify_recovery (storage_bytes s) a = Inr c" "cl_status c \<noteq> Clean"
    "cl_status c \<noteq> Corrupt_Record" "cl_committed_bytes c \<le> ds_length s"
  shows "\<exists>q. repair_session a (lease_on s) None (on_lease s) = (Inr q, repaired_on s (cl_committed_bytes c))"
proof -
  have set: "set_fault None (preparing_on s n) = (Inr (), preparing_on s n)" for n
    by (simp add: set_fault_def guardE_def preparing_on_def on_lease_def)
  have bytes: "storage_bytes (preparing_on s n) = storage_bytes s" for n
    by (simp add: preparing_on_def storage_bytes_def)
  obtain q where "apply_repair (repairer_on s c, preparing_on s (cl_committed_bytes c)) =
      (Inr q, ((repairer_on s c)\<lparr>rr_state := Repairer_Complete\<rparr>, repaired_on s (cl_committed_bytes c)))"
    using apply_ok [OF s c(4)] by blast
  then show ?thesis using repair_ready [OF s c(1-3)]
    by (simp add: repair_session_def bindS_def set bytes)
qed

lemma repaired_leasable:
  "leasable s \<Longrightarrow> ds_next_generation s < U64_MAX \<Longrightarrow> n \<le> ds_length s \<Longrightarrow>
   leasable ((repaired_on s n)\<lparr>ds_active_generation := 0\<rparr>)"
  by (simp add: leasable_def repaired_on_def on_lease_def)

lemma reopens:
  assumes s: "leasable s" "ds_next_generation s < U64_MAX" "in_order s" and v: "validate_recovery_anchor a = Inr ()"
    and c: "classify_recovery (storage_bytes s) a = Inr c" "cl_status c \<noteq> Corrupt_Record"
    and bs: "chain_of a bs" "take (cl_committed_bytes c) (storage_bytes s) = concat bs"
  shows "\<exists>w u. reopen a s = (Inr w, u) \<and> writer_at a w u bs \<and> wr_state w = Writer_Ready"
proof -
  have len: "length (storage_bytes s) = ds_length s" using s(1) by (simp add: storage_bytes_def leasable_def)
  note plan = plan_leased [OF s(1) c(1)]
  show ?thesis
  proof (cases "cl_status c = Clean")
    case True
    obtain cs where cs: "storage_bytes s = concat cs" "c = classified Clean a (storage_bytes s) cs" "chain_of a cs"
      by (rule clean_chain [OF c(1) True]) (rule that)
    then have whole: "storage_bytes s = concat bs" using bs(2) length_chain [OF cs(3)] by simp
    then have "reopen a s = (Inr (writer_on a s bs), minted_on s)"
      using open_session_ok [OF s(1) v bs(1) whole] True plan
      by (simp add: reopen_def bindS_def acquire_ok [OF s(1)] lease_on_def)
    then show ?thesis using writer_on_at [OF bs(1) whole s(3)] by blast
  next
    case False
    let ?n = "cl_committed_bytes c"
    let ?t = "(repaired_on s ?n)\<lparr>ds_active_generation := 0\<rparr>"
    obtain cs st where "front_chain a (storage_bytes s) cs" "c = classified st a (storage_bytes s) cs"
      by (rule classify_sound [OF c(1)]) (rule that)
    then have n: "?n \<le> ds_length s" using len by (simp add: front_chain_def)
    have t: "leasable ?t" using repaired_leasable [OF s(1,2) n] .
    have "storage_bytes ?t = storage_bytes (repaired_on s ?n)" by (simp add: storage_bytes_def)
    then have bytes: "storage_bytes ?t = concat bs"
      using repaired_bytes [OF n] s(1) bs(2) by (simp add: leasable_def)
    have in_order: "in_order ?t" using n s(1) by (simp add: in_order_def repaired_on_def leasable_def)
    obtain q where q: "repair_session a (lease_on s) None (on_lease s) = (Inr q, repaired_on s ?n)"
      using repair_session_ok [OF s(1) c(1) False c(2) n] by blast
    have "reopen a s = open_session a (lease_on ?t) (on_lease ?t)"
      using plan False q c(2) release_session_ok [OF s(1), of ?n]
      by (simp add: reopen_def bindS_def acquire_ok [OF s(1)] acquire_ok [OF t] lease_on_def)
    also have "\<dots> = (Inr (writer_on a ?t bs), minted_on ?t)" by (rule open_session_ok [OF t v bs(1) bytes])
    finally show ?thesis using writer_on_at [OF bs(1) bytes in_order] by blast
  qed
qed

end
