(* ===== verification/Sweep_Unsettled.thy ===== *)
theory Sweep_Unsettled
  imports Sweep_Session
begin

text \<open>
  Why a writer must not be opened over an unsynced truncate. The record that was cut off is then above the
  live length and below the synced one, the body of the next record is written over it, and a crash in
  between can leave the front of one and the end of the other.
\<close>

section \<open>Sessions under a fault\<close>

definition writer_session :: "recovery_anchor \<Rightarrow> io_fault option \<Rightarrow> bytes \<Rightarrow> (writer_error, append_receipt, storage) stateful" where
  "writer_session a f b =
     bindS acquire (\<lambda>l.
     bindS (open_session a l) (\<lambda>w.
     bindS (set_fault f) (\<lambda>_ s.
       case append_record b (w, s) of (r, (_, t)) \<Rightarrow> (r, snd (with_lease release_storage l t)))))"

definition maintenance_session :: "recovery_anchor \<Rightarrow> io_fault option \<Rightarrow> (writer_error, tail_repair_receipt, storage) stateful" where
  "maintenance_session a f =
     bindS acquire (\<lambda>l s.
       case repair_session a l f s of (r, t) \<Rightarrow> (r, snd (with_lease release_storage l t)))"

definition after_call :: "int \<Rightarrow> int option \<Rightarrow> io_fault" where
  "after_call n p = \<lparr>fl_call_index = n, fl_timing = ''after'', fl_write_prefix = p\<rparr>"

lemma after_call_fields [simp]:
  "fl_call_index (after_call n p) = n" "fl_timing (after_call n p) = ''after''" "fl_write_prefix (after_call n p) = p"
  by (simp_all add: after_call_def)

lemma set_after [simp]: "set_fault (Some (after_call n p)) s =
    (Inr (), s\<lparr>ds_fault := Some (after_call n p), ds_call_index := 0, ds_trace := []\<rparr>)"
  by (simp add: set_fault_def guardE_def after_call_def)

lemma set_none [simp]: "set_fault None s = (Inr (), s\<lparr>ds_fault := None, ds_call_index := 0, ds_trace := []\<rparr>)"
  by (simp add: set_fault_def guardE_def)

lemma writer_session_open:
  assumes "leasable s" "validate_recovery_anchor a = Inr ()" "chain_of a bs" "storage_bytes s = concat bs"
  shows "writer_session a (Some (after_call i p)) b s =
    (case append_record b (writer_on a s bs,
        (minted_on s)\<lparr>ds_fault := Some (after_call i p), ds_call_index := 0, ds_trace := []\<rparr>) of
       (r, (_, t)) \<Rightarrow> (r, snd (with_lease release_storage (lease_on s) t)))"
  by (simp add: writer_session_def bindS_def acquire_ok [OF assms(1)] open_session_ok [OF assms])

section \<open>An append\<close>

lemma append_ready:
  assumes s: "leasable s" and b: "continues_chain a bs b"
    and room: "784 * length bs = ds_length s" "ds_length s + 784 \<le> length (ds_backing s)"
    and n: "\<not> (bs \<noteq> [] \<and> ra_next_sequence a + int (length bs) - 1 = U64_MAX)"
  obtains r where "append_checks b (writer_on a s bs) ((minted_on s)\<lparr>ds_fault := f, ds_call_index := i, ds_trace := tr\<rparr>)
      = Inr (r, root_of b)"
    "sweep_append_plan b = Inr (take 736 b, drop 736 b, root_of b)"
proof -
  obtain r where r: "sweep_record_decode b = Inr (r, root_of b)" "rc_record_epoch r = ra_record_epoch a"
    "rc_sequence r = ra_next_sequence a + int (length bs)"
    "rc_previous_record_sha256 r = chain_root (ra_previous_record_sha256 a) bs" "length b = 784"
    using b by (rule continues_decode)
  have "append_validate (wr_capability (writer_on a s bs)) (784 * length bs)
      ((minted_on s)\<lparr>ds_fault := f, ds_call_index := i, ds_trace := tr\<rparr>) = Inr ()"
    using s room(1) by (simp add: append_validate_def storage_validate_def guardE_def minted_on_def writer_on_def Let_def)
      (simp add: leasable_def)
  moreover have "wr_committed_bytes (writer_on a s bs) = 784 * length bs" "\<not> wr_sequence_exhausted (writer_on a s bs)"
    "wr_state (writer_on a s bs) = Writer_Ready" "wr_record_epoch (writer_on a s bs) = ra_record_epoch a"
    "wr_next_sequence (writer_on a s bs) = ra_next_sequence a + int (length bs)"
    "wr_previous_record_sha256 (writer_on a s bs) = chain_root (ra_previous_record_sha256 a) bs"
    "sn_max_bytes (ak_snapshot (wr_capability (writer_on a s bs))) = int (length (ds_backing s))"
    using n by (auto simp: writer_on_def Let_def snapshot_fields [OF s])
  ultimately show thesis
    using that [of r] r room by (simp add: append_checks_def guardE_def recovery_record_matches_def sweep_append_plan_def)
qed

lemmas append_steps = append_record_def io_cases append_io_def append_body_def sync_body_def append_footer_def sync_footer_def
  io_append_def io_sync_def io_begin_def storage_validate_def write_length_def write_backing_def minted_on_def
  on_lease_def writer_on_def with_lease_def release_storage_def lease_on_def

text \<open>A fault after part of the footer, and one after part of the body, of a first record.\<close>

lemma footer_cut:
  assumes s: "leasable s" "ds_next_generation s < U64_MAX" "ds_length s = 0" "784 \<le> length (ds_backing s)"
    and v: "validate_recovery_anchor a = Inr ()" and b: "continues_chain a [] b" and n: "n < 48"
  shows "\<exists>t. writer_session a (Some (after_call 2 (Some (int n)))) b s = (Inl (Injected Footer_Write), t)
    \<and> leasable t \<and> ds_length t = 736 + n \<and> ds_synced_length t = 736 \<and> storage_bytes t = take (736 + n) b
    \<and> ds_next_generation t = ds_next_generation s + 1 \<and> length (ds_backing t) = length (ds_backing s)"
proof -
  let ?f = "Some (after_call 2 (Some (int n)))"
  have lb: "length b = 784" using b by (rule continues_decode)
  have start: "chain_of a []" "storage_bytes s = concat []" using s(3) by (simp_all add: storage_bytes_def)
  obtain r where r: "append_checks b (writer_on a s []) ((minted_on s)\<lparr>ds_fault := ?f, ds_call_index := 0, ds_trace := []\<rparr>)
      = Inr (r, root_of b)" "sweep_append_plan b = Inr (take 736 b, drop 736 b, root_of b)"
    by (rule append_ready [OF s(1) b, where f = ?f and i = 0 and tr = "[]"]) (use s(3,4) in \<open>simp_all\<close>)
  show ?thesis
    using s r lb n unfolding writer_session_open [OF s(1) v start]
    by (simp add: append_steps leasable_def storage_bytes_def min_def) (simp add: take_add)
qed

lemma body_cut:
  assumes s: "leasable s" "ds_next_generation s < U64_MAX" "ds_length s = 0" "784 \<le> length (ds_backing s)"
    and v: "validate_recovery_anchor a = Inr ()" and b: "continues_chain a [] b" and n: "n < 736"
  shows "\<exists>t. writer_session a (Some (after_call 0 (Some (int n)))) b s = (Inl (Injected Body_Write), t)
    \<and> ds_length t = n \<and> ds_synced_length t = ds_synced_length s \<and> ds_backing t = take n b @ drop n (ds_backing s)"
proof -
  let ?f = "Some (after_call 0 (Some (int n)))"
  have lb: "length b = 784" using b by (rule continues_decode)
  have start: "chain_of a []" "storage_bytes s = concat []" using s(3) by (simp_all add: storage_bytes_def)
  obtain r where r: "append_checks b (writer_on a s []) ((minted_on s)\<lparr>ds_fault := ?f, ds_call_index := 0, ds_trace := []\<rparr>)
      = Inr (r, root_of b)" "sweep_append_plan b = Inr (take 736 b, drop 736 b, root_of b)"
    by (rule append_ready [OF s(1) b, where f = ?f and i = 0 and tr = "[]"]) (use s(3,4) in \<open>simp_all\<close>)
  show ?thesis
    using s r lb n unfolding writer_session_open [OF s(1) v start]
    by (simp add: append_steps leasable_def min_def)
qed

lemma append_whole:
  assumes s: "leasable s" "ds_next_generation s < U64_MAX" "ds_length s = 0" "784 \<le> length (ds_backing s)"
    and v: "validate_recovery_anchor a = Inr ()" and b: "continues_chain a [] b"
  shows "\<exists>x w t. append_record b (writer_on a s [], minted_on s) = (Inr x, (w, t)) \<and> ds_length t = 784
    \<and> ds_synced_length t = 784 \<and> ds_next_generation t = ds_next_generation s + 1
    \<and> length (ds_backing t) = length (ds_backing s) \<and> ds_storage_epoch t = ds_storage_epoch s"
proof -
  have lb: "length b = 784" using b by (rule continues_decode)
  obtain r where r: "append_checks b (writer_on a s []) ((minted_on s)\<lparr>ds_fault := None, ds_call_index := 0, ds_trace := []\<rparr>)
      = Inr (r, root_of b)" "sweep_append_plan b = Inr (take 736 b, drop 736 b, root_of b)"
    by (rule append_ready [OF s(1) b, where f = None and i = 0 and tr = "[]"]) (use s(3,4) in \<open>simp_all\<close>)
  have "(minted_on s)\<lparr>ds_fault := None, ds_call_index := 0, ds_trace := []\<rparr> = minted_on s"
    by (simp add: minted_on_def on_lease_def)
  with r(1) have "append_checks b (writer_on a s []) (minted_on s) = Inr (r, root_of b)" by simp
  then show ?thesis using s r(2) lb by (simp add: append_steps leasable_def)
qed

section \<open>A repair\<close>

lemma repair_cut:
  assumes s: "leasable s" "ds_next_generation s < U64_MAX"
    and c: "classify_recovery (storage_bytes s) a = Inr c" "cl_status c \<noteq> Clean" "cl_status c \<noteq> Corrupt_Record"
      "cl_committed_bytes c \<le> ds_length s"
  shows "\<exists>t. maintenance_session a (Some (after_call 0 None)) s = (Inl (Injected Repair_Truncate), t)
    \<and> leasable t \<and> ds_length t = cl_committed_bytes c \<and> ds_synced_length t = ds_synced_length s
    \<and> ds_backing t = ds_backing s \<and> ds_next_generation t = ds_next_generation s + 1"
proof -
  let ?n = "cl_committed_bytes c"
  have bytes: "storage_bytes (preparing_on s ?n) = storage_bytes s"
    by (simp add: preparing_on_def storage_bytes_def)
  have "maintenance_session a (Some (after_call 0 None)) s =
    (case apply_repair (repairer_on s c,
        (preparing_on s ?n)\<lparr>ds_fault := Some (after_call 0 None), ds_call_index := 0, ds_trace := []\<rparr>) of
       (r, (_, t)) \<Rightarrow> (r, snd (with_lease release_storage (lease_on s) t)))"
    by (simp add: maintenance_session_def repair_session_def bindS_def acquire_ok [OF s(1)] repair_ready [OF s(1) c(1-3)]
        bytes split: prod.splits)
  also have "\<dots> = (Inl (Injected Repair_Truncate), (preparing_on s ?n)\<lparr>ds_active_generation := 0,
      ds_fault := Some (after_call 0 None), ds_call_index := 1, ds_trace := [Repair_Truncate], ds_length := ?n,
      ds_expected_phase := Repair_Sync\<rparr>)"
    using s c(4) unfolding leasable_def
    by (simp add: apply_repair_def repair_io_def repair_truncate_def io_begin_def io_cases storage_validate_def
        repairer_on_def new_repair_capability_def lease_on_def preparing_on_def on_lease_def with_lease_def
        release_storage_def)
  finally show ?thesis using s c(4) by (simp add: leasable_def preparing_on_def on_lease_def)
qed

section \<open>The run\<close>

text \<open>A session that is to end in the fault injected at a phase, and goes on after it.\<close>

definition cut_short :: "io_phase \<Rightarrow> (writer_error, 'a, 's) stateful \<Rightarrow> (writer_error, unit, 's) stateful" where
  "cut_short ph m s = (case m s of (Inl e, t) \<Rightarrow> if e = Injected ph then (Inr (), t) else (Inl e, t)
     | (Inr _, t) \<Rightarrow> (Inl WrReopen, t))"

definition unsettled_run :: "recovery_anchor \<Rightarrow> bytes \<Rightarrow> bytes \<Rightarrow> (writer_error, unit, storage) stateful list" where
  "unsettled_run a b c =
     [cut_short Footer_Write (writer_session a (Some (after_call 2 (Some 10))) b),
      cut_short Repair_Truncate (maintenance_session a (Some (after_call 0 None))),
      cut_short Body_Write (writer_session a (Some (after_call 0 (Some 704))) c),
      crash_persist 736]"

fun run_all :: "(writer_error, unit, 's) stateful list \<Rightarrow> (writer_error, unit, 's) stateful" where
  "run_all [] = returnS ()"
| "run_all (m # ms) = bindS m (\<lambda>_. run_all ms)"

lemma mixed_corrupt:
  assumes v: "validate_recovery_anchor a = Inr ()" and b: "continues_chain a [] b" and c: "continues_chain a [] c"
    and roots: "root_of b \<noteq> root_of c"
  shows "classify_recovery (take 704 c @ slice 704 32 b) a
    = Inr (classified Corrupt_Record a (take 704 c @ slice 704 32 b) [])"
proof -
  let ?x = "take 704 c @ slice 704 32 b"
  obtain r where r: "sweep_record_decode b = Inr (r, root_of b)" "length b = 784" using b by (rule continues_decode)
  obtain q where q: "sweep_record_decode c = Inr (q, root_of c)" "length c = 784" using c by (rule continues_decode)
  note rb = decoded_root [OF r(1)] and rc = decoded_root [OF q(1)]
  have lx: "length ?x = 736" using r(2) q(2) by (simp add: slice_def)
  have tail: "classify_tail a ?x (scanned a ?x []) = Corrupt_Record"
  proof (cases "\<exists>d. continues_chain a [] d \<and> ?x = take (length ?x) d")
    case True
    then obtain d where d: "continues_chain a [] d" "?x = take 736 d" using lx by auto
    obtain t where t: "sweep_record_decode d = Inr (t, root_of d)" using d(1) by (rule continues_decode)
    note rd = decoded_root [OF t]
    have "take 704 ?x = take 704 d" "slice 704 32 ?x = slice 704 32 d"
      unfolding d(2) by (simp_all add: slice_def drop_take min_def)
    moreover have "take 704 ?x = take 704 c" "slice 704 32 ?x = slice 704 32 b"
      using r(2) q(2) by (simp_all add: slice_def)
    ultimately have "root_of b = root_of c" using rb(1) rc(2) rd by simp
    with roots show ?thesis by simp
  next
    case False
    then show ?thesis using tail_status [OF front_empty, of ?x ?x a] lx by auto
  qed
  show ?thesis using classify_chain [OF v, of "[]" ?x ?x] lx tail v
    by (auto simp: validate_recovery_anchor_def bindE_Inr result_simps is_u64_def)
qed

lemma unsettled_corrupts:
  assumes v: "validate_recovery_anchor a = Inr ()" and b: "continues_chain a [] b" and c: "continues_chain a [] c"
    and roots: "root_of b \<noteq> root_of c"
  obtains s t where "new_storage [] 2352 41 = Inr s" "run_all (unsettled_run a b c) s = (Inr (), t)"
    "classify_recovery (storage_bytes t) a = Inr (classified Corrupt_Record a (storage_bytes t) [])"
proof -
  obtain s0 where s0: "new_storage [] 2352 41 = Inr s0" "leasable s0" "ds_next_generation s0 = 1" "ds_length s0 = 0"
    "length (ds_backing s0) = 2352"
    by (simp add: new_storage_def guardE_def leasable_def)
  obtain s1 where s1: "writer_session a (Some (after_call 2 (Some 10))) b s0 = (Inl (Injected Footer_Write), s1)"
    "leasable s1" "ds_length s1 = 746" "ds_synced_length s1 = 736" "storage_bytes s1 = take 746 b"
    "ds_next_generation s1 = 2" "length (ds_backing s1) = 2352"
    using footer_cut [OF s0(2) _ s0(4) _ v b, of 10] s0(3,5) by auto
  have torn: "classify_recovery (storage_bytes s1) a = Inr (classified Partial_Footer_Tail a (storage_bytes s1) [])"
    using classify_torn [OF v, of "[]" b 746] b by (simp add: s1(5) torn_status_def)
  obtain s2 where s2: "maintenance_session a (Some (after_call 0 None)) s1 = (Inl (Injected Repair_Truncate), s2)"
    "leasable s2" "ds_length s2 = 0" "ds_synced_length s2 = 736" "ds_backing s2 = ds_backing s1" "ds_next_generation s2 = 3"
    using repair_cut [OF s1(2) _ torn] s1(4,6) by auto
  have n2: "length (ds_backing s2) = 2352" using s1(7) s2(5) by simp
  obtain s3 where s3: "writer_session a (Some (after_call 0 (Some 704))) c s2 = (Inl (Injected Body_Write), s3)"
    "ds_length s3 = 704" "ds_synced_length s3 = 736" "ds_backing s3 = take 704 c @ drop 704 (ds_backing s2)"
    using body_cut [OF s2(2) _ s2(3) _ v c, of 704] s2(4,6) n2 by auto
  obtain t where t: "crash_persist 736 s3 = (Inr (), t)"
    using s3(2,3) by (simp add: crash_persist_def crash_bounds_def guardE_def Let_def)
  have lc: "length c = 784" using c by (rule continues_decode)
  have lb: "length b = 784" using b by (rule continues_decode)
  have "take 746 (ds_backing s2) = take 746 b" using s1(3,5) s2(5) by (simp add: storage_bytes_def)
  then have "drop 704 (take 736 (take 746 (ds_backing s2))) = drop 704 (take 736 (take 746 b))" by simp
  then have "take 32 (drop 704 (ds_backing s2)) = slice 704 32 b" by (simp add: drop_take slice_def)
  then have bytes: "storage_bytes t = take 704 c @ slice 704 32 b"
    using crash_parts [OF t] lc by (simp add: storage_bytes_def s3(4) min_def)
  have "run_all (unsettled_run a b c) s0 = (Inr (), t)"
    by (simp add: unsettled_run_def cut_short_def bindS_def s1(1) s2(1) s3(1) t)
  then show thesis using that s0(1) mixed_corrupt [OF v b c roots] bytes by simp
qed

end
