(* ===== verification/Sweep_Record_Scenario.thy ===== *)
theory Sweep_Record_Scenario
  imports Sweep_Scenario Sweep_Unsettled
begin

text \<open>
  Two records of the sweep of \<open>Sweep_Scenario\<close>, for the same position and with different challenges, their
  roots computed, and a writer that appends one of them.
\<close>

definition dg_first :: bytes where
  "dg_first =
    [0x15, 0x84, 0x23, 0x7f, 0x78, 0xbe, 0x73, 0x6d, 0xc0, 0xdd, 0xaa, 0xc2, 0xe2, 0xf9, 0xcd,
     0x40, 0xbd, 0xbb, 0x5b, 0x62, 0x20, 0xdc, 0x30, 0x97, 0xeb, 0xd4, 0x1d, 0x84, 0xba, 0xff,
     0x18, 0xb0]"

definition dg_second :: bytes where
  "dg_second =
    [0x69, 0xe2, 0xce, 0x38, 0xa7, 0x67, 0x77, 0x04, 0x60, 0x2d, 0x4c, 0x06, 0x30, 0xaa, 0x1c,
     0xe2, 0x45, 0xe3, 0xb9, 0x87, 0xea, 0xaa, 0xd4, 0x25, 0xdc, 0x1b, 0x5f, 0x1d, 0xf6, 0xf0,
     0x95, 0x1b]"

definition the_record :: "byte \<Rightarrow> sweep_record" where
  "the_record ch = \<lparr>rc_record_epoch = 7, rc_sequence = 1, rc_previous_record_sha256 = ZERO_DIGEST,
     rc_record_challenge_sha256 = filled ch, rc_commit_grant = the_commit_grant, rc_commit_receipt = sweep_result,
     rc_store_receipt = swept_receipt\<rparr>"

definition first_bytes :: bytes where
  "first_bytes = record_bytes (body_of (the_record 0xA1))"

definition second_bytes :: bytes where
  "second_bytes = record_bytes (body_of (the_record 0xA2))"

definition the_anchor :: recovery_anchor where
  "the_anchor = \<lparr>ra_record_epoch = 7, ra_next_sequence = 1, ra_previous_record_sha256 = ZERO_DIGEST\<rparr>"

lemma the_anchor_made: "origin_recovery_anchor 7 = Inr the_anchor"
  by (simp add: origin_recovery_anchor_def the_anchor_def validate_recovery_anchor_def chain_digest_def
      record_u64_def guardE_def)

lemma the_anchor_valid: "validate_recovery_anchor the_anchor = Inr ()"
  by (simp add: the_anchor_def validate_recovery_anchor_def chain_digest_def record_u64_def guardE_def)

lemma the_record_parts [simp]:
  "rc_record_epoch (the_record ch) = 7" "rc_sequence (the_record ch) = 1"
  "rc_previous_record_sha256 (the_record ch) = ZERO_DIGEST" "rc_record_challenge_sha256 (the_record ch) = filled ch"
  "rc_commit_grant (the_record ch) = the_commit_grant" "rc_commit_receipt (the_record ch) = sweep_result"
  "rc_store_receipt (the_record ch) = swept_receipt"
  by (simp_all add: the_record_def)

lemma the_record_valid: "ch \<in> {0xA1, 0xA2} \<Longrightarrow> validate_sweep_input (the_record ch) = Inr ()"
  by (auto simp: validate_sweep_input_def chain_digest_def nonzero_digest_def record_u64_def guardE_def
      sweep_result_verifies)

lemma the_record_encodes: "ch \<in> {0xA1, 0xA2} \<Longrightarrow>
    sweep_record_encode (the_record ch) = Inr (record_bytes (body_of (the_record ch)))"
  by (simp add: encode_layout the_record_valid) (simp add: sweep_result_def)

definition body_prefix :: "byte \<Rightarrow> bytes" where
  "body_prefix ch = record_prefix (body_of (the_record ch))"

lemma body_prefix_eval: "body_prefix ch = concat
    [SWEEP_BODY_MAGIC, u64_bytes SWEEP_ABI, u64_bytes 784, le_bytes 4 0, le_bytes 4 0, u64_bytes 7, u64_bytes 1,
     ZERO_DIGEST, filled ch, u64_bytes 11, filled 0x6D, dg_bundle, dg_grant, dg_wgrant, dg_prepare, dg_before2, dg_plan,
     u64_bytes 2, u64_bytes 128, filled 0xD7, dg_targets, dg_after2, u64_bytes 1, u64_bytes 0, u64_bytes 0,
     u64_bytes 1, u64_bytes 25, u64_bytes 128, u64_bytes 0, u64_bytes 0, u64_bytes 0, u64_bytes 0, u64_bytes 0,
     u64_bytes 0, u64_bytes 0, u64_bytes 0, u64_bytes 0, u64_bytes 0, u64_bytes 0, u64_bytes 0, u64_bytes 1,
     u64_bytes 25, u64_bytes 128, u64_bytes 0, u64_bytes 1, dg_scommit, dg_sweep]"
  by (simp add: body_prefix_def record_prefix_def body_bytes_def body_of_def Let_def the_commit_grant_def grant_bytes_def
      grant_digests_def accounting_bytes_def accounting_fields_def sweep_result_def receipt_of_def swept_receipt_def
      one_commit_receipt_def one_journal_def one_prepared_def prepare_receipt.defs retired_store_def new_books_def
      freed_fields_def)

lemma record_hashes: "record_hash (body_prefix 0xA1) = dg_first" "record_hash (body_prefix 0xA2) = dg_second"
  by (simp_all add: record_hash_def body_prefix_eval sweep_transcripts SWEEP_BODY_MAGIC_def dg_first_def dg_second_def)

lemma the_record_decodes:
  assumes "ch \<in> {0xA1, 0xA2}"
  shows "sweep_record_decode (record_bytes (body_of (the_record ch))) = Inr (the_record ch, record_hash (body_prefix ch))"
proof -
  let ?b = "record_bytes (body_of (the_record ch))"
  have "sweep_record_decode ?b = Inr (the_record ch, record_hash (take 704 ?b))"
    using record_exact [of ?b "the_record ch" "record_hash (take 704 ?b)"] the_record_encodes [OF assms] by simp
  moreover have "take 704 ?b = body_prefix ch"
  proof -
    obtain g where "body_fits (body_of (the_record ch))" by (rule valid_record [OF the_record_valid [OF assms]])
    then show ?thesis by (simp add: record_bytes_def length_record_prefix body_prefix_def)
  qed
  ultimately show ?thesis by simp
qed

lemma records_continue: "continues_chain the_anchor [] first_bytes" "root_of first_bytes = dg_first"
  "continues_chain the_anchor [] second_bytes" "root_of second_bytes = dg_second"
  using the_record_decodes [where ch = "0xA1"] the_record_decodes [where ch = "0xA2"] record_hashes
  by (simp_all add: continues_def root_of_def recovery_record_matches_def first_bytes_def second_bytes_def the_anchor_def)

lemma roots_differ: "root_of first_bytes \<noteq> root_of second_bytes"
  by (simp add: records_continue) (simp add: dg_first_def dg_second_def)

section \<open>A run\<close>

lemma first_appended:
  obtains s w t where "reaches the_anchor s w [first_bytes]" "crash_persist 784 s = (Inr (), t)" "leasable t"
    "ds_next_generation t < U64_MAX"
proof -
  obtain s0 where s0: "new_storage (concat []) 2352 41 = Inr s0" "leasable s0" "ds_next_generation s0 = 1" "ds_length s0 = 0"
    "ds_synced_length s0 = 0" "length (ds_backing s0) = 2352"
    by (simp add: new_storage_def guardE_def leasable_def)
  have bytes: "storage_bytes s0 = concat []" using s0(4) by (simp add: storage_bytes_def)
  have chain: "chain_of the_anchor []" by simp
  obtain x w s where s: "append_record first_bytes (writer_on the_anchor s0 [], minted_on s0) = (Inr x, (w, s))"
    "ds_length s = 784" "ds_synced_length s = 784" "ds_next_generation s = 2" "length (ds_backing s) = 2352"
    "ds_storage_epoch s = ds_storage_epoch s0"
    using append_whole [OF s0(2) _ s0(4) _ the_anchor_valid records_continue(1)] s0(3,6) by auto
  have "reaches the_anchor s0 None []" by (rule started [OF chain s0(1)])
  then have "reaches the_anchor (on_lease s0) None []" by (rule acquired [OF _ acquire_ok [OF s0(2)]])
  then have m: "reaches the_anchor (minted_on s0) None []" by (rule minted [OF _ mint_ok [OF s0(2)]])
  have "ds_synced_length (minted_on s0) \<le> ds_length (minted_on s0)" using s0(4,5) by (simp add: minted_on_def)
  moreover have "open_clean (storage_bytes (minted_on s0)) the_anchor
      \<lparr>ak_generation = ds_next_generation s0, ak_snapshot = snapshot_of s0\<rparr> (minted_on s0) = Inr (writer_on the_anchor s0 [])"
    using open_on [OF s0(2) the_anchor_valid chain bytes] by simp
  ultimately have "reaches the_anchor (minted_on s0) (Some (writer_on the_anchor s0 [])) []"
    by (rule opened [OF m])
  from written [OF this s(1)] have r: "reaches the_anchor s (Some w) [first_bytes]" by simp
  obtain t where t: "crash_persist 784 s = (Inr (), t)" "ds_active_generation t = 0"
    "ds_next_generation t = ds_next_generation s" "ds_storage_epoch t = ds_storage_epoch s"
    using s(2,3) by (simp add: crash_persist_def crash_bounds_def guardE_def Let_def clear_append_authorization_def
        clear_repair_authorization_def)
  have "leasable t" using crash_parts [OF t(1)] t s s0(2) by (simp add: leasable_def)
  then show thesis using that [OF r t(1)] t(3) s(4) by simp
qed

end
