(* ===== verification/Sweep_Properties.thy ===== *)
theory Sweep_Properties
  imports Sweep_Record_Scenario
begin

text \<open>
  The properties of the collection, the sweep, its records and their writer.
\<close>

section \<open>The collection\<close>

text \<open>
  C31. A plan that \<open>plan_collection\<close> returns for a reachable store decides every stored object, in the order
  of the slots. The roots given to it name each object as often as the store counts references to it, an
  object is on_lease exactly when one of the lease receipts given is its current one, and what the plan calls
  collectible is what the books call retired.
\<close>

theorem collection_plan_exact:
  assumes "store_reach sg s" "plan_collection s g refs leases = Inr (r, ds)"
  shows "ds = map (\<lambda>(i, sl). decision_of i sl) (occupied (st_slots s))
     \<and> int (length refs) = ac_reference_count (st_books s)
     \<and> (\<forall>i sl. i < length (st_slots s) \<and> st_slots s ! i = Some sl \<longrightarrow>
          int (count_list refs (stored_ref sl)) = sl_reference_count sl
          \<and> (sl_lease_active sl \<longleftrightarrow> (\<exists>c \<in> set leases. lr_target c = stored_ref sl
               \<and> lr_generation c = sl_lease_generation sl \<and> lr_lease_sha256 c = sl_lease_receipt_sha256 sl)))
     \<and> kc_collectible_entries (kr_counters r) = ac_retired_entries (st_books s)
     \<and> kc_quarantined_entries (kr_counters r) = ac_quarantined_entries (st_books s)
     \<and> kc_leased_entries (kr_counters r) = ac_active_leases (st_books s)
     \<and> kc_reachable_entries (kr_counters r) + kc_leased_entries (kr_counters r) = ac_live_entries (st_books s)
     \<and> audit_snapshot_root_v2 s = Inr (kr_snapshot_sha256 r)"
proof -
  have ok: "store_ok s" using reach_ok [OF assms(1)] by simp
  from assms(2) obtain roots marks where p: "audit_snapshot_root_v2 s = Inr (kg_expected_snapshot_sha256 g)"
    "foldE (count_root s) (replicate (nat (st_capacity s)) 0) refs = Inr roots"
    "foldE (mark_lease s) (replicate (nat (st_capacity s)) False) leases = Inr marks"
    "\<forall>(i, sl) \<in> set (occupied (st_slots s)). check_reach sl (roots ! i) (marks ! i) = Inr ()"
    "ds = map (\<lambda>(i, sl). decision_of i sl) (occupied (st_slots s))" "kr_counters r = counters_of (st_slots s)"
    "kr_snapshot_sha256 r = kg_expected_snapshot_sha256 g"
    by (rule plan_Inr) (rule that)
  have slots: "\<forall>i sl. i < length (st_slots s) \<and> st_slots s ! i = Some sl \<longrightarrow>
          int (count_list refs (stored_ref sl)) = sl_reference_count sl
          \<and> (sl_lease_active sl \<longleftrightarrow> (\<exists>c \<in> set leases. lr_target c = stored_ref sl
               \<and> lr_generation c = sl_lease_generation sl \<and> lr_lease_sha256 c = sl_lease_receipt_sha256 sl))"
    using plan_references(2) [OF ok p(2,4)] plan_leases [OF ok p(3,4)] by blast
  show ?thesis using p(1,5-7) plan_references(1) [OF ok p(2,4)] counters_books [OF ok] slots
    by (simp add: Let_def)
qed

theorem collection_plan_exact_witness:
  "plan_collection retired_store the_collection_grant [] [] = Inr (one_plan, [decision_of 0 retired_slot])
     \<and> ac_retired_entries (st_books retired_store) = 1 \<and> sl_reference_count retired_slot = 0"
proof -
  note c = collection_plan_exact [OF retired_reach one_planned]
  have "kc_collectible_entries (kr_counters one_plan) = 1" by (simp add: one_plan_def one_counters_def no_counts_def)
  then have "ac_retired_entries (st_books retired_store) = 1" using c by simp
  moreover have "0 < length (st_slots retired_store) \<and> st_slots retired_store ! 0 = Some retired_slot"
    by (simp add: retired_slots)
  with c have "int (count_list [] (stored_ref retired_slot)) = sl_reference_count retired_slot" by blast
  ultimately show ?thesis using one_planned by simp
qed

section \<open>The sweep\<close>

text \<open>
  C32. A \<open>sweep_commit\<close> that returns frees every retired object of the store and nothing else, and leaves a
  sound store: the audit of its state passes, its books are those of the receipt, and the two
  receipts verify. It needs the snapshot the journal was prepared for: under that journal, every store with
  another snapshot refuses a commit, with whatever grants, and the store it leaves has another one, so that
  the commit cannot be repeated there. A commit that raises leaves the store as it was.
\<close>

theorem sweep_frees_retired:
  assumes "store_reach sg s" "sweep_commit g x kg refs leases j s = (m, t)"
  shows "(case m of Inl _ \<Rightarrow> t = s
     | Inr (r, c) \<Rightarrow>
         (\<forall>i < length (st_slots s). st_slots t ! i = (case st_slots s ! i of None \<Rightarrow> None
            | Some sl \<Rightarrow> if sl_state sl = Retired then None else Some sl))
         \<and> verify_state True t = Inr () \<and> st_books t = cr_accounting_after c
         \<and> cr_freed_entries c = ac_retired_entries (st_books s)
         \<and> verify_commit_receipt x r c = Inr ()
         \<and> audit_snapshot_root_v2 s = Inr (sp_snapshot_sha256 j)
         \<and> snapshot_root_v2_unchecked t \<noteq> Inr (sp_snapshot_sha256 j)
         \<and> (\<forall>u g' x' kg' refs' leases'. snapshot_root_v2_unchecked u \<noteq> Inr (sp_snapshot_sha256 j)
              \<longrightarrow> (\<exists>e. sweep_commit g' x' kg' refs' leases' j u = (Inl e, u))))"
proof (cases m)
  case (Inl e)
  then show ?thesis using assms(2) sweep_commit_keeps_on_error by (auto split: sum.splits)
next
  case (Inr rc)
  then obtain r c where m: "m = Inr (r, c)" by (cases rc) auto
  have ok: "store_ok s" using reach_ok [OF assms(1)] by simp
  note commit = assms(2) [unfolded m]
  show ?thesis using sweep_clears [OF ok commit] sweep_commit_well [OF ok commit] sweep_needs_snapshot [OF commit]
      sweep_changes_snapshot [OF ok commit] sweep_refused
    by (simp add: m)
qed

theorem sweep_frees_retired_witness:
  "\<exists>t. sweep_commit the_sweep_grant the_commit_grant the_collection_grant [] [] one_journal retired_store
      = (Inr (sweep_result, swept_receipt), t)
     \<and> st_slots t ! 0 = None \<and> verify_state True t = Inr ()
     \<and> (\<exists>e. sweep_commit the_sweep_grant the_commit_grant the_collection_grant [] [] one_journal t = (Inl e, t))"
proof -
  note c = sweep_frees_retired [OF retired_reach one_sweep]
  have "0 < length (st_slots retired_store)" by (simp add: retired_slots)
  with c have "st_slots (committed retired_store [one_target]) ! 0 = None"
    by (simp add: retired_slots) (simp add: retired_slot_def)
  then show ?thesis using c one_sweep by simp
qed

text \<open>
  The journal of a sweep: preparing needs an empty one and gives one that verifies, with what the plan
  calls collectible; aborting a prepared one gives one that verifies as aborted (unless its root is zero), and
  an aborted one is never prepared, committed or aborted again.
\<close>

theorem sweep_journal_states:
  assumes "sweep_prepare s g kg refs leases current = Inr (j, p, plan)" "sweep_abort s' g j = Inr (j', q)"
  shows "current = empty_journal \<and> verify_journal g j = Inr () \<and> sp_state j = ''prepared''
     \<and> sp_staged_entries j = kc_collectible_entries (kr_counters plan)
     \<and> sp_staged_bytes j = kc_collectible_bytes (kr_counters plan)
     \<and> sp_state j' = ''aborted'' \<and> (sp_abort_sha256 j' = ZERO_DIGEST \<or> verify_journal g j' = Inr ())
     \<and> (\<forall>g' x kg' refs' leases' t. \<exists>e. sweep_commit g' x kg' refs' leases' j' t = (Inl e, t))
     \<and> (\<forall>t g'. \<exists>e. sweep_abort t g' j' = Inl e)
     \<and> (\<forall>t g' kg' refs' leases'. \<exists>e. sweep_prepare t g' kg' refs' leases' j' = Inl e)"
proof -
  have "sp_state j' = ''aborted''" using assms(2) unfolding sweep_abort_def Let_def
    by (auto simp: bindE_Inr guardE_Inr of_store_Inr)
  then show ?thesis using prepared_verifies [OF assms(1)] aborted_verifies [OF assms(2)] aborted_is_final [of j'] by blast
qed

theorem sweep_journal_states_witness:
  "verify_journal the_sweep_grant one_journal = Inr ()
     \<and> (\<exists>e. sweep_abort retired_store the_sweep_grant (one_journal\<lparr>sp_state := ''aborted'', sp_abort_sha256 := dg_abort\<rparr>)
          = Inl e)"
  using sweep_journal_states [OF one_prepares one_aborts] by blast

section \<open>The record\<close>

text \<open>
  C33. The decoder of sweep records accepts exactly what the encoder writes, and reports the root of the body:
  together with a nonzero sweep root, a byte string decodes to a record exactly when that record encodes to it.
\<close>

theorem sweep_record_exact:
  "sweep_record_decode bs = Inr (r, root) \<and> sr_commit_sha256 (rc_commit_receipt r) \<noteq> ZERO_DIGEST \<longleftrightarrow>
     sweep_record_encode r = Inr bs \<and> sweep_record_root (take SWEEP_PREFIX_BYTES bs) = Inr root"
proof -
  have "sweep_record_root (take 704 bs) = Inr root \<longleftrightarrow> length bs \<ge> 704 \<and> root = record_hash (take 704 bs)"
    by (auto simp: sweep_record_root_def record_hash_def min_def)
  moreover have "length bs \<ge> 704" if "sweep_record_encode r = Inr bs"
    using that record_exact [of bs r "record_hash (take 704 bs)"] decoded_parts(1) by force
  ultimately show ?thesis using record_exact [of bs r root] by blast
qed

text \<open>
  C34. Recovery of a stream. A chain of records followed by any proper part of the record that comes next is
  classified as what it is, with the chain as its committed part; and whatever the stream, the bytes that are
  classified as committed are a chain of decodable records from the anchor on.
\<close>

theorem recovery_finds_the_chain:
  assumes "validate_recovery_anchor a = Inr ()" "chain_of a (bs @ [b])" "k < 784"
  shows "(\<exists>c. classify_recovery (concat bs @ take k b) a = Inr c \<and> cl_status c = torn_status k
       \<and> cl_committed_records c = int (length bs) \<and> cl_committed_bytes c = length (concat bs) \<and> cl_tail_bytes c = k
       \<and> cl_final_record_sha256 c = chain_root (ra_previous_record_sha256 a) bs)
     \<and> (\<forall>stream. \<exists>c cs. classify_recovery stream a = Inr c \<and> chain_of a cs
       \<and> take (cl_committed_bytes c) stream = concat cs \<and> cl_committed_records c = int (length cs)
       \<and> cl_committed_bytes c + cl_tail_bytes c = length stream)"
proof (intro conjI allI)
  have chain: "chain_of a bs" "continues_chain a bs b" using assms(2) by (simp_all add: chain_snoc)
  have "length b = 784" using chain(2) by (rule continues_decode)
  then show "\<exists>c. classify_recovery (concat bs @ take k b) a = Inr c \<and> cl_status c = torn_status k
       \<and> cl_committed_records c = int (length bs) \<and> cl_committed_bytes c = length (concat bs) \<and> cl_tail_bytes c = k
       \<and> cl_final_record_sha256 c = chain_root (ra_previous_record_sha256 a) bs"
    using classify_torn [OF assms] length_chain [OF chain(1)] assms(3) by simp
  fix stream
  obtain c where c: "classify_recovery stream a = Inr c"
    using assms(1) by (cases "scan_records a stream (scan_start a)") (auto simp: classify_recovery_def)
  obtain cs st where "front_chain a stream cs" "c = classified st a stream cs"
    by (rule classify_sound [OF c]) (rule that)
  then show "\<exists>c cs. classify_recovery stream a = Inr c \<and> chain_of a cs
       \<and> take (cl_committed_bytes c) stream = concat cs \<and> cl_committed_records c = int (length cs)
       \<and> cl_committed_bytes c + cl_tail_bytes c = length stream"
    using c by (intro exI [of _ c] exI [of _ cs]) (simp add: front_chain_def)
qed

theorem recovery_finds_the_chain_witness:
  "\<exists>c. classify_recovery (take 740 first_bytes) the_anchor = Inr c \<and> cl_status c = Partial_Footer_Tail
     \<and> cl_committed_bytes c = 0 \<and> cl_tail_bytes c = 740"
proof -
  have "chain_of the_anchor ([] @ [first_bytes])" using records_continue(1) by simp
  from recovery_finds_the_chain [OF the_anchor_valid this, of 740] show ?thesis by (auto simp: torn_status_def)
qed

section \<open>The writer\<close>

text \<open>
  C2. Crash safety. However leases, faults, one writer, repairs and crashes follow one another, so long as a
  writer is opened only while no truncate is left unsynced: what any admissible crash leaves is never
  classified as corrupt, and every record whose append returned is among the committed ones, in order.
\<close>

theorem sweep_crash_recovers:
  assumes "reaches a s w acked" "validate_recovery_anchor a = Inr ()" "crash_persist p s = (Inr (), t)"
  shows "\<exists>bs c. classify_recovery (storage_bytes t) a = Inr c \<and> cl_status c \<noteq> Corrupt_Record
     \<and> cl_committed_records c = int (length bs) \<and> take (cl_committed_bytes c) (storage_bytes t) = concat bs
     \<and> chain_of a bs \<and> subseq acked bs"
  using crash_recovers [OF assms] by (simp only: recovers_def)

theorem sweep_crash_recovers_witness:
  "\<exists>s w t bs c. reaches the_anchor s w [first_bytes] \<and> crash_persist 784 s = (Inr (), t)
     \<and> classify_recovery (storage_bytes t) the_anchor = Inr c \<and> cl_status c \<noteq> Corrupt_Record
     \<and> take (cl_committed_bytes c) (storage_bytes t) = concat bs \<and> subseq [first_bytes] bs"
proof -
  obtain s w t where r: "reaches the_anchor s w [first_bytes]" "crash_persist 784 s = (Inr (), t)"
    by (rule first_appended)
  from sweep_crash_recovers [OF r(1) the_anchor_valid r(2)] r show ?thesis by blast
qed

text \<open>
  C35. A store that has crashed can be opened again: with a lease to be had and no further fault, the documented
  procedure (acquire, classify, repair if the tail is incomplete, release and acquire, open) returns a ready
  writer that stands behind all the records whose append returned.
\<close>

theorem sweep_store_reopens:
  assumes "reaches a s w acked" "validate_recovery_anchor a = Inr ()" "crash_persist p s = (Inr (), t)"
    and "leasable t" "ds_next_generation t < U64_MAX"
  shows "\<exists>v u bs. reopen a t = (Inr v, u) \<and> wr_state v = Writer_Ready \<and> storage_bytes u = concat bs
     \<and> chain_of a bs \<and> subseq acked bs \<and> wr_committed_bytes v = length (concat bs)
     \<and> wr_previous_record_sha256 v = chain_root (ra_previous_record_sha256 a) bs"
proof -
  from crash_recovers [OF assms(1-3)] obtain bs c where c: "classify_recovery (storage_bytes t) a = Inr c"
    "cl_status c \<noteq> Corrupt_Record" "chain_of a bs" "take (cl_committed_bytes c) (storage_bytes t) = concat bs"
    "subseq acked bs"
    by (auto simp: recovers_def)
  have "in_order t" using crash_parts [OF assms(3)] assms(4) by (simp add: in_order_def leasable_def)
  from reopens [OF assms(4,5) this assms(2) c(1-4)] obtain v u where "reopen a t = (Inr v, u)" "writer_at a v u bs"
    "wr_state v = Writer_Ready" by blast
  then show ?thesis using c(3,5) length_chain [OF c(3)] by (intro exI [of _ v] exI [of _ u] exI [of _ bs])
    (simp add: writer_at_def)
qed

theorem sweep_store_reopens_witness:
  "\<exists>s w t v u bs. reaches the_anchor s w [first_bytes] \<and> crash_persist 784 s = (Inr (), t)
     \<and> reopen the_anchor t = (Inr v, u) \<and> storage_bytes u = concat bs \<and> subseq [first_bytes] bs"
proof -
  obtain s w t where r: "reaches the_anchor s w [first_bytes]" "crash_persist 784 s = (Inr (), t)"
    "leasable t" "ds_next_generation t < U64_MAX"
    by (rule first_appended)
  from sweep_store_reopens [OF r(1) the_anchor_valid r(2-4)] r show ?thesis by blast
qed

text \<open>
  C36. The condition on opening a writer is needed. When the truncate of a repair is interrupted and a writer is
  opened on the shortened stream, which is classified as clean, a fault while it writes its first record and
  a crash at an admissible length leave a stream that is classified as corrupt: the front of the new record
  and the end of the one cut off. Each of the three sessions ends in the fault injected into it.
\<close>

theorem unsettled_open_corrupts:
  assumes "validate_recovery_anchor a = Inr ()" "continues_chain a [] b" "continues_chain a [] c"
    and "root_of b \<noteq> root_of c"
  shows "\<exists>s t k. new_storage [] 2352 41 = Inr s \<and> run_all (unsettled_run a b c) s = (Inr (), t)
     \<and> classify_recovery (storage_bytes t) a = Inr k \<and> cl_status k = Corrupt_Record"
proof -
  obtain s t where "new_storage [] 2352 41 = Inr s" "run_all (unsettled_run a b c) s = (Inr (), t)"
    "classify_recovery (storage_bytes t) a = Inr (classified Corrupt_Record a (storage_bytes t) [])"
    by (rule unsettled_corrupts [OF assms])
  then show ?thesis by auto
qed

theorem unsettled_open_corrupts_witness:
  "\<exists>s t k. new_storage [] 2352 41 = Inr s
     \<and> run_all (unsettled_run the_anchor first_bytes second_bytes) s = (Inr (), t)
     \<and> classify_recovery (storage_bytes t) the_anchor = Inr k \<and> cl_status k = Corrupt_Record"
  by (rule unsettled_open_corrupts [OF the_anchor_valid records_continue(1,3) roots_differ])

end
