(* ===== verification/Payload_Store.thy ===== *)
theory Payload_Store
  imports Store_Core
begin

text \<open>
  \<open>bench/continuation_object_payload_store.py\<close>: canonical snapshots of the payloads of a store, and the
  preview of a reclaim that takes some of them out.
\<close>

datatype (plugins only: code) payload_error =
    PyU64 | PyDigest | PyEntry | PyIdentity | PyZeroTenant | PyCapacity | PyOrder | PySnapshot | PyMagic | PySchema
  | PyTenant | PyTruncatedEntry | PyTruncatedPayload | PyAccounting | PyFooter | PyTargets | PyDuplicateTarget
  | PyMissingTarget | PyPreview

section \<open>Constants and checks\<close>

definition PAYLOAD_MAGIC :: bytes where "PAYLOAD_MAGIC = ascii ''GLPAY01'' @ [0]"
abbreviation (input) PAYLOAD_SCHEMA :: int where "PAYLOAD_SCHEMA \<equiv> 1"
abbreviation (input) PAYLOAD_HEADER_BYTES :: nat where "PAYLOAD_HEADER_BYTES \<equiv> 64"
abbreviation (input) PAYLOAD_ENTRY_BYTES :: nat where "PAYLOAD_ENTRY_BYTES \<equiv> 40"
abbreviation (input) PAYLOAD_FOOTER_BYTES :: nat where "PAYLOAD_FOOTER_BYTES \<equiv> 32"
abbreviation (input) MINIMUM_ENCODED_BYTES :: nat where "MINIMUM_ENCODED_BYTES \<equiv> 96"
abbreviation (input) DEFAULT_CAPACITY :: nat where "DEFAULT_CAPACITY \<equiv> 16"

definition payload_u64 :: "int \<Rightarrow> payload_error + bytes" where
  "payload_u64 v = (if 0 \<le> v \<and> v \<le> U64_MAX then Inr (u64_bytes v) else Inl PyU64)"

definition payload_digest :: "bytes \<Rightarrow> payload_error + bytes" where
  "payload_digest v = (if length v \<noteq> 32 then Inl PyDigest else Inr v)"

definition payload_domain :: "string \<Rightarrow> bytes" where
  "payload_domain part = store_domain (''glacier-continuation-object-payload-store-'' @ part)"

lemma payload_u64_Inr [result_simps]: "payload_u64 v = Inr b \<longleftrightarrow> is_u64 v \<and> b = u64_bytes v"
  by (auto simp: payload_u64_def is_u64_def)

lemma payload_digest_Inr [result_simps]: "payload_digest v = Inr d \<longleftrightarrow> length v = 32 \<and> d = v"
  by (auto simp: payload_digest_def)

section \<open>Entries\<close>

record payload_entry =
  pe_reference :: blob_reference
  pe_payload :: bytes

definition reference_key :: "blob_reference \<Rightarrow> payload_error + bytes \<times> int" where
  "reference_key r = bindE (payload_digest (br_sha256 r)) (\<lambda>sha. Inr (sha, br_byte_length r))"

definition sort_payload_entries :: "payload_entry list \<Rightarrow> payload_error + payload_entry list" where
  "sort_payload_entries es = bindE (mapE (\<lambda>e. reference_key (pe_reference e)) es) (\<lambda>_.
     Inr (sort_key (\<lambda>e. (br_sha256 (pe_reference e), br_byte_length (pe_reference e))) es))"

definition validate_payload_entry :: "bytes \<Rightarrow> payload_entry \<Rightarrow> payload_error + unit" where
  "validate_payload_entry tenant e =
    (let r = pe_reference e in
     bindE (payload_u64 (br_byte_length r)) (\<lambda>_.
     bindE (payload_digest (br_sha256 r)) (\<lambda>_.
     bindE (guardE PyEntry (br_byte_length r = 0 \<or> int (length (pe_payload e)) \<noteq> br_byte_length r)) (\<lambda>_.
       case blob_ref tenant (pe_payload e) of
         Inl _ \<Rightarrow> Inl PyEntry
       | Inr actual \<Rightarrow> guardE PyIdentity (actual \<noteq> r)))))"

text \<open>The turn of both loops for one entry: it is valid, it follows the one before it, and it is counted.\<close>

definition count_payload ::
  "bytes \<Rightarrow> (bytes \<times> int) option \<times> int \<Rightarrow> payload_entry \<Rightarrow> payload_error + (bytes \<times> int) option \<times> int" where
  "count_payload tenant = (\<lambda>(previous, amount) e.
     bindE (validate_payload_entry tenant e) (\<lambda>_.
     bindE (reference_key (pe_reference e)) (\<lambda>key.
     bindE (guardE PyOrder (case previous of None \<Rightarrow> False | Some p \<Rightarrow> key \<le> p)) (\<lambda>_.
     bindE (payload_u64 (amount + br_byte_length (pe_reference e))) (\<lambda>_.
       Inr (Some key, amount + br_byte_length (pe_reference e)))))))"

section \<open>The encoder\<close>

definition payload_entry_chunks :: "payload_entry \<Rightarrow> (payload_error + bytes) list" where
  "payload_entry_chunks e =
     [payload_u64 (br_byte_length (pe_reference e)), Inr (br_sha256 (pe_reference e)), Inr (pe_payload e)]"

definition encode_snapshot :: "bytes \<Rightarrow> payload_entry list \<Rightarrow> payload_error + bytes" where
  "encode_snapshot tenant es =
     bindE (payload_digest tenant) (\<lambda>_.
     bindE (guardE PyZeroTenant (tenant = ZERO_DIGEST)) (\<lambda>_.
     bindE (guardE PyCapacity (length es > DEFAULT_CAPACITY)) (\<lambda>_.
     bindE (foldE (count_payload tenant) (None, 0) es) (\<lambda>(_, payload_bytes).
     bindE (mapE (\<lambda>p. p) ([Inr PAYLOAD_MAGIC, payload_u64 PAYLOAD_SCHEMA, Inr tenant, payload_u64 (int (length es)),
         payload_u64 payload_bytes] @ concat (map payload_entry_chunks es))) (\<lambda>parts.
       let body = concat parts in
       Inr (body @ sha_parts (payload_domain ''body-v1'') [body]))))))"

section \<open>The decoder\<close>

record payload_snapshot =
  ps_tenant_scope_sha256 :: bytes
  ps_entry_count :: int
  ps_payload_bytes :: int
  ps_encoded_bytes :: int
  ps_body_sha256 :: bytes
  ps_encoded_sha256 :: bytes
  ps_snapshot_sha256 :: bytes
  ps_entries :: "payload_entry list"

definition rd_payload_entry :: "bytes \<Rightarrow> payload_error + payload_entry \<times> bytes" where
  "rd_payload_entry r =
     bindE (guardE PyTruncatedEntry (length r < PAYLOAD_ENTRY_BYTES)) (\<lambda>_.
     bindE (rd_u64 PyTruncatedEntry r) (\<lambda>(n, r).
     bindE (rd_digest PyTruncatedEntry r) (\<lambda>(sha, r).
     bindE (guardE PyTruncatedPayload (int (length r) < n)) (\<lambda>_.
       Inr (\<lparr>pe_reference = \<lparr>br_byte_length = n, br_sha256 = sha\<rparr>, pe_payload = take (nat n) r\<rparr>,
         drop (nat n) r)))))"

primrec decode_entries :: "bytes \<Rightarrow> nat \<Rightarrow> payload_entry list \<times> (bytes \<times> int) option \<times> int \<Rightarrow> bytes
    \<Rightarrow> payload_error + (payload_entry list \<times> (bytes \<times> int) option \<times> int) \<times> bytes" where
  "decode_entries tenant 0 z r = Inr (z, r)"
| "decode_entries tenant (Suc n) z r =
     bindE (rd_payload_entry r) (\<lambda>(e, r).
     bindE (count_payload tenant (snd z) e) (\<lambda>counted.
       decode_entries tenant n (fst z @ [e], counted) r))"

definition snapshot_value :: "bytes \<Rightarrow> bytes \<Rightarrow> int \<Rightarrow> bytes \<Rightarrow> payload_entry list \<Rightarrow> payload_error + payload_snapshot" where
  "snapshot_value encoded tenant payload_bytes body_sha256 es =
     bindE (payload_u64 (int (length es))) (\<lambda>count.
     bindE (payload_u64 payload_bytes) (\<lambda>amount.
     bindE (payload_u64 (int (length encoded))) (\<lambda>len.
       Inr \<lparr>ps_tenant_scope_sha256 = tenant, ps_entry_count = int (length es), ps_payload_bytes = payload_bytes,
         ps_encoded_bytes = int (length encoded), ps_body_sha256 = body_sha256, ps_encoded_sha256 = sha256 encoded,
         ps_snapshot_sha256 = sha_parts (payload_domain ''snapshot-v1'') [tenant, count, amount, len, sha256 encoded],
         ps_entries = es\<rparr>)))"

definition decode_snapshot :: "bytes \<Rightarrow> bytes \<Rightarrow> payload_error + payload_snapshot" where
  "decode_snapshot encoded expected =
     bindE (guardE PySnapshot (length encoded < MINIMUM_ENCODED_BYTES)) (\<lambda>_.
     bindE (payload_digest expected) (\<lambda>_.
     bindE (guardE PyZeroTenant (expected = ZERO_DIGEST)) (\<lambda>_.
     bindE (guardE PyMagic (take 8 encoded \<noteq> PAYLOAD_MAGIC)) (\<lambda>_.
     bindE (guardE PySchema (le_int (slice 8 8 encoded) \<noteq> PAYLOAD_SCHEMA)) (\<lambda>_.
     let tenant = slice 16 32 encoded in
     bindE (guardE PyTenant (tenant \<noteq> expected)) (\<lambda>_.
     let entry_count = le_int (slice 48 8 encoded); payload_bytes = le_int (slice 56 8 encoded) in
     bindE (guardE PyCapacity (entry_count > int DEFAULT_CAPACITY)) (\<lambda>_.
     bindE (decode_entries tenant (nat entry_count) ([], None, 0) (drop PAYLOAD_HEADER_BYTES encoded))
       (\<lambda>((es, _, observed), r).
     bindE (guardE PyAccounting (observed \<noteq> payload_bytes \<or> length r \<noteq> PAYLOAD_FOOTER_BYTES)) (\<lambda>_.
     let body_sha256 = sha_parts (payload_domain ''body-v1'') [take (length encoded - length r) encoded] in
     bindE (guardE PyFooter (r \<noteq> body_sha256)) (\<lambda>_.
       snapshot_value encoded tenant payload_bytes body_sha256 es))))))))))"

section \<open>The reclaim\<close>

record reclaim_preview =
  rv_before :: payload_snapshot
  rv_after :: payload_snapshot
  rv_targets_sha256 :: bytes
  rv_freed_entries :: int
  rv_freed_payload_bytes :: int
  rv_candidate :: bytes
  rv_preview_sha256 :: bytes

definition preview_root :: "reclaim_preview \<Rightarrow> payload_error + bytes" where
  "preview_root p =
     bindE (payload_u64 (rv_freed_entries p)) (\<lambda>entries.
     bindE (payload_u64 (rv_freed_payload_bytes p)) (\<lambda>freed.
       Inr (sha_parts (payload_domain ''reclaim-preview-v1'')
         [ps_snapshot_sha256 (rv_before p), ps_snapshot_sha256 (rv_after p), rv_targets_sha256 p, entries, freed])))"

definition entry_key :: "payload_entry \<Rightarrow> bytes \<times> int" where
  "entry_key e = (br_sha256 (pe_reference e), br_byte_length (pe_reference e))"

definition preview_reclaim :: "bytes \<Rightarrow> bytes \<Rightarrow> blob_reference list \<Rightarrow> payload_error + reclaim_preview" where
  "preview_reclaim active tenant targets =
     bindE (case retired_targets_root targets of Inl _ \<Rightarrow> Inl PyTargets | Inr root \<Rightarrow> Inr root) (\<lambda>targets_sha256.
     bindE (decode_snapshot active tenant) (\<lambda>before.
     bindE (mapE reference_key targets) (\<lambda>keys.
     bindE (guardE PyDuplicateTarget (length (remdups keys) \<noteq> length targets)) (\<lambda>_.
     let taken = filter (\<lambda>e. entry_key e \<in> set keys) (ps_entries before);
         retained = filter (\<lambda>e. entry_key e \<notin> set keys) (ps_entries before);
         freed = sum_list (map (\<lambda>e. br_byte_length (pe_reference e)) taken) in
     bindE (guardE PyMissingTarget (set (map entry_key taken) \<noteq> set keys)) (\<lambda>_.
     bindE (encode_snapshot tenant retained) (\<lambda>candidate.
     bindE (decode_snapshot candidate tenant) (\<lambda>after.
       let p = \<lparr>rv_before = before, rv_after = after, rv_targets_sha256 = targets_sha256,
             rv_freed_entries = int (length targets), rv_freed_payload_bytes = freed, rv_candidate = candidate,
             rv_preview_sha256 = []\<rparr> in
       bindE (preview_root p) (\<lambda>root. Inr (p\<lparr>rv_preview_sha256 := root\<rparr>)))))))))"

definition reclaim_holds :: "reclaim_preview \<Rightarrow> bool" where
  "reclaim_holds p \<longleftrightarrow>
    (let b = rv_before p; a = rv_after p;
         removed = rv_freed_entries p * int PAYLOAD_ENTRY_BYTES + rv_freed_payload_bytes p in
     rv_freed_entries p > 0 \<and> ps_tenant_scope_sha256 b \<noteq> ZERO_DIGEST
     \<and> ps_tenant_scope_sha256 b = ps_tenant_scope_sha256 a \<and> ps_body_sha256 b \<noteq> ZERO_DIGEST
     \<and> ps_encoded_sha256 b \<noteq> ZERO_DIGEST \<and> ps_snapshot_sha256 b \<noteq> ZERO_DIGEST \<and> ps_body_sha256 a \<noteq> ZERO_DIGEST
     \<and> ps_encoded_sha256 a \<noteq> ZERO_DIGEST \<and> ps_snapshot_sha256 a \<noteq> ZERO_DIGEST \<and> rv_targets_sha256 p \<noteq> ZERO_DIGEST
     \<and> ps_entry_count b \<ge> rv_freed_entries p \<and> ps_payload_bytes b \<ge> rv_freed_payload_bytes p
     \<and> ps_encoded_bytes b \<ge> int MINIMUM_ENCODED_BYTES \<and> ps_encoded_bytes a \<ge> int MINIMUM_ENCODED_BYTES
     \<and> ps_encoded_bytes b > ps_encoded_bytes a \<and> ps_encoded_bytes b - ps_encoded_bytes a = removed
     \<and> ps_entry_count a = ps_entry_count b - rv_freed_entries p
     \<and> ps_payload_bytes a = ps_payload_bytes b - rv_freed_payload_bytes p
     \<and> preview_root p = Inr (rv_preview_sha256 p))"

definition verify_reclaim_preview :: "reclaim_preview \<Rightarrow> payload_error + unit" where
  "verify_reclaim_preview p = guardE PyPreview (\<not> reclaim_holds p)"

end
