(* ===== verification/Payload_Facts.thy ===== *)
theory Payload_Facts
  imports Payload_Store
begin

text \<open>
  The wire of payload snapshots, read and written, and what the preview of a reclaim leaves.
\<close>

section \<open>Entries on the wire\<close>

definition payload_fits :: "payload_entry \<Rightarrow> bool" where
  "payload_fits e \<longleftrightarrow> is_u64 (br_byte_length (pe_reference e)) \<and> length (br_sha256 (pe_reference e)) = 32
     \<and> int (length (pe_payload e)) = br_byte_length (pe_reference e)"

definition payload_entry_bytes :: "payload_entry \<Rightarrow> bytes" where
  "payload_entry_bytes e =
     u64_bytes (br_byte_length (pe_reference e)) @ br_sha256 (pe_reference e) @ pe_payload e"

definition payload_total :: "payload_entry list \<Rightarrow> int" where
  "payload_total es = sum_list (map (\<lambda>e. br_byte_length (pe_reference e)) es)"

lemma payload_total_simps [simp]:
  "payload_total [] = 0" "payload_total (e # es) = br_byte_length (pe_reference e) + payload_total es"
  by (simp_all add: payload_total_def)

lemma rd_payload_entry_field: "rd_payload_entry r = Inr (e, rest) \<longleftrightarrow> payload_fits e \<and> r = payload_entry_bytes e @ rest"
proof
  assume "rd_payload_entry r = Inr (e, rest)"
  then obtain n sha tl where p: "is_u64 n" "length sha = 32" "r = u64_bytes n @ sha @ tl" "n \<le> int (length tl)"
    "e = \<lparr>pe_reference = \<lparr>br_byte_length = n, br_sha256 = sha\<rparr>, pe_payload = take (nat n) tl\<rparr>" "rest = drop (nat n) tl"
    by (auto simp: rd_payload_entry_def bindE_Inr guardE_Inr rd_u64_Inr rd_digest_Inr)
  then have "int (length (take (nat n) tl)) = n" by (simp add: is_u64_def min_def) arith
  then show "payload_fits e \<and> r = payload_entry_bytes e @ rest"
    using p by (simp add: payload_fits_def payload_entry_bytes_def)
next
  assume e: "payload_fits e \<and> r = payload_entry_bytes e @ rest"
  obtain n sha where ref: "pe_reference e = \<lparr>br_byte_length = n, br_sha256 = sha\<rparr>" by (cases "pe_reference e") auto
  have p: "is_u64 n" "length sha = 32" "int (length (pe_payload e)) = n"
    "r = u64_bytes n @ sha @ pe_payload e @ rest"
    using e by (simp_all add: payload_fits_def payload_entry_bytes_def ref)
  have len: "length (u64_bytes n) = 8" by simp
  have "rd_payload_entry r = Inr (\<lparr>pe_reference = \<lparr>br_byte_length = n, br_sha256 = sha\<rparr>, pe_payload = pe_payload e\<rparr>, rest)"
    using p by (auto simp: rd_payload_entry_def guardE_def u64_field.read_written digest_field.read_written)
  then show "rd_payload_entry r = Inr (e, rest)" by (simp flip: ref)
qed

interpretation payload_field: wire_field rd_payload_entry payload_entry_bytes payload_fits
  by unfold_locales (rule rd_payload_entry_field)

section \<open>The loop over the entries\<close>

lemma count_payload_Inr:
  "count_payload tenant (previous, amount) e = Inr z \<longleftrightarrow> validate_payload_entry tenant e = Inr ()
     \<and> (\<forall>k. previous = Some k \<longrightarrow> k < entry_key e) \<and> is_u64 (amount + br_byte_length (pe_reference e))
     \<and> z = (Some (entry_key e), amount + br_byte_length (pe_reference e))"
  by (auto simp: count_payload_def bindE_Inr guardE_Inr reference_key_def entry_key_def validate_payload_entry_def
      Let_def result_simps not_le split: option.splits)

lemma valid_entry_fits: "validate_payload_entry tenant e = Inr () \<Longrightarrow> payload_fits e"
  by (auto simp: validate_payload_entry_def bindE_Inr guardE_Inr Let_def result_simps payload_fits_def)

lemma count_payloads:
  assumes "foldE (count_payload tenant) (previous, amount) es = Inr (previous', amount')"
  shows "(\<forall>e \<in> set es. validate_payload_entry tenant e = Inr () \<and> (\<forall>k. previous = Some k \<longrightarrow> k < entry_key e))
     \<and> sorted_wrt (<) (map entry_key es) \<and> amount' = amount + payload_total es \<and> (es = [] \<or> is_u64 amount')"
  using assms
proof (induction es arbitrary: previous amount)
  case (Cons e es)
  then have e: "validate_payload_entry tenant e = Inr ()" "\<forall>k. previous = Some k \<longrightarrow> k < entry_key e"
    "is_u64 (amount + br_byte_length (pe_reference e))"
    and rest: "foldE (count_payload tenant) (Some (entry_key e), amount + br_byte_length (pe_reference e)) es
      = Inr (previous', amount')"
    by (auto simp: bindE_Inr count_payload_Inr)
  note IH = Cons.IH [OF rest]
  have "\<forall>k. previous = Some k \<longrightarrow> k < entry_key f" if "f \<in> set es" for f
    using e(2) IH that by (auto intro: order.strict_trans)
  then show ?case using e IH by (auto simp: algebra_simps)
qed simp

lemma decode_entries_iff:
  "decode_entries tenant n (acc, z) r = Inr ((es', z'), rest) \<longleftrightarrow>
     (\<exists>es. length es = n \<and> es' = acc @ es \<and> (\<forall>e \<in> set es. payload_fits e)
       \<and> r = concat (map payload_entry_bytes es) @ rest \<and> foldE (count_payload tenant) z es = Inr z')"
proof (induction n arbitrary: acc z r)
  case 0
  then show ?case by auto
next
  case (Suc n)
  have "decode_entries tenant (Suc n) (acc, z) r = Inr ((es', z'), rest) \<longleftrightarrow>
      (\<exists>e tl y. payload_fits e \<and> r = payload_entry_bytes e @ tl \<and> count_payload tenant z e = Inr y
        \<and> decode_entries tenant n (acc @ [e], y) tl = Inr ((es', z'), rest))"
    by (auto simp: bindE_Inr rd_payload_entry_field)
  also have "\<dots> \<longleftrightarrow> (\<exists>e es. length es = n \<and> es' = acc @ e # es \<and> payload_fits e \<and> (\<forall>f \<in> set es. payload_fits f)
      \<and> r = payload_entry_bytes e @ concat (map payload_entry_bytes es) @ rest
      \<and> foldE (count_payload tenant) z (e # es) = Inr z')"
    unfolding Suc.IH by (auto simp: bindE_Inr)
  also have "\<dots> \<longleftrightarrow> (\<exists>es. length es = Suc n \<and> es' = acc @ es \<and> (\<forall>e \<in> set es. payload_fits e)
       \<and> r = concat (map payload_entry_bytes es) @ rest \<and> foldE (count_payload tenant) z es = Inr z')"
    by (auto simp: length_Suc_conv)
  finally show ?case .
qed

section \<open>A snapshot\<close>

definition snapshot_body :: "bytes \<Rightarrow> payload_entry list \<Rightarrow> bytes" where
  "snapshot_body tenant es = PAYLOAD_MAGIC @ u64_bytes 1 @ tenant @ u64_bytes (int (length es))
     @ u64_bytes (payload_total es) @ concat (map payload_entry_bytes es)"

definition snapshot_hash :: "bytes \<Rightarrow> bytes" where
  "snapshot_hash body = sha_parts (payload_domain ''body-v1'') [body]"

definition canonical_entries :: "bytes \<Rightarrow> payload_entry list \<Rightarrow> bool" where
  "canonical_entries tenant es \<longleftrightarrow> (\<exists>z. foldE (count_payload tenant) (None, 0) es = Inr z)"

lemma canonical_parts:
  assumes "canonical_entries tenant es"
  obtains previous where "foldE (count_payload tenant) (None, 0) es = Inr (previous, payload_total es)"
    "\<forall>e \<in> set es. payload_fits e" "distinct (map entry_key es)" "is_u64 (payload_total es)"
proof -
  obtain previous amount where z: "foldE (count_payload tenant) (None, 0) es = Inr (previous, amount)"
    using assms by (auto simp: canonical_entries_def)
  note c = count_payloads [OF z]
  have "is_u64 (payload_total es)" using c by (auto simp: is_u64_def)
  then show thesis using that [of previous] z c valid_entry_fits strict_sorted_iff by auto
qed

lemma encode_snapshot_iff:
  "encode_snapshot tenant es = Inr bs \<longleftrightarrow> length tenant = 32 \<and> tenant \<noteq> ZERO_DIGEST \<and> length es \<le> 16
     \<and> canonical_entries tenant es \<and> bs = snapshot_body tenant es @ snapshot_hash (snapshot_body tenant es)"
proof (cases "canonical_entries tenant es")
  case True
  then obtain previous where z: "foldE (count_payload tenant) (None, 0) es = Inr (previous, payload_total es)"
    "\<forall>e \<in> set es. payload_fits e" "is_u64 (payload_total es)"
    by (rule canonical_parts)
  define chunks where "chunks = [PAYLOAD_MAGIC, u64_bytes 1, tenant, u64_bytes (int (length es)), u64_bytes (payload_total es)]
      @ concat (map (\<lambda>e. [u64_bytes (br_byte_length (pe_reference e)), br_sha256 (pe_reference e), pe_payload e]) es)"
  have "concat (map payload_entry_chunks es) = map Inr (concat (map (\<lambda>e. [u64_bytes (br_byte_length (pe_reference e)),
      br_sha256 (pe_reference e), pe_payload e]) es))"
    using z(2) by (induction es) (simp_all add: payload_entry_chunks_def payload_u64_def payload_fits_def is_u64_def)
  then have eq: "[Inr PAYLOAD_MAGIC, payload_u64 1, Inr tenant, payload_u64 (int (length es)), payload_u64 (payload_total es)]
      @ concat (map payload_entry_chunks es) = map Inr chunks" if "length es \<le> 16"
    using that z(3) by (simp add: chunks_def payload_u64_def is_u64_def)
  have body: "concat chunks = snapshot_body tenant es"
  proof -
    have "concat (concat (map (\<lambda>e. [u64_bytes (br_byte_length (pe_reference e)), br_sha256 (pe_reference e), pe_payload e]) es))
        = concat (map payload_entry_bytes es)"
      by (induction es) (simp_all add: payload_entry_bytes_def)
    then show ?thesis by (simp add: chunks_def snapshot_body_def)
  qed
  have map: "mapE (\<lambda>p. p) (map Inr xs) = Inr xs" for xs :: "bytes list" by (induction xs) simp_all
  show ?thesis
  proof (cases "length es \<le> 16")
    case len: True
    show ?thesis using True len
      unfolding encode_snapshot_def z(1) bindE_simps prod.case eq [OF len] map Let_def body snapshot_hash_def
      by (auto simp: bindE_Inr guardE_Inr payload_digest_Inr)
  next
    case False
    then show ?thesis by (auto simp: encode_snapshot_def bindE_Inr guardE_Inr)
  qed
next
  case False
  then show ?thesis by (auto simp: encode_snapshot_def bindE_Inr canonical_entries_def)
qed

lemma payload_magic_length [simp]: "length PAYLOAD_MAGIC = 8"
  by (simp add: PAYLOAD_MAGIC_def ascii_def)

lemma length_payload_entries: "\<forall>e \<in> set es. payload_fits e \<Longrightarrow>
    int (length (concat (map payload_entry_bytes es))) = 40 * int (length es) + payload_total es"
  by (induction es) (auto simp: payload_entry_bytes_def payload_fits_def)

lemma length_snapshot_body: "length tenant = 32 \<Longrightarrow> \<forall>e \<in> set es. payload_fits e \<Longrightarrow>
    int (length (snapshot_body tenant es)) = 64 + 40 * int (length es) + payload_total es"
  using length_payload_entries [of es] by (simp add: snapshot_body_def)

lemma payload_header_split:
  assumes "64 \<le> length bs"
  shows "bs = take 8 bs @ slice 8 8 bs @ slice 16 32 bs @ slice 48 8 bs @ slice 56 8 bs @ drop 64 bs"
proof -
  have "slice i n bs @ drop (i + n) bs = drop i bs" for i n
    by (simp add: slice_def flip: drop_drop append_take_drop_id) (metis add.commute append_take_drop_id drop_drop)
  from this [of 8 8] this [of 16 32] this [of 48 8] this [of 56 8] show ?thesis by simp
qed

lemma payload_wire_fields:
  assumes "length tenant = 32" "length es \<le> 16" "is_u64 (payload_total es)"
  shows "take 8 (snapshot_body tenant es @ r) = PAYLOAD_MAGIC" "le_int (slice 8 8 (snapshot_body tenant es @ r)) = 1"
    "slice 16 32 (snapshot_body tenant es @ r) = tenant"
    "le_int (slice 48 8 (snapshot_body tenant es @ r)) = int (length es)"
    "le_int (slice 56 8 (snapshot_body tenant es @ r)) = payload_total es"
    "drop 64 (snapshot_body tenant es @ r) = concat (map payload_entry_bytes es) @ r"
  using assms by (simp_all add: snapshot_body_def slice_def is_u64_def)

lemma decode_snapshot_iff:
  "decode_snapshot bs tenant = Inr d \<longleftrightarrow> (\<exists>es. encode_snapshot tenant es = Inr bs
     \<and> snapshot_value bs tenant (payload_total es) (snapshot_hash (snapshot_body tenant es)) es = Inr d)"
proof
  assume "decode_snapshot bs tenant = Inr d"
  then obtain es previous amount r where p: "96 \<le> length bs" "length tenant = 32" "tenant \<noteq> ZERO_DIGEST"
    "take 8 bs = PAYLOAD_MAGIC" "le_int (slice 8 8 bs) = 1" "slice 16 32 bs = tenant" "le_int (slice 48 8 bs) \<le> 16"
    and e: "decode_entries tenant (nat (le_int (slice 48 8 bs))) ([], None, 0) (drop 64 bs) = Inr ((es, previous, amount), r)"
    and q: "amount = le_int (slice 56 8 bs)" "length r = 32" "r = snapshot_hash (take (length bs - 32) bs)"
    "snapshot_value bs tenant amount r es = Inr d"
    by (auto simp: decode_snapshot_def bindE_Inr guardE_Inr payload_digest_Inr Let_def snapshot_hash_def)
  from e have es: "length es = nat (le_int (slice 48 8 bs))" "drop 64 bs = concat (map payload_entry_bytes es) @ r"
    and fold: "foldE (count_payload tenant) (None, 0) es = Inr (previous, amount)"
    by (auto simp: decode_entries_iff)
  have canonical: "canonical_entries tenant es" using fold by (auto simp: canonical_entries_def)
  have amount: "amount = payload_total es" using count_payloads [OF fold] by simp
  have n: "le_int (slice 48 8 bs) = int (length es)" using es(1) le_int_bounds [of "slice 48 8 bs"] by simp
  have len: "length (slice 8 8 bs) = 8" "length (slice 48 8 bs) = 8" "length (slice 56 8 bs) = 8"
    using p(1) by (simp_all add: slice_def)
  have "bs = snapshot_body tenant es @ r"
    using payload_header_split [of bs] p(1) u64_bytes_le_int [OF len(1)] u64_bytes_le_int [OF len(2)] u64_bytes_le_int [OF len(3)]
    by (simp add: p(4-6) n es(2) snapshot_body_def flip: q(1) amount)
  moreover from this have "take (length bs - 32) bs = snapshot_body tenant es" using q(2) by simp
  ultimately show "\<exists>es. encode_snapshot tenant es = Inr bs
     \<and> snapshot_value bs tenant (payload_total es) (snapshot_hash (snapshot_body tenant es)) es = Inr d"
    using p(2,3,7) n canonical q(3,4) by (intro exI [of _ es]) (simp add: encode_snapshot_iff amount)
next
  assume "\<exists>es. encode_snapshot tenant es = Inr bs
     \<and> snapshot_value bs tenant (payload_total es) (snapshot_hash (snapshot_body tenant es)) es = Inr d"
  then obtain es where e: "length tenant = 32" "tenant \<noteq> ZERO_DIGEST" "length es \<le> 16" "canonical_entries tenant es"
    "bs = snapshot_body tenant es @ snapshot_hash (snapshot_body tenant es)"
    and v: "snapshot_value bs tenant (payload_total es) (snapshot_hash (snapshot_body tenant es)) es = Inr d"
    by (auto simp: encode_snapshot_iff)
  obtain previous where z: "foldE (count_payload tenant) (None, 0) es = Inr (previous, payload_total es)"
    "\<forall>e \<in> set es. payload_fits e" "is_u64 (payload_total es)"
    using e(4) by (rule canonical_parts)
  let ?h = "snapshot_hash (snapshot_body tenant es)"
  note f = payload_wire_fields [OF e(1,3) z(3), of ?h]
  have h: "length ?h = 32" by (simp add: snapshot_hash_def)
  have len: "96 \<le> length bs" using length_snapshot_body [OF e(1) z(2)] z(3) h by (simp add: e(5) is_u64_def)
  have "decode_entries tenant (length es) ([], None, 0) (concat (map payload_entry_bytes es) @ ?h)
      = Inr ((es, previous, payload_total es), ?h)"
    unfolding decode_entries_iff using z(1,2) by simp
  moreover have "take (length bs - length ?h) bs = snapshot_body tenant es" by (simp add: e(5))
  ultimately show "decode_snapshot bs tenant = Inr d"
    using e(1-3) len h v f unfolding decode_snapshot_def Let_def
    by (simp add: guardE_def payload_digest_def flip: e(5) snapshot_hash_def)
qed

lemma encoding_unique:
  assumes "encode_snapshot tenant es = Inr bs" "encode_snapshot tenant fs = Inr bs"
  shows "es = fs"
proof -
  have e: "length tenant = 32" "length es \<le> 16" "canonical_entries tenant es" "length fs \<le> 16" "canonical_entries tenant fs"
    "snapshot_body tenant es @ snapshot_hash (snapshot_body tenant es)
      = snapshot_body tenant fs @ snapshot_hash (snapshot_body tenant fs)"
    using assms by (auto simp: encode_snapshot_iff)
  obtain p where z: "\<forall>e \<in> set es. payload_fits e" "is_u64 (payload_total es)" using e(3) by (rule canonical_parts)
  obtain q where y: "\<forall>e \<in> set fs. payload_fits e" "is_u64 (payload_total fs)" using e(5) by (rule canonical_parts)
  note f = payload_wire_fields [OF e(1,2) z(2)] and g = payload_wire_fields [OF e(1,4) y(2)]
  have n: "length es = length fs" using f(4) g(4) e(6) by (metis of_nat_eq_iff)
  have "concat (map payload_entry_bytes es) @ snapshot_hash (snapshot_body tenant es)
      = concat (map payload_entry_bytes fs) @ snapshot_hash (snapshot_body tenant fs)"
    using f(6) g(6) e(6) by metis
  then show "es = fs"
    using payload_field.fields [of "length es" _ es] payload_field.fields [of "length es" _ fs] z(1) y(1) n
    by (metis Pair_inject sum.inject(2))
qed

section \<open>The reclaim\<close>

lemma reference_keys: "mapE reference_key ts = Inr ks \<Longrightarrow> ks = map (\<lambda>t. (br_sha256 t, br_byte_length t)) ts"
  by (induction ts arbitrary: ks) (auto simp: bindE_Inr reference_key_def result_simps)

lemma target_key_eq: "(br_sha256 t, br_byte_length t) = (br_sha256 u, br_byte_length u) \<longleftrightarrow> t = (u :: blob_reference)"
  by (cases t; cases u) auto

lemma key_of_target: "(br_sha256 (pe_reference e), br_byte_length (pe_reference e)) \<in> set
    (map (\<lambda>t. (br_sha256 t, br_byte_length t)) ts) \<longleftrightarrow> pe_reference e \<in> set ts"
  unfolding set_map image_iff target_key_eq by blast

lemma targets_nonempty: "retired_targets_root [] = Inl StEmptyTargets"
  by (simp add: retired_targets_root_def)

lemma length_remdups_full: "length (remdups xs) = length xs \<Longrightarrow> distinct xs"
  by (metis remdups_id_iff_distinct length_remdups_eq)

lemma split_total: "payload_total es = payload_total (filter P es) + payload_total (filter (\<lambda>e. \<not> P e) es)"
  by (induction es) simp_all

lemma preview_reclaim_Inr:
  assumes "preview_reclaim active tenant targets = Inr p"
  obtains es keys where "encode_snapshot tenant es = Inr active" "ps_entries (rv_before p) = es"
    "decode_snapshot active tenant = Inr (rv_before p)" "decode_snapshot (rv_candidate p) tenant = Inr (rv_after p)"
    "keys = map (\<lambda>t. (br_sha256 t, br_byte_length t)) targets" "distinct keys" "targets \<noteq> []"
    "encode_snapshot tenant (filter (\<lambda>e. pe_reference e \<notin> set targets) es) = Inr (rv_candidate p)"
    "set (map entry_key (filter (\<lambda>e. pe_reference e \<in> set targets) es)) = set keys"
    "rv_freed_payload_bytes p = payload_total (filter (\<lambda>e. pe_reference e \<in> set targets) es)"
    "rv_freed_entries p = int (length targets)" "preview_root p = Inr (rv_preview_sha256 p)"
proof -
  from assms obtain before keys candidate after root targets_sha256 where p: "retired_targets_root targets = Inr targets_sha256"
    "decode_snapshot active tenant = Inr before" "mapE reference_key targets = Inr keys"
    "length (remdups keys) = length targets"
    "set (map entry_key (filter (\<lambda>e. entry_key e \<in> set keys) (ps_entries before))) = set keys"
    "encode_snapshot tenant (filter (\<lambda>e. entry_key e \<notin> set keys) (ps_entries before)) = Inr candidate"
    "decode_snapshot candidate tenant = Inr after"
    and q: "p = \<lparr>rv_before = before, rv_after = after, rv_targets_sha256 = targets_sha256,
             rv_freed_entries = int (length targets),
             rv_freed_payload_bytes = sum_list (map (\<lambda>e. br_byte_length (pe_reference e))
               (filter (\<lambda>e. entry_key e \<in> set keys) (ps_entries before))), rv_candidate = candidate,
             rv_preview_sha256 = root\<rparr>" "preview_root (p\<lparr>rv_preview_sha256 := []\<rparr>) = Inr root"
    unfolding preview_reclaim_def Let_def by (auto simp: bindE_Inr guardE_Inr split: sum.splits)
  have keys: "keys = map (\<lambda>t. (br_sha256 t, br_byte_length t)) targets" using reference_keys p(3) by simp
  have mem: "entry_key e \<in> set keys \<longleftrightarrow> pe_reference e \<in> set targets" for e
    unfolding keys entry_key_def by (rule key_of_target)
  obtain es where es: "encode_snapshot tenant es = Inr active" "ps_entries before = es"
    using p(2) by (auto simp: decode_snapshot_iff snapshot_value_def bindE_Inr)
  have "distinct keys" using p(4) keys length_remdups_full [of keys] by simp
  moreover have "targets \<noteq> []" using p(1) targets_nonempty by auto
  moreover have "preview_root p = Inr root" using q(2) by (simp add: preview_root_def)
  moreover have "rv_freed_payload_bytes p = payload_total (filter (\<lambda>e. pe_reference e \<in> set targets) es)"
    by (simp only: q(1) mem es(2) reclaim_preview.simps payload_total_def)
  moreover have "rv_before p = before" "rv_after p = after" "rv_candidate p = candidate" "rv_preview_sha256 p = root"
    "rv_freed_entries p = int (length targets)"
    by (simp_all only: q(1) reclaim_preview.simps)
  ultimately show thesis using that [of es keys] p(2) p(5,6) [unfolded mem es(2)] p(7) es keys by simp
qed

lemma taken_count:
  assumes "distinct (map entry_key es)" "set (map entry_key (filter P es)) = set keys" "distinct keys"
  shows "length (filter P es) = length keys"
proof -
  have "distinct (map entry_key (filter P es))" using assms(1) by (rule distinct_map_filter)
  then have "length (map entry_key (filter P es)) = card (set keys)" using assms(2) distinct_card by metis
  then show ?thesis using distinct_card [OF assms(3)] by simp
qed

lemma decoded_value:
  assumes "encode_snapshot tenant es = Inr bs" "decode_snapshot bs tenant = Inr d"
  shows "ps_entries d = es" "ps_entry_count d = int (length es)" "ps_payload_bytes d = payload_total es"
    "ps_encoded_bytes d = 96 + 40 * int (length es) + payload_total es" "ps_tenant_scope_sha256 d = tenant"
    "tenant \<noteq> ZERO_DIGEST" "distinct (map entry_key es)" "\<forall>e \<in> set es. payload_fits e"
proof -
  obtain fs where fs: "encode_snapshot tenant fs = Inr bs"
    "snapshot_value bs tenant (payload_total fs) (snapshot_hash (snapshot_body tenant fs)) fs = Inr d"
    using assms(2) by (auto simp: decode_snapshot_iff)
  have eq: "fs = es" by (rule encoding_unique [OF fs(1) assms(1)])
  have e: "length tenant = 32" "tenant \<noteq> ZERO_DIGEST" "canonical_entries tenant es"
    "bs = snapshot_body tenant es @ snapshot_hash (snapshot_body tenant es)"
    using assms(1) by (auto simp: encode_snapshot_iff)
  obtain p where z: "\<forall>e \<in> set es. payload_fits e" "distinct (map entry_key es)" using e(3) by (rule canonical_parts)
  have "int (length bs) = 96 + 40 * int (length es) + payload_total es"
    using length_snapshot_body [OF e(1) z(1)] by (simp add: e(4) snapshot_hash_def)
  with fs(2) eq show "ps_entries d = es" "ps_entry_count d = int (length es)" "ps_payload_bytes d = payload_total es"
    "ps_encoded_bytes d = 96 + 40 * int (length es) + payload_total es" "ps_tenant_scope_sha256 d = tenant"
    by (auto simp: snapshot_value_def bindE_Inr)
  show "tenant \<noteq> ZERO_DIGEST" "distinct (map entry_key es)" "\<forall>e \<in> set es. payload_fits e"
    using e(2) z by simp_all
qed

definition preview_digests :: "reclaim_preview \<Rightarrow> bytes set" where
  "preview_digests p = {ps_body_sha256 (rv_before p), ps_encoded_sha256 (rv_before p), ps_snapshot_sha256 (rv_before p),
     ps_body_sha256 (rv_after p), ps_encoded_sha256 (rv_after p), ps_snapshot_sha256 (rv_after p), rv_targets_sha256 p}"

lemma payload_total_nonneg: "\<forall>e \<in> set es. payload_fits e \<Longrightarrow> 0 \<le> payload_total es"
  by (induction es) (auto simp: payload_fits_def is_u64_def)

lemma reclaimed:
  assumes "preview_reclaim active tenant targets = Inr p"
  shows "ps_entries (rv_after p) = filter (\<lambda>e. pe_reference e \<notin> set targets) (ps_entries (rv_before p))"
    "decode_snapshot active tenant = Inr (rv_before p)" "decode_snapshot (rv_candidate p) tenant = Inr (rv_after p)"
    "ps_entry_count (rv_after p) = ps_entry_count (rv_before p) - int (length targets)"
    "ps_payload_bytes (rv_after p) = ps_payload_bytes (rv_before p) - rv_freed_payload_bytes p"
    "ps_encoded_bytes (rv_before p) - ps_encoded_bytes (rv_after p) = 40 * int (length targets) + rv_freed_payload_bytes p"
    "verify_reclaim_preview p = Inr () \<longleftrightarrow> ZERO_DIGEST \<notin> preview_digests p"
proof -
  obtain es keys where e: "encode_snapshot tenant es = Inr active" "ps_entries (rv_before p) = es"
    "decode_snapshot active tenant = Inr (rv_before p)" "decode_snapshot (rv_candidate p) tenant = Inr (rv_after p)"
    "keys = map (\<lambda>t. (br_sha256 t, br_byte_length t)) targets" "distinct keys" "targets \<noteq> []"
    "encode_snapshot tenant (filter (\<lambda>e. pe_reference e \<notin> set targets) es) = Inr (rv_candidate p)"
    "set (map entry_key (filter (\<lambda>e. pe_reference e \<in> set targets) es)) = set keys"
    "rv_freed_payload_bytes p = payload_total (filter (\<lambda>e. pe_reference e \<in> set targets) es)"
    "rv_freed_entries p = int (length targets)" "preview_root p = Inr (rv_preview_sha256 p)"
    by (rule preview_reclaim_Inr [OF assms])
  note b = decoded_value [OF e(1,3)] and a = decoded_value [OF e(8,4)]
  let ?P = "\<lambda>e. pe_reference e \<in> set targets"
  have taken: "length (filter ?P es) = length targets" using taken_count [OF b(7) e(9,6)] e(5) by simp
  have count: "length es = length (filter ?P es) + length (filter (\<lambda>e. \<not> ?P e) es)"
    by (simp add: sum_length_filter_compl)
  have n: "int (length es) = int (length targets) + int (length (filter (\<lambda>e. \<not> ?P e) es))" using count taken by simp
  have bytes: "payload_total es = rv_freed_payload_bytes p + payload_total (filter (\<lambda>e. \<not> ?P e) es)"
    unfolding e(10) by (rule split_total)
  show 1: "ps_entries (rv_after p) = filter (\<lambda>e. pe_reference e \<notin> set targets) (ps_entries (rv_before p))"
    "decode_snapshot active tenant = Inr (rv_before p)" "decode_snapshot (rv_candidate p) tenant = Inr (rv_after p)"
    "ps_entry_count (rv_after p) = ps_entry_count (rv_before p) - int (length targets)"
    "ps_payload_bytes (rv_after p) = ps_payload_bytes (rv_before p) - rv_freed_payload_bytes p"
    "ps_encoded_bytes (rv_before p) - ps_encoded_bytes (rv_after p) = 40 * int (length targets) + rv_freed_payload_bytes p"
    using a b e(2-4) taken count bytes by simp_all
  have pos: "0 \<le> rv_freed_payload_bytes p" "0 \<le> payload_total (filter (\<lambda>e. \<not> ?P e) es)" "0 < int (length targets)"
    using b(8) e(7) payload_total_nonneg [of "filter ?P es"] payload_total_nonneg [of "filter (\<lambda>e. \<not> ?P e) es"]
    by (simp_all add: e(10))
  have sizes: "ps_entry_count (rv_before p) \<ge> rv_freed_entries p" "ps_payload_bytes (rv_before p) \<ge> rv_freed_payload_bytes p"
    "ps_encoded_bytes (rv_before p) \<ge> 96" "ps_encoded_bytes (rv_after p) \<ge> 96"
    "ps_encoded_bytes (rv_before p) > ps_encoded_bytes (rv_after p)"
    "ps_encoded_bytes (rv_before p) - ps_encoded_bytes (rv_after p)
      = rv_freed_entries p * 40 + rv_freed_payload_bytes p"
    using a(2-4) b(2-4) e(11) n bytes pos by linarith+
  have "reclaim_holds p \<longleftrightarrow> ZERO_DIGEST \<notin> preview_digests p"
    unfolding reclaim_holds_def Let_def preview_digests_def using sizes 1(4,5) pos(3) a(5,6) b(5) e(11,12) by auto
  then show "verify_reclaim_preview p = Inr () \<longleftrightarrow> ZERO_DIGEST \<notin> preview_digests p"
    by (simp add: verify_reclaim_preview_def guardE_def)
qed

end
