(* ===== verification/Payload_Properties.thy ===== *)
theory Payload_Properties
  imports Payload_Facts Store_Scenario
begin

text \<open>What the payload snapshots and the preview of a reclaim promise.\<close>

text \<open>
  C37. A snapshot is decoded exactly when it is the encoding of its own entries, and its value is the one of those
  entries: the count, the sum of the payloads, the size of the wire, the footer and the hashes.
\<close>

theorem payload_snapshot_exact:
  "decode_snapshot bs tenant = Inr d \<longleftrightarrow>
     encode_snapshot tenant (ps_entries d) = Inr bs
     \<and> snapshot_value bs tenant (payload_total (ps_entries d)) (drop (length bs - 32) bs) (ps_entries d) = Inr d"
proof -
  have entries: "ps_entries d = es" if "snapshot_value bs tenant a h es = Inr d" for a h es
    using that by (auto simp: snapshot_value_def bindE_Inr)
  have foot: "drop (length bs - 32) bs = snapshot_hash (snapshot_body tenant es)" if "encode_snapshot tenant es = Inr bs" for es
    using that by (auto simp: encode_snapshot_iff snapshot_hash_def)
  show ?thesis unfolding decode_snapshot_iff using entries foot by metis
qed

text \<open>
  C38. The preview of a reclaim takes exactly the targets out of a snapshot: the entries that stay are those that are
  not targets, in their order, both snapshots decode, the counts and the sizes differ by the targets, and the
  preview is valid unless one of its digests is the zero digest.
\<close>

theorem payload_reclaim_exact:
  assumes "preview_reclaim active tenant targets = Inr p"
  shows "ps_entries (rv_after p) = filter (\<lambda>e. pe_reference e \<notin> set targets) (ps_entries (rv_before p))
    \<and> decode_snapshot active tenant = Inr (rv_before p) \<and> decode_snapshot (rv_candidate p) tenant = Inr (rv_after p)
    \<and> ps_entry_count (rv_after p) = ps_entry_count (rv_before p) - int (length targets)
    \<and> ps_payload_bytes (rv_after p) = ps_payload_bytes (rv_before p) - rv_freed_payload_bytes p
    \<and> ps_encoded_bytes (rv_before p) - ps_encoded_bytes (rv_after p) = 40 * int (length targets) + rv_freed_payload_bytes p
    \<and> (verify_reclaim_preview p = Inr () \<longleftrightarrow> ZERO_DIGEST \<notin> preview_digests p)"
  using reclaimed [OF assms] by blast

definition one_entry :: payload_entry where
  "one_entry = \<lparr>pe_reference = one_target, pe_payload = one_payload\<rparr>"

lemma one_entry_canonical: "canonical_entries (filled 0x6D) [one_entry]"
  using one_blob by (simp add: canonical_entries_def count_payload_def validate_payload_entry_def one_entry_def
      reference_key_def payload_u64_def payload_digest_def one_target_def guardE_def)

lemma encoded_decodes:
  assumes "encode_snapshot tenant es = Inr bs" "is_u64 (96 + 40 * int (length es) + payload_total es)"
  shows "\<exists>d. decode_snapshot bs tenant = Inr d \<and> ps_entries d = es"
proof -
  have e: "length tenant = 32" "canonical_entries tenant es" "length es \<le> 16"
    "bs = snapshot_body tenant es @ snapshot_hash (snapshot_body tenant es)"
    using assms(1) by (auto simp: encode_snapshot_iff)
  obtain previous where z: "\<forall>e \<in> set es. payload_fits e" "is_u64 (payload_total es)" using e(2) by (rule canonical_parts)
  have "int (length bs) = 96 + 40 * int (length es) + payload_total es"
    using length_snapshot_body [OF e(1) z(1)] by (simp add: e(4) snapshot_hash_def)
  then have "is_u64 (int (length bs))" using assms(2) by simp
  moreover have "is_u64 (int (length es))" using e(3) by (simp add: is_u64_def)
  ultimately obtain d where "snapshot_value bs tenant (payload_total es) (snapshot_hash (snapshot_body tenant es)) es = Inr d"
      "ps_entries d = es"
    using z(2) by (simp add: snapshot_value_def bindE_Inr payload_u64_Inr)
  then show ?thesis using assms(1) by (auto simp: decode_snapshot_iff)
qed

lemma one_reclaim: "\<exists>active p. preview_reclaim active (filled 0x6D) [one_target] = Inr p"
proof -
  obtain active where a: "encode_snapshot (filled 0x6D) [one_entry] = Inr active"
    using one_entry_canonical by (simp add: encode_snapshot_iff)
  obtain candidate where c: "encode_snapshot (filled 0x6D) [] = Inr candidate"
    by (simp add: encode_snapshot_iff canonical_entries_def)
  obtain before where b: "decode_snapshot active (filled 0x6D) = Inr before" "ps_entries before = [one_entry]"
    using encoded_decodes [OF a] by (auto simp: payload_total_def one_entry_def one_target_def is_u64_def)
  obtain after where t: "decode_snapshot candidate (filled 0x6D) = Inr after"
    using encoded_decodes [OF c] by (auto simp: payload_total_def is_u64_def)
  have root: "retired_targets_root [one_target] = Inr dg_targets"
    using retired_roots(5) by (simp add: retired_targets_root_def target_key_def one_target_def store_u64_def
        store_digest_def store_hash_def)
  have key: "reference_key one_target = Inr (dg_blob0, 25)" "entry_key one_entry = (dg_blob0, 25)"
    "br_byte_length (pe_reference one_entry) = 25"
    by (simp_all add: reference_key_def payload_digest_def one_target_def entry_key_def one_entry_def)
  have "\<exists>p. preview_reclaim active (filled 0x6D) [one_target] = Inr p"
    using b t c by (simp add: preview_reclaim_def root key guardE_def preview_root_def payload_u64_def
        Let_def) (use key(2) in \<open>auto simp: image_def\<close>)
  then show ?thesis by blast
qed

lemma payload_reclaim_exact_witness:
  "\<exists>active p. preview_reclaim active (filled 0x6D) [one_target] = Inr p
     \<and> ps_entries (rv_after p) = filter (\<lambda>e. pe_reference e \<notin> {one_target}) (ps_entries (rv_before p))
     \<and> ps_entry_count (rv_after p) = ps_entry_count (rv_before p) - 1"
proof -
  obtain active p where p: "preview_reclaim active (filled 0x6D) [one_target] = Inr p" using one_reclaim by blast
  show ?thesis using payload_reclaim_exact [OF p] p by (intro exI [of _ active] exI [of _ p]) simp
qed

end
