(* ===== verification/Resolver.thy ===== *)
theory Resolver
  imports Store_Core
begin

unbundle bit_operations_syntax

text \<open>
  \<open>bench/continuation_object_resolver.py\<close>: a resolver hands out the objects of a capsule from a catalog, each
  once and within the quotas of a grant, and in the end checks them all against the capsule.
\<close>

datatype (plugins only: code) resolver_error =
    RsU64 | RsDigest | RsGrant | RsStale | RsCatalog | RsCapsule | RsMismatch | RsFinalized | RsKind | RsDenied
  | RsResolved | RsLimit | RsTooLarge | RsBudget | RsMissing | RsAmbiguous | RsCorrupt | RsIncomplete | RsChanged
  | RsReference

section \<open>Grants\<close>

abbreviation (input) FULL_OBJECT_MASK :: int where "FULL_OBJECT_MASK \<equiv> 511"

definition resolver_u64 :: "int \<Rightarrow> resolver_error + bytes" where
  "resolver_u64 v = (if 0 \<le> v \<and> v \<le> U64_MAX then Inr (u64_bytes v) else Inl RsU64)"

definition resolver_digest :: "bytes \<Rightarrow> resolver_error + bytes" where
  "resolver_digest v = (if length v \<noteq> 32 \<or> v = ZERO_DIGEST then Inl RsDigest else Inr v)"

record resolver_grant =
  rg_authority_epoch :: int
  rg_request_epoch :: int
  rg_capsule_sha256 :: bytes
  rg_tenant_scope_sha256 :: bytes
  rg_allowed_kind_mask :: int
  rg_max_object_bytes :: int
  rg_max_total_bytes :: int
  rg_max_resolutions :: int
  rg_max_catalog_entries :: int
  rg_challenge_sha256 :: bytes

text \<open>\<open>bin(mask).count("1")\<close> of a mask that fits 64 bits.\<close>

definition count_ones :: "int \<Rightarrow> int" where
  "count_ones m = int (length (filter (bit m) [0..<64]))"

definition validate_resolver_grant :: "resolver_grant \<Rightarrow> resolver_error + unit" where
  "validate_resolver_grant g =
     bindE (mapE resolver_u64 [rg_authority_epoch g, rg_request_epoch g, rg_allowed_kind_mask g,
       rg_max_object_bytes g, rg_max_total_bytes g, rg_max_resolutions g, rg_max_catalog_entries g]) (\<lambda>_.
     bindE (mapE resolver_digest [rg_capsule_sha256 g, rg_tenant_scope_sha256 g, rg_challenge_sha256 g]) (\<lambda>_.
       guardE RsGrant (rg_authority_epoch g = 0 \<or> rg_request_epoch g = 0 \<or> rg_allowed_kind_mask g = 0
         \<or> rg_allowed_kind_mask g AND NOT FULL_OBJECT_MASK \<noteq> 0 \<or> rg_max_object_bytes g = 0
         \<or> rg_max_total_bytes g = 0 \<or> rg_max_catalog_entries g = 0
         \<or> rg_max_resolutions g \<noteq> count_ones (rg_allowed_kind_mask g))))"

definition resolver_grant_root :: "resolver_grant \<Rightarrow> resolver_error + bytes" where
  "resolver_grant_root g = bindE (validate_resolver_grant g) (\<lambda>_.
     bindE (mapE (\<lambda>p. p) [resolver_u64 (rg_authority_epoch g), resolver_u64 (rg_request_epoch g), Inr (rg_capsule_sha256 g),
       Inr (rg_tenant_scope_sha256 g), resolver_u64 (rg_allowed_kind_mask g), resolver_u64 (rg_max_object_bytes g),
       resolver_u64 (rg_max_total_bytes g), resolver_u64 (rg_max_resolutions g),
       resolver_u64 (rg_max_catalog_entries g), Inr (rg_challenge_sha256 g)]) (\<lambda>parts.
       Inr (sha_parts (store_domain ''glacier-continuation-resolver-grant-v1'') parts)))"

section \<open>The resolver\<close>

record catalog_entry =
  ce_tenant_scope_sha256 :: bytes
  ce_kind :: string
  ce_abi_version :: int
  ce_sha256 :: bytes
  ce_payload :: bytes

record resolver =
  rs_grant :: resolver_grant
  rs_grant_sha256 :: bytes
  rs_capsule_wire :: bytes
  rs_decoded :: capsule_manifest
  rs_catalog :: "catalog_entry list"
  rs_resolved :: objects
  rs_resolved_mask :: int
  rs_resolved_bytes :: int
  rs_resolution_count :: int
  rs_finalized :: bool

definition new_resolver ::
  "resolver_grant \<Rightarrow> int \<Rightarrow> bytes \<Rightarrow> catalog_entry list \<Rightarrow> resolver_error + resolver" where
  "new_resolver g expected_authority_epoch wire catalog =
     bindE (validate_resolver_grant g) (\<lambda>_.
     bindE (guardE RsStale (rg_authority_epoch g \<noteq> expected_authority_epoch)) (\<lambda>_.
     bindE (guardE RsCatalog (int (length catalog) > rg_max_catalog_entries g)) (\<lambda>_.
     bindE (case capsule_decode_manifest wire of Inl _ \<Rightarrow> Inl RsCapsule | Inr d \<Rightarrow> Inr d) (\<lambda>decoded.
     bindE (guardE RsMismatch (cm_envelope_sha256 decoded \<noteq> rg_capsule_sha256 g
         \<or> cc_request_epoch (cm_config decoded) \<noteq> rg_request_epoch g)) (\<lambda>_.
     bindE (resolver_grant_root g) (\<lambda>root.
       Inr \<lparr>rs_grant = g, rs_grant_sha256 = root, rs_capsule_wire = wire, rs_decoded = decoded,
         rs_catalog = catalog, rs_resolved = [], rs_resolved_mask = 0, rs_resolved_bytes = 0,
         rs_resolution_count = 0, rs_finalized = False\<rparr>))))))"

definition kind_index :: "string \<Rightarrow> resolver_error + nat" where
  "kind_index name = (case find (\<lambda>(_, n). n = name) (enumerate 0 OBJECT_NAMES) of
     None \<Rightarrow> Inl RsKind | Some (i, _) \<Rightarrow> Inr i)"

definition entry_matches :: "bytes \<Rightarrow> string \<Rightarrow> object_ref \<Rightarrow> catalog_entry \<Rightarrow> bool" where
  "entry_matches tenant name ref e \<longleftrightarrow>
     ce_tenant_scope_sha256 e = tenant \<and> ce_kind e = name \<and> ce_abi_version e = or_abi_version ref
     \<and> int (length (ce_payload e)) = or_byte_length ref \<and> ce_sha256 e = or_sha256 ref"

text \<open>What the object of a kind may cost: \<open>expected_ref\<close> and the total after it, or the reason why not.\<close>

definition quota :: "resolver \<Rightarrow> string \<Rightarrow> resolver_error + nat \<times> object_ref \<times> int" where
  "quota s name =
     bindE (guardE RsFinalized (rs_finalized s)) (\<lambda>_.
     bindE (kind_index name) (\<lambda>index.
     bindE (guardE RsDenied (rg_allowed_kind_mask (rs_grant s) AND 2 ^ index = 0)) (\<lambda>_.
     bindE (guardE RsResolved (name \<in> fst ` set (rs_resolved s))) (\<lambda>_.
     bindE (guardE RsLimit (rs_resolution_count s \<ge> rg_max_resolutions (rs_grant s))) (\<lambda>_.
     let ref = cm_refs (rs_decoded s) ! index in
     bindE (guardE RsTooLarge (or_byte_length ref > rg_max_object_bytes (rs_grant s))) (\<lambda>_.
     let next_total = rs_resolved_bytes s + or_byte_length ref in
     bindE (guardE RsBudget (next_total > rg_max_total_bytes (rs_grant s))) (\<lambda>_.
       Inr (index, ref, next_total))))))))"

definition find_entry :: "resolver \<Rightarrow> string \<Rightarrow> nat \<Rightarrow> object_ref \<Rightarrow> resolver_error + catalog_entry" where
  "find_entry s name index ref =
    (let matches = filter (entry_matches (rg_tenant_scope_sha256 (rs_grant s)) name ref) (rs_catalog s) in
     bindE (guardE RsMissing (matches = [])) (\<lambda>_.
     bindE (guardE RsAmbiguous (length matches \<noteq> 1)) (\<lambda>_.
     let e = matches ! 0 in
     bindE (case make_object_ref (int index) (ce_abi_version e, ce_payload e) of
         Inl _ \<Rightarrow> Inl RsCorrupt | Inr computed \<Rightarrow> guardE RsCorrupt (computed \<noteq> ref)) (\<lambda>_.
       Inr e))))"

definition resolve :: "string \<Rightarrow> (resolver_error, bytes, resolver) stateful" where
  "resolve name s =
     checkS (quota s name) (\<lambda>(index, ref, next_total).
     checkS (find_entry s name index ref) (\<lambda>e s.
       returnS (ce_payload e)
         (s\<lparr>rs_resolved := rs_resolved s @ [(name, ce_abi_version e, ce_payload e)],
             rs_resolved_mask := rs_resolved_mask s OR 2 ^ index, rs_resolved_bytes := next_total,
             rs_resolution_count := rs_resolution_count s + 1\<rparr>))) s"

definition finish_full :: "(resolver_error, objects, resolver) stateful" where
  "finish_full s =
     checkS (guardE RsFinalized (rs_finalized s)) (\<lambda>_.
     checkS (guardE RsIncomplete (rg_allowed_kind_mask (rs_grant s) \<noteq> FULL_OBJECT_MASK
         \<or> rs_resolved_mask s \<noteq> FULL_OBJECT_MASK \<or> rs_resolution_count s \<noteq> int (length OBJECT_NAMES))) (\<lambda>_ s.
       let objects = rs_resolved s; t = s\<lparr>rs_finalized := True\<rparr> in
       case capsule_decode_and_verify (rs_capsule_wire s) (cm_config (rs_decoded s)) objects of
         Inl _ \<Rightarrow> (Inl RsChanged, t)
       | Inr _ \<Rightarrow> (Inr objects, t))) s"

text \<open>A client that resolves the objects of the given names one after the other.\<close>

primrec resolve_names :: "string list \<Rightarrow> (resolver_error, bytes list, resolver) stateful" where
  "resolve_names [] = returnS []"
| "resolve_names (n # ns) = bindS (resolve n) (\<lambda>p. bindS (resolve_names ns) (\<lambda>ps. returnS (p # ps)))"

section \<open>The demonstration catalog\<close>

definition build_catalog :: "objects \<Rightarrow> bytes \<Rightarrow> resolver_error + catalog_entry list" where
  "build_catalog objects tenant =
     mapE (\<lambda>(index, name).
       let ob = the (map_of objects name) in
       case make_object_ref (int index) ob of Inl _ \<Rightarrow> Inl RsReference
       | Inr r \<Rightarrow> Inr \<lparr>ce_tenant_scope_sha256 = tenant, ce_kind = name, ce_abi_version = fst ob,
           ce_sha256 = or_sha256 r, ce_payload = snd ob\<rparr>) (enumerate 0 OBJECT_NAMES)"

definition demo_resolver_grant :: "int \<Rightarrow> bytes \<Rightarrow> objects \<Rightarrow> resolver_grant" where
  "demo_resolver_grant request_epoch encoded objects =
     \<lparr>rg_authority_epoch = 7, rg_request_epoch = request_epoch,
       rg_capsule_sha256 = drop (length encoded - 32) encoded, rg_tenant_scope_sha256 = replicate 32 0x5C,
       rg_allowed_kind_mask = FULL_OBJECT_MASK, rg_max_object_bytes = 64,
       rg_max_total_bytes = sum_list (map (\<lambda>(_, _, payload). int (length payload)) objects),
       rg_max_resolutions = int (length OBJECT_NAMES), rg_max_catalog_entries = 16,
       rg_challenge_sha256 = replicate 32 0xD4\<rparr>"

section \<open>Runs and their invariant\<close>

inductive resolver_runs :: "resolver_grant \<Rightarrow> bytes \<Rightarrow> resolver \<Rightarrow> bool" for g wire where
  resolver_new: "new_resolver g epoch wire catalog = Inr s \<Longrightarrow> resolver_runs g wire s"
| resolver_step: "resolver_runs g wire s \<Longrightarrow> resolve name s = (r, t) \<Longrightarrow> resolver_runs g wire t"
| resolver_end: "resolver_runs g wire s \<Longrightarrow> finish_full s = (r, t) \<Longrightarrow> resolver_runs g wire t"

definition object_at :: "capsule_manifest \<Rightarrow> string \<Rightarrow> object \<Rightarrow> nat \<Rightarrow> bool" where
  "object_at d name ob i \<longleftrightarrow> i < 9 \<and> OBJECT_NAMES ! i = name \<and> make_object_ref (int i) ob = Inr (cm_refs d ! i)"

definition resolver_ok :: "resolver_grant \<Rightarrow> bytes \<Rightarrow> resolver \<Rightarrow> bool" where
  "resolver_ok g wire s \<longleftrightarrow>
     rs_grant s = g \<and> rs_capsule_wire s = wire \<and> validate_resolver_grant g = Inr ()
     \<and> capsule_decode_manifest wire = Inr (rs_decoded s)
     \<and> distinct (map fst (rs_resolved s))
     \<and> (\<forall>(name, ob) \<in> set (rs_resolved s). \<exists>i. object_at (rs_decoded s) name ob i
          \<and> rg_allowed_kind_mask g AND 2 ^ i \<noteq> 0 \<and> int (length (snd ob)) \<le> rg_max_object_bytes g)
     \<and> (\<forall>i. bit (rs_resolved_mask s) i \<longleftrightarrow> i < 9 \<and> OBJECT_NAMES ! i \<in> fst ` set (rs_resolved s))
     \<and> rs_resolved_bytes s = sum_list (map (\<lambda>(_, _, payload). int (length payload)) (rs_resolved s))
     \<and> rs_resolution_count s = int (length (rs_resolved s))
     \<and> rs_resolved_bytes s \<le> rg_max_total_bytes g \<and> rs_resolution_count s \<le> rg_max_resolutions g"

lemma kind_index_Inr: "kind_index name = Inr i \<Longrightarrow> i < 9 \<and> OBJECT_NAMES ! i = name"
proof -
  assume "kind_index name = Inr i"
  then obtain n where "find (\<lambda>(_, n). n = name) (enumerate 0 OBJECT_NAMES) = Some (i, n)"
    by (auto simp: kind_index_def split: option.splits)
  then obtain j where "j < 9" "(\<lambda>(_, n). n = name) (enumerate 0 OBJECT_NAMES ! j)" "(i, n) = enumerate 0 OBJECT_NAMES ! j"
    unfolding find_Some_iff by auto
  then show ?thesis by (simp add: nth_enumerate_eq)
qed

lemma names_distinct: "distinct OBJECT_NAMES"
  by (simp add: OBJECT_NAMES_def)

lemma resolve_cases:
  assumes "resolve name s = (r, t)"
  obtains e where "r = Inl e" "t = s"
  | i ref e where "r = Inr (ce_payload e)" "i < 9" "OBJECT_NAMES ! i = name" "ref = cm_refs (rs_decoded s) ! i"
      "rg_allowed_kind_mask (rs_grant s) AND 2 ^ i \<noteq> 0" "name \<notin> fst ` set (rs_resolved s)" "\<not> rs_finalized s"
      "rs_resolution_count s < rg_max_resolutions (rs_grant s)" "or_byte_length ref \<le> rg_max_object_bytes (rs_grant s)"
      "rs_resolved_bytes s + or_byte_length ref \<le> rg_max_total_bytes (rs_grant s)"
      "make_object_ref (int i) (ce_abi_version e, ce_payload e) = Inr ref" "e \<in> set (rs_catalog s)"
      "t = s\<lparr>rs_resolved := rs_resolved s @ [(name, ce_abi_version e, ce_payload e)],
             rs_resolved_mask := rs_resolved_mask s OR 2 ^ i, rs_resolved_bytes := rs_resolved_bytes s + or_byte_length ref,
             rs_resolution_count := rs_resolution_count s + 1\<rparr>"
proof (cases "quota s name")
  case (Inl e)
  then show thesis using assms by (intro that(1)) (auto simp: resolve_def)
next
  case (Inr q)
  then obtain i ref n where q: "quota s name = Inr (i, ref, n)" by (cases q) auto
  then have p: "kind_index name = Inr i" "rg_allowed_kind_mask (rs_grant s) AND 2 ^ i \<noteq> 0" "\<not> rs_finalized s"
    "name \<notin> fst ` set (rs_resolved s)" "rs_resolution_count s < rg_max_resolutions (rs_grant s)"
    "ref = cm_refs (rs_decoded s) ! i" "or_byte_length ref \<le> rg_max_object_bytes (rs_grant s)"
    "n = rs_resolved_bytes s + or_byte_length ref" "n \<le> rg_max_total_bytes (rs_grant s)"
    by (auto simp: quota_def bindE_Inr guardE_Inr Let_def)
  show thesis
  proof (cases "find_entry s name i ref")
    case (Inl e)
    then show thesis using assms q by (intro that(1)) (auto simp: resolve_def)
  next
    case (Inr e)
    then obtain matches where m: "matches = filter (entry_matches (rg_tenant_scope_sha256 (rs_grant s)) name ref) (rs_catalog s)"
      "matches \<noteq> []" "e = matches ! 0" "make_object_ref (int i) (ce_abi_version e, ce_payload e) = Inr ref"
      by (auto simp: find_entry_def bindE_Inr guardE_Inr Let_def split: sum.splits)
    then have "e \<in> set matches" by (metis length_greater_0_conv nth_mem)
    then have "e \<in> set (rs_catalog s)" using m(1) by simp
    then show thesis using assms q Inr p m(4) kind_index_Inr [OF p(1)] by (intro that(2) [of e i ref]) (auto simp: resolve_def)
  qed
qed

lemma bit_or_power: "bit (m OR 2 ^ i) j \<longleftrightarrow> bit m j \<or> i = j" for m :: int
  by (auto simp: bit_simps)

lemma resolver_ok_finalized: "resolver_ok g wire (s\<lparr>rs_finalized := True\<rparr>) = resolver_ok g wire s"
  unfolding resolver_ok_def by simp

lemma finish_state: "finish_full s = (r, t) \<Longrightarrow> t = s \<or> t = s\<lparr>rs_finalized := True\<rparr>"
  by (auto simp: finish_full_def checkS_def Let_def split: sum.splits)

lemma resolver_runs_ok: "resolver_runs g wire s \<Longrightarrow> resolver_ok g wire s"
proof (induction rule: resolver_runs.induct)
  case (resolver_new epoch catalog s)
  then show ?case
    by (auto simp: new_resolver_def resolver_ok_def bindE_Inr guardE_Inr validate_resolver_grant_def result_simps
        resolver_u64_def count_ones_def split: sum.splits if_splits)
next
  case (resolver_step s name r t)
  from resolver_step.hyps(2) show ?case
  proof (cases rule: resolve_cases)
    case (1 e)
    then show ?thesis using resolver_step.IH by simp
  next
    case (2 i ref e)
    have len: "or_byte_length ref = int (length (ce_payload e))" using 2(11) by (simp add: make_object_ref_Inr)
    have at: "object_at (rs_decoded s) name (ce_abi_version e, ce_payload e) i" using 2 by (simp add: object_at_def)
    have inj: "j < 9 \<Longrightarrow> OBJECT_NAMES ! j = name \<Longrightarrow> j = i" for j
      using 2(2,3) names_distinct by (metis nth_eq_iff_index_eq object_names_length)
    show ?thesis using resolver_step.IH 2 at len
      unfolding resolver_ok_def by (auto simp: bit_or_power dest: inj)
  qed
next
  case (resolver_end s r t)
  then show ?case using finish_state [OF resolver_end.hyps(2)] resolver_ok_finalized by metis
qed

end
