(* ===== verification/Resolver_Facts.thy ===== *)
theory Resolver_Facts
  imports Resolver
begin

unbundle bit_operations_syntax

text \<open>
  What a resolver is good for: once all its objects are resolved, the end of the resolver returns the objects of
  the capsule and never finds them changed, and the catalog of the objects of a capsule serves every one of them.
\<close>

lemma bit_full_mask: "bit (FULL_OBJECT_MASK) i \<longleftrightarrow> i < 9"
proof -
  have "(511::int) = mask 9" by (simp add: mask_eq_exp_minus_1)
  then show ?thesis by (simp only: bit_mask_iff possible_bit_int simp_thms)
qed

lemma object_at_unique: "object_at d name ob i \<Longrightarrow> OBJECT_NAMES ! j = name \<Longrightarrow> j < 9 \<Longrightarrow> j = i"
  using names_distinct unfolding object_at_def by (metis nth_eq_iff_index_eq object_names_length)

lemma mapE_all_nth:
  "length ys = length xs \<Longrightarrow> (\<And>i. i < length xs \<Longrightarrow> f (xs ! i) = Inr (ys ! i)) \<Longrightarrow> mapE f xs = Inr ys"
proof (induction xs arbitrary: ys)
  case (Cons x xs)
  then obtain y zs where ys: "ys = y # zs" by (cases ys) auto
  have "f x = Inr y" using Cons.prems(2) [of 0] by (simp add: ys)
  moreover have "mapE f xs = Inr zs" using Cons.prems(2) [of "Suc _"] Cons.prems(1) by (intro Cons.IH) (auto simp: ys)
  ultimately show ?case by (simp add: ys)
qed simp

lemma resolved_capsule:
  assumes "resolver_ok g wire s" "rs_resolved_mask s = FULL_OBJECT_MASK"
  shows "object_refs (rs_resolved s) = Inr (cm_refs (rs_decoded s))"
    "capsule_encode (cm_config (rs_decoded s)) (rs_resolved s) = Inr wire"
    "capsule_decode_and_verify wire (cm_config (rs_decoded s)) (rs_resolved s) = Inr (rs_decoded s)"
proof -
  have d: "capsule_decode_manifest wire = Inr (rs_decoded s)" using assms(1) by (simp add: resolver_ok_def)
  note l = d [unfolded capsule_decode_layout]
  have held: "\<exists>i. object_at (rs_decoded s) name ob i" if "(name, ob) \<in> set (rs_resolved s)" for name ob
    using assms(1) that unfolding resolver_ok_def by blast
  have dist: "distinct (map fst (rs_resolved s))" using assms(1) by (simp add: resolver_ok_def)
  have "bit (rs_resolved_mask s) i \<longleftrightarrow> i < 9 \<and> OBJECT_NAMES ! i \<in> fst ` set (rs_resolved s)" for i
    using assms(1) unfolding resolver_ok_def by blast
  then have all: "OBJECT_NAMES ! i \<in> fst ` set (rs_resolved s)" if "i < 9" for i
    using that bit_full_mask unfolding assms(2) by blast
  have "fst ` set (rs_resolved s) \<le> set OBJECT_NAMES"
    using held by (fastforce simp: object_at_def in_set_conv_nth object_names_length)
  moreover have "set OBJECT_NAMES \<le> fst ` set (rs_resolved s)"
    using all by (auto simp: in_set_conv_nth object_names_length)
  ultimately have names: "set (map fst (rs_resolved s)) = set OBJECT_NAMES" by simp
  have ref: "make_object_ref (int i) (the (map_of (rs_resolved s) (OBJECT_NAMES ! i))) = Inr (cm_refs (rs_decoded s) ! i)"
    if i: "i < 9" for i
  proof -
    obtain ob where ob: "(OBJECT_NAMES ! i, ob) \<in> set (rs_resolved s)" using all [OF i] by auto
    obtain j where j: "object_at (rs_decoded s) (OBJECT_NAMES ! i) ob j" using held [OF ob] by auto
    have "i = j" by (rule object_at_unique [OF j refl i])
    then show ?thesis using j map_of_is_SomeI [OF dist ob] by (simp add: object_at_def)
  qed
  show refs: "object_refs (rs_resolved s) = Inr (cm_refs (rs_decoded s))"
    unfolding object_refs_def by (rule mapE_all_nth) (use l ref in \<open>auto simp: nth_enumerate_eq object_names_length\<close>)
  show enc: "capsule_encode (cm_config (rs_decoded s)) (rs_resolved s) = Inr wire"
    unfolding capsule_encode_Inr using l names refs by auto
  have "\<forall>r \<in> set (cm_refs (rs_decoded s)). or_sha256 r \<noteq> ZERO_DIGEST" using l by (auto simp: ref_ok_def)
  then show "capsule_decode_and_verify wire (cm_config (rs_decoded s)) (rs_resolved s) = Inr (rs_decoded s)"
    unfolding capsule_exact using enc refs l by (intro conjI exI [of _ "cm_refs (rs_decoded s)"]) auto
qed

lemma finish_exact:
  assumes "resolver_ok g wire s"
  shows "finish_full s =
    (if rs_finalized s then (Inl RsFinalized, s)
     else if rg_allowed_kind_mask g = FULL_OBJECT_MASK \<and> rs_resolved_mask s = FULL_OBJECT_MASK
         \<and> rs_resolution_count s = 9
     then (Inr (rs_resolved s), s\<lparr>rs_finalized := True\<rparr>)
     else (Inl RsIncomplete, s))"
proof -
  have "rs_grant s = g" "rs_capsule_wire s = wire" using assms by (simp_all add: resolver_ok_def)
  then show ?thesis using resolved_capsule(3) [OF assms]
    by (simp add: finish_full_def checkS_def guardE_def object_names_length failS_def)
qed

section \<open>The catalog of a capsule serves all its objects\<close>

lemma filter_single: "k < length xs \<Longrightarrow> (\<And>j. j < length xs \<Longrightarrow> P (xs ! j) \<longleftrightarrow> j = k) \<Longrightarrow> filter P xs = [xs ! k]"
proof (induction xs arbitrary: k)
  case (Cons x xs)
  have rest: "P (xs ! j) \<longleftrightarrow> Suc j = k" if "j < length xs" for j using Cons.prems(2) [of "Suc j"] that by simp
  have first: "P x \<longleftrightarrow> k = 0" using Cons.prems(2) [of 0] by auto
  show ?case
  proof (cases k)
    case 0
    then have "\<not> P y" if "y \<in> set xs" for y using rest that by (auto simp: in_set_conv_nth)
    then have "filter P xs = []" by (simp add: filter_empty_conv)
    then show ?thesis using 0 first by simp
  next
    case (Suc m)
    then have "filter P xs = [xs ! m]" using Cons.prems(1) rest by (intro Cons.IH) auto
    then show ?thesis using Suc first by simp
  qed
qed simp

lemma name_cases: "k < 9 \<Longrightarrow> k \<in> {0, 1, 2, 3, 4, 5, 6, 7, 8::nat}"
  by auto

lemma kind_index_nth: "k < 9 \<Longrightarrow> kind_index (OBJECT_NAMES ! k) = Inr k"
  using name_cases [of k] by (auto simp: kind_index_def OBJECT_NAMES_def)

lemma full_mask_and: "k < 9 \<Longrightarrow> FULL_OBJECT_MASK AND 2 ^ k \<noteq> 0"
  using name_cases [of k] by auto

lemma mask_or: "k < 9 \<Longrightarrow> (2 ^ k - 1) OR 2 ^ k = (2 ^ Suc k - 1 :: int)"
  using name_cases [of k] by auto

lemma full_count: "count_ones FULL_OBJECT_MASK = 9"
  by (simp add: count_ones_def upt_rec)

lemma catalog_nth:
  assumes "build_catalog objects tenant = Inr catalog"
  shows "length catalog = 9"
    and "i < 9 \<Longrightarrow> \<exists>r. make_object_ref (int i) (the (map_of objects (OBJECT_NAMES ! i))) = Inr r
      \<and> catalog ! i = \<lparr>ce_tenant_scope_sha256 = tenant, ce_kind = OBJECT_NAMES ! i,
          ce_abi_version = fst (the (map_of objects (OBJECT_NAMES ! i))), ce_sha256 = or_sha256 r,
          ce_payload = snd (the (map_of objects (OBJECT_NAMES ! i)))\<rparr>"
proof -
  note all = mapE_Inr_all [OF assms [unfolded build_catalog_def]]
  then show "length catalog = 9" by (simp add: object_names_length)
  assume i: "i < 9"
  let ?ob = "the (map_of objects (OBJECT_NAMES ! i))"
  have "(case make_object_ref (int i) ?ob of Inl _ \<Rightarrow> Inl RsReference
       | Inr r \<Rightarrow> Inr \<lparr>ce_tenant_scope_sha256 = tenant, ce_kind = OBJECT_NAMES ! i, ce_abi_version = fst ?ob,
           ce_sha256 = or_sha256 r, ce_payload = snd ?ob\<rparr>) = Inr (catalog ! i)"
    using all i by (simp add: nth_enumerate_eq object_names_length Let_def)
  then show "\<exists>r. make_object_ref (int i) ?ob = Inr r
      \<and> catalog ! i = \<lparr>ce_tenant_scope_sha256 = tenant, ce_kind = OBJECT_NAMES ! i, ce_abi_version = fst ?ob,
          ce_sha256 = or_sha256 r, ce_payload = snd ?ob\<rparr>"
    by (cases "make_object_ref (int i) ?ob") simp_all
qed

text \<open>The resolver after it has resolved the first \<open>k\<close> objects.\<close>

definition resolved_first :: "objects \<Rightarrow> capsule_manifest \<Rightarrow> resolver \<Rightarrow> nat \<Rightarrow> resolver" where
  "resolved_first objects d s k = s\<lparr>rs_resolved := map (\<lambda>n. (n, the (map_of objects n))) (take k OBJECT_NAMES),
     rs_resolved_mask := 2 ^ k - 1, rs_resolved_bytes := sum_list (map or_byte_length (take k (cm_refs d))),
     rs_resolution_count := int k\<rparr>"

lemma resolve_next:
  assumes s: "rs_grant s = g" "rs_decoded s = d" "rs_catalog s = catalog" "\<not> rs_finalized s"
    and refs: "object_refs objects = Inr (cm_refs d)"
    and cat: "build_catalog objects (rg_tenant_scope_sha256 g) = Inr catalog"
    and mask: "rg_allowed_kind_mask g = FULL_OBJECT_MASK" "rg_max_resolutions g = 9"
    and fits: "\<forall>r \<in> set (cm_refs d). or_byte_length r \<le> rg_max_object_bytes g"
      "sum_list (map or_byte_length (cm_refs d)) \<le> rg_max_total_bytes g"
    and k: "k < 9"
  shows "resolve (OBJECT_NAMES ! k) (resolved_first objects d s k)
    = (Inr (snd (the (map_of objects (OBJECT_NAMES ! k)))), resolved_first objects d s (Suc k))"
proof -
  let ?n = "OBJECT_NAMES ! k" and ?z = "resolved_first objects d s k" and ?r = "cm_refs d ! k"
  let ?ob = "the (map_of objects ?n)"
  note len = object_refs_Inr(1) [OF refs] and ref = object_refs_Inr(2) [OF refs]
  have r: "make_object_ref (int k) ?ob = Inr ?r" using ref [OF k] .
  have total: "sum_list (map or_byte_length (take k (cm_refs d))) + or_byte_length ?r
      = sum_list (map or_byte_length (take (Suc k) (cm_refs d)))"
    using k len by (simp add: take_Suc_conv_app_nth)
  have "ref_fits x" if "x \<in> set (cm_refs d)" for x using object_refs_fit [OF refs that] .
  then have "0 \<le> sum_list (map or_byte_length (drop (Suc k) (cm_refs d)))"
    by (intro sum_list_nonneg) (auto simp: ref_fits_def is_u64_def dest: in_set_dropD)
  moreover have "sum_list (map or_byte_length (cm_refs d)) = sum_list (map or_byte_length (take (Suc k) (cm_refs d)))
      + sum_list (map or_byte_length (drop (Suc k) (cm_refs d)))"
    by (metis append_take_drop_id map_append sum_list.append)
  ultimately have budget: "sum_list (map or_byte_length (take k (cm_refs d))) + or_byte_length ?r \<le> rg_max_total_bytes g"
    using fits(2) total by simp
  have "?n \<notin> set (take k OBJECT_NAMES)"
    using names_distinct k by (auto simp: in_set_conv_nth object_names_length nth_eq_iff_index_eq)
  moreover have "or_byte_length ?r \<le> rg_max_object_bytes g" using fits(1) k len by simp
  ultimately have q: "quota ?z ?n = Inr (k, ?r, sum_list (map or_byte_length (take (Suc k) (cm_refs d))))"
    using budget k s mask kind_index_nth [OF k] full_mask_and [OF k] total
    by (simp add: quota_def resolved_first_def guardE_def image_image Let_def)
  obtain e where e: "catalog ! k = e" "ce_abi_version e = fst ?ob" "ce_payload e = snd ?ob"
    using catalog_nth(2) [OF cat k] by auto
  have "entry_matches (rg_tenant_scope_sha256 g) ?n ?r (catalog ! j) \<longleftrightarrow> j = k" if "j < length catalog" for j
  proof
    assume "entry_matches (rg_tenant_scope_sha256 g) ?n ?r (catalog ! j)"
    then have "OBJECT_NAMES ! j = ?n"
      using catalog_nth(2) [OF cat, of j] catalog_nth(1) [OF cat] that by (auto simp: entry_matches_def)
    then show "j = k" using names_distinct that k catalog_nth(1) [OF cat]
      by (simp add: nth_eq_iff_index_eq object_names_length)
  next
    assume "j = k"
    then show "entry_matches (rg_tenant_scope_sha256 g) ?n ?r (catalog ! j)"
      using catalog_nth(2) [OF cat k] r by (auto simp: entry_matches_def make_object_ref_Inr)
  qed
  then have "filter (entry_matches (rg_tenant_scope_sha256 g) ?n ?r) catalog = [e]"
    using filter_single [of k catalog] catalog_nth(1) [OF cat] k e(1) by simp
  then have "find_entry ?z ?n k ?r = Inr e"
    using s e r by (simp add: find_entry_def resolved_first_def guardE_def)
  then show ?thesis using q e k total mask_or [OF k]
    by (simp add: resolve_def returnS_def checkS_def resolved_first_def take_Suc_conv_app_nth object_names_length
        split: prod.splits)
qed

lemma resolve_rest:
  assumes "\<And>k. k < 9 \<Longrightarrow> resolve (OBJECT_NAMES ! k) (f k) = (Inr (p (OBJECT_NAMES ! k)), f (Suc k))"
  shows "k \<le> 9 \<Longrightarrow> resolve_names (drop k OBJECT_NAMES) (f k) = (Inr (map p (drop k OBJECT_NAMES)), f 9)"
proof (induction "9 - k" arbitrary: k)
  case 0
  then show ?case by (simp add: object_names_length returnS_def)
next
  case (Suc m)
  then have k: "k < 9" "m = 9 - Suc k" by auto
  have "drop k OBJECT_NAMES = OBJECT_NAMES ! k # drop (Suc k) OBJECT_NAMES"
    using k(1) by (simp add: Cons_nth_drop_Suc object_names_length)
  then show ?case using Suc.hyps(1) [OF k(2)] k(1) assms [OF k(1)] by (simp add: bindS_def returnS_def)
qed

lemma delivered:
  assumes "capsule_decode_and_verify wire c objects = Inr d"
    "new_resolver g epoch wire catalog = Inr s" "build_catalog objects (rg_tenant_scope_sha256 g) = Inr catalog"
    "rg_allowed_kind_mask g = FULL_OBJECT_MASK"
    "\<forall>r \<in> set (cm_refs d). or_byte_length r \<le> rg_max_object_bytes g"
    "sum_list (map or_byte_length (cm_refs d)) \<le> rg_max_total_bytes g"
  shows "resolve_names OBJECT_NAMES s
      = (Inr (map (\<lambda>n. snd (the (map_of objects n))) OBJECT_NAMES), resolved_first objects d s 9)"
    "finish_full (resolved_first objects d s 9)
      = (Inr (map (\<lambda>n. (n, the (map_of objects n))) OBJECT_NAMES), (resolved_first objects d s 9)\<lparr>rs_finalized := True\<rparr>)"
proof -
  have d: "capsule_decode_manifest wire = Inr d" "object_refs objects = Inr (cm_refs d)"
    using assms(1) by (simp_all add: capsule_decode_and_verify_def bindE_Inr if_Inl_Inr)
      (use assms(1) in \<open>auto simp: capsule_exact\<close>)
  have s: "rs_grant s = g" "rs_decoded s = d" "rs_catalog s = catalog" "\<not> rs_finalized s"
    "s = resolved_first objects d s 0" "validate_resolver_grant g = Inr ()"
    using assms(2) d(1) by (auto simp: new_resolver_def bindE_Inr guardE_Inr resolved_first_def)
  have "rg_max_resolutions g = 9" using s(6) assms(4) full_count
    by (simp add: validate_resolver_grant_def bindE_Inr guardE_Inr)
  note step = resolve_next [OF s(1-4) d(2) assms(3,4) this assms(5,6)]
  show run: "resolve_names OBJECT_NAMES s
      = (Inr (map (\<lambda>n. snd (the (map_of objects n))) OBJECT_NAMES), resolved_first objects d s 9)"
    using resolve_rest [where f = "resolved_first objects d s" and k = 0, OF step] s(5) by simp
  have "resolver_runs g wire (resolved_first objects d s k)" if "k \<le> 9" for k
    using that
  proof (induction k)
    case 0
    then show ?case using resolver_new [OF assms(2)] s(5) by simp
  next
    case (Suc k)
    then show ?case using resolver_step [OF _ step [of k]] by simp
  qed
  then have "resolver_ok g wire (resolved_first objects d s 9)" using resolver_runs_ok by blast
  then show "finish_full (resolved_first objects d s 9)
      = (Inr (map (\<lambda>n. (n, the (map_of objects n))) OBJECT_NAMES), (resolved_first objects d s 9)\<lparr>rs_finalized := True\<rparr>)"
    using s(4) assms(4) by (simp add: finish_exact resolved_first_def object_names_length)
qed

end
