(* ===== verification/Resolver_Properties.thy ===== *)
theory Resolver_Properties
  imports Resolver_Facts Store_Demo
begin

unbundle bit_operations_syntax

text \<open>What a resolver promises, and its run on the demonstration capsule.\<close>

text \<open>
  C39. Whatever a client asks of a resolver, and in whatever order: no object is handed out twice, each one that was
  is an object the capsule refers to under its name, of a kind the grant allows and no larger than it allows, the
  bytes and the resolutions are counted exactly and stay within the quotas, and the end of the resolver succeeds
  exactly when all nine are resolved, with objects that encode to the capsule: it never finds them changed.
\<close>

theorem resolver_exact:
  assumes "resolver_runs g wire s"
  shows "distinct (map fst (rs_resolved s))
    \<and> (\<forall>(name, ob) \<in> set (rs_resolved s). \<exists>i < 9. OBJECT_NAMES ! i = name
         \<and> make_object_ref (int i) ob = Inr (cm_refs (rs_decoded s) ! i)
         \<and> rg_allowed_kind_mask g AND 2 ^ i \<noteq> 0 \<and> int (length (snd ob)) \<le> rg_max_object_bytes g)
    \<and> rs_resolved_bytes s = sum_list (map (\<lambda>(_, _, payload). int (length payload)) (rs_resolved s))
    \<and> rs_resolved_bytes s \<le> rg_max_total_bytes g
    \<and> rs_resolution_count s = int (length (rs_resolved s)) \<and> rs_resolution_count s \<le> rg_max_resolutions g
    \<and> finish_full s =
        (if rs_finalized s then (Inl RsFinalized, s)
         else if rg_allowed_kind_mask g = FULL_OBJECT_MASK \<and> rs_resolved_mask s = FULL_OBJECT_MASK
             \<and> rs_resolution_count s = 9
         then (Inr (rs_resolved s), s\<lparr>rs_finalized := True\<rparr>) else (Inl RsIncomplete, s))
    \<and> (rs_resolved_mask s = FULL_OBJECT_MASK \<longrightarrow>
        capsule_encode (cm_config (rs_decoded s)) (rs_resolved s) = Inr wire)"
proof -
  have ok: "resolver_ok g wire s" using assms by (rule resolver_runs_ok)
  have held: "\<exists>i < 9. OBJECT_NAMES ! i = name \<and> make_object_ref (int i) ob = Inr (cm_refs (rs_decoded s) ! i)
      \<and> rg_allowed_kind_mask g AND 2 ^ i \<noteq> 0 \<and> int (length (snd ob)) \<le> rg_max_object_bytes g"
    if "(name, ob) \<in> set (rs_resolved s)" for name ob
    using ok that unfolding resolver_ok_def object_at_def by fast
  have "rs_resolved_mask s = FULL_OBJECT_MASK \<longrightarrow>
      capsule_encode (cm_config (rs_decoded s)) (rs_resolved s) = Inr wire"
    using resolved_capsule(2) [OF ok] by blast
  moreover note finish_exact [OF ok]
  moreover have "\<forall>(name, ob) \<in> set (rs_resolved s). \<exists>i < 9. OBJECT_NAMES ! i = name
      \<and> make_object_ref (int i) ob = Inr (cm_refs (rs_decoded s) ! i)
      \<and> rg_allowed_kind_mask g AND 2 ^ i \<noteq> 0 \<and> int (length (snd ob)) \<le> rg_max_object_bytes g"
    using held by blast
  ultimately show ?thesis using ok unfolding resolver_ok_def by blast
qed

text \<open>
  C40. The catalog of the objects of a capsule serves a resolver whose grant allows all kinds and enough bytes: each
  of the nine names resolves to the payload of its object and the end returns all the objects.
\<close>

theorem resolver_delivers:
  assumes "capsule_decode_and_verify wire c objects = Inr d"
    and "new_resolver g epoch wire catalog = Inr s"
    and "build_catalog objects (rg_tenant_scope_sha256 g) = Inr catalog"
    and "rg_allowed_kind_mask g = FULL_OBJECT_MASK"
    and "\<forall>r \<in> set (cm_refs d). or_byte_length r \<le> rg_max_object_bytes g"
    and "sum_list (map or_byte_length (cm_refs d)) \<le> rg_max_total_bytes g"
  shows "\<exists>t u. resolve_names OBJECT_NAMES s = (Inr (map (\<lambda>n. snd (the (map_of objects n))) OBJECT_NAMES), t)
    \<and> finish_full t = (Inr (map (\<lambda>n. (n, the (map_of objects n))) OBJECT_NAMES), u) \<and> rs_finalized u"
  using delivered [OF assms] by fastforce

section \<open>The demonstration\<close>

definition the_resolver_grant :: resolver_grant where
  "the_resolver_grant = demo_resolver_grant (cc_request_epoch demo_capsule_config) demo_capsule_wire demo_objects"

lemma demo_total: "sum_list (map (\<lambda>(_, _, payload). int (length payload)) demo_objects)
    = sum_list (map or_byte_length demo_refs)"
  by (simp add: demo_objects_def demo_refs_def)

lemma demo_largest: "\<forall>r \<in> set demo_refs. or_byte_length r \<le> 64"
  by (simp add: demo_refs_def)

lemma demo_envelope: "drop (length demo_capsule_wire - 32) demo_capsule_wire = dg_capsule"
  using demo_last32 by (simp add: last32_def)

lemma replicate_filled: "replicate 32 b = filled b"
  by (simp add: filled_def)

lemma resolver_demo_valid: "validate_resolver_grant the_resolver_grant = Inr ()"
  by (simp add: validate_resolver_grant_def the_resolver_grant_def demo_resolver_grant_def demo_envelope resolver_u64_def
      resolver_digest_def replicate_filled full_count object_names_length guardE_def demo_total demo_refs_def demo_capsule_config_def)

lemma resolver_demo_root: "\<exists>root. resolver_grant_root the_resolver_grant = Inr root"
  by (simp add: resolver_grant_root_def resolver_demo_valid)
     (simp add: the_resolver_grant_def demo_resolver_grant_def resolver_u64_def object_names_length demo_total demo_refs_def
      demo_capsule_config_def)

lemma mapE_defined: "(\<And>x. x \<in> set xs \<Longrightarrow> \<exists>y. f x = Inr y) \<Longrightarrow> \<exists>ys. mapE f xs = Inr ys"
proof (induction xs)
  case (Cons x xs)
  then obtain y ys where "f x = Inr y" "mapE f xs = Inr ys" by (metis list.set_intros)
  then show ?case by simp
qed simp

lemma demo_catalog: "\<exists>catalog. build_catalog demo_objects (replicate 32 0x5C) = Inr catalog \<and> length catalog = 9"
proof -
  have "\<exists>catalog. build_catalog demo_objects (replicate 32 0x5C) = Inr catalog"
    unfolding build_catalog_def
    by (rule mapE_defined) (use object_refs_Inr(2) [OF demo_refs_made] in
      \<open>auto simp: in_set_enumerate_eq object_names_length Let_def\<close>)
  then show ?thesis using catalog_nth(1) by blast
qed

lemma demo_resolver: "\<exists>catalog s. build_catalog demo_objects (replicate 32 0x5C) = Inr catalog
    \<and> new_resolver the_resolver_grant 7 demo_capsule_wire catalog = Inr s"
proof -
  obtain catalog where c: "build_catalog demo_objects (replicate 32 0x5C) = Inr catalog" "length catalog = 9"
    using demo_catalog by blast
  have g: "rg_authority_epoch the_resolver_grant = 7" "rg_max_catalog_entries the_resolver_grant = 16"
    "rg_capsule_sha256 the_resolver_grant = dg_capsule"
    "rg_request_epoch the_resolver_grant = cc_request_epoch demo_capsule_config"
    by (simp_all add: the_resolver_grant_def demo_resolver_grant_def demo_envelope)
  obtain root where "resolver_grant_root the_resolver_grant = Inr root" using resolver_demo_root by blast
  then show ?thesis using c
    by (simp add: new_resolver_def resolver_demo_valid demo_capsule_decodes g guardE_def demo_capsule_def)
qed

lemma resolver_delivers_witness:
  "\<exists>catalog s t u. new_resolver the_resolver_grant 7 demo_capsule_wire catalog = Inr s
     \<and> resolve_names OBJECT_NAMES s = (Inr (map (\<lambda>n. snd (the (map_of demo_objects n))) OBJECT_NAMES), t)
     \<and> finish_full t = (Inr (map (\<lambda>n. (n, the (map_of demo_objects n))) OBJECT_NAMES), u) \<and> rs_finalized u"
proof -
  have g: "rg_tenant_scope_sha256 the_resolver_grant = replicate 32 0x5C" "rg_max_object_bytes the_resolver_grant = 64"
    "rg_allowed_kind_mask the_resolver_grant = FULL_OBJECT_MASK"
    "rg_max_total_bytes the_resolver_grant = sum_list (map or_byte_length demo_refs)"
    by (simp_all add: the_resolver_grant_def demo_resolver_grant_def demo_total)
  have refs: "cm_refs demo_capsule = demo_refs" by (simp add: demo_capsule_def)
  obtain catalog s where c: "build_catalog demo_objects (rg_tenant_scope_sha256 the_resolver_grant) = Inr catalog"
    "new_resolver the_resolver_grant 7 demo_capsule_wire catalog = Inr s"
    using demo_resolver g(1) by auto
  have "\<exists>t u. resolve_names OBJECT_NAMES s = (Inr (map (\<lambda>n. snd (the (map_of demo_objects n))) OBJECT_NAMES), t)
      \<and> finish_full t = (Inr (map (\<lambda>n. (n, the (map_of demo_objects n))) OBJECT_NAMES), u) \<and> rs_finalized u"
    by (rule resolver_delivers [OF demo_capsule_verifies c(2,1) g(3)]) (use demo_largest in \<open>simp_all add: g refs\<close>)
  then show ?thesis using c(2) by blast
qed

lemma resolver_exact_witness:
  "\<exists>s. resolver_runs the_resolver_grant demo_capsule_wire s \<and> distinct (map fst (rs_resolved s))
     \<and> rs_resolved_bytes s \<le> 280 \<and> fst (finish_full s) = Inl RsIncomplete"
proof -
  obtain catalog s where s: "new_resolver the_resolver_grant 7 demo_capsule_wire catalog = Inr s"
    using demo_resolver by blast
  have run: "resolver_runs the_resolver_grant demo_capsule_wire s" by (rule resolver_new [OF s])
  have total: "rg_max_total_bytes the_resolver_grant = 280"
    by (simp add: the_resolver_grant_def demo_resolver_grant_def demo_total demo_refs_def)
  have new: "rs_resolved_mask s = 0" "\<not> rs_finalized s"
    using s by (auto simp: new_resolver_def bindE_Inr guardE_Inr)
  show ?thesis using resolver_exact [OF run] run total new by (intro exI [of _ s]) simp
qed

end
