(* ===== verification/Spec2Isabelle.thy ===== *)
theory Spec2Isabelle
  imports Outbox_Properties Pressure_Properties Device_Properties Store_Properties Sweep_Properties
    Payload_Properties Resolver_Properties
begin

text \<open>
  A verification of the core state machines and wire formats of the Glacier engine's independent
  Python oracles (\<open>src/bench/\<close>).

  The engine is a Zig program; each of its contracts has an oracle in Python, written independently of
  the engine, that states the contract in full: its state machine, its canonical wire, its digests and
  its errors. The oracles share nothing but a way of writing: a value is a \<open>dict\<close> with a fixed key set,
  an integer is checked to fit 64 bits, an encoding is a concatenation of little-endian fields, and a
  digest is SHA-256 over a domain string and the encoded fields. The oracles modelled, with nothing
  assumed of them, are these:

  \<open>bench/action_outbox_conformance.py\<close>, the ActionOutbox: a journal of the actions an agent takes on
  a remote service. An action is enqueued, dispatched (from then on its effect is in doubt), observed, and
  perhaps compensated. \<open>recover\<close> replays the bytes of a journal into the states of its actions and a
  ledger; \<open>make_closed_anchor\<close> seals a journal in which nothing is in doubt.

  \<open>bench/workload_pressure.py\<close>, the workload pressure oracle: the replay of a scenario of media
  requests under resource limits, with an interleaved weighted round robin scheduler, cancellation,
  deadlines and failures, and the summary, trace and digests of its result.

  \<open>bench/device_allocation_lease.py\<close>, the device allocation lease: a request composed from
  authorities, quotes and receipts, the reference backend that allocates and frees, and the coordinator
  that admits, materializes, releases and recovers a lease.

  \<open>bench/continuation_capsule.py\<close>, \<open>bench/continuation_bundle.py\<close> and
  \<open>bench/continuation_object_store.py\<close>, the continuation objects: the capsule names the objects of a
  suspended computation, the bundle ties a capsule to tenant-scoped blobs, and the store keeps the blobs,
  with reference counts, leases, quarantine, repair, retirement and the import of a bundle.

  \<open>bench/continuation_object_collection.py\<close>, \<open>bench/continuation_object_sweep.py\<close>,
  \<open>bench/continuation_object_sweep_record.py\<close> and \<open>bench/continuation_object_sweep_writer.py\<close>, the sweep
  of the retired objects: a collection plans it from the roots and leases that the caller presents, a
  journal prepares it, the commit frees the objects and its evidence becomes a record; a writer with
  leases and capabilities appends records to a storage that may crash, and a repairer cuts a torn one off.

  \<open>bench/continuation_object_payload_store.py\<close>, the canonical snapshots of the payloads of a store and the
  preview of a reclaim, and \<open>bench/continuation_object_resolver.py\<close>, the resolver that hands the objects of
  a capsule out under the quotas of a grant.
\<close>

section \<open>The theories\<close>

text \<open>
  Shared. \<open>Prelude\<close>: results with errors (\<open>bindE\<close> sequences what the code writes as statements that
  may raise), byte strings, 64-bit integers. \<open>Sha256\<close>: the hash function of \<open>hashlib.sha256\<close>, bit by
  bit; the components use one law of it, the locale \<open>digest_function\<close>. \<open>Sha256_Eval\<close>: an evaluator for
  it inside the kernel, proved equal to it. \<open>Framed_Log\<close>: replaying a log of fixed-size frames.
  \<open>Resource_Account\<close>: what charging and refunding slots does to a total. \<open>Wire_Reader\<close>: the cursor
  of the continuation decoders and its contract with the bytes written.

  ActionOutbox. \<open>Outbox_Wire\<close> (header, identity, record: validation, digests, encoders, decoders),
  \<open>Outbox_Codec\<close> (the wire theorems), \<open>Outbox_Journal\<close> (\<open>apply_record\<close> and its three kinds,
  \<open>finalize_ledger\<close>, \<open>recover\<close>, the closed anchor), \<open>Outbox_Lifecycle\<close> (the abstract step relation
  \<open>life_step\<close> of one action and the proof that replaying a record is one step of it),
  \<open>Outbox_Invariants\<close>, \<open>Outbox_Recovery\<close>, \<open>Outbox_Append\<close>, \<open>Outbox_Demo\<close> (concrete journals),
  \<open>Outbox_Properties\<close>.

  Workload pressure. \<open>Pressure_Wire\<close> (scenarios), \<open>Pressure_Scheduler\<close> (\<open>_select_iwrr\<close>,
  \<open>_projection_rejection\<close>), \<open>Pressure_Replay\<close> (\<open>replay_scenario\<close> step by step), \<open>Pressure_Result\<close>
  (outcomes, summary, digests, \<open>validate_result\<close>), \<open>Pressure_Iwrr\<close>, \<open>Pressure_Invariants\<close>,
  \<open>Pressure_World\<close>, \<open>Pressure_Driver\<close> (the invariant of a replay and its errors),
  \<open>Pressure_Properties\<close>.

  Device lease. \<open>Device_Wire\<close>, \<open>Device_Request\<close>, \<open>Device_Lease\<close> (the values, from quotes to terminal
  receipts), \<open>Device_Backend\<close> (\<open>ReferenceFakeBackend\<close>), \<open>Device_Coordinator\<close>
  (\<open>ReferenceCoordinator\<close>), \<open>Device_Facts\<close>, \<open>Device_Invariants\<close>, \<open>Device_Lifecycle\<close>,
  \<open>Device_Outcomes\<close> (invariants of the reachable states and what the calls return), \<open>Device_Fixture\<close>
  and \<open>Device_Campaign\<close> (the campaign of the repository's tests, evaluated), \<open>Device_Properties\<close>.

  Continuation objects. \<open>Capsule\<close>, \<open>Bundle\<close> and \<open>Bundle_Facts\<close> (the two wires), \<open>Store_Grant\<close> (the
  values around the store), \<open>Store_Core\<close> and \<open>Store_Admin\<close> (the methods of \<open>Store\<close>), \<open>Store_Facts\<close>,
  \<open>Store_Invariants\<close>, \<open>Store_Audit\<close>, \<open>Store_Import\<close>, \<open>Store_Commit\<close>, \<open>Store_Run\<close> (well-formedness,
  kept by every method, and what follows from it), \<open>Store_Demo\<close> and \<open>Store_Scenario\<close> (the demonstration
  of the three modules, evaluated), \<open>Store_Properties\<close>.

  Sweep. \<open>Collection\<close> (\<open>plan_collection\<close> and the roots it hashes) and \<open>Collection_Facts\<close>; \<open>Sweep\<close>
  (\<open>prepare\<close>, \<open>abort\<close>, \<open>preview_commit\<close>, \<open>commit\<close> and what they verify) and \<open>Sweep_Facts\<close>;
  \<open>Sweep_Record\<close> (the record, its decoder, \<open>classify_recovery\<close>), \<open>Sweep_Codec\<close> (its wire theorem, from
  the fields up) and \<open>Sweep_Recovery\<close> (chains of records and their classification); \<open>Sweep_Writer\<close>
  (\<open>DeterministicStorage\<close>, \<open>Lease\<close>, the two capabilities, \<open>Writer\<close> and \<open>Repairer\<close>), \<open>Sweep_Crash\<close>
  (what a call does to the bytes), \<open>Sweep_Protocol\<close> (where a writer stands and what the device holds),
  \<open>Sweep_Safety\<close> (the runs \<open>reaches\<close> and their invariant), \<open>Sweep_Session\<close> (the documented procedures
  of a caller) and \<open>Sweep_Unsettled\<close> (what goes wrong when a writer is opened over an unsynced truncate);
  \<open>Sweep_Scenario\<close> and \<open>Sweep_Record_Scenario\<close> (a sweep of the demonstration store and two records of
  it, evaluated), \<open>Sweep_Properties\<close>.

  Payload snapshots. \<open>Payload_Store\<close> (\<open>encode_snapshot\<close>, \<open>decode_snapshot\<close>, \<open>preview_reclaim\<close>),
  \<open>Payload_Facts\<close> (the layout of the wire and what a reclaim leaves), \<open>Payload_Properties\<close>.

  Resolver. \<open>Resolver\<close> (\<open>Resolver\<close> and its catalog, the runs \<open>resolver_runs\<close> and their invariant),
  \<open>Resolver_Facts\<close> (its end, and a full resolution), \<open>Resolver_Properties\<close>.
\<close>

section \<open>How the model reads the code\<close>

text \<open>
  A \<open>dict\<close> or a dataclass is a record, an \<open>Enum\<close> a datatype, bytes are a list of 8-bit words, and an
  integer is an \<open>int\<close> with the code's range check written out. An exception is a value: \<open>Inl\<close> of a
  datatype with one constructor per message of the module. A method that changes its object is a function
  from the state to a result and the new state, and an exception keeps what was assigned before it;
  \<open>store\<close>, \<open>backend\<close> and \<open>coordinator\<close> are those states. A local variable that a loop updates is an
  argument of the recursion; the local variables of the replay are the record \<open>world\<close>. A check that the
  key set or the Python type of a value is right holds by the types of the model, and has no branch.

  The objects of the sweep writer share one storage by reference. The storage is the state of their methods;
  a method that changes its own object too has the pair as its state. The content of the storage that a
  crash may leave is what \<open>crash_bounds\<close> admits: any length between the live and the synced one, over
  bytes that stay where they were written.

  Loops. \<open>recover\<close> consumes one frame per turn and recurses on the bytes left. The round robin scan has
  the code's own bound, the number of slots times the largest weight, and is shown never to reach it. The
  driver of a replay stops after \<open>max_driver_steps\<close> steps with an error, as the code does. Everything
  else recurses on a list.

  Concrete inputs. The witnesses evaluate the definitions on the repository's own demonstrations, SHA-256
  included, by simplification with \<open>Sha256_Eval\<close>: the roots they reach are those that the tests of the
  repository compare with the engine.
\<close>

section \<open>What the theorems show\<close>

text \<open>
  ActionOutbox: each codec accepts exactly its own encodings; every action of a recovered journal went
  through a path of the abstract lifecycle, so that no attempt is dispatched while another is in doubt, a
  terminal state stays, and a compensation rests on a success and happens once; the ledger counts the
  records and accounts for every state; a journal cut short recovers to its whole records; appending an
  applicable record extends a recovery by it; a closed anchor means that nothing is in doubt.

  Workload pressure: the scheduler always returns a slot, and bounds the wait of each; the driver loop of a
  validated scenario raises for three reasons only; when it ends every claim is returned, no limit was ever
  exceeded, and the summary counts the outcomes; \<open>validate_result\<close> accepts exactly the replay's result.

  Device lease: on every reachable state the bytes in use are those of the registered objects; whatever calls
  return or raise, they are never more than requested, and a lease has exactly the bytes charged until its
  release; a release that cannot free an object returns a ticket for what is left, and its retry ends the
  lease; the values the coordinator holds are sealed. A materialization that raises frees nothing, and the
  cancellation of its admission leaves its objects registered: that history is the one exception, and is
  stated as such.

  Continuation objects: a bundle reads back, with each distinct payload counted once; the books of a store
  always balance, so an audit fails only where a payload was corrupted; an import that fails in its loop
  changes nothing; what was put is what is read; a commit frees what its preview described; a renewed lease
  makes the receipt it replaces stale.

  Sweep: a plan is returned only when the roots and leases presented are exactly those the store counts, and
  then names every object's class; a commit frees the retired objects and no others, and needs the snapshot its journal was prepared for; a
  record decodes exactly when it is what the encoder writes; a stream of records cut anywhere is classified
  as the whole records and a tail. In every run of leases, faults, writer, repairs and crashes, a crash
  leaves a stream that is never corrupt and holds every record whose append returned, and the documented
  procedure opens it again, provided no writer is opened while a truncate is unsynced. Without that
  condition, which the code does not check, the same calls reach a stream that is corrupt for good.

  Payload snapshots and resolver: a snapshot decodes exactly when it encodes its own entries, and a reclaim
  leaves the entries that are not its targets; a resolver never exceeds its quotas, its end never finds an
  object changed, and the catalog of a verified capsule serves every object of it.
\<close>

section \<open>Not modelled\<close>

text \<open>
  Of the oracles above: the command line, the JSON reports and the reference campaign of the ActionOutbox,
  and the text of the messages. Of the repository: the other oracles of \<open>src/bench/\<close>, most of them
  wires and demonstrations of the same kind; the campaigns and benchmark harnesses, which run programs and
  read clocks; and the engine itself, which is not Python.
\<close>

end
